(* ===== verification/Prelude.thy ===== *)
theory Prelude
  imports Complex_Main
begin

text \<open>
  What every component shares: the Go errors as a datatype, the result type
  \<open>err + 'a\<close> with its bind, Go maps as HOL maps with the zero value of a missing
  key, the case-insensitive string comparison of the standard library, and the
  lemmas on lists, sums over accounts and results that the component proofs use.
\<close>

section \<open>Errors\<close>

text \<open>
  The sentinel errors of \<open>internal/common/errors.go\<close>, in the order of that file.  Two
  sentinels with the same text are different values in Go (their identity is the
  pointer \<open>errors.New\<close> returns), so each is a constructor of its own.
\<close>

datatype (plugins only: code) sentinel =
    ErrNoRowsAffected | ErrValidation | ErrPositionInvalid | ErrDataNotFound
  | ErrInternalServerError | ErrInvalidFormatDate | ErrDataTrxNotFound | ErrDataTrxDuplicate
  | ErrIDEmpty | ErrDataExist | ErrUnableToCreate | ErrUnableToUpdate | ErrUnableToRecon
  | ErrFilePathEmpty | ErrOrderAlreadyExists | ErrOrderContainExcludeInsertDB
  | ErrInvalidAmount | ErrInsufficientAvailableBalance | ErrInsufficientPendingBalance
  | ErrTransactionNotReserved | ErrInvalidFingerprint | ErrRequestBeingProcessed
  | ErrMissingIdempotencyKey | ErrInvalidPreset | ErrMaxBalanceExceeded | ErrInvalidOrderType
  | ErrInvalidTransactionType | ErrInvalidStatus | ErrUnableGetTransformer
  | ErrUnsupportedReservedTransactionFlow | ErrFailedToCreateNotificationPayload
  | ErrInvalidAccountNumber | ErrNegativeBalanceReached | ErrMissingDescription
  | ErrMissingEntityFromAccount | ErrMissingEntityFromMetadata
  | ErrMissingDisbursementDateFromMetadata | ErrMissingVirtualAccountPointFromMetadata
  | ErrMissingCustomerNumberFromMetadata | ErrMissingAgreementNumberFromMetadata
  | ErrMissingRepaymentDateFromMetadata | ErrMissingPartnerPPOBFromMetadata
  | ErrMissingLoanAccountNumberFromMetadata | ErrMissingOldLoanAccountNumberFromMetadata
  | ErrMissingNewLoanAccountNumberFromMetadata
  | ErrNewEntityLoanAccountNumberFromMetadataNotFound
  | ErrOldEntityLoanAccountNumberFromMetadataNotFound
  | ErrMissingLoanTypeFromMetadata | ErrMissingDebitFromMetadata | ErrMissingCreditFromMetadata
  | ErrInvalidLoanIdsTypeMetadata | ErrMissingLoanIdsFromMetadata
  | ErrConfigAccountNumberNotFound | ErrAccountNumberNotFoundInAccounting
  | ErrInvestedAccountNumberNotFound | ErrReceivableAccountNumberNotFound
  | ErrLoanAdvanceAccountNumberNotFound | ErrMissingDestinationAccountNumber
  | ErrRowLimitDownloadExceed | ErrNoRows | ErrUnsupportedDescription
  | ErrMissingProductTypeFromMetadata | ErrCSVRowIsEmpty | ErrAccountNotExists
  | ErrMissingWalletTransactionIdFromMetadata | ErrrefNumberNotFound
  | ErrUnsupportedTransactionFlow | ErrInvalidRefundData
  | ErrRefundAmountHigherThanOriginalAmount

text \<open>
  An error value: a sentinel, \<open>fmt.Errorf\<close> with a \<open>%w\<close> verb (the wrapped error and the
  text added to it), \<open>fmt.Errorf\<close> without one, a \<open>multierror.Error\<close>, or an
  error that comes from code outside the repository.  \<open>Panic\<close> is no error of Go: it
  is the run-time panic that unwinds the calling functions.
\<close>

datatype (plugins only: code size) err =
    Sentinel sentinel
  | Wrapped err string
  | ErrorMsg string
  | MultiErr "err list"
  | External string
  | Panic

text \<open>\<open>errors.Is\<close>: walks the wrapping chain, and every element of a \<open>multierror\<close>.\<close>

fun errors_Is :: "err \<Rightarrow> sentinel \<Rightarrow> bool" where
  "errors_Is (Sentinel s) t = (s = t)"
| "errors_Is (Wrapped e _) t = errors_Is e t"
| "errors_Is (MultiErr es) t = list_ex (\<lambda>e. errors_Is e t) es"
| "errors_Is (ErrorMsg _) t = False"
| "errors_Is (External _) t = False"
| "errors_Is Panic t = False"

section \<open>Results\<close>

type_synonym 'a result = "err + 'a"

abbreviation Ok :: "'a \<Rightarrow> 'a result" where
  "Ok x \<equiv> Inr x"

abbreviation Err :: "err \<Rightarrow> 'a result" where
  "Err e \<equiv> Inl e"

text \<open>\<open>if err != nil { return err }\<close>\<close>

fun rbind :: "'a result \<Rightarrow> ('a \<Rightarrow> 'b result) \<Rightarrow> 'b result" where
  "rbind (Inl e) f = Inl e"
| "rbind (Inr x) f = f x"

fun isOk :: "'a result \<Rightarrow> bool" where
  "isOk (Inr _) = True"
| "isOk (Inl _) = False"

lemma rbind_Ok_iff: "rbind m f = Inr y \<longleftrightarrow> (\<exists>x. m = Inr x \<and> f x = Inr y)"
  by (cases m) auto

lemma rbind_Err_iff:
  "rbind m f = Inl e \<longleftrightarrow> m = Inl e \<or> (\<exists>x. m = Inr x \<and> f x = Inl e)"
  by (cases m) auto

lemma rbind_assoc: "rbind (rbind m f) g = rbind m (\<lambda>x. rbind (f x) g)"
  by (cases m) auto

lemma rbind_Ok_right [simp]: "rbind m Inr = m"
  by (cases m) auto

lemma isOk_iff: "isOk r \<longleftrightarrow> (\<exists>x. r = Inr x)"
  by (cases r) auto

section \<open>Effects\<close>

text \<open>
  Code that reads and writes a state and may fail: after a failure the state is
  what the code had made of it.  The transformers thread the shared metadata this way, the
  repositories the database.
\<close>

type_synonym ('s, 'a) exec = "'s \<Rightarrow> 'a result \<times> 's"

definition return :: "'a \<Rightarrow> ('s, 'a) exec" where
  "return x s = (Ok x, s)"

definition fail :: "err \<Rightarrow> ('s, 'a) exec" where
  "fail e s = (Err e, s)"

text \<open>A call that may fail and does not touch the state.\<close>

definition call :: "'a result \<Rightarrow> ('s, 'a) exec" where
  "call r s = (r, s)"

definition bind :: "('s, 'a) exec \<Rightarrow> ('a \<Rightarrow> ('s, 'b) exec) \<Rightarrow> ('s, 'b) exec" where
  "bind m f s = (case m s of (Inl e, s') \<Rightarrow> (Inl e, s') | (Inr x, s') \<Rightarrow> f x s')"

text \<open>\<open>if condition { return nil, err }\<close>, then the rest.\<close>

definition failWhen :: "bool \<Rightarrow> err \<Rightarrow> ('s, 'a) exec \<Rightarrow> ('s, 'a) exec" where
  "failWhen condition e rest = (if condition then fail e else rest)"

lemma bind_Ok_iff:
  "bind m f s = (Inr y, s') \<longleftrightarrow> (\<exists>x t. m s = (Inr x, t) \<and> f x t = (Inr y, s'))"
  by (auto simp: bind_def split: prod.splits sum.splits)

lemma exec_simps:
  "return x s = (Inr x, s)" "fail e s = (Inl e, s)" "call r s = (r, s)"
  by (simp_all add: return_def fail_def call_def)

text \<open>A loop that builds a result for every element and stops at the first error.\<close>

fun traverse :: "('a \<Rightarrow> 'b result) \<Rightarrow> 'a list \<Rightarrow> 'b list result" where
  "traverse f [] = Ok []"
| "traverse f (x # xs) = rbind (f x) (\<lambda>y. rbind (traverse f xs) (\<lambda>ys. Ok (y # ys)))"

lemma traverse_Ok_iff: "traverse f xs = Inr ys \<longleftrightarrow> list_all2 (\<lambda>x y. f x = Inr y) xs ys"
  by (induction xs arbitrary: ys) (auto simp: rbind_Ok_iff list_all2_Cons1)

lemma traverse_member:
  "traverse f xs = Inr ys \<Longrightarrow> y \<in> set ys \<Longrightarrow> \<exists>x\<in>set xs. f x = Inr y"
  by (induction xs arbitrary: ys) (auto simp: rbind_Ok_iff)

text \<open>
  The errors a \<open>multierror\<close> collects; \<open>ErrorOrNil\<close> of an empty one is nil.
\<close>

definition ErrorOrNil :: "err list \<Rightarrow> err option" where
  "ErrorOrNil errs = (if errs = [] then None else Some (MultiErr errs))"

definition failIf :: "err option \<Rightarrow> unit result" where
  "failIf e = (case e of None \<Rightarrow> Ok () | Some e \<Rightarrow> Err e)"

lemma failIf_Ok_iff [simp]: "failIf e = Inr u \<longleftrightarrow> e = None"
  by (auto simp: failIf_def split: option.splits)

section \<open>Go maps and strings\<close>

text \<open>\<open>m[k]\<close> on a \<open>map[string]string\<close>: the zero value when the key is missing.\<close>

definition strIndex :: "(string \<rightharpoonup> string) \<Rightarrow> string \<Rightarrow> string" where
  "strIndex m k = (case m k of None \<Rightarrow> '''' | Some v \<Rightarrow> v)"

text \<open>
  \<open>strings.EqualFold\<close> and \<open>strings.ToUpper\<close> on ASCII text: letters are compared by
  their lower-case form.  The account configuration keys they are used on
  are ASCII.
\<close>

definition toLowerAscii :: "char \<Rightarrow> char" where
  "toLowerAscii c =
     (let n = (of_char c :: nat) in if 65 \<le> n \<and> n \<le> 90 then char_of (n + 32) else c)"

definition EqualFold :: "string \<Rightarrow> string \<Rightarrow> bool" where
  "EqualFold s t = (map toLowerAscii s = map toLowerAscii t)"

lemma EqualFold_refl [simp]: "EqualFold s s"
  by (simp add: EqualFold_def)

lemma EqualFold_sym: "EqualFold s t \<Longrightarrow> EqualFold t s"
  by (simp add: EqualFold_def)

lemma EqualFold_trans: "EqualFold s t \<Longrightarrow> EqualFold t u \<Longrightarrow> EqualFold s u"
  by (simp add: EqualFold_def)

section \<open>Lists and sums\<close>

text \<open>Changing a function at one point of a finite set changes the sum by the difference there.\<close>

lemma sum_fun_upd:
  fixes f :: "'k \<Rightarrow> 'd::ab_group_add"
  assumes "finite A" and "k \<in> A"
  shows "(\<Sum>a\<in>A. if a = k then v else f a) = (\<Sum>a\<in>A. f a) - f k + v"
proof -
  have A: "A = insert k (A - {k})"
    using assms by blast
  have "(\<Sum>a\<in>A. if a = k then v else f a) = v + (\<Sum>a\<in>A - {k}. f a)"
    using assms by (subst A, subst sum.insert) (auto intro: sum.cong)
  moreover have "(\<Sum>a\<in>A. f a) = f k + (\<Sum>a\<in>A - {k}. f a)"
    using assms by (rule sum.remove)
  ultimately show ?thesis by simp
qed

lemma sum_list_map_add:
  "sum_list (map (\<lambda>x. f x + g x) xs) = sum_list (map f xs) + (sum_list (map g xs) :: 'd::comm_monoid_add)"
  by (induction xs) (auto simp: algebra_simps)

lemma foldl_append_map: "foldl (\<lambda>acc x. acc @ [f x]) acc xs = acc @ map f xs"
  by (induction xs arbitrary: acc) auto

lemma sum_list_member_le:
  fixes f :: "'a \<Rightarrow> 'd::linordered_idom"
  assumes "x \<in> set xs" and "\<forall>y\<in>set xs. 0 \<le> f y"
  shows "f x \<le> sum_list (map f xs)"
  using assms
proof (induction xs)
  case (Cons y ys)
  moreover have "0 \<le> sum_list (map f ys)"
    using Cons.prems(2) by (intro sum_list_nonneg) auto
  ultimately show ?case by (auto intro: add_increasing)
qed simp

text \<open>A loop that only adds to an accumulator computes the sum.\<close>

lemma foldl_add_sum: "foldl (\<lambda>acc x. acc + f x) (a :: 'd::comm_monoid_add) xs = a + sum_list (map f xs)"
  by (induction xs arbitrary: a) (auto simp: algebra_simps)

end
