(* ===== verification/Balance.thy ===== *)
theory Balance
  imports Prelude
begin

text \<open>
  The account balance of \<open>internal/models/balance.go\<close> and the options of
  \<open>balance_option.go\<close>: the record with its private fields, the constructor and the
  five operations that change it, with the checks that guard them.  The lemmas
  characterise when each operation succeeds and what it leaves, and show that
  the sufficiency checks keep the available balance above its floor, that a reservation can be
  cancelled or committed without residue, and that a limited account stays under
  its maximum.  Amounts range over an ordered domain: the decimal library adds,
  subtracts and compares exactly.
\<close>

section \<open>The balance record\<close>

text \<open>\<open>decimal.NullDecimal\<close> is an option; \<open>time.Time\<close> is an instant in nanoseconds.\<close>

record 'd Balance =
  actualBalance :: 'd
  pendingBalance :: 'd
  version :: int
  lastUpdatedAt :: int
  ignoreBalanceSufficiency :: bool
  isHVT :: bool
  isSkipBalanceUpdateOnDB :: bool
  isBalanceLimitEnabled :: bool
  negativeBalanceLimit :: "'d option"
  allowedNegativeBalanceTransactionTypes :: "string list"
  balanceRangeMax :: "'d option"

type_synonym 'd BalanceOption = "'d Balance \<Rightarrow> 'd Balance"

definition WithIgnoreBalanceSufficiency :: "'d BalanceOption" where
  "WithIgnoreBalanceSufficiency c = c\<lparr>ignoreBalanceSufficiency := True\<rparr>"

definition WithAllowedNegativeBalanceTransactionTypes :: "string list \<Rightarrow> 'd BalanceOption" where
  "WithAllowedNegativeBalanceTransactionTypes tys c =
     c\<lparr>allowedNegativeBalanceTransactionTypes := tys\<rparr>"

definition WithNegativeBalanceLimit :: "'d \<Rightarrow> 'd BalanceOption" where
  "WithNegativeBalanceLimit l c = c\<lparr>negativeBalanceLimit := Some l\<rparr>"

definition WithHVT :: "'d BalanceOption" where
  "WithHVT c = c\<lparr>isHVT := True\<rparr>"

definition WithVersion :: "int \<Rightarrow> 'd BalanceOption" where
  "WithVersion v c = c\<lparr>version := v\<rparr>"

definition WithLastUpdatedAt :: "int \<Rightarrow> 'd BalanceOption" where
  "WithLastUpdatedAt t c = c\<lparr>lastUpdatedAt := t\<rparr>"

definition WithSkipBalanceUpdateOnDB :: "'d BalanceOption" where
  "WithSkipBalanceUpdateOnDB c = c\<lparr>isSkipBalanceUpdateOnDB := True\<rparr>"

definition WithBalanceLimitEnabled :: "bool \<Rightarrow> 'd BalanceOption" where
  "WithBalanceLimitEnabled b c = c\<lparr>isBalanceLimitEnabled := b\<rparr>"

definition WithBalanceRangeMax :: "'d \<Rightarrow> 'd BalanceOption" where
  "WithBalanceRangeMax m c = c\<lparr>balanceRangeMax := Some m\<rparr>"

definition NewBalance :: "'d \<Rightarrow> 'd \<Rightarrow> 'd BalanceOption list \<Rightarrow> 'd Balance" where
  "NewBalance actual pending options =
     foldl (\<lambda>b option. option b)
       \<lparr>actualBalance = actual, pendingBalance = pending, version = 0, lastUpdatedAt = 0,
        ignoreBalanceSufficiency = False, isHVT = False, isSkipBalanceUpdateOnDB = False,
        isBalanceLimitEnabled = False, negativeBalanceLimit = None,
        allowedNegativeBalanceTransactionTypes = [], balanceRangeMax = None\<rparr>
       options"

text \<open>\<open>calculateBalanceOption\<close> has one field, the transaction type; \<open>newCalculateBalanceOption\<close>
  applies the given options to the zero value.\<close>

record calculateBalanceOption =
  cbo_transactionType :: string

definition WithTransactionType :: "string \<Rightarrow> calculateBalanceOption \<Rightarrow> calculateBalanceOption" where
  "WithTransactionType ty c = c\<lparr>cbo_transactionType := ty\<rparr>"

definition newCalculateBalanceOption ::
  "(calculateBalanceOption \<Rightarrow> calculateBalanceOption) list \<Rightarrow> calculateBalanceOption" where
  "newCalculateBalanceOption options = foldl (\<lambda>c option. option c) \<lparr>cbo_transactionType = ''''\<rparr> options"

type_synonym calcOptions = "(calculateBalanceOption \<Rightarrow> calculateBalanceOption) list"

section \<open>Operations\<close>

definition Available :: "'d::linordered_idom Balance \<Rightarrow> 'd" where
  "Available b = actualBalance b - pendingBalance b"

definition Reserve ::
  "'d::linordered_idom Balance \<Rightarrow> 'd \<Rightarrow> calcOptions \<Rightarrow> 'd Balance result" where
  "Reserve b amount opt =
     (if amount \<le> 0 then Err (Sentinel ErrInvalidAmount)
      else
        let cbo = newCalculateBalanceOption opt;
            isTransactionTypeAllowedForNegativeBalance =
              cbo_transactionType cbo \<noteq> '''' \<and>
              cbo_transactionType cbo \<in> set (allowedNegativeBalanceTransactionTypes b);
            ok = Ok (b\<lparr>pendingBalance := pendingBalance b + amount\<rparr>)
        in if ignoreBalanceSufficiency b then ok
           else case (negativeBalanceLimit b, isTransactionTypeAllowedForNegativeBalance) of
                  (Some limit, True) \<Rightarrow>
                    if Available b - amount < 0 - limit
                    then Err (Sentinel ErrNegativeBalanceReached) else ok
                | _ \<Rightarrow>
                    if Available b < amount
                    then Err (Sentinel ErrInsufficientAvailableBalance) else ok)"

definition CancelReservation ::
  "'d::linordered_idom Balance \<Rightarrow> 'd \<Rightarrow> calcOptions \<Rightarrow> 'd Balance result" where
  "CancelReservation b amount opt =
     (if amount \<le> 0 then Err (Sentinel ErrInvalidAmount)
      else if \<not> ignoreBalanceSufficiency b \<and> pendingBalance b < amount
      then Err (Sentinel ErrInsufficientPendingBalance)
      else Ok (b\<lparr>pendingBalance := pendingBalance b - amount\<rparr>))"

definition Commit ::
  "'d::linordered_idom Balance \<Rightarrow> 'd \<Rightarrow> calcOptions \<Rightarrow> 'd Balance result" where
  "Commit b amount opt =
     (if amount \<le> 0 then Err (Sentinel ErrInvalidAmount)
      else if \<not> ignoreBalanceSufficiency b \<and> pendingBalance b < amount
      then Err (Sentinel ErrInsufficientPendingBalance)
      else Ok (b\<lparr>actualBalance := actualBalance b - amount,
                 pendingBalance := pendingBalance b - amount\<rparr>))"

definition AddFunds ::
  "'d::linordered_idom Balance \<Rightarrow> 'd \<Rightarrow> calcOptions \<Rightarrow> 'd Balance result" where
  "AddFunds b amount opt =
     (if amount \<le> 0 then Err (Sentinel ErrInvalidAmount)
      else
        let ok = Ok (b\<lparr>actualBalance := actualBalance b + amount\<rparr>)
        in case balanceRangeMax b of
             Some m \<Rightarrow>
               if m > 0 \<and> actualBalance b + amount > m \<and> isBalanceLimitEnabled b
               then Err (Sentinel ErrMaxBalanceExceeded) else ok
           | None \<Rightarrow> ok)"

definition Withdraw ::
  "'d::linordered_idom Balance \<Rightarrow> 'd \<Rightarrow> calcOptions \<Rightarrow> 'd Balance result" where
  "Withdraw b amount opt =
     (if amount \<le> 0 then Err (Sentinel ErrInvalidAmount)
      else
        let cbo = newCalculateBalanceOption opt;
            isTransactionTypeAllowedForNegativeBalance =
              cbo_transactionType cbo \<noteq> '''' \<and>
              cbo_transactionType cbo \<in> set (allowedNegativeBalanceTransactionTypes b);
            ok = Ok (b\<lparr>actualBalance := actualBalance b - amount\<rparr>)
        in if ignoreBalanceSufficiency b then ok
           else case (negativeBalanceLimit b, isTransactionTypeAllowedForNegativeBalance) of
                  (Some limit, True) \<Rightarrow>
                    if Available b - amount < 0 - limit
                    then Err (Sentinel ErrNegativeBalanceReached) else ok
                | _ \<Rightarrow>
                    if Available b < amount
                    then Err (Sentinel ErrInsufficientAvailableBalance) else ok)"

section \<open>When the operations succeed\<close>

text \<open>
  The floor the two debit operations keep the available balance above: the negated negative limit for
  a transaction type on the account's list, zero otherwise.
\<close>

definition availableFloor :: "'d::linordered_idom Balance \<Rightarrow> calcOptions \<Rightarrow> 'd" where
  "availableFloor b opt =
     (let ty = cbo_transactionType (newCalculateBalanceOption opt)
      in case negativeBalanceLimit b of
           Some limit \<Rightarrow>
             if ty \<noteq> '''' \<and> ty \<in> set (allowedNegativeBalanceTransactionTypes b) then - limit else 0
         | None \<Rightarrow> 0)"

named_theorems balance_ok

lemma Reserve_Ok_iff [balance_ok]:
  "Reserve b x opt = Inr b' \<longleftrightarrow>
     0 < x \<and> (ignoreBalanceSufficiency b \<or> availableFloor b opt \<le> Available b - x) \<and>
     b' = b\<lparr>pendingBalance := pendingBalance b + x\<rparr>"
  by (auto simp: Reserve_def availableFloor_def Let_def split: option.splits bool.splits if_splits)

lemma Withdraw_Ok_iff [balance_ok]:
  "Withdraw b x opt = Inr b' \<longleftrightarrow>
     0 < x \<and> (ignoreBalanceSufficiency b \<or> availableFloor b opt \<le> Available b - x) \<and>
     b' = b\<lparr>actualBalance := actualBalance b - x\<rparr>"
  by (auto simp: Withdraw_def availableFloor_def Let_def split: option.splits bool.splits if_splits)

lemma CancelReservation_Ok_iff [balance_ok]:
  "CancelReservation b x opt = Inr b' \<longleftrightarrow>
     0 < x \<and> (ignoreBalanceSufficiency b \<or> x \<le> pendingBalance b) \<and>
     b' = b\<lparr>pendingBalance := pendingBalance b - x\<rparr>"
  by (auto simp: CancelReservation_def)

lemma Commit_Ok_iff [balance_ok]:
  "Commit b x opt = Inr b' \<longleftrightarrow>
     0 < x \<and> (ignoreBalanceSufficiency b \<or> x \<le> pendingBalance b) \<and>
     b' = b\<lparr>actualBalance := actualBalance b - x, pendingBalance := pendingBalance b - x\<rparr>"
  by (auto simp: Commit_def)

text \<open>The cap on credits, where the account has one that is switched on.\<close>

definition maxBalance :: "'d::linordered_idom Balance \<Rightarrow> 'd option" where
  "maxBalance b = (case balanceRangeMax b of
                     Some m \<Rightarrow> if m > 0 \<and> isBalanceLimitEnabled b then Some m else None
                   | None \<Rightarrow> None)"

lemma AddFunds_Ok_iff [balance_ok]:
  "AddFunds b x opt = Inr b' \<longleftrightarrow>
     0 < x \<and> (case maxBalance b of None \<Rightarrow> True | Some m \<Rightarrow> actualBalance b + x \<le> m) \<and>
     b' = b\<lparr>actualBalance := actualBalance b + x\<rparr>"
  by (auto simp: AddFunds_def maxBalance_def split: option.splits)

lemma Available_update [simp]:
  "Available (b\<lparr>actualBalance := a\<rparr>) = a - pendingBalance b"
  "Available (b\<lparr>pendingBalance := p\<rparr>) = actualBalance b - p"
  "Available (b\<lparr>actualBalance := a, pendingBalance := p\<rparr>) = a - p"
  by (simp_all add: Available_def)

lemma availableFloor_update [simp]:
  "availableFloor (b\<lparr>actualBalance := a\<rparr>) opt = availableFloor b opt"
  "availableFloor (b\<lparr>pendingBalance := p\<rparr>) opt = availableFloor b opt"
  by (simp_all add: availableFloor_def Let_def split: option.splits)

lemma maxBalance_update [simp]:
  "maxBalance (b\<lparr>actualBalance := a\<rparr>) = maxBalance b"
  "maxBalance (b\<lparr>pendingBalance := p\<rparr>) = maxBalance b"
  by (simp_all add: maxBalance_def split: option.splits)

section \<open>Debit operations as an interface\<close>

text \<open>
  What the calculators rely on in an operation that takes money from an account:
  it succeeds exactly on positive amounts that leave the available balance above the
  floor (or on an account whose sufficiency check is off), it lowers the available balance by
  the amount, and it changes neither the flags nor the floor.
\<close>

locale debit_operation =
  fixes debit :: "'d::linordered_idom Balance \<Rightarrow> 'd \<Rightarrow> calcOptions \<Rightarrow> 'd Balance result"
    and effect :: "'d \<Rightarrow> 'd Balance \<Rightarrow> 'd Balance"
  assumes debit_Ok_iff:
      "debit b x opt = Inr b' \<longleftrightarrow>
         0 < x \<and> (ignoreBalanceSufficiency b \<or> availableFloor b opt \<le> Available b - x) \<and>
         b' = effect x b"
    and effect_available: "Available (effect x b) = Available b - x"
    and effect_floor: "availableFloor (effect x b) opt = availableFloor b opt"
    and effect_ignore: "ignoreBalanceSufficiency (effect x b) = ignoreBalanceSufficiency b"
    and effect_add: "effect y (effect x b) = effect (x + y) b"
begin

lemma debit_keeps_floor:
  assumes "debit b x opt = Inr b'" and "\<not> ignoreBalanceSufficiency b"
  shows "availableFloor b' opt \<le> Available b'"
  using assms by (auto simp: debit_Ok_iff effect_available effect_floor)

text \<open>Splitting a debit in two positive parts makes no difference to its success nor to its result.\<close>

lemma debit_split:
  assumes x: "0 < x" and y: "0 < y"
  shows "rbind (debit b x opt) (\<lambda>c. debit c y opt) = Inr d \<longleftrightarrow> debit b (x + y) opt = Inr d"
proof -
  have "availableFloor b opt \<le> Available b - x" if "availableFloor b opt \<le> Available b - (x + y)"
    using that y by (simp add: algebra_simps)
  with x y show ?thesis
    by (auto simp: rbind_Ok_iff debit_Ok_iff effect_available effect_floor effect_ignore effect_add
        add_pos_pos diff_diff_eq)
qed

text \<open>A run of debits, stopped by the first that fails.\<close>

lemma debits_keep_floor:
  assumes "foldl (\<lambda>r x. rbind r (\<lambda>c. debit c x opt)) (Inr b) xs = Inr b'"
    and "\<not> ignoreBalanceSufficiency b" and "availableFloor b opt \<le> Available b"
  shows "availableFloor b' opt \<le> Available b' \<and> Available b' = Available b - sum_list xs"
  using assms
proof (induction xs arbitrary: b)
  case (Cons x xs)
  have stuck: "foldl (\<lambda>r x. rbind r (\<lambda>c. debit c x opt)) (Inl e) xs = Inl e" for e
    by (induction xs) auto
  from Cons.prems(1) obtain c where c: "debit b x opt = Inr c"
    and run: "foldl (\<lambda>r x. rbind r (\<lambda>c. debit c x opt)) (Inr c) xs = Inr b'"
    using stuck by (cases "debit b x opt") auto
  from c have c_def: "c = effect x b"
    by (simp add: debit_Ok_iff)
  have "availableFloor c opt \<le> Available c"
    using debit_keeps_floor [OF c] Cons.prems(2) by simp
  with Cons.IH [OF run] Cons.prems(2) show ?case
    by (simp add: c_def effect_available effect_ignore algebra_simps)
qed simp

end

interpretation withdraw_op: debit_operation Withdraw "\<lambda>x b. b\<lparr>actualBalance := actualBalance b - x\<rparr>"
  by unfold_locales (auto simp: Withdraw_Ok_iff Available_def algebra_simps)

interpretation reserve_op: debit_operation Reserve "\<lambda>x b. b\<lparr>pendingBalance := pendingBalance b + x\<rparr>"
  by unfold_locales (auto simp: Reserve_Ok_iff Available_def algebra_simps)

section \<open>Histories of an account\<close>

text \<open>
  One step of an account: any of the five operations, with any amount and any
  options, that succeeded.  A failed operation leaves the balance as it was, so it is no step.
\<close>

inductive balance_step :: "'d::linordered_idom Balance \<Rightarrow> 'd Balance \<Rightarrow> bool" where
  reserve: "Reserve b x opt = Inr b' \<Longrightarrow> balance_step b b'"
| cancel: "CancelReservation b x opt = Inr b' \<Longrightarrow> balance_step b b'"
| commit: "Commit b x opt = Inr b' \<Longrightarrow> balance_step b b'"
| addFunds: "AddFunds b x opt = Inr b' \<Longrightarrow> balance_step b b'"
| withdraw: "Withdraw b x opt = Inr b' \<Longrightarrow> balance_step b b'"

inductive_cases balance_stepE: "balance_step b b'"

text \<open>The lowest floor of the account over all transaction types.\<close>

definition lowestFloor :: "'d::linordered_idom Balance \<Rightarrow> 'd" where
  "lowestFloor b = (case negativeBalanceLimit b of Some limit \<Rightarrow> min 0 (- limit) | None \<Rightarrow> 0)"

lemma lowestFloor_le: "lowestFloor b \<le> availableFloor b opt"
  by (auto simp: lowestFloor_def availableFloor_def Let_def split: option.splits)

text \<open>
  A sound checked account: the pending balance is not negative, the available balance is above the lowest
  floor, and the actual balance is under the maximum, where one is switched on.
\<close>

definition sound :: "'d::linordered_idom Balance \<Rightarrow> bool" where
  "sound b \<longleftrightarrow>
     0 \<le> pendingBalance b \<and> lowestFloor b \<le> Available b \<and>
     (case maxBalance b of None \<Rightarrow> True | Some m \<Rightarrow> actualBalance b \<le> m)"

lemma lowestFloor_update [simp]:
  "lowestFloor (b\<lparr>actualBalance := a\<rparr>) = lowestFloor b"
  "lowestFloor (b\<lparr>pendingBalance := p\<rparr>) = lowestFloor b"
  by (simp_all add: lowestFloor_def)

lemma sound_debit:
  assumes "sound b" and "0 < x" and "availableFloor b opt \<le> Available b - x"
  shows "sound (b\<lparr>actualBalance := actualBalance b - x\<rparr>)"
    and "sound (b\<lparr>pendingBalance := pendingBalance b + x\<rparr>)"
  using assms order_trans [OF lowestFloor_le assms(3)]
  by (auto simp: sound_def Available_def algebra_simps split: option.splits)

lemma sound_step:
  assumes "balance_step b b'" and "sound b" and "\<not> ignoreBalanceSufficiency b"
  shows "sound b' \<and> \<not> ignoreBalanceSufficiency b'"
  using assms
proof (cases rule: balance_step.cases)
  case (reserve x opt)
  with assms sound_debit(2) [of b x opt] show ?thesis by (simp add: balance_ok)
next
  case (withdraw x opt)
  with assms sound_debit(1) [of b x opt] show ?thesis by (simp add: balance_ok)
next
  case (cancel x opt)
  with assms show ?thesis
    by (auto simp: balance_ok sound_def Available_def algebra_simps split: option.splits)
next
  case (commit x opt)
  with assms show ?thesis
    by (auto simp: balance_ok sound_def Available_def algebra_simps split: option.splits)
next
  case (addFunds x opt)
  with assms show ?thesis
    by (auto simp: balance_ok sound_def Available_def algebra_simps split: option.splits)
qed

section \<open>Properties\<close>

text \<open>
  C2: over any history of successful reservations, cancellations, commits, credits and
  withdrawals, an account whose sufficiency check is on never has a negative pending balance,
  never has an available balance under its (possibly negative) floor, and never exceeds
  its maximum, provided it starts that way.
\<close>

theorem balance_history_sound:
  assumes "balance_step\<^sup>*\<^sup>* b b'" and "sound b" and "\<not> ignoreBalanceSufficiency b"
  shows "sound b' \<and> \<not> ignoreBalanceSufficiency b'"
  using assms by (induction rule: rtranclp_induct) (auto dest: sound_step)

definition exampleBalance :: "int Balance" where
  "exampleBalance =
     NewBalance 100 0
       [WithNegativeBalanceLimit 50, WithAllowedNegativeBalanceTransactionTypes [''ADMFE''],
        WithBalanceRangeMax 1000, WithBalanceLimitEnabled True]"

lemmas exampleBalance_simps =
  exampleBalance_def NewBalance_def WithNegativeBalanceLimit_def WithBalanceRangeMax_def
  WithAllowedNegativeBalanceTransactionTypes_def WithBalanceLimitEnabled_def

theorem balance_history_sound_witness:
  "sound (exampleBalance\<lparr>actualBalance := -40\<rparr>) \<and>
   \<not> ignoreBalanceSufficiency (exampleBalance\<lparr>actualBalance := -40\<rparr>)"
proof (rule balance_history_sound)
  have "Withdraw exampleBalance 140 [WithTransactionType ''ADMFE''] =
          Inr (exampleBalance\<lparr>actualBalance := -40\<rparr>)"
    by (simp add: exampleBalance_simps Withdraw_def Available_def newCalculateBalanceOption_def
        WithTransactionType_def Let_def)
  then show "balance_step\<^sup>*\<^sup>* exampleBalance (exampleBalance\<lparr>actualBalance := -40\<rparr>)"
    by (intro r_into_rtranclp balance_step.withdraw)
  show "sound exampleBalance" and "\<not> ignoreBalanceSufficiency exampleBalance"
    by (simp_all add: exampleBalance_simps sound_def lowestFloor_def maxBalance_def Available_def)
qed

text \<open>
  a reservation leaves no residue.  After a successful \<open>Reserve\<close> on an account with no
  negative pending balance, \<open>CancelReservation\<close> of the same amount succeeds and restores the
  balance exactly, and \<open>Commit\<close> of it succeeds and gives exactly what a direct \<open>Withdraw\<close>
  gives, which succeeds too.
\<close>

lemma reserve_settled:
  assumes "Reserve b x opt = Inr b'" and "0 \<le> pendingBalance b"
  shows "CancelReservation b' x opt' = Inr b \<and> Commit b' x opt' = Withdraw b x opt \<and>
         isOk (Withdraw b x opt)"
proof -
  have "Withdraw b x opt = Inr (b\<lparr>actualBalance := actualBalance b - x\<rparr>)"
    using assms by (simp add: balance_ok)
  moreover have "Commit b' x opt' = Inr (b\<lparr>actualBalance := actualBalance b - x\<rparr>)"
    using assms by (auto simp: balance_ok)
  moreover have "CancelReservation b' x opt' = Inr b"
    using assms by (auto simp: balance_ok)
  ultimately show ?thesis by simp
qed

lemma reserve_settled_witness:
  "CancelReservation (exampleBalance\<lparr>pendingBalance := 30\<rparr>) 30 [] = Inr exampleBalance \<and>
   Commit (exampleBalance\<lparr>pendingBalance := 30\<rparr>) 30 [] = Withdraw exampleBalance 30 [] \<and>
   isOk (Withdraw exampleBalance 30 [])"
  by (rule reserve_settled)
    (simp_all add: exampleBalance_simps Reserve_def Available_def newCalculateBalanceOption_def)

text \<open>
  splitting a debit is neutral.  Withdrawing (or reserving) two positive amounts one after the other
  succeeds with a balance exactly when the debit of their sum does, with the same balance, so the
  sufficiency check cannot be dodged, nor tripped, by splitting a payment.
\<close>

lemma debit_split_neutral:
  assumes "0 < x" and "0 < y"
  shows "(rbind (Withdraw b x opt) (\<lambda>c. Withdraw c y opt) = Inr d \<longleftrightarrow> Withdraw b (x + y) opt = Inr d) \<and>
         (rbind (Reserve b x opt) (\<lambda>c. Reserve c y opt) = Inr d \<longleftrightarrow> Reserve b (x + y) opt = Inr d)"
  using withdraw_op.debit_split [OF assms] reserve_op.debit_split [OF assms] by blast

lemma debit_split_neutral_witness:
  "\<forall>d. (rbind (Withdraw exampleBalance 60 []) (\<lambda>c. Withdraw c 40 []) = Inr d \<longleftrightarrow>
      Withdraw exampleBalance (60 + 40) [] = Inr d) \<and>
   (rbind (Reserve exampleBalance 60 []) (\<lambda>c. Reserve c 40 []) = Inr d \<longleftrightarrow>
      Reserve exampleBalance (60 + 40) [] = Inr d)"
  by (intro allI debit_split_neutral) simp_all

end
