(* ===== verification/DateTime.thy ===== *)
theory DateTime
  imports Prelude
begin

text \<open>
  Instants and calendar days, as \<open>internal/common/time.go\<close> uses them.  A \<open>time.Time\<close> is
  the number of nanoseconds since the zero time of Go (1 January of year 1, UTC), so \<open>IsZero\<close>
  is \<open>= 0\<close> and \<open>After\<close> is \<open>>\<close>.  The location is Asia/Jakarta, seven hours east of UTC
  throughout.  The calendar is the proleptic Gregorian one of the \<open>time\<close> package.  The lemmas
  show that the split of a day number into year, month and day is exact, and that a
  formatted date parses back to the first instant of its day.
\<close>

section \<open>Days and dates\<close>

definition nsPerDay :: int where
  "nsPerDay = 86400000000000"

text \<open>The offset of Asia/Jakarta.\<close>

definition jakartaOffset :: int where
  "jakartaOffset = 25200000000000"

definition localDay :: "int \<Rightarrow> nat" where
  "localDay t = nat ((t + jakartaOffset) div nsPerDay)"

definition startOfLocalDay :: "nat \<Rightarrow> int" where
  "startOfLocalDay d = int d * nsPerDay - jakartaOffset"

definition isLeap :: "nat \<Rightarrow> bool" where
  "isLeap y = (y mod 4 = 0 \<and> (y mod 100 \<noteq> 0 \<or> y mod 400 = 0))"

definition daysIn :: "nat \<Rightarrow> nat \<Rightarrow> nat" where
  "daysIn y m = (if m = 2 then (if isLeap y then 29 else 28)
                 else if m \<in> {4, 6, 9, 11} then 30 else 31)"

text \<open>Days from 1 January of year 1 to 1 January of year \<open>n + 1\<close>.\<close>

definition daysBefore :: "nat \<Rightarrow> nat" where
  "daysBefore n = 365 * n + n div 4 - n div 100 + n div 400"

text \<open>
  The year (counted from zero) and the day in the year: full 400-year cycles, then centuries,
  4-year cycles and years, where the last century and the last year of a cycle are a day longer.
\<close>

definition yearAndDay :: "nat \<Rightarrow> nat \<times> nat" where
  "yearAndDay d =
     (let n400 = d div 146097; d1 = d mod 146097;
          n100 = min 3 (d1 div 36524); d2 = d1 - 36524 * n100;
          n4 = d2 div 1461; d3 = d2 mod 1461;
          n1 = min 3 (d3 div 365)
      in (400 * n400 + 100 * n100 + 4 * n4 + n1, d3 - 365 * n1))"

text \<open>The month and the day in it, walking the months of year \<open>y\<close> from month \<open>m\<close> on.\<close>

fun monthAndDay :: "nat \<Rightarrow> nat \<Rightarrow> nat \<Rightarrow> nat \<Rightarrow> nat \<times> nat" where
  "monthAndDay 0 y m yday = (m, yday + 1)"
| "monthAndDay (Suc fuel) y m yday =
     (if yday < daysIn y m then (m, yday + 1) else monthAndDay fuel y (m + 1) (yday - daysIn y m))"

fun daysBeforeMonth :: "nat \<Rightarrow> nat \<Rightarrow> nat" where
  "daysBeforeMonth y 0 = 0"
| "daysBeforeMonth y (Suc m) = (if m = 0 then 0 else daysBeforeMonth y m + daysIn y m)"

definition dateOf :: "nat \<Rightarrow> nat \<times> nat \<times> nat" where
  "dateOf d = (let (n, yday) = yearAndDay d; (m, day) = monthAndDay 11 (n + 1) 1 yday in (n + 1, m, day))"

definition dayOf :: "nat \<Rightarrow> nat \<Rightarrow> nat \<Rightarrow> nat" where
  "dayOf y m day = daysBefore (y - 1) + daysBeforeMonth y m + (day - 1)"

lemma daysBefore_split:
  assumes "b \<le> 3" and "c \<le> 24" and "e \<le> 3"
  shows "daysBefore (400 * a + 100 * b + 4 * c + e) = 146097 * a + 36524 * b + 1461 * c + 365 * e"
proof -
  let ?n = "400 * a + 100 * b + 4 * c + e"
  have "?n div 4 = 100 * a + 25 * b + c"
    using assms by (intro div_nat_eqI) auto
  moreover have "?n div 100 = 4 * a + b"
    using assms by (intro div_nat_eqI) auto
  moreover have "?n div 400 = a"
    using assms by (intro div_nat_eqI) auto
  ultimately show ?thesis
    unfolding daysBefore_def by simp
qed

lemma mod_zero_iff:
  fixes r k q :: nat
  assumes "1 \<le> r" and "r \<le> k"
  shows "(k * q + r) mod k = 0 \<longleftrightarrow> r = k"
  using assms by (cases "r = k") auto

lemma leap_split:
  fixes a b c e :: nat
  assumes "b \<le> 3" and "c \<le> 24" and "e \<le> 3"
  shows "isLeap (400 * a + 100 * b + 4 * c + e + 1) \<longleftrightarrow> e = 3 \<and> (c \<noteq> 24 \<or> b = 3)"
proof -
  let ?y = "400 * a + 100 * b + 4 * c + e + 1"
  have "?y mod 4 = 0 \<longleftrightarrow> e = 3"
    using mod_zero_iff [of "e + 1" 4 "100 * a + 25 * b + c"] assms by (simp add: algebra_simps)
  moreover have "?y mod 100 = 0 \<longleftrightarrow> c = 24 \<and> e = 3"
  proof -
    have "?y mod 100 = 0 \<longleftrightarrow> 4 * c + e + 1 = 100"
      using mod_zero_iff [of "4 * c + e + 1" 100 "4 * a + b"] assms by (simp add: algebra_simps)
    also have "\<dots> \<longleftrightarrow> c = 24 \<and> e = 3"
      using assms by arith
    finally show ?thesis .
  qed
  moreover have "?y mod 400 = 0 \<longleftrightarrow> b = 3 \<and> c = 24 \<and> e = 3"
  proof -
    have "?y mod 400 = 0 \<longleftrightarrow> 100 * b + 4 * c + e + 1 = 400"
      using mod_zero_iff [of "100 * b + 4 * c + e + 1" 400 a] assms by (simp add: algebra_simps)
    also have "\<dots> \<longleftrightarrow> b = 3 \<and> c = 24 \<and> e = 3"
      using assms by arith
    finally show ?thesis .
  qed
  ultimately show ?thesis
    unfolding isLeap_def by auto
qed

lemma yearAndDay_exact:
  assumes "yearAndDay d = (n, yday)"
  shows "d = daysBefore n + yday \<and> yday < (if isLeap (n + 1) then 366 else 365)"
proof -
  define a b c e where "a = d div 146097" and "b = min 3 (d mod 146097 div 36524)"
    and "c = (d mod 146097 - 36524 * b) div 1461"
    and "e = min 3 ((d mod 146097 - 36524 * b) mod 1461 div 365)"
  define d2 where "d2 = d mod 146097 - 36524 * b"
  have d1: "d = 146097 * a + d mod 146097" "d mod 146097 < 146097"
    by (simp_all add: a_def)
  have b: "b \<le> 3" "36524 * b \<le> d mod 146097" "d mod 146097 \<le> 36524 * b + 36524"
    "b < 3 \<Longrightarrow> d mod 146097 < 36524 * b + 36524"
    using d1(2) unfolding b_def by (auto simp: min_def)
  have d2: "d mod 146097 = 36524 * b + d2" "d2 \<le> 36524" "b < 3 \<Longrightarrow> d2 < 36524"
    using b unfolding d2_def by auto
  have c: "c \<le> 24" "d2 = 1461 * c + d2 mod 1461"
    using d2(2) unfolding c_def d2_def [symmetric] by auto
  have e: "e \<le> 3" "365 * e \<le> d2 mod 1461" "d2 mod 1461 \<le> 365 * e + 365"
    "e < 3 \<Longrightarrow> d2 mod 1461 < 365 * e + 365"
    unfolding e_def d2_def [symmetric] by (auto simp: min_def)
  have n: "n = 400 * a + 100 * b + 4 * c + e" and yday: "yday = d2 mod 1461 - 365 * e"
    using assms unfolding yearAndDay_def Let_def a_def b_def c_def e_def d2_def by auto
  have "d = daysBefore n + yday"
    using d1(1) d2(1) c(2) e(2) unfolding n daysBefore_split [OF b(1) c(1) e(1)] yday by linarith
  moreover have "yday < (if isLeap (n + 1) then 366 else 365)"
  proof (cases "e = 3 \<and> (c \<noteq> 24 \<or> b = 3)")
    case True
    then show ?thesis
      using leap_split [OF b(1) c(1) e(1), of a] mod_less_divisor [of 1461 d2]
      unfolding n yday by simp
  next
    case False
    have "d2 mod 1461 < 365 * e + 365"
    proof (cases "e = 3")
      case True
      with False have "c = 24" and "b < 3" using b(1) by auto
      with d2(3) c(2) True show ?thesis by simp
    qed (use e in auto)
    then show ?thesis
      using leap_split [OF b(1) c(1) e(1), of a] False e(2) unfolding n yday by auto
  qed
  ultimately show ?thesis by blast
qed

lemma monthAndDay_numeral [simp]:
  "monthAndDay (numeral k) y m yday =
     (if yday < daysIn y m then (m, yday + 1)
      else monthAndDay (pred_numeral k) y (m + 1) (yday - daysIn y m))"
  by (simp add: numeral_eq_Suc)

text \<open>Walking the months finds the month whose days contain the day of the year.\<close>

lemma monthAndDay_exact:
  assumes "monthAndDay fuel y m yday = (m', day)" and "1 \<le> m"
    and "daysBeforeMonth y m + yday < daysBeforeMonth y (m + fuel) + daysIn y (m + fuel)"
  shows "daysBeforeMonth y m' + (day - 1) = daysBeforeMonth y m + yday \<and> m \<le> m' \<and> m' \<le> m + fuel \<and>
         1 \<le> day \<and> day \<le> daysIn y m'"
  using assms
proof (induction fuel arbitrary: m yday)
  case (Suc fuel)
  show ?case
  proof (cases "yday < daysIn y m")
    case True
    with Suc.prems show ?thesis by auto
  next
    case False
    with Suc.prems(1) have run: "monthAndDay fuel y (m + 1) (yday - daysIn y m) = (m', day)"
      by simp
    have "daysBeforeMonth y (m + 1) = daysBeforeMonth y m + daysIn y m"
      using Suc.prems(2) by simp
    with Suc.IH [OF run] Suc.prems(2,3) False show ?thesis
      by auto
  qed
qed simp

lemma months_of_year:
  "daysBeforeMonth y 12 + daysIn y 12 = (if isLeap y then 366 else 365)"
  by (simp add: eval_nat_numeral daysIn_def)

text \<open>The date of a day is a valid date, and the day of that date is the day again.\<close>

lemma dateOf_valid:
  assumes "dateOf d = (y, m, day)"
  shows "1 \<le> y \<and> 1 \<le> m \<and> m \<le> 12 \<and> 1 \<le> day \<and> day \<le> daysIn y m \<and> dayOf y m day = d"
proof -
  obtain n yday where n: "yearAndDay d = (n, yday)" by fastforce
  obtain m' day' where md: "monthAndDay 11 (n + 1) 1 yday = (m', day')" by fastforce
  have date: "y = n + 1" "m = m'" "day = day'"
    using assms n md by (auto simp: dateOf_def)
  note year = yearAndDay_exact [OF n]
  have "daysBeforeMonth (n + 1) 1 + yday < daysBeforeMonth (n + 1) (1 + 11) + daysIn (n + 1) (1 + 11)"
    using year months_of_year [of "n + 1"] by simp
  from monthAndDay_exact [OF md _ this] year show ?thesis
    by (auto simp: date dayOf_def)
qed

section \<open>Formatting and parsing\<close>

text \<open>Decimal digits, and the zero padding to a width that \<open>Format\<close> uses.\<close>

definition digitChar :: "nat \<Rightarrow> char" where
  "digitChar n = char_of (48 + n)"

fun digits :: "nat \<Rightarrow> string" where
  "digits n = (if n < 10 then [digitChar n] else digits (n div 10) @ [digitChar (n mod 10)])"

declare digits.simps [simp del]

definition padded :: "nat \<Rightarrow> nat \<Rightarrow> string" where
  "padded w n = replicate (w - length (digits n)) (CHR ''0'') @ digits n"

text \<open>\<open>FormatDatetimeToStringInLocalTime(date, DateFormatYYYYMMDD)\<close>\<close>

definition FormatDateInLocalTime :: "int \<Rightarrow> string" where
  "FormatDateInLocalTime t =
     (let (y, m, day) = dateOf (localDay t)
      in padded 4 y @ ''-'' @ padded 2 m @ ''-'' @ padded 2 day)"

definition isDigit :: "char \<Rightarrow> bool" where
  "isDigit c = (let n = (of_char c :: nat) in 48 \<le> n \<and> n \<le> 57)"

definition digitValue :: "char \<Rightarrow> nat" where
  "digitValue c = of_char c - 48"

definition number :: "string \<Rightarrow> nat" where
  "number s = foldl (\<lambda>n c. 10 * n + digitValue c) 0 s"

text \<open>
  \<open>ParseStringToDatetime(DateFormatYYYYMMDD, date)\<close>: the parser of the layout \<open>2006-01-02\<close> takes
  four, two and two digits with a dash between them and nothing after, and refuses a month or a day out of range.
\<close>

definition ParseDateInLocalTime :: "string \<Rightarrow> int result" where
  "ParseDateInLocalTime s =
     (let ys = take 4 s; ms = take 2 (drop 5 s); ds = take 2 (drop 8 s)
      in if length s = 10 \<and> take 1 (drop 4 s) = ''-'' \<and> take 1 (drop 7 s) = ''-'' \<and>
            list_all isDigit (ys @ ms @ ds)
         then let y = number ys; m = number ms; day = number ds
              in if 1 \<le> m \<and> m \<le> 12 \<and> 1 \<le> day \<and> day \<le> daysIn y m
                 then Ok ((if y = 0 then - 366 * nsPerDay else 0) +
                          startOfLocalDay (if y = 0 then daysBeforeMonth 0 m + (day - 1) else dayOf y m day))
                 else Err (ErrorMsg ''out of range'')
         else Err (ErrorMsg ''cannot parse''))"

lemma digitChar_props:
  assumes "n < 10"
  shows "isDigit (digitChar n)" and "digitValue (digitChar n) = n"
  using assms by (simp_all add: isDigit_def digitChar_def digitValue_def Let_def)

lemma number_append: "number (s @ [c]) = 10 * number s + digitValue c"
  by (simp add: number_def)

lemma digits_props: "list_all isDigit (digits n) \<and> number (digits n) = n"
proof (induction n rule: digits.induct)
  case (1 n)
  show ?case
  proof (cases "n < 10")
    case True
    then show ?thesis
      by (subst digits.simps, subst (2) digits.simps) (simp add: digitChar_props number_def)
  next
    case False
    with 1 show ?thesis
      by (subst digits.simps, subst (2) digits.simps) (simp add: digitChar_props number_append)
  qed
qed

lemma digits_length: "n < 10 ^ Suc k \<Longrightarrow> length (digits n) \<le> Suc k"
proof (induction k arbitrary: n)
  case 0
  then show ?case by (subst digits.simps) simp
next
  case (Suc k)
  have "n div 10 < 10 ^ Suc k" using Suc.prems by simp
  with Suc.IH show ?case by (subst digits.simps) simp
qed

lemma number_zeros: "number (replicate k (CHR ''0'') @ s) = number s"
proof -
  have "foldl (\<lambda>n c. 10 * n + digitValue c) 0 (replicate k (CHR ''0'')) = 0"
    by (induction k) (simp_all add: digitValue_def)
  then show ?thesis by (simp add: number_def)
qed

lemma padded_props:
  "list_all isDigit (padded w n)" "number (padded w n) = n"
  using digits_props [of n]
  by (auto simp: padded_def number_zeros list_all_iff isDigit_def set_replicate_conv_if)

lemma padded_length:
  "n < 100 \<Longrightarrow> length (padded 2 n) = 2"
  "n < 10000 \<Longrightarrow> length (padded 4 n) = 4"
  using digits_length [of n 1] digits_length [of n 3] by (simp_all add: padded_def)

text \<open>
  A formatted date is ten characters long and parses back to midnight of its day, local time.
\<close>

lemma parse_format_date:
  assumes "0 \<le> t + jakartaOffset" and "dateOf (localDay t) = (y, m, day)" and "y < 10000"
  shows "ParseDateInLocalTime (FormatDateInLocalTime t) = Ok (startOfLocalDay (localDay t))"
proof -
  note valid = dateOf_valid [OF assms(2)]
  then have "daysIn y m \<le> 31" by (simp add: daysIn_def)
  with valid have len: "length (padded 4 y) = 4" "length (padded 2 m) = 2" "length (padded 2 day) = 2"
    using assms(3) by (auto intro!: padded_length)
  have format: "FormatDateInLocalTime t = padded 4 y @ ''-'' @ padded 2 m @ ''-'' @ padded 2 day"
    using assms(2) by (simp add: FormatDateInLocalTime_def)
  show ?thesis
    unfolding ParseDateInLocalTime_def format using valid len padded_props [of 4 y] padded_props [of 2 m]
      padded_props [of 2 day]
    by (simp add: Let_def)
qed

lemma startOfLocalDay_bounds:
  assumes "0 \<le> t + jakartaOffset"
  shows "startOfLocalDay (localDay t) \<le> t \<and> t < startOfLocalDay (localDay t) + nsPerDay"
proof -
  have "0 \<le> (t + jakartaOffset) div nsPerDay"
    using assms by (simp add: nsPerDay_def pos_imp_zdiv_nonneg_iff)
  then have "int (localDay t) = (t + jakartaOffset) div nsPerDay"
    by (simp add: localDay_def)
  moreover have "0 < nsPerDay" by (simp add: nsPerDay_def)
  moreover define q r where "q = (t + jakartaOffset) div nsPerDay" and "r = (t + jakartaOffset) mod nsPerDay"
  ultimately have "int (localDay t) = q" and "0 \<le> r" and "r < nsPerDay"
    and "q * nsPerDay + r = t + jakartaOffset"
    by simp_all
  then show ?thesis
    unfolding startOfLocalDay_def by simp
qed

section \<open>Calls on the current time\<close>

text \<open>\<open>NowZeroTime\<close>: formats the day of the clock and parses it, which gives its midnight.\<close>

definition NowZeroTime :: "int \<Rightarrow> int" where
  "NowZeroTime now = (case ParseDateInLocalTime (FormatDateInLocalTime now) of Inr t \<Rightarrow> t | Inl _ \<Rightarrow> 0)"

text \<open>\<open>date.AddDate(0, 0, n)\<close>: Asia/Jakarta has no daylight saving, so a day is 24 hours.\<close>

definition AddDays :: "int \<Rightarrow> int \<Rightarrow> int" where
  "AddDays t n = t + n * nsPerDay"

text \<open>\<open>IsTodayAfterDate\<close> (in \<open>now\<close>'s terms): the day of the date is after today.\<close>

definition IsTodayAfterDate :: "int \<Rightarrow> int \<Rightarrow> bool" where
  "IsTodayAfterDate now date = (startOfLocalDay (localDay date) > NowZeroTime now)"

lemma NowZeroTime_eq:
  assumes "0 \<le> now + jakartaOffset" and "fst (dateOf (localDay now)) < 10000"
  shows "NowZeroTime now = startOfLocalDay (localDay now)"
  using parse_format_date [OF assms(1), of "fst (dateOf (localDay now))"] assms(2)
  by (simp add: NowZeroTime_def prod_eq_iff)

section \<open>Properties\<close>

text \<open>
  The transaction date recorded for an instant identifies its local day.  For every instant from the zero
  time to the end of year 9999, the formatted date parses, to the midnight (local time) of the
  day that contains the instant, and formatting that midnight gives the same date again.
\<close>

lemma transaction_date_roundtrip:
  assumes "0 \<le> t" and "fst (dateOf (localDay t)) < 10000"
  shows "\<exists>midnight. ParseDateInLocalTime (FormatDateInLocalTime t) = Ok midnight \<and>
           midnight \<le> t \<and> t < midnight + nsPerDay \<and>
           FormatDateInLocalTime midnight = FormatDateInLocalTime t"
proof -
  let ?s = "startOfLocalDay (localDay t)"
  have t: "0 \<le> t + jakartaOffset"
    using assms(1) by (simp add: jakartaOffset_def)
  obtain y m day where "dateOf (localDay t) = (y, m, day)" and "y < 10000"
    using assms(2) by (cases "dateOf (localDay t)") auto
  then have "ParseDateInLocalTime (FormatDateInLocalTime t) = Ok ?s"
    by (rule parse_format_date [OF t])
  moreover have "localDay ?s = localDay t"
    by (simp add: localDay_def startOfLocalDay_def nsPerDay_def)
  ultimately show ?thesis
    using startOfLocalDay_bounds [OF t] by (simp add: FormatDateInLocalTime_def)
qed

lemma transaction_date_roundtrip_witness:
  "\<exists>midnight. ParseDateInLocalTime (FormatDateInLocalTime 63871000000000000000) = Ok midnight \<and>
     midnight \<le> 63871000000000000000 \<and> 63871000000000000000 < midnight + nsPerDay \<and>
     FormatDateInLocalTime midnight = FormatDateInLocalTime 63871000000000000000"
proof (rule transaction_date_roundtrip)
  have "dateOf (localDay 63871000000000000000) = (2024, 12, 28)"
    by (simp add: dateOf_def yearAndDay_def localDay_def jakartaOffset_def nsPerDay_def Let_def
        daysIn_def isLeap_def)
  then show "fst (dateOf (localDay 63871000000000000000)) < 10000" by simp
qed simp

end
