(* ===== verification/Models.thy ===== *)
theory Models
  imports DateTime
begin

text \<open>
  The data the services exchange: amounts, the free-form metadata, the wallet transaction of
  \<open>internal/models/wallet_transaction.go\<close>, and the ledger ("acuan") transaction with its
  request of \<open>internal/models/transaction.go\<close>, with the conversions between them.
\<close>

section \<open>Amounts and metadata\<close>

record 'd Amount =
  amt_ValueDecimal :: 'd
  amt_Currency :: string

text \<open>The amount pointer of a detail is required by the request validation.\<close>

record 'd AmountDetail =
  ad_Type :: string
  ad_Amount :: "'d Amount"

text \<open>The dynamic values of the metadata that the code looks into or stores.\<close>

datatype 'd any =
    AnyString string
  | AnySlice "'d any list"
  | AnyNullDecimal "'d option"
  | AnyOther string

text \<open>\<open>WalletMetadata\<close>, a Go map: \<open>None\<close> is the nil map, which reads as empty and panics when written to.\<close>

type_synonym 'd WalletMetadata = "(string \<rightharpoonup> 'd any) option"

definition metadataIndex :: "'d WalletMetadata \<Rightarrow> string \<Rightarrow> 'd any option" where
  "metadataIndex metadata key = (case metadata of None \<Rightarrow> None | Some m \<Rightarrow> m key)"

text \<open>\<open>v, ok := metadata[key].(string)\<close>, with the empty string when the assertion fails.\<close>

definition metadataString :: "'d WalletMetadata \<Rightarrow> string \<Rightarrow> string" where
  "metadataString metadata key =
     (case metadataIndex metadata key of Some (AnyString s) \<Rightarrow> s | _ \<Rightarrow> '''')"

text \<open>The \<open>Decimal\<close> field of a \<open>NullDecimal\<close>: zero when it is not valid.\<close>

definition nullDecimal :: "'d::zero option \<Rightarrow> 'd" where
  "nullDecimal x = (case x of None \<Rightarrow> 0 | Some d \<Rightarrow> d)"

section \<open>Wallet transactions\<close>

record 'd WalletTransaction =
  wt_ID :: string
  wt_Status :: string
  wt_AccountNumber :: string
  wt_DestinationAccountNumber :: string
  wt_RefNumber :: string
  wt_TransactionType :: string
  wt_TransactionTime :: int
  wt_TransactionFlow :: string
  wt_NetAmount :: "'d Amount"
  wt_Amounts :: "'d AmountDetail list"
  wt_Description :: string
  wt_Metadata :: "'d WalletMetadata"
  wt_CreatedAt :: int

record 'd NewWalletTransaction =
  nw_ID :: string
  nw_AccountNumber :: string
  nw_RefNumber :: string
  nw_TransactionType :: string
  nw_TransactionFlow :: string
  nw_TransactionTime :: int
  nw_NetAmount :: "'d Amount"
  nw_Amounts :: "'d AmountDetail list"
  nw_Status :: string
  nw_DestinationAccountNumber :: string
  nw_Description :: string
  nw_Metadata :: "'d WalletMetadata"

definition ToWalletTransaction :: "int \<Rightarrow> 'd NewWalletTransaction \<Rightarrow> 'd WalletTransaction" where
  "ToWalletTransaction now nw =
     \<lparr>wt_ID = nw_ID nw, wt_Status = nw_Status nw, wt_AccountNumber = nw_AccountNumber nw,
      wt_DestinationAccountNumber = nw_DestinationAccountNumber nw, wt_RefNumber = nw_RefNumber nw,
      wt_TransactionType = nw_TransactionType nw, wt_TransactionTime = nw_TransactionTime nw,
      wt_TransactionFlow = nw_TransactionFlow nw, wt_NetAmount = nw_NetAmount nw,
      wt_Amounts = nw_Amounts nw, wt_Description = nw_Description nw,
      wt_Metadata = (case nw_Metadata nw of None \<Rightarrow> Some Map.empty | Some m \<Rightarrow> Some m),
      wt_CreatedAt = now\<rparr>"

text \<open>The request of the wallet API; its time is RFC 3339 text, parsed by the \<open>time\<close> package.\<close>

record 'd CreateWalletTransactionRequest =
  cw_IsReserved :: bool
  cw_AccountNumber :: string
  cw_RefNumber :: string
  cw_TransactionType :: string
  cw_TransactionFlow :: string
  cw_TransactionTime :: string
  cw_NetAmount :: "'d Amount"
  cw_Amounts :: "'d AmountDetail list"
  cw_DestinationAccountNumber :: string
  cw_Description :: string
  cw_Metadata :: "'d WalletMetadata"
  cw_ClientId :: string
  cw_IdempotencyKey :: string

text \<open>\<open>time.Parse\<close> errors are dropped: the transaction then has the zero time.\<close>

definition ToNewWalletTransaction ::
  "(string \<Rightarrow> int option) \<Rightarrow> string \<Rightarrow> 'd CreateWalletTransactionRequest \<Rightarrow> 'd NewWalletTransaction" where
  "ToNewWalletTransaction parseRFC3339 uuid e =
     \<lparr>nw_ID = uuid, nw_AccountNumber = cw_AccountNumber e, nw_RefNumber = cw_RefNumber e,
      nw_TransactionType = cw_TransactionType e, nw_TransactionFlow = cw_TransactionFlow e,
      nw_TransactionTime = (case parseRFC3339 (cw_TransactionTime e) of None \<Rightarrow> 0 | Some t \<Rightarrow> t),
      nw_NetAmount = cw_NetAmount e, nw_Amounts = cw_Amounts e,
      nw_Status = (if cw_IsReserved e then ''PENDING'' else ''SUCCESS''),
      nw_DestinationAccountNumber = cw_DestinationAccountNumber e,
      nw_Description = cw_Description e, nw_Metadata = cw_Metadata e\<rparr>"

section \<open>Ledger transactions\<close>

text \<open>
  The columns of a ledger transaction that the code decides on; the fields that only reports show
  (account and product names, narratives, audit times) are left out.
\<close>

record 'd Transaction =
  txn_TransactionID :: string
  txn_TransactionDate :: int
  txn_FromAccount :: string
  txn_ToAccount :: string
  txn_Amount :: "'d option"
  txn_Status :: string
  txn_Method :: string
  txn_TypeTransaction :: string
  txn_Description :: string
  txn_RefNumber :: string
  txn_Metadata :: string
  txn_OrderTime :: int
  txn_OrderType :: string
  txn_TransactionTime :: int
  txn_Currency :: string
  txn_SourceEntity :: string
  txn_DestinationEntity :: string

record 'd TransactionReq =
  req_TransactionID :: string
  req_FromAccount :: string
  req_ToAccount :: string
  req_TransactionDate :: string
  req_Amount :: "'d option"
  req_Status :: string
  req_Method :: string
  req_TypeTransaction :: string
  req_Description :: string
  req_RefNumber :: string
  req_Metadata :: "'d WalletMetadata"
  req_OrderTime :: int
  req_OrderType :: string
  req_TransactionTime :: int
  req_Currency :: string

definition emptyReq :: "'d TransactionReq" where
  "emptyReq =
     \<lparr>req_TransactionID = '''', req_FromAccount = '''', req_ToAccount = '''', req_TransactionDate = '''',
      req_Amount = None, req_Status = '''', req_Method = '''', req_TypeTransaction = '''',
      req_Description = '''', req_RefNumber = '''', req_Metadata = None, req_OrderTime = 0,
      req_OrderType = '''', req_TransactionTime = 0, req_Currency = ''''\<rparr>"

text \<open>
  \<open>ParseStringDateToDateWithTimeNow\<close>: the day of the text at the time of day of the clock,
  with the nanoseconds the process started with.
\<close>

definition ParseStringDateToDateWithTimeNow :: "int \<Rightarrow> int \<Rightarrow> string \<Rightarrow> int result" where
  "ParseStringDateToDateWithTimeNow now addedNanoSecond date =
     rbind (ParseDateInLocalTime date)
       (\<lambda>midnight. Ok (midnight + ((now + jakartaOffset) mod nsPerDay div 1000000000) * 1000000000
                        + addedNanoSecond))"

text \<open>
  \<open>ToRequest\<close>: the date is parsed, the metadata is encoded as JSON (by the library), and a
  missing id is generated.  The error of the date is a \<open>WrapError\<close>, which has no \<open>Unwrap\<close>: to
  \<open>errors.Is\<close> it is a plain message.
\<close>

definition ToRequest ::
  "int \<Rightarrow> int \<Rightarrow> ('d WalletMetadata \<Rightarrow> string result) \<Rightarrow> string \<Rightarrow> 'd TransactionReq \<Rightarrow> 'd Transaction result" where
  "ToRequest now addedNanoSecond jsonMarshal uuid req =
     (case ParseStringDateToDateWithTimeNow now addedNanoSecond (req_TransactionDate req) of
        Inl e \<Rightarrow> Err (ErrorMsg ''format must be YYYY-MM-DD: , root cause: invalid format date'')
      | Inr trxDate \<Rightarrow>
          rbind (jsonMarshal (req_Metadata req)) (\<lambda>byteMetadata.
            Ok \<lparr>txn_TransactionID =
                  (if req_TransactionID req = '''' then uuid else req_TransactionID req),
                txn_TransactionDate = trxDate, txn_FromAccount = req_FromAccount req,
                txn_ToAccount = req_ToAccount req, txn_Amount = req_Amount req,
                txn_Status = req_Status req, txn_Method = req_Method req,
                txn_TypeTransaction = req_TypeTransaction req, txn_Description = req_Description req,
                txn_RefNumber = req_RefNumber req, txn_Metadata = byteMetadata,
                txn_OrderTime = req_OrderTime req, txn_OrderType = req_OrderType req,
                txn_TransactionTime = req_TransactionTime req, txn_Currency = req_Currency req,
                txn_SourceEntity = '''', txn_DestinationEntity = ''''\<rparr>))"

text \<open>\<open>IsSuccess\<close>, \<open>IsCancel\<close>, \<open>IsPending\<close> and the display title of a status.\<close>

definition IsSuccess :: "'d Transaction \<Rightarrow> bool" where
  "IsSuccess e = (txn_Status e = ''1'')"

definition IsCancel :: "'d Transaction \<Rightarrow> bool" where
  "IsCancel e = (txn_Status e = ''2'')"

definition IsPending :: "'d Transaction \<Rightarrow> bool" where
  "IsPending e = (txn_Status e = ''0'')"

definition GetStatusString :: "'d Transaction \<Rightarrow> string" where
  "GetStatusString e =
     (if txn_Status e = ''0'' then ''PENDING''
      else if txn_Status e = ''1'' then ''SUCCESS''
      else if txn_Status e = ''2'' then ''CANCEL''
      else ''UNKNOWN: '' @ txn_Status e)"

text \<open>The direct transaction API.\<close>

record 'd DoCreateTransactionRequest =
  dc_IsReserved :: bool
  dc_FromAccount :: string
  dc_ToAccount :: string
  dc_Amount :: 'd
  dc_Method :: string
  dc_TransactionType :: string
  dc_TransactionTime :: int
  dc_OrderType :: string
  dc_Description :: string
  dc_RefNumber :: string
  dc_Metadata :: "'d WalletMetadata"

definition ToTransactionReq :: "int \<Rightarrow> string \<Rightarrow> 'd DoCreateTransactionRequest \<Rightarrow> 'd TransactionReq" where
  "ToTransactionReq now uuid r =
     \<lparr>req_TransactionID = uuid, req_FromAccount = dc_FromAccount r, req_ToAccount = dc_ToAccount r,
      req_TransactionDate = FormatDateInLocalTime (dc_TransactionTime r),
      req_Amount = Some (dc_Amount r), req_Status = (if dc_IsReserved r then ''0'' else ''1''),
      req_Method = dc_Method r, req_TypeTransaction = dc_TransactionType r,
      req_Description = dc_Description r, req_RefNumber = dc_RefNumber r,
      req_Metadata = dc_Metadata r, req_OrderTime = now, req_OrderType = dc_OrderType r,
      req_TransactionTime = dc_TransactionTime r, req_Currency = ''IDR''\<rparr>"

section \<open>Accounts and VAT configuration\<close>

text \<open>What the code reads of an account.\<close>

record Account =
  acc_AccountNumber :: string
  acc_Entity :: string

record 'd ConfigVatRevenue =
  cv_Percentage :: 'd
  cv_StartTime :: int
  cv_EndTime :: int

text \<open>The first configuration whose open interval contains the instant.\<close>

fun GetActiveConfig :: "'d ConfigVatRevenue list \<Rightarrow> int \<Rightarrow> 'd ConfigVatRevenue result" where
  "GetActiveConfig [] t = Err (ErrorMsg ''no valid active config found'')"
| "GetActiveConfig (c # cs) t =
     (if cv_StartTime c < t \<and> t < cv_EndTime c then Ok c else GetActiveConfig cs t)"

lemma GetActiveConfig_Ok:
  "GetActiveConfig cs t = Inr c \<Longrightarrow> c \<in> set cs \<and> cv_StartTime c < t \<and> t < cv_EndTime c"
  by (induction cs) (auto split: if_splits)

end
