(* ===== verification/Database.thy ===== *)
theory Database
  imports Balance Models
begin

text \<open>
  The tables the core works on, in the shape of \<open>storages/migration.sql\<close>, database transactions
  (\<open>Atomic\<close> of \<open>internal/repositories/sql_main.go\<close>) and the repository of account balances
  (\<open>sql_balance.go\<close>, \<open>sql_account.go\<close> and \<open>common.go\<close>): how a row becomes a balance with its
  options, and how a balance is written back.  A statement is modelled by what it does to the
  rows; that the driver may fail any of them is the parameter \<open>fault\<close>.  The lemmas give the laws
  of the account table as an interface: a write is read back, and nothing else changes.
\<close>

section \<open>Tables\<close>

record 'd AccountRow =
  row_accountNumber :: string
  row_t24AccountNumber :: "string option"
  row_actualBalance :: 'd
  row_pendingBalance :: 'd
  row_isHvt :: bool
  row_version :: int
  row_updatedAt :: int

record 'd FeatureRow =
  feat_preset :: "string option"
  feat_negative_balance_allowed :: "bool option"
  feat_balance_range_min :: "'d option"
  feat_negative_balance_limit :: "'d option"
  feat_balance_range_max :: "'d option"

text \<open>
  The account table in the order of its account numbers, the features by account number (their
  primary key), the wallet transactions (with unique ids) and the ledger (with unique transaction ids).
\<close>

record 'd DB =
  db_account :: "'d AccountRow list"
  db_feature :: "string \<rightharpoonup> 'd FeatureRow"
  db_wallet_transaction :: "'d WalletTransaction list"
  db_transaction :: "'d Transaction list"

text \<open>
  The calls on the database that may fail, with the account where the code makes one call per account.  The
  last ten are on the tables of the money flow summaries.
\<close>

datatype (plugins only: code) dbCall =
    BeginTx
  | CommitTx
  | SelectAccounts
  | SelectVersion string
  | UpdateAccount string
  | SelectWalletTransaction
  | InsertWalletTransaction
  | UpdateWalletTransaction
  | InsertTransactions
  | SelectTransactions
  | UpdateTransaction
  | SelectInProgressSummary
  | SelectFailedSummary
  | SelectPendingSummary
  | SelectSummary
  | SelectSummaryByPapaID
  | SelectSummaries
  | UpsertSummaryRow
  | UpdateSummaryRow
  | SelectDetails
  | InsertDetail

record 'd FeatureConfig =
  fc_BalanceRangeMax :: 'd
  fc_AllowedNegativeTrxType :: "string list"
  fc_NegativeBalanceAllowed :: bool
  fc_NegativeLimit :: 'd

text \<open>
  What the repositories read of the configuration and the feature flags (the variant is \<open>None\<close> where it is
  not enabled), the clock, thirty days before the database's current date, the text of a decimal, the
  driver's faults, and the error a panic becomes in \<open>Atomic\<close>, which logs it with a library call.
\<close>

record 'd RepoConfig =
  AccountFeatureConfig :: "string \<rightharpoonup> 'd FeatureConfig"
  SystemAccounts :: "string list"
  SkipBalanceCheckAccountNumber :: "string list"
  OperationalReceivables :: "string list"
  IgnoredBalanceVariant :: "string list option result"
  BalanceLimitToggle :: bool
  now :: int
  thirtyDaysAgo :: int
  decimalText :: "'d \<Rightarrow> string"
  fault :: "dbCall \<Rightarrow> err option"
  panicError :: err

section \<open>Database transactions\<close>

text \<open>
  \<open>Atomic\<close>: the steps see their own writes; an error or a panic rolls them back, as does a commit that
  fails.  What the steps do outside the database (the variables of the caller they assign, the
  messages they publish) is not rolled back: the second component of the state.
\<close>

definition Atomic :: "'d RepoConfig \<Rightarrow> ('s \<times> 'v, 'a) exec \<Rightarrow> ('s \<times> 'v, 'a) exec" where
  "Atomic cfg steps s =
     (case fault cfg BeginTx of
        Some e \<Rightarrow> (Err e, s)
      | None \<Rightarrow>
          (case steps s of
             (Inl Panic, s') \<Rightarrow> (Err (panicError cfg), (fst s, snd s'))
           | (Inl e, s') \<Rightarrow> (Err e, (fst s, snd s'))
           | (Inr x, s') \<Rightarrow>
               (case fault cfg CommitTx of
                  Some e \<Rightarrow> (Err e, (fst s, snd s'))
                | None \<Rightarrow> (Ok x, s'))))"

text \<open>An error leaves the database as it was; success is that of the steps, committed.\<close>

lemma Atomic_Err_keeps: "Atomic cfg steps s = (Inl e, s') \<Longrightarrow> fst s' = fst s"
  by (auto simp: Atomic_def split: option.splits prod.splits sum.splits err.splits)

lemma Atomic_Ok_iff:
  "Atomic cfg steps s = (Inr x, s') \<longleftrightarrow>
     fault cfg BeginTx = None \<and> steps s = (Inr x, s') \<and> fault cfg CommitTx = None"
  by (auto simp: Atomic_def split: option.splits prod.splits sum.splits err.splits)

text \<open>Statements in a transaction, changes of the second component, and checks.\<close>

definition onDb :: "('s, 'a) exec \<Rightarrow> ('s \<times> 'v, 'a) exec" where
  "onDb f s = (case f (fst s) of (r, db) \<Rightarrow> (r, (db, snd s)))"

definition readDb :: "('s \<Rightarrow> 'a result) \<Rightarrow> ('s \<times> 'v, 'a) exec" where
  "readDb f s = (f (fst s), s)"

definition assign :: "('v \<Rightarrow> 'v) \<Rightarrow> ('s \<times> 'v, unit) exec" where
  "assign f s = (Ok (), (fst s, f (snd s)))"

text \<open>\<open>fmt.Errorf("...: %w", err)\<close> around a call; a panic goes through.\<close>

fun wrapErr :: "string \<Rightarrow> err \<Rightarrow> err" where
  "wrapErr text Panic = Panic"
| "wrapErr text e = Wrapped e text"

definition wrapping :: "string \<Rightarrow> ('s, 'a) exec \<Rightarrow> ('s, 'a) exec" where
  "wrapping text m s = (case m s of (Inl e, s') \<Rightarrow> (Err (wrapErr text e), s') | (Inr x, s') \<Rightarrow> (Ok x, s'))"

lemma wrapping_Ok_iff [simp]: "wrapping text m s = (Inr x, s') \<longleftrightarrow> m s = (Inr x, s')"
  by (auto simp: wrapping_def split: prod.splits sum.splits)

lemma onDb_iff: "onDb f s = (r, s') \<longleftrightarrow> f (fst s) = (r, fst s') \<and> snd s' = snd s"
  by (cases s'; auto simp: onDb_def split: prod.splits)

lemma readDb_iff: "readDb f s = (r, s') \<longleftrightarrow> f (fst s) = r \<and> s' = s"
  by (auto simp: readDb_def)

lemma assign_iff: "assign f s = (r, s') \<longleftrightarrow> r = Inr () \<and> s' = (fst s, f (snd s))"
  by (auto simp: assign_def)

section \<open>From a row to a balance\<close>

record 'd AccountBalanceFeature =
  abf_AccountNumber :: string
  abf_T24AccountNumber :: string
  abf_Actual :: 'd
  abf_Pending :: 'd
  abf_IsHVT :: "bool option"
  abf_Version :: "int option"
  abf_LastUpdatedAt :: int
  abf_Preset :: "string option"
  abf_AllowedNegativeBalance :: "bool option"
  abf_BalanceRangeMin :: "'d option"
  abf_NegativeBalanceLimit :: "'d option"
  abf_BalanceRangeMax :: "'d option"

text \<open>The columns of the queries: the account left-joined with its feature, the preset in lower case.\<close>

definition scanRow :: "'d DB \<Rightarrow> 'd AccountRow \<Rightarrow> 'd AccountBalanceFeature" where
  "scanRow db r =
     (let feature = db_feature db (row_accountNumber r)
      in \<lparr>abf_AccountNumber = row_accountNumber r,
          abf_T24AccountNumber = (case row_t24AccountNumber r of None \<Rightarrow> '''' | Some n \<Rightarrow> n),
          abf_Actual = row_actualBalance r, abf_Pending = row_pendingBalance r,
          abf_IsHVT = Some (row_isHvt r), abf_Version = Some (row_version r),
          abf_LastUpdatedAt = row_updatedAt r,
          abf_Preset = map_option (map toLowerAscii) (Option.bind feature feat_preset),
          abf_AllowedNegativeBalance = Option.bind feature feat_negative_balance_allowed,
          abf_BalanceRangeMin = Option.bind feature feat_balance_range_min,
          abf_NegativeBalanceLimit = Option.bind feature feat_negative_balance_limit,
          abf_BalanceRangeMax = Option.bind feature feat_balance_range_max\<rparr>)"

definition createBalanceOptions ::
  "'d::linordered_idom RepoConfig \<Rightarrow> string list \<Rightarrow> 'd AccountBalanceFeature \<Rightarrow> 'd BalanceOption list result" where
  "createBalanceOptions cfg ignoredAccounts abf =
     (let preset = (case abf_Preset abf of None \<Rightarrow> ''customer'' | Some p \<Rightarrow> p)
      in case AccountFeatureConfig cfg preset of
           None \<Rightarrow> Err (ErrorMsg (''preset not found: '' @
                                  (case abf_Preset abf of None \<Rightarrow> '''' | Some p \<Rightarrow> p)))
         | Some defaultFeature \<Rightarrow>
             (let fromDbAllowed = (abf_AllowedNegativeBalance abf = Some True);
                  defaultLimit = fc_NegativeLimit defaultFeature;
                  limit = (if fromDbAllowed
                           then (case abf_NegativeBalanceLimit abf of None \<Rightarrow> defaultLimit | Some l \<Rightarrow> l)
                           else defaultLimit)
              in Ok ((if abf_AccountNumber abf \<in> set ignoredAccounts
                      then [WithIgnoreBalanceSufficiency] else []) @
                     (if fc_AllowedNegativeTrxType defaultFeature \<noteq> []
                      then [WithAllowedNegativeBalanceTransactionTypes (fc_AllowedNegativeTrxType defaultFeature)]
                      else []) @
                     (if fromDbAllowed then [WithNegativeBalanceLimit limit] else []) @
                     (if abf_AllowedNegativeBalance abf = None \<and> fc_NegativeBalanceAllowed defaultFeature
                      then [WithNegativeBalanceLimit limit] else []) @
                     (if abf_IsHVT abf = Some True then [WithHVT] else []) @
                     (case abf_Version abf of None \<Rightarrow> [] | Some v \<Rightarrow> [WithVersion v]) @
                     [case abf_BalanceRangeMax abf of
                        None \<Rightarrow> WithBalanceRangeMax (fc_BalanceRangeMax defaultFeature)
                      | Some m \<Rightarrow> WithBalanceRangeMax (if m \<le> 0 then fc_BalanceRangeMax defaultFeature else m),
                      WithLastUpdatedAt (abf_LastUpdatedAt abf),
                      WithBalanceLimitEnabled (BalanceLimitToggle cfg)])))"

lemmas balance_option_defs =
  NewBalance_def WithIgnoreBalanceSufficiency_def WithAllowedNegativeBalanceTransactionTypes_def
  WithNegativeBalanceLimit_def WithHVT_def WithVersion_def WithLastUpdatedAt_def
  WithSkipBalanceUpdateOnDB_def WithBalanceLimitEnabled_def WithBalanceRangeMax_def

lemma options_keep:
  "(\<And>option c. option \<in> set opts \<Longrightarrow> f (option c) = f c) \<Longrightarrow>
     f (foldl (\<lambda>b option. option b) b opts) = f b"
  by (induction opts arbitrary: b) auto

text \<open>The options of a row leave its amounts, and never take it off the database.\<close>

lemma createBalanceOptions_only:
  assumes "createBalanceOptions cfg ignored abf = Inr opts" and "option \<in> set opts"
  shows "(\<exists>x. option \<in> {WithIgnoreBalanceSufficiency, WithHVT, WithNegativeBalanceLimit x, WithBalanceRangeMax x}) \<or>
         (\<exists>tys. option = WithAllowedNegativeBalanceTransactionTypes tys) \<or> (\<exists>v. option = WithVersion v) \<or>
         (\<exists>t. option = WithLastUpdatedAt t) \<or> (\<exists>e. option = WithBalanceLimitEnabled e)"
proof -
  obtain f where f: "AccountFeatureConfig cfg (case abf_Preset abf of None \<Rightarrow> ''customer'' | Some p \<Rightarrow> p) = Some f"
    using assms by (auto simp: createBalanceOptions_def Let_def split: option.splits)
  have single: "x \<in> set (if c then [y] else []) \<longleftrightarrow> c \<and> x = y" for x y :: "'a BalanceOption" and c
    by auto
  note opts = assms(1) [unfolded createBalanceOptions_def Let_def f option.case sum.inject, symmetric]
  show ?thesis
    using assms(2) unfolding opts set_append Un_iff single
    by (elim disjE conjE) (auto split: option.splits)
qed

lemma createBalanceOptions_balance:
  assumes "createBalanceOptions cfg ignored abf = Inr opts"
  shows "actualBalance (NewBalance a p opts) = a" "pendingBalance (NewBalance a p opts) = p"
    "isSkipBalanceUpdateOnDB (NewBalance a p opts) = False"
proof -
  have "actualBalance (option c) = actualBalance c \<and> pendingBalance (option c) = pendingBalance c \<and>
        isSkipBalanceUpdateOnDB (option c) = isSkipBalanceUpdateOnDB c" if "option \<in> set opts" for option c
    using createBalanceOptions_only [OF assms that] by (auto simp: balance_option_defs)
  then show "actualBalance (NewBalance a p opts) = a" "pendingBalance (NewBalance a p opts) = p"
    "isSkipBalanceUpdateOnDB (NewBalance a p opts) = False"
    by (simp_all add: NewBalance_def options_keep)
qed

section \<open>The balance repository\<close>

record 'd AccountBalance =
  ab_AccountNumber :: string
  ab_T24AccountNumber :: string
  ab_Balance :: "'d Balance"

record 'd GetAccountBalanceRequest =
  gr_AccountNumbers :: "string list"
  gr_ExcludeHVT :: bool
  gr_ForUpdate :: bool
  gr_AccountNumbersExcludedFromDB :: "string list"
  gr_OverrideBalanceOpts :: "'d BalanceOption list"

definition getIgnoredAccounts :: "'d RepoConfig \<Rightarrow> string list result" where
  "getIgnoredAccounts cfg =
     rbind (IgnoredBalanceVariant cfg) (\<lambda>variant.
       Ok ((case variant of None \<Rightarrow> [] | Some numbers \<Rightarrow> numbers) @ SystemAccounts cfg @
           SkipBalanceCheckAccountNumber cfg @ OperationalReceivables cfg))"

definition isNumeric :: "string \<Rightarrow> bool" where
  "isNumeric s \<longleftrightarrow> s \<noteq> '''' \<and> (\<forall>c\<in>set s. 48 \<le> (of_char c :: nat) \<and> (of_char c :: nat) \<le> 57)"

definition isAccountNumbersPASFormat :: "string list \<Rightarrow> bool" where
  "isAccountNumbersPASFormat accountNumbers =
     list_all (\<lambda>s. isNumeric s \<and> length s > 14) accountNumbers"

text \<open>
  The rows that \<open>buildGetManyAccountBalanceQuery\<close> selects.  Locking them makes no difference to the result.
\<close>

definition buildGetManyAccountBalanceQuery ::
  "'d GetAccountBalanceRequest \<Rightarrow> string list \<Rightarrow> 'd AccountRow list \<Rightarrow> 'd AccountRow list" where
  "buildGetManyAccountBalanceQuery req ignoredAccounts rows =
     (let accountNumbers = filter (\<lambda>n. n \<notin> set (gr_AccountNumbersExcludedFromDB req) \<and>
                                       n \<notin> set ignoredAccounts) (gr_AccountNumbers req);
          byNumber = (\<lambda>r. row_accountNumber r \<in> set accountNumbers);
          byLegacy = (\<lambda>r. case row_t24AccountNumber r of None \<Rightarrow> False | Some n \<Rightarrow> n \<in> set accountNumbers);
          selected = (\<lambda>r. if isAccountNumbersPASFormat (gr_AccountNumbers req) then byNumber r
                          else byNumber r \<or> byLegacy r)
      in filter (\<lambda>r. selected r \<and> (gr_ExcludeHVT req \<longrightarrow> \<not> row_isHvt r)) rows)"

text \<open>A row of the result: its balance has the options of the row, then those of the request.\<close>

definition loadBalance ::
  "'d::linordered_idom RepoConfig \<Rightarrow> string list \<Rightarrow> 'd BalanceOption list \<Rightarrow> 'd DB \<Rightarrow> 'd AccountRow \<Rightarrow>
     'd AccountBalance result" where
  "loadBalance cfg ignoredAccounts overrides db r =
     (let abf = scanRow db r
      in rbind (createBalanceOptions cfg ignoredAccounts abf) (\<lambda>balanceOpts.
         Ok \<lparr>ab_AccountNumber = abf_AccountNumber abf, ab_T24AccountNumber = abf_T24AccountNumber abf,
             ab_Balance = NewBalance (abf_Actual abf) (abf_Pending abf) (balanceOpts @ overrides)\<rparr>))"

definition GetMany ::
  "'d::linordered_idom RepoConfig \<Rightarrow> 'd GetAccountBalanceRequest \<Rightarrow> 'd DB \<Rightarrow> 'd AccountBalance list result" where
  "GetMany cfg req db =
     rbind (getIgnoredAccounts cfg) (\<lambda>ignoredAccounts.
     rbind (failIf (fault cfg SelectAccounts)) (\<lambda>_.
     rbind (traverse (loadBalance cfg ignoredAccounts (gr_OverrideBalanceOpts req) db)
              (buildGetManyAccountBalanceQuery req ignoredAccounts (db_account db))) (\<lambda>res.
     Ok (res @
         map (\<lambda>accountNumber.
                \<lparr>ab_AccountNumber = accountNumber, ab_T24AccountNumber = '''',
                 ab_Balance = NewBalance 0 0
                   [WithIgnoreBalanceSufficiency, WithSkipBalanceUpdateOnDB,
                    WithBalanceLimitEnabled (BalanceLimitToggle cfg)]\<rparr>)
           (filter (\<lambda>n. n \<in> set (gr_AccountNumbersExcludedFromDB req) \<or> n \<in> set ignoredAccounts)
              (gr_AccountNumbers req))))))"

text \<open>
  \<open>Get\<close>: the first row of the accounts with that legacy number and the account with that number.
\<close>

definition Get :: "'d::linordered_idom RepoConfig \<Rightarrow> string \<Rightarrow> 'd DB \<Rightarrow> 'd AccountBalance result" where
  "Get cfg accountNumber db =
     rbind (failIf (fault cfg SelectAccounts)) (\<lambda>_.
     case filter (\<lambda>r. row_t24AccountNumber r = Some accountNumber) (db_account db) @
          filter (\<lambda>r. row_accountNumber r = accountNumber) (db_account db) of
       [] \<Rightarrow> Err (Sentinel ErrNoRows)
     | r # _ \<Rightarrow>
         rbind (getIgnoredAccounts cfg) (\<lambda>ignoredAccounts. loadBalance cfg ignoredAccounts [] db r))"

lemma loadBalance_Ok:
  assumes "loadBalance cfg ignored [] db r = Inr v"
  shows "ab_AccountNumber v = row_accountNumber r \<and> actualBalance (ab_Balance v) = row_actualBalance r \<and>
         pendingBalance (ab_Balance v) = row_pendingBalance r \<and> \<not> isSkipBalanceUpdateOnDB (ab_Balance v)"
proof -
  from assms obtain opts where "createBalanceOptions cfg ignored (scanRow db r) = Inr opts"
    and "ab_AccountNumber v = row_accountNumber r"
    and "ab_Balance v = NewBalance (row_actualBalance r) (row_pendingBalance r) opts"
    by (auto simp: loadBalance_def rbind_Ok_iff scanRow_def Let_def)
  with createBalanceOptions_balance [OF this(1)] show ?thesis by simp
qed

text \<open>\<open>GetAccountBalances\<close>, the older loader of the direct transactions: a Go map, without the features.\<close>

definition GetAccountBalances ::
  "'d::linordered_idom RepoConfig \<Rightarrow> 'd GetAccountBalanceRequest \<Rightarrow> 'd DB \<Rightarrow> (string \<rightharpoonup> 'd Balance) result" where
  "GetAccountBalances cfg req db =
     rbind (failIf (fault cfg SelectAccounts)) (\<lambda>_.
     Ok (map_of (map (\<lambda>r. (row_accountNumber r,
                            NewBalance (row_actualBalance r) (row_pendingBalance r)
                              [WithVersion (row_version r), WithLastUpdatedAt (row_updatedAt r),
                               WithBalanceLimitEnabled (BalanceLimitToggle cfg)]))
                  (filter (\<lambda>r. row_accountNumber r \<in> set (gr_AccountNumbers req) \<and>
                               (gr_ExcludeHVT req \<longrightarrow> \<not> row_isHvt r)) (db_account db)))))"

text \<open>
  \<open>UpdateAccountBalance\<close>: reads the current version, then updates the row that still has it.  What it
  answers has only the amounts, the new version and the limit toggle.
\<close>

definition UpdateAccountBalance ::
  "'d::linordered_idom RepoConfig \<Rightarrow> string \<Rightarrow> 'd Balance \<Rightarrow> ('d DB, 'd Balance) exec" where
  "UpdateAccountBalance cfg accountNumber balance db =
     (case fault cfg (SelectVersion accountNumber) of
        Some e \<Rightarrow> (Err e, db)
      | None \<Rightarrow>
          (case filter (\<lambda>r. row_accountNumber r = accountNumber) (db_account db) of
             [] \<Rightarrow> (Err (Sentinel ErrNoRows), db)
           | current # _ \<Rightarrow>
               (case fault cfg (UpdateAccount accountNumber) of
                  Some e \<Rightarrow> (Err e, db)
                | None \<Rightarrow>
                    (let v = row_version current;
                         matches = (\<lambda>r. row_accountNumber r = accountNumber \<and> row_version r = v)
                     in if filter matches (db_account db) = [] then (Err (Sentinel ErrNoRowsAffected), db)
                        else
                          (Ok (NewBalance (actualBalance balance) (pendingBalance balance)
                                 [WithVersion (v + 1), WithLastUpdatedAt (now cfg),
                                  WithBalanceLimitEnabled (BalanceLimitToggle cfg)]),
                           db\<lparr>db_account :=
                                map (\<lambda>r. if matches r
                                         then r\<lparr>row_actualBalance := actualBalance balance,
                                                row_pendingBalance := pendingBalance balance,
                                                row_version := v + 1, row_updatedAt := now cfg\<rparr>
                                         else r) (db_account db)\<rparr>)))))"

text \<open>\<open>AdjustAccountBalance\<close>: adds to the balance in place; the version stays.\<close>

definition AdjustAccountBalance ::
  "'d::linordered_idom RepoConfig \<Rightarrow> string \<Rightarrow> 'd \<Rightarrow> ('d DB, unit) exec" where
  "AdjustAccountBalance cfg accountNumber updateAmount db =
     (case fault cfg (UpdateAccount accountNumber) of
        Some e \<Rightarrow> (Err e, db)
      | None \<Rightarrow>
          if filter (\<lambda>r. row_accountNumber r = accountNumber) (db_account db) = []
          then (Err (Sentinel ErrNoRowsAffected), db)
          else (Ok (),
                db\<lparr>db_account :=
                     map (\<lambda>r. if row_accountNumber r = accountNumber
                              then r\<lparr>row_actualBalance := row_actualBalance r + updateAmount,
                                     row_updatedAt := now cfg\<rparr>
                              else r) (db_account db)\<rparr>))"

section \<open>The account table as an interface\<close>

text \<open>
  The loop \<open>for account, balance := range balances\<close> over the entries of a map in
  the order of the visit, which updates each.  What the services rely on in the table: each account
  has an actual and a pending balance; a successful update sets those of its account,
  which exists, and changes nothing else.
\<close>

fun updateEach :: "(string \<Rightarrow> 'b \<Rightarrow> ('s, 'x) exec) \<Rightarrow> (string \<times> 'b) list \<Rightarrow> ('s, unit) exec" where
  "updateEach update [] s = (Ok (), s)"
| "updateEach update ((a, b) # rest) s = bind (update a b) (\<lambda>_. updateEach update rest) s"

locale balance_table =
  fixes funds :: "'s \<Rightarrow> string \<Rightarrow> ('d::linordered_idom \<times> 'd) option"
    and others :: "'s \<Rightarrow> 'r"
    and update :: "string \<Rightarrow> 'd Balance \<Rightarrow> ('s, 'd Balance) exec"
  assumes update_known: "update a b s = (Inr ub, s') \<Longrightarrow> funds s a \<noteq> None"
    and update_funds:
      "update a b s = (Inr ub, s') \<Longrightarrow> funds s' = (funds s)(a \<mapsto> (actualBalance b, pendingBalance b))"
    and update_others: "update a b s = (Inr ub, s') \<Longrightarrow> others s' = others s"
begin

text \<open>A run of updates of different accounts.\<close>

lemma updates_Ok:
  assumes "updateEach update xs s = (Inr u, s')" and "distinct (map fst xs)"
  shows "funds s' = (\<lambda>a. case map_of xs a of None \<Rightarrow> funds s a
                                | Some b \<Rightarrow> Some (actualBalance b, pendingBalance b)) \<and>
         others s' = others s \<and> (\<forall>a\<in>fst ` set xs. funds s a \<noteq> None)"
  using assms
proof (induction xs arbitrary: s)
  case Nil
  then show ?case by simp
next
  case (Cons ab xs)
  obtain a b where ab: "ab = (a, b)" by (cases ab)
  with Cons.prems(1) obtain ub t where step: "update a b s = (Inr ub, t)"
    and rest: "updateEach update xs t = (Inr u, s')"
    by (auto simp: bind_Ok_iff)
  have "a \<notin> fst ` set xs" and "distinct (map fst xs)"
    using Cons.prems(2) ab by auto
  moreover from this have "map_of xs a = None"
    by (simp add: map_of_eq_None_iff)
  ultimately show ?case
    using Cons.IH [OF rest] update_known [OF step] update_funds [OF step] update_others [OF step] ab
    by (auto simp: fun_eq_iff split: if_splits option.splits)
qed

end

definition fundsOf :: "'d DB \<Rightarrow> string \<Rightarrow> ('d \<times> 'd) option" where
  "fundsOf db a =
     map_option (\<lambda>r. (row_actualBalance r, row_pendingBalance r))
       (find (\<lambda>r. row_accountNumber r = a) (db_account db))"

text \<open>What an update leaves: the accounts there are, and the other tables.\<close>

definition otherTables ::
  "'d DB \<Rightarrow> string list \<times> (string \<rightharpoonup> 'd FeatureRow) \<times> 'd WalletTransaction list \<times> 'd Transaction list" where
  "otherTables db =
     (map row_accountNumber (db_account db), db_feature db, db_wallet_transaction db, db_transaction db)"

lemma find_filter: "find P xs = (case filter P xs of [] \<Rightarrow> None | x # _ \<Rightarrow> Some x)"
  by (induction xs) auto

lemma find_map_other:
  assumes "\<And>r. row_accountNumber (g r) = row_accountNumber r"
    and "\<And>r. row_accountNumber r = a \<Longrightarrow> g r = r"
  shows "find (\<lambda>r. row_accountNumber r = a) (map g rows) = find (\<lambda>r. row_accountNumber r = a) rows"
  using assms by (induction rows) auto

lemma find_map_first:
  assumes "\<And>r. row_accountNumber (g r) = row_accountNumber r"
    and "find (\<lambda>r. row_accountNumber r = a) rows = Some r"
  shows "find (\<lambda>r. row_accountNumber r = a) (map g rows) = Some (g r)"
  using assms(2) by (induction rows) (auto simp: assms(1) split: if_splits)

lemma UpdateAccountBalance_Ok_iff:
  "UpdateAccountBalance cfg a b db = (Inr ub, db') \<longleftrightarrow>
     (\<exists>r. fault cfg (SelectVersion a) = None \<and> fault cfg (UpdateAccount a) = None \<and>
       find (\<lambda>r. row_accountNumber r = a) (db_account db) = Some r \<and>
       ub = NewBalance (actualBalance b) (pendingBalance b)
              [WithVersion (row_version r + 1), WithLastUpdatedAt (now cfg),
               WithBalanceLimitEnabled (BalanceLimitToggle cfg)] \<and>
       db' = db\<lparr>db_account :=
         map (\<lambda>x. if row_accountNumber x = a \<and> row_version x = row_version r
                  then x\<lparr>row_actualBalance := actualBalance b, row_pendingBalance := pendingBalance b,
                         row_version := row_version r + 1, row_updatedAt := now cfg\<rparr>
                  else x) (db_account db)\<rparr>)"
proof -
  have "filter (\<lambda>x. row_accountNumber x = a \<and> row_version x = row_version r) (db_account db) \<noteq> []"
    if "filter (\<lambda>r. row_accountNumber r = a) (db_account db) = r # rs" for r rs
  proof -
    from that have "r \<in> set (filter (\<lambda>r. row_accountNumber r = a) (db_account db))"
      by simp
    then show ?thesis by (auto simp: filter_empty_conv)
  qed
  then show ?thesis
    by (auto simp: UpdateAccountBalance_def find_filter Let_def split: option.splits list.splits if_splits)
qed

interpretation account_table: balance_table fundsOf otherTables "UpdateAccountBalance cfg"
proof unfold_locales
  fix a b db ub db'
  assume "UpdateAccountBalance cfg a b db = (Inr ub, db')"
  then obtain r where row: "find (\<lambda>r. row_accountNumber r = a) (db_account db) = Some r"
    and db': "db' = db\<lparr>db_account :=
         map (\<lambda>x. if row_accountNumber x = a \<and> row_version x = row_version r
                  then x\<lparr>row_actualBalance := actualBalance b, row_pendingBalance := pendingBalance b,
                         row_version := row_version r + 1, row_updatedAt := now cfg\<rparr>
                  else x) (db_account db)\<rparr>"
    by (auto simp: UpdateAccountBalance_Ok_iff)
  show "fundsOf db a \<noteq> None"
    using row by (simp add: fundsOf_def)
  show "otherTables db' = otherTables db"
    by (simp add: db' otherTables_def comp_def if_distrib [where f = row_accountNumber] cong: if_cong)
  show "fundsOf db' = (fundsOf db)(a \<mapsto> (actualBalance b, pendingBalance b))"
  proof (rule ext)
    fix c
    have "row_accountNumber r = a" using row by (auto simp: find_Some_iff)
    then show "fundsOf db' c = ((fundsOf db)(a \<mapsto> (actualBalance b, pendingBalance b))) c"
      using row by (cases "c = a") (simp_all add: fundsOf_def db' find_map_first find_map_other)
  qed
qed

lemma update_returns:
  "UpdateAccountBalance cfg a b db = (Inr ub, db') \<Longrightarrow>
     actualBalance ub = actualBalance b \<and> pendingBalance ub = pendingBalance b"
  by (auto simp: UpdateAccountBalance_Ok_iff balance_option_defs)

lemma AdjustAccountBalance_Ok:
  assumes "AdjustAccountBalance cfg a x db = (Inr u, db')"
  shows "otherTables db' = otherTables db \<and> fundsOf db a \<noteq> None \<and>
         fundsOf db' = (fundsOf db)(a := map_option (\<lambda>(act, pend). (act + x, pend)) (fundsOf db a))"
proof -
  let ?g = "\<lambda>r. if row_accountNumber r = a
                then r\<lparr>row_actualBalance := row_actualBalance r + x, row_updatedAt := now cfg\<rparr> else r"
  from assms have rows: "filter (\<lambda>r. row_accountNumber r = a) (db_account db) \<noteq> []"
    and db': "db' = db\<lparr>db_account := map ?g (db_account db)\<rparr>"
    by (auto simp: AdjustAccountBalance_def split: option.splits if_splits)
  obtain r where r: "find (\<lambda>r. row_accountNumber r = a) (db_account db) = Some r"
    using rows by (cases "filter (\<lambda>r. row_accountNumber r = a) (db_account db)") (simp_all add: find_filter)
  then have ra: "row_accountNumber r = a" by (auto simp: find_Some_iff)
  show ?thesis
    using r ra by (auto simp: otherTables_def fundsOf_def db' fun_eq_iff find_map_first find_map_other)
qed

end
