(* ===== verification/TransactionSets.thy ===== *)
theory TransactionSets
  imports Balance
begin

text \<open>
  The balance calculators: \<open>TransactionSet\<close> of \<open>internal/models/transaction_set.go\<close>,
  \<open>WalletTransactionSet\<close> of \<open>transaction_wallet.go\<close> and the functions of
  \<open>internal/services/common.go\<close> that choose one.  Every calculator updates the caller's
  Go map in place: it returns the map and an error, and after an error the map may hold the debit
  that was already stored.  The model returns both for that reason.  The lemmas show
  which accounts a calculator may touch, that the calculators conserve money, also when
  folded over the transactions of a request, and that reserving then settling is the direct transfer.
\<close>

section \<open>The shared steps\<close>

type_synonym 'd balances = "string \<rightharpoonup> 'd Balance"

type_synonym 'd calcResult = "'d balances \<times> err option"

text \<open>
  The block every calculator is built from: look the account up, run the balance operation
  on the copy, store the copy back when it succeeded.
\<close>

definition updateAccount ::
  "string \<Rightarrow> string \<Rightarrow> ('d Balance \<Rightarrow> 'd Balance result) \<Rightarrow> 'd balances \<Rightarrow> 'd calcResult" where
  "updateAccount label acc operation accountBalance =
     (case accountBalance acc of
        None \<Rightarrow> (accountBalance, Some (ErrorMsg (label @ acc)))
      | Some balance \<Rightarrow>
          (case operation balance of
             Inl e \<Rightarrow> (accountBalance, Some e)
           | Inr balance' \<Rightarrow> (accountBalance(acc \<mapsto> balance'), None)))"

text \<open>\<open>if err != nil { return accountBalance, err }\<close>, then the rest of the function.\<close>

fun andThen :: "'d calcResult \<Rightarrow> ('d balances \<Rightarrow> 'd calcResult) \<Rightarrow> 'd calcResult" where
  "andThen (m, Some e) k = (m, Some e)"
| "andThen (m, None) k = k m"

section \<open>TransactionSet\<close>

record 'd TransactionSet =
  ts_FromAccount :: string
  ts_ToAccount :: string
  ts_Amount :: 'd

definition NewTransactionSet :: "string \<Rightarrow> string \<Rightarrow> 'd \<Rightarrow> 'd TransactionSet" where
  "NewTransactionSet fromAccount toAccount amount =
     \<lparr>ts_FromAccount = fromAccount, ts_ToAccount = toAccount, ts_Amount = amount\<rparr>"

definition Calculate :: "'d::linordered_idom TransactionSet \<Rightarrow> 'd balances \<Rightarrow> 'd calcResult" where
  "Calculate trx accountBalance =
     andThen
       (updateAccount ''source account not found: '' (ts_FromAccount trx)
          (\<lambda>b. Withdraw b (ts_Amount trx) []) accountBalance)
       (updateAccount ''destination account not found: '' (ts_ToAccount trx)
          (\<lambda>b. AddFunds b (ts_Amount trx) []))"

definition CalculateReserve :: "'d::linordered_idom TransactionSet \<Rightarrow> 'd balances \<Rightarrow> 'd calcResult" where
  "CalculateReserve trx =
     updateAccount ''source account not found: '' (ts_FromAccount trx)
       (\<lambda>b. Reserve b (ts_Amount trx) [])"

definition CalculateCommit :: "'d::linordered_idom TransactionSet \<Rightarrow> 'd balances \<Rightarrow> 'd calcResult" where
  "CalculateCommit trx accountBalance =
     andThen
       (updateAccount ''source account not found: '' (ts_FromAccount trx)
          (\<lambda>b. Commit b (ts_Amount trx) []) accountBalance)
       (updateAccount ''destination account not found: '' (ts_ToAccount trx)
          (\<lambda>b. AddFunds b (ts_Amount trx) []))"

definition CalculateCancel :: "'d::linordered_idom TransactionSet \<Rightarrow> 'd balances \<Rightarrow> 'd calcResult" where
  "CalculateCancel trx =
     updateAccount ''source account not found: '' (ts_FromAccount trx)
       (\<lambda>b. CancelReservation b (ts_Amount trx) [])"

section \<open>WalletTransactionSet\<close>

record 'd WalletTransactionSet =
  wts_FromAccount :: string
  wts_ToAccount :: string
  wts_TransactionType :: string
  wts_Amount :: 'd

definition NewWalletTransactionSet ::
  "string \<Rightarrow> string \<Rightarrow> 'd \<Rightarrow> string \<Rightarrow> 'd WalletTransactionSet" where
  "NewWalletTransactionSet fromAccount toAccount amount transactionType =
     \<lparr>wts_FromAccount = fromAccount, wts_ToAccount = toAccount,
      wts_TransactionType = transactionType, wts_Amount = amount\<rparr>"

definition CalculateCashIn :: "'d::linordered_idom WalletTransactionSet \<Rightarrow> 'd balances \<Rightarrow> 'd calcResult" where
  "CalculateCashIn trx accountBalance =
     andThen
       (updateAccount ''source account not found: '' (wts_FromAccount trx)
          (\<lambda>b. Withdraw b (wts_Amount trx) [WithTransactionType (wts_TransactionType trx)]) accountBalance)
       (updateAccount ''to account not found: '' (wts_ToAccount trx)
          (\<lambda>b. AddFunds b (wts_Amount trx) [WithTransactionType (wts_TransactionType trx)]))"

text \<open>Does nothing: the balance moved when the cash-in was reserved.\<close>

definition CalculateCashInCommit :: "'d WalletTransactionSet \<Rightarrow> 'd balances \<Rightarrow> 'd calcResult" where
  "CalculateCashInCommit trx accountBalance = (accountBalance, None)"

text \<open>Withdraws from the account that the code's messages call the destination: \<open>FromAccount\<close>.\<close>

definition CalculateCashInCancel ::
  "'d::linordered_idom WalletTransactionSet \<Rightarrow> 'd balances \<Rightarrow> 'd calcResult" where
  "CalculateCashInCancel trx =
     updateAccount ''destination account not found: '' (wts_FromAccount trx)
       (\<lambda>b. Withdraw b (wts_Amount trx) [WithTransactionType (wts_TransactionType trx)])"

definition CalculateCashOut :: "'d::linordered_idom WalletTransactionSet \<Rightarrow> 'd balances \<Rightarrow> 'd calcResult" where
  "CalculateCashOut trx accountBalance =
     andThen
       (updateAccount ''source account not found: '' (wts_FromAccount trx)
          (\<lambda>b. Withdraw b (wts_Amount trx) [WithTransactionType (wts_TransactionType trx)]) accountBalance)
       (updateAccount ''destination account not found: '' (wts_ToAccount trx)
          (\<lambda>b. AddFunds b (wts_Amount trx) [WithTransactionType (wts_TransactionType trx)]))"

definition CalculateCashOutReserve ::
  "'d::linordered_idom WalletTransactionSet \<Rightarrow> 'd balances \<Rightarrow> 'd calcResult" where
  "CalculateCashOutReserve trx =
     updateAccount ''source account not found: '' (wts_FromAccount trx)
       (\<lambda>b. Reserve b (wts_Amount trx) [WithTransactionType (wts_TransactionType trx)])"

definition CalculateCashOutCommit ::
  "'d::linordered_idom WalletTransactionSet \<Rightarrow> 'd balances \<Rightarrow> 'd calcResult" where
  "CalculateCashOutCommit trx accountBalance =
     andThen
       (updateAccount ''source account not found: '' (wts_FromAccount trx)
          (\<lambda>b. Commit b (wts_Amount trx) [WithTransactionType (wts_TransactionType trx)]) accountBalance)
       (updateAccount ''destination account not found: '' (wts_ToAccount trx)
          (\<lambda>b. AddFunds b (wts_Amount trx) [WithTransactionType (wts_TransactionType trx)]))"

definition CalculateCashOutCancel ::
  "'d::linordered_idom WalletTransactionSet \<Rightarrow> 'd balances \<Rightarrow> 'd calcResult" where
  "CalculateCashOutCancel trx =
     updateAccount ''source account not found: '' (wts_FromAccount trx)
       (\<lambda>b. CancelReservation b (wts_Amount trx) [WithTransactionType (wts_TransactionType trx)])"

definition CalculateTransfer :: "'d::linordered_idom WalletTransactionSet \<Rightarrow> 'd balances \<Rightarrow> 'd calcResult" where
  "CalculateTransfer trx accountBalance =
     andThen
       (updateAccount ''source account not found: '' (wts_FromAccount trx)
          (\<lambda>b. Withdraw b (wts_Amount trx) [WithTransactionType (wts_TransactionType trx)]) accountBalance)
       (updateAccount ''destination account not found: '' (wts_ToAccount trx)
          (\<lambda>b. AddFunds b (wts_Amount trx) [WithTransactionType (wts_TransactionType trx)]))"

definition CalculateTransferReserve ::
  "'d::linordered_idom WalletTransactionSet \<Rightarrow> 'd balances \<Rightarrow> 'd calcResult" where
  "CalculateTransferReserve trx =
     updateAccount ''source account not found: '' (wts_FromAccount trx)
       (\<lambda>b. Reserve b (wts_Amount trx) [WithTransactionType (wts_TransactionType trx)])"

definition CalculateTransferCommit ::
  "'d::linordered_idom WalletTransactionSet \<Rightarrow> 'd balances \<Rightarrow> 'd calcResult" where
  "CalculateTransferCommit trx accountBalance =
     andThen
       (updateAccount ''source account not found: '' (wts_FromAccount trx)
          (\<lambda>b. Commit b (wts_Amount trx) [WithTransactionType (wts_TransactionType trx)]) accountBalance)
       (updateAccount ''destination account not found: '' (wts_ToAccount trx)
          (\<lambda>b. AddFunds b (wts_Amount trx) [WithTransactionType (wts_TransactionType trx)]))"

definition CalculateTransferCancel ::
  "'d::linordered_idom WalletTransactionSet \<Rightarrow> 'd balances \<Rightarrow> 'd calcResult" where
  "CalculateTransferCancel trx =
     updateAccount ''source account not found: '' (wts_FromAccount trx)
       (\<lambda>b. CancelReservation b (wts_Amount trx) [WithTransactionType (wts_TransactionType trx)])"

section \<open>Choosing a calculator\<close>

datatype TransactionStoreProcessType = TransactionStoreProcessNormal | TransactionStoreProcessReserved

definition getBalanceCalculator ::
  "TransactionStoreProcessType \<Rightarrow> 'd::linordered_idom TransactionSet \<Rightarrow> 'd balances \<Rightarrow> 'd calcResult" where
  "getBalanceCalculator processType =
     (if processType = TransactionStoreProcessReserved then CalculateReserve else Calculate)"

text \<open>The default branches return a nil map, which reads as an empty one.\<close>

definition unsupportedFlow :: "string \<Rightarrow> 'd WalletTransactionSet \<Rightarrow> 'd balances \<Rightarrow> 'd calcResult" where
  "unsupportedFlow trxFlow trx accountBalance =
     (Map.empty, Some (ErrorMsg (''transactionFlow not supported: '' @ trxFlow)))"

definition getWalletBalanceCalculator ::
  "string \<Rightarrow> bool \<Rightarrow> 'd::linordered_idom WalletTransactionSet \<Rightarrow> 'd balances \<Rightarrow> 'd calcResult" where
  "getWalletBalanceCalculator trxFlow isReserved =
     (if trxFlow = ''cashin'' then CalculateCashIn
      else if trxFlow = ''cashout'' then
        (if isReserved then CalculateCashOutReserve else CalculateCashOut)
      else if trxFlow = ''transfer'' \<or> trxFlow = ''refund'' then
        (if isReserved then CalculateTransferReserve else CalculateTransfer)
      else unsupportedFlow trxFlow)"

definition getWalletBalanceCommitCalculator ::
  "string \<Rightarrow> 'd::linordered_idom WalletTransactionSet \<Rightarrow> 'd balances \<Rightarrow> 'd calcResult" where
  "getWalletBalanceCommitCalculator trxFlow =
     (if trxFlow = ''cashin'' then CalculateCashInCommit
      else if trxFlow = ''cashout'' then CalculateCashOutCommit
      else if trxFlow = ''transfer'' \<or> trxFlow = ''refund'' then CalculateTransferCommit
      else unsupportedFlow trxFlow)"

definition getWalletBalanceCancelCalculator ::
  "string \<Rightarrow> 'd::linordered_idom WalletTransactionSet \<Rightarrow> 'd balances \<Rightarrow> 'd calcResult" where
  "getWalletBalanceCancelCalculator trxFlow =
     (if trxFlow = ''cashin'' then CalculateCashInCancel
      else if trxFlow = ''cashout'' then CalculateCashOutCancel
      else if trxFlow = ''transfer'' \<or> trxFlow = ''refund'' then CalculateTransferCancel
      else unsupportedFlow trxFlow)"

text \<open>
  The loop of the services: each transaction of a request is run on the map the previous one left, and
  the first error ends it.
\<close>

fun calculateAll ::
  "('t \<Rightarrow> 'd balances \<Rightarrow> 'd calcResult) \<Rightarrow> 't list \<Rightarrow> 'd balances \<Rightarrow> 'd calcResult" where
  "calculateAll calculator [] accountBalances = (accountBalances, None)"
| "calculateAll calculator (trxSet # rest) accountBalances =
     andThen (calculator trxSet accountBalances) (calculateAll calculator rest)"

section \<open>What a calculator leaves\<close>

named_theorems calculator_defs

lemmas [calculator_defs] =
  Calculate_def CalculateReserve_def CalculateCommit_def CalculateCancel_def CalculateCashIn_def
  CalculateCashInCommit_def CalculateCashInCancel_def CalculateCashOut_def
  CalculateCashOutReserve_def CalculateCashOutCommit_def CalculateCashOutCancel_def
  CalculateTransfer_def CalculateTransferReserve_def CalculateTransferCommit_def
  CalculateTransferCancel_def

named_theorems selector_defs

lemmas [selector_defs] =
  getBalanceCalculator_def getWalletBalanceCalculator_def getWalletBalanceCommitCalculator_def
  getWalletBalanceCancelCalculator_def unsupportedFlow_def

lemma updateAccount_None_iff:
  "updateAccount label k operation m = (m', None) \<longleftrightarrow>
     (\<exists>b b'. m k = Some b \<and> operation b = Inr b' \<and> m' = m(k \<mapsto> b'))"
  by (auto simp: updateAccount_def split: option.splits sum.splits)

lemma andThen_None_iff: "andThen r k = (m', None) \<longleftrightarrow> (\<exists>m. r = (m, None) \<and> k m = (m', None))"
  by (cases r; cases "snd r") auto

text \<open>The money the accounts of a set hold together; an account that is not in the map holds none.\<close>

definition totalActual :: "string set \<Rightarrow> 'd::linordered_idom balances \<Rightarrow> 'd" where
  "totalActual A m = (\<Sum>a\<in>A. case m a of None \<Rightarrow> 0 | Some b \<Rightarrow> actualBalance b)"

lemma totalActual_upd:
  assumes "finite A" and "k \<in> A" and "m k = Some b"
  shows "totalActual A (m(k \<mapsto> b')) = totalActual A m - actualBalance b + actualBalance b'"
proof -
  let ?f = "\<lambda>a. case m a of None \<Rightarrow> 0 | Some b \<Rightarrow> actualBalance b"
  have "totalActual A (m(k \<mapsto> b')) = (\<Sum>a\<in>A. if a = k then actualBalance b' else ?f a)"
    unfolding totalActual_def by (rule sum.cong) auto
  also have "\<dots> = totalActual A m - ?f k + actualBalance b'"
    unfolding totalActual_def by (rule sum_fun_upd [OF assms(1,2)])
  finally show ?thesis using assms(3) by simp
qed

section \<open>Calculators as an interface\<close>

text \<open>
  What the services rely on in a calculator that succeeded: it changed no account other than the
  source and the destination, and it neither added nor removed accounts.
\<close>

locale calculator =
  fixes calc :: "'t \<Rightarrow> 'd::linordered_idom balances \<Rightarrow> 'd calcResult"
    and source :: "'t \<Rightarrow> string" and destination :: "'t \<Rightarrow> string"
  assumes frame: "calc t m = (m', None) \<Longrightarrow> a \<noteq> source t \<Longrightarrow> a \<noteq> destination t \<Longrightarrow> m' a = m a"
    and keeps_keys: "calc t m = (m', None) \<Longrightarrow> m' a = None \<longleftrightarrow> m a = None"
begin

lemma all_frame:
  assumes "calculateAll calc ts m = (m', None)"
    and "a \<notin> source ` set ts \<union> destination ` set ts"
  shows "m' a = m a"
  using assms by (induction ts arbitrary: m) (auto simp: andThen_None_iff frame)

lemma all_keeps_keys: "calculateAll calc ts m = (m', None) \<Longrightarrow> m' a = None \<longleftrightarrow> m a = None"
  by (induction ts arbitrary: m) (auto simp: andThen_None_iff dest: keeps_keys [where a = a])

lemma all_keeps_dom: "calculateAll calc ts m = (m', None) \<Longrightarrow> dom m' = dom m"
  using all_keeps_keys by (auto simp: dom_def)

end

text \<open>A calculator that conserves the money of any set of accounts that has both its ends.\<close>

locale conserving_calculator = calculator +
  assumes conserves:
    "calc t m = (m', None) \<Longrightarrow> finite A \<Longrightarrow> {source t, destination t} \<subseteq> A \<Longrightarrow>
       totalActual A m' = totalActual A m"
begin

lemma all_conserves:
  assumes "calculateAll calc ts m = (m', None)" and "finite A"
    and "source ` set ts \<union> destination ` set ts \<subseteq> A"
  shows "totalActual A m' = totalActual A m"
  using assms
proof (induction ts arbitrary: m)
  case (Cons t ts)
  from Cons.prems(1) obtain m1 where step: "calc t m = (m1, None)"
    and rest: "calculateAll calc ts m1 = (m', None)"
    by (auto simp: andThen_None_iff)
  from Cons.IH [OF rest] Cons.prems(2,3) have "totalActual A m' = totalActual A m1"
    by simp
  also have "\<dots> = totalActual A m"
    using conserves [OF step] Cons.prems(2,3) by simp
  finally show ?case .
qed simp

end

text \<open>
  The shapes of the code's calculators: a movement from the source to the destination, a change of the
  source that keeps its actual balance, and a change of the source that does not.
\<close>

lemma updateAccount_frame:
  assumes "updateAccount label k operation m = (m', None)"
  shows "a \<noteq> k \<Longrightarrow> m' a = m a" and "m' a = None \<longleftrightarrow> m a = None"
  using assms by (auto simp: updateAccount_None_iff split: if_splits)

lemma updateAccount_total:
  assumes "updateAccount label k operation m = (m', None)" and "finite A" and "k \<in> A"
    and "\<And>b b'. operation b = Inr b' \<Longrightarrow> actualBalance b' = actualBalance b + x"
  shows "totalActual A m' = totalActual A m + x"
  using assms by (force simp: updateAccount_None_iff totalActual_upd)

lemma single_calculator:
  fixes operation :: "'t \<Rightarrow> 'd::linordered_idom Balance \<Rightarrow> 'd Balance result"
  shows "calculator (\<lambda>trx. updateAccount label (source trx) (operation trx)) source destination"
  by unfold_locales (simp_all add: updateAccount_frame)

lemma hold_calculator:
  fixes operation :: "'t \<Rightarrow> 'd::linordered_idom Balance \<Rightarrow> 'd Balance result"
  assumes "\<And>trx b b'. operation trx b = Inr b' \<Longrightarrow> actualBalance b' = actualBalance b"
  shows "conserving_calculator (\<lambda>trx. updateAccount label (source trx) (operation trx)) source destination"
  using updateAccount_total [where x = 0] assms
  by unfold_locales (force simp: updateAccount_frame)+

lemma movement_calculator:
  fixes debit credit :: "'t \<Rightarrow> 'd::linordered_idom Balance \<Rightarrow> 'd Balance result"
  assumes debit: "\<And>trx b b'. debit trx b = Inr b' \<Longrightarrow> actualBalance b' = actualBalance b + - amount trx"
    and credit: "\<And>trx b b'. credit trx b = Inr b' \<Longrightarrow> actualBalance b' = actualBalance b + amount trx"
  shows "conserving_calculator
    (\<lambda>trx m. andThen (updateAccount l (source trx) (debit trx) m)
                      (updateAccount l' (destination trx) (credit trx))) source destination"
proof unfold_locales
  fix t m m' A
  assume run: "andThen (updateAccount l (source t) (debit t) m)
                 (updateAccount l' (destination t) (credit t)) = (m', None)"
  then obtain m1 where first: "updateAccount l (source t) (debit t) m = (m1, None)"
    and second: "updateAccount l' (destination t) (credit t) m1 = (m', None)"
    by (auto simp: andThen_None_iff)
  show "m' a = m a" if "a \<noteq> source t" and "a \<noteq> destination t" for a
    using that first second by (simp add: updateAccount_frame)
  show "m' a = None \<longleftrightarrow> m a = None" for a
    using first second by (simp add: updateAccount_frame)
  assume "finite A" and "{source t, destination t} \<subseteq> A"
  then show "totalActual A m' = totalActual A m"
    using updateAccount_total [OF first _ _ debit] updateAccount_total [OF second _ _ credit]
    by simp
qed

lemma nothing_calculator:
  "conserving_calculator (\<lambda>trx m :: 'd::linordered_idom balances. (m, None)) source destination"
  by unfold_locales simp_all

lemma failing_calculator:
  "conserving_calculator (\<lambda>trx (m :: 'd::linordered_idom balances). (Map.empty, Some e)) source destination"
  by unfold_locales simp_all

text \<open>Each calculator of the code has one of these shapes.\<close>

lemma store_calculators:
  "conserving_calculator (Calculate :: 'd::linordered_idom TransactionSet \<Rightarrow> _) ts_FromAccount ts_ToAccount"
  "conserving_calculator (CalculateReserve :: 'd TransactionSet \<Rightarrow> _) ts_FromAccount ts_ToAccount"
  "conserving_calculator (CalculateCommit :: 'd TransactionSet \<Rightarrow> _) ts_FromAccount ts_ToAccount"
  "conserving_calculator (CalculateCancel :: 'd TransactionSet \<Rightarrow> _) ts_FromAccount ts_ToAccount"
  unfolding calculator_defs [abs_def]
  by (rule movement_calculator [where amount = ts_Amount] hold_calculator; auto simp: balance_ok)+

lemma wallet_movements:
  "conserving_calculator (CalculateCashIn :: 'd::linordered_idom WalletTransactionSet \<Rightarrow> _) wts_FromAccount wts_ToAccount"
  "conserving_calculator (CalculateCashOut :: 'd WalletTransactionSet \<Rightarrow> _) wts_FromAccount wts_ToAccount"
  "conserving_calculator (CalculateTransfer :: 'd WalletTransactionSet \<Rightarrow> _) wts_FromAccount wts_ToAccount"
  "conserving_calculator (CalculateCashOutCommit :: 'd WalletTransactionSet \<Rightarrow> _) wts_FromAccount wts_ToAccount"
  "conserving_calculator (CalculateTransferCommit :: 'd WalletTransactionSet \<Rightarrow> _) wts_FromAccount wts_ToAccount"
  unfolding calculator_defs [abs_def]
  by (rule movement_calculator [where amount = wts_Amount]; auto simp: balance_ok)+

lemma wallet_holds:
  "conserving_calculator (CalculateCashInCommit :: 'd::linordered_idom WalletTransactionSet \<Rightarrow> _) wts_FromAccount wts_ToAccount"
  "conserving_calculator (CalculateCashOutReserve :: 'd WalletTransactionSet \<Rightarrow> _) wts_FromAccount wts_ToAccount"
  "conserving_calculator (CalculateTransferReserve :: 'd WalletTransactionSet \<Rightarrow> _) wts_FromAccount wts_ToAccount"
  "conserving_calculator (CalculateCashOutCancel :: 'd WalletTransactionSet \<Rightarrow> _) wts_FromAccount wts_ToAccount"
  "conserving_calculator (CalculateTransferCancel :: 'd WalletTransactionSet \<Rightarrow> _) wts_FromAccount wts_ToAccount"
  unfolding calculator_defs [abs_def]
  by (rule nothing_calculator hold_calculator; auto simp: balance_ok)+

lemma unsupported_calculator:
  "conserving_calculator (unsupportedFlow flow :: 'd::linordered_idom WalletTransactionSet \<Rightarrow> _) source destination"
  unfolding unsupportedFlow_def [abs_def] by (rule failing_calculator)

lemma cashInCancel_calculator:
  "calculator (CalculateCashInCancel :: 'd::linordered_idom WalletTransactionSet \<Rightarrow> _) wts_FromAccount wts_ToAccount"
  unfolding CalculateCashInCancel_def [abs_def] by (rule single_calculator)

interpretation store: conserving_calculator "getBalanceCalculator p" ts_FromAccount ts_ToAccount
  unfolding getBalanceCalculator_def by (auto intro: store_calculators)

interpretation store_commit: conserving_calculator CalculateCommit ts_FromAccount ts_ToAccount
  by (rule store_calculators)

interpretation store_cancel: conserving_calculator CalculateCancel ts_FromAccount ts_ToAccount
  by (rule store_calculators)

interpretation wallet: conserving_calculator
  "getWalletBalanceCalculator flow isReserved" wts_FromAccount wts_ToAccount
  unfolding getWalletBalanceCalculator_def
  by (simp add: wallet_movements wallet_holds unsupported_calculator)

interpretation wallet_commit: conserving_calculator
  "getWalletBalanceCommitCalculator flow" wts_FromAccount wts_ToAccount
  unfolding getWalletBalanceCommitCalculator_def
  by (simp add: wallet_movements wallet_holds unsupported_calculator)

text \<open>The cancel calculator of a cash-in takes money out: it is a calculator that does not conserve.\<close>

interpretation wallet_cancel: calculator
  "getWalletBalanceCancelCalculator flow" wts_FromAccount wts_ToAccount
  unfolding getWalletBalanceCancelCalculator_def
  by (simp add: wallet_holds [THEN conserving_calculator.axioms(1)]
      unsupported_calculator [THEN conserving_calculator.axioms(1)] cashInCancel_calculator)

section \<open>Reserving and settling\<close>

text \<open>What the reservations of a list of transactions hold back on one account.\<close>

fun held :: "string \<Rightarrow> 'd::linordered_idom WalletTransactionSet list \<Rightarrow> 'd" where
  "held a [] = 0"
| "held a (t # ts) = (if wts_FromAccount t = a then wts_Amount t else 0) + held a ts"

text \<open>The balances after holding an extra amount on each account.\<close>

definition hold :: "(string \<Rightarrow> 'd::linordered_idom) \<Rightarrow> 'd balances \<Rightarrow> 'd balances" where
  "hold h m = (\<lambda>a. map_option (\<lambda>b. b\<lparr>pendingBalance := pendingBalance b + h a\<rparr>) (m a))"

lemma hold_hold: "hold h (hold g m) = hold (\<lambda>a. g a + h a) m"
  by (rule ext) (simp add: hold_def option.map_comp comp_def algebra_simps)

lemma hold_zero [simp]: "hold (\<lambda>a. 0) m = m"
  by (rule ext) (simp add: hold_def option.map_ident)

lemma held_nonneg: "\<forall>t\<in>set ts. 0 < wts_Amount t \<Longrightarrow> 0 \<le> held a ts"
  by (induction ts) auto

lemma reserve_is_hold:
  assumes "CalculateTransferReserve t m = (m', None)"
  shows "m' = hold (\<lambda>a. held a [t]) m \<and> 0 < wts_Amount t \<and> wts_FromAccount t \<in> dom m"
  using assms
  by (auto simp: CalculateTransferReserve_def updateAccount_None_iff balance_ok hold_def fun_eq_iff
      option.map_ident)

lemma reserve_all_is_hold:
  assumes "calculateAll CalculateTransferReserve ts m = (m', None)"
  shows "m' = hold (\<lambda>a. held a ts) m \<and> (\<forall>t\<in>set ts. 0 < wts_Amount t \<and> wts_FromAccount t \<in> dom m)"
  using assms
proof (induction ts arbitrary: m)
  case (Cons t ts)
  from Cons.prems obtain m1 where "CalculateTransferReserve t m = (m1, None)"
    and "calculateAll CalculateTransferReserve ts m1 = (m', None)"
    by (auto simp: andThen_None_iff)
  with reserve_is_hold [OF this(1)] Cons.IH [OF this(2)] show ?case
    by (auto simp: hold_hold, auto simp: hold_def)
qed simp

text \<open>Cancelling succeeds where the pending balance covers what the list holds, and releases exactly that.\<close>

lemma cancel_is_release:
  assumes "0 < wts_Amount t" and "m (wts_FromAccount t) = Some b" and "wts_Amount t \<le> pendingBalance b"
  shows "CalculateTransferCancel t m = (hold (\<lambda>a. - held a [t]) m, None)"
  using assms
  by (auto simp: CalculateTransferCancel_def updateAccount_None_iff balance_ok hold_def fun_eq_iff
      option.map_ident)

lemma cancel_all_is_release:
  assumes "\<forall>t\<in>set ts. 0 < wts_Amount t \<and> wts_FromAccount t \<in> dom m"
    and "\<forall>a b. m a = Some b \<longrightarrow> held a ts \<le> pendingBalance b"
  shows "calculateAll CalculateTransferCancel ts m = (hold (\<lambda>a. - held a ts) m, None)"
  using assms
proof (induction ts arbitrary: m)
  case (Cons t ts)
  let ?m1 = "hold (\<lambda>a. - held a [t]) m"
  obtain b where b: "m (wts_FromAccount t) = Some b"
    using Cons.prems(1) by auto
  have "wts_Amount t + held (wts_FromAccount t) ts \<le> pendingBalance b"
    using Cons.prems(2) b by force
  moreover have "0 \<le> held (wts_FromAccount t) ts"
    using Cons.prems(1) by (intro held_nonneg) auto
  ultimately have "wts_Amount t \<le> pendingBalance b" by simp
  with b Cons.prems(1) have first: "CalculateTransferCancel t m = (?m1, None)"
    by (intro cancel_is_release) auto
  have "calculateAll CalculateTransferCancel ts ?m1 = (hold (\<lambda>a. - held a ts) ?m1, None)"
  proof (rule Cons.IH)
    show "\<forall>t\<in>set ts. 0 < wts_Amount t \<and> wts_FromAccount t \<in> dom ?m1"
      using Cons.prems(1) by (auto simp: hold_def)
    show "\<forall>a b. ?m1 a = Some b \<longrightarrow> held a ts \<le> pendingBalance b"
      using Cons.prems(2) by (force simp: hold_def algebra_simps)
  qed
  with first show ?case
    by (simp add: hold_hold)
qed simp

lemma wallet_selectors_settle:
  assumes "flow = ''cashout'' \<or> flow = ''transfer'' \<or> flow = ''refund''"
  shows "getWalletBalanceCalculator flow True = CalculateTransferReserve"
    and "getWalletBalanceCancelCalculator flow = CalculateTransferCancel"
  using assms
  by (auto simp: selector_defs CalculateCashOutReserve_def CalculateTransferReserve_def fun_eq_iff
      CalculateCashOutCancel_def CalculateTransferCancel_def)

section \<open>Properties\<close>

text \<open>
  C5: the balance calculation of a wallet request conserves money and touches only its own accounts.
  Whatever the flow, reserved or not, if running the calculator over all transactions of the request
  succeeds then every finite set of accounts that contains their ends holds the same total as
  before, every other account is unchanged, and no account appears or disappears.
\<close>

theorem wallet_request_conserves:
  assumes "calculateAll (getWalletBalanceCalculator flow isReserved) ts m = (m', None)"
  shows "(\<forall>A. finite A \<and> wts_FromAccount ` set ts \<union> wts_ToAccount ` set ts \<subseteq> A \<longrightarrow>
            totalActual A m' = totalActual A m) \<and>
         (\<forall>a. a \<notin> wts_FromAccount ` set ts \<union> wts_ToAccount ` set ts \<longrightarrow> m' a = m a) \<and>
         dom m' = dom m"
  using wallet.all_conserves [OF assms] wallet.all_frame [OF assms] wallet.all_keeps_dom [OF assms]
  by blast

definition exampleBalances :: "int balances" where
  "exampleBalances = [''A'' \<mapsto> NewBalance 100 0 [], ''B'' \<mapsto> NewBalance 0 0 []]"

lemmas exampleBalances_simps = exampleBalances_def NewBalance_def

theorem wallet_request_conserves_witness:
  "totalActual {''A'', ''B''}
     (exampleBalances(''A'' \<mapsto> NewBalance 60 0 [], ''B'' \<mapsto> NewBalance 40 0 [])) =
   totalActual {''A'', ''B''} exampleBalances"
proof -
  let ?ts = "[NewWalletTransactionSet ''A'' ''B'' 30 ''TUPWC'', NewWalletTransactionSet ''A'' ''B'' 10 ''ADMFE'']"
  have "calculateAll (getWalletBalanceCalculator ''transfer'' False) ?ts exampleBalances =
          (exampleBalances(''A'' \<mapsto> NewBalance 60 0 [], ''B'' \<mapsto> NewBalance 40 0 []), None)"
    by (simp add: getWalletBalanceCalculator_def CalculateTransfer_def updateAccount_def Withdraw_def
        AddFunds_def exampleBalances_simps NewWalletTransactionSet_def Available_def fun_eq_iff)
  from wallet_request_conserves [OF this] show ?thesis
    by (simp add: NewWalletTransactionSet_def)
qed

text \<open>
  C13: reserving a cash-out, transfer or refund request and then cancelling it leaves every balance exactly
  as it was, however many transactions the request has and however their accounts overlap, and the
  cancellation never fails, provided the accounts started with no negative pending balance.
\<close>

theorem reserve_then_cancel_restores:
  assumes "calculateAll (getWalletBalanceCalculator flow True) ts m = (m', None)"
    and "flow = ''cashout'' \<or> flow = ''transfer'' \<or> flow = ''refund''"
    and "\<forall>a b. m a = Some b \<longrightarrow> 0 \<le> pendingBalance b"
  shows "calculateAll (getWalletBalanceCancelCalculator flow) ts m' = (m, None)"
proof -
  from assms(1) have run: "calculateAll CalculateTransferReserve ts m = (m', None)"
    by (simp add: wallet_selectors_settle [OF assms(2)])
  note held = reserve_all_is_hold [OF run]
  have "\<forall>a b. m' a = Some b \<longrightarrow> held a ts \<le> pendingBalance b"
    using held assms(3) by (auto simp: hold_def)
  moreover have "\<forall>t\<in>set ts. 0 < wts_Amount t \<and> wts_FromAccount t \<in> dom m'"
    using held by (auto simp: hold_def)
  ultimately have "calculateAll CalculateTransferCancel ts m' = (hold (\<lambda>a. - held a ts) m', None)"
    by (intro cancel_all_is_release)
  then show ?thesis
    using held by (simp add: wallet_selectors_settle [OF assms(2)] hold_hold)
qed

theorem reserve_then_cancel_restores_witness:
  "calculateAll (getWalletBalanceCancelCalculator ''cashout'')
     [NewWalletTransactionSet ''A'' ''B'' 30 ''COTRQ'', NewWalletTransactionSet ''A'' ''B'' 10 ''ADMFE'']
     (exampleBalances(''A'' \<mapsto> NewBalance 100 40 [])) = (exampleBalances, None)"
proof (rule reserve_then_cancel_restores)
  show "calculateAll (getWalletBalanceCalculator ''cashout'' True)
     [NewWalletTransactionSet ''A'' ''B'' 30 ''COTRQ'', NewWalletTransactionSet ''A'' ''B'' 10 ''ADMFE'']
     exampleBalances = (exampleBalances(''A'' \<mapsto> NewBalance 100 40 []), None)"
    by (simp add: getWalletBalanceCalculator_def CalculateCashOutReserve_def updateAccount_def
        Reserve_def exampleBalances_simps NewWalletTransactionSet_def Available_def)
qed (auto simp: exampleBalances_simps split: if_splits)

lemma reserve_commit_account:
  assumes "updateAccount l f (\<lambda>b. Reserve b x opt) m = (m1, None)"
    and "updateAccount l' f (\<lambda>b. Commit b x opt') m1 = (m2, None)"
  shows "updateAccount l'' f (\<lambda>b. Withdraw b x opt) m = (m2, None)"
proof -
  from assms(1) obtain b where b: "m f = Some b" and m1: "m1 = m(f \<mapsto> b\<lparr>pendingBalance := pendingBalance b + x\<rparr>)"
    and withdraw: "Withdraw b x opt = Inr (b\<lparr>actualBalance := actualBalance b - x\<rparr>)"
    by (auto simp: updateAccount_None_iff Reserve_Ok_iff Withdraw_Ok_iff)
  from assms(2) m1 have "m2 = m(f \<mapsto> b\<lparr>actualBalance := actualBalance b - x\<rparr>)"
    by (auto simp: updateAccount_None_iff Commit_Ok_iff)
  with b withdraw show ?thesis
    by (simp add: updateAccount_None_iff)
qed

lemma reserve_commit_movement:
  assumes "updateAccount l f (\<lambda>b. Reserve b x opt) m = (m1, None)"
    and "andThen (updateAccount l' f (\<lambda>b. Commit b x opt') m1) k = (m2, None)"
  shows "andThen (updateAccount l'' f (\<lambda>b. Withdraw b x opt) m) k = (m2, None)"
  using assms(2) reserve_commit_account [OF assms(1)] by (auto simp: andThen_None_iff)

text \<open>
  C21: a reservation that is committed has the effect of the direct request.  Where reserving a
  transaction and then committing it both succeed, the direct calculator of the same flow
  succeeds too and gives the very same balances.
\<close>

theorem reserve_then_commit_is_direct:
  assumes "getWalletBalanceCalculator flow True t m = (m1, None)"
    and "getWalletBalanceCommitCalculator flow t m1 = (m2, None)"
  shows "getWalletBalanceCalculator flow False t m = (m2, None)"
proof -
  consider "flow = ''cashin''" | "flow = ''cashout''" | "flow = ''transfer'' \<or> flow = ''refund''"
    using assms(1) by (auto simp: getWalletBalanceCalculator_def unsupportedFlow_def split: if_splits)
  then show ?thesis
  proof cases
    case 1
    with assms show ?thesis by (simp add: selector_defs CalculateCashInCommit_def)
  next
    case 2
    with assms show ?thesis
      by (simp add: selector_defs CalculateCashOut_def CalculateCashOutReserve_def
          CalculateCashOutCommit_def reserve_commit_movement)
  next
    case 3
    with assms have "CalculateTransferReserve t m = (m1, None)" "CalculateTransferCommit t m1 = (m2, None)"
      and "getWalletBalanceCalculator flow False t m = CalculateTransfer t m"
      by (auto simp: selector_defs)
    then show ?thesis
      by (simp add: CalculateTransfer_def CalculateTransferReserve_def CalculateTransferCommit_def
          reserve_commit_movement)
  qed
qed

theorem reserve_then_commit_is_direct_witness:
  "getWalletBalanceCalculator ''refund'' False (NewWalletTransactionSet ''A'' ''B'' 30 ''RVRSL'') exampleBalances =
     (exampleBalances(''A'' \<mapsto> NewBalance 70 0 [], ''B'' \<mapsto> NewBalance 30 0 []), None)"
proof (rule reserve_then_commit_is_direct)
  show "getWalletBalanceCalculator ''refund'' True (NewWalletTransactionSet ''A'' ''B'' 30 ''RVRSL'') exampleBalances =
     (exampleBalances(''A'' \<mapsto> NewBalance 100 30 []), None)"
    by (simp add: getWalletBalanceCalculator_def CalculateTransferReserve_def updateAccount_def
        Reserve_def exampleBalances_simps NewWalletTransactionSet_def Available_def)
  show "getWalletBalanceCommitCalculator ''refund'' (NewWalletTransactionSet ''A'' ''B'' 30 ''RVRSL'')
     (exampleBalances(''A'' \<mapsto> NewBalance 100 30 [])) =
     (exampleBalances(''A'' \<mapsto> NewBalance 70 0 [], ''B'' \<mapsto> NewBalance 30 0 []), None)"
    by (simp add: getWalletBalanceCommitCalculator_def CalculateTransferCommit_def updateAccount_def
        Commit_def AddFunds_def exampleBalances_simps NewWalletTransactionSet_def fun_eq_iff)
qed

end
