(* ===== verification/Movements.thy ===== *)
theory Movements
  imports TransactionSets
begin

text \<open>
  What the balance calculators do to each single account: a run of a calculator that succeeds
  shifts the actual and the pending balance of every account by an amount that its transactions determine,
  and leaves every flag.  The services rest on this interface when they relate balances to the
  ledger.
\<close>

section \<open>Shifting balances\<close>

definition shift :: "(string \<Rightarrow> 'd::linordered_idom) \<Rightarrow> (string \<Rightarrow> 'd) \<Rightarrow> 'd balances \<Rightarrow> 'd balances" where
  "shift x y m = (\<lambda>a. map_option (\<lambda>b. b\<lparr>actualBalance := actualBalance b + x a,
                                          pendingBalance := pendingBalance b + y a\<rparr>) (m a))"

lemma shift_shift: "shift x' y' (shift x y m) = shift (\<lambda>a. x a + x' a) (\<lambda>a. y a + y' a) m"
  by (rule ext) (simp add: shift_def option.map_comp comp_def algebra_simps)

lemma shift_zero [simp]: "shift (\<lambda>a. 0) (\<lambda>a. 0) m = m"
  by (rule ext) (simp add: shift_def option.map_ident)

lemma shift_Some_iff:
  "shift x y m a = Some b' \<longleftrightarrow>
     (\<exists>b. m a = Some b \<and> b' = b\<lparr>actualBalance := actualBalance b + x a,
                                 pendingBalance := pendingBalance b + y a\<rparr>)"
  by (auto simp: shift_def)

lemma dom_shift [simp]: "dom (shift x y m) = dom m"
  by (auto simp: shift_def)

text \<open>What one transaction moves on an account, and what it holds on its source.\<close>

definition movement :: "'d::linordered_idom WalletTransactionSet \<Rightarrow> string \<Rightarrow> 'd" where
  "movement t a = (if wts_ToAccount t = a then wts_Amount t else 0) -
                  (if wts_FromAccount t = a then wts_Amount t else 0)"

definition heldOn :: "'d::linordered_idom WalletTransactionSet \<Rightarrow> string \<Rightarrow> 'd" where
  "heldOn t a = (if wts_FromAccount t = a then wts_Amount t else 0)"

lemma movement_sum:
  assumes "finite A" and "wts_FromAccount t \<in> A" and "wts_ToAccount t \<in> A"
  shows "(\<Sum>a\<in>A. movement t a) = 0"
  using assms by (simp add: movement_def sum_subtractf)

section \<open>Shifting calculators as an interface\<close>

locale shifting_calculator =
  fixes calc :: "'t \<Rightarrow> 'd::linordered_idom balances \<Rightarrow> 'd calcResult"
    and moved :: "'t \<Rightarrow> string \<Rightarrow> 'd" and reserved :: "'t \<Rightarrow> string \<Rightarrow> 'd"
  assumes shifts: "calc t m = (m', None) \<Longrightarrow> m' = shift (moved t) (reserved t) m"
begin

lemma all_shifts:
  assumes "calculateAll calc ts m = (m', None)"
  shows "m' = shift (\<lambda>a. \<Sum>t\<leftarrow>ts. moved t a) (\<lambda>a. \<Sum>t\<leftarrow>ts. reserved t a) m"
  using assms
proof (induction ts arbitrary: m)
  case (Cons t ts)
  from Cons.prems obtain m1 where "calc t m = (m1, None)" and "calculateAll calc ts m1 = (m', None)"
    by (auto simp: andThen_None_iff)
  with shifts [OF this(1)] Cons.IH [OF this(2)] show ?case
    by (simp add: shift_shift)
qed simp

end

text \<open>The shapes again: a movement, and a change of the source alone.\<close>

lemma movement_shifts:
  assumes "andThen (updateAccount l (wts_FromAccount t) debit m)
             (updateAccount l' (wts_ToAccount t) credit) = (m', None)"
    and "\<And>b b'. debit b = Inr b' \<Longrightarrow>
           b' = b\<lparr>actualBalance := actualBalance b - wts_Amount t, pendingBalance := pendingBalance b + y\<rparr>"
    and "\<And>b b'. credit b = Inr b' \<Longrightarrow> b' = b\<lparr>actualBalance := actualBalance b + wts_Amount t\<rparr>"
  shows "m' = shift (movement t) (\<lambda>a. if wts_FromAccount t = a then y else 0) m"
proof (rule ext)
  fix a
  from assms(1) obtain b b1 c c1 where m: "m (wts_FromAccount t) = Some b" "debit b = Inr b1"
    "(m(wts_FromAccount t \<mapsto> b1)) (wts_ToAccount t) = Some c" "credit c = Inr c1"
    "m' = m(wts_FromAccount t \<mapsto> b1, wts_ToAccount t \<mapsto> c1)"
    by (auto simp: andThen_None_iff updateAccount_None_iff)
  with assms(2) [OF m(2)] assms(3) [OF m(4)]
  show "m' a = shift (movement t) (\<lambda>a. if wts_FromAccount t = a then y else 0) m a"
    by (auto simp: shift_def movement_def option.map_ident split: if_splits)
qed

lemma source_shifts:
  assumes "updateAccount l (wts_FromAccount t) operation m = (m', None)"
    and "\<And>b b'. operation b = Inr b' \<Longrightarrow>
           b' = b\<lparr>actualBalance := actualBalance b + x, pendingBalance := pendingBalance b + y\<rparr>"
  shows "m' = shift (\<lambda>a. if wts_FromAccount t = a then x else 0)
                    (\<lambda>a. if wts_FromAccount t = a then y else 0) m"
  using assms by (fastforce simp: updateAccount_None_iff shift_def fun_eq_iff option.map_ident)

lemmas wallet_calculator_defs =
  CalculateCashIn_def CalculateCashOut_def CalculateTransfer_def CalculateCashOutCommit_def
  CalculateTransferCommit_def CalculateCashOutReserve_def CalculateTransferReserve_def
  CalculateCashOutCancel_def CalculateTransferCancel_def CalculateCashInCommit_def
  CalculateCashInCancel_def

lemma direct_shifts:
  fixes m :: "'d::linordered_idom balances"
  shows "CalculateCashIn t m = (m', None) \<Longrightarrow> m' = shift (movement t) (\<lambda>a. 0) m"
    and "CalculateCashOut t m = (m', None) \<Longrightarrow> m' = shift (movement t) (\<lambda>a. 0) m"
    and "CalculateTransfer t m = (m', None) \<Longrightarrow> m' = shift (movement t) (\<lambda>a. 0) m"
  unfolding wallet_calculator_defs
  by (drule movement_shifts [where y = 0]; simp add: balance_ok)+

lemma commit_shifts:
  fixes m :: "'d::linordered_idom balances"
  shows "CalculateCashOutCommit t m = (m', None) \<Longrightarrow> m' = shift (movement t) (\<lambda>a. - heldOn t a) m"
    and "CalculateTransferCommit t m = (m', None) \<Longrightarrow> m' = shift (movement t) (\<lambda>a. - heldOn t a) m"
  unfolding wallet_calculator_defs heldOn_def
  by (drule movement_shifts [where y = "- wts_Amount t"];
      simp add: balance_ok if_distrib [where f = uminus] cong: if_cong)+

lemma reserve_shifts:
  fixes m :: "'d::linordered_idom balances"
  shows "CalculateCashOutReserve t m = (m', None) \<Longrightarrow> m' = shift (\<lambda>a. 0) (heldOn t) m"
    and "CalculateTransferReserve t m = (m', None) \<Longrightarrow> m' = shift (\<lambda>a. 0) (heldOn t) m"
  unfolding wallet_calculator_defs heldOn_def [abs_def]
  by (drule source_shifts [where x = 0 and y = "wts_Amount t"]; simp add: balance_ok cong: if_cong)+

lemma cancel_shifts:
  fixes m :: "'d::linordered_idom balances"
  shows "CalculateCashOutCancel t m = (m', None) \<Longrightarrow> m' = shift (\<lambda>a. 0) (\<lambda>a. - heldOn t a) m"
    and "CalculateTransferCancel t m = (m', None) \<Longrightarrow> m' = shift (\<lambda>a. 0) (\<lambda>a. - heldOn t a) m"
  unfolding wallet_calculator_defs heldOn_def
  by (drule source_shifts [where x = 0 and y = "- wts_Amount t"];
      simp add: balance_ok if_distrib [where f = uminus] cong: if_cong)+

lemma cashInCancel_shifts:
  fixes m :: "'d::linordered_idom balances"
  shows "CalculateCashInCancel t m = (m', None) \<Longrightarrow> m' = shift (\<lambda>a. - heldOn t a) (\<lambda>a. 0) m"
  unfolding wallet_calculator_defs heldOn_def
  by (drule source_shifts [where x = "- wts_Amount t" and y = 0];
      simp add: balance_ok if_distrib [where f = uminus] cong: if_cong)

section \<open>The three selections\<close>

text \<open>
  A direct request and a reserved cash-in move the money; any other reservation holds it.  A commit moves it
  and lets go of it, except for a cash-in, which moved already.  A cancellation lets go of it, or
  takes the money of a cash-in from its source.
\<close>

definition movesAtOnce :: "string \<Rightarrow> bool \<Rightarrow> bool" where
  "movesAtOnce flow isReserved \<longleftrightarrow> \<not> isReserved \<or> flow = ''cashin''"

lemma create_shifts:
  assumes "getWalletBalanceCalculator flow isReserved t m = (m', None)"
  shows "m' = shift (\<lambda>a. if movesAtOnce flow isReserved then movement t a else 0)
                    (\<lambda>a. if movesAtOnce flow isReserved then 0 else heldOn t a) m"
proof -
  consider "flow = ''cashin''" | "flow = ''cashout''" | "flow = ''transfer'' \<or> flow = ''refund''"
    using assms by (auto simp: getWalletBalanceCalculator_def unsupportedFlow_def split: if_splits)
  then show ?thesis
  proof cases
    case 1
    with assms have "CalculateCashIn t m = (m', None)" by (simp add: getWalletBalanceCalculator_def)
    from direct_shifts(1) [OF this] 1 show ?thesis by (simp add: movesAtOnce_def)
  next
    case 2
    with assms direct_shifts(2) [of t m m'] reserve_shifts(1) [of t m m'] show ?thesis
      by (cases isReserved) (simp_all add: getWalletBalanceCalculator_def movesAtOnce_def)
  next
    case 3
    with assms direct_shifts(3) [of t m m'] reserve_shifts(2) [of t m m'] show ?thesis
      by (cases isReserved) (auto simp add: getWalletBalanceCalculator_def movesAtOnce_def)
  qed
qed

lemma settle_shifts:
  assumes "getWalletBalanceCommitCalculator flow t m = (m', None)"
  shows "m' = shift (\<lambda>a. if flow = ''cashin'' then 0 else movement t a)
                    (\<lambda>a. if flow = ''cashin'' then 0 else - heldOn t a) m"
proof -
  consider "flow = ''cashin''" | "flow = ''cashout''" | "flow = ''transfer'' \<or> flow = ''refund''"
    using assms by (auto simp: getWalletBalanceCommitCalculator_def unsupportedFlow_def split: if_splits)
  then show ?thesis
  proof cases
    case 1
    with assms show ?thesis
      by (simp add: getWalletBalanceCommitCalculator_def CalculateCashInCommit_def)
  next
    case 2
    with assms commit_shifts(1) [of t m m'] show ?thesis
      by (simp add: getWalletBalanceCommitCalculator_def)
  next
    case 3
    with assms commit_shifts(2) [of t m m'] show ?thesis
      by (auto simp add: getWalletBalanceCommitCalculator_def)
  qed
qed

lemma release_shifts:
  assumes "getWalletBalanceCancelCalculator flow t m = (m', None)"
  shows "m' = shift (\<lambda>a. if flow = ''cashin'' then - heldOn t a else 0)
                    (\<lambda>a. if flow = ''cashin'' then 0 else - heldOn t a) m"
proof -
  consider "flow = ''cashin''" | "flow = ''cashout''" | "flow = ''transfer'' \<or> flow = ''refund''"
    using assms by (auto simp: getWalletBalanceCancelCalculator_def unsupportedFlow_def split: if_splits)
  then show ?thesis
  proof cases
    case 1
    with assms cashInCancel_shifts [of t m m'] show ?thesis
      by (simp add: getWalletBalanceCancelCalculator_def)
  next
    case 2
    with assms cancel_shifts(1) [of t m m'] show ?thesis
      by (simp add: getWalletBalanceCancelCalculator_def)
  next
    case 3
    with assms cancel_shifts(2) [of t m m'] show ?thesis
      by (auto simp add: getWalletBalanceCancelCalculator_def)
  qed
qed

interpretation wallet_create: shifting_calculator "getWalletBalanceCalculator flow isReserved"
    "\<lambda>t a. if movesAtOnce flow isReserved then movement t a else 0"
    "\<lambda>t a. if movesAtOnce flow isReserved then 0 else heldOn t a"
  by unfold_locales (rule create_shifts)

interpretation wallet_settle: shifting_calculator "getWalletBalanceCommitCalculator flow"
    "\<lambda>t a. if flow = ''cashin'' then 0 else movement t a"
    "\<lambda>t a. if flow = ''cashin'' then 0 else - heldOn t a"
  by unfold_locales (rule settle_shifts)

interpretation wallet_release: shifting_calculator "getWalletBalanceCancelCalculator flow"
    "\<lambda>t a. if flow = ''cashin'' then - heldOn t a else 0"
    "\<lambda>t a. if flow = ''cashin'' then 0 else - heldOn t a"
  by unfold_locales (rule release_shifts)

end
