(* ===== verification/ServiceHelpers.thy ===== *)
theory ServiceHelpers
  imports Database Movements
begin

text \<open>
  The helpers of \<open>internal/services/common.go\<close> around the balances of a request: which accounts it
  touches, whether they exist, how legacy (T24) account numbers are replaced, and the net amount that lists
  show.  The lemmas show that a request that passes the check of its accounts only names accounts
  of the balance map from then on, so that no calculator meets an unknown account.
\<close>

section \<open>Accounts of a request\<close>

definition getAccountNumbersForUpdateBalance :: "'d TransactionReq list \<Rightarrow> string list" where
  "getAccountNumbersForUpdateBalance acuanTransactions =
     concat (map (\<lambda>t. (if req_FromAccount t \<noteq> '''' then [req_FromAccount t] else []) @
                      (if req_ToAccount t \<noteq> '''' then [req_ToAccount t] else [])) acuanTransactions)"

definition getAccountNumbersForEntity :: "'d Transaction list \<Rightarrow> string list" where
  "getAccountNumbersForEntity transactions =
     concat (map (\<lambda>t. (if txn_FromAccount t \<noteq> '''' then [txn_FromAccount t] else []) @
                      (if txn_ToAccount t \<noteq> '''' then [txn_ToAccount t] else [])) transactions)"

text \<open>\<open>ConvertToBalanceMap\<close>: a later entry of an account replaces an earlier one.\<close>

definition ConvertToBalanceMap :: "'d AccountBalance list \<Rightarrow> 'd balances" where
  "ConvertToBalanceMap accountBalance =
     foldl (\<lambda>res v. res(ab_AccountNumber v \<mapsto> ab_Balance v)) Map.empty accountBalance"

fun validateAccounts :: "string list \<Rightarrow> 'd TransactionReq list \<Rightarrow> err option" where
  "validateAccounts accountNumbers [] = None"
| "validateAccounts accountNumbers (req # rest) =
     (if req_FromAccount req \<notin> set accountNumbers then
        Some (Wrapped (Sentinel ErrAccountNotExists) (req_FromAccount req))
      else if req_ToAccount req \<notin> set accountNumbers then
        Some (Wrapped (Sentinel ErrAccountNotExists) (req_ToAccount req))
      else validateAccounts accountNumbers rest)"

definition knownNumbers :: "'d AccountBalance list \<Rightarrow> string list" where
  "knownNumbers balances =
     concat (map (\<lambda>b. [ab_AccountNumber b] @
                      (if ab_T24AccountNumber b \<noteq> '''' then [ab_T24AccountNumber b] else [])) balances)"

definition validateAccountExistsInTransactions ::
  "'d TransactionReq list \<Rightarrow> 'd AccountBalance list \<Rightarrow> err option" where
  "validateAccountExistsInTransactions trxReq balances = validateAccounts (knownNumbers balances) trxReq"

definition mapT24Step :: "(string \<rightharpoonup> string) \<Rightarrow> 'd AccountBalance \<Rightarrow> (string \<rightharpoonup> string)" where
  "mapT24Step m b =
     (if ab_T24AccountNumber b \<noteq> '''' then m(ab_T24AccountNumber b \<mapsto> ab_AccountNumber b) else m)
       (ab_AccountNumber b \<mapsto> ab_AccountNumber b)"

definition mapT24AccountNumberToAccountNumber :: "'d AccountBalance list \<Rightarrow> (string \<rightharpoonup> string)" where
  "mapT24AccountNumberToAccountNumber balances = foldl mapT24Step Map.empty balances"

definition updateAccountNumber :: "(string \<rightharpoonup> string) \<Rightarrow> string \<Rightarrow> string" where
  "updateAccountNumber mapAccountNumber n =
     (if n \<noteq> '''' then (case mapAccountNumber n of Some val \<Rightarrow> val | None \<Rightarrow> n) else n)"

definition updateTransactionAccountNumber ::
  "'d TransactionReq list \<Rightarrow> 'd AccountBalance list \<Rightarrow> 'd TransactionReq list" where
  "updateTransactionAccountNumber trxReq balances =
     (let mapAccountNumber = mapT24AccountNumberToAccountNumber balances
      in map (\<lambda>req. req\<lparr>req_FromAccount := updateAccountNumber mapAccountNumber (req_FromAccount req),
                         req_ToAccount := updateAccountNumber mapAccountNumber (req_ToAccount req)\<rparr>) trxReq)"

text \<open>\<open>models.NewWalletTransactionSet\<close> of a child transaction.\<close>

definition trxSetOf :: "'d::zero TransactionReq \<Rightarrow> 'd WalletTransactionSet" where
  "trxSetOf ct = NewWalletTransactionSet (req_FromAccount ct) (req_ToAccount ct)
                   (nullDecimal (req_Amount ct)) (req_TypeTransaction ct)"

lemma trxSetOf_simps [simp]:
  "wts_FromAccount (trxSetOf ct) = req_FromAccount ct"
  "wts_ToAccount (trxSetOf ct) = req_ToAccount ct"
  "wts_Amount (trxSetOf ct) = nullDecimal (req_Amount ct)"
  by (simp_all add: trxSetOf_def NewWalletTransactionSet_def)

section \<open>Net amounts\<close>

definition mapWalletTransactionAmounts :: "'d AmountDetail list \<Rightarrow> (string \<rightharpoonup> 'd Amount)" where
  "mapWalletTransactionAmounts amounts = foldl (\<lambda>m a. m(ad_Type a \<mapsto> ad_Amount a)) Map.empty amounts"

text \<open>The detail that the net amount of a type leaves out, and that lists add to it.\<close>

definition getWalletTransactionNetAmountCalculator ::
  "'d::linordered_idom WalletTransaction \<Rightarrow> 'd WalletTransaction \<Rightarrow> 'd Amount" where
  "getWalletTransactionNetAmountCalculator trx =
     (let adding = (\<lambda>detail t.
            \<lparr>amt_ValueDecimal = amt_ValueDecimal (wt_NetAmount t) +
               (case mapWalletTransactionAmounts (wt_Amounts t) detail of
                  Some amount \<Rightarrow> amt_ValueDecimal amount | None \<Rightarrow> 0),
             amt_Currency = amt_Currency (wt_NetAmount t)\<rparr>)
      in if wt_TransactionType trx = ''RPYAD'' then adding ''RPYAB''
         else if wt_TransactionType trx = ''COTLR'' then adding ''ADMCE''
         else if wt_TransactionType trx = ''FPEPD'' then adding ''ITDED''
         else wt_NetAmount)"

definition calculateTotalAmountOfTransactions ::
  "'d::linordered_idom WalletTransaction list \<Rightarrow> 'd WalletTransaction list" where
  "calculateTotalAmountOfTransactions oldTransaction =
     foldl (\<lambda>new trx. new @ [trx\<lparr>wt_NetAmount := getWalletTransactionNetAmountCalculator trx trx\<rparr>]) [] oldTransaction"

lemma calculateTotalAmountOfTransactions_map:
  "calculateTotalAmountOfTransactions ts =
     map (\<lambda>trx. trx\<lparr>wt_NetAmount := getWalletTransactionNetAmountCalculator trx trx\<rparr>) ts"
  by (simp add: calculateTotalAmountOfTransactions_def foldl_append_map)

section \<open>Database errors\<close>

text \<open>
  \<open>checkDatabaseError\<close>: \<open>ErrNoRows\<close> becomes the \<open>dataNotFound\<close> detail, or that of the code given;
  any other error the \<open>databaseError\<close> detail with its text.  A detail is an error of its own: it
  wraps nothing.
\<close>

definition checkDatabaseError :: "(err \<Rightarrow> string) \<Rightarrow> err \<Rightarrow> string option \<Rightarrow> err" where
  "checkDatabaseError errorText e code =
     (if errors_Is e ErrNoRows then
        ErrorMsg (''code: '' @ (case code of None \<Rightarrow> ''dataNotFound'' | Some c \<Rightarrow> c))
      else ErrorMsg (''code: databaseError, caused by '' @ errorText e))"

section \<open>Checked requests name known accounts\<close>

lemma foldl_upd_dom:
  "dom (foldl (\<lambda>res v. res(k v \<mapsto> g v)) m xs) = dom m \<union> k ` set xs"
  by (induction xs arbitrary: m) auto

lemma dom_ConvertToBalanceMap: "dom (ConvertToBalanceMap bs) = ab_AccountNumber ` set bs"
  by (simp add: ConvertToBalanceMap_def foldl_upd_dom)

lemma foldl_upd_member:
  "foldl (\<lambda>res v. res(k v \<mapsto> g v)) m xs a = Some b \<Longrightarrow> m a = Some b \<or> (\<exists>v\<in>set xs. k v = a \<and> g v = b)"
proof (induction xs arbitrary: m)
  case (Cons x xs)
  from Cons.IH [of "m(k x \<mapsto> g x)"] Cons.prems show ?case by (auto split: if_splits)
qed simp

lemma ConvertToBalanceMap_member:
  "ConvertToBalanceMap bs a = Some b \<Longrightarrow> \<exists>v\<in>set bs. ab_AccountNumber v = a \<and> ab_Balance v = b"
  by (auto simp: ConvertToBalanceMap_def dest: foldl_upd_member)

lemma validateAccounts_None_iff:
  "validateAccounts ns ts = None \<longleftrightarrow>
     (\<forall>t\<in>set ts. req_FromAccount t \<in> set ns \<and> req_ToAccount t \<in> set ns)"
  by (induction ts) auto

lemma dom_mapT24Step:
  "dom (mapT24Step m b) =
     insert (ab_AccountNumber b) (({ab_T24AccountNumber b} - {''''}) \<union> dom m)"
  by (auto simp: mapT24Step_def)

lemma dom_mapT24: "dom (foldl mapT24Step m bs) = dom m \<union> set (knownNumbers bs)"
  by (induction bs arbitrary: m) (auto simp: knownNumbers_def dom_mapT24Step)

lemma range_mapT24: "foldl mapT24Step m bs n = Some v \<Longrightarrow> m n = Some v \<or> v \<in> ab_AccountNumber ` set bs"
proof (induction bs arbitrary: m)
  case (Cons b bs)
  from Cons.IH [of "mapT24Step m b"] Cons.prems show ?case
    by (auto simp: mapT24Step_def split: if_splits)
qed simp

lemma updateAccountNumber_known:
  assumes "n \<in> set (knownNumbers bs)"
  shows "updateAccountNumber (mapT24AccountNumberToAccountNumber bs) n \<in> ab_AccountNumber ` set bs"
proof (cases "n = ''''")
  case True
  with assms show ?thesis by (auto simp: updateAccountNumber_def knownNumbers_def split: if_splits)
next
  case False
  from assms have "n \<in> dom (mapT24AccountNumberToAccountNumber bs)"
    by (simp add: mapT24AccountNumberToAccountNumber_def dom_mapT24)
  then obtain v where v: "mapT24AccountNumberToAccountNumber bs n = Some v" by auto
  then have "v \<in> ab_AccountNumber ` set bs"
    unfolding mapT24AccountNumberToAccountNumber_def by (auto dest: range_mapT24)
  with v False show ?thesis by (simp add: updateAccountNumber_def)
qed

lemma checked_accounts_known:
  assumes "validateAccountExistsInTransactions ts bs = None"
    and "t \<in> set (updateTransactionAccountNumber ts bs)"
  shows "req_FromAccount t \<in> dom (ConvertToBalanceMap bs) \<and> req_ToAccount t \<in> dom (ConvertToBalanceMap bs)"
  using assms
  by (auto simp: validateAccountExistsInTransactions_def validateAccounts_None_iff
      updateTransactionAccountNumber_def Let_def dom_ConvertToBalanceMap updateAccountNumber_known)

end
