(* ===== verification/TransactionStore.thy ===== *)
theory TransactionStore
  imports ServiceHelpers
begin

text \<open>
  The repositories of wallet transactions (\<open>internal/repositories/sql_wallet_transaction.go\<close>) and of the
  ledger (\<open>sql_transaction.go\<close>): what they insert, update and find.  The lemmas say what a write
  leaves of the tables.
\<close>

section \<open>Wallet transactions\<close>

text \<open>
  The metadata column is JSON: a stored decimal comes back as its text, a nil map as a nil map.
\<close>

fun jsonRoundTrip :: "('d \<Rightarrow> string) \<Rightarrow> 'd any \<Rightarrow> 'd any" where
  "jsonRoundTrip text (AnyString s) = AnyString s"
| "jsonRoundTrip text (AnySlice xs) = AnySlice (map (jsonRoundTrip text) xs)"
| "jsonRoundTrip text (AnyNullDecimal None) = AnyOther ''null''"
| "jsonRoundTrip text (AnyNullDecimal (Some x)) = AnyString (text x)"
| "jsonRoundTrip text (AnyOther s) = AnyOther s"

definition storedMetadata :: "('d \<Rightarrow> string) \<Rightarrow> 'd WalletMetadata \<Rightarrow> 'd WalletMetadata" where
  "storedMetadata text metadata = map_option (\<lambda>m. map_option (jsonRoundTrip text) \<circ> m) metadata"

text \<open>The columns keep the value of the net amount; its currency comes back as IDR.\<close>

definition inIDR :: "'d Amount \<Rightarrow> 'd Amount" where
  "inIDR a = a\<lparr>amt_Currency := ''IDR''\<rparr>"

definition createdRow :: "'d RepoConfig \<Rightarrow> 'd NewWalletTransaction \<Rightarrow> 'd WalletTransaction" where
  "createdRow cfg nwt =
     \<lparr>wt_ID = nw_ID nwt, wt_Status = nw_Status nwt, wt_AccountNumber = nw_AccountNumber nwt,
      wt_DestinationAccountNumber = nw_DestinationAccountNumber nwt, wt_RefNumber = nw_RefNumber nwt,
      wt_TransactionType = nw_TransactionType nwt, wt_TransactionTime = nw_TransactionTime nwt,
      wt_TransactionFlow = nw_TransactionFlow nwt, wt_NetAmount = inIDR (nw_NetAmount nwt),
      wt_Amounts = nw_Amounts nwt, wt_Description = nw_Description nwt,
      wt_Metadata = storedMetadata (decimalText cfg) (nw_Metadata nwt), wt_CreatedAt = now cfg\<rparr>"

definition WalletCreate ::
  "'d RepoConfig \<Rightarrow> 'd NewWalletTransaction \<Rightarrow> ('d DB, 'd WalletTransaction) exec" where
  "WalletCreate cfg nwt db =
     (case fault cfg InsertWalletTransaction of
        Some e \<Rightarrow> (Err e, db)
      | None \<Rightarrow>
          if nw_ID nwt \<in> wt_ID ` set (db_wallet_transaction db)
          then (Err (External ''duplicate key value violates unique constraint''), db)
          else (Ok (createdRow cfg nwt),
                db\<lparr>db_wallet_transaction := db_wallet_transaction db @ [createdRow cfg nwt]\<rparr>))"

definition WalletGetById :: "'d RepoConfig \<Rightarrow> string \<Rightarrow> 'd DB \<Rightarrow> 'd WalletTransaction result" where
  "WalletGetById cfg i db =
     rbind (failIf (fault cfg SelectWalletTransaction)) (\<lambda>_.
     case find (\<lambda>w. wt_ID w = i) (db_wallet_transaction db) of
       None \<Rightarrow> Err (Sentinel ErrNoRows)
     | Some w \<Rightarrow> Ok w)"

text \<open>
  \<open>Update\<close> with the status, the time and the metadata set, as its one caller does: whatever the status of
  the row was.  No row is an error, as \<open>RETURNING\<close> then has nothing to scan.
\<close>

definition WalletUpdate ::
  "'d RepoConfig \<Rightarrow> string \<Rightarrow> string \<Rightarrow> int \<Rightarrow> 'd WalletMetadata \<Rightarrow> ('d DB, 'd WalletTransaction) exec" where
  "WalletUpdate cfg i status time metadata db =
     (case fault cfg UpdateWalletTransaction of
        Some e \<Rightarrow> (Err e, db)
      | None \<Rightarrow>
          (let set = (\<lambda>w. w\<lparr>wt_Status := status, wt_TransactionTime := time,
                           wt_Metadata := storedMetadata (decimalText cfg) metadata\<rparr>)
           in case find (\<lambda>w. wt_ID w = i) (db_wallet_transaction db) of
                None \<Rightarrow> (Err (Sentinel ErrNoRows), db)
              | Some w \<Rightarrow>
                  (Ok (set w),
                   db\<lparr>db_wallet_transaction :=
                        map (\<lambda>w. if wt_ID w = i then set w else w) (db_wallet_transaction db)\<rparr>)))"

text \<open>The latest of the last thirty days, if any: \<open>ORDER BY "createdAt" DESC LIMIT 1\<close>.\<close>

definition CheckTransactionTypeAndReferenceNumber ::
  "'d RepoConfig \<Rightarrow> string \<Rightarrow> string \<Rightarrow> 'd DB \<Rightarrow> 'd WalletTransaction option result" where
  "CheckTransactionTypeAndReferenceNumber cfg trxType refNumber db =
     rbind (failIf (fault cfg SelectWalletTransaction)) (\<lambda>_.
     Ok (foldl (\<lambda>latest w. case latest of
                            None \<Rightarrow> Some w
                          | Some l \<Rightarrow> if wt_CreatedAt l < wt_CreatedAt w then Some w else Some l)
           None
           (filter (\<lambda>w. wt_TransactionType w = trxType \<and> wt_RefNumber w = refNumber \<and>
                        thirtyDaysAgo cfg \<le> wt_CreatedAt w) (db_wallet_transaction db))))"

section \<open>The ledger\<close>

text \<open>One \<open>INSERT\<close> of all rows; the transaction ids are unique in the table.  Without rows it is no SQL.\<close>

definition StoreBulk :: "'d RepoConfig \<Rightarrow> 'd Transaction list \<Rightarrow> ('d DB, unit) exec" where
  "StoreBulk cfg en db =
     (case fault cfg InsertTransactions of
        Some e \<Rightarrow> (Err e, db)
      | None \<Rightarrow>
          if en = [] then (Err (External ''syntax error at end of input''), db)
          else if distinct (map txn_TransactionID en) \<and>
                  set (map txn_TransactionID en) \<inter> set (map txn_TransactionID (db_transaction db)) = {}
          then (Ok (), db\<lparr>db_transaction := db_transaction db @ en\<rparr>)
          else (Err (External ''duplicate key value violates unique constraint''), db))"

text \<open>\<open>Store\<close> inserts a single row.\<close>

definition Store :: "'d RepoConfig \<Rightarrow> 'd Transaction \<Rightarrow> ('d DB, unit) exec" where
  "Store cfg en db =
     (case fault cfg InsertTransactions of
        Some e \<Rightarrow> (Err e, db)
      | None \<Rightarrow>
          if txn_TransactionID en \<in> set (map txn_TransactionID (db_transaction db))
          then (Err (External ''duplicate key value violates unique constraint''), db)
          else (Ok (), db\<lparr>db_transaction := db_transaction db @ [en]\<rparr>))"

text \<open>The reference numbers of a request, each with whether the ledger has it.\<close>

definition CheckRefNumbers :: "'d RepoConfig \<Rightarrow> string list \<Rightarrow> 'd DB \<Rightarrow> (string \<rightharpoonup> bool) result" where
  "CheckRefNumbers cfg refNumbers db =
     rbind (failIf (fault cfg SelectTransactions)) (\<lambda>_.
     Ok (\<lambda>rn. if rn \<in> set refNumbers
              then Some (list_ex (\<lambda>t. txn_RefNumber t = rn) (db_transaction db)) else None))"

definition TransactionByID :: "'d RepoConfig \<Rightarrow> string \<Rightarrow> 'd DB \<Rightarrow> 'd Transaction result" where
  "TransactionByID cfg i db =
     rbind (failIf (fault cfg SelectTransactions)) (\<lambda>_.
     case find (\<lambda>t. txn_TransactionID t = i) (db_transaction db) of
       None \<Rightarrow> Err (Sentinel ErrNoRows)
     | Some t \<Rightarrow> Ok t)"

text \<open>
  \<open>UpdateStatus\<close> sets the status of a row by its serial id, then reads the row back.  The transaction id
  stands for the serial id here: both are unique.
\<close>

definition UpdateStatus :: "'d RepoConfig \<Rightarrow> string \<Rightarrow> string \<Rightarrow> ('d DB, 'd Transaction) exec" where
  "UpdateStatus cfg i status db =
     (case fault cfg UpdateTransaction of
        Some e \<Rightarrow> (Err e, db)
      | None \<Rightarrow>
          if find (\<lambda>t. txn_TransactionID t = i) (db_transaction db) = None
          then (Err (Sentinel ErrNoRowsAffected), db)
          else
            (let db' = db\<lparr>db_transaction :=
                           map (\<lambda>t. if txn_TransactionID t = i then t\<lparr>txn_Status := status\<rparr> else t)
                             (db_transaction db)\<rparr>
             in (TransactionByID cfg i db', db')))"

section \<open>What the writes leave\<close>

lemma WalletCreate_Ok_iff:
  "WalletCreate cfg nwt db = (Inr w, db') \<longleftrightarrow>
     fault cfg InsertWalletTransaction = None \<and> nw_ID nwt \<notin> wt_ID ` set (db_wallet_transaction db) \<and>
     w = createdRow cfg nwt \<and> db' = db\<lparr>db_wallet_transaction := db_wallet_transaction db @ [w]\<rparr>"
  by (auto simp: WalletCreate_def split: option.splits if_splits)

lemma StoreBulk_Ok_iff:
  "StoreBulk cfg en db = (Inr u, db') \<longleftrightarrow>
     fault cfg InsertTransactions = None \<and> en \<noteq> [] \<and> distinct (map txn_TransactionID en) \<and>
     set (map txn_TransactionID en) \<inter> set (map txn_TransactionID (db_transaction db)) = {} \<and>
     db' = db\<lparr>db_transaction := db_transaction db @ en\<rparr>"
  by (auto simp: StoreBulk_def split: option.splits if_splits)

lemma Store_Ok_iff:
  "Store cfg en db = (Inr u, db') \<longleftrightarrow>
     fault cfg InsertTransactions = None \<and>
     txn_TransactionID en \<notin> set (map txn_TransactionID (db_transaction db)) \<and>
     db' = db\<lparr>db_transaction := db_transaction db @ [en]\<rparr>"
  by (auto simp: Store_def split: option.splits if_splits)

lemma WalletUpdate_Ok_iff:
  "WalletUpdate cfg i status time metadata db = (Inr w', db') \<longleftrightarrow>
     fault cfg UpdateWalletTransaction = None \<and>
     (\<exists>w. find (\<lambda>w. wt_ID w = i) (db_wallet_transaction db) = Some w \<and>
          w' = w\<lparr>wt_Status := status, wt_TransactionTime := time,
                  wt_Metadata := storedMetadata (decimalText cfg) metadata\<rparr>) \<and>
     db' = db\<lparr>db_wallet_transaction :=
       map (\<lambda>w. if wt_ID w = i
                then w\<lparr>wt_Status := status, wt_TransactionTime := time,
                        wt_Metadata := storedMetadata (decimalText cfg) metadata\<rparr> else w)
         (db_wallet_transaction db)\<rparr>"
  by (auto simp: WalletUpdate_def Let_def split: option.splits)

lemma fundsOf_other_writes [simp]:
  "fundsOf (db\<lparr>db_wallet_transaction := ws\<rparr>) = fundsOf db"
  "fundsOf (db\<lparr>db_transaction := ts\<rparr>) = fundsOf db"
  by (simp_all add: fundsOf_def fun_eq_iff)

end
