(* ===== verification/TransformerCommon.thy ===== *)
theory TransformerCommon
  imports Models
begin

text \<open>
  What the transformers of \<open>internal/services/transformer\<close> share: the helpers of
  \<open>common.go\<close>, the configuration and the clients they call (the environment), and the
  state they thread.  A transformer turns one amount of a wallet transaction into
  ledger requests.  It may write into the metadata map of the wallet transaction, which
  every transformer of the transaction, every request and the caller share, and it
  keeps those writes when it fails; it draws fresh ids.  Both are the state here.
\<close>

section \<open>Configuration and clients\<close>

text \<open>
  The account configuration.  A map that the code walks with \<open>EqualFold\<close> is the list of its
  entries in the order the walk visits them, which Go leaves open; a map that is only
  indexed is a map.
\<close>

type_synonym entries = "(string \<times> string) list"

record AccountConfig =
  BPE :: string
  SplitEscrow :: string
  SystemAccountNumber :: string
  BRIEscrowAFAAccountNumber :: string
  BRI9539AccountNumber :: string
  DepositCampaignBudget :: string
  OperationalPayableGeneralCashDeposit :: string
  OperationalReceivableVoucher :: string
  OperationalReceivableDigiasia :: string
  OperationalPayableGeneralCashback :: string
  DepositDiscountPPOB :: string
  DepositVoucher :: string
  DepositVoucherCelengan :: string
  RemittanceAdminFeeBudget :: string
  RemittanceAdminFeeRevenue :: string
  OtherReceivableRepayment :: string
  OperationalReceivableAccountNumberByEntity :: entries
  WHT2326Loan :: entries
  AmarthaRevenueLoan :: entries
  AmarthaRevenueModalLoanPlatformFeeByEntityCode :: entries
  GeneralCashOutHoldingAccountNumber :: string
  MapAccountEntity :: "string \<rightharpoonup> string"
  AmarthaRevenueAdminFeeAFA :: string
  OperationalReceivableDiscountAdminFeeAFA :: string
  AccountNumberBankTUPVIForADMFE :: entries
  AccountNumberBankCOTLRForADMFEByEntity :: entries
  AccountNumberInsurancePremiumDisbursementByEntity :: entries
  AccountNumberBankForADMFA :: string

text \<open>The switches outside \<open>AccountConfig\<close> that transformers read.\<close>

record TransformerConfig =
  ValidatePAYMDLoanAccountNumber :: bool
  ValidatePAYMDLoanIDS :: bool
  ValidateTUPEPCustomerNum :: bool
  ValidateTUPEPLoanType :: bool
  EnableRpyabRpyacAdjustment :: bool
  ReversalTimeRangeDays :: int
  UseAccountConfigFromExternalKey :: string

text \<open>
  The environment: the two configurations, the decimal operations that do not
  belong to an ordered domain (division, rounding to an integer, text), the clients
  and repositories, the clock and the id generator (its \<open>n\<close>-th id).
\<close>

record 'd Env =
  accounts :: AccountConfig
  settings :: TransformerConfig
  decimal_Div :: "'d \<Rightarrow> 'd \<Rightarrow> 'd"
  decimal_Round0 :: "'d \<Rightarrow> 'd"
  decimal_NewFromFloat :: "string \<Rightarrow> 'd"
  decimal_String :: "'d \<Rightarrow> string"
  GetInvestedAccountNumber :: "string \<Rightarrow> string result"
  GetLoanAdvancePayment :: "string \<Rightarrow> string result"
  GetCachedAccount :: "string \<Rightarrow> Account result"
  GetTransactionTypeName :: "string \<Rightarrow> string result"
  GetConfigVATRevenue :: "'d ConfigVatRevenue list result"
  GetWht2326 :: "string \<Rightarrow> string \<Rightarrow> string result"
  GetVatOut :: "string \<Rightarrow> string \<Rightarrow> string result"
  GetRevenue :: "string \<Rightarrow> string \<Rightarrow> string result"
  GetAdminFee :: "string \<Rightarrow> string \<Rightarrow> string result"
  GetByTransactionID :: "string \<Rightarrow> 'd Transaction result"
  GetTransactionList :: "string \<Rightarrow> string \<Rightarrow> int \<Rightarrow> int \<Rightarrow> 'd Transaction list result"
  GetWalletById :: "string \<Rightarrow> 'd WalletTransaction result"
  ListWallet :: "string \<Rightarrow> int \<Rightarrow> 'd WalletTransaction list result"
  flag_IsEnabled :: "string \<Rightarrow> bool"
  clock :: int
  uuid :: "nat \<Rightarrow> string"

section \<open>The state and its steps\<close>

record 'd TState =
  shared :: "'d WalletMetadata"
  drawn :: nat

type_synonym ('d, 'a) step = "('d TState, 'a) exec"

type_synonym 'd Transformer =
  "'d Env \<Rightarrow> 'd Amount \<Rightarrow> 'd WalletTransaction \<Rightarrow> ('d, 'd TransactionReq list) step"

definition getMetadata :: "('d, 'd WalletMetadata) step" where
  "getMetadata s = (Ok (shared s), s)"

text \<open>\<open>metadata[key] = value\<close>, which panics on a nil map.\<close>

definition setMetadata :: "string \<Rightarrow> 'd any \<Rightarrow> ('d, unit) step" where
  "setMetadata key value s =
     (case shared s of
        None \<Rightarrow> (Err Panic, s)
      | Some m \<Rightarrow> (Ok (), s\<lparr>shared := Some (m(key \<mapsto> value))\<rparr>))"

text \<open>\<open>maps.Copy\<close> of a map literal.\<close>

fun copyMetadata :: "(string \<times> 'd any) list \<Rightarrow> ('d, unit) step" where
  "copyMetadata [] = return ()"
| "copyMetadata ((key, value) # rest) = bind (setMetadata key value) (\<lambda>_. copyMetadata rest)"

definition newUUID :: "'d Env \<Rightarrow> ('d, string) step" where
  "newUUID E s = (Ok (uuid E (drawn s)), s\<lparr>drawn := drawn s + 1\<rparr>)"

section \<open>Helpers of the package\<close>

definition transformWalletTransactionStatus :: "string \<Rightarrow> string result" where
  "transformWalletTransactionStatus statusWallet =
     (if statusWallet = ''SUCCESS'' then Ok ''1''
      else if statusWallet = ''PENDING'' then Ok ''0''
      else if statusWallet = ''CANCEL'' then Ok ''2''
      else Err (ErrorMsg (''invalid wallet status: '' @ statusWallet)))"

definition transformCurrency :: "string \<Rightarrow> string" where
  "transformCurrency currency = (if currency = '''' then ''IDR'' else currency)"

definition getOrderTime :: "'d Env \<Rightarrow> 'd WalletTransaction \<Rightarrow> int" where
  "getOrderTime E w = (if wt_CreatedAt w = 0 then clock E else wt_CreatedAt w)"

definition getEntityFromMetadata :: "'d WalletMetadata \<Rightarrow> string" where
  "getEntityFromMetadata metadata = metadataString metadata ''entity''"

definition getProductTypeFromMetadata :: "'d WalletMetadata \<Rightarrow> string" where
  "getProductTypeFromMetadata metadata = metadataString metadata ''productType''"

definition getPartnerPPOBMetadata :: "'d WalletMetadata \<Rightarrow> string" where
  "getPartnerPPOBMetadata metadata = metadataString metadata ''partner''"

definition getLoanAccountNumberMetadata :: "'d WalletMetadata \<Rightarrow> string" where
  "getLoanAccountNumberMetadata metadata = metadataString metadata ''loanAccountNumber''"

definition getCustomerNumberMetadata :: "'d WalletMetadata \<Rightarrow> string" where
  "getCustomerNumberMetadata metadata = metadataString metadata ''customerNumber''"

definition getLoanAccountNumber :: "'d WalletMetadata \<Rightarrow> string" where
  "getLoanAccountNumber metadata = metadataString metadata ''loanAccountNumber''"

fun getAccountNumberFromConfig :: "entries \<Rightarrow> string \<Rightarrow> string result" where
  "getAccountNumberFromConfig [] key =
     Err (Wrapped (Sentinel ErrConfigAccountNumberNotFound) (''no account found for '' @ key))"
| "getAccountNumberFromConfig ((k, v) # rest) key =
     (if EqualFold k key then
        (if v = '''' then
           Err (Wrapped (Sentinel ErrConfigAccountNumberNotFound) (''account number for '' @ key @ '' is empty''))
         else Ok v)
      else getAccountNumberFromConfig rest key)"

fun getMapFromConfig :: "(string \<times> entries) list \<Rightarrow> string \<Rightarrow> entries" where
  "getMapFromConfig [] key = []"
| "getMapFromConfig ((k, v) # rest) key = (if EqualFold k key then v else getMapFromConfig rest key)"

text \<open>
  \<open>calculateVAT\<close>: the share of the tax in an amount that includes it, rounded to an
  integer.  Division by zero panics, as the decimal library does.
\<close>

definition calculateVAT :: "'d::linordered_idom Env \<Rightarrow> 'd \<Rightarrow> int \<Rightarrow> 'd ConfigVatRevenue list \<Rightarrow> 'd result" where
  "calculateVAT E amount transactionTime vatConfig =
     rbind
       (if vatConfig = [] then
          Ok (decimal_Div E (decimal_NewFromFloat E ''0.11'') (decimal_NewFromFloat E ''1.11''))
        else rbind (GetActiveConfig vatConfig transactionTime) (\<lambda>configVAT.
               if 1 + cv_Percentage configVAT = 0 then Err Panic
               else Ok (decimal_Div E (cv_Percentage configVAT) (1 + cv_Percentage configVAT))))
       (\<lambda>calculatedPercentage. Ok (decimal_Round0 E (amount * calculatedPercentage)))"

fun loanIdStrings :: "'d any list \<Rightarrow> string list result" where
  "loanIdStrings [] = Ok []"
| "loanIdStrings (v # vs) =
     (case v of
        AnyString s \<Rightarrow> rbind (loanIdStrings vs) (\<lambda>ids. Ok (s # ids))
      | _ \<Rightarrow> Err (Sentinel ErrInvalidLoanIdsTypeMetadata))"

definition getLoanIds :: "'d WalletMetadata \<Rightarrow> string list result" where
  "getLoanIds metadata =
     (case metadataIndex metadata ''loanIds'' of
        Some (AnySlice vs) \<Rightarrow> loanIdStrings vs
      | _ \<Rightarrow> Err (Sentinel ErrInvalidLoanIdsTypeMetadata))"

definition GetSourceAccountForDSBAA :: "'d WalletTransaction \<Rightarrow> string" where
  "GetSourceAccountForDSBAA w = wt_AccountNumber w"

definition GetDestinationAccountForRPYVA :: "'d Env \<Rightarrow> string" where
  "GetDestinationAccountForRPYVA E = SplitEscrow (accounts E)"

definition getBankAccountNumberForTUPVI :: "'d Env \<Rightarrow> 'd WalletMetadata \<Rightarrow> string" where
  "getBankAccountNumberForTUPVI E metadata =
     (case getAccountNumberFromConfig (AccountNumberBankTUPVIForADMFE (accounts E))
             (getEntityFromMetadata metadata) of
        Inr v \<Rightarrow> v | Inl _ \<Rightarrow> '''')"

definition getBankAccountNumberForCOTLR :: "'d Env \<Rightarrow> 'd WalletMetadata \<Rightarrow> string" where
  "getBankAccountNumberForCOTLR E metadata =
     (case getAccountNumberFromConfig (AccountNumberBankCOTLRForADMFEByEntity (accounts E))
             (getEntityFromMetadata metadata) of
        Inr v \<Rightarrow> v | Inl _ \<Rightarrow> '''')"

definition GetDestinationAccountForRPYAA :: "'d WalletTransaction \<Rightarrow> string" where
  "GetDestinationAccountForRPYAA w = wt_AccountNumber w"

definition GenerateAccountNumberBankForMetadataADMFE ::
  "'d Env \<Rightarrow> 'd WalletMetadata \<Rightarrow> 'd WalletTransaction \<Rightarrow> string" where
  "GenerateAccountNumberBankForMetadataADMFE E metadata w =
     (let ty = wt_TransactionType w
      in if ty = ''DSBAA'' then GetSourceAccountForDSBAA w
         else if ty = ''RPYVA'' then GetDestinationAccountForRPYVA E
         else if ty = ''TUPVI'' then getBankAccountNumberForTUPVI E metadata
         else if ty = ''COTLR'' then getBankAccountNumberForCOTLR E metadata
         else if ty = ''RPYAA'' then GetDestinationAccountForRPYAA w
         else if ty = ''TUPBH'' \<or> ty = ''COTPR'' then BRIEscrowAFAAccountNumber (accounts E)
         else wt_AccountNumber w)"

definition MutateMetadataByAccountEntity :: "'d Env \<Rightarrow> string \<Rightarrow> ('d, unit) step" where
  "MutateMetadataByAccountEntity E entityCode =
     setMetadata ''entity'' (AnyString (strIndex (MapAccountEntity (accounts E)) entityCode))"

definition getTotalAmount :: "'d::linordered_idom WalletTransaction \<Rightarrow> string \<Rightarrow> 'd" where
  "getTotalAmount wallet transactionType =
     foldl (\<lambda>totalAmount amount.
              if ad_Type amount = transactionType
              then totalAmount + amt_ValueDecimal (ad_Amount amount) else totalAmount)
       (if wt_TransactionType wallet = transactionType
        then 0 + amt_ValueDecimal (wt_NetAmount wallet) else 0)
       (wt_Amounts wallet)"

definition getTotalAmountTransactions :: "'d::linordered_idom Transaction list \<Rightarrow> string \<Rightarrow> 'd" where
  "getTotalAmountTransactions transactions transactionType =
     foldl (\<lambda>totalAmount transaction.
              if txn_TypeTransaction transaction = transactionType
              then totalAmount + nullDecimal (txn_Amount transaction) else totalAmount)
       0 transactions"

definition isTransactionContains :: "'d Transaction list \<Rightarrow> string \<Rightarrow> bool" where
  "isTransactionContains transactions transactionType \<longleftrightarrow>
     transactionType \<in> set (map txn_TypeTransaction transactions)"

definition getTotalAmountFromWallets ::
  "'d::linordered_idom WalletTransaction list \<Rightarrow> string \<Rightarrow> string list \<Rightarrow> 'd" where
  "getTotalAmountFromWallets wallets transactionType status =
     foldl (\<lambda>totalAmount wt.
              if wt_TransactionType wt = transactionType \<and> wt_Status wt \<in> set status
              then totalAmount + getTotalAmount wt transactionType else totalAmount)
       0 wallets"

section \<open>The request literal\<close>

text \<open>
  The fields that (nearly) every transformer fills the same way, from the amount and the parent
  wallet transaction; the transformers that differ in a field override it.
\<close>

definition newReq ::
  "'d Env \<Rightarrow> 'd Amount \<Rightarrow> 'd WalletTransaction \<Rightarrow> string \<Rightarrow> string \<Rightarrow> string \<Rightarrow> string \<Rightarrow> string \<Rightarrow>
   ('d, 'd TransactionReq) step" where
  "newReq E amount w status fromAccount toAccount typeTransaction orderType =
     bind (newUUID E) (\<lambda>transactionID.
     bind getMetadata (\<lambda>metadata.
     return
       \<lparr>req_TransactionID = transactionID, req_FromAccount = fromAccount, req_ToAccount = toAccount,
        req_TransactionDate = FormatDateInLocalTime (wt_TransactionTime w),
        req_Amount = Some (amt_ValueDecimal amount), req_Status = status, req_Method = '''',
        req_TypeTransaction = typeTransaction, req_Description = wt_Description w,
        req_RefNumber = wt_RefNumber w, req_Metadata = metadata, req_OrderTime = getOrderTime E w,
        req_OrderType = orderType, req_TransactionTime = wt_TransactionTime w,
        req_Currency = transformCurrency (amt_Currency amount)\<rparr>))"

text \<open>The first lines of nearly every transformer.\<close>

definition withStatus :: "'d WalletTransaction \<Rightarrow> (string \<Rightarrow> ('d, 'a) step) \<Rightarrow> ('d, 'a) step" where
  "withStatus w = bind (call (transformWalletTransactionStatus (wt_Status w)))"

text \<open>A transformer that answers one request.\<close>

definition one :: "('d, 'd TransactionReq) step \<Rightarrow> ('d, 'd TransactionReq list) step" where
  "one m = bind m (\<lambda>r. return [r])"

text \<open>\<open>v, ok := metadata[key].(string); if !ok || v == "" \<close>, then the error; the value otherwise.\<close>

definition requireString :: "string \<Rightarrow> sentinel \<Rightarrow> (string \<Rightarrow> ('d, 'a) step) \<Rightarrow> ('d, 'a) step" where
  "requireString key missing rest =
     bind getMetadata (\<lambda>metadata.
       let v = metadataString metadata key
       in if v = '''' then fail (Sentinel missing) else rest v)"

text \<open>The account of a number, whose entity code must not be empty.\<close>

definition withEntityCode :: "'d Env \<Rightarrow> string \<Rightarrow> (string \<Rightarrow> ('d, 'a) step) \<Rightarrow> ('d, 'a) step" where
  "withEntityCode E accountNumber rest =
     bind (call (GetCachedAccount E accountNumber)) (\<lambda>account.
       if acc_Entity account = '''' then fail (Sentinel ErrMissingEntityFromAccount)
       else rest (acc_Entity account))"

text \<open>The error of an unknown type is wrapped, with its code.\<close>

definition withTransactionTypeName :: "'d Env \<Rightarrow> string \<Rightarrow> (string \<Rightarrow> ('d, 'a) step) \<Rightarrow> ('d, 'a) step" where
  "withTransactionTypeName E code rest =
     (case GetTransactionTypeName E code of
        Inl e \<Rightarrow> fail (Wrapped e (''failed to get transaction type: with transaction type code: '' @ code))
      | Inr name \<Rightarrow> rest name)"

end
