(* ===== verification/TransformerLaws.thy ===== *)
theory TransformerLaws
  imports TransformerCommon
begin

text \<open>
  Program logic for the transformers.  \<open>ensures\<close> states what holds of the answer of a step that
  succeeds, \<open>keeps\<close> what holds between the states before and after it however it
  ends, \<open>draws\<close> which ids its answer carries.  Each comes with one rule
  per combinator, so that a property of all the transformers follows by
  applying the rules to each definition.
\<close>

named_theorems step_intros
named_theorems keeps_intros

section \<open>Steps\<close>

lemma bind_Ok: "bind m f s = (Inr y, s'') \<longleftrightarrow> (\<exists>x s'. m s = (Inr x, s') \<and> f x s' = (Inr y, s''))"
  by (auto simp: bind_def split: prod.splits sum.splits)

lemma bind_call_Inr [simp]: "bind (call (Inr x)) f s = f x s"
  by (simp add: bind_def call_def)

lemma bind_call_Inl [simp]: "bind (call (Inl e)) f s = (Inl e, s)"
  by (simp add: bind_def call_def)

lemma bind_return [simp]: "bind (return x) f s = f x s"
  by (simp add: bind_def return_def)

lemma bind_getMetadata [simp]: "bind getMetadata f s = f (shared s) s"
  by (simp add: bind_def getMetadata_def)

lemma newReq_eq:
  "newReq E amount w status fr t ty ot s =
     (Inr \<lparr>req_TransactionID = uuid E (drawn s), req_FromAccount = fr, req_ToAccount = t,
           req_TransactionDate = FormatDateInLocalTime (wt_TransactionTime w),
           req_Amount = Some (amt_ValueDecimal amount), req_Status = status, req_Method = '''',
           req_TypeTransaction = ty, req_Description = wt_Description w,
           req_RefNumber = wt_RefNumber w, req_Metadata = shared s, req_OrderTime = getOrderTime E w,
           req_OrderType = ot, req_TransactionTime = wt_TransactionTime w,
           req_Currency = transformCurrency (amt_Currency amount)\<rparr>,
      s\<lparr>drawn := drawn s + 1\<rparr>)"
  by (simp add: newReq_def bind_def newUUID_def getMetadata_def return_def)

section \<open>Answers\<close>

definition ensures :: "('d, 'a) step \<Rightarrow> ('a \<Rightarrow> bool) \<Rightarrow> bool" where
  "ensures m Q \<longleftrightarrow> (\<forall>s a s'. m s = (Inr a, s') \<longrightarrow> Q a)"

lemma ensures_bind: "(\<And>a. ensures (f a) Q) \<Longrightarrow> ensures (bind m f) Q"
  by (auto simp: ensures_def bind_Ok)

lemma ensures_bind_of: "ensures m P \<Longrightarrow> (\<And>a. P a \<Longrightarrow> ensures (f a) Q) \<Longrightarrow> ensures (bind m f) Q"
  by (fastforce simp: ensures_def bind_Ok)

lemma ensures_bind_newReq:
  assumes "\<And>ident md. ensures (f \<lparr>req_TransactionID = ident, req_FromAccount = fr, req_ToAccount = t,
      req_TransactionDate = FormatDateInLocalTime (wt_TransactionTime w),
      req_Amount = Some (amt_ValueDecimal amount), req_Status = status, req_Method = '''',
      req_TypeTransaction = ty, req_Description = wt_Description w,
      req_RefNumber = wt_RefNumber w, req_Metadata = md, req_OrderTime = getOrderTime E w,
      req_OrderType = ot, req_TransactionTime = wt_TransactionTime w,
      req_Currency = transformCurrency (amt_Currency amount)\<rparr>) Q"
  shows "ensures (bind (newReq E amount w status fr t ty ot) f) Q"
  using assms by (auto simp: ensures_def bind_def newReq_eq)

lemma ensures_return [step_intros]: "Q x \<Longrightarrow> ensures (return x) Q"
  by (simp add: ensures_def return_def)

lemma ensures_fail [step_intros]: "ensures (fail e) Q"
  by (simp add: ensures_def fail_def)

lemma ensures_failWhen [step_intros]: "(\<not> b \<Longrightarrow> ensures m Q) \<Longrightarrow> ensures (failWhen b e m) Q"
  by (simp add: failWhen_def ensures_fail)

lemma ensures_withStatus [step_intros]:
  "(\<And>st. transformWalletTransactionStatus (wt_Status w) = Inr st \<Longrightarrow> ensures (f st) Q) \<Longrightarrow>
     ensures (withStatus w f) Q"
  by (auto simp: ensures_def withStatus_def bind_def call_def split: prod.splits sum.splits)

lemma ensures_requireString [step_intros]:
  "(\<And>v. v \<noteq> '''' \<Longrightarrow> ensures (f v) Q) \<Longrightarrow> ensures (requireString key e f) Q"
  unfolding requireString_def Let_def by (intro ensures_bind) (simp add: ensures_fail)

lemma ensures_withEntityCode [step_intros]:
  "(\<And>v. v \<noteq> '''' \<Longrightarrow> ensures (f v) Q) \<Longrightarrow> ensures (withEntityCode E acc f) Q"
  unfolding withEntityCode_def by (intro ensures_bind) (simp add: ensures_fail)

lemma ensures_withTransactionTypeName [step_intros]:
  "(\<And>v. ensures (f v) Q) \<Longrightarrow> ensures (withTransactionTypeName E c f) Q"
  unfolding withTransactionTypeName_def by (auto split: sum.splits intro: ensures_fail)

lemma ensures_one [step_intros]: "ensures (bind m (\<lambda>r. return [r])) Q \<Longrightarrow> ensures (one m) Q"
  by (simp add: one_def)

lemma ensures_if [step_intros]:
  "(b \<Longrightarrow> ensures m Q) \<Longrightarrow> (\<not> b \<Longrightarrow> ensures n Q) \<Longrightarrow> ensures (if b then m else n) Q"
  by simp

text \<open>Steps that start a nested bind can be moved out of it.\<close>

lemma bind_bind: "bind (bind m f) g = bind m (\<lambda>x. bind (f x) g)"
  by (rule ext) (auto simp: bind_def split: prod.splits sum.splits)

lemma bind_fail: "bind (fail e) f = fail e"
  by (rule ext) (simp add: bind_def fail_def)

lemma bind_withStatus: "bind (withStatus w f) g = withStatus w (\<lambda>st. bind (f st) g)"
  by (simp add: withStatus_def bind_bind)

lemma bind_withEntityCode: "bind (withEntityCode E acc f) g = withEntityCode E acc (\<lambda>v. bind (f v) g)"
  by (simp add: withEntityCode_def bind_bind if_distrib [of "\<lambda>m. bind m g"] bind_fail cong: if_cong)

lemmas nested_steps = bind_bind bind_withStatus bind_withEntityCode

section \<open>States\<close>

text \<open>
  \<open>keeps K m\<close>: however \<open>m\<close> ends, the metadata map is still there (or still
  nil), and every key outside \<open>K\<close> reads as before.
\<close>

definition keeps :: "string set \<Rightarrow> ('d, 'a) step \<Rightarrow> bool" where
  "keeps K m \<longleftrightarrow>
     (\<forall>s. (shared (snd (m s)) = None \<longleftrightarrow> shared s = None) \<and>
          (\<forall>key. key \<notin> K \<longrightarrow> metadataIndex (shared (snd (m s))) key = metadataIndex (shared s) key))"

lemma keeps_bind [keeps_intros]: "keeps K m \<Longrightarrow> (\<And>a. keeps K (f a)) \<Longrightarrow> keeps K (bind m f)"
  unfolding keeps_def bind_def by (simp split: prod.splits sum.splits) (metis snd_conv)

lemma keeps_simple [keeps_intros]:
  "keeps K (return x)" "keeps K (fail e)" "keeps K (call r)" "keeps K getMetadata" "keeps K (newUUID E)"
  "keeps K (newReq E amount w status fr t ty ot)"
  by (simp_all add: keeps_def return_def fail_def call_def getMetadata_def newUUID_def newReq_eq)

lemma keeps_setMetadata [keeps_intros]: "key \<in> K \<Longrightarrow> keeps K (setMetadata key v)"
  by (auto simp: keeps_def setMetadata_def metadataIndex_def split: option.splits)

lemma keeps_copyMetadata [keeps_intros]:
  "fst ` set kvs \<subseteq> K \<Longrightarrow> keeps K (copyMetadata kvs)"
  by (induction kvs rule: copyMetadata.induct) (auto intro!: keeps_intros)

lemma keeps_MutateMetadata [keeps_intros]: "''entity'' \<in> K \<Longrightarrow> keeps K (MutateMetadataByAccountEntity E c)"
  by (simp add: MutateMetadataByAccountEntity_def keeps_setMetadata)

lemma keeps_failWhen [keeps_intros]: "keeps K m \<Longrightarrow> keeps K (failWhen b e m)"
  by (simp add: failWhen_def keeps_simple)

lemma keeps_if [keeps_intros]: "keeps K m \<Longrightarrow> keeps K n \<Longrightarrow> keeps K (if b then m else n)"
  by simp

lemma keeps_with [keeps_intros]:
  "(\<And>v. keeps K (f v)) \<Longrightarrow> keeps K (withStatus w f)"
  "(\<And>v. keeps K (f v)) \<Longrightarrow> keeps K (withEntityCode E acc f)"
  "(\<And>v. keeps K (f v)) \<Longrightarrow> keeps K (withTransactionTypeName E c f)"
  "(\<And>v. keeps K (f v)) \<Longrightarrow> keeps K (requireString key e f)"
  by (auto simp: withStatus_def withEntityCode_def withTransactionTypeName_def requireString_def Let_def
      intro!: keeps_intros split: sum.splits)

lemma keeps_one [keeps_intros]: "keeps K m \<Longrightarrow> keeps K (one m)"
  by (auto simp: one_def intro!: keeps_intros)

lemma keeps_case_option [keeps_intros]:
  "keeps K m \<Longrightarrow> (\<And>x. keeps K (f x)) \<Longrightarrow> keeps K (case z of None \<Rightarrow> m | Some x \<Rightarrow> f x)"
  by (simp split: option.splits)

section \<open>What a transformer promises\<close>

text \<open>
  The fields a ledger request takes from its wallet transaction: the reference, the times, the
  translated status, a currency, and an order type that is the prefix of the transaction type.
\<close>

definition conformsReq :: "'d Env \<Rightarrow> 'd WalletTransaction \<Rightarrow> 'd TransactionReq \<Rightarrow> bool" where
  "conformsReq E w r \<longleftrightarrow>
     req_RefNumber r = wt_RefNumber w \<and>
     req_TransactionTime r = wt_TransactionTime w \<and>
     req_TransactionDate r = FormatDateInLocalTime (wt_TransactionTime w) \<and>
     req_OrderTime r = getOrderTime E w \<and>
     transformWalletTransactionStatus (wt_Status w) = Ok (req_Status r) \<and>
     req_Currency r \<noteq> '''' \<and>
     req_OrderType r = take 3 (req_TypeTransaction r)"

text \<open>The metadata keys that transformers write.\<close>

definition writtenKeys :: "string set" where
  "writtenKeys =
     {''entity'', ''loanAccountNumber'', ''accountNumber'', ''accountNumberBank'', ''amount'',
      ''adminFee'', ''net'', ''newEntityLoanAccountNumber'', ''oldEntityLoanAccountNumber''}"

lemma transformCurrency_nonempty [simp]: "transformCurrency c \<noteq> ''''"
  by (simp add: transformCurrency_def)

section \<open>Fresh ids\<close>

named_theorems quiet_intros
named_theorems draws_intros

text \<open>A step that draws no id when it succeeds.\<close>

definition quiet :: "('d, 'a) step \<Rightarrow> bool" where
  "quiet m \<longleftrightarrow> (\<forall>s a s'. m s = (Inr a, s') \<longrightarrow> drawn s' = drawn s)"

lemma quiet_bind [quiet_intros]: "quiet m \<Longrightarrow> (\<And>a. quiet (f a)) \<Longrightarrow> quiet (bind m f)"
  by (fastforce simp: quiet_def bind_Ok)

lemma quiet_simple [quiet_intros]:
  "quiet (return x)" "quiet (fail e)" "quiet (call r)" "quiet getMetadata" "quiet (setMetadata key v)"
  "quiet (MutateMetadataByAccountEntity E c)"
  by (auto simp: quiet_def return_def fail_def call_def getMetadata_def setMetadata_def
      MutateMetadataByAccountEntity_def split: option.splits)

lemma quiet_copyMetadata [quiet_intros]: "quiet (copyMetadata kvs)"
  by (induction kvs rule: copyMetadata.induct) (auto intro!: quiet_intros)

lemma quiet_branches [quiet_intros]:
  "quiet m \<Longrightarrow> quiet (failWhen b e m)"
  "quiet m \<Longrightarrow> quiet n \<Longrightarrow> quiet (if b then m else n)"
  "quiet m \<Longrightarrow> (\<And>x. quiet (f x)) \<Longrightarrow> quiet (case z of None \<Rightarrow> m | Some x \<Rightarrow> f x)"
  by (auto simp: failWhen_def quiet_simple split: option.splits)

text \<open>
  \<open>draws E d pre m\<close>: where the ids from the \<open>d\<close>-th on that were drawn so far are \<open>pre\<close>, the
  requests that \<open>m\<close> answers carry exactly the ids drawn since the \<open>d\<close>-th, in order.
\<close>

definition draws :: "'d Env \<Rightarrow> nat \<Rightarrow> string list \<Rightarrow> ('d, 'd TransactionReq list) step \<Rightarrow> bool" where
  "draws E d pre m \<longleftrightarrow>
     (\<forall>s rs s'. d \<le> drawn s \<and> pre = map (uuid E) [d..<drawn s] \<and> m s = (Inr rs, s') \<longrightarrow>
        drawn s \<le> drawn s' \<and> map req_TransactionID rs = map (uuid E) [d..<drawn s'])"

lemma draws_return [draws_intros]: "map req_TransactionID rs = pre \<Longrightarrow> draws E d pre (return rs)"
  by (simp add: draws_def return_def)

lemma draws_fail [draws_intros]: "draws E d pre (fail e)"
  by (simp add: draws_def fail_def)

lemma draws_branches [draws_intros]:
  "draws E d pre m \<Longrightarrow> draws E d pre (failWhen b e m)"
  "draws E d pre m \<Longrightarrow> draws E d pre n \<Longrightarrow> draws E d pre (if b then m else n)"
  by (simp_all add: draws_fail failWhen_def)

lemma draws_bind:
  assumes "quiet m" and rest: "\<And>a. draws E d pre (f a)"
  shows "draws E d pre (bind m f)"
  unfolding draws_def
proof (intro allI impI)
  fix s rs s'
  assume run: "d \<le> drawn s \<and> pre = map (uuid E) [d..<drawn s] \<and> bind m f s = (Inr rs, s')"
  then obtain a s1 where m: "m s = (Inr a, s1)" and f: "f a s1 = (Inr rs, s')"
    by (auto simp: bind_Ok)
  with assms(1) have "drawn s1 = drawn s"
    by (simp add: quiet_def)
  with rest [of a, unfolded draws_def, rule_format, of s1 rs s'] run f
  show "drawn s \<le> drawn s' \<and> map req_TransactionID rs = map (uuid E) [d..<drawn s']"
    by simp
qed

lemma draws_bind_newReq:
  assumes "\<And>r. draws E d (pre @ [req_TransactionID r]) (f r)"
  shows "draws E d pre (bind (newReq E amount w status fr t ty ot) f)"
  unfolding draws_def
proof (intro allI impI)
  fix s rs s'
  assume run: "d \<le> drawn s \<and> pre = map (uuid E) [d..<drawn s] \<and>
    bind (newReq E amount w status fr t ty ot) f s = (Inr rs, s')"
  obtain r where new: "newReq E amount w status fr t ty ot s = (Inr r, s\<lparr>drawn := drawn s + 1\<rparr>)"
    and r: "req_TransactionID r = uuid E (drawn s)"
    by (simp add: newReq_eq)
  from run new have rest: "f r (s\<lparr>drawn := drawn s + 1\<rparr>) = (Inr rs, s')"
    by (simp add: bind_def)
  have "pre @ [req_TransactionID r] = map (uuid E) [d..<drawn (s\<lparr>drawn := drawn s + 1\<rparr>)]"
    using run r by simp
  with assms [of r, unfolded draws_def, rule_format, of "s\<lparr>drawn := drawn s + 1\<rparr>" rs s'] rest run
  show "drawn s \<le> drawn s' \<and> map req_TransactionID rs = map (uuid E) [d..<drawn s']"
    by simp
qed

lemma draws_with [draws_intros]:
  "(\<And>v. draws E d pre (f v)) \<Longrightarrow> draws E d pre (withStatus w f)"
  "(\<And>v. draws E d pre (f v)) \<Longrightarrow> draws E d pre (withEntityCode E' acc f)"
  "(\<And>v. draws E d pre (f v)) \<Longrightarrow> draws E d pre (withTransactionTypeName E' c f)"
  "(\<And>v. draws E d pre (f v)) \<Longrightarrow> draws E d pre (requireString key e f)"
  by (auto simp: withStatus_def withEntityCode_def withTransactionTypeName_def requireString_def Let_def
      intro!: draws_intros draws_bind quiet_intros split: sum.splits)

lemma draws_start:
  assumes "draws E (drawn s) [] m" and "m s = (Inr rs, s')"
  shows "drawn s \<le> drawn s' \<and> map req_TransactionID rs = map (uuid E) [drawn s..<drawn s']"
  using assms(1) [unfolded draws_def, rule_format, of s rs s'] assms(2) by simp

section \<open>Amounts\<close>

definition totalRequested :: "'d::linordered_idom TransactionReq list \<Rightarrow> 'd" where
  "totalRequested rs = sum_list (map (\<lambda>r. nullDecimal (req_Amount r)) rs)"

text \<open>
  The types whose requests do not add up to the amount they are given: \<open>DSBMR\<close> and \<open>TUPLR\<close> pass the
  amount on through an account, \<open>RPYAB\<close> may take the amount of another detail along, \<open>RPYAF\<close> leaves its tax
  share out when it is not positive, and \<open>RVRSL\<close> mirrors the ledger.
\<close>

definition relayingCodes :: "string set" where
  "relayingCodes = {''DSBMR'', ''TUPLR'', ''RPYAB'', ''RPYAF'', ''RVRSL''}"

lemma nullDecimal_Some [simp]: "nullDecimal (Some d) = d"
  by (simp add: nullDecimal_def)

end
