(* ===== verification/TransformersAdm.thy ===== *)
theory TransformersAdm
  imports TransformerLaws
begin

text \<open>
  The transformers of the order types ADJ, ADM, BBL, COT, DBF, one definition per file of
  \<open>internal/services/transformer\<close>, in alphabetical order: \<open>xxxxx_Transform\<close> is the \<open>Transform\<close> method of
  \<open>xxxxx.go\<close>.  The table at the end collects them for the registry.
\<close>

definition adjaf_Transform :: "'d Transformer" where
  "adjaf_Transform E amount w =
     withStatus w (\<lambda>status.
     failWhen (wt_Description w = '''') (Sentinel ErrMissingDescription) (
     requireString ''debit'' ErrMissingDebitFromMetadata (\<lambda>debit.
     requireString ''credit'' ErrMissingCreditFromMetadata (\<lambda>credit.
     one (newReq E amount w status
         (wt_AccountNumber w) (wt_DestinationAccountNumber w) ''ADJAF'' ''ADJ'')))))"

definition admaf_Transform :: "'d Transformer" where
  "admaf_Transform E amount w =
     withStatus w (\<lambda>status.
     one (newReq E amount w status
         (wt_AccountNumber w) (SystemAccountNumber (accounts E)) ''ADMAF'' ''ADM''))"

definition admbi_Transform :: "'d Transformer" where
  "admbi_Transform E amount w =
     withStatus w (\<lambda>status.
     one (newReq E amount w status
         (wt_AccountNumber w) (SystemAccountNumber (accounts E)) ''ADMBI'' ''ADM''))"

definition admbt_Transform :: "'d Transformer" where
  "admbt_Transform E amount w =
     withStatus w (\<lambda>status.
     one (newReq E amount w status
         (SystemAccountNumber (accounts E)) (wt_AccountNumber w) ''ADMBT'' ''ADM''))"

definition admcb_Transform :: "'d Transformer" where
  "admcb_Transform E amount w =
     withStatus w (\<lambda>status.
     one (newReq E amount w status
         (SystemAccountNumber (accounts E)) (wt_AccountNumber w) ''ADMCB'' ''ADM''))"

definition admce_Transform :: "'d Transformer" where
  "admce_Transform E amount w =
     withStatus w (\<lambda>status.
     withTransactionTypeName E (wt_TransactionType w) (\<lambda>transactionTypeName.
     bind (copyMetadata
       [(''accountNumber'', AnyString (wt_AccountNumber w)),
        (''amount'', AnyString (decimal_String E (amt_ValueDecimal (wt_NetAmount w)))),
        (''adminFee'', AnyNullDecimal (Some (amt_ValueDecimal amount)))]) (\<lambda>_.
     bind (newReq E amount w status
         (wt_AccountNumber w) (SystemAccountNumber (accounts E)) ''ADMCE'' ''ADM'') (\<lambda>r.
     return [r\<lparr>req_Description := ''Admin Fee for '' @ transactionTypeName\<rparr>]))))"

definition admcv_Transform :: "'d Transformer" where
  "admcv_Transform E amount w =
     withStatus w (\<lambda>status.
     one (newReq E amount w status
         (SystemAccountNumber (accounts E)) (wt_AccountNumber w) ''ADMCV'' ''ADM''))"

definition admda_Transform :: "'d Transformer" where
  "admda_Transform E amount w =
     withStatus w (\<lambda>status.
     one (newReq E amount w status
         (SystemAccountNumber (accounts E)) (OperationalReceivableDigiasia (accounts E)) ''ADMDA'' ''ADM''))"

definition admdd_Transform :: "'d Transformer" where
  "admdd_Transform E amount w =
     withStatus w (\<lambda>status.
     one (newReq E amount w status
         (wt_AccountNumber w) (SystemAccountNumber (accounts E)) ''ADMDD'' ''ADM''))"

definition admde_Transform :: "'d Transformer" where
  "admde_Transform E amount w =
     withStatus w (\<lambda>status.
     one (newReq E amount w status
         (wt_AccountNumber w) (SystemAccountNumber (accounts E)) ''ADMDE'' ''ADM''))"

definition admdu_Transform :: "'d Transformer" where
  "admdu_Transform E amount w =
     withStatus w (\<lambda>status.
     one (newReq E amount w status
         (wt_AccountNumber w) (SystemAccountNumber (accounts E)) ''ADMDU'' ''ADM''))"

definition admdv_Transform :: "'d Transformer" where
  "admdv_Transform E amount w =
     withStatus w (\<lambda>status.
     one (newReq E amount w status
         (SystemAccountNumber (accounts E)) (wt_AccountNumber w) ''ADMDV'' ''ADM''))"

definition admfa_Transform :: "'d Transformer" where
  "admfa_Transform E amount w =
     withStatus w (\<lambda>status.
     one (newReq E amount w status
         (SystemAccountNumber (accounts E)) (AccountNumberBankForADMFA (accounts E)) ''ADMFA'' ''ADM''))"

definition admfe_Transform :: "'d Transformer" where
  "admfe_Transform E amount w =
     withStatus w (\<lambda>status.
     withEntityCode E (wt_AccountNumber w) (\<lambda>entityCode.
     bind (call (getAccountNumberFromConfig (OperationalReceivableAccountNumberByEntity (accounts E))
                   (strIndex (MapAccountEntity (accounts E)) entityCode))) (\<lambda>receivableAccountNumber.
     withTransactionTypeName E (wt_TransactionType w) (\<lambda>transactionTypeName.
     bind getMetadata (\<lambda>metadata.
     bind (copyMetadata
       [(''accountNumberBank'', AnyString (GenerateAccountNumberBankForMetadataADMFE E metadata w)),
        (''accountNumber'', AnyString (wt_AccountNumber w)),
        (''amount'', AnyString (decimal_String E (amt_ValueDecimal (wt_NetAmount w)))),
        (''adminFee'', AnyNullDecimal (Some (amt_ValueDecimal amount)))]) (\<lambda>_.
     bind (MutateMetadataByAccountEntity E entityCode) (\<lambda>_.
     bind (newReq E amount w status
         receivableAccountNumber (SystemAccountNumber (accounts E)) ''ADMFE'' ''ADM'') (\<lambda>r.
     return [r\<lparr>req_Description := ''Admin Fee for '' @ transactionTypeName\<rparr>]))))))))"

definition admfm_Transform :: "'d Transformer" where
  "admfm_Transform E amount w =
     withStatus w (\<lambda>status.
     one (newReq E amount w status
         (wt_AccountNumber w) (SystemAccountNumber (accounts E)) ''ADMFM'' ''ADM''))"

definition admfp_Transform :: "'d Transformer" where
  "admfp_Transform E amount w =
     withStatus w (\<lambda>status.
     one (newReq E amount w status
         (wt_AccountNumber w) (SystemAccountNumber (accounts E)) ''ADMFP'' ''ADM''))"

definition admfu_Transform :: "'d Transformer" where
  "admfu_Transform E amount w =
     withStatus w (\<lambda>status.
     one (newReq E amount w status
         (wt_AccountNumber w) (SystemAccountNumber (accounts E)) ''ADMFU'' ''ADM''))"

definition admma_Transform :: "'d Transformer" where
  "admma_Transform E amount w =
     withStatus w (\<lambda>status.
     withEntityCode E (wt_AccountNumber w) (\<lambda>entityCode.
     bind (call (getAccountNumberFromConfig (OperationalReceivableAccountNumberByEntity (accounts E))
                   (strIndex (MapAccountEntity (accounts E)) entityCode))) (\<lambda>receivableAccountNumber.
     withTransactionTypeName E (wt_TransactionType w) (\<lambda>transactionTypeName.
     bind (newReq E amount w status
         receivableAccountNumber (SystemAccountNumber (accounts E)) ''ADMMA'' ''ADM'') (\<lambda>r.
     return [r\<lparr>req_Description :=
       ''Admin Fee for '' @ transactionTypeName @ '' - '' @ wt_AccountNumber w\<rparr>])))))"

definition admmd_Transform :: "'d Transformer" where
  "admmd_Transform E amount w =
     withStatus w (\<lambda>status.
     one (newReq E amount w status
         (RemittanceAdminFeeBudget (accounts E)) (wt_AccountNumber w) ''ADMMD'' ''ADM''))"

definition admme_Transform :: "'d Transformer" where
  "admme_Transform E amount w =
     withStatus w (\<lambda>status.
     bind getMetadata (\<lambda>metadata.
     failWhen (getEntityFromMetadata metadata = '''') (Sentinel ErrMissingEntityFromMetadata) (
     bind (call (getAccountNumberFromConfig (OperationalReceivableAccountNumberByEntity (accounts E))
                   (getEntityFromMetadata metadata))) (\<lambda>receivableAccountNumber.
     withTransactionTypeName E (wt_TransactionType w) (\<lambda>transactionTypeName.
     bind (copyMetadata
       [(''accountNumber'', AnyString (wt_AccountNumber w)),
        (''amount'', AnyString (decimal_String E (amt_ValueDecimal (wt_NetAmount w)))),
        (''adminFee'', AnyNullDecimal (Some (amt_ValueDecimal amount)))]) (\<lambda>_.
     bind (newReq E amount w status
         receivableAccountNumber (SystemAccountNumber (accounts E)) ''ADMME'' ''ADM'') (\<lambda>r.
     return [r\<lparr>req_Description :=
       ''Admin Fee for '' @ transactionTypeName @ '' - '' @ wt_AccountNumber w\<rparr>])))))))"

definition admmv_Transform :: "'d Transformer" where
  "admmv_Transform E amount w =
     withStatus w (\<lambda>status.
     one (newReq E amount w status
         (wt_AccountNumber w) (RemittanceAdminFeeRevenue (accounts E)) ''ADMMV'' ''ADM''))"

definition admob_Transform :: "'d Transformer" where
  "admob_Transform E amount w =
     withStatus w (\<lambda>status.
     one (newReq E amount w status
         (SystemAccountNumber (accounts E)) (wt_AccountNumber w) ''ADMOB'' ''ADM''))"

definition admoc_Transform :: "'d Transformer" where
  "admoc_Transform E amount w =
     withStatus w (\<lambda>status.
     one (newReq E amount w status
         (SystemAccountNumber (accounts E)) (wt_AccountNumber w) ''ADMOC'' ''ADM''))"

definition admpb_Transform :: "'d Transformer" where
  "admpb_Transform E amount w =
     withStatus w (\<lambda>status.
     failWhen (wt_DestinationAccountNumber w = '''') (Sentinel ErrMissingDestinationAccountNumber) (
     one (newReq E amount w status
         (wt_AccountNumber w) (wt_DestinationAccountNumber w) ''ADMPB'' ''ADM'')))"

definition admpe_Transform :: "'d Transformer" where
  "admpe_Transform E amount w =
     withStatus w (\<lambda>status.
     one (newReq E amount w status
         (wt_AccountNumber w) (SystemAccountNumber (accounts E)) ''ADMPE'' ''ADM''))"

definition admpf_Transform :: "'d Transformer" where
  "admpf_Transform E amount w =
     withStatus w (\<lambda>status.
     one (newReq E amount w status
         (wt_AccountNumber w) (SystemAccountNumber (accounts E)) ''ADMPF'' ''ADM''))"

definition admpn_Transform :: "'d Transformer" where
  "admpn_Transform E amount w =
     withStatus w (\<lambda>status.
     one (newReq E amount w status
         (SystemAccountNumber (accounts E)) (wt_AccountNumber w) ''ADMPN'' ''ADM''))"

definition admpp_Transform :: "'d Transformer" where
  "admpp_Transform E amount w =
     withStatus w (\<lambda>status.
     one (newReq E amount w status
         (SystemAccountNumber (accounts E)) (wt_AccountNumber w) ''ADMPP'' ''ADM''))"

definition admpt_Transform :: "'d Transformer" where
  "admpt_Transform E amount w =
     withStatus w (\<lambda>status.
     one (newReq E amount w status
         (SystemAccountNumber (accounts E)) (wt_AccountNumber w) ''ADMPT'' ''ADM''))"

definition admra_Transform :: "'d Transformer" where
  "admra_Transform E amount w =
     withStatus w (\<lambda>status.
     one (newReq E amount w status
         (OperationalReceivableDigiasia (accounts E)) (SystemAccountNumber (accounts E)) ''ADMRA'' ''ADM''))"

definition admrd_Transform :: "'d Transformer" where
  "admrd_Transform E amount w =
     withStatus w (\<lambda>status.
     one (newReq E amount w status
         (RemittanceAdminFeeBudget (accounts E)) (wt_AccountNumber w) ''ADMRD'' ''ADM''))"

definition admrf_Transform :: "'d Transformer" where
  "admrf_Transform E amount w =
     withStatus w (\<lambda>status.
     one (newReq E amount w status
         (wt_AccountNumber w) (SystemAccountNumber (accounts E)) ''ADMRF'' ''ADM''))"

definition admrp_Transform :: "'d Transformer" where
  "admrp_Transform E amount w =
     withStatus w (\<lambda>status.
     one (newReq E amount w status
         (OperationalReceivableDigiasia (accounts E)) (SystemAccountNumber (accounts E)) ''ADMRP'' ''ADM''))"

definition admrv_Transform :: "'d Transformer" where
  "admrv_Transform E amount w =
     withStatus w (\<lambda>status.
     one (newReq E amount w status
         (wt_AccountNumber w) (RemittanceAdminFeeRevenue (accounts E)) ''ADMRV'' ''ADM''))"

definition admtd_Transform :: "'d Transformer" where
  "admtd_Transform E amount w =
     withStatus w (\<lambda>status.
     one (newReq E amount w status
         (OperationalReceivableDiscountAdminFeeAFA (accounts E)) (wt_AccountNumber w) ''ADMTD'' ''ADM''))"

definition admtp_Transform :: "'d Transformer" where
  "admtp_Transform E amount w =
     withStatus w (\<lambda>status.
     one (newReq E amount w status
         (SystemAccountNumber (accounts E)) (wt_AccountNumber w) ''ADMTP'' ''ADM''))"

definition admtv_Transform :: "'d Transformer" where
  "admtv_Transform E amount w =
     withStatus w (\<lambda>status.
     one (newReq E amount w status
         (wt_AccountNumber w) (AmarthaRevenueAdminFeeAFA (accounts E)) ''ADMTV'' ''ADM''))"

definition admvi_Transform :: "'d Transformer" where
  "admvi_Transform E amount w =
     withStatus w (\<lambda>status.
     one (newReq E amount w status
         (SystemAccountNumber (accounts E)) (wt_AccountNumber w) ''ADMVI'' ''ADM''))"

definition admwp_Transform :: "'d Transformer" where
  "admwp_Transform E amount w =
     withStatus w (\<lambda>status.
     one (newReq E amount w status
         (wt_AccountNumber w) (SystemAccountNumber (accounts E)) ''ADMWP'' ''ADM''))"

definition bbldn_Transform :: "'d Transformer" where
  "bbldn_Transform E amount w =
     withStatus w (\<lambda>status.
     bind getMetadata (\<lambda>metadata.
     failWhen (getLoanAccountNumber metadata = '''') (Sentinel ErrMissingLoanAccountNumberFromMetadata) (
     failWhen (wt_DestinationAccountNumber w = '''') (Sentinel ErrMissingDestinationAccountNumber) (
     bind (call (GetInvestedAccountNumber E (wt_AccountNumber w))) (\<lambda>fromInvested.
     bind (call (GetInvestedAccountNumber E (wt_DestinationAccountNumber w))) (\<lambda>toInvested.
     one (newReq E amount w status
         fromInvested toInvested ''BBLDN'' ''BBL'')))))))"

definition bblen_Transform :: "'d Transformer" where
  "bblen_Transform E amount w =
     withStatus w (\<lambda>status.
     bind getMetadata (\<lambda>metadata.
     failWhen (getLoanAccountNumber metadata = '''') (Sentinel ErrMissingLoanAccountNumberFromMetadata) (
     bind (call (GetInvestedAccountNumber E (wt_AccountNumber w))) (\<lambda>investedAccountNumber.
     one (newReq E amount w status
         (wt_AccountNumber w) investedAccountNumber ''BBLEN'' ''BBL'')))))"

definition bbltf_Transform :: "'d Transformer" where
  "bbltf_Transform E amount w =
     withStatus w (\<lambda>status.
     bind (call (GetInvestedAccountNumber E (wt_AccountNumber w))) (\<lambda>investedAccountNumber.
     failWhen (wt_TransactionFlow w \<noteq> ''cashin'') (Sentinel ErrUnsupportedTransactionFlow) (
     one (newReq E amount w status
         (SystemAccountNumber (accounts E)) investedAccountNumber ''BBLTF'' ''BBL''))))"

definition cotai_Transform :: "'d Transformer" where
  "cotai_Transform E amount w =
     withStatus w (\<lambda>status.
     one (newReq E amount w status
         (wt_AccountNumber w) (SystemAccountNumber (accounts E)) ''COTAI'' ''COT''))"

definition cotam_Transform :: "'d Transformer" where
  "cotam_Transform E amount w =
     withStatus w (\<lambda>status.
     one (newReq E amount w status
         (wt_AccountNumber w) (SystemAccountNumber (accounts E)) ''COTAM'' ''COT''))"

definition cotbm_Transform :: "'d Transformer" where
  "cotbm_Transform E amount w =
     withStatus w (\<lambda>status.
     bind (newReq E amount w status
         (wt_AccountNumber w) (SystemAccountNumber (accounts E)) ''COTBM'' ''COT'') (\<lambda>r.
     return [r\<lparr>req_Description := ''REVERSAL''\<rparr>]))"

definition cotda_Transform :: "'d Transformer" where
  "cotda_Transform E amount w =
     withStatus w (\<lambda>status.
     one (newReq E amount w status
         (wt_AccountNumber w) (SystemAccountNumber (accounts E)) ''COTDA'' ''COT''))"

definition cotfp_Transform :: "'d Transformer" where
  "cotfp_Transform E amount w =
     withStatus w (\<lambda>status.
     one (newReq E amount w status
         (wt_AccountNumber w) (SystemAccountNumber (accounts E)) ''COTFP'' ''COT''))"

definition cotgc_Transform :: "'d Transformer" where
  "cotgc_Transform E amount w =
     withStatus w (\<lambda>status.
     one (newReq E amount w status
         (wt_AccountNumber w) (GeneralCashOutHoldingAccountNumber (accounts E)) ''COTGC'' ''COT''))"

definition cotlr_Transform :: "'d::linordered_idom Transformer" where
  "cotlr_Transform E amount w =
     withStatus w (\<lambda>status.
     bind getMetadata (\<lambda>metadata.
     bind (case find (\<lambda>detail. ad_Type detail = ''ADMFE'') (wt_Amounts w) of
             None \<Rightarrow> return ()
           | Some detail \<Rightarrow>
               let adminFee = amt_ValueDecimal (ad_Amount detail)
               in copyMetadata
                    [(''accountNumberBank'', AnyString (GenerateAccountNumberBankForMetadataADMFE E metadata w)),
                     (''accountNumber'', AnyString (wt_AccountNumber w)),
                     (''amount'', AnyString (decimal_String E (amt_ValueDecimal amount))),
                     (''adminFee'', AnyString (decimal_String E adminFee)),
                     (''net'', AnyString (decimal_String E (amt_ValueDecimal amount - adminFee)))]) (\<lambda>_.
     one (newReq E amount w status
         (wt_AccountNumber w) (SystemAccountNumber (accounts E)) ''COTLR'' ''COT''))))"

definition cotmf_Transform :: "'d Transformer" where
  "cotmf_Transform E amount w =
     withStatus w (\<lambda>status.
     one (newReq E amount w status
         (wt_AccountNumber w) (SystemAccountNumber (accounts E)) ''COTMF'' ''COT''))"

definition cotpb_Transform :: "'d Transformer" where
  "cotpb_Transform E amount w =
     withStatus w (\<lambda>status.
     failWhen (wt_DestinationAccountNumber w = '''') (Sentinel ErrMissingDestinationAccountNumber) (
     one (newReq E amount w status
         (wt_AccountNumber w) (wt_DestinationAccountNumber w) ''COTPB'' ''COT'')))"

definition cotpr_Transform :: "'d::linordered_idom Transformer" where
  "cotpr_Transform E amount w =
     withStatus w (\<lambda>status.
     bind (case find (\<lambda>detail. ad_Type detail \<in> {''ADMFE'', ''ADMCE''}) (wt_Amounts w) of
             None \<Rightarrow> return ()
           | Some detail \<Rightarrow>
               let adminFee = amt_ValueDecimal (ad_Amount detail)
               in copyMetadata
                    [(''accountNumber'', AnyString (wt_AccountNumber w)),
                     (''amount'', AnyString (decimal_String E (amt_ValueDecimal amount))),
                     (''adminFee'', AnyString (decimal_String E adminFee)),
                     (''net'', AnyString (decimal_String E (amt_ValueDecimal amount - adminFee)))]) (\<lambda>_.
     one (newReq E amount w status
         (wt_AccountNumber w) (SystemAccountNumber (accounts E)) ''COTPR'' ''COT'')))"

definition cotrc_Transform :: "'d Transformer" where
  "cotrc_Transform E amount w =
     withStatus w (\<lambda>status.
     one (newReq E amount w status
         (wt_AccountNumber w) (SystemAccountNumber (accounts E)) ''COTRC'' ''COT''))"

definition cotrj_Transform :: "'d Transformer" where
  "cotrj_Transform E amount w =
     withStatus w (\<lambda>status.
     one (newReq E amount w status
         (SystemAccountNumber (accounts E)) (wt_AccountNumber w) ''COTRJ'' ''COT''))"

definition cotrq_Transform :: "'d Transformer" where
  "cotrq_Transform E amount w =
     withStatus w (\<lambda>status.
     one (newReq E amount w status
         (wt_AccountNumber w) (SystemAccountNumber (accounts E)) ''COTRQ'' ''COT''))"

definition cotrt_Transform :: "'d Transformer" where
  "cotrt_Transform E amount w =
     withStatus w (\<lambda>status.
     one (newReq E amount w status
         (SystemAccountNumber (accounts E)) (wt_AccountNumber w) ''COTRT'' ''COT''))"

definition cotwc_Transform :: "'d Transformer" where
  "cotwc_Transform E amount w =
     withStatus w (\<lambda>status.
     one (newReq E amount w status
         (wt_AccountNumber w) (SystemAccountNumber (accounts E)) ''COTWC'' ''COT''))"

definition dbfaa_Transform :: "'d Transformer" where
  "dbfaa_Transform E amount w =
     withStatus w (\<lambda>status.
     bind (call (GetInvestedAccountNumber E (wt_AccountNumber w))) (\<lambda>investedAccountNumber.
     one (newReq E amount w status
         investedAccountNumber (wt_AccountNumber w) ''DBFAA'' ''DBF'')))"

definition dbfab_Transform :: "'d Transformer" where
  "dbfab_Transform E amount w =
     withStatus w (\<lambda>status.
     failWhen (wt_DestinationAccountNumber w = '''') (Sentinel ErrMissingDestinationAccountNumber) (
     requireString ''disbursementDate'' ErrMissingDisbursementDateFromMetadata (\<lambda>disbursementDate.
     one (newReq E amount w status
         (wt_AccountNumber w) (wt_DestinationAccountNumber w) ''DBFAB'' ''DBF''))))"

definition dbfac_Transform :: "'d Transformer" where
  "dbfac_Transform E amount w =
     withStatus w (\<lambda>status.
     requireString ''disbursementDate'' ErrMissingDisbursementDateFromMetadata (\<lambda>disbursementDate.
     requireString ''virtualAccountPoint'' ErrMissingVirtualAccountPointFromMetadata (\<lambda>virtualAccountPoint.
     one (newReq E amount w status
         (wt_AccountNumber w) (BPE (accounts E)) ''DBFAC'' ''DBF''))))"

definition dbfea_Transform :: "'d Transformer" where
  "dbfea_Transform E amount w =
     withStatus w (\<lambda>status.
     bind getMetadata (\<lambda>metadata.
     failWhen (getLoanAccountNumberMetadata metadata = '''') (Sentinel ErrMissingLoanAccountNumberFromMetadata) (
     bind (call (GetInvestedAccountNumber E (wt_AccountNumber w))) (\<lambda>investedAccountNumber.
     one (newReq E amount w status
         investedAccountNumber (wt_AccountNumber w) ''DBFEA'' ''DBF'')))))"

definition tableAdm :: "(string \<times> ('d::linordered_idom) Transformer) list" where
  "tableAdm =
     [(''ADJAF'', adjaf_Transform),
      (''ADMAF'', admaf_Transform),
      (''ADMBI'', admbi_Transform),
      (''ADMBT'', admbt_Transform),
      (''ADMCB'', admcb_Transform),
      (''ADMCE'', admce_Transform),
      (''ADMCV'', admcv_Transform),
      (''ADMDA'', admda_Transform),
      (''ADMDD'', admdd_Transform),
      (''ADMDE'', admde_Transform),
      (''ADMDU'', admdu_Transform),
      (''ADMDV'', admdv_Transform),
      (''ADMFA'', admfa_Transform),
      (''ADMFE'', admfe_Transform),
      (''ADMFM'', admfm_Transform),
      (''ADMFP'', admfp_Transform),
      (''ADMFU'', admfu_Transform),
      (''ADMMA'', admma_Transform),
      (''ADMMD'', admmd_Transform),
      (''ADMME'', admme_Transform),
      (''ADMMV'', admmv_Transform),
      (''ADMOB'', admob_Transform),
      (''ADMOC'', admoc_Transform),
      (''ADMPB'', admpb_Transform),
      (''ADMPE'', admpe_Transform),
      (''ADMPF'', admpf_Transform),
      (''ADMPN'', admpn_Transform),
      (''ADMPP'', admpp_Transform),
      (''ADMPT'', admpt_Transform),
      (''ADMRA'', admra_Transform),
      (''ADMRD'', admrd_Transform),
      (''ADMRF'', admrf_Transform),
      (''ADMRP'', admrp_Transform),
      (''ADMRV'', admrv_Transform),
      (''ADMTD'', admtd_Transform),
      (''ADMTP'', admtp_Transform),
      (''ADMTV'', admtv_Transform),
      (''ADMVI'', admvi_Transform),
      (''ADMWP'', admwp_Transform),
      (''BBLDN'', bbldn_Transform),
      (''BBLEN'', bblen_Transform),
      (''BBLTF'', bbltf_Transform),
      (''COTAI'', cotai_Transform),
      (''COTAM'', cotam_Transform),
      (''COTBM'', cotbm_Transform),
      (''COTDA'', cotda_Transform),
      (''COTFP'', cotfp_Transform),
      (''COTGC'', cotgc_Transform),
      (''COTLR'', cotlr_Transform),
      (''COTMF'', cotmf_Transform),
      (''COTPB'', cotpb_Transform),
      (''COTPR'', cotpr_Transform),
      (''COTRC'', cotrc_Transform),
      (''COTRJ'', cotrj_Transform),
      (''COTRQ'', cotrq_Transform),
      (''COTRT'', cotrt_Transform),
      (''COTWC'', cotwc_Transform),
      (''DBFAA'', dbfaa_Transform),
      (''DBFAB'', dbfab_Transform),
      (''DBFAC'', dbfac_Transform),
      (''DBFEA'', dbfea_Transform)]"

lemmas tableAdm_defs =
  adjaf_Transform_def admaf_Transform_def admbi_Transform_def admbt_Transform_def
  admcb_Transform_def admce_Transform_def admcv_Transform_def admda_Transform_def
  admdd_Transform_def admde_Transform_def admdu_Transform_def admdv_Transform_def
  admfa_Transform_def admfe_Transform_def admfm_Transform_def admfp_Transform_def
  admfu_Transform_def admma_Transform_def admmd_Transform_def admme_Transform_def
  admmv_Transform_def admob_Transform_def admoc_Transform_def admpb_Transform_def
  admpe_Transform_def admpf_Transform_def admpn_Transform_def admpp_Transform_def
  admpt_Transform_def admra_Transform_def admrd_Transform_def admrf_Transform_def
  admrp_Transform_def admrv_Transform_def admtd_Transform_def admtp_Transform_def
  admtv_Transform_def admvi_Transform_def admwp_Transform_def bbldn_Transform_def
  bblen_Transform_def bbltf_Transform_def cotai_Transform_def cotam_Transform_def
  cotbm_Transform_def cotda_Transform_def cotfp_Transform_def cotgc_Transform_def
  cotlr_Transform_def cotmf_Transform_def cotpb_Transform_def cotpr_Transform_def
  cotrc_Transform_def cotrj_Transform_def cotrq_Transform_def cotrt_Transform_def
  cotwc_Transform_def dbfaa_Transform_def dbfab_Transform_def dbfac_Transform_def
  dbfea_Transform_def

section \<open>The table\<close>

lemma tableAdm_conforms:
  "list_all (\<lambda>(code, T). ensures (T E amount w) (\<lambda>rs. rs \<noteq> [] \<and> (\<forall>r\<in>set rs. conformsReq E w r))) tableAdm"
  unfolding tableAdm_def list.pred_inject(2) prod.case tableAdm_defs one_def nested_steps Let_def
  by (intro conjI list.pred_inject(1); intro step_intros ensures_bind_newReq ensures_bind;
      simp add: conformsReq_def)

lemma tableAdm_amounts:
  "list_all (\<lambda>(code, T). code \<notin> relayingCodes \<longrightarrow>
     ensures (T E amount w) (\<lambda>rs. totalRequested rs = amt_ValueDecimal amount)) tableAdm"
  unfolding tableAdm_def list.pred_inject(2) prod.case tableAdm_defs one_def nested_steps Let_def
  by (intro conjI impI list.pred_inject(1); (simp add: relayingCodes_def; fail)?;
      intro step_intros ensures_bind_newReq ensures_bind; simp add: totalRequested_def)

lemma tableAdm_keeps:
  "list_all (\<lambda>(code, T). keeps writtenKeys (T E amount w)) tableAdm"
  unfolding tableAdm_def list.pred_inject(2) prod.case tableAdm_defs Let_def
  by (intro conjI list.pred_inject(1); intro keeps_intros; simp add: writtenKeys_def)

lemma tableAdm_draws:
  "list_all (\<lambda>(code, T). draws E d [] (T E amount w)) tableAdm"
  unfolding tableAdm_def list.pred_inject(2) prod.case tableAdm_defs one_def nested_steps Let_def
  by (intro conjI list.pred_inject(1); intro draws_intros draws_bind_newReq draws_bind quiet_intros; simp)

end
