(* ===== verification/TransformersDsb.thy ===== *)
theory TransformersDsb
  imports TransformerLaws
begin

text \<open>
  The transformers of the order types DSB, FPE, INS, INV, ITD, ITR, MFF, MFA, MFG, MFM, MFN, MFW, one definition per file of
  \<open>internal/services/transformer\<close>, in alphabetical order: \<open>xxxxx_Transform\<close> is the \<open>Transform\<close> method of
  \<open>xxxxx.go\<close>.  The table at the end collects them for the registry.
\<close>

definition dsbaa_Transform :: "'d Transformer" where
  "dsbaa_Transform E amount w =
     withStatus w (\<lambda>status.
     withEntityCode E (wt_AccountNumber w) (\<lambda>entityCode.
     bind (MutateMetadataByAccountEntity E entityCode) (\<lambda>_.
     one (newReq E amount w status
         (GetSourceAccountForDSBAA w) (SystemAccountNumber (accounts E)) ''DSBAA'' ''DSB''))))"

definition dsbab_Transform :: "'d Transformer" where
  "dsbab_Transform E amount w =
     withStatus w (\<lambda>status.
     bind (setMetadata ''loanAccountNumber'' (AnyString (wt_AccountNumber w))) (\<lambda>_.
     withEntityCode E (wt_AccountNumber w) (\<lambda>entityCode.
     bind (MutateMetadataByAccountEntity E entityCode) (\<lambda>_.
     one (newReq E amount w status
         (SystemAccountNumber (accounts E)) (wt_AccountNumber w) ''DSBAB'' ''DSB'')))))"

definition dsbao_Transform :: "'d Transformer" where
  "dsbao_Transform E amount w =
     withStatus w (\<lambda>status.
     one (newReq E amount w status
         (wt_AccountNumber w) (SystemAccountNumber (accounts E)) ''DSBAO'' ''DSB''))"

definition dsbap_Transform :: "'d Transformer" where
  "dsbap_Transform E amount w =
     withStatus w (\<lambda>status.
     failWhen (wt_DestinationAccountNumber w = '''') (Sentinel ErrMissingDestinationAccountNumber) (
     one (newReq E amount w status
         (wt_AccountNumber w) (wt_DestinationAccountNumber w) ''DSBAP'' ''DSB'')))"

definition dsbba_Transform :: "'d Transformer" where
  "dsbba_Transform E amount w =
     withStatus w (\<lambda>status.
     one (newReq E amount w status
         (BPE (accounts E)) (wt_AccountNumber w) ''DSBBA'' ''DSB''))"

definition dsbbb_Transform :: "'d Transformer" where
  "dsbbb_Transform E amount w =
     withStatus w (\<lambda>status.
     failWhen (wt_DestinationAccountNumber w = '''') (Sentinel ErrMissingDestinationAccountNumber) (
     one (newReq E amount w status
         (wt_AccountNumber w) (wt_DestinationAccountNumber w) ''DSBBB'' ''DSB'')))"

definition dsbbc_Transform :: "'d Transformer" where
  "dsbbc_Transform E amount w =
     withStatus w (\<lambda>status.
     failWhen (wt_DestinationAccountNumber w = '''') (Sentinel ErrMissingDestinationAccountNumber) (
     one (newReq E amount w status
         (wt_AccountNumber w) (wt_DestinationAccountNumber w) ''DSBBC'' ''DSB'')))"

definition dsbbd_Transform :: "'d Transformer" where
  "dsbbd_Transform E amount w =
     withStatus w (\<lambda>status.
     one (newReq E amount w status
         (wt_AccountNumber w) (SystemAccountNumber (accounts E)) ''DSBBD'' ''DSB''))"

definition dsbbe_Transform :: "'d Transformer" where
  "dsbbe_Transform E amount w =
     withStatus w (\<lambda>status.
     failWhen (wt_DestinationAccountNumber w = '''') (Sentinel ErrMissingDestinationAccountNumber) (
     one (newReq E amount w status
         (wt_AccountNumber w) (wt_DestinationAccountNumber w) ''DSBBE'' ''DSB'')))"

definition dsbed_Transform :: "'d Transformer" where
  "dsbed_Transform E amount w =
     withStatus w (\<lambda>status.
     one (newReq E amount w status
         (SystemAccountNumber (accounts E)) (wt_AccountNumber w) ''DSBED'' ''DSB''))"

definition dsbfd_Transform :: "'d Transformer" where
  "dsbfd_Transform E amount w =
     withStatus w (\<lambda>status.
     failWhen (wt_DestinationAccountNumber w = '''') (Sentinel ErrMissingDestinationAccountNumber) (
     one (newReq E amount w status
         (wt_AccountNumber w) (wt_DestinationAccountNumber w) ''DSBFD'' ''DSB'')))"

definition dsblb_Transform :: "'d Transformer" where
  "dsblb_Transform E amount w =
     withStatus w (\<lambda>status.
     failWhen (wt_DestinationAccountNumber w = '''') (Sentinel ErrMissingDestinationAccountNumber) (
     one (newReq E amount w status
         (wt_AccountNumber w) (wt_DestinationAccountNumber w) ''DSBLB'' ''DSB'')))"

definition dsbld_Transform :: "'d Transformer" where
  "dsbld_Transform E amount w =
     withStatus w (\<lambda>status.
     bind (call (GetLoanAdvancePayment E (wt_AccountNumber w))) (\<lambda>loanAdvancePayment.
     one (newReq E amount w status
         (SystemAccountNumber (accounts E)) loanAdvancePayment ''DSBLD'' ''DSB'')))"

definition dsbmr_Transform :: "'d Transformer" where
  "dsbmr_Transform E amount w =
     withStatus w (\<lambda>status.
     bind (newReq E amount w status
         (BPE (accounts E)) (SystemAccountNumber (accounts E)) ''DSBMR'' ''DSB'') (\<lambda>r1.
     bind (newReq E amount w status
         (SystemAccountNumber (accounts E)) (wt_AccountNumber w) ''DSBLR'' ''DSB'') (\<lambda>r2.
     return [r1, r2])))"

definition dsbpd_Transform :: "'d Transformer" where
  "dsbpd_Transform E amount w =
     withStatus w (\<lambda>status.
     requireString ''oldLoanAccountNumber'' ErrMissingOldLoanAccountNumberFromMetadata (\<lambda>oldLoanAccountNumber.
     requireString ''newLoanAccountNumber'' ErrMissingNewLoanAccountNumberFromMetadata (\<lambda>newLoanAccountNumber.
     bind (call (GetCachedAccount E oldLoanAccountNumber)) (\<lambda>oldAccount.
     bind (call (GetCachedAccount E newLoanAccountNumber)) (\<lambda>newAccount.
     failWhen (strIndex (MapAccountEntity (accounts E)) (acc_Entity newAccount) = '''')
       (Sentinel ErrNewEntityLoanAccountNumberFromMetadataNotFound) (
     failWhen (strIndex (MapAccountEntity (accounts E)) (acc_Entity oldAccount) = '''')
       (Sentinel ErrOldEntityLoanAccountNumberFromMetadataNotFound) (
     bind (setMetadata ''newEntityLoanAccountNumber'' (AnyString (acc_Entity newAccount))) (\<lambda>_.
     bind (setMetadata ''oldEntityLoanAccountNumber'' (AnyString (acc_Entity oldAccount))) (\<lambda>_.
     one (newReq E amount w status
         (SystemAccountNumber (accounts E)) (SystemAccountNumber (accounts E)) ''DSBPD'' ''DSB''))))))))))"

definition dsbpi_Transform :: "'d Transformer" where
  "dsbpi_Transform E amount w =
     withStatus w (\<lambda>status.
     withEntityCode E (wt_AccountNumber w) (\<lambda>entityCode.
     bind (call (getAccountNumberFromConfig (AccountNumberInsurancePremiumDisbursementByEntity (accounts E))
                   (strIndex (MapAccountEntity (accounts E)) entityCode))) (\<lambda>toAccount.
     bind (MutateMetadataByAccountEntity E entityCode) (\<lambda>_.
     bind (newReq E amount w status
         (SystemAccountNumber (accounts E)) toAccount ''DSBPI'' ''DSB'') (\<lambda>r.
     return [r\<lparr>req_Description := ''Premi Insurance from Disbursement Loan '' @ wt_AccountNumber w\<rparr>])))))"

definition dsbpo_Transform :: "'d Transformer" where
  "dsbpo_Transform E amount w =
     withStatus w (\<lambda>status.
     one (newReq E amount w status
         (wt_AccountNumber w) (SystemAccountNumber (accounts E)) ''DSBPO'' ''DSB''))"

definition dsbrd_Transform :: "'d Transformer" where
  "dsbrd_Transform E amount w =
     withStatus w (\<lambda>status.
     one (newReq E amount w status
         (wt_AccountNumber w) (SystemAccountNumber (accounts E)) ''DSBRD'' ''DSB''))"

text \<open>The currency is the one of the net amount, whichever amount is transformed.\<close>

definition createDefaultDSB ::
  "'d Env \<Rightarrow> string \<Rightarrow> string \<Rightarrow> 'd \<Rightarrow> string \<Rightarrow> 'd WalletTransaction \<Rightarrow> ('d, 'd TransactionReq) step" where
  "createDefaultDSB E fromAccount toAccount amount typeTransaction w =
     withStatus w (\<lambda>status.
     withEntityCode E toAccount (\<lambda>entityCode.
     bind (setMetadata ''loanAccountNumber'' (AnyString (wt_AccountNumber w))) (\<lambda>_.
     bind (MutateMetadataByAccountEntity E entityCode) (\<lambda>_.
     newReq E \<lparr>amt_ValueDecimal = amount, amt_Currency = amt_Currency (wt_NetAmount w)\<rparr> w status
         fromAccount toAccount typeTransaction ''DSB''))))"

definition getRevenueAccountNumber :: "'d Env \<Rightarrow> 'd WalletTransaction \<Rightarrow> string result" where
  "getRevenueAccountNumber E w =
     (if wt_Description w = ''MODAL_LOAN'' then
        rbind (GetCachedAccount E (wt_AccountNumber w)) (\<lambda>account.
          let entity = strIndex (MapAccountEntity (accounts E)) (acc_Entity account)
          in if entity = '''' then Err (Sentinel ErrMissingEntityFromAccount)
             else getAccountNumberFromConfig (AmarthaRevenueModalLoanPlatformFeeByEntityCode (accounts E)) entity)
      else GetAdminFee E (wt_AccountNumber w) (wt_Description w))"

definition dsbrp_Transform :: "'d::linordered_idom Transformer" where
  "dsbrp_Transform E amount w =
     bind (call (getRevenueAccountNumber E w)) (\<lambda>amarthaRevenue.
     if wt_Description w \<in> {''NORMAL'', ''MODAL_LOAN''} then
       one (createDefaultDSB E (SystemAccountNumber (accounts E)) amarthaRevenue (amt_ValueDecimal amount) ''DSBRP'' w)
     else
       bind (call (GetVatOut E (wt_AccountNumber w) (wt_Description w))) (\<lambda>VATOut.
       bind (call (GetConfigVATRevenue E)) (\<lambda>configVAT.
       bind (call (calculateVAT E (amt_ValueDecimal amount) (wt_TransactionTime w) configVAT)) (\<lambda>amountDSBRQ.
       bind (createDefaultDSB E (SystemAccountNumber (accounts E)) VATOut amountDSBRQ ''DSBRQ'' w) (\<lambda>txDSBRQ.
       bind (createDefaultDSB E (SystemAccountNumber (accounts E)) amarthaRevenue
               (amt_ValueDecimal amount - amountDSBRQ) ''DSBRP'' w) (\<lambda>txDSBRP.
       return [txDSBRQ, txDSBRP]))))))"

definition dsbtf_Transform :: "'d Transformer" where
  "dsbtf_Transform E amount w =
     withStatus w (\<lambda>status.
     one (newReq E amount w status
         (wt_AccountNumber w) (wt_DestinationAccountNumber w) ''DSBTF'' ''DSB''))"

definition dsbti_Transform :: "'d Transformer" where
  "dsbti_Transform E amount w =
     withStatus w (\<lambda>status.
     bind getMetadata (\<lambda>metadata.
     failWhen (getEntityFromMetadata metadata = '''') (Sentinel ErrMissingEntityFromMetadata) (
     bind getMetadata (\<lambda>metadata.
     failWhen (getProductTypeFromMetadata metadata = '''') (Sentinel ErrMissingProductTypeFromMetadata) (
     one (newReq E amount w status
         (wt_AccountNumber w) (SystemAccountNumber (accounts E)) ''DSBTI'' ''DSB''))))))"

definition fpepd_Transform :: "'d Transformer" where
  "fpepd_Transform E amount w =
     withStatus w (\<lambda>status.
     failWhen (wt_DestinationAccountNumber w = '''') (Sentinel ErrMissingDestinationAccountNumber) (
     one (newReq E amount w status
         (wt_AccountNumber w) (wt_DestinationAccountNumber w) ''FPEPD'' ''FPE'')))"

definition fpept_Transform :: "'d Transformer" where
  "fpept_Transform E amount w =
     withStatus w (\<lambda>status.
     failWhen (wt_DestinationAccountNumber w = '''') (Sentinel ErrMissingDestinationAccountNumber) (
     one (newReq E amount w status
         (wt_AccountNumber w) (wt_DestinationAccountNumber w) ''FPEPT'' ''FPE'')))"

definition insca_Transform :: "'d Transformer" where
  "insca_Transform E amount w =
     withStatus w (\<lambda>status.
     one (newReq E amount w status
         (SystemAccountNumber (accounts E)) (wt_AccountNumber w) ''INSCA'' ''INS''))"

definition inscl_Transform :: "'d Transformer" where
  "inscl_Transform E amount w =
     withStatus w (\<lambda>status.
     one (newReq E amount w status
         (SystemAccountNumber (accounts E)) (wt_AccountNumber w) ''INSCL'' ''INS''))"

definition insdl_Transform :: "'d Transformer" where
  "insdl_Transform E amount w =
     withStatus w (\<lambda>status.
     failWhen (wt_DestinationAccountNumber w = '''') (Sentinel ErrMissingDestinationAccountNumber) (
     one (newReq E amount w status
         (wt_AccountNumber w) (wt_DestinationAccountNumber w) ''INSDL'' ''INS'')))"

definition inshn_Transform :: "'d Transformer" where
  "inshn_Transform E amount w =
     withStatus w (\<lambda>status.
     one (newReq E amount w status
         (SystemAccountNumber (accounts E)) (wt_AccountNumber w) ''INSHN'' ''INS''))"

definition insll_Transform :: "'d Transformer" where
  "insll_Transform E amount w =
     withStatus w (\<lambda>status.
     bind (call (GetInvestedAccountNumber E (wt_AccountNumber w))) (\<lambda>investedAccountNumber.
     one (newReq E amount w status
         investedAccountNumber (SystemAccountNumber (accounts E)) ''INSLL'' ''INS'')))"

definition inslr_Transform :: "'d Transformer" where
  "inslr_Transform E amount w =
     withStatus w (\<lambda>status.
     failWhen (wt_DestinationAccountNumber w = '''') (Sentinel ErrMissingDestinationAccountNumber) (
     bind (call (GetInvestedAccountNumber E (wt_AccountNumber w))) (\<lambda>investedOriginal.
     bind (call (GetInvestedAccountNumber E (wt_DestinationAccountNumber w))) (\<lambda>investedRemedial.
     one (newReq E amount w status
         investedOriginal investedRemedial ''INSLR'' ''INS'')))))"

definition inspa_Transform :: "'d Transformer" where
  "inspa_Transform E amount w =
     withStatus w (\<lambda>status.
     one (newReq E amount w status
         (SystemAccountNumber (accounts E)) (wt_AccountNumber w) ''INSPA'' ''INS''))"

definition inspi_Transform :: "'d Transformer" where
  "inspi_Transform E amount w =
     withStatus w (\<lambda>status.
     one (newReq E amount w status
         (wt_AccountNumber w) (SystemAccountNumber (accounts E)) ''INSPI'' ''INS''))"

definition inspl_Transform :: "'d Transformer" where
  "inspl_Transform E amount w =
     withStatus w (\<lambda>status.
     one (newReq E amount w status
         (wt_AccountNumber w) (SystemAccountNumber (accounts E)) ''INSPL'' ''INS''))"

definition inspn_Transform :: "'d Transformer" where
  "inspn_Transform E amount w =
     withStatus w (\<lambda>status.
     one (newReq E amount w status
         (wt_AccountNumber w) (SystemAccountNumber (accounts E)) ''INSPN'' ''INS''))"

definition invmt_Transform :: "'d Transformer" where
  "invmt_Transform E amount w =
     withStatus w (\<lambda>status.
     bind (call (GetInvestedAccountNumber E (wt_AccountNumber w))) (\<lambda>investedAccountNumber.
     one (newReq E amount w status
         (wt_AccountNumber w) investedAccountNumber ''INVMT'' ''INV'')))"

definition invvo_Transform :: "'d Transformer" where
  "invvo_Transform E amount w =
     withStatus w (\<lambda>status.
     bind (call (GetInvestedAccountNumber E (wt_AccountNumber w))) (\<lambda>investedAccountNumber.
     one (newReq E amount w status
         (OperationalReceivableVoucher (accounts E)) investedAccountNumber ''INVVO'' ''INV'')))"

definition itded_Transform :: "'d Transformer" where
  "itded_Transform E amount w =
     withStatus w (\<lambda>status.
     failWhen (wt_DestinationAccountNumber w = '''') (Sentinel ErrMissingDestinationAccountNumber) (
     one (newReq E amount w status
         (wt_AccountNumber w) (wt_DestinationAccountNumber w) ''ITDED'' ''ITD'')))"

definition itdep_Transform :: "'d Transformer" where
  "itdep_Transform E amount w =
     withStatus w (\<lambda>status.
     failWhen (wt_DestinationAccountNumber w = '''') (Sentinel ErrMissingDestinationAccountNumber) (
     one (newReq E amount w status
         (wt_AccountNumber w) (wt_DestinationAccountNumber w) ''ITDEP'' ''ITD'')))"

definition itdph_Transform :: "'d Transformer" where
  "itdph_Transform E amount w =
     withStatus w (\<lambda>status.
     bind getMetadata (\<lambda>metadata.
     failWhen (getProductTypeFromMetadata metadata = '''') (Sentinel ErrMissingProductTypeFromMetadata) (
     bind (call (getAccountNumberFromConfig (WHT2326Loan (accounts E)) (getProductTypeFromMetadata metadata)))
       (\<lambda>pphAccount.
     one (newReq E amount w status (wt_AccountNumber w) pphAccount ''ITDPH'' ''ITD'')))))"

definition itrtf_Transform :: "'d Transformer" where
  "itrtf_Transform E amount w =
     withStatus w (\<lambda>status.
     one (newReq E amount w status
         (wt_AccountNumber w) (wt_DestinationAccountNumber w) ''ITRTF'' ''ITR''))"

definition itrtp_Transform :: "'d Transformer" where
  "itrtp_Transform E amount w =
     withStatus w (\<lambda>status.
     failWhen (wt_DestinationAccountNumber w = '''') (Sentinel ErrMissingDestinationAccountNumber) (
     one (newReq E amount w status
         (wt_AccountNumber w) (wt_DestinationAccountNumber w) ''ITRTP'' ''ITR'')))"

definition mfaaj_Transform :: "'d Transformer" where
  "mfaaj_Transform E amount w =
     withStatus w (\<lambda>status.
     one (newReq E amount w status
         (SystemAccountNumber (accounts E)) (wt_AccountNumber w) ''MFAAJ'' ''MFA''))"

definition mfaqr_Transform :: "'d Transformer" where
  "mfaqr_Transform E amount w =
     withStatus w (\<lambda>status.
     one (newReq E amount w status
         (wt_AccountNumber w) (SystemAccountNumber (accounts E)) ''MFAQR'' ''MFA''))"

definition mffep_Transform :: "'d Transformer" where
  "mffep_Transform E amount w =
     withStatus w (\<lambda>status.
     failWhen (wt_DestinationAccountNumber w = '''') (Sentinel ErrMissingDestinationAccountNumber) (
     one (newReq E amount w status
         (wt_AccountNumber w) (wt_DestinationAccountNumber w) ''MFFEP'' ''MFF'')))"

definition mffgl_Transform :: "'d Transformer" where
  "mffgl_Transform E amount w =
     withStatus w (\<lambda>status.
     one (newReq E amount w status
         (BRIEscrowAFAAccountNumber (accounts E)) (wt_AccountNumber w) ''MFFGL'' ''MFF''))"

definition mffmd_Transform :: "'d Transformer" where
  "mffmd_Transform E amount w =
     withStatus w (\<lambda>status.
     one (newReq E amount w status
         (BRIEscrowAFAAccountNumber (accounts E)) (wt_AccountNumber w) ''MFFMD'' ''MFF''))"

definition mffwc_Transform :: "'d Transformer" where
  "mffwc_Transform E amount w =
     withStatus w (\<lambda>status.
     one (newReq E amount w status
         (wt_AccountNumber w) (SystemAccountNumber (accounts E)) ''MFFWC'' ''MFF''))"

definition mfgpi_Transform :: "'d Transformer" where
  "mfgpi_Transform E amount w =
     withStatus w (\<lambda>status.
     one (newReq E amount w status
         (SystemAccountNumber (accounts E)) (wt_AccountNumber w) ''MFGPI'' ''MFG''))"

definition mfmep_Transform :: "'d Transformer" where
  "mfmep_Transform E amount w =
     withStatus w (\<lambda>status.
     bind getMetadata (\<lambda>metadata.
     failWhen (getEntityFromMetadata metadata = '''') (Sentinel ErrMissingEntityFromMetadata) (
     one (newReq E amount w status
         (wt_AccountNumber w) (BRIEscrowAFAAccountNumber (accounts E)) ''MFMEP'' ''MFM''))))"

definition mfmmp_Transform :: "'d Transformer" where
  "mfmmp_Transform E amount w =
     withStatus w (\<lambda>status.
     one (newReq E amount w status
         (wt_AccountNumber w) (BRIEscrowAFAAccountNumber (accounts E)) ''MFMMP'' ''MFM''))"

definition mfmpp_Transform :: "'d Transformer" where
  "mfmpp_Transform E amount w =
     withStatus w (\<lambda>status.
     bind getMetadata (\<lambda>metadata.
     failWhen (getEntityFromMetadata metadata = '''') (Sentinel ErrMissingEntityFromMetadata) (
     failWhen (wt_DestinationAccountNumber w = '''') (Sentinel ErrMissingDestinationAccountNumber) (
     one (newReq E amount w status
         (wt_AccountNumber w) (wt_DestinationAccountNumber w) ''MFMPP'' ''MFM'')))))"

definition mfmrp_Transform :: "'d Transformer" where
  "mfmrp_Transform E amount w =
     withStatus w (\<lambda>status.
     one (newReq E amount w status
         (wt_AccountNumber w) (BRIEscrowAFAAccountNumber (accounts E)) ''MFMRP'' ''MFM''))"

definition mfmtp_Transform :: "'d Transformer" where
  "mfmtp_Transform E amount w =
     withStatus w (\<lambda>status.
     one (newReq E amount w status
         (wt_AccountNumber w) (BRIEscrowAFAAccountNumber (accounts E)) ''MFMTP'' ''MFM''))"

definition mfmwc_Transform :: "'d Transformer" where
  "mfmwc_Transform E amount w =
     withStatus w (\<lambda>status.
     failWhen (wt_DestinationAccountNumber w = '''') (Sentinel ErrMissingDestinationAccountNumber) (
     one (newReq E amount w status
         (wt_AccountNumber w) (wt_DestinationAccountNumber w) ''MFMWC'' ''MFM'')))"

definition mfnpc_Transform :: "'d Transformer" where
  "mfnpc_Transform E amount w =
     withStatus w (\<lambda>status.
     one (newReq E amount w status
         (wt_AccountNumber w) (SystemAccountNumber (accounts E)) ''MFNPC'' ''MFN''))"

definition mfnpr_Transform :: "'d Transformer" where
  "mfnpr_Transform E amount w =
     withStatus w (\<lambda>status.
     one (newReq E amount w status
         (wt_AccountNumber w) (SystemAccountNumber (accounts E)) ''MFNPR'' ''MFN''))"

definition mfwaf_Transform :: "'d Transformer" where
  "mfwaf_Transform E amount w =
     withStatus w (\<lambda>status.
     one (newReq E amount w status
         (wt_AccountNumber w) (SystemAccountNumber (accounts E)) ''MFWAF'' ''MFW''))"

definition mfwit_Transform :: "'d Transformer" where
  "mfwit_Transform E amount w =
     withStatus w (\<lambda>status.
     one (newReq E amount w status
         (wt_AccountNumber w) (SystemAccountNumber (accounts E)) ''MFWIT'' ''MFW''))"

definition mfwlf_Transform :: "'d Transformer" where
  "mfwlf_Transform E amount w =
     withStatus w (\<lambda>status.
     one (newReq E amount w status
         (wt_AccountNumber w) (SystemAccountNumber (accounts E)) ''MFWLF'' ''MFW''))"

definition mfwph_Transform :: "'d Transformer" where
  "mfwph_Transform E amount w =
     withStatus w (\<lambda>status.
     one (newReq E amount w status
         (wt_AccountNumber w) (SystemAccountNumber (accounts E)) ''MFWPH'' ''MFW''))"

definition mfwpn_Transform :: "'d Transformer" where
  "mfwpn_Transform E amount w =
     withStatus w (\<lambda>status.
     one (newReq E amount w status
         (wt_AccountNumber w) (SystemAccountNumber (accounts E)) ''MFWPN'' ''MFW''))"

definition mfwrp_Transform :: "'d Transformer" where
  "mfwrp_Transform E amount w =
     withStatus w (\<lambda>status.
     withEntityCode E (wt_AccountNumber w) (\<lambda>entityCode.
     bind (setMetadata ''entity'' (AnyString (strIndex (MapAccountEntity (accounts E)) entityCode))) (\<lambda>_.
     one (newReq E amount w status
         (wt_AccountNumber w) (SystemAccountNumber (accounts E)) ''MFWRP'' ''MFW''))))"

definition mfwrq_Transform :: "'d Transformer" where
  "mfwrq_Transform E amount w =
     withStatus w (\<lambda>status.
     withEntityCode E (wt_AccountNumber w) (\<lambda>entityCode.
     bind (setMetadata ''entity'' (AnyString (strIndex (MapAccountEntity (accounts E)) entityCode))) (\<lambda>_.
     one (newReq E amount w status
         (wt_AccountNumber w) (SystemAccountNumber (accounts E)) ''MFWRQ'' ''MFW''))))"

definition tableDsb :: "(string \<times> ('d::linordered_idom) Transformer) list" where
  "tableDsb =
     [(''DSBAA'', dsbaa_Transform),
      (''DSBAB'', dsbab_Transform),
      (''DSBAO'', dsbao_Transform),
      (''DSBAP'', dsbap_Transform),
      (''DSBBA'', dsbba_Transform),
      (''DSBBB'', dsbbb_Transform),
      (''DSBBC'', dsbbc_Transform),
      (''DSBBD'', dsbbd_Transform),
      (''DSBBE'', dsbbe_Transform),
      (''DSBED'', dsbed_Transform),
      (''DSBFD'', dsbfd_Transform),
      (''DSBLB'', dsblb_Transform),
      (''DSBLD'', dsbld_Transform),
      (''DSBMR'', dsbmr_Transform),
      (''DSBPD'', dsbpd_Transform),
      (''DSBPI'', dsbpi_Transform),
      (''DSBPO'', dsbpo_Transform),
      (''DSBRD'', dsbrd_Transform),
      (''DSBRP'', dsbrp_Transform),
      (''DSBTF'', dsbtf_Transform),
      (''DSBTI'', dsbti_Transform),
      (''FPEPD'', fpepd_Transform),
      (''FPEPT'', fpept_Transform),
      (''INSCA'', insca_Transform),
      (''INSCL'', inscl_Transform),
      (''INSDL'', insdl_Transform),
      (''INSHN'', inshn_Transform),
      (''INSLL'', insll_Transform),
      (''INSLR'', inslr_Transform),
      (''INSPA'', inspa_Transform),
      (''INSPI'', inspi_Transform),
      (''INSPL'', inspl_Transform),
      (''INSPN'', inspn_Transform),
      (''INVMT'', invmt_Transform),
      (''INVVO'', invvo_Transform),
      (''ITDED'', itded_Transform),
      (''ITDEP'', itdep_Transform),
      (''ITDPH'', itdph_Transform),
      (''ITRTF'', itrtf_Transform),
      (''ITRTP'', itrtp_Transform),
      (''MFAAJ'', mfaaj_Transform),
      (''MFAQR'', mfaqr_Transform),
      (''MFFEP'', mffep_Transform),
      (''MFFGL'', mffgl_Transform),
      (''MFFMD'', mffmd_Transform),
      (''MFFWC'', mffwc_Transform),
      (''MFGPI'', mfgpi_Transform),
      (''MFMEP'', mfmep_Transform),
      (''MFMMP'', mfmmp_Transform),
      (''MFMPP'', mfmpp_Transform),
      (''MFMRP'', mfmrp_Transform),
      (''MFMTP'', mfmtp_Transform),
      (''MFMWC'', mfmwc_Transform),
      (''MFNPC'', mfnpc_Transform),
      (''MFNPR'', mfnpr_Transform),
      (''MFWAF'', mfwaf_Transform),
      (''MFWIT'', mfwit_Transform),
      (''MFWLF'', mfwlf_Transform),
      (''MFWPH'', mfwph_Transform),
      (''MFWPN'', mfwpn_Transform),
      (''MFWRP'', mfwrp_Transform),
      (''MFWRQ'', mfwrq_Transform)]"

lemmas tableDsb_defs =
  dsbaa_Transform_def dsbab_Transform_def dsbao_Transform_def dsbap_Transform_def
  dsbba_Transform_def dsbbb_Transform_def dsbbc_Transform_def dsbbd_Transform_def
  dsbbe_Transform_def dsbed_Transform_def dsbfd_Transform_def dsblb_Transform_def
  dsbld_Transform_def dsbmr_Transform_def dsbpd_Transform_def dsbpi_Transform_def
  dsbpo_Transform_def dsbrd_Transform_def dsbrp_Transform_def dsbtf_Transform_def
  dsbti_Transform_def fpepd_Transform_def fpept_Transform_def insca_Transform_def
  inscl_Transform_def insdl_Transform_def inshn_Transform_def insll_Transform_def
  inslr_Transform_def inspa_Transform_def inspi_Transform_def inspl_Transform_def
  inspn_Transform_def invmt_Transform_def invvo_Transform_def itded_Transform_def
  itdep_Transform_def itdph_Transform_def itrtf_Transform_def itrtp_Transform_def
  mfaaj_Transform_def mfaqr_Transform_def mffep_Transform_def mffgl_Transform_def
  mffmd_Transform_def mffwc_Transform_def mfgpi_Transform_def mfmep_Transform_def
  mfmmp_Transform_def mfmpp_Transform_def mfmrp_Transform_def mfmtp_Transform_def
  mfmwc_Transform_def mfnpc_Transform_def mfnpr_Transform_def mfwaf_Transform_def
  mfwit_Transform_def mfwlf_Transform_def mfwph_Transform_def mfwpn_Transform_def
  mfwrp_Transform_def mfwrq_Transform_def createDefaultDSB_def

section \<open>The table\<close>

lemma tableDsb_conforms:
  "list_all (\<lambda>(code, T). ensures (T E amount w) (\<lambda>rs. rs \<noteq> [] \<and> (\<forall>r\<in>set rs. conformsReq E w r))) tableDsb"
  unfolding tableDsb_def list.pred_inject(2) prod.case tableDsb_defs one_def nested_steps Let_def
  by (intro conjI list.pred_inject(1); intro step_intros ensures_bind_newReq ensures_bind;
      simp add: conformsReq_def)

lemma tableDsb_amounts:
  "list_all (\<lambda>(code, T). code \<notin> relayingCodes \<longrightarrow>
     ensures (T E amount w) (\<lambda>rs. totalRequested rs = amt_ValueDecimal amount)) tableDsb"
  unfolding tableDsb_def list.pred_inject(2) prod.case tableDsb_defs one_def nested_steps Let_def
  by (intro conjI impI list.pred_inject(1); (simp add: relayingCodes_def; fail)?;
      intro step_intros ensures_bind_newReq ensures_bind; simp add: totalRequested_def)

lemma tableDsb_keeps:
  "list_all (\<lambda>(code, T). keeps writtenKeys (T E amount w)) tableDsb"
  unfolding tableDsb_def list.pred_inject(2) prod.case tableDsb_defs Let_def
  by (intro conjI list.pred_inject(1); intro keeps_intros; simp add: writtenKeys_def)

lemma tableDsb_draws:
  "list_all (\<lambda>(code, T). draws E d [] (T E amount w)) tableDsb"
  unfolding tableDsb_def list.pred_inject(2) prod.case tableDsb_defs one_def nested_steps Let_def
  by (intro conjI list.pred_inject(1); intro draws_intros draws_bind_newReq draws_bind quiet_intros; simp)

end
