(* ===== verification/TransformersPay.thy ===== *)
theory TransformersPay
  imports TransformerLaws
begin

text \<open>
  The transformers of the order types MMW, MWM, PAY, PRM, RFD, one definition per file of
  \<open>internal/services/transformer\<close>, in alphabetical order: \<open>xxxxx_Transform\<close> is the \<open>Transform\<close> method of
  \<open>xxxxx.go\<close>.  The table at the end collects them for the registry.
\<close>

definition mmwpd_Transform :: "'d Transformer" where
  "mmwpd_Transform E amount w =
     withStatus w (\<lambda>status.
     one (newReq E amount w status
         (wt_AccountNumber w) (wt_DestinationAccountNumber w) ''MMWPD'' ''MMW''))"

definition mmwpi_Transform :: "'d Transformer" where
  "mmwpi_Transform E amount w =
     withStatus w (\<lambda>status.
     one (newReq E amount w status
         (wt_AccountNumber w) (SystemAccountNumber (accounts E)) ''MMWPI'' ''MMW''))"

definition mwmpd_Transform :: "'d Transformer" where
  "mwmpd_Transform E amount w =
     withStatus w (\<lambda>status.
     one (newReq E amount w status
         (wt_AccountNumber w) (wt_DestinationAccountNumber w) ''MWMPD'' ''MWM''))"

definition mwmpi_Transform :: "'d Transformer" where
  "mwmpi_Transform E amount w =
     withStatus w (\<lambda>status.
     one (newReq E amount w status
         (wt_AccountNumber w) (SystemAccountNumber (accounts E)) ''MWMPI'' ''MWM''))"

definition paydl_Transform :: "'d Transformer" where
  "paydl_Transform E amount w =
     withStatus w (\<lambda>status.
     one (newReq E amount w status
         (DepositDiscountPPOB (accounts E)) (wt_AccountNumber w) ''PAYDL'' ''PAY''))"

definition paydp_Transform :: "'d Transformer" where
  "paydp_Transform E amount w =
     withStatus w (\<lambda>status.
     one (newReq E amount w status
         (SystemAccountNumber (accounts E)) (wt_AccountNumber w) ''PAYDP'' ''PAY''))"

definition payfl_Transform :: "'d Transformer" where
  "payfl_Transform E amount w =
     withStatus w (\<lambda>status.
     one (newReq E amount w status
         (wt_AccountNumber w) (SystemAccountNumber (accounts E)) ''PAYFL'' ''PAY''))"

definition payfp_Transform :: "'d Transformer" where
  "payfp_Transform E amount w =
     withStatus w (\<lambda>status.
     one (newReq E amount w status
         (wt_AccountNumber w) (SystemAccountNumber (accounts E)) ''PAYFP'' ''PAY''))"

definition paygl_Transform :: "'d Transformer" where
  "paygl_Transform E amount w =
     withStatus w (\<lambda>status.
     bind getMetadata (\<lambda>metadata.
     failWhen (getLoanAccountNumber metadata = '''') (Sentinel ErrMissingLoanAccountNumberFromMetadata) (
     one (newReq E amount w status
         (wt_AccountNumber w) (SystemAccountNumber (accounts E)) ''PAYGL'' ''PAY''))))"

definition paymd_Transform :: "'d Transformer" where
  "paymd_Transform E amount w =
     withStatus w (\<lambda>status.
     bind getMetadata (\<lambda>metadata.
     failWhen (ValidatePAYMDLoanAccountNumber (settings E) \<and> getLoanAccountNumber metadata = '''')
       (Sentinel ErrMissingLoanAccountNumberFromMetadata) (
     bind (if ValidatePAYMDLoanIDS (settings E) then
             bind (call (getLoanIds metadata)) (\<lambda>loanIds.
             failWhen (loanIds = []) (Sentinel ErrMissingLoanIdsFromMetadata) (return ()))
           else return ()) (\<lambda>_.
     one (newReq E amount w status
         (wt_AccountNumber w) (SystemAccountNumber (accounts E)) ''PAYMD'' ''PAY'')))))"

definition paypc_Transform :: "'d Transformer" where
  "paypc_Transform E amount w =
     withStatus w (\<lambda>status.
     bind getMetadata (\<lambda>metadata.
     failWhen (getPartnerPPOBMetadata metadata = '''') (Sentinel ErrMissingPartnerPPOBFromMetadata) (
     one (newReq E amount w status
         (wt_AccountNumber w) (SystemAccountNumber (accounts E)) ''PAYPC'' ''PAY''))))"

definition paypd_Transform :: "'d Transformer" where
  "paypd_Transform E amount w =
     withStatus w (\<lambda>status.
     one (newReq E amount w status
         (DepositDiscountPPOB (accounts E)) (wt_AccountNumber w) ''PAYPD'' ''PAY''))"

definition paypm_Transform :: "'d Transformer" where
  "paypm_Transform E amount w =
     withStatus w (\<lambda>status.
     one (newReq E amount w status
         (SystemAccountNumber (accounts E)) (wt_AccountNumber w) ''PAYPM'' ''PAY''))"

definition paypr_Transform :: "'d Transformer" where
  "paypr_Transform E amount w =
     withStatus w (\<lambda>status.
     bind getMetadata (\<lambda>metadata.
     failWhen (getPartnerPPOBMetadata metadata = '''') (Sentinel ErrMissingPartnerPPOBFromMetadata) (
     one (newReq E amount w status
         (wt_AccountNumber w) (SystemAccountNumber (accounts E)) ''PAYPR'' ''PAY''))))"

definition paypv_Transform :: "'d Transformer" where
  "paypv_Transform E amount w =
     withStatus w (\<lambda>status.
     one (newReq E amount w status
         (wt_AccountNumber w) (SystemAccountNumber (accounts E)) ''PAYPV'' ''PAY''))"

definition payqr_Transform :: "'d Transformer" where
  "payqr_Transform E amount w =
     withStatus w (\<lambda>status.
     one (newReq E amount w status
         (wt_AccountNumber w) (SystemAccountNumber (accounts E)) ''PAYQR'' ''PAY''))"

definition payvi_Transform :: "'d Transformer" where
  "payvi_Transform E amount w =
     withStatus w (\<lambda>status.
     one (newReq E amount w status
         (DepositVoucherCelengan (accounts E)) (wt_AccountNumber w) ''PAYVI'' ''PAY''))"

definition payvp_Transform :: "'d Transformer" where
  "payvp_Transform E amount w =
     withStatus w (\<lambda>status.
     one (newReq E amount w status
         (DepositVoucher (accounts E)) (wt_AccountNumber w) ''PAYVP'' ''PAY''))"

definition paywc_Transform :: "'d Transformer" where
  "paywc_Transform E amount w =
     withStatus w (\<lambda>status.
     one (newReq E amount w status
         (wt_AccountNumber w) (SystemAccountNumber (accounts E)) ''PAYWC'' ''PAY''))"

definition paywm_Transform :: "'d Transformer" where
  "paywm_Transform E amount w =
     withStatus w (\<lambda>status.
     failWhen (wt_DestinationAccountNumber w = '''') (Sentinel ErrMissingDestinationAccountNumber) (
     one (newReq E amount w status
         (wt_AccountNumber w) (wt_DestinationAccountNumber w) ''PAYWM'' ''PAY'')))"

definition prmcb_Transform :: "'d Transformer" where
  "prmcb_Transform E amount w =
     withStatus w (\<lambda>status.
     one (newReq E amount w status
         (DepositCampaignBudget (accounts E)) (wt_AccountNumber w) ''PRMCB'' ''PRM''))"

definition rfdcb_Transform :: "'d Transformer" where
  "rfdcb_Transform E amount w =
     withStatus w (\<lambda>status.
     one (newReq E amount w status
         (wt_AccountNumber w) (SystemAccountNumber (accounts E)) ''RFDCB'' ''RFD''))"

definition rfddl_Transform :: "'d Transformer" where
  "rfddl_Transform E amount w =
     withStatus w (\<lambda>status.
     one (newReq E amount w status
         (wt_AccountNumber w) (DepositDiscountPPOB (accounts E)) ''RFDDL'' ''RFD''))"

definition rfddp_Transform :: "'d Transformer" where
  "rfddp_Transform E amount w =
     withStatus w (\<lambda>status.
     one (newReq E amount w status
         (wt_AccountNumber w) (SystemAccountNumber (accounts E)) ''RFDDP'' ''RFD''))"

definition rfdfl_Transform :: "'d Transformer" where
  "rfdfl_Transform E amount w =
     withStatus w (\<lambda>status.
     one (newReq E amount w status
         (SystemAccountNumber (accounts E)) (wt_AccountNumber w) ''RFDFL'' ''RFD''))"

definition rfdfp_Transform :: "'d Transformer" where
  "rfdfp_Transform E amount w =
     withStatus w (\<lambda>status.
     one (newReq E amount w status
         (SystemAccountNumber (accounts E)) (wt_AccountNumber w) ''RFDFP'' ''RFD''))"

definition rfdmd_Transform :: "'d Transformer" where
  "rfdmd_Transform E amount w =
     withStatus w (\<lambda>status.
     withEntityCode E (wt_AccountNumber w) (\<lambda>entityCode.
     bind (MutateMetadataByAccountEntity E entityCode) (\<lambda>_.
     one (newReq E amount w status
         (wt_AccountNumber w) (SystemAccountNumber (accounts E)) ''RFDMD'' ''RFD''))))"

definition rfdmp_Transform :: "'d Transformer" where
  "rfdmp_Transform E amount w =
     withStatus w (\<lambda>status.
     one (newReq E amount w status
         (SystemAccountNumber (accounts E)) (wt_AccountNumber w) ''RFDMP'' ''RFD''))"

definition rfdmt_Transform :: "'d Transformer" where
  "rfdmt_Transform E amount w =
     withStatus w (\<lambda>status.
     bind (call (GetInvestedAccountNumber E (wt_AccountNumber w))) (\<lambda>investedAccountNumber.
     one (newReq E amount w status
         investedAccountNumber (wt_AccountNumber w) ''RFDMT'' ''RFD'')))"

definition rfdpc_Transform :: "'d Transformer" where
  "rfdpc_Transform E amount w =
     withStatus w (\<lambda>status.
     bind getMetadata (\<lambda>metadata.
     failWhen (getPartnerPPOBMetadata metadata = '''') (Sentinel ErrMissingPartnerPPOBFromMetadata) (
     one (newReq E amount w status
         (SystemAccountNumber (accounts E)) (wt_AccountNumber w) ''RFDPC'' ''RFD''))))"

definition rfdpd_Transform :: "'d Transformer" where
  "rfdpd_Transform E amount w =
     withStatus w (\<lambda>status.
     one (newReq E amount w status
         (wt_AccountNumber w) (DepositDiscountPPOB (accounts E)) ''RFDPD'' ''RFD''))"

definition rfdpi_Transform :: "'d Transformer" where
  "rfdpi_Transform E amount w =
     withStatus w (\<lambda>status.
     one (newReq E amount w status
         (SystemAccountNumber (accounts E)) (wt_AccountNumber w) ''RFDPI'' ''RFD''))"

definition rfdpp_Transform :: "'d Transformer" where
  "rfdpp_Transform E amount w =
     withStatus w (\<lambda>status.
     failWhen (wt_DestinationAccountNumber w = '''') (Sentinel ErrMissingDestinationAccountNumber) (
     one (newReq E amount w status
         (wt_AccountNumber w) (wt_DestinationAccountNumber w) ''RFDPP'' ''RFD'')))"

definition rfdpr_Transform :: "'d Transformer" where
  "rfdpr_Transform E amount w =
     withStatus w (\<lambda>status.
     bind getMetadata (\<lambda>metadata.
     failWhen (getPartnerPPOBMetadata metadata = '''') (Sentinel ErrMissingPartnerPPOBFromMetadata) (
     one (newReq E amount w status
         (SystemAccountNumber (accounts E)) (wt_AccountNumber w) ''RFDPR'' ''RFD''))))"

definition rfdpv_Transform :: "'d Transformer" where
  "rfdpv_Transform E amount w =
     withStatus w (\<lambda>status.
     one (newReq E amount w status
         (SystemAccountNumber (accounts E)) (wt_AccountNumber w) ''RFDPV'' ''RFD''))"

definition rfdpy_Transform :: "'d Transformer" where
  "rfdpy_Transform E amount w =
     withStatus w (\<lambda>status.
     failWhen (wt_DestinationAccountNumber w = '''') (Sentinel ErrMissingDestinationAccountNumber) (
     one (newReq E amount w status
         (wt_AccountNumber w) (wt_DestinationAccountNumber w) ''RFDPY'' ''RFD'')))"

definition rfdqr_Transform :: "'d Transformer" where
  "rfdqr_Transform E amount w =
     withStatus w (\<lambda>status.
     one (newReq E amount w status
         (SystemAccountNumber (accounts E)) (wt_AccountNumber w) ''RFDQR'' ''RFD''))"

definition rfdtf_Transform :: "'d::linordered_idom Transformer" where
  "rfdtf_Transform E amount w =
     withStatus w (\<lambda>status.
     failWhen (wt_DestinationAccountNumber w = '''') (Sentinel ErrMissingDestinationAccountNumber) (
     failWhen (wt_Description w = '''') (Sentinel ErrMissingDescription) (
     bind (call (case GetByTransactionID E (wt_Description w) of
                   Inl e \<Rightarrow> if errors_Is e ErrNoRows
                            then Err (Wrapped (Sentinel ErrInvalidRefundData) ''transaction_id not found'')
                            else Err e
                 | Inr transaction \<Rightarrow> Ok transaction)) (\<lambda>transaction.
     failWhen (txn_RefNumber transaction \<noteq> wt_RefNumber w)
       (Wrapped (Sentinel ErrInvalidRefundData) ''input refNumber is not match with acuan ref_number column'') (
     failWhen (txn_ToAccount transaction \<noteq> wt_AccountNumber w)
       (Wrapped (Sentinel ErrInvalidRefundData) ''input accountNumber not match with acuan to_account column'') (
     failWhen (txn_FromAccount transaction \<noteq> wt_DestinationAccountNumber w)
       (Wrapped (Sentinel ErrInvalidRefundData) ''input destinationAccountNumber not match with acuan from_account column'') (
     failWhen (nullDecimal (txn_Amount transaction) \<noteq> amt_ValueDecimal (wt_NetAmount w))
       (Wrapped (Sentinel ErrInvalidRefundData) ''input netAmount not match with acuan amount column'') (
     failWhen (wt_Amounts w \<noteq> [])
       (Wrapped (Sentinel ErrInvalidRefundData) ''unsupported RFDTX transaction with multiple child transaction'') (
     one (newReq E amount w status
         (wt_AccountNumber w) (wt_DestinationAccountNumber w) ''RFDTF'' ''RFD''))))))))))"

definition rfdtx_Transform :: "'d::linordered_idom Transformer" where
  "rfdtx_Transform E amount w =
     withStatus w (\<lambda>status.
     failWhen (wt_DestinationAccountNumber w = '''') (Sentinel ErrMissingDestinationAccountNumber) (
     failWhen (wt_Description w = '''') (Sentinel ErrMissingDescription) (
     bind (call (case GetByTransactionID E (wt_Description w) of
                   Inl e \<Rightarrow> if errors_Is e ErrNoRows
                            then Err (Wrapped (Sentinel ErrInvalidRefundData) ''transaction_id not found'')
                            else Err e
                 | Inr transaction \<Rightarrow> Ok transaction)) (\<lambda>transaction.
     failWhen (txn_RefNumber transaction \<noteq> wt_RefNumber w)
       (Wrapped (Sentinel ErrInvalidRefundData) ''input refNumber is not match with acuan ref_number column'') (
     failWhen (txn_ToAccount transaction \<noteq> wt_AccountNumber w)
       (Wrapped (Sentinel ErrInvalidRefundData) ''input accountNumber not match with acuan to_account column'') (
     failWhen (txn_FromAccount transaction \<noteq> wt_DestinationAccountNumber w)
       (Wrapped (Sentinel ErrInvalidRefundData) ''input destinationAccountNumber not match with acuan from_account column'') (
     failWhen (nullDecimal (txn_Amount transaction) \<noteq> amt_ValueDecimal (wt_NetAmount w))
       (Wrapped (Sentinel ErrInvalidRefundData) ''input netAmount not match with acuan amount column'') (
     failWhen (wt_Amounts w \<noteq> [])
       (Wrapped (Sentinel ErrInvalidRefundData) ''unsupported RFDTX transaction with multiple child transaction'') (
     one (newReq E amount w status
         (wt_AccountNumber w) (wt_DestinationAccountNumber w) ''RFDTX'' ''RFD''))))))))))"

definition rfdvp_Transform :: "'d Transformer" where
  "rfdvp_Transform E amount w =
     withStatus w (\<lambda>status.
     one (newReq E amount w status
         (wt_AccountNumber w) (DepositVoucher (accounts E)) ''RFDVP'' ''RFD''))"

definition tablePay :: "(string \<times> ('d::linordered_idom) Transformer) list" where
  "tablePay =
     [(''MMWPD'', mmwpd_Transform),
      (''MMWPI'', mmwpi_Transform),
      (''MWMPD'', mwmpd_Transform),
      (''MWMPI'', mwmpi_Transform),
      (''PAYDL'', paydl_Transform),
      (''PAYDP'', paydp_Transform),
      (''PAYFL'', payfl_Transform),
      (''PAYFP'', payfp_Transform),
      (''PAYGL'', paygl_Transform),
      (''PAYMD'', paymd_Transform),
      (''PAYPC'', paypc_Transform),
      (''PAYPD'', paypd_Transform),
      (''PAYPM'', paypm_Transform),
      (''PAYPR'', paypr_Transform),
      (''PAYPV'', paypv_Transform),
      (''PAYQR'', payqr_Transform),
      (''PAYVI'', payvi_Transform),
      (''PAYVP'', payvp_Transform),
      (''PAYWC'', paywc_Transform),
      (''PAYWM'', paywm_Transform),
      (''PRMCB'', prmcb_Transform),
      (''RFDCB'', rfdcb_Transform),
      (''RFDDL'', rfddl_Transform),
      (''RFDDP'', rfddp_Transform),
      (''RFDFL'', rfdfl_Transform),
      (''RFDFP'', rfdfp_Transform),
      (''RFDMD'', rfdmd_Transform),
      (''RFDMP'', rfdmp_Transform),
      (''RFDMT'', rfdmt_Transform),
      (''RFDPC'', rfdpc_Transform),
      (''RFDPD'', rfdpd_Transform),
      (''RFDPI'', rfdpi_Transform),
      (''RFDPP'', rfdpp_Transform),
      (''RFDPR'', rfdpr_Transform),
      (''RFDPV'', rfdpv_Transform),
      (''RFDPY'', rfdpy_Transform),
      (''RFDQR'', rfdqr_Transform),
      (''RFDTF'', rfdtf_Transform),
      (''RFDTX'', rfdtx_Transform),
      (''RFDVP'', rfdvp_Transform)]"

lemmas tablePay_defs =
  mmwpd_Transform_def mmwpi_Transform_def mwmpd_Transform_def mwmpi_Transform_def
  paydl_Transform_def paydp_Transform_def payfl_Transform_def payfp_Transform_def
  paygl_Transform_def paymd_Transform_def paypc_Transform_def paypd_Transform_def
  paypm_Transform_def paypr_Transform_def paypv_Transform_def payqr_Transform_def
  payvi_Transform_def payvp_Transform_def paywc_Transform_def paywm_Transform_def
  prmcb_Transform_def rfdcb_Transform_def rfddl_Transform_def rfddp_Transform_def
  rfdfl_Transform_def rfdfp_Transform_def rfdmd_Transform_def rfdmp_Transform_def
  rfdmt_Transform_def rfdpc_Transform_def rfdpd_Transform_def rfdpi_Transform_def
  rfdpp_Transform_def rfdpr_Transform_def rfdpv_Transform_def rfdpy_Transform_def
  rfdqr_Transform_def rfdtf_Transform_def rfdtx_Transform_def rfdvp_Transform_def

section \<open>The table\<close>

lemma tablePay_conforms:
  "list_all (\<lambda>(code, T). ensures (T E amount w) (\<lambda>rs. rs \<noteq> [] \<and> (\<forall>r\<in>set rs. conformsReq E w r))) tablePay"
  unfolding tablePay_def list.pred_inject(2) prod.case tablePay_defs one_def nested_steps Let_def
  by (intro conjI list.pred_inject(1); intro step_intros ensures_bind_newReq ensures_bind;
      simp add: conformsReq_def)

lemma tablePay_amounts:
  "list_all (\<lambda>(code, T). code \<notin> relayingCodes \<longrightarrow>
     ensures (T E amount w) (\<lambda>rs. totalRequested rs = amt_ValueDecimal amount)) tablePay"
  unfolding tablePay_def list.pred_inject(2) prod.case tablePay_defs one_def nested_steps Let_def
  by (intro conjI impI list.pred_inject(1); (simp add: relayingCodes_def; fail)?;
      intro step_intros ensures_bind_newReq ensures_bind; simp add: totalRequested_def)

lemma tablePay_keeps:
  "list_all (\<lambda>(code, T). keeps writtenKeys (T E amount w)) tablePay"
  unfolding tablePay_def list.pred_inject(2) prod.case tablePay_defs Let_def
  by (intro conjI list.pred_inject(1); intro keeps_intros; simp add: writtenKeys_def)

lemma tablePay_draws:
  "list_all (\<lambda>(code, T). draws E d [] (T E amount w)) tablePay"
  unfolding tablePay_def list.pred_inject(2) prod.case tablePay_defs one_def nested_steps Let_def
  by (intro conjI list.pred_inject(1); intro draws_intros draws_bind_newReq draws_bind quiet_intros; simp)

end
