(* ===== verification/TransformersRpy.thy ===== *)
theory TransformersRpy
  imports TransformerLaws
begin

text \<open>
  The transformers of the order types RPY, RVR, SIV, one definition per file of
  \<open>internal/services/transformer\<close>, in alphabetical order: \<open>xxxxx_Transform\<close> is the \<open>Transform\<close> method of
  \<open>xxxxx.go\<close>.  The table at the end collects them for the registry.
\<close>

definition rpyaa_Transform :: "'d Transformer" where
  "rpyaa_Transform E amount w =
     withStatus w (\<lambda>status.
     one (newReq E amount w status
         (SystemAccountNumber (accounts E)) (GetDestinationAccountForRPYAA w) ''RPYAA'' ''RPY''))"

definition rpyab_Transform :: "'d::linordered_idom Transformer" where
  "rpyab_Transform E amount w =
     withStatus w (\<lambda>status.
     withEntityCode E (wt_AccountNumber w) (\<lambda>entityCode.
     bind (MutateMetadataByAccountEntity E entityCode) (\<lambda>_.
     let finalAmount =
           (if EnableRpyabRpyacAdjustment (settings E) then
              (case find (\<lambda>amt. ad_Type amt = ''RPYAC'') (wt_Amounts w) of
                 None \<Rightarrow> amt_ValueDecimal amount
               | Some amt \<Rightarrow>
                   let rpyacAmount = amt_ValueDecimal (ad_Amount amt)
                   in if rpyacAmount > 0 then amt_ValueDecimal amount + rpyacAmount
                      else amt_ValueDecimal amount)
            else amt_ValueDecimal amount)
     in bind (newReq E amount w status
            (SystemAccountNumber (accounts E)) (wt_AccountNumber w) ''RPYAB'' ''RPY'') (\<lambda>r.
        return [r\<lparr>req_Amount := Some finalAmount\<rparr>]))))"

definition rpyac_Transform :: "'d Transformer" where
  "rpyac_Transform E amount w =
     withStatus w (\<lambda>status.
     failWhen (wt_Description w = '''') (Sentinel ErrMissingDescription) (
     bind (if flag_IsEnabled E (UseAccountConfigFromExternalKey (settings E)) then
             bind getMetadata (\<lambda>metadata.
             failWhen (getLoanAccountNumber metadata = '''') (Sentinel ErrMissingLoanAccountNumberFromMetadata)
               (return (getLoanAccountNumber metadata)))
           else return (wt_AccountNumber w)) (\<lambda>accountNumber.
     bind (call (GetWht2326 E accountNumber (wt_Description w))) (\<lambda>wht2326.
     withEntityCode E wht2326 (\<lambda>entityCode.
     bind (MutateMetadataByAccountEntity E entityCode) (\<lambda>_.
     one (newReq E amount w status
         (if EnableRpyabRpyacAdjustment (settings E) then wt_AccountNumber w
          else SystemAccountNumber (accounts E)) wht2326 ''RPYAC'' ''RPY'')))))))"

definition rpyad_Transform :: "'d Transformer" where
  "rpyad_Transform E amount w =
     withStatus w (\<lambda>status.
     bind (call (GetInvestedAccountNumber E (wt_AccountNumber w))) (\<lambda>investedAccountNumber.
     withEntityCode E (wt_AccountNumber w) (\<lambda>entityCode.
     bind (MutateMetadataByAccountEntity E entityCode) (\<lambda>_.
     one (newReq E amount w status
         investedAccountNumber (wt_AccountNumber w) ''RPYAD'' ''RPY'')))))"

definition rpyae_Transform :: "'d Transformer" where
  "rpyae_Transform E amount w =
     withStatus w (\<lambda>status.
     withEntityCode E (wt_AccountNumber w) (\<lambda>entityCode.
     bind (setMetadata ''loanAccountNumber'' (AnyString (wt_AccountNumber w))) (\<lambda>_.
     bind (MutateMetadataByAccountEntity E entityCode) (\<lambda>_.
     one (newReq E amount w status
         (wt_AccountNumber w) (SystemAccountNumber (accounts E)) ''RPYAE'' ''RPY'')))))"

definition rpyaf_Transform :: "'d::linordered_idom Transformer" where
  "rpyaf_Transform E amount w =
     withStatus w (\<lambda>status.
     bind (call (GetConfigVATRevenue E)) (\<lambda>configVAT.
     failWhen (wt_Description w = '''') (Sentinel ErrMissingDescription) (
     bind (call (GetVatOut E (wt_AccountNumber w) (wt_Description w))) (\<lambda>VATOut.
     bind (call (GetRevenue E (wt_AccountNumber w) (wt_Description w))) (\<lambda>amarthaRevenue.
     withEntityCode E amarthaRevenue (\<lambda>entityCode.
     bind (setMetadata ''loanAccountNumber'' (AnyString (wt_AccountNumber w))) (\<lambda>_.
     bind (MutateMetadataByAccountEntity E entityCode) (\<lambda>_.
     let entity = strIndex (MapAccountEntity (accounts E)) entityCode
     in bind (if entity \<noteq> ''AWF''
              then call (calculateVAT E (amt_ValueDecimal amount) (wt_TransactionTime w) configVAT)
              else return 0) (\<lambda>rpyagAmount.
        let rpyafAmount = (if entity \<noteq> ''AWF'' then amt_ValueDecimal amount - rpyagAmount
                           else amt_ValueDecimal amount)
        in bind (newReq E amount w status
               (SystemAccountNumber (accounts E)) amarthaRevenue ''RPYAF'' ''RPY'') (\<lambda>rpyaf.
           if entity \<noteq> ''AWF'' \<and> rpyagAmount > 0 then
             bind (newReq E amount w status
               (SystemAccountNumber (accounts E)) VATOut ''RPYAG'' ''RPY'') (\<lambda>rpyag.
             return [rpyaf\<lparr>req_Amount := Some rpyafAmount\<rparr>, rpyag\<lparr>req_Amount := Some rpyagAmount\<rparr>])
           else return [rpyaf\<lparr>req_Amount := Some rpyafAmount\<rparr>]))))))))))"

definition rpyah_Transform :: "'d Transformer" where
  "rpyah_Transform E amount w =
     withStatus w (\<lambda>status.
     bind (call (GetLoanAdvancePayment E (wt_AccountNumber w))) (\<lambda>loanAdvancePayment.
     one (newReq E amount w status
         (SystemAccountNumber (accounts E)) loanAdvancePayment ''RPYAH'' ''RPY'')))"

definition rpyai_Transform :: "'d Transformer" where
  "rpyai_Transform E amount w =
     withStatus w (\<lambda>status.
     bind (call (GetLoanAdvancePayment E (wt_AccountNumber w))) (\<lambda>loanAdvancePayment.
     failWhen (wt_Description w \<noteq> ''NORMAL'') (Sentinel ErrUnsupportedDescription) (
     one (newReq E amount w status
         loanAdvancePayment (SystemAccountNumber (accounts E)) ''RPYAI'' ''RPY''))))"

definition rpyaj_Transform :: "'d Transformer" where
  "rpyaj_Transform E amount w =
     withStatus w (\<lambda>status.
     bind getMetadata (\<lambda>metadata.
     failWhen (getLoanAccountNumber metadata = '''') (Sentinel ErrMissingLoanAccountNumberFromMetadata) (
     one (newReq E amount w status
         (SystemAccountNumber (accounts E)) (wt_AccountNumber w) ''RPYAJ'' ''RPY''))))"

definition rpyak_Transform :: "'d Transformer" where
  "rpyak_Transform E amount w =
     withStatus w (\<lambda>status.
     bind (call (getAccountNumberFromConfig (AmarthaRevenueLoan (accounts E)) (wt_Description w))) (\<lambda>amarthaRevenue.
     one (newReq E amount w status
         (SystemAccountNumber (accounts E)) amarthaRevenue ''RPYAK'' ''RPY'')))"

definition rpyao_Transform :: "'d Transformer" where
  "rpyao_Transform E amount w =
     withStatus w (\<lambda>status.
     one (newReq E amount w status
         (wt_AccountNumber w) (SystemAccountNumber (accounts E)) ''RPYAO'' ''RPY''))"

definition rpybv_Transform :: "'d Transformer" where
  "rpybv_Transform E amount w =
     withStatus w (\<lambda>status.
     bind getMetadata (\<lambda>metadata.
     failWhen (getLoanAccountNumber metadata = '''') (Sentinel ErrMissingLoanAccountNumberFromMetadata) (
     requireString ''repaymentDate'' ErrMissingRepaymentDateFromMetadata (\<lambda>repaymentDate.
     one (newReq E amount w status
         (wt_AccountNumber w) (wt_DestinationAccountNumber w) ''RPYBV'' ''RPY'')))))"

definition rpyco_Transform :: "'d Transformer" where
  "rpyco_Transform E amount w =
     withStatus w (\<lambda>status.
     one (newReq E amount w status
         (wt_AccountNumber w) (SystemAccountNumber (accounts E)) ''RPYCO'' ''RPY''))"

definition rpyen_Transform :: "'d Transformer" where
  "rpyen_Transform E amount w =
     withStatus w (\<lambda>status.
     bind (call (GetInvestedAccountNumber E (wt_AccountNumber w))) (\<lambda>fromInvested.
     one (newReq E amount w status
         fromInvested (wt_AccountNumber w) ''RPYEN'' ''RPY'')))"

definition rpyio_Transform :: "'d Transformer" where
  "rpyio_Transform E amount w =
     withStatus w (\<lambda>status.
     one (newReq E amount w status
         (wt_AccountNumber w) (SystemAccountNumber (accounts E)) ''RPYIO'' ''RPY''))"

definition rpymc_Transform :: "'d Transformer" where
  "rpymc_Transform E amount w =
     withStatus w (\<lambda>status.
     one (newReq E amount w status
         (SystemAccountNumber (accounts E)) (wt_AccountNumber w) ''RPYMC'' ''RPY''))"

definition rpypd_Transform :: "'d Transformer" where
  "rpypd_Transform E amount w =
     withStatus w (\<lambda>status.
     one (newReq E amount w status
         (BRI9539AccountNumber (accounts E)) (wt_AccountNumber w) ''RPYPD'' ''RPY''))"

definition rpypo_Transform :: "'d Transformer" where
  "rpypo_Transform E amount w =
     withStatus w (\<lambda>status.
     one (newReq E amount w status
         (SystemAccountNumber (accounts E)) (wt_AccountNumber w) ''RPYPO'' ''RPY''))"

definition rpyrd_Transform :: "'d Transformer" where
  "rpyrd_Transform E amount w =
     withStatus w (\<lambda>status.
     one (newReq E amount w status
         (OtherReceivableRepayment (accounts E)) (wt_AccountNumber w) ''RPYRD'' ''RPY''))"

definition rpyro_Transform :: "'d Transformer" where
  "rpyro_Transform E amount w =
     withStatus w (\<lambda>status.
     one (newReq E amount w status
         (wt_AccountNumber w) (BPE (accounts E)) ''RPYRO'' ''RPY''))"

definition rpytd_Transform :: "'d Transformer" where
  "rpytd_Transform E amount w =
     withStatus w (\<lambda>status.
     one (newReq E amount w status
         (SystemAccountNumber (accounts E)) (wt_AccountNumber w) ''RPYTD'' ''RPY''))"

definition rpytr_Transform :: "'d Transformer" where
  "rpytr_Transform E amount w =
     withStatus w (\<lambda>status.
     bind getMetadata (\<lambda>metadata.
     failWhen (getLoanAccountNumber metadata = '''') (Sentinel ErrMissingLoanAccountNumberFromMetadata) (
     requireString ''repaymentDate'' ErrMissingRepaymentDateFromMetadata (\<lambda>repaymentDate.
     one (newReq E amount w status
         (SystemAccountNumber (accounts E)) (wt_AccountNumber w) ''RPYTR'' ''RPY'')))))"

definition rpyva_Transform :: "'d Transformer" where
  "rpyva_Transform E amount w =
     withStatus w (\<lambda>status.
     requireString ''repaymentDate'' ErrMissingRepaymentDateFromMetadata (\<lambda>rpyDate.
     requireString ''virtualAccountPoint'' ErrMissingVirtualAccountPointFromMetadata (\<lambda>vaPoint.
     one (newReq E amount w status
         (wt_AccountNumber w) (GetDestinationAccountForRPYVA E) ''RPYVA'' ''RPY''))))"

definition handleRefundIssuerQRIS ::
  "'d::linordered_idom Env \<Rightarrow> 'd WalletTransaction \<Rightarrow> string \<Rightarrow> string \<Rightarrow> ('d, 'd TransactionReq list) step" where
  "handleRefundIssuerQRIS E userPayload status walletTransactionId =
     failWhen (wt_Amounts userPayload \<noteq> []) (ErrorMsg ''unsupported refund qris issuer with child amount'') (
     bind (call (GetWalletById E walletTransactionId)) (\<lambda>wallet.
     bind (call (ListWallet E (wt_RefNumber wallet) (-1))) (\<lambda>wallets.
     let inputAmount = amt_ValueDecimal (wt_NetAmount userPayload);
         originalAmount = getTotalAmount wallet ''PAYQR'';
         refundedAmount = getTotalAmountFromWallets wallets ''RVRSL'' [''PENDING'', ''SUCCESS'']
     in failWhen (refundedAmount + inputAmount > originalAmount)
          (Sentinel ErrRefundAmountHigherThanOriginalAmount) (
        one (newReq E (wt_NetAmount userPayload) userPayload status
          (SystemAccountNumber (accounts E)) (wt_AccountNumber userPayload) ''RFDQR'' ''RFD'')))))"

text \<open>The mirror image of each ledger transaction of the reference; none may be a reversal already.\<close>

fun reverseAll ::
  "'d Env \<Rightarrow> 'd Amount \<Rightarrow> 'd WalletTransaction \<Rightarrow> string \<Rightarrow> 'd Transaction list \<Rightarrow> ('d, 'd TransactionReq list) step" where
  "reverseAll E amount w status [] = return []"
| "reverseAll E amount w status (transaction # ts) =
     failWhen (txn_TypeTransaction transaction = ''RVRSL'') (ErrorMsg ''transaction already refunded'') (
     bind (newReq E amount w status
         (txn_ToAccount transaction) (txn_FromAccount transaction) ''RVRSL'' ''RVR'') (\<lambda>r.
     bind (reverseAll E amount w status ts) (\<lambda>rest.
     return (r\<lparr>req_Description := txn_TypeTransaction transaction @ '' '' @ txn_TransactionID transaction,
               req_Amount := txn_Amount transaction\<rparr> # rest))))"

definition rvrsl_Transform :: "'d::linordered_idom Transformer" where
  "rvrsl_Transform E amount w =
     withStatus w (\<lambda>status.
     failWhen (wt_TransactionFlow w \<noteq> ''refund'') (Sentinel ErrUnsupportedTransactionFlow) (
     requireString ''walletTransactionId'' ErrMissingWalletTransactionIdFromMetadata (\<lambda>walletTrxId.
     let limit = (if ReversalTimeRangeDays (settings E) \<le> 0 then 30 else ReversalTimeRangeDays (settings E));
         now = NowZeroTime (clock E);
         startDate = AddDays now (- limit)
     in bind (call (GetTransactionList E (wt_RefNumber w) ''refNumber'' startDate now)) (\<lambda>ts.
        failWhen (ts = []) (Sentinel ErrrefNumberNotFound) (
        if isTransactionContains ts ''PAYQR'' then handleRefundIssuerQRIS E w status walletTrxId
        else reverseAll E amount w status ts)))))"

definition rvrtf_Transform :: "'d Transformer" where
  "rvrtf_Transform E amount w =
     withStatus w (\<lambda>status.
     failWhen (wt_TransactionFlow w \<noteq> ''transfer'') (Sentinel ErrUnsupportedTransactionFlow) (
     requireString ''debit'' ErrMissingDebitFromMetadata (\<lambda>debit.
     requireString ''credit'' ErrMissingCreditFromMetadata (\<lambda>credit.
     one (newReq E amount w status
         (wt_AccountNumber w) (wt_DestinationAccountNumber w) ''RVRTF'' ''RVR'')))))"

definition sivea_Transform :: "'d Transformer" where
  "sivea_Transform E amount w =
     withStatus w (\<lambda>status.
     bind getMetadata (\<lambda>metadata.
     failWhen (getLoanAccountNumber metadata = '''') (Sentinel ErrMissingLoanAccountNumberFromMetadata) (
     bind (call (GetInvestedAccountNumber E (wt_AccountNumber w))) (\<lambda>investedAccountNumber.
     one (newReq E amount w status
         investedAccountNumber (wt_AccountNumber w) ''SIVEA'' ''SIV'')))))"

definition sived_Transform :: "'d Transformer" where
  "sived_Transform E amount w =
     withStatus w (\<lambda>status.
     failWhen (wt_DestinationAccountNumber w = '''') (Sentinel ErrMissingDestinationAccountNumber) (
     bind getMetadata (\<lambda>metadata.
     failWhen (getLoanAccountNumber metadata = '''') (Sentinel ErrMissingLoanAccountNumberFromMetadata) (
     one (newReq E amount w status
         (wt_AccountNumber w) (wt_DestinationAccountNumber w) ''SIVED'' ''SIV'')))))"

definition sivep_Transform :: "'d Transformer" where
  "sivep_Transform E amount w =
     withStatus w (\<lambda>status.
     failWhen (wt_DestinationAccountNumber w = '''') (Sentinel ErrMissingDestinationAccountNumber) (
     bind getMetadata (\<lambda>metadata.
     failWhen (getLoanAccountNumber metadata = '''') (Sentinel ErrMissingLoanAccountNumberFromMetadata) (
     one (newReq E amount w status
         (wt_AccountNumber w) (wt_DestinationAccountNumber w) ''SIVEP'' ''SIV'')))))"

definition sivtf_Transform :: "'d Transformer" where
  "sivtf_Transform E amount w =
     withStatus w (\<lambda>status.
     bind (call (GetInvestedAccountNumber E (wt_AccountNumber w))) (\<lambda>investedAccountNumber.
     failWhen (wt_TransactionFlow w \<noteq> ''cashout'') (Sentinel ErrUnsupportedTransactionFlow) (
     one (newReq E amount w status
         investedAccountNumber (SystemAccountNumber (accounts E)) ''SIVTF'' ''SIV''))))"

definition tableRpy :: "(string \<times> ('d::linordered_idom) Transformer) list" where
  "tableRpy =
     [(''RPYAA'', rpyaa_Transform),
      (''RPYAB'', rpyab_Transform),
      (''RPYAC'', rpyac_Transform),
      (''RPYAD'', rpyad_Transform),
      (''RPYAE'', rpyae_Transform),
      (''RPYAF'', rpyaf_Transform),
      (''RPYAH'', rpyah_Transform),
      (''RPYAI'', rpyai_Transform),
      (''RPYAJ'', rpyaj_Transform),
      (''RPYAK'', rpyak_Transform),
      (''RPYAO'', rpyao_Transform),
      (''RPYBV'', rpybv_Transform),
      (''RPYCO'', rpyco_Transform),
      (''RPYEN'', rpyen_Transform),
      (''RPYIO'', rpyio_Transform),
      (''RPYMC'', rpymc_Transform),
      (''RPYPD'', rpypd_Transform),
      (''RPYPO'', rpypo_Transform),
      (''RPYRD'', rpyrd_Transform),
      (''RPYRO'', rpyro_Transform),
      (''RPYTD'', rpytd_Transform),
      (''RPYTR'', rpytr_Transform),
      (''RPYVA'', rpyva_Transform),
      (''RVRSL'', rvrsl_Transform),
      (''RVRTF'', rvrtf_Transform),
      (''SIVEA'', sivea_Transform),
      (''SIVED'', sived_Transform),
      (''SIVEP'', sivep_Transform),
      (''SIVTF'', sivtf_Transform)]"

lemmas tableRpy_defs =
  rpyaa_Transform_def rpyab_Transform_def rpyac_Transform_def rpyad_Transform_def
  rpyae_Transform_def rpyaf_Transform_def rpyah_Transform_def rpyai_Transform_def
  rpyaj_Transform_def rpyak_Transform_def rpyao_Transform_def rpybv_Transform_def
  rpyco_Transform_def rpyen_Transform_def rpyio_Transform_def rpymc_Transform_def
  rpypd_Transform_def rpypo_Transform_def rpyrd_Transform_def rpyro_Transform_def
  rpytd_Transform_def rpytr_Transform_def rpyva_Transform_def rvrsl_Transform_def
  rvrtf_Transform_def sivea_Transform_def sived_Transform_def sivep_Transform_def
  sivtf_Transform_def handleRefundIssuerQRIS_def

section \<open>Reversals\<close>

text \<open>
  Where it succeeds, \<open>reverseAll\<close> answers the mirror image of the ledger transactions, in order: the same
  amounts with the two accounts swapped, and none of them was a reversal.
\<close>

definition mirrors :: "'d Transaction \<Rightarrow> 'd TransactionReq \<Rightarrow> bool" where
  "mirrors t r \<longleftrightarrow>
     req_FromAccount r = txn_ToAccount t \<and> req_ToAccount r = txn_FromAccount t \<and>
     req_Amount r = txn_Amount t \<and> req_TypeTransaction r = ''RVRSL'' \<and> txn_TypeTransaction t \<noteq> ''RVRSL''"

lemma reverseAll_mirrors:
  assumes "transformWalletTransactionStatus (wt_Status w) = Inr status"
  shows "ensures (reverseAll E amount w status ts)
           (\<lambda>rs. list_all2 mirrors ts rs \<and> (\<forall>r\<in>set rs. conformsReq E w r))"
proof (induction ts)
  case Nil
  show ?case by (simp add: ensures_return)
next
  case (Cons t ts)
  show ?case
    unfolding reverseAll.simps
    by (intro ensures_failWhen ensures_bind_newReq ensures_bind_of [OF Cons.IH] ensures_return)
      (simp add: assms conformsReq_def mirrors_def)
qed

lemma reverseAll_conforms [step_intros]:
  assumes "transformWalletTransactionStatus (wt_Status w) = Inr status" and "ts \<noteq> []"
  shows "ensures (reverseAll E amount w status ts) (\<lambda>rs. rs \<noteq> [] \<and> (\<forall>r\<in>set rs. conformsReq E w r))"
  using reverseAll_mirrors [OF assms(1), of E amount ts] assms(2) by (auto simp: ensures_def)

lemma reverseAll_keeps [keeps_intros]: "keeps K (reverseAll E amount w status ts)"
  by (induction ts) (auto intro!: keeps_intros)

lemma reverseAll_draws [draws_intros]: "draws E d [] (reverseAll E amount w status ts)"
proof -
  have "reverseAll E amount w status ts s = (Inr rs, s') \<Longrightarrow>
          drawn s \<le> drawn s' \<and> map req_TransactionID rs = map (uuid E) [drawn s..<drawn s']" for s rs s'
  proof (induction ts arbitrary: s rs)
    case Nil
    then show ?case by (simp add: return_def)
  next
    case (Cons t ts)
    then obtain rest r s1 where "s1 = s\<lparr>drawn := drawn s + 1\<rparr>"
      and rest: "reverseAll E amount w status ts s1 = (Inr rest, s')"
      and "rs = r # rest" and "req_TransactionID r = uuid E (drawn s)"
      by (auto simp: failWhen_def fail_def return_def bind_def newReq_eq split: if_splits prod.splits sum.splits)
    with Cons.IH [OF rest] show ?case by (simp add: upt_conv_Cons)
  qed
  then show ?thesis
    unfolding draws_def by (metis le_antisym list.map_disc_iff upt_eq_Nil_conv le_zero_eq)
qed

section \<open>The table\<close>

lemma tableRpy_conforms:
  "list_all (\<lambda>(code, T). ensures (T E amount w) (\<lambda>rs. rs \<noteq> [] \<and> (\<forall>r\<in>set rs. conformsReq E w r))) tableRpy"
  unfolding tableRpy_def list.pred_inject(2) prod.case tableRpy_defs one_def nested_steps Let_def
  by (intro conjI list.pred_inject(1); intro step_intros ensures_bind_newReq ensures_bind;
      simp add: conformsReq_def)

lemma tableRpy_amounts:
  "list_all (\<lambda>(code, T). code \<notin> relayingCodes \<longrightarrow>
     ensures (T E amount w) (\<lambda>rs. totalRequested rs = amt_ValueDecimal amount)) tableRpy"
  unfolding tableRpy_def list.pred_inject(2) prod.case tableRpy_defs one_def nested_steps Let_def
  by (intro conjI impI list.pred_inject(1); (simp add: relayingCodes_def; fail)?;
      intro step_intros ensures_bind_newReq ensures_bind; simp add: totalRequested_def)

lemma tableRpy_keeps:
  "list_all (\<lambda>(code, T). keeps writtenKeys (T E amount w)) tableRpy"
  unfolding tableRpy_def list.pred_inject(2) prod.case tableRpy_defs Let_def
  by (intro conjI list.pred_inject(1); intro keeps_intros; simp add: writtenKeys_def)

lemma tableRpy_draws:
  "list_all (\<lambda>(code, T). draws E d [] (T E amount w)) tableRpy"
  unfolding tableRpy_def list.pred_inject(2) prod.case tableRpy_defs one_def nested_steps Let_def
  by (intro conjI list.pred_inject(1); intro draws_intros draws_bind_newReq draws_bind quiet_intros; simp)

end
