(* ===== verification/TransformersTup.thy ===== *)
theory TransformersTup
  imports TransformerLaws
begin

text \<open>
  The transformers of the order types TUP, WOL, one definition per file of
  \<open>internal/services/transformer\<close>, in alphabetical order: \<open>xxxxx_Transform\<close> is the \<open>Transform\<close> method of
  \<open>xxxxx.go\<close>.  The table at the end collects them for the registry.
\<close>

definition tupba_Transform :: "'d Transformer" where
  "tupba_Transform E amount w =
     withStatus w (\<lambda>status.
     one (newReq E amount w status
         (SystemAccountNumber (accounts E)) (wt_AccountNumber w) ''TUPBA'' ''TUP''))"

definition tupbh_Transform :: "'d Transformer" where
  "tupbh_Transform E amount w =
     withStatus w (\<lambda>status.
     one (newReq E amount w status
         (SystemAccountNumber (accounts E)) (wt_AccountNumber w) ''TUPBH'' ''TUP''))"

definition tupbm_Transform :: "'d Transformer" where
  "tupbm_Transform E amount w =
     withStatus w (\<lambda>status.
     one (newReq E amount w status
         (SystemAccountNumber (accounts E)) (wt_AccountNumber w) ''TUPBM'' ''TUP''))"

definition tupcb_Transform :: "'d Transformer" where
  "tupcb_Transform E amount w =
     withStatus w (\<lambda>status.
     one (newReq E amount w status
         (OperationalPayableGeneralCashback (accounts E)) (wt_AccountNumber w) ''TUPCB'' ''TUP''))"

definition tupdn_Transform :: "'d Transformer" where
  "tupdn_Transform E amount w =
     withStatus w (\<lambda>status.
     one (newReq E amount w status
         (SystemAccountNumber (accounts E)) (wt_AccountNumber w) ''TUPDN'' ''TUP''))"

definition tuped_Transform :: "'d Transformer" where
  "tuped_Transform E amount w =
     withStatus w (\<lambda>status.
     failWhen (wt_DestinationAccountNumber w = '''') (Sentinel ErrMissingDestinationAccountNumber) (
     one (newReq E amount w status
         (wt_AccountNumber w) (wt_DestinationAccountNumber w) ''TUPED'' ''TUP'')))"

definition tupen_Transform :: "'d Transformer" where
  "tupen_Transform E amount w =
     withStatus w (\<lambda>status.
     one (newReq E amount w status
         (SystemAccountNumber (accounts E)) (wt_AccountNumber w) ''TUPEN'' ''TUP''))"

definition tupep_Transform :: "'d Transformer" where
  "tupep_Transform E amount w =
     withStatus w (\<lambda>status.
     bind getMetadata (\<lambda>metadata.
     failWhen (ValidateTUPEPCustomerNum (settings E) \<and> getCustomerNumberMetadata metadata = '''')
       (Sentinel ErrMissingCustomerNumberFromMetadata) (
     failWhen (ValidateTUPEPLoanType (settings E) \<and> metadataString metadata ''loanType'' = '''')
       (Sentinel ErrMissingLoanTypeFromMetadata) (
     failWhen (wt_DestinationAccountNumber w = '''') (Sentinel ErrMissingDestinationAccountNumber) (
     one (newReq E amount w status
         (wt_AccountNumber w) (wt_DestinationAccountNumber w) ''TUPEP'' ''TUP''))))))"

definition tupfe_Transform :: "'d Transformer" where
  "tupfe_Transform E amount w =
     withStatus w (\<lambda>status.
     one (newReq E amount w status
         (SystemAccountNumber (accounts E)) (wt_AccountNumber w) ''TUPFE'' ''TUP''))"

definition tupgc_Transform :: "'d Transformer" where
  "tupgc_Transform E amount w =
     withStatus w (\<lambda>status.
     one (newReq E amount w status
         (GeneralCashOutHoldingAccountNumber (accounts E)) (wt_AccountNumber w) ''TUPGC'' ''TUP''))"

definition tupge_Transform :: "'d Transformer" where
  "tupge_Transform E amount w =
     withStatus w (\<lambda>status.
     one (newReq E amount w status
         (OperationalPayableGeneralCashDeposit (accounts E)) (wt_AccountNumber w) ''TUPGE'' ''TUP''))"

definition tupgp_Transform :: "'d Transformer" where
  "tupgp_Transform E amount w =
     withStatus w (\<lambda>status.
     one (newReq E amount w status
         (SystemAccountNumber (accounts E)) (wt_AccountNumber w) ''TUPGP'' ''TUP''))"

definition tupik_Transform :: "'d Transformer" where
  "tupik_Transform E amount w =
     withStatus w (\<lambda>status.
     one (newReq E amount w status
         (SystemAccountNumber (accounts E)) (wt_AccountNumber w) ''TUPIK'' ''TUP''))"

definition tupil_Transform :: "'d Transformer" where
  "tupil_Transform E amount w =
     withStatus w (\<lambda>status.
     one (newReq E amount w status
         (wt_AccountNumber w) (SystemAccountNumber (accounts E)) ''TUPIL'' ''TUP''))"

definition tupin_Transform :: "'d Transformer" where
  "tupin_Transform E amount w =
     withStatus w (\<lambda>status.
     one (newReq E amount w status
         (SystemAccountNumber (accounts E)) (wt_AccountNumber w) ''TUPIN'' ''TUP''))"

definition tupip_Transform :: "'d Transformer" where
  "tupip_Transform E amount w =
     withStatus w (\<lambda>status.
     one (newReq E amount w status
         (SystemAccountNumber (accounts E)) (wt_AccountNumber w) ''TUPIP'' ''TUP''))"

definition tuplf_Transform :: "'d::linordered_idom Transformer" where
  "tuplf_Transform E amount w =
     withStatus w (\<lambda>status.
     bind (case find (\<lambda>detail. ad_Type detail \<in> {''TUPLE'', ''ADMME'', ''ADMMA''}) (wt_Amounts w) of
             None \<Rightarrow> return ()
           | Some detail \<Rightarrow>
               let adminFee = amt_ValueDecimal (ad_Amount detail)
               in copyMetadata
                    [(''accountNumber'', AnyString (wt_AccountNumber w)),
                     (''amount'', AnyString (decimal_String E (amt_ValueDecimal amount))),
                     (''adminFee'', AnyString (decimal_String E adminFee)),
                     (''net'', AnyString (decimal_String E (amt_ValueDecimal amount - adminFee)))]) (\<lambda>_.
     one (newReq E amount w status
         (SystemAccountNumber (accounts E)) (wt_AccountNumber w) ''TUPLF'' ''TUP'')))"

definition tuplr_Transform :: "'d Transformer" where
  "tuplr_Transform E amount w =
     withStatus w (\<lambda>status.
     bind (call (GetInvestedAccountNumber E (wt_AccountNumber w))) (\<lambda>investedAccountNumber.
     bind (newReq E amount w status
         (SystemAccountNumber (accounts E)) (wt_AccountNumber w) ''TUPLR'' ''TUP'') (\<lambda>r1.
     bind (newReq E amount w status
         (wt_AccountNumber w) investedAccountNumber ''INVMT'' ''INV'') (\<lambda>r2.
     return [r1, r2]))))"

definition tuplw_Transform :: "'d Transformer" where
  "tuplw_Transform E amount w =
     withStatus w (\<lambda>status.
     one (newReq E amount w status
         (SystemAccountNumber (accounts E)) (wt_AccountNumber w) ''TUPLW'' ''TUP''))"

definition tuppb_Transform :: "'d Transformer" where
  "tuppb_Transform E amount w =
     withStatus w (\<lambda>status.
     failWhen (wt_DestinationAccountNumber w = '''') (Sentinel ErrMissingDestinationAccountNumber) (
     one (newReq E amount w status
         (wt_AccountNumber w) (wt_DestinationAccountNumber w) ''TUPPB'' ''TUP'')))"

definition tuppo_Transform :: "'d Transformer" where
  "tuppo_Transform E amount w =
     withStatus w (\<lambda>status.
     one (newReq E amount w status
         (SystemAccountNumber (accounts E)) (wt_AccountNumber w) ''TUPPO'' ''TUP''))"

definition tuppp_Transform :: "'d Transformer" where
  "tuppp_Transform E amount w =
     withStatus w (\<lambda>status.
     one (newReq E amount w status
         (wt_AccountNumber w) (wt_DestinationAccountNumber w) ''TUPPP'' ''TUP''))"

definition tuppy_Transform :: "'d::linordered_idom Transformer" where
  "tuppy_Transform E amount w =
     withStatus w (\<lambda>status.
     bind (case find (\<lambda>detail. ad_Type detail \<in> {''TUPPU'', ''ADMME''}) (wt_Amounts w) of
             None \<Rightarrow> return ()
           | Some detail \<Rightarrow>
               let adminFee = amt_ValueDecimal (ad_Amount detail)
               in copyMetadata
                    [(''accountNumber'', AnyString (wt_AccountNumber w)),
                     (''amount'', AnyString (decimal_String E (amt_ValueDecimal amount))),
                     (''adminFee'', AnyString (decimal_String E adminFee)),
                     (''net'', AnyString (decimal_String E (amt_ValueDecimal amount - adminFee)))]) (\<lambda>_.
     one (newReq E amount w status
         (SystemAccountNumber (accounts E)) (wt_AccountNumber w) ''TUPPY'' ''TUP'')))"

definition tupqr_Transform :: "'d Transformer" where
  "tupqr_Transform E amount w =
     withStatus w (\<lambda>status.
     one (newReq E amount w status
         (SystemAccountNumber (accounts E)) (wt_AccountNumber w) ''TUPQR'' ''TUP''))"

definition tupti_Transform :: "'d Transformer" where
  "tupti_Transform E amount w =
     withStatus w (\<lambda>status.
     one (newReq E amount w status
         (SystemAccountNumber (accounts E)) (wt_AccountNumber w) ''TUPTI'' ''TUP''))"

definition tupva_Transform :: "'d::linordered_idom Transformer" where
  "tupva_Transform E amount w =
     withStatus w (\<lambda>status.
     bind (case find (\<lambda>detail. ad_Type detail \<in> {''TUPVU'', ''ADMME''}) (wt_Amounts w) of
             None \<Rightarrow> return ()
           | Some detail \<Rightarrow>
               let adminFee = amt_ValueDecimal (ad_Amount detail)
               in copyMetadata
                    [(''accountNumber'', AnyString (wt_AccountNumber w)),
                     (''amount'', AnyString (decimal_String E (amt_ValueDecimal amount))),
                     (''adminFee'', AnyString (decimal_String E adminFee)),
                     (''net'', AnyString (decimal_String E (amt_ValueDecimal amount - adminFee)))]) (\<lambda>_.
     one (newReq E amount w status
         (SystemAccountNumber (accounts E)) (wt_AccountNumber w) ''TUPVA'' ''TUP'')))"

definition tupvb_Transform :: "'d Transformer" where
  "tupvb_Transform E amount w =
     withStatus w (\<lambda>status.
     one (newReq E amount w status
         (SystemAccountNumber (accounts E)) (wt_AccountNumber w) ''TUPVB'' ''TUP''))"

definition tupvi_Transform :: "'d::linordered_idom Transformer" where
  "tupvi_Transform E amount w =
     withStatus w (\<lambda>status.
     withEntityCode E (wt_AccountNumber w) (\<lambda>entityCode.
     bind (setMetadata ''entity'' (AnyString (strIndex (MapAccountEntity (accounts E)) entityCode))) (\<lambda>_.
     bind getMetadata (\<lambda>metadata.
     bind (case find (\<lambda>detail. ad_Type detail \<in> {''TUPVI'', ''ADMFE''}) (wt_Amounts w) of
             None \<Rightarrow> return ()
           | Some detail \<Rightarrow>
               let adminFee = amt_ValueDecimal (ad_Amount detail)
               in copyMetadata
                    [(''accountNumberBank'', AnyString (GenerateAccountNumberBankForMetadataADMFE E metadata w)),
                     (''accountNumber'', AnyString (wt_AccountNumber w)),
                     (''amount'', AnyString (decimal_String E (amt_ValueDecimal amount))),
                     (''adminFee'', AnyString (decimal_String E adminFee)),
                     (''net'', AnyString (decimal_String E (amt_ValueDecimal amount - adminFee)))]) (\<lambda>_.
     bind (MutateMetadataByAccountEntity E entityCode) (\<lambda>_.
     one (newReq E amount w status
         (SystemAccountNumber (accounts E)) (wt_AccountNumber w) ''TUPVI'' ''TUP'')))))))"

definition tupvm_Transform :: "'d Transformer" where
  "tupvm_Transform E amount w =
     withStatus w (\<lambda>status.
     one (newReq E amount w status
         (SystemAccountNumber (accounts E)) (wt_AccountNumber w) ''TUPVM'' ''TUP''))"

definition tupvp_Transform :: "'d Transformer" where
  "tupvp_Transform E amount w =
     withStatus w (\<lambda>status.
     one (newReq E amount w status
         (SystemAccountNumber (accounts E)) (wt_AccountNumber w) ''TUPVP'' ''TUP''))"

definition tupwc_Transform :: "'d Transformer" where
  "tupwc_Transform E amount w =
     withStatus w (\<lambda>status.
     one (newReq E amount w status
         (SystemAccountNumber (accounts E)) (wt_AccountNumber w) ''TUPWC'' ''TUP''))"

definition tupwd_Transform :: "'d Transformer" where
  "tupwd_Transform E amount w =
     withStatus w (\<lambda>status.
     one (newReq E amount w status
         (SystemAccountNumber (accounts E)) (wt_AccountNumber w) ''TUPWD'' ''TUP''))"

definition tupwm_Transform :: "'d Transformer" where
  "tupwm_Transform E amount w =
     withStatus w (\<lambda>status.
     one (newReq E amount w status
         (SystemAccountNumber (accounts E)) (wt_AccountNumber w) ''TUPWM'' ''TUP''))"

definition tupwx_Transform :: "'d Transformer" where
  "tupwx_Transform E amount w =
     withStatus w (\<lambda>status.
     one (newReq E amount w status
         (SystemAccountNumber (accounts E)) (wt_AccountNumber w) ''TUPWX'' ''TUP''))"

definition wolar_Transform :: "'d Transformer" where
  "wolar_Transform E amount w =
     withStatus w (\<lambda>status.
     bind (call (GetInvestedAccountNumber E (wt_AccountNumber w))) (\<lambda>investedAccountNumber.
     one (newReq E amount w status
         investedAccountNumber (SystemAccountNumber (accounts E)) ''WOLAR'' ''WOL'')))"

definition wolil_Transform :: "'d Transformer" where
  "wolil_Transform E amount w =
     withStatus w (\<lambda>status.
     failWhen (wt_DestinationAccountNumber w = '''') (Sentinel ErrMissingDestinationAccountNumber) (
     one (newReq E amount w status
         (wt_AccountNumber w) (wt_DestinationAccountNumber w) ''WOLIL'' ''WOL'')))"

definition wollc_Transform :: "'d Transformer" where
  "wollc_Transform E amount w =
     withStatus w (\<lambda>status.
     failWhen (wt_DestinationAccountNumber w = '''') (Sentinel ErrMissingDestinationAccountNumber) (
     one (newReq E amount w status
         (wt_AccountNumber w) (wt_DestinationAccountNumber w) ''WOLLC'' ''WOL'')))"

definition wollr_Transform :: "'d Transformer" where
  "wollr_Transform E amount w =
     withStatus w (\<lambda>status.
     one (newReq E amount w status
         (wt_AccountNumber w) (SystemAccountNumber (accounts E)) ''WOLLR'' ''WOL''))"

definition wolpb_Transform :: "'d Transformer" where
  "wolpb_Transform E amount w =
     withStatus w (\<lambda>status.
     one (newReq E amount w status
         (SystemAccountNumber (accounts E)) (wt_AccountNumber w) ''WOLPB'' ''WOL''))"

definition tableTup :: "(string \<times> ('d::linordered_idom) Transformer) list" where
  "tableTup =
     [(''TUPBA'', tupba_Transform),
      (''TUPBH'', tupbh_Transform),
      (''TUPBM'', tupbm_Transform),
      (''TUPCB'', tupcb_Transform),
      (''TUPDN'', tupdn_Transform),
      (''TUPED'', tuped_Transform),
      (''TUPEN'', tupen_Transform),
      (''TUPEP'', tupep_Transform),
      (''TUPFE'', tupfe_Transform),
      (''TUPGC'', tupgc_Transform),
      (''TUPGE'', tupge_Transform),
      (''TUPGP'', tupgp_Transform),
      (''TUPIK'', tupik_Transform),
      (''TUPIL'', tupil_Transform),
      (''TUPIN'', tupin_Transform),
      (''TUPIP'', tupip_Transform),
      (''TUPLF'', tuplf_Transform),
      (''TUPLR'', tuplr_Transform),
      (''TUPLW'', tuplw_Transform),
      (''TUPPB'', tuppb_Transform),
      (''TUPPO'', tuppo_Transform),
      (''TUPPP'', tuppp_Transform),
      (''TUPPY'', tuppy_Transform),
      (''TUPQR'', tupqr_Transform),
      (''TUPTI'', tupti_Transform),
      (''TUPVA'', tupva_Transform),
      (''TUPVB'', tupvb_Transform),
      (''TUPVI'', tupvi_Transform),
      (''TUPVM'', tupvm_Transform),
      (''TUPVP'', tupvp_Transform),
      (''TUPWC'', tupwc_Transform),
      (''TUPWD'', tupwd_Transform),
      (''TUPWM'', tupwm_Transform),
      (''TUPWX'', tupwx_Transform),
      (''WOLAR'', wolar_Transform),
      (''WOLIL'', wolil_Transform),
      (''WOLLC'', wollc_Transform),
      (''WOLLR'', wollr_Transform),
      (''WOLPB'', wolpb_Transform)]"

lemmas tableTup_defs =
  tupba_Transform_def tupbh_Transform_def tupbm_Transform_def tupcb_Transform_def
  tupdn_Transform_def tuped_Transform_def tupen_Transform_def tupep_Transform_def
  tupfe_Transform_def tupgc_Transform_def tupge_Transform_def tupgp_Transform_def
  tupik_Transform_def tupil_Transform_def tupin_Transform_def tupip_Transform_def
  tuplf_Transform_def tuplr_Transform_def tuplw_Transform_def tuppb_Transform_def
  tuppo_Transform_def tuppp_Transform_def tuppy_Transform_def tupqr_Transform_def
  tupti_Transform_def tupva_Transform_def tupvb_Transform_def tupvi_Transform_def
  tupvm_Transform_def tupvp_Transform_def tupwc_Transform_def tupwd_Transform_def
  tupwm_Transform_def tupwx_Transform_def wolar_Transform_def wolil_Transform_def
  wollc_Transform_def wollr_Transform_def wolpb_Transform_def

section \<open>The table\<close>

lemma tableTup_conforms:
  "list_all (\<lambda>(code, T). ensures (T E amount w) (\<lambda>rs. rs \<noteq> [] \<and> (\<forall>r\<in>set rs. conformsReq E w r))) tableTup"
  unfolding tableTup_def list.pred_inject(2) prod.case tableTup_defs one_def nested_steps Let_def
  by (intro conjI list.pred_inject(1); intro step_intros ensures_bind_newReq ensures_bind;
      simp add: conformsReq_def)

lemma tableTup_amounts:
  "list_all (\<lambda>(code, T). code \<notin> relayingCodes \<longrightarrow>
     ensures (T E amount w) (\<lambda>rs. totalRequested rs = amt_ValueDecimal amount)) tableTup"
  unfolding tableTup_def list.pred_inject(2) prod.case tableTup_defs one_def nested_steps Let_def
  by (intro conjI impI list.pred_inject(1); (simp add: relayingCodes_def; fail)?;
      intro step_intros ensures_bind_newReq ensures_bind; simp add: totalRequested_def)

lemma tableTup_keeps:
  "list_all (\<lambda>(code, T). keeps writtenKeys (T E amount w)) tableTup"
  unfolding tableTup_def list.pred_inject(2) prod.case tableTup_defs Let_def
  by (intro conjI list.pred_inject(1); intro keeps_intros; simp add: writtenKeys_def)

lemma tableTup_draws:
  "list_all (\<lambda>(code, T). draws E d [] (T E amount w)) tableTup"
  unfolding tableTup_def list.pred_inject(2) prod.case tableTup_defs one_def nested_steps Let_def
  by (intro conjI list.pred_inject(1); intro draws_intros draws_bind_newReq draws_bind quiet_intros; simp)

end
