(* ===== verification/TransformerRegistry.thy ===== *)
theory TransformerRegistry
  imports TransformersAdm TransformersDsb TransformersPay TransformersRpy TransformersTup
begin

text \<open>
  The registry of \<open>internal/services/transformer/transformer.go\<close>: the map from the 231
  transaction types to their transformers, the lookup in it, and the transformation of a
  whole wallet transaction, its net amount first and then its details.  The
  lemmas lift what holds of every transformer to the requests of a wallet transaction.
\<close>

section \<open>The registry\<close>

definition NewMapTransformer :: "(string \<times> ('d::linordered_idom) Transformer) list" where
  "NewMapTransformer = tableAdm @ tableDsb @ tablePay @ tableRpy @ tableTup"

definition GetTransformer :: "string \<Rightarrow> ('d::linordered_idom) Transformer result" where
  "GetTransformer transactionType =
     (case map_of NewMapTransformer transactionType of
        None \<Rightarrow> Err (Wrapped (Sentinel ErrUnableGetTransformer) (transactionType @ '' not found''))
      | Some transformer \<Rightarrow> Ok transformer)"

text \<open>
  The loop over the details: an unknown type or a failed transformation is noted and the
  loop goes on; an amount that is not positive is passed over.  A panic unwinds the loop.
\<close>

fun transformDetails ::
  "'d::linordered_idom Env \<Rightarrow> 'd WalletTransaction \<Rightarrow> 'd AmountDetail list \<Rightarrow>
     'd TransactionReq list \<Rightarrow> err list \<Rightarrow> ('d, 'd TransactionReq list \<times> err list) step" where
  "transformDetails E w [] res errs s = (Ok (res, errs), s)"
| "transformDetails E w (detail # rest) res errs s =
     (case GetTransformer (ad_Type detail) of
        Inl e \<Rightarrow> transformDetails E w rest res (errs @ [e]) s
      | Inr transformer \<Rightarrow>
          if amt_ValueDecimal (ad_Amount detail) > 0 then
            (case transformer E (ad_Amount detail) w s of
               (Inl Panic, s') \<Rightarrow> (Err Panic, s')
             | (Inl e, s') \<Rightarrow> transformDetails E w rest res (errs @ [e]) s'
             | (Inr transformed, s') \<Rightarrow> transformDetails E w rest (res @ transformed) errs s')
          else transformDetails E w rest res errs s)"

text \<open>
  \<open>MapTransformer.Transform\<close>.  The requests all hold the one metadata map, so what they show in the
  end is its last content.
\<close>

definition Transform :: "'d::linordered_idom Env \<Rightarrow> 'd WalletTransaction \<Rightarrow> ('d, 'd TransactionReq list) step" where
  "Transform E w =
     bind (call (GetTransformer (wt_TransactionType w))) (\<lambda>transformer.
     bind (if amt_ValueDecimal (wt_NetAmount w) > 0 then transformer E (wt_NetAmount w) w
           else return []) (\<lambda>res.
     bind (transformDetails E w (wt_Amounts w) res []) (\<lambda>(res, errs).
     bind getMetadata (\<lambda>metadata.
     if errs = [] then return (map (\<lambda>r. r\<lparr>req_Metadata := metadata\<rparr>) res)
     else fail (MultiErr errs)))))"

text \<open>The state a transformation starts in: the metadata of the wallet transaction.\<close>

definition startState :: "'d WalletTransaction \<Rightarrow> nat \<Rightarrow> 'd TState" where
  "startState w n = \<lparr>shared = wt_Metadata w, drawn = n\<rparr>"

section \<open>What holds of every transformer\<close>

lemma GetTransformer_member:
  "GetTransformer code = Inr T \<Longrightarrow> (code, T) \<in> set NewMapTransformer"
  by (auto simp: GetTransformer_def split: option.splits dest: map_of_SomeD)

lemma registry_conforms:
  assumes "GetTransformer code = Inr T"
  shows "ensures (T E amount w) (\<lambda>rs. rs \<noteq> [] \<and> (\<forall>r\<in>set rs. conformsReq E w r))"
  using GetTransformer_member [OF assms] tableAdm_conforms [of E amount w] tableDsb_conforms [of E amount w]
    tablePay_conforms [of E amount w] tableRpy_conforms [of E amount w] tableTup_conforms [of E amount w]
  unfolding NewMapTransformer_def list_all_iff by fastforce

lemma registry_amounts:
  assumes "GetTransformer code = Inr T" and "code \<notin> relayingCodes"
  shows "ensures (T E amount w) (\<lambda>rs. totalRequested rs = amt_ValueDecimal amount)"
  using GetTransformer_member [OF assms(1)] assms(2) tableAdm_amounts [of E amount w]
    tableDsb_amounts [of E amount w] tablePay_amounts [of E amount w] tableRpy_amounts [of E amount w]
    tableTup_amounts [of E amount w]
  unfolding NewMapTransformer_def list_all_iff by fastforce

lemma registry_keeps:
  assumes "GetTransformer code = Inr T"
  shows "keeps writtenKeys (T E amount w)"
  using GetTransformer_member [OF assms] tableAdm_keeps [of E amount w] tableDsb_keeps [of E amount w]
    tablePay_keeps [of E amount w] tableRpy_keeps [of E amount w] tableTup_keeps [of E amount w]
  unfolding NewMapTransformer_def list_all_iff by fastforce

lemma registry_draws:
  assumes "GetTransformer code = Inr T"
  shows "draws E d [] (T E amount w)"
  using GetTransformer_member [OF assms] tableAdm_draws [of E d amount w] tableDsb_draws [of E d amount w]
    tablePay_draws [of E d amount w] tableRpy_draws [of E d amount w] tableTup_draws [of E d amount w]
  unfolding NewMapTransformer_def list_all_iff by fastforce

section \<open>Whole wallet transactions\<close>

lemma errors_grow:
  fixes w :: "'d::linordered_idom WalletTransaction"
  shows "transformDetails E w ds res errs s = (Inr (res', errs'), s') \<Longrightarrow> \<exists>more. errs' = errs @ more"
proof (induction ds arbitrary: res errs s)
  case (Cons d ds)
  show ?case
  proof (cases "GetTransformer (ad_Type d) :: 'd Transformer result")
    case (Inl e)
    with Cons.prems have "transformDetails E w ds res (errs @ [e]) s = (Inr (res', errs'), s')"
      by simp
    from Cons.IH [OF this] show ?thesis by auto
  next
    case (Inr T)
    show ?thesis
    proof (cases "amt_ValueDecimal (ad_Amount d) > 0")
      case False
      with Inr Cons.prems Cons.IH [of res errs s] show ?thesis by simp
    next
      case True
      obtain r s1 where run: "T E (ad_Amount d) w s = (r, s1)" by fastforce
      show ?thesis
      proof (cases r)
        case (Inr new)
        with Cons.prems \<open>GetTransformer (ad_Type d) = Inr T\<close> True run
        have "transformDetails E w ds (res @ new) errs s1 = (Inr (res', errs'), s')" by simp
        from Cons.IH [OF this] show ?thesis .
      next
        case (Inl e)
        with Cons.prems \<open>GetTransformer (ad_Type d) = Inr T\<close> True run
        have "transformDetails E w ds res (errs @ [e]) s1 = (Inr (res', errs'), s')"
          by (cases e) simp_all
        from Cons.IH [OF this] show ?thesis by auto
      qed
    qed
  qed
qed simp

text \<open>A loop that ends without an error took, for each detail, one of two branches.\<close>

lemma transformDetails_ok:
  fixes w :: "'d::linordered_idom WalletTransaction"
  assumes "transformDetails E w (d # ds) res errs s = (Inr (res', []), s')"
  obtains (skipped) T :: "'d Transformer"
      where "GetTransformer (ad_Type d) = Inr T" and "\<not> amt_ValueDecimal (ad_Amount d) > 0"
      and "transformDetails E w ds res errs s = (Inr (res', []), s')"
    | (taken) T :: "'d Transformer" and new s1
      where "GetTransformer (ad_Type d) = Inr T" and "amt_ValueDecimal (ad_Amount d) > 0"
      and "T E (ad_Amount d) w s = (Inr new, s1)"
      and "transformDetails E w ds (res @ new) errs s1 = (Inr (res', []), s')"
proof -
  obtain T :: "'d Transformer" where T: "GetTransformer (ad_Type d) = Inr T"
  proof (cases "GetTransformer (ad_Type d) :: 'd Transformer result")
    case (Inl e)
    with assms errors_grow [of E w ds res "errs @ [e]" s res' "[]" s'] show ?thesis by simp
  next
    case (Inr T)
    then show ?thesis by (rule that)
  qed
  show thesis
  proof (cases "amt_ValueDecimal (ad_Amount d) > 0")
    case False
    with assms T show thesis by (intro skipped [OF T False]) simp
  next
    case True
    obtain r s1 where run: "T E (ad_Amount d) w s = (r, s1)" by fastforce
    show thesis
    proof (cases r)
      case (Inr new)
      with assms T True run show thesis by (intro taken [OF T True, of new s1]) simp_all
    next
      case (Inl e)
      with assms T True run have "transformDetails E w ds res (errs @ [e]) s1 = (Inr (res', []), s')"
        by (cases e) simp_all
      from errors_grow [OF this] show thesis by simp
    qed
  qed
qed

lemma totalRequested_append: "totalRequested (rs @ rs') = totalRequested rs + totalRequested rs'"
  by (simp add: totalRequested_def)

lemma GetTransformer_isOk:
  "GetTransformer code = Inr (T :: 'd::linordered_idom Transformer) \<Longrightarrow>
     isOk (GetTransformer code :: 'd Transformer result)"
  by simp

lemma transformDetails_result:
  fixes w :: "'d::linordered_idom WalletTransaction"
  assumes "transformDetails E w ds res errs s = (Inr (res', []), s')"
    and "\<forall>r\<in>set res. conformsReq E w r"
    and "b \<le> drawn s" and "map req_TransactionID res = map (uuid E) [b..<drawn s]"
  shows "(\<forall>r\<in>set res'. conformsReq E w r) \<and>
         b \<le> drawn s' \<and> map req_TransactionID res' = map (uuid E) [b..<drawn s'] \<and>
         (\<forall>d\<in>set ds. isOk (GetTransformer (ad_Type d) :: 'd Transformer result))"
  using assms
proof (induction ds arbitrary: res s)
  case (Cons d ds)
  from Cons.prems(1) show ?case
  proof (cases rule: transformDetails_ok)
    case (skipped T)
    with Cons.IH [OF skipped(3) Cons.prems(2-4)] show ?thesis by simp
  next
    case (taken T new s1)
    have "\<forall>r\<in>set new. conformsReq E w r"
      using registry_conforms [OF taken(1), of E "ad_Amount d" w] taken(3) by (auto simp: ensures_def)
    moreover have "drawn s \<le> drawn s1 \<and> map req_TransactionID new = map (uuid E) [drawn s..<drawn s1]"
      by (rule draws_start [OF registry_draws [OF taken(1)] taken(3)])
    moreover have "[b..<drawn s1] = [b..<drawn s] @ [drawn s..<drawn s1]"
      using Cons.prems(3) calculation(2) by (metis le_iff_add upt_add_eq_append)
    ultimately show ?thesis
      using Cons.IH [OF taken(4)] Cons.prems(2-4) taken(1) by auto
  qed
qed simp

lemma ensuresD: "ensures m Q \<Longrightarrow> m s = (Inr x, s') \<Longrightarrow> Q x"
  by (auto simp: ensures_def)

lemma transformDetails_amounts:
  fixes w :: "'d::linordered_idom WalletTransaction"
  assumes "transformDetails E w ds res errs s = (Inr (res', []), s')"
    and "\<forall>d\<in>set ds. \<forall>T :: 'd Transformer. 0 < amt_ValueDecimal (ad_Amount d) \<longrightarrow> GetTransformer (ad_Type d) = Inr T \<longrightarrow>
      ensures (T E (ad_Amount d) w) (\<lambda>rs. totalRequested rs = asked (ad_Type d) (amt_ValueDecimal (ad_Amount d)))"
  shows "totalRequested res' = totalRequested res +
    (\<Sum>d\<leftarrow>ds. if 0 < amt_ValueDecimal (ad_Amount d) then asked (ad_Type d) (amt_ValueDecimal (ad_Amount d)) else 0)"
  using assms
proof (induction ds arbitrary: res s)
  case (Cons d ds)
  from Cons.prems(1) show ?case
  proof (cases rule: transformDetails_ok)
    case (skipped T)
    with Cons.IH [OF skipped(3)] Cons.prems(2) show ?thesis by simp
  next
    case (taken T new s1)
    have "totalRequested new = asked (ad_Type d) (amt_ValueDecimal (ad_Amount d))"
      by (rule ensuresD [where m = "T E (ad_Amount d) w"]) (use Cons.prems(2) taken in auto)
    with Cons.IH [OF taken(4)] Cons.prems(2) taken(2) show ?thesis
      by (simp add: totalRequested_append algebra_simps)
  qed
qed simp

text \<open>A transformation that succeeds: its transformer, its net amount, and the loop with no error.\<close>

lemma Transform_ok:
  fixes w :: "'d::linordered_idom WalletTransaction"
  assumes "Transform E w s = (Inr rs, s')"
  obtains T :: "'d Transformer" and res res' s1 where "GetTransformer (wt_TransactionType w) = Inr T"
    and "(if amt_ValueDecimal (wt_NetAmount w) > 0 then T E (wt_NetAmount w) w else return []) s = (Inr res, s1)"
    and "transformDetails E w (wt_Amounts w) res [] s1 = (Inr (res', []), s')"
    and "rs = map (\<lambda>r. r\<lparr>req_Metadata := shared s'\<rparr>) res'"
proof -
  let ?net = "\<lambda>T :: 'd Transformer.
    if amt_ValueDecimal (wt_NetAmount w) > 0 then T E (wt_NetAmount w) w else return []"
  from assms obtain T :: "'d Transformer" and s0 res s1 res' errs s2
    where T: "call (GetTransformer (wt_TransactionType w)) s = (Inr T, s0)"
      and net: "?net T s0 = (Inr res, s1)"
      and loop: "transformDetails E w (wt_Amounts w) res [] s1 = (Inr (res', errs), s2)"
      and last: "bind getMetadata (\<lambda>metadata.
          if errs = [] then return (map (\<lambda>r. r\<lparr>req_Metadata := metadata\<rparr>) res')
          else fail (MultiErr errs)) s2 = (Inr rs, s')"
    unfolding Transform_def bind_Ok [of "call _"] bind_Ok [of "?net _"] bind_Ok [of "transformDetails _ _ _ _ _"]
    by (elim exE conjE) (auto simp: prod.case_distrib)
  from last have "errs = []" and "s2 = s'" and "rs = map (\<lambda>r. r\<lparr>req_Metadata := shared s'\<rparr>) res'"
    by (auto simp: return_def fail_def split: if_splits)
  with T net loop that show thesis
    by (simp add: call_def)
qed

lemma transformDetails_keeps:
  fixes w :: "'d::linordered_idom WalletTransaction"
  shows "keeps writtenKeys (transformDetails E w ds res errs)"
proof (induction ds arbitrary: res errs)
  case Nil
  show ?case by (simp add: keeps_def)
next
  case (Cons d ds)
  show ?case
    unfolding keeps_def
  proof (intro allI)
    fix s
    let ?same = "\<lambda>s s'. (shared s' = None \<longleftrightarrow> shared s = None) \<and>
      (\<forall>key. key \<notin> writtenKeys \<longrightarrow> metadataIndex (shared s') key = metadataIndex (shared s) key)"
    have rest: "?same s (snd (transformDetails E w ds res' errs' s))" for res' errs' s
      using Cons.IH [of res' errs'] by (simp add: keeps_def)
    show "?same s (snd (transformDetails E w (d # ds) res errs s))"
    proof (cases "GetTransformer (ad_Type d) :: 'd Transformer result")
      case (Inl e)
      with rest show ?thesis by simp
    next
      case (Inr T)
      show ?thesis
      proof (cases "amt_ValueDecimal (ad_Amount d) > 0")
        case False
        with Inr rest show ?thesis by simp
      next
        case True
        obtain r s1 where run: "T E (ad_Amount d) w s = (r, s1)" by fastforce
        have first: "?same s s1"
          using registry_keeps [OF Inr, of E "ad_Amount d" w] run unfolding keeps_def by (metis snd_conv)
        with Inr True run rest show ?thesis
          by (cases r rule: sum.exhaust; simp split: err.split)
      qed
    qed
  qed
qed

section \<open>Properties\<close>

text \<open>
  the requests that a wallet transaction becomes all speak for it.  Whatever its types, if
  the transformation succeeds then its own type and the type of every detail are registered, each request carries
  the reference, times, translated status and a currency of the wallet transaction and an order type
  that prefixes its transaction type, their ids are exactly the ids drawn, in order
  (so they are distinct where the generator does not repeat), and all of them show the same, final metadata.
\<close>

lemma transform_requests_conform:
  fixes w :: "'d::linordered_idom WalletTransaction"
  assumes "Transform E w (startState w n) = (Inr rs, s')"
  shows "isOk (GetTransformer (wt_TransactionType w) :: 'd Transformer result) \<and>
         (\<forall>d\<in>set (wt_Amounts w). isOk (GetTransformer (ad_Type d) :: 'd Transformer result)) \<and>
         (\<forall>r\<in>set rs. conformsReq E w r \<and> req_Metadata r = shared s') \<and>
         map req_TransactionID rs = map (uuid E) [n..<drawn s']"
proof -
  obtain T :: "'d Transformer" and res res' s1 where T: "GetTransformer (wt_TransactionType w) = Inr T"
    and first: "(if amt_ValueDecimal (wt_NetAmount w) > 0 then T E (wt_NetAmount w) w else return [])
                  (startState w n) = (Inr res, s1)"
    and rest: "transformDetails E w (wt_Amounts w) res [] s1 = (Inr (res', []), s')"
    and rs: "rs = map (\<lambda>r. r\<lparr>req_Metadata := shared s'\<rparr>) res'"
    using assms by (rule Transform_ok)
  have "\<forall>r\<in>set res. conformsReq E w r"
    using registry_conforms [OF T, of E "wt_NetAmount w" w] first
    by (auto simp: ensures_def return_def split: if_splits)
  moreover have "n \<le> drawn s1 \<and> map req_TransactionID res = map (uuid E) [n..<drawn s1]"
  proof (cases "amt_ValueDecimal (wt_NetAmount w) > 0")
    case True
    with first have "T E (wt_NetAmount w) w (startState w n) = (Inr res, s1)" by simp
    from draws_start [OF registry_draws [OF T] this] show ?thesis by (simp add: startState_def)
  next
    case False
    with first show ?thesis by (auto simp: startState_def return_def)
  qed
  ultimately have "(\<forall>r\<in>set res'. conformsReq E w r) \<and>
      n \<le> drawn s' \<and> map req_TransactionID res' = map (uuid E) [n..<drawn s'] \<and>
      (\<forall>d\<in>set (wt_Amounts w). isOk (GetTransformer (ad_Type d) :: 'd Transformer result))"
    by (intro transformDetails_result [OF rest]) auto
  then show ?thesis
    using T rs by (auto simp: conformsReq_def comp_def)
qed

definition exampleAccounts :: AccountConfig where
  "exampleAccounts =
     \<lparr>BPE = ''BPE'', SplitEscrow = ''SPLIT'', SystemAccountNumber = ''SYS'',
      BRIEscrowAFAAccountNumber = ''AFA'', BRI9539AccountNumber = ''BRI'', DepositCampaignBudget = ''CMP'',
      OperationalPayableGeneralCashDeposit = ''GCD'', OperationalReceivableVoucher = ''VOU'',
      OperationalReceivableDigiasia = ''DIG'', OperationalPayableGeneralCashback = ''GCB'',
      DepositDiscountPPOB = ''DSC'', DepositVoucher = ''DVO'', DepositVoucherCelengan = ''DVC'',
      RemittanceAdminFeeBudget = ''RAB'', RemittanceAdminFeeRevenue = ''RAR'',
      OtherReceivableRepayment = ''ORR'',
      OperationalReceivableAccountNumberByEntity = [(''amf'', ''REC-AMF''), (''afa'', ''REC-AFA'')],
      WHT2326Loan = [(''modal'', ''WHT'')], AmarthaRevenueLoan = [(''NORMAL'', ''REV'')],
      AmarthaRevenueModalLoanPlatformFeeByEntityCode = [(''amf'', ''FEE'')],
      GeneralCashOutHoldingAccountNumber = ''HOLD'', MapAccountEntity = [''001'' \<mapsto> ''AMF''],
      AmarthaRevenueAdminFeeAFA = ''AFR'', OperationalReceivableDiscountAdminFeeAFA = ''AFD'',
      AccountNumberBankTUPVIForADMFE = [], AccountNumberBankCOTLRForADMFEByEntity = [],
      AccountNumberInsurancePremiumDisbursementByEntity = [], AccountNumberBankForADMFA = ''BNK''\<rparr>"

definition exampleSettings :: TransformerConfig where
  "exampleSettings =
     \<lparr>ValidatePAYMDLoanAccountNumber = False, ValidatePAYMDLoanIDS = False,
      ValidateTUPEPCustomerNum = False, ValidateTUPEPLoanType = False,
      EnableRpyabRpyacAdjustment = False, ReversalTimeRangeDays = 30,
      UseAccountConfigFromExternalKey = ''ext''\<rparr>"

definition exampleEnv :: "rat Env" where
  "exampleEnv =
     \<lparr>accounts = exampleAccounts, settings = exampleSettings,
      decimal_Div = (/), decimal_Round0 = (\<lambda>x. of_int (round x)),
      decimal_NewFromFloat = (\<lambda>s. if s = ''0.11'' then 11 / 100 else 111 / 100),
      decimal_String = (\<lambda>_. ''n''),
      GetInvestedAccountNumber = (\<lambda>a. Ok (''INV-'' @ a)), GetLoanAdvancePayment = (\<lambda>a. Ok (''LAP-'' @ a)),
      GetCachedAccount = (\<lambda>a. Ok \<lparr>acc_AccountNumber = a, acc_Entity = ''001''\<rparr>),
      GetTransactionTypeName = (\<lambda>c. Ok c), GetConfigVATRevenue = Ok [],
      GetWht2326 = (\<lambda>a k. Ok ''WHT''), GetVatOut = (\<lambda>a k. Ok ''VAT''), GetRevenue = (\<lambda>a k. Ok ''REV''),
      GetAdminFee = (\<lambda>a k. Ok ''FEE''),
      GetByTransactionID = (\<lambda>_. Err (Sentinel ErrNoRows)), GetTransactionList = (\<lambda>_ _ _ _. Ok []),
      GetWalletById = (\<lambda>_. Err (Sentinel ErrNoRows)), ListWallet = (\<lambda>_ _. Ok []),
      flag_IsEnabled = (\<lambda>_. False), clock = 0, uuid = (\<lambda>n. replicate n CHR ''i'')\<rparr>"

definition exampleWallet :: "rat WalletTransaction" where
  "exampleWallet =
     \<lparr>wt_ID = ''W1'', wt_Status = ''SUCCESS'', wt_AccountNumber = ''ACC'', wt_DestinationAccountNumber = '''',
      wt_RefNumber = ''REF'', wt_TransactionType = ''COTRQ'', wt_TransactionTime = 0,
      wt_TransactionFlow = ''cashout'', wt_NetAmount = \<lparr>amt_ValueDecimal = 100, amt_Currency = ''''\<rparr>,
      wt_Amounts = [\<lparr>ad_Type = ''ADMBI'', ad_Amount = \<lparr>amt_ValueDecimal = 5, amt_Currency = ''IDR''\<rparr>\<rparr>,
                    \<lparr>ad_Type = ''ADMCE'', ad_Amount = \<lparr>amt_ValueDecimal = 0, amt_Currency = ''IDR''\<rparr>\<rparr>],
      wt_Description = ''d'', wt_Metadata = Some Map.empty, wt_CreatedAt = 1\<rparr>"

lemmas example_simps =
  exampleAccounts_def exampleSettings_def exampleEnv_def exampleWallet_def startState_def

lemma registry_examples:
  "GetTransformer ''COTRQ'' = Inr cotrq_Transform"
  "GetTransformer ''ADMBI'' = Inr admbi_Transform"
  "GetTransformer ''ADMCE'' = Inr admce_Transform"
  by (simp_all add: GetTransformer_def NewMapTransformer_def tableAdm_def)

lemma example_transform:
  obtains rs s' where "Transform exampleEnv exampleWallet (startState exampleWallet 0) = (Inr rs, s')"
    and "length rs = 2"
proof -
  have "\<exists>rs s'. Transform exampleEnv exampleWallet (startState exampleWallet 0) = (Inr rs, s') \<and> length rs = 2"
    by (simp add: Transform_def registry_examples cotrq_Transform_def admbi_Transform_def one_def
        withStatus_def transformWalletTransactionStatus_def bind_def call_def return_def getMetadata_def
        newReq_eq example_simps)
  with that show thesis by blast
qed

lemma transform_requests_conform_witness:
  "\<exists>rs (s' :: rat TState). length rs = 2 \<and> (\<forall>r\<in>set rs. conformsReq exampleEnv exampleWallet r \<and> req_Metadata r = shared s') \<and>
     map req_TransactionID rs = map (uuid exampleEnv) [0..<drawn s']"
proof -
  obtain rs s' where run: "Transform exampleEnv exampleWallet (startState exampleWallet 0) = (Inr rs, s')"
    and "length rs = 2"
    by (rule example_transform)
  with transform_requests_conform [OF run] show ?thesis
    by (intro exI [where x = rs], intro exI [where x = s']) auto
qed

text \<open>
  Transforming a wallet transaction leaves the caller's metadata alone, except for nine keys.
  Whether it succeeds, fails or panics half way, the metadata map that the caller shares keeps
  every entry whose key is not one of the keys the transformers write, and a nil map stays nil.
\<close>

lemma transform_metadata_frame:
  fixes w :: "'d::linordered_idom WalletTransaction"
  shows "(shared (snd (Transform E w s)) = None \<longleftrightarrow> shared s = None) \<and>
    (\<forall>key. key \<notin> writtenKeys \<longrightarrow>
       metadataIndex (shared (snd (Transform E w s))) key = metadataIndex (shared s) key)"
proof (cases "GetTransformer (wt_TransactionType w) :: 'd Transformer result")
  case (Inl e)
  then show ?thesis by (simp add: Transform_def)
next
  case (Inr T)
  have "keeps writtenKeys (bind (if amt_ValueDecimal (wt_NetAmount w) > 0 then T E (wt_NetAmount w) w
             else return []) (\<lambda>res. bind (transformDetails E w (wt_Amounts w) res [])
           (\<lambda>(res, errs). bind getMetadata (\<lambda>metadata.
             if errs = [] then return (map (\<lambda>r. r\<lparr>req_Metadata := metadata\<rparr>) res) else fail (MultiErr errs)))))"
    by (intro keeps_intros transformDetails_keeps registry_keeps [OF Inr])
      (auto intro!: keeps_intros)
  then show ?thesis
    unfolding Transform_def Inr bind_call_Inr keeps_def by blast
qed

lemma transform_metadata_frame_witness:
  "metadataIndex (shared (snd (Transform exampleEnv exampleWallet
       \<lparr>shared = Some [''note'' \<mapsto> AnyString ''x''], drawn = 0\<rparr>))) ''note'' = Some (AnyString ''x'')"
  using transform_metadata_frame [of exampleEnv exampleWallet "\<lparr>shared = Some [''note'' \<mapsto> AnyString ''x''], drawn = 0\<rparr>"]
  by (simp add: writtenKeys_def metadataIndex_def)

end
