(* ===== verification/WalletService.thy ===== *)
theory WalletService
  imports TransactionStore TransformerRegistry
begin

text \<open>
  The wallet transaction service (\<open>internal/services/wallet_transaction_service.go\<close>): creating a wallet
  transaction, at once or reserved, and committing or cancelling a reserved one.  Each runs the
  transformers, one database transaction and the publications around it.  The state of the service is
  the database, the messages that left it, and how many ids were drawn.
\<close>

section \<open>The service and its world\<close>

text \<open>\<open>UpdateBalanceHVTPayload\<close>: a change of a high-volume account that a consumer applies later.\<close>

record 'd HVTPayload =
  hvt_WalletTransactionId :: string
  hvt_RefNumber :: string
  hvt_AccountNumber :: string
  hvt_UpdateAmount :: "'d Amount"

record 'd TransactionNotification =
  ntf_Identifier :: string
  ntf_WalletTransaction :: "'d WalletTransaction"
  ntf_AccountBalances :: "string \<rightharpoonup> 'd Balance \<times> 'd Balance"
  ntf_Transactions :: "'d Transaction list"
  ntf_OrderType :: string
  ntf_ClientID :: string

record 'd World =
  w_db :: "'d DB"
  w_hvt :: "'d HVTPayload list"
  w_notified :: "'d TransactionNotification list"
  w_async :: "'d CreateWalletTransactionRequest list"
  w_drawn :: nat

text \<open>
  The configuration and the collaborators: the environment of the transformers on a database, the order in
  which Go visits a map of balances, the JSON encoder, the publishers (an error when one fails), the
  master data, the feature flags, the conversion to the library's transaction, and the text of an error.
\<close>

record 'd ServiceConfig =
  repo :: "'d RepoConfig"
  environment :: "'d DB \<Rightarrow> 'd Env"
  visitOrder :: "'d balances \<Rightarrow> string list"
  ExcludedBalanceUpdateAccountNumbers :: "string list"
  AcceptedTransactionType :: "string list"
  AsyncWalletTransactionForClients :: "string list"
  LceRollout :: bool
  variantTransactionTypes :: "string list result"
  GetListTransactionTypeCode :: "string list result"
  GetAccountNumberEntity :: "string list \<Rightarrow> (string \<rightharpoonup> string) result"
  parseRFC3339 :: "string \<Rightarrow> int option"
  jsonMarshal :: "'d WalletMetadata \<Rightarrow> string result"
  newUUIDText :: "nat \<Rightarrow> string"
  addedNanoSecond :: int
  publishHVT :: "'d HVTPayload \<Rightarrow> err option"
  publishAsync :: "'d CreateWalletTransactionRequest \<Rightarrow> err option"
  publishNotification :: "'d TransactionNotification \<Rightarrow> err option"
  toAcuanLib :: "'d Transaction \<Rightarrow> err option"
  errorText :: "err \<Rightarrow> string"

definition emptyWallet :: "'d::zero WalletTransaction" where
  "emptyWallet =
     \<lparr>wt_ID = '''', wt_Status = '''', wt_AccountNumber = '''', wt_DestinationAccountNumber = '''',
      wt_RefNumber = '''', wt_TransactionType = '''', wt_TransactionTime = 0, wt_TransactionFlow = '''',
      wt_NetAmount = \<lparr>amt_ValueDecimal = 0, amt_Currency = ''''\<rparr>, wt_Amounts = [], wt_Description = '''',
      wt_Metadata = None, wt_CreatedAt = 0\<rparr>"

section \<open>Steps shared by creating and settling\<close>

definition balanceRequest :: "'d ServiceConfig \<Rightarrow> 'd TransactionReq list \<Rightarrow> 'd GetAccountBalanceRequest" where
  "balanceRequest svc childTransactions =
     \<lparr>gr_AccountNumbers = getAccountNumbersForUpdateBalance childTransactions, gr_ExcludeHVT = False,
      gr_ForUpdate = True,
      gr_AccountNumbersExcludedFromDB = ExcludedBalanceUpdateAccountNumbers svc,
      gr_OverrideBalanceOpts = []\<rparr>"

definition calculateBalances ::
  "('d::linordered_idom WalletTransactionSet \<Rightarrow> 'd balances \<Rightarrow> 'd calcResult) \<Rightarrow>
     'd TransactionReq list \<Rightarrow> 'd balances \<Rightarrow> 'd balances result" where
  "calculateBalances calculateBalance childTransactions balances =
     (case calculateAll calculateBalance (map trxSetOf childTransactions) balances of
        (updated, None) \<Rightarrow> Ok updated
      | (_, Some e) \<Rightarrow> Err (wrapErr ''calculate balance failed'' e))"

definition hvtPayload :: "string \<Rightarrow> string \<Rightarrow> string \<Rightarrow> 'd::linordered_idom Balance \<Rightarrow> 'd Balance \<Rightarrow> 'd HVTPayload" where
  "hvtPayload i refNumber accountNumber prevBalance balance =
     \<lparr>hvt_WalletTransactionId = i, hvt_RefNumber = refNumber, hvt_AccountNumber = accountNumber,
      hvt_UpdateAmount = \<lparr>amt_ValueDecimal = Available balance - Available prevBalance,
                          amt_Currency = ''IDR''\<rparr>\<rparr>"

text \<open>
  \<open>insertChildTransactions\<close>: every request is converted; if one cannot be, all errors together are the
  answer and nothing is stored.
\<close>

definition convertRequests ::
  "'d ServiceConfig \<Rightarrow> 'd TransactionReq list \<Rightarrow> err list \<times> 'd Transaction list" where
  "convertRequests svc childTransactions =
     foldl (\<lambda>(errs, res) ct.
              case ToRequest (now (repo svc)) (addedNanoSecond svc) (jsonMarshal svc) (newUUIDText svc 0) ct of
                Inl e \<Rightarrow> (errs @ [e], res)
              | Inr en \<Rightarrow> (errs, res @ [en]))
       ([], []) childTransactions"

definition insertChildTransactions ::
  "'d ServiceConfig \<Rightarrow> 'd TransactionReq list \<Rightarrow> ('d DB, 'd Transaction list) exec" where
  "insertChildTransactions svc childTransactions =
     (if childTransactions = [] then return []
      else case convertRequests svc childTransactions of (errs, res) \<Rightarrow>
        (case ErrorOrNil errs of
           Some e \<Rightarrow> fail e
         | None \<Rightarrow> bind (wrapping ''unable to store acuan transaction'' (StoreBulk (repo svc) res))
                      (\<lambda>_. return res)))"

text \<open>\<open>CreateWalletNotificationPayload\<close> and its publication.\<close>

definition CreateWalletNotificationPayload ::
  "'d ServiceConfig \<Rightarrow> 'd WalletTransaction \<Rightarrow> 'd Transaction list \<Rightarrow> 'd balances \<Rightarrow> 'd balances \<Rightarrow> string \<Rightarrow>
     'd TransactionNotification result" where
  "CreateWalletNotificationPayload svc wallet acuanTransactions before after clientID =
     (case find (\<lambda>a. after a = None) (visitOrder svc before) of
        Some a \<Rightarrow> Err (ErrorMsg (''account number '' @ a @ '' not found in afterBalances''))
      | None \<Rightarrow>
          rbind (traverse (\<lambda>t. case toAcuanLib svc t of
                                 None \<Rightarrow> Ok t
                               | Some e \<Rightarrow> Err (wrapErr ''failed to convert transaction to acuan lib transaction'' e))
                   acuanTransactions) (\<lambda>transactions.
          if length (wt_TransactionType wallet) < 3 then
            Err (Wrapped (Sentinel ErrFailedToCreateNotificationPayload)
                   (''order type is less than 3 characters '' @ wt_TransactionType wallet))
          else Ok \<lparr>ntf_Identifier = wt_RefNumber wallet, ntf_WalletTransaction = wallet,
                   ntf_AccountBalances =
                     (\<lambda>a. case (before a, after a) of (Some b, Some c) \<Rightarrow> Some (b, c) | _ \<Rightarrow> None),
                   ntf_Transactions = transactions, ntf_OrderType = take 3 (wt_TransactionType wallet),
                   ntf_ClientID = clientID\<rparr>))"

definition publishNotificationCreateWalletTransactionSuccess ::
  "'d ServiceConfig \<Rightarrow> 'd WalletTransaction \<Rightarrow> 'd Transaction list \<Rightarrow> 'd balances \<Rightarrow> 'd balances \<Rightarrow> string \<Rightarrow>
     'd World \<Rightarrow> err option \<times> 'd World" where
  "publishNotificationCreateWalletTransactionSuccess svc wallet acuanTransactions before after clientID w =
     (case CreateWalletNotificationPayload svc wallet acuanTransactions before after clientID of
        Inl e \<Rightarrow> (Some (wrapErr ''unable to create notification payload'' e), w)
      | Inr payload \<Rightarrow>
          (case publishNotification svc payload of
             Some e \<Rightarrow> (Some e, w)
           | None \<Rightarrow> (None, w\<lparr>w_notified := w_notified w @ [payload]\<rparr>)))"

section \<open>Creating\<close>

text \<open>
  The loop over the balances in \<open>CreateTransactionAtomic\<close>: an account that is kept off the database is
  passed over, a high-volume account that only receives is left to its consumer, any other is written.
\<close>

fun storeCreatedBalances ::
  "'d::linordered_idom ServiceConfig \<Rightarrow> 'd NewWalletTransaction \<Rightarrow> bool \<Rightarrow> string list \<Rightarrow> 'd balances \<Rightarrow>
     string list \<Rightarrow> 'd balances \<Rightarrow> 'd HVTPayload list \<Rightarrow> ('d DB, 'd balances \<times> 'd HVTPayload list) exec" where
  "storeCreatedBalances svc nwt isReserved fromAccounts current [] updated hvt s = (Ok (updated, hvt), s)"
| "storeCreatedBalances svc nwt isReserved fromAccounts current (a # rest) updated hvt s =
     (case updated a of
        None \<Rightarrow> storeCreatedBalances svc nwt isReserved fromAccounts current rest updated hvt s
      | Some b \<Rightarrow>
          if isSkipBalanceUpdateOnDB b then
            storeCreatedBalances svc nwt isReserved fromAccounts current rest updated hvt s
          else if a \<notin> set fromAccounts \<and> isHVT b \<and> \<not> isReserved then
            (case current a of
               None \<Rightarrow> (Err (ErrorMsg (''unable to get previous balance for account number '' @ a)), s)
             | Some prev \<Rightarrow>
                 storeCreatedBalances svc nwt isReserved fromAccounts current rest updated
                   (hvt @ [hvtPayload (nw_ID nwt) (nw_RefNumber nwt) a prev b]) s)
          else
            bind (wrapping ''unable to update balance'' (UpdateAccountBalance (repo svc) a b)) (\<lambda>ub.
              storeCreatedBalances svc nwt isReserved fromAccounts current rest (updated(a \<mapsto> ub)) hvt) s)"

text \<open>What the database transaction hands to the code after it.\<close>

record 'd CreateVars =
  cv_created :: "'d WalletTransaction"
  cv_acuanTransactions :: "'d Transaction list"
  cv_currentBalances :: "'d balances"
  cv_updatedBalances :: "'d balances"
  cv_hvtPayloads :: "'d HVTPayload list"

text \<open>The account of the request itself, under its own number.\<close>

definition withAccountNumbers ::
  "(string \<rightharpoonup> string) \<Rightarrow> 'd NewWalletTransaction \<Rightarrow> 'd NewWalletTransaction" where
  "withAccountNumbers mapT24 nwt =
     nwt\<lparr>nw_AccountNumber :=
           (case mapT24 (nw_AccountNumber nwt) of Some an \<Rightarrow> an | None \<Rightarrow> nw_AccountNumber nwt),
         nw_DestinationAccountNumber :=
           (case mapT24 (nw_DestinationAccountNumber nwt) of
              Some an \<Rightarrow> if nw_DestinationAccountNumber nwt \<noteq> '''' then an else nw_DestinationAccountNumber nwt
            | None \<Rightarrow> nw_DestinationAccountNumber nwt)\<rparr>"

text \<open>\<open>created, err = walletTrxRepo.Create(...)\<close>: the variable is nil after an error.\<close>

definition createWallet ::
  "'d ServiceConfig \<Rightarrow> 'd NewWalletTransaction \<Rightarrow>
     ('d DB \<times> 'd WalletTransaction option, 'd WalletTransaction) exec" where
  "createWallet svc nwt s =
     (case WalletCreate (repo svc) nwt (fst s) of
        (Inl e, db) \<Rightarrow> (Err (wrapErr ''unable to create wallet transaction'' e), (db, None))
      | (Inr created, db) \<Rightarrow> (Ok created, (db, Some created)))"

definition createSteps ::
  "'d::linordered_idom ServiceConfig \<Rightarrow> 'd NewWalletTransaction \<Rightarrow> bool \<Rightarrow> 'd TransactionReq list \<Rightarrow>
     ('d DB \<times> 'd WalletTransaction option, 'd CreateVars) exec" where
  "createSteps svc nwt isReserved childTransactions =
     bind (wrapping ''unable to get current balance''
             (readDb (GetMany (repo svc) (balanceRequest svc childTransactions)))) (\<lambda>loaded.
     bind (call (failIf (validateAccountExistsInTransactions childTransactions loaded))) (\<lambda>_.
     let nwt = withAccountNumbers (mapT24AccountNumberToAccountNumber loaded) nwt;
         children = updateTransactionAccountNumber childTransactions loaded;
         current = ConvertToBalanceMap loaded
     in bind (call (calculateBalances
                      (getWalletBalanceCalculator (nw_TransactionFlow nwt) isReserved) children current)) (\<lambda>calculated.
        bind (onDb (storeCreatedBalances svc nwt isReserved (map req_FromAccount children) current
                      (visitOrder svc calculated) calculated [])) (\<lambda>(updated, hvt).
        bind (createWallet svc nwt) (\<lambda>created.
        bind (if isReserved then return []
              else wrapping ''unable to store acuan transaction'' (onDb (insertChildTransactions svc children))) (\<lambda>acuan.
        return \<lparr>cv_created = created, cv_acuanTransactions = acuan, cv_currentBalances = current,
                cv_updatedBalances = updated, cv_hvtPayloads = hvt\<rparr>))))))"

text \<open>After the commit: a publication that fails is noted, and the next one is tried.\<close>

fun publishPayloads ::
  "'d ServiceConfig \<Rightarrow> 'd HVTPayload list \<Rightarrow> 'd World \<Rightarrow> err list \<times> 'd World" where
  "publishPayloads svc [] w = ([], w)"
| "publishPayloads svc (payload # rest) w =
     (case publishHVT svc payload of
        Some e \<Rightarrow> (case publishPayloads svc rest w of
                     (errs, w') \<Rightarrow> (wrapErr ''unable to publish balance hvt post-commit'' e # errs, w'))
      | None \<Rightarrow> publishPayloads svc rest (w\<lparr>w_hvt := w_hvt w @ [payload]\<rparr>))"

text \<open>The transactions are enriched in place: those that the notification then carries.\<close>

definition enrichTransactionsWithEntityData ::
  "'d ServiceConfig \<Rightarrow> 'd Transaction list \<Rightarrow> err option \<times> 'd Transaction list" where
  "enrichTransactionsWithEntityData svc transactions =
     (let accountNumbers = getAccountNumbersForEntity transactions
      in if accountNumbers = [] then (None, transactions)
         else case GetAccountNumberEntity svc accountNumbers of
                Inl e \<Rightarrow> (Some (wrapErr ''unable to get entityCode'' e), transactions)
              | Inr mapEntity \<Rightarrow>
                  (None,
                   map (\<lambda>t. t\<lparr>txn_SourceEntity :=
                               (case mapEntity (txn_FromAccount t) of Some e \<Rightarrow> e | None \<Rightarrow> txn_SourceEntity t),
                              txn_DestinationEntity :=
                               (case mapEntity (txn_ToAccount t) of Some e \<Rightarrow> e
                                | None \<Rightarrow> txn_DestinationEntity t)\<rparr>) transactions))"

definition afterCommit ::
  "'d ServiceConfig \<Rightarrow> bool \<Rightarrow> bool \<Rightarrow> string \<Rightarrow> 'd CreateVars \<Rightarrow> 'd World \<Rightarrow> err option \<times> 'd World" where
  "afterCommit svc isReserved isPublish clientID vars w =
     (let (enrichErr, acuanTransactions) =
            (if isReserved then (None, cv_acuanTransactions vars)
             else enrichTransactionsWithEntityData svc (cv_acuanTransactions vars));
          enrichErrs = (case enrichErr of None \<Rightarrow> [] | Some e \<Rightarrow> [e])
      in case publishPayloads svc (cv_hvtPayloads vars) w of (hvtErrs, w1) \<Rightarrow>
           if \<not> isReserved \<and> isPublish then
             (case publishNotificationCreateWalletTransactionSuccess svc (cv_created vars)
                     acuanTransactions (cv_currentBalances vars) (cv_updatedBalances vars) clientID w1 of
                (None, w2) \<Rightarrow> (ErrorOrNil (enrichErrs @ hvtErrs), w2)
              | (Some e, w2) \<Rightarrow> (ErrorOrNil (enrichErrs @ hvtErrs @ [e]), w2))
           else (ErrorOrNil (enrichErrs @ hvtErrs), w1))"

text \<open>
  \<open>CreateTransactionAtomic\<close>.  The transformers write into the metadata map of the request, unless it is nil, so
  that the row stores what they wrote.  The result is the pair that Go returns: after a failed
  publication both a transaction and an error.
\<close>

definition CreateTransactionAtomic ::
  "'d::linordered_idom ServiceConfig \<Rightarrow> 'd NewWalletTransaction \<Rightarrow> bool \<Rightarrow> bool \<Rightarrow> string \<Rightarrow> 'd World \<Rightarrow>
     ('d WalletTransaction option \<times> err option) \<times> 'd World" where
  "CreateTransactionAtomic svc nwt isReserved isPublish clientID w =
     (let wallet = ToWalletTransaction (now (repo svc)) nwt
      in case Transform (environment svc (w_db w)) wallet (startState wallet (w_drawn w)) of
           (Inl e, s) \<Rightarrow> ((None, Some (wrapErr ''unable to transform wallet transaction'' e)), w\<lparr>w_drawn := drawn s\<rparr>)
         | (Inr childTransactions, s) \<Rightarrow>
             (let nwt = nwt\<lparr>nw_Metadata := (if nw_Metadata nwt = None then None else shared s)\<rparr>;
                  w = w\<lparr>w_drawn := drawn s\<rparr>
              in case Atomic (repo svc) (createSteps svc nwt isReserved childTransactions) (w_db w, Some emptyWallet) of
                   (Inl e, (db, created)) \<Rightarrow> ((created, Some e), w\<lparr>w_db := db\<rparr>)
                 | (Inr vars, (db, created)) \<Rightarrow>
                     (case afterCommit svc isReserved isPublish clientID vars (w\<lparr>w_db := db\<rparr>) of
                        (e, w') \<Rightarrow> ((created, e), w'))))"

section \<open>Requests of the API\<close>

definition validateTransactionTypeAndRefNumber ::
  "'d ServiceConfig \<Rightarrow> 'd CreateWalletTransactionRequest \<Rightarrow> 'd DB \<Rightarrow> 'd WalletTransaction option result" where
  "validateTransactionTypeAndRefNumber svc req db =
     rbind (variantTransactionTypes svc) (\<lambda>types.
       if cw_TransactionType req \<in> set types
       then CheckTransactionTypeAndReferenceNumber (repo svc) (cw_TransactionType req) (cw_RefNumber req) db
       else Ok None)"

fun validateAmounts ::
  "string list \<Rightarrow> 'd::linordered_idom \<Rightarrow> 'd AmountDetail list \<Rightarrow> unit result" where
  "validateAmounts accepted netAmount [] = Ok ()"
| "validateAmounts accepted netAmount (v # rest) =
     (if ad_Type v \<notin> set accepted then Err (Wrapped (Sentinel ErrInvalidTransactionType) (ad_Type v))
      else if netAmount \<le> 0 \<and> amt_ValueDecimal (ad_Amount v) \<le> 0 then Err (Sentinel ErrInvalidAmount)
      else validateAmounts accepted netAmount rest)"

definition validateTransactionInput ::
  "'d::linordered_idom ServiceConfig \<Rightarrow> 'd CreateWalletTransactionRequest \<Rightarrow> unit result" where
  "validateTransactionInput svc req =
     (case GetListTransactionTypeCode svc of
        Inl e \<Rightarrow> Err (wrapErr ''unable get trxType master data'' e)
      | Inr tTypes \<Rightarrow>
          (let accepted = AcceptedTransactionType svc @ tTypes
           in case parseRFC3339 svc (cw_TransactionTime req) of
                None \<Rightarrow> Err (ErrorMsg ''unable to parse transaction time'')
              | Some trxTime \<Rightarrow>
                  if IsTodayAfterDate (now (repo svc)) trxTime then
                    Err (ErrorMsg (''transaction date can't be the next day. value: '' @ cw_TransactionTime req))
                  else if cw_IsReserved req \<and> cw_TransactionFlow req = ''cashin'' then
                    Err (Sentinel ErrUnsupportedReservedTransactionFlow)
                  else if cw_TransactionType req \<notin> set accepted then
                    Err (Wrapped (Sentinel ErrInvalidTransactionType) (cw_TransactionType req))
                  else rbind (validateAmounts accepted (amt_ValueDecimal (cw_NetAmount req)) (cw_Amounts req)) (\<lambda>_.
                    if cw_TransactionFlow req = ''transfer'' \<and> cw_DestinationAccountNumber req = '''' then
                      Err (Wrapped (Sentinel ErrMissingDestinationAccountNumber)
                             ''destinationAccountNumber is required for transfer'')
                    else Ok ())))"

text \<open>The roll-out that takes the interest details out of the net amount of a loan disbursement.\<close>

definition lceNetAmount ::
  "'d::linordered_idom ServiceConfig \<Rightarrow> 'd CreateWalletTransactionRequest \<Rightarrow> 'd CreateWalletTransactionRequest" where
  "lceNetAmount svc req =
     (if cw_TransactionType req \<in> {''FPEPD'', ''FPEPT''} \<and> LceRollout svc then
        req\<lparr>cw_NetAmount := (cw_NetAmount req)\<lparr>amt_ValueDecimal :=
              foldl (\<lambda>net a. if ad_Type a \<in> {''ITDED'', ''ITDEP''}
                            then net - amt_ValueDecimal (ad_Amount a) else net)
                (amt_ValueDecimal (cw_NetAmount req)) (cw_Amounts req)\<rparr>\<rparr>
      else req)"

definition EnqueueTransaction ::
  "'d::linordered_idom ServiceConfig \<Rightarrow> 'd CreateWalletTransactionRequest \<Rightarrow> 'd World \<Rightarrow>
     ('d WalletTransaction option \<times> err option) \<times> 'd World" where
  "EnqueueTransaction svc req w =
     (case publishAsync svc req of
        Some e \<Rightarrow> ((None, Some e), w)
      | None \<Rightarrow> ((Some (emptyWallet\<lparr>wt_Status := ''PENDING''\<rparr>), None), w\<lparr>w_async := w_async w @ [req]\<rparr>))"

definition CreateTransaction ::
  "'d::linordered_idom ServiceConfig \<Rightarrow> 'd CreateWalletTransactionRequest \<Rightarrow> 'd World \<Rightarrow>
     ('d WalletTransaction option \<times> err option) \<times> 'd World" where
  "CreateTransaction svc req w =
     (case validateTransactionTypeAndRefNumber svc req (w_db w) of
        Inl e \<Rightarrow> ((None, Some (wrapErr ''validation error'' e)), w)
      | Inr (Some trx) \<Rightarrow> ((Some trx, None), w)
      | Inr None \<Rightarrow>
          (case validateTransactionInput svc req of
             Inl e \<Rightarrow> ((None, Some (wrapErr ''validation error'' e)), w)
           | Inr _ \<Rightarrow>
               (let req = lceNetAmount svc req
                in if cw_ClientId req \<in> set (AsyncWalletTransactionForClients svc)
                   then EnqueueTransaction svc req w
                   else CreateTransactionAtomic svc
                          (ToNewWalletTransaction (parseRFC3339 svc) (newUUIDText svc (w_drawn w)) req)
                          (cw_IsReserved req) True (cw_ClientId req) (w\<lparr>w_drawn := w_drawn w + 1\<rparr>))))"

section \<open>Committing and cancelling\<close>

record 'd UpdateStatusWalletTransactionRequest =
  us_TransactionId :: string
  us_Action :: string
  us_Metadata :: "'d WalletMetadata"
  us_TransactionTime :: int
  us_ClientId :: string

text \<open>\<open>maps.Copy(dst, src)\<close>, which panics when it has to write to a nil map.\<close>

definition mergeMetadata :: "'d WalletMetadata \<Rightarrow> 'd WalletMetadata \<Rightarrow> 'd WalletMetadata result" where
  "mergeMetadata dst src =
     (case src of
        None \<Rightarrow> Ok dst
      | Some m \<Rightarrow>
          (case dst of
             None \<Rightarrow> if m = Map.empty then Ok None else Err Panic
           | Some d \<Rightarrow> Ok (Some (d ++ m))))"

text \<open>
  The loop over the balances here publishes a high-volume payload at once, inside the database transaction;
  what was published stays published.
\<close>

fun settleBalances ::
  "'d::linordered_idom ServiceConfig \<Rightarrow> string \<Rightarrow> string \<Rightarrow> string list \<Rightarrow> 'd balances \<Rightarrow>
     string list \<Rightarrow> 'd balances \<Rightarrow> ('d DB \<times> 'd HVTPayload list \<times> nat, 'd balances) exec" where
  "settleBalances svc i refNumber fromAccounts current [] updated s = (Ok updated, s)"
| "settleBalances svc i refNumber fromAccounts current (a # rest) updated s =
     (case updated a of
        None \<Rightarrow> settleBalances svc i refNumber fromAccounts current rest updated s
      | Some b \<Rightarrow>
          if isSkipBalanceUpdateOnDB b then
            settleBalances svc i refNumber fromAccounts current rest updated s
          else if a \<notin> set fromAccounts \<and> isHVT b then
            (case current a of
               None \<Rightarrow> (Err (ErrorMsg (''unable to get previous balance for account number '' @ a)), s)
             | Some prev \<Rightarrow>
                 (let payload = hvtPayload i refNumber a prev b
                  in case publishHVT svc payload of
                       Some e \<Rightarrow> (Err (wrapErr ''unable to publish balance hvt'' e), s)
                     | None \<Rightarrow> settleBalances svc i refNumber fromAccounts current rest updated
                                 (fst s, fst (snd s) @ [payload], snd (snd s))))
          else
            bind (wrapping ''unable to update balance'' (onDb (UpdateAccountBalance (repo svc) a b))) (\<lambda>ub.
              settleBalances svc i refNumber fromAccounts current rest (updated(a \<mapsto> ub))) s)"

text \<open>
  The transformation inside the transaction.  Its error is wrapped by the outer error variable,
  which is nil at that point: the message keeps nothing of it.
\<close>

definition transformStep ::
  "'d::linordered_idom ServiceConfig \<Rightarrow> 'd WalletTransaction \<Rightarrow>
     ('d DB \<times> 'd HVTPayload list \<times> nat, 'd TransactionReq list \<times> 'd WalletMetadata) exec" where
  "transformStep svc wallet s =
     (case Transform (environment svc (fst s)) wallet (startState wallet (snd (snd s))) of
        (Inl Panic, t) \<Rightarrow> (Err Panic, (fst s, fst (snd s), drawn t))
      | (Inl e, t) \<Rightarrow>
          (Err (ErrorMsg ''unable to transform wallet transaction: %!w(<nil>)''), (fst s, fst (snd s), drawn t))
      | (Inr children, t) \<Rightarrow> (Ok (children, shared t), (fst s, fst (snd s), drawn t)))"

record 'd ProcessVars =
  pv_wallet :: "'d WalletTransaction"
  pv_acuanTransactions :: "'d Transaction list"
  pv_currentBalances :: "'d balances"
  pv_updatedBalances :: "'d balances"

definition processSteps ::
  "'d::linordered_idom ServiceConfig \<Rightarrow> 'd UpdateStatusWalletTransactionRequest \<Rightarrow> 'd WalletTransaction \<Rightarrow>
     ('d WalletTransactionSet \<Rightarrow> 'd balances \<Rightarrow> 'd calcResult) \<Rightarrow> string \<Rightarrow> int \<Rightarrow>
     ('d DB \<times> 'd HVTPayload list \<times> nat, 'd ProcessVars) exec" where
  "processSteps svc req walletTrx balanceCalculator nextStatus time =
     bind (call (mergeMetadata (wt_Metadata walletTrx) (us_Metadata req))) (\<lambda>metadata.
     bind (wrapping ''unable to update status''
             (onDb (WalletUpdate (repo svc) (us_TransactionId req) nextStatus time metadata))) (\<lambda>wallet.
     bind (transformStep svc wallet) (\<lambda>(childTransactions, metadata').
     bind (wrapping ''unable to get current balance''
             (readDb (GetMany (repo svc) (balanceRequest svc childTransactions)))) (\<lambda>loaded.
     bind (call (failIf (validateAccountExistsInTransactions childTransactions loaded))) (\<lambda>_.
     let children = updateTransactionAccountNumber childTransactions loaded;
         current = ConvertToBalanceMap loaded
     in bind (call (calculateBalances balanceCalculator children current)) (\<lambda>calculated.
        bind (settleBalances svc (wt_ID wallet) (wt_RefNumber wallet) (map req_FromAccount children) current
                (visitOrder svc calculated) calculated) (\<lambda>updated.
        bind (if wt_Status wallet = ''SUCCESS''
              then wrapping ''unable to store acuan transaction'' (onDb (insertChildTransactions svc children))
              else return []) (\<lambda>acuan.
        return \<lparr>pv_wallet = wallet\<lparr>wt_Metadata := metadata'\<rparr>, pv_acuanTransactions = acuan,
                pv_currentBalances = current, pv_updatedBalances = updated\<rparr>))))))))"

text \<open>The branches on the action: an answer at once, or the calculator and the next status.\<close>

definition chooseAction ::
  "'d::linordered_idom WalletTransaction \<Rightarrow> string \<Rightarrow>
     ('d WalletTransaction option \<times> ('d WalletTransactionSet \<Rightarrow> 'd balances \<Rightarrow> 'd calcResult) \<times> string) result" where
  "chooseAction walletTrx action =
     (if action = ''commit'' then
        Ok (if wt_Status walletTrx = ''SUCCESS'' then Some walletTrx else None,
            getWalletBalanceCommitCalculator (wt_TransactionFlow walletTrx), ''SUCCESS'')
      else if action = ''cancel'' then
        Ok (if wt_Status walletTrx = ''CANCEL'' then Some walletTrx else None,
            getWalletBalanceCancelCalculator (wt_TransactionFlow walletTrx), ''CANCEL'')
      else Err (ErrorMsg (''action not supported: '' @ action)))"

text \<open>What runs once the status was found to be pending: the database transaction and the notification.\<close>

definition settleTransaction ::
  "'d::linordered_idom ServiceConfig \<Rightarrow> 'd UpdateStatusWalletTransactionRequest \<Rightarrow> 'd WalletTransaction \<Rightarrow>
     ('d WalletTransactionSet \<Rightarrow> 'd balances \<Rightarrow> 'd calcResult) \<Rightarrow> string \<Rightarrow> 'd World \<Rightarrow>
     ('d WalletTransaction option \<times> err option) \<times> 'd World" where
  "settleTransaction svc req walletTrx balanceCalculator nextStatus w =
     (let time = (if us_TransactionTime req = 0 then now (repo svc) else us_TransactionTime req)
      in case Atomic (repo svc) (processSteps svc req walletTrx balanceCalculator nextStatus time)
                (w_db w, w_hvt w, w_drawn w) of
           (Inl e, (db, hvt, n)) \<Rightarrow> ((None, Some e), w\<lparr>w_db := db, w_hvt := hvt, w_drawn := n\<rparr>)
         | (Inr vars, (db, hvt, n)) \<Rightarrow>
             (let w1 = w\<lparr>w_db := db, w_hvt := hvt, w_drawn := n\<rparr>
              in if wt_Status (pv_wallet vars) = ''SUCCESS'' then
                   (case publishNotificationCreateWalletTransactionSuccess svc (pv_wallet vars)
                           (pv_acuanTransactions vars) (pv_currentBalances vars) (pv_updatedBalances vars)
                           (us_ClientId req) w1 of
                      (None, w2) \<Rightarrow> ((Some (pv_wallet vars), None), w2)
                    | (Some e, w2) \<Rightarrow> ((None, Some (wrapErr ''unable to publish notification'' e)), w2))
                 else ((Some (pv_wallet vars), None), w1)))"

definition ProcessReservedTransaction ::
  "'d::linordered_idom ServiceConfig \<Rightarrow> 'd UpdateStatusWalletTransactionRequest \<Rightarrow> 'd World \<Rightarrow>
     ('d WalletTransaction option \<times> err option) \<times> 'd World" where
  "ProcessReservedTransaction svc req w =
     (case WalletGetById (repo svc) (us_TransactionId req) (w_db w) of
        Inl e \<Rightarrow> ((None, Some (wrapErr ''unable to get transaction'' (checkDatabaseError (errorText svc) e None))), w)
      | Inr walletTrx \<Rightarrow>
          (case chooseAction walletTrx (us_Action req) of
             Inl e \<Rightarrow> ((None, Some e), w)
           | Inr (Some answer, _) \<Rightarrow> ((Some answer, None), w)
           | Inr (None, balanceCalculator, nextStatus) \<Rightarrow>
               if wt_Status walletTrx \<noteq> ''PENDING'' then ((None, Some (Sentinel ErrTransactionNotReserved)), w)
               else settleTransaction svc req walletTrx balanceCalculator nextStatus w))"


end
