(* ===== verification/WalletLedger.thy ===== *)
theory WalletLedger
  imports WalletService
begin

text \<open>
  The balances follow the ledger.  What the wallet service does to the account table, to the ledger and to the
  high-volume messages is related for each account: the change of its balance and what is owed to
  it by message make up the ledger rows that were inserted.
\<close>

section \<open>Readings of the state\<close>

definition actualOf :: "'d::linordered_idom DB \<Rightarrow> string \<Rightarrow> 'd" where
  "actualOf db a = (case fundsOf db a of None \<Rightarrow> 0 | Some (x, _) \<Rightarrow> x)"

definition pendingOf :: "'d::linordered_idom DB \<Rightarrow> string \<Rightarrow> 'd" where
  "pendingOf db a = (case fundsOf db a of None \<Rightarrow> 0 | Some (_, y) \<Rightarrow> y)"

text \<open>What messages owe to an account, and what ledger rows credit it, net.\<close>

definition owed :: "'d::linordered_idom HVTPayload list \<Rightarrow> string \<Rightarrow> 'd" where
  "owed ps a = (\<Sum>p\<leftarrow>ps. if hvt_AccountNumber p = a then amt_ValueDecimal (hvt_UpdateAmount p) else 0)"

definition netCredit :: "'d::linordered_idom Transaction list \<Rightarrow> string \<Rightarrow> 'd" where
  "netCredit ts a =
     (\<Sum>t\<leftarrow>ts. (if txn_ToAccount t = a then nullDecimal (txn_Amount t) else 0) -
               (if txn_FromAccount t = a then nullDecimal (txn_Amount t) else 0))"

text \<open>What ledger rows take from an account.\<close>

definition spentBy :: "'d::linordered_idom Transaction list \<Rightarrow> string \<Rightarrow> 'd" where
  "spentBy ts a = (\<Sum>t\<leftarrow>ts. if txn_FromAccount t = a then nullDecimal (txn_Amount t) else 0)"

lemma owed_simps [simp]:
  "owed [] a = 0"
  "owed (ps @ qs) a = owed ps a + owed qs a"
  "owed [p] a = (if hvt_AccountNumber p = a then amt_ValueDecimal (hvt_UpdateAmount p) else 0)"
  by (simp_all add: owed_def)

section \<open>Constraints of the tables\<close>

definition uniqueKeys :: "'d DB \<Rightarrow> bool" where
  "uniqueKeys db \<longleftrightarrow>
     distinct (map row_accountNumber (db_account db)) \<and>
     distinct (map wt_ID (db_wallet_transaction db)) \<and>
     distinct (map txn_TransactionID (db_transaction db))"

text \<open>Go visits every key of a map once.\<close>

definition visitsAll :: "'d ServiceConfig \<Rightarrow> bool" where
  "visitsAll svc \<longleftrightarrow>
     (\<forall>m. finite (dom m) \<longrightarrow> distinct (visitOrder svc m) \<and> set (visitOrder svc m) = dom m)"

section \<open>Loading\<close>

text \<open>The accounts that are kept off the database.\<close>

definition offDatabase :: "'d ServiceConfig \<Rightarrow> string set" where
  "offDatabase svc =
     set (ExcludedBalanceUpdateAccountNumbers svc) \<union>
     (case getIgnoredAccounts (repo svc) of Inl _ \<Rightarrow> {} | Inr ignored \<Rightarrow> set ignored)"

lemma unique_find:
  assumes "distinct (map f xs)" and "x \<in> set xs"
  shows "find (\<lambda>y. f y = f x) xs = Some x"
  using assms by (induction xs) (auto simp: rev_image_eqI)

text \<open>
  A loaded balance of an account that is not off the database comes from its row, with its amounts, and is not
  passed over when balances are written.
\<close>

lemma loaded_from_row:
  assumes "GetMany (repo svc) (balanceRequest svc children) db = Inr loaded" and "uniqueKeys db"
    and "ConvertToBalanceMap loaded a = Some b" and "a \<notin> offDatabase svc"
  shows "fundsOf db a = Some (actualBalance b, pendingBalance b) \<and> \<not> isSkipBalanceUpdateOnDB b"
proof -
  obtain v where v: "v \<in> set loaded" "ab_AccountNumber v = a" "ab_Balance v = b"
    using ConvertToBalanceMap_member [OF assms(3)] by blast
  from assms(1) obtain ignored rows where "getIgnoredAccounts (repo svc) = Inr ignored"
    and rows: "traverse (loadBalance (repo svc) ignored [] db)
             (buildGetManyAccountBalanceQuery (balanceRequest svc children) ignored (db_account db)) = Inr rows"
    and "v \<in> set rows \<or> ab_AccountNumber v \<in> offDatabase svc"
    using v(1) unfolding GetMany_def
    by (auto simp: rbind_Ok_iff offDatabase_def balanceRequest_def)
  with v(2) assms(4) have "v \<in> set rows" by blast
  from traverse_member [OF rows this] obtain r where r: "r \<in> set (db_account db)"
    and load: "loadBalance (repo svc) ignored [] db r = Inr v"
    by (auto simp: buildGetManyAccountBalanceQuery_def Let_def)
  have "find (\<lambda>y. row_accountNumber y = a) (db_account db) = Some r"
    using unique_find [of row_accountNumber "db_account db" r] assms(2) v(2) loadBalance_Ok [OF load] r
    by (simp add: uniqueKeys_def)
  then show ?thesis
    using loadBalance_Ok [OF load] v(3) by (simp add: fundsOf_def)
qed

lemma finite_dom_Convert: "finite (dom (ConvertToBalanceMap loaded))"
  by (simp add: dom_ConvertToBalanceMap)
section \<open>Writing back\<close>

text \<open>
  What a loop over the balances leaves: of the accounts it visited, those that are written have the
  new amounts, and the messages owe the others, left to the consumer, the change of their available balance.
\<close>

definition storedAs ::
  "(string \<Rightarrow> 'd::linordered_idom Balance \<Rightarrow> bool) \<Rightarrow> string list \<Rightarrow> 'd balances \<Rightarrow> 'd balances \<Rightarrow>
     'd DB \<Rightarrow> 'd DB \<Rightarrow> 'd HVTPayload list \<Rightarrow> bool" where
  "storedAs consumer order current updated db db' hvt \<longleftrightarrow>
     otherTables db' = otherTables db \<and>
     (\<forall>a. fundsOf db' a =
        (case updated a of
           None \<Rightarrow> fundsOf db a
         | Some b \<Rightarrow> if a \<in> set order \<and> \<not> isSkipBalanceUpdateOnDB b \<and> \<not> consumer a b
                     then Some (actualBalance b, pendingBalance b) else fundsOf db a)) \<and>
     (\<forall>a. owed hvt a =
        (case updated a of
           None \<Rightarrow> 0
         | Some b \<Rightarrow> if a \<in> set order \<and> \<not> isSkipBalanceUpdateOnDB b \<and> consumer a b
                     then Available b - Available (the (current a)) else 0))"

lemma storedAs_Nil: "storedAs consumer [] current updated db db []"
  by (auto simp: storedAs_def split: option.split)

lemma storedAs_pass:
  assumes "storedAs consumer rest current updated db db' hvt"
    and "case updated a of None \<Rightarrow> True | Some b \<Rightarrow> isSkipBalanceUpdateOnDB b"
  shows "storedAs consumer (a # rest) current updated db db' hvt"
  using assms unfolding storedAs_def by (auto split: option.splits)

lemma storedAs_write:
  assumes "storedAs consumer rest current (updated(a \<mapsto> ub)) t db' hvt" and "a \<notin> set rest"
    and "updated a = Some b" and "\<not> isSkipBalanceUpdateOnDB b" and "\<not> consumer a b"
    and "UpdateAccountBalance cfg a b db = (Inr ub, t)"
  shows "storedAs consumer (a # rest) current updated db db' hvt"
  using assms(1-5) account_table.update_funds [OF assms(6)] account_table.update_others [OF assms(6)]
  unfolding storedAs_def by (auto split: option.splits if_splits)

lemma storedAs_owe:
  assumes "storedAs consumer rest current updated db db' hvt" and "a \<notin> set rest"
    and "updated a = Some b" and "\<not> isSkipBalanceUpdateOnDB b" and "consumer a b" and "current a = Some prev"
  shows "storedAs consumer (a # rest) current updated db db' (hvtPayload i ref a prev b # hvt)"
proof -
  have "owed (hvtPayload i ref a prev b # hvt) c =
          (if c = a then Available b - Available prev else 0) + owed hvt c" for c
    by (simp add: owed_def hvtPayload_def)
  with assms show ?thesis
    unfolding storedAs_def by (auto split: option.splits)
qed

lemma created_stored:
  assumes "storeCreatedBalances svc nwt isReserved from current order updated hvt db = (Inr (updated', hvt'), db')"
    and "distinct order"
  shows "\<exists>new. hvt' = hvt @ new \<and>
           storedAs (\<lambda>a b. a \<notin> set from \<and> isHVT b \<and> \<not> isReserved) order current updated db db' new"
  using assms
proof (induction order arbitrary: updated hvt db)
  case Nil
  then show ?case by (auto intro: storedAs_Nil)
next
  case (Cons a rest)
  let ?consumer = "\<lambda>a b. a \<notin> set from \<and> isHVT b \<and> \<not> isReserved"
  have a: "a \<notin> set rest" "distinct rest" using Cons.prems(2) by auto
  consider (pass) "case updated a of None \<Rightarrow> True | Some b \<Rightarrow> isSkipBalanceUpdateOnDB b"
    | (owe) b where "updated a = Some b" "\<not> isSkipBalanceUpdateOnDB b" "?consumer a b"
    | (stored) b where "updated a = Some b" "\<not> isSkipBalanceUpdateOnDB b" "\<not> ?consumer a b"
    by (cases "updated a") auto
  then show ?case
  proof cases
    case pass
    then have "storeCreatedBalances svc nwt isReserved from current rest updated hvt db = (Inr (updated', hvt'), db')"
      using Cons.prems(1) by (auto split: option.splits)
    from Cons.IH [OF this a(2)] pass show ?thesis by (blast intro: storedAs_pass)
  next
    case owe
    then obtain prev where prev: "current a = Some prev"
      and "storeCreatedBalances svc nwt isReserved from current rest updated
             (hvt @ [hvtPayload (nw_ID nwt) (nw_RefNumber nwt) a prev b]) db = (Inr (updated', hvt'), db')"
      using Cons.prems(1) by (auto split: option.splits)
    from Cons.IH [OF this(2) a(2)]
      storedAs_owe [where consumer = ?consumer and updated = updated and current = current and a = a,
        OF _ a(1) owe prev] show ?thesis by fastforce
  next
    case stored
    then obtain ub t where step: "UpdateAccountBalance (repo svc) a b db = (Inr ub, t)"
      and "storeCreatedBalances svc nwt isReserved from current rest (updated(a \<mapsto> ub)) hvt t =
             (Inr (updated', hvt'), db')"
      using Cons.prems(1) by (auto simp: bind_Ok_iff)
    from Cons.IH [OF this(2) a(2)]
      storedAs_write [where consumer = ?consumer and updated = updated and current = current and a = a,
        OF _ a(1) stored step] show ?thesis by blast
  qed
qed

lemma settled_stored:
  assumes "settleBalances svc i ref from current order updated s = (Inr updated', s')" and "distinct order"
  shows "\<exists>new. s' = (fst s', fst (snd s) @ new, snd (snd s)) \<and>
           storedAs (\<lambda>a b. a \<notin> set from \<and> isHVT b) order current updated (fst s) (fst s') new"
  using assms
proof (induction order arbitrary: updated s)
  case Nil
  then show ?case by (auto intro!: exI [of _ "[]"] storedAs_Nil)
next
  case (Cons a rest)
  let ?consumer = "\<lambda>a b. a \<notin> set from \<and> isHVT b"
  have a: "a \<notin> set rest" "distinct rest" using Cons.prems(2) by auto
  consider (pass) "case updated a of None \<Rightarrow> True | Some b \<Rightarrow> isSkipBalanceUpdateOnDB b"
    | (owe) b where "updated a = Some b" "\<not> isSkipBalanceUpdateOnDB b" "?consumer a b"
    | (stored) b where "updated a = Some b" "\<not> isSkipBalanceUpdateOnDB b" "\<not> ?consumer a b"
    by (cases "updated a") auto
  then show ?case
  proof cases
    case pass
    then have "settleBalances svc i ref from current rest updated s = (Inr updated', s')"
      using Cons.prems(1) by (auto split: option.splits)
    from Cons.IH [OF this a(2)] pass show ?thesis by (blast intro: storedAs_pass)
  next
    case owe
    then obtain prev where prev: "current a = Some prev"
      and "settleBalances svc i ref from current rest updated
             (fst s, fst (snd s) @ [hvtPayload i ref a prev b], snd (snd s)) = (Inr updated', s')"
      using Cons.prems(1) by (auto simp: Let_def split: option.splits)
    from Cons.IH [OF this(2) a(2)]
      storedAs_owe [where consumer = ?consumer and updated = updated and current = current and a = a,
        OF _ a(1) owe prev] show ?thesis by fastforce
  next
    case stored
    then obtain ub t where step: "UpdateAccountBalance (repo svc) a b (fst s) = (Inr ub, t)"
      and "settleBalances svc i ref from current rest (updated(a \<mapsto> ub)) (t, snd s) = (Inr updated', s')"
      using Cons.prems(1) by (cases s) (auto simp: bind_Ok_iff onDb_iff)
    from Cons.IH [OF this(2) a(2), unfolded fst_conv snd_conv]
      storedAs_write [where consumer = ?consumer and updated = updated and current = current and a = a,
        OF _ a(1) stored step]
    show ?thesis by blast
  qed
qed

text \<open>The messages of a loop: at most one for each account it visits, all under the wallet transaction.\<close>

definition sentFor :: "string \<Rightarrow> string \<Rightarrow> string list \<Rightarrow> 'd HVTPayload list \<Rightarrow> bool" where
  "sentFor i refNumber order ps \<longleftrightarrow>
     distinct (map hvt_AccountNumber ps) \<and> hvt_AccountNumber ` set ps \<subseteq> set order \<and>
     (\<forall>p\<in>set ps. hvt_WalletTransactionId p = i \<and> hvt_RefNumber p = refNumber)"

lemma sentFor_Nil [simp]: "sentFor i ref order []"
  by (simp add: sentFor_def)

lemma sentFor_pass: "sentFor i ref rest ps \<Longrightarrow> sentFor i ref (a # rest) ps"
  by (auto simp: sentFor_def)

lemma sentFor_owe:
  "sentFor i ref rest ps \<Longrightarrow> a \<notin> set rest \<Longrightarrow> sentFor i ref (a # rest) (hvtPayload i ref a prev b # ps)"
  by (auto simp: sentFor_def hvtPayload_def)

lemma created_payloads:
  assumes "storeCreatedBalances svc nwt isReserved from current order updated hvt db = (Inr (updated', hvt'), db')"
    and "distinct order"
  shows "\<exists>new. hvt' = hvt @ new \<and> sentFor (nw_ID nwt) (nw_RefNumber nwt) order new \<and> (isReserved \<longrightarrow> new = [])"
  using assms
proof (induction order arbitrary: updated hvt db)
  case (Cons a rest)
  show ?case
  proof (cases "\<exists>b prev. updated a = Some b \<and> \<not> isSkipBalanceUpdateOnDB b \<and> a \<notin> set from \<and> isHVT b \<and> \<not> isReserved \<and>
                   current a = Some prev")
    case True
    with Cons.prems obtain b prev where "storeCreatedBalances svc nwt isReserved from current rest updated
        (hvt @ [hvtPayload (nw_ID nwt) (nw_RefNumber nwt) a prev b]) db = (Inr (updated', hvt'), db')"
      by auto
    from Cons.IH [OF this] Cons.prems(2) True show ?thesis
      by (fastforce intro: sentFor_owe)
  next
    case False
    with Cons.prems(1) obtain updated1 db1 where
      "storeCreatedBalances svc nwt isReserved from current rest updated1 hvt db1 = (Inr (updated', hvt'), db')"
      by (auto simp: bind_Ok_iff split: option.splits if_splits)
    from Cons.IH [OF this] Cons.prems(2) show ?thesis
      by (auto intro: sentFor_pass)
  qed
qed simp

lemma settled_payloads:
  assumes "settleBalances svc i ref from current order updated s = (Inr updated', s')" and "distinct order"
  shows "\<exists>new. fst (snd s') = fst (snd s) @ new \<and> sentFor i ref order new"
  using assms
proof (induction order arbitrary: updated s)
  case (Cons a rest)
  show ?case
  proof (cases "\<exists>b prev. updated a = Some b \<and> \<not> isSkipBalanceUpdateOnDB b \<and> a \<notin> set from \<and> isHVT b \<and>
                   current a = Some prev")
    case True
    with Cons.prems obtain b prev where "settleBalances svc i ref from current rest updated
        (fst s, fst (snd s) @ [hvtPayload i ref a prev b], snd (snd s)) = (Inr updated', s')"
      by (auto simp: Let_def split: option.splits)
    from Cons.IH [OF this] Cons.prems(2) show ?thesis
      by (fastforce intro: sentFor_owe)
  next
    case False
    with Cons.prems(1) obtain updated1 s1 where
      "settleBalances svc i ref from current rest updated1 s1 = (Inr updated', s')" "snd s1 = snd s"
      by (cases s) (auto simp: bind_Ok_iff onDb_iff split: option.splits if_splits)
    from Cons.IH [OF this(1)] this(2) Cons.prems(2) show ?thesis
      by (auto intro: sentFor_pass)
  qed
qed simp

text \<open>The arithmetic of a run whose calculators shifted the balances.\<close>

lemma stored_shift:
  assumes stored: "storedAs consumer order current (shift x y current) db db' hvt"
    and order: "set order = dom (shift x y current)"
    and row: "\<And>b. current a = Some b \<Longrightarrow>
                fundsOf db a = Some (actualBalance b, pendingBalance b) \<and> \<not> isSkipBalanceUpdateOnDB b"
    and unnamed: "current a = None \<Longrightarrow> x a = 0 \<and> y a = 0"
    and receiving: "\<And>b. consumer a b \<Longrightarrow> y a = 0"
  shows "actualOf db' a + owed hvt a = actualOf db a + x a \<and> pendingOf db' a = pendingOf db a + y a"
proof (cases "current a")
  case None
  then have "shift x y current a = None" by (simp add: shift_def)
  with stored have "fundsOf db' a = fundsOf db a" "owed hvt a = 0"
    by (simp_all add: storedAs_def)
  with unnamed [OF None] show ?thesis by (simp add: actualOf_def pendingOf_def)
next
  case (Some b)
  let ?b = "b\<lparr>actualBalance := actualBalance b + x a, pendingBalance := pendingBalance b + y a\<rparr>"
  have b: "shift x y current a = Some ?b" using Some by (simp add: shift_def)
  moreover have "a \<in> set order" using Some order by (simp add: domI)
  ultimately have "fundsOf db' a = (if consumer a ?b then fundsOf db a else Some (actualBalance ?b, pendingBalance ?b))"
    and "owed hvt a = (if consumer a ?b then Available ?b - Available b else 0)"
    using stored row [OF Some] Some by (simp_all add: storedAs_def)
  moreover have "y a = 0" if "consumer a ?b"
    using receiving [OF that] .
  ultimately show ?thesis
    using row [OF Some] by (cases "consumer a ?b") (simp_all add: actualOf_def pendingOf_def Available_def)
qed

section \<open>The ledger rows of a request\<close>

lemma convertRequests_fold:
  assumes "foldl (\<lambda>(errs, res) ct. case f ct of Inl e \<Rightarrow> (errs @ [e], res) | Inr en \<Rightarrow> (errs, res @ [en]))
             (errs0, res0) cts = ([], res)"
  shows "errs0 = [] \<and> (\<exists>new. res = res0 @ new \<and> list_all2 (\<lambda>ct en. f ct = Inr en) cts new)"
  using assms
proof (induction cts arbitrary: errs0 res0)
  case (Cons ct cts)
  show ?case
  proof (cases "f ct")
    case (Inl e)
    with Cons.IH [of "errs0 @ [e]" res0] Cons.prems show ?thesis by simp
  next
    case (Inr en)
    with Cons.IH [of errs0 "res0 @ [en]"] Cons.prems show ?thesis by force
  qed
qed simp

lemma ToRequest_movement:
  assumes "ToRequest n k j u ct = Inr en"
  shows "txn_FromAccount en = req_FromAccount ct \<and> txn_ToAccount en = req_ToAccount ct \<and>
         txn_Amount en = req_Amount ct \<and> txn_RefNumber en = req_RefNumber ct \<and>
         txn_Status en = req_Status ct"
  using assms by (auto simp: ToRequest_def rbind_Ok_iff split: sum.splits)

text \<open>Inserting the requests appends one row each, and what the rows credit is what the requests move.\<close>

lemma insertChildTransactions_rows:
  assumes "insertChildTransactions svc cts db = (Inr rows, db')"
  shows "db' = db\<lparr>db_transaction := db_transaction db @ rows\<rparr> \<and>
         list_all2 (\<lambda>ct en. ToRequest (now (repo svc)) (addedNanoSecond svc) (jsonMarshal svc) (newUUIDText svc 0) ct = Inr en)
           cts rows \<and>
         (distinct (map txn_TransactionID (db_transaction db)) \<longrightarrow>
            distinct (map txn_TransactionID (db_transaction db @ rows)))"
proof (cases "cts = []")
  case True
  with assms show ?thesis
    by (auto simp: insertChildTransactions_def return_def)
next
  case False
  obtain errs res where conv: "convertRequests svc cts = (errs, res)" by fastforce
  with assms False have "errs = []" and rows: "rows = res" and store: "StoreBulk (repo svc) res db = (Inr (), db')"
    by (auto simp: insertChildTransactions_def ErrorOrNil_def bind_Ok_iff fail_def return_def
        split: if_splits)
  with conv have "list_all2 (\<lambda>ct en. ToRequest (now (repo svc)) (addedNanoSecond svc) (jsonMarshal svc)
                              (newUUIDText svc 0) ct = Inr en) cts rows"
    using convertRequests_fold [of _ "[]" "[]" cts rows] by (auto simp: convertRequests_def)
  with store rows show ?thesis by (auto simp: StoreBulk_Ok_iff)
qed

lemma insertChildTransactions_Ok:
  assumes "insertChildTransactions svc cts db = (Inr rows, db')"
  shows "db' = db\<lparr>db_transaction := db_transaction db @ rows\<rparr> \<and>
         netCredit rows a = (\<Sum>t\<leftarrow>map trxSetOf cts. movement t a) \<and>
         (distinct (map txn_TransactionID (db_transaction db)) \<longrightarrow>
            distinct (map txn_TransactionID (db_transaction db @ rows)))"
proof -
  have "netCredit rows a = (\<Sum>t\<leftarrow>map trxSetOf cts. movement t a)"
    if "list_all2 (\<lambda>ct en. ToRequest n k j u ct = Inr en) cts rows" for n k j u
    using that
  proof (induction rule: list_all2_induct)
    case (Cons ct cts' en rows')
    with ToRequest_movement [OF Cons.hyps(1)] show ?case
      by (simp add: netCredit_def movement_def)
  qed (simp add: netCredit_def)
  with insertChildTransactions_rows [OF assms] show ?thesis by blast
qed

lemma insertChildTransactions_spent:
  assumes "insertChildTransactions svc cts db = (Inr rows, db')"
  shows "spentBy rows a = (\<Sum>t\<leftarrow>map trxSetOf cts. heldOn t a)"
proof -
  have "spentBy rows a = (\<Sum>t\<leftarrow>map trxSetOf cts. heldOn t a)"
    if "list_all2 (\<lambda>ct en. ToRequest n k j u ct = Inr en) cts rows" for n k j u
    using that
  proof (induction rule: list_all2_induct)
    case (Cons ct cts' en rows')
    with ToRequest_movement [OF Cons.hyps(1)] show ?case
      by (simp add: spentBy_def heldOn_def)
  qed (simp add: spentBy_def)
  with insertChildTransactions_rows [OF assms] show ?thesis by blast
qed

section \<open>Whole operations\<close>

text \<open>
  How an operation relates two worlds: the ledger and the messages grew, and for each account that is not kept
  off the database its balances changed by given amounts, what is owed by message included.
\<close>

definition accountsFor ::
  "'d::linordered_idom ServiceConfig \<Rightarrow> 'd DB \<Rightarrow> 'd DB \<Rightarrow> 'd HVTPayload list \<Rightarrow>
     (string \<Rightarrow> 'd) \<Rightarrow> (string \<Rightarrow> 'd) \<Rightarrow> bool" where
  "accountsFor svc db db' hvt x y \<longleftrightarrow>
     (\<forall>a. a \<notin> offDatabase svc \<longrightarrow>
        actualOf db' a + owed hvt a = actualOf db a + x a \<and> pendingOf db' a = pendingOf db a + y a)"

text \<open>What the children of a request move and hold on an account, with legacy numbers resolved.\<close>

definition movedBy :: "'d::linordered_idom TransactionReq list \<Rightarrow> string \<Rightarrow> 'd" where
  "movedBy children a = (\<Sum>t\<leftarrow>map trxSetOf children. movement t a)"

definition heldBy :: "'d::linordered_idom TransactionReq list \<Rightarrow> string \<Rightarrow> 'd" where
  "heldBy children a = (\<Sum>t\<leftarrow>map trxSetOf children. heldOn t a)"

lemma movedBy_unnamed:
  assumes "\<And>t. t \<in> set children \<Longrightarrow> req_FromAccount t \<noteq> a \<and> req_ToAccount t \<noteq> a"
  shows "movedBy children a = 0" and "heldBy children a = 0"
  using assms by (induction children) (auto simp: movedBy_def heldBy_def movement_def heldOn_def)

lemma heldBy_receiver: "a \<notin> req_FromAccount ` set children \<Longrightarrow> heldBy children a = 0"
  by (induction children) (auto simp: heldBy_def heldOn_def)


lemma sum_list_uminus: "(\<Sum>t\<leftarrow>ts. - f t) = - (\<Sum>t\<leftarrow>ts. f t :: 'd::ab_group_add)"
  by (induction ts) auto

lemma actualOf_cong: "fundsOf db = fundsOf db' \<Longrightarrow> actualOf db = actualOf db' \<and> pendingOf db = pendingOf db'"
  by (auto simp: actualOf_def pendingOf_def fun_eq_iff)

text \<open>Loading, calculating and writing back, for either loop.\<close>

lemma balances_account_for:
  assumes load: "GetMany (repo svc) (balanceRequest svc requested) db = Inr loaded"
    and valid: "validateAccountExistsInTransactions requested loaded = None"
    and children: "children = updateTransactionAccountNumber requested loaded"
    and keys: "uniqueKeys db"
    and stored: "storedAs consumer (visitOrder svc m) (ConvertToBalanceMap loaded) m db db' hvt"
    and m: "m = shift x y (ConvertToBalanceMap loaded)"
    and visits: "visitsAll svc"
    and x: "x = (\<lambda>a. 0) \<or> x = movedBy children \<or> x = (\<lambda>a. - heldBy children a)"
    and y: "y = (\<lambda>a. 0) \<or> y = heldBy children \<or> y = (\<lambda>a. - heldBy children a)"
    and consumer: "\<And>a b. consumer a b \<Longrightarrow> y a = 0"
  shows "accountsFor svc db db' hvt x y"
  unfolding accountsFor_def
proof (intro allI impI)
  fix a assume a: "a \<notin> offDatabase svc"
  let ?current = "ConvertToBalanceMap loaded"
  show "actualOf db' a + owed hvt a = actualOf db a + x a \<and> pendingOf db' a = pendingOf db a + y a"
  proof (rule stored_shift)
    show "storedAs consumer (visitOrder svc m) ?current (shift x y ?current) db db' hvt"
      using stored m by simp
    show "set (visitOrder svc m) = dom (shift x y ?current)"
      using visits m by (simp add: visitsAll_def finite_dom_Convert)
    show "fundsOf db a = Some (actualBalance b, pendingBalance b) \<and> \<not> isSkipBalanceUpdateOnDB b"
      if "?current a = Some b" for b
      using loaded_from_row [OF load keys that a] .
    show "x a = 0 \<and> y a = 0" if "?current a = None"
    proof -
      have "req_FromAccount t \<noteq> a \<and> req_ToAccount t \<noteq> a" if "t \<in> set children" for t
        using checked_accounts_known [OF valid that [unfolded children]] \<open>?current a = None\<close> by auto
      from movedBy_unnamed [OF this] x y show ?thesis by auto
    qed
    show "y a = 0" if "consumer a b" for b
      by (rule consumer [OF that])
  qed
qed

lemma order_distinct:
  "visitsAll svc \<Longrightarrow> m = shift x y (ConvertToBalanceMap loaded) \<Longrightarrow> distinct (visitOrder svc m)"
  by (simp add: visitsAll_def finite_dom_Convert)

lemma calculateBalances_Ok_iff:
  "calculateBalances calc children m = Inr m' \<longleftrightarrow> calculateAll calc (map trxSetOf children) m = (m', None)"
  by (auto simp: calculateBalances_def split: prod.splits option.splits)

lemma withAccountNumbers_simps [simp]:
  "nw_TransactionFlow (withAccountNumbers mapT24 nwt) = nw_TransactionFlow nwt"
  "nw_ID (withAccountNumbers mapT24 nwt) = nw_ID nwt"
  "nw_Status (withAccountNumbers mapT24 nwt) = nw_Status nwt"
  "nw_RefNumber (withAccountNumbers mapT24 nwt) = nw_RefNumber nwt"
  by (simp_all add: withAccountNumbers_def)

lemma createWallet_Ok_iff:
  "createWallet svc nwt s = (Inr c, s') \<longleftrightarrow>
     WalletCreate (repo svc) nwt (fst s) = (Inr c, fst s') \<and> snd s' = Some c"
  by (cases s') (auto simp: createWallet_def split: prod.splits sum.splits)

lemma unless_Ok_iff:
  "(if c then return [] else wrapping text (onDb f)) s = (Inr xs, s') \<longleftrightarrow>
     (if c then xs = [] \<and> s' = s else f (fst s) = (Inr xs, fst s') \<and> snd s' = snd s)"
  by (auto simp: return_def onDb_iff)

lemma createSteps_inv:
  assumes "createSteps svc nwt isReserved requested (db, v) = (Inr vars, (db', v'))"
  obtains loaded m updated hvt created acuan db1 db2 where
    "GetMany (repo svc) (balanceRequest svc requested) db = Inr loaded"
    "validateAccountExistsInTransactions requested loaded = None"
    "calculateAll (getWalletBalanceCalculator (nw_TransactionFlow nwt) isReserved)
       (map trxSetOf (updateTransactionAccountNumber requested loaded)) (ConvertToBalanceMap loaded) = (m, None)"
    "storeCreatedBalances svc (withAccountNumbers (mapT24AccountNumberToAccountNumber loaded) nwt) isReserved
       (map req_FromAccount (updateTransactionAccountNumber requested loaded)) (ConvertToBalanceMap loaded)
       (visitOrder svc m) m [] db = (Inr (updated, hvt), db1)"
    "WalletCreate (repo svc) (withAccountNumbers (mapT24AccountNumberToAccountNumber loaded) nwt) db1 =
       (Inr created, db2)"
    "if isReserved then acuan = [] \<and> db' = db2
     else insertChildTransactions svc (updateTransactionAccountNumber requested loaded) db2 = (Inr acuan, db')"
    "cv_hvtPayloads vars = hvt" "cv_acuanTransactions vars = acuan" "cv_created vars = created" "v' = Some created"
  using assms unfolding createSteps_def Let_def
  by (cases isReserved) (auto simp: bind_Ok_iff call_def return_def readDb_iff onDb_iff
      calculateBalances_Ok_iff createWallet_Ok_iff unless_Ok_iff split: prod.splits)

text \<open>The balances that a creation visits, each once.\<close>

lemma create_order:
  assumes "calculateAll (getWalletBalanceCalculator flow isReserved) (map trxSetOf children)
             (ConvertToBalanceMap loaded) = (m, None)" and "visitsAll svc"
  shows "distinct (visitOrder svc m)"
  using order_distinct [OF assms(2) wallet_create.all_shifts [OF assms(1)]] .

text \<open>What a committed database transaction of a creation did.\<close>

lemma createSteps_Ok:
  assumes run: "createSteps svc nwt isReserved requested (db, v) = (Inr vars, (db', v'))"
    and keys: "uniqueKeys db" and visits: "visitsAll svc"
  obtains children where
    "accountsFor svc db db' (cv_hvtPayloads vars)
       (\<lambda>a. if movesAtOnce (nw_TransactionFlow nwt) isReserved then movedBy children a else 0)
       (\<lambda>a. if movesAtOnce (nw_TransactionFlow nwt) isReserved then 0 else heldBy children a)"
    "db_transaction db' = db_transaction db @ cv_acuanTransactions vars"
    "isReserved \<Longrightarrow> cv_acuanTransactions vars = []"
    "\<not> isReserved \<Longrightarrow> netCredit (cv_acuanTransactions vars) = movedBy children"
    "\<exists>created. v' = Some created \<and> cv_created vars = created \<and> wt_ID created = nw_ID nwt \<and>
       wt_Status created = nw_Status nwt \<and> wt_RefNumber created = nw_RefNumber nwt \<and>
       wt_TransactionFlow created = nw_TransactionFlow nwt \<and>
       db_wallet_transaction db' = db_wallet_transaction db @ [created] \<and>
       nw_ID nwt \<notin> wt_ID ` set (db_wallet_transaction db)"
    "uniqueKeys db'"
    "\<exists>order. sentFor (nw_ID nwt) (nw_RefNumber nwt) order (cv_hvtPayloads vars)"
    "isReserved \<Longrightarrow> cv_hvtPayloads vars = []"
proof -
  obtain loaded m updated hvt created acuan db1 db2 where
    load: "GetMany (repo svc) (balanceRequest svc requested) db = Inr loaded"
    and valid: "validateAccountExistsInTransactions requested loaded = None"
    and calc: "calculateAll (getWalletBalanceCalculator (nw_TransactionFlow nwt) isReserved)
        (map trxSetOf (updateTransactionAccountNumber requested loaded)) (ConvertToBalanceMap loaded) = (m, None)"
    and store: "storeCreatedBalances svc (withAccountNumbers (mapT24AccountNumberToAccountNumber loaded) nwt) isReserved
        (map req_FromAccount (updateTransactionAccountNumber requested loaded)) (ConvertToBalanceMap loaded)
        (visitOrder svc m) m [] db = (Inr (updated, hvt), db1)"
    and create: "WalletCreate (repo svc) (withAccountNumbers (mapT24AccountNumberToAccountNumber loaded) nwt) db1 =
        (Inr created, db2)"
    and insert: "if isReserved then acuan = [] \<and> db' = db2
        else insertChildTransactions svc (updateTransactionAccountNumber requested loaded) db2 = (Inr acuan, db')"
    and vars: "cv_hvtPayloads vars = hvt" "cv_acuanTransactions vars = acuan" "cv_created vars = created"
      "v' = Some created"
    by (rule createSteps_inv [OF run])
  let ?children = "updateTransactionAccountNumber requested loaded"
  let ?now = "movesAtOnce (nw_TransactionFlow nwt) isReserved"
  let ?x = "\<lambda>a. if ?now then movedBy ?children a else 0"
  let ?y = "\<lambda>a. if ?now then 0 else heldBy ?children a"
  have m: "m = shift ?x ?y (ConvertToBalanceMap loaded)"
    using wallet_create.all_shifts [OF calc] by (cases ?now) (simp_all add: movedBy_def heldBy_def comp_def)
  from created_stored [OF store create_order [OF calc visits]]
  have stored: "storedAs (\<lambda>a b. a \<notin> set (map req_FromAccount ?children) \<and> isHVT b \<and> \<not> isReserved)
      (visitOrder svc m) (ConvertToBalanceMap loaded) m db db1 hvt"
    by simp
  have accounts: "accountsFor svc db db1 hvt ?x ?y"
  proof (rule balances_account_for [OF load valid refl keys stored m visits])
    show "?x = (\<lambda>a. 0) \<or> ?x = movedBy ?children \<or> ?x = (\<lambda>a. - heldBy ?children a)"
      by (cases ?now) auto
    show "?y = (\<lambda>a. 0) \<or> ?y = heldBy ?children \<or> ?y = (\<lambda>a. - heldBy ?children a)"
      by (cases ?now) auto
  qed (auto simp: heldBy_receiver)
  have others: "otherTables db1 = otherTables db"
    using stored by (simp add: storedAs_def)
  have db2: "db2 = db1\<lparr>db_wallet_transaction := db_wallet_transaction db1 @ [created]\<rparr>"
    and created: "wt_ID created = nw_ID nwt" "wt_Status created = nw_Status nwt"
      "wt_RefNumber created = nw_RefNumber nwt" "wt_TransactionFlow created = nw_TransactionFlow nwt"
    and fresh: "nw_ID nwt \<notin> wt_ID ` set (db_wallet_transaction db1)"
    using create by (auto simp: WalletCreate_Ok_iff createdRow_def)
  have db': "db' = db2\<lparr>db_transaction := db_transaction db2 @ acuan\<rparr>"
    and credit: "\<not> isReserved \<Longrightarrow> netCredit acuan = movedBy ?children"
    and ids: "distinct (map txn_TransactionID (db_transaction db2)) \<Longrightarrow>
              distinct (map txn_TransactionID (db_transaction db'))"
    using insert insertChildTransactions_Ok [of svc ?children db2 acuan db']
    by (auto simp: movedBy_def fun_eq_iff split: if_splits)
  have funds: "fundsOf db' = fundsOf db1" by (simp add: db' db2)
  have sent: "\<exists>order. sentFor (nw_ID nwt) (nw_RefNumber nwt) order hvt" "isReserved \<Longrightarrow> hvt = []"
    using created_payloads [OF store create_order [OF calc visits]] by auto
  show thesis
  proof (rule that [of ?children])
    show "accountsFor svc db db' (cv_hvtPayloads vars) ?x ?y"
      using accounts actualOf_cong [OF funds] vars(1) by (simp add: accountsFor_def)
    have "distinct (map txn_TransactionID (db_transaction db'))"
      using keys others by (intro ids) (simp add: uniqueKeys_def otherTables_def db2)
    then show "uniqueKeys db'"
      using keys others fresh created by (auto simp: uniqueKeys_def otherTables_def db' db2)
    show "\<not> isReserved \<Longrightarrow> netCredit (cv_acuanTransactions vars) = movedBy ?children"
      using credit vars(2) by simp
  qed (use insert vars others created fresh sent in
        \<open>auto simp: otherTables_def db' db2 split: if_splits\<close>)
qed
lemma publishPayloads_none:
  assumes "publishPayloads svc ps w = ([], w')"
  shows "w' = w\<lparr>w_hvt := w_hvt w @ ps\<rparr>"
  using assms
proof (induction ps arbitrary: w)
  case (Cons p ps)
  then have "publishPayloads svc ps (w\<lparr>w_hvt := w_hvt w @ [p]\<rparr>) = ([], w')"
    by (auto split: option.splits prod.splits)
  from Cons.IH [OF this] show ?case by simp
qed simp

lemma publishNotification_world:
  assumes "publishNotificationCreateWalletTransactionSuccess svc wallet acuan before after clientID w = (e, w')"
  shows "w_db w' = w_db w \<and> w_hvt w' = w_hvt w"
  using assms
  by (auto simp: publishNotificationCreateWalletTransactionSuccess_def split: sum.splits option.splits)

lemma afterCommit_none:
  assumes "afterCommit svc isReserved isPublish clientID vars w = (None, w')"
  shows "w_db w' = w_db w \<and> w_hvt w' = w_hvt w @ cv_hvtPayloads vars"
proof -
  obtain errs w1 where run: "publishPayloads svc (cv_hvtPayloads vars) w = (errs, w1)" by fastforce
  have errs: "errs = []"
    using assms run by (auto simp: afterCommit_def Let_def ErrorOrNil_def split: if_splits option.splits prod.splits)
  from publishPayloads_none [OF run [unfolded errs]] assms run show ?thesis
    by (auto simp: afterCommit_def Let_def split: if_splits option.splits prod.splits
        dest: publishNotification_world)
qed

text \<open>A creation that answers without error committed its database transaction.\<close>

lemma CreateTransactionAtomic_Ok:
  assumes "CreateTransactionAtomic svc nwt isReserved isPublish clientID w = ((created, None), w')"
  obtains requested s vars where
    "Transform (environment svc (w_db w)) (ToWalletTransaction (now (repo svc)) nwt)
       (startState (ToWalletTransaction (now (repo svc)) nwt) (w_drawn w)) = (Inr requested, s)"
    "createSteps svc (nwt\<lparr>nw_Metadata := (if nw_Metadata nwt = None then None else shared s)\<rparr>) isReserved requested
       (w_db w, Some emptyWallet) = (Inr vars, (w_db w', created))"
    "w_hvt w' = w_hvt w @ cv_hvtPayloads vars"
  using assms unfolding CreateTransactionAtomic_def Let_def
  by (force simp: Atomic_Ok_iff split: prod.splits sum.splits dest: afterCommit_none)
text \<open>
  What settling moves: a commit the money of the children, except that of a cash-in, which moved at once; a
  cancellation nothing, except that it takes the money of a cash-in from its source.  Either lets go of
  what was held.
\<close>

definition settledMoves :: "bool \<Rightarrow> string \<Rightarrow> 'd::linordered_idom TransactionReq list \<Rightarrow> string \<Rightarrow> 'd" where
  "settledMoves isCommit flow children =
     (if isCommit then (if flow = ''cashin'' then (\<lambda>a. 0) else movedBy children)
      else (if flow = ''cashin'' then (\<lambda>a. - heldBy children a) else (\<lambda>a. 0)))"

definition releasedBy :: "string \<Rightarrow> 'd::linordered_idom TransactionReq list \<Rightarrow> string \<Rightarrow> 'd" where
  "releasedBy flow children = (if flow = ''cashin'' then (\<lambda>a. 0) else (\<lambda>a. - heldBy children a))"

lemma settle_calculators:
  assumes "calculateAll (if isCommit then getWalletBalanceCommitCalculator flow
             else getWalletBalanceCancelCalculator flow) (map trxSetOf children) m = (m', None)"
  shows "m' = shift (settledMoves isCommit flow children) (releasedBy flow children) m"
proof (cases isCommit)
  case True
  with assms have "calculateAll (getWalletBalanceCommitCalculator flow) (map trxSetOf children) m = (m', None)"
    by simp
  from wallet_settle.all_shifts [OF this] True show ?thesis
    by (cases "flow = ''cashin''")
      (simp_all add: settledMoves_def releasedBy_def movedBy_def [abs_def] heldBy_def comp_def
        flip: sum_list_uminus)
next
  case False
  with assms have "calculateAll (getWalletBalanceCancelCalculator flow) (map trxSetOf children) m = (m', None)"
    by simp
  from wallet_release.all_shifts [OF this] False show ?thesis
    by (cases "flow = ''cashin''")
      (simp_all add: settledMoves_def releasedBy_def movedBy_def [abs_def] heldBy_def comp_def
        flip: sum_list_uminus)
qed

text \<open>What a committed database transaction of a settlement did.\<close>

lemma when_Ok_iff:
  "(if c then wrapping text (onDb f) else return []) s = (Inr xs, s') \<longleftrightarrow>
     snd s' = snd s \<and> (if c then f (fst s) = (Inr xs, fst s') else xs = [] \<and> fst s' = fst s)"
  by (cases s; cases s') (auto simp: return_def onDb_iff)

lemma transformStep_Ok_iff:
  "transformStep svc wallet s = (Inr r, s') \<longleftrightarrow>
     (\<exists>t. Transform (environment svc (fst s)) wallet (startState wallet (snd (snd s))) = (Inr (fst r), t) \<and>
          snd r = shared t \<and> s' = (fst s, fst (snd s), drawn t))"
  by (cases r) (auto simp: transformStep_def split: prod.splits sum.splits err.splits)

lemma processSteps_inv:
  assumes "processSteps svc req walletTrx calc nextStatus time (db, hvt0, n) = (Inr vars, (db', hvt', n'))"
  obtains metadata wallet db1 requested t loaded m updated db2 n2 where
    "mergeMetadata (wt_Metadata walletTrx) (us_Metadata req) = Inr metadata"
    "WalletUpdate (repo svc) (us_TransactionId req) nextStatus time metadata db = (Inr wallet, db1)"
    "Transform (environment svc db1) wallet (startState wallet n) = (Inr requested, t)"
    "GetMany (repo svc) (balanceRequest svc requested) db1 = Inr loaded"
    "validateAccountExistsInTransactions requested loaded = None"
    "calculateAll calc (map trxSetOf (updateTransactionAccountNumber requested loaded))
       (ConvertToBalanceMap loaded) = (m, None)"
    "settleBalances svc (wt_ID wallet) (wt_RefNumber wallet)
       (map req_FromAccount (updateTransactionAccountNumber requested loaded)) (ConvertToBalanceMap loaded)
       (visitOrder svc m) m (db1, hvt0, drawn t) = (Inr updated, (db2, hvt', n2))"
    "if wt_Status wallet = ''SUCCESS''
     then insertChildTransactions svc (updateTransactionAccountNumber requested loaded) db2 =
            (Inr (pv_acuanTransactions vars), db')
     else pv_acuanTransactions vars = [] \<and> db' = db2"
    "pv_wallet vars = wallet\<lparr>wt_Metadata := shared t\<rparr>"
proof -
  from assms obtain result where result: "result = vars" and
    run: "processSteps svc req walletTrx calc nextStatus time (db, hvt0, n) = (Inr result, (db', hvt', n'))"
    by blast
  from run show ?thesis
  unfolding processSteps_def Let_def
  by (clarsimp simp: bind_Ok_iff call_def readDb_iff onDb_iff calculateBalances_Ok_iff when_Ok_iff return_def
      transformStep_Ok_iff split del: if_split split: prod.splits)
    (rule that, assumption+, simp_all split: if_split_asm flip: result)
qed

lemma processSteps_Ok:
  assumes run: "processSteps svc req walletTrx
        (if isCommit then getWalletBalanceCommitCalculator flow else getWalletBalanceCancelCalculator flow)
        nextStatus time (db, hvt0, n) = (Inr vars, (db', hvt', n'))"
    and keys: "uniqueKeys db" and visits: "visitsAll svc"
  obtains children hvt metadata w0 where
    "hvt' = hvt0 @ hvt"
    "accountsFor svc db db' hvt (settledMoves isCommit flow children) (releasedBy flow children)"
    "db_transaction db' = db_transaction db @ pv_acuanTransactions vars"
    "netCredit (pv_acuanTransactions vars) = (if nextStatus = ''SUCCESS'' then movedBy children else (\<lambda>a. 0))"
    "find (\<lambda>w. wt_ID w = us_TransactionId req) (db_wallet_transaction db) = Some w0"
    "wt_Status (pv_wallet vars) = nextStatus"
    "db_wallet_transaction db' =
       map (\<lambda>w. if wt_ID w = us_TransactionId req then
              w\<lparr>wt_Status := nextStatus, wt_TransactionTime := time, wt_Metadata := metadata\<rparr> else w)
         (db_wallet_transaction db)"
    "uniqueKeys db'"
    "\<exists>order. sentFor (us_TransactionId req) (wt_RefNumber w0) order hvt"
    "nextStatus = ''SUCCESS'' \<longrightarrow> spentBy (pv_acuanTransactions vars) = heldBy children"
proof -
  let ?calc = "if isCommit then getWalletBalanceCommitCalculator flow else getWalletBalanceCancelCalculator flow"
  obtain metadata wallet db1 requested t loaded m updated db2 n2 where
    "mergeMetadata (wt_Metadata walletTrx) (us_Metadata req) = Inr metadata"
    and update: "WalletUpdate (repo svc) (us_TransactionId req) nextStatus time metadata db = (Inr wallet, db1)"
    and "Transform (environment svc db1) wallet (startState wallet n) = (Inr requested, t)"
    and load: "GetMany (repo svc) (balanceRequest svc requested) db1 = Inr loaded"
    and valid: "validateAccountExistsInTransactions requested loaded = None"
    and calc: "calculateAll ?calc (map trxSetOf (updateTransactionAccountNumber requested loaded))
        (ConvertToBalanceMap loaded) = (m, None)"
    and store: "settleBalances svc (wt_ID wallet) (wt_RefNumber wallet)
        (map req_FromAccount (updateTransactionAccountNumber requested loaded)) (ConvertToBalanceMap loaded)
        (visitOrder svc m) m (db1, hvt0, drawn t) = (Inr updated, (db2, hvt', n2))"
    and insert: "if wt_Status wallet = ''SUCCESS''
        then insertChildTransactions svc (updateTransactionAccountNumber requested loaded) db2 =
               (Inr (pv_acuanTransactions vars), db')
        else pv_acuanTransactions vars = [] \<and> db' = db2"
    and pv: "pv_wallet vars = wallet\<lparr>wt_Metadata := shared t\<rparr>"
    by (rule processSteps_inv [OF run])
  let ?children = "updateTransactionAccountNumber requested loaded"
  from update obtain w0 where w0: "find (\<lambda>w. wt_ID w = us_TransactionId req) (db_wallet_transaction db) = Some w0"
    and wallet: "wallet = w0\<lparr>wt_Status := nextStatus, wt_TransactionTime := time,
                   wt_Metadata := storedMetadata (decimalText (repo svc)) metadata\<rparr>"
    and raw: "db1 = db\<lparr>db_wallet_transaction :=
       map (\<lambda>w. if wt_ID w = us_TransactionId req
                then w\<lparr>wt_Status := nextStatus, wt_TransactionTime := time,
                        wt_Metadata := storedMetadata (decimalText (repo svc)) metadata\<rparr> else w)
         (db_wallet_transaction db)\<rparr>"
    unfolding WalletUpdate_Ok_iff by blast
  have db1: "db1 = db\<lparr>db_wallet_transaction :=
       map (\<lambda>w. if wt_ID w = us_TransactionId req
                then w\<lparr>wt_Status := nextStatus, wt_TransactionTime := time, wt_Metadata := wt_Metadata wallet\<rparr> else w)
         (db_wallet_transaction db)\<rparr>"
    by (simp add: raw wallet)
  have keys1: "uniqueKeys db1"
    using keys by (simp add: uniqueKeys_def db1 comp_def if_distrib [where f = wt_ID] cong: if_cong)
  have m: "m = shift (settledMoves isCommit flow ?children) (releasedBy flow ?children) (ConvertToBalanceMap loaded)"
    by (rule settle_calculators [OF calc])
  from settled_stored [OF store order_distinct [OF visits m]] obtain hvt where hvt: "hvt' = hvt0 @ hvt"
    and stored: "storedAs (\<lambda>a b. a \<notin> set (map req_FromAccount ?children) \<and> isHVT b)
      (visitOrder svc m) (ConvertToBalanceMap loaded) m db1 db2 hvt"
    by auto
  have sent: "\<exists>order. sentFor (us_TransactionId req) (wt_RefNumber w0) order hvt"
    using settled_payloads [OF store order_distinct [OF visits m]] hvt w0 wallet by (auto simp: find_Some_iff)
  have "accountsFor svc db1 db2 hvt (settledMoves isCommit flow ?children) (releasedBy flow ?children)"
    by (rule balances_account_for [OF load valid refl keys1 stored m visits])
      (auto simp: settledMoves_def releasedBy_def heldBy_receiver)
  moreover have "fundsOf db1 = fundsOf db" by (simp add: db1)
  moreover have others: "otherTables db2 = otherTables db1"
    using stored by (simp add: storedAs_def)
  have db': "db' = db2\<lparr>db_transaction := db_transaction db2 @ pv_acuanTransactions vars\<rparr>"
    and credit: "netCredit (pv_acuanTransactions vars) = (if nextStatus = ''SUCCESS'' then movedBy ?children else (\<lambda>a. 0))"
    and ids: "distinct (map txn_TransactionID (db_transaction db2)) \<Longrightarrow>
              distinct (map txn_TransactionID (db_transaction db'))"
    using insert insertChildTransactions_Ok [of svc ?children db2 "pv_acuanTransactions vars" db'] wallet
    by (auto simp: movedBy_def fun_eq_iff netCredit_def split: if_splits)
  have spent: "spentBy (pv_acuanTransactions vars) = heldBy ?children" if "nextStatus = ''SUCCESS''"
    using insert insertChildTransactions_spent [of svc ?children db2 "pv_acuanTransactions vars" db'] wallet that
    by (auto simp: heldBy_def fun_eq_iff)
  have "fundsOf db' = fundsOf db2" by (simp add: db')
  ultimately have accounts: "accountsFor svc db db' hvt (settledMoves isCommit flow ?children) (releasedBy flow ?children)"
    using actualOf_cong [of db1 db] actualOf_cong [of db' db2] by (simp add: accountsFor_def)
  have "distinct (map txn_TransactionID (db_transaction db'))"
    using keys1 others by (intro ids) (simp add: uniqueKeys_def otherTables_def)
  then have "uniqueKeys db'"
    using keys1 others by (auto simp: uniqueKeys_def otherTables_def db')
  then show thesis
    using others accounts hvt credit w0 pv wallet sent spent
    by (intro that [of hvt ?children w0 "wt_Metadata wallet"]) (simp_all add: otherTables_def db' db1)
qed

end
