(* ===== verification/WalletOutcomes.thy ===== *)
theory WalletOutcomes
  imports WalletLedger
begin

text \<open>
  Every way a call of the wallet service can end, errors included: either nothing was committed, or exactly one
  database transaction was.  The properties of single calls, of histories and of the status of a wallet
  transaction all rest on these case distinctions.
\<close>

section \<open>Creating\<close>

lemma publishPayloads_world:
  assumes "publishPayloads svc ps w = (errs, w')"
  shows "w' = w\<lparr>w_hvt := w_hvt w @ filter (\<lambda>p. publishHVT svc p = None) ps\<rparr>"
  using assms
proof (induction ps arbitrary: w errs)
  case (Cons p ps)
  show ?case
  proof (cases "publishHVT svc p")
    case None
    then have "publishPayloads svc ps (w\<lparr>w_hvt := w_hvt w @ [p]\<rparr>) = (errs, w')"
      using Cons.prems by simp
    from Cons.IH [OF this] None show ?thesis by simp
  next
    case (Some e)
    then obtain errs' where "publishPayloads svc ps w = (errs', w')"
      using Cons.prems by (auto split: prod.splits)
    from Cons.IH [OF this] Some show ?thesis by simp
  qed
qed simp

lemma afterCommit_world:
  assumes "afterCommit svc isReserved isPublish clientID vars w = (e, w')"
  shows "w_db w' = w_db w \<and>
         w_hvt w' = w_hvt w @ filter (\<lambda>p. publishHVT svc p = None) (cv_hvtPayloads vars)"
proof -
  obtain errs w1 where run: "publishPayloads svc (cv_hvtPayloads vars) w = (errs, w1)" by fastforce
  from publishPayloads_world [OF run] assms run show ?thesis
    by (auto simp: afterCommit_def Let_def split: if_splits option.splits prod.splits
        dest: publishNotification_world)
qed

text \<open>What a request that was accepted is turned into.\<close>

definition acceptedRequest ::
  "'d::linordered_idom ServiceConfig \<Rightarrow> 'd CreateWalletTransactionRequest \<Rightarrow> string \<Rightarrow> 'd NewWalletTransaction" where
  "acceptedRequest svc req newId = ToNewWalletTransaction (parseRFC3339 svc) newId (lceNetAmount svc req)"

lemma lceNetAmount_simps [simp]:
  "cw_TransactionFlow (lceNetAmount svc req) = cw_TransactionFlow req"
  "cw_IsReserved (lceNetAmount svc req) = cw_IsReserved req"
  "cw_RefNumber (lceNetAmount svc req) = cw_RefNumber req"
  "cw_ClientId (lceNetAmount svc req) = cw_ClientId req"
  by (simp_all add: lceNetAmount_def)

lemma acceptedRequest_simps [simp]:
  "nw_ID (acceptedRequest svc req newId) = newId"
  "nw_TransactionFlow (acceptedRequest svc req newId) = cw_TransactionFlow req"
  "nw_RefNumber (acceptedRequest svc req newId) = cw_RefNumber req"
  "nw_Status (acceptedRequest svc req newId) = (if cw_IsReserved req then ''PENDING'' else ''SUCCESS'')"
  by (simp_all add: acceptedRequest_def ToNewWalletTransaction_def)

lemma CreateTransactionAtomic_cases:
  assumes "CreateTransactionAtomic svc nwt isReserved isPublish clientID w = ((t, e), w')"
  obtains (unchanged) "e \<noteq> None" and "w_db w' = w_db w" and "w_hvt w' = w_hvt w" and "w_notified w' = w_notified w"
  | (committed) requested s vars where
      "Transform (environment svc (w_db w)) (ToWalletTransaction (now (repo svc)) nwt)
         (startState (ToWalletTransaction (now (repo svc)) nwt) (w_drawn w)) = (Inr requested, s)"
      "createSteps svc (nwt\<lparr>nw_Metadata := (if nw_Metadata nwt = None then None else shared s)\<rparr>) isReserved requested
         (w_db w, Some emptyWallet) = (Inr vars, (w_db w', t))"
      "w_hvt w' = w_hvt w @ filter (\<lambda>p. publishHVT svc p = None) (cv_hvtPayloads vars)"
  using assms unfolding CreateTransactionAtomic_def Let_def
  by (force simp: Atomic_Ok_iff split: prod.splits sum.splits dest: Atomic_Err_keeps afterCommit_world)

lemma validateTransactionInput_reserved:
  "validateTransactionInput svc req = Inr u \<Longrightarrow> cw_IsReserved req \<Longrightarrow> cw_TransactionFlow req \<noteq> ''cashin''"
  by (auto simp: validateTransactionInput_def Let_def split: sum.splits option.splits if_splits)

lemma CreateTransaction_cases:
  assumes "CreateTransaction svc req w = ((t, e), w')"
  obtains (unchanged) "w_db w' = w_db w" and "w_hvt w' = w_hvt w" and "w_notified w' = w_notified w"
  | (committed) metadata requested vars where
      "createSteps svc ((acceptedRequest svc req (newUUIDText svc (w_drawn w)))\<lparr>nw_Metadata := metadata\<rparr>)
         (cw_IsReserved req) requested (w_db w, Some emptyWallet) = (Inr vars, (w_db w', t))"
      "w_hvt w' = w_hvt w @ filter (\<lambda>p. publishHVT svc p = None) (cv_hvtPayloads vars)"
      "cw_IsReserved req \<Longrightarrow> cw_TransactionFlow req \<noteq> ''cashin''"
      "validateTransactionInput svc req = Inr ()"
proof -
  consider (answered) "w' = w"
    | (queued) "EnqueueTransaction svc (lceNetAmount svc req) w = ((t, e), w')"
    | (run) "validateTransactionInput svc req = Inr ()"
        "CreateTransactionAtomic svc (acceptedRequest svc req (newUUIDText svc (w_drawn w)))
           (cw_IsReserved req) True (cw_ClientId req) (w\<lparr>w_drawn := w_drawn w + 1\<rparr>) = ((t, e), w')"
    using assms unfolding CreateTransaction_def Let_def
    by (auto simp: acceptedRequest_def split: sum.splits option.splits if_splits)
  then show thesis
  proof cases
    case answered
    with unchanged show thesis by simp
  next
    case queued
    then show thesis
      using unchanged by (auto simp: EnqueueTransaction_def split: option.splits)
  next
    case run
    from run(2) show thesis
    proof (cases rule: CreateTransactionAtomic_cases)
      case unchanged
      with that(1) show thesis by simp
    next
      case (committed requested s vars)
      have drawing: "w_db (w\<lparr>w_drawn := w_drawn w + 1\<rparr>) = w_db w" "w_hvt (w\<lparr>w_drawn := w_drawn w + 1\<rparr>) = w_hvt w"
        by simp_all
      show thesis
        by (rule that(2) [OF committed(2,3) [unfolded drawing] validateTransactionInput_reserved [OF run(1)] run(1)])
    qed
  qed
qed

section \<open>Settling\<close>

definition settleTime :: "'d ServiceConfig \<Rightarrow> 'd UpdateStatusWalletTransactionRequest \<Rightarrow> int" where
  "settleTime svc req = (if us_TransactionTime req = 0 then now (repo svc) else us_TransactionTime req)"

text \<open>What the action stands for: whether it commits, and the status it leads to.\<close>

lemma chooseAction_go:
  assumes "chooseAction walletTrx action = Inr (None, calc, nextStatus)"
  obtains (commit) "action = ''commit''" "calc = getWalletBalanceCommitCalculator (wt_TransactionFlow walletTrx)"
      "nextStatus = ''SUCCESS''"
  | (cancel) "action = ''cancel''" "calc = getWalletBalanceCancelCalculator (wt_TransactionFlow walletTrx)"
      "nextStatus = ''CANCEL''"
  using assms by (auto simp: chooseAction_def split: if_splits)

lemma settleTransaction_cases:
  assumes "settleTransaction svc req walletTrx calc nextStatus w = ((t, e), w')"
  obtains (failed) "e \<noteq> None" and "t = None" and "w_db w' = w_db w"
  | (committed) vars n where
      "processSteps svc req walletTrx calc nextStatus (settleTime svc req) (w_db w, w_hvt w, w_drawn w) =
         (Inr vars, (w_db w', w_hvt w', n))"
      "e = None \<Longrightarrow> t = Some (pv_wallet vars)"
proof -
  obtain r s where run: "Atomic (repo svc) (processSteps svc req walletTrx calc nextStatus (settleTime svc req))
                (w_db w, w_hvt w, w_drawn w) = (r, s)" by (meson surj_pair)
  show thesis
  proof (cases r)
    case (Inl err)
    with run have "fst s = w_db w"
      by (auto dest: Atomic_Err_keeps)
    with assms run Inl failed show thesis
      by (cases s) (auto simp: settleTransaction_def Let_def settleTime_def)
  next
    case (Inr vars)
    obtain db hvt n where s: "s = (db, hvt, n)" by (cases s) auto
    from run Inr s have steps: "processSteps svc req walletTrx calc nextStatus (settleTime svc req)
        (w_db w, w_hvt w, w_drawn w) = (Inr vars, (db, hvt, n))"
      by (simp add: Atomic_Ok_iff)
    have "w_db w' = db \<and> w_hvt w' = hvt \<and> (e = None \<longrightarrow> t = Some (pv_wallet vars))"
      using assms run Inr s unfolding settleTransaction_def Let_def settleTime_def [symmetric]
      by (auto split: if_splits option.splits prod.splits dest: publishNotification_world)
    with steps committed show thesis by blast
  qed
qed

text \<open>
  Settling commits only for a stored, pending wallet transaction, with the calculator and the status of the action.
\<close>

lemma ProcessReservedTransaction_cases:
  assumes "ProcessReservedTransaction svc req w = ((t, e), w')"
  obtains (unchanged) "w' = w"
      "e = None \<Longrightarrow> \<exists>x. t = Some x \<and> us_Action req \<in> {''commit'', ''cancel''} \<and>
         find (\<lambda>x. wt_ID x = us_TransactionId req) (db_wallet_transaction (w_db w)) = Some x \<and>
         wt_Status x = (if us_Action req = ''commit'' then ''SUCCESS'' else ''CANCEL'')"
  | (failed) "e \<noteq> None" and "t = None" and "w_db w' = w_db w"
  | (committed) walletTrx isCommit vars n where
      "find (\<lambda>x. wt_ID x = us_TransactionId req) (db_wallet_transaction (w_db w)) = Some walletTrx"
      "wt_Status walletTrx = ''PENDING''"
      "us_Action req = (if isCommit then ''commit'' else ''cancel'')"
      "processSteps svc req walletTrx
         (if isCommit then getWalletBalanceCommitCalculator (wt_TransactionFlow walletTrx)
          else getWalletBalanceCancelCalculator (wt_TransactionFlow walletTrx))
         (if isCommit then ''SUCCESS'' else ''CANCEL'') (settleTime svc req) (w_db w, w_hvt w, w_drawn w) =
         (Inr vars, (w_db w', w_hvt w', n))"
      "e = None \<Longrightarrow> t = Some (pv_wallet vars)"
proof -
  consider "w' = w"
      "e = None \<longrightarrow> (\<exists>x. t = Some x \<and> us_Action req \<in> {''commit'', ''cancel''} \<and>
         find (\<lambda>x. wt_ID x = us_TransactionId req) (db_wallet_transaction (w_db w)) = Some x \<and>
         wt_Status x = (if us_Action req = ''commit'' then ''SUCCESS'' else ''CANCEL''))"
    | walletTrx calc nextStatus where "WalletGetById (repo svc) (us_TransactionId req) (w_db w) = Inr walletTrx"
        "chooseAction walletTrx (us_Action req) = Inr (None, calc, nextStatus)" "wt_Status walletTrx = ''PENDING''"
        "settleTransaction svc req walletTrx calc nextStatus w = ((t, e), w')"
    using assms unfolding ProcessReservedTransaction_def
    by (auto simp: WalletGetById_def rbind_Ok_iff chooseAction_def split: sum.splits option.splits prod.splits if_splits)
  then show thesis
  proof cases
    case 1
    with unchanged show thesis by blast
  next
    case 2
    from 2(1) have found: "find (\<lambda>x. wt_ID x = us_TransactionId req) (db_wallet_transaction (w_db w)) = Some walletTrx"
      by (auto simp: WalletGetById_def rbind_Ok_iff split: option.splits)
    from 2(4) show thesis
    proof (cases rule: settleTransaction_cases)
      case failed
      with that(2) show thesis by blast
    next
      case (committed vars n)
      from 2(2) show thesis
      proof (cases rule: chooseAction_go)
        case commit
        with committed found 2(3) that(3) [where isCommit = True] show thesis by simp
      next
        case cancel
        with committed found 2(3) that(3) [where isCommit = False] show thesis by simp
      qed
    qed
  qed
qed

section \<open>Outcomes over the ledger\<close>

text \<open>What a creation that commits adds: one wallet row, its ledger rows and messages, and balances that follow them.\<close>

lemma committed_outcome:
  assumes steps: "createSteps svc nwt isReserved requested (w_db w, Some emptyWallet) = (Inr vars, (w_db w', t))"
    and hvt: "w_hvt w' = w_hvt w @ filter (\<lambda>p. publishHVT svc p = None) (cv_hvtPayloads vars)"
    and flow: "isReserved \<Longrightarrow> nw_TransactionFlow nwt \<noteq> ''cashin''"
    and keys: "uniqueKeys (w_db w)" and visits: "visitsAll svc"
  obtains created rows payloads children where
    "t = Some created"
    "db_wallet_transaction (w_db w') = db_wallet_transaction (w_db w) @ [created]"
    "wt_ID created \<notin> wt_ID ` set (db_wallet_transaction (w_db w))"
    "wt_ID created = nw_ID nwt" "wt_Status created = nw_Status nwt"
    "wt_RefNumber created = nw_RefNumber nwt" "wt_TransactionFlow created = nw_TransactionFlow nwt"
    "db_transaction (w_db w') = db_transaction (w_db w) @ rows"
    "w_hvt w' = w_hvt w @ filter (\<lambda>p. publishHVT svc p = None) payloads"
    "\<exists>order. sentFor (wt_ID created) (wt_RefNumber created) order payloads"
    "isReserved \<Longrightarrow> payloads = [] \<and> rows = []"
    "accountsFor svc (w_db w) (w_db w') payloads (netCredit rows) (\<lambda>a. if isReserved then heldBy children a else 0)"
    "uniqueKeys (w_db w')"
proof -
  obtain children where Ok:
    "accountsFor svc (w_db w) (w_db w') (cv_hvtPayloads vars)
       (\<lambda>a. if movesAtOnce (nw_TransactionFlow nwt) isReserved then movedBy children a else 0)
       (\<lambda>a. if movesAtOnce (nw_TransactionFlow nwt) isReserved then 0 else heldBy children a)"
    "db_transaction (w_db w') = db_transaction (w_db w) @ cv_acuanTransactions vars"
    "isReserved \<Longrightarrow> cv_acuanTransactions vars = []"
    "\<not> isReserved \<Longrightarrow> netCredit (cv_acuanTransactions vars) = movedBy children"
    "\<exists>created. t = Some created \<and> cv_created vars = created \<and> wt_ID created = nw_ID nwt \<and>
       wt_Status created = nw_Status nwt \<and> wt_RefNumber created = nw_RefNumber nwt \<and>
       wt_TransactionFlow created = nw_TransactionFlow nwt \<and>
       db_wallet_transaction (w_db w') = db_wallet_transaction (w_db w) @ [created] \<and>
       nw_ID nwt \<notin> wt_ID ` set (db_wallet_transaction (w_db w))"
    "uniqueKeys (w_db w')"
    "\<exists>order. sentFor (nw_ID nwt) (nw_RefNumber nwt) order (cv_hvtPayloads vars)"
    "isReserved \<Longrightarrow> cv_hvtPayloads vars = []"
    by (rule createSteps_Ok [OF steps keys visits]) (rule that, blast+)
  from Ok(5) obtain created where created: "t = Some created" "cv_created vars = created"
    "wt_ID created = nw_ID nwt" "wt_Status created = nw_Status nwt" "wt_RefNumber created = nw_RefNumber nwt"
    "wt_TransactionFlow created = nw_TransactionFlow nwt"
    "db_wallet_transaction (w_db w') = db_wallet_transaction (w_db w) @ [created]"
    "nw_ID nwt \<notin> wt_ID ` set (db_wallet_transaction (w_db w))"
    by blast
  have "movesAtOnce (nw_TransactionFlow nwt) isReserved \<longleftrightarrow> \<not> isReserved"
    using flow by (auto simp: movesAtOnce_def)
  moreover have "netCredit (cv_acuanTransactions vars) = (\<lambda>a. if isReserved then 0 else movedBy children a)"
    using Ok(3,4) by (auto simp: netCredit_def fun_eq_iff)
  ultimately have "accountsFor svc (w_db w) (w_db w') (cv_hvtPayloads vars) (netCredit (cv_acuanTransactions vars))
      (\<lambda>a. if isReserved then heldBy children a else 0)"
    using Ok(1) by (cases isReserved) simp_all
  with Ok created hvt show thesis
    by (intro that [of created "cv_acuanTransactions vars" "cv_hvtPayloads vars" children]) simp_all
qed

text \<open>A creation: nothing, or one wallet row, its ledger rows and balances that follow them.\<close>

lemma create_outcome:
  assumes call: "CreateTransaction svc req w = ((t, e), w')"
    and keys: "uniqueKeys (w_db w)" and visits: "visitsAll svc"
  obtains (unchanged) "w_db w' = w_db w" and "w_hvt w' = w_hvt w"
  | (committed) created rows payloads children where
      "t = Some created"
      "db_wallet_transaction (w_db w') = db_wallet_transaction (w_db w) @ [created]"
      "wt_ID created \<notin> wt_ID ` set (db_wallet_transaction (w_db w))"
      "wt_ID created = newUUIDText svc (w_drawn w)"
      "wt_Status created = (if cw_IsReserved req then ''PENDING'' else ''SUCCESS'')"
      "wt_RefNumber created = cw_RefNumber req" "wt_TransactionFlow created = cw_TransactionFlow req"
      "cw_IsReserved req \<Longrightarrow> cw_TransactionFlow req \<noteq> ''cashin''"
      "db_transaction (w_db w') = db_transaction (w_db w) @ rows"
      "w_hvt w' = w_hvt w @ filter (\<lambda>p. publishHVT svc p = None) payloads"
      "\<exists>order. sentFor (wt_ID created) (wt_RefNumber created) order payloads"
      "cw_IsReserved req \<Longrightarrow> payloads = [] \<and> rows = []"
      "accountsFor svc (w_db w) (w_db w') payloads (netCredit rows)
         (\<lambda>a. if cw_IsReserved req then heldBy children a else 0)"
      "uniqueKeys (w_db w')"
  using call
proof (cases rule: CreateTransaction_cases)
  case unchanged
  with that(1) show thesis by blast
next
  case (committed metadata requested vars)
  have flow: "nw_TransactionFlow ((acceptedRequest svc req (newUUIDText svc (w_drawn w)))\<lparr>nw_Metadata := metadata\<rparr>) \<noteq> ''cashin''"
    if "cw_IsReserved req"
    using committed(3) that by simp
  show thesis
  proof (rule committed_outcome [OF committed(1,2) flow keys visits], goal_cases)
    case (2 created rows payloads children)
    with committed(3) show thesis
      by (intro that(2) [of created rows payloads children]) simp_all
  qed
qed

text \<open>The same of \<open>CreateTransactionAtomic\<close> alone, for a transaction that is not reserved.\<close>

lemma atomic_outcome:
  assumes call: "CreateTransactionAtomic svc nwt False isPublish clientID w = ((t, e), w')"
    and keys: "uniqueKeys (w_db w)" and visits: "visitsAll svc"
  obtains (unchanged) "e \<noteq> None" and "w_db w' = w_db w" and "w_hvt w' = w_hvt w"
  | (committed) created rows payloads where
      "db_wallet_transaction (w_db w') = db_wallet_transaction (w_db w) @ [created]"
      "wt_ID created \<notin> wt_ID ` set (db_wallet_transaction (w_db w))"
      "wt_ID created = nw_ID nwt" "wt_Status created = nw_Status nwt" "wt_RefNumber created = nw_RefNumber nwt"
      "db_transaction (w_db w') = db_transaction (w_db w) @ rows"
      "w_hvt w' = w_hvt w @ filter (\<lambda>p. publishHVT svc p = None) payloads"
      "\<exists>order. sentFor (wt_ID created) (wt_RefNumber created) order payloads"
      "accountsFor svc (w_db w) (w_db w') payloads (netCredit rows) (\<lambda>a. 0)"
      "uniqueKeys (w_db w')"
  using call
proof (cases rule: CreateTransactionAtomic_cases)
  case unchanged
  with that(1) show thesis by blast
next
  case (committed requested s vars)
  show thesis
  proof (rule committed_outcome [OF committed(2,3) _ keys visits], goal_cases)
    case (2 created rows payloads children)
    then show thesis
      by (intro that(2) [of created rows payloads]) simp_all
  qed simp
qed

text \<open>
  A settlement: nothing, a failure that leaves the database, or one pending row settled, with the ledger rows
  of a commit and none for a cancellation.
\<close>

lemma settle_outcome:
  assumes call: "ProcessReservedTransaction svc req w = ((t, e), w')"
    and keys: "uniqueKeys (w_db w)" and visits: "visitsAll svc"
  obtains (unchanged) "w' = w"
      "e = None \<Longrightarrow> \<exists>x. t = Some x \<and> us_Action req \<in> {''commit'', ''cancel''} \<and>
         find (\<lambda>x. wt_ID x = us_TransactionId req) (db_wallet_transaction (w_db w)) = Some x \<and>
         wt_Status x = (if us_Action req = ''commit'' then ''SUCCESS'' else ''CANCEL'')"
  | (failed) "e \<noteq> None" and "t = None" and "w_db w' = w_db w"
  | (committed) w0 isCommit metadata rows payloads children where
      "find (\<lambda>x. wt_ID x = us_TransactionId req) (db_wallet_transaction (w_db w)) = Some w0"
      "wt_Status w0 = ''PENDING''"
      "us_Action req = (if isCommit then ''commit'' else ''cancel'')"
      "db_wallet_transaction (w_db w') =
         map (\<lambda>x. if wt_ID x = us_TransactionId req then
                x\<lparr>wt_Status := if isCommit then ''SUCCESS'' else ''CANCEL'',
                  wt_TransactionTime := settleTime svc req, wt_Metadata := metadata\<rparr> else x)
           (db_wallet_transaction (w_db w))"
      "db_transaction (w_db w') = db_transaction (w_db w) @ rows"
      "\<not> isCommit \<Longrightarrow> netCredit rows = (\<lambda>a. 0)"
      "w_hvt w' = w_hvt w @ payloads"
      "\<exists>order. sentFor (us_TransactionId req) (wt_RefNumber w0) order payloads"
      "wt_TransactionFlow w0 \<noteq> ''cashin'' \<Longrightarrow>
         accountsFor svc (w_db w) (w_db w') payloads (netCredit rows) (\<lambda>a. - heldBy children a)"
      "uniqueKeys (w_db w')"
      "e = None \<Longrightarrow> \<exists>s. t = Some s \<and> wt_Status s = (if isCommit then ''SUCCESS'' else ''CANCEL'')"
  using call
proof (cases rule: ProcessReservedTransaction_cases)
  case unchanged
  with that(1) show thesis by blast
next
  case failed
  with that(2) show thesis by blast
next
  case (committed walletTrx isCommit vars n)
  let ?status = "if isCommit then ''SUCCESS'' else ''CANCEL''"
  let ?flow = "wt_TransactionFlow walletTrx"
  obtain children hvt metadata w0 where Ok:
    "w_hvt w' = w_hvt w @ hvt"
    "accountsFor svc (w_db w) (w_db w') hvt (settledMoves isCommit ?flow children) (releasedBy ?flow children)"
    "db_transaction (w_db w') = db_transaction (w_db w) @ pv_acuanTransactions vars"
    "netCredit (pv_acuanTransactions vars) = (if ?status = ''SUCCESS'' then movedBy children else (\<lambda>a. 0))"
    "find (\<lambda>x. wt_ID x = us_TransactionId req) (db_wallet_transaction (w_db w)) = Some w0"
    "wt_Status (pv_wallet vars) = ?status"
    "db_wallet_transaction (w_db w') =
       map (\<lambda>x. if wt_ID x = us_TransactionId req then
              x\<lparr>wt_Status := ?status, wt_TransactionTime := settleTime svc req, wt_Metadata := metadata\<rparr> else x)
         (db_wallet_transaction (w_db w))"
    "uniqueKeys (w_db w')"
    "\<exists>order. sentFor (us_TransactionId req) (wt_RefNumber w0) order hvt"
    "?status = ''SUCCESS'' \<longrightarrow> spentBy (pv_acuanTransactions vars) = heldBy children"
    by (rule processSteps_Ok [OF committed(4) keys visits])
  have w0: "w0 = walletTrx" using Ok(5) committed(1) by simp
  have "settledMoves isCommit ?flow children = netCredit (pv_acuanTransactions vars)"
    and "releasedBy ?flow children = (\<lambda>a. - heldBy children a)" if "?flow \<noteq> ''cashin''"
    using that Ok(4) by (auto simp: settledMoves_def releasedBy_def)
  with Ok committed w0 show thesis
    by (intro that(3) [of w0 isCommit metadata "pv_acuanTransactions vars" hvt children]) auto
qed

end
