(* ===== verification/HVTConsumer.thy ===== *)
theory HVTConsumer
  imports WalletOutcomes "HOL-Library.Sublist"
begin

text \<open>
  The consumer of the high-volume balance messages
  (\<open>internal/deliveries/consumer/hvt_balance_update/hvt_balance_update_handler.go\<close>) and the balance service
  it calls (\<open>internal/services/balance_service.go\<close>).  Kafka delivers a message at least once and in any order
  among accounts; a key in the cache keeps a message from being applied twice.  The key expires after a day:
  the model is that of one day.
\<close>

section \<open>The cache\<close>

text \<open>\<open>SetIfNotExists\<close> and \<open>Del\<close> of \<open>internal/repositories/cache.go\<close>; redis may fail either.\<close>

datatype (plugins only: code) cacheCall = SetNX string | DelKey string

type_synonym cacheMap = "string \<rightharpoonup> string"

definition SetIfNotExists ::
  "(cacheCall \<Rightarrow> err option) \<Rightarrow> string \<Rightarrow> string \<Rightarrow> (cacheMap, bool) exec" where
  "SetIfNotExists cacheFault key value m =
     (case cacheFault (SetNX key) of
        Some e \<Rightarrow> (Err e, m)
      | None \<Rightarrow> if m key = None then (Ok True, m(key \<mapsto> value)) else (Ok False, m))"

definition Del :: "(cacheCall \<Rightarrow> err option) \<Rightarrow> string \<Rightarrow> (cacheMap, unit) exec" where
  "Del cacheFault key m =
     (case cacheFault (DelKey key) of Some e \<Rightarrow> (Err e, m) | None \<Rightarrow> (Ok (), m(key := None)))"

section \<open>The handler\<close>

text \<open>
  A message is what \<open>json.Unmarshal\<close> makes of its value.  The state: the database, the cache, the messages
  sent to the dead letter queue and the messages marked as consumed.
\<close>

type_synonym 'd hvtMessage = "'d HVTPayload result"

record 'd HvtState =
  hs_db :: "'d DB"
  hs_cache :: cacheMap
  hs_dlq :: "('d hvtMessage \<times> err) list"
  hs_marked :: "'d hvtMessage list"

record 'd HvtBalanceHandler =
  hh_repo :: "'d RepoConfig"
  hh_cacheFault :: "cacheCall \<Rightarrow> err option"
  hh_dlqFault :: "'d hvtMessage \<Rightarrow> err option"
  EnablePublishHvtBalanceDLQ :: bool

definition BalanceServiceAdjust :: "'d::linordered_idom RepoConfig \<Rightarrow> string \<Rightarrow> 'd \<Rightarrow> ('d DB, unit) exec" where
  "BalanceServiceAdjust cfg accountNumber delta = AdjustAccountBalance cfg accountNumber delta"

definition BalanceServiceGet ::
  "(err \<Rightarrow> string) \<Rightarrow> 'd::linordered_idom RepoConfig \<Rightarrow> string \<Rightarrow> 'd DB \<Rightarrow> 'd AccountBalance result" where
  "BalanceServiceGet textOf cfg accountNumber db =
     (case Get cfg accountNumber db of
        Inl e \<Rightarrow> Err (checkDatabaseError textOf e (Some ''accountNumberNotFound''))
      | Inr res \<Rightarrow> Ok res)"

definition createIdempotencyKey :: "string \<Rightarrow> string \<Rightarrow> string \<Rightarrow> string" where
  "createIdempotencyKey trxID refNumber accountNumber =
     ''acuan:hvt:'' @ trxID @ '':'' @ refNumber @ '':'' @ accountNumber"

definition keyOf :: "'d HVTPayload \<Rightarrow> string" where
  "keyOf p = createIdempotencyKey (hvt_WalletTransactionId p) (hvt_RefNumber p) (hvt_AccountNumber p)"

definition processMessage ::
  "'d::linordered_idom HvtBalanceHandler \<Rightarrow> 'd HVTPayload \<Rightarrow> ('d DB, unit) exec" where
  "processMessage bh p =
     wrapping ''error when Increment HVT Balance''
       (BalanceServiceAdjust (hh_repo bh) (hvt_AccountNumber p) (amt_ValueDecimal (hvt_UpdateAmount p)))"

definition Ack :: "'d hvtMessage \<Rightarrow> 'd HvtState \<Rightarrow> 'd HvtState" where
  "Ack message s = s\<lparr>hs_marked := hs_marked s @ [message]\<rparr>"

text \<open>
  \<open>Nack\<close>: releases the key, sends the message to the dead letter queue where that is enabled, and marks
  it all the same.  Failures of either are only logged.
\<close>

definition Nack ::
  "'d HvtBalanceHandler \<Rightarrow> 'd hvtMessage \<Rightarrow> string \<Rightarrow> err \<Rightarrow> 'd HvtState \<Rightarrow> 'd HvtState" where
  "Nack bh message key cause s =
     (if errors_Is cause ErrRequestBeingProcessed then Ack message s
      else
        (let s1 = s\<lparr>hs_cache := snd (Del (hh_cacheFault bh) key (hs_cache s))\<rparr>;
             s2 = (if EnablePublishHvtBalanceDLQ bh \<and> hh_dlqFault bh message = None
                   then s1\<lparr>hs_dlq := hs_dlq s1 @ [(message, cause)]\<rparr> else s1)
         in Ack message s2))"

text \<open>One turn of \<open>ConsumeClaim\<close>.  A message that cannot be parsed has the key of the empty payload.\<close>

definition consumeMessage ::
  "'d::linordered_idom HvtBalanceHandler \<Rightarrow> 'd hvtMessage \<Rightarrow> 'd HvtState \<Rightarrow> 'd HvtState" where
  "consumeMessage bh message s =
     (case message of
        Inl e \<Rightarrow> Nack bh message (createIdempotencyKey '''' '''' '''') (wrapErr ''error unmarshal json'' e) s
      | Inr p \<Rightarrow>
          (case SetIfNotExists (hh_cacheFault bh) (keyOf p) (''Processing: '' @ keyOf p) (hs_cache s) of
             (Inl e, m) \<Rightarrow> Nack bh message (keyOf p) e (s\<lparr>hs_cache := m\<rparr>)
           | (Inr False, m) \<Rightarrow> Ack message (s\<lparr>hs_cache := m\<rparr>)
           | (Inr True, m) \<Rightarrow>
               (case processMessage bh p (hs_db s) of
                  (Inl e, db) \<Rightarrow> Nack bh message (keyOf p) e (s\<lparr>hs_cache := m, hs_db := db\<rparr>)
                | (Inr _, db) \<Rightarrow> Ack message (s\<lparr>hs_cache := m, hs_db := db\<rparr>))))"

definition consumeMessages ::
  "'d::linordered_idom HvtBalanceHandler \<Rightarrow> 'd hvtMessage list \<Rightarrow> 'd HvtState \<Rightarrow> 'd HvtState" where
  "consumeMessages bh messages s = foldl (\<lambda>s m. consumeMessage bh m s) s messages"

section \<open>At most once, as an interface\<close>

text \<open>
  A consumer that keeps the keys of what it took: a message whose key it has changes nothing; another is either
  taken, its effect and its key together, or refused without either.
\<close>

locale keyed_consumer =
  fixes deliver :: "'m \<Rightarrow> 's \<Rightarrow> 's" and key :: "'m \<Rightarrow> string" and keys :: "'s \<Rightarrow> string set"
    and data :: "'s \<Rightarrow> 'x" and takes :: "'m \<Rightarrow> 'x \<Rightarrow> bool" and effect :: "'m \<Rightarrow> 'x \<Rightarrow> 'x"
  assumes seen: "key m \<in> keys s \<Longrightarrow> data (deliver m s) = data s \<and> keys (deliver m s) = keys s"
    and taken: "key m \<notin> keys s \<Longrightarrow> takes m (data s) \<Longrightarrow>
                  data (deliver m s) = effect m (data s) \<and> keys (deliver m s) = insert (key m) (keys s)"
    and refused: "key m \<notin> keys s \<Longrightarrow> \<not> takes m (data s) \<Longrightarrow>
                  data (deliver m s) = data s \<and> keys (deliver m s) = keys s"
    and takes_stable: "takes m' (effect m x) = takes m' x"
begin

lemma keys_grow: "keys s \<subseteq> keys (foldl (\<lambda>s m. deliver m s) s ms)"
proof (induction ms arbitrary: s)
  case (Cons m ms)
  have "keys s \<subseteq> keys (deliver m s)"
    using seen [of m s] taken [of m s] refused [of m s] by blast
  with Cons.IH [of "deliver m s"] show ?case by auto
qed simp

lemma takes_after: "takes m' (data (deliver m s)) = takes m' (data s)"
  using seen [of m s] taken [of m s] refused [of m s] takes_stable by metis

text \<open>Any run applies some of its messages, in order, no key twice and none that was there before.\<close>

lemma deliveries:
  "\<exists>applied. subseq applied ms \<and> distinct (map key applied) \<and> key ` set applied \<inter> keys s = {} \<and>
     (\<forall>m\<in>set applied. takes m (data s)) \<and>
     keys (foldl (\<lambda>s m. deliver m s) s ms) = keys s \<union> key ` set applied \<and>
     data (foldl (\<lambda>s m. deliver m s) s ms) = foldl (\<lambda>x m. effect m x) (data s) applied"
proof (induction ms arbitrary: s)
  case (Cons m ms)
  from Cons.IH [of "deliver m s"] obtain applied where IH: "subseq applied ms" "distinct (map key applied)"
    "key ` set applied \<inter> keys (deliver m s) = {}" "\<forall>m\<in>set applied. takes m (data s)"
    "keys (foldl (\<lambda>s m. deliver m s) (deliver m s) ms) = keys (deliver m s) \<union> key ` set applied"
    "data (foldl (\<lambda>s m. deliver m s) (deliver m s) ms) = foldl (\<lambda>x m. effect m x) (data (deliver m s)) applied"
    unfolding takes_after by blast
  show ?case
  proof (cases "key m \<notin> keys s \<and> takes m (data s)")
    case True
    with taken [of m s] IH show ?thesis
      by (intro exI [of _ "m # applied"]) auto
  next
    case False
    with seen [of m s] refused [of m s] have "data (deliver m s) = data s" "keys (deliver m s) = keys s"
      by blast+
    with IH show ?thesis
      by (intro exI [of _ applied]) auto
  qed
qed (auto intro!: exI [of _ "[]"])

text \<open>What can be taken has its key in the end.\<close>

lemma delivered:
  assumes "m \<in> set ms" and "takes m (data s)"
  shows "key m \<in> keys (foldl (\<lambda>s m. deliver m s) s ms)"
  using assms
proof (induction ms arbitrary: s)
  case (Cons m' ms)
  show ?case
  proof (cases "m' = m")
    case True
    with seen [of m s] taken [of m s] Cons.prems(2) have "key m \<in> keys (deliver m' s)" by auto
    with keys_grow [of "deliver m' s" ms] show ?thesis by auto
  next
    case False
    with Cons show ?thesis by (simp add: takes_after)
  qed
qed simp

end

section \<open>The handler applies a message once\<close>

text \<open>
  What the handler takes: the row exists and the database does not fail.  The hypothesis of the laws: redis
  does not fail, and the database driver has errors of its own.
\<close>

definition takesPayload :: "'d::linordered_idom RepoConfig \<Rightarrow> 'd HVTPayload \<Rightarrow> 'd DB \<Rightarrow> bool" where
  "takesPayload cfg p db \<longleftrightarrow>
     fault cfg (UpdateAccount (hvt_AccountNumber p)) = None \<and> fundsOf db (hvt_AccountNumber p) \<noteq> None"

definition applyPayload :: "'d::linordered_idom RepoConfig \<Rightarrow> 'd HVTPayload \<Rightarrow> 'd DB \<Rightarrow> 'd DB" where
  "applyPayload cfg p db = snd (AdjustAccountBalance cfg (hvt_AccountNumber p) (amt_ValueDecimal (hvt_UpdateAmount p)) db)"

definition driverErrors :: "'d RepoConfig \<Rightarrow> bool" where
  "driverErrors cfg \<longleftrightarrow> (\<forall>c e. fault cfg c = Some e \<longrightarrow> \<not> errors_Is e ErrRequestBeingProcessed)"

definition reliable :: "'d HvtBalanceHandler \<Rightarrow> 'd HvtBalanceHandler" where
  "reliable bh =
     bh\<lparr>hh_cacheFault := (\<lambda>_. None),
        hh_repo := (hh_repo bh)\<lparr>fault := (\<lambda>c. case fault (hh_repo bh) c of
                       Some e \<Rightarrow> if errors_Is e ErrRequestBeingProcessed then None else Some e
                     | None \<Rightarrow> None)\<rparr>\<rparr>"

lemma reliable_id:
  "hh_cacheFault bh = (\<lambda>_. None) \<Longrightarrow> driverErrors (hh_repo bh) \<Longrightarrow> reliable bh = bh"
  by (cases bh; cases "hh_repo bh")
    (auto simp: reliable_def driverErrors_def fun_eq_iff split: option.split)

lemma reliable_cache [simp]: "hh_cacheFault (reliable bh) = (\<lambda>_. None)"
  by (simp add: reliable_def)

lemma reliable_driver: "driverErrors (hh_repo (reliable bh))"
  by (auto simp: driverErrors_def reliable_def split: option.splits if_splits)

lemma errors_Is_wrapErr [simp]: "errors_Is (wrapErr text e) t = errors_Is e t"
  by (cases e) simp_all

lemma Adjust_takes:
  "takesPayload cfg p db \<Longrightarrow>
     AdjustAccountBalance cfg (hvt_AccountNumber p) (amt_ValueDecimal (hvt_UpdateAmount p)) db =
       (Inr (), applyPayload cfg p db)"
  by (auto simp: takesPayload_def applyPayload_def AdjustAccountBalance_def fundsOf_def find_filter
      split: list.splits)

lemma Adjust_refuses:
  assumes "\<not> takesPayload cfg p db" and "driverErrors cfg"
  obtains e where "AdjustAccountBalance cfg (hvt_AccountNumber p) (amt_ValueDecimal (hvt_UpdateAmount p)) db = (Inl e, db)"
    and "\<not> errors_Is e ErrRequestBeingProcessed"
proof (cases "fault cfg (UpdateAccount (hvt_AccountNumber p))")
  case None
  with assms(1) that [of "Sentinel ErrNoRowsAffected"] show thesis
    by (auto simp: takesPayload_def AdjustAccountBalance_def fundsOf_def find_filter split: list.splits)
next
  case (Some e)
  with assms(2) that [of e] show thesis
    by (auto simp: AdjustAccountBalance_def driverErrors_def)
qed

text \<open>What an applied message does to the balances, and to nothing else.\<close>

lemma applyPayload_effect:
  "otherTables (applyPayload cfg p db) = otherTables db"
  "takesPayload cfg p db \<Longrightarrow> actualOf (applyPayload cfg p db) a = actualOf db a + owed [p] a"
  "pendingOf (applyPayload cfg p db) a = pendingOf db a"
proof -
  have untouched: "applyPayload cfg p db = db" if "\<not> takesPayload cfg p db"
    using that by (auto simp: takesPayload_def applyPayload_def AdjustAccountBalance_def fundsOf_def find_filter
        split: list.splits option.splits)
  have taken: "otherTables (applyPayload cfg p db) = otherTables db" "fundsOf db (hvt_AccountNumber p) \<noteq> None"
    "fundsOf (applyPayload cfg p db) = (fundsOf db)(hvt_AccountNumber p :=
       map_option (\<lambda>(act, pend). (act + amt_ValueDecimal (hvt_UpdateAmount p), pend))
         (fundsOf db (hvt_AccountNumber p)))" if "takesPayload cfg p db"
    using AdjustAccountBalance_Ok [OF Adjust_takes [OF that]] by simp_all
  show "otherTables (applyPayload cfg p db) = otherTables db"
    using taken(1) untouched by (cases "takesPayload cfg p db") auto
  show "takesPayload cfg p db \<Longrightarrow> actualOf (applyPayload cfg p db) a = actualOf db a + owed [p] a"
    using taken(2,3) by (auto simp: actualOf_def)
  show "pendingOf (applyPayload cfg p db) a = pendingOf db a"
    using taken(2,3) untouched
    by (cases "takesPayload cfg p db") (auto simp: pendingOf_def split: option.split)
qed
lemma fundsOf_None_iff: "fundsOf db a = None \<longleftrightarrow> a \<notin> row_accountNumber ` set (db_account db)"
  by (auto simp: fundsOf_def find_None_iff)

lemma takesPayload_apply: "takesPayload cfg p' (applyPayload cfg p db) = takesPayload cfg p' db"
proof -
  have "map row_accountNumber (db_account (applyPayload cfg p db)) = map row_accountNumber (db_account db)"
    using applyPayload_effect(1) [of cfg p db] by (simp add: otherTables_def)
  then have "row_accountNumber ` set (db_account (applyPayload cfg p db)) = row_accountNumber ` set (db_account db)"
    by (metis list.set_map)
  then show ?thesis by (simp add: takesPayload_def fundsOf_None_iff)
qed

lemma applied_effect:
  assumes "\<forall>p\<in>set ps. takesPayload cfg p db"
  shows "otherTables (foldl (\<lambda>db p. applyPayload cfg p db) db ps) = otherTables db \<and>
         actualOf (foldl (\<lambda>db p. applyPayload cfg p db) db ps) a = actualOf db a + owed ps a \<and>
         pendingOf (foldl (\<lambda>db p. applyPayload cfg p db) db ps) a = pendingOf db a"
  using assms
proof (induction ps arbitrary: db)
  case (Cons p ps)
  have "\<forall>p'\<in>set ps. takesPayload cfg p' (applyPayload cfg p db)"
    using Cons.prems by (simp add: takesPayload_apply)
  from Cons.IH [OF this] Cons.prems applyPayload_effect [of cfg p db] owed_simps(2) [of "[p]" ps a] show ?case
    by simp
qed simp

interpretation hvt: keyed_consumer "\<lambda>p. consumeMessage (reliable bh) (Inr p)" keyOf "\<lambda>s. dom (hs_cache s)" hs_db
    "takesPayload (hh_repo (reliable bh))" "applyPayload (hh_repo (reliable bh))"
proof unfold_locales
  show "takesPayload cfg p' (applyPayload cfg p db) = takesPayload cfg p' db" for cfg p' p and db :: "'a DB"
    by (rule takesPayload_apply)
next
  fix p and s :: "'a HvtState"
  let ?bh = "reliable bh"
  show "hs_db (consumeMessage ?bh (Inr p) s) = hs_db s \<and> dom (hs_cache (consumeMessage ?bh (Inr p) s)) = dom (hs_cache s)"
    if "keyOf p \<in> dom (hs_cache s)"
    using that by (auto simp: consumeMessage_def SetIfNotExists_def Ack_def)
  assume new: "keyOf p \<notin> dom (hs_cache s)"
  show "hs_db (consumeMessage ?bh (Inr p) s) = applyPayload (hh_repo ?bh) p (hs_db s) \<and>
        dom (hs_cache (consumeMessage ?bh (Inr p) s)) = insert (keyOf p) (dom (hs_cache s))"
    if "takesPayload (hh_repo ?bh) p (hs_db s)"
    using new Adjust_takes [OF that]
    by (auto simp: consumeMessage_def SetIfNotExists_def Ack_def processMessage_def wrapping_def
        BalanceServiceAdjust_def)
  show "hs_db (consumeMessage ?bh (Inr p) s) = hs_db s \<and> dom (hs_cache (consumeMessage ?bh (Inr p) s)) = dom (hs_cache s)"
    if refuses: "\<not> takesPayload (hh_repo ?bh) p (hs_db s)"
  proof -
    obtain e where "AdjustAccountBalance (hh_repo ?bh) (hvt_AccountNumber p) (amt_ValueDecimal (hvt_UpdateAmount p))
        (hs_db s) = (Inl e, hs_db s)" and "\<not> errors_Is e ErrRequestBeingProcessed"
      using Adjust_refuses [OF refuses reliable_driver] .
    with new show ?thesis
      by (auto simp: consumeMessage_def SetIfNotExists_def Ack_def Nack_def Del_def Let_def processMessage_def
          wrapping_def BalanceServiceAdjust_def)
  qed
qed

text \<open>
  C12: the consumer applies each message at most once, whatever is delivered again and in whatever order:
  the messages it applied have different keys, new to the cache, and their amounts are exactly what the
  accounts gained.  No message is lost that the database can take.
\<close>

theorem hvt_applied_once:
  fixes bh :: "'d::linordered_idom HvtBalanceHandler"
  assumes "hh_cacheFault bh = (\<lambda>_. None)" and "driverErrors (hh_repo bh)"
    and "s' = consumeMessages bh (map Inr ps) s"
  shows "\<exists>applied. subseq applied ps \<and> distinct (map keyOf applied) \<and>
           keyOf ` set applied \<inter> dom (hs_cache s) = {} \<and>
           dom (hs_cache s') = dom (hs_cache s) \<union> keyOf ` set applied \<and>
           (\<forall>a. actualOf (hs_db s') a = actualOf (hs_db s) a + owed applied a \<and>
                pendingOf (hs_db s') a = pendingOf (hs_db s) a) \<and>
           otherTables (hs_db s') = otherTables (hs_db s) \<and>
           (\<forall>p\<in>set ps. takesPayload (hh_repo bh) p (hs_db s) \<longrightarrow> keyOf p \<in> dom (hs_cache s'))"
proof -
  note rel = reliable_id [OF assms(1,2)]
  have run: "s' = foldl (\<lambda>s p. consumeMessage (reliable bh) (Inr p) s) s ps"
    by (simp add: assms(3) consumeMessages_def rel foldl_map)
  from hvt.deliveries [where bh = bh and ms = ps and s = s, folded run, unfolded rel]
  obtain applied where applied: "subseq applied ps" "distinct (map keyOf applied)"
    "keyOf ` set applied \<inter> dom (hs_cache s) = {}" "\<forall>p\<in>set applied. takesPayload (hh_repo bh) p (hs_db s)"
    "dom (hs_cache s') = dom (hs_cache s) \<union> keyOf ` set applied"
    "hs_db s' = foldl (\<lambda>db p. applyPayload (hh_repo bh) p db) (hs_db s) applied"
    by (elim exE conjE)
  note delivered = hvt.delivered [where bh = bh and ms = ps and s = s, folded run, unfolded rel]
  have "\<forall>p\<in>set ps. takesPayload (hh_repo bh) p (hs_db s) \<longrightarrow> keyOf p \<in> dom (hs_cache s')"
    using delivered by simp
  with applied(1-3,5) applied_effect [OF applied(4)] applied(6) show ?thesis
    by (intro exI [of _ applied] conjI allI) simp_all
qed

end
