(* ===== verification/WalletSystem.thy ===== *)
theory WalletSystem
  imports HVTConsumer
begin

text \<open>
  The wallet service and the consumer of its high-volume messages as one system: calls of the service and
  deliveries of messages it published, in any order and any number of times, by services of any
  configuration.  The invariant relates the balances, the messages that are still to be applied
  and the ledger; reachable states are the reflexive transitive closure of the steps.
\<close>

section \<open>The system\<close>

record 'd System =
  sys_world :: "'d World"
  sys_cache :: cacheMap
  sys_dlq :: "('d hvtMessage \<times> err) list"
  sys_marked :: "'d hvtMessage list"

definition consumerState :: "'d System \<Rightarrow> 'd HvtState" where
  "consumerState s =
     \<lparr>hs_db = w_db (sys_world s), hs_cache = sys_cache s, hs_dlq = sys_dlq s, hs_marked = sys_marked s\<rparr>"

definition deliverTo :: "'d::linordered_idom HvtBalanceHandler \<Rightarrow> 'd hvtMessage \<Rightarrow> 'd System \<Rightarrow> 'd System" where
  "deliverTo bh message s =
     (let h = consumeMessage bh message (consumerState s)
      in \<lparr>sys_world = (sys_world s)\<lparr>w_db := hs_db h\<rparr>, sys_cache = hs_cache h, sys_dlq = hs_dlq h,
          sys_marked = hs_marked h\<rparr>)"

text \<open>
  What is asked of a service: Go visits each key of a map once; its messages reach Kafka; only the given
  accounts are kept off the database; and the text of a UUID has no colon, which separates the parts of a
  consumer's key.
\<close>

definition serves :: "string set \<Rightarrow> 'd ServiceConfig \<Rightarrow> bool" where
  "serves off svc \<longleftrightarrow>
     visitsAll svc \<and> (\<forall>p. publishHVT svc p = None) \<and> offDatabase svc \<subseteq> off \<and>
     (\<forall>n. CHR '':'' \<notin> set (newUUIDText svc n))"

text \<open>
  The steps.  A call may fail in any way, except that a settlement that published messages inside its database
  transaction does not roll that back afterwards.
\<close>

inductive systemStep :: "string set \<Rightarrow> 'd::linordered_idom System \<Rightarrow> 'd System \<Rightarrow> bool" for off where
  create: "serves off svc \<Longrightarrow> CreateTransaction svc req (sys_world s) = (answer, w') \<Longrightarrow>
             systemStep off s (s\<lparr>sys_world := w'\<rparr>)"
| settle: "serves off svc \<Longrightarrow> ProcessReservedTransaction svc req (sys_world s) = ((t, e), w') \<Longrightarrow>
             e = None \<or> w_hvt w' = w_hvt (sys_world s) \<Longrightarrow> systemStep off s (s\<lparr>sys_world := w'\<rparr>)"
| deliver: "hh_cacheFault bh = (\<lambda>_. None) \<Longrightarrow> driverErrors (hh_repo bh) \<Longrightarrow>
             p \<in> set (w_hvt (sys_world s)) \<Longrightarrow> systemStep off s (deliverTo bh (Inr p) s)"

text \<open>The messages that no consumer has applied yet.\<close>

definition unapplied :: "'d System \<Rightarrow> 'd HVTPayload list" where
  "unapplied s = filter (\<lambda>p. keyOf p \<notin> dom (sys_cache s)) (w_hvt (sys_world s))"

section \<open>Keys of messages\<close>

lemma keyOf_eqD:
  assumes "keyOf p = keyOf q" and "CHR '':'' \<notin> set (hvt_WalletTransactionId p)"
    and "CHR '':'' \<notin> set (hvt_WalletTransactionId q)"
  shows "hvt_WalletTransactionId p = hvt_WalletTransactionId q"
proof -
  have split: "takeWhile (\<lambda>c. c \<noteq> CHR '':'') (i @ CHR '':'' # rest) = i" if "CHR '':'' \<notin> set i" for i rest
    using that by (subst takeWhile_append2) auto
  from assms(1) have "hvt_WalletTransactionId p @ CHR '':'' # hvt_RefNumber p @ CHR '':'' # hvt_AccountNumber p =
      hvt_WalletTransactionId q @ CHR '':'' # hvt_RefNumber q @ CHR '':'' # hvt_AccountNumber q"
    by (simp add: keyOf_def createIdempotencyKey_def)
  then show ?thesis
    using split [OF assms(2)] split [OF assms(3)] by metis
qed

lemma sentFor_keys:
  assumes "sentFor i ref order ps"
  shows "distinct (map keyOf ps)"
proof -
  have "inj_on keyOf (set ps)"
    using assms by (auto simp: sentFor_def inj_on_def keyOf_def createIdempotencyKey_def distinct_map)
  moreover have "distinct ps"
    using assms by (auto simp: sentFor_def distinct_map)
  ultimately show ?thesis by (simp add: distinct_map)
qed

section \<open>The invariant\<close>

definition consistent :: "string set \<Rightarrow> (string \<Rightarrow> 'd::linordered_idom) \<Rightarrow> 'd System \<Rightarrow> bool" where
  "consistent off base s \<longleftrightarrow>
     (let db = w_db (sys_world s); ps = w_hvt (sys_world s); wallets = set (db_wallet_transaction db)
      in uniqueKeys db \<and>
         (\<forall>x\<in>wallets. CHR '':'' \<notin> set (wt_ID x) \<and> (wt_Status x = ''PENDING'' \<longrightarrow> wt_TransactionFlow x \<noteq> ''cashin'')) \<and>
         (\<forall>p\<in>set ps. \<exists>x\<in>wallets. wt_ID x = hvt_WalletTransactionId p \<and> wt_Status x \<noteq> ''PENDING'') \<and>
         distinct (map keyOf ps) \<and> dom (sys_cache s) \<subseteq> keyOf ` set ps \<and>
         (\<forall>a. a \<notin> off \<longrightarrow> actualOf db a + owed (unapplied s) a - netCredit (db_transaction db) a = base a))"

lemma netCredit_append: "netCredit (ts @ us) a = netCredit ts a + netCredit us a"
  by (simp add: netCredit_def)

text \<open>Publishing the messages of a wallet transaction that has none yet.\<close>

lemma fresh_messages:
  assumes sent: "sentFor i ref order new" and colon: "CHR '':'' \<notin> set i"
    and old: "\<forall>p\<in>set ps. CHR '':'' \<notin> set (hvt_WalletTransactionId p) \<and> hvt_WalletTransactionId p \<noteq> i"
    and "distinct (map keyOf ps)" and "dom m \<subseteq> keyOf ` set ps"
  shows "distinct (map keyOf (ps @ new)) \<and>
         filter (\<lambda>p. keyOf p \<notin> dom m) (ps @ new) = filter (\<lambda>p. keyOf p \<notin> dom m) ps @ new"
proof -
  have new: "hvt_WalletTransactionId p = i" if "p \<in> set new" for p
    using sent that by (simp add: sentFor_def)
  have "keyOf ` set ps \<inter> keyOf ` set new = {}"
    using keyOf_eqD new old colon by fastforce
  with assms sentFor_keys [OF sent] show ?thesis
    by (auto simp: filter_id_conv)
qed

section \<open>Every step keeps it\<close>

text \<open>A call that commits: rows appended to the ledger, messages of a settled wallet transaction, and balances that follow.\<close>

lemma consistent_commit:
  fixes s :: "'d::linordered_idom System"
  assumes inv: "consistent off base s"
    and keys: "uniqueKeys (w_db w')"
    and wallets: "\<forall>x\<in>set (db_wallet_transaction (w_db w')).
        CHR '':'' \<notin> set (wt_ID x) \<and> (wt_Status x = ''PENDING'' \<longrightarrow> wt_TransactionFlow x \<noteq> ''cashin'')"
    and settled: "\<forall>x\<in>set (db_wallet_transaction (w_db (sys_world s))). wt_Status x \<noteq> ''PENDING'' \<longrightarrow>
        (\<exists>y\<in>set (db_wallet_transaction (w_db w')). wt_ID y = wt_ID x \<and> wt_Status y \<noteq> ''PENDING'')"
    and hvt: "w_hvt w' = w_hvt (sys_world s) @ new" and sent: "sentFor i ref order new"
    and mine: "new \<noteq> [] \<Longrightarrow> CHR '':'' \<notin> set i \<and>
        (\<exists>y\<in>set (db_wallet_transaction (w_db w')). wt_ID y = i \<and> wt_Status y \<noteq> ''PENDING'') \<and>
        (\<forall>x\<in>set (db_wallet_transaction (w_db (sys_world s))). wt_ID x = i \<longrightarrow> wt_Status x = ''PENDING'')"
    and ledger: "db_transaction (w_db w') = db_transaction (w_db (sys_world s)) @ rows"
    and accounts: "\<And>a. a \<notin> off \<Longrightarrow>
        actualOf (w_db w') a + owed new a = actualOf (w_db (sys_world s)) a + netCredit rows a"
  shows "consistent off base (s\<lparr>sys_world := w'\<rparr>)"
proof -
  let ?db = "w_db (sys_world s)" and ?ps = "w_hvt (sys_world s)"
  note inv = inv [unfolded consistent_def Let_def]
  have owner: "\<exists>x\<in>set (db_wallet_transaction ?db). wt_ID x = hvt_WalletTransactionId p \<and> wt_Status x \<noteq> ''PENDING''"
    if "p \<in> set ?ps" for p
    using inv that by blast
  have messages: "\<exists>y\<in>set (db_wallet_transaction (w_db w')).
      wt_ID y = hvt_WalletTransactionId p \<and> wt_Status y \<noteq> ''PENDING''" if p: "p \<in> set ?ps" for p
    using owner [OF p] settled by fastforce
  have fresh: "distinct (map keyOf (?ps @ new)) \<and>
      filter (\<lambda>p. keyOf p \<notin> dom (sys_cache s)) (?ps @ new) = unapplied s @ new"
  proof (cases "new = []")
    case True
    with inv show ?thesis by (simp add: unapplied_def)
  next
    case False
    have "\<forall>p\<in>set ?ps. CHR '':'' \<notin> set (hvt_WalletTransactionId p) \<and> hvt_WalletTransactionId p \<noteq> i"
      using owner inv mine [OF False] by metis
    from fresh_messages [where m = "sys_cache s", OF sent _ this] mine [OF False] inv show ?thesis
      by (simp add: unapplied_def)
  qed
  have "hvt_WalletTransactionId p = i" if "p \<in> set new" for p
    using sent that by (simp add: sentFor_def)
  with mine messages have all: "\<forall>p\<in>set (?ps @ new). \<exists>y\<in>set (db_wallet_transaction (w_db w')).
      wt_ID y = hvt_WalletTransactionId p \<and> wt_Status y \<noteq> ''PENDING''"
    by (cases "new = []") auto
  have "actualOf (w_db w') a + owed (unapplied s @ new) a - netCredit (db_transaction ?db @ rows) a = base a"
    if "a \<notin> off" for a
  proof -
    have "actualOf ?db a + owed (unapplied s) a - netCredit (db_transaction ?db) a = base a"
      using inv that by blast
    with accounts [OF that] show ?thesis
      unfolding netCredit_append owed_simps by linarith
  qed
  with inv keys wallets all fresh show ?thesis
    unfolding consistent_def Let_def by (auto simp: unapplied_def hvt ledger)
qed

lemma create_consistent:
  assumes inv: "consistent off base s" and serves: "serves off svc"
    and call: "CreateTransaction svc req (sys_world s) = ((t, e), w')"
  shows "consistent off base (s\<lparr>sys_world := w'\<rparr>)"
proof -
  let ?w = "sys_world s"
  have keys: "uniqueKeys (w_db ?w)" and visits: "visitsAll svc"
    using inv serves by (simp_all add: consistent_def serves_def Let_def)
  from call keys visits show ?thesis
  proof (cases rule: create_outcome)
    case unchanged
    with inv show ?thesis by (simp add: consistent_def unapplied_def Let_def)
  next
    case (committed created rows payloads children)
    have hvt: "w_hvt w' = w_hvt ?w @ payloads"
      using committed(10) serves by (simp add: serves_def)
    from committed(11) obtain order where sent: "sentFor (wt_ID created) (wt_RefNumber created) order payloads" ..
    have colon: "CHR '':'' \<notin> set (wt_ID created)"
      using committed(4) serves by (simp add: serves_def)
    have final: "payloads \<noteq> [] \<Longrightarrow> wt_Status created \<noteq> ''PENDING''"
      using committed(5,12) by auto
    show ?thesis
    proof (rule consistent_commit [OF inv committed(14) _ _ hvt sent _ committed(9)])
      show "\<forall>x\<in>set (db_wallet_transaction (w_db w')).
          CHR '':'' \<notin> set (wt_ID x) \<and> (wt_Status x = ''PENDING'' \<longrightarrow> wt_TransactionFlow x \<noteq> ''cashin'')"
        using inv committed(2,5,7,8) colon by (auto simp: consistent_def Let_def)
      show "actualOf (w_db w') a + owed payloads a = actualOf (w_db ?w) a + netCredit rows a" if "a \<notin> off" for a
        using committed(13) serves that by (auto simp: accountsFor_def serves_def)
    qed (use committed(2,3) colon final in \<open>auto simp: image_iff\<close>)
  qed
qed

lemma settle_consistent:
  fixes s :: "'a::linordered_idom System"
  assumes inv: "consistent off base s" and serves: "serves off svc"
    and call: "ProcessReservedTransaction svc req (sys_world s) = ((t, e), w')"
    and kept: "e = None \<or> w_hvt w' = w_hvt (sys_world s)"
  shows "consistent off base (s\<lparr>sys_world := w'\<rparr>)"
proof -
  let ?w = "sys_world s"
  have keys: "uniqueKeys (w_db ?w)" and visits: "visitsAll svc"
    using inv serves by (simp_all add: consistent_def serves_def Let_def)
  from call keys visits show ?thesis
  proof (cases rule: settle_outcome)
    case unchanged
    with inv show ?thesis by simp
  next
    case failed
    with inv kept show ?thesis by (simp add: consistent_def unapplied_def Let_def)
  next
    case (committed w0 isCommit metadata rows payloads children)
    from committed(1) have w0: "w0 \<in> set (db_wallet_transaction (w_db ?w))" "wt_ID w0 = us_TransactionId req"
      by (auto simp: find_Some_iff)
    from committed(8) obtain order where sent: "sentFor (us_TransactionId req) (wt_RefNumber w0) order payloads" ..
    have only: "x = w0" if "x \<in> set (db_wallet_transaction (w_db ?w))" "wt_ID x = us_TransactionId req" for x
      using keys w0 that by (metis uniqueKeys_def distinct_map inj_onD)
    have flow: "wt_TransactionFlow w0 \<noteq> ''cashin''" and colon: "CHR '':'' \<notin> set (us_TransactionId req)"
      using inv w0 committed(2) by (auto simp: consistent_def Let_def)
    define f :: "'a WalletTransaction \<Rightarrow> 'a WalletTransaction" where "f = (\<lambda>x. if wt_ID x = us_TransactionId req then
        x\<lparr>wt_Status := if isCommit then ''SUCCESS'' else ''CANCEL'',
          wt_TransactionTime := settleTime svc req, wt_Metadata := metadata\<rparr> else x)"
    have f: "wt_ID (f x) = wt_ID x" "wt_TransactionFlow (f x) = wt_TransactionFlow x"
      "wt_Status x \<noteq> ''PENDING'' \<or> wt_ID x = us_TransactionId req \<Longrightarrow> wt_Status (f x) \<noteq> ''PENDING''"
      "wt_Status (f x) = ''PENDING'' \<Longrightarrow> wt_Status x = ''PENDING''" for x
      by (auto simp: f_def split: if_splits)
    have wallets: "set (db_wallet_transaction (w_db w')) = f ` set (db_wallet_transaction (w_db ?w))"
      by (simp add: committed(4) flip: f_def)
    show ?thesis
    proof (rule consistent_commit [OF inv committed(10) _ _ committed(7) sent _ committed(5)])
      show "\<forall>x\<in>set (db_wallet_transaction (w_db w')).
          CHR '':'' \<notin> set (wt_ID x) \<and> (wt_Status x = ''PENDING'' \<longrightarrow> wt_TransactionFlow x \<noteq> ''cashin'')"
        using inv f(1,2) by (auto simp: wallets consistent_def Let_def dest: f(4))
      show "actualOf (w_db w') a + owed payloads a = actualOf (w_db ?w) a + netCredit rows a" if "a \<notin> off" for a
        using committed(9) [OF flow] serves that by (auto simp: accountsFor_def serves_def)
      show "\<forall>x\<in>set (db_wallet_transaction (w_db ?w)). wt_Status x \<noteq> ''PENDING'' \<longrightarrow>
        (\<exists>y\<in>set (db_wallet_transaction (w_db w')). wt_ID y = wt_ID x \<and> wt_Status y \<noteq> ''PENDING'')"
        unfolding wallets using f(1,3) by blast
      show "CHR '':'' \<notin> set (us_TransactionId req) \<and>
        (\<exists>y\<in>set (db_wallet_transaction (w_db w')). wt_ID y = us_TransactionId req \<and> wt_Status y \<noteq> ''PENDING'') \<and>
        (\<forall>x\<in>set (db_wallet_transaction (w_db ?w)). wt_ID x = us_TransactionId req \<longrightarrow> wt_Status x = ''PENDING'')"
      proof (intro conjI ballI impI)
        have "f w0 \<in> set (db_wallet_transaction (w_db w'))"
          unfolding wallets using w0(1) by (rule imageI)
        moreover have "wt_ID (f w0) = us_TransactionId req" "wt_Status (f w0) \<noteq> ''PENDING''"
          using f(1,3) [of w0] w0(2) by simp_all
        ultimately show "\<exists>y\<in>set (db_wallet_transaction (w_db w')).
            wt_ID y = us_TransactionId req \<and> wt_Status y \<noteq> ''PENDING''" by blast
        show "wt_Status x = ''PENDING''"
          if "x \<in> set (db_wallet_transaction (w_db ?w))" "wt_ID x = us_TransactionId req" for x
          using only [OF that] committed(2) by simp
      qed (rule colon)
    qed
  qed
qed

text \<open>Delivering a message that was published: applied once, and refused without effect.\<close>

lemma deliver_consistent:
  assumes inv: "consistent off base s" and cache: "hh_cacheFault bh = (\<lambda>_. None)" and driver: "driverErrors (hh_repo bh)"
    and p: "p \<in> set (w_hvt (sys_world s))"
  shows "consistent off base (deliverTo bh (Inr p) s)"
proof -
  let ?h = "consumeMessage bh (Inr p) (consumerState s)" and ?db = "w_db (sys_world s)"
  note rel = reliable_id [OF cache driver]
  note law = hvt.seen [where bh = bh and m = p and s = "consumerState s", unfolded rel]
    hvt.taken [where bh = bh and m = p and s = "consumerState s", unfolded rel]
    hvt.refused [where bh = bh and m = p and s = "consumerState s", unfolded rel]
  have start: "hs_db (consumerState s) = ?db" "hs_cache (consumerState s) = sys_cache s"
    by (simp_all add: consumerState_def)
  have after: "w_db (sys_world (deliverTo bh (Inr p) s)) = hs_db ?h"
    "w_hvt (sys_world (deliverTo bh (Inr p) s)) = w_hvt (sys_world s)"
    "sys_cache (deliverTo bh (Inr p) s) = hs_cache ?h"
    by (simp_all add: deliverTo_def Let_def)
  show ?thesis
  proof (cases "keyOf p \<notin> dom (sys_cache s) \<and> takesPayload (hh_repo bh) p ?db")
    case False
    with law have "hs_db ?h = ?db" "dom (hs_cache ?h) = dom (sys_cache s)"
      unfolding start by blast+
    with inv show ?thesis
      unfolding consistent_def Let_def unapplied_def after by simp
  next
    case True
    with law(2) have h: "hs_db ?h = applyPayload (hh_repo bh) p ?db"
      "dom (hs_cache ?h) = insert (keyOf p) (dom (sys_cache s))"
      unfolding start by blast+
    note effect = applyPayload_effect [of "hh_repo bh" p ?db]
    have others: "db_wallet_transaction (hs_db ?h) = db_wallet_transaction ?db"
      "db_transaction (hs_db ?h) = db_transaction ?db"
      "map row_accountNumber (db_account (hs_db ?h)) = map row_accountNumber (db_account ?db)"
      using effect(1) by (simp_all add: h otherTables_def)
    have remaining: "owed (filter (\<lambda>q. keyOf q \<notin> insert (keyOf p) K) ps) a + owed [p] a =
        owed (filter (\<lambda>q. keyOf q \<notin> K) ps) a"
      if "distinct (map keyOf ps)" "p \<in> set ps" "keyOf p \<notin> K" for ps K a
      using that
    proof (induction ps)
      case (Cons q ps)
      have split: "owed (q # ps') a = owed [q] a + owed ps' a" for ps'
        by (simp add: owed_def)
      show ?case
      proof (cases "q = p")
        case True
        with Cons.prems(1) have "filter (\<lambda>q. keyOf q \<notin> insert (keyOf p) K) ps = filter (\<lambda>q. keyOf q \<notin> K) ps"
          by (auto intro!: filter_cong simp: rev_image_eqI)
        with True Cons.prems(3) split [of "filter (\<lambda>q. keyOf q \<notin> K) ps"] show ?thesis
          by (simp add: add.commute)
      next
        case False
        with Cons.prems have "keyOf q \<noteq> keyOf p" "p \<in> set ps" "distinct (map keyOf ps)"
          by (auto simp: rev_image_eqI)
        with Cons.IH Cons.prems(3) split show ?thesis
          by (simp add: add.assoc)
      qed
    qed simp
    have "actualOf (hs_db ?h) a + owed (filter (\<lambda>q. keyOf q \<notin> dom (hs_cache ?h)) (w_hvt (sys_world s))) a =
        actualOf ?db a + owed (unapplied s) a" for a
    proof -
      have "actualOf (hs_db ?h) a = actualOf ?db a + owed [p] a"
        using effect(2) True by (simp add: h)
      moreover have "owed (filter (\<lambda>q. keyOf q \<notin> dom (hs_cache ?h)) (w_hvt (sys_world s))) a + owed [p] a =
          owed (unapplied s) a"
        unfolding h unapplied_def by (rule remaining) (use inv True p in \<open>auto simp: consistent_def Let_def\<close>)
      ultimately show ?thesis by (simp add: algebra_simps)
    qed
    with inv p show ?thesis
      unfolding consistent_def Let_def unapplied_def [of "deliverTo bh (Inr p) s"] after uniqueKeys_def others
      by (auto simp: h)
  qed
qed

lemma step_consistent: "systemStep off s s' \<Longrightarrow> consistent off base s \<Longrightarrow> consistent off base s'"
proof (induction rule: systemStep.induct)
  case (create svc req s answer w')
  then show ?case by (cases answer) (auto intro: create_consistent)
next
  case (settle svc req s t e w')
  then show ?case by (auto intro: settle_consistent)
next
  case (deliver bh p s)
  then show ?case by (auto intro: deliver_consistent)
qed

lemma steps_consistent: "(systemStep off)\<^sup>*\<^sup>* s s' \<Longrightarrow> consistent off base s \<Longrightarrow> consistent off base s'"
  by (induction rule: rtranclp_induct) (auto intro: step_consistent)

section \<open>Wallet transactions over the life of the system\<close>

text \<open>A row stays, and only a pending one changes: its status, its time and its metadata, once.\<close>

definition settledFrom :: "'d WalletTransaction \<Rightarrow> 'd WalletTransaction \<Rightarrow> bool" where
  "settledFrom x x' \<longleftrightarrow>
     x' = x \<or>
     (wt_Status x = ''PENDING'' \<and>
      (\<exists>status time metadata. status \<in> {''SUCCESS'', ''CANCEL''} \<and>
         x' = x\<lparr>wt_Status := status, wt_TransactionTime := time, wt_Metadata := metadata\<rparr>))"

definition rowsFollow :: "'d DB \<Rightarrow> 'd DB \<Rightarrow> bool" where
  "rowsFollow db db' \<longleftrightarrow>
     (\<exists>xs new. db_wallet_transaction db' = xs @ new \<and> list_all2 settledFrom (db_wallet_transaction db) xs)"

lemma settledFrom_trans: "settledFrom x y \<Longrightarrow> settledFrom y z \<Longrightarrow> settledFrom x z"
  by (auto simp: settledFrom_def)

lemma settledFrom_refl: "list_all2 settledFrom xs xs"
  by (rule list.rel_refl) (simp add: settledFrom_def)

lemma rowsFollow_append:
  "db_wallet_transaction db' = db_wallet_transaction db @ new \<Longrightarrow> rowsFollow db db'"
  unfolding rowsFollow_def using settledFrom_refl by blast

lemma rowsFollow_refl [simp]: "rowsFollow db db"
  by (rule rowsFollow_append [of _ _ "[]"]) simp

lemma rowsFollow_trans:
  assumes "rowsFollow db1 db2" and "rowsFollow db2 db3"
  shows "rowsFollow db1 db3"
proof -
  from assms obtain xs new ys new' where
    "db_wallet_transaction db2 = xs @ new" "list_all2 settledFrom (db_wallet_transaction db1) xs"
    "db_wallet_transaction db3 = ys @ new'" "list_all2 settledFrom (xs @ new) ys"
    by (auto simp: rowsFollow_def)
  moreover from this(4) obtain us vs where "ys = us @ vs" "list_all2 settledFrom xs us"
    by (auto simp: list_all2_append1)
  moreover have "list_all2 settledFrom (db_wallet_transaction db1) us"
    by (rule list_all2_trans [OF _ calculation(2,6)]) (rule settledFrom_trans)
  ultimately show ?thesis by (auto simp: rowsFollow_def)
qed

lemma step_rows:
  assumes "systemStep off s s'" and "uniqueKeys (w_db (sys_world s))"
  shows "uniqueKeys (w_db (sys_world s')) \<and> rowsFollow (w_db (sys_world s)) (w_db (sys_world s'))"
  using assms
proof (cases rule: systemStep.cases)
  case (create svc req answer w')
  obtain t e where answer: "answer = (t, e)" by fastforce
  have visits: "visitsAll svc" using create(2) by (simp add: serves_def)
  from create(3) [unfolded answer] assms(2) visits show ?thesis
    by (cases rule: create_outcome)
      (use assms(2) in \<open>auto simp: create(1) uniqueKeys_def intro: rowsFollow_append
        rowsFollow_append [of _ _ "[]"]\<close>)
next
  case (settle svc req t e w')
  have visits: "visitsAll svc" using settle(2) by (simp add: serves_def)
  from settle(3) assms(2) visits show ?thesis
  proof (cases rule: settle_outcome)
    case (committed w0 isCommit metadata rows payloads children)
    have only: "wt_Status x = ''PENDING''"
      if "x \<in> set (db_wallet_transaction (w_db (sys_world s)))" "wt_ID x = us_TransactionId req" for x
    proof -
      from committed(1) have "w0 \<in> set (db_wallet_transaction (w_db (sys_world s)))" "wt_ID w0 = us_TransactionId req"
        by (auto simp: find_Some_iff)
      with that assms(2) have "x = w0" by (metis uniqueKeys_def distinct_map inj_onD)
      with committed(2) show ?thesis by simp
    qed
    have "list_all2 settledFrom (db_wallet_transaction (w_db (sys_world s))) (db_wallet_transaction (w_db w'))"
      unfolding committed(4) using only
      by (auto simp: list_all2_conv_all_nth settledFrom_def)
    with committed(10) show ?thesis
      by (auto simp: settle(1) rowsFollow_def intro: exI [of _ "[]"])
  qed (use assms(2) in \<open>auto simp: settle(1)\<close>)
next
  case (deliver bh p)
  note rel = reliable_id [OF deliver(2,3)]
  have "hs_db (consumeMessage bh (Inr p) (consumerState s)) = w_db (sys_world s) \<or>
      hs_db (consumeMessage bh (Inr p) (consumerState s)) = applyPayload (hh_repo bh) p (w_db (sys_world s))"
    using hvt.seen [where bh = bh and m = p and s = "consumerState s", unfolded rel]
      hvt.taken [where bh = bh and m = p and s = "consumerState s", unfolded rel]
      hvt.refused [where bh = bh and m = p and s = "consumerState s", unfolded rel]
    by (auto simp: consumerState_def)
  with applyPayload_effect(1) [of "hh_repo bh" p "w_db (sys_world s)"] assms(2) show ?thesis
    by (auto simp: deliver(1) deliverTo_def Let_def otherTables_def uniqueKeys_def
        intro: rowsFollow_append [of _ _ "[]"])
qed

lemma steps_rows:
  "(systemStep off)\<^sup>*\<^sup>* s s' \<Longrightarrow> uniqueKeys (w_db (sys_world s)) \<Longrightarrow>
     uniqueKeys (w_db (sys_world s')) \<and> rowsFollow (w_db (sys_world s)) (w_db (sys_world s'))"
  by (induction rule: rtranclp_induct) (auto dest: step_rows intro: rowsFollow_trans)

end
