(* ===== verification/Scenario.thy ===== *)
theory Scenario
  imports WalletOutcomes "HOL-Library.Char_ord" "HOL-Library.List_Lexorder"
begin

text \<open>
  A concrete service on which the theorems are applied: two accounts, one of high volume, and a cash-out
  of 100 that the transformer \<open>COTGC\<close> turns into one ledger request.
\<close>

definition exampleRow :: "string \<Rightarrow> rat \<Rightarrow> rat \<Rightarrow> int \<Rightarrow> bool \<Rightarrow> rat AccountRow" where
  "exampleRow n actual pending ver hvt =
     \<lparr>row_accountNumber = n, row_t24AccountNumber = None, row_actualBalance = actual,
      row_pendingBalance = pending, row_isHvt = hvt, row_version = ver, row_updatedAt = 1\<rparr>"

definition exampleState ::
  "rat \<Rightarrow> rat \<Rightarrow> int \<Rightarrow> rat \<Rightarrow> int \<Rightarrow> rat WalletTransaction list \<Rightarrow> rat Transaction list \<Rightarrow> rat DB" where
  "exampleState actual pending ver parked hver wallets ledger =
     \<lparr>db_account = [exampleRow ''ACC'' actual pending ver False, exampleRow ''HOLD'' parked 0 hver True],
      db_feature = Map.empty, db_wallet_transaction = wallets, db_transaction = ledger\<rparr>"

definition exampleRepo :: "err option \<Rightarrow> rat RepoConfig" where
  "exampleRepo cf =
     \<lparr>AccountFeatureConfig = [''customer'' \<mapsto>
        \<lparr>fc_BalanceRangeMax = 0, fc_AllowedNegativeTrxType = [], fc_NegativeBalanceAllowed = False,
         fc_NegativeLimit = 0\<rparr>],
      SystemAccounts = [''SYS''], SkipBalanceCheckAccountNumber = [], OperationalReceivables = [],
      IgnoredBalanceVariant = Ok None, BalanceLimitToggle = False, now = 1, thirtyDaysAgo = 0,
      decimalText = (\<lambda>_. ''n''), fault = (\<lambda>c. if c = CommitTx then cf else None), panicError = ErrorMsg ''panic''\<rparr>"

text \<open>Some order that visits every key of a map once; the accounts of the example come first.\<close>

definition exampleOrder :: "rat balances \<Rightarrow> string list" where
  "exampleOrder m =
     filter (\<lambda>a. m a \<noteq> None) [''ACC'', ''HOLD''] @ sorted_list_of_set (dom m - {''ACC'', ''HOLD''})"

definition exampleService :: "err option \<Rightarrow> err option \<Rightarrow> rat ServiceConfig" where
  "exampleService cf nf =
     \<lparr>repo = (exampleRepo cf), environment = (\<lambda>_. exampleEnv), visitOrder = exampleOrder,
      ExcludedBalanceUpdateAccountNumbers = [], AcceptedTransactionType = [''COTGC''],
      AsyncWalletTransactionForClients = [], LceRollout = False, variantTransactionTypes = Ok [],
      GetListTransactionTypeCode = Ok [], GetAccountNumberEntity = (\<lambda>_. Ok Map.empty),
      parseRFC3339 = (\<lambda>_. Some 0), jsonMarshal = (\<lambda>_. Ok ''{}''), newUUIDText = (\<lambda>n. replicate (n + 1) CHR ''w''),
      addedNanoSecond = 0, publishHVT = (\<lambda>_. None), publishAsync = (\<lambda>_. None),
      publishNotification = (\<lambda>_. nf), toAcuanLib = (\<lambda>_. None), errorText = (\<lambda>_. ''error'')\<rparr>"

definition exampleWorld :: "rat World" where
  "exampleWorld = \<lparr>w_db = exampleState 200 0 1 0 1 [] [], w_hvt = [], w_notified = [], w_async = [], w_drawn = 0\<rparr>"

definition exampleRequest :: "bool \<Rightarrow> rat CreateWalletTransactionRequest" where
  "exampleRequest isReserved =
     \<lparr>cw_IsReserved = isReserved, cw_AccountNumber = ''ACC'', cw_RefNumber = ''REF'',
      cw_TransactionType = ''COTGC'', cw_TransactionFlow = ''cashout'', cw_TransactionTime = ''t'',
      cw_NetAmount = \<lparr>amt_ValueDecimal = 100, amt_Currency = ''IDR''\<rparr>, cw_Amounts = [],
      cw_DestinationAccountNumber = '''', cw_Description = ''d'', cw_Metadata = Some Map.empty,
      cw_ClientId = ''client'', cw_IdempotencyKey = ''once''\<rparr>"

lemmas scenario_defs =
  exampleRow_def exampleState_def exampleRepo_def exampleService_def exampleWorld_def exampleRequest_def

lemma exampleService_visits: "visitsAll (exampleService cf nf)"
  by (auto simp: visitsAll_def exampleService_def exampleOrder_def)

lemma exampleDB_keys: "uniqueKeys (w_db exampleWorld)"
  by (simp add: uniqueKeys_def scenario_defs)

lemma example_registry: "GetTransformer ''COTGC'' = Inr cotgc_Transform"
  by (simp add: GetTransformer_def NewMapTransformer_def tableAdm_def)

lemma example_transform_wallet:
  assumes "wt_TransactionType w = ''COTGC''" and "wt_NetAmount w = \<lparr>amt_ValueDecimal = 100, amt_Currency = ''IDR''\<rparr>"
    and "wt_Amounts w = []" and "wt_AccountNumber w = ''ACC''" and "wt_Status w = st"
    and "transformWalletTransactionStatus st = Inr code"
  shows "Transform exampleEnv w s =
     (Inr [\<lparr>req_TransactionID = replicate (drawn s) CHR ''i'', req_FromAccount = ''ACC'', req_ToAccount = ''HOLD'',
        req_TransactionDate = FormatDateInLocalTime (wt_TransactionTime w),
        req_Amount = Some 100, req_Status = code, req_Method = '''',
        req_TypeTransaction = ''COTGC'', req_Description = wt_Description w,
        req_RefNumber = wt_RefNumber w, req_Metadata = shared s, req_OrderTime = getOrderTime exampleEnv w,
        req_OrderType = ''COT'', req_TransactionTime = wt_TransactionTime w,
        req_Currency = ''IDR''\<rparr>], s\<lparr>drawn := drawn s + 1\<rparr>)"
  using assms
  by (simp add: Transform_def example_registry cotgc_Transform_def one_def withStatus_def bind_def call_def
      return_def getMetadata_def newReq_def newUUID_def transformCurrency_def example_simps)

text \<open>The clock stands on the first day of the calendar.\<close>

lemma example_day: "localDay 0 = 0" "localDay 1 = 0" "dateOf 0 = (1, 1, 1)" "startOfLocalDay 0 = - jakartaOffset"
  by (simp_all add: dateOf_def yearAndDay_def localDay_def startOfLocalDay_def jakartaOffset_def nsPerDay_def Let_def
      daysIn_def isLeap_def)

lemma example_date:
  assumes "t \<in> {0, 1}"
  shows "ParseStringDateToDateWithTimeNow 1 0 (FormatDateInLocalTime t) = Inr 0"
proof -
  have "FormatDateInLocalTime t = FormatDateInLocalTime 0"
    using assms by (auto simp: FormatDateInLocalTime_def example_day)
  moreover
  have "ParseDateInLocalTime (FormatDateInLocalTime 0) = Inr (- jakartaOffset)"
    using parse_format_date [of 0 1 1 1] by (simp add: example_day) (simp add: jakartaOffset_def)
  ultimately show ?thesis
    by (simp add: ParseStringDateToDateWithTimeNow_def example_day(2) jakartaOffset_def nsPerDay_def)
qed

lemma example_valid: "validateTransactionInput (exampleService cf nf) (exampleRequest r) = Inr ()"
proof -
  have "NowZeroTime 1 = startOfLocalDay (localDay 1)"
    by (rule NowZeroTime_eq) (simp_all add: example_day jakartaOffset_def)
  then show ?thesis
    by (simp add: validateTransactionInput_def scenario_defs IsTodayAfterDate_def Let_def example_day jakartaOffset_def)
qed

text \<open>The request as the service stores it, and the ledger request it is turned into.\<close>

definition exampleNew :: "bool \<Rightarrow> nat \<Rightarrow> rat NewWalletTransaction" where
  "exampleNew r n = ToNewWalletTransaction (\<lambda>_. Some 0) (replicate (n + 1) CHR ''w'') (exampleRequest r)"

lemma example_accepted:
  "CreateTransaction (exampleService cf nf) (exampleRequest r) w =
     CreateTransactionAtomic (exampleService cf nf) (exampleNew r (w_drawn w)) r True ''client'' (w\<lparr>w_drawn := w_drawn w + 1\<rparr>)"
proof -
  have "validateTransactionTypeAndRefNumber (exampleService cf nf) (exampleRequest r) db = Inr None" for db
    by (simp add: validateTransactionTypeAndRefNumber_def scenario_defs)
  moreover have "lceNetAmount (exampleService cf nf) (exampleRequest r) = exampleRequest r"
    by (simp add: lceNetAmount_def scenario_defs)
  ultimately show ?thesis
    by (simp add: CreateTransaction_def example_valid) (simp add: scenario_defs exampleNew_def)
qed

definition exampleReq :: "int \<Rightarrow> nat \<Rightarrow> string \<Rightarrow> rat TransactionReq" where
  "exampleReq t n status =
     \<lparr>req_TransactionID = replicate n CHR ''i'', req_FromAccount = ''ACC'', req_ToAccount = ''HOLD'',
      req_TransactionDate = FormatDateInLocalTime t, req_Amount = Some 100, req_Status = status, req_Method = '''',
      req_TypeTransaction = ''COTGC'', req_Description = ''d'', req_RefNumber = ''REF'',
      req_Metadata = Some Map.empty, req_OrderTime = 1, req_OrderType = ''COT'', req_TransactionTime = t,
      req_Currency = ''IDR''\<rparr>"

lemma example_transformed:
  "Transform exampleEnv (ToWalletTransaction 1 (exampleNew r n)) (startState (ToWalletTransaction 1 (exampleNew r n)) k) =
     (Inr [exampleReq 0 k (if r then ''0'' else ''1'')],
      startState (ToWalletTransaction 1 (exampleNew r n)) k\<lparr>drawn := k + 1\<rparr>)"
  by (subst example_transform_wallet [where st = "if r then ''PENDING'' else ''SUCCESS''"
        and code = "if r then ''0'' else ''1''"])
    (simp_all add: ToWalletTransaction_def exampleNew_def ToNewWalletTransaction_def exampleRequest_def exampleReq_def
      startState_def transformWalletTransactionStatus_def getOrderTime_def)

lemma example_parts [simp]:
  "repo (exampleService cf nf) = (exampleRepo cf)" "visitOrder (exampleService cf nf) = exampleOrder" "now (exampleRepo cf) = 1"
  "fault (exampleRepo cf) c = (if c = CommitTx then cf else None)" "environment (exampleService cf nf) db = exampleEnv"
  "addedNanoSecond (exampleService cf nf) = 0" "jsonMarshal (exampleService cf nf) = (\<lambda>_. Ok ''{}'')"
  "publishHVT (exampleService cf nf) p = None" "publishNotification (exampleService cf nf) nt = nf" "toAcuanLib (exampleService cf nf) t = None"
  "GetAccountNumberEntity (exampleService cf nf) xs = Ok Map.empty"
  "parseRFC3339 (exampleService cf nf) = (\<lambda>_. Some 0)" "newUUIDText (exampleService cf nf) n = replicate (n + 1) CHR ''w''"
  by (simp_all add: exampleService_def exampleRepo_def)

lemma example_tables [simp]:
  "db_wallet_transaction (exampleState actual pending ver parked hver ws ts) = ws"
  "db_transaction (exampleState actual pending ver parked hver ws ts) = ts"
  "(exampleState actual pending ver parked hver ws ts)\<lparr>db_wallet_transaction := ws'\<rparr> = exampleState actual pending ver parked hver ws' ts"
  "(exampleState actual pending ver parked hver ws ts)\<lparr>db_transaction := ts'\<rparr> = exampleState actual pending ver parked hver ws ts'"
  by (simp_all add: exampleState_def)

text \<open>The balances it loads, and what the calculators make of them.\<close>

definition accBalance :: "rat \<Rightarrow> rat \<Rightarrow> int \<Rightarrow> rat Balance" where
  "accBalance actual pending ver = NewBalance actual pending
     [WithVersion ver, WithBalanceRangeMax 0, WithLastUpdatedAt 1, WithBalanceLimitEnabled False]"

definition holdBalance :: "rat \<Rightarrow> int \<Rightarrow> rat Balance" where
  "holdBalance parked hver = NewBalance parked 0
     [WithHVT, WithVersion hver, WithBalanceRangeMax 0, WithLastUpdatedAt 1, WithBalanceLimitEnabled False]"

definition writtenBalance :: "rat \<Rightarrow> rat \<Rightarrow> int \<Rightarrow> rat Balance" where
  "writtenBalance actual pending ver =
     NewBalance actual pending [WithVersion ver, WithLastUpdatedAt 1, WithBalanceLimitEnabled False]"

definition exampleLoaded :: "rat \<Rightarrow> rat \<Rightarrow> int \<Rightarrow> rat \<Rightarrow> int \<Rightarrow> rat AccountBalance list" where
  "exampleLoaded actual pending ver parked hver =
     [\<lparr>ab_AccountNumber = ''ACC'', ab_T24AccountNumber = '''', ab_Balance = accBalance actual pending ver\<rparr>,
      \<lparr>ab_AccountNumber = ''HOLD'', ab_T24AccountNumber = '''', ab_Balance = holdBalance parked hver\<rparr>]"

lemma example_load:
  "GetMany (exampleRepo cf) (balanceRequest (exampleService cf nf) [exampleReq t k st]) (exampleState actual pending ver parked hver ws ts) =
     Inr (exampleLoaded actual pending ver parked hver)"
  by (simp add: GetMany_def balanceRequest_def exampleReq_def scenario_defs getAccountNumbersForUpdateBalance_def
      getIgnoredAccounts_def failIf_def buildGetManyAccountBalanceQuery_def Let_def isAccountNumbersPASFormat_def
      isNumeric_def loadBalance_def scanRow_def createBalanceOptions_def exampleLoaded_def accBalance_def holdBalance_def)

lemma example_current:
  "ConvertToBalanceMap (exampleLoaded actual pending ver parked hver) =
     [''ACC'' \<mapsto> accBalance actual pending ver, ''HOLD'' \<mapsto> holdBalance parked hver]"
  by (simp add: ConvertToBalanceMap_def exampleLoaded_def)

lemmas example_calculations =
  calculateBalances_def exampleReq_def trxSetOf_def NewWalletTransactionSet_def newCalculateBalanceOption_def
  WithTransactionType_def updateAccount_def balance_option_defs Available_def Let_def accBalance_def holdBalance_def

lemma example_cashOut:
  "100 \<le> actual - pending \<Longrightarrow>
     calculateBalances (getWalletBalanceCalculator ''cashout'' False) [exampleReq t k st]
       [''ACC'' \<mapsto> accBalance actual pending ver, ''HOLD'' \<mapsto> holdBalance parked hver] =
     Inr [''ACC'' \<mapsto> accBalance (actual - 100) pending ver, ''HOLD'' \<mapsto> holdBalance (parked + 100) hver]"
  by (auto simp: getWalletBalanceCalculator_def CalculateCashOut_def Withdraw_def AddFunds_def example_calculations)

lemma example_cashOutReserve:
  "100 \<le> actual - pending \<Longrightarrow>
     calculateBalances (getWalletBalanceCalculator ''cashout'' True) [exampleReq t k st]
       [''ACC'' \<mapsto> accBalance actual pending ver, ''HOLD'' \<mapsto> holdBalance parked hver] =
     Inr [''ACC'' \<mapsto> accBalance actual (pending + 100) ver, ''HOLD'' \<mapsto> holdBalance parked hver]"
  by (auto simp: getWalletBalanceCalculator_def CalculateCashOutReserve_def Reserve_def example_calculations)

lemma example_cashOutCommit:
  "100 \<le> pending \<Longrightarrow>
     calculateBalances (getWalletBalanceCommitCalculator ''cashout'') [exampleReq t k st]
       [''ACC'' \<mapsto> accBalance actual pending ver, ''HOLD'' \<mapsto> holdBalance parked hver] =
     Inr [''ACC'' \<mapsto> accBalance (actual - 100) (pending - 100) ver, ''HOLD'' \<mapsto> holdBalance (parked + 100) hver]"
  by (auto simp: getWalletBalanceCommitCalculator_def CalculateCashOutCommit_def Commit_def AddFunds_def
      example_calculations)

lemma example_flags:
  "isSkipBalanceUpdateOnDB (accBalance actual pending ver) = False" "isHVT (accBalance actual pending ver) = False"
  "isSkipBalanceUpdateOnDB (holdBalance parked hver) = False" "isHVT (holdBalance parked hver)"
  "Available (holdBalance parked hver) = parked"
  by (simp_all add: balance_option_defs Available_def accBalance_def holdBalance_def)

text \<open>Writing them back.\<close>

lemma example_update:
  "UpdateAccountBalance (exampleRepo cf) ''ACC'' (accBalance actual' pending' x) (exampleState actual pending ver parked hver ws ts) =
     (Inr (writtenBalance actual' pending' (ver + 1)), exampleState actual' pending' (ver + 1) parked hver ws ts)"
  "UpdateAccountBalance (exampleRepo cf) ''HOLD'' (holdBalance parked' x) (exampleState actual pending ver parked hver ws ts) =
     (Inr (writtenBalance parked' 0 (hver + 1)), exampleState actual pending ver parked' (hver + 1) ws ts)"
  by (simp_all add: UpdateAccountBalance_def scenario_defs writtenBalance_def Let_def balance_option_defs
      accBalance_def holdBalance_def)

lemma example_order: "exampleOrder [''ACC'' \<mapsto> x, ''HOLD'' \<mapsto> y] = [''ACC'', ''HOLD'']"
  by (simp add: exampleOrder_def)

lemma example_store:
  "storeCreatedBalances (exampleService cf nf) nwt False [''ACC''] [''ACC'' \<mapsto> b, ''HOLD'' \<mapsto> holdBalance parked hver]
     [''ACC'', ''HOLD''] [''ACC'' \<mapsto> accBalance actual' pending' x, ''HOLD'' \<mapsto> holdBalance (parked + 100) hver] []
     (exampleState actual pending ver parked hver ws ts) =
   (Inr ([''ACC'' \<mapsto> writtenBalance actual' pending' (ver + 1), ''HOLD'' \<mapsto> holdBalance (parked + 100) hver],
         [hvtPayload (nw_ID nwt) (nw_RefNumber nwt) ''HOLD'' (holdBalance parked hver) (holdBalance (parked + 100) hver)]),
    exampleState actual' pending' (ver + 1) parked hver ws ts)"
  "storeCreatedBalances (exampleService cf nf) nwt True [''ACC''] current [''ACC'', ''HOLD'']
     [''ACC'' \<mapsto> accBalance actual' pending' x, ''HOLD'' \<mapsto> holdBalance parked hver] []
     (exampleState actual pending ver parked hver ws ts) =
   (Inr ([''ACC'' \<mapsto> writtenBalance actual' pending' (ver + 1), ''HOLD'' \<mapsto> writtenBalance parked 0 (hver + 1)], []),
    exampleState actual' pending' (ver + 1) parked (hver + 1) ws ts)"
  by (simp_all add: example_flags wrapping_def bind_def example_update fun_upd_twist [of "''HOLD''" "''ACC''"])

lemma example_settleBalances:
  "settleBalances (exampleService cf nf) i ref [''ACC''] [''ACC'' \<mapsto> b, ''HOLD'' \<mapsto> holdBalance parked hver]
     [''ACC'', ''HOLD''] [''ACC'' \<mapsto> accBalance actual' pending' x, ''HOLD'' \<mapsto> holdBalance (parked + 100) hver]
     (exampleState actual pending ver parked hver ws ts, hvt, n) =
   (Inr [''ACC'' \<mapsto> writtenBalance actual' pending' (ver + 1), ''HOLD'' \<mapsto> holdBalance (parked + 100) hver],
    (exampleState actual' pending' (ver + 1) parked hver ws ts,
     hvt @ [hvtPayload i ref ''HOLD'' (holdBalance parked hver) (holdBalance (parked + 100) hver)], n))"
  by (simp add: example_flags wrapping_def bind_def onDb_def example_update fun_upd_twist [of "''HOLD''" "''ACC''"])

section \<open>Runs\<close>

definition exampleId :: "nat \<Rightarrow> string" where
  "exampleId n = replicate (n + 1) CHR ''w''"

definition exampleEntry :: "int \<Rightarrow> nat \<Rightarrow> rat Transaction" where
  "exampleEntry t k =
     \<lparr>txn_TransactionID = replicate k CHR ''i'', txn_TransactionDate = 0, txn_FromAccount = ''ACC'', txn_ToAccount = ''HOLD'',
      txn_Amount = Some 100, txn_Status = ''1'', txn_Method = '''', txn_TypeTransaction = ''COTGC'', txn_Description = ''d'',
      txn_RefNumber = ''REF'', txn_Metadata = ''{}'', txn_OrderTime = 1, txn_OrderType = ''COT'', txn_TransactionTime = t,
      txn_Currency = ''IDR'', txn_SourceEntity = '''', txn_DestinationEntity = ''''\<rparr>"

lemma example_entry: "0 < k \<Longrightarrow> t \<in> {0, 1} \<Longrightarrow> ToRequest 1 0 (\<lambda>_. Inr ''{}'') i (exampleReq t k ''1'') = Inr (exampleEntry t k)"
  by (simp add: ToRequest_def exampleReq_def example_date exampleEntry_def)

definition exampleStored :: "bool \<Rightarrow> nat \<Rightarrow> rat WalletTransaction" where
  "exampleStored r n = createdRow (exampleRepo None) (exampleNew r n)"

definition examplePayload :: "nat \<Rightarrow> rat HVTPayload" where
  "examplePayload n =
     \<lparr>hvt_WalletTransactionId = exampleId n, hvt_RefNumber = ''REF'', hvt_AccountNumber = ''HOLD'',
      hvt_UpdateAmount = \<lparr>amt_ValueDecimal = 100, amt_Currency = ''IDR''\<rparr>\<rparr>"

lemma example_fields [simp]:
  "nw_TransactionFlow (exampleNew r n) = ''cashout''" "nw_RefNumber (exampleNew r n) = ''REF''"
  "nw_ID (exampleNew r n) = exampleId n" "nw_Metadata (exampleNew r n) = Some Map.empty"
  "wt_ID (exampleStored r n) = exampleId n" "wt_RefNumber (exampleStored r n) = ''REF''"
  "wt_TransactionFlow (exampleStored r n) = ''cashout''"
  "wt_Status (exampleStored r n) = (if r then ''PENDING'' else ''SUCCESS'')"
  "wt_Metadata (exampleStored r n) = Some Map.empty" "wt_TransactionType (exampleStored r n) = ''COTGC''"
  by (simp_all add: exampleNew_def ToNewWalletTransaction_def exampleRequest_def exampleStored_def createdRow_def
      exampleId_def storedMetadata_def)

lemma example_accounts:
  "validateAccountExistsInTransactions [exampleReq t k st] (exampleLoaded actual pending ver parked hver) = None"
  "updateTransactionAccountNumber [exampleReq t k st] (exampleLoaded actual pending ver parked hver) = [exampleReq t k st]"
  "withAccountNumbers (mapT24AccountNumberToAccountNumber (exampleLoaded actual pending ver parked hver)) (exampleNew r n) =
     exampleNew r n"
  "req_FromAccount (exampleReq t k st) = ''ACC''"
  by (simp_all add: validateAccountExistsInTransactions_def knownNumbers_def exampleLoaded_def exampleReq_def
      updateTransactionAccountNumber_def mapT24AccountNumberToAccountNumber_def mapT24Step_def
      updateAccountNumber_def withAccountNumbers_def exampleNew_def ToNewWalletTransaction_def exampleRequest_def)

lemma example_insert:
  assumes "0 < k" and "t \<in> {0, 1}" and "replicate k CHR ''i'' \<notin> txn_TransactionID ` set ts"
  shows "insertChildTransactions (exampleService cf nf) [exampleReq t k ''1''] (exampleState actual pending ver parked hver ws ts) =
    (Inr [exampleEntry t k], exampleState actual pending ver parked hver ws (ts @ [exampleEntry t k]))"
  using assms by (simp add: insertChildTransactions_def convertRequests_def example_entry ErrorOrNil_def bind_def
      wrapping_def return_def StoreBulk_def exampleEntry_def)

lemma example_createdRow: "createdRow (exampleRepo cf) (exampleNew r n) = exampleStored r n"
  by (simp add: exampleStored_def createdRow_def exampleRepo_def)

lemma example_createWallet:
  "exampleId n \<notin> wt_ID ` set ws \<Longrightarrow>
     createWallet (exampleService cf nf) (exampleNew r n) (exampleState actual pending ver parked hver ws ts, v) =
     (Inr (exampleStored r n),
      (exampleState actual pending ver parked hver (ws @ [exampleStored r n]) ts, Some (exampleStored r n)))"
  by (simp add: createWallet_def WalletCreate_def example_createdRow)

lemmas example_steps =
  bind_def wrapping_def readDb_def onDb_def call_def failIf_def return_def Let_def example_load example_accounts
  example_current example_order example_store example_createWallet example_insert

lemma example_createSteps:
  assumes "100 \<le> actual - pending" and "exampleId n \<notin> wt_ID ` set ws"
  shows "0 < k \<Longrightarrow> replicate k CHR ''i'' \<notin> txn_TransactionID ` set ts \<Longrightarrow>
    createSteps (exampleService cf nf) (exampleNew False n) False [exampleReq 0 k ''1'']
      (exampleState actual pending ver parked hver ws ts, v) =
    (Inr \<lparr>cv_created = exampleStored False n, cv_acuanTransactions = [exampleEntry 0 k],
          cv_currentBalances = [''ACC'' \<mapsto> accBalance actual pending ver, ''HOLD'' \<mapsto> holdBalance parked hver],
          cv_updatedBalances = [''ACC'' \<mapsto> writtenBalance (actual - 100) pending (ver + 1),
                                ''HOLD'' \<mapsto> holdBalance (parked + 100) hver],
          cv_hvtPayloads = [examplePayload n]\<rparr>,
     (exampleState (actual - 100) pending (ver + 1) parked hver (ws @ [exampleStored False n]) (ts @ [exampleEntry 0 k]),
      Some (exampleStored False n)))"
    and "createSteps (exampleService cf nf) (exampleNew True n) True [exampleReq 0 k ''0'']
      (exampleState actual pending ver parked hver ws ts, v) =
    (Inr \<lparr>cv_created = exampleStored True n, cv_acuanTransactions = [],
          cv_currentBalances = [''ACC'' \<mapsto> accBalance actual pending ver, ''HOLD'' \<mapsto> holdBalance parked hver],
          cv_updatedBalances = [''ACC'' \<mapsto> writtenBalance actual (pending + 100) (ver + 1),
                                ''HOLD'' \<mapsto> writtenBalance parked 0 (hver + 1)],
          cv_hvtPayloads = []\<rparr>,
     (exampleState actual (pending + 100) (ver + 1) parked (hver + 1) (ws @ [exampleStored True n]) ts,
      Some (exampleStored True n)))"
  using assms
  by (simp_all add: createSteps_def example_steps example_cashOut example_cashOutReserve hvtPayload_def example_flags
      examplePayload_def del: storeCreatedBalances.simps)

text \<open>A direct cash-out, and a reserved one.\<close>

lemma example_metadata:
  "(exampleNew r n)\<lparr>nw_Metadata := (if nw_Metadata (exampleNew r n) = None then None
       else shared ((startState (ToWalletTransaction 1 (exampleNew r n)) k)\<lparr>drawn := k + 1\<rparr>))\<rparr> = exampleNew r n"
  by (simp add: startState_def ToWalletTransaction_def exampleNew_def ToNewWalletTransaction_def exampleRequest_def)

lemma example_direct:
  assumes "100 \<le> actual - pending" and "exampleId (w_drawn w) \<notin> wt_ID ` set ws"
    and "replicate (w_drawn w + 1) CHR ''i'' \<notin> txn_TransactionID ` set ts"
    and "w_db w = exampleState actual pending ver parked hver ws ts"
  shows "\<exists>w'. CreateTransaction (exampleService None nf) (exampleRequest False) w =
      ((Some (exampleStored False (w_drawn w)), case nf of None \<Rightarrow> None | Some e \<Rightarrow> ErrorOrNil [e]), w') \<and>
    w_db w' = exampleState (actual - 100) pending (ver + 1) parked hver (ws @ [exampleStored False (w_drawn w)])
                (ts @ [exampleEntry 0 (w_drawn w + 1)]) \<and>
    w_hvt w' = w_hvt w @ [examplePayload (w_drawn w)] \<and> w_drawn w' = w_drawn w + 2"
  using assms
  by (simp add: example_accepted CreateTransactionAtomic_def Let_def example_transformed example_metadata [simplified]
      example_createSteps Atomic_def afterCommit_def enrichTransactionsWithEntityData_def getAccountNumbersForEntity_def
      publishNotificationCreateWalletTransactionSuccess_def CreateWalletNotificationPayload_def example_order
      exampleEntry_def ErrorOrNil_def split: option.split)

lemma example_reserve:
  assumes "100 \<le> actual - pending" and "exampleId (w_drawn w) \<notin> wt_ID ` set ws"
    and "w_db w = exampleState actual pending ver parked hver ws ts"
  shows "CreateTransaction (exampleService None nf) (exampleRequest True) w =
    ((Some (exampleStored True (w_drawn w)), None),
     w\<lparr>w_db := exampleState actual (pending + 100) (ver + 1) parked (hver + 1) (ws @ [exampleStored True (w_drawn w)]) ts,
       w_drawn := w_drawn w + 2\<rparr>)"
  using assms
  by (simp add: example_accepted CreateTransactionAtomic_def Let_def example_transformed example_metadata [simplified]
      example_createSteps Atomic_def afterCommit_def ErrorOrNil_def)

text \<open>A commit of a reserved cash-out, and a cancellation.\<close>

definition exampleUpdate :: "string \<Rightarrow> nat \<Rightarrow> rat UpdateStatusWalletTransactionRequest" where
  "exampleUpdate action n =
     \<lparr>us_TransactionId = exampleId n, us_Action = action, us_Metadata = Some Map.empty, us_TransactionTime = 0,
      us_ClientId = ''client''\<rparr>"

definition exampleUpdated :: "rat WalletTransaction \<Rightarrow> rat WalletTransaction" where
  "exampleUpdated x = x\<lparr>wt_Status := ''SUCCESS'', wt_TransactionTime := 1, wt_Metadata := Some Map.empty\<rparr>"

definition exampleSettled :: "string \<Rightarrow> nat \<Rightarrow> rat WalletTransaction" where
  "exampleSettled status n = (exampleStored True n)\<lparr>wt_Status := status, wt_TransactionTime := 1\<rparr>"

lemma exampleUpdated_pending: "exampleUpdated (exampleStored True n) = exampleSettled ''SUCCESS'' n"
  by (simp add: exampleUpdated_def exampleSettled_def exampleStored_def createdRow_def exampleNew_def
      ToNewWalletTransaction_def exampleRequest_def storedMetadata_def comp_def)

lemma exampleUpdated_again: "exampleUpdated (exampleUpdated x) = exampleUpdated x"
  by (simp add: exampleUpdated_def)

lemma exampleSettled_metadata: "wt_Metadata (exampleSettled status n) = Some Map.empty"
  by (simp add: exampleSettled_def)

lemma example_settle_transform:
  "Transform exampleEnv (exampleSettled ''SUCCESS'' n) (startState (exampleSettled ''SUCCESS'' n) k) =
     (Inr [exampleReq 1 k ''1''], (startState (exampleSettled ''SUCCESS'' n) k)\<lparr>drawn := k + 1\<rparr>)"
  by (subst example_transform_wallet [where st = "''SUCCESS''" and code = "''1''"])
    (simp_all add: exampleSettled_def exampleStored_def createdRow_def exampleNew_def ToNewWalletTransaction_def
      exampleRequest_def exampleReq_def startState_def transformWalletTransactionStatus_def getOrderTime_def inIDR_def
      storedMetadata_def comp_def)

lemma example_transformStep:
  "transformStep (exampleService cf nf) (exampleSettled ''SUCCESS'' n) (db, hvt, k) =
     (Inr ([exampleReq 1 k ''1''], Some Map.empty), (db, hvt, k + 1))"
  by (simp add: transformStep_def example_settle_transform) (simp add: startState_def exampleSettled_metadata)

lemma example_processSteps:
  assumes "100 \<le> pending" and "find (\<lambda>x. wt_ID x = exampleId n) ws = Some x" and "exampleUpdated x = exampleSettled ''SUCCESS'' n"
    and "0 < k" and "replicate k CHR ''i'' \<notin> txn_TransactionID ` set ts"
  shows "processSteps (exampleService cf nf) (exampleUpdate ''commit'' n) (exampleStored True n)
      (getWalletBalanceCommitCalculator ''cashout'') ''SUCCESS'' 1
      (exampleState actual pending ver parked hver ws ts, hvt, k) =
    (Inr \<lparr>pv_wallet = exampleSettled ''SUCCESS'' n, pv_acuanTransactions = [exampleEntry 1 k],
          pv_currentBalances = [''ACC'' \<mapsto> accBalance actual pending ver, ''HOLD'' \<mapsto> holdBalance parked hver],
          pv_updatedBalances = [''ACC'' \<mapsto> writtenBalance (actual - 100) (pending - 100) (ver + 1),
                                ''HOLD'' \<mapsto> holdBalance (parked + 100) hver]\<rparr>,
     (exampleState (actual - 100) (pending - 100) (ver + 1) parked hver
        (map (\<lambda>x. if wt_ID x = exampleId n then exampleUpdated x else x) ws) (ts @ [exampleEntry 1 k]),
      hvt @ [examplePayload n], k + 1))"
proof -
  have metadata: "mergeMetadata (Some Map.empty) (Some Map.empty) = Inr (Some Map.empty)"
    "storedMetadata f (Some Map.empty) = Some Map.empty" for f :: "rat \<Rightarrow> string"
    by (simp_all add: mergeMetadata_def storedMetadata_def comp_def)
  have update: "WalletUpdate (exampleRepo cf) (exampleId n) ''SUCCESS'' 1 (Some Map.empty)
      (exampleState actual pending ver parked hver ws ts) =
      (Inr (exampleSettled ''SUCCESS'' n), exampleState actual pending ver parked hver
        (map (\<lambda>x. if wt_ID x = exampleId n then exampleUpdated x else x) ws) ts)"
    using assms(2,3) by (simp add: WalletUpdate_def metadata exampleUpdated_def cong: if_cong)
  have settled: "wt_ID (exampleSettled st n) = exampleId n" "wt_RefNumber (exampleSettled st n) = ''REF''"
    "wt_Status (exampleSettled st n) = st" "(exampleSettled st n)\<lparr>wt_Metadata := Some Map.empty\<rparr> = exampleSettled st n" for st
    by (simp_all add: exampleSettled_def flip: exampleSettled_metadata)
  show ?thesis
    using assms(1,4,5)
    by (simp add: processSteps_def example_steps metadata exampleUpdate_def update example_transformStep settled
        example_cashOutCommit example_settleBalances hvtPayload_def example_flags examplePayload_def
        del: settleBalances.simps)
qed

lemma example_settle:
  assumes "100 \<le> pending" and "find (\<lambda>x. wt_ID x = exampleId n) ws = Some x" and "exampleUpdated x = exampleSettled ''SUCCESS'' n"
    and "0 < w_drawn w" and "replicate (w_drawn w) CHR ''i'' \<notin> txn_TransactionID ` set ts"
    and "w_db w = exampleState actual pending ver parked hver ws ts"
  shows "settleTransaction (exampleService (Some e) nf) (exampleUpdate ''commit'' n) (exampleStored True n)
      (getWalletBalanceCommitCalculator ''cashout'') ''SUCCESS'' w =
      ((None, Some e), w\<lparr>w_hvt := w_hvt w @ [examplePayload n], w_drawn := w_drawn w + 1\<rparr>)"
    and "\<exists>w'. settleTransaction (exampleService None None) (exampleUpdate ''commit'' n) (exampleStored True n)
      (getWalletBalanceCommitCalculator ''cashout'') ''SUCCESS'' w =
      ((Some (exampleSettled ''SUCCESS'' n), None), w') \<and>
      w_db w' = exampleState (actual - 100) (pending - 100) (ver + 1) parked hver
        (map (\<lambda>x. if wt_ID x = exampleId n then exampleUpdated x else x) ws)
        (ts @ [exampleEntry 1 (w_drawn w)]) \<and>
      w_hvt w' = w_hvt w @ [examplePayload n] \<and> w_drawn w' = w_drawn w + 1"
proof -
  have time: "us_TransactionTime (exampleUpdate ''commit'' n) = 0" by (simp add: exampleUpdate_def)
  note steps = example_processSteps [OF assms(1-5), where hvt = "w_hvt w"]
  show "settleTransaction (exampleService (Some e) nf) (exampleUpdate ''commit'' n) (exampleStored True n)
      (getWalletBalanceCommitCalculator ''cashout'') ''SUCCESS'' w =
      ((None, Some e), w\<lparr>w_hvt := w_hvt w @ [examplePayload n], w_drawn := w_drawn w + 1\<rparr>)"
    using assms(6) by (simp add: settleTransaction_def Let_def time Atomic_def steps)
  show "\<exists>w'. settleTransaction (exampleService None None) (exampleUpdate ''commit'' n) (exampleStored True n)
      (getWalletBalanceCommitCalculator ''cashout'') ''SUCCESS'' w =
      ((Some (exampleSettled ''SUCCESS'' n), None), w') \<and>
      w_db w' = exampleState (actual - 100) (pending - 100) (ver + 1) parked hver
        (map (\<lambda>x. if wt_ID x = exampleId n then exampleUpdated x else x) ws)
        (ts @ [exampleEntry 1 (w_drawn w)]) \<and>
      w_hvt w' = w_hvt w @ [examplePayload n] \<and> w_drawn w' = w_drawn w + 1"
    using assms(6)
    by (simp add: settleTransaction_def Let_def time Atomic_def steps
        publishNotificationCreateWalletTransactionSuccess_def CreateWalletNotificationPayload_def example_order
        exampleEntry_def) (simp add: exampleSettled_def)
qed

lemma example_commit:
  assumes "find (\<lambda>x. wt_ID x = exampleId n) ws = Some (exampleStored True n)"
    and "w_db w = exampleState actual pending ver parked hver ws ts"
  shows "ProcessReservedTransaction (exampleService cf nf) (exampleUpdate ''commit'' n) w =
    settleTransaction (exampleService cf nf) (exampleUpdate ''commit'' n) (exampleStored True n)
      (getWalletBalanceCommitCalculator ''cashout'') ''SUCCESS'' w"
proof -
  have "us_TransactionId (exampleUpdate ''commit'' n) = exampleId n" "us_Action (exampleUpdate ''commit'' n) = ''commit''"
    by (simp_all add: exampleUpdate_def)
  with assms show ?thesis
    by (simp add: ProcessReservedTransaction_def WalletGetById_def failIf_def chooseAction_def)
qed

end
