(* ===== verification/WalletProperties.thy ===== *)
theory WalletProperties
  imports WalletSystem Scenario
begin

text \<open>
  The properties of the wallet service: single calls, histories of calls and deliveries, and what goes wrong
  when a settlement fails late or runs twice.  Each is applied to the concrete service of \<open>Scenario\<close>.
\<close>

section \<open>The system follows its ledger\<close>

definition exampleSystem :: "rat World \<Rightarrow> rat System" where
  "exampleSystem w = \<lparr>sys_world = w, sys_cache = Map.empty, sys_dlq = [], sys_marked = []\<rparr>"

lemma exampleId_colon: "CHR '':'' \<notin> set (exampleId n)"
  by (simp add: exampleId_def)

lemma exampleId_eq: "exampleId n = exampleId m \<longleftrightarrow> n = m"
proof
  assume "exampleId n = exampleId m"
  then have "length (exampleId n) = length (exampleId m)" by simp
  then show "n = m" by (simp add: exampleId_def)
qed simp

lemma example_serves: "serves {''SYS''} (exampleService cf nf)"
proof -
  have "offDatabase (exampleService cf nf) = {''SYS''}"
    by (simp add: offDatabase_def getIgnoredAccounts_def exampleService_def exampleRepo_def)
  then show ?thesis
    by (simp add: serves_def exampleService_visits)
qed

text \<open>
  C1: whatever calls are made and whatever messages are delivered, in any order and any number of times, the
  balance of every account that is kept on the database, together with what published messages still owe
  it, moves exactly with the ledger.  When every message has been applied, it follows the ledger to the unit.
\<close>

theorem balances_follow_ledger:
  fixes s :: "'d::linordered_idom System"
  assumes run: "(systemStep off)\<^sup>*\<^sup>* s s'"
    and fresh: "w_hvt (sys_world s) = []" "sys_cache s = Map.empty"
    and tables: "uniqueKeys (w_db (sys_world s))"
    and wallets: "\<forall>x\<in>set (db_wallet_transaction (w_db (sys_world s))).
      CHR '':'' \<notin> set (wt_ID x) \<and> (wt_Status x = ''PENDING'' \<longrightarrow> wt_TransactionFlow x \<noteq> ''cashin'')"
    and a: "a \<notin> off"
  shows "actualOf (w_db (sys_world s')) a + owed (unapplied s') a - actualOf (w_db (sys_world s)) a =
           netCredit (db_transaction (w_db (sys_world s'))) a - netCredit (db_transaction (w_db (sys_world s))) a \<and>
         (unapplied s' = [] \<longrightarrow>
           actualOf (w_db (sys_world s')) a - actualOf (w_db (sys_world s)) a =
           netCredit (db_transaction (w_db (sys_world s'))) a - netCredit (db_transaction (w_db (sys_world s))) a)"
proof -
  let ?base = "\<lambda>a. actualOf (w_db (sys_world s)) a - netCredit (db_transaction (w_db (sys_world s))) a"
  have "consistent off ?base s"
    using fresh tables wallets by (simp add: consistent_def Let_def unapplied_def)
  from steps_consistent [OF run this] a
  have sum: "actualOf (w_db (sys_world s')) a + owed (unapplied s') a - actualOf (w_db (sys_world s)) a =
      netCredit (db_transaction (w_db (sys_world s'))) a - netCredit (db_transaction (w_db (sys_world s))) a"
    by (simp add: consistent_def Let_def algebra_simps)
  then show ?thesis by auto
qed

text \<open>A direct cash-out of 100 from an account of 200: 100 are left, and a message owes the other account 100.\<close>

lemma example_direct_step:
  "\<exists>s'. (systemStep {''SYS''})\<^sup>*\<^sup>* (exampleSystem exampleWorld) s' \<and>
     w_db (sys_world s') = exampleState 100 0 2 0 1 [exampleStored False 0] [exampleEntry 0 1] \<and>
     unapplied s' = [examplePayload 0]"
proof -
  obtain w' where call: "CreateTransaction (exampleService None None) (exampleRequest False) exampleWorld =
      ((Some (exampleStored False 0), None), w')"
    and w': "w_db w' = exampleState 100 0 2 0 1 [exampleStored False 0] [exampleEntry 0 1]" "w_hvt w' = [examplePayload 0]"
    using example_direct [of 200 0 exampleWorld "[]" "[]" 1 0 1 None] by (auto simp: exampleWorld_def)
  have "systemStep {''SYS''} (exampleSystem exampleWorld) ((exampleSystem exampleWorld)\<lparr>sys_world := w'\<rparr>)"
    by (rule systemStep.create [where svc = "exampleService None None" and req = "exampleRequest False"])
      (simp_all add: exampleSystem_def call example_serves)
  then show ?thesis
    by (intro exI [of _ "(exampleSystem exampleWorld)\<lparr>sys_world := w'\<rparr>"])
      (auto simp: w' unapplied_def exampleSystem_def)
qed

lemma balances_follow_ledger_witness:
  "\<exists>s' :: rat System. actualOf (w_db (sys_world s')) ''HOLD'' = 0 \<and> owed (unapplied s') ''HOLD'' = 100 \<and>
     actualOf (w_db (sys_world s')) ''HOLD'' + owed (unapplied s') ''HOLD'' =
       netCredit (db_transaction (w_db (sys_world s'))) ''HOLD''"
proof -
  obtain s' where run: "(systemStep {''SYS''})\<^sup>*\<^sup>* (exampleSystem exampleWorld) s'"
    and s': "w_db (sys_world s') = exampleState 100 0 2 0 1 [exampleStored False 0] [exampleEntry 0 1]"
      "unapplied s' = [examplePayload 0]"
    using example_direct_step by blast
  have start: "w_hvt (sys_world (exampleSystem exampleWorld)) = []" "sys_cache (exampleSystem exampleWorld) = Map.empty"
    "uniqueKeys (w_db (sys_world (exampleSystem exampleWorld)))"
    "w_db (sys_world (exampleSystem exampleWorld)) = exampleState 200 0 1 0 1 [] []"
    by (simp_all add: exampleSystem_def exampleWorld_def uniqueKeys_def) (simp add: exampleState_def exampleRow_def)
  have funds: "actualOf (exampleState x y v h hv ws ts) ''HOLD'' = h" for x y v h hv ws ts
    by (simp add: actualOf_def fundsOf_def exampleState_def exampleRow_def)
  have "''HOLD'' \<notin> {''SYS''}" by simp
  from balances_follow_ledger [OF run start(1-3) _ this] show ?thesis
    using s' by (intro exI [of _ s']) (simp add: start(4) funds owed_def examplePayload_def netCredit_def)
qed

section \<open>Single calls\<close>

text \<open>
  C9: a creation commits one whole database transaction or nothing.  If it commits, exactly one wallet
  transaction is added, pending if it is reserved and successful otherwise; a reserved one moves no money and
  writes no ledger row; and each account kept on the database gains, with what is owed to it by message,
  exactly what the new ledger rows credit to it.
\<close>

theorem create_whole_or_nothing:
  fixes w :: "'d::linordered_idom World"
  assumes "CreateTransaction svc req w = ((t, e), w')" and "uniqueKeys (w_db w)" and "visitsAll svc"
  shows "(w_db w' = w_db w \<and> w_hvt w' = w_hvt w) \<or>
    (\<exists>created rows payloads.
       t = Some created \<and> db_wallet_transaction (w_db w') = db_wallet_transaction (w_db w) @ [created] \<and>
       wt_Status created = (if cw_IsReserved req then ''PENDING'' else ''SUCCESS'') \<and>
       db_transaction (w_db w') = db_transaction (w_db w) @ rows \<and>
       w_hvt w' = w_hvt w @ filter (\<lambda>p. publishHVT svc p = None) payloads \<and>
       (cw_IsReserved req \<longrightarrow> rows = [] \<and> payloads = []) \<and>
       (\<forall>a. a \<notin> offDatabase svc \<longrightarrow>
          actualOf (w_db w') a + owed payloads a = actualOf (w_db w) a + netCredit rows a \<and>
          (cw_IsReserved req \<or> pendingOf (w_db w') a = pendingOf (w_db w) a)))"
  using assms
proof (cases rule: create_outcome)
  case unchanged
  then show ?thesis by blast
next
  case (committed created rows payloads children)
  then show ?thesis
    by (intro disjI2 exI [of _ created] exI [of _ rows] exI [of _ payloads]) (auto simp: accountsFor_def)
qed

lemma create_whole_or_nothing_witness:
  "\<exists>w'. CreateTransaction (exampleService None None) (exampleRequest False) exampleWorld =
          ((Some (exampleStored False 0), None), w') \<and>
        ((w_db w' = w_db exampleWorld \<and> w_hvt w' = w_hvt exampleWorld) \<or>
         (\<exists>created rows payloads. created = exampleStored False 0 \<and>
            db_transaction (w_db w') = rows \<and> payloads = [examplePayload 0] \<and>
            actualOf (w_db w') ''ACC'' + owed payloads ''ACC'' = 200 + netCredit rows ''ACC''))"
proof -
  obtain w' where call: "CreateTransaction (exampleService None None) (exampleRequest False) exampleWorld =
      ((Some (exampleStored False 0), None), w')"
    and w': "w_db w' = exampleState 100 0 2 0 1 [exampleStored False 0] [exampleEntry 0 1]" "w_hvt w' = [examplePayload 0]"
    using example_direct [of 200 0 exampleWorld "[]" "[]" 1 0 1 None] by (auto simp: exampleWorld_def)
  have keys: "uniqueKeys (w_db exampleWorld)"
    by (simp add: exampleWorld_def uniqueKeys_def) (simp add: exampleState_def exampleRow_def)
  have "''ACC'' \<notin> offDatabase (exampleService None None)"
    by (simp add: offDatabase_def getIgnoredAccounts_def exampleService_def exampleRepo_def)
  with create_whole_or_nothing [OF call keys exampleService_visits] call w' show ?thesis
    by (intro exI [of _ w']) (auto simp: exampleWorld_def actualOf_def fundsOf_def exampleState_def exampleRow_def)
qed

text \<open>What a settlement that answered leaves: the row with the status of its action.\<close>

lemma settled_row:
  assumes call: "ProcessReservedTransaction svc req w = ((t, None), w')"
    and keys: "uniqueKeys (w_db w)" and visits: "visitsAll svc"
  shows "us_Action req \<in> {''commit'', ''cancel''} \<and>
    (\<exists>x. find (\<lambda>x. wt_ID x = us_TransactionId req) (db_wallet_transaction (w_db w')) = Some x \<and>
         wt_Status x = (if us_Action req = ''commit'' then ''SUCCESS'' else ''CANCEL''))"
  using call keys visits
proof (cases rule: settle_outcome)
  case (committed w0 isCommit metadata rows payloads children)
  define f :: "'a WalletTransaction \<Rightarrow> 'a WalletTransaction" where "f = (\<lambda>x. if wt_ID x = us_TransactionId req then
      x\<lparr>wt_Status := if isCommit then ''SUCCESS'' else ''CANCEL'',
        wt_TransactionTime := settleTime svc req, wt_Metadata := metadata\<rparr> else x)"
  have "find (\<lambda>x. wt_ID x = us_TransactionId req) (map f xs) =
      map_option f (find (\<lambda>x. wt_ID x = us_TransactionId req) xs)" for xs
    by (induction xs) (auto simp: f_def)
  with committed(1,4) have "find (\<lambda>x. wt_ID x = us_TransactionId req) (db_wallet_transaction (w_db w')) = Some (f w0)"
    by (simp add: f_def)
  moreover have "wt_Status (f w0) = (if isCommit then ''SUCCESS'' else ''CANCEL'')"
    using committed(1) by (auto simp: f_def find_Some_iff)
  ultimately show ?thesis
    using committed(3) by auto
qed auto

text \<open>
  C23: settling is final.  Once an action succeeded, repeating it answers the settled transaction and
  changes nothing, and the opposite action is refused; so a reservation is never both committed and cancelled by calls
  that follow one another.
\<close>

theorem settle_idempotent:
  fixes w :: "'d::linordered_idom World"
  assumes "ProcessReservedTransaction svc req w = ((t, None), w')" and "uniqueKeys (w_db w)" and "visitsAll svc"
    and "fault (repo svc') SelectWalletTransaction = None" and "us_TransactionId req' = us_TransactionId req"
  shows "(us_Action req' = us_Action req \<longrightarrow>
            (\<exists>x\<in>set (db_wallet_transaction (w_db w')). wt_ID x = us_TransactionId req \<and>
               ProcessReservedTransaction svc' req' w' = ((Some x, None), w'))) \<and>
         (us_Action req' \<in> {''commit'', ''cancel''} \<and> us_Action req' \<noteq> us_Action req \<longrightarrow>
            ProcessReservedTransaction svc' req' w' = ((None, Some (Sentinel ErrTransactionNotReserved)), w'))"
proof -
  from settled_row [OF assms(1-3)] obtain x where action: "us_Action req \<in> {''commit'', ''cancel''}"
    and found: "find (\<lambda>x. wt_ID x = us_TransactionId req) (db_wallet_transaction (w_db w')) = Some x"
    and status: "wt_Status x = (if us_Action req = ''commit'' then ''SUCCESS'' else ''CANCEL'')"
    by blast
  have row: "x \<in> set (db_wallet_transaction (w_db w'))" "wt_ID x = us_TransactionId req"
    using found by (auto simp: find_Some_iff)
  have get: "WalletGetById (repo svc') (us_TransactionId req') (w_db w') = Inr x"
    using found assms(4,5) by (simp add: WalletGetById_def failIf_def)
  have "ProcessReservedTransaction svc' req' w' =
      (if us_Action req' = us_Action req then ((Some x, None), w')
       else ((None, Some (Sentinel ErrTransactionNotReserved)), w'))"
    if "us_Action req' \<in> {''commit'', ''cancel''}"
    using that action status by (auto simp: ProcessReservedTransaction_def get chooseAction_def)
  with row action show ?thesis by auto
qed

text \<open>A world with two reservations of 100 each, and a commit of the first.\<close>

definition reservedWorld :: "rat World" where
  "reservedWorld =
     \<lparr>w_db = exampleState 300 200 3 0 3 [exampleStored True 0, exampleStored True 2] [], w_hvt = [], w_notified = [],
      w_async = [], w_drawn = 4\<rparr>"

lemma reserved_keys: "uniqueKeys (w_db reservedWorld)"
proof -
  have "exampleId 0 \<noteq> exampleId 2" by (simp add: exampleId_eq)
  then show ?thesis
    by (simp add: reservedWorld_def uniqueKeys_def) (simp add: exampleState_def exampleRow_def)
qed

lemma reserved_commit:
  "\<exists>w'. ProcessReservedTransaction (exampleService None None) (exampleUpdate ''commit'' 0) reservedWorld =
      ((Some (exampleSettled ''SUCCESS'' 0), None), w') \<and>
    w_db w' = exampleState 200 100 4 0 3 [exampleSettled ''SUCCESS'' 0, exampleStored True 2] [exampleEntry 1 4] \<and>
    w_hvt w' = [examplePayload 0] \<and> w_drawn w' = 5"
proof -
  have ids: "exampleId 2 \<noteq> exampleId 0" by (simp add: exampleId_eq)
  note commit = example_commit [where n = 0 and w = reservedWorld and ws = "[exampleStored True 0, exampleStored True 2]"
      and actual = 300 and pending = 200 and ver = 3 and parked = 0 and hver = 3 and ts = "[]" and cf = None and nf = None]
  show ?thesis
    using example_settle(2) [where n = 0 and w = reservedWorld and ws = "[exampleStored True 0, exampleStored True 2]"
        and actual = 300 and pending = 200 and ver = 3 and parked = 0 and hver = 3 and ts = "[]"
        and x = "exampleStored True 0"] commit ids
    by (simp add: reservedWorld_def exampleUpdated_pending)
qed

lemma settle_idempotent_witness:
  "\<exists>w' :: rat World. ProcessReservedTransaction (exampleService None None) (exampleUpdate ''cancel'' 0) w' =
     ((None, Some (Sentinel ErrTransactionNotReserved)), w')"
proof -
  obtain w' where call: "ProcessReservedTransaction (exampleService None None) (exampleUpdate ''commit'' 0) reservedWorld =
      ((Some (exampleSettled ''SUCCESS'' 0), None), w')"
    using reserved_commit by blast
  have "fault (repo (exampleService None None)) SelectWalletTransaction = None"
    "us_TransactionId (exampleUpdate ''cancel'' 0) = us_TransactionId (exampleUpdate ''commit'' 0)"
    by (simp_all add: exampleUpdate_def)
  from settle_idempotent [OF call reserved_keys exampleService_visits this] show ?thesis
    by (intro exI [of _ w']) (simp add: exampleUpdate_def)
qed

section \<open>Histories\<close>

text \<open>
  C10: a wallet transaction is never lost, and it settles once: over any history of calls and deliveries
  its row stays the only one with its id; while it is pending it can become successful or cancelled, and from
  then on nothing of it changes.
\<close>

theorem wallet_transactions_settle_once:
  fixes s :: "'d::linordered_idom System"
  assumes "(systemStep off)\<^sup>*\<^sup>* s s'" and "uniqueKeys (w_db (sys_world s))"
    and "x \<in> set (db_wallet_transaction (w_db (sys_world s)))"
  shows "\<exists>x'\<in>set (db_wallet_transaction (w_db (sys_world s'))).
           (\<forall>y\<in>set (db_wallet_transaction (w_db (sys_world s'))). wt_ID y = wt_ID x \<longrightarrow> y = x') \<and>
           (x' = x \<or>
            wt_Status x = ''PENDING'' \<and> wt_Status x' \<in> {''SUCCESS'', ''CANCEL''} \<and>
            x' = x\<lparr>wt_Status := wt_Status x', wt_TransactionTime := wt_TransactionTime x', wt_Metadata := wt_Metadata x'\<rparr>)"
proof -
  from steps_rows [OF assms(1,2)] obtain xs new where keys: "uniqueKeys (w_db (sys_world s'))"
    and rows: "db_wallet_transaction (w_db (sys_world s')) = xs @ new"
    and follow: "list_all2 settledFrom (db_wallet_transaction (w_db (sys_world s))) xs"
    by (auto simp: rowsFollow_def)
  from follow assms(3) obtain x' where x': "x' \<in> set xs" and from_x: "settledFrom x x'"
    by (metis in_set_conv_nth list_all2_conv_all_nth)
  from from_x have "wt_ID x' = wt_ID x" by (auto simp: settledFrom_def)
  with keys x' rows have "y = x'" if "y \<in> set (db_wallet_transaction (w_db (sys_world s')))" "wt_ID y = wt_ID x" for y
    using that by (metis uniqueKeys_def distinct_map inj_onD in_set_conv_decomp append_is_Nil_conv Un_iff set_append)
  moreover have "x' = x \<or> wt_Status x = ''PENDING'' \<and> wt_Status x' \<in> {''SUCCESS'', ''CANCEL''} \<and>
      x' = x\<lparr>wt_Status := wt_Status x', wt_TransactionTime := wt_TransactionTime x', wt_Metadata := wt_Metadata x'\<rparr>"
    using from_x by (auto simp: settledFrom_def)
  ultimately show ?thesis
    using x' rows by (intro bexI [of _ x']) auto
qed

lemma wallet_transactions_settle_once_witness:
  "\<exists>s' :: rat System. \<exists>x'\<in>set (db_wallet_transaction (w_db (sys_world s'))).
     wt_ID x' = exampleId 0 \<and> wt_Status x' = ''SUCCESS''"
proof -
  obtain w' where call: "ProcessReservedTransaction (exampleService None None) (exampleUpdate ''commit'' 0) reservedWorld =
      ((Some (exampleSettled ''SUCCESS'' 0), None), w')"
    and db: "w_db w' = exampleState 200 100 4 0 3 [exampleSettled ''SUCCESS'' 0, exampleStored True 2] [exampleEntry 1 4]"
    using reserved_commit by blast
  let ?s = "exampleSystem reservedWorld"
  have "systemStep {''SYS''} ?s (?s\<lparr>sys_world := w'\<rparr>)"
    by (rule systemStep.settle [where svc = "exampleService None None" and req = "exampleUpdate ''commit'' 0" and e = None])
      (simp_all add: exampleSystem_def call example_serves)
  then have run: "(systemStep {''SYS''})\<^sup>*\<^sup>* ?s (?s\<lparr>sys_world := w'\<rparr>)" by blast
  have "exampleStored True 0 \<in> set (db_wallet_transaction (w_db (sys_world ?s)))" "uniqueKeys (w_db (sys_world ?s))"
    using reserved_keys by (simp_all add: exampleSystem_def) (simp add: reservedWorld_def)
  from wallet_transactions_settle_once [OF run this(2,1)] show ?thesis
    by (intro exI [of _ "?s\<lparr>sys_world := w'\<rparr>"]) (auto simp: db exampleSettled_def)
qed

end
