(* ===== verification/AsyncConsumer.thy ===== *)
theory AsyncConsumer
  imports HVTConsumer
begin

text \<open>
  The consumer of queued wallet transactions
  (\<open>internal/deliveries/consumer/process_wallet_transaction/process_wallet_transaction_handler.go\<close>).  It
  takes a lock under the idempotency key of the message, creates the transaction through the
  wallet service, and gives the lock back if that fails.
\<close>

section \<open>The handler\<close>

text \<open>A message: the idempotency key of its headers, empty if there is none, and what JSON makes of its value.\<close>

record 'd asyncMessage =
  am_IdempotencyKey :: string
  am_Value :: "'d CreateWalletTransactionRequest result"

record 'd AsyncState =
  as_world :: "'d World"
  as_cache :: cacheMap
  as_dlq :: "('d asyncMessage \<times> err) list"
  as_marked :: "'d asyncMessage list"

record 'd ProcessWalletTransactionHandler =
  ph_service :: "'d ServiceConfig"
  ph_cacheFault :: "cacheCall \<Rightarrow> err option"
  ph_dlqFault :: "'d asyncMessage \<Rightarrow> err option"

definition lockKey :: "string \<Rightarrow> string" where
  "lockKey key = ''go_fp_transaction_wallet_transaction_'' @ key @ '':lock''"

definition checkIdempotency ::
  "'d ProcessWalletTransactionHandler \<Rightarrow> string \<Rightarrow> (cacheMap, bool) exec" where
  "checkIdempotency am key = SetIfNotExists (ph_cacheFault am) (lockKey key) ''processed''"

definition releaseIdempotency ::
  "'d ProcessWalletTransactionHandler \<Rightarrow> string \<Rightarrow> (cacheMap, unit) exec" where
  "releaseIdempotency am key = Del (ph_cacheFault am) (lockKey key)"

text \<open>
  \<open>processMessage\<close>: the error, and the state after it.  The deferred function releases the lock after any
  error once the lock was taken.
\<close>

definition processWalletMessage ::
  "'d::linordered_idom ProcessWalletTransactionHandler \<Rightarrow> 'd asyncMessage \<Rightarrow> 'd AsyncState \<Rightarrow>
     err option \<times> 'd AsyncState" where
  "processWalletMessage am message s =
     (if am_IdempotencyKey message = '''' then (Some (ErrorMsg ''idempotency key is empty''), s)
      else case am_Value message of
        Inl e \<Rightarrow> (Some (wrapErr ''error unmarshal json'' e), s)
      | Inr payload \<Rightarrow>
          (case checkIdempotency am (am_IdempotencyKey message) (as_cache s) of
             (Inl e, m) \<Rightarrow> (Some (wrapErr ''error check idempotency'' e), s\<lparr>as_cache := m\<rparr>)
           | (Inr False, m) \<Rightarrow> (None, s\<lparr>as_cache := m\<rparr>)
           | (Inr True, m) \<Rightarrow>
               (case CreateTransaction (ph_service am) payload (as_world s) of
                  ((_, None), w) \<Rightarrow> (None, s\<lparr>as_cache := m, as_world := w\<rparr>)
                | ((_, Some e), w) \<Rightarrow>
                    (Some (wrapErr ''error store transaction'' e),
                     s\<lparr>as_cache := snd (releaseIdempotency am (am_IdempotencyKey message) m), as_world := w\<rparr>))))"

definition asyncAck :: "'d asyncMessage \<Rightarrow> 'd AsyncState \<Rightarrow> 'd AsyncState" where
  "asyncAck message s = s\<lparr>as_marked := as_marked s @ [message]\<rparr>"

definition asyncNack ::
  "'d ProcessWalletTransactionHandler \<Rightarrow> 'd asyncMessage \<Rightarrow> err \<Rightarrow> 'd AsyncState \<Rightarrow> 'd AsyncState" where
  "asyncNack am message cause s =
     asyncAck message
       (if ph_dlqFault am message = None then s\<lparr>as_dlq := as_dlq s @ [(message, cause)]\<rparr> else s)"

definition consumeAsync ::
  "'d::linordered_idom ProcessWalletTransactionHandler \<Rightarrow> 'd asyncMessage \<Rightarrow> 'd AsyncState \<Rightarrow> 'd AsyncState" where
  "consumeAsync am message s =
     (case processWalletMessage am message s of
        (None, s') \<Rightarrow> asyncAck message s'
      | (Some e, s') \<Rightarrow> asyncNack am message e s')"

definition consumeAsyncs ::
  "'d::linordered_idom ProcessWalletTransactionHandler \<Rightarrow> 'd asyncMessage list \<Rightarrow> 'd AsyncState \<Rightarrow> 'd AsyncState" where
  "consumeAsyncs am messages s = foldl (\<lambda>s m. consumeAsync am m s) s messages"

text \<open>The message that \<open>EnqueueTransaction\<close> publishes for a request: its JSON has the client and the key.\<close>

definition queued :: "'d CreateWalletTransactionRequest \<Rightarrow> 'd asyncMessage" where
  "queued req = \<lparr>am_IdempotencyKey = cw_IdempotencyKey req, am_Value = Inr req\<rparr>"

section \<open>A request of a queueing client stays in the queue\<close>

text \<open>
  The queued request carries the client that made it be queued, so that the service queues it again instead
  of creating it.
\<close>

lemma CreateTransaction_queues:
  assumes "cw_ClientId req \<in> set (AsyncWalletTransactionForClients svc)"
    and "CreateTransaction svc req w = (answer, w')"
  shows "w_db w' = w_db w \<and> w_hvt w' = w_hvt w"
  using assms unfolding CreateTransaction_def Let_def
  by (auto simp: EnqueueTransaction_def split: sum.splits option.splits if_splits)

lemma processWalletMessage_world:
  "as_world (snd (processWalletMessage am message s)) = as_world s \<or>
   (\<exists>req. am_Value message = Inr req \<and>
      as_world (snd (processWalletMessage am message s)) = snd (CreateTransaction (ph_service am) req (as_world s)))"
  unfolding processWalletMessage_def
  by (cases "am_Value message") (auto split: prod.split sum.split bool.split option.split)

lemma consumeAsync_world:
  "as_world (consumeAsync am message s) = as_world (snd (processWalletMessage am message s))"
  by (auto simp: consumeAsync_def asyncAck_def asyncNack_def split: prod.split option.split)

text \<open>
  C32: a service that queues the requests of a client and consumes its queue with the same configuration never
  creates any of them: whatever messages of that client are delivered, however often, the database stays as it was.
\<close>

theorem queued_requests_never_created:
  assumes "\<forall>m\<in>set messages. \<forall>req. am_Value m = Inr req \<longrightarrow>
             cw_ClientId req \<in> set (AsyncWalletTransactionForClients (ph_service am))"
  shows "w_db (as_world (consumeAsyncs am messages s)) = w_db (as_world s)"
  using assms
proof (induction messages arbitrary: s)
  case (Cons m messages)
  have "w_db (as_world (consumeAsync am m s)) = w_db (as_world s)"
  proof -
    have "w_db (snd (CreateTransaction (ph_service am) req (as_world s))) = w_db (as_world s)"
      if "am_Value m = Inr req" for req
      using CreateTransaction_queues [of req "ph_service am" "as_world s"] Cons.prems that by (metis list.set_intros(1) prod.collapse)
    with processWalletMessage_world [of am m s] show ?thesis
      by (auto simp: consumeAsync_world)
  qed
  with Cons.IH [of "consumeAsync am m s"] Cons.prems show ?case
    by (simp add: consumeAsyncs_def)
qed (simp add: consumeAsyncs_def)

end
