(* ===== verification/WalletFaults.thy ===== *)
theory WalletFaults
  imports WalletProperties AsyncConsumer
begin

text \<open>
  What the services do where a step fails late, runs twice, or meets a nil map: the behaviour of the code as it
  is, which the invariants of \<open>WalletSystem\<close> have to exclude.
\<close>

section \<open>A settlement that fails after publishing\<close>

text \<open>The service on a database on which nothing fails that did not, except that every commit fails.\<close>

definition failCommit :: "err \<Rightarrow> 'd ServiceConfig \<Rightarrow> 'd ServiceConfig" where
  "failCommit e svc = svc\<lparr>repo := (repo svc)\<lparr>fault := (fault (repo svc))(CommitTx := Some e)\<rparr>\<rparr>"

lemma failCommit_repository:
  fixes cfg :: "'d::linordered_idom RepoConfig" and e :: err
  defines "failing \<equiv> cfg\<lparr>fault := (fault cfg)(CommitTx := Some e)\<rparr>"
  shows "WalletGetById failing = WalletGetById cfg" and "WalletUpdate failing = WalletUpdate cfg"
    and "GetMany failing = GetMany cfg" and "UpdateAccountBalance failing = UpdateAccountBalance cfg"
    and "StoreBulk failing = StoreBulk cfg"
proof -
  have "loadBalance failing = loadBalance cfg"
    by (simp add: fun_eq_iff failing_def loadBalance_def createBalanceOptions_def Let_def cong: option.case_cong)
  moreover have "getIgnoredAccounts failing = getIgnoredAccounts cfg" "fault failing SelectAccounts = fault cfg SelectAccounts"
    "BalanceLimitToggle failing = BalanceLimitToggle cfg"
    by (simp_all add: failing_def getIgnoredAccounts_def)
  ultimately show "GetMany failing = GetMany cfg"
    by (intro ext) (simp add: GetMany_def)
qed (simp_all add: fun_eq_iff failing_def WalletGetById_def WalletUpdate_def UpdateAccountBalance_def StoreBulk_def Let_def
    cong: option.case_cong list.case_cong if_cong)

lemma failCommit_settleBalances:
  "settleBalances (failCommit e svc) i ref from current order updated s = settleBalances svc i ref from current order updated s"
proof (induction order arbitrary: updated s)
  case (Cons a order)
  have "repo (failCommit e svc) = (repo svc)\<lparr>fault := (fault (repo svc))(CommitTx := Some e)\<rparr>"
    "publishHVT (failCommit e svc) = publishHVT svc"
    by (simp_all add: failCommit_def)
  moreover have "settleBalances (failCommit e svc) i ref from current order = settleBalances svc i ref from current order"
    by (intro ext) (rule Cons.IH)
  ultimately show ?case
    by (simp add: failCommit_repository Let_def cong: option.case_cong if_cong)
qed simp

lemma failCommit_processSteps: "processSteps (failCommit e svc) = processSteps svc"
proof -
  have "insertChildTransactions (failCommit e svc) = insertChildTransactions svc"
    by (intro ext) (simp add: insertChildTransactions_def convertRequests_def failCommit_def failCommit_repository
        cong: option.case_cong prod.case_cong)
  moreover have "transformStep (failCommit e svc) = transformStep svc" "balanceRequest (failCommit e svc) = balanceRequest svc"
    "visitOrder (failCommit e svc) = visitOrder svc"
    by (simp_all add: fun_eq_iff transformStep_def balanceRequest_def failCommit_def)
  moreover have "WalletUpdate (repo (failCommit e svc)) = WalletUpdate (repo svc)" "GetMany (repo (failCommit e svc)) = GetMany (repo svc)"
    by (simp_all add: failCommit_def failCommit_repository)
  moreover have "settleBalances (failCommit e svc) = settleBalances svc"
    by (intro ext) (rule failCommit_settleBalances)
  ultimately show ?thesis
    by (intro ext) (simp add: processSteps_def cong: if_cong)
qed

text \<open>Messages that are new to a consumer, and that its database takes, are all applied.\<close>

lemma consume_fresh:
  assumes reliable: "hh_cacheFault bh = (\<lambda>_. None)" "driverErrors (hh_repo bh)"
    and "distinct (map keyOf ps)" and "keyOf ` set ps \<inter> dom (hs_cache s) = {}"
    and "\<forall>p\<in>set ps. takesPayload (hh_repo bh) p (hs_db s)"
  shows "hs_db (consumeMessages bh (map Inr ps) s) = foldl (\<lambda>db p. applyPayload (hh_repo bh) p db) (hs_db s) ps"
  using assms(3-)
proof (induction ps arbitrary: s)
  case (Cons p ps)
  note taken = hvt.taken [where bh = bh, unfolded reliable_id [OF reliable], of p s]
  from Cons.prems have p: "hs_db (consumeMessage bh (Inr p) s) = applyPayload (hh_repo bh) p (hs_db s)"
    "dom (hs_cache (consumeMessage bh (Inr p) s)) = insert (keyOf p) (dom (hs_cache s))"
    using taken by auto
  have "hs_db (consumeMessages bh (map Inr ps) (consumeMessage bh (Inr p) s)) =
      foldl (\<lambda>db p. applyPayload (hh_repo bh) p db) (hs_db (consumeMessage bh (Inr p) s)) ps"
    using Cons.prems by (intro Cons.IH) (auto simp: p takesPayload_apply)
  then show ?case by (simp add: consumeMessages_def p(1))
qed (simp add: consumeMessages_def)

text \<open>
  C30: a commit whose database transaction fails at its end, where otherwise it would have succeeded, has rolled back
  every row, the status included, but has published the very messages of the commit that succeeds.  A consumer that gets
  them pays them out, while the wallet transaction is still pending and the ledger has no row for it.
\<close>

theorem failed_commit_keeps_messages:
  fixes w :: "'d::linordered_idom World"
  assumes call: "ProcessReservedTransaction svc req w = ((Some t, None), w1)"
    and pending: "find (\<lambda>x. wt_ID x = us_TransactionId req) (db_wallet_transaction (w_db w)) = Some x" "wt_Status x = ''PENDING''"
    and keys: "uniqueKeys (w_db w)" and visits: "visitsAll svc"
  shows "\<exists>w' new. ProcessReservedTransaction (failCommit e svc) req w = ((None, Some e), w') \<and> w_db w' = w_db w \<and>
    w_hvt w1 = w_hvt w @ new \<and> w_hvt w' = w_hvt w @ new \<and>
    (\<forall>bh s. hh_cacheFault bh = (\<lambda>_. None) \<and> driverErrors (hh_repo bh) \<and> hs_db s = w_db w' \<and>
       keyOf ` set new \<inter> dom (hs_cache s) = {} \<and> (\<forall>p\<in>set new. takesPayload (hh_repo bh) p (w_db w')) \<longrightarrow>
       otherTables (hs_db (consumeMessages bh (map Inr new) s)) = otherTables (w_db w) \<and>
       (\<forall>a. actualOf (hs_db (consumeMessages bh (map Inr new) s)) a = actualOf (w_db w) a + owed new a))"
proof -
  from call keys visits obtain new order ref where new: "w_hvt w1 = w_hvt w @ new" "sentFor (us_TransactionId req) ref order new"
  proof (cases rule: settle_outcome)
    case unchanged
    from unchanged(2) [OF refl] pending show thesis by (auto split: if_splits)
  qed auto
  from call pending obtain calc status where choose: "chooseAction x (us_Action req) = Inr (None, calc, status)"
    and settle: "settleTransaction svc req x calc status w = ((Some t, None), w1)"
    and read: "WalletGetById (repo svc) (us_TransactionId req) (w_db w) = Inr x"
    by (auto simp: ProcessReservedTransaction_def WalletGetById_def chooseAction_def rbind_Ok_iff
        split: sum.splits if_splits)
  have opens: "fault (repo svc) BeginTx = None"
    using settle by (cases "fault (repo svc) BeginTx") (auto simp: settleTransaction_def Let_def Atomic_def)
  from settle obtain vars n where steps: "processSteps svc req x calc status (settleTime svc req) (w_db w, w_hvt w, w_drawn w) =
      (Inr vars, (w_db w1, w_hvt w1, n))"
    by (cases rule: settleTransaction_cases) auto
  have fails: "fault (repo (failCommit e svc)) BeginTx = None" "fault (repo (failCommit e svc)) CommitTx = Some e"
    "now (repo (failCommit e svc)) = now (repo svc)" "WalletGetById (repo (failCommit e svc)) = WalletGetById (repo svc)"
    using opens by (simp_all add: failCommit_def failCommit_repository)
  have "Atomic (repo (failCommit e svc)) (processSteps (failCommit e svc) req x calc status (settleTime (failCommit e svc) req))
      (w_db w, w_hvt w, w_drawn w) = (Inl e, (w_db w, w_hvt w1, n))"
    using steps by (simp add: Atomic_def fails failCommit_processSteps settleTime_def split: if_splits)
  then have "settleTransaction (failCommit e svc) req x calc status w = ((None, Some e), w\<lparr>w_hvt := w_hvt w1, w_drawn := n\<rparr>)"
    by (simp add: settleTransaction_def settleTime_def Let_def)
  then have "ProcessReservedTransaction (failCommit e svc) req w = ((None, Some e), w\<lparr>w_hvt := w_hvt w1, w_drawn := n\<rparr>)"
    using read choose pending(2) by (simp add: ProcessReservedTransaction_def fails(4))
  moreover have "otherTables (hs_db (consumeMessages bh (map Inr new) s)) = otherTables (w_db w) \<and>
      (\<forall>a. actualOf (hs_db (consumeMessages bh (map Inr new) s)) a = actualOf (w_db w) a + owed new a)"
    if "hh_cacheFault bh = (\<lambda>_. None)" "driverErrors (hh_repo bh)" "hs_db s = w_db w"
      "keyOf ` set new \<inter> dom (hs_cache s) = {}" "\<forall>p\<in>set new. takesPayload (hh_repo bh) p (w_db w)" for bh s
    using consume_fresh [OF that(1,2) sentFor_keys [OF new(2)] that(4)] applied_effect [OF that(5)] that(3,5) by simp
  ultimately show ?thesis
    using new(1) by (intro exI [of _ "w\<lparr>w_hvt := w_hvt w1, w_drawn := n\<rparr>"] exI [of _ new]) simp
qed

lemma failed_commit_keeps_messages_witness:
  "\<exists>w'. ProcessReservedTransaction (failCommit (External ''timeout'') (exampleService None None)) (exampleUpdate ''commit'' 0)
       reservedWorld = ((None, Some (External ''timeout'')), w') \<and>
     w_db w' = w_db reservedWorld \<and> w_hvt w' = [examplePayload 0]"
proof -
  obtain w1 where call: "ProcessReservedTransaction (exampleService None None) (exampleUpdate ''commit'' 0) reservedWorld =
      ((Some (exampleSettled ''SUCCESS'' 0), None), w1)" and hvt: "w_hvt w1 = [examplePayload 0]"
    using reserved_commit by blast
  have "find (\<lambda>x. wt_ID x = us_TransactionId (exampleUpdate ''commit'' 0)) (db_wallet_transaction (w_db reservedWorld)) =
      Some (exampleStored True 0)" "wt_Status (exampleStored True 0) = ''PENDING''"
    by (simp_all add: exampleUpdate_def reservedWorld_def)
  from failed_commit_keeps_messages [OF call this reserved_keys exampleService_visits, of "External ''timeout''"]
  obtain w' new where "ProcessReservedTransaction (failCommit (External ''timeout'') (exampleService None None))
      (exampleUpdate ''commit'' 0) reservedWorld = ((None, Some (External ''timeout'')), w')"
    "w_db w' = w_db reservedWorld" "w_hvt w1 = w_hvt reservedWorld @ new" "w_hvt w' = w_hvt reservedWorld @ new"
    by blast
  with hvt show ?thesis by auto
qed

section \<open>Two settlements at the same time\<close>

text \<open>What a commit does to the accounts, told by the ledger rows it adds.\<close>

lemma commit_effect:
  assumes settle: "settleTransaction svc req x (getWalletBalanceCommitCalculator flow) ''SUCCESS'' w = ((Some t, None), w')"
    and flow: "flow \<noteq> ''cashin''" and keys: "uniqueKeys (w_db w)" and visits: "visitsAll svc"
  obtains rows payloads metadata where
    "db_transaction (w_db w') = db_transaction (w_db w) @ rows" "w_hvt w' = w_hvt w @ payloads"
    "\<forall>a. a \<notin> offDatabase svc \<longrightarrow>
       actualOf (w_db w') a + owed payloads a = actualOf (w_db w) a + netCredit rows a \<and>
       pendingOf (w_db w') a = pendingOf (w_db w) a - spentBy rows a"
    "db_wallet_transaction (w_db w') =
       map (\<lambda>x. if wt_ID x = us_TransactionId req then
              x\<lparr>wt_Status := ''SUCCESS'', wt_TransactionTime := settleTime svc req, wt_Metadata := metadata\<rparr> else x)
         (db_wallet_transaction (w_db w))"
    "uniqueKeys (w_db w')"
proof -
  from settle obtain vars n where steps: "processSteps svc req x
        (if True then getWalletBalanceCommitCalculator flow else getWalletBalanceCancelCalculator flow)
        ''SUCCESS'' (settleTime svc req) (w_db w, w_hvt w, w_drawn w) = (Inr vars, (w_db w', w_hvt w', n))"
    by (cases rule: settleTransaction_cases) auto
  obtain children hvt metadata w0 where Ok:
    "w_hvt w' = w_hvt w @ hvt"
    "accountsFor svc (w_db w) (w_db w') hvt (settledMoves True flow children) (releasedBy flow children)"
    "db_transaction (w_db w') = db_transaction (w_db w) @ pv_acuanTransactions vars"
    "netCredit (pv_acuanTransactions vars) = (if ''SUCCESS'' = ''SUCCESS'' then movedBy children else (\<lambda>a. 0))"
    "find (\<lambda>x. wt_ID x = us_TransactionId req) (db_wallet_transaction (w_db w)) = Some w0"
    "wt_Status (pv_wallet vars) = ''SUCCESS''"
    "db_wallet_transaction (w_db w') =
       map (\<lambda>x. if wt_ID x = us_TransactionId req then
              x\<lparr>wt_Status := ''SUCCESS'', wt_TransactionTime := settleTime svc req, wt_Metadata := metadata\<rparr> else x)
         (db_wallet_transaction (w_db w))"
    "uniqueKeys (w_db w')"
    "\<exists>order. sentFor (us_TransactionId req) (wt_RefNumber w0) order hvt"
    "''SUCCESS'' = ''SUCCESS'' \<longrightarrow> spentBy (pv_acuanTransactions vars) = heldBy children"
    by (rule processSteps_Ok [OF steps keys visits])
  with flow show thesis
    by (intro that [of "pv_acuanTransactions vars" hvt metadata]) (auto simp: accountsFor_def settledMoves_def releasedBy_def)
qed

text \<open>The database with a wallet transaction as it was read before, whatever has become of it.\<close>

definition withRow :: "'d WalletTransaction \<Rightarrow> 'd DB \<Rightarrow> 'd DB" where
  "withRow x db = db\<lparr>db_wallet_transaction := map (\<lambda>y. if wt_ID y = wt_ID x then x else y) (db_wallet_transaction db)\<rparr>"

lemma find_map_ids:
  "(\<And>y. wt_ID (f y) = wt_ID y) \<Longrightarrow>
     find (\<lambda>x. wt_ID x = i) (map f xs) = map_option f (find (\<lambda>x. wt_ID x = i) xs)"
  by (induction xs) auto

lemma WalletUpdate_withRow:
  assumes "WalletUpdate cfg (wt_ID x) status time metadata (withRow x db) = (Inr wallet, db')"
    and "\<forall>y\<in>set (db_wallet_transaction db). wt_ID y = wt_ID x \<longrightarrow>
           y\<lparr>wt_Status := wt_Status x, wt_TransactionTime := wt_TransactionTime x, wt_Metadata := wt_Metadata x\<rparr> = x"
  shows "WalletUpdate cfg (wt_ID x) status time metadata db = (Inr wallet, db')"
proof -
  let ?set = "\<lambda>y. y\<lparr>wt_Status := status, wt_TransactionTime := time, wt_Metadata := storedMetadata (decimalText cfg) metadata\<rparr>"
  let ?reread = "\<lambda>y. if wt_ID y = wt_ID x then x else y"
  have same: "?set y = ?set x" if "y \<in> set (db_wallet_transaction db)" "wt_ID y = wt_ID x" for y
  proof -
    have "?set (y\<lparr>wt_Status := wt_Status x, wt_TransactionTime := wt_TransactionTime x, wt_Metadata := wt_Metadata x\<rparr>) = ?set x"
      using assms(2) that by simp
    then show ?thesis by simp
  qed
  from assms(1) obtain w0 where free: "fault cfg UpdateWalletTransaction = None"
    and found: "find (\<lambda>y. wt_ID y = wt_ID x) (map ?reread (db_wallet_transaction db)) = Some w0" and wallet: "wallet = ?set w0"
    and db': "db' = (withRow x db)\<lparr>db_wallet_transaction :=
       map (\<lambda>y. if wt_ID y = wt_ID x then ?set y else y) (map ?reread (db_wallet_transaction db))\<rparr>"
    by (auto simp: WalletUpdate_def withRow_def Let_def split: option.splits)
  from found obtain y where y: "find (\<lambda>y. wt_ID y = wt_ID x) (db_wallet_transaction db) = Some y" and "w0 = ?reread y"
    by (subst (asm) find_map_ids) auto
  moreover from y have "y \<in> set (db_wallet_transaction db)" "wt_ID y = wt_ID x" by (auto simp: find_Some_iff)
  ultimately have "?set y = wallet" using same wallet by simp
  moreover have "map (\<lambda>y. if wt_ID y = wt_ID x then ?set y else y) (map ?reread (db_wallet_transaction db)) =
      map (\<lambda>y. if wt_ID y = wt_ID x then ?set y else y) (db_wallet_transaction db)"
    using same by auto
  ultimately show ?thesis
    using free y db' by (simp add: WalletUpdate_def withRow_def Let_def)
qed

lemma processSteps_withRow:
  assumes "processSteps svc req x calc status time (withRow x db, hvt, n) = (Inr vars, s')" and "us_TransactionId req = wt_ID x"
    and "\<forall>y\<in>set (db_wallet_transaction db). wt_ID y = wt_ID x \<longrightarrow>
           y\<lparr>wt_Status := wt_Status x, wt_TransactionTime := wt_TransactionTime x, wt_Metadata := wt_Metadata x\<rparr> = x"
  shows "processSteps svc req x calc status time (db, hvt, n) = (Inr vars, s')"
proof -
  obtain metadata wallet db1 where merge: "mergeMetadata (wt_Metadata x) (us_Metadata req) = Inr metadata"
    and update: "WalletUpdate (repo svc) (us_TransactionId req) status time metadata (withRow x db) = (Inr wallet, db1)"
    using assms(1) by (cases s') (auto elim: processSteps_inv)
  from WalletUpdate_withRow [OF update [unfolded assms(2)] assms(3)]
  have "WalletUpdate (repo svc) (us_TransactionId req) status time metadata db = (Inr wallet, db1)" by (simp add: assms(2))
  with assms(1) merge update show ?thesis
    unfolding processSteps_def by (simp add: bind_def call_def wrapping_def onDb_def)
qed

lemma settleTransaction_withRow:
  assumes "settleTransaction svc req x calc status (w\<lparr>w_db := withRow x (w_db w)\<rparr>) = ((Some t, None), w')"
    and "us_TransactionId req = wt_ID x"
    and "\<forall>y\<in>set (db_wallet_transaction (w_db w)). wt_ID y = wt_ID x \<longrightarrow>
           y\<lparr>wt_Status := wt_Status x, wt_TransactionTime := wt_TransactionTime x, wt_Metadata := wt_Metadata x\<rparr> = x"
  shows "settleTransaction svc req x calc status w = ((Some t, None), w')"
proof -
  obtain vars db hvt n where ran: "Atomic (repo svc) (processSteps svc req x calc status (settleTime svc req))
      (withRow x (w_db w), w_hvt w, w_drawn w) = (Inr vars, (db, hvt, n))"
    using assms(1) by (auto simp: settleTransaction_def Let_def settleTime_def split: prod.splits sum.splits if_splits)
  then have "Atomic (repo svc) (processSteps svc req x calc status (settleTime svc req))
      (w_db w, w_hvt w, w_drawn w) = (Inr vars, (db, hvt, n))"
    using processSteps_withRow [OF _ assms(2,3)] by (simp add: Atomic_Ok_iff)
  with ran assms(1) show ?thesis
    by (simp add: settleTransaction_def Let_def settleTime_def)
qed

text \<open>The row of a settled reservation differs from what was read before in the three columns of the update.\<close>

lemma settled_rows:
  assumes rows: "db_wallet_transaction db' =
       map (\<lambda>x. if wt_ID x = i then x\<lparr>wt_Status := status, wt_TransactionTime := time, wt_Metadata := metadata\<rparr> else x)
         (db_wallet_transaction db)"
    and x: "find (\<lambda>x. wt_ID x = i) (db_wallet_transaction db) = Some x" and keys: "uniqueKeys db"
  shows "find (\<lambda>x. wt_ID x = i) (db_wallet_transaction db') =
      Some (x\<lparr>wt_Status := status, wt_TransactionTime := time, wt_Metadata := metadata\<rparr>)"
    and "find (\<lambda>x. wt_ID x = i) (db_wallet_transaction (withRow x db')) = Some x"
    and "\<forall>y\<in>set (db_wallet_transaction db'). wt_ID y = wt_ID x \<longrightarrow>
      y\<lparr>wt_Status := wt_Status x, wt_TransactionTime := wt_TransactionTime x, wt_Metadata := wt_Metadata x\<rparr> = x"
proof -
  have i: "wt_ID x = i" and member: "x \<in> set (db_wallet_transaction db)" using x by (auto simp: find_Some_iff)
  show stored: "find (\<lambda>x. wt_ID x = i) (db_wallet_transaction db') =
      Some (x\<lparr>wt_Status := status, wt_TransactionTime := time, wt_Metadata := metadata\<rparr>)"
    unfolding rows using x i by (subst find_map_ids) simp_all
  show "find (\<lambda>x. wt_ID x = i) (db_wallet_transaction (withRow x db')) = Some x"
    using stored i by (simp add: withRow_def) (subst find_map_ids, simp_all)
  have "z = x" if "z \<in> set (db_wallet_transaction db)" "wt_ID z = i" for z
    using that i member keys by (auto simp: uniqueKeys_def distinct_map inj_on_def)
  then have "(if wt_ID z = i then z\<lparr>wt_Status := status, wt_TransactionTime := time, wt_Metadata := metadata\<rparr> else z) =
      x\<lparr>wt_Status := status, wt_TransactionTime := time, wt_Metadata := metadata\<rparr>"
    if "z \<in> set (db_wallet_transaction db)" "wt_ID z = i" for z
    using that by simp
  then show "\<forall>y\<in>set (db_wallet_transaction db'). wt_ID y = wt_ID x \<longrightarrow>
      y\<lparr>wt_Status := wt_Status x, wt_TransactionTime := wt_TransactionTime x, wt_Metadata := wt_Metadata x\<rparr> = x"
    using i by (auto simp: rows split: if_splits)
qed

text \<open>
  C31: the status of a reservation is read before the database transaction and not looked at in it.  When two commits
  of one reservation have both read it as pending, and the first has gone through, the second does exactly what it
  would do if the reservation were still as it read it: if that succeeds, both have succeeded, the ledger has the rows
  of both, and every account has been paid or debited, and its pending money reduced, by the rows of both.  Had the second
  commit read after the first, it would have answered the settled reservation and changed nothing.
\<close>

theorem concurrent_commits_both_settle:
  fixes w :: "'d::linordered_idom World"
  assumes read: "WalletGetById (repo svc) i (w_db w) = Inr x"
    and pending: "wt_Status x = ''PENDING''" and flow: "wt_TransactionFlow x \<noteq> ''cashin''"
    and requests: "us_TransactionId req1 = i" "us_Action req1 = ''commit''" "us_TransactionId req2 = i" "us_Action req2 = ''commit''"
    and one: "ProcessReservedTransaction svc req1 w = ((Some t1, None), w1)"
    and two: "ProcessReservedTransaction svc req2 (w1\<lparr>w_db := withRow x (w_db w1)\<rparr>) = ((Some t2, None), w2)"
    and keys: "uniqueKeys (w_db w)" and visits: "visitsAll svc"
  defines "continue \<equiv> \<lambda>req. settleTransaction svc req x (getWalletBalanceCommitCalculator (wt_TransactionFlow x)) ''SUCCESS''"
  shows "ProcessReservedTransaction svc req1 w = continue req1 w \<and> ProcessReservedTransaction svc req2 w = continue req2 w \<and>
    continue req2 w1 = ((Some t2, None), w2) \<and>
    (\<exists>rows1 rows2 payloads1 payloads2.
       db_transaction (w_db w1) = db_transaction (w_db w) @ rows1 \<and>
       db_transaction (w_db w2) = db_transaction (w_db w) @ rows1 @ rows2 \<and>
       w_hvt w2 = w_hvt w @ payloads1 @ payloads2 \<and>
       (\<forall>a. a \<notin> offDatabase svc \<longrightarrow>
          actualOf (w_db w2) a + owed (payloads1 @ payloads2) a =
            actualOf (w_db w) a + netCredit rows1 a + netCredit rows2 a \<and>
          pendingOf (w_db w2) a = pendingOf (w_db w) a - spentBy rows1 a - spentBy rows2 a)) \<and>
    map wt_ID (db_wallet_transaction (w_db w2)) = map wt_ID (db_wallet_transaction (w_db w)) \<and>
    (\<exists>y. wt_Status y = ''SUCCESS'' \<and> ProcessReservedTransaction svc req2 w1 = ((Some y, None), w1))"
proof -
  have x: "find (\<lambda>x. wt_ID x = i) (db_wallet_transaction (w_db w)) = Some x" "wt_ID x = i"
    and select: "fault (repo svc) SelectWalletTransaction = None"
    using read by (auto simp: WalletGetById_def rbind_Ok_iff find_Some_iff split: option.splits)
  have reads: "ProcessReservedTransaction svc req v = continue req v"
    if "us_TransactionId req = i" "us_Action req = ''commit''" "find (\<lambda>x. wt_ID x = i) (db_wallet_transaction (w_db v)) = Some x"
    for req v
    using that select pending by (simp add: ProcessReservedTransaction_def WalletGetById_def failIf_def chooseAction_def continue_def)
  note calls = reads [OF requests(1,2) x(1)] reads [OF requests(3,4) x(1)]
  obtain rows1 payloads1 metadata where first:
    "db_transaction (w_db w1) = db_transaction (w_db w) @ rows1" "w_hvt w1 = w_hvt w @ payloads1"
    "\<forall>a. a \<notin> offDatabase svc \<longrightarrow>
       actualOf (w_db w1) a + owed payloads1 a = actualOf (w_db w) a + netCredit rows1 a \<and>
       pendingOf (w_db w1) a = pendingOf (w_db w) a - spentBy rows1 a"
    "db_wallet_transaction (w_db w1) =
       map (\<lambda>x. if wt_ID x = us_TransactionId req1 then
              x\<lparr>wt_Status := ''SUCCESS'', wt_TransactionTime := settleTime svc req1, wt_Metadata := metadata\<rparr> else x)
         (db_wallet_transaction (w_db w))" "uniqueKeys (w_db w1)"
    using one by (rule_tac commit_effect [OF _ flow keys visits]) (simp_all add: calls continue_def)
  note after = settled_rows [OF first(4) [unfolded requests(1)] x(1) keys]
  have serial: "\<exists>y. wt_Status y = ''SUCCESS'' \<and> ProcessReservedTransaction svc req2 w1 = ((Some y, None), w1)"
    using requests(3,4) select after(1)
    by (simp add: ProcessReservedTransaction_def WalletGetById_def failIf_def chooseAction_def)
  have "continue req2 (w1\<lparr>w_db := withRow x (w_db w1)\<rparr>) = ((Some t2, None), w2)"
    using two reads [OF requests(3,4), of "w1\<lparr>w_db := withRow x (w_db w1)\<rparr>"] after(2) by simp
  then have second: "continue req2 w1 = ((Some t2, None), w2)"
    unfolding continue_def using requests(3) x(2) after(3) by (rule_tac settleTransaction_withRow) simp_all
  obtain rows2 payloads2 metadata2 where last:
    "db_transaction (w_db w2) = db_transaction (w_db w1) @ rows2" "w_hvt w2 = w_hvt w1 @ payloads2"
    "\<forall>a. a \<notin> offDatabase svc \<longrightarrow>
       actualOf (w_db w2) a + owed payloads2 a = actualOf (w_db w1) a + netCredit rows2 a \<and>
       pendingOf (w_db w2) a = pendingOf (w_db w1) a - spentBy rows2 a"
    "db_wallet_transaction (w_db w2) =
       map (\<lambda>x. if wt_ID x = us_TransactionId req2 then
              x\<lparr>wt_Status := ''SUCCESS'', wt_TransactionTime := settleTime svc req2, wt_Metadata := metadata2\<rparr> else x)
         (db_wallet_transaction (w_db w1))" "uniqueKeys (w_db w2)"
    by (rule commit_effect [OF second [unfolded continue_def] flow first(5) visits])
  have "map wt_ID (db_wallet_transaction (w_db w2)) = map wt_ID (db_wallet_transaction (w_db w))"
    by (simp add: last(4) first(4) comp_def if_distrib [where f = wt_ID] cong: if_cong)
  moreover have accounts: "actualOf (w_db w2) a + owed (payloads1 @ payloads2) a =
        actualOf (w_db w) a + netCredit rows1 a + netCredit rows2 a \<and>
      pendingOf (w_db w2) a = pendingOf (w_db w) a - spentBy rows1 a - spentBy rows2 a" if "a \<notin> offDatabase svc" for a
    using first(3) last(3) that by (auto simp: algebra_simps)
  moreover have "db_transaction (w_db w2) = db_transaction (w_db w) @ rows1 @ rows2" "w_hvt w2 = w_hvt w @ payloads1 @ payloads2"
    using first(1,2) last(1,2) by simp_all
  ultimately show ?thesis
    using calls second serial first(1)
    by - (rule conjI, assumption, rule conjI, assumption, rule conjI, assumption, rule conjI,
        rule exI [of _ rows1], rule exI [of _ rows2], rule exI [of _ payloads1], rule exI [of _ payloads2], simp_all)
qed

text \<open>Two reservations of 100 on an account of 300: the two commits of the first leave 100, and the second has no money.\<close>

lemma concurrent_commits_both_settle_witness:
  "\<exists>w1 w2. ProcessReservedTransaction (exampleService None None) (exampleUpdate ''commit'' 0) reservedWorld =
       ((Some (exampleSettled ''SUCCESS'' 0), None), w1) \<and>
     settleTransaction (exampleService None None) (exampleUpdate ''commit'' 0) (exampleStored True 0)
       (getWalletBalanceCommitCalculator ''cashout'') ''SUCCESS'' w1 = ((Some (exampleSettled ''SUCCESS'' 0), None), w2) \<and>
     fundsOf (w_db reservedWorld) ''ACC'' = Some (300, 200) \<and> fundsOf (w_db w2) ''ACC'' = Some (100, 0) \<and>
     db_transaction (w_db w2) = [exampleEntry 1 4, exampleEntry 1 5]"
proof -
  let ?svc = "exampleService None None" and ?req = "exampleUpdate ''commit'' 0" and ?x = "exampleStored True 0"
  have ids: "exampleId 2 \<noteq> exampleId 0" "wt_ID (exampleSettled ''SUCCESS'' 0) = exampleId 0"
    by (simp_all add: exampleId_eq exampleSettled_def)
  obtain w1 where one: "ProcessReservedTransaction ?svc ?req reservedWorld = ((Some (exampleSettled ''SUCCESS'' 0), None), w1)"
    and w1: "w_db w1 = exampleState 200 100 4 0 3 [exampleSettled ''SUCCESS'' 0, exampleStored True 2] [exampleEntry 1 4]"
      "w_drawn w1 = 5"
    using reserved_commit by blast
  let ?reread = "w1\<lparr>w_db := withRow ?x (w_db w1)\<rparr>"
  have reread_db: "w_db ?reread = exampleState 200 100 4 0 3 [?x, exampleStored True 2] [exampleEntry 1 4]"
    using ids by (simp add: w1 withRow_def exampleState_def)
  have entry: "replicate 5 CHR ''i'' \<noteq> txn_TransactionID (exampleEntry 1 4)"
    by (simp add: exampleEntry_def numeral_eq_Suc)
  obtain w2 where two: "ProcessReservedTransaction ?svc ?req ?reread = ((Some (exampleSettled ''SUCCESS'' 0), None), w2)"
    and w2: "w_db w2 = exampleState 100 0 5 0 3 [exampleSettled ''SUCCESS'' 0, exampleStored True 2]
                  [exampleEntry 1 4, exampleEntry 1 5]"
    using example_settle(2) [where n = 0 and w = ?reread and ws = "[?x, exampleStored True 2]"
        and actual = 200 and pending = 100 and ver = 4 and parked = 0 and hver = 3 and ts = "[exampleEntry 1 4]" and x = ?x]
      example_commit [where n = 0 and w = ?reread and ws = "[?x, exampleStored True 2]"
        and actual = 200 and pending = 100 and ver = 4 and parked = 0 and hver = 3 and ts = "[exampleEntry 1 4]"
        and cf = None and nf = None] ids reread_db w1(2) entry
    by (auto simp: exampleUpdated_pending)
  have read: "WalletGetById (repo ?svc) (exampleId 0) (w_db reservedWorld) = Inr ?x"
    by (simp add: WalletGetById_def failIf_def reservedWorld_def)
  have x: "wt_Status ?x = ''PENDING''" "wt_TransactionFlow ?x = ''cashout''" "wt_TransactionFlow ?x \<noteq> ''cashin''"
    by simp_all
  have req: "us_TransactionId ?req = exampleId 0" "us_Action ?req = ''commit''"
    by (simp_all add: exampleUpdate_def)
  from concurrent_commits_both_settle [OF read x(1,3) req req one two reserved_keys exampleService_visits]
  have "settleTransaction ?svc ?req ?x (getWalletBalanceCommitCalculator ''cashout'') ''SUCCESS'' w1 =
      ((Some (exampleSettled ''SUCCESS'' 0), None), w2)"
    unfolding x(2) by blast
  with one w2 show ?thesis
    by (intro exI [of _ w1] exI [of _ w2])
      (simp add: reservedWorld_def, simp add: fundsOf_def exampleState_def exampleRow_def)
qed

section \<open>A reservation without metadata\<close>

text \<open>
  a reservation created without metadata is stored without a map.  Settling it with any metadata writes to
  a nil map: the panic is the answer of every such call, nothing changes, and the money stays held.
\<close>

lemma reservation_without_metadata_panics:
  assumes "find (\<lambda>x. wt_ID x = us_TransactionId req) (db_wallet_transaction (w_db w)) = Some x"
    and "wt_Status x = ''PENDING''" and "wt_Metadata x = None"
    and "us_Metadata req = Some m" and "m \<noteq> Map.empty" and "us_Action req \<in> {''commit'', ''cancel''}"
    and "fault (repo svc) SelectWalletTransaction = None" and "fault (repo svc) BeginTx = None"
  shows "ProcessReservedTransaction svc req w = ((None, Some (panicError (repo svc))), w) \<and>
         wt_Metadata (createdRow (repo svc) (nwt\<lparr>nw_Metadata := None\<rparr>)) = None"
proof -
  have "processSteps svc req x calc status time s = (Inl Panic, s)" for calc status time s
    using assms(3-5) by (simp add: processSteps_def bind_def call_def mergeMetadata_def)
  then have "settleTransaction svc req x calc status w = ((None, Some (panicError (repo svc))), w)" for calc status
    using assms(8) by (simp add: settleTransaction_def Let_def Atomic_def)
  with assms(1,2,6,7) show ?thesis
    by (auto simp: ProcessReservedTransaction_def WalletGetById_def failIf_def chooseAction_def createdRow_def
        storedMetadata_def)
qed

lemma reservation_without_metadata_panics_witness:
  "\<exists>req w. ProcessReservedTransaction (exampleService None None) req w = ((None, Some (ErrorMsg ''panic'')), w) \<and>
     pendingOf (w_db w) ''ACC'' = 100"
proof -
  let ?x = "(exampleStored True 0)\<lparr>wt_Metadata := None\<rparr>"
  let ?w = "exampleWorld\<lparr>w_db := exampleState 200 100 2 0 2 [?x] []\<rparr>"
  let ?req = "(exampleUpdate ''commit'' 0)\<lparr>us_Metadata := Some [''k'' \<mapsto> AnyString ''v'']\<rparr>"
  have id: "us_TransactionId ?req = exampleId 0" by (simp add: exampleUpdate_def)
  have "[''k'' \<mapsto> AnyString ''v''] \<noteq> (Map.empty :: string \<rightharpoonup> rat any)" by simp
  from reservation_without_metadata_panics [of ?req ?w ?x _ "exampleService None None", OF _ _ _ _ this]
  have "ProcessReservedTransaction (exampleService None None) ?req ?w = ((None, Some (panicError (exampleRepo None))), ?w)"
    by (simp add: id) (simp add: exampleUpdate_def)
  then show ?thesis
    by (intro exI [of _ ?req] exI [of _ ?w])
      (simp add: pendingOf_def fundsOf_def exampleState_def exampleRow_def exampleRepo_def)
qed

section \<open>The queue\<close>

lemma queued_requests_never_created_witness:
  "w_db (as_world (consumeAsyncs
      \<lparr>ph_service = (exampleService None None)\<lparr>AsyncWalletTransactionForClients := [''client'']\<rparr>,
       ph_cacheFault = (\<lambda>_. None), ph_dlqFault = (\<lambda>_. None)\<rparr>
      [queued (exampleRequest False), queued (exampleRequest False)]
      \<lparr>as_world = exampleWorld, as_cache = Map.empty, as_dlq = [], as_marked = []\<rparr>)) = w_db exampleWorld"
  by (subst queued_requests_never_created) (simp_all add: queued_def exampleRequest_def)

text \<open>
  an error after the commit gives the idempotency key back.  A queued cash-out whose notification cannot be published is
  reported as failed although it is committed; delivered again, it is created again, and the
  account pays twice.
\<close>

lemma unnotified_creation_repeats:
  "\<exists>s. consumeAsyncs
      \<lparr>ph_service = exampleService None (Some (External ''kafka'')), ph_cacheFault = (\<lambda>_. None), ph_dlqFault = (\<lambda>_. None)\<rparr>
      [queued (exampleRequest False), queued (exampleRequest False)]
      \<lparr>as_world = exampleWorld, as_cache = Map.empty, as_dlq = [], as_marked = []\<rparr> = s \<and>
    map wt_Status (db_wallet_transaction (w_db (as_world s))) = [''SUCCESS'', ''SUCCESS''] \<and>
    db_transaction (w_db (as_world s)) = [exampleEntry 0 1, exampleEntry 0 3] \<and>
    fundsOf (w_db exampleWorld) ''ACC'' = Some (200, 0) \<and> fundsOf (w_db (as_world s)) ''ACC'' = Some (0, 0)"
proof -
  let ?svc = "exampleService None (Some (External ''kafka''))"
  let ?am = "\<lparr>ph_service = ?svc, ph_cacheFault = (\<lambda>_. None), ph_dlqFault = (\<lambda>_. None)\<rparr>"
  let ?m = "queued (exampleRequest False)"
  obtain w1 where w1: "CreateTransaction ?svc (exampleRequest False) exampleWorld =
      ((Some (exampleStored False 0), Some (External ''kafka'')), w1) \<or>
      (\<exists>e. CreateTransaction ?svc (exampleRequest False) exampleWorld = ((Some (exampleStored False 0), Some e), w1))"
    and w1_db: "w_db w1 = exampleState 100 0 2 0 1 [exampleStored False 0] [exampleEntry 0 1]" "w_drawn w1 = 2"
    using example_direct [of 200 0 exampleWorld "[]" "[]" 1 0 1 "Some (External ''kafka'')"]
    by (auto simp: exampleWorld_def ErrorOrNil_def)
  have ids: "exampleId 2 \<noteq> exampleId 0" and entry: "replicate 3 CHR ''i'' \<noteq> txn_TransactionID (exampleEntry 0 1)"
    by (simp_all add: exampleId_eq exampleEntry_def numeral_eq_Suc)
  obtain w2 e2 where w2: "CreateTransaction ?svc (exampleRequest False) w1 = ((Some (exampleStored False 2), Some e2), w2)"
    and w2_db: "w_db w2 = exampleState 0 0 3 0 1 [exampleStored False 0, exampleStored False 2] [exampleEntry 0 1, exampleEntry 0 3]"
    using example_direct [of 100 0 w1 "[exampleStored False 0]" "[exampleEntry 0 1]" 2 0 1 "Some (External ''kafka'')"] ids entry
    by (auto simp: w1_db ErrorOrNil_def)
  from w1 obtain e1 where c1: "CreateTransaction ?svc (exampleRequest False) exampleWorld =
      ((Some (exampleStored False 0), Some e1), w1)" by blast
  have m: "am_IdempotencyKey ?m = ''once''" "am_Value ?m = Inr (exampleRequest False)"
    by (simp_all add: queued_def exampleRequest_def)
  have step: "as_world (consumeAsync ?am ?m s) = w'" "as_cache (consumeAsync ?am ?m s) = Map.empty"
    if "as_cache s = Map.empty" "CreateTransaction ?svc (exampleRequest False) (as_world s) = ((t, Some e), w')" for s t e w'
    using that m by (auto simp: consumeAsync_def processWalletMessage_def checkIdempotency_def releaseIdempotency_def
        SetIfNotExists_def Del_def asyncNack_def asyncAck_def)
  let ?s0 = "\<lparr>as_world = exampleWorld, as_cache = Map.empty, as_dlq = [], as_marked = []\<rparr>"
  have "as_world (consumeAsync ?am ?m ?s0) = w1" "as_cache (consumeAsync ?am ?m ?s0) = Map.empty"
    using step [of ?s0 _ e1 w1] c1 by simp_all
  with step [of "consumeAsync ?am ?m ?s0" _ e2 w2] w2 have "as_world (consumeAsyncs ?am [?m, ?m] ?s0) = w2"
    by (simp add: consumeAsyncs_def)
  then show ?thesis
    by (intro exI [of _ "consumeAsyncs ?am [?m, ?m] ?s0"])
      (simp add: w2_db, simp add: exampleWorld_def fundsOf_def exampleState_def exampleRow_def)
qed

section \<open>The consumer on the example\<close>

text \<open>The message of a cash-out, delivered twice, pays its account once.\<close>

lemma hvt_applied_once_witness:
  "actualOf (hs_db (consumeMessages
       \<lparr>hh_repo = exampleRepo None, hh_cacheFault = (\<lambda>_. None), hh_dlqFault = (\<lambda>_. None),
        EnablePublishHvtBalanceDLQ = True\<rparr>
       (map Inr [examplePayload 0, examplePayload 0])
       \<lparr>hs_db = exampleState 100 0 2 0 1 [] [], hs_cache = Map.empty, hs_dlq = [], hs_marked = []\<rparr>)) ''HOLD'' = 100"
proof -
  let ?bh = "\<lparr>hh_repo = exampleRepo None, hh_cacheFault = (\<lambda>_. None), hh_dlqFault = (\<lambda>_. None),
      EnablePublishHvtBalanceDLQ = True\<rparr> :: rat HvtBalanceHandler"
  let ?s = "\<lparr>hs_db = exampleState 100 0 2 0 1 [] [], hs_cache = Map.empty, hs_dlq = [], hs_marked = []\<rparr>"
  let ?p = "examplePayload 0"
  let ?s' = "consumeMessages ?bh (map Inr [?p, ?p]) ?s"
  have reliable: "hh_cacheFault ?bh = (\<lambda>_. None)" "driverErrors (hh_repo ?bh)"
    by (simp_all add: driverErrors_def)
  have takes: "takesPayload (hh_repo ?bh) ?p (hs_db ?s)"
    by (simp add: takesPayload_def examplePayload_def fundsOf_def exampleState_def exampleRow_def)
  from hvt_applied_once [OF reliable refl, of "[?p, ?p]" ?s]
  obtain applied where sub: "subseq applied [?p, ?p]" and one: "distinct (map keyOf applied)"
    and keys: "dom (hs_cache ?s') = dom (hs_cache ?s) \<union> keyOf ` set applied"
    and paid: "\<forall>a. actualOf (hs_db ?s') a = actualOf (hs_db ?s) a + owed applied a \<and>
                   pendingOf (hs_db ?s') a = pendingOf (hs_db ?s) a"
    and complete: "\<forall>p\<in>set [?p, ?p]. takesPayload (hh_repo ?bh) p (hs_db ?s) \<longrightarrow> keyOf p \<in> dom (hs_cache ?s')"
    by (elim exE conjE) (rule that; assumption)
  have "set applied \<subseteq> {?p}" by (auto elim: list_emb_set [OF sub])
  moreover have "applied \<noteq> []" using complete keys takes by auto
  ultimately obtain rest where rest: "applied = ?p # rest" and "set rest \<subseteq> {?p}" by (cases applied) auto
  moreover have "?p \<notin> set rest" using one rest by (auto simp: rev_image_eqI)
  ultimately have "applied = [?p]" by (cases rest) auto
  then show ?thesis
    using paid by (simp add: owed_def examplePayload_def actualOf_def fundsOf_def exampleState_def exampleRow_def)
qed

end
