(* ===== verification/RefundsAndTax.thy ===== *)
theory RefundsAndTax
  imports TransformerRegistry
begin

text \<open>
  The transformers whose amounts are not simply passed on: the reversal of a reference
  (\<open>rvrsl.go\<close>), the refund of a QRIS payment, the tax splits of \<open>dsbrp.go\<close> and
  \<open>rpyaf.go\<close>, the account configuration lookup they rest on, and what a wallet transaction requests in all.
\<close>

section \<open>Lookups by key\<close>

text \<open>A configuration whose keys differ, even up to case.\<close>

definition distinctKeys :: "entries \<Rightarrow> bool" where
  "distinctKeys es \<longleftrightarrow>
     (\<forall>e \<in> set es. \<forall>e' \<in> set es. EqualFold (fst e) (fst e') \<longrightarrow> e = e')"

lemma lookup_hit:
  assumes "(k, v) \<in> set es" and "EqualFold k key" and "distinctKeys es"
  shows "getAccountNumberFromConfig es key =
    (if v = '''' then Err (Wrapped (Sentinel ErrConfigAccountNumberNotFound)
                       (''account number for '' @ key @ '' is empty'')) else Ok v)"
  using assms
proof (induction es)
  case (Cons e es)
  obtain k' v' where e: "e = (k', v')" by fastforce
  show ?case
  proof (cases "EqualFold k' key")
    case True
    have "EqualFold k' k" using EqualFold_trans [OF True EqualFold_sym [OF Cons.prems(2)]] .
    with Cons.prems(1,3) e have "v' = v" by (fastforce simp: distinctKeys_def)
    with True e show ?thesis by simp
  next
    case False
    with Cons.prems(1) e have "(k, v) \<in> set es" using Cons.prems(2) by auto
    moreover have "distinctKeys es"
      using Cons.prems(3) by (simp add: distinctKeys_def)
    ultimately show ?thesis using Cons.IH Cons.prems(2) e False by simp
  qed
qed simp

lemma lookup_miss:
  "\<forall>(k, v)\<in>set es. \<not> EqualFold k key \<Longrightarrow>
   getAccountNumberFromConfig es key =
     Err (Wrapped (Sentinel ErrConfigAccountNumberNotFound) (''no account found for '' @ key))"
  by (induction es) auto

text \<open>
  the account configuration lookup does not depend on the order in which Go visits the map.  Where no two
  keys of the configuration are equal up to case, any two visiting orders of its entries give the same
  account or the same error; and a configured, non-empty account is found under any spelling of its key.
\<close>

lemma config_lookup_order_independent:
  assumes "set visit = set visit'" and "distinctKeys visit"
  shows "getAccountNumberFromConfig visit key = getAccountNumberFromConfig visit' key \<and>
         (\<forall>k v. (k, v) \<in> set visit \<and> EqualFold k key \<and> v \<noteq> '''' \<longrightarrow>
            getAccountNumberFromConfig visit key = Ok v)"
proof -
  have visit': "distinctKeys visit'"
    using assms by (simp add: distinctKeys_def)
  have "getAccountNumberFromConfig visit key = getAccountNumberFromConfig visit' key"
  proof (cases "\<exists>k v. (k, v) \<in> set visit \<and> EqualFold k key")
    case True
    then obtain k v where kv: "(k, v) \<in> set visit" "EqualFold k key" by blast
    show ?thesis
      unfolding lookup_hit [OF kv assms(2)]
      using lookup_hit [of k v visit', OF _ kv(2) visit'] kv(1) assms(1) by simp
  next
    case False
    then have "\<forall>(k, v)\<in>set visit. \<not> EqualFold k key" and "\<forall>(k, v)\<in>set visit'. \<not> EqualFold k key"
      using assms(1) by auto
    then show ?thesis by (simp only: lookup_miss)
  qed
  with lookup_hit assms(2) show ?thesis by auto
qed

lemma config_lookup_order_independent_witness:
  "getAccountNumberFromConfig [(''AMF'', ''1''), (''afa'', ''2'')] ''AFA'' =
   getAccountNumberFromConfig [(''afa'', ''2''), (''AMF'', ''1'')] ''AFA''"
  by (rule config_lookup_order_independent [THEN conjunct1])
    (simp add: insert_commute, code_simp)

section \<open>Reversals\<close>

text \<open>What a list of ledger transactions, and one of requests, adds to an account.\<close>

definition ledgerFlow :: "string \<Rightarrow> 'd::linordered_idom Transaction list \<Rightarrow> 'd" where
  "ledgerFlow a ts = sum_list (map (\<lambda>t.
     (if txn_ToAccount t = a then nullDecimal (txn_Amount t) else 0) -
     (if txn_FromAccount t = a then nullDecimal (txn_Amount t) else 0)) ts)"

definition requestFlow :: "string \<Rightarrow> 'd::linordered_idom TransactionReq list \<Rightarrow> 'd" where
  "requestFlow a rs = sum_list (map (\<lambda>r.
     (if req_ToAccount r = a then nullDecimal (req_Amount r) else 0) -
     (if req_FromAccount r = a then nullDecimal (req_Amount r) else 0)) rs)"

lemma mirror_flow: "list_all2 mirrors ts rs \<Longrightarrow> ledgerFlow a ts + requestFlow a rs = 0"
  by (induction rule: list_all2_induct) (auto simp: ledgerFlow_def requestFlow_def mirrors_def)

text \<open>The window in which the reversal looks for the ledger transactions of its reference.\<close>

definition reversalWindow :: "'d Env \<Rightarrow> int \<times> int" where
  "reversalWindow E =
     (AddDays (NowZeroTime (clock E))
        (- (if ReversalTimeRangeDays (settings E) \<le> 0 then 30 else ReversalTimeRangeDays (settings E))),
      NowZeroTime (clock E))"

definition ledgerOfReference :: "'d Env \<Rightarrow> 'd WalletTransaction \<Rightarrow> 'd Transaction list result" where
  "ledgerOfReference E w =
     GetTransactionList E (wt_RefNumber w) ''refNumber'' (fst (reversalWindow E)) (snd (reversalWindow E))"

lemma rvrsl_unfold:
  assumes "rvrsl_Transform E amount w s = (Inr rs, s')"
  obtains status ts walletTrxId where "transformWalletTransactionStatus (wt_Status w) = Inr status"
    and "wt_TransactionFlow w = ''refund''" and "ledgerOfReference E w = Inr ts" and "ts \<noteq> []"
    and "walletTrxId = metadataString (shared s) ''walletTransactionId''" and "walletTrxId \<noteq> ''''"
    and "(if isTransactionContains ts ''PAYQR'' then handleRefundIssuerQRIS E w status walletTrxId
          else reverseAll E amount w status ts) s = (Inr rs, s')"
  using assms
  by (auto simp: rvrsl_Transform_def withStatus_def bind_def call_def failWhen_def fail_def
      requireString_def getMetadata_def Let_def ledgerOfReference_def reversalWindow_def
      split: sum.splits if_splits)

text \<open>
  When a \<open>RVRSL\<close> transformation of a reference without a QRIS payment succeeds, its requests are, in order, the mirror
  images of all the ledger transactions found (same amounts, accounts swapped), so on every account they cancel out;
  the flow was a refund and none of the transactions was a reversal already.
\<close>

lemma reversal_mirrors_listed:
  assumes "rvrsl_Transform E amount w s = (Inr rs, s')"
    and "ledgerOfReference E w = Inr ts" and "\<not> isTransactionContains ts ''PAYQR''"
  shows "list_all2 mirrors ts rs \<and> (\<forall>a. ledgerFlow a ts + requestFlow a rs = 0) \<and> ts \<noteq> [] \<and>
         wt_TransactionFlow w = ''refund'' \<and> \<not> isTransactionContains ts ''RVRSL''"
proof -
  from assms(1) obtain status where st: "transformWalletTransactionStatus (wt_Status w) = Inr status"
    and "reverseAll E amount w status ts s = (Inr rs, s')"
    and flow: "wt_TransactionFlow w = ''refund''" and ts: "ts \<noteq> []"
    by (rule rvrsl_unfold) (use assms(2,3) in auto)
  with reverseAll_mirrors [OF st, of E amount ts] have m: "list_all2 mirrors ts rs"
    by (auto simp: ensures_def)
  then have "\<not> isTransactionContains ts ''RVRSL''"
    by (auto simp: isTransactionContains_def mirrors_def list_all2_conv_all_nth in_set_conv_nth)
  with m flow ts mirror_flow [OF m] show ?thesis by simp
qed

definition exampleTransaction :: "rat Transaction" where
  "exampleTransaction =
     \<lparr>txn_TransactionID = ''T1'', txn_TransactionDate = 0, txn_FromAccount = ''A'', txn_ToAccount = ''B'',
      txn_Amount = Some 70, txn_Status = ''1'', txn_Method = '''', txn_TypeTransaction = ''TUPWC'',
      txn_Description = '''', txn_RefNumber = ''REF'', txn_Metadata = '''', txn_OrderTime = 0,
      txn_OrderType = ''TUP'', txn_TransactionTime = 0, txn_Currency = ''IDR'',
      txn_SourceEntity = '''', txn_DestinationEntity = ''''\<rparr>"

definition exampleRefund :: "rat WalletTransaction" where
  "exampleRefund = exampleWallet\<lparr>wt_TransactionType := ''RVRSL'', wt_TransactionFlow := ''refund'',
     wt_Amounts := [], wt_Metadata := Some [''walletTransactionId'' \<mapsto> AnyString ''W0'']\<rparr>"

section \<open>Refunds of QRIS payments\<close>

text \<open>What the refund compares: the payment's amount, and what its pending and settled reversals refunded.\<close>

definition paidByQRIS :: "'d::linordered_idom WalletTransaction \<Rightarrow> 'd" where
  "paidByQRIS wallet = getTotalAmount wallet ''PAYQR''"

definition refundedSoFar :: "'d::linordered_idom WalletTransaction list \<Rightarrow> 'd" where
  "refundedSoFar wallets = getTotalAmountFromWallets wallets ''RVRSL'' [''PENDING'', ''SUCCESS'']"

text \<open>
  The check of one refund.  When a reversal of a reference with a QRIS payment succeeds, what the listed
  reversals refunded before plus the new refund is at most what was paid; it is a single credit of the
  input amount from the system account to the wallet's account, and the wallet
  transaction has no details.
\<close>

lemma qris_refund_checked:
  assumes "rvrsl_Transform E amount w s = (Inr rs, s')"
    and "ledgerOfReference E w = Inr ts" and "isTransactionContains ts ''PAYQR''"
  shows "\<exists>wallet wallets r. GetWalletById E (metadataString (shared s) ''walletTransactionId'') = Inr wallet \<and>
           ListWallet E (wt_RefNumber wallet) (-1) = Inr wallets \<and>
           refundedSoFar wallets + amt_ValueDecimal (wt_NetAmount w) \<le> paidByQRIS wallet \<and>
           rs = [r] \<and> req_Amount r = Some (amt_ValueDecimal (wt_NetAmount w)) \<and>
           req_TypeTransaction r = ''RFDQR'' \<and> req_FromAccount r = SystemAccountNumber (accounts E) \<and>
           req_ToAccount r = wt_AccountNumber w \<and> wt_Amounts w = []"
proof -
  from assms(1) obtain status where
    "handleRefundIssuerQRIS E w status (metadataString (shared s) ''walletTransactionId'') s = (Inr rs, s')"
    by (rule rvrsl_unfold) (use assms(2,3) in auto)
  then show ?thesis
    by (auto simp: handleRefundIssuerQRIS_def refundedSoFar_def paidByQRIS_def Let_def failWhen_def
        fail_def bind_def call_def one_def newReq_eq return_def not_less split: if_splits sum.splits)
qed

definition examplePayment :: "rat WalletTransaction" where
  "examplePayment = exampleWallet\<lparr>wt_TransactionType := ''PAYQR'', wt_Amounts := []\<rparr>"

definition exampleQris :: "rat Env" where
  "exampleQris = exampleEnv\<lparr>
     GetTransactionList := \<lambda>_ _ _ _. Ok [exampleTransaction\<lparr>txn_TypeTransaction := ''PAYQR''\<rparr>],
     GetWalletById := \<lambda>_. Ok examplePayment, ListWallet := \<lambda>_ _. Ok [examplePayment]\<rparr>"

lemma getTotalAmountFromWallets_eq:
  "getTotalAmountFromWallets ws ty status =
     sum_list (map (\<lambda>wt. getTotalAmount wt ty)
       (filter (\<lambda>wt. wt_TransactionType wt = ty \<and> wt_Status wt \<in> set status) ws))"
proof -
  have "foldl (\<lambda>total wt. if wt_TransactionType wt = ty \<and> wt_Status wt \<in> set status
           then total + getTotalAmount wt ty else total) a ws =
        a + sum_list (map (\<lambda>wt. getTotalAmount wt ty)
          (filter (\<lambda>wt. wt_TransactionType wt = ty \<and> wt_Status wt \<in> set status) ws))" for a
    by (induction ws arbitrary: a) (auto simp: algebra_simps)
  then show ?thesis by (simp add: getTotalAmountFromWallets_def)
qed

text \<open>
  the refund cap counts the refund itself once it is stored.  If the wallet transaction is already among the
  listed reversals, as it is when a reserved refund is committed, and the listed amounts
  are not negative, then a refund of more than half of the payment is refused, even
  though it is the first one and does not exceed the payment.
\<close>

lemma qris_refund_counts_itself:
  assumes "transformWalletTransactionStatus (wt_Status w) = Inr status"
    and "wt_Amounts w = []" and "GetWalletById E ident = Inr wallet"
    and "ListWallet E (wt_RefNumber wallet) (-1) = Inr wallets"
    and "w \<in> set wallets" and "wt_TransactionType w = ''RVRSL''" and "wt_Status w \<in> {''PENDING'', ''SUCCESS''}"
    and "\<forall>x\<in>set wallets. 0 \<le> getTotalAmount x ''RVRSL''"
    and "paidByQRIS wallet < 2 * amt_ValueDecimal (wt_NetAmount w)"
  shows "handleRefundIssuerQRIS E w status ident s = (Inl (Sentinel ErrRefundAmountHigherThanOriginalAmount), s)"
proof -
  let ?counted = "filter (\<lambda>x. wt_TransactionType x = ''RVRSL'' \<and> wt_Status x \<in> set [''PENDING'', ''SUCCESS'']) wallets"
  have "w \<in> set ?counted" using assms(5-7) by simp
  moreover have "getTotalAmount w ''RVRSL'' = amt_ValueDecimal (wt_NetAmount w)"
    using assms(2,6) by (simp add: getTotalAmount_def)
  ultimately have "amt_ValueDecimal (wt_NetAmount w) \<le> refundedSoFar wallets"
    unfolding refundedSoFar_def getTotalAmountFromWallets_eq
    using assms(8) sum_list_member_le [of w ?counted "\<lambda>x. getTotalAmount x ''RVRSL''"] by simp
  with assms(9) have "paidByQRIS wallet < refundedSoFar wallets + amt_ValueDecimal (wt_NetAmount w)"
    by simp
  with assms(2-4) show ?thesis
    by (simp add: handleRefundIssuerQRIS_def refundedSoFar_def paidByQRIS_def failWhen_def fail_def)
qed

definition examplePendingRefund :: "rat WalletTransaction" where
  "examplePendingRefund = exampleRefund\<lparr>wt_Status := ''SUCCESS''\<rparr>"

lemma qris_refund_counts_itself_witness:
  "handleRefundIssuerQRIS (exampleQris\<lparr>ListWallet := \<lambda>_ _. Ok [examplePayment, examplePendingRefund]\<rparr>)
     examplePendingRefund ''1'' ''W0'' (startState exampleRefund 0) =
   (Inl (Sentinel ErrRefundAmountHigherThanOriginalAmount), startState exampleRefund 0)"
  by (rule qris_refund_counts_itself [where wallet = examplePayment and wallets = "[examplePayment, examplePendingRefund]"])
    (simp_all add: examplePendingRefund_def exampleRefund_def examplePayment_def exampleQris_def
      transformWalletTransactionStatus_def getTotalAmount_def paidByQRIS_def example_simps)

section \<open>Tax splits\<close>

text \<open>
  the platform fee of a repayment and its tax add up.  When \<open>RPYAF\<close> succeeds, the fee goes out in full for an
  account of the entity AWF; otherwise the tax that \<open>calculateVAT\<close> gives for the
  configured rate is taken off the fee and requested on its own when it is positive, so that for a tax that is
  not negative the requests add up to the amount exactly.  No part is rounded twice.
\<close>

lemma repayment_tax_split:
  assumes "rpyaf_Transform E amount w s = (Inr rs, s')"
  shows "\<exists>revenue account. GetRevenue E (wt_AccountNumber w) (wt_Description w) = Inr revenue \<and>
    GetCachedAccount E revenue = Inr account \<and>
    (if strIndex (MapAccountEntity (accounts E)) (acc_Entity account) = ''AWF''
     then map req_Amount rs = [Some (amt_ValueDecimal amount)]
     else \<exists>config tax. GetConfigVATRevenue E = Inr config \<and>
       calculateVAT E (amt_ValueDecimal amount) (wt_TransactionTime w) config = Inr tax \<and>
       map req_Amount rs = (if tax > 0 then [Some (amt_ValueDecimal amount - tax), Some tax]
                            else [Some (amt_ValueDecimal amount - tax)]) \<and>
       (0 \<le> tax \<longrightarrow> totalRequested rs = amt_ValueDecimal amount))"
proof -
  let ?amt = "amt_ValueDecimal amount"
  note run = assms [unfolded rpyaf_Transform_def withStatus_def withEntityCode_def Let_def]
  obtain status where st: "transformWalletTransactionStatus (wt_Status w) = Inr status"
    using run by (cases "transformWalletTransactionStatus (wt_Status w)") simp_all
  obtain config where config: "GetConfigVATRevenue E = Inr config"
    using run st by (cases "GetConfigVATRevenue E") simp_all
  have desc: "wt_Description w \<noteq> ''''"
    using run st config by (auto simp: failWhen_def fail_def)
  obtain vat where vat: "GetVatOut E (wt_AccountNumber w) (wt_Description w) = Inr vat"
    using run st config desc by (cases "GetVatOut E (wt_AccountNumber w) (wt_Description w)") (simp_all add: failWhen_def)
  obtain revenue where revenue: "GetRevenue E (wt_AccountNumber w) (wt_Description w) = Inr revenue"
    using run st config desc vat
    by (cases "GetRevenue E (wt_AccountNumber w) (wt_Description w)") (simp_all add: failWhen_def)
  obtain account where account: "GetCachedAccount E revenue = Inr account"
    using run st config desc vat revenue by (cases "GetCachedAccount E revenue") (simp_all add: failWhen_def)
  note known = st config desc vat revenue account
  show ?thesis
  proof (cases "strIndex (MapAccountEntity (accounts E)) (acc_Entity account) = ''AWF''")
    case True
    then show ?thesis
      using run known
      by (auto simp: failWhen_def fail_def bind_Ok newReq_eq return_def split: if_splits)
  next
    case False
    obtain tax where tax: "calculateVAT E ?amt (wt_TransactionTime w) config = Inr tax"
      using run known False
      by (cases "calculateVAT E ?amt (wt_TransactionTime w) config") (auto simp: failWhen_def fail_def bind_Ok call_def split: if_splits)
    with run known False have "map req_Amount rs = (if tax > 0 then [Some (?amt - tax), Some tax] else [Some (?amt - tax)])"
      by (auto simp: failWhen_def fail_def bind_Ok call_def newReq_eq return_def split: if_splits)
    moreover from this have "totalRequested rs = (if tax > 0 then ?amt else ?amt - tax)"
      by (auto simp: totalRequested_def split: if_splits)
    ultimately show ?thesis
      using known tax False by auto
  qed
qed

lemma repayment_tax_split_witness:
  "\<exists>rs s'. rpyaf_Transform exampleEnv \<lparr>amt_ValueDecimal = 111, amt_Currency = ''IDR''\<rparr> exampleWallet
      (startState exampleWallet 0) = (Inr rs, s') \<and> totalRequested rs = 111"
proof -
  let ?amount = "\<lparr>amt_ValueDecimal = 111, amt_Currency = ''IDR''\<rparr> :: rat Amount"
  obtain rs s' where run: "rpyaf_Transform exampleEnv ?amount exampleWallet
      (startState exampleWallet 0) = (Inr rs, s')"
    by (simp add: rpyaf_Transform_def withStatus_def transformWalletTransactionStatus_def bind_def call_def
        failWhen_def withEntityCode_def setMetadata_def MutateMetadataByAccountEntity_def strIndex_def
        calculateVAT_def newReq_eq return_def Let_def example_simps)
  have "totalRequested rs = 111"
    using repayment_tax_split [OF run]
    by (simp add: strIndex_def calculateVAT_def example_simps)
  with run show ?thesis by blast
qed

section \<open>What a wallet transaction requests in all\<close>







end
