(* ===== verification/Cursors.thy ===== *)
theory Cursors
  imports DateTime
begin

text \<open>
  The texts that the list endpoints hand out as cursors: Base64 as \<open>base64.StdEncoding\<close> and \<open>base64.URLEncoding\<close>
  write and read it, instants in the layout \<open>time.RFC3339Nano\<close>, and decimal numbers as \<open>strconv\<close> reads them.  Go
  strings are sequences of bytes, as the strings of HOL are.  The lemmas show that each text reads back as what was
  written.
\<close>

section \<open>Base64\<close>

text \<open>The 64 characters of an alphabet that ends with the two characters \<open>p\<close> and \<open>q\<close>.\<close>

definition sextetChar :: "char \<times> char \<Rightarrow> nat \<Rightarrow> char" where
  "sextetChar pq n =
     (if n < 26 then char_of (65 + n) else if n < 52 then char_of (71 + n)
      else if n < 62 then char_of (n - 4) else if n = 62 then fst pq else snd pq)"

definition sextetValue :: "char \<times> char \<Rightarrow> char \<Rightarrow> nat option" where
  "sextetValue pq c =
     (let n = (of_char c :: nat)
      in if 65 \<le> n \<and> n \<le> 90 then Some (n - 65) else if 97 \<le> n \<and> n \<le> 122 then Some (n - 71)
         else if 48 \<le> n \<and> n \<le> 57 then Some (n + 4)
         else if c = fst pq then Some 62 else if c = snd pq then Some 63 else None)"

definition stdAlphabet :: "char \<times> char" where
  "stdAlphabet = (CHR ''+'', CHR ''/'')"

definition urlAlphabet :: "char \<times> char" where
  "urlAlphabet = (CHR ''-'', CHR ''_'')"

fun encodeBytes :: "char \<times> char \<Rightarrow> string \<Rightarrow> string" where
  "encodeBytes pq (a # b # c # s) =
     (let n = (of_char a * 256 + of_char b) * 256 + of_char c
      in sextetChar pq (n div 262144) # sextetChar pq (n div 4096 mod 64) # sextetChar pq (n div 64 mod 64) #
         sextetChar pq (n mod 64) # encodeBytes pq s)"
| "encodeBytes pq [a, b] =
     (let n = (of_char a * 256 + of_char b) * 4
      in [sextetChar pq (n div 4096), sextetChar pq (n div 64 mod 64), sextetChar pq (n mod 64), CHR ''=''])"
| "encodeBytes pq [a] =
     (let n = of_char a * 16
      in [sextetChar pq (n div 64), sextetChar pq (n mod 64), CHR ''='', CHR ''=''])"
| "encodeBytes pq [] = []"

text \<open>
  The decoder takes groups of four.  Padding ends the text; the bits of the last group that the
  padding leaves over are not looked at.
\<close>

fun decodeQuanta :: "char \<times> char \<Rightarrow> string \<Rightarrow> string option" where
  "decodeQuanta pq (a # b # c # d # s) =
     (case (sextetValue pq a, sextetValue pq b) of
        (Some x, Some y) \<Rightarrow>
          (if c = CHR ''='' then
             (if d = CHR ''='' \<and> s = [] then Some [char_of ((x * 64 + y) div 16)] else None)
           else case sextetValue pq c of
             Some z \<Rightarrow>
               (if d = CHR ''='' then
                  (if s = [] then let n = (x * 64 + y) * 64 + z
                                  in Some [char_of (n div 1024), char_of (n div 4 mod 256)] else None)
                else case (sextetValue pq d, decodeQuanta pq s) of
                  (Some w, Some r) \<Rightarrow>
                    (let n = ((x * 64 + y) * 64 + z) * 64 + w
                     in Some (char_of (n div 65536) # char_of (n div 256 mod 256) # char_of (n mod 256) # r))
                | _ \<Rightarrow> None)
           | None \<Rightarrow> None)
      | _ \<Rightarrow> None)"
| "decodeQuanta pq [] = Some []"
| "decodeQuanta pq s = None"

text \<open>\<open>DecodeString\<close> skips line ends wherever they are.\<close>

definition isLineEnd :: "char \<Rightarrow> bool" where
  "isLineEnd c = (of_char c = (10 :: nat) \<or> of_char c = (13 :: nat))"

definition EncodeToString :: "string \<Rightarrow> string" where
  "EncodeToString s = encodeBytes stdAlphabet s"

definition DecodeString :: "char \<times> char \<Rightarrow> string \<Rightarrow> string option" where
  "DecodeString pq s = decodeQuanta pq (filter (\<lambda>c. \<not> isLineEnd c) s)"

lemma sextetValue_sextetChar: "n < 64 \<Longrightarrow> sextetValue stdAlphabet (sextetChar stdAlphabet n) = Some n"
  by (auto simp: sextetValue_def sextetChar_def stdAlphabet_def Let_def)

lemma sextetValue_None:
  "sextetValue stdAlphabet (CHR ''='') = None"
  "isLineEnd c \<Longrightarrow> sextetValue stdAlphabet c = None"
  by (auto simp: sextetValue_def stdAlphabet_def isLineEnd_def Let_def)

lemma sextetChar_plain:
  assumes "n < 64"
  shows "sextetChar stdAlphabet n \<noteq> CHR ''=''" and "\<not> isLineEnd (sextetChar stdAlphabet n)"
  using sextetValue_sextetChar [OF assms] sextetValue_None by auto

text \<open>The three bytes of a group and its four sextets.\<close>

lemma sextets_join:
  fixes n :: nat
  shows "((n div 262144 * 64 + n div 4096 mod 64) * 64 + n div 64 mod 64) * 64 + n mod 64 = n"
proof -
  have "n div 262144 * 64 + n div 4096 mod 64 = n div 4096"
    using div_mult_mod_eq [of "n div 4096" 64] by (simp add: div_mult2_eq [symmetric])
  moreover have "n div 4096 * 64 + n div 64 mod 64 = n div 64"
    using div_mult_mod_eq [of "n div 64" 64] by (simp add: div_mult2_eq [symmetric])
  ultimately show ?thesis by simp
qed

lemma bytes_join:
  fixes a b c :: nat
  assumes "a < 256" and "b < 256" and "c < 256"
  defines "n \<equiv> (a * 256 + b) * 256 + c"
  shows "n div 262144 < 64" and "n div 65536 = a" and "n div 256 = a * 256 + b"
  using assms(1-3) unfolding n_def by (simp_all add: div_nat_eqI)

lemma sextet_of_two: "(1024 * of_char a + of_char b * 4) div 4096 < (64 :: nat)"
  using nat_of_char_less_256 [of a] nat_of_char_less_256 [of b] by (intro less_mult_imp_div_less) linarith

lemma sextet_of_one: "of_char a div 4 < (64 :: nat)"
  using nat_of_char_less_256 [of a] by (intro less_mult_imp_div_less) linarith

lemma char_ofI: "n mod 256 = of_char c \<Longrightarrow> char_of (n :: nat) = c"
  by (simp add: char_of_eq_iff take_bit_eq_mod)

lemma decode_encode: "decodeQuanta stdAlphabet (encodeBytes stdAlphabet s) = Some s"
proof (induction stdAlphabet s rule: encodeBytes.induct)
  case (1 a b c s)
  define n :: nat where "n = (of_char a * 256 + of_char b) * 256 + of_char c"
  have n: "n div 262144 < 64" "n div 65536 = of_char a" "n div 256 = of_char a * 256 + of_char b"
    using bytes_join [of "of_char a" "of_char b" "of_char c"] unfolding n_def by simp_all
  have chars: "char_of (n div 65536) = a" "char_of (n div 256 mod 256) = b" "char_of (n mod 256) = c"
    unfolding n unfolding n_def by (simp_all only: mod_mult_self3 of_char_mod_256 char_of_char)
  show ?case
    using 1 n(1) sextets_join [of n] unfolding encodeBytes.simps n_def [symmetric] Let_def
    by (simp add: sextetValue_sextetChar sextetChar_plain Let_def chars del: char_of_mod_256)
next
  case (2 a b)
  define n :: nat where "n = (of_char a * 256 + of_char b) * 4"
  have "n div 4096 < 64"
    using sextet_of_two by (simp add: n_def)
  moreover have "n div 4 = of_char a * 256 + of_char b" "n div 1024 = of_char a"
    using nat_of_char_less_256 [of a] nat_of_char_less_256 [of b] unfolding n_def by (simp_all add: div_nat_eqI)
  ultimately have n: "n div 4096 < 64" "n div 4 = of_char a * 256 + of_char b" "n div 1024 = of_char a"
    by simp_all
  have chars: "char_of (n div 1024) = a" "char_of (n div 4 mod 256) = b"
    unfolding n by (simp_all only: mod_mult_self3 of_char_mod_256 char_of_char)
  have join: "(n div 4096 * 64 + n div 64 mod 64) * 64 + n mod 64 = n"
    using sextets_join [of n] n(1) by (simp add: div_mult2_eq [symmetric])
  show ?case
    using n(1) join unfolding encodeBytes.simps n_def [symmetric] Let_def
    by (simp add: sextetValue_sextetChar sextetChar_plain Let_def chars del: char_of_mod_256)
next
  case (3 a)
  define n :: nat where "n = of_char a * 16"
  have "n div 64 < 64" and "n div 16 = of_char a"
    using sextet_of_one [of a] by (simp_all add: n_def)
  moreover have "n div 64 * 64 + n mod 64 = n" by simp
  ultimately show ?case
    unfolding encodeBytes.simps n_def [symmetric] Let_def
    by (simp add: sextetValue_sextetChar sextetChar_plain)
qed simp

lemma padding_plain [simp]: "\<not> isLineEnd (CHR ''='')"
  by (simp add: isLineEnd_def)

lemma encode_plain: "filter (\<lambda>c. \<not> isLineEnd c) (encodeBytes stdAlphabet s) = encodeBytes stdAlphabet s"
proof (induction stdAlphabet s rule: encodeBytes.induct)
  case (1 a b c s)
  then show ?case
    using bytes_join(1) [of "of_char a" "of_char b" "of_char c"] by (simp add: Let_def sextetChar_plain)
next
  case (2 a b)
  then show ?case
    by (simp add: Let_def sextetChar_plain sextet_of_two)
next
  case (3 a)
  then show ?case
    by (simp add: Let_def sextetChar_plain sextet_of_one)
qed simp

lemma DecodeString_EncodeToString [simp]: "DecodeString stdAlphabet (EncodeToString s) = Some s"
  by (simp add: DecodeString_def EncodeToString_def encode_plain decode_encode)

lemma EncodeToString_empty_iff [simp]: "EncodeToString s = '''' \<longleftrightarrow> s = ''''"
  using DecodeString_EncodeToString [of s] by (auto simp: EncodeToString_def DecodeString_def)

text \<open>A character outside of the alphabet makes a text unreadable.\<close>

lemma decodeQuanta_foreign:
  assumes "c \<in> set s" and "sextetValue pq c = None" and "c \<noteq> CHR ''=''"
  shows "decodeQuanta pq s = None"
  using assms by (induction pq s rule: decodeQuanta.induct) (fastforce simp: Let_def split: option.splits)+

lemma DecodeString_foreign:
  assumes "c \<in> set s" and "sextetValue pq c = None" and "c \<noteq> CHR ''=''" and "\<not> isLineEnd c"
  shows "DecodeString pq s = None"
  unfolding DecodeString_def by (rule decodeQuanta_foreign) (use assms in auto)

section \<open>Numbers and parts\<close>

text \<open>\<open>strings.Split(s, "|")\<close>\<close>

fun splitAt :: "char \<Rightarrow> string \<Rightarrow> string list" where
  "splitAt sep [] = ['''']"
| "splitAt sep (c # s) =
     (if c = sep then '''' # splitAt sep s else (c # hd (splitAt sep s)) # tl (splitAt sep s))"

lemma splitAt_nonempty [simp]: "splitAt sep s \<noteq> []"
  by (cases s) auto

lemma splitAt_single: "sep \<notin> set s \<Longrightarrow> splitAt sep s = [s]"
  by (induction s) auto

lemma splitAt_two: "sep \<notin> set s \<Longrightarrow> sep \<notin> set t \<Longrightarrow> splitAt sep (s @ sep # t) = [s, t]"
  by (induction s) (auto simp: splitAt_single)

text \<open>\<open>strings.Contains\<close>.\<close>

definition stringsContains :: "string \<Rightarrow> string \<Rightarrow> bool" where
  "stringsContains s substr =
     list_ex (\<lambda>i. take (length substr) (drop i s) = substr) [0..<length s + 1 - length substr]"

text \<open>\<open>strconv.ParseUint(s, 10, 64)\<close> and \<open>strconv.Atoi\<close>, and the numbers \<open>fmt\<close> prints with \<open>%d\<close>.\<close>

definition ParseUint64 :: "string \<Rightarrow> nat option" where
  "ParseUint64 s = (if s \<noteq> '''' \<and> list_all isDigit s \<and> number s < 2 ^ 64 then Some (number s) else None)"

definition Atoi :: "string \<Rightarrow> int option" where
  "Atoi s =
     (let sign = (if s \<noteq> '''' \<and> hd s = CHR ''-'' then - 1 else 1);
          ds = (if s \<noteq> '''' \<and> hd s \<in> {CHR ''-'', CHR ''+''} then tl s else s);
          n = sign * int (number ds)
      in if ds \<noteq> '''' \<and> list_all isDigit ds \<and> - (2 ^ 63) \<le> n \<and> n < 2 ^ 63 then Some n else None)"

definition formatInt :: "int \<Rightarrow> string" where
  "formatInt n = (if n < 0 then CHR ''-'' # digits (nat (- n)) else digits (nat n))"

lemma digits_nonempty [simp]: "digits n \<noteq> []"
  by (subst digits.simps) simp

lemma digits_isDigit: "list_all isDigit (digits n)" and number_digits [simp]: "number (digits n) = n"
  using digits_props [of n] by simp_all

lemma ParseUint64_digits: "n < 2 ^ 64 \<Longrightarrow> ParseUint64 (digits n) = Some n"
  by (simp add: ParseUint64_def digits_isDigit)

lemma digit_plain: "isDigit c \<Longrightarrow> c \<noteq> CHR ''-'' \<and> c \<noteq> CHR ''+'' \<and> c \<noteq> CHR ''|''"
  by (auto simp: isDigit_def)

lemma digits_plain: "hd (digits n) \<noteq> CHR ''-''" "hd (digits n) \<noteq> CHR ''+''" "CHR ''|'' \<notin> set (digits n)"
  using digits_isDigit [of n] hd_in_set [OF digits_nonempty [of n]] digit_plain
  by (auto simp: list_all_iff)

lemma Atoi_formatInt: "- (2 ^ 63) \<le> n \<Longrightarrow> n < 2 ^ 63 \<Longrightarrow> Atoi (formatInt n) = Some n"
  by (simp add: Atoi_def formatInt_def digits_isDigit digits_plain Let_def nat_less_iff)

lemma formatInt_plain: "CHR ''|'' \<notin> set (formatInt n)"
  by (simp add: formatInt_def digits_plain)

section \<open>Instants in the layout RFC3339Nano\<close>

text \<open>
  A \<open>time.Time\<close> is printed in its own location.  For the times of this program that is the one the database
  driver gives them, a fixed offset of \<open>zone\<close> minutes east of UTC.  The fraction of a second loses its trailing zeros.
\<close>

definition nsPerMinute :: int where
  "nsPerMinute = 60000000000"

definition trimZeros :: "string \<Rightarrow> string" where
  "trimZeros s = rev (dropWhile (\<lambda>c. c = CHR ''0'') (rev s))"

definition fractionText :: "nat \<Rightarrow> string" where
  "fractionText ns = (if ns = 0 then '''' else CHR ''.'' # trimZeros (padded 9 ns))"

definition zoneText :: "int \<Rightarrow> string" where
  "zoneText zone =
     (if zone = 0 then ''Z''
      else (if zone < 0 then CHR ''-'' else CHR ''+'') #
           padded 2 (nat \<bar>zone\<bar> div 60) @ CHR '':'' # padded 2 (nat \<bar>zone\<bar> mod 60))"

definition clockText :: "nat \<Rightarrow> string" where
  "clockText secs =
     padded 2 (secs div 3600) @ CHR '':'' # padded 2 (secs div 60 mod 60) @ CHR '':'' # padded 2 (secs mod 60)"

definition dateText :: "nat \<Rightarrow> string" where
  "dateText d = (let (y, m, day) = dateOf d in padded 4 y @ CHR ''-'' # padded 2 m @ CHR ''-'' # padded 2 day)"

definition FormatRFC3339Nano :: "int \<Rightarrow> int \<Rightarrow> string" where
  "FormatRFC3339Nano zone t =
     (let l = t + zone * nsPerMinute; clock = nat (l mod nsPerDay)
      in dateText (nat (l div nsPerDay)) @ CHR ''T'' # clockText (clock div 1000000000) @
         fractionText (clock mod 1000000000) @ zoneText zone)"

text \<open>
  \<open>time.Parse\<close> reads the layout from left to right: two digits, or for the hour one or two; a fraction after the
  seconds when there is one; then the zone.  Numbers out of range are errors.
\<close>

fun getnum :: "bool \<Rightarrow> string \<Rightarrow> (nat \<times> string) option" where
  "getnum fixed (a # b # s) =
     (if \<not> isDigit a then None
      else if isDigit b then Some (10 * digitValue a + digitValue b, s)
      else if fixed then None else Some (digitValue a, b # s))"
| "getnum fixed [a] = (if isDigit a \<and> \<not> fixed then Some (digitValue a, []) else None)"
| "getnum fixed [] = None"

fun skipChar :: "char \<Rightarrow> string \<Rightarrow> string option" where
  "skipChar c (a # s) = (if a = c then Some s else None)"
| "skipChar c [] = None"

definition parseYear :: "string \<Rightarrow> (nat \<times> string) option" where
  "parseYear s = (if 4 \<le> length s \<and> list_all isDigit (take 4 s) then Some (number (take 4 s), drop 4 s) else None)"

definition parseFraction :: "string \<Rightarrow> nat \<times> string" where
  "parseFraction s =
     (if s \<noteq> '''' \<and> hd s \<in> {CHR ''.'', CHR '',''} \<and> takeWhile isDigit (tl s) \<noteq> ''''
      then let ds = takeWhile isDigit (tl s)
           in (number (take 9 ds @ replicate (9 - length ds) (CHR ''0'')), dropWhile isDigit (tl s))
      else (0, s))"

definition parseZone :: "string \<Rightarrow> (int \<times> string) option" where
  "parseZone s =
     (case s of
        [] \<Rightarrow> None
      | c # r \<Rightarrow>
          if c = CHR ''Z'' then Some (0, r)
          else Option.bind (getnum True r) (\<lambda>(h, r).
               Option.bind (skipChar (CHR '':'') r) (\<lambda>r.
               Option.bind (getnum True r) (\<lambda>(mi, r).
                 if h \<le> 24 \<and> mi \<le> 60 \<and> c \<in> {CHR ''+'', CHR ''-''}
                 then Some ((if c = CHR ''-'' then - 1 else 1) * int (60 * h + mi), r) else None))))"

text \<open>The first instant of a date, in UTC, also for the year 0, which the parser accepts.\<close>

definition startOfDate :: "nat \<Rightarrow> nat \<Rightarrow> nat \<Rightarrow> int" where
  "startOfDate y m day =
     (if y = 0 then int (daysBeforeMonth 0 m + (day - 1)) - 366 else int (dayOf y m day)) * nsPerDay"

definition parseDate :: "string \<Rightarrow> ((nat \<times> nat \<times> nat) \<times> string) option" where
  "parseDate s =
     Option.bind (parseYear s) (\<lambda>(y, s). Option.bind (skipChar (CHR ''-'') s) (\<lambda>s.
     Option.bind (getnum True s) (\<lambda>(m, s). Option.bind (skipChar (CHR ''-'') s) (\<lambda>s.
     Option.bind (getnum True s) (\<lambda>(day, s). Some ((y, m, day), s))))))"

definition parseClock :: "string \<Rightarrow> ((nat \<times> nat \<times> nat) \<times> string) option" where
  "parseClock s =
     Option.bind (getnum False s) (\<lambda>(h, s). Option.bind (skipChar (CHR '':'') s) (\<lambda>s.
     Option.bind (getnum True s) (\<lambda>(mi, s). Option.bind (skipChar (CHR '':'') s) (\<lambda>s.
     Option.bind (getnum True s) (\<lambda>(sec, s). Some ((h, mi, sec), s))))))"

definition validDate :: "nat \<Rightarrow> nat \<Rightarrow> nat \<Rightarrow> bool" where
  "validDate y m day = (1 \<le> m \<and> m \<le> 12 \<and> 1 \<le> day \<and> day \<le> daysIn y m)"

definition ParseRFC3339Nano :: "string \<Rightarrow> int option" where
  "ParseRFC3339Nano s =
     Option.bind (parseDate s) (\<lambda>((y, m, day), s). Option.bind (skipChar (CHR ''T'') s) (\<lambda>s.
     Option.bind (parseClock s) (\<lambda>((h, mi, sec), s). case parseFraction s of (ns, s) \<Rightarrow>
     Option.bind (parseZone s) (\<lambda>(zone, s).
       if s = '''' \<and> validDate y m day \<and> h < 24 \<and> mi < 60 \<and> sec < 60
       then Some (startOfDate y m day + int (3600 * h + 60 * mi + sec) * 1000000000 + int ns - zone * nsPerMinute)
       else None))))"

text \<open>\<open>time.Parse\<close> of the layout \<open>2006-01-02\<close>, in UTC.\<close>

definition ParseDateUTC :: "string \<Rightarrow> int option" where
  "ParseDateUTC s =
     Option.bind (parseDate s) (\<lambda>((y, m, day), s). if s = '''' \<and> validDate y m day then Some (startOfDate y m day) else None)"

lemma getnum_padded [simp]: "n < 100 \<Longrightarrow> getnum fixed (padded 2 n @ s) = Some (n, s)"
proof -
  assume n: "n < 100"
  from padded_length(1) [OF n] obtain a b where ab: "padded 2 n = [a, b]"
    by (auto simp: length_Suc_conv numeral_2_eq_2)
  with padded_props [of 2 n] show ?thesis
    by (simp add: number_def)
qed

lemma parseYear_padded [simp]: "n < 10000 \<Longrightarrow> parseYear (padded 4 n @ s) = Some (n, s)"
  using padded_length(2) [of n] padded_props [of 4 n] by (simp add: parseYear_def)

lemma parseDate_dateText:
  assumes "fst (dateOf d) < 10000"
  shows "parseDate (dateText d @ s) = Some (dateOf d, s) \<and>
         (case dateOf d of (y, m, day) \<Rightarrow> validDate y m day \<and> startOfDate y m day = int d * nsPerDay)"
proof -
  obtain y m day where d: "dateOf d = (y, m, day)" by (cases "dateOf d") auto
  note valid = dateOf_valid [OF d]
  then have "daysIn y m \<le> 31" by (simp add: daysIn_def)
  then show ?thesis
    using valid assms d by (simp add: dateText_def parseDate_def validDate_def startOfDate_def)
qed

lemma parseClock_clockText:
  assumes "secs < 86400"
  shows "parseClock (clockText secs @ s) = Some ((secs div 3600, secs div 60 mod 60, secs mod 60), s)"
    and "3600 * (secs div 3600) + 60 * (secs div 60 mod 60) + secs mod 60 = secs"
    and "secs div 3600 < 24"
proof -
  show hour: "secs div 3600 < 24"
    using assms by (intro less_mult_imp_div_less) simp
  show "parseClock (clockText secs @ s) = Some ((secs div 3600, secs div 60 mod 60, secs mod 60), s)"
    using hour pos_mod_bound [of 60 "secs"]
    by (simp add: clockText_def parseClock_def less_trans [OF mod_less_divisor])
  have "secs div 3600 * 60 + secs div 60 mod 60 = secs div 60"
    using div_mult_mod_eq [of "secs div 60" 60] by (simp add: div_mult2_eq [symmetric])
  then show "3600 * (secs div 3600) + 60 * (secs div 60 mod 60) + secs mod 60 = secs"
    using div_mult_mod_eq [of secs 60] by linarith
qed

lemma trimZeros_restore:
  "trimZeros s @ replicate (length s - length (trimZeros s)) (CHR ''0'') = s"
proof -
  let ?z = "takeWhile (\<lambda>c. c = CHR ''0'') (rev s)" and ?r = "dropWhile (\<lambda>c. c = CHR ''0'') (rev s)"
  have "\<forall>c\<in>set ?z. c = CHR ''0''"
    by (auto dest: set_takeWhileD)
  then have zeros: "replicate (length ?z) (CHR ''0'') = ?z"
    by (simp add: replicate_length_same)
  have s: "rev (?z @ ?r) = s"
    by simp
  from arg_cong [OF this, of length] have "length s - length ?r = length ?z"
    by (simp only: length_rev length_append)
  moreover have "rev ?z = ?z"
    by (subst (1 2) zeros [symmetric]) simp
  ultimately show ?thesis
    using s by (simp only: trimZeros_def length_rev zeros rev_append)
qed

lemma trimZeros_digits: "list_all isDigit s \<Longrightarrow> list_all isDigit (trimZeros s)"
  by (auto simp: trimZeros_def list_all_iff dest: set_dropWhileD)

lemma padded_length_9: "n < 1000000000 \<Longrightarrow> length (padded 9 n) = 9"
  using digits_length [of n 8] by (simp add: padded_def)

lemma number_trimmed:
  assumes "0 < n" and "n < 1000000000"
  defines "ds \<equiv> trimZeros (padded 9 n)"
  shows "list_all isDigit ds" and "length ds \<le> 9" and "ds \<noteq> ''''"
    and "number (ds @ replicate (9 - length ds) (CHR ''0'')) = n"
proof -
  have restore: "ds @ replicate (9 - length ds) (CHR ''0'') = padded 9 n"
    using trimZeros_restore [of "padded 9 n"] padded_length_9 [OF assms(2)] unfolding ds_def by simp
  then show "number (ds @ replicate (9 - length ds) (CHR ''0'')) = n"
    by (simp add: padded_props)
  show "list_all isDigit ds"
    unfolding ds_def by (simp add: trimZeros_digits padded_props)
  show "length ds \<le> 9"
    using arg_cong [OF restore, of length] padded_length_9 [OF assms(2)] by simp
  show "ds \<noteq> ''''"
  proof
    assume "ds = ''''"
    with restore have "padded 9 n = replicate 9 (CHR ''0'')" by simp
    then have "n = number ''''"
      using number_zeros [of 9 "''''"] padded_props(2) [of 9 n] by simp
    with assms(1) show False
      by (simp add: number_def)
  qed
qed

lemma parseFraction_fractionText:
  assumes "ns < 1000000000" and "s \<noteq> ''''" and "\<not> isDigit (hd s)" and "hd s \<notin> {CHR ''.'', CHR '',''}"
  shows "parseFraction (fractionText ns @ s) = (ns, s)"
proof (cases "ns = 0")
  case True
  with assms show ?thesis by (simp add: fractionText_def parseFraction_def)
next
  case False
  let ?ds = "trimZeros (padded 9 ns)"
  note ds = number_trimmed [of ns] False
  have "takeWhile isDigit (?ds @ s) = ?ds" and "dropWhile isDigit (?ds @ s) = s"
    using assms ds by (cases s; simp add: list_all_iff)+
  then show ?thesis
    using assms ds by (simp add: fractionText_def parseFraction_def)
qed

lemma zoneText_hd: "zoneText zone \<noteq> '''' \<and> hd (zoneText zone) \<in> {CHR ''Z'', CHR ''+'', CHR ''-''}"
  by (simp add: zoneText_def)

lemma parseZone_zoneText:
  assumes "\<bar>zone\<bar> < 1440"
  shows "parseZone (zoneText zone) = Some (zone, '''')"
proof -
  let ?n = "nat \<bar>zone\<bar>"
  have "?n div 60 < 24" and "?n mod 60 < 60"
    using assms by (simp_all add: less_mult_imp_div_less)
  moreover have "getnum True (padded 2 (?n mod 60)) = Some (?n mod 60, '''')"
    using getnum_padded [of "?n mod 60" True "''''"] pos_mod_bound [of 60 ?n] by simp
  moreover have "int (60 * (?n div 60) + ?n mod 60) = \<bar>zone\<bar>"
    by simp
  ultimately show ?thesis
    by (simp add: zoneText_def parseZone_def)
qed

text \<open>
  An instant printed in a location reads back as the same instant, from the zero time to the end of year 9999.
\<close>

definition printable :: "int \<Rightarrow> int \<Rightarrow> bool" where
  "printable zone t =
     (\<bar>zone\<bar> < 1440 \<and> 0 \<le> t + zone * nsPerMinute \<and>
      fst (dateOf (nat ((t + zone * nsPerMinute) div nsPerDay))) < 10000)"

lemma ParseRFC3339Nano_Format:
  assumes "printable zone t"
  shows "ParseRFC3339Nano (FormatRFC3339Nano zone t) = Some t"
proof -
  define l where "l = t + zone * nsPerMinute"
  define d where "d = nat (l div nsPerDay)"
  define clock where "clock = nat (l mod nsPerDay)"
  have l: "0 \<le> l" and year: "fst (dateOf d) < 10000" and zone: "\<bar>zone\<bar> < 1440"
    using assms by (simp_all add: printable_def l_def d_def)
  obtain y m day where date: "dateOf d = (y, m, day)" by (cases "dateOf d") auto
  have clock: "clock < 86400000000000"
    using pos_mod_bound [of nsPerDay l] pos_mod_sign [of nsPerDay l] by (simp add: clock_def nsPerDay_def)
  then have secs: "clock div 1000000000 < 86400"
    by (intro less_mult_imp_div_less) simp
  have "int d * nsPerDay + int clock = l"
    using l div_mult_mod_eq [of l nsPerDay] by (simp add: d_def clock_def nsPerDay_def pos_imp_zdiv_nonneg_iff)
  moreover have "int (clock div 1000000000) * 1000000000 + int (clock mod 1000000000) = int clock"
    by (simp only: of_nat_div of_nat_mod of_nat_numeral div_mult_mod_eq)
  moreover have "format": "FormatRFC3339Nano zone t =
      dateText d @ CHR ''T'' # clockText (clock div 1000000000) @ fractionText (clock mod 1000000000) @ zoneText zone"
    by (simp add: FormatRFC3339Nano_def Let_def l_def d_def clock_def)
  moreover have "parseFraction (fractionText (clock mod 1000000000) @ zoneText zone) =
      (clock mod 1000000000, zoneText zone)"
    by (rule parseFraction_fractionText) (use zoneText_hd [of zone] in \<open>auto simp: isDigit_def\<close>)
  ultimately show ?thesis
    using parseDate_dateText [OF year] parseClock_clockText [OF secs] parseZone_zoneText [OF zone] date
    by (simp add: ParseRFC3339Nano_def l_def)
qed

text \<open>The characters of a printed instant: no bar, but a colon, which is in no Base64 alphabet.\<close>

lemma padded_plain: "CHR ''|'' \<notin> set (padded w n)"
  using padded_props(1) [of w n] digit_plain by (auto simp: list_all_iff)

lemma dateText_plain: "CHR ''|'' \<notin> set (dateText d)"
  by (simp add: dateText_def padded_plain split: prod.split)

lemma FormatRFC3339Nano_plain:
  "CHR ''|'' \<notin> set (FormatRFC3339Nano zone t)" "CHR '':'' \<in> set (FormatRFC3339Nano zone t)"
proof -
  have "CHR ''|'' \<notin> set (trimZeros (padded 9 n))" for n
    using trimZeros_digits [OF padded_props(1) [of 9 n]] digit_plain by (auto simp: list_all_iff)
  then show "CHR ''|'' \<notin> set (FormatRFC3339Nano zone t)"
    by (simp add: FormatRFC3339Nano_def Let_def dateText_plain clockText_def fractionText_def zoneText_def padded_plain)
  show "CHR '':'' \<in> set (FormatRFC3339Nano zone t)"
    by (simp add: FormatRFC3339Nano_def Let_def clockText_def)
qed

end
