(* ===== verification/Pagination.thy ===== *)
theory Pagination
  imports Cursors
begin

text \<open>
  Pages of a list: the options of \<open>internal/common/pagination\<close>, the answer of
  \<open>RestSuccessResponseCursorPagination\<close> in \<open>internal/common/http\<close>, and what a query with an order, a
  cursor and a limit selects.  The locale \<open>cursor_listing\<close> states what a list endpoint promises about its pages; under
  it, following the next cursors visits every row once and in order, and the previous page leads back.
\<close>

section \<open>Options\<close>

record BaseCursor =
  bc_ID :: string
  bc_isBackward :: bool

definition BuildCursorFromString :: "string \<Rightarrow> bool \<Rightarrow> BaseCursor option result" where
  "BuildCursorFromString cursorStr isBackward =
     (if cursorStr = '''' then Ok None
      else case DecodeString stdAlphabet cursorStr of
             None \<Rightarrow> Err (ErrorMsg ''failed to parse cursor string'')
           | Some decoded \<Rightarrow>
               if decoded = '''' then Err (ErrorMsg ''failed to parse cursor string: invalid format'')
               else Ok (Some \<lparr>bc_ID = decoded, bc_isBackward = isBackward\<rparr>))"

record PaginationOptions =
  po_Limit :: int
  po_NextCursor :: string
  po_PrevCursor :: string

definition buildCursor :: "PaginationOptions \<Rightarrow> BaseCursor option result" where
  "buildCursor opts =
     (if po_NextCursor opts \<noteq> '''' then BuildCursorFromString (po_NextCursor opts) False
      else if po_PrevCursor opts \<noteq> '''' then
        rbind (BuildCursorFromString (po_PrevCursor opts) False) (\<lambda>cursor.
          case cursor of None \<Rightarrow> Err Panic | Some c \<Rightarrow> Ok (Some (c\<lparr>bc_isBackward := True\<rparr>)))
      else Ok None)"

definition BuildCursorAndLimit :: "PaginationOptions \<Rightarrow> (BaseCursor option \<times> int) result" where
  "BuildCursorAndLimit opts =
     (let limit = (if po_Limit opts = 0 then 10 else po_Limit opts)
      in if limit < 0 then Err (ErrorMsg ''the limit must be greater than zero'')
         else rbind (buildCursor opts) (\<lambda>cursor. Ok (cursor, limit + 1)))"

section \<open>Answers\<close>

text \<open>The two query parameters that a page is asked with.\<close>

record PageQuery =
  nextCursor :: string
  prevCursor :: string

definition isForward :: "PageQuery \<Rightarrow> bool" where
  "isForward q = (nextCursor q \<noteq> '''')"

definition isBackward :: "PageQuery \<Rightarrow> bool" where
  "isBackward q = (\<not> isForward q \<and> prevCursor q \<noteq> '''')"

record CursorPagination =
  pg_Prev :: string
  pg_Next :: string
  pg_TotalEntries :: int

record 'm RestPagination =
  rp_Contents :: "'m list"
  rp_Pagination :: CursorPagination

definition NewCursorPagination :: "PageQuery \<Rightarrow> ('e \<Rightarrow> string) \<Rightarrow> 'e list \<Rightarrow> bool \<Rightarrow> int \<Rightarrow> CursorPagination" where
  "NewCursorPagination q GetCursor collections hasMorePages totalEntries =
     \<lparr>pg_Prev = (if collections \<noteq> [] \<and> (isForward q \<or> hasMorePages \<and> isBackward q) then GetCursor (hd collections) else ''''),
      pg_Next = (if collections \<noteq> [] \<and> (isBackward q \<or> hasMorePages) then GetCursor (last collections) else ''''),
      pg_TotalEntries = totalEntries\<rparr>"

text \<open>The loop that swaps the elements from both ends towards the middle.\<close>

function reverseLoop :: "nat \<Rightarrow> nat \<Rightarrow> 'e list \<Rightarrow> 'e list" where
  "reverseLoop i j data =
     (if i < j then reverseLoop (i + 1) (j - 1) (data[i := data ! j, j := data ! i]) else data)"
  by pat_completeness auto
termination
  by (relation "measure (\<lambda>(i, j, data). j - i)") auto

declare reverseLoop.simps [simp del]

definition RestSuccessResponseCursorPagination ::
  "PageQuery \<Rightarrow> ('e \<Rightarrow> string) \<Rightarrow> ('e \<Rightarrow> 'm) \<Rightarrow> 'e list \<Rightarrow> int \<Rightarrow> int \<Rightarrow> 'm RestPagination" where
  "RestSuccessResponseCursorPagination q GetCursor ToModelResponse data requestLimit totalRows =
     (let hasMorePages = (requestLimit - 1 < int (length data));
          data = (if data \<noteq> [] \<and> hasMorePages then butlast data else data);
          data = (if data \<noteq> [] \<and> isBackward q then reverseLoop 0 (length data - 1) data else data)
      in \<lparr>rp_Contents = map ToModelResponse data,
          rp_Pagination = NewCursorPagination q GetCursor data hasMorePages totalRows\<rparr>)"

text \<open>The swapping loop reverses the list.\<close>

lemma nth_reverseLoop:
  assumes "j < length xs" and "i \<le> Suc j" and "k < length xs"
  shows "length (reverseLoop i j xs) = length xs \<and>
         reverseLoop i j xs ! k = (if i \<le> k \<and> k \<le> j then xs ! (i + j - k) else xs ! k)"
  using assms
proof (induction i j xs rule: reverseLoop.induct)
  case (1 i j xs)
  show ?case
  proof (cases "i < j")
    case True
    let ?ys = "xs[i := xs ! j, j := xs ! i]"
    have step: "reverseLoop i j xs = reverseLoop (i + 1) (j - 1) ?ys"
      using True by (simp add: reverseLoop.simps [of i j])
    have "length (reverseLoop (i + 1) (j - 1) ?ys) = length ?ys \<and>
          reverseLoop (i + 1) (j - 1) ?ys ! k =
            (if i + 1 \<le> k \<and> k \<le> j - 1 then ?ys ! (i + 1 + (j - 1) - k) else ?ys ! k)"
      by (rule "1.IH") (use True "1.prems" in auto)
    then show ?thesis
      using True "1.prems" unfolding step by (auto simp: nth_list_update)
  next
    case False
    with "1.prems" have "i = j \<or> i = Suc j" by auto
    then show ?thesis
      using "1.prems" by (auto simp: reverseLoop.simps [of i j])
  qed
qed

lemma reverseLoop_rev: "reverseLoop 0 (length xs - 1) xs = rev xs"
proof (cases "xs = []")
  case True
  then show ?thesis by (simp add: reverseLoop.simps)
next
  case False
  then have last: "length xs - 1 < length xs" by simp
  show ?thesis
  proof (rule nth_equalityI)
    show "length (reverseLoop 0 (length xs - 1) xs) = length (rev xs)"
      using nth_reverseLoop [OF last, of 0 0] False by simp
    fix k assume "k < length (reverseLoop 0 (length xs - 1) xs)"
    then have "k < length xs"
      using nth_reverseLoop [OF last, of 0 0] False by simp
    then show "reverseLoop 0 (length xs - 1) xs ! k = rev xs ! k"
      using nth_reverseLoop [OF last, of 0 k] by (auto simp: rev_nth)
  qed
qed

section \<open>What a page selects\<close>

text \<open>
  \<open>ORDER BY key DESC\<close> or \<open>ASC\<close>, with the rows after or before the key of the cursor and a limit; backward
  pages are read in the opposite order.
\<close>

definition precedes :: "bool \<Rightarrow> 'k::linorder \<Rightarrow> 'k \<Rightarrow> bool" where
  "precedes descending k l = (if descending then l < k else k < l)"

definition orderBy :: "bool \<Rightarrow> ('r \<Rightarrow> 'k::linorder) \<Rightarrow> 'r list \<Rightarrow> 'r list" where
  "orderBy descending key rows = (if descending then rev (sort_key key rows) else sort_key key rows)"

datatype (plugins only: code) 'k Position = FirstPage | AfterKey 'k | BeforeKey 'k

fun selectPage :: "bool \<Rightarrow> ('r \<Rightarrow> 'k::linorder) \<Rightarrow> 'r list \<Rightarrow> 'k Position \<Rightarrow> nat \<Rightarrow> 'r list" where
  "selectPage descending key rows FirstPage limit = take limit (orderBy descending key rows)"
| "selectPage descending key rows (AfterKey k) limit =
     take limit (orderBy descending key (filter (\<lambda>r. precedes descending k (key r)) rows))"
| "selectPage descending key rows (BeforeKey k) limit =
     take limit (orderBy (\<not> descending) key (filter (\<lambda>r. precedes descending (key r) k) rows))"

lemma orderBy_filter: "orderBy descending key (filter P rows) = filter P (orderBy descending key rows)"
  by (simp add: orderBy_def filter_sort rev_filter [symmetric])

lemma orderBy_opposite: "orderBy (\<not> descending) key rows = rev (orderBy descending key rows)"
  by (simp add: orderBy_def)

lemma set_orderBy [simp]: "set (orderBy descending key rows) = set rows"
  and length_orderBy [simp]: "length (orderBy descending key rows) = length rows"
  by (simp_all add: orderBy_def)

lemma orderBy_strict:
  assumes "distinct (map key rows)"
  shows "sorted_wrt (\<lambda>r s. precedes descending (key r) (key s)) (orderBy descending key rows)"
proof -
  have "distinct (map key (sort_key key rows))"
    using assms by (simp add: distinct_map)
  then have "sorted_wrt (<) (map key (sort_key key rows))"
    by (simp add: strict_sorted_iff)
  then show ?thesis
    by (simp add: orderBy_def precedes_def sorted_wrt_map sorted_wrt_rev)
qed

lemma precedes_irrefl [simp]: "\<not> precedes descending k k"
  by (simp add: precedes_def)

lemma precedes_asym: "precedes descending k l \<Longrightarrow> \<not> precedes descending l k"
  by (auto simp: precedes_def split: if_splits)

lemma selectPage_split:
  assumes "distinct (map key rows)" and "orderBy descending key rows = pre @ r # post"
  shows "selectPage descending key rows (AfterKey (key r)) limit = take limit post"
    and "selectPage descending key rows (BeforeKey (key r)) limit = take limit (rev pre)"
proof -
  have order: "\<forall>s\<in>set pre. precedes descending (key s) (key r)" "\<forall>s\<in>set post. precedes descending (key r) (key s)"
    using orderBy_strict [OF assms(1), of descending] unfolding assms(2) by (auto simp: sorted_wrt_append)
  have "filter (\<lambda>s. precedes descending (key r) (key s)) pre = []"
    and "filter (\<lambda>s. precedes descending (key r) (key s)) post = post"
    and "filter (\<lambda>s. precedes descending (key s) (key r)) pre = pre"
    and "filter (\<lambda>s. precedes descending (key s) (key r)) post = []"
    using order by (auto simp: filter_empty_conv filter_id_conv dest: precedes_asym)
  then show "selectPage descending key rows (AfterKey (key r)) limit = take limit post"
    and "selectPage descending key rows (BeforeKey (key r)) limit = take limit (rev pre)"
    by (simp_all add: orderBy_opposite orderBy_filter assms(2) rev_filter [symmetric] del: rev_append)
qed

section \<open>Listings\<close>

text \<open>An endpoint answers with a page or with the status and the error of a refusal.\<close>

datatype (plugins only: code) 'm Answer = Page "'m RestPagination" | Refused int err

text \<open>The response made of one row more than a page holds, when there is one more.\<close>

lemma butlast_over: "m < length xs \<Longrightarrow> butlast (take (Suc m) xs) = take m xs"
  by (simp add: butlast_take)

lemma last_take_nth: "0 < m \<Longrightarrow> m \<le> length xs \<Longrightarrow> last (take m xs) = xs ! (m - 1)"
  by (cases xs) (auto simp: last_conv_nth min_def)

lemma forward_response:
  assumes "0 < m" and "\<not> isBackward q"
  shows "RestSuccessResponseCursorPagination q GetCursor ToModelResponse (take (m + 1) xs) (int m + 1) entries =
    \<lparr>rp_Contents = map ToModelResponse (take m xs),
     rp_Pagination =
       \<lparr>pg_Prev = (if isForward q \<and> xs \<noteq> [] then GetCursor (hd xs) else []),
        pg_Next = (if m < length xs then GetCursor (xs ! (m - 1)) else []), pg_TotalEntries = entries\<rparr>\<rparr>"
  using assms by (cases "m < length xs")
    (auto simp: RestSuccessResponseCursorPagination_def NewCursorPagination_def Let_def butlast_over last_take_nth
        hd_take)

lemma backward_response:
  assumes "0 < m" and "isBackward q"
  shows "RestSuccessResponseCursorPagination q GetCursor ToModelResponse (take (m + 1) xs) (int m + 1) entries =
    \<lparr>rp_Contents = map ToModelResponse (rev (take m xs)),
     rp_Pagination =
       \<lparr>pg_Prev = (if m < length xs then GetCursor (xs ! (m - 1)) else []),
        pg_Next = (if xs \<noteq> [] then GetCursor (hd xs) else []), pg_TotalEntries = entries\<rparr>\<rparr>"
proof -
  have "\<not> isForward q" using assms(2) by (simp add: isBackward_def)
  moreover have "m < length (take (Suc m) xs) \<longleftrightarrow> m < length xs"
    by auto
  ultimately show ?thesis
    using assms by (cases "m < length xs")
      (auto simp: RestSuccessResponseCursorPagination_def NewCursorPagination_def Let_def butlast_over last_take_nth
          hd_rev last_rev hd_take reverseLoop_rev [unfolded One_nat_def] simp del: length_take)
qed

text \<open>A list that is mapped before the answer is made of it.\<close>

lemma NewCursorPagination_map:
  "NewCursorPagination q GetCursor (map f data) over entries = NewCursorPagination q (GetCursor \<circ> f) data over entries"
  by (simp add: NewCursorPagination_def hd_map last_map)

lemma response_rev:
  "RestSuccessResponseCursorPagination q GetCursor ToModelResponse data n entries =
   (let over = n - 1 < int (length data);
        data = (if data \<noteq> [] \<and> over then butlast data else data);
        data = (if isBackward q then rev data else data)
    in \<lparr>rp_Contents = map ToModelResponse data, rp_Pagination = NewCursorPagination q GetCursor data over entries\<rparr>)"
proof -
  have loop: "(if d \<noteq> [] \<and> isBackward q then reverseLoop 0 (length d - 1) d else d) = (if isBackward q then rev d else d)"
    for d
    unfolding reverseLoop_rev by simp
  show ?thesis
    unfolding RestSuccessResponseCursorPagination_def Let_def loop by (rule refl)
qed

lemma response_map:
  "RestSuccessResponseCursorPagination q GetCursor ToModelResponse (map f data) n entries =
   RestSuccessResponseCursorPagination q (GetCursor \<circ> f) (ToModelResponse \<circ> f) data n entries"
proof -
  have "(if map f data \<noteq> [] \<and> over then butlast (map f data) else map f data) =
      map f (if data \<noteq> [] \<and> over then butlast data else data)" for over
    by (simp add: map_butlast)
  moreover have "(if isBackward q then rev (map f d) else map f d) = map f (if isBackward q then rev d else d)" for d
    by (simp add: rev_map)
  ultimately show ?thesis
    unfolding response_rev Let_def length_map by (simp only: NewCursorPagination_map list.map_comp)
qed

text \<open>
  A client that follows the next cursors, up to \<open>n\<close> pages: the contents of the pages when the last one has no next.
\<close>

fun followNext :: "nat \<Rightarrow> (PageQuery \<Rightarrow> 'm Answer) \<Rightarrow> string \<Rightarrow> 'm list list option" where
  "followNext 0 page c = None"
| "followNext (Suc n) page c =
     (case page \<lparr>nextCursor = c, prevCursor = ''''\<rparr> of
        Page r \<Rightarrow>
          (if pg_Next (rp_Pagination r) = '''' then Some [rp_Contents r]
           else map_option ((#) (rp_Contents r)) (followNext n page (pg_Next (rp_Pagination r))))
      | Refused status e \<Rightarrow> None)"

text \<open>
  What a listing relies on: an environment (a request and the tables it meets) determines its rows, their order and
  the size of a page; the keys are unique; and a cursor that was handed out selects from the key of its row on.
\<close>

locale cursor_listing =
  fixes page :: "'e \<Rightarrow> PageQuery \<Rightarrow> 'm Answer"
    and admissible :: "'e \<Rightarrow> bool"
    and rows :: "'e \<Rightarrow> 'r list"
    and descending :: "'e \<Rightarrow> bool"
    and key :: "'e \<Rightarrow> 'r \<Rightarrow> 'k::linorder"
    and size :: "'e \<Rightarrow> nat"
    and GetCursor :: "'e \<Rightarrow> 'r \<Rightarrow> string"
    and ToModelResponse :: "'e \<Rightarrow> 'r \<Rightarrow> 'm"
  assumes size_pos: "admissible e \<Longrightarrow> 0 < size e"
    and keys_distinct: "admissible e \<Longrightarrow> distinct (map (key e) (rows e))"
    and cursor_nonempty: "admissible e \<Longrightarrow> r \<in> set (rows e) \<Longrightarrow> GetCursor e r \<noteq> ''''"
    and first_page: "admissible e \<Longrightarrow> q = \<lparr>nextCursor = '''', prevCursor = ''''\<rparr> \<Longrightarrow>
      \<exists>total. page e q = Page (RestSuccessResponseCursorPagination q (GetCursor e) (ToModelResponse e)
        (selectPage (descending e) (key e) (rows e) FirstPage (size e + 1)) (int (size e) + 1) total)"
    and next_page: "admissible e \<Longrightarrow> r \<in> set (rows e) \<Longrightarrow> q = \<lparr>nextCursor = GetCursor e r, prevCursor = ''''\<rparr> \<Longrightarrow>
      \<exists>total. page e q = Page (RestSuccessResponseCursorPagination q (GetCursor e) (ToModelResponse e)
        (selectPage (descending e) (key e) (rows e) (AfterKey (key e r)) (size e + 1)) (int (size e) + 1) total)"
    and previous_page: "admissible e \<Longrightarrow> r \<in> set (rows e) \<Longrightarrow> q = \<lparr>nextCursor = '''', prevCursor = GetCursor e r\<rparr> \<Longrightarrow>
      \<exists>total. page e q = Page (RestSuccessResponseCursorPagination q (GetCursor e) (ToModelResponse e)
        (selectPage (descending e) (key e) (rows e) (BeforeKey (key e r)) (size e + 1)) (int (size e) + 1) total)"
begin

abbreviation listed :: "'e \<Rightarrow> 'r list" where
  "listed e \<equiv> orderBy (descending e) (key e) (rows e)"

text \<open>The page that begins at some place of the list.\<close>

lemma page_at:
  assumes "admissible e" and "listed e = pre @ post"
    and "pre = [] \<and> c = '''' \<or> pre \<noteq> [] \<and> c = GetCursor e (last pre)"
  shows "\<exists>r. page e \<lparr>nextCursor = c, prevCursor = ''''\<rparr> = Page r \<and>
    rp_Contents r = map (ToModelResponse e) (take (size e) post) \<and>
    pg_Prev (rp_Pagination r) = (if pre \<noteq> [] \<and> post \<noteq> [] then GetCursor e (hd post) else '''') \<and>
    pg_Next (rp_Pagination r) = (if size e < length post then GetCursor e (post ! (size e - 1)) else '''')"
proof -
  let ?q = "\<lparr>nextCursor = c, prevCursor = ''''\<rparr>" and ?m = "size e"
  have m: "0 < ?m" using size_pos [OF assms(1)] .
  have data: "\<exists>total. page e ?q = Page (RestSuccessResponseCursorPagination ?q (GetCursor e) (ToModelResponse e)
      (take (?m + 1) post) (int ?m + 1) total)"
  proof (cases "pre = []")
    case True
    with assms(2,3) first_page [OF assms(1), of ?q] show ?thesis by simp
  next
    case False
    then have split: "listed e = butlast pre @ last pre # post" using assms(2) by simp
    then have "last pre \<in> set (rows e)" by (metis in_set_conv_decomp set_orderBy)
    from next_page [OF assms(1) this, of ?q] False assms(3)
    show ?thesis by (simp only: selectPage_split [OF keys_distinct [OF assms(1)] split]) simp
  qed
  have forward: "isForward ?q = (pre \<noteq> [])" "\<not> isBackward ?q"
  proof -
    have "pre \<noteq> [] \<Longrightarrow> GetCursor e (last pre) \<noteq> ''''"
      using cursor_nonempty [OF assms(1), of "last pre"] arg_cong [OF assms(2), of set] by auto
    then show "isForward ?q = (pre \<noteq> [])" using assms(3) by (auto simp: isForward_def)
  qed (simp add: isBackward_def)
  then show ?thesis
    using data forward(1) by (simp only: forward_response [OF m forward(2)]) auto
qed

text \<open>
  Following the next cursors from any place of the list visits the rest of it, page by page, and ends.
\<close>

lemma follow_from:
  assumes "admissible e" and "listed e = pre @ post" and "length post < n"
    and "pre = [] \<and> c = [] \<or> pre \<noteq> [] \<and> c = GetCursor e (last pre)"
  shows "\<exists>pages. followNext n (page e) c = Some pages \<and> concat pages = map (ToModelResponse e) post \<and>
    (\<forall>p\<in>set pages. length p \<le> size e)"
  using assms
proof (induction n arbitrary: pre post c)
  case (Suc n)
  let ?m = "size e"
  from page_at [OF assms(1) Suc.prems(2,4)] obtain r where
    page: "page e \<lparr>nextCursor = c, prevCursor = []\<rparr> = Page r" and
    contents: "rp_Contents r = map (ToModelResponse e) (take ?m post)" and
    "next": "pg_Next (rp_Pagination r) = (if ?m < length post then GetCursor e (post ! (?m - 1)) else [])"
    by blast
  show ?case
  proof (cases "?m < length post")
    case True
    have m: "0 < ?m" using size_pos [OF assms(1)] .
    have nonempty: "take ?m post \<noteq> []"
      using True m by auto
    then have last: "last (pre @ take ?m post) = post ! (?m - 1)"
      using True m by (simp add: last_take_nth)
    have split: "listed e = (pre @ take ?m post) @ drop ?m post" using Suc.prems(2) by simp
    have "post ! (?m - 1) \<in> set (rows e)"
      using arg_cong [OF Suc.prems(2), of set] True m by auto
    then have "GetCursor e (post ! (?m - 1)) \<noteq> []" by (rule cursor_nonempty [OF assms(1)])
    moreover have "length (drop ?m post) < n"
      using True m Suc.prems(3) by simp
    with Suc.IH [OF assms(1) split, of "GetCursor e (post ! (?m - 1))"] last nonempty obtain pages where
      "followNext n (page e) (GetCursor e (post ! (?m - 1))) = Some pages"
      "concat pages = map (ToModelResponse e) (drop ?m post)" "\<forall>p\<in>set pages. length p \<le> ?m"
      by auto
    ultimately show ?thesis
      using page contents "next" True by (auto simp: append_take_drop_id simp flip: map_append)
  next
    case False
    then show ?thesis
      using page contents "next" by simp
  qed
qed simp

lemma follow_all:
  assumes "admissible e" and "length (rows e) < n"
  shows "\<exists>pages. followNext n (page e) [] = Some pages \<and> concat pages = map (ToModelResponse e) (listed e) \<and>
    (\<forall>p\<in>set pages. length p \<le> size e)"
  using follow_from [OF assms(1), of "[]" "listed e" n "[]"] assms(2) by simp

text \<open>
  The previous cursor of the page that follows a row leads to the page that ends with that row, and its next cursor
  leads forward again to the page one came from.
\<close>

lemma back_and_forth:
  assumes "admissible e" and "listed e = pre @ r # s # post"
  shows "\<exists>p b. page e \<lparr>nextCursor = GetCursor e r, prevCursor = []\<rparr> = Page p \<and>
    page e \<lparr>nextCursor = [], prevCursor = pg_Prev (rp_Pagination p)\<rparr> = Page b \<and>
    rp_Contents b = map (ToModelResponse e) (drop (Suc (length pre) - size e) (pre @ [r])) \<and>
    pg_Next (rp_Pagination b) = GetCursor e r"
proof -
  have m: "0 < size e" using size_pos [OF assms(1)] .
  have split: "listed e = (pre @ [r]) @ s # post" using assms(2) by simp
  from page_at [OF assms(1) split, of "GetCursor e r"] obtain p where
    p: "page e \<lparr>nextCursor = GetCursor e r, prevCursor = []\<rparr> = Page p" "pg_Prev (rp_Pagination p) = GetCursor e s"
    by auto
  have s: "s \<in> set (rows e)" using arg_cong [OF assms(2), of set] by auto
  let ?q = "\<lparr>nextCursor = [], prevCursor = GetCursor e s\<rparr>"
  have backward: "isBackward ?q" "\<not> isForward ?q"
    using cursor_nonempty [OF assms(1) s] by (simp_all add: isBackward_def isForward_def)
  have select: "selectPage (descending e) (key e) (rows e) (BeforeKey (key e s)) (size e + 1) =
      take (size e + 1) (rev (pre @ [r]))"
    by (rule selectPage_split(2) [OF keys_distinct [OF assms(1)] split])
  from previous_page [OF assms(1) s, of ?q] obtain total where
    "page e ?q = Page (RestSuccessResponseCursorPagination ?q (GetCursor e) (ToModelResponse e)
       (take (size e + 1) (rev (pre @ [r]))) (int (size e) + 1) total)"
    unfolding select by blast
  moreover have "rev (take (size e) (rev (pre @ [r]))) = drop (Suc (length pre) - size e) (pre @ [r])"
    by (simp add: rev_take del: rev_append)
  ultimately show ?thesis
    using p by (simp only: backward_response [OF m backward(1)]) simp
qed

end

end
