(* ===== verification/WalletListing.thy ===== *)
theory WalletListing
  imports Pagination ServiceHelpers "HOL-Library.Char_ord" "HOL-Library.List_Lexorder" "HOL-Library.Product_Lexorder"
begin

text \<open>
  The lists of wallet transactions: the two requests and the cursor of \<open>internal/models/internal_wallet.go\<close>, the query
  of \<open>internal/repositories/sql_wallet_transaction_query.go\<close>, \<open>List\<close> of the repository and of the service, and
  the handlers of \<open>internal/deliveries/http/v1/internal_wallet\<close>.  Both endpoints are listings in the sense of
  \<open>Pagination\<close>.
\<close>

section \<open>Requests\<close>

record WalletTrxCursor =
  wc_TransactionTime :: int
  wc_Id :: string
  wc_IsBackward :: bool

record WalletTrxFilterOptions =
  wf_AccountNumber :: string
  wf_Limit :: int
  wf_SortBy :: string
  wf_SortDirection :: string
  wf_Status :: string
  wf_TransactionType :: string
  wf_StartDate :: "int option"
  wf_EndDate :: "int option"
  wf_AccountNumbers :: "string list"
  wf_TransactionTypes :: "string list"
  wf_RefNumber :: string
  wf_Cursor :: "WalletTrxCursor option"

record ListWalletTrxByAccountNumberRequest =
  lw_AccountNumber :: string
  lw_Limit :: int
  lw_Status :: string
  lw_StartDate :: string
  lw_EndDate :: string
  lw_TransactionType :: string
  lw_SortBy :: string
  lw_SortDirection :: string
  lw_NextCursor :: string
  lw_PrevCursor :: string

text \<open>The second request has lists, separated by commas, in place of the account number.\<close>

record ListWalletTrxRequest = ListWalletTrxByAccountNumberRequest +
  lw_AccountNumbers :: string
  lw_TransactionTypes :: string

text \<open>\<open>WalletTrxCursor.String\<close> and its inverse; the driver reads times in a location \<open>zone\<close> minutes east of UTC.\<close>

definition WalletTrxCursorString :: "int \<Rightarrow> WalletTrxCursor \<Rightarrow> string" where
  "WalletTrxCursorString zone w = EncodeToString (FormatRFC3339Nano zone (wc_TransactionTime w) @ ''|'' @ wc_Id w)"

definition decodeWalletTrxCursor :: "string \<Rightarrow> WalletTrxCursor result" where
  "decodeWalletTrxCursor cursor =
     (case DecodeString stdAlphabet cursor of
        None \<Rightarrow> Err (ErrorMsg ''failed to parse offset string'')
      | Some decoded \<Rightarrow>
          (let parts = splitAt (CHR ''|'') decoded
           in if length parts \<noteq> 2 then Err (ErrorMsg ''failed to parse offset string: invalid format'')
              else case ParseRFC3339Nano (parts ! 0) of
                None \<Rightarrow> Err (ErrorMsg ''failed to parse offset date'')
              | Some time \<Rightarrow> Ok \<lparr>wc_TransactionTime = time, wc_Id = parts ! 1, wc_IsBackward = False\<rparr>))"

text \<open>
  \<open>ParseStringToDatetime\<close> of the layout with the time, on a date with \<open>23:59:59\<close> appended.  The space in the
  layout stands for any number of spaces.
\<close>

definition endOfDate :: "string \<Rightarrow> int result" where
  "endOfDate date =
     rbind (ParseDateInLocalTime (rev (dropWhile (\<lambda>c. c = CHR 32) (rev date)))) (\<lambda>t. Ok (t + 86399 * 1000000000))"

text \<open>An entry of the generated error table, by its key.\<close>

definition GetErrMap :: "string \<Rightarrow> err" where
  "GetErrMap key = ErrorMsg (''code: '' @ key)"

definition walletDates :: "string \<Rightarrow> string \<Rightarrow> (int option \<times> int option) result" where
  "walletDates startDate endDate =
     (if (startDate = '''') \<noteq> (endDate = '''') then Err (GetErrMap ''startDateAndEndDateRequiredIfOneIsFilled'')
      else if startDate = '''' then Ok (None, None)
      else case ParseDateInLocalTime startDate of
             Inl e \<Rightarrow> Err (GetErrMap ''invalidFormatDate'')
           | Inr from \<Rightarrow>
               (case endOfDate endDate of
                  Inl e \<Rightarrow> Err (GetErrMap ''invalidFormatDate'')
                | Inr until \<Rightarrow>
                    if until < from then Err (GetErrMap ''StartDateIsAfterEndDate'') else Ok (Some from, Some until)))"

definition walletCursor :: "string \<Rightarrow> string \<Rightarrow> WalletTrxCursor option result" where
  "walletCursor nextCur prevCur =
     (if nextCur \<noteq> '''' then rbind (decodeWalletTrxCursor nextCur) (\<lambda>c. Ok (Some c))
      else if prevCur \<noteq> '''' then rbind (decodeWalletTrxCursor prevCur) (\<lambda>c. Ok (Some (c\<lparr>wc_IsBackward := True\<rparr>)))
      else Ok None)"

text \<open>
  What the two \<open>ToFilterOpts\<close> share, after the fields that are copied: dates, limit, the defaults of the order,
  the row more than a page, and the cursor.
\<close>

definition walletFilterOpts ::
  "('a) ListWalletTrxByAccountNumberRequest_scheme \<Rightarrow> WalletTrxFilterOptions \<Rightarrow> WalletTrxFilterOptions result" where
  "walletFilterOpts req opts =
     rbind (walletDates (lw_StartDate req) (lw_EndDate req)) (\<lambda>(from, until).
       if lw_Limit req < 0 then Err (GetErrMap ''limitMustBeGreaterThanZero'')
       else rbind (walletCursor (lw_NextCursor req) (lw_PrevCursor req)) (\<lambda>cursor.
         Ok (opts\<lparr>wf_StartDate := from, wf_EndDate := until,
                 wf_Limit := (if lw_Limit req = 0 then 10 else lw_Limit req) + 1,
                 wf_SortBy := (if lw_SortBy req = '''' then ''createdDate'' else ''''),
                 wf_SortDirection := (if lw_SortDirection req = '''' then ''desc'' else ''''),
                 wf_Cursor := cursor\<rparr>)))"

definition emptyWalletFilter :: WalletTrxFilterOptions where
  "emptyWalletFilter =
     \<lparr>wf_AccountNumber = '''', wf_Limit = 0, wf_SortBy = '''', wf_SortDirection = '''', wf_Status = '''',
      wf_TransactionType = '''', wf_StartDate = None, wf_EndDate = None, wf_AccountNumbers = [],
      wf_TransactionTypes = [], wf_RefNumber = '''', wf_Cursor = None\<rparr>"

definition ToFilterOptsByAccountNumber :: "ListWalletTrxByAccountNumberRequest \<Rightarrow> WalletTrxFilterOptions result" where
  "ToFilterOptsByAccountNumber req =
     walletFilterOpts req
       (emptyWalletFilter\<lparr>wf_AccountNumber := lw_AccountNumber req, wf_Status := lw_Status req,
                          wf_TransactionType := lw_TransactionType req\<rparr>)"

text \<open>\<open>strings.TrimSpace\<close> on ASCII text.\<close>

definition isSpace :: "char \<Rightarrow> bool" where
  "isSpace c = (let n = (of_char c :: nat) in n = 32 \<or> 9 \<le> n \<and> n \<le> 13)"

definition TrimSpace :: "string \<Rightarrow> string" where
  "TrimSpace s = rev (dropWhile isSpace (rev (dropWhile isSpace s)))"

definition ListWalletTrxToFilterOpts :: "ListWalletTrxRequest \<Rightarrow> WalletTrxFilterOptions result" where
  "ListWalletTrxToFilterOpts req =
     walletFilterOpts req
       (emptyWalletFilter\<lparr>wf_Status := lw_Status req, wf_TransactionType := lw_TransactionType req,
          wf_AccountNumbers := (if lw_AccountNumbers req \<noteq> '''' then splitAt (CHR '','') (TrimSpace (lw_AccountNumbers req)) else []),
          wf_TransactionTypes := (if lw_TransactionTypes req \<noteq> '''' then splitAt (CHR '','') (TrimSpace (lw_TransactionTypes req)) else [])\<rparr>)"

section \<open>The query\<close>

text \<open>
  \<open>buildFilteredWalletTrxQuery\<close>: an empty field filters nothing.  With account numbers the query is the union of the rows
  of these accounts and of the rows with these destinations; a destination of NULL, the empty text here, is in no list.
\<close>

definition filteredWalletTrx :: "WalletTrxFilterOptions \<Rightarrow> 'd WalletTransaction \<Rightarrow> bool" where
  "filteredWalletTrx opts t =
     ((wf_AccountNumber opts \<noteq> '''' \<longrightarrow> wt_AccountNumber t = wf_AccountNumber opts) \<and>
      (wf_Status opts \<noteq> '''' \<longrightarrow> wt_Status t = wf_Status opts) \<and>
      (wf_TransactionType opts \<noteq> '''' \<longrightarrow> wt_TransactionType t = wf_TransactionType opts) \<and>
      (case wf_StartDate opts of None \<Rightarrow> True | Some from \<Rightarrow> from \<le> wt_TransactionTime t) \<and>
      (case wf_EndDate opts of None \<Rightarrow> True | Some until \<Rightarrow> wt_TransactionTime t \<le> until) \<and>
      (wf_TransactionTypes opts \<noteq> [] \<longrightarrow> wt_TransactionType t \<in> set (wf_TransactionTypes opts)) \<and>
      (wf_RefNumber opts \<noteq> '''' \<longrightarrow> wt_RefNumber t = wf_RefNumber opts) \<and>
      (wf_AccountNumbers opts \<noteq> [] \<longrightarrow>
         wt_AccountNumber t \<in> set (wf_AccountNumbers opts) \<or>
         wt_DestinationAccountNumber t \<noteq> '''' \<and> wt_DestinationAccountNumber t \<in> set (wf_AccountNumbers opts)))"

definition walletKey :: "'d WalletTransaction \<Rightarrow> int \<times> string" where
  "walletKey t = (wt_TransactionTime t, wt_ID t)"

text \<open>
  \<open>buildListWalletTrxQuery\<close>: the only sort column is the transaction time, with the id after it; any direction other than
  the two known ones is descending.
\<close>

definition walletDescending :: "WalletTrxFilterOptions \<Rightarrow> bool" where
  "walletDescending opts = (wf_SortDirection opts \<noteq> ''asc'')"

definition listWalletTrxQuery ::
  "WalletTrxFilterOptions \<Rightarrow> 'd WalletTransaction list \<Rightarrow> 'd WalletTransaction list" where
  "listWalletTrxQuery opts table =
     (let rows = filter (filteredWalletTrx opts) table;
          position = (case wf_Cursor opts of None \<Rightarrow> FirstPage
                      | Some c \<Rightarrow> (if wc_IsBackward c then BeforeKey else AfterKey) (wc_TransactionTime c, wc_Id c))
      in if 0 \<le> wf_Limit opts
         then selectPage (walletDescending opts) walletKey rows position (nat (wf_Limit opts))
         else selectPage (walletDescending opts) walletKey rows position (length rows))"

text \<open>
  \<open>List\<close> and \<open>CountAll\<close> of the repository and \<open>List\<close> of the service, with the faults of the two queries.
\<close>

record 'd WalletListing =
  wl_table :: "'d WalletTransaction list"
  wl_zone :: int
  wl_listFault :: "err option"
  wl_countFault :: "err option"

definition WalletTrxList :: "'d WalletListing \<Rightarrow> WalletTrxFilterOptions \<Rightarrow> 'd WalletTransaction list result" where
  "WalletTrxList w opts =
     (case wl_listFault w of Some e \<Rightarrow> Err e | None \<Rightarrow> Ok (listWalletTrxQuery opts (wl_table w)))"

definition WalletTrxCountAll :: "'d WalletListing \<Rightarrow> WalletTrxFilterOptions \<Rightarrow> int result" where
  "WalletTrxCountAll w opts =
     (case wl_countFault w of Some e \<Rightarrow> Err e | None \<Rightarrow> Ok (int (length (filter (filteredWalletTrx opts) (wl_table w)))))"

definition WalletServiceList ::
  "'d::linordered_idom WalletListing \<Rightarrow> WalletTrxFilterOptions \<Rightarrow> ('d WalletTransaction list \<times> int) result" where
  "WalletServiceList w opts =
     rbind (WalletTrxList w opts) (\<lambda>transactions.
     rbind (WalletTrxCountAll w opts) (\<lambda>n.
       Ok (calculateTotalAmountOfTransactions transactions, n)))"

section \<open>Answers\<close>

record 'd ListWalletTrxResponse =
  lr_TransactionDate :: string
  lr_TransactionTime :: string
  lr_TransactionType :: string
  lr_Amount :: "'d Amount"
  lr_Amounts :: "'d AmountDetail list"
  lr_Status :: string
  lr_TransactionWalletId :: string
  lr_RefNumber :: string
  lr_Description :: string
  lr_TransactionFlow :: string
  lr_Metadata :: "'d WalletMetadata"

text \<open>The layout \<open>2006-01-02T15:04:05-07:00\<close>, in Jakarta.\<close>

definition FormatWithTimeAndOffset :: "int \<Rightarrow> string" where
  "FormatWithTimeAndOffset t =
     (let l = t + jakartaOffset
      in dateText (nat (l div nsPerDay)) @ ''T'' @ clockText (nat (l mod nsPerDay) div 1000000000) @ ''+07:00'')"

definition WalletToModelResponse :: "'d WalletTransaction \<Rightarrow> 'd ListWalletTrxResponse" where
  "WalletToModelResponse e =
     \<lparr>lr_TransactionDate = FormatDateInLocalTime (wt_TransactionTime e),
      lr_TransactionTime = FormatWithTimeAndOffset (wt_TransactionTime e),
      lr_TransactionType = wt_TransactionType e,
      lr_Amount = (let amount = wt_NetAmount e
                   in if amt_Currency amount = '''' then amount\<lparr>amt_Currency := ''IDR''\<rparr> else amount),
      lr_Amounts = wt_Amounts e, lr_Status = wt_Status e, lr_TransactionWalletId = wt_ID e,
      lr_RefNumber = wt_RefNumber e, lr_Description = wt_Description e,
      lr_TransactionFlow = wt_TransactionFlow e, lr_Metadata = wt_Metadata e\<rparr>"

definition WalletGetCursor :: "int \<Rightarrow> 'd WalletTransaction \<Rightarrow> string" where
  "WalletGetCursor zone e =
     WalletTrxCursorString zone \<lparr>wc_TransactionTime = wt_TransactionTime e, wc_Id = wt_ID e, wc_IsBackward = False\<rparr>"

text \<open>What both handlers do with the options, from a request that was bound and validated.\<close>

definition answerWalletList ::
  "'d::linordered_idom WalletListing \<Rightarrow> PageQuery \<Rightarrow> WalletTrxFilterOptions result \<Rightarrow> 'd ListWalletTrxResponse Answer" where
  "answerWalletList w q opts =
     (case opts of
        Inl e \<Rightarrow> Refused 400 e
      | Inr opts \<Rightarrow>
          (case WalletServiceList w opts of
             Inl e \<Rightarrow> Refused 500 e
           | Inr (transactions, n) \<Rightarrow>
               Page (RestSuccessResponseCursorPagination q (WalletGetCursor (wl_zone w)) WalletToModelResponse
                       transactions (wf_Limit opts) n)))"

definition listTransactionByAccountNumber ::
  "'d::linordered_idom WalletListing \<Rightarrow> ListWalletTrxByAccountNumberRequest \<Rightarrow> PageQuery \<Rightarrow> 'd ListWalletTrxResponse Answer" where
  "listTransactionByAccountNumber w req q =
     answerWalletList w q
       (ToFilterOptsByAccountNumber (req\<lparr>lw_NextCursor := nextCursor q, lw_PrevCursor := prevCursor q\<rparr>))"

definition listTransaction ::
  "'d::linordered_idom WalletListing \<Rightarrow> ListWalletTrxRequest \<Rightarrow> PageQuery \<Rightarrow> 'd ListWalletTrxResponse Answer" where
  "listTransaction w req q =
     answerWalletList w q
       (ListWalletTrxToFilterOpts (req\<lparr>lw_NextCursor := nextCursor q, lw_PrevCursor := prevCursor q\<rparr>))"

section \<open>Every row once\<close>

text \<open>
  Both endpoints, as one listing: an environment is the tables, the request and the fields that its \<open>ToFilterOpts\<close>
  copies.
\<close>

type_synonym ('d, 'a) WalletListEnv =
  "'d WalletListing \<times> 'a ListWalletTrxByAccountNumberRequest_scheme \<times> WalletTrxFilterOptions"

definition walletPage :: "('d::linordered_idom, 'a) WalletListEnv \<Rightarrow> PageQuery \<Rightarrow> 'd ListWalletTrxResponse Answer" where
  "walletPage = (\<lambda>(w, req, base) q.
     answerWalletList w q (walletFilterOpts (req\<lparr>lw_NextCursor := nextCursor q, lw_PrevCursor := prevCursor q\<rparr>) base))"

definition firstWalletOpts :: "('d, 'a) WalletListEnv \<Rightarrow> WalletTrxFilterOptions" where
  "firstWalletOpts = (\<lambda>(w, req, base).
     case walletFilterOpts (req\<lparr>lw_NextCursor := '''', lw_PrevCursor := ''''\<rparr>) base of Inr opts \<Rightarrow> opts | Inl e \<Rightarrow> base)"

text \<open>
  The queries answer, the dates and the limit of the request are valid, the ids of the rows are unique and without a
  bar, as UUIDs are, and their times are in the years that a cursor can print.
\<close>

definition walletListable :: "('d, 'a) WalletListEnv \<Rightarrow> bool" where
  "walletListable = (\<lambda>(w, req, base).
     wl_listFault w = None \<and> wl_countFault w = None \<and> isOk (walletDates (lw_StartDate req) (lw_EndDate req)) \<and>
     0 \<le> lw_Limit req \<and> distinct (map wt_ID (wl_table w)) \<and>
     list_all (\<lambda>t. printable (wl_zone w) (wt_TransactionTime t) \<and> CHR ''|'' \<notin> set (wt_ID t)) (wl_table w))"

definition listedWalletRows :: "('d, 'a) WalletListEnv \<Rightarrow> 'd WalletTransaction list" where
  "listedWalletRows e = filter (filteredWalletTrx (firstWalletOpts e)) (wl_table (fst e))"

definition withTotal :: "'d::linordered_idom WalletTransaction \<Rightarrow> 'd WalletTransaction" where
  "withTotal t = t\<lparr>wt_NetAmount := getWalletTransactionNetAmountCalculator t t\<rparr>"

definition walletPageSize :: "('d, 'a) WalletListEnv \<Rightarrow> nat" where
  "walletPageSize e = (let n = lw_Limit (fst (snd e)) in nat (if n = 0 then 10 else n))"

lemma decodeWalletTrxCursor_GetCursor:
  assumes "printable zone (wt_TransactionTime t)" and "CHR ''|'' \<notin> set (wt_ID t)"
  shows "decodeWalletTrxCursor (WalletGetCursor zone t) =
    Ok \<lparr>wc_TransactionTime = wt_TransactionTime t, wc_Id = wt_ID t, wc_IsBackward = False\<rparr>"
  using splitAt_two [OF FormatRFC3339Nano_plain(1) [of zone "wt_TransactionTime t"] assms(2)]
    ParseRFC3339Nano_Format [OF assms(1)]
  by (simp add: decodeWalletTrxCursor_def WalletGetCursor_def WalletTrxCursorString_def)

lemma filteredWalletTrx_frame [simp]:
  "filteredWalletTrx (opts\<lparr>wf_Limit := n, wf_SortBy := s, wf_SortDirection := d, wf_Cursor := c\<rparr>) = filteredWalletTrx opts"
  "filteredWalletTrx (opts\<lparr>wf_Limit := n, wf_SortBy := s, wf_SortDirection := d\<rparr>) = filteredWalletTrx opts"
  "filteredWalletTrx (opts\<lparr>wf_Cursor := c\<rparr>) = filteredWalletTrx opts"
  by (auto simp: filteredWalletTrx_def fun_eq_iff)

text \<open>A page of the listing, in terms of the options of the first page.\<close>

lemma walletPage_select:
  assumes "walletListable (w, req, base)" and "walletCursor (nextCursor q) (prevCursor q) = Ok cursor"
  defines "e \<equiv> (w, req, base)"
  shows "\<exists>n. walletPage e q = Page (RestSuccessResponseCursorPagination q (WalletGetCursor (wl_zone w))
      (WalletToModelResponse \<circ> withTotal)
      (selectPage (walletDescending (firstWalletOpts e)) walletKey (listedWalletRows e)
         (case cursor of None \<Rightarrow> FirstPage
          | Some c \<Rightarrow> (if wc_IsBackward c then BeforeKey else AfterKey) (wc_TransactionTime c, wc_Id c))
         (walletPageSize e + 1)) (int (walletPageSize e) + 1) n)"
proof -
  obtain since until where dates: "walletDates (lw_StartDate req) (lw_EndDate req) = Ok (since, until)"
    using assms(1) by (auto simp: walletListable_def isOk_iff)
  have ok: "wl_listFault w = None" "wl_countFault w = None" "0 \<le> lw_Limit req"
    using assms(1) by (simp_all add: walletListable_def)
  define first where "first = firstWalletOpts e"
  have opts: "walletFilterOpts (req\<lparr>lw_NextCursor := nextCursor q, lw_PrevCursor := prevCursor q\<rparr>) base =
      Ok (first\<lparr>wf_Cursor := cursor\<rparr>)"
    using assms(2) dates ok(3)
    by (simp add: first_def e_def firstWalletOpts_def walletFilterOpts_def walletCursor_def)
  have size: "wf_Limit first = int (walletPageSize e) + 1"
    using dates ok(3)
    by (simp add: first_def e_def firstWalletOpts_def walletFilterOpts_def walletCursor_def walletPageSize_def Let_def)
  have cursor: "WalletGetCursor zone \<circ> withTotal = WalletGetCursor zone" for zone
    by (simp add: fun_eq_iff WalletGetCursor_def withTotal_def)
  have total: "calculateTotalAmountOfTransactions ts = map withTotal ts" for ts :: "'a WalletTransaction list"
    by (simp add: calculateTotalAmountOfTransactions_map withTotal_def)
  have w: "fst e = w"
    by (simp add: e_def)
  have query: "listWalletTrxQuery (first\<lparr>wf_Cursor := cursor\<rparr>) (wl_table w) =
      selectPage (walletDescending first) walletKey (listedWalletRows e)
        (case cursor of None \<Rightarrow> FirstPage
         | Some c \<Rightarrow> (if wc_IsBackward c then BeforeKey else AfterKey) (wc_TransactionTime c, wc_Id c))
        (walletPageSize e + 1)"
    by (simp add: listWalletTrxQuery_def size walletDescending_def listedWalletRows_def first_def [symmetric] w
        nat_add_distrib Let_def)
  show ?thesis
    unfolding first_def [symmetric] query [symmetric]
    using ok
    by (simp add: e_def walletPage_def answerWalletList_def opts [unfolded e_def] WalletServiceList_def WalletTrxList_def
        WalletTrxCountAll_def total response_map cursor size [unfolded e_def]) (rule exI, rule refl)
qed

lemma walletCursor_GetCursor:
  assumes "walletListable e" and "t \<in> set (listedWalletRows e)"
  shows "WalletGetCursor (wl_zone (fst e)) t \<noteq> ''''"
    and "walletCursor (WalletGetCursor (wl_zone (fst e)) t) '''' =
      Ok (Some \<lparr>wc_TransactionTime = wt_TransactionTime t, wc_Id = wt_ID t, wc_IsBackward = False\<rparr>)"
    and "walletCursor '''' (WalletGetCursor (wl_zone (fst e)) t) =
      Ok (Some \<lparr>wc_TransactionTime = wt_TransactionTime t, wc_Id = wt_ID t, wc_IsBackward = True\<rparr>)"
proof -
  have "printable (wl_zone (fst e)) (wt_TransactionTime t) \<and> CHR ''|'' \<notin> set (wt_ID t)"
    using assms by (auto simp: walletListable_def listedWalletRows_def list_all_iff split: prod.splits)
  then have "decodeWalletTrxCursor (WalletGetCursor (wl_zone (fst e)) t) =
      Ok \<lparr>wc_TransactionTime = wt_TransactionTime t, wc_Id = wt_ID t, wc_IsBackward = False\<rparr>"
    by (simp add: decodeWalletTrxCursor_GetCursor)
  moreover show "WalletGetCursor (wl_zone (fst e)) t \<noteq> ''''"
    by (simp add: WalletGetCursor_def WalletTrxCursorString_def)
  ultimately show "walletCursor (WalletGetCursor (wl_zone (fst e)) t) '''' =
      Ok (Some \<lparr>wc_TransactionTime = wt_TransactionTime t, wc_Id = wt_ID t, wc_IsBackward = False\<rparr>)"
    and "walletCursor '''' (WalletGetCursor (wl_zone (fst e)) t) =
      Ok (Some \<lparr>wc_TransactionTime = wt_TransactionTime t, wc_Id = wt_ID t, wc_IsBackward = True\<rparr>)"
    by (simp_all add: walletCursor_def)
qed

interpretation wallet_list: cursor_listing
  "walletPage :: ('d::linordered_idom, 'a) WalletListEnv \<Rightarrow> PageQuery \<Rightarrow> 'd ListWalletTrxResponse Answer" walletListable listedWalletRows
  "\<lambda>e. walletDescending (firstWalletOpts e)" "\<lambda>e. walletKey" walletPageSize
  "\<lambda>e. WalletGetCursor (wl_zone (fst e))" "\<lambda>e. WalletToModelResponse \<circ> withTotal"
proof
  fix e :: "('d::linordered_idom, 'a) WalletListEnv" and t :: "'d WalletTransaction" and q :: PageQuery
  assume e: "walletListable e"
  obtain w req base where split: "e = (w, req, base)" by (cases e) auto
  show "0 < walletPageSize e"
    using e by (simp add: split walletPageSize_def walletListable_def Let_def)
  have "distinct (map wt_ID (listedWalletRows e))"
    using e by (simp add: split walletListable_def listedWalletRows_def distinct_map_filter)
  then show "distinct (map walletKey (listedWalletRows e))"
    by (auto simp: distinct_map inj_on_def walletKey_def)
  note select = walletPage_select [OF e [unfolded split], folded split]
  {
    assume "q = \<lparr>nextCursor = '''', prevCursor = ''''\<rparr>"
    then show "\<exists>n. walletPage e q = Page (RestSuccessResponseCursorPagination q (WalletGetCursor (wl_zone (fst e)))
        (WalletToModelResponse \<circ> withTotal) (selectPage (walletDescending (firstWalletOpts e)) walletKey
          (listedWalletRows e) FirstPage (walletPageSize e + 1)) (int (walletPageSize e) + 1) n)"
      using select [of q None] by (simp add: split walletCursor_def)
  next
    assume t: "t \<in> set (listedWalletRows e)"
    note cursor = walletCursor_GetCursor [OF e t]
    show "WalletGetCursor (wl_zone (fst e)) t \<noteq> ''''"
      by (rule cursor)
    {
      assume "q = \<lparr>nextCursor = WalletGetCursor (wl_zone (fst e)) t, prevCursor = ''''\<rparr>"
      then show "\<exists>n. walletPage e q = Page (RestSuccessResponseCursorPagination q (WalletGetCursor (wl_zone (fst e)))
          (WalletToModelResponse \<circ> withTotal) (selectPage (walletDescending (firstWalletOpts e)) walletKey
            (listedWalletRows e) (AfterKey (walletKey t)) (walletPageSize e + 1)) (int (walletPageSize e) + 1) n)"
        using select [of q] cursor(2) by (simp add: split walletKey_def)
    next
      assume "q = \<lparr>nextCursor = '''', prevCursor = WalletGetCursor (wl_zone (fst e)) t\<rparr>"
      then show "\<exists>n. walletPage e q = Page (RestSuccessResponseCursorPagination q (WalletGetCursor (wl_zone (fst e)))
          (WalletToModelResponse \<circ> withTotal) (selectPage (walletDescending (firstWalletOpts e)) walletKey
            (listedWalletRows e) (BeforeKey (walletKey t)) (walletPageSize e + 1)) (int (walletPageSize e) + 1) n)"
        using select [of q] cursor(3) by (simp add: split walletKey_def)
    }
  }
qed

end
