(* ===== verification/TransactionListing.thy ===== *)
theory TransactionListing
  imports WalletListing
begin

text \<open>
  The list of ledger transactions: request, cursor and answers of \<open>internal/models/transaction_list.go\<close>, the queries
  of \<open>internal/repositories/sql_transaction_query.go\<close>, \<open>GetList\<close>, \<open>CountAll\<close> and \<open>GetStatusCount\<close> of the
  repository, \<open>GetAllTransaction\<close> of the service and its handler.  The endpoint is a listing in the sense of
  \<open>Pagination\<close>.
\<close>

section \<open>Requests\<close>

record TransactionCursor =
  tc_TransactionDate :: int
  tc_DatabaseID :: nat
  tc_IsBackward :: bool

record TransactionFilterOptions =
  tf_Search :: string
  tf_SearchBy :: string
  tf_OrderType :: string
  tf_TransactionType :: string
  tf_TransactionTypes :: "string list"
  tf_StartDate :: "int option"
  tf_EndDate :: "int option"
  tf_TransactionDate :: "int option"
  tf_Limit :: int
  tf_ProductTypeName :: string
  tf_OnlyAMF :: bool
  tf_Cursor :: "TransactionCursor option"

record DoGetListTransactionRequest =
  lq_Search :: string
  lq_SearchBy :: string
  lq_OrderType :: string
  lq_TransactionType :: string
  lq_TransactionTypes :: "string list"
  lq_StartDate :: string
  lq_EndDate :: string
  lq_Limit :: int
  lq_ProductTypeName :: string
  lq_NextCursor :: string
  lq_PrevCursor :: string

text \<open>A date column is read as the midnight of its day in UTC, where the cursor prints it.\<close>

definition TransactionCursorString :: "TransactionCursor \<Rightarrow> string" where
  "TransactionCursorString t =
     EncodeToString (dateText (nat (tc_TransactionDate t div nsPerDay)) @ ''|'' @ digits (tc_DatabaseID t))"

definition decodeTransactionCursor :: "string \<Rightarrow> TransactionCursor result" where
  "decodeTransactionCursor cursor =
     (case DecodeString stdAlphabet cursor of
        None \<Rightarrow> Err (ErrorMsg ''failed to parse offset string'')
      | Some decoded \<Rightarrow>
          (let parts = splitAt (CHR ''|'') decoded
           in if length parts \<noteq> 2 then Err (ErrorMsg ''failed to parse offset string: invalid format'')
              else case ParseDateUTC (parts ! 0) of
                None \<Rightarrow> Err (ErrorMsg ''failed to parse offset date'')
              | Some date \<Rightarrow>
                  (case ParseUint64 (parts ! 1) of
                     None \<Rightarrow> Err (ErrorMsg ''failed to parse offset id'')
                   | Some n \<Rightarrow> Ok \<lparr>tc_TransactionDate = date, tc_DatabaseID = n, tc_IsBackward = False\<rparr>)))"

text \<open>
  \<open>GetTotalDiffDayBetweenTwoDate\<close> of two parsed dates, which are midnights in Jakarta: whole days.
\<close>

definition GetTotalDiffDayBetweenTwoDate :: "int \<Rightarrow> int \<Rightarrow> int" where
  "GetTotalDiffDayBetweenTwoDate dateFrom dateTo = int (localDay dateTo) - int (localDay dateFrom)"

text \<open>The dates of a request, both given: at most seven days apart, in order.\<close>

definition requestDates :: "string \<Rightarrow> string \<Rightarrow> (int \<times> int) result" where
  "requestDates startDate endDate =
     (case ParseDateInLocalTime startDate of
        Inl e \<Rightarrow> Err (GetErrMap ''invalidFormatDate'')
      | Inr since \<Rightarrow>
          (case ParseDateInLocalTime endDate of
             Inl e \<Rightarrow> Err (GetErrMap ''invalidFormatDate'')
           | Inr until \<Rightarrow>
               if until < since then Err (GetErrMap ''StartDateIsAfterEndDate'')
               else if 7 < GetTotalDiffDayBetweenTwoDate since until then Err (GetErrMap ''dateRangeMax7Days'')
               else Ok (since, until)))"

definition transactionCursor :: "string \<Rightarrow> string \<Rightarrow> TransactionCursor option result" where
  "transactionCursor nextCur prevCur =
     (if nextCur \<noteq> '''' then rbind (decodeTransactionCursor nextCur) (\<lambda>c. Ok (Some c))
      else if prevCur \<noteq> '''' then rbind (decodeTransactionCursor prevCur) (\<lambda>c. Ok (Some (c\<lparr>tc_IsBackward := True\<rparr>)))
      else Ok None)"

definition copiedTransactionOpts :: "DoGetListTransactionRequest \<Rightarrow> TransactionFilterOptions" where
  "copiedTransactionOpts req =
     \<lparr>tf_Search = lq_Search req, tf_SearchBy = lq_SearchBy req, tf_OrderType = lq_OrderType req,
      tf_TransactionType = '''', tf_TransactionTypes = lq_TransactionTypes req, tf_StartDate = None,
      tf_EndDate = None, tf_TransactionDate = None, tf_Limit = lq_Limit req,
      tf_ProductTypeName = lq_ProductTypeName req, tf_OnlyAMF = False, tf_Cursor = None\<rparr>"

definition DoGetListTransactionToFilterOpts :: "DoGetListTransactionRequest \<Rightarrow> TransactionFilterOptions result" where
  "DoGetListTransactionToFilterOpts req =
     (if lq_Limit req < 0 then Err (GetErrMap ''limitMustBeGreaterThanZero'')
      else if (lq_StartDate req = '''') \<noteq> (lq_EndDate req = '''') then
        Err (GetErrMap ''startDateAndEndDateRequiredIfOneIsFilled'')
      else
        rbind (if lq_StartDate req = '''' then Ok (None, None)
               else rbind (requestDates (lq_StartDate req) (lq_EndDate req)) (\<lambda>(since, until). Ok (Some since, Some until)))
          (\<lambda>(since, until).
        rbind (transactionCursor (lq_NextCursor req) (lq_PrevCursor req)) (\<lambda>cursor.
          Ok ((copiedTransactionOpts req)
                \<lparr>tf_StartDate := since, tf_EndDate := until,
                 tf_Limit := (if lq_Limit req = 0 then 10 else lq_Limit req) + 1, tf_Cursor := cursor\<rparr>))))"

text \<open>The options of a download: no limit and no cursor, and the last seven days when no date is given.\<close>

definition ToDownloadFilterOpts :: "int \<Rightarrow> DoGetListTransactionRequest \<Rightarrow> TransactionFilterOptions result" where
  "ToDownloadFilterOpts clock req =
     (let opts = (copiedTransactionOpts req)\<lparr>tf_TransactionType := lq_TransactionType req, tf_Limit := 0\<rparr>
      in if (lq_StartDate req = '''') \<noteq> (lq_EndDate req = '''') then
           Err (GetErrMap ''startDateAndEndDateRequiredIfOneIsFilled'')
         else if lq_StartDate req = '''' then
           Ok (opts\<lparr>tf_StartDate := Some (AddDays (NowZeroTime clock) (- 7)), tf_EndDate := Some (NowZeroTime clock)\<rparr>)
         else rbind (requestDates (lq_StartDate req) (lq_EndDate req)) (\<lambda>(since, until).
           Ok (opts\<lparr>tf_StartDate := Some since, tf_EndDate := Some until\<rparr>)))"

text \<open>\<open>DoGetStatusCountTransactionRequest.ToFilterOpts\<close>, with its default threshold.\<close>

definition StatusCountToFilterOpts ::
  "DoGetListTransactionRequest \<Rightarrow> nat \<Rightarrow> (TransactionFilterOptions \<times> nat) result" where
  "StatusCountToFilterOpts req threshold =
     rbind (DoGetListTransactionToFilterOpts req) (\<lambda>opts. Ok (opts, if threshold = 0 then 50000 else threshold))"

section \<open>The queries\<close>

text \<open>A row with its serial id and its date column, and what a join reads of an account.\<close>

record 'd ListedTransaction =
  lt_DatabaseID :: nat
  lt_TransactionDate :: nat
  lt_Transaction :: "'d Transaction"
  lt_CreatedAt :: int
  lt_UpdatedAt :: int

record JoinedAccount =
  ja_Name :: string
  ja_ProductTypeName :: string
  ja_EntityCode :: string

record 'd TransactionTables =
  tt_transaction :: "'d ListedTransaction list"
  tt_account :: "string \<rightharpoonup> JoinedAccount"
  tt_orderTypes :: "((string \<rightharpoonup> string) \<times> (string \<rightharpoonup> string)) result"
  tt_onlyAMF :: bool
  tt_now :: int
  tt_listFault :: "err option"
  tt_estimate :: "int result"

definition joined :: "'d TransactionTables \<Rightarrow> (JoinedAccount \<Rightarrow> bool) \<Rightarrow> string \<Rightarrow> bool" where
  "joined t P acc = (case tt_account t acc of None \<Rightarrow> False | Some a \<Rightarrow> P a)"

text \<open>
  \<open>buildFilteredTransactionQuery\<close>.  Instants are compared with the date column by their day in Jakarta, in which they are
  passed.  An unknown \<open>searchBy\<close> filters nothing.
\<close>

definition searched :: "TransactionFilterOptions \<Rightarrow> 'd Transaction \<Rightarrow> bool" where
  "searched opts t =
     (if tf_SearchBy opts = '''' \<or> tf_Search opts = '''' then True
      else if tf_SearchBy opts = ''accountNumber'' then
        txn_FromAccount t = tf_Search opts \<or> txn_ToAccount t = tf_Search opts
      else if tf_SearchBy opts = ''transactionId'' then txn_TransactionID t = tf_Search opts
      else if tf_SearchBy opts = ''refNumber'' then txn_RefNumber t = tf_Search opts
      else True)"

definition inDates :: "int \<Rightarrow> TransactionFilterOptions \<Rightarrow> nat \<Rightarrow> bool" where
  "inDates clock opts d =
     ((tf_StartDate opts = None \<and> tf_EndDate opts = None \<longrightarrow>
         localDay (AddDays (NowZeroTime clock) (- 7)) \<le> d \<and> d \<le> localDay (NowZeroTime clock)) \<and>
      (case tf_StartDate opts of None \<Rightarrow> True | Some since \<Rightarrow> localDay since \<le> d) \<and>
      (case tf_EndDate opts of None \<Rightarrow> True | Some until \<Rightarrow> d \<le> localDay until) \<and>
      (case tf_TransactionDate opts of None \<Rightarrow> True | Some date \<Rightarrow> d = localDay date))"

definition filteredTransaction :: "'d TransactionTables \<Rightarrow> TransactionFilterOptions \<Rightarrow> 'd ListedTransaction \<Rightarrow> bool" where
  "filteredTransaction tables opts row =
     (let t = lt_Transaction row
      in (tf_OnlyAMF opts \<longrightarrow>
            joined tables (\<lambda>a. ja_EntityCode a = ''001'') (txn_FromAccount t) \<and>
            joined tables (\<lambda>a. ja_EntityCode a = ''001'') (txn_ToAccount t)) \<and>
         searched opts t \<and>
         (tf_OrderType opts \<noteq> '''' \<longrightarrow> txn_OrderType t = tf_OrderType opts) \<and>
         (tf_TransactionTypes opts \<noteq> [] \<longrightarrow> txn_TypeTransaction t \<in> set (tf_TransactionTypes opts)) \<and>
         (tf_ProductTypeName opts \<noteq> '''' \<longrightarrow>
            joined tables (\<lambda>a. ja_ProductTypeName a = tf_ProductTypeName opts) (txn_FromAccount t) \<or>
            joined tables (\<lambda>a. ja_ProductTypeName a = tf_ProductTypeName opts) (txn_ToAccount t)) \<and>
         inDates (tt_now tables) opts (lt_TransactionDate row))"

definition transactionKey :: "'d ListedTransaction \<Rightarrow> int \<times> nat" where
  "transactionKey row = (int (lt_TransactionDate row) * nsPerDay, lt_DatabaseID row)"

definition listTransactionQuery ::
  "'d TransactionTables \<Rightarrow> TransactionFilterOptions \<Rightarrow> 'd ListedTransaction list" where
  "listTransactionQuery tables opts =
     (let rows = filter (filteredTransaction tables opts) (tt_transaction tables);
          position = (case tf_Cursor opts of None \<Rightarrow> FirstPage
                      | Some c \<Rightarrow> (if tc_IsBackward c then BeforeKey else AfterKey) (tc_TransactionDate c, tc_DatabaseID c))
      in selectPage True transactionKey rows position (if 0 < tf_Limit opts then nat (tf_Limit opts) else length rows))"

text \<open>\<open>buildStatusCountTransactionQuery\<close>: counts no more rows than the threshold and one.\<close>

definition TransactionGetStatusCount :: "'d TransactionTables \<Rightarrow> nat \<Rightarrow> TransactionFilterOptions \<Rightarrow> (bool \<times> nat) result" where
  "TransactionGetStatusCount tables threshold opts =
     (case tt_listFault tables of
        Some e \<Rightarrow> Err e
      | None \<Rightarrow>
          Ok (threshold < length (take (threshold + 1) (filter (filteredTransaction tables opts) (tt_transaction tables))),
              threshold))"

section \<open>The service and the handler\<close>

record 'd ListedOut =
  go_DatabaseID :: nat
  go_FromAccountName :: string
  go_FromAccountProductTypeName :: string
  go_ToAccountName :: string
  go_ToAccountProductTypeName :: string
  go_Amount :: 'd
  go_OrderTypeName :: string
  go_TransactionTypeName :: string
  go_TransactionDate :: int
  go_Status :: string
  go_Transaction :: "'d Transaction"
  go_CreatedAt :: int
  go_UpdatedAt :: int

definition joinedText :: "'d TransactionTables \<Rightarrow> (JoinedAccount \<Rightarrow> string) \<Rightarrow> string \<Rightarrow> string" where
  "joinedText tables f acc = (if tt_onlyAMF tables then '''' else case tt_account tables acc of None \<Rightarrow> '''' | Some a \<Rightarrow> f a)"

definition statusTitle :: "string \<rightharpoonup> string" where
  "statusTitle = [''0'' \<mapsto> ''PENDING'', ''1'' \<mapsto> ''SUCCESS'', ''2'' \<mapsto> ''CANCEL'']"

text \<open>\<open>GetList\<close>, whose rows have the title of their status, and \<open>ToGetTransactionOut\<close>.\<close>

definition TransactionGetList :: "'d TransactionTables \<Rightarrow> TransactionFilterOptions \<Rightarrow> 'd ListedTransaction list result" where
  "TransactionGetList tables opts =
     (case tt_listFault tables of
        Some e \<Rightarrow> Err e
      | None \<Rightarrow>
          Ok (map (\<lambda>row. row\<lparr>lt_Transaction := lt_Transaction row\<lparr>txn_Status := strIndex statusTitle (txn_Status (lt_Transaction row))\<rparr>\<rparr>)
                (listTransactionQuery tables opts)))"

definition ToListedOut ::
  "'d::zero TransactionTables \<Rightarrow> (string \<rightharpoonup> string) \<Rightarrow> (string \<rightharpoonup> string) \<Rightarrow> 'd ListedTransaction \<Rightarrow> 'd ListedOut" where
  "ToListedOut tables mapOrderType mapTransactionType e =
     (let t = lt_Transaction e
      in \<lparr>go_DatabaseID = lt_DatabaseID e,
          go_FromAccountName = joinedText tables ja_Name (txn_FromAccount t),
          go_FromAccountProductTypeName = joinedText tables ja_ProductTypeName (txn_FromAccount t),
          go_ToAccountName = joinedText tables ja_Name (txn_ToAccount t),
          go_ToAccountProductTypeName = joinedText tables ja_ProductTypeName (txn_ToAccount t),
          go_Amount = (case txn_Amount t of None \<Rightarrow> 0 | Some a \<Rightarrow> a),
          go_OrderTypeName = strIndex mapOrderType (txn_OrderType t),
          go_TransactionTypeName = strIndex mapTransactionType (txn_TypeTransaction t),
          go_TransactionDate = int (lt_TransactionDate e) * nsPerDay,
          go_Status = txn_Status t, go_Transaction = t,
          go_CreatedAt = lt_CreatedAt e, go_UpdatedAt = lt_UpdatedAt e\<rparr>)"

definition GetAllTransaction ::
  "'d::zero TransactionTables \<Rightarrow> TransactionFilterOptions \<Rightarrow> ('d ListedOut list \<times> int) result" where
  "GetAllTransaction tables opts =
     rbind (tt_orderTypes tables) (\<lambda>(mapOrderTypes, mapTransactionTypes).
     rbind (TransactionGetList tables (opts\<lparr>tf_OnlyAMF := tt_onlyAMF tables\<rparr>)) (\<lambda>transactions.
     rbind (tt_estimate tables) (\<lambda>n.
       Ok (map (ToListedOut tables mapOrderTypes mapTransactionTypes) transactions, n))))"

definition TransactionOutGetCursor :: "'d ListedOut \<Rightarrow> string" where
  "TransactionOutGetCursor t =
     TransactionCursorString \<lparr>tc_TransactionDate = go_TransactionDate t, tc_DatabaseID = go_DatabaseID t, tc_IsBackward = False\<rparr>"

text \<open>The texts of a response; the metadata and the decimal are printed by libraries.\<close>

record 'd DoGetTransactionResponse =
  gr_Out :: "'d ListedOut"
  gr_TransactionDate :: string
  gr_TransactionTime :: string
  gr_Status :: string
  gr_CreatedAt :: string
  gr_UpdatedAt :: string

definition GetStatusName :: "'d ListedOut \<Rightarrow> string" where
  "GetStatusName t = (case statusTitle (go_Status t) of None \<Rightarrow> go_Status t | Some title \<Rightarrow> title)"

definition TransactionToModelResponse :: "'d ListedOut \<Rightarrow> 'd DoGetTransactionResponse" where
  "TransactionToModelResponse t =
     \<lparr>gr_Out = t, gr_TransactionDate = FormatDateInLocalTime (go_TransactionDate t),
      gr_TransactionTime = FormatWithTimeAndOffset (txn_TransactionTime (go_Transaction t)),
      gr_Status = GetStatusName t, gr_CreatedAt = FormatWithTimeAndOffset (go_CreatedAt t),
      gr_UpdatedAt = FormatWithTimeAndOffset (go_UpdatedAt t)\<rparr>"

definition getAllTransaction ::
  "'d::zero TransactionTables \<Rightarrow> DoGetListTransactionRequest \<Rightarrow> PageQuery \<Rightarrow> 'd DoGetTransactionResponse Answer" where
  "getAllTransaction tables req q =
     (case DoGetListTransactionToFilterOpts (req\<lparr>lq_NextCursor := nextCursor q, lq_PrevCursor := prevCursor q\<rparr>) of
        Inl e \<Rightarrow> Refused 400 e
      | Inr opts \<Rightarrow>
          (case GetAllTransaction tables opts of
             Inl e \<Rightarrow> Refused 500 e
           | Inr (transactions, n) \<Rightarrow>
               Page (RestSuccessResponseCursorPagination q TransactionOutGetCursor TransactionToModelResponse
                       transactions (tf_Limit opts) n)))"

text \<open>A status that was replaced by its title is printed as it is.\<close>

lemma GetStatusName_title:
  "go_Status t = strIndex statusTitle s \<Longrightarrow> GetStatusName t = strIndex statusTitle s"
  by (auto simp: GetStatusName_def statusTitle_def strIndex_def split: option.splits if_splits)

section \<open>Every row once\<close>

type_synonym 'd TransactionListEnv = "'d TransactionTables \<times> DoGetListTransactionRequest"

definition firstTransactionOpts :: "'d TransactionListEnv \<Rightarrow> TransactionFilterOptions" where
  "firstTransactionOpts = (\<lambda>(tables, req).
     case DoGetListTransactionToFilterOpts (req\<lparr>lq_NextCursor := '''', lq_PrevCursor := ''''\<rparr>) of
       Inr opts \<Rightarrow> opts\<lparr>tf_OnlyAMF := tt_onlyAMF tables\<rparr>
     | Inl e \<Rightarrow> copiedTransactionOpts req)"

definition listedTransactionRows :: "'d TransactionListEnv \<Rightarrow> 'd ListedTransaction list" where
  "listedTransactionRows e = filter (filteredTransaction (fst e) (firstTransactionOpts e)) (tt_transaction (fst e))"

text \<open>
  The queries and the order types answer, the request is valid, ids are unique and fit their column, and
  dates are in the years that a cursor can print.
\<close>

definition transactionsListable :: "'d TransactionListEnv \<Rightarrow> bool" where
  "transactionsListable = (\<lambda>(tables, req).
     isOk (tt_orderTypes tables) \<and> tt_listFault tables = None \<and> isOk (tt_estimate tables) \<and>
     isOk (DoGetListTransactionToFilterOpts (req\<lparr>lq_NextCursor := '''', lq_PrevCursor := ''''\<rparr>)) \<and>
     distinct (map lt_DatabaseID (tt_transaction tables)) \<and>
     list_all (\<lambda>r. lt_DatabaseID r < 2 ^ 64 \<and> fst (dateOf (lt_TransactionDate r)) < 10000) (tt_transaction tables))"

definition transactionPageSize :: "'d TransactionListEnv \<Rightarrow> nat" where
  "transactionPageSize e = (let n = lq_Limit (snd e) in nat (if n = 0 then 10 else n))"

definition titled :: "'d ListedTransaction \<Rightarrow> 'd ListedTransaction" where
  "titled row = row\<lparr>lt_Transaction := lt_Transaction row\<lparr>txn_Status := strIndex statusTitle (txn_Status (lt_Transaction row))\<rparr>\<rparr>"

text \<open>What the list shows of a row.\<close>

definition shownTransaction :: "'d::zero TransactionListEnv \<Rightarrow> 'd ListedTransaction \<Rightarrow> 'd DoGetTransactionResponse" where
  "shownTransaction e row =
     (case tt_orderTypes (fst e) of
        Inr (os, ts) \<Rightarrow> TransactionToModelResponse (ToListedOut (fst e) os ts (titled row))
      | Inl err \<Rightarrow> TransactionToModelResponse (ToListedOut (fst e) Map.empty Map.empty (titled row)))"

definition rowCursor :: "'d ListedTransaction \<Rightarrow> string" where
  "rowCursor row =
     TransactionCursorString
       \<lparr>tc_TransactionDate = int (lt_TransactionDate row) * nsPerDay, tc_DatabaseID = lt_DatabaseID row, tc_IsBackward = False\<rparr>"

lemma nsPerDay_pos [simp]: "0 < nsPerDay" "nsPerDay \<noteq> 0"
  by (simp_all add: nsPerDay_def)

lemma ParseDateUTC_dateText:
  "fst (dateOf d) < 10000 \<Longrightarrow> ParseDateUTC (dateText d) = Some (int d * nsPerDay)"
  using parseDate_dateText [of d "''''"] by (auto simp: ParseDateUTC_def split: prod.splits)

lemma decodeTransactionCursor_rowCursor:
  assumes "lt_DatabaseID row < 2 ^ 64" and "fst (dateOf (lt_TransactionDate row)) < 10000"
  shows "decodeTransactionCursor (rowCursor row) =
    Ok \<lparr>tc_TransactionDate = int (lt_TransactionDate row) * nsPerDay, tc_DatabaseID = lt_DatabaseID row, tc_IsBackward = False\<rparr>"
  using splitAt_two [OF dateText_plain [of "lt_TransactionDate row"] digits_plain(3) [of "lt_DatabaseID row"]]
    ParseDateUTC_dateText [OF assms(2)] ParseUint64_digits [OF assms(1)]
  by (simp add: decodeTransactionCursor_def rowCursor_def TransactionCursorString_def)

lemma filteredTransaction_frame [simp]:
  "filteredTransaction tables (opts\<lparr>tf_Limit := n, tf_Cursor := c\<rparr>) = filteredTransaction tables opts"
  "filteredTransaction tables (opts\<lparr>tf_Cursor := c\<rparr>) = filteredTransaction tables opts"
  by (auto simp: filteredTransaction_def searched_def inDates_def fun_eq_iff Let_def)

text \<open>The options that a valid request gives: the dates that do not depend on the cursor, and the cursor.\<close>

definition optionalDates :: "DoGetListTransactionRequest \<Rightarrow> (int option \<times> int option) result" where
  "optionalDates req =
     (if lq_StartDate req = [] then Ok (None, None)
      else rbind (requestDates (lq_StartDate req) (lq_EndDate req)) (\<lambda>(since, until). Ok (Some since, Some until)))"

lemma ToFilterOpts_Ok_iff:
  "DoGetListTransactionToFilterOpts req = Ok opts \<longleftrightarrow>
   0 \<le> lq_Limit req \<and> (lq_StartDate req = []) = (lq_EndDate req = []) \<and>
   (\<exists>since until cursor. optionalDates req = Ok (since, until) \<and>
      transactionCursor (lq_NextCursor req) (lq_PrevCursor req) = Ok cursor \<and>
      opts = (copiedTransactionOpts req)
               \<lparr>tf_StartDate := since, tf_EndDate := until,
                tf_Limit := (if lq_Limit req = 0 then 10 else lq_Limit req) + 1, tf_Cursor := cursor\<rparr>)"
  unfolding DoGetListTransactionToFilterOpts_def optionalDates_def [symmetric]
  by (auto simp: rbind_Ok_iff)

lemma getAllTransaction_select:
  assumes "transactionsListable (tables, req)" and "transactionCursor (nextCursor q) (prevCursor q) = Ok cursor"
  defines "e \<equiv> (tables, req)"
  shows "\<exists>n. getAllTransaction tables req q = Page (RestSuccessResponseCursorPagination q rowCursor (shownTransaction e)
      (selectPage True transactionKey (listedTransactionRows e)
         (case cursor of None \<Rightarrow> FirstPage
          | Some c \<Rightarrow> (if tc_IsBackward c then BeforeKey else AfterKey) (tc_TransactionDate c, tc_DatabaseID c))
         (transactionPageSize e + 1)) (int (transactionPageSize e) + 1) n)"
proof -
  obtain os ts n where ok: "tt_orderTypes tables = Ok (os, ts)" "tt_listFault tables = None" "tt_estimate tables = Ok n"
    using assms(1) by (auto simp: transactionsListable_def isOk_iff)
  obtain opts where opts: "DoGetListTransactionToFilterOpts (req\<lparr>lq_NextCursor := [], lq_PrevCursor := []\<rparr>) = Ok opts"
    using assms(1) by (auto simp: transactionsListable_def isOk_iff)
  define first where "first = firstTransactionOpts e"
  have first: "first = opts\<lparr>tf_OnlyAMF := tt_onlyAMF tables\<rparr>"
    by (simp add: first_def e_def firstTransactionOpts_def opts)
  have same: "optionalDates (req\<lparr>lq_NextCursor := c, lq_PrevCursor := d\<rparr>) = optionalDates req"
    "copiedTransactionOpts (req\<lparr>lq_NextCursor := c, lq_PrevCursor := d\<rparr>) = copiedTransactionOpts req" for c d
    by (simp_all add: optionalDates_def copiedTransactionOpts_def)
  obtain since until where parts: "0 \<le> lq_Limit req" "(lq_StartDate req = []) = (lq_EndDate req = [])"
    "optionalDates req = Ok (since, until)"
    "opts = (copiedTransactionOpts req)
               \<lparr>tf_StartDate := since, tf_EndDate := until,
                tf_Limit := (if lq_Limit req = 0 then 10 else lq_Limit req) + 1, tf_Cursor := None\<rparr>"
    using opts unfolding ToFilterOpts_Ok_iff by (auto simp: same transactionCursor_def)
  have asked: "DoGetListTransactionToFilterOpts (req\<lparr>lq_NextCursor := nextCursor q, lq_PrevCursor := prevCursor q\<rparr>) =
      Ok (opts\<lparr>tf_Cursor := cursor\<rparr>)"
    unfolding ToFilterOpts_Ok_iff using parts assms(2) by (simp add: same)
  have size: "tf_Limit opts = int (transactionPageSize e) + 1"
    using parts by (simp add: transactionPageSize_def e_def Let_def)
  have query: "listTransactionQuery tables (opts\<lparr>tf_Cursor := cursor, tf_OnlyAMF := tt_onlyAMF tables\<rparr>) =
      selectPage True transactionKey (listedTransactionRows e)
        (case cursor of None \<Rightarrow> FirstPage
         | Some c \<Rightarrow> (if tc_IsBackward c then BeforeKey else AfterKey) (tc_TransactionDate c, tc_DatabaseID c))
        (transactionPageSize e + 1)"
  proof -
    have "opts\<lparr>tf_Cursor := cursor, tf_OnlyAMF := tt_onlyAMF tables\<rparr> = first\<lparr>tf_Cursor := cursor\<rparr>"
      by (simp add: first)
    then show ?thesis
      by (simp add: listTransactionQuery_def listedTransactionRows_def first_def [symmetric] Let_def)
         (simp add: first size e_def nat_add_distrib)
  qed
  have list: "GetAllTransaction tables (opts\<lparr>tf_Cursor := cursor\<rparr>) =
      Ok (map (ToListedOut tables os ts \<circ> titled) (listTransactionQuery tables
             (opts\<lparr>tf_Cursor := cursor, tf_OnlyAMF := tt_onlyAMF tables\<rparr>)), n)"
    using ok by (simp add: GetAllTransaction_def TransactionGetList_def titled_def comp_def)
  have shown: "TransactionToModelResponse \<circ> (ToListedOut tables os ts \<circ> titled) = shownTransaction e"
    and cursor: "TransactionOutGetCursor \<circ> (ToListedOut tables os ts \<circ> titled) = rowCursor"
    using ok by (simp_all add: fun_eq_iff shownTransaction_def e_def TransactionOutGetCursor_def rowCursor_def
        ToListedOut_def titled_def Let_def)
  show ?thesis
    unfolding query [symmetric]
    by (simp add: getAllTransaction_def asked list response_map shown cursor size) (rule exI, rule refl)
qed

lemma transactionCursor_rowCursor:
  assumes "transactionsListable e" and "row \<in> set (listedTransactionRows e)"
  shows "rowCursor row \<noteq> ''''"
    and "transactionCursor (rowCursor row) '''' =
      Ok (Some \<lparr>tc_TransactionDate = int (lt_TransactionDate row) * nsPerDay, tc_DatabaseID = lt_DatabaseID row,
                tc_IsBackward = False\<rparr>)"
    and "transactionCursor '''' (rowCursor row) =
      Ok (Some \<lparr>tc_TransactionDate = int (lt_TransactionDate row) * nsPerDay, tc_DatabaseID = lt_DatabaseID row,
                tc_IsBackward = True\<rparr>)"
proof -
  have "lt_DatabaseID row < 2 ^ 64 \<and> fst (dateOf (lt_TransactionDate row)) < 10000"
    using assms by (auto simp: transactionsListable_def listedTransactionRows_def list_all_iff split: prod.splits)
  then have "decodeTransactionCursor (rowCursor row) =
      Ok \<lparr>tc_TransactionDate = int (lt_TransactionDate row) * nsPerDay, tc_DatabaseID = lt_DatabaseID row, tc_IsBackward = False\<rparr>"
    by (intro decodeTransactionCursor_rowCursor) auto
  moreover show "rowCursor row \<noteq> ''''"
    by (simp add: rowCursor_def TransactionCursorString_def)
  ultimately show "transactionCursor (rowCursor row) '''' =
      Ok (Some \<lparr>tc_TransactionDate = int (lt_TransactionDate row) * nsPerDay, tc_DatabaseID = lt_DatabaseID row,
                tc_IsBackward = False\<rparr>)"
    and "transactionCursor '''' (rowCursor row) =
      Ok (Some \<lparr>tc_TransactionDate = int (lt_TransactionDate row) * nsPerDay, tc_DatabaseID = lt_DatabaseID row,
                tc_IsBackward = True\<rparr>)"
    by (simp_all add: transactionCursor_def)
qed

interpretation transaction_list: cursor_listing
  "\<lambda>e. getAllTransaction (fst e) (snd e) :: PageQuery \<Rightarrow> 'd::zero DoGetTransactionResponse Answer"
  transactionsListable listedTransactionRows "\<lambda>e. True" "\<lambda>e. transactionKey" transactionPageSize
  "\<lambda>e. rowCursor" shownTransaction
proof
  fix e :: "'d TransactionListEnv" and row :: "'d ListedTransaction" and q :: PageQuery
  assume e: "transactionsListable e"
  obtain tables req where split: "e = (tables, req)" by (cases e)
  show "0 < transactionPageSize e"
    using e by (auto simp: split transactionPageSize_def transactionsListable_def isOk_iff ToFilterOpts_Ok_iff Let_def)
  have "distinct (map lt_DatabaseID (listedTransactionRows e))"
    using e by (simp add: split transactionsListable_def listedTransactionRows_def distinct_map_filter)
  then show "distinct (map transactionKey (listedTransactionRows e))"
    by (auto simp: distinct_map inj_on_def transactionKey_def)
  note select = getAllTransaction_select [OF e [unfolded split], folded split]
  {
    assume "q = \<lparr>nextCursor = '''', prevCursor = ''''\<rparr>"
    then show "\<exists>n. getAllTransaction (fst e) (snd e) q = Page (RestSuccessResponseCursorPagination q rowCursor
        (shownTransaction e) (selectPage True transactionKey (listedTransactionRows e) FirstPage
          (transactionPageSize e + 1)) (int (transactionPageSize e) + 1) n)"
      using select [of q None] by (simp add: split transactionCursor_def)
  next
    assume row: "row \<in> set (listedTransactionRows e)"
    note cursor = transactionCursor_rowCursor [OF e row]
    show "rowCursor row \<noteq> ''''"
      by (rule cursor)
    {
      assume "q = \<lparr>nextCursor = rowCursor row, prevCursor = ''''\<rparr>"
      then show "\<exists>n. getAllTransaction (fst e) (snd e) q = Page (RestSuccessResponseCursorPagination q rowCursor
          (shownTransaction e) (selectPage True transactionKey (listedTransactionRows e) (AfterKey (transactionKey row))
            (transactionPageSize e + 1)) (int (transactionPageSize e) + 1) n)"
        using select [of q] cursor(2) by (simp add: split transactionKey_def)
    next
      assume "q = \<lparr>nextCursor = '''', prevCursor = rowCursor row\<rparr>"
      then show "\<exists>n. getAllTransaction (fst e) (snd e) q = Page (RestSuccessResponseCursorPagination q rowCursor
          (shownTransaction e) (selectPage True transactionKey (listedTransactionRows e) (BeforeKey (transactionKey row))
            (transactionPageSize e + 1)) (int (transactionPageSize e) + 1) n)"
        using select [of q] cursor(3) by (simp add: split transactionKey_def)
    }
  }
qed

text \<open>The count of the status endpoint tells whether more rows than the threshold are listed.\<close>

lemma TransactionGetStatusCount_exceeds:
  "tt_listFault tables = None \<Longrightarrow>
   TransactionGetStatusCount tables threshold opts =
     Ok (threshold < length (filter (filteredTransaction tables opts) (tt_transaction tables)), threshold)"
  by (simp add: TransactionGetStatusCount_def min_def)

end
