(* ===== verification/StoredRefunds.thy ===== *)
theory StoredRefunds
  imports RefundsAndTax TransactionListing WalletProperties "HOL-Library.Multiset"
begin

text \<open>
  Reversals and QRIS refunds on the stored tables.  The transformer of \<open>rvrsl.go\<close> asks the repositories for the
  ledger transactions of a reference, for the payment and for the wallet transactions of its reference; here these are
  the mapped queries of \<open>TransactionListing\<close>, \<open>TransactionStore\<close> and \<open>WalletListing\<close>.
\<close>

section \<open>The queries of a reversal\<close>

text \<open>The options of the two lists, and the environment whose clients read the tables.\<close>

definition reversalOptions :: "string \<Rightarrow> string \<Rightarrow> int \<Rightarrow> int \<Rightarrow> TransactionFilterOptions" where
  "reversalOptions search searchBy startDate endDate =
     \<lparr>tf_Search = search, tf_SearchBy = searchBy, tf_OrderType = '''', tf_TransactionType = '''',
      tf_TransactionTypes = [], tf_StartDate = Some startDate, tf_EndDate = Some endDate, tf_TransactionDate = None,
      tf_Limit = 0, tf_ProductTypeName = '''', tf_OnlyAMF = False, tf_Cursor = None\<rparr>"

definition refundOptions :: "string \<Rightarrow> int \<Rightarrow> WalletTrxFilterOptions" where
  "refundOptions refNumber limit = emptyWalletFilter\<lparr>wf_RefNumber := refNumber, wf_Limit := limit\<rparr>"

definition storedEnv ::
  "'d Env \<Rightarrow> 'd RepoConfig \<Rightarrow> 'd TransactionTables \<Rightarrow> 'd WalletListing \<Rightarrow> 'd DB \<Rightarrow> 'd Env" where
  "storedEnv E cfg tables listing db =
     E\<lparr>GetTransactionList := (\<lambda>search searchBy startDate endDate.
          rbind (TransactionGetList tables (reversalOptions search searchBy startDate endDate))
            (\<lambda>rows. Ok (map lt_Transaction rows))),
       GetWalletById := (\<lambda>i. WalletGetById cfg i db),
       ListWallet := (\<lambda>refNumber limit. WalletTrxList listing (refundOptions refNumber limit))\<rparr>"

text \<open>The two lists are of the rows of the database; a date column has the day of the stored instant.\<close>

definition ofDatabase :: "'d TransactionTables \<Rightarrow> 'd WalletListing \<Rightarrow> 'd DB \<Rightarrow> bool" where
  "ofDatabase tables listing db \<longleftrightarrow>
     map lt_Transaction (tt_transaction tables) = db_transaction db \<and>
     (\<forall>row\<in>set (tt_transaction tables). lt_TransactionDate row = localDay (txn_TransactionDate (lt_Transaction row))) \<and>
     wl_table listing = db_wallet_transaction db"

text \<open>The stored ledger transactions that a reversal of a reference is about.\<close>

definition inReversalWindow :: "'d Env \<Rightarrow> 'd Transaction \<Rightarrow> bool" where
  "inReversalWindow E t \<longleftrightarrow>
     localDay (fst (reversalWindow E)) \<le> localDay (txn_TransactionDate t) \<and>
     localDay (txn_TransactionDate t) \<le> localDay (snd (reversalWindow E))"

definition reversible :: "'d Env \<Rightarrow> string \<Rightarrow> 'd DB \<Rightarrow> 'd Transaction list" where
  "reversible E refNumber db = filter (\<lambda>t. txn_RefNumber t = refNumber \<and> inReversalWindow E t) (db_transaction db)"

definition titled :: "'d Transaction \<Rightarrow> 'd Transaction" where
  "titled t = t\<lparr>txn_Status := strIndex statusTitle (txn_Status t)\<rparr>"

lemma mset_orderBy [simp]: "mset (orderBy descending key rows) = mset rows"
  by (simp add: orderBy_def)

lemma storedEnv_window [simp]: "reversalWindow (storedEnv E cfg tables listing db) = reversalWindow E"
  "inReversalWindow (storedEnv E cfg tables listing db) t = inReversalWindow E t"
  "accounts (storedEnv E cfg tables listing db) = accounts E"
  by (simp_all add: reversalWindow_def inReversalWindow_def storedEnv_def)

lemma stored_ledger:
  assumes read: "ledgerOfReference (storedEnv E cfg tables listing db) w = Inr ts" and ref: "wt_RefNumber w \<noteq> ''''"
    and of_db: "ofDatabase tables listing db"
  obtains us where "ts = map titled us" and "mset us = mset (reversible E (wt_RefNumber w) db)"
proof -
  let ?opts = "reversalOptions (wt_RefNumber w) ''refNumber'' (fst (reversalWindow E)) (snd (reversalWindow E))"
  let ?wanted = "\<lambda>t. txn_RefNumber t = wt_RefNumber w \<and> inReversalWindow E t"
  have rows_db: "db_transaction db = map lt_Transaction (tt_transaction tables)"
    using of_db by (simp add: ofDatabase_def)
  define rows where "rows = listTransactionQuery tables ?opts"
  have "filter (filteredTransaction tables ?opts) (tt_transaction tables) =
      filter (\<lambda>row. ?wanted (lt_Transaction row)) (tt_transaction tables)"
    using of_db ref by (intro filter_cong refl)
      (auto simp: filteredTransaction_def searched_def inDates_def reversalOptions_def ofDatabase_def inReversalWindow_def)
  then have "mset rows = mset (filter (\<lambda>row. ?wanted (lt_Transaction row)) (tt_transaction tables))"
    by (simp add: rows_def listTransactionQuery_def Let_def) (simp add: reversalOptions_def)
  then have "mset (map lt_Transaction rows) = mset (map lt_Transaction (filter (\<lambda>row. ?wanted (lt_Transaction row)) (tt_transaction tables)))"
    by simp
  also have "map lt_Transaction (filter (\<lambda>row. ?wanted (lt_Transaction row)) (tt_transaction tables)) =
      reversible E (wt_RefNumber w) db"
    by (simp add: reversible_def rows_db filter_map comp_def)
  finally have "mset (map lt_Transaction rows) = mset (reversible E (wt_RefNumber w) db)" .
  moreover have "ts = map titled (map lt_Transaction rows)"
    using read by (auto simp: ledgerOfReference_def storedEnv_def TransactionGetList_def titled_def rows_def reversalWindow_def
        rbind_Ok_iff split: option.splits)
  ultimately show thesis by (rule that [rotated])
qed

section \<open>Reversals\<close>

lemma mirrors_titled: "mirrors (titled t) r \<longleftrightarrow> mirrors t r"
  by (simp add: mirrors_def titled_def)

lemma contains_titled: "isTransactionContains (map titled ts) code \<longleftrightarrow> isTransactionContains ts code"
  by (auto simp: isTransactionContains_def titled_def)

lemma contains_mset: "mset ts = mset us \<Longrightarrow> isTransactionContains ts code \<longleftrightarrow> isTransactionContains us code"
  by (auto simp: isTransactionContains_def dest: mset_eq_setD)

lemma ledgerFlow_mset: "mset ts = mset us \<Longrightarrow> ledgerFlow a ts = ledgerFlow a us"
  unfolding ledgerFlow_def by (simp only: mset_map flip: sum_mset_sum_list)

text \<open>
  C28: a reversal undoes the stored ledger of its reference exactly.  When a \<open>RVRSL\<close> transformation succeeds that reads
  the tables, and no row of its reference in the reversal window is a QRIS payment, its requests are the mirror images
  (same amounts, accounts swapped) of all the stored rows of the reference whose day is in the window, each once, so on
  every account these rows and the reversal cancel out; there is such a row, the flow was a refund, and none of the rows was
  a reversal already: a reversal is not reversed and not repeated.
\<close>

theorem reversal_mirrors_ledger:
  fixes db :: "'d::linordered_idom DB"
  assumes run: "rvrsl_Transform (storedEnv E cfg tables listing db) amount w s = (Inr rs, s')"
    and of_db: "ofDatabase tables listing db" and ref: "wt_RefNumber w \<noteq> ''''"
    and other: "\<not> isTransactionContains (reversible E (wt_RefNumber w) db) ''PAYQR''"
  shows "(\<exists>ts. mset ts = mset (reversible E (wt_RefNumber w) db) \<and> list_all2 mirrors ts rs) \<and>
         (\<forall>a. ledgerFlow a (reversible E (wt_RefNumber w) db) + requestFlow a rs = 0) \<and>
         reversible E (wt_RefNumber w) db \<noteq> [] \<and> wt_TransactionFlow w = ''refund'' \<and>
         \<not> isTransactionContains (reversible E (wt_RefNumber w) db) ''RVRSL''"
proof -
  let ?E = "storedEnv E cfg tables listing db"
  from run obtain ts where read: "ledgerOfReference ?E w = Inr ts" by (rule rvrsl_unfold)
  then obtain us where ts: "ts = map titled us" and us: "mset us = mset (reversible E (wt_RefNumber w) db)"
    by (rule stored_ledger [OF _ ref of_db])
  have "\<not> isTransactionContains ts ''PAYQR''"
    using other contains_mset [OF us] by (simp add: ts contains_titled)
  from reversal_mirrors_listed [OF run read this]
  have mirrored: "list_all2 mirrors us rs" and facts: "us \<noteq> []" "wt_TransactionFlow w = ''refund''"
    "\<not> isTransactionContains us ''RVRSL''"
    by (simp_all add: ts list_all2_map1 mirrors_titled contains_titled)
  with us mirror_flow [OF mirrored] show ?thesis
    by (auto simp: ledgerFlow_mset [OF us, symmetric] contains_mset [OF us, symmetric] dest: arg_cong [where f = size])
qed

section \<open>Refunds of a QRIS payment\<close>

text \<open>
  What the wallet transactions of a reference have refunded: the net amounts of its reversals that are pending or
  successful.  A payment is a wallet transaction of the reference that paid by QRIS.
\<close>

definition refundOf :: "string \<Rightarrow> 'd::linordered_idom WalletTransaction \<Rightarrow> 'd" where
  "refundOf ref x =
     (if wt_RefNumber x = ref \<and> wt_TransactionType x = ''RVRSL'' \<and> wt_Status x \<in> {''PENDING'', ''SUCCESS''}
      then getTotalAmount x ''RVRSL'' else 0)"

definition refundsOf :: "string \<Rightarrow> 'd::linordered_idom DB \<Rightarrow> 'd" where
  "refundsOf ref db = (\<Sum>x\<leftarrow>db_wallet_transaction db. refundOf ref x)"

definition paymentOf :: "string \<Rightarrow> string \<Rightarrow> 'd::linordered_idom \<Rightarrow> 'd DB \<Rightarrow> bool" where
  "paymentOf ref payment paid db \<longleftrightarrow>
     (\<exists>p\<in>set (db_wallet_transaction db). wt_ID p = payment \<and> wt_RefNumber p = ref \<and> paidByQRIS p = paid)"

lemma refunds_filtered:
  "(\<Sum>x\<leftarrow>filter (\<lambda>x. wt_TransactionType x = ''RVRSL'' \<and> wt_Status x \<in> set [''PENDING'', ''SUCCESS''])
      (filter (\<lambda>x. wt_RefNumber x = ref) xs). getTotalAmount x ''RVRSL'') = (\<Sum>x\<leftarrow>xs. refundOf ref x)"
  by (induction xs) (auto simp: refundOf_def)

lemma listed_refunds:
  assumes "WalletTrxList listing (refundOptions ref (-1)) = Inr wallets" and "wl_table listing = db_wallet_transaction db"
    and "ref \<noteq> ''''"
  shows "refundedSoFar wallets = refundsOf ref db"
proof -
  have "mset wallets = mset (filter (\<lambda>x. wt_RefNumber x = ref) (db_wallet_transaction db))"
    using assms by (auto simp: WalletTrxList_def listWalletTrxQuery_def refundOptions_def emptyWalletFilter_def Let_def
        filteredWalletTrx_def split: option.splits)
  then have "refundedSoFar wallets = refundedSoFar (filter (\<lambda>x. wt_RefNumber x = ref) (db_wallet_transaction db))"
    unfolding refundedSoFar_def getTotalAmountFromWallets_eq
    by (simp only: mset_map mset_filter flip: sum_mset_sum_list)
  also have "\<dots> = refundsOf ref db"
    by (simp only: refundedSoFar_def getTotalAmountFromWallets_eq refundsOf_def refunds_filtered)
  finally show ?thesis .
qed

text \<open>
  A reversal of the payment: a new wallet transaction of type \<open>RVRSL\<close> of the payment's reference names the payment in
  its metadata, has no negative amount, and is turned into requests by a transformer that reads the
  tables and whose window has the ledger row of the payment.
\<close>

definition readsPayment :: "string \<Rightarrow> 'd::linordered_idom ServiceConfig \<Rightarrow> 'd DB \<Rightarrow> bool" where
  "readsPayment ref svc db \<longleftrightarrow>
     (\<exists>E tables listing. environment svc db = storedEnv E (repo svc) tables listing db \<and> ofDatabase tables listing db \<and>
        isTransactionContains (reversible E ref db) ''PAYQR'')"

definition refundsPayment ::
  "string \<Rightarrow> string \<Rightarrow> 'd::linordered_idom ServiceConfig \<Rightarrow> 'd NewWalletTransaction \<Rightarrow> 'd DB \<Rightarrow> bool" where
  "refundsPayment ref payment svc nwt db \<longleftrightarrow>
     (nw_TransactionType nwt = ''RVRSL'' \<and> nw_RefNumber nwt = ref \<longrightarrow>
        metadataString (nw_Metadata nwt) ''walletTransactionId'' = payment \<and> readsPayment ref svc db \<and>
        0 \<le> amt_ValueDecimal (nw_NetAmount nwt) \<and>
        (\<forall>d\<in>set (nw_Amounts nwt). 0 \<le> amt_ValueDecimal (ad_Amount d)))"

text \<open>
  The steps: creations through the API, and directly as the upload of a file and the queue make them, settlements, and
  anything that leaves the wallet transactions alone.
\<close>

inductive refundStep :: "string \<Rightarrow> string \<Rightarrow> 'd::linordered_idom World \<Rightarrow> 'd World \<Rightarrow> bool" for ref payment where
  create: "visitsAll svc \<Longrightarrow> refundsPayment ref payment svc (acceptedRequest svc req (newUUIDText svc (w_drawn w))) (w_db w) \<Longrightarrow>
             CreateTransaction svc req w = (answer, w') \<Longrightarrow> refundStep ref payment w w'"
| book: "visitsAll svc \<Longrightarrow> refundsPayment ref payment svc nwt (w_db w) \<Longrightarrow>
             CreateTransactionAtomic svc nwt isReserved isPublish clientID w = (answer, w') \<Longrightarrow>
             isReserved \<longrightarrow> nw_TransactionFlow nwt \<noteq> ''cashin'' \<Longrightarrow> refundStep ref payment w w'"
| settle: "visitsAll svc \<Longrightarrow> ProcessReservedTransaction svc req w = (answer, w') \<Longrightarrow> refundStep ref payment w w'"
| elsewhere: "db_wallet_transaction (w_db w') = db_wallet_transaction (w_db w) \<Longrightarrow> uniqueKeys (w_db w') \<Longrightarrow>
             refundStep ref payment w w'"

text \<open>What stays true: at most the payment is refunded, and no counted refund is negative.\<close>

definition refundsBounded :: "string \<Rightarrow> string \<Rightarrow> 'd::linordered_idom \<Rightarrow> 'd DB \<Rightarrow> bool" where
  "refundsBounded ref payment paid db \<longleftrightarrow>
     uniqueKeys db \<and> paymentOf ref payment paid db \<and> refundsOf ref db \<le> paid \<and>
     (\<forall>x\<in>set (db_wallet_transaction db). 0 \<le> refundOf ref x)"

lemma withAccountNumbers_created:
  "wt_TransactionType (createdRow cfg (withAccountNumbers m nwt)) = nw_TransactionType nwt"
  "wt_RefNumber (createdRow cfg (withAccountNumbers m nwt)) = nw_RefNumber nwt"
  "wt_Amounts (createdRow cfg (withAccountNumbers m nwt)) = nw_Amounts nwt"
  "amt_ValueDecimal (wt_NetAmount (createdRow cfg (withAccountNumbers m nwt))) = amt_ValueDecimal (nw_NetAmount nwt)"
  by (simp_all add: createdRow_def withAccountNumbers_def inIDR_def)

lemma payment_read:
  assumes "WalletGetById cfg payment db = Inr p" and "uniqueKeys db" and "paymentOf ref payment paid db"
  shows "wt_RefNumber p = ref" and "paidByQRIS p = paid"
proof -
  from assms(1) have "p \<in> set (db_wallet_transaction db)" "wt_ID p = payment"
    by (auto simp: WalletGetById_def rbind_Ok_iff find_Some_iff split: option.splits)
  with assms(2,3) show "wt_RefNumber p = ref" "paidByQRIS p = paid"
    by (auto simp: paymentOf_def uniqueKeys_def distinct_map inj_on_def)
qed

text \<open>A transformer of a reversal of the payment that succeeds has checked it against all that was refunded.\<close>

lemma refund_checked:
  assumes run: "rvrsl_Transform (environment svc db) amount w s = (Inr rs, s')"
    and reads: "readsPayment ref svc db" and ref: "wt_RefNumber w = ref" "ref \<noteq> ''''"
    and bounded: "refundsBounded ref payment paid db"
  shows "wt_Amounts w = []"
    and "metadataString (shared s) ''walletTransactionId'' = payment \<Longrightarrow>
           refundsOf ref db + amt_ValueDecimal (wt_NetAmount w) \<le> paid"
proof -
  from reads obtain E tables listing where env: "environment svc db = storedEnv E (repo svc) tables listing db"
    and of_db: "ofDatabase tables listing db" and paid: "isTransactionContains (reversible E ref db) ''PAYQR''"
    by (auto simp: readsPayment_def)
  note run = run [unfolded env]
  from run obtain ts where read: "ledgerOfReference (storedEnv E (repo svc) tables listing db) w = Inr ts" by (rule rvrsl_unfold)
  then obtain us where "ts = map titled us" and us: "mset us = mset (reversible E (wt_RefNumber w) db)"
    using ref by (rule_tac stored_ledger [OF _ _ of_db]) auto
  then have "isTransactionContains ts ''PAYQR''"
    using paid contains_mset [OF us] ref by (simp add: contains_titled)
  from qris_refund_checked [OF run read this] obtain p wallets where
    p: "WalletGetById (repo svc) (metadataString (shared s) ''walletTransactionId'') db = Inr p"
    and wallets: "WalletTrxList listing (refundOptions (wt_RefNumber p) (-1)) = Inr wallets"
    and check: "refundedSoFar wallets + amt_ValueDecimal (wt_NetAmount w) \<le> paidByQRIS p" and "wt_Amounts w = []"
    by (auto simp: storedEnv_def)
  then show "wt_Amounts w = []" by simp
  show "refundsOf ref db + amt_ValueDecimal (wt_NetAmount w) \<le> paid"
    if "metadataString (shared s) ''walletTransactionId'' = payment"
  proof -
    from bounded have "uniqueKeys db" "paymentOf ref payment paid db" by (simp_all add: refundsBounded_def)
    note found = payment_read [OF p [unfolded that] this]
    have "wl_table listing = db_wallet_transaction db"
      using of_db unfolding ofDatabase_def by (elim conjE)
    from listed_refunds [OF wallets [unfolded found] this ref(2)]
    have "refundedSoFar wallets = refundsOf ref db" .
    with check found show ?thesis by simp
  qed
qed

lemma transformDetails_ran:
  assumes "transformDetails E w ds res errs s = (Inr (res', []), s')"
  shows "errs = [] \<and> (\<forall>d\<in>set ds. 0 < amt_ValueDecimal (ad_Amount d) \<longrightarrow>
    (\<exists>T s0 rs s1. GetTransformer (ad_Type d) = Inr T \<and> T E (ad_Amount d) w s0 = (Inr rs, s1)))"
  using assms
proof (induction ds arbitrary: res errs s)
  case (Cons d ds)
  then show ?case
    by (fastforce split: sum.splits prod.splits if_splits err.splits)
qed simp

lemma rvrsl_registry: "GetTransformer ''RVRSL'' = Inr rvrsl_Transform"
  by (simp add: GetTransformer_def NewMapTransformer_def tableAdm_def tableDsb_def tablePay_def tableRpy_def)

lemma zero_details: "\<forall>d\<in>set ds. ad_Type d = code \<longrightarrow> amt_ValueDecimal (ad_Amount d) = 0 \<Longrightarrow>
  foldl (\<lambda>total d. if ad_Type d = code then total + amt_ValueDecimal (ad_Amount d) else total) (a :: 'd::linordered_idom) ds = a"
  by (induction ds arbitrary: a) auto

text \<open>So what is stored keeps the bound.\<close>

lemma stored_refund:
  assumes run: "Transform (environment svc db) (ToWalletTransaction n nwt) (startState (ToWalletTransaction n nwt) k) = (Inr requested, s)"
    and refund: "nw_TransactionType nwt = ''RVRSL''" "nw_RefNumber nwt = ref" and ref: "ref \<noteq> ''''"
    and request: "refundsPayment ref payment svc nwt db" and bounded: "refundsBounded ref payment paid db"
  shows "0 \<le> getTotalAmount (ToWalletTransaction n nwt) ''RVRSL'' \<and>
         refundsOf ref db + getTotalAmount (ToWalletTransaction n nwt) ''RVRSL'' \<le> paid"
proof -
  let ?w = "ToWalletTransaction n nwt"
  have w: "wt_TransactionType ?w = ''RVRSL''" "wt_RefNumber ?w = ref" "wt_NetAmount ?w = nw_NetAmount nwt"
    "wt_Amounts ?w = nw_Amounts nwt"
    using refund by (simp_all add: ToWalletTransaction_def)
  from request refund have names: "metadataString (nw_Metadata nwt) ''walletTransactionId'' = payment"
    and reads: "readsPayment ref svc db" and amounts: "0 \<le> amt_ValueDecimal (nw_NetAmount nwt)"
      "\<forall>d\<in>set (nw_Amounts nwt). 0 \<le> amt_ValueDecimal (ad_Amount d)"
    by (auto simp: refundsPayment_def)
  show ?thesis
  proof (cases "0 < amt_ValueDecimal (nw_NetAmount nwt)")
    case True
    with run obtain rs s1 where main: "rvrsl_Transform (environment svc db) (nw_NetAmount nwt) ?w (startState ?w k) = (Inr rs, s1)"
      by (auto simp: Transform_def rvrsl_registry w bind_Ok_iff call_def)
    have "metadataString (shared (startState ?w k)) ''walletTransactionId'' = payment"
      using names by (auto simp: startState_def ToWalletTransaction_def metadataString_def metadataIndex_def split: option.splits)
    with refund_checked [OF main reads w(2) ref bounded] amounts(1) show ?thesis
      by (simp add: getTotalAmount_def w)
  next
    case False
    with amounts(1) have zero: "amt_ValueDecimal (nw_NetAmount nwt) = 0" by simp
    from run obtain res s1 where "transformDetails (environment svc db) ?w (nw_Amounts nwt) [] [] (startState ?w k) = (Inr (res, []), s1)"
      by (auto simp: Transform_def rvrsl_registry w zero bind_Ok_iff call_def return_def getMetadata_def fail_def split: if_splits)
    note ran = transformDetails_ran [OF this]
    have "amt_ValueDecimal (ad_Amount d) = 0" if "d \<in> set (nw_Amounts nwt)" "ad_Type d = ''RVRSL''" for d
    proof (rule ccontr)
      assume "amt_ValueDecimal (ad_Amount d) \<noteq> 0"
      with that(1) amounts(2) have "0 < amt_ValueDecimal (ad_Amount d)" by force
      with ran that obtain s2 rs s3 where "rvrsl_Transform (environment svc db) (ad_Amount d) ?w s2 = (Inr rs, s3)"
        by (auto simp: rvrsl_registry)
      from refund_checked(1) [OF this reads w(2) ref bounded] that(1) show False by (simp add: w)
    qed
    then have "getTotalAmount ?w ''RVRSL'' = 0"
      by (simp add: getTotalAmount_def w zero zero_details)
    with bounded show ?thesis by (simp add: refundsBounded_def)
  qed
qed

lemma CreateTransaction_runs:
  assumes "CreateTransaction svc req w = ((t, e), w')"
  obtains (unchanged) "w_db w' = w_db w"
  | (run) "CreateTransactionAtomic svc (acceptedRequest svc req (newUUIDText svc (w_drawn w)))
        (cw_IsReserved req) True (cw_ClientId req) (w\<lparr>w_drawn := w_drawn w + 1\<rparr>) = ((t, e), w')"
      "cw_IsReserved req \<Longrightarrow> cw_TransactionFlow req \<noteq> ''cashin''"
proof -
  consider (answered) "w' = w"
    | (queued) "EnqueueTransaction svc (lceNetAmount svc req) w = ((t, e), w')"
    | (run) "validateTransactionInput svc req = Inr ()"
        "CreateTransactionAtomic svc (acceptedRequest svc req (newUUIDText svc (w_drawn w)))
           (cw_IsReserved req) True (cw_ClientId req) (w\<lparr>w_drawn := w_drawn w + 1\<rparr>) = ((t, e), w')"
    using assms unfolding CreateTransaction_def Let_def
    by (auto simp: acceptedRequest_def split: sum.splits option.splits if_splits)
  then show thesis
  proof cases
    case answered
    with unchanged show thesis by simp
  next
    case queued
    then show thesis
      using unchanged by (auto simp: EnqueueTransaction_def split: option.splits)
  next
    case run
    show thesis by (rule that(2) [OF run(2) validateTransactionInput_reserved [OF run(1)]])
  qed
qed

lemma paymentOf_mono:
  "paymentOf ref payment paid db \<Longrightarrow> set (db_wallet_transaction db) \<subseteq> set (db_wallet_transaction db') \<Longrightarrow>
     paymentOf ref payment paid db'"
  by (auto simp: paymentOf_def)

lemma booked_refund:
  assumes call: "CreateTransactionAtomic svc nwt isReserved isPublish clientID w = ((t, e), w')"
    and visits: "visitsAll svc" and flow: "isReserved \<Longrightarrow> nw_TransactionFlow nwt \<noteq> ''cashin''"
    and request: "refundsPayment ref payment svc nwt (w_db w)" and ref: "ref \<noteq> ''''"
    and bounded: "refundsBounded ref payment paid (w_db w)"
  shows "refundsBounded ref payment paid (w_db w')"
  using call
proof (cases rule: CreateTransactionAtomic_cases)
  case unchanged
  with bounded show ?thesis by simp
next
  case (committed requested s vars)
  let ?nwt = "nwt\<lparr>nw_Metadata := (if nw_Metadata nwt = None then None else shared s)\<rparr>"
  let ?wallet = "ToWalletTransaction (now (repo svc)) nwt"
  have flow': "isReserved \<Longrightarrow> nw_TransactionFlow ?nwt \<noteq> ''cashin''" using flow by simp
  have keys: "uniqueKeys (w_db w)" using bounded by (simp add: refundsBounded_def)
  obtain created where outcome: "t = Some created" "uniqueKeys (w_db w')"
    "db_wallet_transaction (w_db w') = db_wallet_transaction (w_db w) @ [created]"
    by (rule committed_outcome [OF committed(2,3) flow' keys visits])
  obtain m where "t = Some (createdRow (repo svc) (withAccountNumbers m ?nwt))"
    by (rule createSteps_inv [OF committed(2)]) (auto simp: WalletCreate_Ok_iff)
  with outcome(1) have created: "created = createdRow (repo svc) (withAccountNumbers m ?nwt)" by simp
  have total: "getTotalAmount created ''RVRSL'' = getTotalAmount ?wallet ''RVRSL''"
    by (simp add: getTotalAmount_def created withAccountNumbers_created) (simp add: ToWalletTransaction_def)
  have "0 \<le> refundOf ref created \<and> refundsOf ref (w_db w) + refundOf ref created \<le> paid"
  proof (cases "nw_TransactionType nwt = ''RVRSL'' \<and> nw_RefNumber nwt = ref")
    case True
    with stored_refund [OF committed(1) _ _ ref request bounded] bounded show ?thesis
      by (auto simp: refundOf_def total refundsBounded_def)
  next
    case False
    with bounded show ?thesis
      by (auto simp: refundOf_def created withAccountNumbers_created refundsBounded_def)
  qed
  then show ?thesis
    using bounded outcome(2,3) paymentOf_mono [of ref payment paid "w_db w" "w_db w'"]
    by (auto simp: refundsBounded_def refundsOf_def)
qed

text \<open>Settling never counts more: a committed refund counts as it did, a cancelled one no longer.\<close>

lemma settled_refund:
  assumes call: "ProcessReservedTransaction svc req w = ((t, e), w')"
    and visits: "visitsAll svc" and bounded: "refundsBounded ref payment paid (w_db w)"
  shows "refundsBounded ref payment paid (w_db w')"
proof -
  have keys: "uniqueKeys (w_db w)" using bounded by (simp add: refundsBounded_def)
  from call keys visits show ?thesis
  proof (cases rule: settle_outcome)
    case (committed w0 isCommit metadata rows payloads children)
    let ?set = "\<lambda>x. if wt_ID x = us_TransactionId req then
        x\<lparr>wt_Status := if isCommit then ''SUCCESS'' else ''CANCEL'',
          wt_TransactionTime := settleTime svc req, wt_Metadata := metadata\<rparr> else x"
    have pending: "wt_Status x = ''PENDING''"
      if "x \<in> set (db_wallet_transaction (w_db w))" "wt_ID x = us_TransactionId req" for x
    proof -
      have "w0 \<in> set (db_wallet_transaction (w_db w))" "wt_ID w0 = us_TransactionId req"
        using committed(1) by (auto simp: find_Some_iff)
      with that keys have "x = w0" by (auto simp: uniqueKeys_def distinct_map inj_on_def)
      with committed(2) show ?thesis by simp
    qed
    have same: "wt_RefNumber (?set x) = wt_RefNumber x" "wt_ID (?set x) = wt_ID x"
      "getTotalAmount (?set x) code = getTotalAmount x code" "wt_TransactionType (?set x) = wt_TransactionType x" for x code
      by (simp_all add: getTotalAmount_def)
    have each: "0 \<le> refundOf ref (?set x) \<and> refundOf ref (?set x) \<le> refundOf ref x"
      if "x \<in> set (db_wallet_transaction (w_db w))" for x
    proof -
      have "0 \<le> refundOf ref x" using bounded that by (simp add: refundsBounded_def)
      then show ?thesis
        using pending [OF that] by (cases "wt_ID x = us_TransactionId req") (auto simp: refundOf_def getTotalAmount_def)
    qed
    then have "refundsOf ref (w_db w') \<le> refundsOf ref (w_db w)"
      unfolding refundsOf_def committed(4) map_map by (intro sum_list_mono) simp
    moreover have "paymentOf ref payment paid (w_db w')"
    proof -
      from bounded obtain p where p: "p \<in> set (db_wallet_transaction (w_db w))" "wt_ID p = payment" "wt_RefNumber p = ref"
        "paidByQRIS p = paid"
        by (auto simp: refundsBounded_def paymentOf_def)
      then have "?set p \<in> set (db_wallet_transaction (w_db w'))"
        unfolding committed(4) list.set_map by (rule_tac image_eqI) simp_all
      moreover have "wt_ID (?set p) = payment" "wt_RefNumber (?set p) = ref" "paidByQRIS (?set p) = paid"
        using p(2-4) unfolding paidByQRIS_def same by blast+
      ultimately show ?thesis
        unfolding paymentOf_def by (intro bexI conjI)
    qed
    moreover have "\<forall>y\<in>set (db_wallet_transaction (w_db w')). 0 \<le> refundOf ref y"
      unfolding committed(4) list.set_map using each by blast
    moreover have "refundsOf ref (w_db w) \<le> paid" using bounded by (simp add: refundsBounded_def)
    ultimately show ?thesis
      using committed(10) by (simp add: refundsBounded_def)
  qed (use bounded in simp_all)
qed

lemma refundStep_bounded:
  assumes "refundStep ref payment w w'" and "ref \<noteq> ''''" and "refundsBounded ref payment paid (w_db w)"
  shows "refundsBounded ref payment paid (w_db w')"
  using assms(1)
proof cases
  case (create svc req answer)
  obtain t e where answer: "answer = (t, e)" by (cases answer)
  from create(3) [unfolded answer] show ?thesis
  proof (cases rule: CreateTransaction_runs)
    case unchanged
    with assms(3) show ?thesis by simp
  next
    case run
    show ?thesis
      by (rule booked_refund [OF run(1) create(1)]) (use run(2) create(2) assms(2,3) in simp_all)
  qed
next
  case (book svc nwt isReserved isPublish clientID answer)
  then show ?thesis using assms(2,3) by (cases answer) (auto intro: booked_refund)
next
  case (settle svc req answer)
  then show ?thesis using assms(3) by (cases answer) (auto intro: settled_refund)
next
  case elsewhere
  then show ?thesis
    using assms(3) by (simp add: refundsBounded_def refundsOf_def paymentOf_def)
qed

text \<open>
  C29: a QRIS payment is never refunded beyond its amount.  Over any history of calls that follow one another, in which every new
  reversal of the payment's reference names the payment, has no negative amount and reads the stored tables within the
  reversal window of the payment, the pending and successful reversals that are stored under the reference add up to at
  most what the wallet transaction of the payment paid by QRIS, however many refunds are asked for, committed and cancelled.
\<close>

theorem qris_refunds_capped:
  fixes w :: "'d::linordered_idom World"
  assumes "(refundStep ref payment)\<^sup>*\<^sup>* w w'" and "ref \<noteq> ''''"
    and "uniqueKeys (w_db w)" and "paymentOf ref payment paid (w_db w)"
    and "refundsOf ref (w_db w) \<le> paid" and "\<forall>x\<in>set (db_wallet_transaction (w_db w)). 0 \<le> refundOf ref x"
  shows "refundsOf ref (w_db w') \<le> paid \<and> 0 \<le> refundsOf ref (w_db w') \<and> paymentOf ref payment paid (w_db w')"
proof -
  have "refundsBounded ref payment paid (w_db w')"
    using assms(1)
  proof (induction rule: rtranclp_induct)
    case base
    from assms(3-6) show ?case by (simp add: refundsBounded_def)
  next
    case (step y z)
    show ?case by (rule refundStep_bounded [OF step(2) assms(2) step(3)])
  qed
  then show ?thesis
    by (auto simp: refundsBounded_def refundsOf_def intro!: sum_list_nonneg)
qed

section \<open>The examples\<close>

text \<open>The tables of a database, as the two lists show them, and the environment that reads them; its day is day 0.\<close>

definition exampleTables :: "rat DB \<Rightarrow> rat TransactionTables" where
  "exampleTables db =
     \<lparr>tt_transaction = map (\<lambda>(i, t). \<lparr>lt_DatabaseID = i, lt_TransactionDate = localDay (txn_TransactionDate t),
        lt_Transaction = t, lt_CreatedAt = 0, lt_UpdatedAt = 0\<rparr>) (enumerate 1 (db_transaction db)),
      tt_account = Map.empty, tt_orderTypes = Ok (Map.empty, Map.empty), tt_onlyAMF = False, tt_now = 0,
      tt_listFault = None, tt_estimate = Ok 0\<rparr>"

definition exampleListing :: "rat DB \<Rightarrow> rat WalletListing" where
  "exampleListing db = \<lparr>wl_table = db_wallet_transaction db, wl_zone = 0, wl_listFault = None, wl_countFault = None\<rparr>"

definition exampleStoredEnv :: "rat DB \<Rightarrow> rat Env" where
  "exampleStoredEnv db = storedEnv exampleEnv (exampleRepo None) (exampleTables db) (exampleListing db) db"

lemma example_ofDatabase: "ofDatabase (exampleTables db) (exampleListing db) db"
proof -
  have "map (\<lambda>(i, t). t) (enumerate n xs) = xs" for n and xs :: "rat Transaction list"
    by (induction xs arbitrary: n) simp_all
  then show ?thesis
    by (auto simp: ofDatabase_def exampleTables_def exampleListing_def comp_def case_prod_unfold)
qed

lemma example_today: "NowZeroTime 0 = - jakartaOffset" "AddDays (- jakartaOffset) (- 30) = - jakartaOffset - 30 * nsPerDay"
proof -
  have "NowZeroTime 0 = startOfLocalDay (localDay 0)"
    by (rule NowZeroTime_eq) (simp_all add: example_day jakartaOffset_def)
  then show "NowZeroTime 0 = - jakartaOffset" by (simp add: example_day)
qed (simp add: AddDays_def)

lemma example_window: "reversalWindow exampleEnv = (- jakartaOffset - 30 * nsPerDay, - jakartaOffset)"
  by (simp add: reversalWindow_def example_simps example_today)

lemma exampleStoredEnv_fields:
  "clock (exampleStoredEnv db) = 0" "settings (exampleStoredEnv db) = exampleSettings" "accounts (exampleStoredEnv db) = exampleAccounts"
  "uuid (exampleStoredEnv db) = (\<lambda>n. replicate n CHR ''i'')"
  "GetWalletById (exampleStoredEnv db) = (\<lambda>i. WalletGetById (exampleRepo None) i db)"
  "ListWallet (exampleStoredEnv db) = (\<lambda>refNumber limit. WalletTrxList (exampleListing db) (refundOptions refNumber limit))"
  by (simp_all add: exampleStoredEnv_def storedEnv_def exampleEnv_def)

lemma example_inWindow: "inReversalWindow exampleEnv t \<longleftrightarrow> localDay (txn_TransactionDate t) = 0"
  by (simp add: inReversalWindow_def example_window localDay_def nsPerDay_def)

lemma example_list:
  assumes "db_transaction db = [t]" and "localDay (txn_TransactionDate t) = 0" and "txn_RefNumber t = ''REF''"
  shows "GetTransactionList (exampleStoredEnv db) ''REF'' ''refNumber'' (- jakartaOffset - 30 * nsPerDay) (- jakartaOffset) = Ok [titled t]"
  using assms
  by (simp add: exampleStoredEnv_def storedEnv_def TransactionGetList_def exampleTables_def listTransactionQuery_def
      filteredTransaction_def searched_def inDates_def reversalOptions_def Let_def titled_def localDay_def nsPerDay_def
      orderBy_def)

text \<open>A reversal of a top-up of 70 gives back the 70.\<close>

lemma reversal_mirrors_ledger_witness:
  "\<exists>rs s'. rvrsl_Transform (exampleStoredEnv (exampleState 0 0 1 0 1 [] [exampleTransaction]))
      (wt_NetAmount exampleRefund) exampleRefund (startState exampleRefund 0) = (Inr rs, s') \<and>
    requestFlow ''A'' rs = 70"
proof -
  let ?db = "exampleState 0 0 1 0 1 [] [exampleTransaction]"
  have t: "localDay (txn_TransactionDate exampleTransaction) = 0" "txn_RefNumber exampleTransaction = ''REF''"
    by (simp_all add: exampleTransaction_def example_day)
  obtain rs s' where run: "rvrsl_Transform (exampleStoredEnv ?db) (wt_NetAmount exampleRefund) exampleRefund
      (startState exampleRefund 0) = (Inr rs, s')"
    using example_list [OF _ t, of ?db]
    by (simp add: rvrsl_Transform_def exampleRefund_def exampleTransaction_def withStatus_def titled_def
        transformWalletTransactionStatus_def bind_def call_def return_def failWhen_def requireString_def
        metadataString_def metadataIndex_def isTransactionContains_def getMetadata_def newReq_eq Let_def
        exampleStoredEnv_fields exampleSettings_def example_today exampleWallet_def startState_def)
  have refs: "reversible exampleEnv (wt_RefNumber exampleRefund) ?db = [exampleTransaction]"
    by (simp add: reversible_def example_inWindow t exampleRefund_def exampleWallet_def)
  from reversal_mirrors_ledger [OF run [unfolded exampleStoredEnv_def] example_ofDatabase]
  have "ledgerFlow ''A'' [exampleTransaction] + requestFlow ''A'' rs = 0"
    by (simp add: refs) (simp add: exampleRefund_def exampleWallet_def isTransactionContains_def exampleTransaction_def)
  with run show ?thesis
    by (auto simp: ledgerFlow_def exampleTransaction_def)
qed

text \<open>A payment of 100 by QRIS and its ledger row, and the service that reads the tables; a refund of 60.\<close>

definition refundWorld :: "rat World" where
  "refundWorld =
     \<lparr>w_db = exampleState 0 0 1 0 1 [examplePayment\<lparr>wt_ID := ''W0''\<rparr>] [exampleTransaction\<lparr>txn_TypeTransaction := ''PAYQR''\<rparr>],
      w_hvt = [], w_notified = [], w_async = [], w_drawn = 0\<rparr>"

definition refundService :: "rat ServiceConfig" where
  "refundService = (exampleService None None)\<lparr>environment := exampleStoredEnv\<rparr>"

definition refundNew :: "rat NewWalletTransaction" where
  "refundNew =
     (exampleNew False 0)\<lparr>nw_TransactionType := ''RVRSL'', nw_TransactionFlow := ''refund'',
        nw_NetAmount := \<lparr>amt_ValueDecimal = 60, amt_Currency = ''IDR''\<rparr>,
        nw_Metadata := Some [''walletTransactionId'' \<mapsto> AnyString ''W0'']\<rparr>"

definition refundReq :: "rat TransactionReq" where
  "refundReq =
     \<lparr>req_TransactionID = '''', req_FromAccount = ''SYS'', req_ToAccount = ''ACC'',
      req_TransactionDate = FormatDateInLocalTime 0, req_Amount = Some 60, req_Status = ''1'', req_Method = '''',
      req_TypeTransaction = ''RFDQR'', req_Description = ''d'', req_RefNumber = ''REF'',
      req_Metadata = Some [''walletTransactionId'' \<mapsto> AnyString ''W0''], req_OrderTime = 1, req_OrderType = ''RFD'',
      req_TransactionTime = 0, req_Currency = ''IDR''\<rparr>"

lemma refund_transformed:
  "Transform (exampleStoredEnv (w_db refundWorld)) (ToWalletTransaction 1 refundNew) (startState (ToWalletTransaction 1 refundNew) 0) =
     (Inr [refundReq], (startState (ToWalletTransaction 1 refundNew) 0)\<lparr>drawn := 1\<rparr>)"
proof -
  have t: "localDay (txn_TransactionDate (exampleTransaction\<lparr>txn_TypeTransaction := ''PAYQR''\<rparr>)) = 0"
    "txn_RefNumber (exampleTransaction\<lparr>txn_TypeTransaction := ''PAYQR''\<rparr>) = ''REF''"
    by (simp_all add: exampleTransaction_def example_day)
  have list: "GetTransactionList (exampleStoredEnv (w_db refundWorld)) ''REF'' ''refNumber''
      (- jakartaOffset - 30 * nsPerDay) (- jakartaOffset) = Ok [titled (exampleTransaction\<lparr>txn_TypeTransaction := ''PAYQR''\<rparr>)]"
    by (rule example_list [OF _ t]) (simp add: refundWorld_def)
  have paid: "WalletGetById (exampleRepo None) ''W0'' (w_db refundWorld) = Ok (examplePayment\<lparr>wt_ID := ''W0''\<rparr>)"
    by (simp add: WalletGetById_def failIf_def refundWorld_def)
  have refunds: "WalletTrxList (exampleListing (w_db refundWorld)) (refundOptions ''REF'' (-1)) = Ok [examplePayment\<lparr>wt_ID := ''W0''\<rparr>]"
    by (simp add: WalletTrxList_def exampleListing_def refundWorld_def listWalletTrxQuery_def refundOptions_def
        emptyWalletFilter_def filteredWalletTrx_def examplePayment_def exampleWallet_def orderBy_def Let_def)
  have fields: "nw_TransactionType refundNew = ''RVRSL''" "nw_TransactionFlow refundNew = ''refund''"
    "nw_NetAmount refundNew = \<lparr>amt_ValueDecimal = 60, amt_Currency = ''IDR''\<rparr>" "nw_RefNumber refundNew = ''REF''"
    "nw_Metadata refundNew = Some [''walletTransactionId'' \<mapsto> AnyString ''W0'']" "nw_Amounts refundNew = []"
    "nw_Status refundNew = ''SUCCESS''" "nw_AccountNumber refundNew = ''ACC''" "nw_Description refundNew = ''d''"
    "nw_TransactionTime refundNew = 0"
    by (simp_all add: refundNew_def exampleNew_def ToNewWalletTransaction_def exampleRequest_def)
  show ?thesis
    by (simp add: Transform_def rvrsl_registry rvrsl_Transform_def handleRefundIssuerQRIS_def ToWalletTransaction_def fields
        withStatus_def transformWalletTransactionStatus_def bind_def call_def return_def failWhen_def requireString_def
        metadataString_def metadataIndex_def isTransactionContains_def getMetadata_def newReq_eq Let_def one_def
        exampleStoredEnv_fields exampleSettings_def example_today startState_def list paid refunds titled_def
        getTotalAmount_def getTotalAmountFromWallets_def examplePayment_def exampleWallet_def exampleAccounts_def
        refundReq_def getOrderTime_def transformCurrency_def)
qed

text \<open>The refund on the balances: the wallet's account and the system account, which is not on the database.\<close>

definition sysBalance :: "rat \<Rightarrow> rat Balance" where
  "sysBalance actual = NewBalance actual 0
     [WithIgnoreBalanceSufficiency, WithSkipBalanceUpdateOnDB, WithBalanceLimitEnabled False]"

definition refundLoaded :: "rat AccountBalance list" where
  "refundLoaded =
     [\<lparr>ab_AccountNumber = ''ACC'', ab_T24AccountNumber = '''', ab_Balance = accBalance 0 0 1\<rparr>,
      \<lparr>ab_AccountNumber = ''SYS'', ab_T24AccountNumber = '''', ab_Balance = sysBalance 0\<rparr>]"

lemma refund_parts:
  "GetMany (exampleRepo None) (balanceRequest refundService [refundReq]) (w_db refundWorld) = Inr refundLoaded"
  "validateAccountExistsInTransactions [refundReq] refundLoaded = None"
  "updateTransactionAccountNumber [refundReq] refundLoaded = [refundReq]"
  "withAccountNumbers (mapT24AccountNumberToAccountNumber refundLoaded) refundNew = refundNew"
  "ConvertToBalanceMap refundLoaded = [''ACC'' \<mapsto> accBalance 0 0 1, ''SYS'' \<mapsto> sysBalance 0]"
  "req_FromAccount refundReq = ''SYS''" "repo refundService = exampleRepo None" "visitOrder refundService = exampleOrder"
  by (simp_all add: GetMany_def balanceRequest_def refundReq_def refundService_def refundWorld_def scenario_defs
      getAccountNumbersForUpdateBalance_def getIgnoredAccounts_def failIf_def buildGetManyAccountBalanceQuery_def Let_def
      isAccountNumbersPASFormat_def isNumeric_def loadBalance_def scanRow_def createBalanceOptions_def
      accBalance_def sysBalance_def refundLoaded_def ConvertToBalanceMap_def
      validateAccountExistsInTransactions_def knownNumbers_def updateTransactionAccountNumber_def
      mapT24AccountNumberToAccountNumber_def mapT24Step_def updateAccountNumber_def withAccountNumbers_def
      refundNew_def exampleNew_def ToNewWalletTransaction_def)

lemma refund_calculated:
  "calculateBalances (getWalletBalanceCalculator ''refund'' False) [refundReq]
     [''ACC'' \<mapsto> accBalance 0 0 1, ''SYS'' \<mapsto> sysBalance 0] =
   Inr [''ACC'' \<mapsto> accBalance 60 0 1, ''SYS'' \<mapsto> sysBalance (- 60)]"
  by (auto simp: getWalletBalanceCalculator_def CalculateTransfer_def Withdraw_def AddFunds_def example_calculations
      refundReq_def sysBalance_def)

lemma refund_stored:
  "exampleOrder [''ACC'' \<mapsto> x, ''SYS'' \<mapsto> y] = [''ACC'', ''SYS'']"
  "storeCreatedBalances refundService refundNew False [''SYS''] current [''ACC'', ''SYS'']
     [''ACC'' \<mapsto> accBalance 60 0 1, ''SYS'' \<mapsto> sysBalance (- 60)] [] (exampleState 0 0 1 0 1 ws ts) =
   (Inr ([''ACC'' \<mapsto> writtenBalance 60 0 2, ''SYS'' \<mapsto> sysBalance (- 60)], []), exampleState 60 0 2 0 1 ws ts)"
proof -
  have "dom [''ACC'' \<mapsto> x, ''SYS'' \<mapsto> y] - {''ACC'', ''HOLD''} = {''SYS''}" by auto
  then show "exampleOrder [''ACC'' \<mapsto> x, ''SYS'' \<mapsto> y] = [''ACC'', ''SYS'']"
    by (simp add: exampleOrder_def)
  have "isSkipBalanceUpdateOnDB (sysBalance (- 60))" by (simp add: sysBalance_def balance_option_defs)
  then show "storeCreatedBalances refundService refundNew False [''SYS''] current [''ACC'', ''SYS'']
     [''ACC'' \<mapsto> accBalance 60 0 1, ''SYS'' \<mapsto> sysBalance (- 60)] [] (exampleState 0 0 1 0 1 ws ts) =
   (Inr ([''ACC'' \<mapsto> writtenBalance 60 0 2, ''SYS'' \<mapsto> sysBalance (- 60)], []), exampleState 60 0 2 0 1 ws ts)"
    by (simp add: example_flags wrapping_def bind_def example_update refund_parts fun_upd_twist [of "''SYS''" "''ACC''"])
qed

definition refundEntry :: "rat Transaction" where
  "refundEntry =
     \<lparr>txn_TransactionID = ''w'', txn_TransactionDate = 0, txn_FromAccount = ''SYS'', txn_ToAccount = ''ACC'',
      txn_Amount = Some 60, txn_Status = ''1'', txn_Method = '''', txn_TypeTransaction = ''RFDQR'', txn_Description = ''d'',
      txn_RefNumber = ''REF'', txn_Metadata = ''{}'', txn_OrderTime = 1, txn_OrderType = ''RFD'', txn_TransactionTime = 0,
      txn_Currency = ''IDR'', txn_SourceEntity = '''', txn_DestinationEntity = ''''\<rparr>"

lemma refund_inserted:
  "insertChildTransactions refundService [refundReq]
     (exampleState 60 0 2 0 1 ws [exampleTransaction\<lparr>txn_TypeTransaction := ''PAYQR''\<rparr>]) =
   (Inr [refundEntry], exampleState 60 0 2 0 1 ws [exampleTransaction\<lparr>txn_TypeTransaction := ''PAYQR''\<rparr>, refundEntry])"
proof -
  have "ToRequest 1 0 (\<lambda>_. Ok ''{}'') ''w'' refundReq = Inr refundEntry"
    by (simp add: ToRequest_def refundReq_def example_date refundEntry_def)
  moreover have "txn_TransactionID exampleTransaction = ''T1''" by (simp add: exampleTransaction_def)
  ultimately show ?thesis
    by (simp add: insertChildTransactions_def convertRequests_def refund_parts ErrorOrNil_def bind_def wrapping_def
        return_def StoreBulk_def refundService_def exampleService_def exampleRepo_def refundEntry_def)
qed

lemma refund_run:
  "\<exists>w'. CreateTransactionAtomic refundService refundNew False False ''client'' refundWorld =
       ((Some (createdRow (exampleRepo None) refundNew), None), w') \<and>
     w_db w' = exampleState 60 0 2 0 1 [examplePayment\<lparr>wt_ID := ''W0''\<rparr>, createdRow (exampleRepo None) refundNew]
       [exampleTransaction\<lparr>txn_TypeTransaction := ''PAYQR''\<rparr>, refundEntry]"
proof -
  have env: "environment refundService = exampleStoredEnv" "w_drawn refundWorld = 0"
    "GetAccountNumberEntity refundService = (\<lambda>_. Ok Map.empty)"
    by (simp_all add: refundService_def refundWorld_def exampleService_def)
  have nwt: "nw_Metadata refundNew = Some [''walletTransactionId'' \<mapsto> AnyString ''W0'']" "nw_ID refundNew = ''w''"
    "nw_TransactionFlow refundNew = ''refund''"
    "refundNew\<lparr>nw_Metadata := shared (startState (ToWalletTransaction 1 refundNew) 0)\<rparr> = refundNew"
    by (simp_all add: refundNew_def startState_def ToWalletTransaction_def exampleId_def)
  have world: "w_db refundWorld = exampleState 0 0 1 0 1 [examplePayment\<lparr>wt_ID := ''W0''\<rparr>]
      [exampleTransaction\<lparr>txn_TypeTransaction := ''PAYQR''\<rparr>]"
    by (simp add: refundWorld_def)
  have steps: "createSteps refundService refundNew False [refundReq] (w_db refundWorld, Some emptyWallet) =
     (Inr \<lparr>cv_created = createdRow (exampleRepo None) refundNew, cv_acuanTransactions = [refundEntry],
           cv_currentBalances = [''ACC'' \<mapsto> accBalance 0 0 1, ''SYS'' \<mapsto> sysBalance 0],
           cv_updatedBalances = [''ACC'' \<mapsto> writtenBalance 60 0 2, ''SYS'' \<mapsto> sysBalance (- 60)],
           cv_hvtPayloads = []\<rparr>,
      (exampleState 60 0 2 0 1 [examplePayment\<lparr>wt_ID := ''W0''\<rparr>, createdRow (exampleRepo None) refundNew]
         [exampleTransaction\<lparr>txn_TypeTransaction := ''PAYQR''\<rparr>, refundEntry],
       Some (createdRow (exampleRepo None) refundNew)))"
    by (simp add: createSteps_def bind_def wrapping_def readDb_def onDb_def call_def failIf_def return_def Let_def
        refund_parts refund_calculated nwt createWallet_def WalletCreate_def refund_inserted)
      (simp add: world refund_stored refund_parts createWallet_def WalletCreate_def refund_inserted bind_def wrapping_def onDb_def
        return_def nwt del: storeCreatedBalances.simps)
  show ?thesis
    using steps
    by (simp add: CreateTransactionAtomic_def Let_def env refund_parts refund_transformed nwt Atomic_def)
      (simp add: afterCommit_def enrichTransactionsWithEntityData_def getAccountNumbersForEntity_def env ErrorOrNil_def)
qed

lemma qris_refunds_capped_witness:
  "\<exists>w'. (refundStep ''REF'' ''W0'')\<^sup>*\<^sup>* refundWorld w' \<and> refundsOf ''REF'' (w_db w') = 60 \<and>
     refundsOf ''REF'' (w_db w') \<le> 100 \<and> fundsOf (w_db w') ''ACC'' = Some (60, 0)"
proof -
  have db: "w_db refundWorld = exampleState 0 0 1 0 1 [examplePayment\<lparr>wt_ID := ''W0''\<rparr>]
      [exampleTransaction\<lparr>txn_TypeTransaction := ''PAYQR''\<rparr>]"
    by (simp add: refundWorld_def)
  have payment: "wt_RefNumber examplePayment = ''REF''" "wt_TransactionType examplePayment = ''PAYQR''"
    "paidByQRIS (examplePayment\<lparr>wt_ID := ''W0''\<rparr>) = 100"
    by (simp_all add: examplePayment_def exampleWallet_def paidByQRIS_def getTotalAmount_def)
  have "visitsAll refundService"
    using exampleService_visits [of None None] by (simp add: visitsAll_def refundService_def)
  moreover have "refundsPayment ''REF'' ''W0'' refundService refundNew (w_db refundWorld)"
  proof -
    have "reversible exampleEnv ''REF'' (w_db refundWorld) = [exampleTransaction\<lparr>txn_TypeTransaction := ''PAYQR''\<rparr>]"
      by (simp add: reversible_def example_inWindow db) (simp add: exampleTransaction_def example_day)
    moreover have "environment refundService (w_db refundWorld) = storedEnv exampleEnv (repo refundService)
        (exampleTables (w_db refundWorld)) (exampleListing (w_db refundWorld)) (w_db refundWorld)"
      by (simp add: refundService_def exampleStoredEnv_def)
    ultimately have "readsPayment ''REF'' refundService (w_db refundWorld)"
      unfolding readsPayment_def using example_ofDatabase
      by (intro exI [of _ exampleEnv] exI conjI) (simp_all add: isTransactionContains_def)
    then show ?thesis
      by (simp add: refundsPayment_def refundNew_def exampleNew_def ToNewWalletTransaction_def exampleRequest_def
          metadataString_def metadataIndex_def)
  qed
  moreover obtain w' where booked: "CreateTransactionAtomic refundService refundNew False False ''client'' refundWorld =
       ((Some (createdRow (exampleRepo None) refundNew), None), w')"
     and w': "w_db w' = exampleState 60 0 2 0 1 [examplePayment\<lparr>wt_ID := ''W0''\<rparr>, createdRow (exampleRepo None) refundNew]
       [exampleTransaction\<lparr>txn_TypeTransaction := ''PAYQR''\<rparr>, refundEntry]"
    using refund_run by blast
  ultimately have "refundStep ''REF'' ''W0'' refundWorld w'"
    using refundStep.book [of refundService "''REF''" "''W0''" refundNew refundWorld False False "''client''"] by simp
  then have run: "(refundStep ''REF'' ''W0'')\<^sup>*\<^sup>* refundWorld w'" by blast
  have start: "uniqueKeys (w_db refundWorld)" "paymentOf ''REF'' ''W0'' 100 (w_db refundWorld)"
    "refundsOf ''REF'' (w_db refundWorld) \<le> 100"
    "\<forall>x\<in>set (db_wallet_transaction (w_db refundWorld)). 0 \<le> refundOf ''REF'' x"
    by (simp_all add: db paymentOf_def refundsOf_def refundOf_def payment uniqueKeys_def)
      (simp add: exampleState_def exampleRow_def)
  have "refundsOf ''REF'' (w_db w') \<le> 100"
    using qris_refunds_capped [OF run _ start] by simp
  moreover have "refundOf ''REF'' (createdRow (exampleRepo None) refundNew) = 60"
    by (simp add: refundOf_def createdRow_def refundNew_def exampleNew_def ToNewWalletTransaction_def exampleRequest_def
        getTotalAmount_def inIDR_def)
  then have "refundsOf ''REF'' (w_db w') = 60"
    by (simp add: refundsOf_def w') (simp add: refundOf_def payment)
  moreover have "fundsOf (w_db w') ''ACC'' = Some (60, 0)"
    by (simp add: w' fundsOf_def exampleState_def exampleRow_def)
  ultimately show ?thesis using run by blast
qed

end
