(* ===== verification/Chunks.thy ===== *)
theory Chunks
  imports Prelude
begin

text \<open>
  \<open>ChunkBy\<close> of \<open>internal/common/chunk.go\<close>: a list cut into pieces of a size that comes from the
  configuration.  A size of zero never gets to the end of a list that is not empty, a negative one
  panics, and with any other size the pieces are the list again.
\<close>

text \<open>
  The loop, with what is left and the chunks so far; \<open>None\<close> is that it does not return.  A negative size
  is an index out of range.
\<close>

partial_function (option) chunkLoop :: "int \<Rightarrow> 'a list \<Rightarrow> 'a list list \<Rightarrow> 'a list list result option" where
  "chunkLoop chunkSize items chunks =
     (if chunkSize < int (length items) then
        (if chunkSize < 0 then Some (Err Panic)
         else chunkLoop chunkSize (drop (nat chunkSize) items) (chunks @ [take (nat chunkSize) items]))
      else Some (Ok (chunks @ [items])))"

definition ChunkBy :: "'a list \<Rightarrow> int \<Rightarrow> 'a list list result option" where
  "ChunkBy items chunkSize = chunkLoop chunkSize items []"

text \<open>The reference: pieces of \<open>n\<close> elements, the last one of what remains.\<close>

fun pieces :: "nat \<Rightarrow> 'a list \<Rightarrow> 'a list list" where
  "pieces n items =
     (if n = 0 \<or> length items \<le> n then [items] else take n items # pieces n (drop n items))"

declare pieces.simps [simp del]

lemma concat_pieces: "concat (pieces n items) = items"
  by (induction n items rule: pieces.induct) (subst pieces.simps, simp)

lemma pieces_short: "0 < n \<Longrightarrow> chunk \<in> set (pieces n items) \<Longrightarrow> length chunk \<le> n"
  by (induction n items rule: pieces.induct) (subst (asm) (2) pieces.simps, auto split: if_splits)

lemma pieces_not_Nil [simp]: "pieces n items \<noteq> []"
  by (subst pieces.simps) simp

lemma pieces_full: "chunk \<in> set (butlast (pieces n items)) \<Longrightarrow> length chunk = n"
  by (induction n items rule: pieces.induct) (subst (asm) (2) pieces.simps, auto split: if_splits)

text \<open>Every element is in a piece, and only a list without elements has an empty piece.\<close>

lemma chunkLoop_pieces:
  assumes "0 < n"
  shows "chunkLoop (int n) items chunks = Some (Ok (chunks @ pieces n items))"
  using assms
proof (induction n items arbitrary: chunks rule: pieces.induct)
  case (1 n items)
  show ?case
  proof (cases "length items \<le> n")
    case True
    then show ?thesis by (subst chunkLoop.simps, subst pieces.simps) simp
  next
    case False
    then show ?thesis
      using 1 by (subst chunkLoop.simps, subst pieces.simps) simp
  qed
qed

lemma chunkLoop_zero_diverges:
  assumes "chunkLoop chunkSize items chunks = Some r" and "chunkSize = 0"
  shows "items = []"
proof -
  have "chunkSize = 0 \<longrightarrow> items = []"
  proof (rule chunkLoop.raw_induct [where P = "\<lambda>chunkSize items chunks r. chunkSize = 0 \<longrightarrow> items = []", OF _ assms(1)])
    fix f chunkSize and items :: "'a list" and chunks r
    assume IH: "\<And>chunkSize (items :: 'a list) chunks r. f chunkSize items chunks = Some r \<Longrightarrow> chunkSize = 0 \<longrightarrow> items = []"
      and eq: "(if chunkSize < int (length items) then
                  (if chunkSize < 0 then Some (Err Panic)
                   else f chunkSize (drop (nat chunkSize) items) (chunks @ [take (nat chunkSize) items]))
                else Some (Ok (chunks @ [items]))) = Some r"
    show "chunkSize = 0 \<longrightarrow> items = []"
      using eq IH [of 0 items] by (auto split: if_splits)
  qed
  with assms(2) show ?thesis by simp
qed

lemma ChunkBy_pieces: "0 < chunkSize \<Longrightarrow> ChunkBy items chunkSize = Some (Ok (pieces (nat chunkSize) items))"
  using chunkLoop_pieces [of "nat chunkSize" items "[]"] by (simp add: ChunkBy_def)

text \<open>
  C27: ChunkBy returns exactly when the size is not zero or there is nothing to cut: it panics for a
  negative size, and for a positive one its chunks are the list, each of them full but the last,
  which is not longer.
\<close>

theorem ChunkBy_returns:
  "((\<exists>r. ChunkBy items chunkSize = Some r) \<longleftrightarrow> chunkSize \<noteq> 0 \<or> items = []) \<and>
   (chunkSize < 0 \<longrightarrow> ChunkBy items chunkSize = Some (Err Panic)) \<and>
   (0 < chunkSize \<longrightarrow>
     (\<exists>chunks final. ChunkBy items chunkSize = Some (Ok (chunks @ [final])) \<and> concat chunks @ final = items \<and>
        (\<forall>chunk\<in>set chunks. int (length chunk) = chunkSize) \<and> int (length final) \<le> chunkSize))"
proof (intro conjI impI)
  show panics: "ChunkBy items chunkSize = Some (Err Panic)" if "chunkSize < 0"
    unfolding ChunkBy_def using that by (subst chunkLoop.simps) simp
  have "ChunkBy [] 0 = Some (Ok [[]] :: 'a list list result)"
    unfolding ChunkBy_def by (subst chunkLoop.simps) simp
  with panics ChunkBy_pieces [of chunkSize items] chunkLoop_zero_diverges [of chunkSize items "[]"]
  show "(\<exists>r. ChunkBy items chunkSize = Some r) \<longleftrightarrow> chunkSize \<noteq> 0 \<or> items = []"
    by (cases "chunkSize < 0"; cases "chunkSize = 0") (auto simp: ChunkBy_def)
next
  let ?ps = "pieces (nat chunkSize) items"
  assume "0 < chunkSize"
  moreover have "concat (butlast ?ps) @ last ?ps = items"
    using concat_append [of "butlast ?ps" "[last ?ps]"] concat_pieces [of "nat chunkSize" items] by simp
  ultimately show "\<exists>chunks final. ChunkBy items chunkSize = Some (Ok (chunks @ [final])) \<and>
      concat chunks @ final = items \<and> (\<forall>chunk\<in>set chunks. int (length chunk) = chunkSize) \<and>
      int (length final) \<le> chunkSize"
    using ChunkBy_pieces [of chunkSize items] pieces_full [of _ "nat chunkSize" items]
      pieces_short [of "nat chunkSize" "last ?ps" items]
    by (intro exI [of _ "butlast ?ps"] exI [of _ "last ?ps"]) auto
qed

lemma ChunkBy_returns_witness:
  "ChunkBy [1, 2, 3, 4, 5 :: int] 2 = Some (Ok [[1, 2], [3, 4], [5]]) \<and>
   (\<exists>chunks final. ChunkBy [1, 2, 3, 4, 5 :: int] 2 = Some (Ok (chunks @ [final])) \<and>
      concat chunks @ final = [1, 2, 3, 4, 5] \<and> (\<forall>chunk\<in>set chunks. int (length chunk) = 2) \<and>
      int (length final) \<le> 2)"
  using ChunkBy_returns [of "[1, 2, 3, 4, 5 :: int]" 2] by (simp add: ChunkBy_def chunkLoop.simps)

end
