(* ===== verification/TransactionService.thy ===== *)
theory TransactionService
  imports TransactionStore Chunks "HOL-Library.Word"
begin

text \<open>
  The direct transaction service (\<open>internal/services/transaction_service.go\<close>, with its input check in
  \<open>private_func.go\<close>) and its HTTP handlers: storing a transaction, at once or reserved, committing and
  cancelling a reserved one, and storing many rows.  The state is the database and the notifications that left
  the service.
\<close>

section \<open>The service\<close>

text \<open>The library's transaction and the notification around it; the status is a byte there.\<close>

record 'd LibTransaction =
  lib_Id :: string
  lib_Amount :: 'd
  lib_Currency :: string
  lib_SourceAccountId :: string
  lib_SourceEntity :: string
  lib_DestinationAccountId :: string
  lib_DestinationEntity :: string
  lib_Description :: string
  lib_Method :: string
  lib_TransactionType :: string
  lib_TransactionTime :: int
  lib_Status :: "8 word"
  lib_Meta :: "'d any option"

record 'd AcuanNotification =
  acn_Identifier :: string
  acn_OrderTime :: int
  acn_OrderType :: string
  acn_Transactions :: "'d LibTransaction list"
  acn_Message :: string
  acn_ClientID :: string

text \<open>
  The configuration and the collaborators: the orders in which Go visits a map of balances and a map of
  accounts, the master data, the JSON encoder and decoder, \<open>uuid.Parse\<close> and the ids it draws, the
  publisher, and the validator of the handlers.
\<close>

record 'd TrxService =
  tr_repo :: "'d RepoConfig"
  tr_visitOrder :: "'d balances \<Rightarrow> string list"
  tr_existsOrder :: "(string \<rightharpoonup> bool) \<Rightarrow> string list"
  tr_AcceptedOrderType :: "string list"
  tr_AcceptedTransactionType :: "string list"
  tr_GetListOrderTypeCode :: "string list result"
  tr_GetListTransactionTypeCode :: "string list result"
  tr_BatchSize :: int
  tr_jsonMarshal :: "'d WalletMetadata \<Rightarrow> string result"
  tr_jsonUnmarshal :: "string \<Rightarrow> 'd any result"
  tr_parseUUID :: "string \<Rightarrow> string result"
  tr_newUUID :: "nat \<Rightarrow> string"
  tr_addedNanoSecond :: int
  tr_publish :: "'d AcuanNotification \<Rightarrow> err option"
  tr_validate :: "'d DoCreateTransactionRequest \<Rightarrow> err option"
  tr_errorText :: "err \<Rightarrow> string"

type_synonym 'd TrxState = "'d DB \<times> 'd AcuanNotification list"

section \<open>Conversions\<close>

text \<open>\<open>strconv.ParseUint(s, 10, 64)\<close>.\<close>

definition digitsValue :: "string \<Rightarrow> nat" where
  "digitsValue s = foldl (\<lambda>n c. 10 * n + ((of_char c :: nat) - 48)) 0 s"

definition ParseUint :: "string \<Rightarrow> nat result" where
  "ParseUint s =
     (if \<not> isNumeric s then Err (ErrorMsg ''invalid syntax'')
      else if 2 ^ 64 \<le> digitsValue s then Err (ErrorMsg ''value out of range'')
      else Ok (digitsValue s))"

definition ToAcuanLibTransaction :: "'d::zero TrxService \<Rightarrow> 'd Transaction \<Rightarrow> 'd LibTransaction result" where
  "ToAcuanLibTransaction svc e =
     (case (if txn_Metadata e \<noteq> '''' then map_sum id Some (tr_jsonUnmarshal svc (txn_Metadata e)) else Ok None) of
        Inl er \<Rightarrow> Err (ErrorMsg (''failed to parse metadata: '' @ tr_errorText svc er))
      | Inr metadata \<Rightarrow>
        (case tr_parseUUID svc (txn_TransactionID e) of
           Inl er \<Rightarrow> Err (ErrorMsg (''failed to parse transaction id: '' @ tr_errorText svc er))
         | Inr transactionId \<Rightarrow>
           (case ParseUint (txn_Status e) of
              Inl er \<Rightarrow> Err (ErrorMsg (''failed to parse status: '' @ tr_errorText svc er))
            | Inr rawStatus \<Rightarrow>
                Ok \<lparr>lib_Id = transactionId, lib_Amount = nullDecimal (txn_Amount e), lib_Currency = txn_Currency e,
                    lib_SourceAccountId = txn_FromAccount e, lib_SourceEntity = txn_SourceEntity e,
                    lib_DestinationAccountId = txn_ToAccount e, lib_DestinationEntity = txn_DestinationEntity e,
                    lib_Description = txn_Description e, lib_Method = txn_Method e,
                    lib_TransactionType = txn_TypeTransaction e, lib_TransactionTime = txn_TransactionTime e,
                    lib_Status = word_of_nat rawStatus, lib_Meta = metadata\<rparr>)))"

definition ToAcuanNotificationMessage ::
  "'d::zero TrxService \<Rightarrow> 'd Transaction \<Rightarrow> string \<Rightarrow> string \<Rightarrow> 'd AcuanNotification result" where
  "ToAcuanNotificationMessage svc e message clientID =
     rbind (ToAcuanLibTransaction svc e) (\<lambda>t.
     Ok \<lparr>acn_Identifier = txn_RefNumber e, acn_OrderTime = txn_OrderTime e, acn_OrderType = txn_OrderType e,
         acn_Transactions = [t], acn_Message = message, acn_ClientID = clientID\<rparr>)"

definition publishNotificationSuccess ::
  "'d::zero TrxService \<Rightarrow> 'd Transaction \<Rightarrow> string \<Rightarrow> ('d TrxState, unit) exec" where
  "publishNotificationSuccess svc trx clientID =
     bind (call (ToAcuanNotificationMessage svc trx ''success create transaction'' clientID)) (\<lambda>payload.
     bind (call (failIf (tr_publish svc payload))) (\<lambda>_.
     assign (\<lambda>sent. sent @ [payload])))"

text \<open>What the API shows of a transaction.\<close>

record 'd GetTransactionOut =
  out_TransactionID :: string
  out_FromAccount :: string
  out_ToAccount :: string
  out_Currency :: string
  out_Amount :: 'd
  out_RefNumber :: string
  out_OrderType :: string
  out_OrderTypeName :: string
  out_TransactionType :: string
  out_TransactionTypeName :: string
  out_Method :: string
  out_TransactionTime :: int
  out_TransactionDate :: int
  out_Status :: string
  out_Description :: string
  out_Metadata :: string

definition ToGetTransactionOut ::
  "'d::zero Transaction \<Rightarrow> (string \<rightharpoonup> string) \<Rightarrow> (string \<rightharpoonup> string) \<Rightarrow> 'd GetTransactionOut" where
  "ToGetTransactionOut e mapOrderType mapTransactionType =
     \<lparr>out_TransactionID = txn_TransactionID e, out_FromAccount = txn_FromAccount e, out_ToAccount = txn_ToAccount e,
      out_Currency = txn_Currency e, out_Amount = nullDecimal (txn_Amount e), out_RefNumber = txn_RefNumber e,
      out_OrderType = txn_OrderType e, out_OrderTypeName = strIndex mapOrderType (txn_OrderType e),
      out_TransactionType = txn_TypeTransaction e,
      out_TransactionTypeName = strIndex mapTransactionType (txn_TypeTransaction e),
      out_Method = txn_Method e, out_TransactionTime = txn_TransactionTime e,
      out_TransactionDate = txn_TransactionDate e, out_Status = txn_Status e,
      out_Description = txn_Description e, out_Metadata = txn_Metadata e\<rparr>"

definition emptyOut :: "'d::zero GetTransactionOut" where
  "emptyOut =
     \<lparr>out_TransactionID = '''', out_FromAccount = '''', out_ToAccount = '''', out_Currency = '''', out_Amount = 0,
      out_RefNumber = '''', out_OrderType = '''', out_OrderTypeName = '''', out_TransactionType = '''',
      out_TransactionTypeName = '''', out_Method = '''', out_TransactionTime = 0, out_TransactionDate = 0,
      out_Status = '''', out_Description = '''', out_Metadata = ''''\<rparr>"

section \<open>Checks\<close>

text \<open>\<open>validateInputStoreTransaction\<close> collects what is wrong; an amount that is not valid counts twice.\<close>

definition validateInputStoreTransaction ::
  "'d::linordered_idom TrxService \<Rightarrow> TransactionStoreProcessType \<Rightarrow> 'd TransactionReq \<Rightarrow> err option" where
  "validateInputStoreTransaction svc processType req =
     (let (typeErr, tTypes) =
            (case tr_GetListTransactionTypeCode svc of
               Inl e \<Rightarrow> ([ErrorMsg (''unable to get transaction type from master data: '' @ tr_errorText svc e)], [])
             | Inr types \<Rightarrow> ([], types));
          (orderErr, oTypes) =
            (case tr_GetListOrderTypeCode svc of
               Inl e \<Rightarrow> ([ErrorMsg (''unable to get order type from master data: '' @ tr_errorText svc e)], [])
             | Inr types \<Rightarrow> ([], types))
      in ErrorOrNil
          ((if processType = TransactionStoreProcessReserved \<and> req_Status req \<noteq> ''0''
            then [Sentinel ErrInvalidStatus] else []) @
           (if req_Amount req = None then [Sentinel ErrInvalidAmount] else []) @
           (if nullDecimal (req_Amount req) \<le> 0 then [Sentinel ErrInvalidAmount] else []) @
           typeErr @ orderErr @
           (if req_OrderType req \<notin> set (tr_AcceptedOrderType svc @ oTypes)
            then [Wrapped (Sentinel ErrInvalidOrderType) (req_OrderType req)] else []) @
           (if req_TypeTransaction req \<notin> set (tr_AcceptedTransactionType svc @ tTypes)
            then [Wrapped (Sentinel ErrInvalidTransactionType) (req_TypeTransaction req)] else [])))"

text \<open>The accounts of a request, each with whether the table has it.\<close>

definition CheckAccountNumbers :: "'d RepoConfig \<Rightarrow> string list \<Rightarrow> 'd DB \<Rightarrow> (string \<rightharpoonup> bool) result" where
  "CheckAccountNumbers cfg accountNumbers db =
     rbind (failIf (fault cfg SelectAccounts)) (\<lambda>_.
     Ok (\<lambda>a. if a \<in> set accountNumbers
             then Some (list_ex (\<lambda>r. row_accountNumber r = a) (db_account db)) else None))"

text \<open>Both branches on the feature flag append the same error.\<close>

definition ensureAccountExists :: "'d TrxService \<Rightarrow> string list \<Rightarrow> 'd DB \<Rightarrow> err option" where
  "ensureAccountExists svc accountNumbers db =
     (case CheckAccountNumbers (tr_repo svc) accountNumbers db of
        Inl e \<Rightarrow> Some e
      | Inr es \<Rightarrow>
          ErrorOrNil (map (\<lambda>a. ErrorMsg (''account number '' @ a @ '' not exists''))
            (filter (\<lambda>a. es a = Some False) (tr_existsOrder svc es))))"

section \<open>Storing a transaction\<close>

definition accountRequest :: "string list \<Rightarrow> 'd GetAccountBalanceRequest" where
  "accountRequest accountNumbers =
     \<lparr>gr_AccountNumbers = accountNumbers, gr_ExcludeHVT = False, gr_ForUpdate = True,
      gr_AccountNumbersExcludedFromDB = [], gr_OverrideBalanceOpts = []\<rparr>"

text \<open>The accounts that may go below zero get a balance that is never checked.\<close>

definition skipBalanceChecks :: "'d::linordered_idom RepoConfig \<Rightarrow> 'd balances \<Rightarrow> 'd balances" where
  "skipBalanceChecks cfg balances =
     (\<lambda>accountNumber. map_option (\<lambda>balance.
        if accountNumber \<in> set (SkipBalanceCheckAccountNumber cfg)
        then NewBalance (actualBalance balance) (pendingBalance balance)
               [WithIgnoreBalanceSufficiency, WithBalanceLimitEnabled (BalanceLimitToggle cfg)]
        else balance) (balances accountNumber))"

definition calculated :: "'d calcResult \<Rightarrow> 'd balances result" where
  "calculated r = (case r of (updated, None) \<Rightarrow> Ok updated | (_, Some e) \<Rightarrow> Err e)"

definition entriesOf :: "'d TrxService \<Rightarrow> 'd balances \<Rightarrow> (string \<times> 'd Balance) list" where
  "entriesOf svc balances =
     List.map_filter (\<lambda>a. map_option (Pair a) (balances a)) (tr_visitOrder svc balances)"

definition storeSteps ::
  "'d::linordered_idom TrxService \<Rightarrow> TransactionStoreProcessType \<Rightarrow> 'd TransactionReq \<Rightarrow> 'd Transaction \<Rightarrow> string \<Rightarrow>
     ('d TrxState, unit) exec" where
  "storeSteps svc processType req en clientID =
     bind (readDb (GetAccountBalances (tr_repo svc) (accountRequest [req_FromAccount req, req_ToAccount req]))) (\<lambda>balances.
     bind (call (calculated (getBalanceCalculator processType
              (NewTransactionSet (req_FromAccount req) (req_ToAccount req) (nullDecimal (req_Amount req)))
              (skipBalanceChecks (tr_repo svc) balances)))) (\<lambda>balances.
     bind (onDb (updateEach (UpdateAccountBalance (tr_repo svc)) (entriesOf svc balances))) (\<lambda>_.
     bind (onDb (Store (tr_repo svc) en)) (\<lambda>_.
     if processType = TransactionStoreProcessNormal then publishNotificationSuccess svc en clientID
     else return ()))))"

text \<open>After the database transaction the row is returned, also with its error.\<close>

definition StoreTransaction ::
  "'d::linordered_idom TrxService \<Rightarrow> 'd TransactionReq \<Rightarrow> TransactionStoreProcessType \<Rightarrow> string \<Rightarrow> 'd TrxState \<Rightarrow>
     ('d GetTransactionOut \<times> err option) \<times> 'd TrxState" where
  "StoreTransaction svc req processType clientID s =
     (case ToRequest (now (tr_repo svc)) (tr_addedNanoSecond svc) (tr_jsonMarshal svc) (tr_newUUID svc 0) req of
        Inl e \<Rightarrow> ((emptyOut, Some e), s)
      | Inr en \<Rightarrow>
        (case validateInputStoreTransaction svc processType req of
           Some e \<Rightarrow> ((emptyOut, Some e), s)
         | None \<Rightarrow>
           (case CheckRefNumbers (tr_repo svc) [req_RefNumber req] (fst s) of
              Inl e \<Rightarrow> ((emptyOut, Some e), s)
            | Inr exists \<Rightarrow>
                if exists (txn_RefNumber en) = Some True then ((emptyOut, Some (Sentinel ErrDataTrxDuplicate)), s)
                else
                  (case ensureAccountExists svc [req_FromAccount req, req_ToAccount req] (fst s) of
                     Some e \<Rightarrow> ((emptyOut, Some e), s)
                   | None \<Rightarrow>
                     (case Atomic (tr_repo svc) (storeSteps svc processType req en clientID) s of
                        (Inl e, s') \<Rightarrow> ((ToGetTransactionOut en Map.empty Map.empty, Some e), s')
                      | (Inr _, s') \<Rightarrow> ((ToGetTransactionOut en Map.empty Map.empty, None), s'))))))"

section \<open>Settling a reserved transaction\<close>

text \<open>\<open>GetByTransactionID\<close> reads no times, order type and currency.\<close>

definition RepoGetByTransactionID :: "'d RepoConfig \<Rightarrow> string \<Rightarrow> 'd DB \<Rightarrow> 'd Transaction result" where
  "RepoGetByTransactionID cfg transactionId db =
     rbind (TransactionByID cfg transactionId db) (\<lambda>t.
     Ok (t\<lparr>txn_OrderTime := 0, txn_OrderType := '''', txn_TransactionTime := 0, txn_Currency := ''''\<rparr>))"

text \<open>The row gets its new status first, whatever the old one was; it must have an amount.\<close>

definition settledRow ::
  "'d TrxService \<Rightarrow> string \<Rightarrow> string \<Rightarrow> ('d TrxState, 'd Transaction \<times> 'd) exec" where
  "settledRow svc transactionID status =
     bind (wrapping ''unable to update trx'' (onDb (UpdateStatus (tr_repo svc) transactionID status))) (\<lambda>trx.
     case txn_Amount trx of
       None \<Rightarrow> fail (ErrorMsg (''invalid trx '' @ txn_TransactionID trx @ '' amount''))
     | Some amount \<Rightarrow> return (trx, amount))"

definition commitReservedSteps ::
  "'d::linordered_idom TrxService \<Rightarrow> string \<Rightarrow> string \<Rightarrow> ('d TrxState, 'd Transaction) exec" where
  "commitReservedSteps svc transactionID clientID =
     bind (settledRow svc transactionID ''1'') (\<lambda>(trx, amount).
     bind (wrapping ''unable to get balances''
             (readDb (GetAccountBalances (tr_repo svc) (accountRequest [txn_FromAccount trx, txn_ToAccount trx])))) (\<lambda>balances.
     bind (wrapping ''unable to calculate balance'' (call (calculated
             (CalculateCommit (NewTransactionSet (txn_FromAccount trx) (txn_ToAccount trx) amount) balances)))) (\<lambda>balances.
     bind (wrapping ''unable to update balance''
             (onDb (updateEach (UpdateAccountBalance (tr_repo svc)) (entriesOf svc balances)))) (\<lambda>_.
     bind (publishNotificationSuccess svc trx clientID) (\<lambda>_.
     return trx)))))"

definition CommitReservedTransaction ::
  "'d::linordered_idom TrxService \<Rightarrow> string \<Rightarrow> string \<Rightarrow> ('d TrxState, 'd Transaction) exec" where
  "CommitReservedTransaction svc transactionID clientID s =
     (case RepoGetByTransactionID (tr_repo svc) transactionID (fst s) of
        Inl e \<Rightarrow> (Err (wrapErr ''unable to get trx'' (checkDatabaseError (tr_errorText svc) e None)), s)
      | Inr trx \<Rightarrow>
          if IsSuccess trx then (Ok trx, s)
          else if \<not> IsPending trx then (Err (Sentinel ErrTransactionNotReserved), s)
          else Atomic (tr_repo svc) (commitReservedSteps svc (txn_TransactionID trx) clientID) s)"

text \<open>Only the source account is loaded and written; a missing key of a Go map is the zero balance.\<close>

definition cancelReservedSteps ::
  "'d::linordered_idom TrxService \<Rightarrow> string \<Rightarrow> ('d TrxState, 'd Transaction) exec" where
  "cancelReservedSteps svc transactionID =
     bind (settledRow svc transactionID ''2'') (\<lambda>(trx, amount).
     bind (wrapping ''unable to get balances''
             (readDb (GetAccountBalances (tr_repo svc) (accountRequest [txn_FromAccount trx])))) (\<lambda>balances.
     bind (wrapping ''unable to calculate balance'' (call (calculated
             (CalculateCancel (NewTransactionSet (txn_FromAccount trx) (txn_ToAccount trx) amount) balances)))) (\<lambda>balances.
     bind (wrapping ''unable to get update balance''
             (onDb (UpdateAccountBalance (tr_repo svc) (txn_FromAccount trx)
                (case balances (txn_FromAccount trx) of None \<Rightarrow> NewBalance 0 0 [] | Some balance \<Rightarrow> balance)))) (\<lambda>_.
     return trx))))"

definition CancelReservedTransaction ::
  "'d::linordered_idom TrxService \<Rightarrow> string \<Rightarrow> ('d TrxState, 'd Transaction) exec" where
  "CancelReservedTransaction svc transactionID s =
     (case RepoGetByTransactionID (tr_repo svc) transactionID (fst s) of
        Inl e \<Rightarrow> (Err (wrapErr ''unable to get trx'' (checkDatabaseError (tr_errorText svc) e None)), s)
      | Inr trx \<Rightarrow>
          if IsCancel trx then (Ok trx, s)
          else if \<not> IsPending trx then (Err (Sentinel ErrTransactionNotReserved), s)
          else Atomic (tr_repo svc) (cancelReservedSteps svc (txn_TransactionID trx)) s)"

section \<open>Storing in bulk\<close>

text \<open>
  A chunk is converted, rid of the reference numbers the ledger has, and inserted; then its accounts are
  checked.  A chunk with nothing new ends the whole call.  There is no database transaction around it.
  The first argument counts the requests before the chunk, for the ids that are drawn.
\<close>

definition bulkRows :: "'d TrxService \<Rightarrow> nat \<Rightarrow> 'd TransactionReq list \<Rightarrow> 'd Transaction list result" where
  "bulkRows svc drawn chunk =
     traverse (\<lambda>(k, request). ToRequest (now (tr_repo svc)) (tr_addedNanoSecond svc) (tr_jsonMarshal svc)
                                 (tr_newUUID svc k) request)
       (List.enumerate drawn chunk)"

fun storeChunks ::
  "'d::linordered_idom TrxService \<Rightarrow> nat \<Rightarrow> 'd TransactionReq list list \<Rightarrow> 'd DB \<Rightarrow> err option \<times> 'd DB" where
  "storeChunks svc drawn [] db = (None, db)"
| "storeChunks svc drawn (chunk # rest) db =
     (case bulkRows svc drawn chunk of
        Inl e \<Rightarrow> (Some e, db)
      | Inr rawReqs \<Rightarrow>
        (case CheckRefNumbers (tr_repo svc) (map txn_RefNumber rawReqs) db of
           Inl e \<Rightarrow> (Some e, db)
         | Inr exists \<Rightarrow>
             (let transactionDBReq = filter (\<lambda>t. exists (txn_RefNumber t) \<noteq> Some True) rawReqs;
                  accountNumbers = concat (map (\<lambda>t. [txn_FromAccount t, txn_ToAccount t]) transactionDBReq)
              in if transactionDBReq = [] then (None, db)
                 else case StoreBulk (tr_repo svc) transactionDBReq db of
                        (Inl e, db') \<Rightarrow> (Some e, db')
                      | (Inr _, db') \<Rightarrow>
                          (case ensureAccountExists svc accountNumbers db' of
                             Some e \<Rightarrow> (Some e, db')
                           | None \<Rightarrow> storeChunks svc (drawn + length chunk) rest db'))))"

text \<open>\<open>None\<close>: the call does not return.\<close>

definition StoreBulkTransaction ::
  "'d::linordered_idom TrxService \<Rightarrow> 'd TransactionReq list \<Rightarrow> 'd DB \<Rightarrow> (err option \<times> 'd DB) option" where
  "StoreBulkTransaction svc req db =
     map_option (\<lambda>r. case r of Inl e \<Rightarrow> (Some e, db) | Inr chunkRequest \<Rightarrow> storeChunks svc 0 chunkRequest db)
       (ChunkBy req (tr_BatchSize svc))"

section \<open>The handlers\<close>

definition getHTTPStatusCode :: "err option \<Rightarrow> nat" where
  "getHTTPStatusCode err =
     (case err of
        None \<Rightarrow> 200
      | Some e \<Rightarrow>
          if errors_Is e ErrDataTrxDuplicate then 409
          else if errors_Is e ErrInvalidAmount \<or> errors_Is e ErrInsufficientAvailableBalance \<or>
                  errors_Is e ErrInsufficientPendingBalance then 400
          else if errors_Is e ErrInvalidOrderType \<or> errors_Is e ErrInvalidTransactionType then 422
          else 500)"

text \<open>The request after binding; 201 is the answer of success, 422 that of the validator.\<close>

definition createTransaction ::
  "'d::linordered_idom TrxService \<Rightarrow> string \<Rightarrow> string \<Rightarrow> 'd DoCreateTransactionRequest \<Rightarrow> 'd TrxState \<Rightarrow> nat \<times> 'd TrxState" where
  "createTransaction svc uuid clientID req s =
     (case tr_validate svc req of
        Some e \<Rightarrow> (422, s)
      | None \<Rightarrow>
          (case StoreTransaction svc (ToTransactionReq (now (tr_repo svc)) uuid req)
                  (if dc_IsReserved req then TransactionStoreProcessReserved else TransactionStoreProcessNormal)
                  clientID s of
             ((out, None), s') \<Rightarrow> (201, s')
           | ((out, Some e), s') \<Rightarrow> (getHTTPStatusCode (Some e), s')))"

text \<open>
  \<open>errors.Is(sentinel, err)\<close>, with its arguments in this order, unwraps the sentinel, which wraps nothing: it
  holds only for the sentinel itself.
\<close>

definition updateStatusCode :: "err \<Rightarrow> nat" where
  "updateStatusCode e =
     (if ErrorMsg ''code: dataNotFound'' = e then 404
      else if Sentinel ErrTransactionNotReserved = e then 409
      else 500)"

definition updateStatusReservedTransaction ::
  "'d::linordered_idom TrxService \<Rightarrow> string \<Rightarrow> string \<Rightarrow> string \<Rightarrow> 'd TrxState \<Rightarrow> nat \<times> 'd TrxState" where
  "updateStatusReservedTransaction svc transactionId status clientID s =
     (if transactionId = '''' \<or> status \<notin> {''commit'', ''cancel''} then (422, s)
      else
        (case (if status = ''commit'' then CommitReservedTransaction svc transactionId clientID s
               else CancelReservedTransaction svc transactionId s) of
           (Inl e, s') \<Rightarrow> (updateStatusCode e, s')
         | (Inr trx, s') \<Rightarrow> (200, s')))"

end
