(* ===== verification/TransactionBook.thy ===== *)
theory TransactionBook
  imports TransactionService
begin

text \<open>
  The book that the direct transaction service keeps, as a specification: accounts with what they own and what
  is held on them, and entries that are held, settled or released.  The detailed service implements it: every
  call that answers success is the step of the book of the same name, any other leaves the database as it was.
  The invariants are proved on the book and carried over.
\<close>

section \<open>The book\<close>

datatype phase = Held | Settled | Released | Other string

record 'd Entry =
  en_id :: string
  en_from :: string
  en_to :: string
  en_amount :: "'d option"
  en_phase :: phase

type_synonym 'd holdings = "string \<Rightarrow> ('d \<times> 'd) option"

record 'd Book =
  bk_holdings :: "'d holdings"
  bk_entries :: "'d Entry list"

text \<open>An account gets \<open>x\<close> more to own and \<open>y\<close> more on hold.\<close>

definition adjust :: "string \<Rightarrow> 'd::linordered_idom \<Rightarrow> 'd \<Rightarrow> 'd holdings \<Rightarrow> 'd holdings" where
  "adjust a x y h = h(a := map_option (\<lambda>(act, pend). (act + x, pend + y)) (h a))"

definition known :: "'d holdings \<Rightarrow> string \<Rightarrow> bool" where
  "known h a \<longleftrightarrow> h a \<noteq> None"

text \<open>What an account can spend, and what is on hold.\<close>

definition canSpend :: "'d::linordered_idom holdings \<Rightarrow> string \<Rightarrow> 'd \<Rightarrow> bool" where
  "canSpend h a x \<longleftrightarrow> (case h a of None \<Rightarrow> False | Some (act, pend) \<Rightarrow> x \<le> act - pend)"

definition hasHeld :: "'d::linordered_idom holdings \<Rightarrow> string \<Rightarrow> 'd \<Rightarrow> bool" where
  "hasHeld h a x \<longleftrightarrow> (case h a of None \<Rightarrow> False | Some (act, pend) \<Rightarrow> x \<le> pend)"

datatype 'd event =
    Direct string string string 'd
  | Hold string string string 'd
  | Settle string
  | Release string

definition newEntry :: "string \<Rightarrow> string \<Rightarrow> string \<Rightarrow> 'd \<Rightarrow> phase \<Rightarrow> 'd Entry" where
  "newEntry i f t x p = \<lparr>en_id = i, en_from = f, en_to = t, en_amount = Some x, en_phase = p\<rparr>"

definition setPhase :: "string \<Rightarrow> phase \<Rightarrow> 'd Entry list \<Rightarrow> 'd Entry list" where
  "setPhase i p es = map (\<lambda>e. if en_id e = i then e\<lparr>en_phase := p\<rparr> else e) es"

text \<open>
  The steps, with their guards.  The accounts in \<open>exempt\<close> are never checked for what they can spend.  To settle
  what is settled, or release what is released, changes nothing.
\<close>

fun bookStep :: "(string \<Rightarrow> bool) \<Rightarrow> 'd::linordered_idom event \<Rightarrow> 'd Book \<Rightarrow> 'd Book option" where
  "bookStep exempt (Direct i f t x) b =
     (if 0 < x \<and> known (bk_holdings b) f \<and> known (bk_holdings b) t \<and> i \<notin> en_id ` set (bk_entries b) \<and>
         (exempt f \<or> canSpend (bk_holdings b) f x)
      then Some \<lparr>bk_holdings = adjust t x 0 (adjust f (- x) 0 (bk_holdings b)),
                 bk_entries = bk_entries b @ [newEntry i f t x Settled]\<rparr>
      else None)"
| "bookStep exempt (Hold i f t x) b =
     (if 0 < x \<and> known (bk_holdings b) f \<and> known (bk_holdings b) t \<and> i \<notin> en_id ` set (bk_entries b) \<and>
         (exempt f \<or> canSpend (bk_holdings b) f x)
      then Some \<lparr>bk_holdings = adjust f 0 x (bk_holdings b),
                 bk_entries = bk_entries b @ [newEntry i f t x Held]\<rparr>
      else None)"
| "bookStep exempt (Settle i) b =
     (case find (\<lambda>e. en_id e = i) (bk_entries b) of
        None \<Rightarrow> None
      | Some e \<Rightarrow>
          if en_phase e = Settled then Some b
          else (case en_amount e of
                  None \<Rightarrow> None
                | Some x \<Rightarrow>
                    if en_phase e = Held \<and> 0 < x \<and> hasHeld (bk_holdings b) (en_from e) x \<and>
                       known (bk_holdings b) (en_to e)
                    then Some \<lparr>bk_holdings = adjust (en_to e) x 0 (adjust (en_from e) (- x) (- x) (bk_holdings b)),
                               bk_entries = setPhase i Settled (bk_entries b)\<rparr>
                    else None))"
| "bookStep exempt (Release i) b =
     (case find (\<lambda>e. en_id e = i) (bk_entries b) of
        None \<Rightarrow> None
      | Some e \<Rightarrow>
          if en_phase e = Released then Some b
          else (case en_amount e of
                  None \<Rightarrow> None
                | Some x \<Rightarrow>
                    if en_phase e = Held \<and> 0 < x \<and> hasHeld (bk_holdings b) (en_from e) x
                    then Some \<lparr>bk_holdings = adjust (en_from e) 0 (- x) (bk_holdings b),
                               bk_entries = setPhase i Released (bk_entries b)\<rparr>
                    else None))"

section \<open>The invariants of the book\<close>

text \<open>What the entries hold on an account, and what they moved on it.\<close>

definition heldAmount :: "string \<Rightarrow> 'd::linordered_idom Entry \<Rightarrow> 'd" where
  "heldAmount a e = (if en_phase e = Held \<and> en_from e = a then nullDecimal (en_amount e) else 0)"

definition settledAmount :: "string \<Rightarrow> 'd::linordered_idom Entry \<Rightarrow> 'd" where
  "settledAmount a e =
     (if en_phase e = Settled
      then (if en_to e = a then nullDecimal (en_amount e) else 0) -
           (if en_from e = a then nullDecimal (en_amount e) else 0) else 0)"

definition heldTotal :: "'d::linordered_idom Book \<Rightarrow> string \<Rightarrow> 'd" where
  "heldTotal b a = (\<Sum>e\<leftarrow>bk_entries b. heldAmount a e)"

definition settledTotal :: "'d::linordered_idom Book \<Rightarrow> string \<Rightarrow> 'd" where
  "settledTotal b a = (\<Sum>e\<leftarrow>bk_entries b. settledAmount a e)"

text \<open>
  A sound book: ids are unique, what is held is a positive amount between known accounts, and each account has at
  least on hold what its entries hold.
\<close>

definition soundBook :: "'d::linordered_idom Book \<Rightarrow> bool" where
  "soundBook b \<longleftrightarrow>
     distinct (map en_id (bk_entries b)) \<and>
     (\<forall>e\<in>set (bk_entries b). en_phase e = Held \<longrightarrow>
        (\<exists>x. en_amount e = Some x \<and> 0 < x) \<and> known (bk_holdings b) (en_from e) \<and> known (bk_holdings b) (en_to e)) \<and>
     (\<forall>a. known (bk_holdings b) a \<longrightarrow> hasHeld (bk_holdings b) a (heldTotal b a))"

text \<open>Between two books the holdings of every account moved with the entries.\<close>

definition movedTogether :: "'d::linordered_idom Book \<Rightarrow> 'd Book \<Rightarrow> bool" where
  "movedTogether b b' \<longleftrightarrow>
     (\<forall>a. case bk_holdings b a of
            None \<Rightarrow> bk_holdings b' a = None
          | Some (act, pend) \<Rightarrow>
              bk_holdings b' a = Some (act + (settledTotal b' a - settledTotal b a),
                                       pend + (heldTotal b' a - heldTotal b a)))"

text \<open>
  What a later book makes of the entries: those there were keep their id, accounts and amount, and only a held one is
  settled or released; the others were added after them, each of a positive amount between known accounts.
\<close>

definition entryMoved :: "'d Entry \<Rightarrow> 'd Entry \<Rightarrow> bool" where
  "entryMoved e e' \<longleftrightarrow>
     en_id e' = en_id e \<and> en_from e' = en_from e \<and> en_to e' = en_to e \<and> en_amount e' = en_amount e \<and>
     (en_phase e' = en_phase e \<or> en_phase e = Held \<and> en_phase e' \<in> {Settled, Released})"

definition properEntry :: "'d::linordered_idom holdings \<Rightarrow> 'd Entry \<Rightarrow> bool" where
  "properEntry h e \<longleftrightarrow>
     en_phase e \<in> {Held, Settled, Released} \<and> (\<exists>x. en_amount e = Some x \<and> 0 < x) \<and> known h (en_from e) \<and> known h (en_to e)"

definition entriesFollow :: "'d::linordered_idom Book \<Rightarrow> 'd Book \<Rightarrow> bool" where
  "entriesFollow b b' \<longleftrightarrow>
     (\<exists>old new. bk_entries b' = old @ new \<and> list_all2 entryMoved (bk_entries b) old \<and>
        (\<forall>e\<in>set new. properEntry (bk_holdings b') e))"

lemma adjust_simps:
  "adjust a x y h c = (if c = a then map_option (\<lambda>(act, pend). (act + x, pend + y)) (h a) else h c)"
  by (simp add: adjust_def)

lemma known_adjust [simp]: "known (adjust a x y h) c \<longleftrightarrow> known h c"
  by (simp add: known_def adjust_simps)

lemma find_en_id:
  assumes "find (\<lambda>e. en_id e = i) es = Some e"
  shows "e \<in> set es \<and> en_id e = i"
  using assms by (auto simp: find_Some_iff)

text \<open>Changing the phase of the one entry with an id changes a sum by the difference there.\<close>

lemma sum_setPhase:
  fixes g :: "'d Entry \<Rightarrow> 'd::linordered_idom"
  assumes "distinct (map en_id es)" and "find (\<lambda>e. en_id e = i) es = Some e"
  shows "(\<Sum>e\<leftarrow>setPhase i p es. g e) = (\<Sum>e\<leftarrow>es. g e) - g e + g (e\<lparr>en_phase := p\<rparr>)"
  using assms
proof (induction es)
  case (Cons e' es)
  show ?case
  proof (cases "en_id e' = i")
    case True
    with Cons.prems have "i \<notin> en_id ` set es" and "e' = e" by auto
    then have "setPhase i p es = es"
      by (auto simp: setPhase_def intro!: map_idI)
    with True \<open>e' = e\<close> show ?thesis by (simp add: setPhase_def algebra_simps)
  next
    case False
    with Cons show ?thesis by (simp add: setPhase_def)
  qed
qed simp

lemma setPhase_ids [simp]: "map en_id (setPhase i p es) = map en_id es"
  by (induction es) (auto simp: setPhase_def)

text \<open>A settled or released entry, spelt out.\<close>

lemma bookStep_Settle_iff:
  "bookStep exempt (Settle i) b = Some b' \<longleftrightarrow>
     (\<exists>e. find (\<lambda>e. en_id e = i) (bk_entries b) = Some e \<and>
        (en_phase e = Settled \<and> b' = b \<or>
         (\<exists>x. en_amount e = Some x \<and> en_phase e = Held \<and> 0 < x \<and> hasHeld (bk_holdings b) (en_from e) x \<and>
              known (bk_holdings b) (en_to e) \<and>
              b' = \<lparr>bk_holdings = adjust (en_to e) x 0 (adjust (en_from e) (- x) (- x) (bk_holdings b)),
                    bk_entries = setPhase i Settled (bk_entries b)\<rparr>)))"
  by (auto split: option.splits if_splits)

lemma bookStep_Release_iff:
  "bookStep exempt (Release i) b = Some b' \<longleftrightarrow>
     (\<exists>e. find (\<lambda>e. en_id e = i) (bk_entries b) = Some e \<and>
        (en_phase e = Released \<and> b' = b \<or>
         (\<exists>x. en_amount e = Some x \<and> en_phase e = Held \<and> 0 < x \<and> hasHeld (bk_holdings b) (en_from e) x \<and>
              b' = \<lparr>bk_holdings = adjust (en_from e) 0 (- x) (bk_holdings b),
                    bk_entries = setPhase i Released (bk_entries b)\<rparr>)))"
  by (auto split: option.splits if_splits)

lemma movedTogether_refl [simp]: "movedTogether b b"
  by (auto simp: movedTogether_def split: option.splits)

lemma movedTogether_trans: "movedTogether b c \<Longrightarrow> movedTogether c d \<Longrightarrow> movedTogether b d"
  unfolding movedTogether_def
proof
  fix a
  assume bc: "\<forall>a. case bk_holdings b a of None \<Rightarrow> bk_holdings c a = None
      | Some (act, pend) \<Rightarrow> bk_holdings c a = Some (act + (settledTotal c a - settledTotal b a),
                                                   pend + (heldTotal c a - heldTotal b a))"
    and cd: "\<forall>a. case bk_holdings c a of None \<Rightarrow> bk_holdings d a = None
      | Some (act, pend) \<Rightarrow> bk_holdings d a = Some (act + (settledTotal d a - settledTotal c a),
                                                   pend + (heldTotal d a - heldTotal c a))"
  show "case bk_holdings b a of None \<Rightarrow> bk_holdings d a = None
      | Some (act, pend) \<Rightarrow> bk_holdings d a = Some (act + (settledTotal d a - settledTotal b a),
                                                   pend + (heldTotal d a - heldTotal b a))"
    using spec [OF bc, of a] spec [OF cd, of a] by (auto simp: algebra_simps split: option.splits)
qed

lemma movedTogether_intro:
  assumes "\<And>a. bk_holdings b' a =
             map_option (\<lambda>(act, pend). (act + x a, pend + y a)) (bk_holdings b a)"
    and "\<And>a. known (bk_holdings b) a \<Longrightarrow> settledTotal b' a = settledTotal b a + x a"
    and "\<And>a. known (bk_holdings b) a \<Longrightarrow> heldTotal b' a = heldTotal b a + y a"
  shows "movedTogether b b'"
  using assms by (fastforce simp: movedTogether_def known_def split: option.splits)

lemma bookStep_moved:
  assumes step: "bookStep exempt ev b = Some b'" and ids: "distinct (map en_id (bk_entries b))"
  shows "movedTogether b b'"
proof (cases ev)
  case (Direct i f t x)
  with step show ?thesis
    by (intro movedTogether_intro [where x = "\<lambda>a. (if t = a then x else 0) - (if f = a then x else 0)"
          and y = "\<lambda>a. 0"])
      (auto simp: adjust_simps settledTotal_def heldTotal_def newEntry_def settledAmount_def heldAmount_def
        nullDecimal_def option.map_comp comp_def case_prod_unfold option.map_ident option.map_id split: if_splits)
next
  case (Hold i f t x)
  with step show ?thesis
    by (intro movedTogether_intro [where x = "\<lambda>a. 0" and y = "\<lambda>a. if f = a then x else 0"])
      (auto simp: adjust_simps settledTotal_def heldTotal_def newEntry_def settledAmount_def heldAmount_def
        nullDecimal_def option.map_ident option.map_id split: if_splits)
next
  case (Settle i)
  from step [unfolded Settle bookStep_Settle_iff] obtain e
    where e: "find (\<lambda>e. en_id e = i) (bk_entries b) = Some e"
      and cases: "en_phase e = Settled \<and> b' = b \<or>
         (\<exists>x. en_amount e = Some x \<and> en_phase e = Held \<and>
              b' = \<lparr>bk_holdings = adjust (en_to e) x 0 (adjust (en_from e) (- x) (- x) (bk_holdings b)),
                    bk_entries = setPhase i Settled (bk_entries b)\<rparr>)"
    by blast
  from cases show ?thesis
  proof (elim disjE exE conjE)
    fix x
    assume "en_amount e = Some x" "en_phase e = Held"
      and "b' = \<lparr>bk_holdings = adjust (en_to e) x 0 (adjust (en_from e) (- x) (- x) (bk_holdings b)),
                 bk_entries = setPhase i Settled (bk_entries b)\<rparr>"
    then show ?thesis
      by (intro movedTogether_intro [where
            x = "\<lambda>a. (if en_to e = a then x else 0) - (if en_from e = a then x else 0)"
            and y = "\<lambda>a. - (if en_from e = a then x else 0)"])
        (auto simp: adjust_simps settledTotal_def heldTotal_def sum_setPhase [OF ids e] settledAmount_def
          heldAmount_def nullDecimal_def option.map_comp comp_def case_prod_unfold option.map_ident)
  qed simp
next
  case (Release i)
  from step [unfolded Release bookStep_Release_iff] obtain e
    where e: "find (\<lambda>e. en_id e = i) (bk_entries b) = Some e"
      and cases: "en_phase e = Released \<and> b' = b \<or>
         (\<exists>x. en_amount e = Some x \<and> en_phase e = Held \<and>
              b' = \<lparr>bk_holdings = adjust (en_from e) 0 (- x) (bk_holdings b),
                    bk_entries = setPhase i Released (bk_entries b)\<rparr>)"
    by blast
  from cases show ?thesis
  proof (elim disjE exE conjE)
    fix x
    assume "en_amount e = Some x" "en_phase e = Held"
      and "b' = \<lparr>bk_holdings = adjust (en_from e) 0 (- x) (bk_holdings b),
                 bk_entries = setPhase i Released (bk_entries b)\<rparr>"
    then show ?thesis
      by (intro movedTogether_intro [where x = "\<lambda>a. 0" and y = "\<lambda>a. - (if en_from e = a then x else 0)"])
        (auto simp: adjust_simps settledTotal_def heldTotal_def sum_setPhase [OF ids e] settledAmount_def
          heldAmount_def nullDecimal_def option.map_ident option.map_id)
  qed simp
qed

lemma bookStep_known:
  assumes "bookStep exempt ev b = Some b'"
  shows "known (bk_holdings b') a \<longleftrightarrow> known (bk_holdings b) a"
  using assms by (cases ev) (auto split: if_splits option.splits)

lemma setPhase_member:
  "e \<in> set (setPhase i p es) \<Longrightarrow> p \<noteq> Held \<Longrightarrow> en_phase e = Held \<Longrightarrow> e \<in> set es"
  by (auto simp: setPhase_def split: if_splits)

lemma bookStep_entries:
  assumes "bookStep exempt ev b = Some b'" and "soundBook b"
  shows "distinct (map en_id (bk_entries b')) \<and>
     (\<forall>e\<in>set (bk_entries b'). en_phase e = Held \<longrightarrow>
        (\<exists>x. en_amount e = Some x \<and> 0 < x) \<and> known (bk_holdings b) (en_from e) \<and> known (bk_holdings b) (en_to e))"
proof (cases ev)
  case (Settle i)
  with assms show ?thesis
    by (auto simp: bookStep_Settle_iff soundBook_def simp del: bookStep.simps dest!: setPhase_member)
next
  case (Release i)
  with assms show ?thesis
    by (auto simp: bookStep_Release_iff soundBook_def simp del: bookStep.simps dest!: setPhase_member)
qed (use assms in \<open>auto simp: soundBook_def newEntry_def split: if_splits\<close>)

lemma bookStep_sound:
  assumes "bookStep exempt ev b = Some b'" and "soundBook b"
  shows "soundBook b'"
proof -
  have "movedTogether b b'"
    using assms by (intro bookStep_moved) (auto simp: soundBook_def)
  then have "hasHeld (bk_holdings b') a (heldTotal b' a)" if "known (bk_holdings b) a" for a
    using assms(2) that
    by (fastforce simp: movedTogether_def soundBook_def hasHeld_def known_def split: option.splits)
  with bookStep_entries [OF assms] show ?thesis
    by (simp add: soundBook_def bookStep_known [OF assms(1)])
qed

section \<open>The entries of a history\<close>

lemma entryMoved_refl [simp]: "entryMoved e e"
  by (simp add: entryMoved_def)

lemma entryMoved_entries [simp]: "list_all2 entryMoved es es"
  by (simp add: list_all2_refl)

lemma entriesFollow_refl [simp]: "entriesFollow b b"
  unfolding entriesFollow_def by (intro exI [of _ "bk_entries b"] exI [of _ "[]"]) (simp add: list_all2_refl)

lemma entriesFollow_phases: "list_all2 entryMoved (bk_entries b) (bk_entries b') \<Longrightarrow> entriesFollow b b'"
  unfolding entriesFollow_def by (intro exI [of _ "bk_entries b'"] exI [of _ "[]"]) simp

lemma entriesFollow_added:
  "bk_entries b' = bk_entries b @ [e] \<Longrightarrow> properEntry (bk_holdings b') e \<Longrightarrow> entriesFollow b b'"
  unfolding entriesFollow_def by (intro exI [of _ "bk_entries b"] exI [of _ "[e]"]) simp

lemma entryMoved_trans: "entryMoved e e' \<Longrightarrow> entryMoved e' e'' \<Longrightarrow> entryMoved e e''"
  by (auto simp: entryMoved_def)

lemma properEntry_moved: "properEntry h e \<Longrightarrow> entryMoved e e' \<Longrightarrow> \<forall>a. known h a \<longrightarrow> known h' a \<Longrightarrow> properEntry h' e'"
  by (auto simp: properEntry_def entryMoved_def)

lemma entriesFollow_trans:
  assumes "entriesFollow b c" and "entriesFollow c d" and mono: "\<forall>a. known (bk_holdings c) a \<longrightarrow> known (bk_holdings d) a"
  shows "entriesFollow b d"
proof -
  from assms(1) obtain old new where c: "bk_entries c = old @ new" "list_all2 entryMoved (bk_entries b) old"
    and new: "\<forall>e\<in>set new. properEntry (bk_holdings c) e"
    by (auto simp: entriesFollow_def)
  from assms(2) c(1) obtain old' new' where d: "bk_entries d = old' @ new'" "list_all2 entryMoved (old @ new) old'"
    and new': "\<forall>e\<in>set new'. properEntry (bk_holdings d) e"
    by (auto simp: entriesFollow_def)
  from d(2) obtain o1 o2 where split: "old' = o1 @ o2" "list_all2 entryMoved old o1" "list_all2 entryMoved new o2"
    by (auto simp: list_all2_append1)
  have "list_all2 entryMoved (bk_entries b) o1"
    using c(2) split(2) by (rule list_all2_trans [rotated]) (rule entryMoved_trans)
  moreover have "\<forall>e\<in>set (o2 @ new'). properEntry (bk_holdings d) e"
  proof
    fix e
    assume "e \<in> set (o2 @ new')"
    then consider "e \<in> set new'" | k where "k < length new" "e = o2 ! k"
      using list_all2_lengthD [OF split(3)] by (auto simp: in_set_conv_nth)
    then show "properEntry (bk_holdings d) e"
    proof cases
      case 1
      with new' show ?thesis by blast
    next
      case 2
      then show ?thesis
        using properEntry_moved [OF _ list_all2_nthD [OF split(3) 2(1)] mono] new by simp
    qed
  qed
  ultimately show ?thesis
    unfolding entriesFollow_def by (intro exI [of _ o1] exI [of _ "o2 @ new'"]) (simp add: d(1) split(1))
qed

lemma setPhase_moved:
  assumes "distinct (map en_id es)" and "find (\<lambda>e. en_id e = i) es = Some e" and "en_phase e = Held" and "p \<in> {Settled, Released}"
  shows "list_all2 entryMoved es (setPhase i p es)"
proof -
  have "en_phase e' = Held" if "e' \<in> set es" "en_id e' = i" for e'
    using that assms(1,3) find_en_id [OF assms(2)] by (metis distinct_map inj_onD)
  with assms(4) show ?thesis
    by (auto simp: setPhase_def list_all2_map2 entryMoved_def intro!: list.rel_refl_strong)
qed

lemma bookStep_follows:
  assumes step: "bookStep exempt ev b = Some b'" and ids: "distinct (map en_id (bk_entries b))"
  shows "entriesFollow b b'"
proof (cases ev)
  case (Settle i)
  with step show ?thesis
    unfolding bookStep_Settle_iff Settle
    by (auto intro!: entriesFollow_phases setPhase_moved [OF ids])
next
  case (Release i)
  with step show ?thesis
    unfolding bookStep_Release_iff Release
    by (auto intro!: entriesFollow_phases setPhase_moved [OF ids])
qed (use step in \<open>auto simp: newEntry_def properEntry_def split: if_splits intro!: entriesFollow_added\<close>)

end
