(* ===== verification/TransactionRefinement.thy ===== *)
theory TransactionRefinement
  imports TransactionBook
begin

text \<open>
  The direct transaction service implements the book of \<open>TransactionBook\<close>: the database is mapped to a book,
  each call of the API to an event, and every call is the step of its event or no step.
\<close>

section \<open>The mapping\<close>

definition phaseOf :: "string \<Rightarrow> phase" where
  "phaseOf status =
     (if status = ''0'' then Held else if status = ''1'' then Settled
      else if status = ''2'' then Released else Other status)"

definition entryOf :: "'d Transaction \<Rightarrow> 'd Entry" where
  "entryOf t =
     \<lparr>en_id = txn_TransactionID t, en_from = txn_FromAccount t, en_to = txn_ToAccount t,
      en_amount = txn_Amount t, en_phase = phaseOf (txn_Status t)\<rparr>"

definition bookOf :: "'d DB \<Rightarrow> 'd Book" where
  "bookOf db = \<lparr>bk_holdings = fundsOf db, bk_entries = map entryOf (db_transaction db)\<rparr>"

text \<open>The calls of the API that change balances, with the id the handler draws, and what each is in the book.\<close>

datatype 'd TrxCall =
    CreateCall string string "'d DoCreateTransactionRequest"
  | UpdateStatusCall string string string

fun serve :: "'d::linordered_idom TrxService \<Rightarrow> 'd TrxCall \<Rightarrow> 'd TrxState \<Rightarrow> nat \<times> 'd TrxState" where
  "serve svc (CreateCall uuid clientID req) s = createTransaction svc uuid clientID req s"
| "serve svc (UpdateStatusCall transactionId status clientID) s =
     updateStatusReservedTransaction svc transactionId status clientID s"

fun eventOf :: "'d TrxService \<Rightarrow> 'd TrxCall \<Rightarrow> 'd event" where
  "eventOf svc (CreateCall uuid clientID req) =
     (if dc_IsReserved req then Hold else Direct)
       (if uuid = '''' then tr_newUUID svc 0 else uuid) (dc_FromAccount req) (dc_ToAccount req) (dc_Amount req)"
| "eventOf svc (UpdateStatusCall transactionId status clientID) =
     (if status = ''commit'' then Settle transactionId else Release transactionId)"

definition exempted :: "'d TrxService \<Rightarrow> string \<Rightarrow> bool" where
  "exempted svc a \<longleftrightarrow> a \<in> set (SkipBalanceCheckAccountNumber (tr_repo svc))"

definition answered :: "nat \<Rightarrow> bool" where
  "answered code \<longleftrightarrow> code = 200 \<or> code = 201"

text \<open>Go visits every key of a map once, in some order.\<close>

definition visitsMaps :: "'d TrxService \<Rightarrow> bool" where
  "visitsMaps svc \<longleftrightarrow>
     (\<forall>m. finite (dom m) \<longrightarrow> distinct (tr_visitOrder svc m) \<and> set (tr_visitOrder svc m) = dom m) \<and>
     (\<forall>m. finite (dom m) \<longrightarrow> set (tr_existsOrder svc m) = dom m)"

section \<open>Loading and writing back\<close>

definition holdingsOf :: "'d balances \<Rightarrow> 'd holdings" where
  "holdingsOf m a = map_option (\<lambda>b. (actualBalance b, pendingBalance b)) (m a)"

text \<open>The balances as loaded: no limit, no high-volume mark, no cap.\<close>

definition plainBalance :: "'d RepoConfig \<Rightarrow> 'd AccountRow \<Rightarrow> 'd Balance" where
  "plainBalance cfg r =
     NewBalance (row_actualBalance r) (row_pendingBalance r)
       [WithVersion (row_version r), WithLastUpdatedAt (row_updatedAt r),
        WithBalanceLimitEnabled (BalanceLimitToggle cfg)]"

lemma plainBalance_simps [simp]:
  "actualBalance (plainBalance cfg r) = row_actualBalance r"
  "pendingBalance (plainBalance cfg r) = row_pendingBalance r"
  "ignoreBalanceSufficiency (plainBalance cfg r) = False"
  "negativeBalanceLimit (plainBalance cfg r) = None"
  "balanceRangeMax (plainBalance cfg r) = None"
  by (simp_all add: plainBalance_def balance_option_defs)

lemma map_of_filter_find:
  "map_of (map (\<lambda>r. (row_accountNumber r, g r)) (filter (\<lambda>r. row_accountNumber r \<in> A) rows)) a =
     (if a \<in> A then map_option g (find (\<lambda>r. row_accountNumber r = a) rows) else None)"
  by (induction rows) auto

lemma GetAccountBalances_accounts:
  "GetAccountBalances cfg (accountRequest ns) db = Inr m \<longleftrightarrow>
     fault cfg SelectAccounts = None \<and>
     m = (\<lambda>a. if a \<in> set ns
              then map_option (plainBalance cfg) (find (\<lambda>r. row_accountNumber r = a) (db_account db)) else None)"
  by (auto simp: GetAccountBalances_def accountRequest_def rbind_Ok_iff map_of_filter_find fun_eq_iff
      plainBalance_def [symmetric] failIf_def split: option.splits)

lemma loaded_holdings:
  assumes "GetAccountBalances cfg (accountRequest ns) db = Inr m"
  shows "holdingsOf m = fundsOf db |` set ns" and "finite (dom m)"
proof -
  from assms have m: "m = (\<lambda>a. if a \<in> set ns
       then map_option (plainBalance cfg) (find (\<lambda>r. row_accountNumber r = a) (db_account db)) else None)"
    by (simp add: GetAccountBalances_accounts)
  show "holdingsOf m = fundsOf db |` set ns"
    by (rule ext) (simp add: m holdingsOf_def fundsOf_def restrict_map_def option.map_comp comp_def)
  have "dom m \<subseteq> set ns" by (auto simp: m split: if_splits)
  then show "finite (dom m)" by (rule finite_subset) simp
qed

lemma map_of_entriesOf:
  assumes "visitsMaps svc" and "finite (dom m)"
  shows "map_of (entriesOf svc m) = m" and "distinct (map fst (entriesOf svc m))"
proof -
  have visit: "distinct (tr_visitOrder svc m)" "set (tr_visitOrder svc m) = dom m"
    using assms by (auto simp: visitsMaps_def)
  have entries: "entriesOf svc m = map (\<lambda>a. (a, the (m a))) (tr_visitOrder svc m)"
  proof -
    have "List.map_filter (\<lambda>a. map_option (Pair a) (m a)) xs = map (\<lambda>a. (a, the (m a))) xs"
      if "set xs \<subseteq> dom m" for xs
      using that by (induction xs) (auto simp: map_filter_simps)
    with visit show ?thesis by (simp add: entriesOf_def)
  qed
  show "distinct (map fst (entriesOf svc m))"
    using visit by (simp add: entries comp_def)
  show "map_of (entriesOf svc m) = m"
  proof (rule ext)
    fix a
    show "map_of (entriesOf svc m) a = m a"
      using visit by (cases "a \<in> dom m") (auto simp: entries map_of_map_restrict restrict_map_def)
  qed
qed

text \<open>What a loop of updates leaves of the account table.\<close>

lemma written_back:
  assumes "updateEach (UpdateAccountBalance cfg) (entriesOf svc m) db = (Inr u, db')"
    and "visitsMaps svc" and "finite (dom m)"
  shows "fundsOf db' = fundsOf db ++ holdingsOf m \<and> otherTables db' = otherTables db \<and>
         dom m \<subseteq> dom (fundsOf db)"
proof -
  note entries = map_of_entriesOf [OF assms(2,3)]
  from account_table.updates_Ok [OF assms(1) entries(2)]
  have "fundsOf db' = (\<lambda>a. case m a of None \<Rightarrow> fundsOf db a | Some b \<Rightarrow> Some (actualBalance b, pendingBalance b))"
    and "otherTables db' = otherTables db" and "\<forall>a\<in>fst ` set (entriesOf svc m). fundsOf db a \<noteq> None"
    by (simp_all add: entries(1))
  moreover have "fst ` set (entriesOf svc m) = dom m"
    by (metis entries(1) dom_map_of_conv_image_fst)
  ultimately show ?thesis
    by (auto simp: fun_eq_iff map_add_def holdingsOf_def split: option.splits)
qed

section \<open>The calculators on holdings\<close>

text \<open>The balances the service calculates with: checked, except for the exempted accounts, and without a cap.\<close>

definition plainMap :: "(string \<Rightarrow> bool) \<Rightarrow> 'd balances \<Rightarrow> bool" where
  "plainMap exempt m \<longleftrightarrow>
     (\<forall>a b. m a = Some b \<longrightarrow>
        ignoreBalanceSufficiency b = exempt a \<and> negativeBalanceLimit b = None \<and> balanceRangeMax b = None)"

lemma holdingsOf_upd:
  assumes "m a = Some b"
  shows "holdingsOf (m(a \<mapsto> b\<lparr>actualBalance := actualBalance b + x\<rparr>)) = adjust a x 0 (holdingsOf m)"
    and "holdingsOf (m(a \<mapsto> b\<lparr>actualBalance := actualBalance b - x\<rparr>)) = adjust a (- x) 0 (holdingsOf m)"
    and "holdingsOf (m(a \<mapsto> b\<lparr>pendingBalance := pendingBalance b + x\<rparr>)) = adjust a 0 x (holdingsOf m)"
    and "holdingsOf (m(a \<mapsto> b\<lparr>pendingBalance := pendingBalance b - x\<rparr>)) = adjust a 0 (- x) (holdingsOf m)"
    and "holdingsOf (m(a \<mapsto> b\<lparr>actualBalance := actualBalance b - x, pendingBalance := pendingBalance b - x\<rparr>)) =
           adjust a (- x) (- x) (holdingsOf m)"
  using assms by (auto simp: holdingsOf_def adjust_simps fun_eq_iff)

lemma holdingsOf_Some: "m a = Some b \<Longrightarrow> holdingsOf m a = Some (actualBalance b, pendingBalance b)"
  by (simp add: holdingsOf_def)

lemma known_holdingsOf [simp]: "known (holdingsOf m) a \<longleftrightarrow> a \<in> dom m"
  by (auto simp: known_def holdingsOf_def)

lemma hasHeld_holdingsOf: "hasHeld (holdingsOf m) a x \<longleftrightarrow> (\<exists>b. m a = Some b \<and> x \<le> pendingBalance b)"
  by (auto simp: hasHeld_def holdingsOf_def split: option.splits)

lemma dom_updated: "m a = Some b \<Longrightarrow> dom (m(a \<mapsto> c)) = dom m"
  by auto

lemma credit_iff:
  assumes "plainMap exempt m"
  shows "updateAccount l t (\<lambda>b. AddFunds b x opt) m = (m', None) \<longleftrightarrow>
     0 < x \<and> (\<exists>b. m t = Some b \<and> m' = m(t \<mapsto> b\<lparr>actualBalance := actualBalance b + x\<rparr>))"
  using assms by (auto simp: updateAccount_None_iff balance_ok plainMap_def maxBalance_def)

lemma debit_iff:
  assumes "plainMap exempt m"
  shows "updateAccount l f (\<lambda>b. Withdraw b x opt) m = (m', None) \<longleftrightarrow>
     0 < x \<and> (exempt f \<or> canSpend (holdingsOf m) f x) \<and>
     (\<exists>b. m f = Some b \<and> m' = m(f \<mapsto> b\<lparr>actualBalance := actualBalance b - x\<rparr>))"
  using assms
  by (auto simp: updateAccount_None_iff balance_ok plainMap_def canSpend_def holdingsOf_Some availableFloor_def
      Available_def)

lemma reserve_iff:
  assumes "plainMap exempt m"
  shows "updateAccount l f (\<lambda>b. Reserve b x opt) m = (m', None) \<longleftrightarrow>
     0 < x \<and> (exempt f \<or> canSpend (holdingsOf m) f x) \<and>
     (\<exists>b. m f = Some b \<and> m' = m(f \<mapsto> b\<lparr>pendingBalance := pendingBalance b + x\<rparr>))"
  using assms
  by (auto simp: updateAccount_None_iff balance_ok plainMap_def canSpend_def holdingsOf_Some availableFloor_def
      Available_def)

lemma settle_iff:
  assumes "plainMap (\<lambda>_. False) m"
  shows "updateAccount l f (\<lambda>b. Commit b x opt) m = (m', None) \<longleftrightarrow>
     0 < x \<and> hasHeld (holdingsOf m) f x \<and>
     (\<exists>b. m f = Some b \<and>
        m' = m(f \<mapsto> b\<lparr>actualBalance := actualBalance b - x, pendingBalance := pendingBalance b - x\<rparr>))"
  using assms by (auto simp: updateAccount_None_iff balance_ok plainMap_def hasHeld_def holdingsOf_Some)

lemma release_iff:
  assumes "plainMap (\<lambda>_. False) m"
  shows "updateAccount l f (\<lambda>b. CancelReservation b x opt) m = (m', None) \<longleftrightarrow>
     0 < x \<and> hasHeld (holdingsOf m) f x \<and>
     (\<exists>b. m f = Some b \<and> m' = m(f \<mapsto> b\<lparr>pendingBalance := pendingBalance b - x\<rparr>))"
  using assms by (auto simp: updateAccount_None_iff balance_ok plainMap_def hasHeld_def holdingsOf_Some)

lemma plainMap_upd:
  assumes "plainMap exempt m" and "m a = Some b"
  shows "plainMap exempt (m(a \<mapsto> b\<lparr>actualBalance := x\<rparr>))"
    and "plainMap exempt (m(a \<mapsto> b\<lparr>actualBalance := x, pendingBalance := y\<rparr>))"
  using assms by (auto simp: plainMap_def split: if_splits)

text \<open>A calculator that succeeds makes the step of the book on the balances it was given.\<close>

lemma Calculate_iff:
  assumes "plainMap exempt m"
  shows "(\<exists>m'. Calculate (NewTransactionSet f t x) m = (m', None)) \<longleftrightarrow>
       0 < x \<and> f \<in> dom m \<and> t \<in> dom m \<and> (exempt f \<or> canSpend (holdingsOf m) f x)"
    and "Calculate (NewTransactionSet f t x) m = (m', None) \<Longrightarrow>
       holdingsOf m' = adjust t x 0 (adjust f (- x) 0 (holdingsOf m)) \<and> dom m' = dom m"
proof -
  have run: "Calculate (NewTransactionSet f t x) m = (m', None) \<longleftrightarrow>
      (\<exists>b m1 c. m f = Some b \<and> m1 = m(f \<mapsto> b\<lparr>actualBalance := actualBalance b - x\<rparr>) \<and> 0 < x \<and>
         (exempt f \<or> canSpend (holdingsOf m) f x) \<and> m1 t = Some c \<and>
         m' = m1(t \<mapsto> c\<lparr>actualBalance := actualBalance c + x\<rparr>))" for m'
    using assms
    by (auto simp: Calculate_def NewTransactionSet_def andThen_None_iff debit_iff [OF assms]
        credit_iff [OF plainMap_upd(1)] simp del: fun_upd_apply)
  show "(\<exists>m'. Calculate (NewTransactionSet f t x) m = (m', None)) \<longleftrightarrow>
       0 < x \<and> f \<in> dom m \<and> t \<in> dom m \<and> (exempt f \<or> canSpend (holdingsOf m) f x)"
    unfolding run by auto
  show "holdingsOf m' = adjust t x 0 (adjust f (- x) 0 (holdingsOf m)) \<and> dom m' = dom m"
    if "Calculate (NewTransactionSet f t x) m = (m', None)"
  proof -
    from that [unfolded run] obtain b m1 c where steps: "m f = Some b"
      "m1 = m(f \<mapsto> b\<lparr>actualBalance := actualBalance b - x\<rparr>)" "m1 t = Some c"
      "m' = m1(t \<mapsto> c\<lparr>actualBalance := actualBalance c + x\<rparr>)" by blast
    then have "holdingsOf m1 = adjust f (- x) 0 (holdingsOf m)" and "dom m1 = dom m"
      using holdingsOf_upd(2) [where m = m and a = f and b = b and x = x] by auto
    moreover have "holdingsOf m' = adjust t x 0 (holdingsOf m1)" and "dom m' = dom m1"
      using steps(3,4) holdingsOf_upd(1) [where m = m1 and a = t and b = c and x = x] by auto
    ultimately show ?thesis by simp
  qed
qed

lemma CalculateCommit_iff:
  assumes "plainMap (\<lambda>_. False) m"
  shows "(\<exists>m'. CalculateCommit (NewTransactionSet f t x) m = (m', None)) \<longleftrightarrow>
       0 < x \<and> hasHeld (holdingsOf m) f x \<and> t \<in> dom m"
    and "CalculateCommit (NewTransactionSet f t x) m = (m', None) \<Longrightarrow>
       holdingsOf m' = adjust t x 0 (adjust f (- x) (- x) (holdingsOf m)) \<and> dom m' = dom m"
proof -
  have run: "CalculateCommit (NewTransactionSet f t x) m = (m', None) \<longleftrightarrow>
      (\<exists>b m1 c. m f = Some b \<and>
         m1 = m(f \<mapsto> b\<lparr>actualBalance := actualBalance b - x, pendingBalance := pendingBalance b - x\<rparr>) \<and> 0 < x \<and>
         hasHeld (holdingsOf m) f x \<and> m1 t = Some c \<and>
         m' = m1(t \<mapsto> c\<lparr>actualBalance := actualBalance c + x\<rparr>))" for m'
    using assms
    by (auto simp: CalculateCommit_def NewTransactionSet_def andThen_None_iff settle_iff [OF assms]
        credit_iff [OF plainMap_upd(2)] simp del: fun_upd_apply)
  show "(\<exists>m'. CalculateCommit (NewTransactionSet f t x) m = (m', None)) \<longleftrightarrow>
       0 < x \<and> hasHeld (holdingsOf m) f x \<and> t \<in> dom m"
    unfolding run by (auto simp: hasHeld_def holdingsOf_def split: option.splits)
  show "holdingsOf m' = adjust t x 0 (adjust f (- x) (- x) (holdingsOf m)) \<and> dom m' = dom m"
    if "CalculateCommit (NewTransactionSet f t x) m = (m', None)"
  proof -
    from that [unfolded run] obtain b m1 c where steps: "m f = Some b"
      "m1 = m(f \<mapsto> b\<lparr>actualBalance := actualBalance b - x, pendingBalance := pendingBalance b - x\<rparr>)"
      "m1 t = Some c" "m' = m1(t \<mapsto> c\<lparr>actualBalance := actualBalance c + x\<rparr>)" by blast
    then have "holdingsOf m1 = adjust f (- x) (- x) (holdingsOf m)" and "dom m1 = dom m"
      using holdingsOf_upd(5) [where m = m and a = f and b = b and x = x] by auto
    moreover have "holdingsOf m' = adjust t x 0 (holdingsOf m1)" and "dom m' = dom m1"
      using steps(3,4) holdingsOf_upd(1) [where m = m1 and a = t and b = c and x = x] by auto
    ultimately show ?thesis by simp
  qed
qed

lemma CalculateReserve_iff:
  assumes "plainMap exempt m"
  shows "(\<exists>m'. CalculateReserve (NewTransactionSet f t x) m = (m', None)) \<longleftrightarrow>
       0 < x \<and> f \<in> dom m \<and> (exempt f \<or> canSpend (holdingsOf m) f x)"
    and "CalculateReserve (NewTransactionSet f t x) m = (m', None) \<Longrightarrow>
       holdingsOf m' = adjust f 0 x (holdingsOf m) \<and> dom m' = dom m"
  by (auto simp: CalculateReserve_def NewTransactionSet_def reserve_iff [OF assms] holdingsOf_upd split: if_splits)

lemma CalculateCancel_iff:
  assumes "plainMap (\<lambda>_. False) m"
  shows "(\<exists>m'. CalculateCancel (NewTransactionSet f t x) m = (m', None)) \<longleftrightarrow>
       0 < x \<and> hasHeld (holdingsOf m) f x"
    and "CalculateCancel (NewTransactionSet f t x) m = (m', None) \<Longrightarrow>
       holdingsOf m' = adjust f 0 (- x) (holdingsOf m) \<and> dom m' = dom m"
  by (auto simp: CalculateCancel_def NewTransactionSet_def release_iff [OF assms] holdingsOf_upd
      hasHeld_holdingsOf split: if_splits)

section \<open>The operations on the book\<close>

lemma map_add_restrict [simp]: "h ++ (h |` A) = h"
  by (auto simp: fun_eq_iff map_add_def restrict_map_def split: option.splits)

lemma map_add_adjust: "a \<in> dom g \<Longrightarrow> h ++ adjust a x y g = adjust a x y (h ++ g)"
  by (auto simp: fun_eq_iff map_add_def adjust_simps split: option.splits)

lemma dom_adjust [simp]: "dom (adjust a x y h) = dom h"
  by (auto simp: adjust_simps split: if_splits)

lemma canSpend_restrict: "a \<in> A \<Longrightarrow> canSpend (h |` A) a x \<longleftrightarrow> canSpend h a x"
  by (simp add: canSpend_def)

lemma hasHeld_restrict: "a \<in> A \<Longrightarrow> hasHeld (h |` A) a x \<longleftrightarrow> hasHeld h a x"
  by (simp add: hasHeld_def)

lemma loaded_plain:
  assumes "GetAccountBalances (tr_repo svc) (accountRequest ns) db = Inr m"
  shows "plainMap (\<lambda>_. False) m" and "plainMap (exempted svc) (skipBalanceChecks (tr_repo svc) m)"
    and "holdingsOf (skipBalanceChecks (tr_repo svc) m) = holdingsOf m"
    and "dom (skipBalanceChecks (tr_repo svc) m) = dom m"
    and "dom m = set ns \<inter> dom (fundsOf db)"
proof -
  show plain: "plainMap (\<lambda>_. False) m"
    using assms by (auto simp: GetAccountBalances_accounts plainMap_def split: if_splits)
  show "plainMap (exempted svc) (skipBalanceChecks (tr_repo svc) m)"
    unfolding plainMap_def
  proof (intro allI impI)
    fix a b
    assume "skipBalanceChecks (tr_repo svc) m a = Some b"
    then obtain b0 where "m a = Some b0"
      and "b = (if a \<in> set (SkipBalanceCheckAccountNumber (tr_repo svc))
                then NewBalance (actualBalance b0) (pendingBalance b0)
                       [WithIgnoreBalanceSufficiency, WithBalanceLimitEnabled (BalanceLimitToggle (tr_repo svc))]
                else b0)"
      unfolding skipBalanceChecks_def by blast
    with plain show "ignoreBalanceSufficiency b = exempted svc a \<and> negativeBalanceLimit b = None \<and> balanceRangeMax b = None"
      by (auto simp: plainMap_def exempted_def balance_option_defs)
  qed
  show "holdingsOf (skipBalanceChecks (tr_repo svc) m) = holdingsOf m"
  proof (rule ext)
    fix a
    show "holdingsOf (skipBalanceChecks (tr_repo svc) m) a = holdingsOf m a"
      by (cases "m a") (simp_all add: holdingsOf_def skipBalanceChecks_def balance_option_defs)
  qed
  show "dom (skipBalanceChecks (tr_repo svc) m) = dom m"
    by (auto simp: skipBalanceChecks_def)
  show "dom m = set ns \<inter> dom (fundsOf db)"
    using assms by (auto simp: GetAccountBalances_accounts fundsOf_def split: if_splits)
qed

lemma known_iff_dom: "known h a \<longleftrightarrow> a \<in> dom h"
  by (auto simp: known_def)

lemma row_known: "list_ex (\<lambda>r. row_accountNumber r = a) (db_account db) \<longleftrightarrow> known (fundsOf db) a"
  by (auto simp: known_def fundsOf_def list_ex_iff find_None_iff)

lemma ensureAccountExists_None:
  assumes "ensureAccountExists svc ns db = None" and "visitsMaps svc"
  shows "\<forall>a\<in>set ns. known (fundsOf db) a"
proof -
  define es where
    "es = (\<lambda>a. if a \<in> set ns then Some (list_ex (\<lambda>r. row_accountNumber r = a) (db_account db)) else None)"
  from assms(1) have missing: "filter (\<lambda>a. es a = Some False) (tr_existsOrder svc es) = []"
    by (auto simp: ensureAccountExists_def CheckAccountNumbers_def ErrorOrNil_def failIf_def es_def [symmetric]
        split: sum.splits option.splits if_splits)
  have "dom es = set ns" by (auto simp: es_def split: if_splits)
  then have "set (tr_existsOrder svc es) = set ns"
    using assms(2) by (simp add: visitsMaps_def)
  with missing have "\<forall>a\<in>set ns. es a \<noteq> Some False"
    by (simp add: filter_empty_conv)
  then show ?thesis by (simp add: es_def row_known [symmetric])
qed

lemma calculated_Ok_iff: "calculated r = Inr m \<longleftrightarrow> r = (m, None)"
  by (auto simp: calculated_def split: prod.splits option.splits)

lemma publish_keeps_db:
  "publishNotificationSuccess svc trx clientID s = (Inr u, s') \<Longrightarrow> fst s' = fst s"
  by (auto simp: publishNotificationSuccess_def bind_Ok_iff call_def assign_iff)

lemma storeSteps_Ok:
  assumes run: "storeSteps svc processType req en clientID s = (Inr u, s')" and visits: "visitsMaps svc"
    and req: "req_FromAccount req = f" "req_ToAccount req = t" "nullDecimal (req_Amount req) = x"
  shows "0 < x \<and> known (fundsOf (fst s)) f \<and>
     (exempted svc f \<or> canSpend (fundsOf (fst s)) f x) \<and>
     txn_TransactionID en \<notin> set (map txn_TransactionID (db_transaction (fst s))) \<and>
     db_transaction (fst s') = db_transaction (fst s) @ [en] \<and>
     (if processType = TransactionStoreProcessReserved
      then fundsOf (fst s') = adjust f 0 x (fundsOf (fst s))
      else known (fundsOf (fst s)) t \<and> fundsOf (fst s') = adjust t x 0 (adjust f (- x) 0 (fundsOf (fst s))))"
proof -
  let ?h = "fundsOf (fst s)"
  from run obtain m m' db1 db2 where load: "GetAccountBalances (tr_repo svc) (accountRequest [f, t]) (fst s) = Inr m"
    and calc: "getBalanceCalculator processType (NewTransactionSet f t x) (skipBalanceChecks (tr_repo svc) m) = (m', None)"
    and update: "updateEach (UpdateAccountBalance (tr_repo svc)) (entriesOf svc m') (fst s) = (Inr (), db1)"
    and store: "Store (tr_repo svc) en db1 = (Inr (), db2)"
    and publish: "(if processType = TransactionStoreProcessNormal then publishNotificationSuccess svc en clientID
                   else return ()) (db2, snd s) = (Inr u, s')"
    unfolding storeSteps_def req bind_Ok_iff readDb_iff onDb_iff call_def calculated_Ok_iff prod.inject
    by clarsimp
  note plain = loaded_plain [OF load] and loaded = loaded_holdings [OF load]
  have dom: "dom m = {f, t} \<inter> dom ?h" using plain(5) by simp
  have db: "fst s' = db2"
    using publish publish_keeps_db [of svc en clientID "(db2, snd s)" u s'] by (auto simp: exec_simps split: if_splits)
  have dom': "dom m' = dom m"
    using calc plain(4) CalculateReserve_iff(2) [OF plain(2), of f t x m'] Calculate_iff(2) [OF plain(2), of f t x m']
    by (simp add: getBalanceCalculator_def split: if_splits)
  from written_back [OF update visits] dom' loaded(2)
  have funds: "fundsOf db1 = ?h ++ holdingsOf m'" and others: "otherTables db1 = otherTables (fst s)"
    by auto
  from store have ledger: "db_transaction db2 = db_transaction db1 @ [en]"
    and fresh: "txn_TransactionID en \<notin> set (map txn_TransactionID (db_transaction db1))"
    and funds2: "fundsOf db2 = fundsOf db1"
    by (auto simp: Store_Ok_iff)
  have same: "db_transaction db1 = db_transaction (fst s)"
    using others by (simp add: otherTables_def)
  show ?thesis
  proof (cases "processType = TransactionStoreProcessReserved")
    case True
    with calc have calc': "CalculateReserve (NewTransactionSet f t x) (skipBalanceChecks (tr_repo svc) m) = (m', None)"
      by (simp add: getBalanceCalculator_def)
    then have guards: "0 < x" "f \<in> dom m" "exempted svc f \<or> canSpend (?h |` {f, t}) f x"
      using CalculateReserve_iff(1) [OF plain(2), of f t x] plain(3,4) loaded(1) by auto
    moreover have "fundsOf db1 = adjust f 0 x ?h"
      using CalculateReserve_iff(2) [OF plain(2) calc'] plain(3) loaded(1) funds guards(2) dom
      by (simp add: map_add_adjust)
    ultimately show ?thesis
      using True dom db ledger fresh funds2 same by (auto simp: known_iff_dom canSpend_restrict)
  next
    case False
    with calc have calc': "Calculate (NewTransactionSet f t x) (skipBalanceChecks (tr_repo svc) m) = (m', None)"
      by (simp add: getBalanceCalculator_def)
    then have guards: "0 < x" "f \<in> dom m" "t \<in> dom m" "exempted svc f \<or> canSpend (?h |` {f, t}) f x"
      using Calculate_iff(1) [OF plain(2), of f t x] plain(3,4) loaded(1) by auto
    moreover have "fundsOf db1 = adjust t x 0 (adjust f (- x) 0 ?h)"
      using Calculate_iff(2) [OF plain(2) calc'] plain(3) loaded(1) funds guards(2,3) dom
      by (simp add: map_add_adjust)
    ultimately show ?thesis
      using False dom db ledger fresh funds2 same by (auto simp: known_iff_dom canSpend_restrict)
  qed
qed

text \<open>The row that is settled, before and after.\<close>

definition restatused :: "string \<Rightarrow> string \<Rightarrow> 'd Transaction list \<Rightarrow> 'd Transaction list" where
  "restatused i status ts = map (\<lambda>t. if txn_TransactionID t = i then t\<lparr>txn_Status := status\<rparr> else t) ts"

lemma find_restatused:
  "find (\<lambda>t. txn_TransactionID t = i) (restatused i status ts) =
     map_option (\<lambda>t. t\<lparr>txn_Status := status\<rparr>) (find (\<lambda>t. txn_TransactionID t = i) ts)"
  by (induction ts) (auto simp: restatused_def)

lemma entries_restatused:
  "map entryOf (restatused i status ts) = setPhase i (phaseOf status) (map entryOf ts)"
  by (induction ts) (auto simp: restatused_def setPhase_def entryOf_def)

lemma find_entryOf:
  "find (\<lambda>e. en_id e = i) (map entryOf ts) = map_option entryOf (find (\<lambda>t. txn_TransactionID t = i) ts)"
  by (induction ts) (auto simp: entryOf_def)

lemma phaseOf_iff [simp]:
  "phaseOf s = Held \<longleftrightarrow> s = ''0''" "phaseOf s = Settled \<longleftrightarrow> s = ''1''" "phaseOf s = Released \<longleftrightarrow> s = ''2''"
  "phaseOf ''0'' = Held" "phaseOf ''1'' = Settled" "phaseOf ''2'' = Released"
  by (auto simp: phaseOf_def)

lemma entryOf_simps [simp]:
  "en_id (entryOf t) = txn_TransactionID t" "en_from (entryOf t) = txn_FromAccount t"
  "en_to (entryOf t) = txn_ToAccount t" "en_amount (entryOf t) = txn_Amount t"
  "en_phase (entryOf t) = phaseOf (txn_Status t)"
  by (simp_all add: entryOf_def)

lemma UpdateStatus_Ok_iff:
  "UpdateStatus cfg i status db = (Inr trx, db') \<longleftrightarrow>
     fault cfg UpdateTransaction = None \<and> fault cfg SelectTransactions = None \<and>
     (\<exists>t. find (\<lambda>t. txn_TransactionID t = i) (db_transaction db) = Some t \<and> trx = t\<lparr>txn_Status := status\<rparr>) \<and>
     db' = db\<lparr>db_transaction := restatused i status (db_transaction db)\<rparr>"
  unfolding restatused_def [symmetric]
  by (auto simp: UpdateStatus_def TransactionByID_def Let_def rbind_Ok_iff failIf_def restatused_def [symmetric]
      find_restatused split: option.splits)

lemma settledRow_Ok_iff:
  "settledRow svc i status s = (Inr r, s') \<longleftrightarrow>
     (\<exists>t x. UpdateStatus (tr_repo svc) i status (fst s) = (Inr (t\<lparr>txn_Status := status\<rparr>), fst s') \<and> snd s' = snd s \<and>
        find (\<lambda>t. txn_TransactionID t = i) (db_transaction (fst s)) = Some t \<and>
        txn_Amount t = Some x \<and> r = (t\<lparr>txn_Status := status\<rparr>, x))"
proof (cases "find (\<lambda>t. txn_TransactionID t = i) (db_transaction (fst s))")
  case None
  then show ?thesis by (auto simp: settledRow_def bind_Ok_iff onDb_iff UpdateStatus_Ok_iff)
next
  case (Some t)
  then show ?thesis
    by (cases s'; cases "txn_Amount t")
      (auto simp: settledRow_def bind_Ok_iff onDb_iff UpdateStatus_Ok_iff return_def fail_def)
qed

lemma commitReservedSteps_Ok:
  assumes run: "commitReservedSteps svc i clientID s = (Inr trx, s')" and visits: "visitsMaps svc"
    and row: "find (\<lambda>t. txn_TransactionID t = i) (db_transaction (fst s)) = Some r" and held: "txn_Status r = ''0''"
  shows "bookStep exempt (Settle i) (bookOf (fst s)) = Some (bookOf (fst s')) \<and>
         db_transaction (fst s') = restatused i ''1'' (db_transaction (fst s))"
proof -
  let ?f = "txn_FromAccount r" and ?t = "txn_ToAccount r" and ?h = "fundsOf (fst s)"
  from run row obtain x db1 m m' db2 where amount: "txn_Amount r = Some x"
    and status: "UpdateStatus (tr_repo svc) i ''1'' (fst s) = (Inr (r\<lparr>txn_Status := ''1''\<rparr>), db1)"
    and load: "GetAccountBalances (tr_repo svc) (accountRequest [?f, ?t]) db1 = Inr m"
    and calc: "CalculateCommit (NewTransactionSet ?f ?t x) m = (m', None)"
    and update: "updateEach (UpdateAccountBalance (tr_repo svc)) (entriesOf svc m') db1 = (Inr (), db2)"
    and publish: "publishNotificationSuccess svc (r\<lparr>txn_Status := ''1''\<rparr>) clientID (db2, snd s) = (Inr (), s')"
    unfolding commitReservedSteps_def bind_Ok_iff settledRow_Ok_iff readDb_iff onDb_iff call_def
      calculated_Ok_iff prod.inject wrapping_Ok_iff return_def
    by (clarsimp simp: bind_Ok_iff readDb_iff onDb_iff calculated_Ok_iff)
  from status have db1: "db1 = (fst s)\<lparr>db_transaction := restatused i ''1'' (db_transaction (fst s))\<rparr>"
    by (simp add: UpdateStatus_Ok_iff)
  then have h: "fundsOf db1 = ?h" by simp
  note plain = loaded_plain [OF load] and loaded = loaded_holdings [OF load]
  have guards: "0 < x" "hasHeld ?h ?f x" "?t \<in> dom m"
    using calc CalculateCommit_iff(1) [OF plain(1), of ?f ?t x] loaded(1)
    by (auto simp: h hasHeld_restrict)
  then have f: "?f \<in> dom m"
    by (auto simp: plain(5) h hasHeld_def split: option.splits)
  note moved = CalculateCommit_iff(2) [OF plain(1) calc]
  from written_back [OF update visits] moved loaded(2)
  have "fundsOf db2 = ?h ++ holdingsOf m'" and others: "otherTables db2 = otherTables db1"
    by (auto simp: h)
  then have funds: "fundsOf db2 = adjust ?t x 0 (adjust ?f (- x) (- x) ?h)"
    using guards(3) f moved loaded(1) plain(5) by (simp add: map_add_adjust h)
  have ledger: "db_transaction (fst s') = restatused i ''1'' (db_transaction (fst s))" and "fst s' = db2"
    using others publish_keeps_db [OF publish] by (auto simp: otherTables_def db1)
  then show ?thesis
    using row held amount guards plain(5) h unfolding bookStep_Settle_iff
    by (auto simp: bookOf_def find_entryOf entries_restatused funds known_iff_dom)
qed

lemma cancelReservedSteps_Ok:
  assumes run: "cancelReservedSteps svc i s = (Inr trx, s')"
    and row: "find (\<lambda>t. txn_TransactionID t = i) (db_transaction (fst s)) = Some r" and held: "txn_Status r = ''0''"
  shows "bookStep exempt (Release i) (bookOf (fst s)) = Some (bookOf (fst s')) \<and>
         db_transaction (fst s') = restatused i ''2'' (db_transaction (fst s))"
proof -
  let ?f = "txn_FromAccount r" and ?h = "fundsOf (fst s)"
  from run row obtain x db1 m m' ub db2 where amount: "txn_Amount r = Some x"
    and status: "UpdateStatus (tr_repo svc) i ''2'' (fst s) = (Inr (r\<lparr>txn_Status := ''2''\<rparr>), db1)"
    and load: "GetAccountBalances (tr_repo svc) (accountRequest [?f]) db1 = Inr m"
    and calc: "CalculateCancel (NewTransactionSet ?f (txn_ToAccount r) x) m = (m', None)"
    and update: "UpdateAccountBalance (tr_repo svc) ?f
                   (case m' ?f of None \<Rightarrow> NewBalance 0 0 [] | Some balance \<Rightarrow> balance) db1 = (Inr ub, db2)"
    and s': "fst s' = db2"
    unfolding cancelReservedSteps_def bind_Ok_iff settledRow_Ok_iff readDb_iff onDb_iff call_def
      calculated_Ok_iff prod.inject wrapping_Ok_iff return_def
    by (clarsimp simp: bind_Ok_iff readDb_iff onDb_iff calculated_Ok_iff)
  from status have db1: "db1 = (fst s)\<lparr>db_transaction := restatused i ''2'' (db_transaction (fst s))\<rparr>"
    by (simp add: UpdateStatus_Ok_iff)
  then have h: "fundsOf db1 = ?h" by simp
  note plain = loaded_plain [OF load] and loaded = loaded_holdings [OF load]
  have guards: "0 < x" "hasHeld ?h ?f x"
    using calc CalculateCancel_iff(1) [OF plain(1), of ?f "txn_ToAccount r" x] loaded(1)
    by (auto simp: h hasHeld_restrict)
  note moved = CalculateCancel_iff(2) [OF plain(1) calc]
  have "?f \<in> dom ?h" using guards(2) by (auto simp: hasHeld_def split: option.splits)
  then have "?f \<in> dom m'" using moved plain(5) by (simp add: h)
  then obtain b where b: "m' ?f = Some b" by auto
  have "Some (actualBalance b, pendingBalance b) = adjust ?f 0 (- x) ?h ?f"
    using moved loaded(1) holdingsOf_Some [where m = m' and a = ?f and b = b] b by (auto simp: h adjust_simps)
  then have funds: "fundsOf db2 = adjust ?f 0 (- x) ?h"
    using account_table.update_funds [OF update] b by (auto simp: h adjust_def)
  have "db_transaction db2 = restatused i ''2'' (db_transaction (fst s))"
    using account_table.update_others [OF update] by (simp add: otherTables_def db1)
  then show ?thesis
    using row held amount guards unfolding bookStep_Release_iff
    by (auto simp: bookOf_def find_entryOf entries_restatused funds s')
qed

section \<open>The calls\<close>

lemma RepoGetByTransactionID_Ok:
  assumes "RepoGetByTransactionID cfg i db = Inr t"
  obtains r where "find (\<lambda>t. txn_TransactionID t = i) (db_transaction db) = Some r"
    and "txn_Status t = txn_Status r" and "txn_TransactionID t = i"
proof (cases "find (\<lambda>t. txn_TransactionID t = i) (db_transaction db)")
  case (Some r)
  then have "txn_TransactionID r = i" by (auto simp: find_Some_iff)
  with assms Some show thesis
    by (intro that [of r]) (auto simp: RepoGetByTransactionID_def TransactionByID_def rbind_Ok_iff)
qed (use assms in \<open>auto simp: RepoGetByTransactionID_def TransactionByID_def rbind_Ok_iff\<close>)

lemma CommitReserved_book:
  assumes run: "CommitReservedTransaction svc i clientID s = (r, s')" and visits: "visitsMaps svc"
  shows "if isOk r then bookStep exempt (Settle i) (bookOf (fst s)) = Some (bookOf (fst s')) else fst s' = fst s"
proof (cases "RepoGetByTransactionID (tr_repo svc) i (fst s)")
  case (Inl e)
  with run show ?thesis by (auto simp: CommitReservedTransaction_def)
next
  case (Inr t)
  then obtain row where row: "find (\<lambda>t. txn_TransactionID t = i) (db_transaction (fst s)) = Some row"
    and t: "txn_Status t = txn_Status row" "txn_TransactionID t = i"
    by (rule RepoGetByTransactionID_Ok)
  consider "IsSuccess t" | "\<not> IsSuccess t" "\<not> IsPending t" | "\<not> IsSuccess t" "IsPending t" by blast
  then show ?thesis
  proof cases
    case 1
    with run Inr row t show ?thesis
      by (auto simp: CommitReservedTransaction_def IsSuccess_def bookStep_Settle_iff bookOf_def find_entryOf
          simp del: bookStep.simps)
  next
    case 2
    with run Inr show ?thesis by (auto simp: CommitReservedTransaction_def)
  next
    case 3
    with run Inr t have atomic: "Atomic (tr_repo svc) (commitReservedSteps svc i clientID) s = (r, s')"
      by (simp add: CommitReservedTransaction_def)
    show ?thesis
    proof (cases r)
      case (Inl e)
      with atomic show ?thesis by (simp add: Atomic_Err_keeps)
    next
      case (Inr trx)
      with atomic have "commitReservedSteps svc i clientID s = (Inr trx, s')" by (simp add: Atomic_Ok_iff)
      from commitReservedSteps_Ok [OF this visits row] 3(2) t(1) Inr show ?thesis
        by (simp add: IsPending_def del: bookStep.simps)
    qed
  qed
qed

lemma CancelReserved_book:
  assumes run: "CancelReservedTransaction svc i s = (r, s')"
  shows "if isOk r then bookStep exempt (Release i) (bookOf (fst s)) = Some (bookOf (fst s')) else fst s' = fst s"
proof (cases "RepoGetByTransactionID (tr_repo svc) i (fst s)")
  case (Inl e)
  with run show ?thesis by (auto simp: CancelReservedTransaction_def)
next
  case (Inr t)
  then obtain row where row: "find (\<lambda>t. txn_TransactionID t = i) (db_transaction (fst s)) = Some row"
    and t: "txn_Status t = txn_Status row" "txn_TransactionID t = i"
    by (rule RepoGetByTransactionID_Ok)
  consider "IsCancel t" | "\<not> IsCancel t" "\<not> IsPending t" | "\<not> IsCancel t" "IsPending t" by blast
  then show ?thesis
  proof cases
    case 1
    with run Inr row t show ?thesis
      by (auto simp: CancelReservedTransaction_def IsCancel_def bookStep_Release_iff bookOf_def find_entryOf
          simp del: bookStep.simps)
  next
    case 2
    with run Inr show ?thesis by (auto simp: CancelReservedTransaction_def)
  next
    case 3
    with run Inr t have atomic: "Atomic (tr_repo svc) (cancelReservedSteps svc i) s = (r, s')"
      by (simp add: CancelReservedTransaction_def)
    show ?thesis
    proof (cases r)
      case (Inl e)
      with atomic show ?thesis by (simp add: Atomic_Err_keeps)
    next
      case (Inr trx)
      with atomic have "cancelReservedSteps svc i s = (Inr trx, s')" by (simp add: Atomic_Ok_iff)
      from cancelReservedSteps_Ok [OF this row] 3(2) t(1) Inr show ?thesis
        by (simp add: IsPending_def del: bookStep.simps)
    qed
  qed
qed

lemma ToRequest_fields:
  assumes "ToRequest n a json uuid req = Inr en"
  shows "txn_TransactionID en = (if req_TransactionID req = '''' then uuid else req_TransactionID req)"
    and "txn_FromAccount en = req_FromAccount req" and "txn_ToAccount en = req_ToAccount req"
    and "txn_Amount en = req_Amount req" and "txn_Status en = req_Status req"
    and "txn_RefNumber en = req_RefNumber req"
  using assms by (auto simp: ToRequest_def rbind_Ok_iff split: sum.splits)

lemma StoreTransaction_Ok:
  assumes run: "StoreTransaction svc req processType clientID s = ((out, e), s')" and visits: "visitsMaps svc"
  shows "(e \<noteq> None \<longrightarrow> fst s' = fst s) \<and>
     (e = None \<longrightarrow> (\<exists>en. ToRequest (now (tr_repo svc)) (tr_addedNanoSecond svc) (tr_jsonMarshal svc) (tr_newUUID svc 0) req = Inr en \<and>
        storeSteps svc processType req en clientID s = (Inr (), s') \<and>
        known (fundsOf (fst s)) (req_FromAccount req) \<and> known (fundsOf (fst s)) (req_ToAccount req)))"
proof (cases e)
  case (Some er)
  with run show ?thesis
    by (auto simp: StoreTransaction_def Atomic_Err_keeps split: sum.splits option.splits if_splits prod.splits)
next
  case None
  with run obtain en u where "ToRequest (now (tr_repo svc)) (tr_addedNanoSecond svc) (tr_jsonMarshal svc) (tr_newUUID svc 0) req = Inr en"
    and accounts: "ensureAccountExists svc [req_FromAccount req, req_ToAccount req] (fst s) = None"
    and "Atomic (tr_repo svc) (storeSteps svc processType req en clientID) s = (Inr u, s')"
    unfolding StoreTransaction_def by (clarsimp split: sum.split_asm option.split_asm if_split_asm prod.split_asm)
  with None ensureAccountExists_None [OF accounts visits] show ?thesis
    by (simp add: Atomic_Ok_iff)
qed

lemma ToTransactionReq_fields [simp]:
  "req_TransactionID (ToTransactionReq n uuid r) = uuid"
  "req_FromAccount (ToTransactionReq n uuid r) = dc_FromAccount r"
  "req_ToAccount (ToTransactionReq n uuid r) = dc_ToAccount r"
  "req_Amount (ToTransactionReq n uuid r) = Some (dc_Amount r)"
  "req_Status (ToTransactionReq n uuid r) = (if dc_IsReserved r then ''0'' else ''1'')"
  by (simp_all add: ToTransactionReq_def)

lemma getHTTPStatusCode_error: "\<not> answered (getHTTPStatusCode (Some e))"
  by (simp add: answered_def getHTTPStatusCode_def)

lemma createTransaction_book:
  assumes run: "createTransaction svc uuid clientID req s = (code, s')" and visits: "visitsMaps svc"
  shows "if answered code
         then bookStep (exempted svc) (eventOf svc (CreateCall uuid clientID req)) (bookOf (fst s)) = Some (bookOf (fst s'))
         else fst s' = fst s"
proof (cases "tr_validate svc req")
  case (Some e)
  with run show ?thesis by (auto simp: createTransaction_def answered_def)
next
  case None
  let ?req = "ToTransactionReq (now (tr_repo svc)) uuid req"
  let ?type = "if dc_IsReserved req then TransactionStoreProcessReserved else TransactionStoreProcessNormal"
  obtain out e s1 where store: "StoreTransaction svc ?req ?type clientID s = ((out, e), s1)"
    by (metis surj_pair)
  note result = StoreTransaction_Ok [OF store visits]
  show ?thesis
  proof (cases e)
    case (Some er)
    with run None store result show ?thesis
      by (auto simp: createTransaction_def getHTTPStatusCode_error)
  next
    case e: None
    with result obtain en where en: "ToRequest (now (tr_repo svc)) (tr_addedNanoSecond svc) (tr_jsonMarshal svc) (tr_newUUID svc 0) ?req = Inr en"
      and steps: "storeSteps svc ?type ?req en clientID s = (Inr (), s1)"
      and "known (fundsOf (fst s)) (dc_FromAccount req)" "known (fundsOf (fst s)) (dc_ToAccount req)"
      by auto
    moreover have "code = 201" "s' = s1"
      using run None store e by (auto simp: createTransaction_def)
    moreover note storeSteps_Ok [OF steps visits, of "dc_FromAccount req" "dc_ToAccount req" "dc_Amount req"]
      ToRequest_fields [OF en, unfolded ToTransactionReq_fields]
    ultimately show ?thesis
      by (cases "dc_IsReserved req")
        (simp_all add: answered_def bookOf_def nullDecimal_def entryOf_def newEntry_def comp_def
          image_image image_set [symmetric] del: image_set split del: if_split)
  qed
qed

end
