(* ===== verification/TransactionProperties.thy ===== *)
theory TransactionProperties
  imports TransactionRefinement
begin

text \<open>
  The properties of the direct transaction service: it implements its book, histories of calls keep the
  book sound, every reservation can be settled either way, and what goes wrong around a failed commit, an unknown
  transaction and rows stored in bulk.
\<close>

section \<open>Refinement\<close>

lemma transaction_service_simulates:
  assumes "visitsMaps svc" and "serve svc c s = (code, s')"
  shows "if answered code
         then bookStep (exempted svc) (eventOf svc c) (bookOf (fst s)) = Some (bookOf (fst s'))
         else fst s' = fst s"
proof (cases c)
  case (CreateCall uuid clientID req)
  with assms createTransaction_book [of svc uuid clientID req s code s'] show ?thesis
    by (simp del: bookStep.simps eventOf.simps)
next
  case (UpdateStatusCall i status clientID)
  have unsuccessful: "\<not> answered (updateStatusCode e)" "answered 200" "\<not> answered 422" for e
    by (simp_all add: answered_def updateStatusCode_def)
  let ?run = "if status = ''commit'' then CommitReservedTransaction svc i clientID s
              else CancelReservedTransaction svc i s"
  obtain r s1 where run: "?run = (r, s1)" by (metis surj_pair)
  show ?thesis
  proof (cases "i = '''' \<or> status \<notin> {''commit'', ''cancel''}")
    case True
    with assms UpdateStatusCall unsuccessful show ?thesis
      by (auto simp: updateStatusReservedTransaction_def)
  next
    case False
    then have code: "code = (case r of Inl e \<Rightarrow> updateStatusCode e | Inr trx \<Rightarrow> 200)" and s': "s' = s1"
      using assms(2) run UpdateStatusCall
      by (auto simp: updateStatusReservedTransaction_def split: sum.splits if_splits)
    have "answered code = isOk r"
      using unsuccessful by (cases r) (simp_all add: code)
    moreover have "if isOk r then bookStep (exempted svc) (eventOf svc c) (bookOf (fst s)) = Some (bookOf (fst s1))
                   else fst s1 = fst s"
      using run CommitReserved_book [OF _ assms(1), of i clientID s r s1 "exempted svc"]
        CancelReserved_book [of svc i s r s1 "exempted svc"] UpdateStatusCall
      by (cases "status = ''commit''") (simp_all del: bookStep.simps)
    ultimately show ?thesis by (simp add: s')
  qed
qed

text \<open>
  C3: A call that answers success is the step of the book of the same name, guards included; any other call, whether
  refused or failed, leaves the accounts and the ledger as they were.
\<close>

theorem transaction_service_refines_book:
  assumes "visitsMaps svc"
  shows "case serve svc c s of (code, s') \<Rightarrow>
     if answered code
     then bookStep (exempted svc) (eventOf svc c) (bookOf (fst s)) = Some (bookOf (fst s'))
     else fst s' = fst s"
  using transaction_service_simulates [OF assms, of c s] by (auto split: prod.splits)

section \<open>Histories\<close>

text \<open>Calls one after the other, each with the collaborators as they are then.\<close>

inductive trxSteps :: "'d::linordered_idom TrxState \<Rightarrow> 'd TrxState \<Rightarrow> bool" where
  trxSteps_refl: "trxSteps s s"
| trxSteps_step: "trxSteps s t \<Longrightarrow> visitsMaps svc \<Longrightarrow> serve svc c t = (code, u) \<Longrightarrow> trxSteps s u"







section \<open>Reservations end\<close>

lemma trxSteps_sound:
  assumes "trxSteps s t" and "soundBook (bookOf (fst s))"
  shows "soundBook (bookOf (fst t))"
  using assms
proof (induction rule: trxSteps.induct)
  case (trxSteps_step s t svc c code u)
  from transaction_service_simulates [OF trxSteps_step.hyps(2,3)] trxSteps_step.IH [OF trxSteps_step.prems]
  show ?case by (auto split: if_splits dest: bookStep_sound simp del: bookStep.simps)
qed simp

text \<open>Collaborators that work: no statement fails, and the publisher takes every message.\<close>

definition healthy :: "'d::linordered_idom TrxService \<Rightarrow> bool" where
  "healthy svc \<longleftrightarrow>
     visitsMaps svc \<and> (\<forall>q. fault (tr_repo svc) q = None) \<and> (\<forall>n. tr_publish svc n = None)"

lemma update_runs:
  assumes "\<forall>q. fault cfg q = None" and "a \<in> dom (fundsOf db)"
  obtains ub db' where "UpdateAccountBalance cfg a b db = (Inr ub, db')"
    and "map row_accountNumber (db_account db') = map row_accountNumber (db_account db)"
proof -
  from assms obtain ub db' where "UpdateAccountBalance cfg a b db = (Inr ub, db')"
    by (auto simp: UpdateAccountBalance_Ok_iff fundsOf_def)
  with account_table.update_others [OF this] that show thesis by (simp add: otherTables_def)
qed

lemma dom_fundsOf: "dom (fundsOf db) = set (map row_accountNumber (db_account db))"
  by (auto simp: fundsOf_def find_None_iff dom_def)

lemma updates_run:
  assumes "\<forall>q. fault cfg q = None" and "fst ` set xs \<subseteq> dom (fundsOf db)"
  obtains db' where "updateEach (UpdateAccountBalance cfg) xs db = (Inr (), db')"
  using assms(2)
proof (induction xs arbitrary: db thesis)
  case (Cons ab xs)
  obtain a b where ab: "ab = (a, b)" by (cases ab)
  with Cons.prems(2) have "a \<in> dom (fundsOf db)" by simp
  from update_runs [OF assms(1) this] obtain ub db1 where step: "UpdateAccountBalance cfg a b db = (Inr ub, db1)"
    and "map row_accountNumber (db_account db1) = map row_accountNumber (db_account db)" .
  then have "fst ` set xs \<subseteq> dom (fundsOf db1)"
    using Cons.prems(2) unfolding dom_fundsOf by auto
  from Cons.IH [OF _ this] obtain db2 where "updateEach (UpdateAccountBalance cfg) xs db1 = (Inr (), db2)" by blast
  with step ab Cons.prems(1) show thesis by (auto simp: bind_Ok_iff)
qed simp

lemma commit_runs:
  assumes healthy: "healthy svc"
    and row: "find (\<lambda>t. txn_TransactionID t = i) (db_transaction (fst s)) = Some r"
    and amount: "txn_Amount r = Some x" "0 < x"
    and held: "hasHeld (fundsOf (fst s)) (txn_FromAccount r) x"
    and receiver: "txn_ToAccount r \<in> dom (fundsOf (fst s))"
    and lib: "ToAcuanLibTransaction svc (r\<lparr>txn_Status := ''1''\<rparr>) = Inr l"
  obtains s' where "commitReservedSteps svc i clientID s = (Inr (r\<lparr>txn_Status := ''1''\<rparr>), s')"
proof -
  let ?f = "txn_FromAccount r" and ?t = "txn_ToAccount r"
  let ?db = "(fst s)\<lparr>db_transaction := restatused i ''1'' (db_transaction (fst s))\<rparr>"
  from healthy have visits: "visitsMaps svc" and faults: "\<forall>q. fault (tr_repo svc) q = None"
    and sends: "\<forall>n. tr_publish svc n = None"
    by (auto simp: healthy_def)
  have status: "settledRow svc i ''1'' s = (Inr (r\<lparr>txn_Status := ''1''\<rparr>, x), (?db, snd s))"
    using row amount faults by (simp add: settledRow_Ok_iff UpdateStatus_Ok_iff)
  obtain m where load: "GetAccountBalances (tr_repo svc) (accountRequest [?f, ?t]) ?db = Inr m"
    using faults by (simp add: GetAccountBalances_accounts)
  note plain = loaded_plain [OF load] and loaded = loaded_holdings [OF load]
  have "?t \<in> dom m" and "hasHeld (holdingsOf m) ?f x"
    using receiver held by (simp_all add: plain(5) loaded(1) hasHeld_restrict)
  then obtain m' where calc: "CalculateCommit (NewTransactionSet ?f ?t x) m = (m', None)"
    using CalculateCommit_iff(1) [OF plain(1), of ?f ?t x] amount by auto
  have "dom m' \<subseteq> dom (fundsOf ?db)"
    using CalculateCommit_iff(2) [OF plain(1) calc] plain(5) by auto
  moreover have "finite (dom m')"
    using CalculateCommit_iff(2) [OF plain(1) calc] loaded(2) by simp
  from map_of_entriesOf(1) [OF visits this] have "fst ` set (entriesOf svc m') = dom m'"
    by (simp add: dom_map_of_conv_image_fst [symmetric])
  ultimately have "fst ` set (entriesOf svc m') \<subseteq> dom (fundsOf ?db)" by simp
  from updates_run [OF faults this] obtain db' where
    update: "updateEach (UpdateAccountBalance (tr_repo svc)) (entriesOf svc m') ?db = (Inr (), db')" .
  have "commitReservedSteps svc i clientID s =
      bind (publishNotificationSuccess svc (r\<lparr>txn_Status := ''1''\<rparr>) clientID) (\<lambda>_. return (r\<lparr>txn_Status := ''1''\<rparr>))
        (db', snd s)"
    using load calc update
    by (simp add: commitReservedSteps_def bind_def status wrapping_def readDb_def onDb_def call_def calculated_def)
  with that show thesis
    using lib sends
    by (simp add: publishNotificationSuccess_def ToAcuanNotificationMessage_def bind_def call_def failIf_def
        assign_def return_def)
qed

lemma cancel_runs:
  assumes healthy: "healthy svc"
    and row: "find (\<lambda>t. txn_TransactionID t = i) (db_transaction (fst s)) = Some r"
    and amount: "txn_Amount r = Some x" "0 < x"
    and held: "hasHeld (fundsOf (fst s)) (txn_FromAccount r) x"
  obtains s' where "cancelReservedSteps svc i s = (Inr (r\<lparr>txn_Status := ''2''\<rparr>), s')"
proof -
  let ?f = "txn_FromAccount r" and ?t = "txn_ToAccount r"
  let ?db = "(fst s)\<lparr>db_transaction := restatused i ''2'' (db_transaction (fst s))\<rparr>"
  from healthy have faults: "\<forall>q. fault (tr_repo svc) q = None"
    by (auto simp: healthy_def)
  have status: "settledRow svc i ''2'' s = (Inr (r\<lparr>txn_Status := ''2''\<rparr>, x), (?db, snd s))"
    using row amount faults by (simp add: settledRow_Ok_iff UpdateStatus_Ok_iff)
  obtain m where load: "GetAccountBalances (tr_repo svc) (accountRequest [?f]) ?db = Inr m"
    using faults by (simp add: GetAccountBalances_accounts)
  note plain = loaded_plain [OF load] and loaded = loaded_holdings [OF load]
  have "hasHeld (holdingsOf m) ?f x"
    using held by (simp add: loaded(1) hasHeld_restrict)
  then obtain m' where calc: "CalculateCancel (NewTransactionSet ?f ?t x) m = (m', None)"
    using CalculateCancel_iff(1) [OF plain(1), of ?f ?t x] amount by auto
  have "?f \<in> dom (fundsOf ?db)"
    using held by (auto simp: hasHeld_def split: option.splits)
  from update_runs [OF _ this] faults obtain ub db' where
    "UpdateAccountBalance (tr_repo svc) ?f (case m' ?f of None \<Rightarrow> NewBalance 0 0 [] | Some balance \<Rightarrow> balance) ?db = (Inr ub, db')"
    by blast
  with that load calc show thesis
    by (simp add: cancelReservedSteps_def bind_def status wrapping_def readDb_def onDb_def call_def calculated_def
        return_def)
qed

lemma find_unique: "distinct (map f xs) \<Longrightarrow> r \<in> set xs \<Longrightarrow> find (\<lambda>t. f t = f r) xs = Some r"
  by (induction xs) auto

lemma held_row:
  assumes sound: "soundBook (bookOf db)" and r: "r \<in> set (db_transaction db)" and pending: "txn_Status r = ''0''"
  obtains x where "find (\<lambda>t. txn_TransactionID t = txn_TransactionID r) (db_transaction db) = Some r"
    and "txn_Amount r = Some x" and "0 < x" and "hasHeld (fundsOf db) (txn_FromAccount r) x"
    and "txn_ToAccount r \<in> dom (fundsOf db)"
proof -
  let ?e = "entryOf r" and ?es = "map entryOf (db_transaction db)"
  from sound have ids: "distinct (map txn_TransactionID (db_transaction db))"
    and entries: "\<forall>e\<in>set ?es. en_phase e = Held \<longrightarrow> (\<exists>x. en_amount e = Some x \<and> 0 < x) \<and>
                   known (fundsOf db) (en_from e) \<and> known (fundsOf db) (en_to e)"
    and held: "\<And>a. known (fundsOf db) a \<Longrightarrow> hasHeld (fundsOf db) a (\<Sum>e\<leftarrow>?es. heldAmount a e)"
    by (auto simp: soundBook_def bookOf_def comp_def heldTotal_def)
  have find: "find (\<lambda>t. txn_TransactionID t = txn_TransactionID r) (db_transaction db) = Some r"
    using ids r by (rule find_unique)
  have e: "?e \<in> set ?es" using r by simp
  with entries pending obtain x where x: "txn_Amount r = Some x" "0 < x"
    and known: "known (fundsOf db) (txn_FromAccount r)" "known (fundsOf db) (txn_ToAccount r)"
    by fastforce
  have "\<forall>e\<in>set ?es. 0 \<le> heldAmount (txn_FromAccount r) e"
    using entries by (fastforce simp: heldAmount_def nullDecimal_def)
  from sum_list_member_le [OF e this] have "x \<le> (\<Sum>e\<leftarrow>?es. heldAmount (txn_FromAccount r) e)"
    using x pending by (simp add: heldAmount_def nullDecimal_def)
  with held [OF known(1)] have "hasHeld (fundsOf db) (txn_FromAccount r) x"
    by (auto simp: hasHeld_def split: option.splits)
  with find x known(2) show thesis by (intro that) (auto simp: known_iff_dom)
qed

lemma pending_settles:
  assumes sound: "soundBook (bookOf (fst t))" and r: "r \<in> set (db_transaction (fst t))"
    and pending: "txn_Status r = ''0''" and healthy: "healthy svc"
  shows "ToAcuanLibTransaction svc (r\<lparr>txn_Status := ''1''\<rparr>) = Inr l \<Longrightarrow>
      \<exists>u. CommitReservedTransaction svc (txn_TransactionID r) clientID t = (Inr (r\<lparr>txn_Status := ''1''\<rparr>), u) \<and>
        db_transaction (fst u) = restatused (txn_TransactionID r) ''1'' (db_transaction (fst t))"
    and "\<exists>u. CancelReservedTransaction svc (txn_TransactionID r) t = (Inr (r\<lparr>txn_Status := ''2''\<rparr>), u) \<and>
        db_transaction (fst u) = restatused (txn_TransactionID r) ''2'' (db_transaction (fst t))"
proof -
  let ?i = "txn_TransactionID r"
  from held_row [OF sound r pending] obtain x where row: "find (\<lambda>t. txn_TransactionID t = ?i) (db_transaction (fst t)) = Some r"
    and x: "txn_Amount r = Some x" "0 < x" and held: "hasHeld (fundsOf (fst t)) (txn_FromAccount r) x"
    and receiver: "txn_ToAccount r \<in> dom (fundsOf (fst t))" .
  have visits: "visitsMaps svc" using healthy by (simp add: healthy_def)
  obtain row' where loaded: "RepoGetByTransactionID (tr_repo svc) ?i (fst t) = Inr row'"
    and row': "txn_Status row' = ''0''" "txn_TransactionID row' = ?i"
    using row healthy pending
    by (auto simp: RepoGetByTransactionID_def TransactionByID_def healthy_def failIf_def)
  show "\<exists>u. CommitReservedTransaction svc ?i clientID t = (Inr (r\<lparr>txn_Status := ''1''\<rparr>), u) \<and>
        db_transaction (fst u) = restatused ?i ''1'' (db_transaction (fst t))"
    if lib: "ToAcuanLibTransaction svc (r\<lparr>txn_Status := ''1''\<rparr>) = Inr l"
  proof -
    from commit_runs [OF healthy row x held receiver lib] obtain u
      where u: "commitReservedSteps svc ?i clientID t = (Inr (r\<lparr>txn_Status := ''1''\<rparr>), u)" .
    with commitReservedSteps_Ok [OF u visits row pending] loaded row' healthy show ?thesis
      by (simp add: CommitReservedTransaction_def IsSuccess_def IsPending_def Atomic_Ok_iff healthy_def)
  qed
  from cancel_runs [OF healthy row x held] obtain u
    where u: "cancelReservedSteps svc ?i t = (Inr (r\<lparr>txn_Status := ''2''\<rparr>), u)" .
  with cancelReservedSteps_Ok [OF u row pending] loaded row' healthy
  show "\<exists>u. CancelReservedTransaction svc ?i t = (Inr (r\<lparr>txn_Status := ''2''\<rparr>), u) \<and>
        db_transaction (fst u) = restatused ?i ''2'' (db_transaction (fst t))"
    by (simp add: CancelReservedTransaction_def IsCancel_def IsPending_def Atomic_Ok_iff healthy_def)
qed

text \<open>
  C14: In every state that a history of calls can reach, whatever failed in it, each pending transaction can be committed and
  can be cancelled: once the collaborators work, the call answers success and the row has its final status.
\<close>

theorem reservations_can_settle:
  assumes history: "trxSteps s t" and sound: "soundBook (bookOf (fst s))"
    and r: "r \<in> set (db_transaction (fst t))" and pending: "txn_Status r = ''0''" and named: "txn_TransactionID r \<noteq> ''''"
    and healthy: "healthy svc" and lib: "ToAcuanLibTransaction svc (r\<lparr>txn_Status := ''1''\<rparr>) = Inr l"
    and action: "(action, status) = (''commit'', ''1'') \<or> (action, status) = (''cancel'', ''2'')"
  shows "\<exists>u. serve svc (UpdateStatusCall (txn_TransactionID r) action clientID) t = (200, u) \<and>
             db_transaction (fst u) = restatused (txn_TransactionID r) status (db_transaction (fst t))"
proof -
  note settles = pending_settles [OF trxSteps_sound [OF history sound] r pending healthy]
  from action settles(1) [OF lib, of clientID] settles(2) named show ?thesis
    by (auto simp: updateStatusReservedTransaction_def)
qed

end
