(* ===== verification/TransactionScenario.thy ===== *)
theory TransactionScenario
  imports TransactionProperties Scenario
begin

text \<open>
  A concrete direct transaction service on the two accounts of \<open>Scenario\<close>: a request of 50 between them, at once
  and reserved, and what becomes of it.  The theorems are applied here.
\<close>

definition exampleTrx :: "err option \<Rightarrow> rat TrxService" where
  "exampleTrx cf =
     \<lparr>tr_repo = exampleRepo cf, tr_visitOrder = exampleOrder, tr_existsOrder = (\<lambda>m. sorted_list_of_set (dom m)),
      tr_AcceptedOrderType = [''TRF''], tr_AcceptedTransactionType = [''TRFMD''], tr_GetListOrderTypeCode = Ok [],
      tr_GetListTransactionTypeCode = Ok [], tr_BatchSize = 1, tr_jsonMarshal = (\<lambda>_. Ok ''{}''),
      tr_jsonUnmarshal = (\<lambda>_. Ok (AnyOther ''map'')), tr_parseUUID = Ok, tr_newUUID = (\<lambda>n. replicate (n + 1) CHR ''u''),
      tr_addedNanoSecond = 0, tr_publish = (\<lambda>_. None), tr_validate = (\<lambda>_. None), tr_errorText = (\<lambda>_. ''error'')\<rparr>"

definition exampleDirect :: "bool \<Rightarrow> rat DoCreateTransactionRequest" where
  "exampleDirect r =
     \<lparr>dc_IsReserved = r, dc_FromAccount = ''ACC'', dc_ToAccount = ''HOLD'', dc_Amount = 50, dc_Method = '''',
      dc_TransactionType = ''TRFMD'', dc_TransactionTime = 0, dc_OrderType = ''TRF'', dc_Description = ''d'',
      dc_RefNumber = ''REF'', dc_Metadata = Some Map.empty\<rparr>"

definition exampleLine :: "string \<Rightarrow> string \<Rightarrow> string \<Rightarrow> rat Transaction" where
  "exampleLine i ref status =
     \<lparr>txn_TransactionID = i, txn_TransactionDate = 0, txn_FromAccount = ''ACC'', txn_ToAccount = ''HOLD'',
      txn_Amount = Some 50, txn_Status = status, txn_Method = '''', txn_TypeTransaction = ''TRFMD'',
      txn_Description = ''d'', txn_RefNumber = ref, txn_Metadata = ''{}'', txn_OrderTime = 1,
      txn_OrderType = ''TRF'', txn_TransactionTime = 0, txn_Currency = ''IDR'', txn_SourceEntity = '''',
      txn_DestinationEntity = ''''\<rparr>"

lemma exampleTrx_simps [simp]:
  "tr_repo (exampleTrx cf) = exampleRepo cf" "tr_visitOrder (exampleTrx cf) = exampleOrder"
  "tr_newUUID (exampleTrx cf) n = replicate (n + 1) CHR ''u''" "tr_addedNanoSecond (exampleTrx cf) = 0"
  "tr_validate (exampleTrx cf) r = None" "tr_publish (exampleTrx cf) m = None"
  "tr_jsonMarshal (exampleTrx cf) = (\<lambda>_. Ok ''{}'')" "tr_BatchSize (exampleTrx cf) = 1"
  "now (exampleRepo cf) = 1" "fault (exampleRepo cf) q = (if q = CommitTx then cf else None)"
  by (simp_all add: exampleTrx_def exampleRepo_def)

lemma exampleDirect_simps [simp]:
  "dc_FromAccount (exampleDirect r) = ''ACC''" "dc_ToAccount (exampleDirect r) = ''HOLD''"
  "dc_Amount (exampleDirect r) = 50" "dc_IsReserved (exampleDirect r) = r"
  "txn_TransactionID (exampleLine i ref st) = i" "txn_RefNumber (exampleLine i ref st) = ref"
  by (simp_all add: exampleDirect_def exampleLine_def)

lemma exampleTrx_visits: "visitsMaps (exampleTrx cf)"
  by (auto simp: visitsMaps_def exampleTrx_def exampleOrder_def)

lemma exampleTrx_healthy: "healthy (exampleTrx None)"
  by (simp add: healthy_def exampleTrx_visits)

lemma example_line:
  "i \<noteq> '''' \<Longrightarrow> ToRequest 1 0 (\<lambda>_. Inr ''{}'') u (ToTransactionReq 1 i (exampleDirect r)) =
     Inr (exampleLine i ''REF'' (if r then ''0'' else ''1''))"
  using example_date [of 0]
  by (simp add: ToRequest_def ToTransactionReq_def exampleDirect_def exampleLine_def)

lemma example_loadPlain:
  "GetAccountBalances (exampleRepo cf) (accountRequest [''ACC'', ''HOLD'']) (exampleState actual pending ver parked hver ws ts) =
     Inr [''ACC'' \<mapsto> writtenBalance actual pending ver, ''HOLD'' \<mapsto> writtenBalance parked 0 hver]"
  by (simp add: GetAccountBalances_def accountRequest_def exampleState_def exampleRow_def failIf_def writtenBalance_def)
    (simp add: exampleRepo_def fun_upd_twist [of "''HOLD''" "''ACC''"])

lemma example_plainUpdate:
  "UpdateAccountBalance (exampleRepo cf) ''ACC'' (writtenBalance actual' pending' x) (exampleState actual pending ver parked hver ws ts) =
     (Inr (writtenBalance actual' pending' (ver + 1)), exampleState actual' pending' (ver + 1) parked hver ws ts)"
  "UpdateAccountBalance (exampleRepo cf) ''HOLD'' (writtenBalance parked' 0 x) (exampleState actual pending ver parked hver ws ts) =
     (Inr (writtenBalance parked' 0 (hver + 1)), exampleState actual pending ver parked' (hver + 1) ws ts)"
  by (simp_all add: UpdateAccountBalance_def scenario_defs writtenBalance_def Let_def balance_option_defs)

lemma example_entries:
  "entriesOf (exampleTrx cf) [''ACC'' \<mapsto> x, ''HOLD'' \<mapsto> y] = [(''ACC'', x), (''HOLD'', y)]"
  by (simp add: entriesOf_def example_order map_filter_simps)

lemma example_skip: "skipBalanceChecks (exampleRepo cf) m = m"
  by (rule ext) (simp add: skipBalanceChecks_def exampleRepo_def option.map_ident)

lemmas plain_calculations =
  NewTransactionSet_def newCalculateBalanceOption_def updateAccount_def balance_option_defs Available_def Let_def
  writtenBalance_def calculated_def

lemma example_calculations50:
  "50 \<le> actual - pending \<Longrightarrow>
     calculated (Calculate (NewTransactionSet ''ACC'' ''HOLD'' 50)
       [''ACC'' \<mapsto> writtenBalance actual pending ver, ''HOLD'' \<mapsto> writtenBalance parked 0 hver]) =
     Inr [''ACC'' \<mapsto> writtenBalance (actual - 50) pending ver, ''HOLD'' \<mapsto> writtenBalance (parked + 50) 0 hver]"
  "50 \<le> actual - pending \<Longrightarrow>
     calculated (CalculateReserve (NewTransactionSet ''ACC'' ''HOLD'' 50)
       [''ACC'' \<mapsto> writtenBalance actual pending ver, ''HOLD'' \<mapsto> writtenBalance parked 0 hver]) =
     Inr [''ACC'' \<mapsto> writtenBalance actual (pending + 50) ver, ''HOLD'' \<mapsto> writtenBalance parked 0 hver]"
  by (auto simp: Calculate_def CalculateReserve_def Withdraw_def AddFunds_def Reserve_def plain_calculations)

lemma example_notification:
  "publishNotificationSuccess (exampleTrx cf) (exampleLine i ref status) c s =
     (case ToAcuanNotificationMessage (exampleTrx cf) (exampleLine i ref status) ''success create transaction'' c of
        Inl e \<Rightarrow> (Inl e, s) | Inr n \<Rightarrow> (Inr (), (fst s, snd s @ [n])))"
  by (simp add: publishNotificationSuccess_def bind_def call_def failIf_def assign_def split: sum.splits)

lemma example_storeSteps:
  assumes "50 \<le> actual - pending" and "i \<notin> txn_TransactionID ` set ts"
    and "ToAcuanNotificationMessage (exampleTrx cf) (exampleLine i ref ''1'') ''success create transaction'' c = Inr n"
  shows "storeSteps (exampleTrx cf) TransactionStoreProcessReserved (ToTransactionReq 1 i (exampleDirect True))
       (exampleLine i ref ''0'') c (exampleState actual pending ver parked hver ws ts, ns) =
     (Inr (), (exampleState actual (pending + 50) (ver + 1) parked (hver + 1) ws (ts @ [exampleLine i ref ''0'']), ns))"
    and "storeSteps (exampleTrx cf) TransactionStoreProcessNormal (ToTransactionReq 1 i (exampleDirect False))
       (exampleLine i ref ''1'') c (exampleState actual pending ver parked hver ws ts, ns) =
     (Inr (), (exampleState (actual - 50) pending (ver + 1) (parked + 50) (hver + 1) ws (ts @ [exampleLine i ref ''1'']), ns @ [n]))"
proof -
  show "storeSteps (exampleTrx cf) TransactionStoreProcessReserved (ToTransactionReq 1 i (exampleDirect True))
       (exampleLine i ref ''0'') c (exampleState actual pending ver parked hver ws ts, ns) =
     (Inr (), (exampleState actual (pending + 50) (ver + 1) parked (hver + 1) ws (ts @ [exampleLine i ref ''0'']), ns))"
    using assms by (simp add: storeSteps_def bind_def readDb_def onDb_def call_def nullDecimal_def example_loadPlain
        example_skip getBalanceCalculator_def example_calculations50 example_entries example_plainUpdate Store_def return_def)
  show "storeSteps (exampleTrx cf) TransactionStoreProcessNormal (ToTransactionReq 1 i (exampleDirect False))
       (exampleLine i ref ''1'') c (exampleState actual pending ver parked hver ws ts, ns) =
     (Inr (), (exampleState (actual - 50) pending (ver + 1) (parked + 50) (hver + 1) ws (ts @ [exampleLine i ref ''1'']), ns @ [n]))"
    using assms by (simp add: storeSteps_def bind_def readDb_def onDb_def call_def nullDecimal_def example_loadPlain
        example_skip getBalanceCalculator_def example_calculations50 example_entries example_plainUpdate Store_def example_notification)
qed

section \<open>The calls\<close>

definition exampleNotice :: "string \<Rightarrow> string \<Rightarrow> string \<Rightarrow> rat AcuanNotification" where
  "exampleNotice i ref c =
     \<lparr>acn_Identifier = ref, acn_OrderTime = 1, acn_OrderType = ''TRF'',
      acn_Transactions =
        [\<lparr>lib_Id = i, lib_Amount = 50, lib_Currency = ''IDR'', lib_SourceAccountId = ''ACC'', lib_SourceEntity = '''',
          lib_DestinationAccountId = ''HOLD'', lib_DestinationEntity = '''', lib_Description = ''d'', lib_Method = '''',
          lib_TransactionType = ''TRFMD'', lib_TransactionTime = 0, lib_Status = 1, lib_Meta = Some (AnyOther ''map'')\<rparr>],
      acn_Message = ''success create transaction'', acn_ClientID = c\<rparr>"

lemma example_lib:
  "ToAcuanLibTransaction (exampleTrx cf) (exampleLine i ref ''1'') = Inr (hd (acn_Transactions (exampleNotice i ref c)))"
  by (simp add: ToAcuanLibTransaction_def exampleTrx_def exampleLine_def exampleNotice_def ParseUint_def isNumeric_def
      digitsValue_def nullDecimal_def)

lemma example_notice:
  "ToAcuanNotificationMessage (exampleTrx cf) (exampleLine i ref ''1'') ''success create transaction'' c =
     Inr (exampleNotice i ref c)"
  using example_lib [of cf i ref c]
  by (simp add: ToAcuanNotificationMessage_def) (simp add: exampleLine_def exampleNotice_def)

lemma example_checks:
  "validateInputStoreTransaction (exampleTrx cf) (if r then TransactionStoreProcessReserved else TransactionStoreProcessNormal)
     (ToTransactionReq 1 i (exampleDirect r)) = None"
  "ensureAccountExists (exampleTrx cf) [''ACC'', ''HOLD''] (exampleState actual pending ver parked hver ws ts) = None"
proof -
  show "validateInputStoreTransaction (exampleTrx cf) (if r then TransactionStoreProcessReserved else TransactionStoreProcessNormal)
     (ToTransactionReq 1 i (exampleDirect r)) = None"
    by (simp add: validateInputStoreTransaction_def exampleTrx_def nullDecimal_def ErrorOrNil_def)
      (simp add: ToTransactionReq_def exampleDirect_def)
  show "ensureAccountExists (exampleTrx cf) [''ACC'', ''HOLD''] (exampleState actual pending ver parked hver ws ts) = None"
    by (auto simp: ensureAccountExists_def CheckAccountNumbers_def failIf_def ErrorOrNil_def filter_empty_conv
        exampleState_def exampleRow_def)
qed

lemma example_StoreTransaction:
  assumes "i \<noteq> ''''" and "''REF'' \<notin> txn_RefNumber ` set ts"
    and "processType = (if r then TransactionStoreProcessReserved else TransactionStoreProcessNormal)"
  shows "StoreTransaction (exampleTrx cf) (ToTransactionReq 1 i (exampleDirect r)) processType c
       (exampleState actual pending ver parked hver ws ts, ns) =
     (case Atomic (exampleRepo cf) (storeSteps (exampleTrx cf) processType (ToTransactionReq 1 i (exampleDirect r))
             (exampleLine i ''REF'' (if r then ''0'' else ''1'')) c) (exampleState actual pending ver parked hver ws ts, ns) of
        (Inl e, s') \<Rightarrow> ((ToGetTransactionOut (exampleLine i ''REF'' (if r then ''0'' else ''1'')) Map.empty Map.empty, Some e), s')
      | (Inr _, s') \<Rightarrow> ((ToGetTransactionOut (exampleLine i ''REF'' (if r then ''0'' else ''1'')) Map.empty Map.empty, None), s'))"
proof -
  have ref: "req_RefNumber (ToTransactionReq 1 i (exampleDirect r)) = ''REF''"
    by (simp add: ToTransactionReq_def exampleDirect_def)
  have exists: "CheckRefNumbers (exampleRepo cf) [''REF''] (exampleState actual pending ver parked hver ws ts) =
      Inr (\<lambda>rn. if rn = ''REF'' then Some False else None)"
    using assms(2) by (auto simp: CheckRefNumbers_def failIf_def list_ex_iff fun_eq_iff image_iff)
  show ?thesis
    using example_line [OF assms(1), of "''u''" r] example_checks
    by (simp add: StoreTransaction_def ref exists assms(3))
qed

lemma example_create:
  assumes "i \<noteq> ''''" and "i \<notin> txn_TransactionID ` set ts" and "''REF'' \<notin> txn_RefNumber ` set ts" and "50 \<le> actual - pending"
  shows "serve (exampleTrx None) (CreateCall i c (exampleDirect True)) (exampleState actual pending ver parked hver ws ts, ns) =
     (201, (exampleState actual (pending + 50) (ver + 1) parked (hver + 1) ws (ts @ [exampleLine i ''REF'' ''0'']), ns))"
    and "serve (exampleTrx cf) (CreateCall i c (exampleDirect False)) (exampleState actual pending ver parked hver ws ts, ns) =
     (case cf of
        None \<Rightarrow> (201, (exampleState (actual - 50) pending (ver + 1) (parked + 50) (hver + 1) ws (ts @ [exampleLine i ''REF'' ''1'']),
                      ns @ [exampleNotice i ''REF'' c]))
      | Some e \<Rightarrow> (getHTTPStatusCode (Some e),
                   (exampleState actual pending ver parked hver ws ts, ns @ [exampleNotice i ''REF'' c])))"
proof -
  note steps = example_storeSteps [OF assms(4,2) example_notice]
  show "serve (exampleTrx None) (CreateCall i c (exampleDirect True)) (exampleState actual pending ver parked hver ws ts, ns) =
     (201, (exampleState actual (pending + 50) (ver + 1) parked (hver + 1) ws (ts @ [exampleLine i ''REF'' ''0'']), ns))"
    using assms(1,3)
    by (simp add: createTransaction_def example_StoreTransaction [where r = True, simplified] Atomic_def steps)
  show "serve (exampleTrx cf) (CreateCall i c (exampleDirect False)) (exampleState actual pending ver parked hver ws ts, ns) =
     (case cf of
        None \<Rightarrow> (201, (exampleState (actual - 50) pending (ver + 1) (parked + 50) (hver + 1) ws (ts @ [exampleLine i ''REF'' ''1'']),
                      ns @ [exampleNotice i ''REF'' c]))
      | Some e \<Rightarrow> (getHTTPStatusCode (Some e),
                   (exampleState actual pending ver parked hver ws ts, ns @ [exampleNotice i ''REF'' c])))"
    using assms(1,3)
    by (simp add: createTransaction_def example_StoreTransaction [where r = False, simplified] Atomic_def steps
        split: option.splits)
qed

section \<open>The theorems, applied\<close>

lemma example_funds:
  "fundsOf (exampleState actual pending ver parked hver ws ts) = [''ACC'' \<mapsto> (actual, pending), ''HOLD'' \<mapsto> (parked, 0)]"
  by (rule ext) (simp add: fundsOf_def exampleState_def exampleRow_def)

lemma example_sound: "soundBook (bookOf (exampleState 200 0 1 0 1 [] []))"
  by (auto simp: soundBook_def bookOf_def hasHeld_def heldTotal_def known_def example_funds split: option.splits if_splits)

lemma example_reserved:
  "serve (exampleTrx None) (CreateCall ''r'' ''client'' (exampleDirect True)) (exampleState 200 0 1 0 1 [] [], []) =
     (201, (exampleState 200 50 2 0 2 [] [exampleLine ''r'' ''REF'' ''0''], []))"
  by (subst example_create(1)) simp_all

lemma example_history:
  "trxSteps (exampleState 200 0 1 0 1 [] [], []) (exampleState 200 50 2 0 2 [] [exampleLine ''r'' ''REF'' ''0''], [])"
  by (rule trxSteps_step [OF trxSteps_refl exampleTrx_visits example_reserved])

lemma transaction_service_refines_book_witness:
  "bookStep (exempted (exampleTrx None)) (Hold ''r'' ''ACC'' ''HOLD'' (50 :: rat)) (bookOf (exampleState 200 0 1 0 1 [] [])) =
     Some (bookOf (exampleState 200 50 2 0 2 [] [exampleLine ''r'' ''REF'' ''0'']))"
  using transaction_service_refines_book [OF exampleTrx_visits [of None],
      of "CreateCall ''r'' ''client'' (exampleDirect True)" "(exampleState 200 0 1 0 1 [] [], [])"]
  by (simp add: example_reserved answered_def del: bookStep.simps serve.simps)


lemma reservations_can_settle_witness:
  "(\<exists>u. serve (exampleTrx None) (UpdateStatusCall ''r'' ''commit'' ''client'')
          (exampleState 200 50 2 0 2 [] [exampleLine ''r'' ''REF'' ''0''], []) = (200, u) \<and>
        db_transaction (fst u) = [exampleLine ''r'' ''REF'' ''1''])"
proof -
  have row: "exampleLine ''r'' ''REF'' ''0''\<lparr>txn_Status := ''1''\<rparr> = exampleLine ''r'' ''REF'' ''1''"
    by (simp add: exampleLine_def)
  with example_lib [of None "''r''" "''REF''" "''client''"]
  have lib: "ToAcuanLibTransaction (exampleTrx None) (exampleLine ''r'' ''REF'' ''0''\<lparr>txn_Status := ''1''\<rparr>) =
      Inr (hd (acn_Transactions (exampleNotice ''r'' ''REF'' ''client'')))" by simp
  show ?thesis
    using reservations_can_settle [OF example_history _ _ _ _ exampleTrx_healthy lib, of "''commit''" "''1''" "''client''"]
      example_sound row by (simp add: restatused_def) (simp add: exampleLine_def)
qed

end
