(* ===== verification/TransactionFaults.thy ===== *)
theory TransactionFaults
  imports TransactionScenario
begin

text \<open>
  What the direct transaction service does when things go wrong: a commit that fails after the notification left,
  a transaction that does not exist, and rows stored in bulk, which have no balance behind them.
\<close>

section \<open>A commit that fails\<close>

text \<open>The same collaborators, with a database that fails to commit.\<close>

definition failingCommit :: "err \<Rightarrow> 'd RepoConfig \<Rightarrow> 'd RepoConfig" where
  "failingCommit e cfg = cfg\<lparr>fault := (fault cfg)(CommitTx := Some e)\<rparr>"

lemma failingCommit_fields [simp]:
  "fault (failingCommit e cfg) q = (if q = CommitTx then Some e else fault cfg q)"
  "now (failingCommit e cfg) = now cfg" "BalanceLimitToggle (failingCommit e cfg) = BalanceLimitToggle cfg"
  "SkipBalanceCheckAccountNumber (failingCommit e cfg) = SkipBalanceCheckAccountNumber cfg"
  by (simp_all add: failingCommit_def)

lemma failingCommit_statements [simp]:
  "GetAccountBalances (failingCommit e cfg) = GetAccountBalances cfg"
  "UpdateAccountBalance (failingCommit e cfg) = UpdateAccountBalance cfg"
  "Store (failingCommit e cfg) = Store cfg"
  "CheckRefNumbers (failingCommit e cfg) = CheckRefNumbers cfg"
  "CheckAccountNumbers (failingCommit e cfg) = CheckAccountNumbers cfg"
  "skipBalanceChecks (failingCommit e cfg) = skipBalanceChecks cfg"
  unfolding fun_eq_iff GetAccountBalances_def UpdateAccountBalance_def Store_def CheckRefNumbers_def
    CheckAccountNumbers_def skipBalanceChecks_def failingCommit_fields by simp_all

definition failingService :: "err \<Rightarrow> 'd TrxService \<Rightarrow> 'd TrxService" where
  "failingService e svc = svc\<lparr>tr_repo := failingCommit e (tr_repo svc)\<rparr>"

lemma failingService_simps [simp]:
  "tr_repo (failingService e svc) = failingCommit e (tr_repo svc)"
  "tr_addedNanoSecond (failingService e svc) = tr_addedNanoSecond svc"
  "tr_jsonMarshal (failingService e svc) = tr_jsonMarshal svc" "tr_newUUID (failingService e svc) = tr_newUUID svc"
  "tr_parseUUID (failingService e svc) = tr_parseUUID svc" "tr_jsonUnmarshal (failingService e svc) = tr_jsonUnmarshal svc"
  "tr_errorText (failingService e svc) = tr_errorText svc" "tr_publish (failingService e svc) = tr_publish svc"
  "tr_visitOrder (failingService e svc) = tr_visitOrder svc" "tr_existsOrder (failingService e svc) = tr_existsOrder svc"
  "tr_GetListOrderTypeCode (failingService e svc) = tr_GetListOrderTypeCode svc"
  "tr_GetListTransactionTypeCode (failingService e svc) = tr_GetListTransactionTypeCode svc"
  "tr_AcceptedOrderType (failingService e svc) = tr_AcceptedOrderType svc"
  "tr_AcceptedTransactionType (failingService e svc) = tr_AcceptedTransactionType svc"
  by (simp_all add: failingService_def)

lemma failingService_steps [simp]:
  "storeSteps (failingService e svc) = storeSteps svc"
  "validateInputStoreTransaction (failingService e svc) = validateInputStoreTransaction svc"
  "ensureAccountExists (failingService e svc) = ensureAccountExists svc"
proof -
  have publish: "publishNotificationSuccess (failingService e svc) = publishNotificationSuccess svc"
    unfolding fun_eq_iff publishNotificationSuccess_def ToAcuanNotificationMessage_def ToAcuanLibTransaction_def
      failingService_simps by simp
  have entries: "entriesOf (failingService e svc) = entriesOf svc"
    by (simp add: fun_eq_iff entriesOf_def)
  show "storeSteps (failingService e svc) = storeSteps svc"
    by (intro ext) (unfold storeSteps_def failingService_simps failingCommit_statements publish entries, rule refl)
  show "validateInputStoreTransaction (failingService e svc) = validateInputStoreTransaction svc"
    unfolding fun_eq_iff validateInputStoreTransaction_def failingService_simps by simp
  show "ensureAccountExists (failingService e svc) = ensureAccountExists svc"
    unfolding fun_eq_iff ensureAccountExists_def failingService_simps failingCommit_statements by simp
qed

text \<open>
  When the commit of a direct transaction fails, the caller gets the error and the database is as it was, but the
  notification of its success has left the service, the same as after a commit.
\<close>

lemma failed_commit_still_notifies:
  assumes run: "StoreTransaction svc req TransactionStoreProcessNormal clientID s = ((out, None), s')"
  shows "\<exists>notice. snd s' = snd s @ [notice] \<and>
     StoreTransaction (failingService e svc) req TransactionStoreProcessNormal clientID s =
       ((out, Some e), (fst s, snd s @ [notice]))"
proof -
  from run obtain en where en: "ToRequest (now (tr_repo svc)) (tr_addedNanoSecond svc) (tr_jsonMarshal svc) (tr_newUUID svc 0) req = Inr en"
    and steps: "storeSteps svc TransactionStoreProcessNormal req en clientID s = (Inr (), s')"
    and out: "out = ToGetTransactionOut en Map.empty Map.empty"
    by (auto simp: StoreTransaction_def Atomic_Ok_iff split: sum.splits option.splits if_splits prod.splits)
  from steps obtain db where publish: "publishNotificationSuccess svc en clientID (db, snd s) = (Inr (), s')"
    unfolding storeSteps_def bind_Ok_iff readDb_iff onDb_iff call_def calculated_Ok_iff prod.inject
    by clarsimp
  then obtain notice where "snd s' = snd s @ [notice]"
    by (auto simp: publishNotificationSuccess_def bind_Ok_iff call_def assign_iff)
  moreover have "StoreTransaction (failingService e svc) req TransactionStoreProcessNormal clientID s =
      ((out, Some e), (fst s, snd s'))"
    using run steps en
    by (auto simp: StoreTransaction_def Atomic_def out split: sum.splits option.splits if_splits
        prod.splits)
  ultimately show ?thesis by auto
qed

lemma failed_commit_still_notifies_witness:
  "StoreTransaction (exampleTrx (Some (External ''connection lost''))) (ToTransactionReq 1 ''r'' (exampleDirect False))
     TransactionStoreProcessNormal ''client'' (exampleState 200 0 1 0 1 [] [], []) =
   ((ToGetTransactionOut (exampleLine ''r'' ''REF'' ''1'') Map.empty Map.empty, Some (External ''connection lost'')),
    (exampleState 200 0 1 0 1 [] [], [exampleNotice ''r'' ''REF'' ''client'']))"
proof -
  have "StoreTransaction (exampleTrx None) (ToTransactionReq 1 ''r'' (exampleDirect False)) TransactionStoreProcessNormal
      ''client'' (exampleState 200 0 1 0 1 [] [], []) =
    ((ToGetTransactionOut (exampleLine ''r'' ''REF'' ''1'') Map.empty Map.empty, None),
     (exampleState 150 0 2 50 2 [] [exampleLine ''r'' ''REF'' ''1''], [exampleNotice ''r'' ''REF'' ''client'']))"
    by (subst example_StoreTransaction [where r = False])
      (simp_all add: Atomic_def example_storeSteps [OF _ _ example_notice, simplified])
  note failed = failed_commit_still_notifies [OF this, of "External ''connection lost''"]
  have "failingService e (exampleTrx None) = exampleTrx (Some e)" for e
    by (simp add: failingService_def exampleTrx_def failingCommit_def exampleRepo_def fun_eq_iff)
  with failed show ?thesis by simp
qed

section \<open>A transaction that does not exist\<close>

text \<open>
  To settle a transaction that does not exist is answered with an internal error and not with 404, although the
  handler has a branch for it: its call of \<open>errors.Is\<close> has the arguments the wrong way round.
\<close>

lemma missing_transaction_is_internal_error:
  assumes "find (\<lambda>t. txn_TransactionID t = i) (db_transaction (fst s)) = None" and "i \<noteq> ''''"
    and "status = ''commit'' \<or> status = ''cancel''"
  shows "serve svc (UpdateStatusCall i status clientID) s = (500, s)"
proof -
  obtain e where lookup: "RepoGetByTransactionID (tr_repo svc) i (fst s) = Inl e"
    using assms(1) by (cases "fault (tr_repo svc) SelectTransactions")
      (auto simp: RepoGetByTransactionID_def TransactionByID_def failIf_def)
  let ?e = "wrapErr ''unable to get trx'' (checkDatabaseError (tr_errorText svc) e None)"
  have wrapped: "updateStatusCode ?e = 500"
    by (simp add: checkDatabaseError_def updateStatusCode_def)
  have "CommitReservedTransaction svc i clientID s = (Inl ?e, s)" "CancelReservedTransaction svc i s = (Inl ?e, s)"
    by (simp_all add: CommitReservedTransaction_def CancelReservedTransaction_def lookup)
  with assms(2,3) wrapped show ?thesis
    by (auto simp: updateStatusReservedTransaction_def)
qed

lemma missing_transaction_is_internal_error_witness:
  "serve (exampleTrx None) (UpdateStatusCall ''x'' ''commit'' ''client'') (exampleState 200 0 1 0 1 [] [], []) =
     (500, (exampleState 200 0 1 0 1 [] [], []))"
  by (rule missing_transaction_is_internal_error) simp_all

end
