(* ===== verification/BulkTransactions.thy ===== *)
theory BulkTransactions
  imports TransactionFaults
begin

text \<open>
  \<open>StoreBulkTransaction\<close>: what it stores, when it stops early, and what a pending row that it stored does to
  the reservations of the same account.
\<close>

section \<open>What a call stores\<close>

definition refs :: "'d DB \<Rightarrow> string set" where
  "refs db = txn_RefNumber ` set (db_transaction db)"

lemma CheckRefNumbers_Ok:
  "CheckRefNumbers cfg rns db = Inr exists \<longleftrightarrow>
     fault cfg SelectTransactions = None \<and> exists = (\<lambda>rn. if rn \<in> set rns then Some (rn \<in> refs db) else None)"
proof -
  have "list_ex (\<lambda>t. txn_RefNumber t = rn) (db_transaction db) \<longleftrightarrow> rn \<in> refs db" for rn
    by (auto simp: list_ex_iff refs_def)
  then show ?thesis by (auto simp: CheckRefNumbers_def rbind_Ok_iff failIf_def split: option.splits)
qed

lemma bulkRows_refs:
  assumes "bulkRows svc k chunk = Inr rows"
  shows "map txn_RefNumber rows = map req_RefNumber chunk"
proof -
  have "list_all2 (\<lambda>(k, q) t. txn_RefNumber t = req_RefNumber q) (List.enumerate k chunk) rows"
    using assms unfolding bulkRows_def traverse_Ok_iff
    by (rule list_all2_mono) (auto simp: ToRequest_fields)
  then have "map (\<lambda>(k, q). req_RefNumber q) (List.enumerate k chunk) = map txn_RefNumber rows"
    by (simp add: list_all2_conv_all_nth list_eq_iff_nth_eq case_prod_beta)
  moreover have "map (\<lambda>(k, q). req_RefNumber q) (List.enumerate k chunk) = map req_RefNumber chunk"
    by (induction chunk arbitrary: k) auto
  ultimately show ?thesis by simp
qed

text \<open>One chunk: it fails and changes nothing, it is known entirely, or its new rows are stored.\<close>

lemma storeChunks_step:
  assumes "storeChunks svc k (chunk # rest) db = (e, db')"
  obtains (failed) er where "e = Some er" and "db' = db"
  | (known) "e = None" and "db' = db" and "req_RefNumber ` set chunk \<subseteq> refs db"
  | (stored) rows new where "bulkRows svc k chunk = Inr rows" and "new = filter (\<lambda>t. txn_RefNumber t \<notin> refs db) rows"
      and "new \<noteq> []"
      and "(\<exists>er. e = Some er \<and> db' = db\<lparr>db_transaction := db_transaction db @ new\<rparr>) \<or>
           storeChunks svc (k + length chunk) rest (db\<lparr>db_transaction := db_transaction db @ new\<rparr>) = (e, db')"
proof (cases "bulkRows svc k chunk")
  case (Inl er)
  with assms show thesis by (intro failed [of er]) auto
next
  case rows: (Inr rows)
  show thesis
  proof (cases "CheckRefNumbers (tr_repo svc) (map txn_RefNumber rows) db")
    case (Inl er)
    with assms rows show thesis by (intro failed [of er]) auto
  next
    case (Inr exists)
    then have exists: "exists = (\<lambda>rn. if rn \<in> set (map txn_RefNumber rows) then Some (rn \<in> refs db) else None)"
      by (simp add: CheckRefNumbers_Ok)
    define new where "new = filter (\<lambda>t. txn_RefNumber t \<notin> refs db) rows"
    have filtered: "filter (\<lambda>t. exists (txn_RefNumber t) \<noteq> Some True) rows = new"
      by (auto simp: new_def exists intro: filter_cong)
    show thesis
    proof (cases "new = []")
      case True
      have "req_RefNumber ` set chunk = txn_RefNumber ` set rows"
        using bulkRows_refs [OF rows] by (metis list.set_map)
      also have "\<dots> \<subseteq> refs db"
        using True by (auto simp: new_def filter_empty_conv)
      finally show thesis
        using assms rows Inr filtered True by (intro known) (simp_all add: Let_def)
    next
      case False
      show thesis
      proof (cases "StoreBulk (tr_repo svc) new db")
        case store: (Pair r db1)
        show thesis
        proof (cases r)
          case (Inl er)
          then have "db1 = db"
            using store by (auto simp: StoreBulk_def split: option.splits if_splits)
          with assms rows Inr filtered False store Inl show thesis
            by (intro failed [of er]) (simp_all add: Let_def)
        next
          case inserted: (Inr u)
          with store have "db1 = db\<lparr>db_transaction := db_transaction db @ new\<rparr>"
            by (simp add: StoreBulk_Ok_iff)
          moreover have "(case ensureAccountExists svc (concat (map (\<lambda>t. [txn_FromAccount t, txn_ToAccount t]) new)) db1 of
              Some er \<Rightarrow> (Some er, db1) | None \<Rightarrow> storeChunks svc (k + length chunk) rest db1) = (e, db')"
            using assms rows Inr filtered False store inserted by (simp add: Let_def)
          ultimately show thesis
            using rows False new_def
            by (intro stored [of rows new])
              (cases "ensureAccountExists svc (concat (map (\<lambda>t. [txn_FromAccount t, txn_ToAccount t]) new)) db1"; auto)+
        qed
      qed
    qed
  qed
qed

text \<open>A row that was made from a request.\<close>

definition rowOf :: "'d TrxService \<Rightarrow> 'd TransactionReq \<Rightarrow> 'd Transaction \<Rightarrow> bool" where
  "rowOf svc q t \<longleftrightarrow>
     (\<exists>n. ToRequest (now (tr_repo svc)) (tr_addedNanoSecond svc) (tr_jsonMarshal svc) (tr_newUUID svc n) q = Inr t)"

lemma bulkRows_rowOf:
  assumes "bulkRows svc k chunk = Inr rows" and "t \<in> set rows"
  shows "\<exists>q\<in>set chunk. rowOf svc q t"
proof -
  from traverse_member [OF assms(1) [unfolded bulkRows_def] assms(2)] obtain n q
    where "(n, q) \<in> set (List.enumerate k chunk)"
      and "ToRequest (now (tr_repo svc)) (tr_addedNanoSecond svc) (tr_jsonMarshal svc) (tr_newUUID svc n) q = Inr t"
    by auto
  then show ?thesis by (auto simp: rowOf_def in_set_enumerate_eq intro!: bexI [of _ q])
qed

definition newRows :: "'d TrxService \<Rightarrow> 'd TransactionReq set \<Rightarrow> 'd DB \<Rightarrow> 'd Transaction list \<Rightarrow> bool" where
  "newRows svc qs db rows \<longleftrightarrow> (\<forall>t\<in>set rows. txn_RefNumber t \<notin> refs db \<and> (\<exists>q\<in>qs. rowOf svc q t))"

lemma newRows_mono: "newRows svc qs db rows \<Longrightarrow> qs \<subseteq> qs' \<Longrightarrow> refs db' \<subseteq> refs db \<Longrightarrow> newRows svc qs' db' rows"
  unfolding newRows_def by blast

lemma newRows_append [simp]: "newRows svc qs db (rows @ rows') \<longleftrightarrow> newRows svc qs db rows \<and> newRows svc qs db rows'"
  by (auto simp: newRows_def)

lemma storeChunks_adds:
  assumes "storeChunks svc k chunks db = (e, db')"
  shows "\<exists>rows. db' = db\<lparr>db_transaction := db_transaction db @ rows\<rparr> \<and> newRows svc (set (concat chunks)) db rows"
  using assms
proof (induction chunks arbitrary: k db)
  case Nil
  then show ?case by (intro exI [of _ "[]"]) (simp add: newRows_def)
next
  case (Cons chunk rest)
  have unchanged: "\<exists>rows. db = db\<lparr>db_transaction := db_transaction db @ rows\<rparr> \<and>
      newRows svc (set (concat (chunk # rest))) db rows"
    by (intro exI [of _ "[]"]) (simp add: newRows_def)
  from Cons.prems show ?case
  proof (cases rule: storeChunks_step)
    case (stored rows new)
    let ?db = "db\<lparr>db_transaction := db_transaction db @ new\<rparr>"
    have new: "newRows svc (set (concat (chunk # rest))) db new"
      using bulkRows_rowOf [OF stored(1)] by (fastforce simp: newRows_def stored(2))
    from stored(4) show ?thesis
    proof
      assume "\<exists>er. e = Some er \<and> db' = ?db"
      with new show ?thesis by blast
    next
      assume "storeChunks svc (k + length chunk) rest ?db = (e, db')"
      from Cons.IH [OF this] obtain rows' where db': "db' = db\<lparr>db_transaction := db_transaction db @ (new @ rows')\<rparr>"
        and rows': "newRows svc (set (concat rest)) ?db rows'" by auto
      have "newRows svc (set (concat (chunk # rest))) db (new @ rows')"
        using new newRows_mono [OF rows', of "set (concat (chunk # rest))" db] by (auto simp: refs_def)
      with db' show ?thesis by blast
    qed
  next
    case (failed er)
    with unchanged show ?thesis by blast
  next
    case known
    with unchanged show ?thesis by blast
  qed
qed

text \<open>A call that meets no chunk it knows entirely leaves every reference number of its requests in the ledger.\<close>

lemma storeChunks_complete:
  assumes "storeChunks svc k chunks db = (None, db')" and "distinct (map req_RefNumber (concat chunks))"
    and "\<forall>chunk\<in>set chunks. \<not> req_RefNumber ` set chunk \<subseteq> refs db"
  shows "req_RefNumber ` set (concat chunks) \<subseteq> refs db'"
  using assms
proof (induction chunks arbitrary: k db)
  case (Cons chunk rest)
  from Cons.prems(1) show ?case
  proof (cases rule: storeChunks_step)
    case (stored rows new)
    let ?db = "db\<lparr>db_transaction := db_transaction db @ new\<rparr>"
    have rest: "storeChunks svc (k + length chunk) rest ?db = (None, db')"
      using stored(4) by auto
    have "refs ?db = refs db \<union> txn_RefNumber ` set new" by (auto simp: refs_def)
    also have "\<dots> = refs db \<union> txn_RefNumber ` set rows" by (auto simp: stored(2))
    also have "txn_RefNumber ` set rows = req_RefNumber ` set chunk"
      using arg_cong [OF bulkRows_refs [OF stored(1)], of set] by simp
    finally have refs: "refs ?db = refs db \<union> req_RefNumber ` set chunk" .
    have "\<not> req_RefNumber ` set c \<subseteq> refs ?db" if "c \<in> set rest" for c
    proof -
      have "req_RefNumber ` set c \<inter> req_RefNumber ` set chunk = {}"
        using Cons.prems(2) that by auto
      moreover have "\<not> req_RefNumber ` set c \<subseteq> refs db"
        using Cons.prems(3) that by simp
      ultimately show ?thesis unfolding refs by blast
    qed
    with Cons.IH [OF rest] Cons.prems(2) have "req_RefNumber ` set (concat rest) \<subseteq> refs db'" by simp
    moreover from storeChunks_adds [OF rest] have "refs ?db \<subseteq> refs db'" by (auto simp: refs_def)
    ultimately show ?thesis by (auto simp: refs)
  qed (use Cons.prems(3) in auto)
qed simp

lemma StoreBulkTransaction_pieces:
  "0 < tr_BatchSize svc \<Longrightarrow>
     StoreBulkTransaction svc req db = Some (storeChunks svc 0 (pieces (nat (tr_BatchSize svc)) req) db)"
  by (simp add: StoreBulkTransaction_def ChunkBy_pieces)

text \<open>
  C24: Storing in bulk only adds rows to the ledger: each comes from a request whose reference number the ledger did not have,
  no balance changes, and a call without an error that meets no chunk it knows entirely leaves the reference
  number of every request in the ledger.
\<close>

theorem bulk_store_adds_new_rows:
  assumes "0 < tr_BatchSize svc"
  shows "\<exists>e db'. StoreBulkTransaction svc req db = Some (e, db') \<and>
     (\<exists>rows. db' = db\<lparr>db_transaction := db_transaction db @ rows\<rparr> \<and> newRows svc (set req) db rows) \<and>
     (e = None \<and> distinct (map req_RefNumber req) \<and>
        (\<forall>chunk\<in>set (pieces (nat (tr_BatchSize svc)) req). \<not> req_RefNumber ` set chunk \<subseteq> refs db) \<longrightarrow>
      req_RefNumber ` set req \<subseteq> refs db')"
proof -
  let ?chunks = "pieces (nat (tr_BatchSize svc)) req"
  obtain e db' where run: "storeChunks svc 0 ?chunks db = (e, db')" by (metis surj_pair)
  from storeChunks_adds [OF run] storeChunks_complete [of svc 0 ?chunks db db'] run show ?thesis
    by (auto simp: StoreBulkTransaction_pieces [OF assms] concat_pieces)
qed

text \<open>
  A chunk whose reference numbers the ledger has all ends the call with success: nothing after it is stored, whatever
  it is.
\<close>

lemma known_chunk_ends_bulk_store:
  assumes "int (length chunk) = tr_BatchSize svc" and "chunk \<noteq> []" and "rest \<noteq> []"
    and "fault (tr_repo svc) SelectTransactions = None" and "bulkRows svc 0 chunk = Inr rows"
    and "req_RefNumber ` set chunk \<subseteq> refs db"
  shows "StoreBulkTransaction svc (chunk @ rest) db = Some (None, db)"
proof -
  from assms(1,2) have size: "0 < tr_BatchSize svc" and n: "nat (tr_BatchSize svc) = length chunk"
    by (simp_all flip: assms(1))
  have chunks: "pieces (nat (tr_BatchSize svc)) (chunk @ rest) = chunk # pieces (length chunk) rest"
    using assms(2,3) by (subst pieces.simps) (simp add: n)
  have "set (map txn_RefNumber rows) \<subseteq> refs db"
    using assms(6) arg_cong [OF bulkRows_refs [OF assms(5)], of set] by simp
  then have known: "\<forall>t\<in>set rows. txn_RefNumber t \<in> refs db" by auto
  have check: "CheckRefNumbers (tr_repo svc) (map txn_RefNumber rows) db =
      Inr (\<lambda>rn. if rn \<in> set (map txn_RefNumber rows) then Some (rn \<in> refs db) else None)"
    by (simp add: CheckRefNumbers_Ok assms(4) del: set_map)
  have "storeChunks svc 0 (chunk # pieces (length chunk) rest) db = (None, db)"
    using known by (simp add: assms(5) check Let_def filter_empty_conv)
  then show ?thesis by (simp add: StoreBulkTransaction_pieces [OF size] chunks)
qed

section \<open>A pending row without a hold\<close>

lemma find_snoc:
  "find P (xs @ [x]) = (case find P xs of None \<Rightarrow> if P x then Some x else None | Some y \<Rightarrow> Some y)"
  by (induction xs) auto

lemma StoreBulkTransaction_single:
  assumes "StoreBulkTransaction svc [q] db = Some (None, db1)" and "req_RefNumber q \<notin> refs db" and "0 < tr_BatchSize svc"
  obtains t where "rowOf svc q t" "db1 = db\<lparr>db_transaction := db_transaction db @ [t]\<rparr>"
proof -
  have single: "pieces (nat (tr_BatchSize svc)) [q] = [[q]]"
    using assms(3) by (subst pieces.simps) simp
  from assms(1,3) have "storeChunks svc 0 [[q]] db = (None, db1)"
    by (simp add: StoreBulkTransaction_pieces single del: storeChunks.simps)
  then show thesis
  proof (cases rule: storeChunks_step)
    case (stored rows new)
    from bulkRows_refs [OF stored(1)] obtain t where rows: "rows = [t]" by auto
    with stored(2,3) have "new = [t]" by (auto split: if_splits)
    with stored(1,4) bulkRows_rowOf [OF stored(1), of t] rows that show thesis by auto
  qed (use assms(2) in auto)
qed

text \<open>
  C33: A pending row stored in bulk holds no money, but it can be committed with the money that a reservation of the same
  account holds: when one is all there is on hold, that reservation can then neither be committed nor
  cancelled.
\<close>

theorem bulk_row_spends_the_hold_of_another:
  assumes bulk: "StoreBulkTransaction svc [q] db = Some (None, db1)"
    and new: "req_RefNumber q \<notin> refs db" and id: "req_TransactionID q \<noteq> ''''"
    and fresh: "find (\<lambda>t. txn_TransactionID t = req_TransactionID q) (db_transaction db) = None"
    and same: "req_Status q = ''0''" "req_FromAccount q = txn_FromAccount r" "req_Amount q = Some y"
    and reserved: "find (\<lambda>t. txn_TransactionID t = i) (db_transaction db) = Some r" "txn_Status r = ''0''" "txn_Amount r = Some x"
    and all: "fundsOf db (txn_FromAccount r) = Some (act, x)"
    and size: "0 < tr_BatchSize svc"
    and commit: "serve svc1 (UpdateStatusCall (req_TransactionID q) ''commit'' c1) (db1, ns) = (200, s2)" "visitsMaps svc1"
    and later: "visitsMaps svc2"
  shows "fst (serve svc2 (UpdateStatusCall i action c2) s2) \<noteq> 200"
proof
  let ?j = "req_TransactionID q"
  from StoreBulkTransaction_single [OF bulk new size]
  obtain t where t: "rowOf svc q t" and db1: "db1 = db\<lparr>db_transaction := db_transaction db @ [t]\<rparr>" .
  from t have fields: "txn_TransactionID t = ?j" "txn_FromAccount t = txn_FromAccount r" "txn_Status t = ''0''"
      "txn_Amount t = Some y"
    using id same by (auto simp: rowOf_def ToRequest_fields)
  have "?j \<noteq> i" using fresh reserved(1) by auto
  have row: "find (\<lambda>e. en_id e = ?j) (map entryOf (db_transaction db1)) = Some (entryOf t)"
    and other: "find (\<lambda>e. en_id e = i) (map entryOf (db_transaction db1)) = Some (entryOf r)"
    using fresh reserved(1) fields(1) by (simp_all add: find_entryOf db1 find_snoc)
  have funds: "fundsOf db1 = fundsOf db" by (simp add: db1 fundsOf_def)
  from transaction_service_simulates [OF commit(2,1)]
  have "bookStep (exempted svc1) (Settle ?j) (bookOf db1) = Some (bookOf (fst s2))"
    by (simp add: answered_def del: bookStep.simps)
  then have "0 < y \<and> bookOf (fst s2) =
      \<lparr>bk_holdings = adjust (txn_ToAccount t) y 0 (adjust (txn_FromAccount r) (- y) (- y) (fundsOf db)),
       bk_entries = setPhase ?j Settled (map entryOf (db_transaction db1))\<rparr>"
    unfolding bookStep_Settle_iff by (auto simp: bookOf_def row funds entryOf_def phaseOf_def fields)
  then have y: "0 < y" and h: "fundsOf (fst s2) = adjust (txn_ToAccount t) y 0 (adjust (txn_FromAccount r) (- y) (- y) (fundsOf db))"
    and es: "map entryOf (db_transaction (fst s2)) = setPhase ?j Settled (map entryOf (db_transaction db1))"
    by (auto simp: bookOf_def)
  have held: "\<not> hasHeld (fundsOf (fst s2)) (txn_FromAccount r) x"
    using y all by (auto simp: h hasHeld_def adjust_simps)
  have kept: "find (\<lambda>e. en_id e = i) (setPhase ?j p es') = find (\<lambda>e. en_id e = i) es'" for p es'
    using \<open>?j \<noteq> i\<close> by (induction es') (auto simp: setPhase_def)
  have pending: "find (\<lambda>e. en_id e = i) (bk_entries (bookOf (fst s2))) = Some (entryOf r)"
    using other by (simp add: bookOf_def es kept)
  assume ok: "fst (serve svc2 (UpdateStatusCall i action c2) s2) = 200"
  obtain s3 where "serve svc2 (UpdateStatusCall i action c2) s2 = (200, s3)"
    using ok by (metis prod.collapse)
  from transaction_service_simulates [OF later this] pending held reserved(2,3) show False
    using bookStep_Settle_iff [of "exempted svc2" i "bookOf (fst s2)" "bookOf (fst s3)"]
      bookStep_Release_iff [of "exempted svc2" i "bookOf (fst s2)" "bookOf (fst s3)"]
    by (auto simp: answered_def bookOf_def simp del: bookStep.simps split: if_splits)
qed

section \<open>The theorems, applied\<close>

definition exampleBulk :: "string \<Rightarrow> string \<Rightarrow> rat TransactionReq" where
  "exampleBulk i ref = ToTransactionReq 1 i (exampleDirect True\<lparr>dc_RefNumber := ref\<rparr>)"

lemma exampleBulk_simps [simp]:
  "req_TransactionID (exampleBulk i ref) = i" "req_RefNumber (exampleBulk i ref) = ref"
  "req_Status (exampleBulk i ref) = ''0''" "req_FromAccount (exampleBulk i ref) = ''ACC''"
  "req_Amount (exampleBulk i ref) = Some 50"
  by (simp_all add: exampleBulk_def exampleDirect_def ToTransactionReq_def)

lemma example_bulkRow: "i \<noteq> '''' \<Longrightarrow> ToRequest 1 0 (\<lambda>_. Inr ''{}'') u (exampleBulk i ref) = Inr (exampleLine i ref ''0'')"
  using example_date [of 0]
  by (simp add: ToRequest_def ToTransactionReq_def exampleBulk_def exampleDirect_def exampleLine_def)

lemma example_bulkStore:
  assumes "i \<noteq> ''''" and "i \<notin> txn_TransactionID ` set ts" and "ref \<notin> txn_RefNumber ` set ts"
  shows "StoreBulkTransaction (exampleTrx None) [exampleBulk i ref] (exampleState actual pending ver parked hver ws ts) =
     Some (None, exampleState actual pending ver parked hver ws (ts @ [exampleLine i ref ''0'']))"
proof -
  have refs: "ref \<notin> refs (exampleState actual pending ver parked hver ws ts)"
    using assms(3) by (simp add: refs_def)
  have check: "CheckRefNumbers (exampleRepo None) [ref] (exampleState actual pending ver parked hver ws ts) =
      Inr (\<lambda>rn. if rn = ref then Some False else None)"
    using refs by (auto simp: CheckRefNumbers_Ok fun_eq_iff)
  have "txn_FromAccount (exampleLine i ref ''0'') = ''ACC''" "txn_ToAccount (exampleLine i ref ''0'') = ''HOLD''"
    by (simp_all add: exampleLine_def)
  then have "storeChunks (exampleTrx None) 0 [[exampleBulk i ref]] (exampleState actual pending ver parked hver ws ts) =
      (None, exampleState actual pending ver parked hver ws (ts @ [exampleLine i ref ''0'']))"
    using assms(2) example_bulkRow [OF assms(1)] example_checks(2)
    by (simp add: bulkRows_def check Let_def StoreBulk_def)
  moreover have "pieces 1 [exampleBulk i ref] = [[exampleBulk i ref]]"
    by (subst pieces.simps) simp
  ultimately show ?thesis by (simp add: StoreBulkTransaction_pieces)
qed

lemma bulk_store_adds_new_rows_witness:
  "0 < tr_BatchSize (exampleTrx None) \<and>
   (\<exists>rows. exampleState 200 0 1 0 1 [] [exampleLine ''b'' ''OTHER'' ''0''] =
             exampleState 200 0 1 0 1 [] rows \<and> newRows (exampleTrx None) {exampleBulk ''b'' ''OTHER''}
               (exampleState 200 0 1 0 1 [] []) rows)"
  using bulk_store_adds_new_rows [of "exampleTrx None" "[exampleBulk ''b'' ''OTHER'']" "exampleState 200 0 1 0 1 [] []"]
  by (auto simp: example_bulkStore)

lemma known_chunk_ends_bulk_store_witness:
  "StoreBulkTransaction (exampleTrx None) [exampleBulk ''a'' ''REF'', exampleBulk ''b'' ''OTHER'']
     (exampleState 200 50 2 0 2 [] [exampleLine ''r'' ''REF'' ''0'']) =
   Some (None, exampleState 200 50 2 0 2 [] [exampleLine ''r'' ''REF'' ''0''])"
proof -
  have "bulkRows (exampleTrx None) 0 [exampleBulk ''a'' ''REF''] = Inr [exampleLine ''a'' ''REF'' ''0'']"
    by (simp add: bulkRows_def example_bulkRow)
  from known_chunk_ends_bulk_store [OF _ _ _ _ this, of "[exampleBulk ''b'' ''OTHER'']"
      "exampleState 200 50 2 0 2 [] [exampleLine ''r'' ''REF'' ''0'']"]
  show ?thesis by (simp add: refs_def)
qed

lemma bulk_row_spends_the_hold_of_another_witness:
  "\<exists>s2. serve (exampleTrx None) (UpdateStatusCall ''b'' ''commit'' ''client'')
          (exampleState 200 50 2 0 2 [] [exampleLine ''r'' ''REF'' ''0'', exampleLine ''b'' ''OTHER'' ''0''], []) = (200, s2) \<and>
        fst (serve (exampleTrx None) (UpdateStatusCall ''r'' ''cancel'' ''client'') s2) \<noteq> 200"
proof -
  let ?row = "exampleLine ''b'' ''OTHER'' ''0''" and ?r = "exampleLine ''r'' ''REF'' ''0''"
  let ?db = "exampleState 200 50 2 0 2 [] [?r]" and ?db1 = "exampleState 200 50 2 0 2 [] [?r, ?row]"
  have row: "?row\<lparr>txn_Status := ''1''\<rparr> = exampleLine ''b'' ''OTHER'' ''1''"
    and fields: "txn_Status ?row = ''0''" "txn_Amount ?row = Some 50" "txn_FromAccount ?row = ''ACC''" "txn_ToAccount ?row = ''HOLD''"
      "txn_Status ?r = ''0''" "txn_Amount ?r = Some 50" "txn_FromAccount ?r = ''ACC''"
    by (simp_all add: exampleLine_def)
  have found: "find (\<lambda>t. txn_TransactionID t = ''b'') (db_transaction (fst (?db1, []))) = Some ?row" by simp
  obtain s2 where steps: "commitReservedSteps (exampleTrx None) ''b'' ''client'' (?db1, []) = (Inr (?row\<lparr>txn_Status := ''1''\<rparr>), s2)"
    by (rule commit_runs [OF exampleTrx_healthy found fields(2)])
      (use example_lib [of None "''b''" "''OTHER''" "''client''"] in
        \<open>auto simp: fields example_funds hasHeld_def row\<close>)
  have "RepoGetByTransactionID (exampleRepo None) ''b'' ?db1 =
      Inr (?row\<lparr>txn_OrderTime := 0, txn_OrderType := '''', txn_TransactionTime := 0, txn_Currency := ''''\<rparr>)"
    by (simp add: RepoGetByTransactionID_def TransactionByID_def failIf_def)
  with steps have commit: "serve (exampleTrx None) (UpdateStatusCall ''b'' ''commit'' ''client'') (?db1, []) = (200, s2)"
    by (simp add: updateStatusReservedTransaction_def CommitReservedTransaction_def IsSuccess_def IsPending_def
        fields Atomic_def split: prod.splits)
  have "StoreBulkTransaction (exampleTrx None) [exampleBulk ''b'' ''OTHER''] ?db = Some (None, ?db1)"
    by (subst example_bulkStore) simp_all
  note bulk = this
  have "fst (serve (exampleTrx None) (UpdateStatusCall ''r'' ''cancel'' ''client'') s2) \<noteq> 200"
    by (rule bulk_row_spends_the_hold_of_another [OF bulk _ _ _ _ _ _ _ fields(5,6) _ _ _ exampleTrx_visits exampleTrx_visits])
      (use commit in \<open>simp_all add: refs_def fields example_funds\<close>)
  with commit show ?thesis by blast
qed

end
