(* ===== verification/MoneyFlow.thy ===== *)
theory MoneyFlow
  imports TransactionStore
begin

text \<open>
  Money flow summaries: the tables \<open>money_flow_summaries\<close> and \<open>detailed_money_flow_summaries\<close> and their
  repository (\<open>internal/repositories/sql_money_flow_calc.go\<close>), with the records of
  \<open>internal/models/money_flow_calc.go\<close>.  The table has, as its upsert demands, a unique index on the date and
  the payment type of the active rows.  The lemmas say which rows a statement finds and what it leaves.
\<close>

section \<open>Tables\<close>

record 'd MoneyFlowSummary =
  mfs_ID :: string
  mfs_TransactionSourceCreationDate :: int
  mfs_TransactionType :: string
  mfs_PaymentType :: string
  mfs_ReferenceNumber :: string
  mfs_Description :: string
  mfs_SourceAccount :: string
  mfs_DestinationAccount :: string
  mfs_TotalTransfer :: 'd
  mfs_PapaTransactionID :: string
  mfs_MoneyFlowStatus :: string
  mfs_RequestedDate :: "int option"
  mfs_ActualDate :: "int option"
  mfs_SourceBankAccountNumber :: string
  mfs_SourceBankAccountName :: string
  mfs_SourceBankName :: string
  mfs_DestinationBankAccountNumber :: string
  mfs_DestinationBankAccountName :: string
  mfs_DestinationBankName :: string
  mfs_CreatedAt :: int
  mfs_UpdatedAt :: int
  mfs_RelatedFailedOrRejectedSummaryID :: "string option"
  mfs_IsActive :: bool

record DetailedMoneyFlowSummary =
  dmf_ID :: string
  dmf_SummaryID :: string
  dmf_AcuanTransactionID :: string
  dmf_CreatedAt :: int

record 'd MFDB =
  mf_summaries :: "'d MoneyFlowSummary list"
  mf_details :: "DetailedMoneyFlowSummary list"

text \<open>What the code passes to the repository.\<close>

record 'd CreateMoneyFlowSummary =
  cms_ID :: string
  cms_TransactionSourceCreationDate :: int
  cms_TransactionType :: string
  cms_PaymentType :: string
  cms_ReferenceNumber :: string
  cms_Description :: string
  cms_SourceAccount :: string
  cms_DestinationAccount :: string
  cms_TotalTransfer :: 'd
  cms_PapaTransactionID :: string
  cms_MoneyFlowStatus :: string
  cms_RequestedDate :: "int option"
  cms_ActualDate :: "int option"
  cms_SourceBankAccountNumber :: string
  cms_SourceBankAccountName :: string
  cms_SourceBankName :: string
  cms_DestinationBankAccountNumber :: string
  cms_DestinationBankAccountName :: string
  cms_DestinationBankName :: string
  cms_RelatedFailedOrRejectedSummaryID :: "string option"
  cms_CreatedAt :: int

record 'd MoneyFlowSummaryUpdate =
  upd_PaymentType :: "string option"
  upd_TotalTransfer :: "'d option"
  upd_PapaTransactionID :: "string option"
  upd_MoneyFlowStatus :: "string option"
  upd_RequestedDate :: "int option"
  upd_ActualDate :: "int option"

text \<open>The rows as they are read.\<close>

record 'd FailedOrRejectedTransaction =
  fr_ID :: string
  fr_TransactionSourceCreationDate :: int
  fr_TransactionType :: string
  fr_PaymentType :: string
  fr_TotalTransfer :: 'd
  fr_MoneyFlowStatus :: string
  fr_CreatedAt :: int

record 'd MoneyFlowSummaryDetail =
  sd_ID :: string
  sd_TransactionType :: string
  sd_PaymentType :: string
  sd_CreatedDate :: int
  sd_TransactionSourceCreationDate :: int
  sd_RequestedDate :: "int option"
  sd_ActualDate :: "int option"
  sd_TotalAmount :: 'd
  sd_Status :: string
  sd_SourceBankAccountNumber :: string
  sd_SourceBankAccountName :: string
  sd_SourceAccountNumber :: string
  sd_SourceBankName :: string
  sd_DestinationBankAccountNumber :: string
  sd_DestinationBankAccountName :: string
  sd_DestinationBankName :: string
  sd_RelatedFailedOrRejectedSummaryID :: "string option"
  sd_RelatedTotalTransfer :: 'd

text \<open>
  The environment: the faults and the clock of the repositories; what the date column gives back for an
  instant that is stored in it, which depends on its type; and the order in which the database visits the
  rows of a query that does not order them.
\<close>

record 'd MFRepo =
  mf_repo :: "'d RepoConfig"
  mf_dateColumn :: "int \<Rightarrow> int"
  mf_scan :: "'d MoneyFlowSummary list \<Rightarrow> 'd MoneyFlowSummary list"

section \<open>The unique index\<close>

definition activeKeys :: "'d MoneyFlowSummary list \<Rightarrow> (int \<times> string) list" where
  "activeKeys rows =
     map (\<lambda>s. (mfs_TransactionSourceCreationDate s, mfs_PaymentType s)) (filter mfs_IsActive rows)"

text \<open>A statement that leaves two active rows with one key fails and changes nothing.\<close>

definition writeSummaries :: "'d MoneyFlowSummary list \<Rightarrow> ('d MFDB, unit) exec" where
  "writeSummaries rows db =
     (if distinct (activeKeys rows) then (Ok (), db\<lparr>mf_summaries := rows\<rparr>)
      else (Err (External ''duplicate key value violates unique constraint''), db))"

text \<open>\<open>UPDATE ... WHERE id = $1\<close>, with its count of rows checked.\<close>

definition updateRow ::
  "'d MFRepo \<Rightarrow> string \<Rightarrow> ('d MoneyFlowSummary \<Rightarrow> 'd MoneyFlowSummary) \<Rightarrow> ('d MFDB, unit) exec" where
  "updateRow repo summaryID change =
     bind (call (failIf (fault (mf_repo repo) UpdateSummaryRow))) (\<lambda>_.
     bind (\<lambda>db. writeSummaries (map (\<lambda>s. if mfs_ID s = summaryID then change s else s) (mf_summaries db)) db) (\<lambda>_ db.
     if list_ex (\<lambda>s. mfs_ID s = summaryID) (mf_summaries db) then return () db
     else fail (Sentinel ErrNoRowsAffected) db))"

section \<open>Writing\<close>

definition summaryRow :: "'d MFRepo \<Rightarrow> 'd CreateMoneyFlowSummary \<Rightarrow> 'd MoneyFlowSummary" where
  "summaryRow repo c =
     \<lparr>mfs_ID = cms_ID c,
      mfs_TransactionSourceCreationDate = mf_dateColumn repo (cms_TransactionSourceCreationDate c),
      mfs_TransactionType = cms_TransactionType c, mfs_PaymentType = cms_PaymentType c,
      mfs_ReferenceNumber = cms_ReferenceNumber c, mfs_Description = cms_Description c,
      mfs_SourceAccount = cms_SourceAccount c, mfs_DestinationAccount = cms_DestinationAccount c,
      mfs_TotalTransfer = cms_TotalTransfer c, mfs_PapaTransactionID = cms_PapaTransactionID c,
      mfs_MoneyFlowStatus = cms_MoneyFlowStatus c, mfs_RequestedDate = cms_RequestedDate c,
      mfs_ActualDate = cms_ActualDate c,
      mfs_SourceBankAccountNumber = cms_SourceBankAccountNumber c,
      mfs_SourceBankAccountName = cms_SourceBankAccountName c,
      mfs_SourceBankName = cms_SourceBankName c,
      mfs_DestinationBankAccountNumber = cms_DestinationBankAccountNumber c,
      mfs_DestinationBankAccountName = cms_DestinationBankAccountName c,
      mfs_DestinationBankName = cms_DestinationBankName c,
      mfs_CreatedAt = cms_CreatedAt c, mfs_UpdatedAt = now (mf_repo repo),
      mfs_RelatedFailedOrRejectedSummaryID = cms_RelatedFailedOrRejectedSummaryID c,
      mfs_IsActive = True\<rparr>"

definition conflicts :: "'d MFRepo \<Rightarrow> 'd CreateMoneyFlowSummary \<Rightarrow> 'd MoneyFlowSummary \<Rightarrow> bool" where
  "conflicts repo c s \<longleftrightarrow>
     mfs_IsActive s \<and> mfs_PaymentType s = cms_PaymentType c \<and>
     mfs_TransactionSourceCreationDate s = mf_dateColumn repo (cms_TransactionSourceCreationDate c)"

text \<open>
  \<open>INSERT ... ON CONFLICT DO UPDATE\<close>: the amount is added to the active row of the day and payment type, whatever
  its status, or a new row is inserted.  The answer has the row's id and whether it is new.
\<close>

definition UpsertSummary ::
  "'d::plus MFRepo \<Rightarrow> 'd CreateMoneyFlowSummary \<Rightarrow> ('d MFDB, string \<times> bool) exec" where
  "UpsertSummary repo c db =
     (case fault (mf_repo repo) UpsertSummaryRow of
        Some e \<Rightarrow> (Err (wrapErr ''failed to upsert summary'' e), db)
      | None \<Rightarrow>
          (case find (conflicts repo c) (mf_summaries db) of
             Some s \<Rightarrow>
               (Ok (mfs_ID s, False),
                db\<lparr>mf_summaries := map (\<lambda>r. if conflicts repo c r
                      then r\<lparr>mfs_TotalTransfer := mfs_TotalTransfer r + cms_TotalTransfer c,
                             mfs_UpdatedAt := now (mf_repo repo)\<rparr>
                      else r) (mf_summaries db)\<rparr>)
           | None \<Rightarrow>
               (Ok (cms_ID c, True), db\<lparr>mf_summaries := mf_summaries db @ [summaryRow repo c]\<rparr>)))"

definition CreateDetailedSummary ::
  "'d MFRepo \<Rightarrow> string \<Rightarrow> string \<Rightarrow> string \<Rightarrow> ('d MFDB, unit) exec" where
  "CreateDetailedSummary repo newID summaryID acuanTransactionID =
     bind (call (failIf (fault (mf_repo repo) InsertDetail))) (\<lambda>_ db.
     (Ok (), db\<lparr>mf_details := mf_details db @
        [\<lparr>dmf_ID = newID, dmf_SummaryID = summaryID, dmf_AcuanTransactionID = acuanTransactionID,
          dmf_CreatedAt = now (mf_repo repo)\<rparr>]\<rparr>))"

text \<open>Only the fields that are given are set; none at all is an error.\<close>

definition setFields ::
  "'d MoneyFlowSummaryUpdate \<Rightarrow> int \<Rightarrow> 'd MoneyFlowSummary \<Rightarrow> 'd MoneyFlowSummary" where
  "setFields u t s =
     s\<lparr>mfs_PaymentType := case_option (mfs_PaymentType s) id (upd_PaymentType u),
       mfs_TotalTransfer := case_option (mfs_TotalTransfer s) id (upd_TotalTransfer u),
       mfs_PapaTransactionID := case_option (mfs_PapaTransactionID s) id (upd_PapaTransactionID u),
       mfs_MoneyFlowStatus := case_option (mfs_MoneyFlowStatus s) id (upd_MoneyFlowStatus u),
       mfs_RequestedDate := case_option (mfs_RequestedDate s) Some (upd_RequestedDate u),
       mfs_ActualDate := case_option (mfs_ActualDate s) Some (upd_ActualDate u),
       mfs_UpdatedAt := t\<rparr>"

definition RepoUpdateSummary ::
  "'d MFRepo \<Rightarrow> string \<Rightarrow> 'd MoneyFlowSummaryUpdate \<Rightarrow> ('d MFDB, unit) exec" where
  "RepoUpdateSummary repo summaryID u =
     (if upd_PaymentType u = None \<and> upd_TotalTransfer u = None \<and> upd_PapaTransactionID u = None \<and>
         upd_MoneyFlowStatus u = None \<and> upd_RequestedDate u = None \<and> upd_ActualDate u = None
      then fail (ErrorMsg ''Error No Field to Update'')
      else updateRow repo summaryID (setFields u (now (mf_repo repo))))"

definition RepoUpdateActivationStatus :: "'d MFRepo \<Rightarrow> string \<Rightarrow> bool \<Rightarrow> ('d MFDB, unit) exec" where
  "RepoUpdateActivationStatus repo summaryID isActive =
     updateRow repo summaryID (\<lambda>s. s\<lparr>mfs_IsActive := isActive, mfs_UpdatedAt := now (mf_repo repo)\<rparr>)"

section \<open>Reading\<close>

definition GetSummaryIDByPapaTransactionID :: "'d MFRepo \<Rightarrow> string \<Rightarrow> 'd MFDB \<Rightarrow> string result" where
  "GetSummaryIDByPapaTransactionID repo papaTransactionID db =
     rbind (failIf (fault (mf_repo repo) SelectSummaryByPapaID)) (\<lambda>_.
     Ok (case find (\<lambda>s. mfs_PapaTransactionID s = papaTransactionID) (mf_scan repo (mf_summaries db)) of
           None \<Rightarrow> ''''
         | Some s \<Rightarrow> mfs_ID s))"

text \<open>The total of the related summary, zero where there is none.\<close>

definition relatedTotal :: "'d::zero MoneyFlowSummary list \<Rightarrow> 'd MoneyFlowSummary \<Rightarrow> 'd" where
  "relatedTotal rows s =
     (case mfs_RelatedFailedOrRejectedSummaryID s of
        None \<Rightarrow> 0
      | Some i \<Rightarrow> (case find (\<lambda>r. mfs_ID r = i) rows of None \<Rightarrow> 0 | Some r \<Rightarrow> mfs_TotalTransfer r))"

definition summaryDetail :: "'d::zero MoneyFlowSummary list \<Rightarrow> 'd MoneyFlowSummary \<Rightarrow> 'd MoneyFlowSummaryDetail" where
  "summaryDetail rows s =
     \<lparr>sd_ID = mfs_ID s, sd_TransactionType = mfs_TransactionType s, sd_PaymentType = mfs_PaymentType s,
      sd_CreatedDate = mfs_CreatedAt s,
      sd_TransactionSourceCreationDate = mfs_TransactionSourceCreationDate s,
      sd_RequestedDate = mfs_RequestedDate s, sd_ActualDate = mfs_ActualDate s,
      sd_TotalAmount = mfs_TotalTransfer s, sd_Status = mfs_MoneyFlowStatus s,
      sd_SourceBankAccountNumber = mfs_SourceBankAccountNumber s,
      sd_SourceBankAccountName = mfs_SourceBankAccountName s,
      sd_SourceAccountNumber = mfs_SourceAccount s, sd_SourceBankName = mfs_SourceBankName s,
      sd_DestinationBankAccountNumber = mfs_DestinationBankAccountNumber s,
      sd_DestinationBankAccountName = mfs_DestinationBankAccountName s,
      sd_DestinationBankName = mfs_DestinationBankName s,
      sd_RelatedFailedOrRejectedSummaryID = mfs_RelatedFailedOrRejectedSummaryID s,
      sd_RelatedTotalTransfer = relatedTotal rows s\<rparr>"

definition GetSummaryDetailBySummaryID ::
  "'d::zero MFRepo \<Rightarrow> string \<Rightarrow> 'd MFDB \<Rightarrow> 'd MoneyFlowSummaryDetail result" where
  "GetSummaryDetailBySummaryID repo summaryID db =
     rbind (failIf (fault (mf_repo repo) SelectSummary)) (\<lambda>_.
     case find (\<lambda>s. mfs_ID s = summaryID \<and> mfs_IsActive s) (mf_summaries db) of
       None \<Rightarrow> Err (Sentinel ErrNoRows)
     | Some s \<Rightarrow> Ok (summaryDetail (mf_summaries db) s))"

text \<open>The same without the filter on active rows; it does not read the source account.\<close>

definition GetSummaryDetailBySummaryIDAllStatus ::
  "'d::zero MFRepo \<Rightarrow> string \<Rightarrow> 'd MFDB \<Rightarrow> 'd MoneyFlowSummaryDetail result" where
  "GetSummaryDetailBySummaryIDAllStatus repo summaryID db =
     rbind (failIf (fault (mf_repo repo) SelectSummary)) (\<lambda>_.
     case find (\<lambda>s. mfs_ID s = summaryID) (mf_summaries db) of
       None \<Rightarrow> Err (Sentinel ErrNoRows)
     | Some s \<Rightarrow> Ok ((summaryDetail (mf_summaries db) s)\<lparr>sd_SourceAccountNumber := ''''\<rparr>))"

definition isFailedOrRejected :: "string \<Rightarrow> string \<Rightarrow> 'd MoneyFlowSummary \<Rightarrow> bool" where
  "isFailedOrRejected transactionType paymentType s \<longleftrightarrow>
     mfs_TransactionType s = transactionType \<and> mfs_PaymentType s = paymentType \<and>
     mfs_MoneyFlowStatus s \<in> {''FAILED'', ''REJECTED''}"

text \<open>\<open>ORDER BY transaction_source_creation_date DESC LIMIT 1\<close>.\<close>

fun latest :: "'d MoneyFlowSummary list \<Rightarrow> 'd MoneyFlowSummary option" where
  "latest [] = None"
| "latest (s # ss) =
     (case latest ss of
        None \<Rightarrow> Some s
      | Some t \<Rightarrow>
          if mfs_TransactionSourceCreationDate s < mfs_TransactionSourceCreationDate t then Some t else Some s)"

definition GetLastFailedOrRejectedTransaction ::
  "'d MFRepo \<Rightarrow> string \<Rightarrow> string \<Rightarrow> 'd MFDB \<Rightarrow> 'd FailedOrRejectedTransaction option result" where
  "GetLastFailedOrRejectedTransaction repo transactionType paymentType db =
     rbind (failIf (fault (mf_repo repo) SelectFailedSummary)) (\<lambda>_.
     Ok (map_option (\<lambda>s.
           \<lparr>fr_ID = mfs_ID s, fr_TransactionSourceCreationDate = mfs_TransactionSourceCreationDate s,
            fr_TransactionType = mfs_TransactionType s, fr_PaymentType = mfs_PaymentType s,
            fr_TotalTransfer = mfs_TotalTransfer s, fr_MoneyFlowStatus = mfs_MoneyFlowStatus s,
            fr_CreatedAt = mfs_CreatedAt s\<rparr>)
         (latest (filter (isFailedOrRejected transactionType paymentType) (mf_scan repo (mf_summaries db))))))"

definition HasPendingTransactionAfterFailedOrRejected ::
  "'d MFRepo \<Rightarrow> string \<Rightarrow> string \<Rightarrow> string \<Rightarrow> 'd MFDB \<Rightarrow> bool result" where
  "HasPendingTransactionAfterFailedOrRejected repo transactionType paymentType failedOrRejectedID db =
     rbind (failIf (fault (mf_repo repo) SelectPendingSummary)) (\<lambda>_.
     Ok (list_ex (\<lambda>s. mfs_TransactionType s = transactionType \<and> mfs_PaymentType s = paymentType \<and>
            mfs_MoneyFlowStatus s = ''PENDING'' \<and>
            mfs_RelatedFailedOrRejectedSummaryID s = Some failedOrRejectedID) (mf_summaries db)))"

definition HasInProgressTransaction :: "'d MFRepo \<Rightarrow> string \<Rightarrow> string \<Rightarrow> 'd MFDB \<Rightarrow> bool result" where
  "HasInProgressTransaction repo transactionType paymentType db =
     rbind (failIf (fault (mf_repo repo) SelectInProgressSummary)) (\<lambda>_.
     Ok (list_ex (\<lambda>s. mfs_TransactionType s = transactionType \<and> mfs_PaymentType s = paymentType \<and>
            mfs_MoneyFlowStatus s = ''IN_PROGRESS'') (mf_summaries db)))"

definition HasPendingTransactionBefore :: "'d MFRepo \<Rightarrow> string \<Rightarrow> string \<Rightarrow> int \<Rightarrow> 'd MFDB \<Rightarrow> bool result" where
  "HasPendingTransactionBefore repo transactionType paymentType transactionDate db =
     rbind (failIf (fault (mf_repo repo) SelectPendingSummary)) (\<lambda>_.
     Ok (list_ex (\<lambda>s. mfs_TransactionType s = transactionType \<and> mfs_PaymentType s = paymentType \<and>
            mfs_MoneyFlowStatus s = ''PENDING'' \<and>
            mfs_TransactionSourceCreationDate s < mf_dateColumn repo transactionDate \<and> mfs_IsActive s)
           (mf_summaries db)))"
text \<open>The total a client is shown: that of the summary and of the failed one it carries on.\<close>

definition responseTotal :: "'d::monoid_add MoneyFlowSummaryDetail \<Rightarrow> 'd" where
  "responseTotal d =
     (if sd_RelatedFailedOrRejectedSummaryID d \<noteq> None \<and> sd_RelatedTotalTransfer d \<noteq> 0
      then sd_TotalAmount d + sd_RelatedTotalTransfer d else sd_TotalAmount d)"


end
