(* ===== verification/MoneyFlowService.thy ===== *)
theory MoneyFlowService
  imports MoneyFlow "HOL-Library.Word"
begin

text \<open>
  The money flow service (\<open>internal/services/money_flow_calc_service.go\<close>, \<open>money_flow_processor.go\<close> and
  \<open>money_flow_business_rules.go\<close>) and its two consumers (\<open>internal/deliveries/consumer/money_flow_calc\<close> and
  \<open>transaction_stream\<close>): transactions of the eligible types are added up per day and payment type into a
  summary, whose transfer is then followed through its status.
\<close>

section \<open>Business rules\<close>

record BankInfo =
  bi_AccountNumber :: string
  bi_BankCode :: string
  bi_BankName :: string
  bi_BankAccountNumber :: string
  bi_BankAccountName :: string

record BusinessRuleConfig =
  br_TransactionType :: string
  br_Description :: string
  br_Source :: BankInfo
  br_Destination :: BankInfo

record BusinessRulesConfigs =
  brs_PaymentConfigs :: "(string \<times> BusinessRuleConfig) list"
  brs_TransactionToPaymentMap :: "(string \<times> string) list"

record FlagVariant =
  fv_Enabled :: bool
  fv_Value :: string

text \<open>A transaction of a notification (its id is a pointer), the order around it, and an event of the payment service.\<close>

record 'd NotifiedTransaction =
  nt_Id :: "string option"
  nt_Amount :: 'd
  nt_TransactionType :: string
  nt_Status :: "8 word"

record 'd NotifiedOrder =
  no_RefNumber :: string
  no_Transactions :: "'d NotifiedTransaction list"

record PaymentEvent =
  pe_ID :: string
  pe_PaymentType :: string
  pe_Status :: string
  pe_ReferenceNumber :: string

text \<open>
  The collaborators: the flag and its JSON, the decimal library's conversion to a float, the ids that are drawn,
  the parser of times, the payment library's names of payment types and statuses, the texts of sentinels and of
  errors from outside, the JSON decoder of the messages (the raw field, then the order), and the dead letter queue.
\<close>

record 'd MFService =
  ms_repo :: "'d MFRepo"
  ms_variant :: "FlagVariant option"
  ms_jsonRules :: "string \<Rightarrow> BusinessRulesConfigs result"
  ms_float64 :: "'d \<Rightarrow> 'd"
  ms_newUUID :: "nat \<Rightarrow> string"
  ms_parseRFC3339 :: "string \<Rightarrow> int result"
  ms_paymentTypeText :: "string \<Rightarrow> string"
  ms_statusText :: "string \<Rightarrow> string"
  ms_errorText :: "err \<Rightarrow> string"
  ms_rawAcuanData :: "string \<Rightarrow> string result"
  ms_acuanPayload :: "string \<Rightarrow> 'd NotifiedOrder result"
  ms_paymentEvent :: "string \<Rightarrow> PaymentEvent result"
  ms_dlqFault :: "string \<Rightarrow> err option"

text \<open>What the broker sees: the messages marked as consumed, and those sent to the dead letter queue.\<close>

record MFBroker =
  mb_marked :: "string list"
  mb_dlq :: "(string \<times> err) list"

type_synonym 'd MFState = "'d MFDB \<times> MFBroker"

definition GetByPaymentType :: "BusinessRulesConfigs \<Rightarrow> string \<Rightarrow> BusinessRuleConfig result" where
  "GetByPaymentType configs paymentType =
     (case map_of (brs_PaymentConfigs configs) paymentType of
        None \<Rightarrow> Err (ErrorMsg (''payment type not found: '' @ paymentType))
      | Some config \<Rightarrow> Ok config)"

definition GetByTransactionType :: "BusinessRulesConfigs \<Rightarrow> string \<Rightarrow> (BusinessRuleConfig \<times> string) result" where
  "GetByTransactionType configs transactionType =
     (case map_of (brs_TransactionToPaymentMap configs) transactionType of
        None \<Rightarrow> Err (ErrorMsg (''transaction type not found: '' @ transactionType))
      | Some paymentType \<Rightarrow> rbind (GetByPaymentType configs paymentType) (\<lambda>config. Ok (config, paymentType)))"

definition loadBusinessRules :: "'d MFService \<Rightarrow> BusinessRulesConfigs result" where
  "loadBusinessRules svc =
     (case ms_variant svc of
        None \<Rightarrow> Err (ErrorMsg ''feature flag variant not found'')
      | Some variant \<Rightarrow>
          if \<not> fv_Enabled variant then Err (ErrorMsg ''feature flag variant is disabled'')
          else if fv_Value variant = '''' then Err (ErrorMsg ''feature flag variant has empty payload'')
          else
            (case ms_jsonRules svc (fv_Value variant) of
               Inl e \<Rightarrow> Err (wrapErr ''failed to unmarshal business rules'' e)
             | Inr rules \<Rightarrow>
                 if brs_PaymentConfigs rules = [] then Err (ErrorMsg ''business rules config is empty'')
                 else Ok rules))"

definition CheckEligibleTransaction ::
  "'d MFService \<Rightarrow> string \<Rightarrow> string \<Rightarrow> (BusinessRuleConfig \<times> string) result" where
  "CheckEligibleTransaction svc paymentType breakdownTransactionType =
     rbind (loadBusinessRules svc) (\<lambda>rules.
     if paymentType = '''' then GetByTransactionType rules breakdownTransactionType
     else rbind (GetByPaymentType rules paymentType) (\<lambda>config. Ok (config, paymentType)))"

section \<open>Adding a transaction to the summary of its day\<close>

text \<open>\<open>Truncate(24 * time.Hour)\<close> counts from the zero time, in UTC.\<close>

definition TruncateDay :: "int \<Rightarrow> int" where
  "TruncateDay t = t div nsPerDay * nsPerDay"

definition convertToJakartaDate :: "int \<Rightarrow> int" where
  "convertToJakartaDate utcTime = startOfLocalDay (localDay utcTime)"

definition evaluateRelationship ::
  "'d MFRepo \<Rightarrow> 'd FailedOrRejectedTransaction \<Rightarrow> 'd CreateMoneyFlowSummary \<Rightarrow> int \<Rightarrow> 'd MFDB \<Rightarrow> string option result" where
  "evaluateRelationship repo failedOrRejected summaryData currentDate db =
     (if \<not> TruncateDay (fr_TransactionSourceCreationDate failedOrRejected) < currentDate then Ok None
      else
        (case HasPendingTransactionAfterFailedOrRejected repo (cms_TransactionType summaryData)
                (cms_PaymentType summaryData) (fr_ID failedOrRejected) db of
           Inl e \<Rightarrow> Err (wrapErr ''failed to check pending after failed/rejected'' e)
         | Inr hasPendingAfter \<Rightarrow> Ok (if hasPendingAfter then None else Some (fr_ID failedOrRejected))))"

definition checkFailedOrRejectedRelationship ::
  "'d MFRepo \<Rightarrow> 'd CreateMoneyFlowSummary \<Rightarrow> int \<Rightarrow> 'd MFDB \<Rightarrow> string option result" where
  "checkFailedOrRejectedRelationship repo summaryData currentDate db =
     (case GetLastFailedOrRejectedTransaction repo (cms_TransactionType summaryData) (cms_PaymentType summaryData) db of
        Inl e \<Rightarrow> Err (wrapErr ''failed to check failed/rejected transaction'' e)
      | Inr None \<Rightarrow> Ok None
      | Inr (Some failedOrRejected) \<Rightarrow> evaluateRelationship repo failedOrRejected summaryData currentDate db)"

definition DetermineRelationship ::
  "'d MFRepo \<Rightarrow> 'd CreateMoneyFlowSummary \<Rightarrow> int \<Rightarrow> 'd MFDB \<Rightarrow> string option result" where
  "DetermineRelationship repo summaryData currentDate db =
     (case HasInProgressTransaction repo (cms_TransactionType summaryData) (cms_PaymentType summaryData) db of
        Inl e \<Rightarrow> Err (wrapErr ''failed to check in-progress transaction'' e)
      | Inr True \<Rightarrow> Ok None
      | Inr False \<Rightarrow> checkFailedOrRejectedRelationship repo summaryData currentDate db)"

text \<open>The relation is that of a new row only; an update keeps the row's own.\<close>

definition ProcessOrUpdate ::
  "'d::plus MFRepo \<Rightarrow> string \<Rightarrow> 'd CreateMoneyFlowSummary \<Rightarrow> string \<Rightarrow> ('d MFDB, string) exec" where
  "ProcessOrUpdate repo detailID summaryData acuanTransactionID =
     bind (\<lambda>db. (DetermineRelationship repo summaryData (TruncateDay (cms_TransactionSourceCreationDate summaryData)) db, db))
       (\<lambda>relatedID.
     bind (wrapping ''failed to upsert summary''
             (UpsertSummary repo (summaryData\<lparr>cms_RelatedFailedOrRejectedSummaryID := relatedID\<rparr>))) (\<lambda>(summaryID, isNewRecord).
     bind (wrapping ''failed to create detailed summary''
             (CreateDetailedSummary repo detailID summaryID acuanTransactionID)) (\<lambda>_.
     return summaryID)))"

definition newSummary ::
  "'d MFService \<Rightarrow> string \<Rightarrow> 'd NotifiedTransaction \<Rightarrow> string \<Rightarrow> BusinessRuleConfig \<Rightarrow> 'd CreateMoneyFlowSummary" where
  "newSummary svc summaryID trx paymentType brd =
     (let timeNow = now (mf_repo (ms_repo svc)); jakartaDate = convertToJakartaDate timeNow in
      \<lparr>cms_ID = summaryID, cms_TransactionSourceCreationDate = jakartaDate,
       cms_TransactionType = nt_TransactionType trx, cms_PaymentType = paymentType,
       cms_ReferenceNumber = ''MF-'' @ FormatDateInLocalTime jakartaDate @ ''-'' @ summaryID,
       cms_Description = br_Description brd, cms_SourceAccount = bi_AccountNumber (br_Source brd),
       cms_DestinationAccount = bi_AccountNumber (br_Destination brd),
       cms_TotalTransfer = ms_float64 svc (nt_Amount trx), cms_PapaTransactionID = '''',
       cms_MoneyFlowStatus = ''PENDING'', cms_RequestedDate = None, cms_ActualDate = None,
       cms_SourceBankAccountNumber = bi_BankAccountNumber (br_Source brd),
       cms_SourceBankAccountName = bi_BankAccountName (br_Source brd),
       cms_SourceBankName = bi_BankName (br_Source brd),
       cms_DestinationBankAccountNumber = bi_BankAccountNumber (br_Destination brd),
       cms_DestinationBankAccountName = bi_BankAccountName (br_Destination brd),
       cms_DestinationBankName = bi_BankName (br_Destination brd),
       cms_RelatedFailedOrRejectedSummaryID = None, cms_CreatedAt = timeNow\<rparr>)"

text \<open>The \<open>k\<close>-th id is that of a new summary, the next one that of the detail; a missing id panics.\<close>

definition processSingleTransaction ::
  "'d::plus MFService \<Rightarrow> nat \<Rightarrow> 'd NotifiedTransaction \<Rightarrow> string \<Rightarrow> BusinessRuleConfig \<Rightarrow> ('d MFState, string) exec" where
  "processSingleTransaction svc k trx paymentType brd =
     Atomic (mf_repo (ms_repo svc))
       (case nt_Id trx of
          None \<Rightarrow> fail Panic
        | Some acuanTransactionID \<Rightarrow>
            onDb (ProcessOrUpdate (ms_repo svc) (ms_newUUID svc (k + 1))
              (newSummary svc (ms_newUUID svc k) trx paymentType brd) acuanTransactionID))"

definition processEligibleTransaction ::
  "'d::plus MFService \<Rightarrow> nat \<Rightarrow> 'd NotifiedTransaction \<Rightarrow> ('d MFState, string) exec" where
  "processEligibleTransaction svc k trx =
     bind (call (CheckEligibleTransaction svc '''' (nt_TransactionType trx))) (\<lambda>(businessRulesData, paymentType).
     processSingleTransaction svc k trx paymentType businessRulesData)"

fun processTransactions ::
  "'d::plus MFService \<Rightarrow> nat \<Rightarrow> 'd NotifiedTransaction list \<Rightarrow> ('d MFState, unit) exec" where
  "processTransactions svc k [] = return ()"
| "processTransactions svc k (trx # rest) =
     bind (processEligibleTransaction svc k trx) (\<lambda>_. processTransactions svc (k + 2) rest)"

text \<open>Only the status of the first transaction is looked at.\<close>

definition ValidateNotification :: "'d NotifiedOrder \<Rightarrow> unit result" where
  "ValidateNotification notification =
     (case no_Transactions notification of
        [] \<Rightarrow> Ok ()
      | first # _ \<Rightarrow> if nt_Status first \<noteq> 1 then Err (ErrorMsg ''transaction status not success'') else Ok ())"

definition ProcessTransactionNotification ::
  "'d::plus MFService \<Rightarrow> 'd NotifiedOrder \<Rightarrow> ('d MFState, unit) exec" where
  "ProcessTransactionNotification svc notification =
     bind (call (ValidateNotification notification)) (\<lambda>_. processTransactions svc 0 (no_Transactions notification))"

section \<open>Following the transfer\<close>

definition noUpdate :: "'d MoneyFlowSummaryUpdate" where
  "noUpdate =
     \<lparr>upd_PaymentType = None, upd_TotalTransfer = None, upd_PapaTransactionID = None,
      upd_MoneyFlowStatus = None, upd_RequestedDate = None, upd_ActualDate = None\<rparr>"

text \<open>An event sets the status of the summary its transaction id names, whatever that status is.\<close>

definition ProcessTransactionStream :: "'d MFService \<Rightarrow> PaymentEvent \<Rightarrow> ('d MFState, unit) exec" where
  "ProcessTransactionStream svc event =
     bind (call (CheckEligibleTransaction svc (ms_paymentTypeText svc (pe_PaymentType event)) '''')) (\<lambda>_.
     bind (wrapping ''failed to get summary ID by PAPA transaction ID''
             (readDb (GetSummaryIDByPapaTransactionID (ms_repo svc) (pe_ID event)))) (\<lambda>summaryID.
     if summaryID = '''' then return ()
     else
       (let status = ms_statusText svc (pe_Status event)
        in onDb (RepoUpdateSummary (ms_repo svc) summaryID
             (if status = ''SUCCESSFUL''
              then noUpdate\<lparr>upd_MoneyFlowStatus := Some status, upd_ActualDate := Some (now (mf_repo (ms_repo svc)))\<rparr>
              else noUpdate\<lparr>upd_MoneyFlowStatus := Some status\<rparr>)))))"

record UpdateMoneyFlowSummaryRequest =
  ur_PapaTransactionID :: "string option"
  ur_MoneyFlowStatus :: "string option"
  ur_ActualDate :: "string option"

definition ValidateUpdate :: "UpdateMoneyFlowSummaryRequest \<Rightarrow> unit result" where
  "ValidateUpdate req =
     (if ur_PapaTransactionID req = None \<and> ur_MoneyFlowStatus req = None \<and> ur_ActualDate req = None
      then Err (ErrorMsg ''at least one field must be provided for update'') else Ok ())"

definition allowedTransitions :: "string \<rightharpoonup> string list" where
  "allowedTransitions =
     map_of
       [(''PENDING'', [''IN_PROGRESS'']),
        (''IN_PROGRESS'', [''SUCCESSFUL'', ''FAILED'', ''REJECTED'']),
        (''SUCCESSFUL'', []),
        (''FAILED'', [''IN_PROGRESS'']),
        (''REJECTED'', [])]"

definition ValidateStatusTransition :: "UpdateMoneyFlowSummaryRequest \<Rightarrow> string \<Rightarrow> unit result" where
  "ValidateStatusTransition req currentStatus =
     (case ur_MoneyFlowStatus req of
        None \<Rightarrow> Ok ()
      | Some newStatus \<Rightarrow>
          (case allowedTransitions currentStatus of
             None \<Rightarrow> Err (ErrorMsg (''invalid current status: '' @ currentStatus))
           | Some allowedStatuses \<Rightarrow>
               if currentStatus = newStatus \<or> newStatus \<in> set allowedStatuses then Ok ()
               else Err (ErrorMsg (''status transition from '' @ currentStatus @ '' to '' @ newStatus @ '' is not allowed''))))"

definition ValidateInProgressRequirements :: "UpdateMoneyFlowSummaryRequest \<Rightarrow> unit result" where
  "ValidateInProgressRequirements req =
     (if ur_MoneyFlowStatus req = Some ''IN_PROGRESS'' then
        if ur_PapaTransactionID req = None \<or> ur_PapaTransactionID req = Some ''''
        then Err (ErrorMsg ''papaTransactionId is required when status is IN_PROGRESS'')
        else if ur_ActualDate req \<noteq> None
        then Err (ErrorMsg ''actualDate should not be provided when status is IN_PROGRESS'')
        else Ok ()
      else Ok ())"

definition ValidateTransition :: "UpdateMoneyFlowSummaryRequest \<Rightarrow> 'd MoneyFlowSummaryDetail \<Rightarrow> unit result" where
  "ValidateTransition req currentSummary =
     rbind (ValidateStatusTransition req (sd_Status currentSummary)) (\<lambda>_. ValidateInProgressRequirements req)"

definition ToUpdateModelWithAutoFill ::
  "'d MFService \<Rightarrow> UpdateMoneyFlowSummaryRequest \<Rightarrow> 'd MoneyFlowSummaryUpdate result" where
  "ToUpdateModelWithAutoFill svc req =
     (let timeNow = now (mf_repo (ms_repo svc));
          update = noUpdate\<lparr>upd_PapaTransactionID := ur_PapaTransactionID req, upd_MoneyFlowStatus := ur_MoneyFlowStatus req,
             upd_RequestedDate := (if ur_MoneyFlowStatus req = Some ''IN_PROGRESS'' then Some timeNow else None)\<rparr>
      in if ur_MoneyFlowStatus req \<notin> {None, Some ''PENDING'', Some ''SUCCESSFUL'', Some ''FAILED'',
              Some ''IN_PROGRESS'', Some ''REJECTED''}
         then Err (ErrorMsg ''invalid moneyFlowStatus: must be PENDING, SUCCESSFUL, IN_PROGRESS, REJECTED or FAILED'')
         else
           (case ur_ActualDate req of
              Some actualDate \<Rightarrow>
                (case ms_parseRFC3339 svc actualDate of
                   Inl e \<Rightarrow> Err (wrapErr ''invalid actualDate format: must be RFC3339 (ISO8601)'' e)
                 | Inr parsedDate \<Rightarrow> Ok (update\<lparr>upd_ActualDate := Some parsedDate\<rparr>))
            | None \<Rightarrow>
                Ok (if ur_MoneyFlowStatus req = Some ''SUCCESSFUL''
                    then update\<lparr>upd_ActualDate := Some timeNow\<rparr> else update)))"

text \<open>\<open>checkDatabaseError(err, models.ErrKeySummaryIdnotFound)\<close> on what a read answers.\<close>

definition orSummaryNotFound :: "'d MFService \<Rightarrow> 'a result \<Rightarrow> 'a result" where
  "orSummaryNotFound svc r =
     (case r of Inl e \<Rightarrow> Err (checkDatabaseError (ms_errorText svc) e (Some ''summaryIDNotFound'')) | Inr x \<Rightarrow> Ok x)"

definition UpdateSummary ::
  "'d::zero MFService \<Rightarrow> string \<Rightarrow> UpdateMoneyFlowSummaryRequest \<Rightarrow> ('d MFState, unit) exec" where
  "UpdateSummary svc summaryID req =
     bind (call (ValidateUpdate req)) (\<lambda>_.
     bind (readDb (\<lambda>db. orSummaryNotFound svc (GetSummaryDetailBySummaryID (ms_repo svc) summaryID db))) (\<lambda>currentSummary.
     bind (call (ValidateTransition req currentSummary)) (\<lambda>_.
     bind (call (ToUpdateModelWithAutoFill svc req)) (\<lambda>updateModel.
     wrapping ''failed to update money flow summary'' (onDb (RepoUpdateSummary (ms_repo svc) summaryID updateModel))))))"

definition UpdateActivationStatus :: "'d::zero MFService \<Rightarrow> string \<Rightarrow> bool \<Rightarrow> ('d MFState, unit) exec" where
  "UpdateActivationStatus svc summaryID isActive =
     bind (readDb (\<lambda>db. orSummaryNotFound svc (GetSummaryDetailBySummaryIDAllStatus (ms_repo svc) summaryID db))) (\<lambda>summary.
     if sd_Status summary \<noteq> ''PENDING''
     then fail (ErrorMsg (''cannot update activation status: only summaries with PENDING status can be updated, current status is ''
                 @ sd_Status summary))
     else wrapping ''failed to update money flow summary status''
            (onDb (RepoUpdateActivationStatus (ms_repo svc) summaryID isActive)))"

text \<open>The check of earlier pending summaries, which \<open>ValidateTransition\<close> does not call.\<close>

definition validateNoPendingBefore ::
  "'d MFRepo \<Rightarrow> UpdateMoneyFlowSummaryRequest \<Rightarrow> 'd MoneyFlowSummaryDetail \<Rightarrow> 'd MFDB \<Rightarrow> unit result" where
  "validateNoPendingBefore repo req currentSummary db =
     (if \<not> (ur_MoneyFlowStatus req = Some ''IN_PROGRESS'' \<and> sd_Status currentSummary = ''PENDING'') then Ok ()
      else
        (case HasPendingTransactionBefore repo (sd_TransactionType currentSummary) (sd_PaymentType currentSummary)
                (sd_TransactionSourceCreationDate currentSummary) db of
           Inl e \<Rightarrow> Err (wrapErr ''failed to check pending transactions'' e)
         | Inr hasPendingBefore \<Rightarrow>
             if hasPendingBefore
             then Err (ErrorMsg (''cannot transition to IN_PROGRESS: there are PENDING transactions with the same payment type (''
                    @ sd_PaymentType currentSummary @ '') and transaction type ('' @ sd_TransactionType currentSummary
                    @ '') from earlier dates that must be processed first''))
             else Ok ()))"

section \<open>The consumers\<close>

text \<open>The text of an error; \<open>%w\<close> puts that of the wrapped one after its own.\<close>

fun errText :: "(err \<Rightarrow> string) \<Rightarrow> err \<Rightarrow> string" where
  "errText outside (ErrorMsg m) = m"
| "errText outside (Wrapped e m) = m @ '': '' @ errText outside e"
| "errText outside e = outside e"

definition containsFold :: "string \<Rightarrow> string \<Rightarrow> bool" where
  "containsFold s substr =
     list_ex (\<lambda>i. take (length substr) (drop i (map toLowerAscii s)) = map toLowerAscii substr)
       [0..<length s + 1 - length substr]"

definition isIneligible :: "'d MFService \<Rightarrow> err \<Rightarrow> bool" where
  "isIneligible svc e =
     list_ex (containsFold (errText (ms_errorText svc) e))
       [''payment type not found'', ''transaction type not found'', ''not eligible'', ''skipping ineligible'']"

text \<open>The other consumer compares texts of equal length as they are.\<close>

definition containsText :: "string \<Rightarrow> string \<Rightarrow> bool" where
  "containsText s substr \<longleftrightarrow> s = substr \<or> length substr < length s \<and> containsFold s substr"

definition isIneligibleEvent :: "'d MFService \<Rightarrow> err \<Rightarrow> bool" where
  "isIneligibleEvent svc e =
     list_ex (containsText (errText (ms_errorText svc) e))
       [''payment type not found'', ''transaction type not found'', ''not eligible'', ''skipping non-eligible'',
        ''summary id not found'']"

definition AckMessage :: "string \<Rightarrow> 'd MFState \<Rightarrow> 'd MFState" where
  "AckMessage message s = (fst s, (snd s)\<lparr>mb_marked := mb_marked (snd s) @ [message]\<rparr>)"

text \<open>A dead letter that cannot be published is only logged; the message is marked all the same.\<close>

definition NackMessage :: "'d MFService \<Rightarrow> string \<Rightarrow> err \<Rightarrow> 'd MFState \<Rightarrow> 'd MFState" where
  "NackMessage svc message cause s =
     AckMessage message
       (if ms_dlqFault svc message = None then (fst s, (snd s)\<lparr>mb_dlq := mb_dlq (snd s) @ [(message, cause)]\<rparr>) else s)"

text \<open>The amounts are passed on as they are: the replacement by a pattern is a placeholder that returns its input.\<close>

definition ParseMessage :: "'d MFService \<Rightarrow> string \<Rightarrow> 'd NotifiedOrder result" where
  "ParseMessage svc message =
     (case ms_rawAcuanData svc message of
        Inl e \<Rightarrow> Err (wrapErr ''error unmarshal json to raw'' e)
      | Inr data \<Rightarrow>
          if data = '''' then Ok \<lparr>no_RefNumber = '''', no_Transactions = []\<rparr>
          else
            (case ms_acuanPayload svc data of
               Inl e \<Rightarrow> Err (wrapErr ''error unmarshal acuan data'' e)
             | Inr notification \<Rightarrow> Ok notification))"

text \<open>The error of a message and whether it is skipped: acknowledged without a dead letter.\<close>

definition processNotificationMessage ::
  "'d::plus MFService \<Rightarrow> string \<Rightarrow> 'd MFState \<Rightarrow> (err option \<times> bool) \<times> 'd MFState" where
  "processNotificationMessage svc message s =
     (case ParseMessage svc message of
        Inl e \<Rightarrow> ((Some e, False), s)
      | Inr notification \<Rightarrow>
          (case ProcessTransactionNotification svc notification s of
             (Inr _, s') \<Rightarrow> ((None, False), s')
           | (Inl e, s') \<Rightarrow>
               if isIneligible svc e then ((Some e, True), s')
               else ((Some (wrapErr ''unable to process transaction notification'' e), False), s')))"

definition settleMessage ::
  "'d MFService \<Rightarrow> string \<Rightarrow> (err option \<times> bool) \<times> 'd MFState \<Rightarrow> 'd MFState" where
  "settleMessage svc message r =
     (case r of
        ((Some e, False), s) \<Rightarrow> NackMessage svc message e s
      | (_, s) \<Rightarrow> AckMessage message s)"

definition consumeNotification :: "'d::plus MFService \<Rightarrow> string \<Rightarrow> 'd MFState \<Rightarrow> 'd MFState" where
  "consumeNotification svc message s = settleMessage svc message (processNotificationMessage svc message s)"

definition processEventMessage ::
  "'d MFService \<Rightarrow> string \<Rightarrow> 'd MFState \<Rightarrow> (err option \<times> bool) \<times> 'd MFState" where
  "processEventMessage svc message s =
     (if message = '''' then ((Some (ErrorMsg ''empty message received''), False), s)
      else
        (case ms_paymentEvent svc message of
           Inl e \<Rightarrow> ((Some (wrapErr ''error unmarshal json'' e), False), s)
         | Inr event \<Rightarrow>
             if pe_ID event = '''' then ((Some (ErrorMsg ''papa_transaction_id is required''), True), s)
             else if pe_PaymentType event = '''' then ((Some (ErrorMsg ''payment_type is required''), True), s)
             else if ms_statusText svc (pe_Status event) \<notin> {''SUCCESSFUL'', ''REJECTED'', ''FAILED''}
             then ((Some (ErrorMsg (''invalid transaction status: '' @ ms_statusText svc (pe_Status event))), True), s)
             else
               (case ProcessTransactionStream svc event s of
                  (Inr _, s') \<Rightarrow> ((None, False), s')
                | (Inl e, s') \<Rightarrow>
                    if isIneligibleEvent svc e then ((Some e, True), s')
                    else ((Some (wrapErr ''unable to process transaction stream'' e), False), s'))))"

definition consumeEvent :: "'d MFService \<Rightarrow> string \<Rightarrow> 'd MFState \<Rightarrow> 'd MFState" where
  "consumeEvent svc message s = settleMessage svc message (processEventMessage svc message s)"

end
