(* ===== verification/SummaryListing.thy ===== *)
theory SummaryListing
  imports MoneyFlowService WalletListing
begin

text \<open>
  The lists of money flow summaries and of their transactions: requests and cursors of
  \<open>internal/models/money_flow_summary_helper.go\<close> and \<open>money_flow_calc.go\<close>, the queries of
  \<open>internal/repositories/sql_money_flow_query_builder.go\<close> and \<open>sql_money_flow_calc.go\<close>, the service and the handlers of
  \<open>internal/deliveries/http/v1/money_flow_summaries\<close>.  Both are listings in the sense of \<open>Pagination\<close>, the second one
  only when it is not filtered by a reference number.
\<close>

section \<open>Summaries: requests\<close>

record MoneyFlowSummaryCursor =
  mc_CreatedAt :: int
  mc_ID :: string
  mc_IsBackward :: bool

record MoneyFlowSummaryFilterOptions =
  mo_PaymentType :: string
  mo_CreationDateStart :: "int option"
  mo_CreationDateEnd :: "int option"
  mo_Status :: string
  mo_Limit :: int
  mo_Cursor :: "MoneyFlowSummaryCursor option"
  mo_SummaryID :: string

record GetMoneyFlowSummaryRequest =
  mq_PaymentType :: string
  mq_CreationDateStart :: string
  mq_CreationDateEnd :: string
  mq_Status :: string
  mq_Limit :: int
  mq_NextCursor :: string
  mq_PrevCursor :: string
  mq_SummaryID :: string

text \<open>
  The cursor may have been encoded twice, in either alphabet, by earlier versions; one that is not stays as it is.
  \<open>time.Parse\<close> accepts a fraction after the seconds in any layout, so that the second layout reads nothing more.
\<close>

definition decodeAgain :: "string \<Rightarrow> string" where
  "decodeAgain s =
     (case DecodeString stdAlphabet s of
        Some d \<Rightarrow> d
      | None \<Rightarrow> (case DecodeString urlAlphabet s of Some d \<Rightarrow> d | None \<Rightarrow> s))"

definition parseCreatedAt :: "string \<Rightarrow> string \<Rightarrow> int result" where
  "parseCreatedAt message s =
     (case ParseRFC3339Nano s of Some t \<Rightarrow> Ok t | None \<Rightarrow> Err (ErrorMsg message))"

definition summaryCursor :: "BaseCursor \<Rightarrow> MoneyFlowSummaryCursor result" where
  "summaryCursor cursor =
     (let decoded = decodeAgain (bc_ID cursor); parts = splitAt (CHR ''|'') decoded
      in if length parts = 2
         then rbind (parseCreatedAt ''invalid cursor created_at format'' (parts ! 0)) (\<lambda>createdAt.
                Ok \<lparr>mc_CreatedAt = createdAt, mc_ID = parts ! 1, mc_IsBackward = bc_isBackward cursor\<rparr>)
         else rbind (parseCreatedAt ''invalid cursor format'' decoded) (\<lambda>createdAt.
                Ok \<lparr>mc_CreatedAt = createdAt, mc_ID = '''', mc_IsBackward = bc_isBackward cursor\<rparr>))"

definition optionalDate :: "string \<Rightarrow> int option result" where
  "optionalDate s =
     (if s = '''' then Ok None
      else case ParseDateInLocalTime s of Inl e \<Rightarrow> Err (GetErrMap ''invalidFormatDate'') | Inr t \<Rightarrow> Ok (Some t))"

definition SummaryToFilterOpts :: "GetMoneyFlowSummaryRequest \<Rightarrow> MoneyFlowSummaryFilterOptions result" where
  "SummaryToFilterOpts req =
     rbind (optionalDate (mq_CreationDateStart req)) (\<lambda>since.
     rbind (optionalDate (mq_CreationDateEnd req)) (\<lambda>until.
     rbind (BuildCursorAndLimit \<lparr>po_Limit = mq_Limit req, po_NextCursor = mq_NextCursor req, po_PrevCursor = mq_PrevCursor req\<rparr>)
       (\<lambda>(cursor, limit).
     rbind (case cursor of None \<Rightarrow> Ok None | Some c \<Rightarrow> rbind (summaryCursor c) (\<lambda>c. Ok (Some c))) (\<lambda>cursor.
       Ok \<lparr>mo_PaymentType = mq_PaymentType req, mo_CreationDateStart = since, mo_CreationDateEnd = until,
           mo_Status = mq_Status req, mo_Limit = limit, mo_Cursor = cursor, mo_SummaryID = mq_SummaryID req\<rparr>))))"

section \<open>Summaries: queries\<close>

text \<open>\<open>applyCommonFilters\<close>: active rows of days before today, and what the request asks for.\<close>

definition applyCommonFilters :: "'d MFRepo \<Rightarrow> MoneyFlowSummaryFilterOptions \<Rightarrow> 'd MoneyFlowSummary \<Rightarrow> bool" where
  "applyCommonFilters repo opts s =
     (let d = mfs_TransactionSourceCreationDate s
      in d < mf_dateColumn repo (TruncateDay (now (mf_repo repo))) \<and> mfs_IsActive s \<and>
         (mo_PaymentType opts \<noteq> '''' \<longrightarrow> mfs_PaymentType s = mo_PaymentType opts) \<and>
         (case mo_CreationDateStart opts of None \<Rightarrow> True | Some since \<Rightarrow> mf_dateColumn repo since \<le> d) \<and>
         (case mo_CreationDateEnd opts of None \<Rightarrow> True | Some until \<Rightarrow> d \<le> mf_dateColumn repo until) \<and>
         (mo_Status opts \<noteq> '''' \<longrightarrow> mfs_MoneyFlowStatus s = mo_Status opts) \<and>
         (mo_SummaryID opts \<noteq> '''' \<longrightarrow> mfs_ID s = mo_SummaryID opts))"

definition summaryKey :: "'d MoneyFlowSummary \<Rightarrow> int \<times> string" where
  "summaryKey s = (mfs_CreatedAt s, mfs_ID s)"

text \<open>\<open>applyCursorPagination\<close>, with the cursors of earlier versions that have no id.\<close>

definition applyCursorPagination ::
  "MoneyFlowSummaryCursor option \<Rightarrow> int \<Rightarrow> 'd MoneyFlowSummary list \<Rightarrow> 'd MoneyFlowSummary list" where
  "applyCursorPagination cursor limit rows =
     (let n = (if 0 < limit then nat limit else length rows)
      in case cursor of
           None \<Rightarrow> selectPage True summaryKey rows FirstPage n
         | Some c \<Rightarrow>
             if mc_ID c \<noteq> ''''
             then selectPage True summaryKey rows ((if mc_IsBackward c then BeforeKey else AfterKey) (mc_CreatedAt c, mc_ID c)) n
             else selectPage True mfs_CreatedAt rows ((if mc_IsBackward c then BeforeKey else AfterKey) (mc_CreatedAt c)) n)"

text \<open>A row of the list: the summary and the total of the one it carries on.\<close>

record 'd MoneyFlowSummaryOut =
  so_Summary :: "'d MoneyFlowSummary"
  so_RelatedTotalTransfer :: 'd

text \<open>The faults of the list queries, the estimates of the planner and the text of errors.\<close>

record 'd SummaryListing =
  sl_repo :: "'d MFRepo"
  sl_db :: "'d MFDB"
  sl_ledger :: "'d Transaction list"
  sl_listFault :: "err option"
  sl_countFault :: "err option"
  sl_transactionsFault :: "err option"
  sl_estimate :: "int result"
  sl_errorText :: "err \<Rightarrow> string"
  sl_zone :: int

text \<open>
  \<open>GetSummariesList\<close> of the repository; its log line cuts the first eight characters of two ids, and panics on a shorter
  one.
\<close>

definition RepoGetSummariesList ::
  "'d::zero SummaryListing \<Rightarrow> MoneyFlowSummaryFilterOptions \<Rightarrow> 'd MoneyFlowSummaryOut list result" where
  "RepoGetSummariesList l opts =
     (case sl_listFault l of
        Some e \<Rightarrow> Err e
      | None \<Rightarrow>
          (let rows = mf_summaries (sl_db l);
               found = applyCursorPagination (mo_Cursor opts) (mo_Limit opts) (filter (applyCommonFilters (sl_repo l) opts) rows);
               shown = map (\<lambda>s. \<lparr>so_Summary = s, so_RelatedTotalTransfer = relatedTotal rows s\<rparr>) found
           in if found \<noteq> [] \<and> (length (mfs_ID (hd found)) < 8 \<or> length (mfs_ID (last found)) < 8)
              then Err Panic else Ok shown))"

definition CountSummaryAll :: "'d SummaryListing \<Rightarrow> MoneyFlowSummaryFilterOptions \<Rightarrow> int result" where
  "CountSummaryAll l opts =
     (case sl_countFault l of
        Some e \<Rightarrow> Err e
      | None \<Rightarrow> Ok (int (length (filter (applyCommonFilters (sl_repo l) opts) (mf_summaries (sl_db l))))))"

definition wrapError :: "string \<Rightarrow> 'a result \<Rightarrow> 'a result" where
  "wrapError message r = (case r of Inl e \<Rightarrow> Err (Wrapped e message) | Inr x \<Rightarrow> Ok x)"

definition GetSummariesList ::
  "'d::zero SummaryListing \<Rightarrow> MoneyFlowSummaryFilterOptions \<Rightarrow> ('d MoneyFlowSummaryOut list \<times> int) result" where
  "GetSummariesList l opts =
     rbind (wrapError ''failed to get money flow summaries'' (RepoGetSummariesList l opts)) (\<lambda>summaries.
     rbind (wrapError ''failed to count money flow summaries'' (CountSummaryAll l opts)) (\<lambda>n.
       Ok (summaries, n)))"

section \<open>Summaries: answers\<close>

definition SummaryOutGetCursor :: "int \<Rightarrow> 'd MoneyFlowSummaryOut \<Rightarrow> string" where
  "SummaryOutGetCursor zone m =
     EncodeToString (FormatRFC3339Nano zone (mfs_CreatedAt (so_Summary m)) @ ''|'' @ mfs_ID (so_Summary m))"

record 'd MoneyFlowSummaryResponse =
  sr_Kind :: string
  sr_ID :: string
  sr_TransactionSourceCreationDate :: string
  sr_PaymentType :: string
  sr_TotalTransfer :: 'd
  sr_Status :: string
  sr_CreatedAt :: string
  sr_RequestedDate :: string
  sr_ActualDate :: string

text \<open>\<open>time.RFC3339\<close>, which has no fraction, and \<open>FormatNullableTime\<close>.\<close>

definition FormatRFC3339 :: "int \<Rightarrow> int \<Rightarrow> string" where
  "FormatRFC3339 zone t =
     (let l = t + zone * nsPerMinute
      in dateText (nat (l div nsPerDay)) @ ''T'' @ clockText (nat (l mod nsPerDay) div 1000000000) @ zoneText zone)"

definition FormatNullableTime :: "int \<Rightarrow> int option \<Rightarrow> string" where
  "FormatNullableTime zone t = (case t of None \<Rightarrow> ''-'' | Some t \<Rightarrow> FormatRFC3339 zone t)"

definition SummaryToModelResponse :: "int \<Rightarrow> 'd::monoid_add MoneyFlowSummaryOut \<Rightarrow> 'd MoneyFlowSummaryResponse" where
  "SummaryToModelResponse zone m =
     (let s = so_Summary m
      in \<lparr>sr_Kind = ''moneyFlowCalc'', sr_ID = mfs_ID s,
          sr_TransactionSourceCreationDate = dateText (nat (mfs_TransactionSourceCreationDate s div nsPerDay)),
          sr_PaymentType = mfs_PaymentType s,
          sr_TotalTransfer =
            (if mfs_RelatedFailedOrRejectedSummaryID s \<noteq> None \<and> so_RelatedTotalTransfer m \<noteq> 0
             then mfs_TotalTransfer s + so_RelatedTotalTransfer m else mfs_TotalTransfer s),
          sr_Status = mfs_MoneyFlowStatus s, sr_CreatedAt = FormatRFC3339 zone (mfs_CreatedAt s),
          sr_RequestedDate = FormatNullableTime zone (mfs_RequestedDate s),
          sr_ActualDate = FormatNullableTime zone (mfs_ActualDate s)\<rparr>)"

definition getSummariesList ::
  "'d::monoid_add SummaryListing \<Rightarrow> GetMoneyFlowSummaryRequest \<Rightarrow> PageQuery \<Rightarrow> 'd MoneyFlowSummaryResponse Answer" where
  "getSummariesList l req q =
     (case SummaryToFilterOpts (req\<lparr>mq_NextCursor := nextCursor q, mq_PrevCursor := prevCursor q\<rparr>) of
        Inl e \<Rightarrow> Refused 400 e
      | Inr opts \<Rightarrow>
          (case GetSummariesList l opts of
             Inl e \<Rightarrow> Refused 500 e
           | Inr (summaries, n) \<Rightarrow>
               Page (RestSuccessResponseCursorPagination q (SummaryOutGetCursor (sl_zone l)) (SummaryToModelResponse (sl_zone l))
                       summaries (mo_Limit opts) n)))"

section \<open>Transactions of a summary\<close>

record DetailedTransactionFilterOptions =
  df_SummaryID :: string
  df_RelatedSummaryID :: "string option"
  df_RefNumber :: string
  df_Limit :: int
  df_Cursor :: "BaseCursor option"

record DetailedTransactionsRequest =
  dq_SummaryID :: string
  dq_RefNumber :: string
  dq_Limit :: int
  dq_NextCursor :: string
  dq_PrevCursor :: string

definition DetailsToFilterOpts :: "DetailedTransactionsRequest \<Rightarrow> DetailedTransactionFilterOptions result" where
  "DetailsToFilterOpts req =
     rbind (BuildCursorAndLimit \<lparr>po_Limit = dq_Limit req, po_NextCursor = dq_NextCursor req, po_PrevCursor = dq_PrevCursor req\<rparr>)
       (\<lambda>(cursor, limit).
       Ok \<lparr>df_SummaryID = dq_SummaryID req, df_RelatedSummaryID = None, df_RefNumber = dq_RefNumber req,
           df_Limit = limit, df_Cursor = cursor\<rparr>)"

text \<open>The summary and the one it carries on, when there is one with an id.\<close>

definition summaryIDs :: "string \<Rightarrow> string option \<Rightarrow> string list" where
  "summaryIDs summaryID related =
     summaryID # (case related of None \<Rightarrow> [] | Some r \<Rightarrow> if r = '''' then [] else [r])"

definition detailRows :: "'d SummaryListing \<Rightarrow> string \<Rightarrow> string option \<Rightarrow> DetailedMoneyFlowSummary list" where
  "detailRows l summaryID related =
     filter (\<lambda>d. dmf_SummaryID d \<in> set (summaryIDs summaryID related)) (mf_details (sl_db l))"

text \<open>
  \<open>GetDetailedTransactionIDsWithMapping\<close>: the transaction ids of a page of details, and the detail of each transaction.
\<close>

definition GetDetailedTransactionIDsWithMapping ::
  "'d SummaryListing \<Rightarrow> DetailedTransactionFilterOptions \<Rightarrow> ((string \<rightharpoonup> string) \<times> string list) result" where
  "GetDetailedTransactionIDsWithMapping l opts =
     (case sl_listFault l of
        Some e \<Rightarrow> Err e
      | None \<Rightarrow>
          (let rows = detailRows l (df_SummaryID opts) (df_RelatedSummaryID opts);
               position = (case df_Cursor opts of None \<Rightarrow> FirstPage
                           | Some c \<Rightarrow> (if bc_isBackward c then BeforeKey else AfterKey) (bc_ID c));
               found = selectPage True dmf_ID rows position (if 0 < df_Limit opts then nat (df_Limit opts) else length rows)
           in Ok (foldl (\<lambda>m d. m(dmf_AcuanTransactionID d \<mapsto> dmf_ID d)) Map.empty found, map dmf_AcuanTransactionID found)))"

text \<open>
  \<open>GetTransactionsByIDs\<close>: one query for all ids, with the reference number as a filter, put back into the order of the
  ids.
\<close>

definition GetTransactionsByIDs :: "'d SummaryListing \<Rightarrow> string list \<Rightarrow> string \<Rightarrow> 'd Transaction list result" where
  "GetTransactionsByIDs l transactionIDs refNumber =
     (if transactionIDs = [] then Ok []
      else case sl_transactionsFault l of
        Some e \<Rightarrow> Err e
      | None \<Rightarrow>
          (let rows = filter (\<lambda>t. txn_TransactionID t \<in> set transactionIDs \<and> (refNumber \<noteq> '''' \<longrightarrow> txn_RefNumber t = refNumber))
                        (sl_ledger l);
               transactionMap = foldl (\<lambda>m t. m(txn_TransactionID t \<mapsto> t)) Map.empty rows
           in Ok (List.map_filter transactionMap transactionIDs)))"

record 'd DetailedTransactionOut =
  dt_ID :: string
  dt_Transaction :: "'d Transaction"

definition GetDetailedTransactionsBySummaryID ::
  "'d::zero SummaryListing \<Rightarrow> string \<Rightarrow> DetailedTransactionFilterOptions \<Rightarrow> ('d DetailedTransactionOut list \<times> int) result" where
  "GetDetailedTransactionsBySummaryID l summaryID opts =
     rbind (wrapError ''failed to get summary detail'' (GetSummaryDetailBySummaryID (sl_repo l) summaryID (sl_db l))) (\<lambda>summary.
     let opts = opts\<lparr>df_SummaryID := summaryID, df_RelatedSummaryID := sd_RelatedFailedOrRejectedSummaryID summary\<rparr>
     in rbind (wrapError ''failed to get transaction IDs'' (GetDetailedTransactionIDsWithMapping l opts)) (\<lambda>(idMapping, transactionIDs).
        rbind (wrapError ''failed to get transactions by IDs'' (GetTransactionsByIDs l transactionIDs (df_RefNumber opts))) (\<lambda>transactions.
          Ok (map (\<lambda>t. \<lparr>dt_ID = strIndex idMapping (txn_TransactionID t), dt_Transaction = t\<rparr>) transactions,
              case sl_estimate l of Inl e \<Rightarrow> 0 | Inr n \<Rightarrow> n))))"

text \<open>\<open>HandleRepositoryError\<close> reads the status off the text.\<close>

definition HandleRepositoryError :: "(err \<Rightarrow> string) \<Rightarrow> err \<Rightarrow> 'm Answer" where
  "HandleRepositoryError errorText e = Refused (if stringsContains (errText errorText e) ''not found'' then 404 else 500) e"

definition DetailGetCursor :: "'d DetailedTransactionOut \<Rightarrow> string" where
  "DetailGetCursor d = EncodeToString (dt_ID d)"

text \<open>The fields of a response; the metadata is parsed by a library.\<close>

record 'd DetailedTransactionResponse =
  rs_Transaction :: "'d Transaction"
  rs_TransactionDate :: string

definition DetailToModelResponse :: "'d DetailedTransactionOut \<Rightarrow> 'd DetailedTransactionResponse" where
  "DetailToModelResponse d =
     \<lparr>rs_Transaction = dt_Transaction d,
      rs_TransactionDate = FormatDateInLocalTime (txn_TransactionDate (dt_Transaction d))\<rparr>"

definition getDetailedTransactionsBySummaryID ::
  "'d::zero SummaryListing \<Rightarrow> string \<Rightarrow> DetailedTransactionsRequest \<Rightarrow> PageQuery \<Rightarrow> 'd DetailedTransactionResponse Answer" where
  "getDetailedTransactionsBySummaryID l summaryID req q =
     (case DetailsToFilterOpts (req\<lparr>dq_NextCursor := nextCursor q, dq_PrevCursor := prevCursor q\<rparr>) of
        Inl e \<Rightarrow> Refused 400 e
      | Inr opts \<Rightarrow>
          (case GetDetailedTransactionsBySummaryID l summaryID opts of
             Inl e \<Rightarrow> HandleRepositoryError (sl_errorText l) e
           | Inr (transactions, n) \<Rightarrow>
               Page (RestSuccessResponseCursorPagination q DetailGetCursor DetailToModelResponse transactions (df_Limit opts) n)))"

section \<open>Every summary once\<close>

type_synonym 'd SummaryListEnv = "'d SummaryListing \<times> GetMoneyFlowSummaryRequest"

definition firstSummaryOpts :: "'d SummaryListEnv \<Rightarrow> MoneyFlowSummaryFilterOptions" where
  "firstSummaryOpts = (\<lambda>(l, req).
     case SummaryToFilterOpts (req\<lparr>mq_NextCursor := '''', mq_PrevCursor := ''''\<rparr>) of
       Inr opts \<Rightarrow> opts
     | Inl e \<Rightarrow> \<lparr>mo_PaymentType = mq_PaymentType req, mo_CreationDateStart = None, mo_CreationDateEnd = None,
                 mo_Status = mq_Status req, mo_Limit = 0, mo_Cursor = None, mo_SummaryID = mq_SummaryID req\<rparr>)"

definition listedSummaryRows :: "'d SummaryListEnv \<Rightarrow> 'd MoneyFlowSummary list" where
  "listedSummaryRows e = filter (applyCommonFilters (sl_repo (fst e)) (firstSummaryOpts e)) (mf_summaries (sl_db (fst e)))"

text \<open>
  The queries answer, the request is valid, ids are unique, of at least eight characters and without a bar, and the
  times of creation are in the years that a cursor can print.
\<close>

definition summariesListable :: "'d SummaryListEnv \<Rightarrow> bool" where
  "summariesListable = (\<lambda>(l, req).
     sl_listFault l = None \<and> sl_countFault l = None \<and> 0 \<le> mq_Limit req \<and>
     isOk (optionalDate (mq_CreationDateStart req)) \<and> isOk (optionalDate (mq_CreationDateEnd req)) \<and>
     distinct (map mfs_ID (mf_summaries (sl_db l))) \<and>
     list_all (\<lambda>s. printable (sl_zone l) (mfs_CreatedAt s) \<and> 8 \<le> length (mfs_ID s) \<and> CHR ''|'' \<notin> set (mfs_ID s))
       (mf_summaries (sl_db l)))"

definition summaryPageSize :: "'d SummaryListEnv \<Rightarrow> nat" where
  "summaryPageSize e = (let n = mq_Limit (snd e) in nat (if n = 0 then 10 else n))"

definition withRelated :: "'d::zero SummaryListing \<Rightarrow> 'd MoneyFlowSummary \<Rightarrow> 'd MoneyFlowSummaryOut" where
  "withRelated l s = \<lparr>so_Summary = s, so_RelatedTotalTransfer = relatedTotal (mf_summaries (sl_db l)) s\<rparr>"

definition summaryRowCursor :: "int \<Rightarrow> 'd MoneyFlowSummary \<Rightarrow> string" where
  "summaryRowCursor zone s = EncodeToString (FormatRFC3339Nano zone (mfs_CreatedAt s) @ ''|'' @ mfs_ID s)"

text \<open>A cursor of this version is in no Base64 alphabet, so that it is not decoded again.\<close>

lemma decodeAgain_cursor: "decodeAgain (FormatRFC3339Nano zone t @ CHR ''|'' # i) = FormatRFC3339Nano zone t @ CHR ''|'' # i"
proof -
  let ?s = "FormatRFC3339Nano zone t @ CHR ''|'' # i"
  have colon: "CHR '':'' \<in> set ?s"
    using FormatRFC3339Nano_plain(2) [of zone t] by simp
  have "DecodeString stdAlphabet ?s = None" "DecodeString urlAlphabet ?s = None"
    by (rule DecodeString_foreign [OF colon];
        simp add: sextetValue_def stdAlphabet_def urlAlphabet_def isLineEnd_def)+
  then show ?thesis by (simp add: decodeAgain_def)
qed

lemma summaryCursor_text:
  assumes "printable zone (mfs_CreatedAt s)" and "CHR ''|'' \<notin> set (mfs_ID s)"
  shows "summaryCursor \<lparr>bc_ID = FormatRFC3339Nano zone (mfs_CreatedAt s) @ CHR ''|'' # mfs_ID s, bc_isBackward = b\<rparr> =
    Ok \<lparr>mc_CreatedAt = mfs_CreatedAt s, mc_ID = mfs_ID s, mc_IsBackward = b\<rparr>"
  using splitAt_two [OF FormatRFC3339Nano_plain(1) [of zone "mfs_CreatedAt s"] assms(2)]
    ParseRFC3339Nano_Format [OF assms(1)]
  by (simp add: summaryCursor_def decodeAgain_cursor parseCreatedAt_def)

lemma buildCursor_text:
  assumes "c = EncodeToString t" and "t \<noteq> ''''"
  shows "buildCursor \<lparr>po_Limit = n, po_NextCursor = c, po_PrevCursor = ''''\<rparr> = Ok (Some \<lparr>bc_ID = t, bc_isBackward = False\<rparr>)"
    and "buildCursor \<lparr>po_Limit = n, po_NextCursor = '''', po_PrevCursor = c\<rparr> = Ok (Some \<lparr>bc_ID = t, bc_isBackward = True\<rparr>)"
    and "buildCursor \<lparr>po_Limit = n, po_NextCursor = '''', po_PrevCursor = ''''\<rparr> = Ok None"
  using assms by (simp_all add: buildCursor_def BuildCursorFromString_def)

text \<open>A page, from what the two cursor parameters decode to.\<close>

definition summaryPosition :: "MoneyFlowSummaryCursor option \<Rightarrow> (int \<times> string) Position" where
  "summaryPosition cursor =
     (case cursor of None \<Rightarrow> FirstPage | Some c \<Rightarrow> (if mc_IsBackward c then BeforeKey else AfterKey) (mc_CreatedAt c, mc_ID c))"

lemma getSummariesList_select:
  assumes "summariesListable (l, req)"
    and "buildCursor \<lparr>po_Limit = mq_Limit req, po_NextCursor = nextCursor q, po_PrevCursor = prevCursor q\<rparr> = Ok base"
    and "(case base of None \<Rightarrow> Ok None | Some c \<Rightarrow> rbind (summaryCursor c) (\<lambda>c. Ok (Some c))) = Ok cursor"
    and "\<forall>c. cursor = Some c \<longrightarrow> mc_ID c \<noteq> ''''"
  defines "e \<equiv> (l, req)"
  shows "\<exists>n. getSummariesList l req q = Page (RestSuccessResponseCursorPagination q (summaryRowCursor (sl_zone l))
      (SummaryToModelResponse (sl_zone l) \<circ> withRelated l)
      (selectPage True summaryKey (listedSummaryRows e) (summaryPosition cursor) (summaryPageSize e + 1))
      (int (summaryPageSize e) + 1) n)"
proof -
  obtain since until where dates: "optionalDate (mq_CreationDateStart req) = Ok since" "optionalDate (mq_CreationDateEnd req) = Ok until"
    using assms(1) by (auto simp: summariesListable_def isOk_iff)
  have ok: "sl_listFault l = None" "sl_countFault l = None" "0 \<le> mq_Limit req"
    using assms(1) by (simp_all add: summariesListable_def)
  define first where "first = firstSummaryOpts e"
  have first: "first = \<lparr>mo_PaymentType = mq_PaymentType req, mo_CreationDateStart = since, mo_CreationDateEnd = until,
      mo_Status = mq_Status req, mo_Limit = int (summaryPageSize e) + 1, mo_Cursor = None, mo_SummaryID = mq_SummaryID req\<rparr>"
    using dates ok(3) by (simp add: first_def e_def firstSummaryOpts_def SummaryToFilterOpts_def BuildCursorAndLimit_def
        buildCursor_def summaryPageSize_def Let_def)
  have asked: "SummaryToFilterOpts (req\<lparr>mq_NextCursor := nextCursor q, mq_PrevCursor := prevCursor q\<rparr>) =
      Ok (first\<lparr>mo_Cursor := cursor\<rparr>)"
    using dates ok(3) assms(2,3)
    by (auto simp: SummaryToFilterOpts_def BuildCursorAndLimit_def buildCursor_def first summaryPageSize_def e_def Let_def)
  have filter: "applyCommonFilters repo (first\<lparr>mo_Cursor := cursor\<rparr>) = applyCommonFilters repo first" for repo :: "'a MFRepo"
    by (simp add: fun_eq_iff applyCommonFilters_def Let_def)
  define found where "found = selectPage True summaryKey (listedSummaryRows e) (summaryPosition cursor) (summaryPageSize e + 1)"
  have page: "applyCursorPagination cursor (int (summaryPageSize e) + 1) (listedSummaryRows e) = found"
    using assms(4) by (simp add: found_def applyCursorPagination_def summaryPosition_def nat_add_distrib Let_def split: option.splits)
  have "set found \<subseteq> set (listedSummaryRows e)"
    by (auto simp: found_def summaryPosition_def split: option.splits dest!: in_set_takeD)
  then have long: "8 \<le> length (mfs_ID s)" if "s \<in> set found" for s
    using that assms(1) by (auto simp: summariesListable_def list_all_iff listedSummaryRows_def e_def)
  have rows: "filter (applyCommonFilters (sl_repo l) first) (mf_summaries (sl_db l)) = listedSummaryRows e"
    by (simp add: listedSummaryRows_def first_def) (simp add: e_def)
  have query: "applyCursorPagination (mo_Cursor (first\<lparr>mo_Cursor := cursor\<rparr>)) (mo_Limit (first\<lparr>mo_Cursor := cursor\<rparr>))
      (filter (applyCommonFilters (sl_repo l) (first\<lparr>mo_Cursor := cursor\<rparr>)) (mf_summaries (sl_db l))) = found"
    unfolding filter rows using page by (simp add: first)
  have "\<not> (found \<noteq> [] \<and> (length (mfs_ID (hd found)) < 8 \<or> length (mfs_ID (last found)) < 8))"
    using long [of "hd found"] long [of "last found"] by auto
  then have list: "RepoGetSummariesList l (first\<lparr>mo_Cursor := cursor\<rparr>) = Ok (map (withRelated l) found)"
    unfolding RepoGetSummariesList_def query Let_def withRelated_def by (simp add: ok)
  have cursor: "SummaryOutGetCursor (sl_zone l) \<circ> withRelated l = summaryRowCursor (sl_zone l)"
    by (simp add: fun_eq_iff SummaryOutGetCursor_def summaryRowCursor_def withRelated_def)
  show ?thesis
    unfolding found_def [symmetric]
    by (simp add: getSummariesList_def asked GetSummariesList_def list wrapError_def CountSummaryAll_def ok response_map cursor)
       (simp add: first, rule exI, rule refl)
qed

lemma summaryCursor_rowCursor:
  assumes "summariesListable e" and "s \<in> set (listedSummaryRows e)"
  defines "c \<equiv> summaryRowCursor (sl_zone (fst e)) s"
    and "t \<equiv> FormatRFC3339Nano (sl_zone (fst e)) (mfs_CreatedAt s) @ CHR ''|'' # mfs_ID s"
  shows "c = EncodeToString t" and "t \<noteq> ''''" and "mfs_ID s \<noteq> ''''"
    and "summaryCursor \<lparr>bc_ID = t, bc_isBackward = b\<rparr> = Ok \<lparr>mc_CreatedAt = mfs_CreatedAt s, mc_ID = mfs_ID s, mc_IsBackward = b\<rparr>"
proof -
  have "printable (sl_zone (fst e)) (mfs_CreatedAt s) \<and> 8 \<le> length (mfs_ID s) \<and> CHR ''|'' \<notin> set (mfs_ID s)"
    using assms(1,2) by (auto simp: summariesListable_def listedSummaryRows_def list_all_iff split: prod.splits)
  then show "mfs_ID s \<noteq> ''''"
    and "summaryCursor \<lparr>bc_ID = t, bc_isBackward = b\<rparr> = Ok \<lparr>mc_CreatedAt = mfs_CreatedAt s, mc_ID = mfs_ID s, mc_IsBackward = b\<rparr>"
    by (auto simp: t_def summaryCursor_text)
qed (simp_all add: c_def t_def summaryRowCursor_def)

interpretation summary_list: cursor_listing
  "\<lambda>e. getSummariesList (fst e) (snd e) :: PageQuery \<Rightarrow> 'd::monoid_add MoneyFlowSummaryResponse Answer"
  summariesListable listedSummaryRows "\<lambda>e. True" "\<lambda>e. summaryKey" summaryPageSize
  "\<lambda>e. summaryRowCursor (sl_zone (fst e))" "\<lambda>e. SummaryToModelResponse (sl_zone (fst e)) \<circ> withRelated (fst e)"
proof
  fix e :: "'d SummaryListEnv" and s :: "'d MoneyFlowSummary" and q :: PageQuery
  assume e: "summariesListable e"
  obtain l req where split: "e = (l, req)" by (cases e)
  show "0 < summaryPageSize e"
    using e by (simp add: split summaryPageSize_def summariesListable_def Let_def)
  have "distinct (map mfs_ID (listedSummaryRows e))"
    using e by (simp add: split summariesListable_def listedSummaryRows_def distinct_map_filter)
  then show "distinct (map summaryKey (listedSummaryRows e))"
    by (auto simp: distinct_map inj_on_def summaryKey_def)
  note select = getSummariesList_select [OF e [unfolded split], folded split]
  {
    assume "q = \<lparr>nextCursor = '''', prevCursor = ''''\<rparr>"
    then show "\<exists>n. getSummariesList (fst e) (snd e) q = Page (RestSuccessResponseCursorPagination q
        (summaryRowCursor (sl_zone (fst e))) (SummaryToModelResponse (sl_zone (fst e)) \<circ> withRelated (fst e))
        (selectPage True summaryKey (listedSummaryRows e) FirstPage (summaryPageSize e + 1)) (int (summaryPageSize e) + 1) n)"
      using select [of q None None] by (simp add: split buildCursor_def summaryPosition_def)
  next
    assume s: "s \<in> set (listedSummaryRows e)"
    let ?t = "FormatRFC3339Nano (sl_zone (fst e)) (mfs_CreatedAt s) @ CHR ''|'' # mfs_ID s"
    note cursor = summaryCursor_rowCursor [OF e s]
    show "summaryRowCursor (sl_zone (fst e)) s \<noteq> ''''"
      using cursor(1,2) by simp
    {
      assume "q = \<lparr>nextCursor = summaryRowCursor (sl_zone (fst e)) s, prevCursor = ''''\<rparr>"
      then show "\<exists>n. getSummariesList (fst e) (snd e) q = Page (RestSuccessResponseCursorPagination q
          (summaryRowCursor (sl_zone (fst e))) (SummaryToModelResponse (sl_zone (fst e)) \<circ> withRelated (fst e))
          (selectPage True summaryKey (listedSummaryRows e) (AfterKey (summaryKey s)) (summaryPageSize e + 1))
          (int (summaryPageSize e) + 1) n)"
        using select [of q "Some \<lparr>bc_ID = ?t, bc_isBackward = False\<rparr>"
            "Some \<lparr>mc_CreatedAt = mfs_CreatedAt s, mc_ID = mfs_ID s, mc_IsBackward = False\<rparr>"]
          buildCursor_text(1) [OF cursor(1,2)] cursor(3) cursor(4) [of False]
        by (simp add: split summaryKey_def summaryPosition_def)
    next
      assume "q = \<lparr>nextCursor = '''', prevCursor = summaryRowCursor (sl_zone (fst e)) s\<rparr>"
      then show "\<exists>n. getSummariesList (fst e) (snd e) q = Page (RestSuccessResponseCursorPagination q
          (summaryRowCursor (sl_zone (fst e))) (SummaryToModelResponse (sl_zone (fst e)) \<circ> withRelated (fst e))
          (selectPage True summaryKey (listedSummaryRows e) (BeforeKey (summaryKey s)) (summaryPageSize e + 1))
          (int (summaryPageSize e) + 1) n)"
        using select [of q "Some \<lparr>bc_ID = ?t, bc_isBackward = True\<rparr>"
            "Some \<lparr>mc_CreatedAt = mfs_CreatedAt s, mc_ID = mfs_ID s, mc_IsBackward = True\<rparr>"]
          buildCursor_text(2) [OF cursor(1,2)] cursor(3) cursor(4) [of True]
        by (simp add: split summaryKey_def summaryPosition_def)
    }
  }
qed

end
