(* ===== verification/DetailListing.thy ===== *)
theory DetailListing
  imports SummaryListing
begin

text \<open>
  The transactions of a summary, page by page.  The limit counts details, and the reference number is looked at after
  it: without one, the endpoint is a listing in the sense of \<open>Pagination\<close>; with one, a page can be short, or empty,
  although more transactions match.
\<close>

section \<open>What a page holds\<close>

type_synonym 'd DetailListEnv = "'d SummaryListing \<times> string \<times> DetailedTransactionsRequest"

text \<open>The details of the summary and of the one it carries on.\<close>

definition listedDetails :: "'d::zero DetailListEnv \<Rightarrow> DetailedMoneyFlowSummary list" where
  "listedDetails = (\<lambda>(l, summaryID, req).
     case GetSummaryDetailBySummaryID (sl_repo l) summaryID (sl_db l) of
       Inl e \<Rightarrow> []
     | Inr summary \<Rightarrow> detailRows l summaryID (sd_RelatedFailedOrRejectedSummaryID summary))"

definition detailPageSize :: "'d DetailListEnv \<Rightarrow> nat" where
  "detailPageSize = (\<lambda>(l, summaryID, req). nat (if dq_Limit req = 0 then 10 else dq_Limit req))"

text \<open>The transaction of a detail, and whether the query by ids finds it.\<close>

definition ledgerRow :: "'d SummaryListing \<Rightarrow> string \<Rightarrow> 'd Transaction option" where
  "ledgerRow l i = find (\<lambda>t. txn_TransactionID t = i) (sl_ledger l)"

definition detailMatches :: "'d SummaryListing \<Rightarrow> string \<Rightarrow> DetailedMoneyFlowSummary \<Rightarrow> bool" where
  "detailMatches l refNumber d =
     (case ledgerRow l (dmf_AcuanTransactionID d) of
        None \<Rightarrow> False
      | Some t \<Rightarrow> refNumber \<noteq> '''' \<longrightarrow> txn_RefNumber t = refNumber)"

definition detailOut :: "'d SummaryListing \<Rightarrow> DetailedMoneyFlowSummary \<Rightarrow> 'd DetailedTransactionOut" where
  "detailOut l d = \<lparr>dt_ID = dmf_ID d, dt_Transaction = the (ledgerRow l (dmf_AcuanTransactionID d))\<rparr>"

text \<open>
  The queries answer, the summary is there, the limit is not negative, the ids of the details are unique and none is
  empty, no two details share a transaction, and the ids of the ledger are unique.
\<close>

definition detailsListable :: "'d::zero DetailListEnv \<Rightarrow> bool" where
  "detailsListable = (\<lambda>(l, summaryID, req).
     sl_listFault l = None \<and> sl_transactionsFault l = None \<and> 0 \<le> dq_Limit req \<and>
     isOk (GetSummaryDetailBySummaryID (sl_repo l) summaryID (sl_db l)) \<and>
     distinct (map dmf_ID (mf_details (sl_db l))) \<and>
     list_all (\<lambda>d. dmf_ID d \<noteq> '''') (mf_details (sl_db l)) \<and>
     distinct (map dmf_AcuanTransactionID (listedDetails (l, summaryID, req))) \<and>
     distinct (map txn_TransactionID (sl_ledger l)))"

lemma ledgerRow_Some: "ledgerRow l i = Some t \<Longrightarrow> txn_TransactionID t = i"
  by (auto simp: ledgerRow_def find_Some_iff)

lemma detailMatches_ID:
  "detailMatches l refNumber d \<Longrightarrow> txn_TransactionID (dt_Transaction (detailOut l d)) = dmf_AcuanTransactionID d"
  by (auto simp: detailMatches_def detailOut_def dest: ledgerRow_Some split: option.splits)

lemma foldl_upd_map_of:
  assumes "distinct (map k xs)"
  shows "foldl (\<lambda>m x. m(k x \<mapsto> v x)) m xs = m ++ map_of (map (\<lambda>x. (k x, v x)) xs)"
  using assms
proof (induction xs arbitrary: m)
  case (Cons x xs)
  have "k x \<notin> dom (map_of (map (\<lambda>x. (k x, v x)) xs))"
    using Cons.prems by (simp add: dom_map_of_conv_image_fst image_comp comp_def)
  with Cons show ?case
    by (auto simp: map_add_def fun_eq_iff domIff split: option.splits)
qed simp

lemma map_of_keyed: "distinct (map k xs) \<Longrightarrow> x \<in> set xs \<Longrightarrow> map_of (map (\<lambda>x. (k x, v x)) xs) (k x) = Some (v x)"
  by (rule map_of_is_SomeI) (simp_all add: comp_def)

lemma map_of_find: "map_of (map (\<lambda>t. (k t, t)) (filter P ts)) i = find (\<lambda>t. P t \<and> k t = i) ts"
  by (induction ts) auto

lemma find_and: "distinct (map k ts) \<Longrightarrow>
    find (\<lambda>t. P t \<and> k t = i) ts = (case find (\<lambda>t. k t = i) ts of None \<Rightarrow> None | Some t \<Rightarrow> if P t then Some t else None)"
proof (induction ts)
  case (Cons t ts)
  show ?case
  proof (cases "k t = i")
    case True
    with Cons.prems have "find (\<lambda>t. P t \<and> k t = i) ts = None"
      by (metis (mono_tags, lifting) distinct.simps(2) find_None_iff imageI list.set_map list.simps(9))
    with True show ?thesis by simp
  next
    case False
    with Cons show ?thesis by simp
  qed
qed simp

lemma map_filter_agree:
  "(\<And>x. x \<in> set xs \<Longrightarrow> f x = (if P x then Some (g x) else None)) \<Longrightarrow> List.map_filter f xs = map g (filter P xs)"
  by (induction xs) (auto simp: map_filter_simps)

text \<open>The transactions of a page of details: those that match, in the order of the details.\<close>

lemma GetTransactionsByIDs_matching:
  assumes "sl_transactionsFault l = None" and "distinct (map txn_TransactionID (sl_ledger l))"
  shows "GetTransactionsByIDs l (map dmf_AcuanTransactionID ds) refNumber =
    Ok (map (dt_Transaction \<circ> detailOut l) (filter (detailMatches l refNumber) ds))"
proof -
  let ?ids = "map dmf_AcuanTransactionID ds"
  let ?P = "\<lambda>t. txn_TransactionID t \<in> set ?ids \<and> (refNumber \<noteq> '''' \<longrightarrow> txn_RefNumber t = refNumber)"
  let ?m = "foldl (\<lambda>m t. m(txn_TransactionID t \<mapsto> t)) Map.empty (filter ?P (sl_ledger l))"
  have m: "?m i = find (\<lambda>t. ?P t \<and> txn_TransactionID t = i) (sl_ledger l)" for i
    using assms(2) by (simp add: foldl_upd_map_of distinct_map_filter map_of_find)
  have found: "?m (dmf_AcuanTransactionID d) =
      (if detailMatches l refNumber d then Some (dt_Transaction (detailOut l d)) else None)" if "d \<in> set ds" for d
  proof -
    have "txn_TransactionID t = dmf_AcuanTransactionID d" if "ledgerRow l (dmf_AcuanTransactionID d) = Some t" for t
      using that by (rule ledgerRow_Some)
    with that show ?thesis
      unfolding m find_and [OF assms(2)] ledgerRow_def [symmetric]
      by (simp add: detailMatches_def detailOut_def split: option.splits)
  qed
  have "List.map_filter (\<lambda>d. ?m (dmf_AcuanTransactionID d)) ds =
      map (dt_Transaction \<circ> detailOut l) (filter (detailMatches l refNumber) ds)"
    by (rule map_filter_agree) (simp only: found comp_apply)
  then show ?thesis
    using assms(1) by (auto simp: GetTransactionsByIDs_def List.map_filter_def comp_def filter_map)
qed

lemma distinct_orderBy: "distinct (map f (orderBy descending key rows)) = distinct (map f rows)"
proof -
  have "distinct (orderBy descending key rows) = distinct rows"
    by (simp add: orderBy_def)
  then show ?thesis by (simp add: distinct_map)
qed

lemma distinct_selectPage: "distinct (map f rows) \<Longrightarrow> distinct (map f (selectPage descending key rows p n))"
  by (cases p) (simp_all add: distinct_orderBy distinct_map_filter flip: take_map)

text \<open>The whole answer: the details of the page whose transactions match.\<close>

definition detailPosition :: "BaseCursor option \<Rightarrow> string Position" where
  "detailPosition cursor =
     (case cursor of None \<Rightarrow> FirstPage | Some c \<Rightarrow> (if bc_isBackward c then BeforeKey else AfterKey) (bc_ID c))"

lemma detailsListableD:
  assumes "detailsListable (l, summaryID, req)"
  shows "distinct (map dmf_ID (listedDetails (l, summaryID, req)))"
    and "d \<in> set (listedDetails (l, summaryID, req)) \<Longrightarrow> dmf_ID d \<noteq> ''''"
    and "0 < detailPageSize (l, summaryID, req)"
  using assms
  by (auto simp: detailsListable_def listedDetails_def detailRows_def detailPageSize_def isOk_iff distinct_map_filter list_all_iff
      split: sum.splits)

lemma getDetailedTransactions_page:
  assumes "detailsListable (l, summaryID, req)"
    and "buildCursor \<lparr>po_Limit = dq_Limit req, po_NextCursor = nextCursor q, po_PrevCursor = prevCursor q\<rparr> = Ok cursor"
  defines "e \<equiv> (l, summaryID, req)"
  shows "\<exists>n. getDetailedTransactionsBySummaryID l summaryID req q =
    Page (RestSuccessResponseCursorPagination q DetailGetCursor DetailToModelResponse
      (map (detailOut l) (filter (detailMatches l (dq_RefNumber req))
        (selectPage True dmf_ID (listedDetails e) (detailPosition cursor) (detailPageSize e + 1))))
      (int (detailPageSize e) + 1) n)"
proof -
  obtain summary where summary: "GetSummaryDetailBySummaryID (sl_repo l) summaryID (sl_db l) = Ok summary"
    using assms(1) by (auto simp: detailsListable_def isOk_iff)
  have ok: "sl_listFault l = None" "sl_transactionsFault l = None" "0 \<le> dq_Limit req"
    "distinct (map txn_TransactionID (sl_ledger l))" "distinct (map dmf_AcuanTransactionID (listedDetails e))"
    using assms(1) by (simp_all add: detailsListable_def e_def)
  let ?rows = "detailRows l summaryID (sd_RelatedFailedOrRejectedSummaryID summary)"
  have rows: "?rows = listedDetails e"
    by (simp add: e_def listedDetails_def summary)
  define found where "found = selectPage True dmf_ID (listedDetails e) (detailPosition cursor) (detailPageSize e + 1)"
  have "distinct (map dmf_AcuanTransactionID found)"
    unfolding found_def using ok(5) by (rule distinct_selectPage)
  then have mapping: "strIndex (foldl (\<lambda>m d. m(dmf_AcuanTransactionID d \<mapsto> dmf_ID d)) Map.empty found) (dmf_AcuanTransactionID d) =
      dmf_ID d" if "d \<in> set found" for d
    using that by (simp add: foldl_upd_map_of map_of_keyed strIndex_def)
  have out: "\<lparr>dt_ID = strIndex (foldl (\<lambda>m d. m(dmf_AcuanTransactionID d \<mapsto> dmf_ID d)) Map.empty found)
        (txn_TransactionID (dt_Transaction (detailOut l d))), dt_Transaction = dt_Transaction (detailOut l d)\<rparr> = detailOut l d"
    if "d \<in> set (filter (detailMatches l (dq_RefNumber req)) found)" for d
    using that mapping [of d] detailMatches_ID [of l "dq_RefNumber req" d] by (simp add: detailOut_def)
  have outs: "map (\<lambda>d. \<lparr>dt_ID = strIndex (foldl (\<lambda>m d. m(dmf_AcuanTransactionID d \<mapsto> dmf_ID d)) Map.empty found)
        (txn_TransactionID (dt_Transaction (detailOut l d))), dt_Transaction = dt_Transaction (detailOut l d)\<rparr>)
        (filter (detailMatches l (dq_RefNumber req)) found) =
      map (detailOut l) (filter (detailMatches l (dq_RefNumber req)) found)"
    by (rule map_cong [OF refl]) (rule out)
  have opts: "DetailsToFilterOpts (req\<lparr>dq_NextCursor := nextCursor q, dq_PrevCursor := prevCursor q\<rparr>) =
      Ok \<lparr>df_SummaryID = dq_SummaryID req, df_RelatedSummaryID = None, df_RefNumber = dq_RefNumber req,
          df_Limit = int (detailPageSize e) + 1, df_Cursor = cursor\<rparr>"
    using assms(2) ok(3)
    by (auto simp: DetailsToFilterOpts_def BuildCursorAndLimit_def buildCursor_def detailPageSize_def e_def Let_def)
  have ids: "GetDetailedTransactionIDsWithMapping l \<lparr>df_SummaryID = summaryID,
        df_RelatedSummaryID = sd_RelatedFailedOrRejectedSummaryID summary, df_RefNumber = dq_RefNumber req,
        df_Limit = int (detailPageSize e) + 1, df_Cursor = cursor\<rparr> =
      Ok (foldl (\<lambda>m d. m(dmf_AcuanTransactionID d \<mapsto> dmf_ID d)) Map.empty found, map dmf_AcuanTransactionID found)"
    by (simp add: GetDetailedTransactionIDsWithMapping_def ok rows found_def detailPosition_def nat_add_distrib Let_def)
  show ?thesis
    unfolding found_def [symmetric]
    by (simp add: getDetailedTransactionsBySummaryID_def opts GetDetailedTransactionsBySummaryID_def summary wrapError_def ids
        GetTransactionsByIDs_matching [OF ok(2,4)] comp_def outs) (rule exI, rule refl)
qed

section \<open>Every transaction once\<close>

text \<open>Without a reference number, and with every transaction of the details in the ledger, nothing is left out.\<close>

definition detailsComplete :: "'d::zero DetailListEnv \<Rightarrow> bool" where
  "detailsComplete e \<longleftrightarrow>
     detailsListable e \<and> dq_RefNumber (snd (snd e)) = '''' \<and>
     list_all (\<lambda>d. ledgerRow (fst e) (dmf_AcuanTransactionID d) \<noteq> None) (listedDetails e)"

definition detailCursor :: "DetailedMoneyFlowSummary \<Rightarrow> string" where
  "detailCursor d = EncodeToString (dmf_ID d)"

lemma DetailGetCursor_detailOut: "DetailGetCursor \<circ> detailOut l = detailCursor"
  by (simp add: fun_eq_iff DetailGetCursor_def detailOut_def detailCursor_def)

lemma set_selectPage: "set (selectPage descending key rows p n) \<subseteq> set rows"
  by (cases p) (auto dest!: in_set_takeD)

lemma getDetailedTransactions_complete:
  assumes "detailsComplete e"
    and "buildCursor \<lparr>po_Limit = dq_Limit (snd (snd e)), po_NextCursor = nextCursor q, po_PrevCursor = prevCursor q\<rparr> = Ok cursor"
  shows "\<exists>n. getDetailedTransactionsBySummaryID (fst e) (fst (snd e)) (snd (snd e)) q =
    Page (RestSuccessResponseCursorPagination q detailCursor (DetailToModelResponse \<circ> detailOut (fst e))
      (selectPage True dmf_ID (listedDetails e) (detailPosition cursor) (detailPageSize e + 1))
      (int (detailPageSize e) + 1) n)"
proof -
  obtain l summaryID req where e: "e = (l, summaryID, req)" by (cases e) auto
  let ?found = "selectPage True dmf_ID (listedDetails e) (detailPosition cursor) (detailPageSize e + 1)"
  have "\<forall>d\<in>set ?found. detailMatches l (dq_RefNumber req) d"
    using assms(1) set_selectPage [of True dmf_ID "listedDetails e" "detailPosition cursor" "detailPageSize e + 1"]
    by (auto simp: e detailsComplete_def detailMatches_def list_all_iff split: option.splits)
  then have "filter (detailMatches l (dq_RefNumber req)) ?found = ?found"
    by (simp add: filter_id_conv)
  with getDetailedTransactions_page [of l summaryID req q cursor] assms show ?thesis
    by (simp add: e detailsComplete_def response_map DetailGetCursor_detailOut)
qed

interpretation detail_list: cursor_listing
  "\<lambda>e. getDetailedTransactionsBySummaryID (fst e) (fst (snd e)) (snd (snd e)) ::
     PageQuery \<Rightarrow> 'd::zero DetailedTransactionResponse Answer"
  detailsComplete listedDetails "\<lambda>e. True" "\<lambda>e. dmf_ID" detailPageSize "\<lambda>e. detailCursor"
  "\<lambda>e. DetailToModelResponse \<circ> detailOut (fst e)"
proof
  fix e :: "'d DetailListEnv" and d :: DetailedMoneyFlowSummary and q :: PageQuery
  assume e: "detailsComplete e"
  obtain l summaryID req where split: "e = (l, summaryID, req)" by (cases e) auto
  note listable = detailsListableD [of l summaryID req, folded split]
  show "0 < detailPageSize e" and "distinct (map dmf_ID (listedDetails e))"
    using e listable by (simp_all add: detailsComplete_def)
  note page = getDetailedTransactions_complete [OF e, of q]
  {
    assume "q = \<lparr>nextCursor = [], prevCursor = []\<rparr>"
    then show "\<exists>n. getDetailedTransactionsBySummaryID (fst e) (fst (snd e)) (snd (snd e)) q =
        Page (RestSuccessResponseCursorPagination q detailCursor (DetailToModelResponse \<circ> detailOut (fst e))
          (selectPage True dmf_ID (listedDetails e) FirstPage (detailPageSize e + 1)) (int (detailPageSize e) + 1) n)"
      using page [of None] by (simp add: buildCursor_def detailPosition_def)
  next
    assume "d \<in> set (listedDetails e)"
    then have d: "dmf_ID d \<noteq> []"
      using e listable by (simp add: detailsComplete_def)
    then show "detailCursor d \<noteq> []"
      by (simp add: detailCursor_def)
    note asked = buildCursor_text [OF detailCursor_def [of d] d]
    {
      assume "q = \<lparr>nextCursor = detailCursor d, prevCursor = []\<rparr>"
      then show "\<exists>n. getDetailedTransactionsBySummaryID (fst e) (fst (snd e)) (snd (snd e)) q =
          Page (RestSuccessResponseCursorPagination q detailCursor (DetailToModelResponse \<circ> detailOut (fst e))
            (selectPage True dmf_ID (listedDetails e) (AfterKey (dmf_ID d)) (detailPageSize e + 1))
            (int (detailPageSize e) + 1) n)"
        using page asked(1) by (simp add: detailPosition_def)
    next
      assume "q = \<lparr>nextCursor = [], prevCursor = detailCursor d\<rparr>"
      then show "\<exists>n. getDetailedTransactionsBySummaryID (fst e) (fst (snd e)) (snd (snd e)) q =
          Page (RestSuccessResponseCursorPagination q detailCursor (DetailToModelResponse \<circ> detailOut (fst e))
            (selectPage True dmf_ID (listedDetails e) (BeforeKey (dmf_ID d)) (detailPageSize e + 1))
            (int (detailPageSize e) + 1) n)"
        using page asked(2) by (simp add: detailPosition_def)
    }
  }
qed

section \<open>The filter ends the list early\<close>

text \<open>
  With a reference number, a first page whose matching transactions fit on it has no next cursor, whatever matches
  further down.
\<close>

lemma filtered_first_page:
  assumes "detailsListable (l, summaryID, req)"
  defines "e \<equiv> (l, summaryID, req)"
  defines "shown \<equiv> filter (detailMatches l (dq_RefNumber req)) (take (detailPageSize e + 1) (orderBy True dmf_ID (listedDetails e)))"
  assumes "length shown \<le> detailPageSize e"
  shows "followNext (Suc n) (getDetailedTransactionsBySummaryID l summaryID req) '''' =
    Some [map (DetailToModelResponse \<circ> detailOut l) shown]"
proof -
  let ?q = "\<lparr>nextCursor = [], prevCursor = []\<rparr>"
  have "buildCursor \<lparr>po_Limit = dq_Limit req, po_NextCursor = nextCursor ?q, po_PrevCursor = prevCursor ?q\<rparr> = Ok None"
    by (simp add: buildCursor_def)
  from getDetailedTransactions_page [OF assms(1) this, folded e_def] obtain n where
    "getDetailedTransactionsBySummaryID l summaryID req ?q =
      Page (RestSuccessResponseCursorPagination ?q DetailGetCursor DetailToModelResponse (map (detailOut l) shown)
        (int (detailPageSize e) + 1) n)"
    by (auto simp: detailPosition_def shown_def)
  moreover have "\<not> isBackward ?q" and "\<not> isForward ?q"
    by (simp_all add: isBackward_def isForward_def)
  moreover have "take (detailPageSize e + 1) shown = shown"
    using assms(4) by simp
  ultimately show ?thesis
    using forward_response [OF detailsListableD(3) [OF assms(1), folded e_def], of ?q "DetailGetCursor \<circ> detailOut l"
        "DetailToModelResponse \<circ> detailOut l" shown n] assms(4)
    by (simp add: response_map)
qed

end
