(* ===== verification/MoneyFlowProperties.thy ===== *)
theory MoneyFlowProperties
  imports MoneyFlowService
begin

text \<open>
  The money flow summaries over any history of notifications, events, updates and activations, whatever fails in
  it: the books (each total is that of the transactions recorded under the summary) and the status of a summary.
\<close>

section \<open>What the statements do\<close>

definition changedRows ::
  "string \<Rightarrow> ('d MoneyFlowSummary \<Rightarrow> 'd MoneyFlowSummary) \<Rightarrow> 'd MoneyFlowSummary list \<Rightarrow> 'd MoneyFlowSummary list" where
  "changedRows i f rows = map (\<lambda>s. if mfs_ID s = i then f s else s) rows"

lemma changedRows_member:
  "(\<And>s. mfs_ID (f s) = mfs_ID s) \<Longrightarrow> list_ex (\<lambda>s. mfs_ID s = i) (changedRows i f rows) \<longleftrightarrow> i \<in> mfs_ID ` set rows"
  by (induction rows) (auto simp: changedRows_def)

lemma has_id: "list_ex (\<lambda>s. mfs_ID s = i) rows \<longleftrightarrow> i \<in> mfs_ID ` set rows"
  by (auto simp: list_ex_iff)

lemma changedRows_none: "i \<notin> mfs_ID ` set rows \<Longrightarrow> changedRows i f rows = rows"
  by (auto simp: changedRows_def intro!: map_idI)

lemma updateRow_eq:
  assumes "\<And>s. mfs_ID (f s) = mfs_ID s"
  shows "updateRow repo i f db =
     (case fault (mf_repo repo) UpdateSummaryRow of
        Some e \<Rightarrow> (Inl e, db)
      | None \<Rightarrow>
          if distinct (activeKeys (changedRows i f (mf_summaries db)))
          then (if i \<in> mfs_ID ` set (mf_summaries db)
                then (Inr (), db\<lparr>mf_summaries := changedRows i f (mf_summaries db)\<rparr>)
                else (Inl (Sentinel ErrNoRowsAffected), db))
          else (Inl (External ''duplicate key value violates unique constraint''), db))"
  unfolding updateRow_def bind_def call_def failIf_def writeSummaries_def changedRows_def [symmetric]
  using has_id [of i "mf_summaries db"]
  by (cases "i \<in> mfs_ID ` set (mf_summaries db)")
    (simp_all add: exec_simps changedRows_member [OF assms] changedRows_none split: option.split)

lemma updateRow_cases:
  assumes "updateRow repo i f db = (r, db')" and "\<And>s. mfs_ID (f s) = mfs_ID s"
  obtains (failed) e where "r = Inl e" "db' = db"
  | (changed) "r = Inr ()" "i \<in> mfs_ID ` set (mf_summaries db)" "distinct (activeKeys (changedRows i f (mf_summaries db)))"
      "db' = db\<lparr>mf_summaries := changedRows i f (mf_summaries db)\<rparr>" "fault (mf_repo repo) UpdateSummaryRow = None"
  using assms(1) unfolding updateRow_eq [OF assms(2)] by (auto split: option.splits if_splits intro: failed changed)

lemma changedRows_ids: "(\<And>s. mfs_ID (f s) = mfs_ID s) \<Longrightarrow> map mfs_ID (changedRows i f rows) = map mfs_ID rows"
  by (simp add: changedRows_def)

lemma activeKeys_changed:
  assumes "\<And>s. mfs_IsActive (f s) = mfs_IsActive s" and "\<And>s. mfs_PaymentType (f s) = mfs_PaymentType s"
    and "\<And>s. mfs_TransactionSourceCreationDate (f s) = mfs_TransactionSourceCreationDate s"
  shows "activeKeys (changedRows i f rows) = activeKeys rows"
  by (induction rows) (auto simp: activeKeys_def changedRows_def assms)

lemma setFields_simps [simp]:
  "mfs_ID (setFields u t s) = mfs_ID s" "mfs_IsActive (setFields u t s) = mfs_IsActive s"
  "mfs_TransactionSourceCreationDate (setFields u t s) = mfs_TransactionSourceCreationDate s"
  "mfs_TransactionType (setFields u t s) = mfs_TransactionType s"
  "mfs_RelatedFailedOrRejectedSummaryID (setFields u t s) = mfs_RelatedFailedOrRejectedSummaryID s"
  by (simp_all add: setFields_def)

lemma noUpdate_simps [simp]:
  "upd_PaymentType noUpdate = None" "upd_TotalTransfer noUpdate = None" "upd_PapaTransactionID noUpdate = None"
  "upd_MoneyFlowStatus noUpdate = None" "upd_RequestedDate noUpdate = None" "upd_ActualDate noUpdate = None"
  by (simp_all add: noUpdate_def)

lemma ProcessOrUpdate_Ok:
  assumes "ProcessOrUpdate repo detailID c i db = (Inr sid, db')"
  obtains (added) s where "find (conflicts repo c) (mf_summaries db) = Some s" "sid = mfs_ID s"
      "mf_summaries db' = map (\<lambda>r. if conflicts repo c r
          then r\<lparr>mfs_TotalTransfer := mfs_TotalTransfer r + cms_TotalTransfer c, mfs_UpdatedAt := now (mf_repo repo)\<rparr>
          else r) (mf_summaries db)"
      "mf_details db' = mf_details db @ [\<lparr>dmf_ID = detailID, dmf_SummaryID = sid, dmf_AcuanTransactionID = i,
          dmf_CreatedAt = now (mf_repo repo)\<rparr>]"
  | (created) related where "find (conflicts repo c) (mf_summaries db) = None" "sid = cms_ID c"
      "DetermineRelationship repo c (TruncateDay (cms_TransactionSourceCreationDate c)) db = Inr related"
      "mf_summaries db' = mf_summaries db @
         [(summaryRow repo c)\<lparr>mfs_RelatedFailedOrRejectedSummaryID := related\<rparr>]"
      "mf_details db' = mf_details db @ [\<lparr>dmf_ID = detailID, dmf_SummaryID = sid, dmf_AcuanTransactionID = i,
          dmf_CreatedAt = now (mf_repo repo)\<rparr>]"
proof -
  have same: "conflicts repo (c\<lparr>cms_RelatedFailedOrRejectedSummaryID := related\<rparr>) = conflicts repo c"
    and row: "summaryRow repo (c\<lparr>cms_RelatedFailedOrRejectedSummaryID := related\<rparr>) =
        (summaryRow repo c)\<lparr>mfs_RelatedFailedOrRejectedSummaryID := related\<rparr>" for related
    by (simp_all add: conflicts_def summaryRow_def fun_eq_iff)
  from assms show thesis
    unfolding ProcessOrUpdate_def bind_Ok_iff
    by (cases "find (conflicts repo c) (mf_summaries db)")
      (auto simp: UpsertSummary_def CreateDetailedSummary_def bind_def exec_simps same row failIf_def
        split: option.splits sum.splits prod.splits intro: added created)
qed

section \<open>The books\<close>

text \<open>
  The invariant, for the amount that each transaction id stands for: ids and active keys are unique, every detail
  belongs to a summary, and a summary's total is that of its details.
\<close>

definition recorded :: "(string \<Rightarrow> 'd::comm_monoid_add) \<Rightarrow> DetailedMoneyFlowSummary list \<Rightarrow> string \<Rightarrow> 'd" where
  "recorded amountOf details i =
     sum_list (map (\<lambda>d. amountOf (dmf_AcuanTransactionID d)) (filter (\<lambda>d. dmf_SummaryID d = i) details))"

definition mfBooks :: "(string \<Rightarrow> 'd::comm_monoid_add) \<Rightarrow> 'd MFDB \<Rightarrow> bool" where
  "mfBooks amountOf db \<longleftrightarrow>
     distinct (map mfs_ID (mf_summaries db)) \<and> distinct (activeKeys (mf_summaries db)) \<and>
     dmf_SummaryID ` set (mf_details db) \<subseteq> mfs_ID ` set (mf_summaries db) \<and>
     (\<forall>s\<in>set (mf_summaries db). mfs_TotalTransfer s = recorded amountOf (mf_details db) (mfs_ID s))"

text \<open>What the status of a row says about its dates.\<close>

definition datedRow :: "'d MoneyFlowSummary \<Rightarrow> bool" where
  "datedRow s \<longleftrightarrow>
     mfs_MoneyFlowStatus s \<in> {''PENDING'', ''IN_PROGRESS'', ''SUCCESSFUL'', ''FAILED'', ''REJECTED''} \<and>
     (mfs_MoneyFlowStatus s = ''IN_PROGRESS'' \<longrightarrow> mfs_RequestedDate s \<noteq> None) \<and>
     (mfs_MoneyFlowStatus s = ''SUCCESSFUL'' \<longrightarrow> mfs_ActualDate s \<noteq> None)"

lemma recorded_Nil [simp]: "recorded amountOf [] i = 0"
  by (simp add: recorded_def)

lemma recorded_snoc [simp]:
  "recorded amountOf (details @ [d]) i =
     recorded amountOf details i + (if dmf_SummaryID d = i then amountOf (dmf_AcuanTransactionID d) else 0)"
  by (simp add: recorded_def)

lemma recorded_none: "i \<notin> dmf_SummaryID ` set details \<Longrightarrow> recorded amountOf details i = 0"
  by (induction details) (auto simp: recorded_def)

lemma mfBooks_changed:
  assumes books: "mfBooks amountOf db" and keys: "distinct (activeKeys (changedRows i f (mf_summaries db)))"
    and f: "\<And>s. mfs_ID (f s) = mfs_ID s" "\<And>s. mfs_TotalTransfer (f s) = mfs_TotalTransfer s"
  shows "mfBooks amountOf (db\<lparr>mf_summaries := changedRows i f (mf_summaries db)\<rparr>)"
proof -
  have ids: "mfs_ID ` set (changedRows i f rows) = mfs_ID ` set rows" for rows
    using arg_cong [OF changedRows_ids [of f i rows, OF f(1)], of set] by simp
  from books keys show ?thesis
    unfolding mfBooks_def by (simp add: ids changedRows_ids f) (auto simp: changedRows_def f)
qed

lemma mfBooks_total_change:
  assumes "mfBooks amountOf db" and "s \<in> set (mf_summaries db)" and "P s" and others: "\<And>r. r \<in> set (mf_summaries db) \<Longrightarrow> P r \<Longrightarrow> r = s"
    and "dmf_SummaryID d = mfs_ID s" and "x = amountOf (dmf_AcuanTransactionID d)"
  shows "mfBooks amountOf
     (db\<lparr>mf_summaries := map (\<lambda>r. if P r then r\<lparr>mfs_TotalTransfer := mfs_TotalTransfer r + x, mfs_UpdatedAt := t\<rparr> else r)
            (mf_summaries db),
         mf_details := mf_details db @ [d]\<rparr>)" (is "mfBooks _ (db\<lparr>mf_summaries := map ?f _, mf_details := _\<rparr>)")
proof -
  define g where "g = ?f"
  have f: "mfs_ID (g r) = mfs_ID r" "mfs_IsActive (g r) = mfs_IsActive r" "mfs_PaymentType (g r) = mfs_PaymentType r"
    "mfs_TransactionSourceCreationDate (g r) = mfs_TransactionSourceCreationDate r"
    "mfs_TotalTransfer (g r) = (if P r then mfs_TotalTransfer r + x else mfs_TotalTransfer r)" for r
    by (simp_all add: g_def)
  have keys: "activeKeys (map g rows) = activeKeys rows" for rows
    by (induction rows) (auto simp: activeKeys_def f)
  have total: "mfs_TotalTransfer (g r) = recorded amountOf (mf_details db @ [d]) (mfs_ID r)"
    if r: "r \<in> set (mf_summaries db)" for r
  proof (cases "P r")
    case True
    with others r have "r = s" by blast
    with assms(1,2,3,5,6) show ?thesis by (simp add: mfBooks_def f)
  next
    case False
    with assms(2,3) have "r \<noteq> s" by blast
    with assms(1,2) r have "mfs_ID r \<noteq> mfs_ID s"
      by (metis distinct_map inj_onD mfBooks_def)
    with False assms(1,5) r show ?thesis by (simp add: mfBooks_def f)
  qed
  have "mfs_ID ` g ` A = mfs_ID ` A" for A by (simp add: image_image f)
  with total assms(1,2,5) show ?thesis
    unfolding mfBooks_def g_def [symmetric] by (simp add: keys f comp_def)
qed

lemma mfBooks_new_row:
  assumes "mfBooks amountOf db" and "mfs_ID s \<notin> mfs_ID ` set (mf_summaries db)"
    and "distinct (activeKeys (mf_summaries db @ [s]))"
    and "dmf_SummaryID d = mfs_ID s" and "mfs_TotalTransfer s = amountOf (dmf_AcuanTransactionID d)"
  shows "mfBooks amountOf (db\<lparr>mf_summaries := mf_summaries db @ [s], mf_details := mf_details db @ [d]\<rparr>)"
proof -
  have "mfs_ID s \<notin> dmf_SummaryID ` set (mf_details db)" using assms(1,2) by (auto simp: mfBooks_def)
  then have "recorded amountOf (mf_details db) (mfs_ID s) = 0" by (rule recorded_none)
  with assms show ?thesis by (auto simp: mfBooks_def)
qed

section \<open>How a status moves\<close>

text \<open>The transitions of the API, and rows that keep their place and what identifies them.\<close>

definition statusSteps :: "(string \<times> string) set" where
  "statusSteps =
     {(''PENDING'', ''IN_PROGRESS''), (''IN_PROGRESS'', ''SUCCESSFUL''), (''IN_PROGRESS'', ''FAILED''),
      (''IN_PROGRESS'', ''REJECTED''), (''FAILED'', ''IN_PROGRESS'')}"

definition rowMoves :: "(string \<times> string) set \<Rightarrow> 'd MoneyFlowSummary \<Rightarrow> 'd MoneyFlowSummary \<Rightarrow> bool" where
  "rowMoves R s s' \<longleftrightarrow>
     mfs_ID s' = mfs_ID s \<and> mfs_TransactionType s' = mfs_TransactionType s \<and> mfs_PaymentType s' = mfs_PaymentType s \<and>
     mfs_TransactionSourceCreationDate s' = mfs_TransactionSourceCreationDate s \<and>
     mfs_RelatedFailedOrRejectedSummaryID s' = mfs_RelatedFailedOrRejectedSummaryID s \<and>
     (mfs_MoneyFlowStatus s, mfs_MoneyFlowStatus s') \<in> R\<^sup>*"

definition evolves :: "(string \<times> string) set \<Rightarrow> 'd MoneyFlowSummary list \<Rightarrow> 'd MoneyFlowSummary list \<Rightarrow> bool" where
  "evolves R rows rows' \<longleftrightarrow>
     (\<exists>ys zs. rows' = ys @ zs \<and> list_all2 (rowMoves R) rows ys \<and> (\<forall>z\<in>set zs. (''PENDING'', mfs_MoneyFlowStatus z) \<in> R\<^sup>*))"

lemma rowMoves_refl [simp]: "rowMoves R s s"
  by (simp add: rowMoves_def)

lemma rowMoves_trans: "rowMoves R s t \<Longrightarrow> rowMoves R t u \<Longrightarrow> rowMoves R s u"
  by (auto simp: rowMoves_def)

lemma evolves_refl [simp]: "evolves R rows rows"
  unfolding evolves_def by (intro exI [of _ rows] exI [of _ "[]"]) (auto intro: list_all2_refl)

lemma evolves_trans:
  assumes "evolves R rows rows'" and "evolves R rows' rows''"
  shows "evolves R rows rows''"
proof -
  from assms(1) obtain ys zs where 1: "rows' = ys @ zs" "list_all2 (rowMoves R) rows ys"
      "\<forall>z\<in>set zs. (''PENDING'', mfs_MoneyFlowStatus z) \<in> R\<^sup>*"
    by (auto simp: evolves_def)
  from assms(2) obtain us vs ws where 2: "rows'' = us @ vs @ ws" "list_all2 (rowMoves R) ys us" "list_all2 (rowMoves R) zs vs"
      "\<forall>w\<in>set ws. (''PENDING'', mfs_MoneyFlowStatus w) \<in> R\<^sup>*"
    by (auto simp: evolves_def 1(1) list_all2_append1)
  have "list_all2 (rowMoves R) rows us"
    using 1(2) 2(2) by (auto intro: list_all2_trans [OF rowMoves_trans])
  moreover have "(''PENDING'', mfs_MoneyFlowStatus v) \<in> R\<^sup>*" if "v \<in> set vs" for v
  proof -
    from that 2(3) obtain z where "z \<in> set zs" "rowMoves R z v"
      by (metis in_set_conv_nth list_all2_conv_all_nth nth_mem)
    with 1(3) show ?thesis by (auto simp: rowMoves_def)
  qed
  ultimately show ?thesis
    using 2(1,4) unfolding evolves_def by (intro exI [of _ us] exI [of _ "vs @ ws"]) auto
qed

lemma evolves_map: "(\<And>s. s \<in> set rows \<Longrightarrow> rowMoves R s (f s)) \<Longrightarrow> evolves R rows (map f rows)"
  unfolding evolves_def by (intro exI [of _ "map f rows"] exI [of _ "[]"]) (auto simp: list_all2_conv_all_nth)

lemma evolves_snoc: "mfs_MoneyFlowStatus s = ''PENDING'' \<Longrightarrow> evolves R rows (rows @ [s])"
  unfolding evolves_def by (intro exI [of _ rows] exI [of _ "[s]"]) (auto intro: list_all2_refl)

lemma final_statusSteps:
  assumes "(a, b) \<in> statusSteps\<^sup>*" and "a \<in> {''SUCCESSFUL'', ''REJECTED''}"
  shows "b = a"
  using assms by (cases rule: converse_rtranclE) (auto simp: statusSteps_def)

section \<open>Recording transactions\<close>

definition mfGood :: "(string \<Rightarrow> 'd::comm_monoid_add) \<Rightarrow> 'd MFDB \<Rightarrow> bool" where
  "mfGood amountOf db \<longleftrightarrow> mfBooks amountOf db \<and> (\<forall>s\<in>set (mf_summaries db). datedRow s)"

lemma MFDB_copy: "db\<lparr>mf_summaries := mf_summaries db', mf_details := mf_details db'\<rparr> = (db' :: 'd MFDB)"
  by (rule MFDB.equality) simp_all

lemma find_conflicts_unique:
  assumes "distinct (activeKeys rows)" and "s \<in> set rows" "conflicts repo c s" and "r \<in> set rows" "conflicts repo c r"
  shows "r = s"
proof -
  have "inj_on (\<lambda>s. (mfs_TransactionSourceCreationDate s, mfs_PaymentType s)) (set (filter mfs_IsActive rows))"
    using assms(1) by (simp add: activeKeys_def distinct_map)
  from inj_onD [OF this, of r s] assms(2-5) show ?thesis by (simp add: conflicts_def)
qed

lemma ProcessOrUpdate_good:
  assumes run: "ProcessOrUpdate repo detailID c i db = (Inr sid, db')"
    and good: "mfGood amountOf db" and new: "cms_ID c \<notin> mfs_ID ` set (mf_summaries db)"
    and amount: "cms_TotalTransfer c = amountOf i" and pending: "cms_MoneyFlowStatus c = ''PENDING''"
  shows "mfGood amountOf db'" and "evolves R (mf_summaries db) (mf_summaries db')"
    and "mfs_ID ` set (mf_summaries db') \<subseteq> insert (cms_ID c) (mfs_ID ` set (mf_summaries db))"
proof -
  have "mfGood amountOf db' \<and> evolves R (mf_summaries db) (mf_summaries db') \<and>
      mfs_ID ` set (mf_summaries db') \<subseteq> insert (cms_ID c) (mfs_ID ` set (mf_summaries db))"
    using run
  proof (cases rule: ProcessOrUpdate_Ok)
    case (added s)
    from added(1) have s: "s \<in> set (mf_summaries db)" "conflicts repo c s" by (auto simp: find_Some_iff)
    let ?d = "\<lparr>dmf_ID = detailID, dmf_SummaryID = sid, dmf_AcuanTransactionID = i, dmf_CreatedAt = now (mf_repo repo)\<rparr>"
    have "distinct (activeKeys (mf_summaries db))" using good by (simp add: mfGood_def mfBooks_def)
    then have "mfBooks amountOf
        (db\<lparr>mf_summaries := map (\<lambda>r. if conflicts repo c r
              then r\<lparr>mfs_TotalTransfer := mfs_TotalTransfer r + cms_TotalTransfer c, mfs_UpdatedAt := now (mf_repo repo)\<rparr>
              else r) (mf_summaries db),
            mf_details := mf_details db @ [?d]\<rparr>)"
      using good s by (intro mfBooks_total_change) (auto simp: mfGood_def added(2) amount intro: find_conflicts_unique)
    then have "mfBooks amountOf (db\<lparr>mf_summaries := mf_summaries db', mf_details := mf_details db'\<rparr>)"
      unfolding added(3,4) .
    then have "mfBooks amountOf db'" by (simp add: MFDB_copy)
    moreover have "\<forall>r\<in>set (mf_summaries db'). datedRow r"
      using good by (auto simp: added(3) mfGood_def datedRow_def)
    moreover have "evolves R (mf_summaries db) (mf_summaries db')"
      unfolding added(3) by (rule evolves_map) (simp add: rowMoves_def)
    ultimately show ?thesis by (auto simp: mfGood_def added(3))
  next
    case (created related)
    let ?s = "(summaryRow repo c)\<lparr>mfs_RelatedFailedOrRejectedSummaryID := related\<rparr>"
    have s: "mfs_ID ?s = cms_ID c" "mfs_TotalTransfer ?s = cms_TotalTransfer c" "mfs_MoneyFlowStatus ?s = ''PENDING''"
      by (simp_all add: summaryRow_def pending)
    have dated: "datedRow ?s" unfolding datedRow_def s(3) by simp
    have keys: "distinct (activeKeys (mf_summaries db @ [?s]))"
      using created(1) good
      by (auto simp: find_None_iff conflicts_def mfGood_def mfBooks_def activeKeys_def summaryRow_def)
    let ?d = "\<lparr>dmf_ID = detailID, dmf_SummaryID = sid, dmf_AcuanTransactionID = i, dmf_CreatedAt = now (mf_repo repo)\<rparr>"
    have "mfBooks amountOf (db\<lparr>mf_summaries := mf_summaries db @ [?s], mf_details := mf_details db @ [?d]\<rparr>)"
      by (rule mfBooks_new_row [OF _ _ keys]) (use good new in \<open>simp_all add: mfGood_def s created(2) amount\<close>)
    then have "mfBooks amountOf (db\<lparr>mf_summaries := mf_summaries db', mf_details := mf_details db'\<rparr>)"
      unfolding created(4,5) .
    then have "mfBooks amountOf db'" by (simp add: MFDB_copy)
    moreover have "\<forall>r\<in>set (mf_summaries db'). datedRow r"
      using good dated by (auto simp: created(4) mfGood_def)
    moreover have "evolves R (mf_summaries db) (mf_summaries db')"
      unfolding created(4) by (rule evolves_snoc) (rule s(3))
    ultimately show ?thesis using s(1) by (simp add: mfGood_def created(4))
  qed
  then show "mfGood amountOf db'" and "evolves R (mf_summaries db) (mf_summaries db')"
    and "mfs_ID ` set (mf_summaries db') \<subseteq> insert (cms_ID c) (mfs_ID ` set (mf_summaries db))"
    by blast+
qed
text \<open>Ids that no summary has, from the \<open>k\<close>-th draw on.\<close>

definition unusedFrom :: "'d MFService \<Rightarrow> nat \<Rightarrow> 'd MFDB \<Rightarrow> bool" where
  "unusedFrom svc k db \<longleftrightarrow> inj (ms_newUUID svc) \<and> (\<forall>j\<ge>k. ms_newUUID svc j \<notin> mfs_ID ` set (mf_summaries db))"

definition namedAmounts :: "(string \<Rightarrow> 'd) \<Rightarrow> 'd MFService \<Rightarrow> 'd NotifiedTransaction list \<Rightarrow> bool" where
  "namedAmounts amountOf svc trxs \<longleftrightarrow> (\<forall>t\<in>set trxs. \<forall>i. nt_Id t = Some i \<longrightarrow> ms_float64 svc (nt_Amount t) = amountOf i)"

lemma newSummary_simps [simp]:
  "cms_ID (newSummary svc i t p b) = i" "cms_TotalTransfer (newSummary svc i t p b) = ms_float64 svc (nt_Amount t)"
  "cms_MoneyFlowStatus (newSummary svc i t p b) = ''PENDING''" "cms_PaymentType (newSummary svc i t p b) = p"
  "cms_TransactionType (newSummary svc i t p b) = nt_TransactionType t"
  "cms_TransactionSourceCreationDate (newSummary svc i t p b) = convertToJakartaDate (now (mf_repo (ms_repo svc)))"
  by (simp_all add: newSummary_def Let_def)

lemma processSingleTransaction_cases:
  assumes "processSingleTransaction svc k t paymentType b s = (r, s')"
  obtains (failed) e where "r = Inl e" "fst s' = fst s" "snd s' = snd s"
  | (recorded) i sid where "r = Inr sid" "nt_Id t = Some i" "snd s' = snd s"
      "ProcessOrUpdate (ms_repo svc) (ms_newUUID svc (k + 1)) (newSummary svc (ms_newUUID svc k) t paymentType b) i (fst s)
        = (Inr sid, fst s')"
proof (cases r)
  case (Inl e)
  have "snd s' = snd s"
    using assms unfolding processSingleTransaction_def
    by (auto simp: Atomic_def exec_simps onDb_def split: option.splits prod.splits sum.splits err.splits)
  moreover from assms have "fst s' = fst s"
    unfolding processSingleTransaction_def Inl by (rule Atomic_Err_keeps)
  ultimately show thesis using Inl failed by blast
next
  case (Inr sid)
  with assms show thesis
    by (auto simp: processSingleTransaction_def Atomic_Ok_iff onDb_iff exec_simps split: option.splits
        intro: recorded)
qed

lemma processTransactions_good:
  assumes "processTransactions svc k trxs s = (r, s')"
    and "mfGood amountOf (fst s)" and "unusedFrom svc k (fst s)" and "namedAmounts amountOf svc trxs"
  shows "mfGood amountOf (fst s') \<and> evolves R (mf_summaries (fst s)) (mf_summaries (fst s'))"
  using assms
proof (induction trxs arbitrary: k s)
  case (Cons t trxs)
  show ?case
  proof (cases "CheckEligibleTransaction svc '''' (nt_TransactionType t)")
    case (Inl e)
    with Cons.prems(1,2) show ?thesis by (simp add: processEligibleTransaction_def bind_def exec_simps)
  next
    case (Inr rule)
    obtain b paymentType where rule: "rule = (b, paymentType)" by (cases rule)
    obtain r1 s1 where first: "processSingleTransaction svc k t paymentType b s = (r1, s1)" by (metis surj_pair)
    from first show ?thesis
    proof (cases rule: processSingleTransaction_cases)
      case (failed e)
      with Cons.prems(1,2) first Inr rule show ?thesis
        by (simp add: processEligibleTransaction_def bind_def exec_simps)
    next
      case (recorded i sid)
      have amount: "cms_TotalTransfer (newSummary svc (ms_newUUID svc k) t paymentType b) = amountOf i"
        using Cons.prems(4) recorded(2) by (simp add: namedAmounts_def)
      have "cms_ID (newSummary svc (ms_newUUID svc k) t paymentType b) \<notin> mfs_ID ` set (mf_summaries (fst s))"
        using Cons.prems(3) by (simp add: unusedFrom_def)
      note step = ProcessOrUpdate_good [OF recorded(4) Cons.prems(2) this amount]
      have "ms_newUUID svc j \<noteq> ms_newUUID svc k" if "k + 2 \<le> j" for j
        using Cons.prems(3) that by (auto simp: unusedFrom_def dest: injD)
      with step(3) have "ms_newUUID svc j \<notin> mfs_ID ` set (mf_summaries (fst s1))" if "k + 2 \<le> j" for j
        using Cons.prems(3) that unfolding unusedFrom_def newSummary_simps
        by (meson insert_iff le_trans le_add1 subsetD)
      then have "unusedFrom svc (k + 2) (fst s1)"
        using Cons.prems(3) by (simp add: unusedFrom_def)
      moreover have "processTransactions svc (k + 2) trxs s1 = (r, s')"
        using Cons.prems(1) first Inr rule recorded(1)
        by (simp add: processEligibleTransaction_def bind_def exec_simps)
      ultimately have "mfGood amountOf (fst s') \<and> evolves R (mf_summaries (fst s1)) (mf_summaries (fst s'))"
        using Cons.IH step(1) Cons.prems(4) by (simp add: namedAmounts_def)
      with evolves_trans [OF step(2)] show ?thesis by simp
    qed
  qed
qed (simp add: exec_simps)

lemma settleMessage_db [simp]: "fst (settleMessage svc message r) = fst (snd r)"
  by (auto simp: settleMessage_def AckMessage_def NackMessage_def split: prod.splits option.splits bool.splits)

lemma consumeNotification_good:
  assumes "mfGood amountOf (fst s)" and "unusedFrom svc 0 (fst s)"
    and "\<And>order. ParseMessage svc message = Inr order \<Longrightarrow> namedAmounts amountOf svc (no_Transactions order)"
  shows "mfGood amountOf (fst (consumeNotification svc message s)) \<and>
         evolves R (mf_summaries (fst s)) (mf_summaries (fst (consumeNotification svc message s)))"
proof (cases "ParseMessage svc message")
  case (Inr order)
  obtain r s' where run: "processTransactions svc 0 (no_Transactions order) s = (r, s')" by (metis surj_pair)
  from processTransactions_good [OF run assms(1,2) assms(3) [OF Inr]] assms(1)
  show ?thesis
    by (auto simp: consumeNotification_def processNotificationMessage_def Inr ProcessTransactionNotification_def
        bind_def exec_simps run split: sum.splits)
qed (use assms(1) in \<open>simp add: consumeNotification_def processNotificationMessage_def\<close>)

section \<open>Following a transfer\<close>

definition plainUpdate :: "'d MoneyFlowSummaryUpdate \<Rightarrow> bool" where
  "plainUpdate u \<longleftrightarrow>
     upd_PaymentType u = None \<and> upd_TotalTransfer u = None \<and>
     (\<forall>status. upd_MoneyFlowStatus u = Some status \<longrightarrow>
        status \<in> {''PENDING'', ''IN_PROGRESS'', ''SUCCESSFUL'', ''FAILED'', ''REJECTED''} \<and>
        (status = ''IN_PROGRESS'' \<longrightarrow> upd_RequestedDate u \<noteq> None) \<and>
        (status = ''SUCCESSFUL'' \<longrightarrow> upd_ActualDate u \<noteq> None))"

lemma datedRow_setFields: "plainUpdate u \<Longrightarrow> datedRow s \<Longrightarrow> datedRow (setFields u t s)"
  by (auto simp: plainUpdate_def datedRow_def setFields_def split: option.splits)

lemma changedRows_good:
  assumes "mfGood amountOf db" and "distinct (activeKeys (changedRows i f (mf_summaries db)))"
    and "\<And>s. mfs_ID (f s) = mfs_ID s" "\<And>s. mfs_TotalTransfer (f s) = mfs_TotalTransfer s" "\<And>s. datedRow s \<Longrightarrow> datedRow (f s)"
  shows "mfGood amountOf (db\<lparr>mf_summaries := changedRows i f (mf_summaries db)\<rparr>)"
  using assms mfBooks_changed [OF _ assms(2-4)] by (auto simp: mfGood_def changedRows_def)

lemma RepoUpdateSummary_cases:
  assumes "RepoUpdateSummary repo i u db = (r, db')"
  obtains (failed) e where "r = Inl e" "db' = db"
  | (changed) "r = Inr ()" "i \<in> mfs_ID ` set (mf_summaries db)"
      "distinct (activeKeys (changedRows i (setFields u (now (mf_repo repo))) (mf_summaries db)))"
      "db' = db\<lparr>mf_summaries := changedRows i (setFields u (now (mf_repo repo))) (mf_summaries db)\<rparr>"
proof (cases "updateRow repo i (setFields u (now (mf_repo repo))) db = (r, db')")
  case True
  then show thesis by (rule updateRow_cases [where f = "setFields u (now (mf_repo repo))"]) (auto intro: that)
next
  case False
  with assms show thesis by (auto simp: RepoUpdateSummary_def exec_simps split: if_splits intro: failed)
qed

lemma RepoUpdateSummary_good:
  assumes "RepoUpdateSummary repo i u db = (r, db')" and "mfGood amountOf db" and "plainUpdate u"
  shows "mfGood amountOf db'"
  using assms(1)
proof (cases rule: RepoUpdateSummary_cases)
  case changed
  have "mfs_TotalTransfer (setFields u t s) = mfs_TotalTransfer s" for t s
    using assms(3) by (simp add: setFields_def plainUpdate_def)
  with changedRows_good [OF assms(2) changed(3)] datedRow_setFields [OF assms(3)] show ?thesis
    unfolding changed(4) by simp
qed (use assms(2) in simp)
lemma onDb_cases:
  assumes "onDb f s = (r, s')"
  obtains "f (fst s) = (r, fst s')" "snd s' = snd s"
  using assms by (auto simp: onDb_def split: prod.splits)

lemma consumeEvent_good:
  assumes good: "mfGood amountOf (fst s)"
  shows "mfGood amountOf (fst (consumeEvent svc message s))"
proof -
  have "mfGood amountOf (fst (snd (ProcessTransactionStream svc event s)))"
    if valid: "ms_statusText svc (pe_Status event) \<in> {''SUCCESSFUL'', ''REJECTED'', ''FAILED''}" for event
  proof -
    let ?u = "if ms_statusText svc (pe_Status event) = ''SUCCESSFUL''
      then noUpdate\<lparr>upd_MoneyFlowStatus := Some (ms_statusText svc (pe_Status event)), upd_ActualDate := Some (now (mf_repo (ms_repo svc)))\<rparr>
      else noUpdate\<lparr>upd_MoneyFlowStatus := Some (ms_statusText svc (pe_Status event))\<rparr>"
    have plain: "plainUpdate ?u" using valid by (auto simp: plainUpdate_def)
    have "mfGood amountOf (fst (snd (onDb (RepoUpdateSummary (ms_repo svc) i ?u) s)))" for i
      using RepoUpdateSummary_good [OF _ good plain] by (auto simp: onDb_def split: prod.splits)
    with good show ?thesis
      unfolding ProcessTransactionStream_def bind_def wrapping_def readDb_def call_def
      by (auto simp: Let_def exec_simps split: sum.splits)
  qed
  with good show ?thesis
    by (fastforce simp: consumeEvent_def processEventMessage_def split: sum.splits prod.splits)
qed

lemma ToUpdateModel_plain: "ToUpdateModelWithAutoFill svc req = Inr u \<Longrightarrow> plainUpdate u"
  by (auto simp: ToUpdateModelWithAutoFill_def Let_def plainUpdate_def split: if_splits option.splits sum.splits)

lemma ToUpdateModel_status: "ToUpdateModelWithAutoFill svc req = Inr u \<Longrightarrow> upd_MoneyFlowStatus u = ur_MoneyFlowStatus req"
  by (auto simp: ToUpdateModelWithAutoFill_def Let_def split: if_splits option.splits sum.splits)

lemma allowedTransitions_steps: "allowedTransitions a = Some bs \<Longrightarrow> b \<in> set bs \<Longrightarrow> (a, b) \<in> statusSteps"
  by (auto simp: allowedTransitions_def statusSteps_def split: if_splits)

lemma ValidateTransition_moves:
  assumes "ValidateTransition req d = Inr ()"
  shows "(sd_Status d, case_option (sd_Status d) id (ur_MoneyFlowStatus req)) \<in> statusSteps\<^sup>*"
  using assms
  by (auto simp: ValidateTransition_def ValidateStatusTransition_def rbind_Ok_iff
      intro: allowedTransitions_steps split: option.splits if_splits)

lemma GetSummaryDetail_Ok:
  assumes "GetSummaryDetailBySummaryID repo i db = Inr d"
  obtains s where "s \<in> set (mf_summaries db)" "mfs_ID s = i" "mfs_IsActive s" "sd_Status d = mfs_MoneyFlowStatus s"
    "d = summaryDetail (mf_summaries db) s"
proof -
  from assms obtain s where s: "find (\<lambda>s. mfs_ID s = i \<and> mfs_IsActive s) (mf_summaries db) = Some s"
    and d: "d = summaryDetail (mf_summaries db) s"
    by (auto simp: GetSummaryDetailBySummaryID_def rbind_Ok_iff split: option.splits)
  from s have "s \<in> set (mf_summaries db)" "mfs_ID s = i" "mfs_IsActive s"
    by (auto simp: find_Some_iff)
  moreover have "sd_Status d = mfs_MoneyFlowStatus s" by (simp add: d summaryDetail_def)
  ultimately show thesis using d by (rule that)
qed

text \<open>An update either changes nothing or is a checked update of the active summary it names.\<close>

lemma UpdateSummary_cases:
  assumes "UpdateSummary svc i req s = (r, s')"
  obtains (failed) e where "r = Inl e" "s' = s"
  | (changed) d u where "r = Inr ()" "snd s' = snd s" "GetSummaryDetailBySummaryID (ms_repo svc) i (fst s) = Inr d"
      "ValidateTransition req d = Inr ()" "ToUpdateModelWithAutoFill svc req = Inr u"
      "RepoUpdateSummary (ms_repo svc) i u (fst s) = (Inr (), fst s')"
proof (cases r)
  case (Inr v)
  with assms show thesis
    by (auto simp: UpdateSummary_def bind_Ok_iff exec_simps readDb_iff onDb_iff orSummaryNotFound_def split: sum.splits
        intro: changed)
next
  case (Inl e)
  have "fst s' = fst s" if "onDb (RepoUpdateSummary (ms_repo svc) i u) s = (Inl e', s')" for u e'
    using that by (auto simp: onDb_iff elim: RepoUpdateSummary_cases)
  with assms have "s' = s" unfolding Inl
    by (cases s'; cases s)
      (auto simp: UpdateSummary_def bind_def exec_simps readDb_def wrapping_def onDb_def split: sum.splits prod.splits)
  with Inl show thesis by (rule failed)
qed

lemma UpdateSummary_good:
  assumes "mfGood amountOf (fst s)"
  shows "mfGood amountOf (fst (snd (UpdateSummary svc i req s))) \<and>
         evolves statusSteps (mf_summaries (fst s)) (mf_summaries (fst (snd (UpdateSummary svc i req s))))"
proof -
  obtain r s' where run: "UpdateSummary svc i req s = (r, s')" by (metis surj_pair)
  from run have "mfGood amountOf (fst s') \<and> evolves statusSteps (mf_summaries (fst s)) (mf_summaries (fst s'))"
  proof (cases rule: UpdateSummary_cases)
    case (changed d u)
    note plain = ToUpdateModel_plain [OF changed(5)]
    from changed(3) obtain a where a: "a \<in> set (mf_summaries (fst s))" "mfs_ID a = i" "sd_Status d = mfs_MoneyFlowStatus a"
      by (rule GetSummaryDetail_Ok)
    have unique: "b = a" if "b \<in> set (mf_summaries (fst s))" "mfs_ID b = i" for b
      using assms a(1,2) that unfolding mfGood_def mfBooks_def distinct_map by (blast dest: inj_onD)
    let ?f = "setFields u (now (mf_repo (ms_repo svc)))"
    have "mfs_PaymentType (?f a) = mfs_PaymentType a"
        "mfs_MoneyFlowStatus (?f a) = case_option (mfs_MoneyFlowStatus a) id (ur_MoneyFlowStatus req)"
      using plain by (simp_all add: setFields_def plainUpdate_def ToUpdateModel_status [OF changed(5)])
    with ValidateTransition_moves [OF changed(4), unfolded a(3)] have moves: "rowMoves statusSteps a (?f a)"
      by (simp add: rowMoves_def)
    have "rowMoves statusSteps b (if mfs_ID b = i then ?f b else b)" if "b \<in> set (mf_summaries (fst s))" for b
      using moves unique [OF that] by (cases "mfs_ID b = i") simp_all
    then have "evolves statusSteps (mf_summaries (fst s)) (changedRows i ?f (mf_summaries (fst s)))"
      unfolding changedRows_def by (rule evolves_map)
    moreover from changed(6) have "mf_summaries (fst s') = changedRows i ?f (mf_summaries (fst s))"
      by (rule RepoUpdateSummary_cases) simp_all
    ultimately show ?thesis
      using RepoUpdateSummary_good [OF changed(6) assms plain] by simp
  qed (use assms in simp)
  with run show ?thesis by simp
qed

lemma UpdateActivationStatus_good:
  assumes "mfGood amountOf (fst s)"
  shows "mfGood amountOf (fst (snd (UpdateActivationStatus svc i active s))) \<and>
         evolves R (mf_summaries (fst s)) (mf_summaries (fst (snd (UpdateActivationStatus svc i active s))))"
proof -
  let ?f = "\<lambda>s :: 'b MoneyFlowSummary. s\<lparr>mfs_IsActive := active, mfs_UpdatedAt := now (mf_repo (ms_repo svc))\<rparr>"
  have "mfGood amountOf db' \<and> evolves R (mf_summaries (fst s)) (mf_summaries db')"
    if "RepoUpdateActivationStatus (ms_repo svc) i active (fst s) = (r, db')" for r db'
  proof (rule updateRow_cases [OF that [unfolded RepoUpdateActivationStatus_def]])
    assume changed: "distinct (activeKeys (changedRows i ?f (mf_summaries (fst s))))"
      and db': "db' = (fst s)\<lparr>mf_summaries := changedRows i ?f (mf_summaries (fst s))\<rparr>"
    have "evolves R (mf_summaries (fst s)) (changedRows i ?f (mf_summaries (fst s)))"
      unfolding changedRows_def by (rule evolves_map) (simp add: rowMoves_def)
    with changedRows_good [OF assms changed] show ?thesis
      unfolding db' by (simp add: datedRow_def)
  qed (use assms in simp_all)
  with assms show ?thesis
    unfolding UpdateActivationStatus_def bind_def readDb_def wrapping_def onDb_def fail_def
    by (auto split: sum.splits prod.splits)
qed
section \<open>Histories\<close>

text \<open>The calls that change the tables, each run by a service of its own: its faults, clock and ids.\<close>

datatype MFCall =
    Notification string
  | Event string
  | Update string UpdateMoneyFlowSummaryRequest
  | Activation string bool

fun mfServe :: "'d::comm_monoid_add MFService \<Rightarrow> MFCall \<Rightarrow> 'd MFState \<Rightarrow> 'd MFState" where
  "mfServe svc (Notification message) s = consumeNotification svc message s"
| "mfServe svc (Event message) s = consumeEvent svc message s"
| "mfServe svc (Update summaryID req) s = snd (UpdateSummary svc summaryID req s)"
| "mfServe svc (Activation summaryID isActive) s = snd (UpdateActivationStatus svc summaryID isActive s)"

text \<open>
  What a call relies on: the ids that are drawn are new, and a transaction id stands for one amount, the float the
  summary gets.
\<close>

definition mfSupported :: "(string \<Rightarrow> 'd) \<Rightarrow> 'd MFService \<Rightarrow> MFCall \<Rightarrow> 'd MFDB \<Rightarrow> bool" where
  "mfSupported amountOf svc c db \<longleftrightarrow>
     (\<forall>message. c = Notification message \<longrightarrow> unusedFrom svc 0 db \<and>
        (\<forall>order. ParseMessage svc message = Inr order \<longrightarrow> namedAmounts amountOf svc (no_Transactions order)))"

inductive mfHistory :: "(MFCall \<Rightarrow> bool) \<Rightarrow> (string \<Rightarrow> 'd::comm_monoid_add) \<Rightarrow> 'd MFState \<Rightarrow> 'd MFState \<Rightarrow> bool"
  for allowed and amountOf where
  start: "mfHistory allowed amountOf s s"
| step: "mfHistory allowed amountOf s t \<Longrightarrow> allowed c \<Longrightarrow> mfSupported amountOf svc c (fst t) \<Longrightarrow>
           mfHistory allowed amountOf s (mfServe svc c t)"

definition isEvent :: "MFCall \<Rightarrow> bool" where
  "isEvent c \<longleftrightarrow> (\<exists>message. c = Event message)"

lemma mfServe_good:
  assumes "mfGood amountOf (fst s)" and "mfSupported amountOf svc c (fst s)"
  shows "mfGood amountOf (fst (mfServe svc c s))"
    and "\<not> isEvent c \<Longrightarrow> evolves statusSteps (mf_summaries (fst s)) (mf_summaries (fst (mfServe svc c s)))"
proof -
  have "mfGood amountOf (fst (mfServe svc c s)) \<and>
      (\<not> isEvent c \<longrightarrow> evolves statusSteps (mf_summaries (fst s)) (mf_summaries (fst (mfServe svc c s))))"
  proof (cases c)
    case (Notification message)
    with assms(2) show ?thesis
      using consumeNotification_good [OF assms(1), of svc message] by (simp add: mfSupported_def)
  qed (use assms(1) consumeEvent_good [OF assms(1)] UpdateSummary_good [OF assms(1)] UpdateActivationStatus_good [OF assms(1)]
        in \<open>simp_all add: isEvent_def\<close>)
  then show "mfGood amountOf (fst (mfServe svc c s))"
    and "\<not> isEvent c \<Longrightarrow> evolves statusSteps (mf_summaries (fst s)) (mf_summaries (fst (mfServe svc c s)))"
    by simp_all
qed

lemma mfHistory_good:
  "mfHistory allowed amountOf s t \<Longrightarrow> mfGood amountOf (fst s) \<Longrightarrow> mfGood amountOf (fst t)"
  by (induction rule: mfHistory.induct) (auto intro: mfServe_good)

lemma mfHistory_evolves:
  assumes "mfHistory (\<lambda>c. \<not> isEvent c) amountOf s t" and "mfGood amountOf (fst s)"
  shows "evolves statusSteps (mf_summaries (fst s)) (mf_summaries (fst t))"
  using assms
proof (induction rule: mfHistory.induct)
  case (step s t c svc)
  then have "mfGood amountOf (fst t)" by (blast intro: mfHistory_good)
  with step mfServe_good(2) show ?case by (blast intro: evolves_trans)
qed simp

text \<open>
  C4: Over any history of notifications, payment events, updates and activations, whatever fails, an active summary
  is the only one of its day and payment type, every detail belongs to a summary, and the total of each summary is the
  sum of the amounts of the transactions recorded under it; a summary in progress has the date of its request, a successful one that of its
  transfer.
\<close>

theorem money_flow_books:
  assumes "mfHistory (\<lambda>_. True) amountOf s t" and "mfGood amountOf (fst s)"
  shows "distinct (map mfs_ID (mf_summaries (fst t))) \<and> distinct (activeKeys (mf_summaries (fst t))) \<and>
    (\<forall>d\<in>set (mf_details (fst t)). \<exists>s\<in>set (mf_summaries (fst t)). mfs_ID s = dmf_SummaryID d) \<and>
    (\<forall>s\<in>set (mf_summaries (fst t)). mfs_TotalTransfer s =
       sum_list (map (\<lambda>d. amountOf (dmf_AcuanTransactionID d)) (filter (\<lambda>d. dmf_SummaryID d = mfs_ID s) (mf_details (fst t)))) \<and>
       (mfs_MoneyFlowStatus s = ''IN_PROGRESS'' \<longrightarrow> mfs_RequestedDate s \<noteq> None) \<and>
       (mfs_MoneyFlowStatus s = ''SUCCESSFUL'' \<longrightarrow> mfs_ActualDate s \<noteq> None))"
proof -
  from mfHistory_good [OF assms] have books: "mfBooks amountOf (fst t)" and "\<forall>s\<in>set (mf_summaries (fst t)). datedRow s"
    by (simp_all add: mfGood_def)
  then show ?thesis by (fastforce simp: mfBooks_def recorded_def datedRow_def)
qed

text \<open>
  C19: Without payment events, a summary keeps its place, type and day, and its status only moves along the
  transitions of the API: once successful or rejected it stays so, and what was added since is pending or
  got on from there.
\<close>

theorem summary_status_transitions:
  assumes "mfHistory (\<lambda>c. \<not> isEvent c) amountOf s t" and "mfGood amountOf (fst s)"
  shows "length (mf_summaries (fst s)) \<le> length (mf_summaries (fst t)) \<and>
    (\<forall>k<length (mf_summaries (fst t)).
       (''PENDING'', mfs_MoneyFlowStatus (mf_summaries (fst t) ! k)) \<in> statusSteps\<^sup>* \<or> k < length (mf_summaries (fst s))) \<and>
    (\<forall>k<length (mf_summaries (fst s)).
       let a = mf_summaries (fst s) ! k; b = mf_summaries (fst t) ! k in
       mfs_ID b = mfs_ID a \<and> mfs_PaymentType b = mfs_PaymentType a \<and>
       mfs_TransactionSourceCreationDate b = mfs_TransactionSourceCreationDate a \<and>
       (mfs_MoneyFlowStatus a, mfs_MoneyFlowStatus b) \<in> statusSteps\<^sup>* \<and>
       (mfs_MoneyFlowStatus a \<in> {''SUCCESSFUL'', ''REJECTED''} \<longrightarrow> mfs_MoneyFlowStatus b = mfs_MoneyFlowStatus a))"
proof -
  from mfHistory_evolves [OF assms] obtain ys zs where rows: "mf_summaries (fst t) = ys @ zs"
    and old: "list_all2 (rowMoves statusSteps) (mf_summaries (fst s)) ys"
    and new: "\<forall>z\<in>set zs. (''PENDING'', mfs_MoneyFlowStatus z) \<in> statusSteps\<^sup>*"
    by (auto simp: evolves_def)
  from old have "length ys = length (mf_summaries (fst s))" by (simp add: list_all2_lengthD)
  note len = this
  have "rowMoves statusSteps (mf_summaries (fst s) ! k) (ys ! k)" if "k < length (mf_summaries (fst s))" for k
    using old that by (simp add: list_all2_conv_all_nth)
  then have moves: "rowMoves statusSteps (mf_summaries (fst s) ! k) (mf_summaries (fst t) ! k)"
    if "k < length (mf_summaries (fst s))" for k
    using that len by (simp add: rows nth_append)
  have "(''PENDING'', mfs_MoneyFlowStatus (mf_summaries (fst t) ! k)) \<in> statusSteps\<^sup>*"
    if "k < length (mf_summaries (fst t))" "\<not> k < length (mf_summaries (fst s))" for k
    using that new len by (simp add: rows nth_append)
  with moves len final_statusSteps show ?thesis
    unfolding rowMoves_def Let_def by (auto simp: rows)
qed

end
