(* ===== verification/MoneyFlowOutcomes.thy ===== *)
theory MoneyFlowOutcomes
  imports MoneyFlowProperties
begin

text \<open>
  What single messages do to the money flow summaries: a notification that is recorded, one that is dropped, an event
  that comes late, and a failed amount that is carried on more than once.
\<close>

section \<open>A notification recorded\<close>

definition flowHealthy :: "'d MFService \<Rightarrow> bool" where
  "flowHealthy svc \<longleftrightarrow> (\<forall>c. fault (mf_repo (ms_repo svc)) c = None)"

definition eligible :: "'d MFService \<Rightarrow> 'd NotifiedTransaction \<Rightarrow> string \<Rightarrow> bool" where
  "eligible svc t paymentType \<longleftrightarrow>
     nt_Id t \<noteq> None \<and> (\<exists>b. CheckEligibleTransaction svc '''' (nt_TransactionType t) = Inr (b, paymentType))"

text \<open>The day the summaries of a service are for, and the active rows that stay what they are.\<close>

definition flowDay :: "'d MFService \<Rightarrow> int" where
  "flowDay svc = mf_dateColumn (ms_repo svc) (convertToJakartaDate (now (mf_repo (ms_repo svc))))"

definition hasActive :: "'d MoneyFlowSummary list \<Rightarrow> string \<Rightarrow> int \<Rightarrow> string \<Rightarrow> bool" where
  "hasActive rows i day paymentType \<longleftrightarrow>
     (\<exists>a\<in>set rows. mfs_ID a = i \<and> mfs_IsActive a \<and> mfs_TransactionSourceCreationDate a = day \<and> mfs_PaymentType a = paymentType)"

lemma DetermineRelationship_runs:
  "(\<And>c. fault (mf_repo repo) c = None) \<Longrightarrow> \<exists>related. DetermineRelationship repo c day db = Inr related"
  by (auto simp: DetermineRelationship_def checkFailedOrRejectedRelationship_def evaluateRelationship_def
      HasInProgressTransaction_def GetLastFailedOrRejectedTransaction_def HasPendingTransactionAfterFailedOrRejected_def
      failIf_def split: option.splits bool.splits)

lemma ProcessOrUpdate_runs:
  assumes "\<And>c. fault (mf_repo repo) c = None"
  shows "\<exists>sid db'. ProcessOrUpdate repo detailID c i db = (Inr sid, db')"
proof -
  from DetermineRelationship_runs [of repo, OF assms]
  obtain related where "DetermineRelationship repo c (TruncateDay (cms_TransactionSourceCreationDate c)) db = Inr related"
    by blast
  then show ?thesis
    by (auto simp: ProcessOrUpdate_def bind_def wrapping_def UpsertSummary_def CreateDetailedSummary_def exec_simps
        failIf_def assms split: option.splits)
qed

lemma hasActive_map:
  assumes "\<And>a. mfs_ID (f a) = mfs_ID a" "\<And>a. mfs_IsActive (f a) = mfs_IsActive a"
    "\<And>a. mfs_TransactionSourceCreationDate (f a) = mfs_TransactionSourceCreationDate a"
    "\<And>a. mfs_PaymentType (f a) = mfs_PaymentType a"
  shows "hasActive (map f rows) = hasActive rows"
  by (intro ext) (simp add: hasActive_def assms)

lemma ProcessOrUpdate_active:
  assumes "ProcessOrUpdate repo detailID c i db = (Inr sid, db')"
  shows "hasActive (mf_summaries db') sid (mf_dateColumn repo (cms_TransactionSourceCreationDate c)) (cms_PaymentType c)"
    and "hasActive (mf_summaries db) j day p \<Longrightarrow> hasActive (mf_summaries db') j day p"
    and "mf_details db' = mf_details db @ [\<lparr>dmf_ID = detailID, dmf_SummaryID = sid, dmf_AcuanTransactionID = i,
          dmf_CreatedAt = now (mf_repo repo)\<rparr>]"
proof -
  have "hasActive (mf_summaries db') sid (mf_dateColumn repo (cms_TransactionSourceCreationDate c)) (cms_PaymentType c) \<and>
      (hasActive (mf_summaries db) j day p \<longrightarrow> hasActive (mf_summaries db') j day p) \<and>
      mf_details db' = mf_details db @ [\<lparr>dmf_ID = detailID, dmf_SummaryID = sid, dmf_AcuanTransactionID = i,
          dmf_CreatedAt = now (mf_repo repo)\<rparr>]"
    using assms
  proof (cases rule: ProcessOrUpdate_Ok)
    case (added s)
    from added(1) have "s \<in> set (mf_summaries db)" "conflicts repo c s" by (auto simp: find_Some_iff)
    then have "hasActive (mf_summaries db) sid (mf_dateColumn repo (cms_TransactionSourceCreationDate c)) (cms_PaymentType c)"
      by (auto simp: added(2) hasActive_def conflicts_def)
    moreover have "hasActive (mf_summaries db') = hasActive (mf_summaries db)"
      unfolding added(3) by (rule hasActive_map) simp_all
    ultimately show ?thesis by (simp add: added(4))
  next
    case (created related)
    then show ?thesis by (auto simp: hasActive_def summaryRow_def)
  qed
  then show "hasActive (mf_summaries db') sid (mf_dateColumn repo (cms_TransactionSourceCreationDate c)) (cms_PaymentType c)"
    and "hasActive (mf_summaries db) j day p \<Longrightarrow> hasActive (mf_summaries db') j day p"
    and "mf_details db' = mf_details db @ [\<lparr>dmf_ID = detailID, dmf_SummaryID = sid, dmf_AcuanTransactionID = i,
          dmf_CreatedAt = now (mf_repo repo)\<rparr>]"
    by blast+
qed

lemma processTransactions_records:
  assumes "flowHealthy svc" and "list_all2 (eligible svc) trxs ps"
  shows "\<exists>s' new. processTransactions svc k trxs s = (Inr (), s') \<and> snd s' = snd s \<and>
     mf_details (fst s') = mf_details (fst s) @ new \<and>
     map (\<lambda>d. Some (dmf_AcuanTransactionID d)) new = map nt_Id trxs \<and>
     list_all2 (\<lambda>d p. hasActive (mf_summaries (fst s')) (dmf_SummaryID d) (flowDay svc) p) new ps \<and>
     (\<forall>j day p. hasActive (mf_summaries (fst s)) j day p \<longrightarrow> hasActive (mf_summaries (fst s')) j day p)"
  using assms(2)
proof (induction trxs arbitrary: k s ps)
  case (Cons t trxs)
  from Cons.prems obtain p ps' b i where ps: "ps = p # ps'" "list_all2 (eligible svc) trxs ps'"
    and t: "nt_Id t = Some i" "CheckEligibleTransaction svc '''' (nt_TransactionType t) = Inr (b, p)"
    by (auto simp: list_all2_Cons1 eligible_def [of svc t])
  have healthy: "fault (mf_repo (ms_repo svc)) c = None" for c
    using assms(1) by (simp add: flowHealthy_def)
  let ?c = "newSummary svc (ms_newUUID svc k) t p b"
  from ProcessOrUpdate_runs [of "ms_repo svc" "ms_newUUID svc (k + 1)" ?c i "fst s", OF healthy]
  obtain sid db' where run: "ProcessOrUpdate (ms_repo svc) (ms_newUUID svc (k + 1)) ?c i (fst s) = (Inr sid, db')"
    by blast
  note first = ProcessOrUpdate_active [OF run]
  have step: "processEligibleTransaction svc k t s = (Inr sid, (db', snd s))"
    by (simp add: processEligibleTransaction_def bind_def exec_simps t processSingleTransaction_def Atomic_def healthy
        onDb_def run [unfolded Suc_eq_plus1 [symmetric]])
  obtain s' new where rest: "processTransactions svc (k + 2) trxs (db', snd s) = (Inr (), s')" "snd s' = snd s"
      "mf_details (fst s') = mf_details db' @ new" "map (\<lambda>d. Some (dmf_AcuanTransactionID d)) new = map nt_Id trxs"
      "list_all2 (\<lambda>d p. hasActive (mf_summaries (fst s')) (dmf_SummaryID d) (flowDay svc) p) new ps'"
      "\<forall>j day p. hasActive (mf_summaries db') j day p \<longrightarrow> hasActive (mf_summaries (fst s')) j day p"
    using Cons.IH [OF ps(2), of "k + 2" "(db', snd s)"] unfolding fst_conv snd_conv by blast
  have "processTransactions svc k (t # trxs) s = (Inr (), s')"
    using rest(1) by (simp add: bind_def step)
  moreover have "hasActive (mf_summaries (fst s')) sid (flowDay svc) p"
    using first(1) rest(6) by (simp add: flowDay_def)
  ultimately show ?case
    using rest(2-6) first(2,3) t(1) ps(1) by (intro exI conjI) (assumption | auto)+
qed (simp add: exec_simps)

text \<open>
  C20: In a healthy system a notification whose transactions are all of eligible types is acknowledged without a dead
  letter, and records each of them once and in order, under the active summary of the day and of its payment type.
\<close>

theorem notification_recorded:
  assumes "flowHealthy svc" and "ParseMessage svc message = Inr order"
    and "no_Transactions order \<noteq> []" and "nt_Status (hd (no_Transactions order)) = 1"
    and "list_all2 (eligible svc) (no_Transactions order) paymentTypes"
  shows "\<exists>new. mf_details (fst (consumeNotification svc message s)) = mf_details (fst s) @ new \<and>
     map (\<lambda>d. Some (dmf_AcuanTransactionID d)) new = map nt_Id (no_Transactions order) \<and>
     list_all2 (\<lambda>d p. \<exists>a\<in>set (mf_summaries (fst (consumeNotification svc message s))).
        mfs_ID a = dmf_SummaryID d \<and> mfs_IsActive a \<and> mfs_PaymentType a = p \<and>
        mfs_TransactionSourceCreationDate a =
          mf_dateColumn (ms_repo svc) (convertToJakartaDate (now (mf_repo (ms_repo svc))))) new paymentTypes \<and>
     snd (consumeNotification svc message s) = (snd s)\<lparr>mb_marked := mb_marked (snd s) @ [message]\<rparr>"
proof -
  obtain s' new where run: "processTransactions svc 0 (no_Transactions order) s = (Inr (), s')" "snd s' = snd s"
      "mf_details (fst s') = mf_details (fst s) @ new" "map (\<lambda>d. Some (dmf_AcuanTransactionID d)) new = map nt_Id (no_Transactions order)"
      "list_all2 (\<lambda>d p. hasActive (mf_summaries (fst s')) (dmf_SummaryID d) (flowDay svc) p) new paymentTypes"
    using processTransactions_records [OF assms(1,5), of 0 s] by blast
  have "ValidateNotification order = Inr ()"
    using assms(3,4) by (cases "no_Transactions order") (simp_all add: ValidateNotification_def)
  then have "consumeNotification svc message s = AckMessage message s'"
    by (simp add: consumeNotification_def processNotificationMessage_def assms(2) ProcessTransactionNotification_def
        bind_def exec_simps run(1) settleMessage_def)
  with run show ?thesis
    by (auto simp: AckMessage_def hasActive_def flowDay_def elim!: list_all2_mono)
qed

section \<open>A notification dropped\<close>

lemma containsFold_prefix: "containsFold (substr @ s) substr"
proof -
  have "take (length substr) (drop 0 (map toLowerAscii (substr @ s))) = map toLowerAscii substr" by simp
  then show ?thesis unfolding containsFold_def list_ex_iff
    by (intro bexI [of _ 0]) (simp_all add: Suc_le_eq)
qed

text \<open>
  C34: When the first transaction of a notification is of no eligible type, the whole notification is acknowledged
  and nothing of it is recorded, however many eligible transactions follow, and no dead letter is kept.
\<close>

theorem ineligible_transaction_drops_rest:
  assumes "loadBusinessRules svc = Inr rules" and "ParseMessage svc message = Inr order"
    and "no_Transactions order = bad # rest" and "nt_Status bad = 1"
    and "map_of (brs_TransactionToPaymentMap rules) (nt_TransactionType bad) = None"
  shows "consumeNotification svc message s = (fst s, (snd s)\<lparr>mb_marked := mb_marked (snd s) @ [message]\<rparr>)"
proof -
  let ?e = "ErrorMsg (''transaction type not found: '' @ nt_TransactionType bad)"
  have "CheckEligibleTransaction svc '''' (nt_TransactionType bad) = Inl ?e"
    using assms(1,5) by (simp add: CheckEligibleTransaction_def GetByTransactionType_def)
  then have "ProcessTransactionNotification svc order s = (Inl ?e, s)"
    by (simp add: ProcessTransactionNotification_def ValidateNotification_def assms(3,4) bind_def exec_simps
        processEligibleTransaction_def)
  moreover have "containsFold (''transaction type not found'' @ ('': '' @ nt_TransactionType bad)) ''transaction type not found''"
    by (rule containsFold_prefix)
  then have "isIneligible svc ?e" by (simp add: isIneligible_def)
  ultimately show ?thesis
    by (simp add: consumeNotification_def processNotificationMessage_def assms(2) settleMessage_def AckMessage_def)
qed
section \<open>A late event\<close>

lemma changedRows_at:
  "distinct (map mfs_ID rows) \<Longrightarrow> a \<in> set rows \<Longrightarrow> find (\<lambda>s. mfs_ID s = mfs_ID a \<and> P s) (changedRows (mfs_ID a) f rows) =
     (if mfs_ID (f a) = mfs_ID a \<and> P (f a) then Some (f a) else None)"
proof (induction rows)
  case (Cons r rows)
  show ?case
  proof (cases "r = a")
    case True
    with Cons.prems(1) have "mfs_ID a \<notin> mfs_ID ` set rows" by simp
    then have "changedRows (mfs_ID a) f rows = rows" "find (\<lambda>s. mfs_ID s = mfs_ID a \<and> P s) rows = None"
      by (auto simp: changedRows_none find_None_iff image_iff dest: sym)
    with True show ?thesis by (simp add: changedRows_def)
  next
    case False
    with Cons.prems have "mfs_ID r \<noteq> mfs_ID a" "a \<in> set rows" by auto
    with Cons show ?thesis by (simp add: changedRows_def)
  qed
qed simp

lemma activeKeys_setFields:
  "plainUpdate u \<Longrightarrow> activeKeys (changedRows i (setFields u t) rows) = activeKeys rows"
  by (rule activeKeys_changed) (simp_all add: setFields_def plainUpdate_def)

lemma RepoUpdateSummary_runs:
  assumes "fault (mf_repo repo) UpdateSummaryRow = None" and "i \<in> mfs_ID ` set (mf_summaries db)"
    and "distinct (activeKeys (mf_summaries db))" and "plainUpdate u" and "upd_MoneyFlowStatus u \<noteq> None"
  shows "RepoUpdateSummary repo i u db =
     (Inr (), db\<lparr>mf_summaries := changedRows i (setFields u (now (mf_repo repo))) (mf_summaries db)\<rparr>)"
  using assms by (auto simp: RepoUpdateSummary_def updateRow_eq activeKeys_setFields)

lemma setFields_status [simp]:
  "mfs_ID (setFields (noUpdate\<lparr>upd_MoneyFlowStatus := Some st\<rparr>) time b) = mfs_ID b"
  "mfs_IsActive (setFields (noUpdate\<lparr>upd_MoneyFlowStatus := Some st\<rparr>) time b) = mfs_IsActive b"
  "mfs_MoneyFlowStatus (setFields (noUpdate\<lparr>upd_MoneyFlowStatus := Some st\<rparr>) time b) = st"
  "mfs_TotalTransfer (setFields (noUpdate\<lparr>upd_MoneyFlowStatus := Some st\<rparr>) time b) = mfs_TotalTransfer b"
  by (simp_all add: setFields_def noUpdate_def)

lemma failed_event_runs:
  assumes healthy: "flowHealthy svc" and books: "distinct (activeKeys (mf_summaries (fst s)))"
    and a: "find (\<lambda>r. mfs_PapaTransactionID r = pe_ID e) (mf_scan (ms_repo svc) (mf_summaries (fst s))) = Some a"
      "a \<in> set (mf_summaries (fst s))" "mfs_ID a \<noteq> ''''"
    and event: "message \<noteq> ''''" "ms_paymentEvent svc message = Inr e" "pe_ID e \<noteq> ''''" "pe_PaymentType e \<noteq> ''''"
      "ms_statusText svc (pe_Status e) = ''FAILED''"
      "CheckEligibleTransaction svc (ms_paymentTypeText svc (pe_PaymentType e)) '''' = Inr rule"
  shows "fst (consumeEvent svc message s) = (fst s)\<lparr>mf_summaries := changedRows (mfs_ID a)
    (setFields (noUpdate\<lparr>upd_MoneyFlowStatus := Some ''FAILED''\<rparr>) (now (mf_repo (ms_repo svc)))) (mf_summaries (fst s))\<rparr>"
proof -
  have ok: "fault (mf_repo (ms_repo svc)) c = None" for c
    using healthy by (simp add: flowHealthy_def)
  have id: "mfs_ID a \<in> mfs_ID ` set (mf_summaries (fst s))" using a(2) by blast
  have "plainUpdate (noUpdate\<lparr>upd_MoneyFlowStatus := Some ''FAILED''\<rparr> :: 'a MoneyFlowSummaryUpdate)"
    by (simp add: plainUpdate_def)
  from RepoUpdateSummary_runs [OF ok id books this] show ?thesis
    using event a(1,3)
    by (simp add: consumeEvent_def processEventMessage_def ProcessTransactionStream_def bind_def exec_simps wrapping_def
        readDb_def onDb_def GetSummaryIDByPapaTransactionID_def failIf_def ok Let_def)
qed

lemma UpdateSummary_inProgress:
  assumes healthy: "flowHealthy svc" and books: "distinct (activeKeys (mf_summaries (fst s)))"
    and b: "b \<in> set (mf_summaries (fst s))" "mfs_MoneyFlowStatus b = ''FAILED''"
      "find (\<lambda>s. mfs_ID s = mfs_ID b \<and> mfs_IsActive s) (mf_summaries (fst s)) = Some b"
    and req: "ur_MoneyFlowStatus req = Some ''IN_PROGRESS''" "ur_PapaTransactionID req = Some q" "q \<noteq> ''''"
      "ur_ActualDate req = None"
  shows "\<exists>t c. UpdateSummary svc (mfs_ID b) req s = (Inr (), t) \<and> c \<in> set (mf_summaries (fst t)) \<and> mfs_ID c = mfs_ID b \<and>
    mfs_MoneyFlowStatus c = ''IN_PROGRESS'' \<and> mfs_PapaTransactionID c = q \<and> mfs_TotalTransfer c = mfs_TotalTransfer b"
proof -
  let ?t = "now (mf_repo (ms_repo svc))" and ?rows = "mf_summaries (fst s)"
  let ?v = "noUpdate\<lparr>upd_PapaTransactionID := Some q, upd_MoneyFlowStatus := Some ''IN_PROGRESS'', upd_RequestedDate := Some ?t\<rparr> :: 'a MoneyFlowSummaryUpdate"
  have ok: "fault (mf_repo (ms_repo svc)) c = None" for c
    using healthy by (simp add: flowHealthy_def)
  have id: "mfs_ID b \<in> mfs_ID ` set ?rows" using b(1) by blast
  have "ValidateTransition req (summaryDetail ?rows b) = Inr ()"
    by (simp add: ValidateTransition_def ValidateStatusTransition_def ValidateInProgressRequirements_def summaryDetail_def
        b(2) req allowedTransitions_def)
  moreover have "ToUpdateModelWithAutoFill svc req = Inr ?v"
    by (simp add: ToUpdateModelWithAutoFill_def Let_def req noUpdate_def)
  moreover have "plainUpdate ?v" by (simp add: plainUpdate_def)
  note RepoUpdateSummary_runs [OF ok id books this]
  ultimately have "UpdateSummary svc (mfs_ID b) req s =
      (Inr (), ((fst s)\<lparr>mf_summaries := changedRows (mfs_ID b) (setFields ?v ?t) ?rows\<rparr>, snd s))"
    by (simp add: UpdateSummary_def bind_def exec_simps readDb_def orSummaryNotFound_def GetSummaryDetailBySummaryID_def
        failIf_def ok b(3) ValidateUpdate_def req wrapping_def onDb_def)
  moreover have "setFields ?v ?t b \<in> set (changedRows (mfs_ID b) (setFields ?v ?t) ?rows)"
    using b(1) by (force simp: changedRows_def)
  moreover have "mfs_ID (setFields ?v ?t b) = mfs_ID b" "mfs_MoneyFlowStatus (setFields ?v ?t b) = ''IN_PROGRESS''"
      "mfs_PapaTransactionID (setFields ?v ?t b) = q" "mfs_TotalTransfer (setFields ?v ?t b) = mfs_TotalTransfer b"
    by (simp_all add: setFields_def)
  ultimately show ?thesis by (intro exI conjI) (assumption | simp)+
qed

text \<open>
  C35: An event sets the status of the summary that has its id even when that summary is successful: a late failure
  reopens it, and the API then takes it back in progress, for a second transfer of the same total.
\<close>

theorem late_event_reopens_summary:
  assumes healthy: "flowHealthy svc" "flowHealthy svc2" and good: "mfGood amountOf (fst s)"
    and a: "find (\<lambda>r. mfs_PapaTransactionID r = p) (mf_scan (ms_repo svc) (mf_summaries (fst s))) = Some a"
      "a \<in> set (mf_summaries (fst s))" "mfs_ID a \<noteq> ''''" "mfs_IsActive a" "mfs_MoneyFlowStatus a = ''SUCCESSFUL''"
    and event: "message \<noteq> ''''" "ms_paymentEvent svc message = Inr e" "pe_ID e = p" "p \<noteq> ''''" "pe_PaymentType e \<noteq> ''''"
      "ms_statusText svc (pe_Status e) = ''FAILED''"
      "CheckEligibleTransaction svc (ms_paymentTypeText svc (pe_PaymentType e)) '''' = Inr rule"
    and req: "ur_MoneyFlowStatus req = Some ''IN_PROGRESS''" "ur_PapaTransactionID req = Some q" "q \<noteq> ''''"
      "ur_ActualDate req = None"
  shows "\<exists>t b. UpdateSummary svc2 (mfs_ID a) req (consumeEvent svc message s) = (Inr (), t) \<and>
     b \<in> set (mf_summaries (fst t)) \<and> mfs_ID b = mfs_ID a \<and> mfs_MoneyFlowStatus b = ''IN_PROGRESS'' \<and>
     mfs_PapaTransactionID b = q \<and> mfs_TotalTransfer b = mfs_TotalTransfer a"
proof -
  let ?rows = "mf_summaries (fst s)"
  let ?f = "setFields (noUpdate\<lparr>upd_MoneyFlowStatus := Some ''FAILED''\<rparr>) (now (mf_repo (ms_repo svc)))"
  have books: "distinct (map mfs_ID ?rows)" "distinct (activeKeys ?rows)"
    using good by (simp_all add: mfGood_def mfBooks_def)
  have failed: "fst (consumeEvent svc message s) = (fst s)\<lparr>mf_summaries := changedRows (mfs_ID a) ?f ?rows\<rparr>"
    by (rule failed_event_runs [OF healthy(1) books(2) _ a(2,3) event(1,2)]) (use a(1) event in auto)
  have "plainUpdate (noUpdate\<lparr>upd_MoneyFlowStatus := Some ''FAILED''\<rparr> :: 'a MoneyFlowSummaryUpdate)"
    by (simp add: plainUpdate_def)
  then have "distinct (activeKeys (changedRows (mfs_ID a) ?f ?rows))"
    using books(2) by (simp add: activeKeys_setFields)
  moreover have "?f a \<in> set (changedRows (mfs_ID a) ?f ?rows)"
    using a(2) by (auto simp: changedRows_def)
  moreover have "find (\<lambda>s. mfs_ID s = mfs_ID (?f a) \<and> mfs_IsActive s) (changedRows (mfs_ID a) ?f ?rows) = Some (?f a)"
    using changedRows_at [OF books(1) a(2)] a(4) by simp
  ultimately show ?thesis
    using UpdateSummary_inProgress [OF healthy(2), of "consumeEvent svc message s" "?f a"] req by (simp add: failed)
qed
section \<open>A failed amount carried on\<close>

lemma find_append_Some: "find P xs = Some y \<Longrightarrow> find P (xs @ ys) = Some y"
  by (induction xs) (auto split: if_splits)

lemma summaryDetail_related:
  assumes "find (\<lambda>r. mfs_ID r = i) rows = Some f" and "mfs_RelatedFailedOrRejectedSummaryID a = Some i"
    and "mfs_TotalTransfer f \<noteq> 0"
  shows "responseTotal (summaryDetail rows a) = mfs_TotalTransfer a + mfs_TotalTransfer f"
  using assms by (simp add: responseTotal_def summaryDetail_def relatedTotal_def)

text \<open>
  The first summary after a failed one carries its amount on, but once that summary is no longer pending the next
  one carries the same amount again: both ask for it to be transferred.
\<close>

lemma failed_amount_carried_twice:
  assumes healthy: "flowHealthy svc" and good: "mfGood amountOf (fst s)"
    and message: "ParseMessage svc message = Inr \<lparr>no_RefNumber = ref, no_Transactions = [t]\<rparr>" "nt_Status t = 1"
      "nt_Id t = Some i" "CheckEligibleTransaction svc '''' (nt_TransactionType t) = Inr (b, paymentType)"
    and rows: "set (mf_scan (ms_repo svc) (mf_summaries (fst s))) = set (mf_summaries (fst s))"
      "latest (filter (isFailedOrRejected (nt_TransactionType t) paymentType)
         (mf_scan (ms_repo svc) (mf_summaries (fst s)))) = Some f"
      "\<forall>r\<in>set (mf_summaries (fst s)). mfs_MoneyFlowStatus r \<noteq> ''IN_PROGRESS'' \<and> mfs_MoneyFlowStatus r \<noteq> ''PENDING''"
      "TruncateDay (mfs_TransactionSourceCreationDate f) < TruncateDay (convertToJakartaDate (now (mf_repo (ms_repo svc))))"
      "\<forall>r\<in>set (mf_summaries (fst s)). mfs_TransactionSourceCreationDate r \<noteq> flowDay svc"
    and carried: "a \<in> set (mf_summaries (fst s))" "mfs_RelatedFailedOrRejectedSummaryID a = Some (mfs_ID f)"
      "mfs_MoneyFlowStatus a = ''SUCCESSFUL''" and amount: "mfs_TotalTransfer f \<noteq> 0"
  shows "\<exists>c. mf_summaries (fst (consumeNotification svc message s)) = mf_summaries (fst s) @ [c] \<and>
     mfs_TotalTransfer c = ms_float64 svc (nt_Amount t) \<and>
     responseTotal (summaryDetail (mf_summaries (fst s) @ [c]) a) = mfs_TotalTransfer a + mfs_TotalTransfer f \<and>
     responseTotal (summaryDetail (mf_summaries (fst s) @ [c]) c) = mfs_TotalTransfer c + mfs_TotalTransfer f"
proof -
  let ?rows = "mf_summaries (fst s)" and ?repo = "ms_repo svc"
  let ?c = "newSummary svc (ms_newUUID svc 0) t paymentType b"
  have ok: "fault (mf_repo ?repo) c = None" for c using healthy by (simp add: flowHealthy_def)
  have related: "DetermineRelationship ?repo ?c (TruncateDay (cms_TransactionSourceCreationDate ?c)) (fst s) = Inr (Some (mfs_ID f))"
    using rows(2-4)
    by (auto simp: DetermineRelationship_def HasInProgressTransaction_def checkFailedOrRejectedRelationship_def
        GetLastFailedOrRejectedTransaction_def evaluateRelationship_def HasPendingTransactionAfterFailedOrRejected_def
        failIf_def ok list_ex_iff)
  have free: "find (conflicts ?repo ?c) ?rows = None"
    using rows(5) by (auto simp: find_None_iff conflicts_def flowDay_def)
  let ?row = "(summaryRow ?repo ?c)\<lparr>mfs_RelatedFailedOrRejectedSummaryID := Some (mfs_ID f)\<rparr>"
  from ProcessOrUpdate_runs [of ?repo "ms_newUUID svc (Suc 0)" ?c i "fst s", OF ok]
  obtain sid db' where run: "ProcessOrUpdate ?repo (ms_newUUID svc (Suc 0)) ?c i (fst s) = (Inr sid, db')"
    by blast
  from run have new: "mf_summaries db' = ?rows @ [?row]"
    by (cases rule: ProcessOrUpdate_Ok) (use free related in auto)
  have "processTransactions svc 0 [t] s = (Inr (), (db', snd s))"
    by (simp add: bind_def exec_simps processEligibleTransaction_def message(4) processSingleTransaction_def Atomic_def ok
        message(3) onDb_def run)
  then have after: "mf_summaries (fst (consumeNotification svc message s)) = ?rows @ [?row]"
    using new by (simp add: consumeNotification_def processNotificationMessage_def message(1) ProcessTransactionNotification_def
        ValidateNotification_def message(2) bind_def exec_simps)
  have "latest xs = Some g \<Longrightarrow> g \<in> set xs" for xs and g :: "'a MoneyFlowSummary"
    by (induction xs) (auto split: option.splits if_splits)
  from this [OF rows(2)] have f: "f \<in> set ?rows" using rows(1) by auto
  have "find (\<lambda>r. mfs_ID r = mfs_ID f) ?rows = Some f"
    using changedRows_at [of ?rows f "\<lambda>_. True" "\<lambda>s. s"] f good
    by (simp add: mfGood_def mfBooks_def changedRows_def)
  then have find: "find (\<lambda>r. mfs_ID r = mfs_ID f) (?rows @ [?row]) = Some f"
    by (rule find_append_Some)
  have "responseTotal (summaryDetail (?rows @ [?row]) a) = mfs_TotalTransfer a + mfs_TotalTransfer f"
    "responseTotal (summaryDetail (?rows @ [?row]) ?row) = mfs_TotalTransfer ?row + mfs_TotalTransfer f"
    by (rule summaryDetail_related [OF find _ amount]; simp add: carried(2))+
  moreover have "mfs_TotalTransfer ?row = ms_float64 svc (nt_Amount t)" by (simp add: summaryRow_def)
  ultimately show ?thesis using after by blast
qed


end
