(* ===== verification/MoneyFlowScenario.thy ===== *)
theory MoneyFlowScenario
  imports MoneyFlowOutcomes Scenario
begin

text \<open>
  The theorems on money flow summaries, applied: one payment type, a notification whose message is the id of its one
  transaction, a second order that begins with an ineligible transaction, and a failure event.
\<close>

definition flowRules :: BusinessRulesConfigs where
  "flowRules =
     \<lparr>brs_PaymentConfigs = [(''PAY'', \<lparr>br_TransactionType = ''TRX'', br_Description = ''d'',
        br_Source = \<lparr>bi_AccountNumber = ''1'', bi_BankCode = ''b'', bi_BankName = ''n'', bi_BankAccountNumber = ''2'', bi_BankAccountName = ''a''\<rparr>,
        br_Destination = \<lparr>bi_AccountNumber = ''3'', bi_BankCode = ''b'', bi_BankName = ''n'', bi_BankAccountNumber = ''4'', bi_BankAccountName = ''a''\<rparr>\<rparr>)],
      brs_TransactionToPaymentMap = [(''TRX'', ''PAY'')]\<rparr>"

definition flowTransaction :: "string \<Rightarrow> string \<Rightarrow> rat NotifiedTransaction" where
  "flowTransaction i transactionType =
     \<lparr>nt_Id = Some i, nt_Amount = 50, nt_TransactionType = transactionType, nt_Status = 1\<rparr>"

definition flowService :: "string \<Rightarrow> int \<Rightarrow> rat MFService" where
  "flowService tag t =
     \<lparr>ms_repo = \<lparr>mf_repo = (exampleRepo None)\<lparr>now := t\<rparr>, mf_dateColumn = id, mf_scan = id\<rparr>,
      ms_variant = Some \<lparr>fv_Enabled = True, fv_Value = ''rules''\<rparr>, ms_jsonRules = (\<lambda>_. Ok flowRules),
      ms_float64 = id, ms_newUUID = (\<lambda>n. tag @ replicate n (CHR ''u'')), ms_parseRFC3339 = (\<lambda>_. Ok 0),
      ms_paymentTypeText = id, ms_statusText = id, ms_errorText = (\<lambda>_. ''error''), ms_rawAcuanData = Ok,
      ms_acuanPayload = (\<lambda>m. Ok \<lparr>no_RefNumber = ''ref'', no_Transactions =
         (if m = ''mixed'' then [flowTransaction ''x'' ''OTHER'', flowTransaction ''y'' ''TRX''] else [flowTransaction m ''TRX''])\<rparr>),
      ms_paymentEvent = (\<lambda>_. Ok \<lparr>pe_ID = ''papa'', pe_PaymentType = ''PAY'', pe_Status = ''FAILED'', pe_ReferenceNumber = ''ref''\<rparr>),
      ms_dlqFault = (\<lambda>_. None)\<rparr>"

definition flowRow :: "string \<Rightarrow> int \<Rightarrow> string \<Rightarrow> string \<Rightarrow> string option \<Rightarrow> rat MoneyFlowSummary" where
  "flowRow i day status papa related =
     \<lparr>mfs_ID = i, mfs_TransactionSourceCreationDate = day, mfs_TransactionType = ''TRX'', mfs_PaymentType = ''PAY'',
      mfs_ReferenceNumber = ''ref'', mfs_Description = ''d'', mfs_SourceAccount = ''1'', mfs_DestinationAccount = ''3'',
      mfs_TotalTransfer = 50, mfs_PapaTransactionID = papa, mfs_MoneyFlowStatus = status, mfs_RequestedDate = Some 1,
      mfs_ActualDate = Some 1, mfs_SourceBankAccountNumber = ''2'', mfs_SourceBankAccountName = ''a'',
      mfs_SourceBankName = ''n'', mfs_DestinationBankAccountNumber = ''4'', mfs_DestinationBankAccountName = ''a'',
      mfs_DestinationBankName = ''n'', mfs_CreatedAt = 1, mfs_UpdatedAt = 1, mfs_RelatedFailedOrRejectedSummaryID = related,
      mfs_IsActive = True\<rparr>"

definition flowDetail :: "string \<Rightarrow> string \<Rightarrow> DetailedMoneyFlowSummary" where
  "flowDetail i sid = \<lparr>dmf_ID = i, dmf_SummaryID = sid, dmf_AcuanTransactionID = i, dmf_CreatedAt = 1\<rparr>"

definition flowState :: "rat MoneyFlowSummary list \<Rightarrow> DetailedMoneyFlowSummary list \<Rightarrow> rat MFState" where
  "flowState rows details = (\<lparr>mf_summaries = rows, mf_details = details\<rparr>, \<lparr>mb_marked = [], mb_dlq = []\<rparr>)"

lemma flowService_simps [simp]:
  "mf_repo (ms_repo (flowService tag t)) = (exampleRepo None)\<lparr>now := t\<rparr>" "mf_dateColumn (ms_repo (flowService tag t)) = id"
  "mf_scan (ms_repo (flowService tag t)) = id" "ms_float64 (flowService tag t) = id"
  "ms_newUUID (flowService tag t) n = tag @ replicate n (CHR ''u'')" "ms_statusText (flowService tag t) = id"
  "ms_paymentTypeText (flowService tag t) = id"
  by (simp_all add: flowService_def)

lemma flowRow_simps [simp]:
  "mfs_ID (flowRow i day status papa related) = i" "mfs_TransactionSourceCreationDate (flowRow i day status papa related) = day"
  "mfs_TransactionType (flowRow i day status papa related) = ''TRX''" "mfs_PaymentType (flowRow i day status papa related) = ''PAY''"
  "mfs_TotalTransfer (flowRow i day status papa related) = 50" "mfs_PapaTransactionID (flowRow i day status papa related) = papa"
  "mfs_MoneyFlowStatus (flowRow i day status papa related) = status"
  "mfs_RelatedFailedOrRejectedSummaryID (flowRow i day status papa related) = related"
  "mfs_IsActive (flowRow i day status papa related)"
  "mfs_RequestedDate (flowRow i day status papa related) = Some 1" "mfs_ActualDate (flowRow i day status papa related) = Some 1"
  by (simp_all add: flowRow_def)

lemma flowState_simps [simp]:
  "mf_summaries (fst (flowState rows details)) = rows" "mf_details (fst (flowState rows details)) = details"
  "snd (flowState rows details) = \<lparr>mb_marked = [], mb_dlq = []\<rparr>"
  by (simp_all add: flowState_def)

lemma flowTransaction_simps [simp]:
  "nt_Id (flowTransaction i y) = Some i" "nt_Amount (flowTransaction i y) = 50"
  "nt_TransactionType (flowTransaction i y) = y" "nt_Status (flowTransaction i y) = 1"
  by (simp_all add: flowTransaction_def)

lemma flow_healthy: "flowHealthy (flowService tag t)"
  by (simp add: flowHealthy_def)

lemma flow_rules: "loadBusinessRules (flowService tag t) = Inr flowRules"
  by (simp add: loadBusinessRules_def flowService_def flowRules_def)

lemma flow_eligible: "\<exists>b. CheckEligibleTransaction (flowService tag t) '''' ''TRX'' = Inr (b, ''PAY'')"
  "\<exists>b. CheckEligibleTransaction (flowService tag t) ''PAY'' '''' = Inr (b, ''PAY'')"
  by (simp_all add: CheckEligibleTransaction_def flow_rules GetByTransactionType_def GetByPaymentType_def flowRules_def)

lemma flow_parse:
  "m \<noteq> '''' \<Longrightarrow> m \<noteq> ''mixed'' \<Longrightarrow>
     ParseMessage (flowService tag t) m = Inr \<lparr>no_RefNumber = ''ref'', no_Transactions = [flowTransaction m ''TRX'']\<rparr>"
  "ParseMessage (flowService tag t) ''mixed'' =
     Inr \<lparr>no_RefNumber = ''ref'', no_Transactions = [flowTransaction ''x'' ''OTHER'', flowTransaction ''y'' ''TRX'']\<rparr>"
  by (simp_all add: ParseMessage_def flowService_def)

lemma flow_amounts: "ParseMessage (flowService tag t) m = Inr order \<Longrightarrow> namedAmounts (\<lambda>_. 50) (flowService tag t) (no_Transactions order)"
  by (auto simp: ParseMessage_def flowService_def namedAmounts_def flowTransaction_def split: if_splits)

lemma flow_unused: "\<forall>n. tag @ replicate n (CHR ''u'') \<notin> mfs_ID ` set (mf_summaries db) \<Longrightarrow> unusedFrom (flowService tag t) k db"
  by (simp add: unusedFrom_def inj_def)

section \<open>Witnesses\<close>

lemma flow_good_empty: "mfGood (\<lambda>_. 50) (fst (flowState [] []))"
  by (simp add: mfGood_def mfBooks_def activeKeys_def)

lemma flow_good_row:
  assumes "status \<in> {''PENDING'', ''IN_PROGRESS'', ''SUCCESSFUL'', ''FAILED'', ''REJECTED''}"
  shows "mfGood (\<lambda>_. 50) (fst (flowState [flowRow i day status papa related] [flowDetail d i]))"
  using assms by (auto simp: mfGood_def mfBooks_def activeKeys_def recorded_def flowDetail_def datedRow_def)

text \<open>The row \<open>f\<close> and the day after it, where a row carries it on.\<close>

lemma flow_good_rows:
  "mfGood (\<lambda>_. 50) (fst (flowState [flowRow ''f'' 0 ''FAILED'' ''p'' None, flowRow ''a'' 1 ''SUCCESSFUL'' ''q'' (Some ''f'')]
     [flowDetail ''d'' ''f'', flowDetail ''e'' ''a'']))"
  by (auto simp: mfGood_def mfBooks_def activeKeys_def recorded_def flowDetail_def datedRow_def)

lemma flow_supported:
  "\<forall>r\<in>set (mf_summaries db). \<forall>x. mfs_ID r \<noteq> CHR ''s'' # x \<Longrightarrow>
     mfSupported (\<lambda>_. 50) (flowService ''s'' t) (Notification m) db"
  unfolding mfSupported_def by (auto simp: flow_amounts intro!: flow_unused) metis

lemma flow_history:
  assumes "allowed (Notification ''t'')" and "\<forall>r\<in>set (mf_summaries (fst s)). \<forall>x. mfs_ID r \<noteq> CHR ''s'' # x"
  shows "mfHistory allowed (\<lambda>_. 50) s (consumeNotification (flowService ''s'' 0) ''t'' s)"
proof -
  have "mfHistory allowed (\<lambda>_. 50) s (mfServe (flowService ''s'' 0) (Notification ''t'') s)"
    by (rule mfHistory.step, rule mfHistory.start, rule assms(1), rule flow_supported [OF assms(2)])
  then show ?thesis by simp
qed

lemma flow_parse_t:
  "ParseMessage (flowService tag t) ''t'' = Inr \<lparr>no_RefNumber = ''ref'', no_Transactions = [flowTransaction ''t'' ''TRX'']\<rparr>"
  by (simp add: flow_parse)

lemma flow_list_eligible: "list_all2 (eligible (flowService tag t)) [flowTransaction i ''TRX''] [''PAY'']"
  using flow_eligible(1) by (simp add: eligible_def)

lemma money_flow_books_witness:
  "\<exists>t. mfHistory (\<lambda>_. True) (\<lambda>_. 50) (flowState [] []) t \<and> t \<noteq> flowState [] [] \<and>
     distinct (activeKeys (mf_summaries (fst t))) \<and>
     (\<forall>s\<in>set (mf_summaries (fst t)). mfs_TotalTransfer s =
        sum_list (map (\<lambda>d. 50) (filter (\<lambda>d. dmf_SummaryID d = mfs_ID s) (mf_details (fst t)))))"
proof -
  let ?t = "consumeNotification (flowService ''s'' 0) ''t'' (flowState [] [])"
  have run: "mfHistory (\<lambda>_. True) (\<lambda>_. 50) (flowState [] []) ?t"
    by (rule flow_history) simp_all
  obtain new where "mf_details (fst ?t) = mf_details (fst (flowState [] [])) @ new"
      "map (\<lambda>d. Some (dmf_AcuanTransactionID d)) new = map nt_Id [flowTransaction ''t'' ''TRX'']"
    using processTransactions_records [OF flow_healthy [of "''s''" 0] flow_list_eligible [of "''s''" 0 "''t''"], of 0 "flowState [] []"]
    by (auto simp: consumeNotification_def processNotificationMessage_def flow_parse ProcessTransactionNotification_def
        ValidateNotification_def bind_def exec_simps simp del: processTransactions.simps)
  then have "?t \<noteq> flowState [] []" by (auto simp: flowState_def)
  with run money_flow_books [OF run flow_good_empty] show ?thesis by blast
qed

lemma summary_status_transitions_witness:
  "let s = flowState [flowRow ''f'' 0 ''SUCCESSFUL'' ''p'' None] [flowDetail ''d'' ''f'']
   in mfs_MoneyFlowStatus (mf_summaries (fst (consumeNotification (flowService ''s'' 0) ''t'' s)) ! 0) = ''SUCCESSFUL''"
proof -
  let ?s = "flowState [flowRow ''f'' 0 ''SUCCESSFUL'' ''p'' None] [flowDetail ''d'' ''f'']"
  have run: "mfHistory (\<lambda>c. \<not> isEvent c) (\<lambda>_. 50) ?s (consumeNotification (flowService ''s'' 0) ''t'' ?s)"
    by (rule flow_history) (simp_all add: isEvent_def)
  from summary_status_transitions [OF run flow_good_row] show ?thesis by (simp add: Let_def)
qed

lemma notification_recorded_witness:
  "\<exists>new. mf_details (fst (consumeNotification (flowService ''s'' 0) ''t'' (flowState [] []))) = new \<and>
     map (\<lambda>d. Some (dmf_AcuanTransactionID d)) new = [Some ''t''] \<and>
     mb_marked (snd (consumeNotification (flowService ''s'' 0) ''t'' (flowState [] []))) = [''t'']"
proof -
  have "list_all2 (eligible (flowService ''s'' 0))
      (no_Transactions \<lparr>no_RefNumber = ''ref'', no_Transactions = [flowTransaction ''t'' ''TRX'']\<rparr>) [''PAY'']"
    using flow_list_eligible by simp
  from notification_recorded [OF flow_healthy flow_parse_t _ _ this, of "flowState [] []"] show ?thesis by auto
qed

lemma ineligible_transaction_drops_rest_witness:
  "consumeNotification (flowService ''s'' 0) ''mixed'' (flowState [] []) =
     (\<lparr>mf_summaries = [], mf_details = []\<rparr>, \<lparr>mb_marked = [''mixed''], mb_dlq = []\<rparr>)"
proof -
  have "map_of (brs_TransactionToPaymentMap flowRules) (nt_TransactionType (flowTransaction ''x'' ''OTHER'')) = None"
    by (simp add: flowRules_def)
  from ineligible_transaction_drops_rest [OF flow_rules flow_parse(2) _ _ this] show ?thesis
    by (simp add: flowState_def)
qed

lemma late_event_reopens_summary_witness:
  "let req = \<lparr>ur_PapaTransactionID = Some ''again'', ur_MoneyFlowStatus = Some ''IN_PROGRESS'', ur_ActualDate = None\<rparr>;
       s = flowState [flowRow ''f'' 0 ''SUCCESSFUL'' ''papa'' None] [flowDetail ''d'' ''f'']
   in \<exists>t b. UpdateSummary (flowService ''z'' 2) ''f'' req (consumeEvent (flowService ''s'' 0) ''e'' s) = (Inr (), t) \<and>
        b \<in> set (mf_summaries (fst t)) \<and> mfs_MoneyFlowStatus b = ''IN_PROGRESS'' \<and> mfs_TotalTransfer b = 50"
proof -
  let ?s = "flowState [flowRow ''f'' 0 ''SUCCESSFUL'' ''papa'' None] [flowDetail ''d'' ''f'']"
    and ?a = "flowRow ''f'' 0 ''SUCCESSFUL'' ''papa'' None"
    and ?e = "\<lparr>pe_ID = ''papa'', pe_PaymentType = ''PAY'', pe_Status = ''FAILED'', pe_ReferenceNumber = ''ref''\<rparr>"
  have good: "mfGood (\<lambda>_. 50) (fst ?s)" by (rule flow_good_row) simp
  have event: "ms_paymentEvent (flowService ''s'' 0) ''e'' = Inr ?e" by (simp add: flowService_def)
  obtain b where rule: "CheckEligibleTransaction (flowService ''s'' 0) (ms_paymentTypeText (flowService ''s'' 0) (pe_PaymentType ?e)) '''' = Inr (b, ''PAY'')"
    using flow_eligible(2) by auto
  from late_event_reopens_summary [OF flow_healthy flow_healthy good _ _ _ _ _ _ event _ _ _ _ rule, of "''papa''" ?a
      "\<lparr>ur_PapaTransactionID = Some ''again'', ur_MoneyFlowStatus = Some ''IN_PROGRESS'', ur_ActualDate = None\<rparr>" "''again''" "''z''" 2]
  show ?thesis by (fastforce simp: Let_def)
qed

lemma failed_amount_carried_twice_witness:
  "let s = flowState [flowRow ''f'' 0 ''FAILED'' ''p'' None, flowRow ''a'' 1 ''SUCCESSFUL'' ''q'' (Some ''f'')]
             [flowDetail ''d'' ''f'', flowDetail ''e'' ''a'']
   in \<exists>c. mf_summaries (fst (consumeNotification (flowService ''s'' (10 * nsPerDay)) ''t'' s)) = mf_summaries (fst s) @ [c] \<and>
        responseTotal (summaryDetail (mf_summaries (fst s) @ [c]) (flowRow ''a'' 1 ''SUCCESSFUL'' ''q'' (Some ''f''))) = 100 \<and>
        responseTotal (summaryDetail (mf_summaries (fst s) @ [c]) c) = 100"
proof -
  let ?f = "flowRow ''f'' 0 ''FAILED'' ''p'' None" and ?a = "flowRow ''a'' 1 ''SUCCESSFUL'' ''q'' (Some ''f'')"
  obtain b where rule: "CheckEligibleTransaction (flowService ''s'' (10 * nsPerDay)) '''' (nt_TransactionType (flowTransaction ''t'' ''TRX'')) = Inr (b, ''PAY'')"
    using flow_eligible(1) by auto
  have day: "convertToJakartaDate 864000000000000 = 838800000000000"
    by (simp add: convertToJakartaDate_def localDay_def startOfLocalDay_def nsPerDay_def jakartaOffset_def)
  from failed_amount_carried_twice [OF flow_healthy flow_good_rows flow_parse_t _ _ rule, of "''t''" ?f ?a]
  show ?thesis
    by (auto simp: day flowDay_def isFailedOrRejected_def TruncateDay_def nsPerDay_def Let_def)
qed

end
