(* ===== verification/ListingProperties.thy ===== *)
theory ListingProperties
  imports TransactionListing DetailListing MoneyFlowScenario
begin

text \<open>
  What a client of the list endpoints relies on, from the facts of the listings: following the next cursors ends and
  visits every row once, in order; the previous cursor leads back.  And where it is let down: the direction
  that a request asks for is ignored, and a filtered list ends early.
\<close>

section \<open>Ledger\<close>

text \<open>
  C18: A client that lists transactions and follows the next cursors comes to an end and has then seen every
  row that matches its request exactly once, newest day first, in pages of the size it asked for.
\<close>

theorem transactions_listed_once:
  assumes "transactionsListable (tables, req)" and "length (tt_transaction tables) < n"
  shows "\<exists>pages. followNext n (getAllTransaction tables req) '''' = Some pages \<and>
    concat pages = map (shownTransaction (tables, req))
      (rev (sort_key transactionKey (filter (filteredTransaction tables (firstTransactionOpts (tables, req))) (tt_transaction tables)))) \<and>
    (\<forall>p\<in>set pages. length p \<le> transactionPageSize (tables, req))"
proof -
  have "length (listedTransactionRows (tables, req)) < n"
    using assms(2) le_less_trans [OF length_filter_le] by (simp add: listedTransactionRows_def)
  from transaction_list.follow_all [OF assms(1) this] show ?thesis
    by (simp add: orderBy_def listedTransactionRows_def)
qed

definition listedRow :: "nat \<Rightarrow> nat \<Rightarrow> rat ListedTransaction" where
  "listedRow i day =
     \<lparr>lt_DatabaseID = i, lt_TransactionDate = day, lt_Transaction = exampleEntry 1 i, lt_CreatedAt = 0, lt_UpdatedAt = 0\<rparr>"

definition listedTables :: "rat TransactionTables" where
  "listedTables =
     \<lparr>tt_transaction = [listedRow 1 19, listedRow 2 20, listedRow 3 2, listedRow 4 19], tt_account = Map.empty,
      tt_orderTypes = Ok (Map.empty, Map.empty), tt_onlyAMF = False, tt_now = 20 * nsPerDay, tt_listFault = None,
      tt_estimate = Ok 4\<rparr>"

definition listRequest :: DoGetListTransactionRequest where
  "listRequest =
     \<lparr>lq_Search = '''', lq_SearchBy = '''', lq_OrderType = '''', lq_TransactionType = '''', lq_TransactionTypes = [],
      lq_StartDate = '''', lq_EndDate = '''', lq_Limit = 2, lq_ProductTypeName = '''', lq_NextCursor = '''', lq_PrevCursor = ''''\<rparr>"

lemma early_date: "d < 31 \<Longrightarrow> dateOf d = (1, 1, d + 1)"
  by (simp add: dateOf_def yearAndDay_def Let_def daysIn_def isLeap_def)

lemma printable_early: "0 \<le> t \<Longrightarrow> t < nsPerDay \<Longrightarrow> printable 0 t"
  by (simp add: printable_def early_date)

lemma listed_clock: "localDay (NowZeroTime (20 * nsPerDay)) = 20" "localDay (AddDays (NowZeroTime (20 * nsPerDay)) (- 7)) = 13"
proof -
  have day: "localDay (20 * nsPerDay) = 20"
    by (simp add: localDay_def jakartaOffset_def nsPerDay_def)
  have "0 \<le> 20 * nsPerDay + jakartaOffset"
    by (simp add: jakartaOffset_def nsPerDay_def)
  with day have zero: "NowZeroTime (20 * nsPerDay) = startOfLocalDay 20"
    using parse_format_date [of "20 * nsPerDay" 1 1 21] by (simp add: NowZeroTime_def early_date)
  then show "localDay (NowZeroTime (20 * nsPerDay)) = 20" "localDay (AddDays (NowZeroTime (20 * nsPerDay)) (- 7)) = 13"
    by (simp_all add: AddDays_def startOfLocalDay_def localDay_def nsPerDay_def)
qed

lemma transactions_listed_once_witness:
  "\<exists>pages. followNext 5 (getAllTransaction listedTables listRequest) '''' = Some pages \<and>
    concat pages = map (shownTransaction (listedTables, listRequest)) [listedRow 2 20, listedRow 4 19, listedRow 1 19]"
proof -
  have listable: "transactionsListable (listedTables, listRequest)"
    by (simp add: transactionsListable_def listedTables_def listRequest_def DoGetListTransactionToFilterOpts_def
        transactionCursor_def listedRow_def ) (simp add: early_date)
  have rows: "filter (filteredTransaction listedTables (firstTransactionOpts (listedTables, listRequest))) (tt_transaction listedTables) =
      [listedRow 1 19, listedRow 2 20, listedRow 4 19]"
    by (simp add: listedTables_def listRequest_def firstTransactionOpts_def DoGetListTransactionToFilterOpts_def
        copiedTransactionOpts_def transactionCursor_def filteredTransaction_def searched_def inDates_def listed_clock
        listedRow_def)
  have "rev (sort_key transactionKey [listedRow 1 19, listedRow 2 20, listedRow 4 19]) = [listedRow 2 20, listedRow 4 19, listedRow 1 19]"
    by (simp add: transactionKey_def listedRow_def nsPerDay_def)
  with transactions_listed_once [OF listable, of 5] show ?thesis
    unfolding rows by (auto simp: listedTables_def)
qed

section \<open>Wallet transactions\<close>

text \<open>
  Whatever direction a request for the wallet transactions of an account asks for, a client that follows the next
  cursors sees each matching row once, always from the latest to the earliest.
\<close>

lemma wallet_list_always_descending:
  assumes "wl_listFault w = None" and "wl_countFault w = None" and "isOk (walletDates (lw_StartDate req) (lw_EndDate req))"
    and "0 \<le> lw_Limit req" and "distinct (map wt_ID (wl_table w))"
    and "list_all (\<lambda>t. printable (wl_zone w) (wt_TransactionTime t) \<and> CHR ''|'' \<notin> set (wt_ID t)) (wl_table w)"
    and "length (wl_table w) < n"
  shows "\<exists>since until pages. walletDates (lw_StartDate req) (lw_EndDate req) = Ok (since, until) \<and>
    followNext n (listTransactionByAccountNumber w req) '''' = Some pages \<and>
    concat pages = map (WalletToModelResponse \<circ> withTotal)
      (rev (sort_key walletKey
        (filter (filteredWalletTrx (emptyWalletFilter
             \<lparr>wf_AccountNumber := lw_AccountNumber req, wf_Status := lw_Status req, wf_TransactionType := lw_TransactionType req,
              wf_StartDate := since, wf_EndDate := until\<rparr>)) (wl_table w))))"
proof -
  let ?base = "emptyWalletFilter\<lparr>wf_AccountNumber := lw_AccountNumber req, wf_Status := lw_Status req,
      wf_TransactionType := lw_TransactionType req\<rparr>"
  let ?e = "(w, req, ?base)"
  obtain since until where dates: "walletDates (lw_StartDate req) (lw_EndDate req) = Ok (since, until)"
    using assms(3) by (auto simp: isOk_iff)
  have listable: "walletListable ?e"
    using assms(1-6) by (simp add: walletListable_def)
  have page: "walletPage ?e = listTransactionByAccountNumber w req"
    by (simp add: fun_eq_iff walletPage_def listTransactionByAccountNumber_def ToFilterOptsByAccountNumber_def)
  have first: "firstWalletOpts ?e = ?base\<lparr>wf_StartDate := since, wf_EndDate := until,
      wf_Limit := (if lw_Limit req = 0 then 10 else lw_Limit req) + 1,
      wf_SortBy := (if lw_SortBy req = [] then ''createdDate'' else []),
      wf_SortDirection := (if lw_SortDirection req = [] then ''desc'' else []), wf_Cursor := None\<rparr>"
    using dates assms(4) by (simp add: firstWalletOpts_def walletFilterOpts_def walletCursor_def)
  have "walletDescending (firstWalletOpts ?e)"
    by (simp add: first walletDescending_def)
  moreover have "listedWalletRows ?e = filter (filteredWalletTrx (?base\<lparr>wf_StartDate := since, wf_EndDate := until\<rparr>)) (wl_table w)"
    unfolding listedWalletRows_def first filteredWalletTrx_frame by simp
  moreover have "length (listedWalletRows ?e) < n"
    using assms(7) le_less_trans [OF length_filter_le] by (simp add: listedWalletRows_def)
  ultimately show ?thesis
    using wallet_list.follow_all [OF listable, of n] dates
    by (auto simp: page orderBy_def)
qed

definition listedWallet :: "string \<Rightarrow> int \<Rightarrow> rat WalletTransaction" where
  "listedWallet i t = (exampleStored True 1)\<lparr>wt_ID := i, wt_TransactionTime := t, wt_AccountNumber := ''ACC''\<rparr>"

definition walletListing :: "rat WalletListing" where
  "walletListing =
     \<lparr>wl_table = [listedWallet ''a'' 5, listedWallet ''b'' 7, listedWallet ''c'' 5], wl_zone = 0, wl_listFault = None,
      wl_countFault = None\<rparr>"

definition ascendingRequest :: ListWalletTrxByAccountNumberRequest where
  "ascendingRequest =
     \<lparr>lw_AccountNumber = ''ACC'', lw_Limit = 2, lw_Status = '''', lw_StartDate = '''', lw_EndDate = '''', lw_TransactionType = '''',
      lw_SortBy = ''createdDate'', lw_SortDirection = ''asc'', lw_NextCursor = '''', lw_PrevCursor = ''''\<rparr>"

lemma wallet_list_always_descending_witness:
  "\<exists>pages. followNext 4 (listTransactionByAccountNumber walletListing ascendingRequest) '''' = Some pages \<and>
    concat pages = map (WalletToModelResponse \<circ> withTotal) [listedWallet ''b'' 7, listedWallet ''c'' 5, listedWallet ''a'' 5]"
proof -
  have dates: "walletDates (lw_StartDate ascendingRequest) (lw_EndDate ascendingRequest) = Ok (None, None)"
    by (simp add: walletDates_def ascendingRequest_def)
  have printed: "list_all (\<lambda>t. printable (wl_zone walletListing) (wt_TransactionTime t) \<and> CHR ''|'' \<notin> set (wt_ID t)) (wl_table walletListing)"
    using printable_early [of 5] printable_early [of 7] by (simp add: walletListing_def listedWallet_def nsPerDay_def)
  have rows: "filter (filteredWalletTrx (emptyWalletFilter\<lparr>wf_AccountNumber := lw_AccountNumber ascendingRequest,
      wf_Status := lw_Status ascendingRequest, wf_TransactionType := lw_TransactionType ascendingRequest,
      wf_StartDate := None, wf_EndDate := None\<rparr>)) (wl_table walletListing) = wl_table walletListing"
    by (simp add: walletListing_def ascendingRequest_def filteredWalletTrx_def emptyWalletFilter_def listedWallet_def)
  have sorted: "rev (sort_key walletKey (wl_table walletListing)) =
      [listedWallet ''b'' 7, listedWallet ''c'' 5, listedWallet ''a'' 5]"
    by (simp add: walletListing_def listedWallet_def walletKey_def less_eq_char_def)
  show ?thesis
    using wallet_list_always_descending [of walletListing ascendingRequest 4] printed
    by (simp add: dates rows sorted) (simp add: walletListing_def listedWallet_def ascendingRequest_def)
qed

section \<open>Summaries and their transactions\<close>

text \<open>
  C26: The page of money flow summaries that follows a row has a previous cursor that leads to the page ending with that
  row, and the next cursor of that page leads forward to where the client came from.
\<close>

theorem summary_pages_back_and_forth:
  assumes "summariesListable (l, req)"
    and "rev (sort_key summaryKey (listedSummaryRows (l, req))) = pre @ r # s # post"
  shows "\<exists>p b. getSummariesList l req \<lparr>nextCursor = summaryRowCursor (sl_zone l) r, prevCursor = ''''\<rparr> = Page p \<and>
    getSummariesList l req \<lparr>nextCursor = '''', prevCursor = pg_Prev (rp_Pagination p)\<rparr> = Page b \<and>
    rp_Contents b = map (SummaryToModelResponse (sl_zone l) \<circ> withRelated l)
      (drop (Suc (length pre) - summaryPageSize (l, req)) (pre @ [r])) \<and>
    pg_Next (rp_Pagination b) = summaryRowCursor (sl_zone l) r"
  using summary_list.back_and_forth [OF assms(1), of pre r s post] assms(2) by (simp add: orderBy_def)

definition flowListing :: "rat MoneyFlowSummary list \<Rightarrow> DetailedMoneyFlowSummary list \<Rightarrow> rat Transaction list \<Rightarrow> rat SummaryListing" where
  "flowListing rows details ledger =
     \<lparr>sl_repo = ms_repo (flowService ''u'' nsPerDay), sl_db = \<lparr>mf_summaries = rows, mf_details = details\<rparr>, sl_ledger = ledger,
      sl_listFault = None, sl_countFault = None, sl_transactionsFault = None, sl_estimate = Ok 0, sl_errorText = (\<lambda>_. ''error''),
      sl_zone = 0\<rparr>"

definition summaryRequest :: GetMoneyFlowSummaryRequest where
  "summaryRequest =
     \<lparr>mq_PaymentType = '''', mq_CreationDateStart = '''', mq_CreationDateEnd = '''', mq_Status = '''', mq_Limit = 1,
      mq_NextCursor = '''', mq_PrevCursor = '''', mq_SummaryID = ''''\<rparr>"

definition flowSummary :: "string \<Rightarrow> int \<Rightarrow> rat MoneyFlowSummary" where
  "flowSummary i t = (flowRow i 0 ''PENDING'' '''' None)\<lparr>mfs_CreatedAt := t\<rparr>"

lemma summary_pages_back_and_forth_witness:
  "\<exists>p b. getSummariesList (flowListing [flowSummary ''summary1'' 1, flowSummary ''summary2'' 2, flowSummary ''summary3'' 3] [] [])
      summaryRequest \<lparr>nextCursor = summaryRowCursor 0 (flowSummary ''summary2'' 2), prevCursor = ''''\<rparr> = Page p \<and>
    getSummariesList (flowListing [flowSummary ''summary1'' 1, flowSummary ''summary2'' 2, flowSummary ''summary3'' 3] [] [])
      summaryRequest \<lparr>nextCursor = '''', prevCursor = pg_Prev (rp_Pagination p)\<rparr> = Page b \<and>
    map sr_ID (rp_Contents b) = [''summary2''] \<and>
    pg_Next (rp_Pagination b) = summaryRowCursor 0 (flowSummary ''summary2'' 2)"
proof -
  let ?rows = "[flowSummary ''summary1'' 1, flowSummary ''summary2'' 2, flowSummary ''summary3'' 3]"
  let ?l = "flowListing ?rows [] []"
  have printed: "printable 0 1" "printable 0 2" "printable 0 3"
    by (simp_all add: printable_early nsPerDay_def)
  have listable: "summariesListable (?l, summaryRequest)"
    by (simp add: summariesListable_def flowListing_def summaryRequest_def optionalDate_def flowSummary_def printed)
  have rows: "listedSummaryRows (?l, summaryRequest) = ?rows"
    by (simp add: listedSummaryRows_def flowListing_def firstSummaryOpts_def SummaryToFilterOpts_def summaryRequest_def
        optionalDate_def BuildCursorAndLimit_def buildCursor_def applyCommonFilters_def flowSummary_def flowRow_def TruncateDay_def
        nsPerDay_def)
  have sorted: "rev (sort_key summaryKey (listedSummaryRows (?l, summaryRequest))) =
      [flowSummary ''summary3'' 3] @ flowSummary ''summary2'' 2 # flowSummary ''summary1'' 1 # []"
    unfolding rows by (simp add: summaryKey_def flowSummary_def)
  show ?thesis
    using summary_pages_back_and_forth [OF listable sorted]
    by (auto simp: flowListing_def summaryPageSize_def summaryRequest_def SummaryToModelResponse_def withRelated_def
        flowSummary_def flowRow_def Let_def)
qed

text \<open>
  With a reference number, the list of the transactions of a summary is cut before it is filtered.  When the
  transactions among the first details (one more than a page holds) that match fit on a page, the client sees these and no
  next cursor; whatever matches further down the list is never shown.
\<close>

lemma filtered_details_end_early:
  assumes "detailsListable (l, summaryID, req)"
    and "length (filter (detailMatches l (dq_RefNumber req)) (take (detailPageSize (l, summaryID, req) + 1)
      (rev (sort_key dmf_ID (listedDetails (l, summaryID, req)))))) \<le> detailPageSize (l, summaryID, req)"
  shows "followNext (Suc n) (getDetailedTransactionsBySummaryID l summaryID req) '''' =
    Some [map (DetailToModelResponse \<circ> detailOut l)
      (filter (detailMatches l (dq_RefNumber req)) (take (detailPageSize (l, summaryID, req) + 1)
        (rev (sort_key dmf_ID (listedDetails (l, summaryID, req))))))]"
  using filtered_first_page [OF assms(1), of n] assms(2) by (simp add: orderBy_def)

definition numberedTransaction :: "string \<Rightarrow> string \<Rightarrow> rat Transaction" where
  "numberedTransaction i ref = (exampleEntry 1 1)\<lparr>txn_TransactionID := i, txn_RefNumber := ref\<rparr>"

definition flowDetails :: "rat SummaryListing" where
  "flowDetails =
     flowListing [flowRow ''s'' 0 ''PENDING'' '''' None] [flowDetail ''a'' ''s'', flowDetail ''b'' ''s'', flowDetail ''c'' ''s'']
       [numberedTransaction ''a'' ''wanted'', numberedTransaction ''b'' ''other'', numberedTransaction ''c'' ''other'']"

definition detailRequest :: DetailedTransactionsRequest where
  "detailRequest = \<lparr>dq_SummaryID = ''s'', dq_RefNumber = ''wanted'', dq_Limit = 1, dq_NextCursor = '''', dq_PrevCursor = ''''\<rparr>"

text \<open>One of three transactions has the number, and the list is one empty page.\<close>

lemma filtered_details_end_early_witness:
  "txn_RefNumber (hd (sl_ledger flowDetails)) = ''wanted'' \<and>
   followNext 9 (getDetailedTransactionsBySummaryID flowDetails ''s'' detailRequest) '''' = Some [[]]"
proof -
  have rows: "listedDetails (flowDetails, ''s'', detailRequest) = [flowDetail ''a'' ''s'', flowDetail ''b'' ''s'', flowDetail ''c'' ''s'']"
    by (simp add: listedDetails_def flowDetails_def flowListing_def GetSummaryDetailBySummaryID_def exampleRepo_def detailRows_def
        summaryIDs_def summaryDetail_def failIf_def flowService_def flowRow_def flowDetail_def)
  have listable: "detailsListable (flowDetails, ''s'', detailRequest)"
    using rows by (simp add: detailsListable_def flowDetails_def flowListing_def GetSummaryDetailBySummaryID_def failIf_def exampleRepo_def
        flowService_def flowRow_def flowDetail_def detailRequest_def numberedTransaction_def)
  have "filter (detailMatches flowDetails (dq_RefNumber detailRequest)) (take (detailPageSize (flowDetails, ''s'', detailRequest) + 1)
      (rev (sort_key dmf_ID (listedDetails (flowDetails, ''s'', detailRequest))))) = []"
    unfolding rows by (simp add: detailPageSize_def detailRequest_def flowDetail_def less_eq_char_def detailMatches_def
        ledgerRow_def flowDetails_def flowListing_def numberedTransaction_def numeral_2_eq_2)
  then show ?thesis
    using filtered_details_end_early [OF listable, of 8]
    by (simp add: flowDetails_def flowListing_def numberedTransaction_def)
qed

end
