(* ===== verification/Accounts.thy ===== *)
theory Accounts
  imports Cursors ServiceHelpers "HOL-Library.Char_ord" "HOL-Library.List_Lexorder"
begin

text \<open>
  The administration of accounts: the statements of \<open>internal/repositories/sql_account.go\<close> and \<open>sql_feature.go\<close> that
  create, change and remove accounts and their features, the requests of \<open>internal/models/account_new.go\<close> and
  \<open>wallet.go\<close>, \<open>internal/services/account_service.go\<close> and \<open>wallet_account_service.go\<close>.  \<open>balanceTables\<close> is what
  the balance repository (\<open>Database\<close>) sees of these tables.
\<close>

section \<open>Tables\<close>

text \<open>
  A legacy id is a JSON object; its values are texts, or others of which only the text is read (\<open>->>\<close>).  A missing one
  and JSON's null read like an empty object.
\<close>

datatype (plugins only: code) LegacyValue = LegacyText string | LegacyOther string

type_synonym AccountLegacyId = "string \<rightharpoonup> LegacyValue"

definition t24AccountNumber :: "AccountLegacyId \<Rightarrow> string option" where
  "t24AccountNumber l =
     (case l ''t24AccountNumber'' of None \<Rightarrow> None | Some (LegacyText s) \<Rightarrow> Some s | Some (LegacyOther s) \<Rightarrow> Some s)"

record 'd StoredAccount =
  acc_id :: int
  acc_accountNumber :: string
  acc_name :: string
  acc_ownerId :: string
  acc_productTypeName :: string
  acc_categoryCode :: string
  acc_subCategoryCode :: string
  acc_entityCode :: string
  acc_currency :: string
  acc_altId :: string
  acc_legacyId :: AccountLegacyId
  acc_isHvt :: bool
  acc_status :: string
  acc_metadata :: "'d WalletMetadata"
  acc_actualBalance :: 'd
  acc_pendingBalance :: 'd
  acc_version :: int
  acc_createdAt :: int
  acc_updatedAt :: int

text \<open>The accounts in the order of their numbers, the features by account number, and the sequence of the ids.\<close>

record 'd AccountDB =
  adb_account :: "'d StoredAccount list"
  adb_feature :: "string \<rightharpoonup> 'd FeatureRow"
  adb_nextId :: int

definition balanceRow :: "'d StoredAccount \<Rightarrow> 'd AccountRow" where
  "balanceRow a =
     \<lparr>row_accountNumber = acc_accountNumber a, row_t24AccountNumber = t24AccountNumber (acc_legacyId a),
      row_actualBalance = acc_actualBalance a, row_pendingBalance = acc_pendingBalance a, row_isHvt = acc_isHvt a,
      row_version = acc_version a, row_updatedAt = acc_updatedAt a\<rparr>"

definition balanceTables :: "'d AccountDB \<Rightarrow> 'd DB" where
  "balanceTables db =
     \<lparr>db_account = map balanceRow (adb_account db), db_feature = adb_feature db, db_wallet_transaction = [],
      db_transaction = []\<rparr>"

datatype (plugins only: code) accountCall =
    InsertAccount
  | UpsertAccount
  | SelectAccount
  | SelectLegacyAccount
  | UpdateAccountRow
  | UpdateSubCategoryRows
  | DeleteAccountRow
  | InsertFeature
  | UpdateFeature
  | SumBalances

text \<open>
  The configuration and the connection: the repository settings shared with the balances, the lowest balance of a
  preset, the driver's faults, its errors for a number that exists and for a column that is not null, and the text of
  errors.
\<close>

record 'd AccountsConfig =
  ac_repo :: "'d RepoConfig"
  ac_rangeMin :: "string \<Rightarrow> 'd"
  ac_fault :: "accountCall \<Rightarrow> err option"
  ac_duplicate :: err
  ac_notNull :: err
  ac_HVTSubCategoryCodes :: "string list"
  ac_errorText :: "err \<Rightarrow> string"

section \<open>Statements\<close>

text \<open>\<open>CreateAccount\<close>; the struct \<open>AccountUpsert\<close> has the same fields.\<close>

record 'd CreateAccount =
  ca_AccountNumber :: string
  ca_Name :: string
  ca_OwnerID :: string
  ca_ProductTypeName :: string
  ca_CategoryCode :: string
  ca_SubCategoryCode :: string
  ca_EntityCode :: string
  ca_Currency :: string
  ca_AltId :: string
  ca_LegacyId :: "AccountLegacyId option"
  ca_IsHVT :: bool
  ca_Status :: string
  ca_Metadata :: "'d WalletMetadata"

definition setColumns :: "int \<Rightarrow> 'd CreateAccount \<Rightarrow> 'd StoredAccount \<Rightarrow> 'd StoredAccount" where
  "setColumns t c a =
     a\<lparr>acc_name := ca_Name c, acc_ownerId := ca_OwnerID c, acc_productTypeName := ca_ProductTypeName c,
       acc_categoryCode := ca_CategoryCode c, acc_subCategoryCode := ca_SubCategoryCode c,
       acc_entityCode := ca_EntityCode c, acc_currency := ca_Currency c, acc_altId := ca_AltId c,
       acc_legacyId := (case ca_LegacyId c of None \<Rightarrow> Map.empty | Some l \<Rightarrow> l), acc_isHvt := ca_IsHVT c,
       acc_status := ca_Status c, acc_metadata := ca_Metadata c, acc_updatedAt := t\<rparr>"

text \<open>A new row has the defaults of its other columns: no money, and version 1.\<close>

definition newAccount :: "int \<Rightarrow> int \<Rightarrow> 'd::zero CreateAccount \<Rightarrow> 'd StoredAccount" where
  "newAccount i t c =
     setColumns t c
       \<lparr>acc_id = i, acc_accountNumber = ca_AccountNumber c, acc_name = '''', acc_ownerId = '''', acc_productTypeName = '''',
        acc_categoryCode = '''', acc_subCategoryCode = '''', acc_entityCode = '''', acc_currency = '''', acc_altId = '''',
        acc_legacyId = Map.empty, acc_isHvt = False, acc_status = '''', acc_metadata = None, acc_actualBalance = 0,
        acc_pendingBalance = 0, acc_version = 1, acc_createdAt = t, acc_updatedAt = t\<rparr>"

definition accountExists :: "'d AccountDB \<Rightarrow> string \<Rightarrow> bool" where
  "accountExists db n = list_ex (\<lambda>a. acc_accountNumber a = n) (adb_account db)"

text \<open>A value of the sequence is used up also when the row is not inserted.\<close>

definition RepoAccountCreate :: "'d::zero AccountsConfig \<Rightarrow> 'd CreateAccount \<Rightarrow> ('d AccountDB, unit) exec" where
  "RepoAccountCreate cfg c db =
     (case ac_fault cfg InsertAccount of
        Some e \<Rightarrow> (Err e, db)
      | None \<Rightarrow>
          if accountExists db (ca_AccountNumber c)
          then (Err (ac_duplicate cfg), db\<lparr>adb_nextId := adb_nextId db + 1\<rparr>)
          else (Ok (),
                db\<lparr>adb_account := insort_key acc_accountNumber (newAccount (adb_nextId db) (now (ac_repo cfg)) c) (adb_account db),
                   adb_nextId := adb_nextId db + 1\<rparr>))"

definition mapAccounts :: "('d StoredAccount \<Rightarrow> bool) \<Rightarrow> ('d StoredAccount \<Rightarrow> 'd StoredAccount) \<Rightarrow> 'd AccountDB \<Rightarrow> 'd AccountDB" where
  "mapAccounts P f db = db\<lparr>adb_account := map (\<lambda>a. if P a then f a else a) (adb_account db)\<rparr>"

definition RepoAccountUpsert :: "'d::zero AccountsConfig \<Rightarrow> 'd CreateAccount \<Rightarrow> ('d AccountDB, unit) exec" where
  "RepoAccountUpsert cfg c db =
     (case ac_fault cfg UpsertAccount of
        Some e \<Rightarrow> (Err e, db)
      | None \<Rightarrow>
          (Ok (),
           if accountExists db (ca_AccountNumber c)
           then (mapAccounts (\<lambda>a. acc_accountNumber a = ca_AccountNumber c) (setColumns (now (ac_repo cfg)) c) db)
                  \<lparr>adb_nextId := adb_nextId db + 1\<rparr>
           else db\<lparr>adb_account := insort_key acc_accountNumber (newAccount (adb_nextId db) (now (ac_repo cfg)) c) (adb_account db),
                   adb_nextId := adb_nextId db + 1\<rparr>))"

record 'd WalletFeature =
  wft_Preset :: "string option"
  wft_AllowedNegativeBalance :: "bool option"
  wft_BalanceRangeMin :: "'d option"
  wft_BalanceRangeMax :: "'d option"
  wft_NegativeBalanceLimit :: "'d option"

definition noFeature :: "'d WalletFeature" where
  "noFeature =
     \<lparr>wft_Preset = None, wft_AllowedNegativeBalance = None, wft_BalanceRangeMin = None, wft_BalanceRangeMax = None,
      wft_NegativeBalanceLimit = None\<rparr>"

record 'd UpdateAccountIn =
  ui_AccountNumber :: string
  ui_IsHVT :: "bool option"
  ui_Status :: string
  ui_Feature :: "'d WalletFeature"

text \<open>\<open>Update\<close> by id; a missing flag is written as NULL, which the column refuses.\<close>

definition RepoAccountUpdate :: "'d AccountsConfig \<Rightarrow> int \<Rightarrow> 'd UpdateAccountIn \<Rightarrow> ('d AccountDB, unit) exec" where
  "RepoAccountUpdate cfg i data db =
     (case ac_fault cfg UpdateAccountRow of
        Some e \<Rightarrow> (Err e, db)
      | None \<Rightarrow>
          if \<not> list_ex (\<lambda>a. acc_id a = i) (adb_account db) then (Err (Sentinel ErrNoRowsAffected), db)
          else case ui_IsHVT data of
            None \<Rightarrow> (Err (ac_notNull cfg), db)
          | Some hvt \<Rightarrow>
              (Ok (), mapAccounts (\<lambda>a. acc_id a = i)
                        (\<lambda>a. a\<lparr>acc_isHvt := hvt, acc_status := (if ui_Status data \<noteq> '''' then ui_Status data else acc_status a),
                               acc_updatedAt := now (ac_repo cfg)\<rparr>) db))"

record UpdateAccountBySubCategoryIn =
  us_Code :: string
  us_ProductTypeName :: "string option"
  us_Currency :: "string option"

text \<open>\<open>UpdateBySubCategory\<close> does not look at the number of rows.\<close>

definition RepoUpdateBySubCategory :: "'d AccountsConfig \<Rightarrow> UpdateAccountBySubCategoryIn \<Rightarrow> ('d AccountDB, unit) exec" where
  "RepoUpdateBySubCategory cfg data db =
     (case ac_fault cfg UpdateSubCategoryRows of
        Some e \<Rightarrow> (Err e, db)
      | None \<Rightarrow>
          (Ok (), mapAccounts (\<lambda>a. acc_subCategoryCode a = us_Code data)
             (\<lambda>a. a\<lparr>acc_productTypeName := (case us_ProductTypeName data of None \<Rightarrow> acc_productTypeName a | Some p \<Rightarrow> p),
                    acc_currency := (case us_Currency data of None \<Rightarrow> acc_currency a | Some c \<Rightarrow> c),
                    acc_updatedAt := now (ac_repo cfg)\<rparr>) db))"

definition deleteAccounts :: "'d AccountsConfig \<Rightarrow> ('d StoredAccount \<Rightarrow> bool) \<Rightarrow> ('d AccountDB, unit) exec" where
  "deleteAccounts cfg P db =
     (case ac_fault cfg DeleteAccountRow of
        Some e \<Rightarrow> (Err e, db)
      | None \<Rightarrow>
          if \<not> list_ex P (adb_account db) then (Err (Sentinel ErrNoRowsAffected), db)
          else (Ok (), db\<lparr>adb_account := filter (\<lambda>a. \<not> P a) (adb_account db)\<rparr>))"

definition RepoAccountDelete :: "'d AccountsConfig \<Rightarrow> int \<Rightarrow> ('d AccountDB, unit) exec" where
  "RepoAccountDelete cfg i = deleteAccounts cfg (\<lambda>a. acc_id a = i)"

definition DeleteByAccountNumber :: "'d AccountsConfig \<Rightarrow> string \<Rightarrow> ('d AccountDB, unit) exec" where
  "DeleteByAccountNumber cfg n = deleteAccounts cfg (\<lambda>a. acc_accountNumber a = n)"

section \<open>Reads\<close>

text \<open>\<open>strings.ToUpper\<close> and \<open>strings.ToLower\<close> on ASCII text.\<close>

definition toUpperAscii :: "char \<Rightarrow> char" where
  "toUpperAscii c =
     (let n = (of_char c :: nat) in if 97 \<le> n \<and> n \<le> 122 then char_of (n - 32) else c)"

record 'd GetAccountOut =
  ga_ID :: int
  ga_AccountName :: string
  ga_AccountNumber :: string
  ga_OwnerID :: string
  ga_Entity :: string
  ga_Currency :: string
  ga_Status :: string
  ga_Balance :: "'d Balance"
  ga_IsHVT :: bool
  ga_CreatedAt :: int
  ga_UpdatedAt :: int
  ga_LegacyId :: AccountLegacyId
  ga_Features :: "'d WalletFeature option"

text \<open>The columns of the account in the answers, with what the two queries read of the features.\<close>

definition scanAccount :: "'d::linordered_idom AccountsConfig \<Rightarrow> 'd StoredAccount \<Rightarrow> 'd WalletFeature \<Rightarrow> 'd GetAccountOut" where
  "scanAccount cfg a features =
     \<lparr>ga_ID = acc_id a, ga_AccountName = acc_name a, ga_AccountNumber = acc_accountNumber a, ga_OwnerID = acc_ownerId a,
      ga_Entity = acc_entityCode a, ga_Currency = acc_currency a, ga_Status = acc_status a,
      ga_Balance = NewBalance (acc_actualBalance a) (acc_pendingBalance a) [WithBalanceLimitEnabled (BalanceLimitToggle (ac_repo cfg))],
      ga_IsHVT = acc_isHvt a, ga_CreatedAt = acc_createdAt a, ga_UpdatedAt = acc_updatedAt a,
      ga_LegacyId = acc_legacyId a, ga_Features = Some features\<rparr>"

text \<open>The feature of an account; a NULL reads as the zero value.\<close>

definition joinedFeature :: "('d FeatureRow \<Rightarrow> 'b option) \<Rightarrow> 'd AccountDB \<Rightarrow> 'd StoredAccount \<Rightarrow> 'b option" where
  "joinedFeature f db a = Option.bind (adb_feature db (acc_accountNumber a)) f"

definition accountByNumber :: "'d AccountDB \<Rightarrow> string \<Rightarrow> 'd StoredAccount result" where
  "accountByNumber db n =
     (case find (\<lambda>a. acc_accountNumber a = n) (adb_account db) of None \<Rightarrow> Err (Sentinel ErrNoRows) | Some a \<Rightarrow> Ok a)"

definition accountByLegacyId :: "'d AccountDB \<Rightarrow> string \<Rightarrow> 'd StoredAccount result" where
  "accountByLegacyId db n =
     (case find (\<lambda>a. t24AccountNumber (acc_legacyId a) = Some n) (adb_account db) of
        None \<Rightarrow> Err (Sentinel ErrNoRows)
      | Some a \<Rightarrow> Ok a)"

definition RepoGetOneByAccountNumber ::
  "'d::linordered_idom AccountsConfig \<Rightarrow> string \<Rightarrow> 'd AccountDB \<Rightarrow> 'd GetAccountOut result" where
  "RepoGetOneByAccountNumber cfg n db =
     rbind (failIf (ac_fault cfg SelectAccount)) (\<lambda>_.
     rbind (accountByNumber db n) (\<lambda>a.
       Ok (scanAccount cfg a
             \<lparr>wft_Preset = Some (map toUpperAscii (map toLowerAscii (case joinedFeature feat_preset db a of None \<Rightarrow> '''' | Some p \<Rightarrow> p))),
              wft_AllowedNegativeBalance = Some (joinedFeature feat_negative_balance_allowed db a = Some True),
              wft_BalanceRangeMin = Some (nullDecimal (joinedFeature feat_balance_range_min db a)),
              wft_BalanceRangeMax = Some (nullDecimal (joinedFeature feat_balance_range_max db a)),
              wft_NegativeBalanceLimit = Some (nullDecimal (joinedFeature feat_negative_balance_limit db a))\<rparr>)))"

definition RepoGetOneByLegacyId :: "'d AccountsConfig \<Rightarrow> string \<Rightarrow> 'd AccountDB \<Rightarrow> 'd StoredAccount result" where
  "RepoGetOneByLegacyId cfg n db =
     rbind (failIf (ac_fault cfg SelectLegacyAccount)) (\<lambda>_. accountByLegacyId db n)"

text \<open>
  \<open>GetOneByAccountNumberOrLegacyId\<close>: the number first, then the legacy number.  What the features do not have comes
  from the configuration of their preset.
\<close>

definition orDefault :: "'b option \<Rightarrow> 'b \<Rightarrow> 'b option" where
  "orDefault x d = (case x of None \<Rightarrow> Some d | Some y \<Rightarrow> Some y)"

definition RepoGetOneByAccountNumberOrLegacyId ::
  "'d::linordered_idom AccountsConfig \<Rightarrow> string \<Rightarrow> 'd AccountDB \<Rightarrow> 'd GetAccountOut result" where
  "RepoGetOneByAccountNumberOrLegacyId cfg n db =
     rbind (failIf (ac_fault cfg SelectAccount)) (\<lambda>_.
     rbind (case accountByNumber db n of
              Inr a \<Rightarrow> Ok a
            | Inl e \<Rightarrow> rbind (failIf (ac_fault cfg SelectLegacyAccount)) (\<lambda>_. accountByLegacyId db n)) (\<lambda>a.
     let preset = (case joinedFeature feat_preset db a of None \<Rightarrow> ''customer'' | Some p \<Rightarrow> map toLowerAscii p)
     in case AccountFeatureConfig (ac_repo cfg) preset of
          None \<Rightarrow> Err (ErrorMsg (''preset not found: '' @
                    (case joinedFeature feat_preset db a of None \<Rightarrow> '''' | Some p \<Rightarrow> map toLowerAscii p)))
        | Some d \<Rightarrow>
            Ok (scanAccount cfg a
                  \<lparr>wft_Preset = Some (map toUpperAscii preset),
                   wft_AllowedNegativeBalance = orDefault (joinedFeature feat_negative_balance_allowed db a) (fc_NegativeBalanceAllowed d),
                   wft_BalanceRangeMin = orDefault (joinedFeature feat_balance_range_min db a) (ac_rangeMin cfg preset),
                   wft_BalanceRangeMax = orDefault (joinedFeature feat_balance_range_max db a) (fc_BalanceRangeMax d),
                   wft_NegativeBalanceLimit = orDefault (joinedFeature feat_negative_balance_limit db a) (fc_NegativeLimit d)\<rparr>)))"

section \<open>Features\<close>

record 'd CreateWalletIn =
  cw_AccountNumber :: string
  cw_Feature :: "'d WalletFeature"

definition storedFeature :: "'d FeatureRow \<Rightarrow> 'd WalletFeature" where
  "storedFeature f =
     \<lparr>wft_Preset = feat_preset f, wft_AllowedNegativeBalance = feat_negative_balance_allowed f,
      wft_BalanceRangeMin = feat_balance_range_min f, wft_BalanceRangeMax = feat_balance_range_max f,
      wft_NegativeBalanceLimit = feat_negative_balance_limit f\<rparr>"

definition orOld :: "'b option \<Rightarrow> 'b option \<Rightarrow> 'b option" where
  "orOld new old = (case new of None \<Rightarrow> old | Some y \<Rightarrow> Some y)"

definition overFeature :: "'d WalletFeature \<Rightarrow> 'd FeatureRow \<Rightarrow> 'd FeatureRow" where
  "overFeature f old =
     \<lparr>feat_preset = orOld (wft_Preset f) (feat_preset old),
      feat_negative_balance_allowed = orOld (wft_AllowedNegativeBalance f) (feat_negative_balance_allowed old),
      feat_balance_range_min = orOld (wft_BalanceRangeMin f) (feat_balance_range_min old),
      feat_negative_balance_limit = orOld (wft_NegativeBalanceLimit f) (feat_negative_balance_limit old),
      feat_balance_range_max = orOld (wft_BalanceRangeMax f) (feat_balance_range_max old)\<rparr>"

definition nullFeature :: "'d FeatureRow" where
  "nullFeature =
     \<lparr>feat_preset = None, feat_negative_balance_allowed = None, feat_balance_range_min = None,
      feat_negative_balance_limit = None, feat_balance_range_max = None\<rparr>"

text \<open>\<open>Register\<close>: a row of its own, or the given values over those of the row there is; the preset is always taken.\<close>

definition RegisterFeature :: "'d AccountsConfig \<Rightarrow> 'd CreateWalletIn \<Rightarrow> ('d AccountDB, 'd WalletFeature) exec" where
  "RegisterFeature cfg data db =
     (case ac_fault cfg InsertFeature of
        Some e \<Rightarrow> (Err e, db)
      | None \<Rightarrow>
          (let n = cw_AccountNumber data; f = cw_Feature data;
               old = (case adb_feature db n of None \<Rightarrow> nullFeature | Some r \<Rightarrow> r);
               row = (overFeature f old)\<lparr>feat_preset := wft_Preset f\<rparr>
           in (Ok (storedFeature row), db\<lparr>adb_feature := (adb_feature db)(n \<mapsto> row)\<rparr>)))"

text \<open>
  \<open>Update\<close>: only what is given, and nothing at all when nothing is; the answer dereferences the preset of the row.
\<close>

definition UpdateFeatureRow :: "'d AccountsConfig \<Rightarrow> string \<Rightarrow> 'd WalletFeature \<Rightarrow> ('d AccountDB, 'd WalletFeature option) exec" where
  "UpdateFeatureRow cfg n f db =
     (if f = noFeature then (Ok None, db)
      else case ac_fault cfg UpdateFeature of
        Some e \<Rightarrow> (Err e, db)
      | None \<Rightarrow>
          (case adb_feature db n of
             None \<Rightarrow> (Err (Sentinel ErrNoRows), db)
           | Some old \<Rightarrow>
               (let row = overFeature f old; db' = db\<lparr>adb_feature := (adb_feature db)(n \<mapsto> row)\<rparr>
                in case feat_preset row of
                     None \<Rightarrow> (Err Panic, db')
                   | Some p \<Rightarrow> (Ok (Some ((storedFeature row)\<lparr>wft_Preset := Some (map toUpperAscii p)\<rparr>)), db'))))"

section \<open>The services\<close>

text \<open>\<open>Create\<close>: whether an account is of high volume is read off its sub category.\<close>

definition AccountCreate :: "'d::zero AccountsConfig \<Rightarrow> 'd CreateAccount \<Rightarrow> ('d AccountDB, 'd CreateAccount) exec" where
  "AccountCreate cfg c db =
     (let c = c\<lparr>ca_IsHVT := ca_SubCategoryCode c \<in> set (ac_HVTSubCategoryCodes cfg)\<rparr>
      in case RepoAccountCreate cfg c db of
           (Inl e, db') \<Rightarrow> (Err (checkDatabaseError (ac_errorText cfg) e None), db')
         | (Inr _, db') \<Rightarrow> (Ok c, db'))"

definition AccountUpsert :: "'d::zero AccountsConfig \<Rightarrow> 'd CreateAccount \<Rightarrow> ('d AccountDB, unit) exec" where
  "AccountUpsert cfg c =
     RepoAccountUpsert cfg
       (c\<lparr>ca_Status := (if ca_Status c = '''' then ''active'' else ca_Status c),
          ca_IsHVT := ca_SubCategoryCode c \<in> set (ac_HVTSubCategoryCodes cfg)\<rparr>)"

definition AccountGetOne ::
  "'d::linordered_idom AccountsConfig \<Rightarrow> string \<Rightarrow> 'd AccountDB \<Rightarrow> 'd GetAccountOut result" where
  "AccountGetOne cfg n db =
     (case RepoGetOneByAccountNumber cfg n db of
        Inl e \<Rightarrow> Err (checkDatabaseError (ac_errorText cfg) e (Some ''accountNumberNotFound''))
      | Inr a \<Rightarrow> Ok a)"

definition AccountGetOneOrLegacy ::
  "'d::linordered_idom AccountsConfig \<Rightarrow> string \<Rightarrow> 'd AccountDB \<Rightarrow> 'd GetAccountOut result" where
  "AccountGetOneOrLegacy cfg n db =
     (case RepoGetOneByAccountNumberOrLegacyId cfg n db of
        Inl e \<Rightarrow> Err (checkDatabaseError (ac_errorText cfg) e (Some ''accountNumberNotFound''))
      | Inr a \<Rightarrow> Ok a)"

text \<open>\<open>errors.Is(sql.ErrNoRows, err)\<close>, with its arguments swapped, holds of the bare error only.\<close>

definition isBareNoRows :: "err \<Rightarrow> bool" where
  "isBareNoRows e = (e = Sentinel ErrNoRows)"

definition GetACuanAccountNumber :: "'d::linordered_idom AccountsConfig \<Rightarrow> string \<Rightarrow> 'd AccountDB \<Rightarrow> string result" where
  "GetACuanAccountNumber cfg n db =
     (let byNumber = rbind (RepoGetOneByAccountNumber cfg n db) (\<lambda>a. Ok (ga_AccountNumber a))
      in case RepoGetOneByLegacyId cfg n db of
           Inl e \<Rightarrow> if isBareNoRows e then byNumber else Err e
         | Inr a \<Rightarrow> Ok (acc_accountNumber a))"

text \<open>\<open>Update\<close>: the row and the features in one database transaction.\<close>

definition updateSteps :: "'d::linordered_idom AccountsConfig \<Rightarrow> 'd UpdateAccountIn \<Rightarrow> ('d AccountDB \<times> unit, 'd GetAccountOut) exec" where
  "updateSteps cfg data =
     bind (readDb (AccountGetOne cfg (ui_AccountNumber data))) (\<lambda>current.
     bind (wrapping ''unable to update account'' (onDb (RepoAccountUpdate cfg (ga_ID current) data))) (\<lambda>_.
     bind (wrapping ''unable to update feature'' (onDb (UpdateFeatureRow cfg (ui_AccountNumber data) (ui_Feature data)))) (\<lambda>feature.
       return (current\<lparr>ga_Features := feature, ga_IsHVT := ui_IsHVT data = Some True,
                       ga_Status := (if ui_Status data \<noteq> '''' then ui_Status data else ga_Status current)\<rparr>))))"

definition AccountUpdate :: "'d::linordered_idom AccountsConfig \<Rightarrow> 'd UpdateAccountIn \<Rightarrow> ('d AccountDB, 'd GetAccountOut) exec" where
  "AccountUpdate cfg data db =
     (case Atomic (ac_repo cfg) (updateSteps cfg data) (db, ()) of (r, s) \<Rightarrow> (r, fst s))"

definition AccountUpdateBySubCategory :: "'d AccountsConfig \<Rightarrow> UpdateAccountBySubCategoryIn \<Rightarrow> ('d AccountDB, unit) exec" where
  "AccountUpdateBySubCategory cfg data =
     wrapping (''unable to update account with sub category '' @ us_Code data) (RepoUpdateBySubCategory cfg data)"

text \<open>
  \<open>RemoveDuplicateAccountMigration\<close>: when the account has a legacy number under which another account is
  registered, that one is deleted.
\<close>

definition legacyNumber :: "AccountLegacyId \<Rightarrow> string option" where
  "legacyNumber l =
     (case l ''t24AccountNumber'' of
        Some (LegacyText s) \<Rightarrow> if s = '''' \<or> s = ''0'' then None else Some s
      | _ \<Rightarrow> None)"

definition RemoveDuplicateAccountMigration :: "'d::linordered_idom AccountsConfig \<Rightarrow> string \<Rightarrow> ('d AccountDB, unit) exec" where
  "RemoveDuplicateAccountMigration cfg n db =
     (case RepoGetOneByAccountNumber cfg n db of
        Inl e \<Rightarrow> if isBareNoRows e then (Ok (), db) else (Err (wrapErr (''unable to GetOneByAccountNumber accountNumber '' @ n) e), db)
      | Inr existing \<Rightarrow>
          if ga_ID existing \<le> 0 then (Ok (), db)
          else case legacyNumber (ga_LegacyId existing) of
            None \<Rightarrow> (Ok (), db)
          | Some legacy \<Rightarrow>
              (case RepoGetOneByAccountNumber cfg legacy db of
                 Inl e \<Rightarrow> if isBareNoRows e then (Ok (), db) else (Err (wrapErr (''unable to GetOneByAccountNumber legacyID '' @ legacy) e), db)
               | Inr other \<Rightarrow>
                   if ga_ID other \<le> 0 \<or> ga_ID existing = ga_ID other then (Ok (), db)
                   else wrapping (''unable to delete account by '' @ formatInt (ga_ID other)) (RepoAccountDelete cfg (ga_ID other)) db))"

definition AccountDelete :: "'d AccountsConfig \<Rightarrow> string \<Rightarrow> ('d AccountDB, unit) exec" where
  "AccountDelete = DeleteByAccountNumber"

text \<open>\<open>CreateAccountFeature\<close>; the preset pointer of the request is never nil.\<close>

definition CreateAccountFeature :: "'d AccountsConfig \<Rightarrow> 'd CreateWalletIn \<Rightarrow> ('d AccountDB, 'd WalletFeature) exec" where
  "CreateAccountFeature cfg data =
     (case wft_Preset (cw_Feature data) of
        None \<Rightarrow> fail Panic
      | Some p \<Rightarrow> failWhen (AccountFeatureConfig (ac_repo cfg) p = None) (Sentinel ErrInvalidPreset) (RegisterFeature cfg data))"

end
