(* ===== verification/AccountRequests.thy ===== *)
theory AccountRequests
  imports Accounts
begin

text \<open>
  What reaches the administration of accounts: the requests of \<open>internal/models/account_new.go\<close> and \<open>wallet.go\<close> with
  their checks, the handlers of \<open>internal/deliveries/http/v1/account\<close>, and the consumer of
  \<open>internal/deliveries/consumer/account_mutation\<close>.
\<close>

section \<open>Requests\<close>

record WalletFeatureReq =
  fr_Preset :: string
  fr_AllowedNegativeBalance :: "bool option"
  fr_BalanceRangeMin :: string
  fr_BalanceRangeMax :: string
  fr_NegativeBalanceLimit :: string

text \<open>The decimal library reads a text that is not empty.\<close>

definition NewDecimalFromString :: "(string \<Rightarrow> 'd result) \<Rightarrow> string \<Rightarrow> 'd option result" where
  "NewDecimalFromString parse s = (if s \<noteq> '''' then rbind (parse s) (\<lambda>a. Ok (Some a)) else Ok None)"

text \<open>A bound of the features, with what is wrong with it.\<close>

definition featureBound ::
  "(err \<Rightarrow> string) \<Rightarrow> (string \<Rightarrow> 'd::linordered_idom result) \<Rightarrow> string \<Rightarrow> string \<Rightarrow> 'd option \<times> err list" where
  "featureBound errorText parse field s =
     (if s = '''' then (None, [])
      else case NewDecimalFromString parse s of
             Inl e \<Rightarrow> (None, [ErrorMsg (''unable to parse '' @ field @ '': '' @ errorText e)])
           | Inr d \<Rightarrow>
               (d, if (case d of None \<Rightarrow> False | Some x \<Rightarrow> x < 0)
                   then [ErrorMsg (field @ '' must be greater or equal than 0'')] else []))"

text \<open>\<open>WalletFeatureReq.TransformAndValidate\<close>: the preset is a pointer to the text in lower case, also when it is empty.\<close>

definition FeatureTransformAndValidate ::
  "(err \<Rightarrow> string) \<Rightarrow> (string \<Rightarrow> 'd::linordered_idom result) \<Rightarrow> WalletFeatureReq \<Rightarrow> 'd WalletFeature result" where
  "FeatureTransformAndValidate errorText parse req =
     (let (rangeMin, e1) = featureBound errorText parse ''balanceRangeMin'' (fr_BalanceRangeMin req);
          (rangeMax, e2) = featureBound errorText parse ''balanceRangeMax'' (fr_BalanceRangeMax req);
          (limit, e3) = featureBound errorText parse ''negativeBalanceLimit'' (fr_NegativeBalanceLimit req)
      in if e1 @ e2 @ e3 \<noteq> [] then Err (MultiErr (e1 @ e2 @ e3))
         else Ok \<lparr>wft_Preset = Some (map toLowerAscii (fr_Preset req)),
                  wft_AllowedNegativeBalance = fr_AllowedNegativeBalance req, wft_BalanceRangeMin = rangeMin,
                  wft_BalanceRangeMax = rangeMax, wft_NegativeBalanceLimit = limit\<rparr>)"

record UpdateAccountRequest =
  ur_AccountNumber :: string
  ur_IsHVT :: "bool option"
  ur_Status :: string
  ur_Feature :: "WalletFeatureReq option"

definition accountStatuses :: "string list" where
  "accountStatuses = [''active'', ''inactive'', ''frozen'', ''closed'']"

definition UpdateTransformAndValidate ::
  "(err \<Rightarrow> string) \<Rightarrow> (string \<Rightarrow> 'd::linordered_idom result) \<Rightarrow> UpdateAccountRequest \<Rightarrow> 'd UpdateAccountIn result" where
  "UpdateTransformAndValidate errorText parse req =
     (if ur_Status req \<noteq> '''' \<and> ur_Status req \<notin> set accountStatuses
      then Err (ErrorMsg (''invalid status value: '' @ ur_Status req))
      else rbind (case ur_Feature req of None \<Rightarrow> Ok noFeature | Some f \<Rightarrow> FeatureTransformAndValidate errorText parse f) (\<lambda>feature.
        Ok \<lparr>ui_AccountNumber = ur_AccountNumber req, ui_IsHVT = ur_IsHVT req, ui_Status = ur_Status req,
            ui_Feature = feature\<rparr>))"

record CreateWalletReq =
  cq_AccountNumber :: string
  cq_Features :: WalletFeatureReq

text \<open>\<open>CreateWalletReq.TransformAndValidate\<close> only parses: a negative bound passes.\<close>

definition parsedBound :: "(err \<Rightarrow> string) \<Rightarrow> (string \<Rightarrow> 'd result) \<Rightarrow> string \<Rightarrow> string \<Rightarrow> 'd option \<times> err list" where
  "parsedBound errorText parse field s =
     (case NewDecimalFromString parse s of
        Inl e \<Rightarrow> (None, [ErrorMsg (''unable to parse '' @ field @ '': '' @ errorText e)])
      | Inr d \<Rightarrow> (d, []))"

definition WalletTransformAndValidate ::
  "(err \<Rightarrow> string) \<Rightarrow> (string \<Rightarrow> 'd result) \<Rightarrow> CreateWalletReq \<Rightarrow> 'd CreateWalletIn result" where
  "WalletTransformAndValidate errorText parse req =
     (let f = cq_Features req;
          (rangeMin, e1) = parsedBound errorText parse ''balanceRangeMin'' (fr_BalanceRangeMin f);
          (rangeMax, e2) = parsedBound errorText parse ''balanceRangeMax'' (fr_BalanceRangeMax f);
          (limit, e3) = parsedBound errorText parse ''negativeBalanceLimit'' (fr_NegativeBalanceLimit f)
      in if e1 @ e2 @ e3 \<noteq> [] then Err (MultiErr (e1 @ e2 @ e3))
         else Ok \<lparr>cw_AccountNumber = cq_AccountNumber req,
                  cw_Feature = \<lparr>wft_Preset = Some (map toLowerAscii (fr_Preset f)),
                    wft_AllowedNegativeBalance = fr_AllowedNegativeBalance f, wft_BalanceRangeMin = rangeMin,
                    wft_BalanceRangeMax = rangeMax, wft_NegativeBalanceLimit = limit\<rparr>\<rparr>)"

section \<open>Handlers\<close>

text \<open>An answer: a status with a content, or with an error.  The requests are bound and validated.\<close>

datatype (plugins only: code) 'm Reply = Reply int 'm | Failure int err

record 'd AccountApi =
  aa_cfg :: "'d AccountsConfig"
  aa_parseDecimal :: "string \<Rightarrow> 'd result"

definition notFoundOr500 :: "'d AccountApi \<Rightarrow> err \<Rightarrow> 'm Reply" where
  "notFoundOr500 api e = Failure (if stringsContains (ac_errorText (aa_cfg api) e) ''not found'' then 404 else 500) e"

record 'd GetAccountResponse =
  re_OwnerID :: string
  re_AccountNumber :: string
  re_AccountName :: string
  re_Currency :: string
  re_AvailableBalance :: string
  re_PendingBalance :: string
  re_ActualBalance :: string
  re_Status :: string
  re_Features :: "'d WalletFeature option"
  re_CreatedAt :: string
  re_UpdatedAt :: string

text \<open>The layout \<open>2006-01-02 15:04:05\<close>, in Jakarta.\<close>

definition FormatWithTime :: "int \<Rightarrow> string" where
  "FormatWithTime t =
     (let l = t + jakartaOffset
      in dateText (nat (l div nsPerDay)) @ '' '' @ clockText (nat (l mod nsPerDay) div 1000000000))"

definition AccountToModelResponse :: "('d \<Rightarrow> string) \<Rightarrow> 'd::linordered_idom GetAccountOut \<Rightarrow> 'd GetAccountResponse" where
  "AccountToModelResponse text a =
     \<lparr>re_OwnerID = ga_OwnerID a, re_AccountNumber = ga_AccountNumber a, re_AccountName = ga_AccountName a,
      re_Currency = ga_Currency a, re_AvailableBalance = text (Available (ga_Balance a)),
      re_PendingBalance = text (pendingBalance (ga_Balance a)), re_ActualBalance = text (actualBalance (ga_Balance a)),
      re_Status = ga_Status a, re_Features = ga_Features a, re_CreatedAt = FormatWithTime (ga_CreatedAt a),
      re_UpdatedAt = FormatWithTime (ga_UpdatedAt a)\<rparr>"

definition createAccount :: "'d::linordered_idom AccountApi \<Rightarrow> 'd CreateAccount \<Rightarrow> 'd AccountDB \<Rightarrow> 'd CreateAccount Reply \<times> 'd AccountDB" where
  "createAccount api req db =
     (case AccountCreate (aa_cfg api) req db of
        (Inl e, db') \<Rightarrow> (Failure 500 e, db')
      | (Inr c, db') \<Rightarrow> (Reply 201 c, db'))"

definition getOneAccount :: "'d::linordered_idom AccountApi \<Rightarrow> string \<Rightarrow> 'd AccountDB \<Rightarrow> 'd GetAccountResponse Reply" where
  "getOneAccount api n db =
     (case AccountGetOneOrLegacy (aa_cfg api) n db of
        Inl e \<Rightarrow> notFoundOr500 api e
      | Inr a \<Rightarrow> Reply 200 (AccountToModelResponse (decimalText (ac_repo (aa_cfg api))) a))"

definition updateOneAccount ::
  "'d::linordered_idom AccountApi \<Rightarrow> UpdateAccountRequest \<Rightarrow> 'd AccountDB \<Rightarrow> 'd GetAccountResponse Reply \<times> 'd AccountDB" where
  "updateOneAccount api req db =
     (case UpdateTransformAndValidate (ac_errorText (aa_cfg api)) (aa_parseDecimal api) req of
        Inl e \<Rightarrow> (Failure 422 e, db)
      | Inr data \<Rightarrow>
          (case AccountUpdate (aa_cfg api) data db of
             (Inl e, db') \<Rightarrow> (notFoundOr500 api e, db')
           | (Inr a, db') \<Rightarrow> (Reply 200 (AccountToModelResponse (decimalText (ac_repo (aa_cfg api))) a), db')))"

definition createAccountFeature ::
  "'d::linordered_idom AccountApi \<Rightarrow> CreateWalletReq \<Rightarrow> 'd AccountDB \<Rightarrow> 'd WalletFeature Reply \<times> 'd AccountDB" where
  "createAccountFeature api req db =
     (case WalletTransformAndValidate (ac_errorText (aa_cfg api)) (aa_parseDecimal api) req of
        Inl e \<Rightarrow> (Failure 400 e, db)
      | Inr data \<Rightarrow>
          (case CreateAccountFeature (aa_cfg api) data db of
             (Inl e, db') \<Rightarrow> (Failure 500 e, db')
           | (Inr f, db') \<Rightarrow> (Reply 201 f, db')))"

definition updateAccountBySubCategory ::
  "'d AccountApi \<Rightarrow> UpdateAccountBySubCategoryIn \<Rightarrow> 'd AccountDB \<Rightarrow> unit Reply \<times> 'd AccountDB" where
  "updateAccountBySubCategory api req db =
     (case AccountUpdateBySubCategory (aa_cfg api) req db of
        (Inl e, db') \<Rightarrow> (Failure 500 e, db')
      | (Inr u, db') \<Rightarrow> (Reply 200 u, db'))"

definition deleteAccount :: "'d AccountApi \<Rightarrow> string \<Rightarrow> 'd AccountDB \<Rightarrow> unit Reply \<times> 'd AccountDB" where
  "deleteAccount api n db =
     (case AccountDelete (aa_cfg api) n db of
        (Inl e, db') \<Rightarrow> (Failure (if errors_Is e ErrNoRowsAffected then 404 else 500) e, db')
      | (Inr u, db') \<Rightarrow> (Reply 204 u, db'))"

section \<open>The consumer of account mutations\<close>

text \<open>The metadata of a message is a JSON value of any kind; only an object is stored.\<close>

datatype (plugins only: code) 'd StreamMetadata = NoMetadata | MetadataObject "string \<rightharpoonup> 'd any" | MetadataOther string

record 'd AccountStream =
  as_Type :: string
  as_Account :: "'d CreateAccount"
  as_Metadata :: "'d StreamMetadata"

record 'd AccountMutationHandler =
  am_cfg :: "'d AccountsConfig"
  am_PreventSame :: bool
  am_unmarshal :: "string \<Rightarrow> 'd AccountStream result"
  am_dlqFault :: "string \<Rightarrow> err option"

text \<open>The fields that the message gives; the flag of high volume is not among them.\<close>

definition streamedAccount :: "'d AccountStream \<Rightarrow> 'd CreateAccount" where
  "streamedAccount m =
     (as_Account m)\<lparr>ca_IsHVT := False,
        ca_Metadata := (case as_Metadata m of MetadataObject o' \<Rightarrow> Some o' | _ \<Rightarrow> None)\<rparr>"

definition processMutation :: "'d::linordered_idom AccountMutationHandler \<Rightarrow> string \<Rightarrow> ('d AccountDB, unit) exec" where
  "processMutation h message =
     (let cfg = am_cfg h
      in case am_unmarshal h message of
           Inl e \<Rightarrow> fail (wrapErr ''error unmarshal json'' e)
         | Inr m \<Rightarrow>
             bind (if as_Type m = ''migration_database''
                   then wrapping ''unable to remove duplicate account'' (RemoveDuplicateAccountMigration cfg (ca_AccountNumber (as_Account m)))
                   else return ()) (\<lambda>_.
             if am_PreventSame h then
               (\<lambda>db. case AccountGetOne cfg (ca_AccountNumber (as_Account m)) db of
                  Inr a \<Rightarrow> (Err (ErrorMsg (''account is exist: '' @ formatInt (ga_ID a))), db)
                | Inl _ \<Rightarrow>
                    wrapping ''unable to insert account'' (bind (AccountCreate cfg (streamedAccount m)) (\<lambda>_. return ())) db)
             else wrapping ''unable to upsert account'' (AccountUpsert cfg (streamedAccount m))))"

record AccountBroker =
  bk_marked :: "string list"
  bk_dlq :: "(string \<times> err) list"

text \<open>One turn of the loop: a failed message goes to the dead letters, and every message is marked.\<close>

definition consumeMutation ::
  "'d::linordered_idom AccountMutationHandler \<Rightarrow> string \<Rightarrow> 'd AccountDB \<times> AccountBroker \<Rightarrow> 'd AccountDB \<times> AccountBroker" where
  "consumeMutation h message s =
     (case processMutation h message (fst s) of
        (Inr _, db) \<Rightarrow> (db, (snd s)\<lparr>bk_marked := bk_marked (snd s) @ [message]\<rparr>)
      | (Inl e, db) \<Rightarrow>
          (db, (snd s)\<lparr>bk_dlq := (if am_dlqFault h message = None then bk_dlq (snd s) @ [(message, e)] else bk_dlq (snd s)),
                      bk_marked := bk_marked (snd s) @ [message]\<rparr>))"

end
