(* ===== verification/AccountListing.thy ===== *)
theory AccountListing
  imports WalletListing AccountRequests
begin

text \<open>
  The list of accounts and their total balance: request, cursor and answers of \<open>internal/models/account_new.go\<close> and
  \<open>account.go\<close>, the queries of \<open>internal/repositories/sql_account_query.go\<close>, \<open>GetList\<close>, \<open>CountAll\<close> and
  \<open>GetTotalBalance\<close> of the repository and of the service, and their handlers.  The endpoint is a listing in the sense of
  \<open>Pagination\<close> as long as its sort column has no value twice; \<open>accounts_updated_together_are_skipped\<close> has what
  happens otherwise.
\<close>

section \<open>Requests\<close>

record AccountCursor =
  ax_Id :: int
  ax_UpdatedAt :: int
  ax_IsBackward :: bool

record AccountFilterOptions =
  af_Search :: string
  af_AccountNumber :: string
  af_AccountName :: string
  af_OwnerID :: string
  af_Limit :: int
  af_SortBy :: string
  af_Sort :: string
  af_Cursor :: "AccountCursor option"

record DoGetListAccountRequest =
  aq_Search :: string
  aq_AccountNumber :: string
  aq_AccountName :: string
  aq_OwnerID :: string
  aq_Limit :: int
  aq_SortBy :: string
  aq_Sort :: string
  aq_NextCursor :: string
  aq_PrevCursor :: string

text \<open>\<open>AccountCursor.Encode\<close> and its inverse; the driver reads times in a location \<open>zone\<close> minutes east of UTC.\<close>

definition AccountCursorEncode :: "int \<Rightarrow> AccountCursor \<Rightarrow> string" where
  "AccountCursorEncode zone c = EncodeToString (formatInt (ax_Id c) @ ''|'' @ FormatRFC3339Nano zone (ax_UpdatedAt c))"

definition decodeAccountCursor :: "string \<Rightarrow> AccountCursor result" where
  "decodeAccountCursor cursor =
     (case DecodeString stdAlphabet cursor of
        None \<Rightarrow> Err (ErrorMsg ''failed to parse offset string'')
      | Some decoded \<Rightarrow>
          (let splitCursor = splitAt (CHR ''|'') decoded
           in if length splitCursor \<noteq> 2 then Err (ErrorMsg ''failed to parse cursor: invalid format'')
              else case Atoi (splitCursor ! 0) of
                None \<Rightarrow> Err (ErrorMsg ''failed to parse offset id'')
              | Some n \<Rightarrow>
                  (case ParseRFC3339Nano (splitCursor ! 1) of
                     None \<Rightarrow> Err (ErrorMsg ''failed to parse offset time'')
                   | Some time \<Rightarrow> Ok \<lparr>ax_Id = n, ax_UpdatedAt = time, ax_IsBackward = False\<rparr>)))"

definition accountCursor :: "string \<Rightarrow> string \<Rightarrow> AccountCursor option result" where
  "accountCursor nextCur prevCur =
     (if nextCur \<noteq> '''' then rbind (decodeAccountCursor nextCur) (\<lambda>c. Ok (Some c))
      else if prevCur \<noteq> '''' then rbind (decodeAccountCursor prevCur) (\<lambda>c. Ok (Some (c\<lparr>ax_IsBackward := True\<rparr>)))
      else Ok None)"

definition DoGetListAccountToFilterOpts :: "DoGetListAccountRequest \<Rightarrow> AccountFilterOptions result" where
  "DoGetListAccountToFilterOpts req =
     (if aq_Limit req < 0 then Err (ErrorMsg ''limit must be greater than 0'')
      else rbind (accountCursor (aq_NextCursor req) (aq_PrevCursor req)) (\<lambda>cursor.
        Ok \<lparr>af_Search = aq_Search req, af_AccountNumber = aq_AccountNumber req, af_AccountName = aq_AccountName req,
            af_OwnerID = aq_OwnerID req, af_Limit = (if aq_Limit req = 0 then 10 else aq_Limit req) + 1,
            af_SortBy = (if aq_SortBy req = '''' then ''createdAt'' else aq_SortBy req),
            af_Sort = (if aq_Sort req = '''' then ''desc'' else aq_Sort req), af_Cursor = cursor\<rparr>))"

text \<open>The tags of the struct that the validator checks.\<close>

definition validListRequest :: "DoGetListAccountRequest \<Rightarrow> bool" where
  "validListRequest req =
     (aq_SortBy req \<in> {'''', ''lastUpdatedDate''} \<and> aq_Sort req \<in> {'''', ''asc'', ''desc''})"

section \<open>The queries\<close>

text \<open>
  The rows of the table \<open>account\<close> in the order in which a query reads them, which is also the order of rows with equal
  keys; the flag of the balances, the faults of the three queries, the estimate of the planner, and the error of a \<open>Scan\<close>
  of NULL, the sum of no rows, and the text of decimals.
\<close>

record 'd AccountListing =
  al_rows :: "'d StoredAccount list"
  al_config :: "'d AccountsConfig"
  al_zone :: int
  al_listFault :: "err option"
  al_sumFault :: "err option"
  al_estimate :: "int result"
  al_nullSum :: err
  al_text :: "'d \<Rightarrow> string"

text \<open>\<open>buildFilteredAccountQuery\<close>: an empty field filters nothing, and names are compared without case.\<close>

definition filteredAccount :: "AccountFilterOptions \<Rightarrow> 'd StoredAccount \<Rightarrow> bool" where
  "filteredAccount opts a =
     ((af_Search opts \<noteq> '''' \<longrightarrow> acc_accountNumber a = af_Search opts) \<and>
      (af_AccountNumber opts \<noteq> '''' \<longrightarrow> acc_accountNumber a = af_AccountNumber opts) \<and>
      (af_AccountName opts \<noteq> '''' \<longrightarrow> map toLowerAscii (acc_name a) = map toLowerAscii (af_AccountName opts)) \<and>
      (af_OwnerID opts \<noteq> '''' \<longrightarrow> acc_ownerId a = af_OwnerID opts))"

text \<open>
  \<open>buildListAccountQuery\<close>.  Two columns can be sorted by, both numbers here; the id stands for the creation.  A direction
  other than the two known ones is descending, and reversed it is the empty text, which the database takes for ascending.
\<close>

definition sortedByUpdate :: "AccountFilterOptions \<Rightarrow> bool" where
  "sortedByUpdate opts = (af_SortBy opts = ''updatedAt'' \<or> af_SortBy opts = ''lastUpdatedDate'')"

definition accountKey :: "AccountFilterOptions \<Rightarrow> 'd StoredAccount \<Rightarrow> int" where
  "accountKey opts a = (if sortedByUpdate opts then acc_updatedAt a else acc_id a)"

definition accountDescending :: "AccountFilterOptions \<Rightarrow> bool" where
  "accountDescending opts = (af_Sort opts \<noteq> ''asc'')"

definition accountPosition :: "AccountFilterOptions \<Rightarrow> int Position" where
  "accountPosition opts =
     (case af_Cursor opts of
        None \<Rightarrow> FirstPage
      | Some c \<Rightarrow>
          (if ax_IsBackward c then BeforeKey else AfterKey) (if sortedByUpdate opts then ax_UpdatedAt c else ax_Id c))"

definition listAccountQuery :: "AccountFilterOptions \<Rightarrow> 'd StoredAccount list \<Rightarrow> 'd StoredAccount list" where
  "listAccountQuery opts rows =
     selectPage (accountDescending opts) (accountKey opts) (filter (filteredAccount opts) rows) (accountPosition opts)
       (nat (af_Limit opts))"

definition noLegacyId :: AccountLegacyId where
  "noLegacyId = Map.empty"

text \<open>A scanned row has no entity, no features and no legacy id.\<close>

definition scanListed :: "'d::linordered_idom AccountsConfig \<Rightarrow> 'd StoredAccount \<Rightarrow> 'd GetAccountOut" where
  "scanListed cfg a =
     \<lparr>ga_ID = acc_id a, ga_AccountName = acc_name a, ga_AccountNumber = acc_accountNumber a, ga_OwnerID = acc_ownerId a,
      ga_Entity = '''', ga_Currency = acc_currency a, ga_Status = acc_status a,
      ga_Balance = NewBalance (acc_actualBalance a) (acc_pendingBalance a) [WithBalanceLimitEnabled (BalanceLimitToggle (ac_repo cfg))],
      ga_IsHVT = False, ga_CreatedAt = acc_createdAt a, ga_UpdatedAt = acc_updatedAt a, ga_LegacyId = noLegacyId,
      ga_Features = None\<rparr>"

definition RepoAccountGetList ::
  "'d::linordered_idom AccountListing \<Rightarrow> AccountFilterOptions \<Rightarrow> 'd GetAccountOut list result" where
  "RepoAccountGetList l opts =
     (case al_listFault l of
        Some e \<Rightarrow> Err e
      | None \<Rightarrow> Ok (map (scanListed (al_config l)) (listAccountQuery opts (al_rows l))))"

text \<open>\<open>CountAll\<close> ignores the filter: the estimate of the planner for the whole table.\<close>

definition RepoAccountCountAll :: "'d AccountListing \<Rightarrow> AccountFilterOptions \<Rightarrow> int result" where
  "RepoAccountCountAll l opts = al_estimate l"

definition AccountGetList ::
  "'d::linordered_idom AccountListing \<Rightarrow> AccountFilterOptions \<Rightarrow> ('d GetAccountOut list \<times> int) result" where
  "AccountGetList l opts =
     rbind (RepoAccountGetList l opts) (\<lambda>accounts.
       if accounts = [] then Ok (accounts, 0)
       else rbind (RepoAccountCountAll l opts) (\<lambda>n. Ok (accounts, n)))"

text \<open>\<open>buildTotalBalanceAccountQuery\<close> and \<open>GetTotalBalance\<close>: the sum over no rows is NULL, which cannot be scanned.\<close>

definition totalBalanceQuery :: "AccountFilterOptions \<Rightarrow> 'd::linordered_idom StoredAccount list \<Rightarrow> 'd option" where
  "totalBalanceQuery opts rows =
     (let rows = filter (filteredAccount opts) rows
      in if rows = [] then None
         else Some (sum_list (map acc_actualBalance rows) - sum_list (map acc_pendingBalance rows)))"

definition RepoGetTotalBalance :: "'d::linordered_idom AccountListing \<Rightarrow> AccountFilterOptions \<Rightarrow> 'd result" where
  "RepoGetTotalBalance l opts =
     (case al_sumFault l of
        Some e \<Rightarrow> Err e
      | None \<Rightarrow> (case totalBalanceQuery opts (al_rows l) of None \<Rightarrow> Err (al_nullSum l) | Some n \<Rightarrow> Ok n))"

definition AccountGetTotalBalance :: "'d::linordered_idom AccountListing \<Rightarrow> AccountFilterOptions \<Rightarrow> 'd result" where
  "AccountGetTotalBalance l opts = rbind (RepoGetTotalBalance l opts) (\<lambda>totalBalance. Ok totalBalance)"

section \<open>Answers\<close>

definition AccountOutGetCursor :: "int \<Rightarrow> 'd GetAccountOut \<Rightarrow> string" where
  "AccountOutGetCursor zone a =
     AccountCursorEncode zone \<lparr>ax_Id = ga_ID a, ax_UpdatedAt = ga_UpdatedAt a, ax_IsBackward = False\<rparr>"

definition getAllAccount ::
  "'d::linordered_idom AccountListing \<Rightarrow> DoGetListAccountRequest \<Rightarrow> PageQuery \<Rightarrow> 'd GetAccountResponse Answer" where
  "getAllAccount l req q =
     (if \<not> validListRequest req then Refused 422 (ErrorMsg ''validation failed'')
      else case DoGetListAccountToFilterOpts (req\<lparr>aq_NextCursor := nextCursor q, aq_PrevCursor := prevCursor q\<rparr>) of
        Inl e \<Rightarrow> Refused 400 e
      | Inr opts \<Rightarrow>
          (case AccountGetList l opts of
             Inl e \<Rightarrow> Refused 500 e
           | Inr (accounts, n) \<Rightarrow>
               Page (RestSuccessResponseCursorPagination q (AccountOutGetCursor (al_zone l))
                       (AccountToModelResponse (al_text l)) accounts (af_Limit opts) n)))"

definition getTotalBalance :: "'d::linordered_idom AccountListing \<Rightarrow> DoGetListAccountRequest \<Rightarrow> 'd Reply" where
  "getTotalBalance l req =
     (case DoGetListAccountToFilterOpts req of
        Inl e \<Rightarrow> Failure 400 e
      | Inr opts \<Rightarrow>
          (case AccountGetTotalBalance l opts of
             Inl e \<Rightarrow> Failure 500 e
           | Inr n \<Rightarrow> Reply 200 n))"

section \<open>Every account once\<close>

type_synonym 'd AccountListEnv = "'d AccountListing \<times> DoGetListAccountRequest"

definition firstAccountOpts :: "DoGetListAccountRequest \<Rightarrow> AccountFilterOptions" where
  "firstAccountOpts req =
     \<lparr>af_Search = aq_Search req, af_AccountNumber = aq_AccountNumber req, af_AccountName = aq_AccountName req,
      af_OwnerID = aq_OwnerID req, af_Limit = (if aq_Limit req = 0 then 10 else aq_Limit req) + 1,
      af_SortBy = (if aq_SortBy req = '''' then ''createdAt'' else aq_SortBy req),
      af_Sort = (if aq_Sort req = '''' then ''desc'' else aq_Sort req), af_Cursor = None\<rparr>"

definition listedAccounts :: "'d AccountListEnv \<Rightarrow> 'd StoredAccount list" where
  "listedAccounts e = filter (filteredAccount (firstAccountOpts (snd e))) (al_rows (fst e))"

text \<open>The queries answer, the request is valid, ids fit their column, and times are in the years that a cursor can print.\<close>

definition accountsAnswered :: "'d AccountListEnv \<Rightarrow> bool" where
  "accountsAnswered = (\<lambda>(l, req).
     al_listFault l = None \<and> isOk (al_estimate l) \<and> validListRequest req \<and> 0 \<le> aq_Limit req \<and>
     list_all (\<lambda>a. - (2 ^ 63) \<le> acc_id a \<and> acc_id a < 2 ^ 63 \<and> printable (al_zone l) (acc_updatedAt a)) (al_rows l))"

text \<open>Nothing in the schema makes the second sort column unique.\<close>

definition accountsListable :: "'d AccountListEnv \<Rightarrow> bool" where
  "accountsListable e \<longleftrightarrow>
     accountsAnswered e \<and> distinct (map (accountKey (firstAccountOpts (snd e))) (listedAccounts e))"

definition accountPageSize :: "'d AccountListEnv \<Rightarrow> nat" where
  "accountPageSize e = (let n = aq_Limit (snd e) in nat (if n = 0 then 10 else n))"

definition accountRowCursor :: "int \<Rightarrow> 'd StoredAccount \<Rightarrow> string" where
  "accountRowCursor zone a =
     AccountCursorEncode zone \<lparr>ax_Id = acc_id a, ax_UpdatedAt = acc_updatedAt a, ax_IsBackward = False\<rparr>"

definition shownAccount :: "'d::linordered_idom AccountListing \<Rightarrow> 'd StoredAccount \<Rightarrow> 'd GetAccountResponse" where
  "shownAccount l a = AccountToModelResponse (al_text l) (scanListed (al_config l) a)"

lemma accountPageSize_pos: "accountsAnswered e \<Longrightarrow> 0 < accountPageSize e"
  by (auto simp: accountPageSize_def accountsAnswered_def Let_def)

lemma decodeAccountCursor_rowCursor:
  assumes "- (2 ^ 63) \<le> acc_id a" and "acc_id a < 2 ^ 63" and "printable zone (acc_updatedAt a)"
  shows "decodeAccountCursor (accountRowCursor zone a) =
    Ok \<lparr>ax_Id = acc_id a, ax_UpdatedAt = acc_updatedAt a, ax_IsBackward = False\<rparr>"
  using splitAt_two [OF formatInt_plain [of "acc_id a"] FormatRFC3339Nano_plain(1) [of zone "acc_updatedAt a"]]
    Atoi_formatInt [OF assms(1,2)] ParseRFC3339Nano_Format [OF assms(3)]
  by (simp add: decodeAccountCursor_def accountRowCursor_def AccountCursorEncode_def)

lemma accountCursor_rowCursor:
  assumes "accountsAnswered e" and "a \<in> set (listedAccounts e)"
  shows "accountRowCursor (al_zone (fst e)) a \<noteq> ''''"
    and "accountCursor (accountRowCursor (al_zone (fst e)) a) '''' =
      Ok (Some \<lparr>ax_Id = acc_id a, ax_UpdatedAt = acc_updatedAt a, ax_IsBackward = False\<rparr>)"
    and "accountCursor '''' (accountRowCursor (al_zone (fst e)) a) =
      Ok (Some \<lparr>ax_Id = acc_id a, ax_UpdatedAt = acc_updatedAt a, ax_IsBackward = True\<rparr>)"
proof -
  have "- (2 ^ 63) \<le> acc_id a \<and> acc_id a < 2 ^ 63 \<and> printable (al_zone (fst e)) (acc_updatedAt a)"
    using assms by (auto simp: accountsAnswered_def listedAccounts_def list_all_iff split: prod.splits)
  note decodeAccountCursor_rowCursor [of a "al_zone (fst e)"]
  moreover show "accountRowCursor (al_zone (fst e)) a \<noteq> ''''"
    by (simp add: accountRowCursor_def AccountCursorEncode_def)
  ultimately show "accountCursor (accountRowCursor (al_zone (fst e)) a) '''' =
      Ok (Some \<lparr>ax_Id = acc_id a, ax_UpdatedAt = acc_updatedAt a, ax_IsBackward = False\<rparr>)"
    and "accountCursor '''' (accountRowCursor (al_zone (fst e)) a) =
      Ok (Some \<lparr>ax_Id = acc_id a, ax_UpdatedAt = acc_updatedAt a, ax_IsBackward = True\<rparr>)"
    using \<open>- (2 ^ 63) \<le> acc_id a \<and> _\<close> by (simp_all add: accountCursor_def)
qed

lemma accountFrame [simp]:
  "filteredAccount (opts\<lparr>af_Cursor := c\<rparr>) = filteredAccount opts" "accountKey (opts\<lparr>af_Cursor := c\<rparr>) = accountKey opts"
  "accountDescending (opts\<lparr>af_Cursor := c\<rparr>) = accountDescending opts"
  "sortedByUpdate (opts\<lparr>af_Cursor := c\<rparr>) = sortedByUpdate opts"
  by (auto simp: filteredAccount_def accountKey_def sortedByUpdate_def accountDescending_def fun_eq_iff)

text \<open>A page of the listing, in terms of the options of the first page.\<close>

lemma getAllAccount_select:
  assumes "accountsAnswered (l, req)" and "accountCursor (nextCursor q) (prevCursor q) = Ok cursor"
  defines "opts \<equiv> firstAccountOpts req"
  shows "\<exists>n. getAllAccount l req q = Page (RestSuccessResponseCursorPagination q (accountRowCursor (al_zone l)) (shownAccount l)
      (selectPage (accountDescending opts) (accountKey opts) (listedAccounts (l, req))
         (accountPosition (opts\<lparr>af_Cursor := cursor\<rparr>)) (accountPageSize (l, req) + 1)) (int (accountPageSize (l, req)) + 1) n)"
proof -
  obtain n where ok: "al_listFault l = None" "al_estimate l = Ok n" "validListRequest req" "0 \<le> aq_Limit req"
    using assms(1) by (auto simp: accountsAnswered_def isOk_iff)
  let ?rows = "listAccountQuery (opts\<lparr>af_Cursor := cursor\<rparr>) (al_rows l)"
  have size: "af_Limit opts = int (accountPageSize (l, req)) + 1"
    using ok(4) by (simp add: opts_def firstAccountOpts_def accountPageSize_def Let_def)
  have asked: "DoGetListAccountToFilterOpts (req\<lparr>aq_NextCursor := nextCursor q, aq_PrevCursor := prevCursor q\<rparr>) =
      Ok (opts\<lparr>af_Cursor := cursor\<rparr>)"
    using ok(4) assms(2) by (simp add: DoGetListAccountToFilterOpts_def opts_def firstAccountOpts_def)
  have query: "?rows = selectPage (accountDescending opts) (accountKey opts) (listedAccounts (l, req))
      (accountPosition (opts\<lparr>af_Cursor := cursor\<rparr>)) (accountPageSize (l, req) + 1)"
    using size by (simp add: listAccountQuery_def listedAccounts_def opts_def nat_add_distrib)
  have "\<exists>n. AccountGetList l (opts\<lparr>af_Cursor := cursor\<rparr>) = Ok (map (scanListed (al_config l)) ?rows, n)"
    using ok(1,2) by (auto simp: AccountGetList_def RepoAccountGetList_def RepoAccountCountAll_def)
  then obtain n where list: "AccountGetList l (opts\<lparr>af_Cursor := cursor\<rparr>) = Ok (map (scanListed (al_config l)) ?rows, n)" ..
  have "AccountOutGetCursor (al_zone l) \<circ> scanListed (al_config l) = accountRowCursor (al_zone l)"
    "AccountToModelResponse (al_text l) \<circ> scanListed (al_config l) = shownAccount l"
    by (simp_all add: fun_eq_iff AccountOutGetCursor_def scanListed_def accountRowCursor_def shownAccount_def)
  then show ?thesis
    unfolding query [symmetric] using ok(3)
    by (simp add: getAllAccount_def asked list response_map size) (rule exI, rule refl)
qed

lemma accountPosition_cursor:
  "accountPosition (opts\<lparr>af_Cursor := None\<rparr>) = FirstPage"
  "accountPosition (opts\<lparr>af_Cursor := Some \<lparr>ax_Id = acc_id a, ax_UpdatedAt = acc_updatedAt a, ax_IsBackward = b\<rparr>\<rparr>) =
    (if b then BeforeKey else AfterKey) (accountKey opts a)"
  by (simp_all add: accountPosition_def accountKey_def)

text \<open>The three kinds of pages, whether or not the sort column is unique.\<close>

lemma account_pages:
  assumes e: "accountsAnswered e" and a: "a \<in> set (listedAccounts e)"
  defines "answer q position n \<equiv> Page (RestSuccessResponseCursorPagination q (accountRowCursor (al_zone (fst e))) (shownAccount (fst e))
      (selectPage (accountDescending (firstAccountOpts (snd e))) (accountKey (firstAccountOpts (snd e))) (listedAccounts e)
         position (accountPageSize e + 1)) (int (accountPageSize e) + 1) n)"
  shows "q = \<lparr>nextCursor = accountRowCursor (al_zone (fst e)) a, prevCursor = ''''\<rparr> \<Longrightarrow>
      \<exists>n. getAllAccount (fst e) (snd e) q = answer q (AfterKey (accountKey (firstAccountOpts (snd e)) a)) n"
    and "q = \<lparr>nextCursor = '''', prevCursor = accountRowCursor (al_zone (fst e)) a\<rparr> \<Longrightarrow>
      \<exists>n. getAllAccount (fst e) (snd e) q = answer q (BeforeKey (accountKey (firstAccountOpts (snd e)) a)) n"
  using getAllAccount_select [of "fst e" "snd e" q] e accountCursor_rowCursor [OF e a]
  by (simp_all add: answer_def accountPosition_cursor)

lemma first_account_page:
  assumes "accountsAnswered e" and "q = \<lparr>nextCursor = '''', prevCursor = ''''\<rparr>"
  shows "\<exists>n. getAllAccount (fst e) (snd e) q = Page (RestSuccessResponseCursorPagination q (accountRowCursor (al_zone (fst e)))
      (shownAccount (fst e)) (selectPage (accountDescending (firstAccountOpts (snd e))) (accountKey (firstAccountOpts (snd e)))
        (listedAccounts e) FirstPage (accountPageSize e + 1)) (int (accountPageSize e) + 1) n)"
  using getAllAccount_select [of "fst e" "snd e" q None] assms by (simp add: accountCursor_def accountPosition_cursor)

interpretation account_list: cursor_listing
  "\<lambda>e. getAllAccount (fst e) (snd e) :: PageQuery \<Rightarrow> 'd::linordered_idom GetAccountResponse Answer"
  accountsListable listedAccounts "\<lambda>e. accountDescending (firstAccountOpts (snd e))"
  "\<lambda>e. accountKey (firstAccountOpts (snd e))" accountPageSize "\<lambda>e. accountRowCursor (al_zone (fst e))" "\<lambda>e. shownAccount (fst e)"
proof
  fix e :: "'d AccountListEnv" and a :: "'d StoredAccount" and q :: PageQuery
  let ?page = "\<lambda>position n. Page (RestSuccessResponseCursorPagination q (accountRowCursor (al_zone (fst e))) (shownAccount (fst e))
      (selectPage (accountDescending (firstAccountOpts (snd e))) (accountKey (firstAccountOpts (snd e))) (listedAccounts e)
        position (accountPageSize e + 1)) (int (accountPageSize e) + 1) n)"
  assume "accountsListable e"
  then have e: "accountsAnswered e" "distinct (map (accountKey (firstAccountOpts (snd e))) (listedAccounts e))"
    by (simp_all add: accountsListable_def)
  show "0 < accountPageSize e" "distinct (map (accountKey (firstAccountOpts (snd e))) (listedAccounts e))"
    using e by (simp_all add: accountPageSize_pos)
  {
    assume "q = \<lparr>nextCursor = '''', prevCursor = ''''\<rparr>"
    then show "\<exists>n. getAllAccount (fst e) (snd e) q = ?page FirstPage n"
      by (rule first_account_page [OF e(1)])
  next
    assume a: "a \<in> set (listedAccounts e)"
    show "accountRowCursor (al_zone (fst e)) a \<noteq> ''''"
      by (rule accountCursor_rowCursor [OF e(1) a])
    {
      assume "q = \<lparr>nextCursor = accountRowCursor (al_zone (fst e)) a, prevCursor = ''''\<rparr>"
      then show "\<exists>n. getAllAccount (fst e) (snd e) q = ?page (AfterKey (accountKey (firstAccountOpts (snd e)) a)) n"
        by (rule account_pages(1) [OF e(1) a])
    next
      assume "q = \<lparr>nextCursor = '''', prevCursor = accountRowCursor (al_zone (fst e)) a\<rparr>"
      then show "\<exists>n. getAllAccount (fst e) (snd e) q = ?page (BeforeKey (accountKey (firstAccountOpts (snd e)) a)) n"
        by (rule account_pages(2) [OF e(1) a])
    }
  }
qed

text \<open>
  Rows that all have the same value in the sort column: the cursor of any of them selects nothing, so that the list is one
  page and an empty one.
\<close>

lemma equal_keys_end_early:
  assumes e: "accountsAnswered (l, req)" and equal: "\<forall>a\<in>set (listedAccounts (l, req)). accountKey (firstAccountOpts req) a = k"
    and over: "accountPageSize (l, req) < length (listedAccounts (l, req))"
  shows "followNext (Suc (Suc n)) (getAllAccount l req) '''' =
    Some [map (shownAccount l) (take (accountPageSize (l, req))
      (orderBy (accountDescending (firstAccountOpts req)) (accountKey (firstAccountOpts req)) (listedAccounts (l, req)))), []]"
proof -
  let ?m = "accountPageSize (l, req)"
  let ?xs = "orderBy (accountDescending (firstAccountOpts req)) (accountKey (firstAccountOpts req)) (listedAccounts (l, req))"
  have m: "0 < ?m" by (rule accountPageSize_pos [OF e])
  have forward: "\<not> isBackward \<lparr>nextCursor = c, prevCursor = ''''\<rparr>" for c
    by (simp add: isBackward_def)
  have empty: "orderBy d f [] = []" for d and f :: "'a StoredAccount \<Rightarrow> int"
    by (simp add: orderBy_def)
  have over: "?m < length ?xs" using over by simp
  define a where "a = ?xs ! (?m - 1)"
  have "a \<in> set ?xs" unfolding a_def using over by (intro nth_mem) simp
  then have a: "a \<in> set (listedAccounts (l, req))" by simp
  from first_account_page [OF e refl] obtain p where
    "getAllAccount l req \<lparr>nextCursor = '''', prevCursor = ''''\<rparr> = Page p"
    "rp_Contents p = map (shownAccount l) (take ?m ?xs)" "pg_Next (rp_Pagination p) = accountRowCursor (al_zone l) a"
    using over by (simp only: selectPage.simps fst_conv snd_conv forward_response [OF m forward])
      (auto simp: a_def)
  moreover have "filter (\<lambda>r. precedes d (accountKey (firstAccountOpts req) a) (accountKey (firstAccountOpts req) r))
      (listedAccounts (l, req)) = []" for d
    using equal a by (auto simp: filter_empty_conv)
  with account_pages(1) [OF e a refl] obtain p2 where
    "getAllAccount l req \<lparr>nextCursor = accountRowCursor (al_zone l) a, prevCursor = ''''\<rparr> = Page p2"
    "rp_Contents p2 = []" "pg_Next (rp_Pagination p2) = ''''"
    using empty by (auto simp: forward_response [OF m forward, where xs = "[]", simplified])
  ultimately show ?thesis
    using accountCursor_rowCursor(1) [OF e a] by simp
qed

end
