(* ===== verification/AccountProperties.thy ===== *)
theory AccountProperties
  imports AccountRequests Scenario
begin

text \<open>
  What the administration of accounts does to money: over any history of its calls, whatever fails, no account gains or
  loses anything; only a deletion takes an account away with what is on it, and a new account is empty.  And where it
  goes wrong: an update of the features erases the preset, and a migration deletes an account with its balance.
\<close>

section \<open>Funds\<close>

definition fundsAt :: "'d AccountDB \<Rightarrow> string \<Rightarrow> ('d \<times> 'd) option" where
  "fundsAt db n =
     map_option (\<lambda>a. (acc_actualBalance a, acc_pendingBalance a)) (find (\<lambda>a. acc_accountNumber a = n) (adb_account db))"

lemma fundsOf_balanceTables: "fundsOf (balanceTables db) = fundsAt db"
proof
  fix n
  have "find (\<lambda>r. row_accountNumber r = n) (map balanceRow rows) = map_option balanceRow (find (\<lambda>a. acc_accountNumber a = n) rows)"
    for rows :: "'a StoredAccount list"
    by (induction rows) (auto simp: balanceRow_def)
  then show "fundsOf (balanceTables db) n = fundsAt db n"
    by (simp add: fundsOf_def fundsAt_def balanceTables_def option.map_comp comp_def balanceRow_def)
qed

definition numbers :: "'d AccountDB \<Rightarrow> string list" where
  "numbers db = map acc_accountNumber (adb_account db)"

text \<open>
  A change that keeps funds: numbers stay unique, what is there afterwards was there before or is empty, and unless
  the change may remove accounts, what was there is there.
\<close>

definition keepsFunds :: "bool \<Rightarrow> 'd::zero AccountDB \<Rightarrow> 'd AccountDB \<Rightarrow> bool" where
  "keepsFunds removes db db' \<longleftrightarrow>
     (distinct (numbers db) \<longrightarrow>
        distinct (numbers db') \<and>
        (\<forall>n f. fundsAt db' n = Some f \<longrightarrow> f = (0, 0) \<or> fundsAt db n = Some f) \<and>
        (\<not> removes \<longrightarrow> (\<forall>n f. fundsAt db n = Some f \<longrightarrow> fundsAt db' n = Some f)))"

lemma keeps_refl [simp, intro]: "keepsFunds r db db"
  by (simp add: keepsFunds_def)

lemma keeps_trans: "keepsFunds r db db' \<Longrightarrow> keepsFunds r' db' db'' \<Longrightarrow> keepsFunds (r \<or> r') db db''"
  unfolding keepsFunds_def by blast

lemma keeps_removes: "keepsFunds False db db' \<Longrightarrow> keepsFunds r db db'"
  unfolding keepsFunds_def by blast

lemma keeps_cong: "adb_account db' = adb_account db \<Longrightarrow> keepsFunds r db db'"
  by (simp add: keepsFunds_def numbers_def fundsAt_def)

lemma fundsAt_mapAccounts:
  assumes "\<And>a. acc_accountNumber (f a) = acc_accountNumber a" and "\<And>a. acc_actualBalance (f a) = acc_actualBalance a"
    and "\<And>a. acc_pendingBalance (f a) = acc_pendingBalance a"
  shows "fundsAt (mapAccounts P f db) n = fundsAt db n" and "numbers (mapAccounts P f db) = numbers db"
proof -
  have "map_option (\<lambda>a. (acc_actualBalance a, acc_pendingBalance a)) (find (\<lambda>a. acc_accountNumber a = n) (map (\<lambda>a. if P a then f a else a) rows)) =
      map_option (\<lambda>a. (acc_actualBalance a, acc_pendingBalance a)) (find (\<lambda>a. acc_accountNumber a = n) rows)" for rows
    by (induction rows) (auto simp: assms)
  then show "fundsAt (mapAccounts P f db) n = fundsAt db n"
    by (simp add: fundsAt_def mapAccounts_def)
  show "numbers (mapAccounts P f db) = numbers db"
    by (simp add: numbers_def mapAccounts_def assms(1) comp_def if_distrib cong: if_cong)
qed

lemma keeps_mapAccounts:
  assumes "\<And>a. acc_accountNumber (f a) = acc_accountNumber a" and "\<And>a. acc_actualBalance (f a) = acc_actualBalance a"
    and "\<And>a. acc_pendingBalance (f a) = acc_pendingBalance a"
  shows "keepsFunds r db (mapAccounts P f db)"
  using fundsAt_mapAccounts [of f, OF assms] by (simp add: keepsFunds_def)

lemma find_insort:
  "find P (insort_key k x xs) = (if P x then (case find P (takeWhile (\<lambda>y. k y < k x) xs) of None \<Rightarrow> Some x | Some y \<Rightarrow> Some y)
     else find P xs)" if "\<forall>y\<in>set xs. k y \<noteq> k x"
  using that by (induction xs) (auto split: option.splits simp: find_None_iff)

lemma find_inserted:
  assumes "\<not> accountExists db (acc_accountNumber a)"
  shows "find (\<lambda>b. acc_accountNumber b = n) (insort_key acc_accountNumber a (adb_account db)) =
      (if n = acc_accountNumber a then Some a else find (\<lambda>b. acc_accountNumber b = n) (adb_account db))"
proof -
  have fresh: "\<forall>b\<in>set (adb_account db). acc_accountNumber b \<noteq> acc_accountNumber a"
    using assms by (auto simp: accountExists_def list_ex_iff)
  show ?thesis
  proof (cases "n = acc_accountNumber a")
    case True
    have "find (\<lambda>b. acc_accountNumber b = n) (takeWhile (\<lambda>y. acc_accountNumber y < acc_accountNumber a) (adb_account db)) = None"
      using fresh True by (auto simp: find_None_iff dest: set_takeWhileD)
    then show ?thesis
      unfolding find_insort [OF fresh] using True by simp
  next
    case False
    then show ?thesis unfolding find_insort [OF fresh] by simp
  qed
qed

lemma keeps_insert:
  assumes new: "\<not> accountExists db (acc_accountNumber a)" and "acc_actualBalance a = 0" and "acc_pendingBalance a = 0"
  shows "keepsFunds r db (db\<lparr>adb_account := insort_key acc_accountNumber a (adb_account db), adb_nextId := i\<rparr>)"
proof -
  have fresh: "\<forall>b\<in>set (adb_account db). acc_accountNumber b \<noteq> acc_accountNumber a"
    using new by (auto simp: accountExists_def list_ex_iff)
  then have "find (\<lambda>b. acc_accountNumber b = acc_accountNumber a) (adb_account db) = None"
    by (auto simp: find_None_iff)
  moreover have "distinct (numbers db) \<Longrightarrow>
      distinct (map acc_accountNumber (insort_key acc_accountNumber a (adb_account db)))"
    using fresh by (auto simp: numbers_def distinct_map distinct_insort set_insort_key inj_on_def)
  ultimately show ?thesis
    using assms(2,3) by (auto simp: keepsFunds_def fundsAt_def numbers_def find_inserted [OF new])
qed

lemma keeps_filter: "keepsFunds True db (db\<lparr>adb_account := filter P (adb_account db)\<rparr>)"
proof -
  have found: "find (\<lambda>a. acc_accountNumber a = n) (filter P rows) = Some a \<Longrightarrow> distinct (map acc_accountNumber rows) \<Longrightarrow>
      find (\<lambda>a. acc_accountNumber a = n) rows = Some a" for rows :: "'a StoredAccount list" and n a
  proof (induction rows)
    case (Cons b rows)
    show ?case
    proof (cases "acc_accountNumber b = n \<and> \<not> P b")
      case True
      with Cons.prems have "find (\<lambda>a. acc_accountNumber a = n) rows = Some a" using Cons.IH by auto
      then have "a \<in> set rows" and "acc_accountNumber a = n" by (auto simp: find_Some_iff)
      with True Cons.prems(2) show ?thesis by auto
    next
      case False
      with Cons show ?thesis by (auto split: if_splits)
    qed
  qed simp
  show ?thesis
    by (auto simp: keepsFunds_def fundsAt_def numbers_def distinct_map_filter dest: found)
qed

section \<open>Calls\<close>

text \<open>A step that keeps funds however it ends; the tables are the state, or a part of it.\<close>

definition keeping :: "('s \<Rightarrow> 'd::zero AccountDB) \<Rightarrow> bool \<Rightarrow> ('s, 'a) exec \<Rightarrow> bool" where
  "keeping tables r m \<longleftrightarrow> (\<forall>s. keepsFunds r (tables s) (tables (snd (m s))))"

lemma keepingI: "(\<And>s. keepsFunds r (tables s) (tables (snd (m s)))) \<Longrightarrow> keeping tables r m"
  by (simp add: keeping_def)

lemma keepingD: "keeping tables r m \<Longrightarrow> m s = (res, s') \<Longrightarrow> keepsFunds r (tables s) (tables s')"
  unfolding keeping_def by (metis snd_conv)

lemma keeping_basic: "keeping tables r (return x)" "keeping tables r (fail e)" "keeping fst r (readDb f)"
  by (simp_all add: keeping_def exec_simps readDb_def)

lemma keeping_bind:
  assumes "keeping tables r m" and "\<And>x. keeping tables r (f x)"
  shows "keeping tables r (bind m f)"
proof (rule keepingI)
  fix s
  obtain res s' where step: "m s = (res, s')" by (cases "m s")
  note first = keepingD [OF assms(1) step]
  show "keepsFunds r (tables s) (tables (snd (bind m f s)))"
  proof (cases res)
    case (Inr x)
    obtain res' s'' where "f x s' = (res', s'')" by (cases "f x s'")
    with keeps_trans [OF first keepingD [OF assms(2) this]] Inr show ?thesis by (simp add: bind_def step)
  qed (use first in \<open>simp add: bind_def step\<close>)
qed

lemma keeping_wrapping: "keeping tables r m \<Longrightarrow> keeping tables r (wrapping msg m)"
  by (auto simp: wrapping_def intro!: keepingI dest: keepingD split: prod.splits sum.splits)

lemma keeping_onDb: "keeping (\<lambda>s. s) r m \<Longrightarrow> keeping fst r (onDb m)"
  by (auto simp: onDb_def intro!: keepingI dest: keepingD split: prod.splits)

lemma keeping_removes: "keeping tables False m \<Longrightarrow> keeping tables r m"
  by (simp add: keeping_def keeps_removes)

lemmas keeping_rules = keeping_basic keeping_bind keeping_wrapping keeping_onDb

text \<open>The statements.\<close>

lemma setColumns_keeps [simp]:
  "acc_accountNumber (setColumns t c a) = acc_accountNumber a" "acc_actualBalance (setColumns t c a) = acc_actualBalance a"
  "acc_pendingBalance (setColumns t c a) = acc_pendingBalance a"
  by (simp_all add: setColumns_def)

lemma newAccount_simps [simp]:
  "acc_accountNumber (newAccount i t c) = ca_AccountNumber c" "acc_actualBalance (newAccount i t c) = 0"
  "acc_pendingBalance (newAccount i t c) = 0"
  by (simp_all add: newAccount_def)

lemma keeps_nextId: "keepsFunds r db (db'\<lparr>adb_nextId := i\<rparr>)" if "keepsFunds r db db'"
proof -
  from keeps_trans [OF that keeps_cong [of "db'\<lparr>adb_nextId := i\<rparr>" db' r]] show ?thesis by simp
qed

lemma keeping_statements:
  "keeping (\<lambda>s. s) r (RepoAccountCreate cfg c)" "keeping (\<lambda>s. s) r (RepoAccountUpsert cfg c)"
  "keeping (\<lambda>s. s) r (RepoAccountUpdate cfg i u)" "keeping (\<lambda>s. s) r (RepoUpdateBySubCategory cfg sub)"
  "keeping (\<lambda>s. s) True (deleteAccounts cfg P)" "keeping (\<lambda>s. s) r (RegisterFeature cfg w)"
  "keeping (\<lambda>s. s) r (UpdateFeatureRow cfg n f)"
proof -
  show "keeping (\<lambda>s. s) r (RepoAccountCreate cfg c)"
    by (rule keepingI) (auto simp: RepoAccountCreate_def intro: keeps_insert keeps_cong split: option.splits)
  show "keeping (\<lambda>s. s) r (RepoAccountUpsert cfg c)"
    by (rule keepingI)
      (simp add: RepoAccountUpsert_def keeps_insert keeps_nextId keeps_mapAccounts split: option.splits)
  show "keeping (\<lambda>s. s) r (RepoAccountUpdate cfg i u)"
    by (rule keepingI) (auto simp: RepoAccountUpdate_def intro: keeps_mapAccounts split: option.splits)
  show "keeping (\<lambda>s. s) r (RepoUpdateBySubCategory cfg sub)"
    by (rule keepingI) (auto simp: RepoUpdateBySubCategory_def intro!: keeps_mapAccounts split: option.splits)
  show "keeping (\<lambda>s. s) True (deleteAccounts cfg P)"
    by (rule keepingI) (auto simp: deleteAccounts_def intro: keeps_filter split: option.splits)
  show "keeping (\<lambda>s. s) r (RegisterFeature cfg w)"
    by (rule keepingI) (auto simp: RegisterFeature_def Let_def intro: keeps_cong split: option.splits)
  show "keeping (\<lambda>s. s) r (UpdateFeatureRow cfg n f)"
    by (rule keepingI) (auto simp: UpdateFeatureRow_def Let_def intro: keeps_cong split: option.splits)
qed

text \<open>The services.\<close>

lemma keeping_AccountCreate: "keeping (\<lambda>s. s) r (AccountCreate cfg c)"
  by (rule keepingI)
    (auto simp: AccountCreate_def Let_def dest: keepingD [OF keeping_statements(1)] split: prod.splits sum.splits)

lemma keeping_AccountUpsert: "keeping (\<lambda>s. s) r (AccountUpsert cfg c)"
  unfolding AccountUpsert_def by (rule keeping_statements)

lemma keeping_AccountUpdate: "keeping (\<lambda>s. s) r (AccountUpdate cfg u)"
proof (rule keepingI)
  fix db
  have steps: "keeping fst r (updateSteps cfg u)"
    unfolding updateSteps_def by (intro keeping_rules keeping_statements)
  show "keepsFunds r db (snd (AccountUpdate cfg u db))"
    using keepingD [OF steps, of "(db, ())"]
    by (auto simp: AccountUpdate_def Atomic_def split: option.splits prod.splits sum.splits err.splits)
qed

lemma keeping_AccountUpdateBySubCategory: "keeping (\<lambda>s. s) r (AccountUpdateBySubCategory cfg sub)"
  unfolding AccountUpdateBySubCategory_def by (intro keeping_rules keeping_statements)

lemma keeping_RemoveDuplicate: "keeping (\<lambda>s. s) True (RemoveDuplicateAccountMigration cfg n)"
proof -
  have "keeping (\<lambda>s. s) True (wrapping msg (RepoAccountDelete cfg i))" for msg i
    unfolding RepoAccountDelete_def by (intro keeping_rules keeping_statements)
  then show ?thesis
    by (intro keepingI) (auto simp: RemoveDuplicateAccountMigration_def keeping_def split: sum.splits option.splits)
qed

lemma keeping_CreateAccountFeature: "keeping (\<lambda>s. s) r (CreateAccountFeature cfg w)"
  by (auto simp: CreateAccountFeature_def failWhen_def intro: keeping_rules keeping_statements split: option.splits)

text \<open>A message of the migration may remove an account; no other does.\<close>

lemma keeping_processMutation:
  "keeping (\<lambda>s. s) (\<exists>m. am_unmarshal h message = Ok m \<and> as_Type m = ''migration_database'') (processMutation h message)"
proof (cases "am_unmarshal h message")
  case (Inl e)
  then show ?thesis by (simp add: processMutation_def keeping_rules)
next
  case (Inr m)
  have "keeping (\<lambda>s. s) r (\<lambda>db. case AccountGetOne (am_cfg h) n db of
      Inr a \<Rightarrow> (Err (f a), db) | Inl _ \<Rightarrow> wrapping msg (bind (AccountCreate (am_cfg h) c) (\<lambda>_. return ())) db)" for r n f msg c
  proof (rule keepingI)
    have "keeping (\<lambda>s. s) r (wrapping msg (bind (AccountCreate (am_cfg h) c) (\<lambda>_. return ())))"
      by (intro keeping_rules keeping_AccountCreate)
    then show "keepsFunds r db (snd (case AccountGetOne (am_cfg h) n db of
        Inr a \<Rightarrow> (Err (f a), db) | Inl _ \<Rightarrow> wrapping msg (bind (AccountCreate (am_cfg h) c) (\<lambda>_. return ())) db))" for db
      by (auto simp: keeping_def split: sum.splits)
  qed
  with Inr show ?thesis
    by (auto simp: processMutation_def Let_def intro!: keeping_rules keeping_RemoveDuplicate keeping_AccountUpsert)
qed

section \<open>Histories\<close>

text \<open>The calls of the API and the messages of the consumer, each with the configuration and the faults it meets.\<close>

datatype (plugins only: code) 'd adminCall =
    CallCreate "'d AccountApi" "'d CreateAccount"
  | CallUpdate "'d AccountApi" UpdateAccountRequest
  | CallSubCategory "'d AccountApi" UpdateAccountBySubCategoryIn
  | CallFeature "'d AccountApi" CreateWalletReq
  | CallDelete "'d AccountApi" string
  | CallMessage "'d AccountMutationHandler" string

fun admin :: "'d::linordered_idom adminCall \<Rightarrow> 'd AccountDB \<times> AccountBroker \<Rightarrow> 'd AccountDB \<times> AccountBroker" where
  "admin (CallCreate api req) s = (snd (createAccount api req (fst s)), snd s)"
| "admin (CallUpdate api req) s = (snd (updateOneAccount api req (fst s)), snd s)"
| "admin (CallSubCategory api req) s = (snd (updateAccountBySubCategory api req (fst s)), snd s)"
| "admin (CallFeature api req) s = (snd (createAccountFeature api req (fst s)), snd s)"
| "admin (CallDelete api n) s = (snd (deleteAccount api n (fst s)), snd s)"
| "admin (CallMessage h message) s = consumeMutation h message s"

fun mayRemove :: "'d adminCall \<Rightarrow> bool" where
  "mayRemove (CallDelete api n) = True"
| "mayRemove (CallMessage h message) =
     (case am_unmarshal h message of Inr m \<Rightarrow> as_Type m = ''migration_database'' | Inl e \<Rightarrow> False)"
| "mayRemove c = False"

lemma keeps_admin: "keepsFunds (mayRemove c) (fst s) (fst (admin c s))"
proof (cases c)
  case (CallCreate api req)
  then show ?thesis
    by (auto simp: createAccount_def dest: keepingD [OF keeping_AccountCreate] split: prod.splits sum.splits)
next
  case (CallUpdate api req)
  then show ?thesis
    by (auto simp: updateOneAccount_def dest: keepingD [OF keeping_AccountUpdate] split: prod.splits sum.splits)
next
  case (CallSubCategory api req)
  then show ?thesis
    by (auto simp: updateAccountBySubCategory_def dest: keepingD [OF keeping_AccountUpdateBySubCategory] split: prod.splits sum.splits)
next
  case (CallFeature api req)
  then show ?thesis
    by (auto simp: createAccountFeature_def dest: keepingD [OF keeping_CreateAccountFeature] split: prod.splits sum.splits)
next
  case (CallDelete api n)
  have "keeping (\<lambda>s. s) True (AccountDelete (aa_cfg api) n)"
    unfolding AccountDelete_def DeleteByAccountNumber_def by (rule keeping_statements)
  with CallDelete show ?thesis
    by (auto simp: deleteAccount_def dest: keepingD split: prod.splits sum.splits)
next
  case (CallMessage h message)
  have "mayRemove c = (\<exists>m. am_unmarshal h message = Ok m \<and> as_Type m = ''migration_database'')"
    by (auto simp: CallMessage split: sum.splits)
  then have "keeping (\<lambda>s. s) (mayRemove c) (processMutation h message)"
    using keeping_processMutation [of h message] by simp
  then show ?thesis
    by (auto simp: CallMessage consumeMutation_def simp del: mayRemove.simps dest: keepingD split: prod.splits sum.splits)
qed

definition administer :: "'d::linordered_idom adminCall list \<Rightarrow> 'd AccountDB \<times> AccountBroker \<Rightarrow> 'd AccountDB \<times> AccountBroker" where
  "administer cs s = foldl (\<lambda>s c. admin c s) s cs"

lemma keeps_administer: "keepsFunds (list_ex mayRemove cs) (fst s) (fst (administer cs s))"
proof (induction cs arbitrary: s)
  case (Cons c cs)
  have "keepsFunds (mayRemove c \<or> list_ex mayRemove cs) (fst s) (fst (administer cs (admin c s)))"
    by (rule keeps_trans [OF keeps_admin Cons.IH])
  then show ?case by (simp add: administer_def)
qed (simp add: administer_def)

text \<open>
  C7: Over any history of calls of the account administration and messages of its consumer, whatever fails, account
  numbers stay unique and the money an account has, as the balance service sees it, is what it had before, or none where
  the account is new.  Unless an account is deleted or a migration message arrives, every account is still there with
  its money.
\<close>

theorem administration_keeps_funds:
  assumes "distinct (map acc_accountNumber (adb_account db))" and "administer cs (db, broker) = (db', broker')"
  shows "distinct (map acc_accountNumber (adb_account db')) \<and>
    (\<forall>n f. fundsOf (balanceTables db') n = Some f \<longrightarrow> f = (0, 0) \<or> fundsOf (balanceTables db) n = Some f) \<and>
    (\<not> list_ex mayRemove cs \<longrightarrow> (\<forall>n f. fundsOf (balanceTables db) n = Some f \<longrightarrow> fundsOf (balanceTables db') n = Some f))"
  using keeps_administer [of cs "(db, broker)"] assms
  by (simp add: keepsFunds_def numbers_def fundsOf_balanceTables)

section \<open>An update of the features erases the preset\<close>

lemma balanceRow_simps [simp]:
  "row_accountNumber (balanceRow a) = acc_accountNumber a"
  "row_t24AccountNumber (balanceRow a) = t24AccountNumber (acc_legacyId a)" "row_isHvt (balanceRow a) = acc_isHvt a"
  by (simp_all add: balanceRow_def)

lemma createBalanceOptions_emptyPreset:
  assumes "AccountFeatureConfig cfg '''' = None" and "db_feature db (row_accountNumber r) = Some feature" and "feat_preset feature = Some ''''"
  shows "loadBalance cfg ignored overrides db r = Err (ErrorMsg ''preset not found: '')"
  using assms by (simp add: loadBalance_def createBalanceOptions_def scanRow_def Let_def)

lemma traverse_Err: "x \<in> set xs \<Longrightarrow> f x = Inl e \<Longrightarrow> \<not> isOk (traverse f xs)"
  by (auto simp: isOk_iff traverse_Ok_iff list_all2_conv_all_nth in_set_conv_nth)

lemma find_mapAccounts:
  assumes "\<And>a. acc_accountNumber (f a) = acc_accountNumber a"
  shows "find (\<lambda>a. acc_accountNumber a = n) (adb_account (mapAccounts P f db)) =
    map_option (\<lambda>a. if P a then f a else a) (find (\<lambda>a. acc_accountNumber a = n) (adb_account db))"
proof -
  have "find (\<lambda>a. acc_accountNumber a = n) (map (\<lambda>a. if P a then f a else a) rows) =
      map_option (\<lambda>a. if P a then f a else a) (find (\<lambda>a. acc_accountNumber a = n) rows)" for rows
    by (induction rows) (auto simp: assms)
  then show ?thesis by (simp add: mapAccounts_def)
qed

text \<open>What the update leaves when nothing fails.\<close>

lemma AccountUpdate_healthy:
  assumes "find (\<lambda>a. acc_accountNumber a = ui_AccountNumber u) (adb_account db) = Some a"
    and "adb_feature db (ui_AccountNumber u) = Some old" and "ui_IsHVT u = Some h" and "wft_Preset (ui_Feature u) = Some p"
    and "ac_fault cfg SelectAccount = None" and "ac_fault cfg UpdateAccountRow = None" and "ac_fault cfg UpdateFeature = None"
    and "fault (ac_repo cfg) BeginTx = None" and "fault (ac_repo cfg) CommitTx = None"
  shows "\<exists>out. AccountUpdate cfg u db =
    (Ok out, (mapAccounts (\<lambda>x. acc_id x = acc_id a)
        (\<lambda>x. x\<lparr>acc_isHvt := h, acc_status := (if ui_Status u \<noteq> '''' then ui_Status u else acc_status x),
               acc_updatedAt := now (ac_repo cfg)\<rparr>) db)
       \<lparr>adb_feature := (adb_feature db)(ui_AccountNumber u \<mapsto> overFeature (ui_Feature u) old)\<rparr>)"
proof -
  have "a \<in> set (adb_account db)"
    using assms(1) by (auto simp: find_Some_iff)
  then have found: "list_ex (\<lambda>x. acc_id x = acc_id a) (adb_account db)"
    by (auto simp: list_ex_iff)
  have preset: "feat_preset (overFeature (ui_Feature u) old) = Some p" "ui_Feature u \<noteq> noFeature"
    using assms(4) by (auto simp: overFeature_def orOld_def noFeature_def)
  have features: "adb_feature (mapAccounts P f db) = adb_feature db" for P f
    by (simp add: mapAccounts_def)
  show ?thesis
    using assms found preset
    by (simp add: AccountUpdate_def Atomic_def updateSteps_def bind_def readDb_def onDb_def wrapping_def AccountGetOne_def
        RepoGetOneByAccountNumber_def failIf_def accountByNumber_def RepoAccountUpdate_def UpdateFeatureRow_def scanAccount_def
        exec_simps features Let_def)
qed

lemma find_SomeD: "find P xs = Some x \<Longrightarrow> P x \<and> x \<in> set xs"
  by (auto simp: find_Some_iff)

text \<open>An account whose features hold the empty preset can be read by no call, since no configuration has that name.\<close>

lemma emptyPreset_locks_balance:
  assumes row: "row \<in> set (db_account db)" "row_accountNumber row = n"
    and rows: "\<forall>r\<in>set (db_account db). row_t24AccountNumber r = Some n \<longrightarrow> row_accountNumber r = n"
    and preset: "db_feature db n = Some feature" "feat_preset feature = Some ''''" "AccountFeatureConfig cfg '''' = None"
    and ignored: "getIgnoredAccounts cfg = Ok ignored" and ok: "\<forall>c. fault cfg c = None"
  shows "Get cfg n db = Err (ErrorMsg ''preset not found: '')"
    and "n \<in> set (gr_AccountNumbers q) \<Longrightarrow> n \<notin> set (gr_AccountNumbersExcludedFromDB q) \<Longrightarrow> \<not> gr_ExcludeHVT q \<Longrightarrow>
      n \<notin> set ignored \<Longrightarrow> \<not> isOk (GetMany cfg q db)"
proof -
  have locked: "row_accountNumber r = n \<Longrightarrow> loadBalance cfg ignored overrides db r = Err (ErrorMsg ''preset not found: '')"
    for r overrides
    using createBalanceOptions_emptyPreset [OF preset(3)] preset(1,2) by simp
  let ?rows = "filter (\<lambda>r. row_t24AccountNumber r = Some n) (db_account db) @ filter (\<lambda>r. row_accountNumber r = n) (db_account db)"
  have "row \<in> set ?rows" using row by simp
  then obtain r rest where split: "?rows = r # rest"
    by (cases ?rows) auto
  then have "r \<in> set ?rows" by simp
  then have "row_accountNumber r = n"
    using rows by auto
  then show "Get cfg n db = Err (ErrorMsg ''preset not found: '')"
    unfolding Get_def split using locked ignored ok by (simp add: failIf_def)
  assume q: "n \<in> set (gr_AccountNumbers q)" "n \<notin> set (gr_AccountNumbersExcludedFromDB q)" "\<not> gr_ExcludeHVT q" "n \<notin> set ignored"
  then have "row \<in> set (buildGetManyAccountBalanceQuery q ignored (db_account db))"
    using row by (simp add: buildGetManyAccountBalanceQuery_def Let_def)
  from traverse_Err [OF this, of "loadBalance cfg ignored (gr_OverrideBalanceOpts q) db", OF locked [OF row(2)]] show "\<not> isOk (GetMany cfg q db)"
    using ignored ok by (auto simp: GetMany_def failIf_def isOk_iff rbind_Ok_iff)
qed

lemma updateOneAccount_healthy:
  assumes "find (\<lambda>a. acc_accountNumber a = ur_AccountNumber req) (adb_account db) = Some a"
    and "adb_feature db (ur_AccountNumber req) = Some old"
    and "ur_IsHVT req = Some h" "ur_Status req \<in> set accountStatuses" "ur_Feature req = Some f"
    and "FeatureTransformAndValidate (ac_errorText (aa_cfg api)) (aa_parseDecimal api) f = Ok feature" "wft_Preset feature = Some p"
    and "\<forall>c. ac_fault (aa_cfg api) c = None" and "\<forall>c. fault (ac_repo (aa_cfg api)) c = None"
  shows "\<exists>response. updateOneAccount api req db = (Reply 200 response, (mapAccounts (\<lambda>x. acc_id x = acc_id a)
        (\<lambda>x. x\<lparr>acc_isHvt := h, acc_status := (if ur_Status req \<noteq> '''' then ur_Status req else acc_status x),
               acc_updatedAt := now (ac_repo (aa_cfg api))\<rparr>) db)
       \<lparr>adb_feature := (adb_feature db)(ur_AccountNumber req \<mapsto> overFeature feature old)\<rparr>)"
proof -
  let ?u = "\<lparr>ui_AccountNumber = ur_AccountNumber req, ui_IsHVT = Some h, ui_Status = ur_Status req, ui_Feature = feature\<rparr>"
  have "UpdateTransformAndValidate (ac_errorText (aa_cfg api)) (aa_parseDecimal api) req = Ok ?u"
    using assms(3-6) by (simp add: UpdateTransformAndValidate_def)
  then show ?thesis
    using AccountUpdate_healthy [of ?u db a old h p "aa_cfg api"] assms by (auto simp: updateOneAccount_def cong: if_cong)
qed

text \<open>
  C36: An update of the features of an account that names no preset is answered with success and stores the empty preset,
  for which there is no configuration: from then on neither the account nor its balance can be read, and no request that
  needs the balance of the account can load it.
\<close>

theorem feature_update_locks_account:
  assumes "find (\<lambda>a. acc_accountNumber a = ur_AccountNumber req) (adb_account db) = Some a"
    and "adb_feature db (ur_AccountNumber req) = Some old"
    and "\<forall>b\<in>set (adb_account db). t24AccountNumber (acc_legacyId b) = Some (ur_AccountNumber req) \<longrightarrow> acc_accountNumber b = ur_AccountNumber req"
    and "ur_IsHVT req = Some h" and "ur_Status req \<in> set accountStatuses"
    and "ur_Feature req = Some f" and "fr_Preset f = ''''"
    and "isOk (FeatureTransformAndValidate (ac_errorText (aa_cfg api)) (aa_parseDecimal api) f)"
    and "AccountFeatureConfig (ac_repo (aa_cfg api)) '''' = None" and "getIgnoredAccounts (ac_repo (aa_cfg api)) = Ok ignored"
    and "ur_AccountNumber req \<notin> set ignored"
    and "\<forall>c. ac_fault (aa_cfg api) c = None" and "\<forall>c. fault (ac_repo (aa_cfg api)) c = None"
  shows "\<exists>response db'. updateOneAccount api req db = (Reply 200 response, db') \<and>
    RepoGetOneByAccountNumberOrLegacyId (aa_cfg api) (ur_AccountNumber req) db' = Err (ErrorMsg ''preset not found: '') \<and>
    Get (ac_repo (aa_cfg api)) (ur_AccountNumber req) (balanceTables db') = Err (ErrorMsg ''preset not found: '') \<and>
    (\<forall>r. ur_AccountNumber req \<in> set (gr_AccountNumbers r) \<and> ur_AccountNumber req \<notin> set (gr_AccountNumbersExcludedFromDB r) \<and>
         \<not> gr_ExcludeHVT r \<longrightarrow> \<not> isOk (GetMany (ac_repo (aa_cfg api)) r (balanceTables db')))"
proof -
  let ?cfg = "aa_cfg api" and ?n = "ur_AccountNumber req"
  let ?row = "\<lambda>x :: 'a StoredAccount. x\<lparr>acc_isHvt := h,
      acc_status := (if ur_Status req \<noteq> '''' then ur_Status req else acc_status x), acc_updatedAt := now (ac_repo ?cfg)\<rparr>"
  obtain feature where feature: "FeatureTransformAndValidate (ac_errorText ?cfg) (aa_parseDecimal api) f = Ok feature"
    using assms(8) by (auto simp: isOk_iff)
  then have preset: "wft_Preset feature = Some ''''"
    using assms(7) by (auto simp: FeatureTransformAndValidate_def Let_def split: prod.splits if_splits)
  define db' where "db' = (mapAccounts (\<lambda>x. acc_id x = acc_id a) ?row db)\<lparr>adb_feature := (adb_feature db)(?n \<mapsto> overFeature feature old)\<rparr>"
  have update: "\<exists>response. updateOneAccount api req db = (Reply 200 response, db')"
    unfolding db'_def by (rule updateOneAccount_healthy) (use assms feature preset in auto)
  have "find (\<lambda>x. acc_accountNumber x = ?n) (adb_account (mapAccounts (\<lambda>x. acc_id x = acc_id a) ?row db)) = Some (?row a)"
    by (subst find_mapAccounts) (simp_all add: assms(1))
  then have row: "find (\<lambda>x. acc_accountNumber x = ?n) (adb_account db') = Some (?row a)"
    by (simp add: db'_def)
  then have member: "balanceRow (?row a) \<in> set (db_account (balanceTables db'))" "row_accountNumber (balanceRow (?row a)) = ?n"
    using find_SomeD [OF row] by (auto simp: balanceTables_def)
  have features: "adb_feature db' ?n = Some (overFeature feature old)" "feat_preset (overFeature feature old) = Some ''''"
    by (simp_all add: db'_def overFeature_def orOld_def preset)
  have rows: "\<forall>r\<in>set (db_account (balanceTables db')). row_t24AccountNumber r = Some ?n \<longrightarrow> row_accountNumber r = ?n"
    using assms(3) by (auto simp: balanceTables_def db'_def mapAccounts_def)
  have "db_feature (balanceTables db') ?n = Some (overFeature feature old)"
    using features(1) by (simp add: balanceTables_def)
  note emptyPreset_locks_balance [OF member rows this features(2) assms(9,10,13)]
  moreover have "RepoGetOneByAccountNumberOrLegacyId ?cfg ?n db' = Err (ErrorMsg ''preset not found: '')"
    using row features assms(9,12) find_SomeD [OF assms(1)]
    by (simp add: RepoGetOneByAccountNumberOrLegacyId_def accountByNumber_def failIf_def joinedFeature_def Let_def)
  ultimately show ?thesis
    using update assms(11) by blast
qed

section \<open>A migration deletes a balance\<close>

text \<open>Writing one account does not bring another one back.\<close>

lemma Upsert_other: "n \<noteq> ca_AccountNumber c \<Longrightarrow> fundsAt (snd (RepoAccountUpsert cfg c db)) n = fundsAt db n"
proof -
  assume n: "n \<noteq> ca_AccountNumber c"
  have "fundsAt (db'\<lparr>adb_nextId := i\<rparr>) n = fundsAt db' n" for db' :: "'a AccountDB" and i
    by (simp add: fundsAt_def)
  moreover have "fundsAt (db\<lparr>adb_account := insort_key acc_accountNumber (newAccount i t c) (adb_account db), adb_nextId := j\<rparr>) n = fundsAt db n"
    if "\<not> accountExists db (ca_AccountNumber c)" for i j t
    using n that find_inserted [of db "newAccount i t c" n] by (simp add: fundsAt_def)
  ultimately show ?thesis
    by (auto simp: RepoAccountUpsert_def fundsAt_mapAccounts split: option.splits)
qed

lemma Create_other: "n \<noteq> ca_AccountNumber c \<Longrightarrow> fundsAt (snd (RepoAccountCreate cfg c db)) n = fundsAt db n"
  using find_inserted [of db "newAccount (adb_nextId db) (now (ac_repo cfg)) c" n]
  by (auto simp: RepoAccountCreate_def fundsAt_def split: option.splits)

lemma snd_wrapping [simp]: "snd (wrapping msg m s) = snd (m s)"
  by (auto simp: wrapping_def split: prod.splits sum.splits)

lemma streamed_other:
  assumes "n \<noteq> ca_AccountNumber (as_Account m)"
  shows "fundsAt (snd (AccountUpsert cfg (streamedAccount m) db)) n = fundsAt db n"
    and "fundsAt (snd (bind (AccountCreate cfg (streamedAccount m)) (\<lambda>_. return ()) db)) n = fundsAt db n"
proof -
  show "fundsAt (snd (AccountUpsert cfg (streamedAccount m) db)) n = fundsAt db n"
    using assms by (simp add: AccountUpsert_def Upsert_other streamedAccount_def)
  have "snd (bind (AccountCreate cfg c) (\<lambda>_. return ()) db) = snd (AccountCreate cfg c db)" for c
    by (auto simp: bind_def exec_simps split: prod.splits sum.splits)
  moreover have "snd (AccountCreate cfg c db) = snd (RepoAccountCreate cfg (c\<lparr>ca_IsHVT := ca_SubCategoryCode c \<in> set (ac_HVTSubCategoryCodes cfg)\<rparr>) db)" for c
    by (auto simp: AccountCreate_def Let_def split: prod.splits sum.splits)
  ultimately show "fundsAt (snd (bind (AccountCreate cfg (streamedAccount m)) (\<lambda>_. return ()) db)) n = fundsAt db n"
    using assms by (simp add: Create_other streamedAccount_def)
qed

lemma RemoveDuplicate_removes:
  assumes "find (\<lambda>x. acc_accountNumber x = n) (adb_account db) = Some a"
    and "find (\<lambda>x. acc_accountNumber x = legacy) (adb_account db) = Some b"
    and "legacyNumber (acc_legacyId a) = Some legacy" and "acc_id a \<noteq> acc_id b" and "0 < acc_id a" and "0 < acc_id b"
    and "distinct (map acc_accountNumber (adb_account db))"
    and "ac_fault cfg SelectAccount = None" and "ac_fault cfg DeleteAccountRow = None"
  shows "\<exists>db'. RemoveDuplicateAccountMigration cfg n db = (Ok (), db') \<and> fundsAt db' legacy = None"
proof -
  have b: "b \<in> set (adb_account db)" "acc_accountNumber b = legacy"
    using assms(2) by (auto simp: find_Some_iff)
  have "x = b" if "x \<in> set (adb_account db)" "acc_accountNumber x = legacy" for x
    using assms(7) b that by (auto simp: distinct_map inj_on_def)
  then have "find (\<lambda>x. acc_accountNumber x = legacy) (filter (\<lambda>x. acc_id x \<noteq> acc_id b) (adb_account db)) = None"
    by (auto simp: find_None_iff)
  moreover have "list_ex (\<lambda>x. acc_id x = acc_id b) (adb_account db)"
    using b by (auto simp: list_ex_iff)
  ultimately show ?thesis
    using assms(1-6,8,9)
    by (simp add: RemoveDuplicateAccountMigration_def RepoGetOneByAccountNumber_def failIf_def accountByNumber_def scanAccount_def
        RepoAccountDelete_def deleteAccounts_def wrapping_def fundsAt_def)
qed

text \<open>
  C37: A migration message for an account whose legacy number is registered as an account of its own deletes that account
  whatever balance it has; the balance is nowhere afterwards, whether or not the message then updates the account it is
  about.
\<close>

theorem migration_deletes_balance:
  assumes "am_unmarshal h message = Ok m" and "as_Type m = ''migration_database''"
    and "find (\<lambda>x. acc_accountNumber x = ca_AccountNumber (as_Account m)) (adb_account db) = Some a"
    and "find (\<lambda>x. acc_accountNumber x = legacy) (adb_account db) = Some b"
    and "legacyNumber (acc_legacyId a) = Some legacy" and "acc_id a \<noteq> acc_id b" and "0 < acc_id a" and "0 < acc_id b"
    and "distinct (map acc_accountNumber (adb_account db))"
    and "ac_fault (am_cfg h) SelectAccount = None" and "ac_fault (am_cfg h) DeleteAccountRow = None"
  shows "fundsOf (balanceTables db) legacy = Some (acc_actualBalance b, acc_pendingBalance b) \<and>
    fundsOf (balanceTables (fst (consumeMutation h message (db, broker)))) legacy = None"
proof -
  let ?n = "ca_AccountNumber (as_Account m)"
  have n: "legacy \<noteq> ?n" using assms(3,4,6) by auto
  obtain db' where step: "RemoveDuplicateAccountMigration (am_cfg h) ?n db = (Ok (), db')" and gone: "fundsAt db' legacy = None"
    using RemoveDuplicate_removes [OF assms(3-11)] by blast
  have "fundsAt (snd (processMutation h message db)) legacy = None"
    using streamed_other [OF n, of "am_cfg h" db'] gone
    by (auto simp: processMutation_def assms(1,2) Let_def bind_def [of "wrapping _ _"] wrapping_def [of "''unable to remove duplicate account''"] step split: sum.splits)
  moreover have "fst (consumeMutation h message (db, broker)) = snd (processMutation h message db)"
    by (auto simp: consumeMutation_def split: prod.splits sum.splits)
  moreover have "fundsAt db legacy = Some (acc_actualBalance b, acc_pendingBalance b)"
    using assms(4) by (simp add: fundsAt_def)
  ultimately show ?thesis
    by (simp add: fundsOf_balanceTables)
qed

section \<open>The theorems, applied\<close>

definition exampleAccount :: "int \<Rightarrow> string \<Rightarrow> AccountLegacyId \<Rightarrow> rat \<Rightarrow> rat StoredAccount" where
  "exampleAccount i n legacy actual =
     \<lparr>acc_id = i, acc_accountNumber = n, acc_name = ''name'', acc_ownerId = ''owner'', acc_productTypeName = '''',
      acc_categoryCode = ''211'', acc_subCategoryCode = ''10000'', acc_entityCode = ''001'', acc_currency = ''IDR'', acc_altId = '''',
      acc_legacyId = legacy, acc_isHvt = False, acc_status = ''active'', acc_metadata = None, acc_actualBalance = actual,
      acc_pendingBalance = 0, acc_version = 1, acc_createdAt = 0, acc_updatedAt = 0\<rparr>"

definition exampleFeature :: "rat FeatureRow" where
  "exampleFeature =
     \<lparr>feat_preset = Some ''customer'', feat_negative_balance_allowed = Some False, feat_balance_range_min = Some 0,
      feat_negative_balance_limit = Some 0, feat_balance_range_max = Some 9\<rparr>"

text \<open>Account \<open>A\<close> has the legacy number \<open>T\<close>, under which there is an account with 40 on it.\<close>

definition exampleAccountDB :: "rat AccountDB" where
  "exampleAccountDB =
     \<lparr>adb_account = [exampleAccount 1 ''A'' [''t24AccountNumber'' \<mapsto> LegacyText ''T''] 100, exampleAccount 2 ''T'' Map.empty 40],
      adb_feature = [''A'' \<mapsto> exampleFeature], adb_nextId = 3\<rparr>"

definition exampleAccountsConfig :: "rat AccountsConfig" where
  "exampleAccountsConfig =
     \<lparr>ac_repo = exampleRepo None, ac_rangeMin = (\<lambda>_. 0), ac_fault = (\<lambda>_. None), ac_duplicate = ErrorMsg ''duplicate key'',
      ac_notNull = ErrorMsg ''null'', ac_HVTSubCategoryCodes = [], ac_errorText = (\<lambda>_. ''error'')\<rparr>"

definition exampleAccountApi :: "rat AccountApi" where
  "exampleAccountApi = \<lparr>aa_cfg = exampleAccountsConfig, aa_parseDecimal = (\<lambda>_. Ok 7)\<rparr>"

definition exampleNewAccount :: "string \<Rightarrow> rat CreateAccount" where
  "exampleNewAccount n =
     \<lparr>ca_AccountNumber = n, ca_Name = ''name'', ca_OwnerID = ''owner'', ca_ProductTypeName = '''', ca_CategoryCode = ''211'',
      ca_SubCategoryCode = ''10000'', ca_EntityCode = ''001'', ca_Currency = ''IDR'', ca_AltId = '''', ca_LegacyId = None,
      ca_IsHVT = False, ca_Status = ''active'', ca_Metadata = None\<rparr>"

definition exampleMutations :: "string \<Rightarrow> rat AccountMutationHandler" where
  "exampleMutations kind =
     \<lparr>am_cfg = exampleAccountsConfig, am_PreventSame = False,
      am_unmarshal = (\<lambda>message. Ok \<lparr>as_Type = kind, as_Account = exampleNewAccount message, as_Metadata = NoMetadata\<rparr>),
      am_dlqFault = (\<lambda>_. None)\<rparr>"

definition exampleFeatureUpdate :: UpdateAccountRequest where
  "exampleFeatureUpdate =
     \<lparr>ur_AccountNumber = ''A'', ur_IsHVT = Some False, ur_Status = ''active'',
      ur_Feature = Some \<lparr>fr_Preset = '''', fr_AllowedNegativeBalance = None, fr_BalanceRangeMin = '''', fr_BalanceRangeMax = ''7'',
                         fr_NegativeBalanceLimit = ''''\<rparr>\<rparr>"

lemma administration_keeps_funds_witness:
  "fundsOf (balanceTables (fst (administer [CallCreate exampleAccountApi (exampleNewAccount ''B''), CallUpdate exampleAccountApi exampleFeatureUpdate,
      CallMessage (exampleMutations ''new'') ''A''] (exampleAccountDB, \<lparr>bk_marked = [], bk_dlq = []\<rparr>)))) ''A'' = Some (100, 0)"
proof -
  let ?cs = "[CallCreate exampleAccountApi (exampleNewAccount ''B''), CallUpdate exampleAccountApi exampleFeatureUpdate,
      CallMessage (exampleMutations ''new'') ''A'']"
  let ?broker = "\<lparr>bk_marked = [], bk_dlq = []\<rparr>"
  obtain db' broker' where run: "administer ?cs (exampleAccountDB, ?broker) = (db', broker')"
    by (cases "administer ?cs (exampleAccountDB, ?broker)")
  have unique: "distinct (map acc_accountNumber (adb_account exampleAccountDB))"
    by (simp add: exampleAccountDB_def exampleAccount_def)
  have "\<not> list_ex mayRemove ?cs"
    by (simp add: exampleMutations_def)
  moreover have "fundsOf (balanceTables exampleAccountDB) ''A'' = Some (100, 0)"
    by (simp add: fundsOf_balanceTables fundsAt_def exampleAccountDB_def exampleAccount_def)
  ultimately show ?thesis
    using administration_keeps_funds [OF unique run] by (simp add: run)
qed

lemma feature_update_locks_account_witness:
  "\<exists>response db'. updateOneAccount exampleAccountApi exampleFeatureUpdate exampleAccountDB = (Reply 200 response, db') \<and>
    RepoGetOneByAccountNumberOrLegacyId exampleAccountsConfig ''A'' db' = Err (ErrorMsg ''preset not found: '') \<and>
    Get (exampleRepo None) ''A'' (balanceTables db') = Err (ErrorMsg ''preset not found: '')"
proof -
  have row: "find (\<lambda>a. acc_accountNumber a = ur_AccountNumber exampleFeatureUpdate) (adb_account exampleAccountDB) =
      Some (exampleAccount 1 ''A'' [''t24AccountNumber'' \<mapsto> LegacyText ''T''] 100)"
    by (simp add: exampleAccountDB_def exampleFeatureUpdate_def exampleAccount_def)
  have feature: "adb_feature exampleAccountDB (ur_AccountNumber exampleFeatureUpdate) = Some exampleFeature"
    by (simp add: exampleAccountDB_def exampleFeatureUpdate_def)
  have legacy: "\<forall>b\<in>set (adb_account exampleAccountDB).
      t24AccountNumber (acc_legacyId b) = Some (ur_AccountNumber exampleFeatureUpdate) \<longrightarrow> acc_accountNumber b = ur_AccountNumber exampleFeatureUpdate"
    by (simp add: exampleAccountDB_def exampleFeatureUpdate_def exampleAccount_def t24AccountNumber_def)
  have request: "ur_IsHVT exampleFeatureUpdate = Some False" "ur_Status exampleFeatureUpdate \<in> set accountStatuses"
    "ur_Feature exampleFeatureUpdate = Some \<lparr>fr_Preset = '''', fr_AllowedNegativeBalance = None, fr_BalanceRangeMin = '''',
       fr_BalanceRangeMax = ''7'', fr_NegativeBalanceLimit = ''''\<rparr>"
    by (simp_all add: exampleFeatureUpdate_def accountStatuses_def)
  have ignored: "getIgnoredAccounts (exampleRepo None) = Ok [''SYS'']"
    by (simp add: getIgnoredAccounts_def exampleRepo_def)
  show ?thesis
    using feature_update_locks_account [OF row feature legacy request, of exampleAccountApi "[''SYS'']"] ignored
    by (simp add: exampleAccountApi_def exampleAccountsConfig_def exampleFeatureUpdate_def FeatureTransformAndValidate_def featureBound_def
        NewDecimalFromString_def) (force simp: exampleRepo_def)
qed

lemma migration_deletes_balance_witness:
  "fundsOf (balanceTables exampleAccountDB) ''T'' = Some (40, 0) \<and>
   fundsOf (balanceTables (fst (consumeMutation (exampleMutations ''migration_database'') ''A''
     (exampleAccountDB, \<lparr>bk_marked = [], bk_dlq = []\<rparr>)))) ''T'' = None"
  using migration_deletes_balance [of "exampleMutations ''migration_database''" "''A''"
      "\<lparr>as_Type = ''migration_database'', as_Account = exampleNewAccount ''A'', as_Metadata = NoMetadata\<rparr>" exampleAccountDB
      "exampleAccount 1 ''A'' [''t24AccountNumber'' \<mapsto> LegacyText ''T''] 100" "''T''" "exampleAccount 2 ''T'' Map.empty 40"
      "\<lparr>bk_marked = [], bk_dlq = []\<rparr>"]
  by (simp add: exampleMutations_def exampleAccountsConfig_def exampleNewAccount_def exampleAccountDB_def exampleAccount_def
      legacyNumber_def)

end
