(* ===== verification/AccountListingProperties.thy ===== *)
theory AccountListingProperties
  imports AccountListing AccountProperties ListingProperties "HOL-Library.Multiset"
begin

text \<open>
  What a client of the account list relies on: sorted by creation, following the next cursors visits every account once;
  the total balance is what the administration of accounts keeps.  And where it is let down: accounts that were
  updated together are skipped when the list is sorted by the date of the update.
\<close>

section \<open>Sorted by creation\<close>

lemma accounts_listed_once:
  assumes "accountsAnswered (l, req)" and "aq_SortBy req = ''''" and "distinct (map acc_id (al_rows l))"
    and "length (al_rows l) < n"
  shows "\<exists>pages. followNext n (getAllAccount l req) '''' = Some pages \<and>
    concat pages = map (shownAccount l)
      (orderBy (aq_Sort req \<noteq> ''asc'') acc_id (filter (filteredAccount (firstAccountOpts req)) (al_rows l))) \<and>
    (\<forall>p\<in>set pages. length p \<le> accountPageSize (l, req))"
proof -
  have key: "accountKey (firstAccountOpts req) = acc_id" "accountDescending (firstAccountOpts req) = (aq_Sort req \<noteq> ''asc'')"
    using assms(2) by (auto simp: fun_eq_iff accountKey_def sortedByUpdate_def accountDescending_def firstAccountOpts_def)
  have "accountsListable (l, req)"
    using assms(1,3) by (simp add: accountsListable_def key listedAccounts_def distinct_map_filter)
  moreover have "length (listedAccounts (l, req)) < n"
    using assms(4) le_less_trans [OF length_filter_le] by (simp add: listedAccounts_def)
  ultimately show ?thesis
    using account_list.follow_all [of "(l, req)" n] by (simp add: key listedAccounts_def)
qed

section \<open>Sorted by update\<close>

lemma updated_together:
  assumes "AccountUpdateBySubCategory cfg data db = (Ok (), db')" and "a \<in> set (adb_account db')"
    and "acc_subCategoryCode a = us_Code data"
  shows "acc_updatedAt a = now (ac_repo cfg)"
  using assms by (auto simp: AccountUpdateBySubCategory_def wrapping_def RepoUpdateBySubCategory_def mapAccounts_def
      split: option.splits prod.splits sum.splits if_splits)

text \<open>
  C40: The cursor of the account list has only the date of the update when the list is sorted by it.  After an update of a
  sub category, which sets the same date on all of its accounts, a client that lists them by this date and follows the
  next cursors sees one page of them and then an empty one: it is never shown the others.
\<close>

theorem accounts_updated_together_are_skipped:
  assumes "AccountUpdateBySubCategory cfg data db = (Ok (), db')" and "mset (al_rows l) = mset (adb_account db')"
    and "accountsAnswered (l, req)" and "aq_SortBy req = ''lastUpdatedDate''"
    and "\<forall>a\<in>set (listedAccounts (l, req)). acc_subCategoryCode a = us_Code data"
    and "accountPageSize (l, req) < length (listedAccounts (l, req))"
  shows "\<exists>pages. followNext (Suc (Suc n)) (getAllAccount l req) '''' = Some pages \<and>
    length (concat pages) = accountPageSize (l, req) \<and> last pages = []"
proof -
  have "set (al_rows l) = set (adb_account db')"
    using assms(2) by (metis set_mset_mset)
  then have "\<forall>a\<in>set (listedAccounts (l, req)). accountKey (firstAccountOpts req) a = now (ac_repo cfg)"
    using updated_together [OF assms(1)] assms(4,5)
    by (auto simp: listedAccounts_def accountKey_def sortedByUpdate_def firstAccountOpts_def)
  from equal_keys_end_early [OF assms(3) this assms(6), of n] assms(6) show ?thesis
    by simp
qed

section \<open>The total balance\<close>

text \<open>What the total adds up: the funds of the accounts, over their numbers.\<close>

lemma total_fundsAt:
  fixes db :: "'d::linordered_idom AccountDB"
  assumes "distinct (numbers db)" and "mset rows = mset (adb_account db)"
  shows "sum_list (map acc_actualBalance rows) - sum_list (map acc_pendingBalance rows) =
    (\<Sum>n\<in>dom (fundsAt db). let (a, p) = the (fundsAt db n) in a - p)"
proof -
  let ?as = "adb_account db"
  have at: "a \<in> set ?as \<Longrightarrow> fundsAt db (acc_accountNumber a) = Some (acc_actualBalance a, acc_pendingBalance a)" for a
  proof -
    assume a: "a \<in> set ?as"
    have "distinct (map acc_accountNumber as) \<Longrightarrow> a \<in> set as \<Longrightarrow> find (\<lambda>b. acc_accountNumber b = acc_accountNumber a) as = Some a" for as
      by (induction as) force+
    from this [OF assms(1) [unfolded numbers_def] a] show ?thesis
      by (simp add: fundsAt_def)
  qed
  have dom: "dom (fundsAt db) = acc_accountNumber ` set ?as"
  proof (rule set_eqI)
    fix n
    have "fundsAt db n = None \<longleftrightarrow> n \<notin> acc_accountNumber ` set ?as"
      by (auto simp: fundsAt_def find_None_iff)
    then show "n \<in> dom (fundsAt db) \<longleftrightarrow> n \<in> acc_accountNumber ` set ?as"
      by (simp add: domIff)
  qed
  have inj: "inj_on acc_accountNumber (set ?as)" "distinct ?as"
    using assms(1) by (simp_all add: numbers_def distinct_map)
  have "sum_list (map acc_actualBalance rows) - sum_list (map acc_pendingBalance rows) =
      sum_list (map (\<lambda>a. acc_actualBalance a - acc_pendingBalance a) rows)"
    by (simp add: sum_list_subtractf)
  also have "\<dots> = sum_list (map (\<lambda>a. acc_actualBalance a - acc_pendingBalance a) ?as)"
    using arg_cong [OF assms(2), of "\<lambda>M. sum_mset (image_mset (\<lambda>a. acc_actualBalance a - acc_pendingBalance a) M)"]
    by (simp add: sum_mset_sum_list flip: mset_map)
  also have "\<dots> = (\<Sum>a\<in>set ?as. acc_actualBalance a - acc_pendingBalance a)"
    using inj(2) by (simp add: sum_list_distinct_conv_sum_set)
  also have "\<dots> = (\<Sum>n\<in>dom (fundsAt db). let (a, p) = the (fundsAt db n) in a - p)"
    unfolding dom sum.reindex [OF inj(1)] by (rule sum.cong) (simp_all add: at)
  finally show ?thesis .
qed

text \<open>
  The total balance that the endpoint reports for all accounts is not changed by any history of the administration of
  accounts that deletes none, whatever fails.
\<close>

lemma administration_keeps_total:
  assumes "distinct (map acc_accountNumber (adb_account db))" and "administer cs (db, broker) = (db', broker')"
    and "\<not> list_ex mayRemove cs" and "adb_account db \<noteq> []"
    and "mset (al_rows l) = mset (adb_account db)" and "mset (al_rows l') = mset (adb_account db')"
    and "al_sumFault l = None" and "al_sumFault l' = None"
    and "aq_Search req = ''''" "aq_AccountNumber req = ''''" "aq_AccountName req = ''''" "aq_OwnerID req = ''''"
  shows "(\<exists>e. getTotalBalance l req = Failure 400 e) \<or>
    (\<exists>x. getTotalBalance l req = Reply 200 x \<and> getTotalBalance l' req = Reply 200 x)"
proof (cases "DoGetListAccountToFilterOpts req")
  case (Inl e)
  then show ?thesis by (simp add: getTotalBalance_def)
next
  case (Inr opts)
  then have "filteredAccount opts a" for a :: "'a StoredAccount"
    using assms(9-12) by (auto simp: DoGetListAccountToFilterOpts_def rbind_Ok_iff filteredAccount_def split: if_splits)
  then have all: "filter (filteredAccount opts) rows = rows" for rows :: "'a StoredAccount list"
    by (simp add: filter_id_conv)
  have keeps: "distinct (numbers db')" "fundsAt db' n = Some f \<Longrightarrow> f = (0, 0) \<or> fundsAt db n = Some f"
    "fundsAt db n = Some f \<Longrightarrow> fundsAt db' n = Some f" for n f
    using keeps_administer [of cs "(db, broker)"] assms(1-3) unfolding assms(2) fst_conv keepsFunds_def numbers_def by blast+
  have finite: "finite (dom (fundsAt d))" for d :: "'a AccountDB"
  proof -
    have "dom (fundsAt d) \<subseteq> acc_accountNumber ` set (adb_account d)"
      by (auto simp: fundsAt_def find_Some_iff dom_def)
    then show ?thesis by (rule finite_subset) simp
  qed
  have "(\<Sum>n\<in>dom (fundsAt db). let (a, p) = the (fundsAt db n) in a - p) =
      (\<Sum>n\<in>dom (fundsAt db'). let (a, p) = the (fundsAt db' n) in a - p)"
  proof (rule sum.mono_neutral_cong_left)
    show "dom (fundsAt db) \<subseteq> dom (fundsAt db')"
      using keeps(3) by blast
    show "\<forall>n\<in>dom (fundsAt db') - dom (fundsAt db). (let (a, p) = the (fundsAt db' n) in a - p) = 0"
      using keeps(2) by force
    show "(let (a, p) = the (fundsAt db n) in a - p) = (let (a, p) = the (fundsAt db' n) in a - p)" if "n \<in> dom (fundsAt db)" for n
      using that keeps(3) by force
  qed (rule finite)
  then have "sum_list (map acc_actualBalance (al_rows l)) - sum_list (map acc_pendingBalance (al_rows l)) =
      sum_list (map acc_actualBalance (al_rows l')) - sum_list (map acc_pendingBalance (al_rows l'))"
    using total_fundsAt [OF _ assms(5)] total_fundsAt [OF keeps(1) assms(6)] assms(1) by (simp add: numbers_def)
  moreover have "al_rows l \<noteq> []" "al_rows l' \<noteq> []"
  proof -
    show "al_rows l \<noteq> []"
      using assms(4,5) by auto
    obtain a rest where "adb_account db = a # rest"
      using assms(4) by (cases "adb_account db") auto
    then have "fundsAt db (acc_accountNumber a) = Some (acc_actualBalance a, acc_pendingBalance a)"
      by (simp add: fundsAt_def)
    from keeps(3) [OF this] show "al_rows l' \<noteq> []"
      using assms(6) by (auto simp: fundsAt_def)
  qed
  ultimately show ?thesis
    using assms(7,8) Inr by (simp add: getTotalBalance_def AccountGetTotalBalance_def RepoGetTotalBalance_def
        totalBalanceQuery_def all Let_def)
qed

section \<open>The theorem, applied\<close>

text \<open>Two accounts of the sub category, listed one by one.\<close>

definition exampleSubCategory :: UpdateAccountBySubCategoryIn where
  "exampleSubCategory = \<lparr>us_Code = ''10000'', us_ProductTypeName = Some ''product'', us_Currency = None\<rparr>"

definition exampleUpdated :: "rat AccountDB" where
  "exampleUpdated = snd (AccountUpdateBySubCategory exampleAccountsConfig exampleSubCategory exampleAccountDB)"

definition exampleAccountList :: "rat AccountListing" where
  "exampleAccountList =
     \<lparr>al_rows = rev (adb_account exampleUpdated), al_config = exampleAccountsConfig, al_zone = 0, al_listFault = None,
      al_sumFault = None, al_estimate = Ok 2, al_nullSum = ErrorMsg ''null'', al_text = (\<lambda>_. ''amount'')\<rparr>"

definition byUpdateRequest :: DoGetListAccountRequest where
  "byUpdateRequest =
     \<lparr>aq_Search = '''', aq_AccountNumber = '''', aq_AccountName = '''', aq_OwnerID = ''owner'', aq_Limit = 1,
      aq_SortBy = ''lastUpdatedDate'', aq_Sort = '''', aq_NextCursor = '''', aq_PrevCursor = ''''\<rparr>"

lemma accounts_updated_together_are_skipped_witness:
  "length (listedAccounts (exampleAccountList, byUpdateRequest)) = 2 \<and>
   (\<exists>pages. followNext 9 (getAllAccount exampleAccountList byUpdateRequest) '''' = Some pages \<and>
      length (concat pages) = 1 \<and> last pages = [])"
proof -
  have update: "AccountUpdateBySubCategory exampleAccountsConfig exampleSubCategory exampleAccountDB = (Ok (), exampleUpdated)"
    by (simp add: exampleUpdated_def AccountUpdateBySubCategory_def wrapping_def RepoUpdateBySubCategory_def exampleAccountsConfig_def)
  have rows: "al_rows exampleAccountList = rev (map (\<lambda>a. a\<lparr>acc_productTypeName := ''product'', acc_updatedAt := now (exampleRepo None)\<rparr>)
      (adb_account exampleAccountDB))"
    by (simp add: exampleAccountList_def exampleUpdated_def AccountUpdateBySubCategory_def wrapping_def RepoUpdateBySubCategory_def
        exampleAccountsConfig_def mapAccounts_def exampleSubCategory_def exampleAccountDB_def exampleAccount_def)
  have all: "listedAccounts (exampleAccountList, byUpdateRequest) = al_rows exampleAccountList"
    by (simp add: listedAccounts_def rows filteredAccount_def firstAccountOpts_def byUpdateRequest_def exampleAccountDB_def exampleAccount_def)
  have answered: "accountsAnswered (exampleAccountList, byUpdateRequest)"
    using printable_early [of "now (exampleRepo None)"] unfolding accountsAnswered_def rows prod.case
    by (simp add: validListRequest_def byUpdateRequest_def exampleAccountList_def exampleAccountDB_def exampleAccount_def
        exampleRepo_def nsPerDay_def)
  have size: "accountPageSize (exampleAccountList, byUpdateRequest) = 1"
    by (simp add: accountPageSize_def byUpdateRequest_def)
  have sorted: "aq_SortBy byUpdateRequest = ''lastUpdatedDate''"
    by (simp add: byUpdateRequest_def)
  have two: "length (listedAccounts (exampleAccountList, byUpdateRequest)) = 2"
    "\<forall>a\<in>set (listedAccounts (exampleAccountList, byUpdateRequest)). acc_subCategoryCode a = us_Code exampleSubCategory"
    by (simp_all add: all rows exampleAccountDB_def exampleAccount_def exampleSubCategory_def)
  have "mset (al_rows exampleAccountList) = mset (adb_account exampleUpdated)"
    by (simp add: exampleAccountList_def)
  from accounts_updated_together_are_skipped [OF update this answered sorted two(2), of 7] two(1) show ?thesis
    by (simp add: size)
qed

end
