(* ===== verification/CsvFiles.thy ===== *)
theory CsvFiles
  imports WalletListing
begin

text \<open>
  Files as the reconciliation reads and writes them: the comma-separated values of Go's \<open>encoding/csv\<close> on ASCII text, the
  object names of \<open>internal/models/gcs.go\<close> with the paths of \<open>path/filepath\<close>, and a line per row.  What a writer writes,
  a reader reads back; a name that is split into path and file name is put together again.
\<close>

section \<open>Reading comma-separated values\<close>

abbreviation newline :: char where "newline \<equiv> CHR 0x0A"
abbreviation carriageReturn :: char where "carriageReturn \<equiv> CHR 0x0D"
abbreviation quoteChar :: char where "quoteChar \<equiv> CHR 0x22"

text \<open>A line ends with \<open>\r\n\<close> or \<open>\n\<close>; a carriage return at the end of the file is dropped.\<close>

fun normalizeLines :: "string \<Rightarrow> string" where
  "normalizeLines [] = []"
| "normalizeLines [c] = (if c = carriageReturn then [] else [c])"
| "normalizeLines (c # d # s) =
     (if c = carriageReturn \<and> d = newline then newline # normalizeLines s else c # normalizeLines (d # s))"

text \<open>A field after its opening quote, and what follows its closing quote; two quotes are one.\<close>

fun quotedField :: "string \<Rightarrow> string \<Rightarrow> (string \<times> string) option" where
  "quotedField acc [] = None"
| "quotedField acc (c # s) =
     (if c \<noteq> quoteChar then quotedField (acc @ [c]) s
      else case s of
             [] \<Rightarrow> Some (acc, [])
           | d # s' \<Rightarrow>
               if d = quoteChar then quotedField (acc @ [quoteChar]) s'
               else if d = CHR '','' \<or> d = newline then Some (acc, s) else None)"

text \<open>A field without quotes ends at a comma or at the end of the line, and has no quote in it.\<close>

definition endsField :: "char \<Rightarrow> bool" where
  "endsField c = (c = CHR '','' \<or> c = newline)"

definition plainField :: "string \<Rightarrow> (string \<times> string) option" where
  "plainField s =
     (let f = takeWhile (\<lambda>c. \<not> endsField c) s
      in if quoteChar \<in> set f then None else Some (f, dropWhile (\<lambda>c. \<not> endsField c) s))"

definition nextField :: "string \<Rightarrow> (string \<times> string) option" where
  "nextField s = (case s of c # s' \<Rightarrow> if c = quoteChar then quotedField [] s' else plainField s | [] \<Rightarrow> plainField s)"

lemma quotedField_length: "quotedField acc s = Some (f, rest) \<Longrightarrow> length rest \<le> length s"
  by (induction acc s rule: quotedField.induct) (auto split: if_splits list.splits)

lemma nextField_length: "nextField s = Some (f, rest) \<Longrightarrow> length rest \<le> length s"
  by (auto simp: nextField_def plainField_def Let_def length_dropWhile_le le_SucI split: list.splits if_splits
      dest: quotedField_length)

function readFields :: "string \<Rightarrow> (string list \<times> string) option" where
  "readFields s =
     (case nextField s of
        None \<Rightarrow> None
      | Some (f, rest) \<Rightarrow>
          (case rest of
             [] \<Rightarrow> Some ([f], [])
           | c # rest' \<Rightarrow>
               if c = newline then Some ([f], rest')
               else map_option (\<lambda>(fs, r). (f # fs, r)) (readFields rest')))"
  by pat_completeness auto
termination
  by (relation "measure length") (auto dest: nextField_length)

declare readFields.simps [simp del]

lemma readFields_Nil [simp]: "readFields [] = Some ([[]], [])"
  by (simp add: readFields.simps [of "[]"] nextField_def plainField_def)

lemma readFields_length: "readFields s = Some (fs, rest) \<Longrightarrow> s \<noteq> [] \<Longrightarrow> length rest < length s"
proof (induction s arbitrary: fs rest rule: readFields.induct)
  case (1 s)
  from "1.prems" obtain f r where field: "nextField s = Some (f, r)"
    by (auto simp: readFields.simps [of s] split: option.splits prod.splits)
  show ?case
  proof (cases r)
    case Nil
    with "1.prems" field show ?thesis by (simp add: readFields.simps [of s])
  next
    case (Cons c r')
    have len: "length r' < length s"
      using nextField_length [OF field] Cons by simp
    show ?thesis
    proof (cases "c = newline \<or> r' = []")
      case True
      then have "rest = r' \<or> rest = []"
        using "1.prems" field Cons
        by (auto simp: readFields.simps [of s] split: if_splits)
      then show ?thesis using len "1.prems"(2) by auto
    next
      case False
      then obtain fs' where "readFields r' = Some (fs', rest)" and "r' \<noteq> []"
        using "1.prems" field Cons by (auto simp: readFields.simps [of s])
      with "1.IH" [OF field refl Cons] False len show ?thesis by fastforce
    qed
  qed
qed

text \<open>
  Every record from here on, or the error that ends the reading.  Empty lines are skipped, and all records have as many
  fields as the first one.
\<close>

function readRecords :: "nat option \<Rightarrow> string \<Rightarrow> string list list \<times> err option" where
  "readRecords width s =
     (case dropWhile (\<lambda>c. c = newline) s of
        [] \<Rightarrow> ([], None)
      | c # s' \<Rightarrow>
          (case readFields (c # s') of
             None \<Rightarrow> ([], Some (External ''parse error''))
           | Some (fs, rest) \<Rightarrow>
               if width \<noteq> None \<and> width \<noteq> Some (length fs) then ([], Some (External ''wrong number of fields''))
               else (case readRecords (Some (length fs)) rest of (rows, e) \<Rightarrow> (fs # rows, e))))"
  by pat_completeness auto
termination
proof (relation "measure (\<lambda>(width, s). length s)", simp)
  fix width :: "nat option" and s c s' p fs rest
  assume "dropWhile (\<lambda>c. c = newline) s = c # s'" and "readFields (c # s') = Some p" and "(fs, rest) = p"
  then have "length rest < length (c # s')" and "length (c # s') \<le> length s"
    using readFields_length [of "c # s'" fs rest] length_dropWhile_le [of "\<lambda>c. c = newline" s] by auto
  then show "((Some (length fs), rest), (width, s)) \<in> measure (\<lambda>(width, s). length s)"
    by simp
qed

declare readRecords.simps [simp del]

definition csvRead :: "string \<Rightarrow> string list list \<times> err option" where
  "csvRead content = readRecords None (normalizeLines content)"
section \<open>Writing\<close>

text \<open>\<open>csv.Writer.Write\<close>: a field is quoted when it has to be.\<close>

definition fieldNeedsQuotes :: "string \<Rightarrow> bool" where
  "fieldNeedsQuotes f =
     (f \<noteq> '''' \<and> (f = [CHR 0x5C, CHR ''.''] \<or> isSpace (hd f) \<or>
        list_ex (\<lambda>c. c = newline \<or> c = carriageReturn \<or> c = quoteChar \<or> c = CHR '','') f))"

definition escaped :: "string \<Rightarrow> string" where
  "escaped f = concat (map (\<lambda>c. if c = quoteChar then [quoteChar, quoteChar] else [c]) f)"

definition csvField :: "string \<Rightarrow> string" where
  "csvField f = (if fieldNeedsQuotes f then quoteChar # escaped f @ [quoteChar] else f)"

text \<open>\<open>strings.Join\<close>.\<close>

fun join :: "string \<Rightarrow> string list \<Rightarrow> string" where
  "join sep [] = ''''"
| "join sep [f] = f"
| "join sep (f # g # fs) = f @ sep @ join sep (g # fs)"

definition csvLine :: "string list \<Rightarrow> string" where
  "csvLine row = join '','' (map csvField row) @ [newline]"

definition csvText :: "string list list \<Rightarrow> string" where
  "csvText rows = concat (map csvLine rows)"

lemma csvText_simps [simp]: "csvText [] = []" "csvText (row # rows) = csvLine row @ csvText rows"
  "csvText (rows @ rows') = csvText rows @ csvText rows'"
  by (simp_all add: csvText_def)

text \<open>What is written is read back.\<close>

lemma quotedField_escaped: "endsField c \<Longrightarrow> quotedField acc (escaped f @ quoteChar # c # s) = Some (acc @ f, c # s)"
  by (induction f arbitrary: acc) (auto simp: escaped_def endsField_def)

lemma nextField_csvField:
  assumes "endsField c"
  shows "nextField (csvField f @ c # s) = Some (f, c # s)"
proof (cases "fieldNeedsQuotes f")
  case True
  then show ?thesis
    using quotedField_escaped [OF assms, of "[]" f s] by (simp add: csvField_def nextField_def)
next
  case False
  then have plain: "f = [] \<or> list_all (\<lambda>d. \<not> endsField d \<and> d \<noteq> quoteChar) f"
    by (auto simp: fieldNeedsQuotes_def list_all_iff list_ex_iff endsField_def)
  then have "takeWhile (\<lambda>d. \<not> endsField d) (f @ c # s) = f" "dropWhile (\<lambda>d. \<not> endsField d) (f @ c # s) = c # s"
    using assms by (auto simp: list_all_iff takeWhile_append dropWhile_append)
  moreover have "quoteChar \<notin> set f" and "nextField (f @ c # s) = plainField (f @ c # s)"
    using plain assms by (cases f; auto simp: nextField_def list_all_iff endsField_def)+
  ultimately show ?thesis
    using False by (simp add: csvField_def plainField_def Let_def)
qed

lemma readFields_csvLine:
  assumes "row \<noteq> []"
  shows "readFields (csvLine row @ s) = Some (row, s)"
  using assms
proof (induction row)
  case (Cons f fs)
  show ?case
  proof (cases fs)
    case Nil
    then show ?thesis
      using nextField_csvField [of newline f s] by (simp add: csvLine_def readFields.simps [of "csvField f @ newline # s"] endsField_def)
  next
    case (Cons g gs)
    then have "readFields (csvLine fs @ s) = Some (fs, s)"
      using Cons.IH by simp
    moreover have line: "csvLine (f # fs) @ s = csvField f @ CHR '','' # csvLine fs @ s"
      using Cons by (simp add: csvLine_def)
    moreover have "nextField (csvField f @ CHR '','' # csvLine fs @ s) = Some (f, CHR '','' # csvLine fs @ s)"
      by (rule nextField_csvField) (simp add: endsField_def)
    ultimately show ?thesis
      unfolding line by (subst readFields.simps) simp
  qed
qed simp

lemma csvLine_start: "2 \<le> length row \<Longrightarrow> \<exists>c s. csvLine row = c # s \<and> c \<noteq> newline"
proof -
  assume "2 \<le> length row"
  then obtain f g fs where row: "row = f # g # fs"
    by (metis Suc_le_length_iff numeral_2_eq_2)
  show ?thesis
  proof (cases f)
    case Nil
    then show ?thesis by (simp add: row csvLine_def csvField_def fieldNeedsQuotes_def)
  next
    case (Cons c s)
    then show ?thesis
      by (auto simp: row csvLine_def csvField_def fieldNeedsQuotes_def)
  qed
qed

lemma readRecords_csvText:
  assumes "\<forall>row\<in>set rows. length row = n" and "2 \<le> n" and "w = None \<or> w = Some n"
  shows "readRecords w (csvText rows) = (rows, None)"
  using assms(1,3)
proof (induction rows arbitrary: w)
  case Nil
  then show ?case by (simp add: readRecords.simps)
next
  case (Cons row rows)
  from csvLine_start [of row] Cons.prems(1) assms(2) obtain c s where line: "csvLine row = c # s" "c \<noteq> newline"
    by auto
  have "readFields (csvLine row @ csvText rows) = Some (row, csvText rows)"
    using Cons.prems(1) assms(2) by (intro readFields_csvLine) auto
  then have fields: "readFields (c # s @ csvText rows) = Some (row, csvText rows)"
    by (simp add: line(1))
  have "readRecords (Some n) (csvText rows) = (rows, None)"
    using Cons by simp
  then show ?case
    using Cons.prems line(2) by (auto simp: readRecords.simps [of w] line(1) fields)
qed

lemma normalizeLines_plain: "carriageReturn \<notin> set s \<Longrightarrow> normalizeLines s = s"
  by (induction s rule: normalizeLines.induct) auto

lemma set_join: "set (join sep fs) \<subseteq> \<Union> (set (map set fs)) \<union> set sep"
  by (induction sep fs rule: join.induct) auto

lemma csvLine_plain: "\<forall>f\<in>set row. carriageReturn \<notin> set f \<Longrightarrow> carriageReturn \<notin> set (csvLine row)"
  using set_join [of "'',''" "map csvField row"] by (auto simp: csvLine_def csvField_def escaped_def split: if_splits)

lemma csvRead_csvText:
  assumes "\<forall>row\<in>set rows. length row = n \<and> (\<forall>f\<in>set row. carriageReturn \<notin> set f)" and "2 \<le> n"
  shows "csvRead (csvText rows) = (rows, None)"
proof -
  have "carriageReturn \<notin> set (csvText rows)"
    using assms(1) by (auto simp: csvText_def dest: csvLine_plain)
  then show ?thesis
    unfolding csvRead_def using readRecords_csvText [of rows n None] assms by (simp add: normalizeLines_plain)
qed

section \<open>Names of objects\<close>

text \<open>\<open>filepath.Clean\<close>, \<open>Dir\<close> and \<open>Base\<close> for a slash.\<close>

definition cleanStep :: "bool \<Rightarrow> string list \<Rightarrow> string \<Rightarrow> string list" where
  "cleanStep rooted out c =
     (if c = '''' \<or> c = ''.'' then out
      else if c = ''..'' then
        (if out \<noteq> [] \<and> last out \<noteq> ''..'' then butlast out else if rooted then out else out @ [c])
      else out @ [c])"

definition Clean :: "string \<Rightarrow> string" where
  "Clean path =
     (if path = '''' then ''.''
      else let rooted = (hd path = CHR ''/'');
               out = foldl (cleanStep rooted) [] (splitAt (CHR ''/'') path);
               cleaned = (if rooted then ''/'' else '''') @ join ''/'' out
           in if cleaned = '''' then ''.'' else cleaned)"

definition Dir :: "string \<Rightarrow> string" where
  "Dir path = Clean (rev (dropWhile (\<lambda>c. c \<noteq> CHR ''/'') (rev path)))"

definition Base :: "string \<Rightarrow> string" where
  "Base path =
     (if path = '''' then ''.''
      else let stripped = dropWhile (\<lambda>c. c = CHR ''/'') (rev path);
               name = rev (takeWhile (\<lambda>c. c \<noteq> CHR ''/'') stripped)
           in if name = '''' then ''/'' else name)"

record CloudStoragePayload =
  csp_Filename :: string
  csp_Path :: string

definition GetFilePath :: "CloudStoragePayload \<Rightarrow> string" where
  "GetFilePath c = csp_Path c @ ''/'' @ csp_Filename c"

definition NewCloudStoragePayload :: "string \<Rightarrow> CloudStoragePayload" where
  "NewCloudStoragePayload input =
     (let cleaned = Clean input; path = Dir cleaned
      in \<lparr>csp_Filename = Base cleaned, csp_Path = (if TrimSpace path = ''.'' then '''' else path)\<rparr>)"

text \<open>A name made of plain parts is split where it was put together.\<close>

definition plainPart :: "string \<Rightarrow> bool" where
  "plainPart c = (c \<noteq> '''' \<and> c \<noteq> ''.'' \<and> c \<noteq> ''..'' \<and> CHR ''/'' \<notin> set c)"

lemma splitAt_append: "sep \<notin> set s \<Longrightarrow> splitAt sep (s @ sep # t) = s # splitAt sep t"
  by (induction s) auto

lemma splitAt_join: "list_all (\<lambda>c. sep \<notin> set c) cs \<Longrightarrow> cs \<noteq> [] \<Longrightarrow> splitAt sep (join [sep] cs) = cs"
  by (induction "[sep]" cs rule: join.induct) (auto simp: splitAt_single splitAt_append)

lemma cleanStep_plain: "list_all plainPart cs \<Longrightarrow> foldl (cleanStep rooted) out cs = out @ cs"
  by (induction cs arbitrary: out) (auto simp: cleanStep_def plainPart_def)

lemma join_parts: "list_all plainPart cs \<Longrightarrow> cs \<noteq> [] \<Longrightarrow> join ''/'' cs \<noteq> [] \<and> hd (join ''/'' cs) \<noteq> CHR ''/''"
  by (induction "''/''" cs rule: join.induct) (auto simp: plainPart_def hd_append dest: hd_in_set)

lemma Clean_parts:
  assumes "list_all plainPart cs" and "cs \<noteq> []"
  shows "Clean (join ''/'' cs) = join ''/'' cs" and "Clean (join ''/'' cs @ ''/'') = join ''/'' cs"
proof -
  have plain: "list_all (\<lambda>c. CHR ''/'' \<notin> set c) cs"
    using assms(1) by (auto simp: list_all_iff plainPart_def)
  note start = join_parts [OF assms]
  show "Clean (join ''/'' cs) = join ''/'' cs"
    using start by (simp add: Clean_def splitAt_join [OF plain assms(2)] cleanStep_plain [OF assms(1)])
  have "splitAt (CHR ''/'') (join ''/'' cs @ ''/'') = cs @ ['''']"
    using plain assms(2) by (induction "''/''" cs rule: join.induct) (auto simp: splitAt_append)
  then show "Clean (join ''/'' cs @ ''/'') = join ''/'' cs"
    using start by (simp add: Clean_def cleanStep_plain [OF assms(1)]) (simp add: cleanStep_def)
qed

lemma join_snoc: "cs \<noteq> [] \<Longrightarrow> join sep (cs @ [c]) = join sep cs @ sep @ c"
  by (induction sep cs rule: join.induct) auto

lemma NewCloudStoragePayload_GetFilePath:
  assumes "list_all plainPart cs" and "cs \<noteq> []" and "plainPart name" and "TrimSpace (join ''/'' cs) \<noteq> ''.''"
  shows "NewCloudStoragePayload (GetFilePath \<lparr>csp_Filename = name, csp_Path = join ''/'' cs\<rparr>) =
    \<lparr>csp_Filename = name, csp_Path = join ''/'' cs\<rparr>"
proof -
  have path: "GetFilePath \<lparr>csp_Filename = name, csp_Path = join ''/'' cs\<rparr> = join ''/'' (cs @ [name])"
    using assms(2) by (simp add: GetFilePath_def join_snoc)
  have clean: "Clean (join ''/'' (cs @ [name])) = join ''/'' (cs @ [name])"
    using assms(1,3) by (intro Clean_parts) auto
  have name: "\<forall>c\<in>set (rev name). c \<noteq> CHR ''/''" "name \<noteq> ''''"
    using assms(3) by (auto simp: plainPart_def)
  have rev: "rev (join ''/'' (cs @ [name])) = rev name @ CHR ''/'' # rev (join ''/'' cs)"
    using assms(2) by (simp add: join_snoc)
  have "dropWhile (\<lambda>c. c \<noteq> CHR ''/'') (rev (join ''/'' (cs @ [name]))) = CHR ''/'' # rev (join ''/'' cs)"
    unfolding rev using name(1) by (simp add: dropWhile_append)
  then have dir: "Dir (join ''/'' (cs @ [name])) = join ''/'' cs"
    using Clean_parts(2) [OF assms(1,2)] by (simp add: Dir_def)
  have "dropWhile (\<lambda>c. c = CHR ''/'') (rev (join ''/'' (cs @ [name]))) = rev (join ''/'' (cs @ [name]))"
    unfolding rev using name by (cases name rule: rev_cases) auto
  moreover have "takeWhile (\<lambda>c. c \<noteq> CHR ''/'') (rev (join ''/'' (cs @ [name]))) = rev name"
    unfolding rev using name(1) by (simp add: takeWhile_append)
  ultimately have "Base (join ''/'' (cs @ [name])) = name"
    using name(2) rev by (auto simp: Base_def Let_def)
  then show ?thesis
    unfolding path using clean dir assms(4) by (simp add: NewCloudStoragePayload_def Let_def)
qed

end
