(* ===== verification/Recon.thy ===== *)
theory Recon
  imports CsvFiles TransactionListing
begin

text \<open>
  Reconciliation of an uploaded file with the ledger: the records of \<open>internal/models/recon.go\<close> and \<open>recon_topup.go\<close>, the
  table \<open>recon_tool_history\<close> with its statements (\<open>internal/repositories/sql_recon_tool_history.go\<close>), the local store of
  \<open>internal/common/local_storage\<close>, \<open>internal/services/recon_service_process_task.go\<close>, the upload of
  \<open>recon_service.go\<close>, and the consumer of \<open>internal/deliveries/consumer/task_queue_recon\<close>.
\<close>

section \<open>Records\<close>

datatype (plugins only: code) StatusReconRecord =
    ReconNotChecked
  | ReconNotExistsDBExistsCSV
  | ReconExistsDBNotExistsCSV
  | ReconMatch

fun reconTitle :: "StatusReconRecord \<Rightarrow> string" where
  "reconTitle ReconNotChecked = ''Not Checked''"
| "reconTitle ReconNotExistsDBExistsCSV = ''Not Exists in DB, Exists in CSV''"
| "reconTitle ReconExistsDBNotExistsCSV = ''Exists in DB, Not Exists in CSV''"
| "reconTitle ReconMatch = ''Match''"

record 'd ReconRecord =
  rr_Identifier :: string
  rr_Amount :: 'd
  rr_RefNumber :: string
  rr_CustomerName :: string
  rr_LenderID :: string
  rr_Match :: bool
  rr_PaymentDate :: string
  rr_Status :: StatusReconRecord

record ReconToolHistory =
  rh_ID :: int
  rh_OrderType :: string
  rh_TransactionType :: string
  rh_TransactionDate :: "nat option"
  rh_ResultFilePath :: string
  rh_UploadedFilePath :: string
  rh_Status :: string
  rh_CreatedAt :: int
  rh_UpdatedAt :: int

text \<open>The layout \<open>02-Jan-2006\<close>: printing a day, and whether a text is read.  Months are read in any case.\<close>

definition shortMonthNames :: "string list" where
  "shortMonthNames =
     [''Jan'', ''Feb'', ''Mar'', ''Apr'', ''May'', ''Jun'', ''Jul'', ''Aug'', ''Sep'', ''Oct'', ''Nov'', ''Dec'']"

definition FormatDDMMMYYYY :: "nat \<Rightarrow> string" where
  "FormatDDMMMYYYY d =
     (let (y, m, day) = dateOf d in padded 2 day @ CHR ''-'' # shortMonthNames ! (m - 1) @ CHR ''-'' # padded 4 y)"

definition parseMonthName :: "string \<Rightarrow> (nat \<times> string) option" where
  "parseMonthName s =
     map_option (\<lambda>(m, _). (m, drop 3 s))
       (find (\<lambda>(m, name). EqualFold (take 3 s) name) (zip [1..<13] shortMonthNames))"

definition readsDDMMMYYYY :: "string \<Rightarrow> bool" where
  "readsDDMMMYYYY s =
     (Option.bind (getnum True s) (\<lambda>(day, s). Option.bind (skipChar (CHR ''-'') s) (\<lambda>s.
      Option.bind (parseMonthName s) (\<lambda>(m, s). Option.bind (skipChar (CHR ''-'') s) (\<lambda>s.
      Option.bind (parseYear s) (\<lambda>(y, s). if s = '''' \<and> validDate y m day then Some () else None))))) \<noteq> None)"

section \<open>The store and the history\<close>

text \<open>
  The local store, in the order of its keys.  Values are stored as JSON, which keeps them.  The directory outlives a
  process that ends early.
\<close>

type_synonym 'd LocalStore = "(string \<times> 'd ReconRecord list) list"

fun storageSet :: "string \<Rightarrow> 'v \<Rightarrow> (string \<times> 'v) list \<Rightarrow> (string \<times> 'v) list" where
  "storageSet k v [] = [(k, v)]"
| "storageSet k v ((l, w) # s) =
     (if k = l then (k, v) # s else if k < l then (k, v) # (l, w) # s else (l, w) # storageSet k v s)"

definition storageDelete :: "string \<Rightarrow> (string \<times> 'v) list \<Rightarrow> (string \<times> 'v) list" where
  "storageDelete k s = filter (\<lambda>(l, _). l \<noteq> k) s"

definition storageGet :: "string \<Rightarrow> (string \<times> 'v list) list \<Rightarrow> 'v list" where
  "storageGet k s = (case map_of s k of None \<Rightarrow> [] | Some v \<Rightarrow> v)"

datatype (plugins only: code) storageCall =
    StorageOpen
  | StorageGet string
  | StorageSet string
  | StorageDelete string
  | StorageForEach
  | StorageClean

datatype (plugins only: code) reconCall =
    InsertHistory
  | SelectHistory
  | UpdateHistory string
  | DeleteHistory
  | OpenObject
  | DeleteObject
  | PublishTask

text \<open>
  The tables, history and bucket are the state, with what is published; the rest is the environment: the ledger and how
  many of its rows the connection delivers, the libraries for JSON and decimals, the zone of the server and its clock,
  and a fault for every call.  A writer of an object may fail after some rows and when it is closed.
\<close>

record 'd ReconWorld =
  rw_history :: "ReconToolHistory list"
  rw_nextId :: int
  rw_bucket :: "string \<rightharpoonup> string"
  rw_tasks :: "(string \<times> string) list"
  rw_storage :: "'d LocalStore"

record 'd ReconService =
  rs_tables :: "'d TransactionTables"
  rs_delivered :: "nat option"
  rs_virtualAccount :: "string \<Rightarrow> string option result"
  rs_parseDecimal :: "string \<Rightarrow> 'd result"
  rs_decimalText :: "'d \<Rightarrow> string"
  rs_errorText :: "err \<Rightarrow> string"
  rs_unmarshalTask :: "string \<Rightarrow> (string \<times> string) result"
  rs_sign :: "string \<Rightarrow> int \<Rightarrow> string result"
  rs_resultExpiry :: int
  rs_now :: int
  rs_zone :: int
  rs_storageFault :: "storageCall \<Rightarrow> err option"
  rs_fault :: "reconCall \<Rightarrow> err option"
  rs_writeFault :: "nat \<Rightarrow> err option"
  rs_closeFault :: "err option"

definition withFault :: "err option \<Rightarrow> ('s, 'a) exec \<Rightarrow> ('s, 'a) exec" where
  "withFault e m = (case e of None \<Rightarrow> m | Some e \<Rightarrow> fail e)"

fun forEach :: "('a \<Rightarrow> ('s, unit) exec) \<Rightarrow> 'a list \<Rightarrow> ('s, unit) exec" where
  "forEach f [] = return ()"
| "forEach f (x # xs) = bind (f x) (\<lambda>_. forEach f xs)"

definition RepoReconGetById :: "'d ReconService \<Rightarrow> nat \<Rightarrow> ('d ReconWorld, ReconToolHistory) exec" where
  "RepoReconGetById svc i w =
     (case rs_fault svc SelectHistory of
        Some e \<Rightarrow> (Err e, w)
      | None \<Rightarrow>
          (case find (\<lambda>h. rh_ID h = int i) (rw_history w) of
             None \<Rightarrow> (Err (Sentinel ErrDataNotFound), w)
           | Some h \<Rightarrow> (Ok h, w)))"

definition RepoReconUpdate :: "'d ReconService \<Rightarrow> int \<Rightarrow> ReconToolHistory \<Rightarrow> ('d ReconWorld, unit) exec" where
  "RepoReconUpdate svc i data w =
     (case rs_fault svc (UpdateHistory (rh_Status data)) of
        Some e \<Rightarrow> (Err e, w)
      | None \<Rightarrow>
          if \<not> list_ex (\<lambda>h. rh_ID h = i) (rw_history w) then (Err (Sentinel ErrNoRowsAffected), w)
          else (Ok (),
                w\<lparr>rw_history :=
                    map (\<lambda>h. if rh_ID h = i
                             then h\<lparr>rh_OrderType := rh_OrderType data, rh_TransactionType := rh_TransactionType data,
                                    rh_TransactionDate := rh_TransactionDate data,
                                    rh_UploadedFilePath := rh_UploadedFilePath data,
                                    rh_ResultFilePath := rh_ResultFilePath data, rh_Status := rh_Status data,
                                    rh_UpdatedAt := rs_now svc\<rparr>
                             else h) (rw_history w)\<rparr>))"

record CreateReconToolHistoryIn =
  ch_OrderType :: string
  ch_TransactionType :: string
  ch_TransactionDate :: string
  ch_UploadedFilePath :: string
  ch_Status :: string

text \<open>The date is a text that the database reads; a value of the sequence is used up also without a row.\<close>

definition RepoReconCreate :: "'d ReconService \<Rightarrow> CreateReconToolHistoryIn \<Rightarrow> ('d ReconWorld, ReconToolHistory) exec" where
  "RepoReconCreate svc data w =
     (case rs_fault svc InsertHistory of
        Some e \<Rightarrow> (Err e, w)
      | None \<Rightarrow>
          (case ParseDateUTC (ch_TransactionDate data) of
             None \<Rightarrow> (Err (External ''invalid input syntax for type date''), w)
           | Some date \<Rightarrow>
               (let h = \<lparr>rh_ID = rw_nextId w, rh_OrderType = ch_OrderType data,
                         rh_TransactionType = ch_TransactionType data,
                         rh_TransactionDate = Some (nat (date div nsPerDay)), rh_ResultFilePath = '''',
                         rh_UploadedFilePath = ch_UploadedFilePath data, rh_Status = ch_Status data,
                         rh_CreatedAt = rs_now svc, rh_UpdatedAt = rs_now svc\<rparr>
                in (Ok h, w\<lparr>rw_history := rw_history w @ [h], rw_nextId := rw_nextId w + 1\<rparr>))))"

definition RepoReconDeleteByID :: "'d ReconService \<Rightarrow> int \<Rightarrow> ('d ReconWorld, unit) exec" where
  "RepoReconDeleteByID svc i =
     withFault (rs_fault svc DeleteHistory)
       (\<lambda>w. (Ok (), w\<lparr>rw_history := filter (\<lambda>h. rh_ID h \<noteq> i) (rw_history w)\<rparr>))"
section \<open>From the ledger into the store\<close>

definition ConvertTransactionTopUpToReconRecord :: "'d::zero ReconService \<Rightarrow> 'd ListedTransaction \<Rightarrow> 'd ReconRecord result" where
  "ConvertTransactionTopUpToReconRecord svc row =
     (let t = lt_Transaction row
      in rbind (if txn_Metadata t = '''' then Ok None
                else case rs_virtualAccount svc (txn_Metadata t) of
                       Inl e \<Rightarrow> Err (wrapErr ''failed to unmarshal metadata'' e)
                     | Inr v \<Rightarrow> Ok v) (\<lambda>virtualAccount.
         Ok \<lparr>rr_Identifier = (case virtualAccount of None \<Rightarrow> txn_RefNumber t | Some n \<Rightarrow> n),
             rr_Amount = (case txn_Amount t of None \<Rightarrow> 0 | Some a \<Rightarrow> a), rr_RefNumber = txn_RefNumber t,
             rr_CustomerName = '''', rr_LenderID = '''', rr_Match = False,
             rr_PaymentDate = FormatDDMMMYYYY (lt_TransactionDate row), rr_Status = ReconNotChecked\<rparr>))"

text \<open>
  \<open>StreamAll\<close>: the rows of the list query, then an error when there is one.  The loop does not look at the error of the
  rows, so that a connection that breaks ends the stream like its last row.
\<close>

definition reconFilterOpts :: "ReconToolHistory \<Rightarrow> TransactionFilterOptions" where
  "reconFilterOpts h =
     \<lparr>tf_Search = '''', tf_SearchBy = '''', tf_OrderType = '''', tf_TransactionType = rh_TransactionType h,
      tf_TransactionTypes = [], tf_StartDate = None, tf_EndDate = None,
      tf_TransactionDate = map_option (\<lambda>d. int d * nsPerDay) (rh_TransactionDate h), tf_Limit = 0,
      tf_ProductTypeName = '''', tf_OnlyAMF = False, tf_Cursor = None\<rparr>"

definition StreamAll ::
  "'d ReconService \<Rightarrow> TransactionFilterOptions \<Rightarrow> 'd ListedTransaction list \<times> err option" where
  "StreamAll svc opts =
     (case tt_listFault (rs_tables svc) of
        Some e \<Rightarrow> ([], Some e)
      | None \<Rightarrow>
          (let rows = listTransactionQuery (rs_tables svc) opts
           in (case rs_delivered svc of None \<Rightarrow> rows | Some n \<Rightarrow> take n rows, None)))"

definition lsGet :: "'d ReconService \<Rightarrow> string \<Rightarrow> ('d LocalStore, 'd ReconRecord list) exec" where
  "lsGet svc k s =
     (case rs_storageFault svc (StorageGet k) of
        Some e \<Rightarrow> (Err (wrapErr ''failed to get value from localstorage'' e), s)
      | None \<Rightarrow> (Ok (storageGet k s), s))"

definition lsSet :: "'d ReconService \<Rightarrow> string \<Rightarrow> 'd ReconRecord list \<Rightarrow> ('d LocalStore, unit) exec" where
  "lsSet svc k v s =
     (case rs_storageFault svc (StorageSet k) of
        Some e \<Rightarrow> (Err (wrapErr ''failed to set value to localstorage'' e), s)
      | None \<Rightarrow> (Ok (), storageSet k v s))"

definition lsDelete :: "'d ReconService \<Rightarrow> string \<Rightarrow> ('d LocalStore, unit) exec" where
  "lsDelete svc k s =
     (case rs_storageFault svc (StorageDelete k) of
        Some e \<Rightarrow> (Err (wrapErr ''failed to delete value from localstorage'' e), s)
      | None \<Rightarrow> (Ok (), storageDelete k s))"

definition storeTransaction :: "'d::zero ReconService \<Rightarrow> 'd ListedTransaction \<Rightarrow> ('d LocalStore, unit) exec" where
  "storeTransaction svc row =
     bind (wrapping ''failed to convert transaction to recon record'' (call (ConvertTransactionTopUpToReconRecord svc row))) (\<lambda>r.
     bind (wrapping ''failed to get value from localstorage'' (lsGet svc (rr_Identifier r))) (\<lambda>records.
     wrapping ''failed to set value to localstorage'' (lsSet svc (rr_Identifier r) (records @ [r]))))"

definition streamTransactionsToLocalStorage :: "'d::zero ReconService \<Rightarrow> ReconToolHistory \<Rightarrow> ('d LocalStore, unit) exec" where
  "streamTransactionsToLocalStorage svc h =
     (case StreamAll svc (reconFilterOpts h) of
        (rows, e) \<Rightarrow>
          bind (forEach (storeTransaction svc) rows) (\<lambda>_.
            case e of None \<Rightarrow> return () | Some e \<Rightarrow> fail (wrapErr ''failed to stream transaction'' e)))"

section \<open>From the file to the report\<close>

definition ConvertStringCSVToReconRecord :: "'d ReconService \<Rightarrow> string list \<Rightarrow> 'd ReconRecord result" where
  "ConvertStringCSVToReconRecord svc data =
     (if length data \<noteq> 4 then Err (ErrorMsg ''data length is not 5'')
      else case rs_parseDecimal svc (data ! 1) of
        Inl e \<Rightarrow> Err (wrapErr ''failed to convert string to decimal'' e)
      | Inr amount \<Rightarrow>
          if \<not> readsDDMMMYYYY (data ! 2) then Err (wrapErr ''failed to parse payment date'' (External ''parsing time''))
          else Ok \<lparr>rr_Identifier = data ! 0, rr_Amount = amount, rr_RefNumber = '''', rr_CustomerName = '''',
                   rr_LenderID = '''', rr_Match = False, rr_PaymentDate = data ! 2, rr_Status = ReconNotChecked\<rparr>)"

definition csvHeaderReconRecord :: "string list" where
  "csvHeaderReconRecord =
     [''identifier'', ''amount'', ''orderType'', ''transactionType'', ''transactionDate'', ''refNumber'', ''lenderId'',
      ''customerName'', ''reconDate'', ''match'', ''status'']"

text \<open>The layout \<open>2006-01-02 15:04:05\<close>, in Jakarta.\<close>

definition reconDateText :: "int \<Rightarrow> string" where
  "reconDateText t =
     (let l = t + jakartaOffset
      in dateText (nat (l div nsPerDay)) @ '' '' @ clockText (nat (l mod nsPerDay) div 1000000000))"

definition ToCSVRow :: "'d ReconService \<Rightarrow> ReconToolHistory \<Rightarrow> 'd ReconRecord \<Rightarrow> string list" where
  "ToCSVRow svc h r =
     [rr_Identifier r, rs_decimalText svc (rr_Amount r), rh_OrderType h, rh_TransactionType h, rr_PaymentDate r,
      rr_RefNumber r, rr_LenderID r, rr_CustomerName r, reconDateText (rh_CreatedAt h),
      (if rr_Match r then ''true'' else ''false''), reconTitle (rr_Status r)]"

definition ToCSVRowWithErr :: "'d ReconService \<Rightarrow> ReconToolHistory \<Rightarrow> 'd ReconRecord \<Rightarrow> err \<Rightarrow> string list" where
  "ToCSVRowWithErr svc h r e =
     [rr_Identifier r, rs_decimalText svc (rr_Amount r), rh_OrderType h, rh_TransactionType h, rr_PaymentDate r,
      rr_RefNumber r, rr_LenderID r, rr_CustomerName r, reconDateText (rh_CreatedAt h), ''-'', rs_errorText svc e]"

text \<open>The store and the rows written to the report so far.\<close>

type_synonym 'd Reporting = "'d LocalStore \<times> string list list"

definition writeRow :: "'d ReconService \<Rightarrow> string \<Rightarrow> string list \<Rightarrow> ('d Reporting, unit) exec" where
  "writeRow svc message row s =
     (case rs_writeFault svc (length (snd s)) of
        Some e \<Rightarrow> (Err (wrapErr message e), s)
      | None \<Rightarrow> (Ok (), (fst s, snd s @ [row])))"

definition writePayload :: "'d ReconService \<Rightarrow> string list \<Rightarrow> ('d Reporting, unit) exec" where
  "writePayload svc = writeRow svc ''failed to write payload to file''"

text \<open>A call on the store whose error is written to the report in place of the row.\<close>

definition orReport ::
  "'d ReconService \<Rightarrow> ReconToolHistory \<Rightarrow> 'd ReconRecord \<Rightarrow> ('d LocalStore, 'a) exec \<Rightarrow> ('a \<Rightarrow> ('d Reporting, unit) exec) \<Rightarrow>
    ('d Reporting, unit) exec" where
  "orReport svc h r m f s =
     (case m (fst s) of
        (Inl e, ls) \<Rightarrow> writePayload svc (ToCSVRowWithErr svc h r e) (ls, snd s)
      | (Inr x, ls) \<Rightarrow> f x (ls, snd s))"

text \<open>The first record with the amount, and the records without it.\<close>

fun takeMatching :: "'d \<Rightarrow> 'd ReconRecord list \<Rightarrow> ('d ReconRecord \<times> 'd ReconRecord list) option" where
  "takeMatching a [] = None"
| "takeMatching a (r # rs) =
     (if rr_Amount r = a then Some (r, rs) else map_option (\<lambda>(m, rest). (m, r # rest)) (takeMatching a rs))"

definition unreadableRecord :: "string list \<Rightarrow> 'd::zero ReconRecord" where
  "unreadableRecord row =
     \<lparr>rr_Identifier = (if 0 < length row then row ! 0 else ''''), rr_Amount = 0, rr_RefNumber = '''', rr_CustomerName = '''',
      rr_LenderID = '''', rr_Match = False, rr_PaymentDate = '''', rr_Status = ReconNotChecked\<rparr>"

definition checkRecord :: "'d ReconService \<Rightarrow> ReconToolHistory \<Rightarrow> 'd ReconRecord \<Rightarrow> ('d Reporting, unit) exec" where
  "checkRecord svc h r =
     orReport svc h r (lsGet svc (rr_Identifier r)) (\<lambda>records.
       if records = [] then writePayload svc (ToCSVRow svc h (r\<lparr>rr_Status := ReconNotExistsDBExistsCSV\<rparr>))
       else
         (let (r', records') =
                (case takeMatching (rr_Amount r) records of
                   None \<Rightarrow> (r\<lparr>rr_Status := ReconNotExistsDBExistsCSV\<rparr>, records)
                 | Some (m, rest) \<Rightarrow> (r\<lparr>rr_Match := True, rr_RefNumber := rr_RefNumber m, rr_Status := ReconMatch\<rparr>, rest))
          in orReport svc h r'
               (if records' \<noteq> [] then lsSet svc (rr_Identifier r) records' else lsDelete svc (rr_Identifier r))
               (\<lambda>_. writePayload svc (ToCSVRow svc h r'))))"

definition isTemplateHeader :: "string list \<Rightarrow> bool" where
  "isTemplateHeader row = stringsContains (join '','' row) ''identifier,amount,payment_date''"

definition reconDay :: "ReconToolHistory \<Rightarrow> string" where
  "reconDay h = (case rh_TransactionDate h of None \<Rightarrow> '''' | Some d \<Rightarrow> FormatDDMMMYYYY d)"

definition processCSVRow :: "'d::zero ReconService \<Rightarrow> ReconToolHistory \<Rightarrow> string list \<Rightarrow> ('d Reporting, unit) exec" where
  "processCSVRow svc h row =
     (if isTemplateHeader row then return ()
      else case ConvertStringCSVToReconRecord svc row of
        Inl e \<Rightarrow> writePayload svc (ToCSVRowWithErr svc h (unreadableRecord row) e)
      | Inr r \<Rightarrow> if rr_PaymentDate r \<noteq> reconDay h then return () else checkRecord svc h r)"

text \<open>What is left in the store is in the ledger only; the store is read as it was when the reading began.\<close>

definition reportLeft :: "'d ReconService \<Rightarrow> ReconToolHistory \<Rightarrow> ('d Reporting, unit) exec" where
  "reportLeft svc h s =
     wrapping ''failed to loop localstorage''
       (wrapping ''failed to iterate over localstorage''
         (withFault (rs_storageFault svc StorageForEach)
           (forEach (\<lambda>r. writePayload svc (ToCSVRow svc h (r\<lparr>rr_Status := ReconExistsDBNotExistsCSV\<rparr>)))
             (concat (map snd (fst s)))))) s"

definition reportRows :: "'d::zero ReconService \<Rightarrow> ReconToolHistory \<Rightarrow> string \<Rightarrow> ('d Reporting, unit) exec" where
  "reportRows svc h content =
     bind (writeRow svc ''failed to write header to file'' csvHeaderReconRecord) (\<lambda>_.
     case csvRead content of
       (rows, e) \<Rightarrow>
         bind (wrapping ''failed to process csv row'' (forEach (processCSVRow svc h) rows)) (\<lambda>_.
         bind (case e of None \<Rightarrow> return () | Some e \<Rightarrow> fail (wrapErr ''failed to read csv row'' e)) (\<lambda>_.
         reportLeft svc h)))"

text \<open>
  \<open>YYYYMMDDhhmmss\<close>, year and month of an instant in a zone (minutes east of UTC): the name of the file that is written.
\<close>

definition stampedFile :: "string \<Rightarrow> int \<Rightarrow> int \<Rightarrow> CloudStoragePayload" where
  "stampedFile kind zone t =
     (let l = t + zone * nsPerMinute; (y, m, day) = dateOf (nat (l div nsPerDay)); secs = nat (l mod nsPerDay) div 1000000000
      in \<lparr>csp_Filename =
            padded 4 y @ padded 2 m @ padded 2 day @ padded 2 (secs div 3600) @ padded 2 (secs div 60 mod 60) @
            padded 2 (secs mod 60) @ ''.csv'',
          csp_Path = ''recon_tools/'' @ kind @ ''/'' @ padded 4 y @ ''/'' @ padded 2 m\<rparr>)"

text \<open>
  An object exists once its writer is closed without an error, also when what was to be written ended early; the error of
  closing is assigned to a variable that is not returned, and the error of flushing is not asked for.
\<close>

definition closeObject :: "'d ReconService \<Rightarrow> string \<Rightarrow> string list list \<Rightarrow> 'd ReconWorld \<Rightarrow> 'd ReconWorld" where
  "closeObject svc name rows w =
     (if rs_closeFault svc = None \<and> rs_writeFault svc (length rows) = None
      then w\<lparr>rw_bucket := (rw_bucket w)(name \<mapsto> csvText rows)\<rparr> else w)"

definition NewReader :: "'d ReconService \<Rightarrow> CloudStoragePayload \<Rightarrow> 'd ReconWorld \<Rightarrow> string result" where
  "NewReader svc payload w =
     (case rs_fault svc OpenObject of
        Some e \<Rightarrow> Err (ErrorMsg ''failed to open object in bucket'')
      | None \<Rightarrow>
          (case rw_bucket w (GetFilePath payload) of
             None \<Rightarrow> Err (ErrorMsg ''failed to open object in bucket'')
           | Some content \<Rightarrow> Ok content))"

definition reconcileRecordsAndGenerateReport ::
  "'d::zero ReconService \<Rightarrow> ReconToolHistory \<Rightarrow> ('d ReconWorld, string) exec" where
  "reconcileRecordsAndGenerateReport svc h w =
     (case NewReader svc (NewCloudStoragePayload (rh_UploadedFilePath h)) w of
        Inl e \<Rightarrow> (Err (wrapErr ''failed to read csv file'' e), w)
      | Inr content \<Rightarrow>
          (let path = GetFilePath (stampedFile ''result'' (rs_zone svc) (rs_now svc))
           in case reportRows svc h content (rw_storage w, []) of
                (r, (ls, rows)) \<Rightarrow>
                  (rbind r (\<lambda>_. Ok path), closeObject svc path rows (w\<lparr>rw_storage := ls\<rparr>))))"

section \<open>The task\<close>

definition prepareReconHistory :: "'d ReconService \<Rightarrow> nat \<Rightarrow> ('d ReconWorld, ReconToolHistory) exec" where
  "prepareReconHistory svc i =
     bind (RepoReconGetById svc i) (\<lambda>h.
     failWhen (rh_TransactionDate h = None) (ErrorMsg ''transaction date is empty'')
       (bind (RepoReconUpdate svc (int i) (h\<lparr>rh_Status := ''PROCESSING''\<rparr>)) (\<lambda>_.
         return (h\<lparr>rh_Status := ''PROCESSING''\<rparr>))))"

definition updateReconHistoryStatus ::
  "'d ReconService \<Rightarrow> ReconToolHistory \<Rightarrow> string \<Rightarrow> string \<Rightarrow> ('d ReconWorld, unit) exec" where
  "updateReconHistoryStatus svc h status path =
     RepoReconUpdate svc (rh_ID h) (h\<lparr>rh_Status := status, rh_ResultFilePath := path\<rparr>)"

definition onStorage :: "('d LocalStore, 'a) exec \<Rightarrow> ('d ReconWorld, 'a) exec" where
  "onStorage m w = (case m (rw_storage w) of (r, ls) \<Rightarrow> (r, w\<lparr>rw_storage := ls\<rparr>))"

text \<open>The deferred \<open>closeLocalStorage\<close> removes the directory.\<close>

definition cleaning :: "'d ReconService \<Rightarrow> ('d ReconWorld, 'a) exec \<Rightarrow> ('d ReconWorld, 'a) exec" where
  "cleaning svc m w =
     (case m w of
        (r, w') \<Rightarrow> (r, if rs_storageFault svc StorageClean = None then w'\<lparr>rw_storage := []\<rparr> else w'))"

definition reconcileTask :: "'d::zero ReconService \<Rightarrow> ReconToolHistory \<Rightarrow> ('d ReconWorld, unit) exec" where
  "reconcileTask svc h =
     bind (onStorage (streamTransactionsToLocalStorage svc h)) (\<lambda>_ w.
       case reconcileRecordsAndGenerateReport svc h w of
         (Inl e, w') \<Rightarrow> (Err e, snd (updateReconHistoryStatus svc h ''FAILED'' '''' w'))
       | (Inr path, w') \<Rightarrow> updateReconHistoryStatus svc h ''SUCCESS'' path w')"

definition ProcessReconTaskQueue :: "'d::zero ReconService \<Rightarrow> nat \<Rightarrow> ('d ReconWorld, unit) exec" where
  "ProcessReconTaskQueue svc i =
     bind (prepareReconHistory svc i) (\<lambda>h.
     withFault (map_option (wrapErr ''failed to make local storage'') (rs_storageFault svc StorageOpen))
       (cleaning svc (reconcileTask svc h)))"
section \<open>Upload, result and consumer\<close>

record UploadReconFileRequest =
  uf_OrderType :: string
  uf_TransactionType :: string
  uf_TransactionDate :: string

text \<open>
  \<open>UploadReconTemplate\<close>; the file is the lines that \<open>StreamReadMultipartFile\<close> sends, and the error it sends last.  The
  header is separated by semicolons when there is one in it.
\<close>

definition templateHeader :: "string \<Rightarrow> string" where
  "templateHeader line =
     (let d = (if CHR '';'' \<in> set line then '';'' else '','')
      in ''identifier'' @ d @ ''amount'' @ d @ ''payment_date'' @ d @ ''remark'')"

definition stringsHasPrefix :: "string \<Rightarrow> string \<Rightarrow> bool" where
  "stringsHasPrefix s prefix = (take (length prefix) s = prefix)"

definition deleteReconFile :: "'d ReconService \<Rightarrow> CloudStoragePayload \<Rightarrow> 'd ReconWorld \<Rightarrow> 'd ReconWorld" where
  "deleteReconFile svc payload w =
     (if rs_fault svc DeleteObject = None then w\<lparr>rw_bucket := (rw_bucket w)(GetFilePath payload := None)\<rparr> else w)"

definition linesText :: "string list \<Rightarrow> string" where
  "linesText ls = concat (map (\<lambda>l. l @ [newline]) ls)"

text \<open>\<open>writer.Close\<close> is deferred: the object comes to be when everything else is done.\<close>

definition closeUpload :: "'d ReconService \<Rightarrow> CloudStoragePayload \<Rightarrow> string list \<Rightarrow> 'd ReconWorld \<Rightarrow> 'd ReconWorld" where
  "closeUpload svc payload ls w =
     (if rs_closeFault svc = None \<and> rs_writeFault svc (length ls) = None
      then w\<lparr>rw_bucket := (rw_bucket w)(GetFilePath payload \<mapsto> linesText ls)\<rparr> else w)"

definition registerUpload ::
  "'d ReconService \<Rightarrow> UploadReconFileRequest \<Rightarrow> CloudStoragePayload \<Rightarrow> ('d ReconWorld, unit) exec" where
  "registerUpload svc req payload w =
     (case RepoReconCreate svc
             \<lparr>ch_OrderType = uf_OrderType req, ch_TransactionType = uf_TransactionType req,
              ch_TransactionDate = uf_TransactionDate req, ch_UploadedFilePath = GetFilePath payload,
              ch_Status = ''PENDING''\<rparr> w of
        (Inl e, w') \<Rightarrow> (Err (Sentinel ErrUnableToCreate), deleteReconFile svc payload w')
      | (Inr created, w') \<Rightarrow>
          (case rs_fault svc PublishTask of
             None \<Rightarrow> (Ok (), w'\<lparr>rw_tasks := rw_tasks w' @ [(formatInt (rh_ID created), ''RECON_FILE'')]\<rparr>)
           | Some e \<Rightarrow>
               (Err (Sentinel ErrUnableToRecon),
                snd (RepoReconDeleteByID svc (rh_ID created) (deleteReconFile svc payload w')))))"

definition UploadReconTemplate ::
  "'d ReconService \<Rightarrow> UploadReconFileRequest \<Rightarrow> string list \<times> err option \<Rightarrow> ('d ReconWorld, unit) exec" where
  "UploadReconTemplate svc req file w =
     (let (ls, e) = file; payload = stampedFile ''upload'' 420 (rs_now svc);
          first = (case ls of [] \<Rightarrow> '''' | l # _ \<Rightarrow> l)
      in if ls = [] \<and> e \<noteq> None then (Err (the e), w)
         else if \<not> stringsHasPrefix first (templateHeader first) then (Err (GetErrMap ''reconFile_invalidTemplate''), w)
         else case find (\<lambda>n. rs_writeFault svc n \<noteq> None) [0..<length ls] of
           Some n \<Rightarrow> (Err (the (rs_writeFault svc n)), w)
         | None \<Rightarrow>
             (case e of
                Some e \<Rightarrow> (Err e, w)
              | None \<Rightarrow>
                  (case registerUpload svc req payload w of
                     (r, w') \<Rightarrow> (r, closeUpload svc payload ls w'))))"

definition GetResultFileURL :: "'d ReconService \<Rightarrow> nat \<Rightarrow> ('d ReconWorld, string) exec" where
  "GetResultFileURL svc i =
     bind (RepoReconGetById svc i) (\<lambda>h.
     failWhen (rh_ResultFilePath h = '''') (Sentinel ErrFilePathEmpty)
       (call (rs_sign svc (rh_ResultFilePath h) (if rs_resultExpiry svc \<noteq> 0 then rs_resultExpiry svc else 15))))"

definition processTask :: "'d::zero ReconService \<Rightarrow> string \<Rightarrow> ('d ReconWorld, unit) exec" where
  "processTask svc message =
     (case rs_unmarshalTask svc message of
        Inl e \<Rightarrow> fail (wrapErr ''error unmarshal json'' e)
      | Inr (i, task) \<Rightarrow>
          if task \<noteq> ''RECON_FILE'' then return ()
          else case ParseUint64 i of
            None \<Rightarrow> fail (wrapErr ''unable to parse id payload to uint64'' (External ''parsing uint''))
          | Some n \<Rightarrow> wrapping ''error handle transaction failure'' (ProcessReconTaskQueue svc n))"

text \<open>
  One turn of the loop, with the messages marked so far; a failed message is left unmarked.  When the claim is closed, the
  message is nil and the loop panics.
\<close>

definition consumeTask :: "'d::zero ReconService \<Rightarrow> string option \<Rightarrow> ('d ReconWorld \<times> string list, unit) exec" where
  "consumeTask svc message s =
     (case message of
        None \<Rightarrow> (Err Panic, s)
      | Some m \<Rightarrow>
          (case processTask svc m (fst s) of
             (Inl e, w) \<Rightarrow> (Ok (), (w, snd s))
           | (Inr _, w) \<Rightarrow> (Ok (), (w, snd s @ [m]))))"

end
