(* ===== verification/ReconProperties.thy ===== *)
theory ReconProperties
  imports Recon ListingProperties "HOL-Library.Multiset"
begin

text \<open>
  What a reconciliation reports: with multisets of identifiers and amounts, the matches are the intersection of file and
  ledger, and the two kinds of differences are what is over on either side, each record once.  And where it misleads: the
  transaction type is not looked at, days before the last week have no transactions, the file may be missing after a
  success, and a failure before the report leaves the history in processing.
\<close>

section \<open>The store as a multiset\<close>

definition recordsIn :: "'d LocalStore \<Rightarrow> 'd ReconRecord multiset" where
  "recordsIn s = mset (concat (map snd s))"

definition storeOrdered :: "'d LocalStore \<Rightarrow> bool" where
  "storeOrdered s \<longleftrightarrow>
     sorted_wrt (<) (map fst s) \<and> (\<forall>(k, rs)\<in>set s. \<forall>r\<in>set rs. rr_Identifier r = k)"

lemma storeOrdered_Nil [simp]: "storeOrdered []"
  by (simp add: storeOrdered_def)

lemma set_storageSet: "set (storageSet k v s) \<subseteq> insert (k, v) (set s)"
  by (induction k v s rule: storageSet.induct) auto

lemma keys_storageSet: "fst ` set (storageSet k v s) = insert k (fst ` set s)"
  by (induction k v s rule: storageSet.induct) auto

lemma sorted_storageSet: "sorted_wrt (<) (map fst s) \<Longrightarrow> sorted_wrt (<) (map fst (storageSet k v s))"
proof (induction k v s rule: storageSet.induct)
  case (2 k v l w s)
  have "\<forall>x\<in>set (map fst (storageSet k v s)). l < x" if "l < k"
    using 2 that keys_storageSet [of k v s] by auto
  with 2 show ?case
    using keys_storageSet [of k v s] by (auto simp: not_less_iff_gr_or_eq)
qed simp

lemma storageGet_notin: "k \<notin> fst ` set s \<Longrightarrow> storageGet k s = []"
  by (simp add: storageGet_def map_of_eq_None_iff split: option.splits) (metis map_of_eq_None_iff option.distinct(1))

lemma recordsIn_Cons [simp]: "recordsIn ((k, rs) # s) = mset rs + recordsIn s"
  and recordsIn_Nil [simp]: "recordsIn [] = {#}"
  by (simp_all add: recordsIn_def)

lemma recordsIn_storageSet:
  "sorted_wrt (<) (map fst s) \<Longrightarrow> recordsIn (storageSet k v s) + mset (storageGet k s) = recordsIn s + mset v"
proof (induction k v s rule: storageSet.induct)
  case (2 k v l w s)
  have "storageGet k s = []" if "k < l \<or> k = l"
    using 2(2) that by (intro storageGet_notin) fastforce
  moreover have "storageGet k ((l, w) # s) = (if k = l then w else storageGet k s)"
    by (simp add: storageGet_def)
  ultimately show ?case
    using 2 by (auto simp: ac_simps not_less_iff_gr_or_eq)
qed (simp add: storageGet_def)

lemma storageDelete_Cons:
  "storageDelete k ((l, w) # s) = (if k = l then storageDelete k s else (l, w) # storageDelete k s)"
  by (auto simp: storageDelete_def)

lemma storageDelete_notin: "k \<notin> fst ` set s \<Longrightarrow> storageDelete k s = s"
  by (force simp: storageDelete_def filter_id_conv)

lemma recordsIn_storageDelete:
  "sorted_wrt (<) (map fst s) \<Longrightarrow> recordsIn (storageDelete k s) + mset (storageGet k s) = recordsIn s"
proof (induction s)
  case (Cons p s)
  obtain l w where p: "p = (l, w)" by (cases p)
  have "l \<notin> fst ` set s"
    using Cons.prems p by auto
  then show ?case
    using Cons by (auto simp: p storageDelete_Cons storageDelete_notin storageGet_def ac_simps)
qed (simp add: storageDelete_def storageGet_def)

lemma storageGet_member: "r \<in> set (storageGet k s) \<Longrightarrow> \<exists>rs. (k, rs) \<in> set s \<and> r \<in> set rs"
  by (cases "map_of s k") (auto simp: storageGet_def dest: map_of_SomeD)

lemma storeOrdered_get: "storeOrdered s \<Longrightarrow> r \<in> set (storageGet k s) \<Longrightarrow> rr_Identifier r = k"
  using storageGet_member [of r k s] by (auto simp: storeOrdered_def)

lemma storeOrdered_set:
  assumes "storeOrdered s" and "\<forall>r\<in>set rs. rr_Identifier r = k"
  shows "storeOrdered (storageSet k rs s)"
  using assms sorted_storageSet [of s k rs] set_storageSet [of k rs s] by (fastforce simp: storeOrdered_def)

lemma storeOrdered_delete: "storeOrdered s \<Longrightarrow> storeOrdered (storageDelete k s)"
  by (auto simp: storeOrdered_def storageDelete_def sorted_wrt_map intro: sorted_wrt_filter)

text \<open>Records with an identifier are under it.\<close>

lemma storeOrdered_in:
  assumes "storeOrdered s" and "r \<in># recordsIn s"
  shows "r \<in> set (storageGet (rr_Identifier r) s)"
proof -
  from assms(2) obtain k rs where entry: "(k, rs) \<in> set s" "r \<in> set rs"
    by (auto simp: recordsIn_def)
  have "distinct (map fst s)"
    using assms(1) by (simp add: storeOrdered_def strict_sorted_iff)
  then have "map_of s k = Some rs"
    using entry(1) by (rule map_of_is_SomeI)
  moreover have "rr_Identifier r = k"
    using assms(1) entry by (auto simp: storeOrdered_def)
  ultimately show ?thesis
    using entry(2) by (simp add: storageGet_def)
qed

lemma takeMatching_Some:
  "takeMatching a rs = Some (m, rest) \<Longrightarrow> mset rs = add_mset m (mset rest) \<and> rr_Amount m = a \<and> m \<in> set rs \<and> set rest \<subseteq> set rs"
  by (induction a rs arbitrary: m rest rule: takeMatching.induct) (auto split: if_splits)

lemma takeMatching_None: "takeMatching a rs = None \<Longrightarrow> r \<in> set rs \<Longrightarrow> rr_Amount r \<noteq> a"
  by (induction a rs rule: takeMatching.induct) (auto split: if_splits)

section \<open>A run without faults\<close>

text \<open>
  Every call works, but the closing of the report; a key of the store must not be empty, as in its library.
\<close>

definition reconWorks :: "'d ReconService \<Rightarrow> bool" where
  "reconWorks svc \<longleftrightarrow>
     (\<forall>c. rs_fault svc c = None) \<and> (\<forall>c. c \<notin> {StorageGet [], StorageSet [], StorageDelete []} \<longrightarrow> rs_storageFault svc c = None) \<and> (\<forall>n. rs_writeFault svc n = None) \<and>
     rs_delivered svc = None \<and> tt_listFault (rs_tables svc) = None"

lemma reconWorks_simps:
  assumes "reconWorks svc"
  shows "rs_fault svc c = None" "sc \<notin> {StorageGet [], StorageSet [], StorageDelete []} \<Longrightarrow> rs_storageFault svc sc = None"
    "rs_writeFault svc n = None" "rs_delivered svc = None"
    "tt_listFault (rs_tables svc) = None"
    "k \<noteq> [] \<Longrightarrow> lsGet svc k s = (Ok (storageGet k s), s)" "k \<noteq> [] \<Longrightarrow> lsSet svc k rs s = (Ok (), storageSet k rs s)"
    "k \<noteq> [] \<Longrightarrow> lsDelete svc k s = (Ok (), storageDelete k s)" "writeRow svc msg row rep = (Ok (), (fst rep, snd rep @ [row]))"
    "writePayload svc row rep = (Ok (), (fst rep, snd rep @ [row]))"
  using assms by (simp_all add: reconWorks_def lsGet_def lsSet_def lsDelete_def writePayload_def writeRow_def)

lemma bind_returned [simp]: "m s = (Inr x, s') \<Longrightarrow> bind m f s = f x s'"
  by (simp add: bind_def)

definition reconKey :: "'d ReconRecord \<Rightarrow> string \<times> 'd" where
  "reconKey r = (rr_Identifier r, rr_Amount r)"

definition reconRef :: "'d ReconRecord \<Rightarrow> string \<times> 'd \<times> string" where
  "reconRef r = (rr_Identifier r, rr_Amount r, rr_RefNumber r)"

lemma storeTransactions_run:
  assumes "reconWorks svc" and "storeOrdered s"
    and "\<forall>row\<in>set rows. ConvertTransactionTopUpToReconRecord svc row = Ok (record row) \<and> rr_Identifier (record row) \<noteq> []"
  shows "\<exists>s'. forEach (storeTransaction svc) rows s = (Ok (), s') \<and> storeOrdered s' \<and>
    recordsIn s' = recordsIn s + mset (map record rows)"
  using assms(2,3)
proof (induction rows arbitrary: s)
  case Nil
  then show ?case by (simp add: exec_simps)
next
  case (Cons row rows)
  let ?r = "record row"
  let ?s = "storageSet (rr_Identifier ?r) (storageGet (rr_Identifier ?r) s @ [?r]) s"
  have step: "storeTransaction svc row s = (Ok (), ?s)"
    using Cons.prems(2) by (simp add: storeTransaction_def bind_def wrapping_def call_def reconWorks_simps [OF assms(1)])
  have ordered: "storeOrdered ?s"
    using Cons.prems(1) by (intro storeOrdered_set) (auto dest: storeOrdered_get)
  have "recordsIn ?s + mset (storageGet (rr_Identifier ?r) s) = recordsIn s + mset (storageGet (rr_Identifier ?r) s @ [?r])"
    using Cons.prems(1) by (intro recordsIn_storageSet) (simp add: storeOrdered_def)
  then have "recordsIn ?s = recordsIn s + {#?r#}"
    by simp
  moreover obtain s' where "forEach (storeTransaction svc) rows ?s = (Ok (), s')" "storeOrdered s'"
    "recordsIn s' = recordsIn ?s + mset (map record rows)"
    using Cons.IH [OF ordered] Cons.prems(2) by auto
  ultimately show ?case
    using step by auto
qed
text \<open>What a row of the file becomes in the report.\<close>

datatype (plugins only: code) 'd ReconLine = Checked "'d ReconRecord" | Unreadable "string list" err

fun lineText :: "'d::zero ReconService \<Rightarrow> ReconToolHistory \<Rightarrow> 'd ReconLine \<Rightarrow> string list" where
  "lineText svc h (Checked r) = ToCSVRow svc h r"
| "lineText svc h (Unreadable row e) = ToCSVRowWithErr svc h (unreadableRecord row) e"

fun linesWith :: "StatusReconRecord \<Rightarrow> 'd ReconLine list \<Rightarrow> 'd ReconRecord list" where
  "linesWith st [] = []"
| "linesWith st (Checked r # lines) = (if rr_Status r = st then r # linesWith st lines else linesWith st lines)"
| "linesWith st (Unreadable row e # lines) = linesWith st lines"

text \<open>The rows of the file that are about the day of the reconciliation.\<close>

definition dayRecord :: "'d ReconService \<Rightarrow> ReconToolHistory \<Rightarrow> string list \<Rightarrow> 'd ReconRecord list" where
  "dayRecord svc h row =
     (case ConvertStringCSVToReconRecord svc row of
        Inr r \<Rightarrow> if \<not> isTemplateHeader row \<and> rr_PaymentDate r = reconDay h then [r] else []
      | Inl e \<Rightarrow> [])"

definition dayRecords :: "'d ReconService \<Rightarrow> ReconToolHistory \<Rightarrow> string list list \<Rightarrow> 'd ReconRecord list" where
  "dayRecords svc h rows = concat (map (dayRecord svc h) rows)"

lemma dayRecords_Cons [simp]: "dayRecords svc h (row # rows) = dayRecord svc h row @ dayRecords svc h rows"
  and dayRecords_Nil [simp]: "dayRecords svc h [] = []"
  by (simp_all add: dayRecords_def)

definition rowsNamed :: "string list list \<Rightarrow> bool" where
  "rowsNamed rows = list_all (\<lambda>row. row \<noteq> [] \<and> hd row \<noteq> []) rows"

lemma rowsNamed_Cons [simp]: "rowsNamed (row # rows) \<longleftrightarrow> row \<noteq> [] \<and> hd row \<noteq> [] \<and> rowsNamed rows"
  by (simp add: rowsNamed_def)

lemma dayRecord_named: "hd row \<noteq> [] \<Longrightarrow> r \<in> set (dayRecord svc h row) \<Longrightarrow> rr_Identifier r \<noteq> []"
  by (cases row) (auto simp: dayRecord_def ConvertStringCSVToReconRecord_def split: if_splits sum.splits)

text \<open>One record of the file against the store.\<close>

lemma checkRecord_run:
  assumes "reconWorks svc" and "storeOrdered s" and "rr_RefNumber r = ''''" and "rr_Identifier r \<noteq> []"
  shows "(\<exists>m s'. checkRecord svc h r (s, out) =
            (Ok (), (s', out @ [ToCSVRow svc h (r\<lparr>rr_Match := True, rr_RefNumber := rr_RefNumber m, rr_Status := ReconMatch\<rparr>)])) \<and>
            storeOrdered s' \<and> recordsIn s = add_mset m (recordsIn s') \<and> reconKey m = reconKey r) \<or>
    (\<exists>s'. checkRecord svc h r (s, out) = (Ok (), (s', out @ [ToCSVRow svc h (r\<lparr>rr_Status := ReconNotExistsDBExistsCSV\<rparr>)])) \<and>
            storeOrdered s' \<and> recordsIn s' = recordsIn s \<and> reconKey r \<notin># image_mset reconKey (recordsIn s))"
proof -
  let ?i = "rr_Identifier r"
  let ?rs = "storageGet ?i s"
  note works = reconWorks_simps [OF assms(1)] reconWorks_simps(6-8) [OF assms(1,4)]
  have sorted: "sorted_wrt (<) (map fst s)"
    using assms(2) by (simp add: storeOrdered_def)
  have absent: "reconKey r \<notin># image_mset reconKey (recordsIn s)" if "\<forall>m\<in>set ?rs. rr_Amount m \<noteq> rr_Amount r"
  proof
    assume "reconKey r \<in># image_mset reconKey (recordsIn s)"
    then obtain m where m: "m \<in># recordsIn s" "reconKey m = reconKey r"
      by auto
    then have "m \<in> set (storageGet (rr_Identifier m) s)"
      using storeOrdered_in [OF assms(2)] by blast
    with m(2) that show False by (simp add: reconKey_def)
  qed
  show ?thesis
  proof (cases "takeMatching (rr_Amount r) ?rs")
    case None
    then have "\<forall>m\<in>set ?rs. rr_Amount m \<noteq> rr_Amount r"
      by (auto dest: takeMatching_None)
    note absent = absent [OF this]
    show ?thesis
    proof (cases "?rs = []")
      case True
      then show ?thesis
        using absent assms(2) by (intro disjI2 exI [of _ s]) (simp add: checkRecord_def orReport_def works)
    next
      case False
      have "storeOrdered (storageSet ?i ?rs s)"
        using assms(2) by (intro storeOrdered_set) (auto dest: storeOrdered_get)
      moreover have "recordsIn (storageSet ?i ?rs s) = recordsIn s"
        using recordsIn_storageSet [OF sorted, of ?i ?rs] by simp
      ultimately show ?thesis
        using absent None False
        by (intro disjI2 exI [of _ "storageSet ?i ?rs s"]) (simp add: checkRecord_def orReport_def works)
    qed
  next
    case (Some p)
    then obtain m rest where take: "takeMatching (rr_Amount r) ?rs = Some (m, rest)"
      by (cases p) auto
    note found = takeMatching_Some [OF take]
    let ?s = "if rest \<noteq> [] then storageSet ?i rest s else storageDelete ?i s"
    have "storeOrdered ?s"
      using assms(2) found storeOrdered_get [OF assms(2), of _ ?i]
      by (auto intro!: storeOrdered_set storeOrdered_delete)
    moreover have "recordsIn s = add_mset m (recordsIn ?s)"
      using recordsIn_storageSet [OF sorted, of ?i rest] recordsIn_storageDelete [OF sorted, of ?i] found
      by (auto simp: ac_simps)
    moreover have "reconKey m = reconKey r"
      using found storeOrdered_get [OF assms(2), of m ?i] by (simp add: reconKey_def)
    moreover have "?rs \<noteq> []"
      using found by auto
    ultimately show ?thesis
      using take
      by (intro disjI1 exI [of _ m] exI [of _ ?s]) (simp add: checkRecord_def orReport_def works)
  qed
qed

text \<open>All rows of the file.\<close>

lemma processCSVRow_cases:
  assumes "reconWorks svc"
  obtains (skip) "processCSVRow svc h row (s, out) = (Ok (), (s, out))" "dayRecord svc h row = []"
    | (error) e where "processCSVRow svc h row (s, out) = (Ok (), (s, out @ [lineText svc h (Unreadable row e)]))" "dayRecord svc h row = []"
    | (check) r where "processCSVRow svc h row (s, out) = checkRecord svc h r (s, out)" "dayRecord svc h row = [r]" "rr_RefNumber r = ''''"
proof (cases "isTemplateHeader row")
  case True
  then show thesis
    by (intro skip) (auto simp: processCSVRow_def dayRecord_def exec_simps split: sum.splits)
next
  case header: False
  show thesis
  proof (cases "ConvertStringCSVToReconRecord svc row")
    case (Inl e)
    with header show thesis
      by (intro error [of e]) (simp_all add: processCSVRow_def dayRecord_def reconWorks_simps [OF assms])
  next
    case (Inr r)
    then have "rr_RefNumber r = ''''"
      by (auto simp: ConvertStringCSVToReconRecord_def split: if_splits sum.splits)
    with header Inr show thesis
      by (cases "rr_PaymentDate r = reconDay h")
        (auto simp: processCSVRow_def dayRecord_def exec_simps intro: skip check [of r])
  qed
qed

definition rowsProcessed ::
  "'d::zero ReconService \<Rightarrow> ReconToolHistory \<Rightarrow> string list list \<Rightarrow> 'd LocalStore \<Rightarrow> string list list \<Rightarrow>
    'd LocalStore \<Rightarrow> 'd ReconLine list \<Rightarrow> 'd ReconRecord multiset \<Rightarrow> bool" where
  "rowsProcessed svc h rows s out s' lines used \<longleftrightarrow>
     forEach (processCSVRow svc h) rows (s, out) = (Ok (), (s', out @ map (lineText svc h) lines)) \<and>
     storeOrdered s' \<and> recordsIn s = recordsIn s' + used \<and>
     image_mset reconRef used = mset (map reconRef (linesWith ReconMatch lines)) \<and>
     mset (map reconKey (dayRecords svc h rows)) =
       mset (map reconKey (linesWith ReconMatch lines)) + mset (map reconKey (linesWith ReconNotExistsDBExistsCSV lines)) \<and>
     (\<forall>r\<in>set (linesWith ReconNotExistsDBExistsCSV lines). reconKey r \<notin># image_mset reconKey (recordsIn s'))"

lemma processRows_run:
  assumes "reconWorks svc" and "storeOrdered s" and "rowsNamed rows"
  shows "\<exists>s' lines used. rowsProcessed svc h rows s out s' lines used"
  using assms(2,3)
proof (induction rows arbitrary: s out)
  case Nil
  then have "rowsProcessed svc h [] s out s [] {#}"
    by (simp add: rowsProcessed_def exec_simps)
  then show ?case by blast
next
  case (Cons row rows)
  then have named: "rowsNamed rows" by simp
  from assms(1) show ?case
  proof (cases rule: processCSVRow_cases [of svc h row s out])
    case skip
    obtain s' lines used where "rowsProcessed svc h rows s out s' lines used"
      using Cons.IH [OF Cons.prems(1) named] by blast
    with skip have "rowsProcessed svc h (row # rows) s out s' lines used"
      by (simp add: rowsProcessed_def)
    then show ?thesis by blast
  next
    case (error e)
    obtain s' lines used where "rowsProcessed svc h rows s (out @ [lineText svc h (Unreadable row e)]) s' lines used"
      using Cons.IH [OF Cons.prems(1) named] by blast
    with error have "rowsProcessed svc h (row # rows) s out s' (Unreadable row e # lines) used"
      by (simp add: rowsProcessed_def)
    then show ?thesis by blast
  next
    case (check r)
    have "rr_Identifier r \<noteq> []"
      using Cons.prems(2) check(2) dayRecord_named [of row r svc h] by simp
    from checkRecord_run [OF assms(1) Cons.prems(1) check(3) this, of h out] show ?thesis
    proof (elim disjE exE conjE)
      fix m :: "'a ReconRecord" and s1
      let ?r = "r\<lparr>rr_Match := True, rr_RefNumber := rr_RefNumber m, rr_Status := ReconMatch\<rparr>"
      assume step: "checkRecord svc h r (s, out) = (Ok (), (s1, out @ [ToCSVRow svc h ?r]))"
        "storeOrdered s1" "recordsIn s = add_mset m (recordsIn s1)" "reconKey m = reconKey r"
      obtain s' lines used where "rowsProcessed svc h rows s1 (out @ [ToCSVRow svc h ?r]) s' lines used"
        using Cons.IH [OF step(2) named] by blast
      moreover have "reconRef ?r = reconRef m" "reconKey ?r = reconKey r"
        using step(4) by (simp_all add: reconRef_def reconKey_def)
      ultimately have "rowsProcessed svc h (row # rows) s out s' (Checked ?r # lines) (add_mset m used)"
        using check step by (simp add: rowsProcessed_def)
      then show ?thesis by blast
    next
      fix s1
      let ?r = "r\<lparr>rr_Status := ReconNotExistsDBExistsCSV\<rparr>"
      assume step: "checkRecord svc h r (s, out) = (Ok (), (s1, out @ [ToCSVRow svc h ?r]))"
        "storeOrdered s1" "recordsIn s1 = recordsIn s" "reconKey r \<notin># image_mset reconKey (recordsIn s)"
      obtain s' lines used where "rowsProcessed svc h rows s1 (out @ [ToCSVRow svc h ?r]) s' lines used"
        using Cons.IH [OF step(2) named] by blast
      moreover from this have "reconKey r \<notin># image_mset reconKey (recordsIn s')"
        using step(3,4) by (auto simp: rowsProcessed_def)
      moreover have "reconKey ?r = reconKey r"
        by (simp add: reconKey_def)
      ultimately have "rowsProcessed svc h (row # rows) s out s' (Checked ?r # lines) used"
        using check step by (simp add: rowsProcessed_def)
      then show ?thesis by blast
    qed
  qed
qed
section \<open>The ledger of a day\<close>

text \<open>
  What the stream delivers for a day: every transaction of that day, whatever its type, when the day is one of the last
  seven.
\<close>

definition reconRows :: "'d ReconService \<Rightarrow> nat \<Rightarrow> 'd ListedTransaction list" where
  "reconRows svc d =
     filter (\<lambda>row. lt_TransactionDate row = d \<and>
        localDay (AddDays (NowZeroTime (tt_now (rs_tables svc))) (- 7)) \<le> d \<and> d \<le> localDay (NowZeroTime (tt_now (rs_tables svc))))
       (tt_transaction (rs_tables svc))"

definition ledgerRecord :: "'d::zero ReconService \<Rightarrow> 'd ListedTransaction \<Rightarrow> 'd ReconRecord" where
  "ledgerRecord svc row = (case ConvertTransactionTopUpToReconRecord svc row of Inr r \<Rightarrow> r | Inl e \<Rightarrow> unreadableRecord [])"

definition storable :: "'d::zero ReconService \<Rightarrow> 'd ListedTransaction \<Rightarrow> bool" where
  "storable svc row = (case ConvertTransactionTopUpToReconRecord svc row of Inr r \<Rightarrow> rr_Identifier r \<noteq> [] | Inl e \<Rightarrow> False)"

lemma localDay_UTC [simp]: "localDay (int d * nsPerDay) = d"
  by (simp add: localDay_def jakartaOffset_def nsPerDay_def)

lemma filteredTransaction_recon:
  assumes "rh_TransactionDate h = Some d"
  shows "filter (filteredTransaction (rs_tables svc) (reconFilterOpts h)) (tt_transaction (rs_tables svc)) = reconRows svc d"
  using assms by (auto simp: reconRows_def filteredTransaction_def reconFilterOpts_def searched_def inDates_def Let_def intro!: filter_cong)

lemma StreamAll_recon:
  assumes "reconWorks svc" and "rh_TransactionDate h = Some d"
  shows "\<exists>rows. StreamAll svc (reconFilterOpts h) = (rows, None) \<and> mset rows = mset (reconRows svc d)"
  using filteredTransaction_recon [OF assms(2), of svc]
  by (simp add: StreamAll_def reconWorks_simps [OF assms(1)] listTransactionQuery_def reconFilterOpts_def orderBy_def)

lemma stream_run:
  assumes "reconWorks svc" and "rh_TransactionDate h = Some d"
    and "\<forall>row\<in>set (reconRows svc d). storable svc row"
  shows "\<exists>s. streamTransactionsToLocalStorage svc h [] = (Ok (), s) \<and> storeOrdered s \<and>
    recordsIn s = mset (map (ledgerRecord svc) (reconRows svc d))"
proof -
  obtain rows where rows: "StreamAll svc (reconFilterOpts h) = (rows, None)" "mset rows = mset (reconRows svc d)"
    using StreamAll_recon [OF assms(1,2)] by blast
  have "\<forall>row\<in>set rows. ConvertTransactionTopUpToReconRecord svc row = Ok (ledgerRecord svc row) \<and>
      rr_Identifier (ledgerRecord svc row) \<noteq> []"
    using assms(3) mset_eq_setD [OF rows(2)] by (auto simp: ledgerRecord_def storable_def split: sum.splits)
  from storeTransactions_run [OF assms(1) storeOrdered_Nil this] obtain s where
    "forEach (storeTransaction svc) rows [] = (Ok (), s)" "storeOrdered s" "recordsIn s = mset (map (ledgerRecord svc) rows)"
    by auto
  moreover have "mset (map (ledgerRecord svc) rows) = mset (map (ledgerRecord svc) (reconRows svc d))"
    using rows(2) by simp
  ultimately show ?thesis
    by (simp add: streamTransactionsToLocalStorage_def rows(1) exec_simps)
qed

section \<open>The report\<close>

text \<open>
  The sides of a comparison: what both have, and what is over on the left and on the right.
\<close>

lemma matching_sides:
  assumes "A = M + N" and "B = M + L" and "\<forall>x\<in>#N. x \<notin># L"
  shows "M = A \<inter># B" and "N = A - B" and "L = B - A"
proof -
  have none: "min (count N x) (count L x) = 0" for x
    using assms(3) by (metis count_inI min_0L min_0R)
  show "M = A \<inter># B"
  proof (rule multiset_eqI)
    fix x show "count M x = count (A \<inter># B) x"
      using none [of x] by (simp add: assms(1,2) flip: min_add_distrib_right)
  qed
  show "N = A - B" and "L = B - A"
  proof -
    have "count N x = count (A - B) x \<and> count L x = count (B - A) x" for x
      using none [of x] by (auto simp: assms(1,2) min_def split: if_splits)
    then show "N = A - B" and "L = B - A"
      by (simp_all add: multiset_eq_iff)
  qed
qed

definition matchingReport ::
  "'d::zero ReconService \<Rightarrow> ReconToolHistory \<Rightarrow> string list list \<Rightarrow> nat \<Rightarrow> 'd ReconLine list \<Rightarrow> 'd ReconRecord list \<Rightarrow> bool" where
  "matchingReport svc h rows d lines left \<longleftrightarrow>
     (let file = mset (map reconKey (dayRecords svc h rows));
          ledger = mset (map (reconKey \<circ> ledgerRecord svc) (reconRows svc d))
      in mset (map reconKey (linesWith ReconMatch lines)) = file \<inter># ledger \<and>
         mset (map reconKey (linesWith ReconNotExistsDBExistsCSV lines)) = file - ledger \<and>
         mset (map reconKey left) = ledger - file \<and>
         mset (map reconRef (linesWith ReconMatch lines @ left)) = mset (map (reconRef \<circ> ledgerRecord svc) (reconRows svc d)) \<and>
         (\<forall>r\<in>set left. rr_Status r = ReconExistsDBNotExistsCSV))"

lemma forEach_write:
  assumes "reconWorks svc"
  shows "forEach (\<lambda>r. writePayload svc (f r)) rs (s, out) = (Ok (), (s, out @ map f rs))"
  by (induction rs arbitrary: out) (simp_all add: exec_simps reconWorks_simps [OF assms])

lemma reportRows_run:
  assumes "reconWorks svc" and "storeOrdered s" and "csvRead content = (rows, None)"
    and "recordsIn s = mset (map (ledgerRecord svc) (reconRows svc d))" and "rowsNamed rows"
  shows "\<exists>s' lines left. reportRows svc h content (s, []) =
      (Ok (), (s', csvHeaderReconRecord # map (lineText svc h) lines @ map (ToCSVRow svc h) left)) \<and>
    matchingReport svc h rows d lines left"
proof -
  obtain s' lines used where run: "rowsProcessed svc h rows s [csvHeaderReconRecord] s' lines used"
    using processRows_run [OF assms(1,2,5)] by blast
  define left where "left = map (\<lambda>r. r\<lparr>rr_Status := ReconExistsDBNotExistsCSV\<rparr>) (concat (map snd s'))"
  have report: "reportRows svc h content (s, []) =
      (Ok (), (s', csvHeaderReconRecord # map (lineText svc h) lines @ map (ToCSVRow svc h) left))"
    using run forEach_write [OF assms(1), of "\<lambda>r. ToCSVRow svc h (r\<lparr>rr_Status := ReconExistsDBNotExistsCSV\<rparr>)" "concat (map snd s')"]
    by (simp add: reportRows_def reconWorks_simps [OF assms(1)] assms(3) rowsProcessed_def bind_def wrapping_def exec_simps
        reportLeft_def withFault_def left_def comp_def)
  have left: "mset (map reconKey left) = image_mset reconKey (recordsIn s')" "mset (map reconRef left) = image_mset reconRef (recordsIn s')"
    by (simp_all add: left_def recordsIn_def comp_def reconKey_def [abs_def] reconRef_def [abs_def])
  have key: "reconKey = (\<lambda>(i, a, n). (i, a)) \<circ> (reconRef :: 'a ReconRecord \<Rightarrow> _)"
    by (simp add: fun_eq_iff reconKey_def reconRef_def)
  have used: "image_mset reconKey used = mset (map reconKey (linesWith ReconMatch lines))"
    using run by (simp add: key rowsProcessed_def flip: image_mset.compositionality)
  have ledger: "mset (map (reconKey \<circ> ledgerRecord svc) (reconRows svc d)) =
      mset (map reconKey (linesWith ReconMatch lines)) + mset (map reconKey left)"
    using run used left(1) assms(4)
    by (simp add: rowsProcessed_def image_mset.compositionality [symmetric] ac_simps flip: assms(4))
  have refs: "mset (map reconRef (linesWith ReconMatch lines @ left)) = mset (map (reconRef \<circ> ledgerRecord svc) (reconRows svc d))"
    using run left(2) assms(4)
    by (simp add: rowsProcessed_def image_mset.compositionality [symmetric] ac_simps flip: assms(4))
  have "\<forall>x\<in>#mset (map reconKey (linesWith ReconNotExistsDBExistsCSV lines)). x \<notin># mset (map reconKey left)"
    using run unfolding left(1) by (auto simp: rowsProcessed_def)
  moreover have "mset (map reconKey (dayRecords svc h rows)) =
      mset (map reconKey (linesWith ReconMatch lines)) + mset (map reconKey (linesWith ReconNotExistsDBExistsCSV lines))"
    using run by (simp add: rowsProcessed_def)
  ultimately have "matchingReport svc h rows d lines left"
    unfolding matchingReport_def Let_def using matching_sides [OF _ ledger] refs by (auto simp: left_def)
  with report show ?thesis by blast
qed
section \<open>The task\<close>

lemma find_map_id:
  assumes "\<And>x. rh_ID (f x) = rh_ID x" and "find (\<lambda>x. rh_ID x = i) hs = Some h"
  shows "find (\<lambda>x. rh_ID x = i) (map (\<lambda>x. if rh_ID x = i then f x else x) hs) = Some (f h)"
  using assms by (induction hs) (auto split: if_splits)

lemma find_exists: "find P xs = Some x \<Longrightarrow> list_ex P xs"
  by (auto simp: find_Some_iff list_ex_iff)

definition historyAt :: "'d ReconWorld \<Rightarrow> nat \<Rightarrow> ReconToolHistory option" where
  "historyAt w i = find (\<lambda>h. rh_ID h = int i) (rw_history w)"

text \<open>A write of the row there is.\<close>

lemma RepoReconUpdate_run:
  assumes "rs_fault svc (UpdateHistory (rh_Status data)) = None" and "historyAt w i = Some h"
  shows "\<exists>w'. RepoReconUpdate svc (int i) data w = (Ok (), w') \<and> rw_bucket w' = rw_bucket w \<and> rw_storage w' = rw_storage w \<and>
    historyAt w' i = Some (h\<lparr>rh_OrderType := rh_OrderType data, rh_TransactionType := rh_TransactionType data,
      rh_TransactionDate := rh_TransactionDate data, rh_UploadedFilePath := rh_UploadedFilePath data,
      rh_ResultFilePath := rh_ResultFilePath data, rh_Status := rh_Status data, rh_UpdatedAt := rs_now svc\<rparr>)"
  using assms find_exists [of "\<lambda>h. rh_ID h = int i" "rw_history w" h]
    find_map_id [of "\<lambda>h. h\<lparr>rh_OrderType := rh_OrderType data, rh_TransactionType := rh_TransactionType data,
      rh_TransactionDate := rh_TransactionDate data, rh_UploadedFilePath := rh_UploadedFilePath data,
      rh_ResultFilePath := rh_ResultFilePath data, rh_Status := rh_Status data, rh_UpdatedAt := rs_now svc\<rparr>" "int i" "rw_history w" h]
  by (simp add: RepoReconUpdate_def historyAt_def)

lemma prepare_run:
  assumes "rs_fault svc SelectHistory = None" and "rs_fault svc (UpdateHistory ''PROCESSING'') = None"
    and "historyAt w i = Some h" and "rh_TransactionDate h = Some d"
  shows "\<exists>w'. prepareReconHistory svc i w = (Ok (h\<lparr>rh_Status := ''PROCESSING''\<rparr>), w') \<and> rw_bucket w' = rw_bucket w \<and>
    rw_storage w' = rw_storage w \<and> historyAt w' i = Some (h\<lparr>rh_Status := ''PROCESSING'', rh_UpdatedAt := rs_now svc\<rparr>)"
proof -
  have select: "RepoReconGetById svc i w = (Ok h, w)"
    using assms(1,3) by (simp add: RepoReconGetById_def historyAt_def)
  obtain w' where update: "RepoReconUpdate svc (int i) (h\<lparr>rh_Status := ''PROCESSING''\<rparr>) w = (Ok (), w')"
    "rw_bucket w' = rw_bucket w" "rw_storage w' = rw_storage w"
    "historyAt w' i = Some (h\<lparr>rh_OrderType := rh_OrderType h, rh_TransactionType := rh_TransactionType h,
       rh_TransactionDate := rh_TransactionDate h, rh_UploadedFilePath := rh_UploadedFilePath h,
       rh_ResultFilePath := rh_ResultFilePath h, rh_Status := ''PROCESSING'', rh_UpdatedAt := rs_now svc\<rparr>)"
    using RepoReconUpdate_run [of svc "h\<lparr>rh_Status := ''PROCESSING''\<rparr>" w i h] assms(2,3) by auto
  have "h\<lparr>rh_OrderType := rh_OrderType h, rh_TransactionType := rh_TransactionType h,
       rh_TransactionDate := rh_TransactionDate h, rh_UploadedFilePath := rh_UploadedFilePath h,
       rh_ResultFilePath := rh_ResultFilePath h, rh_Status := ''PROCESSING'', rh_UpdatedAt := rs_now svc\<rparr> =
     h\<lparr>rh_Status := ''PROCESSING'', rh_UpdatedAt := rs_now svc\<rparr>"
    by simp
  with update assms(4) show ?thesis
    by (simp add: prepareReconHistory_def select failWhen_def exec_simps)
qed

definition resultPath :: "'d ReconService \<Rightarrow> string" where
  "resultPath svc = GetFilePath (stampedFile ''result'' (rs_zone svc) (rs_now svc))"

text \<open>A whole run; with a fault at closing there is no file.\<close>

lemma task_run:
  assumes "reconWorks svc" and "historyAt w i = Some h" and "rh_TransactionDate h = Some d" and "rw_storage w = []"
    and "rw_bucket w (GetFilePath (NewCloudStoragePayload (rh_UploadedFilePath h))) = Some content" and "csvRead content = (rows, None)"
    and "\<forall>row\<in>set (reconRows svc d). storable svc row" and "rowsNamed rows"
  shows "\<exists>lines left w'. ProcessReconTaskQueue svc i w = (Ok (), w') \<and> rw_storage w' = [] \<and>
    rw_bucket w' = (if rs_closeFault svc = None
      then (rw_bucket w)(resultPath svc \<mapsto> csvText (csvHeaderReconRecord # map (lineText svc h) lines @ map (ToCSVRow svc h) left))
      else rw_bucket w) \<and>
    historyAt w' i = Some (h\<lparr>rh_Status := ''SUCCESS'', rh_ResultFilePath := resultPath svc, rh_UpdatedAt := rs_now svc\<rparr>) \<and>
    matchingReport svc h rows d lines left"
proof -
  note works = reconWorks_simps [OF assms(1)]
  define h' where "h' = h\<lparr>rh_Status := ''PROCESSING''\<rparr>"
  obtain w1 where prepared: "prepareReconHistory svc i w = (Ok h', w1)" "rw_bucket w1 = rw_bucket w" "rw_storage w1 = []"
    "historyAt w1 i = Some (h\<lparr>rh_Status := ''PROCESSING'', rh_UpdatedAt := rs_now svc\<rparr>)"
    using prepare_run [OF _ _ assms(2,3), of svc] works(1) assms(4) by (auto simp: h'_def)
  obtain s where stream: "streamTransactionsToLocalStorage svc h' [] = (Ok (), s)" "storeOrdered s"
    "recordsIn s = mset (map (ledgerRecord svc) (reconRows svc d))"
    using stream_run [OF assms(1) _ assms(7), of h'] assms(3) by (auto simp: h'_def)
  from reportRows_run [OF assms(1) stream(2) assms(6) stream(3) assms(8), of h'] obtain s' lines left where
    report: "reportRows svc h' content (s, []) =
      (Ok (), (s', csvHeaderReconRecord # map (lineText svc h') lines @ map (ToCSVRow svc h') left))" and
    matching: "matchingReport svc h' rows d lines left"
    by blast
  have same: "lineText svc h' = lineText svc h" "ToCSVRow svc h' = ToCSVRow svc h" "dayRecords svc h' = dayRecords svc h"
  proof -
    have "lineText svc h' l = lineText svc h l" for l
      by (cases l) (simp_all add: h'_def ToCSVRow_def ToCSVRowWithErr_def)
    then show "lineText svc h' = lineText svc h" by blast
    show "ToCSVRow svc h' = ToCSVRow svc h"
      by (simp add: fun_eq_iff h'_def ToCSVRow_def)
    have "reconDay h' = reconDay h"
      by (simp add: h'_def reconDay_def)
    then have "dayRecord svc h' = dayRecord svc h"
      by (simp add: fun_eq_iff dayRecord_def split: sum.split)
    then show "dayRecords svc h' = dayRecords svc h"
      by (intro ext) (simp add: dayRecords_def)
  qed
  let ?rows = "csvHeaderReconRecord # map (lineText svc h) lines @ map (ToCSVRow svc h) left"
  define w2 where "w2 = closeObject svc (resultPath svc) ?rows (w1\<lparr>rw_storage := s'\<rparr>)"
  have w2: "historyAt w2 i = historyAt w1 i"
    "rw_bucket w2 = (if rs_closeFault svc = None then (rw_bucket w)(resultPath svc \<mapsto> csvText ?rows) else rw_bucket w)"
    using prepared(2) by (auto simp: w2_def closeObject_def historyAt_def works(3))
  have "NewReader svc (NewCloudStoragePayload (rh_UploadedFilePath h')) (w1\<lparr>rw_storage := s\<rparr>) = Ok content"
    using assms(5) prepared(2) works(1) by (simp add: NewReader_def h'_def)
  then have reconcile: "reconcileRecordsAndGenerateReport svc h' (w1\<lparr>rw_storage := s\<rparr>) = (Ok (resultPath svc), w2)"
    using report by (simp add: reconcileRecordsAndGenerateReport_def resultPath_def w2_def same Let_def)
  obtain w3 where update: "updateReconHistoryStatus svc h' ''SUCCESS'' (resultPath svc) w2 = (Ok (), w3)"
    "rw_bucket w3 = rw_bucket w2"
    "historyAt w3 i = Some (h\<lparr>rh_Status := ''SUCCESS'', rh_ResultFilePath := resultPath svc, rh_UpdatedAt := rs_now svc\<rparr>)"
  proof -
    have "rh_ID h' = int i"
      using assms(2) by (auto simp: h'_def historyAt_def find_Some_iff)
    then show thesis
      using RepoReconUpdate_run [of svc "h'\<lparr>rh_Status := ''SUCCESS'', rh_ResultFilePath := resultPath svc\<rparr>" w2 i,
          OF _ trans [OF w2(1) prepared(4)]] works(1)
      by (auto simp: updateReconHistoryStatus_def h'_def intro: that)
  qed
  have task: "reconcileTask svc h' w1 = (Ok (), w3)"
    using stream(1) prepared(3) by (simp add: reconcileTask_def onStorage_def bind_def reconcile update(1))
  have "ProcessReconTaskQueue svc i w = (Ok (), w3\<lparr>rw_storage := []\<rparr>)"
    by (simp add: ProcessReconTaskQueue_def prepared(1) withFault_def works(2) cleaning_def task)
  moreover have "matchingReport svc h rows d lines left"
    using matching by (simp add: matchingReport_def same)
  moreover have "historyAt (w3\<lparr>rw_storage := []\<rparr>) i = historyAt w3 i"
    by (simp add: historyAt_def)
  ultimately show ?thesis
    using update(2,3) w2(2) by (intro exI [of _ lines] exI [of _ left] exI [of _ "w3\<lparr>rw_storage := []\<rparr>"]) simp
qed
text \<open>
  C8: A reconciliation compares multisets.  When nothing fails and no identifier is empty, the task ends with success and an
  empty store, and the report has, after the header, one line for each row of the file (of another day, none) and then what is left of the
  ledger: the matches are what the file and the ledger of the day have in common, by identifier and amount and with
  multiplicity; the rows marked as missing in the ledger are what the file has more, the last lines what the ledger has
  more; and every transaction of the day stands in it exactly once, with its reference number.
\<close>

theorem reconciliation_matches_multisets:
  assumes "reconWorks svc" and "rs_closeFault svc = None" and "historyAt w i = Some h" and "rh_TransactionDate h = Some d"
    and "rw_storage w = []" and "rw_bucket w (GetFilePath (NewCloudStoragePayload (rh_UploadedFilePath h))) = Some content"
    and "csvRead content = (rows, None)" and "rowsNamed rows"
    and "\<forall>row\<in>set (reconRows svc d). storable svc row"
  defines "file \<equiv> mset (map reconKey (dayRecords svc h rows))"
    and "ledger \<equiv> mset (map (reconKey \<circ> ledgerRecord svc) (reconRows svc d))"
  shows "\<exists>lines left w'. ProcessReconTaskQueue svc i w = (Ok (), w') \<and> rw_storage w' = [] \<and>
    historyAt w' i = Some (h\<lparr>rh_Status := ''SUCCESS'', rh_ResultFilePath := resultPath svc, rh_UpdatedAt := rs_now svc\<rparr>) \<and>
    rw_bucket w' (resultPath svc) =
      Some (csvText (csvHeaderReconRecord # map (lineText svc h) lines @ map (ToCSVRow svc h) left)) \<and>
    mset (map reconKey (linesWith ReconMatch lines)) = file \<inter># ledger \<and>
    mset (map reconKey (linesWith ReconNotExistsDBExistsCSV lines)) = file - ledger \<and>
    mset (map reconKey left) = ledger - file \<and>
    mset (map reconRef (linesWith ReconMatch lines @ left)) = mset (map (reconRef \<circ> ledgerRecord svc) (reconRows svc d))"
proof -
  from task_run [OF assms(1,3-7,9,8)] obtain lines left w' where
    "ProcessReconTaskQueue svc i w = (Ok (), w')" "rw_storage w' = []"
    "rw_bucket w' = (rw_bucket w)(resultPath svc \<mapsto> csvText (csvHeaderReconRecord # map (lineText svc h) lines @ map (ToCSVRow svc h) left))"
    "historyAt w' i = Some (h\<lparr>rh_Status := ''SUCCESS'', rh_ResultFilePath := resultPath svc, rh_UpdatedAt := rs_now svc\<rparr>)"
    "matchingReport svc h rows d lines left"
    using assms(2) by auto
  then show ?thesis
    unfolding file_def ledger_def
    by (intro exI [of _ lines] exI [of _ left] exI [of _ w']) (simp add: matchingReport_def Let_def)
qed

section \<open>From the upload to the report\<close>

lemma find_append: "find P (xs @ ys) = (case find P xs of None \<Rightarrow> find P ys | Some x \<Rightarrow> Some x)"
  by (induction xs) auto

lemma dropWhile_start: "xs \<noteq> [] \<Longrightarrow> \<not> P (hd xs) \<Longrightarrow> dropWhile P xs = xs"
  by (cases xs) auto

lemma TrimSpace_plain: "s \<noteq> [] \<Longrightarrow> \<not> isSpace (hd s) \<Longrightarrow> \<not> isSpace (last s) \<Longrightarrow> TrimSpace s = s"
  by (simp add: TrimSpace_def dropWhile_start hd_rev)

lemma digit_part: "list_all isDigit c \<Longrightarrow> c \<noteq> [] \<Longrightarrow> plainPart c"
  by (auto simp: plainPart_def list_all_iff isDigit_def)

lemma isDigit_isSpace: "isDigit c \<Longrightarrow> \<not> isSpace c"
  by (simp add: isDigit_def isSpace_def Let_def)

lemma padded_nonempty: "padded n k \<noteq> []"
  by (simp add: padded_def)

lemma stampedFile_split:
  assumes "plainPart kind"
  shows "NewCloudStoragePayload (GetFilePath (stampedFile kind zone t)) = stampedFile kind zone t"
proof -
  obtain y m day where date: "dateOf (nat ((t + zone * nsPerMinute) div nsPerDay)) = (y, m, day)"
    by (cases "dateOf (nat ((t + zone * nsPerMinute) div nsPerDay))") auto
  let ?parts = "[''recon_tools'', kind, padded 4 y, padded 2 m]"
  obtain digits where name: "stampedFile kind zone t = \<lparr>csp_Filename = digits @ ''.csv'', csp_Path = join ''/'' ?parts\<rparr>"
    and digits: "list_all isDigit digits"
    by (simp add: stampedFile_def date Let_def) (smt (verit) append.assoc list_all_append padded_props(1))
  have "list_all plainPart ?parts"
    using assms digit_part [OF padded_props(1) padded_nonempty] by (simp add: plainPart_def)
  moreover have "plainPart (digits @ ''.csv'')"
    using digits by (auto simp: plainPart_def list_all_iff isDigit_def)
  moreover have "TrimSpace (join ''/'' ?parts) \<noteq> ''.''"
  proof -
    have "isDigit (last (padded 2 m))"
      using padded_props(1) [of 2 m] padded_nonempty [of 2 m] by (simp add: list_all_iff)
    then have "TrimSpace (join ''/'' ?parts) = join ''/'' ?parts"
      by (intro TrimSpace_plain) (auto simp: isSpace_def padded_nonempty dest: isDigit_isSpace)
    then show ?thesis by simp
  qed
  ultimately show ?thesis
    unfolding name by (intro NewCloudStoragePayload_GetFilePath) auto
qed

lemma ParseUint64_formatInt: "0 \<le> n \<Longrightarrow> n < 2 ^ 64 \<Longrightarrow> ParseUint64 (formatInt n) = Some (nat n)"
  using ParseUint64_digits [of "nat n"] by (simp add: formatInt_def)

lemma find_False: "find (\<lambda>n. False) xs = None"
  by (simp add: find_None_iff)

lemma upload_run:
  assumes "reconWorks svc" and "rs_closeFault svc = None" and "ls \<noteq> []" and "stringsHasPrefix (hd ls) (templateHeader (hd ls))"
    and "ParseDateUTC (uf_TransactionDate req) = Some t"
  defines "path \<equiv> GetFilePath (stampedFile ''upload'' 420 (rs_now svc))"
  shows "UploadReconTemplate svc req (ls, None) w =
    (Ok (), w\<lparr>rw_history := rw_history w @
        [\<lparr>rh_ID = rw_nextId w, rh_OrderType = uf_OrderType req, rh_TransactionType = uf_TransactionType req,
          rh_TransactionDate = Some (nat (t div nsPerDay)), rh_ResultFilePath = '''', rh_UploadedFilePath = path,
          rh_Status = ''PENDING'', rh_CreatedAt = rs_now svc, rh_UpdatedAt = rs_now svc\<rparr>],
       rw_nextId := rw_nextId w + 1, rw_tasks := rw_tasks w @ [(formatInt (rw_nextId w), ''RECON_FILE'')],
       rw_bucket := (rw_bucket w)(path \<mapsto> linesText ls)\<rparr>)"
  using assms(2-5)
  by (cases ls) (simp_all add: UploadReconTemplate_def registerUpload_def RepoReconCreate_def closeUpload_def path_def
      reconWorks_simps [OF assms(1)] Let_def find_False)
text \<open>
  C16: An upload is reconciled.  A file with the header of the template is registered, stored under the name that the
  history keeps, and announced; whoever consumes the announcement then finds the file under that name, and ends with
  success and a report in which matches and differences are those of file and ledger of the day, for every transaction
  type.
\<close>

theorem upload_is_reconciled:
  assumes "reconWorks svc" and "rs_closeFault svc = None" and "ls \<noteq> []" and "stringsHasPrefix (hd ls) (templateHeader (hd ls))"
    and "ParseDateUTC (uf_TransactionDate req) = Some t" and "csvRead (linesText ls) = (rows, None)" and "rowsNamed rows"
    and "\<forall>row\<in>set (reconRows svc (nat (t div nsPerDay))). storable svc row"
    and "rw_storage w = []" and "\<forall>h\<in>set (rw_history w). rh_ID h < rw_nextId w" and "0 \<le> rw_nextId w" and "rw_nextId w < 2 ^ 64"
    and "rs_unmarshalTask svc message = Ok (formatInt (rw_nextId w), ''RECON_FILE'')"
  shows "\<exists>w' w'' h lines left. UploadReconTemplate svc req (ls, None) w = (Ok (), w') \<and>
    rw_tasks w' = rw_tasks w @ [(formatInt (rw_nextId w), ''RECON_FILE'')] \<and>
    historyAt w' (nat (rw_nextId w)) = Some h \<and> rh_Status h = ''PENDING'' \<and>
    consumeTask svc (Some message) (w', marked) = (Ok (), (w'', marked @ [message])) \<and>
    historyAt w'' (nat (rw_nextId w)) =
      Some (h\<lparr>rh_Status := ''SUCCESS'', rh_ResultFilePath := resultPath svc, rh_UpdatedAt := rs_now svc\<rparr>) \<and>
    rw_bucket w'' (resultPath svc) =
      Some (csvText (csvHeaderReconRecord # map (lineText svc h) lines @ map (ToCSVRow svc h) left)) \<and>
    matchingReport svc h rows (nat (t div nsPerDay)) lines left"
proof -
  let ?path = "GetFilePath (stampedFile ''upload'' 420 (rs_now svc))" and ?i = "nat (rw_nextId w)"
  define h where "h = \<lparr>rh_ID = rw_nextId w, rh_OrderType = uf_OrderType req, rh_TransactionType = uf_TransactionType req,
      rh_TransactionDate = Some (nat (t div nsPerDay)), rh_ResultFilePath = '''', rh_UploadedFilePath = ?path,
      rh_Status = ''PENDING'', rh_CreatedAt = rs_now svc, rh_UpdatedAt = rs_now svc\<rparr>"
  define w' where "w' = w\<lparr>rw_history := rw_history w @ [h], rw_nextId := rw_nextId w + 1,
      rw_tasks := rw_tasks w @ [(formatInt (rw_nextId w), ''RECON_FILE'')], rw_bucket := (rw_bucket w)(?path \<mapsto> linesText ls)\<rparr>"
  have upload: "UploadReconTemplate svc req (ls, None) w = (Ok (), w')"
    using upload_run [OF assms(1-5)] by (simp add: w'_def h_def)
  have "find (\<lambda>x. rh_ID x = rw_nextId w) (rw_history w) = None"
    using assms(10) by (fastforce simp: find_None_iff)
  then have at: "historyAt w' ?i = Some h"
    using assms(11) by (simp add: historyAt_def w'_def find_append) (simp add: h_def)
  have "rw_bucket w' (GetFilePath (NewCloudStoragePayload (rh_UploadedFilePath h))) = Some (linesText ls)"
    using stampedFile_split [of "''upload''" 420 "rs_now svc"] by (simp add: h_def w'_def plainPart_def)
  then obtain lines left w'' where run: "ProcessReconTaskQueue svc ?i w' = (Ok (), w'')"
    "rw_bucket w'' = (rw_bucket w')(resultPath svc \<mapsto> csvText (csvHeaderReconRecord # map (lineText svc h) lines @ map (ToCSVRow svc h) left))"
    "historyAt w'' ?i = Some (h\<lparr>rh_Status := ''SUCCESS'', rh_ResultFilePath := resultPath svc, rh_UpdatedAt := rs_now svc\<rparr>)"
    "matchingReport svc h rows (nat (t div nsPerDay)) lines left"
    using task_run [OF assms(1) at _ _ _ assms(6,8,7)] assms(2,9) by (auto simp: h_def w'_def)
  have "consumeTask svc (Some message) (w', marked) = (Ok (), (w'', marked @ [message]))"
    using assms(11-13) run(1) ParseUint64_formatInt [of "rw_nextId w"]
    by (simp add: consumeTask_def processTask_def wrapping_def)
  with upload at run show ?thesis
    by (intro exI [of _ w'] exI [of _ w''] exI [of _ h] exI [of _ lines] exI [of _ left]) (simp add: w'_def, simp add: h_def)
qed

section \<open>What is not as it should be\<close>

lemma matchingReport_none:
  assumes "matchingReport svc h rows d lines left" and "reconRows svc d = []"
  shows "linesWith ReconMatch lines = []" and "left = []"
    and "mset (map reconKey (linesWith ReconNotExistsDBExistsCSV lines)) = mset (map reconKey (dayRecords svc h rows))"
  using assms by (auto simp: matchingReport_def Let_def)

text \<open>
  C38: A reconciliation of a day that is more than a week ago finds nothing.  The query of the ledger keeps its default of
  the last seven days beside the date it is given: the task ends with success, and the report marks every row of the file
  as missing in a ledger that may have each of them.
\<close>

theorem old_reconciliation_finds_nothing:
  assumes "reconWorks svc" and "rs_closeFault svc = None" and "historyAt w i = Some h" and "rh_TransactionDate h = Some d"
    and "d < localDay (AddDays (NowZeroTime (tt_now (rs_tables svc))) (- 7))" and "rw_storage w = []"
    and "rw_bucket w (GetFilePath (NewCloudStoragePayload (rh_UploadedFilePath h))) = Some content"
    and "csvRead content = (rows, None)" and "rowsNamed rows"
  shows "\<exists>lines w'. ProcessReconTaskQueue svc i w = (Ok (), w') \<and>
    map_option rh_Status (historyAt w' i) = Some ''SUCCESS'' \<and>
    rw_bucket w' (resultPath svc) = Some (csvText (csvHeaderReconRecord # map (lineText svc h) lines)) \<and>
    linesWith ReconMatch lines = [] \<and>
    mset (map reconKey (linesWith ReconNotExistsDBExistsCSV lines)) = mset (map reconKey (dayRecords svc h rows))"
proof -
  have none: "reconRows svc d = []"
    using assms(5) by (auto simp: reconRows_def filter_empty_conv)
  from task_run [OF assms(1,3,4,6-8) _ assms(9)] none obtain lines left w' where run: "ProcessReconTaskQueue svc i w = (Ok (), w')"
    "rw_bucket w' = (rw_bucket w)(resultPath svc \<mapsto> csvText (csvHeaderReconRecord # map (lineText svc h) lines @ map (ToCSVRow svc h) left))"
    "historyAt w' i = Some (h\<lparr>rh_Status := ''SUCCESS'', rh_ResultFilePath := resultPath svc, rh_UpdatedAt := rs_now svc\<rparr>)"
    "matchingReport svc h rows d lines left"
    using assms(2) by auto
  with matchingReport_none [OF run(4) none] show ?thesis
    by (intro exI [of _ lines] exI [of _ w']) simp
qed

text \<open>
  A success without a report.  When the object of the report cannot be written at its closing, the error is lost: the
  task is acknowledged, the history says success and names a file that does not exist.
\<close>

lemma success_without_report:
  assumes "reconWorks svc" and "rs_closeFault svc = Some e" and "historyAt w i = Some h" and "rh_TransactionDate h = Some d"
    and "rw_storage w = []" and "rw_bucket w (GetFilePath (NewCloudStoragePayload (rh_UploadedFilePath h))) = Some content"
    and "csvRead content = (rows, None)" and "rowsNamed rows"
    and "\<forall>row\<in>set (reconRows svc d). storable svc row"
    and "rs_unmarshalTask svc message = Ok (formatInt (int i), ''RECON_FILE'')" and "i < 2 ^ 64"
    and "rw_bucket w (resultPath svc) = None"
  shows "\<exists>w' h'. consumeTask svc (Some message) (w, marked) = (Ok (), (w', marked @ [message])) \<and>
    historyAt w' i = Some h' \<and> rh_Status h' = ''SUCCESS'' \<and> rh_ResultFilePath h' = resultPath svc \<and>
    rw_bucket w' (rh_ResultFilePath h') = None"
proof -
  from task_run [OF assms(1,3-7,9,8)] obtain w' where run: "ProcessReconTaskQueue svc i w = (Ok (), w')" "rw_bucket w' = rw_bucket w"
    "historyAt w' i = Some (h\<lparr>rh_Status := ''SUCCESS'', rh_ResultFilePath := resultPath svc, rh_UpdatedAt := rs_now svc\<rparr>)"
    using assms(2) by auto
  have "consumeTask svc (Some message) (w, marked) = (Ok (), (w', marked @ [message]))"
    using assms(10,11) run(1) ParseUint64_formatInt [of "int i"] by (simp add: consumeTask_def processTask_def wrapping_def)
  with run assms(12) show ?thesis
    by (intro exI [of _ w'] exI) auto
qed

text \<open>
  A failure before the report leaves the history in processing.  When the ledger cannot be read, the status is not set
  to failed, and the message is neither acknowledged nor sent on.
\<close>

lemma failed_stream_stays_processing:
  assumes "rs_fault svc SelectHistory = None" and "rs_fault svc (UpdateHistory ''PROCESSING'') = None"
    and "rs_storageFault svc StorageOpen = None" and "tt_listFault (rs_tables svc) = Some e"
    and "historyAt w i = Some h" and "rh_TransactionDate h = Some d"
    and "rs_unmarshalTask svc message = Ok (formatInt (int i), ''RECON_FILE'')" and "i < 2 ^ 64"
  shows "\<exists>w'. consumeTask svc (Some message) (w, marked) = (Ok (), (w', marked)) \<and>
    historyAt w' i = Some (h\<lparr>rh_Status := ''PROCESSING'', rh_UpdatedAt := rs_now svc\<rparr>)"
proof -
  obtain w1 where prepared: "prepareReconHistory svc i w = (Ok (h\<lparr>rh_Status := ''PROCESSING''\<rparr>), w1)"
    "historyAt w1 i = Some (h\<lparr>rh_Status := ''PROCESSING'', rh_UpdatedAt := rs_now svc\<rparr>)"
    using prepare_run [OF assms(1,2,5,6)] by blast
  have stream: "streamTransactionsToLocalStorage svc h' s = (Err (wrapErr ''failed to stream transaction'' e), s)" for h' s
    using assms(4) by (simp add: streamTransactionsToLocalStorage_def StreamAll_def exec_simps)
  have "\<exists>e' w'. ProcessReconTaskQueue svc i w = (Err e', w') \<and> historyAt w' i = historyAt w1 i"
    by (simp add: ProcessReconTaskQueue_def prepared(1) withFault_def assms(3) cleaning_def reconcileTask_def onStorage_def bind_def
        stream historyAt_def)
  then obtain e' w' where "ProcessReconTaskQueue svc i w = (Err e', w')" "historyAt w' i = historyAt w1 i"
    by blast
  then show ?thesis
    using assms(7,8) prepared(2) ParseUint64_formatInt [of "int i"]
    by (simp add: consumeTask_def processTask_def wrapping_def)
qed

text \<open>
  When the history cannot be written, the file is deleted before its writer is closed, and comes to be afterwards: the
  upload fails and its file stays.
\<close>

lemma failed_upload_leaves_file:
  assumes "rs_fault svc InsertHistory = Some e" and "rs_closeFault svc = None" and "\<forall>n. rs_writeFault svc n = None"
    and "ls \<noteq> []" and "stringsHasPrefix (hd ls) (templateHeader (hd ls))"
  shows "\<exists>w'. UploadReconTemplate svc req (ls, None) w = (Err (Sentinel ErrUnableToCreate), w') \<and>
    rw_history w' = rw_history w \<and> rw_bucket w' (GetFilePath (stampedFile ''upload'' 420 (rs_now svc))) = Some (linesText ls)"
  using assms
  by (cases ls) (simp_all add: UploadReconTemplate_def registerUpload_def RepoReconCreate_def closeUpload_def deleteReconFile_def
      Let_def find_False)

section \<open>The theorems, applied\<close>

text \<open>
  Two transactions of the day that a file is about, of a hundred each; the file has one of them, one that is not in the
  ledger, and one of the day before.
\<close>

definition reconExample :: "rat ReconService" where
  "reconExample =
     \<lparr>rs_tables = listedTables, rs_delivered = None, rs_virtualAccount = \<lambda>_. Ok None,
      rs_parseDecimal = \<lambda>s. if s = ''100'' then Ok 100 else if s = ''200'' then Ok 200 else Err (External ''can't convert''),
      rs_decimalText = \<lambda>d. if d = 100 then ''100'' else ''200'', rs_errorText = \<lambda>_. ''error'',
      rs_unmarshalTask = \<lambda>s. Ok (s, ''RECON_FILE''), rs_sign = \<lambda>p m. Ok p, rs_resultExpiry = 0, rs_now = 20 * nsPerDay,
      rs_zone = 420, rs_storageFault = \<lambda>_. None, rs_fault = \<lambda>_. None, rs_writeFault = \<lambda>_. None, rs_closeFault = None\<rparr>"

definition reconFile :: "string list list" where
  "reconFile =
     [[''identifier'', ''amount'', ''payment_date'', ''remark''], [''REF'', ''100'', ''20-Jan-0001'', ''a''],
      [''REF'', ''200'', ''20-Jan-0001'', ''b''], [''REF'', ''100'', ''19-Jan-0001'', ''c'']]"

definition reconPending :: "nat \<Rightarrow> ReconToolHistory" where
  "reconPending d =
     \<lparr>rh_ID = 7, rh_OrderType = ''TUP'', rh_TransactionType = ''TUPVA'', rh_TransactionDate = Some d, rh_ResultFilePath = '''',
      rh_UploadedFilePath = ''recon_tools/upload.csv'', rh_Status = ''PENDING'', rh_CreatedAt = 0, rh_UpdatedAt = 0\<rparr>"

definition reconStart :: "nat \<Rightarrow> rat ReconWorld" where
  "reconStart d =
     \<lparr>rw_history = [reconPending d], rw_nextId = 8,
      rw_bucket = [GetFilePath (NewCloudStoragePayload ''recon_tools/upload.csv'') \<mapsto> csvText reconFile],
      rw_tasks = [], rw_storage = []\<rparr>"

lemma reconExample_works: "reconWorks (reconExample\<lparr>rs_closeFault := e\<rparr>)"
  by (simp add: reconWorks_def reconExample_def listedTables_def)

lemma reconFile_read: "csvRead (csvText reconFile) = (reconFile, None)"
  by (rule csvRead_csvText [of _ 4]) (simp_all add: reconFile_def)

lemma reconFile_named: "rowsNamed reconFile"
  by (simp add: reconFile_def rowsNamed_def)

lemma reconStart_simps [simp]:
  "historyAt (reconStart d) 7 = Some (reconPending d)" "rw_storage (reconStart d) = []"
  "rw_bucket (reconStart d) (GetFilePath (NewCloudStoragePayload (rh_UploadedFilePath (reconPending d)))) = Some (csvText reconFile)"
  "rh_TransactionDate (reconPending d) = Some d"
  by (simp_all add: reconStart_def historyAt_def reconPending_def)

lemma recon_days:
  "readsDDMMMYYYY ''20-Jan-0001''" "readsDDMMMYYYY ''19-Jan-0001''"
  by code_simp+

lemma reconExample_rows:
  "reconRows (reconExample\<lparr>rs_closeFault := e\<rparr>) 19 = [listedRow 1 19, listedRow 4 19]"
  by (simp add: reconRows_def reconExample_def listedTables_def listed_clock listedRow_def)

lemma reconExample_ledger:
  "storable (reconExample\<lparr>rs_closeFault := e\<rparr>) (listedRow i d)"
  "reconKey (ledgerRecord (reconExample\<lparr>rs_closeFault := e\<rparr>) (listedRow i d)) = (''REF'', 100)"
  by (simp_all add: ledgerRecord_def ConvertTransactionTopUpToReconRecord_def reconExample_def listedRow_def exampleEntry_def
      reconKey_def storable_def)

lemma reconFile_records:
  "map reconKey (dayRecords (reconExample\<lparr>rs_closeFault := e\<rparr>) (reconPending 19) reconFile) = [(''REF'', 100), (''REF'', 200)]"
proof -
  have day: "reconDay (reconPending 19) = ''20-Jan-0001''"
    by (simp add: reconDay_def reconPending_def FormatDDMMMYYYY_def early_date) code_simp
  have "isTemplateHeader [''identifier'', ''amount'', ''payment_date'', ''remark'']"
    "\<not> isTemplateHeader [''REF'', ''100'', ''20-Jan-0001'', ''a'']" "\<not> isTemplateHeader [''REF'', ''200'', ''20-Jan-0001'', ''b'']"
    by code_simp+
  then show ?thesis
    by (simp add: reconFile_def dayRecord_def day ConvertStringCSVToReconRecord_def recon_days reconExample_def reconKey_def)
qed

lemma reconExample_same: "reconExample\<lparr>rs_closeFault := None\<rparr> = reconExample"
  by (simp add: reconExample_def)

lemmas reconExample_facts =
  reconExample_works [of None, unfolded reconExample_same] reconExample_rows [of None, unfolded reconExample_same]
  reconExample_ledger [of None, unfolded reconExample_same] reconFile_records [of None, unfolded reconExample_same]

text \<open>One matches, one is only in the file, and one of the two equal transactions is left over.\<close>

lemma reconciliation_matches_multisets_witness:
  "\<exists>lines left w'. ProcessReconTaskQueue reconExample 7 (reconStart 19) = (Ok (), w') \<and>
    rw_bucket w' (resultPath reconExample) = Some (csvText (csvHeaderReconRecord #
      map (lineText reconExample (reconPending 19)) lines @ map (ToCSVRow reconExample (reconPending 19)) left)) \<and>
    mset (map reconKey (linesWith ReconMatch lines)) = {#(''REF'', 100)#} \<and>
    mset (map reconKey (linesWith ReconNotExistsDBExistsCSV lines)) = {#(''REF'', 200)#} \<and>
    mset (map reconKey left) = {#(''REF'', 100)#}"
proof -
  have closed: "rs_closeFault reconExample = None"
    by (simp add: reconExample_def)
  show ?thesis
    using reconciliation_matches_multisets [OF reconExample_facts(1) closed, of "reconStart 19" 7 "reconPending 19" 19
        "csvText reconFile" reconFile]
    by (simp add: reconFile_read reconFile_named reconExample_facts) blast
qed

lemma reconExample_message: "rs_unmarshalTask (reconExample\<lparr>rs_closeFault := e\<rparr>) (formatInt 7) = Ok (formatInt (int 7), ''RECON_FILE'')"
  by (simp add: reconExample_def)

text \<open>The same file, from its upload.\<close>

definition reconEmpty :: "rat ReconWorld" where
  "reconEmpty = (reconStart 19)\<lparr>rw_history := [], rw_nextId := 7, rw_bucket := Map.empty\<rparr>"

definition reconLines :: "string list" where
  "reconLines = map (join '','') reconFile"

definition reconRequest :: UploadReconFileRequest where
  "reconRequest = \<lparr>uf_OrderType = ''TUP'', uf_TransactionType = ''TUPVA'', uf_TransactionDate = ''0001-01-20''\<rparr>"

lemma reconLines_text: "linesText reconLines = csvText reconFile"
  by code_simp

lemma reconLines_header: "stringsHasPrefix (hd reconLines) (templateHeader (hd reconLines))"
  by code_simp

lemma reconRequest_date: "ParseDateUTC (uf_TransactionDate reconRequest) = Some (19 * nsPerDay)"
  by code_simp

lemma upload_is_reconciled_witness:
  "\<exists>w' w'' h. UploadReconTemplate reconExample reconRequest (reconLines, None) reconEmpty = (Ok (), w') \<and>
    rw_tasks w' = [(formatInt 7, ''RECON_FILE'')] \<and>
    consumeTask reconExample (Some (formatInt 7)) (w', []) = (Ok (), (w'', [formatInt 7])) \<and>
    historyAt w'' 7 = Some h \<and> rh_Status h = ''SUCCESS'' \<and> rh_ResultFilePath h = resultPath reconExample"
proof -
  have day: "nat (19 * nsPerDay div nsPerDay) = 19"
    by (simp add: nsPerDay_def)
  have closed: "rs_closeFault reconExample = None"
    by (simp add: reconExample_def)
  have "reconLines \<noteq> []"
    by (simp add: reconLines_def reconFile_def)
  note upload = upload_is_reconciled [OF reconExample_facts(1) closed this reconLines_header reconRequest_date,
      of reconFile reconEmpty "formatInt 7" "[]", unfolded day]
  show ?thesis
    using upload reconExample_message [of None, unfolded reconExample_same]
    by (auto simp: reconLines_text reconFile_read reconFile_named reconExample_facts reconEmpty_def reconStart_def)
qed

text \<open>The day of a transaction that is in the ledger, more than a week ago.\<close>

lemma old_reconciliation_finds_nothing_witness:
  "listedRow 3 2 \<in> set (tt_transaction (rs_tables reconExample)) \<and>
   (\<exists>lines w'. ProcessReconTaskQueue reconExample 7 (reconStart 2) = (Ok (), w') \<and>
      rw_bucket w' (resultPath reconExample) =
        Some (csvText (csvHeaderReconRecord # map (lineText reconExample (reconPending 2)) lines)) \<and>
      linesWith ReconMatch lines = [])"
proof -
  have "2 < localDay (AddDays (NowZeroTime (tt_now (rs_tables reconExample))) (- 7))"
    by (simp add: reconExample_def listedTables_def listed_clock)
  moreover have "rs_closeFault reconExample = None" "listedRow 3 2 \<in> set (tt_transaction (rs_tables reconExample))"
    by (simp_all add: reconExample_def listedTables_def)
  ultimately show ?thesis
    using old_reconciliation_finds_nothing [OF reconExample_facts(1), of "reconStart 2" 7 "reconPending 2" 2 "csvText reconFile" reconFile]
    by (auto simp: reconFile_read reconFile_named)
qed

lemma resultPath_start: "take 13 (resultPath svc) = ''recon_tools/r''"
proof -
  obtain digits date where "stampedFile ''result'' (rs_zone svc) (rs_now svc) =
      \<lparr>csp_Filename = digits, csp_Path = ''recon_tools/'' @ ''result'' @ ''/'' @ date\<rparr>"
    unfolding stampedFile_def Let_def by (cases "dateOf (nat ((rs_now svc + rs_zone svc * nsPerMinute) div nsPerDay))") auto
  then show ?thesis
    by (simp add: resultPath_def GetFilePath_def)
qed

lemma success_without_report_witness:
  "\<exists>w' h'. consumeTask (reconExample\<lparr>rs_closeFault := Some Panic\<rparr>) (Some (formatInt 7)) (reconStart 19, []) =
      (Ok (), (w', [formatInt 7])) \<and>
    historyAt w' 7 = Some h' \<and> rh_Status h' = ''SUCCESS'' \<and> rw_bucket w' (rh_ResultFilePath h') = None"
proof -
  let ?svc = "reconExample\<lparr>rs_closeFault := Some Panic\<rparr>"
  have "take 13 (resultPath ?svc) = ''recon_tools/r''"
    by (rule resultPath_start)
  moreover have "GetFilePath (NewCloudStoragePayload ''recon_tools/upload.csv'') = ''recon_tools/upload.csv''"
    using NewCloudStoragePayload_GetFilePath [of "[''recon_tools'']" "''upload.csv''"] TrimSpace_plain [of "''recon_tools''"]
    by (simp add: plainPart_def GetFilePath_def isSpace_def)
  ultimately have "rw_bucket (reconStart 19) (resultPath ?svc) = None"
    by (auto simp: reconStart_def)
  then show ?thesis
    using success_without_report [OF reconExample_works, of "Some Panic" Panic "reconStart 19" 7 "reconPending 19" 19
        "csvText reconFile" reconFile "formatInt 7" "[]"]
    by (auto simp: reconFile_read reconFile_named reconExample_rows reconExample_ledger reconExample_message
        reconExample_message [of None, unfolded reconExample_same])
qed

lemma failed_stream_stays_processing_witness:
  "\<exists>w'. consumeTask (reconExample\<lparr>rs_tables := listedTables\<lparr>tt_listFault := Some Panic\<rparr>\<rparr>) (Some (formatInt 7)) (reconStart 19, []) =
      (Ok (), (w', [])) \<and>
    map_option rh_Status (historyAt w' 7) = Some ''PROCESSING''"
  using failed_stream_stays_processing [of "reconExample\<lparr>rs_tables := listedTables\<lparr>tt_listFault := Some Panic\<rparr>\<rparr>" Panic
      "reconStart 19" 7 "reconPending 19" 19 "formatInt 7" "[]"]
  by (auto simp: reconExample_def)

end
