(* ===== verification/DeadLetters.thy ===== *)
theory DeadLetters
  imports AccountRequests WalletListing
begin

text \<open>
  Dead letters and their retries: \<open>internal/models/dlq.go\<close> and \<open>dlq_processor.go\<close>, the publisher of
  \<open>internal/common/dlq_publisher\<close>, \<open>internal/services/dlq_processor_service.go\<close>, the consumers
  \<open>dlq_retrier\<close> and \<open>dlq_notification\<close>, the job of \<open>internal/common/queueunicorn\<close>, and what a delivery of the job meets: the
  middleware of \<open>internal/common/http/middleware\<close>, the validation of the request, and the handler.
\<close>

section \<open>Data\<close>

text \<open>The cause is not part of the JSON of a message.\<close>

record FailedMessage =
  fm_Payload :: string
  fm_Timestamp :: int
  fm_CauseError :: "err option"
  fm_Error :: string

definition prepareMessage :: "(err \<Rightarrow> string) \<Rightarrow> FailedMessage \<Rightarrow> FailedMessage" where
  "prepareMessage errorText m =
     (case fm_CauseError m of
        None \<Rightarrow> m
      | Some e \<Rightarrow> m\<lparr>fm_CauseError := None, fm_Error := (if fm_Error m = '''' then errorText e else fm_Error m)\<rparr>)"

record StatusRetryDLQ =
  sr_ProcessId :: string
  sr_ProcessName :: string
  sr_MaxRetry :: int
  sr_CurrentRetry :: int

definition GetCacheKeyStatusRetryDLQ :: "string \<Rightarrow> string" where
  "GetCacheKeyStatusRetryDLQ i = ''dlq:go-fp-transaction:status-retry:'' @ i"

definition ToHeaders :: "StatusRetryDLQ \<Rightarrow> string \<rightharpoonup> string" where
  "ToHeaders s =
     [''X-DLQ-Process-Id'' \<mapsto> sr_ProcessId s, ''X-DLQ-Process-Type'' \<mapsto> sr_ProcessName s,
      ''X-DLQ-Max-Retry'' \<mapsto> formatInt (sr_MaxRetry s)]"

definition RequestHeaderJob :: "string \<Rightarrow> string \<Rightarrow> (string \<rightharpoonup> string) \<Rightarrow> string \<rightharpoonup> string" where
  "RequestHeaderJob secretKey requestId additional =
     [''Accept'' \<mapsto> ''application/json'', ''Content-Type'' \<mapsto> ''application/json'', ''Cache-Control'' \<mapsto> ''no-cache'',
      ''User-Agent'' \<mapsto> ''go-queue-unicorn'', ''X-Secret-Key'' \<mapsto> secretKey, ''X-Request-Id'' \<mapsto> requestId,
      ''Is-Retry'' \<mapsto> ''true''] ++ additional"

text \<open>The body of a job: an account, or the order of the message as it is.\<close>

datatype (plugins only: code) 'd JobBody = AccountBody "'d CreateAccount" | OrderBody string

record 'd RequestJobHTTP =
  jb_Host :: string
  jb_Method :: string
  jb_Body :: "'d JobBody"
  jb_Headers :: "string \<rightharpoonup> string"
  jb_ProcessAt :: int
  jb_MaxRetry :: int

text \<open>
  The state is the cache (its values are kept by JSON, and live for a day), the jobs that are queued and the failures that
  are reported.  The environment has the libraries for JSON, the address and the key of the service, and a fault for
  every call.
\<close>

record 'd RetryWorld =
  rt_cache :: "string \<rightharpoonup> StatusRetryDLQ"
  rt_jobs :: "'d RequestJobHTTP list"
  rt_reports :: "(string \<times> string) list"

datatype (plugins only: code) retryCall = GetRetryStatus | SetRetryStatus | QueueJob

record 'd DLQProcessor =
  dp_TopicAccountMutationDLQ :: string
  dp_TopicDLQ :: string
  dp_TopicBalanceHvtDLQ :: string
  dp_unmarshalFailed :: "string \<Rightarrow> FailedMessage result"
  dp_unmarshalAccount :: "string \<Rightarrow> 'd AccountStream result"
  dp_unmarshalOrder :: "string \<Rightarrow> (string \<times> string) result"
  dp_unmarshalHvt :: "string \<Rightarrow> string result"
  dp_HostGoFPTransaction :: string
  dp_SecretKey :: string
  dp_timeText :: string
  dp_fault :: "retryCall \<Rightarrow> err option"

section \<open>The processor\<close>

definition GetStatusRetry :: "'d DLQProcessor \<Rightarrow> string \<Rightarrow> 'd RetryWorld \<Rightarrow> StatusRetryDLQ result" where
  "GetStatusRetry d i w =
     (case dp_fault d GetRetryStatus of
        Some e \<Rightarrow> Err (wrapErr ''failed to get status retry from cache'' e)
      | None \<Rightarrow>
          (case rt_cache w (GetCacheKeyStatusRetryDLQ i) of
             None \<Rightarrow> Err (wrapErr ''failed to get status retry from cache'' (Sentinel ErrDataNotFound))
           | Some s \<Rightarrow> Ok s))"

definition UpsertStatusRetry :: "'d DLQProcessor \<Rightarrow> string \<Rightarrow> StatusRetryDLQ \<Rightarrow> ('d RetryWorld, unit) exec" where
  "UpsertStatusRetry d i s w =
     (case dp_fault d SetRetryStatus of
        Some e \<Rightarrow> (Err (wrapErr ''failed to set status retry to cache'' e), w)
      | None \<Rightarrow> (Ok (), w\<lparr>rt_cache := (rt_cache w)(GetCacheKeyStatusRetryDLQ i \<mapsto> s)\<rparr>))"

definition SendJobHTTP :: "'d DLQProcessor \<Rightarrow> 'd RequestJobHTTP \<Rightarrow> ('d RetryWorld, unit) exec" where
  "SendJobHTTP d job w =
     (case dp_fault d QueueJob of
        Some e \<Rightarrow> (Err (GetErrMap ''failedFromExternalClient''), w)
      | None \<Rightarrow> (Ok (), w\<lparr>rt_jobs := rt_jobs w @ [job]\<rparr>))"

definition sendJob :: "'d DLQProcessor \<Rightarrow> string \<Rightarrow> 'd JobBody \<Rightarrow> StatusRetryDLQ \<Rightarrow> ('d RetryWorld, unit) exec" where
  "sendJob d url body status =
     bind (wrapping ''failed to insert status retry dlq'' (UpsertStatusRetry d (sr_ProcessId status) status)) (\<lambda>_.
       SendJobHTTP d
         \<lparr>jb_Host = dp_HostGoFPTransaction d @ ''/'' @ url, jb_Method = ''POST'', jb_Body = body,
          jb_Headers = RequestHeaderJob (dp_SecretKey d) (sr_ProcessId status) (ToHeaders status), jb_ProcessAt = 5,
          jb_MaxRetry = sr_MaxRetry status\<rparr>)"

definition retryStatus :: "'d DLQProcessor \<Rightarrow> string \<Rightarrow> string \<Rightarrow> string \<Rightarrow> StatusRetryDLQ" where
  "retryStatus d kind i name =
     \<lparr>sr_ProcessId = kind @ '':'' @ i @ '':'' @ dp_timeText d, sr_ProcessName = name, sr_MaxRetry = 5, sr_CurrentRetry = 0\<rparr>"

definition RetryAccountMutation :: "'d DLQProcessor \<Rightarrow> FailedMessage \<Rightarrow> ('d RetryWorld, unit) exec" where
  "RetryAccountMutation d message =
     bind (wrapping ''failed to unmarshal payload'' (call (dp_unmarshalAccount d (fm_Payload message)))) (\<lambda>m.
       sendJob d ''v1/accounts'' (AccountBody (streamedAccount m))
         (retryStatus d ''account'' (ca_AccountNumber (as_Account m)) ''account mutation''))"

definition RetryCreateOrderTransaction :: "'d DLQProcessor \<Rightarrow> FailedMessage \<Rightarrow> ('d RetryWorld, unit) exec" where
  "RetryCreateOrderTransaction d message =
     bind (wrapping ''failed to unmarshal payload'' (call (dp_unmarshalOrder d (fm_Payload message)))) (\<lambda>(refNumber, order).
       sendJob d ''v1/orders'' (OrderBody order) (retryStatus d ''order'' refNumber ''create order transaction''))"

text \<open>A report is a line of the log: the operation with what it is about.\<close>

definition report :: "string \<Rightarrow> string \<Rightarrow> ('d RetryWorld, unit) exec" where
  "report operation what w = (Ok (), w\<lparr>rt_reports := rt_reports w @ [(operation, what)]\<rparr>)"

definition SendNotificationOrderFailure :: "'d DLQProcessor \<Rightarrow> FailedMessage \<Rightarrow> ('d RetryWorld, unit) exec" where
  "SendNotificationOrderFailure d message =
     bind (wrapping ''failed to unmarshal payload'' (call (dp_unmarshalOrder d (fm_Payload message)))) (\<lambda>(refNumber, order).
       report (if stringsContains refNumber ''TRX-MANUAL'' then ''Process Manual Transaction'' else ''Process Consumer Transaction'')
         refNumber)"

definition SendNotificationAccountFailure :: "'d DLQProcessor \<Rightarrow> FailedMessage \<Rightarrow> ('d RetryWorld, unit) exec" where
  "SendNotificationAccountFailure d message =
     bind (wrapping ''failed to unmarshal payload'' (call (dp_unmarshalAccount d (fm_Payload message)))) (\<lambda>m.
       report ''Process Account Mutation'' (ca_AccountNumber (as_Account m)))"

definition SendNotificationBalanceHvtFailure :: "'d DLQProcessor \<Rightarrow> FailedMessage \<Rightarrow> ('d RetryWorld, unit) exec" where
  "SendNotificationBalanceHvtFailure d message =
     bind (wrapping ''failed to unmarshal payload'' (call (dp_unmarshalHvt d (fm_Payload message)))) (\<lambda>accountNumber.
       report ''Process HVT Balance Update'' accountNumber)"

definition SendNotificationRetryFailure :: "string \<Rightarrow> string \<Rightarrow> ('d RetryWorld, unit) exec" where
  "SendNotificationRetryFailure operation message = report (''[DLQ Retry Failure]: '' @ operation) message"

section \<open>The consumers\<close>

definition retrierMessage :: "'d DLQProcessor \<Rightarrow> string \<times> string \<Rightarrow> ('d RetryWorld, unit) exec" where
  "retrierMessage d message =
     (let (topic, body) = message
      in bind (wrapping ''error unmarshal json'' (call (dp_unmarshalFailed d body))) (\<lambda>m.
           wrapping ''err process dlq message''
             (if topic = dp_TopicAccountMutationDLQ d then RetryAccountMutation d m
              else if topic = dp_TopicDLQ d then RetryCreateOrderTransaction d m
              else fail (ErrorMsg (''unknown topic: '' @ topic)))))"

definition notifierMessage :: "'d DLQProcessor \<Rightarrow> string \<times> string \<Rightarrow> ('d RetryWorld, unit) exec" where
  "notifierMessage d message =
     (let (topic, body) = message
      in bind (wrapping ''error unmarshal json'' (call (dp_unmarshalFailed d body))) (\<lambda>m.
           wrapping ''err process dlq message''
             (if topic = dp_TopicAccountMutationDLQ d then SendNotificationAccountFailure d m
              else if topic = dp_TopicDLQ d then SendNotificationOrderFailure d m
              else if topic = dp_TopicBalanceHvtDLQ d then SendNotificationBalanceHvtFailure d m
              else fail (ErrorMsg (''unknown topic: '' @ topic)))))"

text \<open>One turn of a loop, with the messages marked so far: a failed message is left unmarked.\<close>

definition markProcessed ::
  "('m \<Rightarrow> ('s, unit) exec) \<Rightarrow> 'm \<Rightarrow> 's \<times> 'm list \<Rightarrow> 's \<times> 'm list" where
  "markProcessed f message s =
     (case f message (fst s) of
        (Inl e, w) \<Rightarrow> (w, snd s)
      | (Inr _, w) \<Rightarrow> (w, snd s @ [message]))"

definition consumeRetry :: "'d DLQProcessor \<Rightarrow> string \<times> string \<Rightarrow> 'd RetryWorld \<times> (string \<times> string) list \<Rightarrow>
    'd RetryWorld \<times> (string \<times> string) list" where
  "consumeRetry d = markProcessed (retrierMessage d)"

definition consumeFailure :: "'d DLQProcessor \<Rightarrow> string \<times> string \<Rightarrow> 'd RetryWorld \<times> (string \<times> string) list \<Rightarrow>
    'd RetryWorld \<times> (string \<times> string) list" where
  "consumeFailure d = markProcessed (notifierMessage d)"

section \<open>A delivery of the job\<close>

fun replyStatus :: "'m Reply \<Rightarrow> int" where
  "replyStatus (Reply s m) = s"
| "replyStatus (Failure s e) = s"

text \<open>The tags of \<open>DoCreateAccountRequest\<close>, for ASCII texts.\<close>

definition isLetter :: "char \<Rightarrow> bool" where
  "isLetter c =
     (let n = (of_char c :: nat) in 65 \<le> n \<and> n \<le> 90 \<or> 97 \<le> n \<and> n \<le> 122)"

definition isNumeric :: "string \<Rightarrow> bool" where
  "isNumeric s =
     (let s = (case s of c # cs \<Rightarrow> if c = CHR ''-'' \<or> c = CHR ''+'' then cs else s | [] \<Rightarrow> []);
          rest = dropWhile isDigit s
      in s \<noteq> [] \<and> isDigit (hd s) \<and>
         (rest = [] \<or> hd rest = CHR ''.'' \<and> tl rest \<noteq> [] \<and> list_all isDigit (tl rest)))"

definition validCreateAccount :: "'d CreateAccount \<Rightarrow> bool" where
  "validCreateAccount c =
     (isNumeric (ca_AccountNumber c) \<and> ca_Name c \<noteq> '''' \<and>
      ca_OwnerID c \<noteq> '''' \<and> length (ca_OwnerID c) \<le> 15 \<and> list_all (\<lambda>c. isDigit c \<or> isLetter c) (ca_OwnerID c) \<and>
      isNumeric (ca_CategoryCode c) \<and> length (ca_CategoryCode c) = 3 \<and>
      isNumeric (ca_SubCategoryCode c) \<and> length (ca_SubCategoryCode c) = 5 \<and>
      isNumeric (ca_EntityCode c) \<and> length (ca_EntityCode c) = 3 \<and>
      list_all isLetter (ca_Currency c) \<and> length (ca_Currency c) = 3 \<and>
      length (ca_AltId c) \<le> 50 \<and> ca_Status c \<in> {''active'', ''inactive''})"

definition postAccount :: "'d::linordered_idom AccountApi \<Rightarrow> 'd JobBody \<Rightarrow> 'd AccountDB \<Rightarrow> 'd CreateAccount Reply \<times> 'd AccountDB" where
  "postAccount api body db =
     (case body of
        OrderBody order \<Rightarrow> (Failure 422 (External ''validation''), db)
      | AccountBody req \<Rightarrow>
          if validCreateAccount req then createAccount api (req\<lparr>ca_IsHVT := False\<rparr>) db
          else (Failure 422 (External ''validation''), db))"

text \<open>
  \<open>CheckRetryDLQ\<close>.  The text of the answer is read from a buffer that is made after the answer, and is empty, so that a
  report always has the general message.
\<close>

definition CheckRetryDLQ ::
  "'d DLQProcessor \<Rightarrow> string \<Rightarrow> ('db \<Rightarrow> 'm Reply \<times> 'db) \<Rightarrow> 'db \<times> 'd RetryWorld \<Rightarrow> 'm Reply \<times> 'db \<times> 'd RetryWorld" where
  "CheckRetryDLQ d i handle s =
     (let (db, w) = s
      in if i = '''' then (case handle db of (r, db') \<Rightarrow> (r, db', w))
         else case GetStatusRetry d i w of
           Inl e \<Rightarrow> (Failure 500 e, db, w)
         | Inr status \<Rightarrow>
             (case handle db of
                (r, db') \<Rightarrow>
                  if 200 \<le> replyStatus r \<and> replyStatus r < 300 then (r, db', w)
                  else
                    (let status = status\<lparr>sr_CurrentRetry := sr_CurrentRetry status + 1\<rparr>
                     in if sr_MaxRetry status < sr_CurrentRetry status \<or> replyStatus r \<notin> {408, 504, 503, 500}
                        then (r, db', snd (SendNotificationRetryFailure (sr_ProcessName status)
                               (''max retry reached or status code not retryable: '' @ formatInt (replyStatus r) @
                                [CHR 0x0A, CHR 0x0A] @ '' Process Id: '' @ i) w))
                        else (r, db', snd (UpsertStatusRetry d i status w)))))"

definition headerValue :: "(string \<rightharpoonup> string) \<Rightarrow> string \<Rightarrow> string" where
  "headerValue headers k = (case headers k of None \<Rightarrow> '''' | Some v \<Rightarrow> v)"

definition InternalAuth ::
  "'d DLQProcessor \<Rightarrow> (string \<rightharpoonup> string) \<Rightarrow> ('s \<Rightarrow> 'm Reply \<times> 's) \<Rightarrow> 's \<Rightarrow> 'm Reply \<times> 's" where
  "InternalAuth d headers handle s =
     (let secretKey = headerValue headers ''X-Secret-Key''
      in if secretKey = '''' then (Failure 401 (ErrorMsg ''required secret key''), s)
         else if secretKey \<noteq> dp_SecretKey d then (Failure 401 (ErrorMsg ''invalid secret key''), s)
         else handle s)"

text \<open>The route of the accounts is there, one of orders is not.\<close>

definition deliver ::
  "'d::linordered_idom DLQProcessor \<Rightarrow> 'd AccountApi \<Rightarrow> 'd RequestJobHTTP \<Rightarrow> 'd AccountDB \<times> 'd RetryWorld \<Rightarrow>
    'd CreateAccount Reply \<times> 'd AccountDB \<times> 'd RetryWorld" where
  "deliver d api job =
     InternalAuth d (jb_Headers job)
       (if jb_Method job = ''POST'' \<and> jb_Host job = dp_HostGoFPTransaction d @ ''/v1/accounts''
        then CheckRetryDLQ d (headerValue (jb_Headers job) ''X-DLQ-Process-Id'') (postAccount api (jb_Body job))
        else (\<lambda>s. (Failure 404 (ErrorMsg ''route does not exist in this API''), s)))"

text \<open>The queue delivers a job again, to whatever the service is like then.\<close>

fun deliveries ::
  "'d::linordered_idom DLQProcessor \<Rightarrow> 'd AccountApi list \<Rightarrow> 'd RequestJobHTTP \<Rightarrow> 'd AccountDB \<times> 'd RetryWorld \<Rightarrow>
    int list \<times> 'd AccountDB \<times> 'd RetryWorld" where
  "deliveries d [] job s = ([], s)"
| "deliveries d (api # apis) job s =
     (case deliver d api job s of
        (r, s') \<Rightarrow> (case deliveries d apis job s' of (rs, s'') \<Rightarrow> (replyStatus r # rs, s'')))"

end
