(* ===== verification/DeadLetterProperties.thy ===== *)
theory DeadLetterProperties
  imports DeadLetters AccountProperties
begin

text \<open>
  What becomes of a message that failed: how often it is tried again, when it is given up, that an account that could
  not be created comes to be, and what a retry cannot do.
\<close>

section \<open>The job\<close>

definition accountStatus :: "'d DLQProcessor \<Rightarrow> 'd AccountStream \<Rightarrow> StatusRetryDLQ" where
  "accountStatus d m = retryStatus d ''account'' (ca_AccountNumber (as_Account m)) ''account mutation''"

definition accountJob :: "'d DLQProcessor \<Rightarrow> 'd AccountStream \<Rightarrow> 'd RequestJobHTTP" where
  "accountJob d m =
     \<lparr>jb_Host = dp_HostGoFPTransaction d @ ''/v1/accounts'', jb_Method = ''POST'', jb_Body = AccountBody (streamedAccount m),
      jb_Headers = RequestHeaderJob (dp_SecretKey d) (sr_ProcessId (accountStatus d m)) (ToHeaders (accountStatus d m)),
      jb_ProcessAt = 5, jb_MaxRetry = 5\<rparr>"

definition retryKey :: "'d DLQProcessor \<Rightarrow> 'd AccountStream \<Rightarrow> string" where
  "retryKey d m = GetCacheKeyStatusRetryDLQ (sr_ProcessId (accountStatus d m))"

text \<open>The calls of the processor work, and there is a secret key.\<close>

definition retriesWork :: "'d DLQProcessor \<Rightarrow> bool" where
  "retriesWork d \<longleftrightarrow> (\<forall>c. dp_fault d c = None) \<and> dp_SecretKey d \<noteq> ''''"

lemma job_headers [simp]:
  "headerValue (RequestHeaderJob k i (ToHeaders s)) ''X-Secret-Key'' = k"
  "headerValue (RequestHeaderJob k i (ToHeaders s)) ''X-DLQ-Process-Id'' = sr_ProcessId s"
  by (simp_all add: headerValue_def RequestHeaderJob_def ToHeaders_def map_add_def)

lemma accountStatus_simps [simp]:
  "sr_ProcessId (accountStatus d m) \<noteq> ''''" "sr_MaxRetry (accountStatus d m) = 5" "sr_CurrentRetry (accountStatus d m) = 0"
  by (simp_all add: accountStatus_def retryStatus_def)

lemma deliver_account:
  "retriesWork d \<Longrightarrow> deliver d api (accountJob d m) =
    CheckRetryDLQ d (sr_ProcessId (accountStatus d m)) (postAccount api (AccountBody (streamedAccount m)))"
  by (intro ext) (simp add: deliver_def accountJob_def InternalAuth_def retriesWork_def)

text \<open>A delivery that fails is counted, and one too many is reported.\<close>

definition failedOnce :: "string \<Rightarrow> StatusRetryDLQ \<Rightarrow> 'd RetryWorld \<Rightarrow> 'd RetryWorld \<Rightarrow> bool" where
  "failedOnce key st w w' \<longleftrightarrow>
     rt_jobs w' = rt_jobs w \<and>
     (if sr_CurrentRetry st < sr_MaxRetry st
      then rt_cache w' = (rt_cache w)(key \<mapsto> st\<lparr>sr_CurrentRetry := sr_CurrentRetry st + 1\<rparr>) \<and> rt_reports w' = rt_reports w
      else rt_cache w' = rt_cache w \<and> (\<exists>r. rt_reports w' = rt_reports w @ [r]))"

lemma deliver_failed:
  assumes "retriesWork d" and "rt_cache w (retryKey d m) = Some st" and "deliver d api (accountJob d m) (db, w) = (r, db', w')"
    and "replyStatus r \<in> {408, 504, 503, 500}"
  shows "failedOnce (retryKey d m) st w w' \<and> postAccount api (AccountBody (streamedAccount m)) db = (r, db')"
proof -
  have "GetStatusRetry d (sr_ProcessId (accountStatus d m)) w = Ok st"
    using assms(1,2) by (simp add: GetStatusRetry_def retriesWork_def retryKey_def)
  with assms(1,3,4) show ?thesis
    by (auto simp: deliver_account [OF assms(1)] CheckRetryDLQ_def Let_def failedOnce_def UpsertStatusRetry_def retriesWork_def
        SendNotificationRetryFailure_def report_def retryKey_def split: prod.splits if_splits)
qed

text \<open>
  C25: The retries of a dead letter are counted exactly.  As long as deliveries of the job fail with an answer that is
  worth a retry, the status in the cache counts them up to the maximum of five, every delivery after that is reported,
  and none before it.
\<close>

theorem retries_counted:
  assumes "retriesWork d" and "rt_cache w (retryKey d m) = Some st" and "0 \<le> sr_CurrentRetry st" and "sr_CurrentRetry st \<le> sr_MaxRetry st"
    and "deliveries d apis (accountJob d m) (db, w) = (answers, db', w')" and "set answers \<subseteq> {408, 504, 503, 500}"
  shows "rt_cache w' = (rt_cache w)(retryKey d m \<mapsto>
      st\<lparr>sr_CurrentRetry := min (sr_CurrentRetry st + int (length apis)) (sr_MaxRetry st)\<rparr>) \<and>
    (\<exists>new. rt_reports w' = rt_reports w @ new \<and> length new = nat (sr_CurrentRetry st + int (length apis) - sr_MaxRetry st)) \<and>
    rt_jobs w' = rt_jobs w"
  using assms(2-6)
proof (induction apis arbitrary: st db w answers)
  case Nil
  then have "st\<lparr>sr_CurrentRetry := min (sr_CurrentRetry st) (sr_MaxRetry st)\<rparr> = st"
    by simp
  with Nil show ?case
    by (simp add: fun_upd_idem)
next
  case (Cons api apis)
  let ?max = "sr_MaxRetry st" and ?now = "sr_CurrentRetry st"
  obtain r db1 w1 where first: "deliver d api (accountJob d m) (db, w) = (r, db1, w1)"
    by (cases "deliver d api (accountJob d m) (db, w)") auto
  obtain rs where more: "deliveries d apis (accountJob d m) (db1, w1) = (rs, db', w')" "answers = replyStatus r # rs"
    using Cons.prems(4) first by (auto split: prod.splits)
  have failed: "failedOnce (retryKey d m) st w w1"
    using deliver_failed [OF assms(1) Cons.prems(1) first] Cons.prems(5) more(2) by simp
  show ?case
  proof (cases "?now < ?max")
    case True
    let ?st = "st\<lparr>sr_CurrentRetry := ?now + 1\<rparr>"
    have step: "rt_cache w1 = (rt_cache w)(retryKey d m \<mapsto> ?st)" "rt_reports w1 = rt_reports w" "rt_jobs w1 = rt_jobs w"
      using failed True by (auto simp: failedOnce_def)
    then show ?thesis
      using Cons.IH [of w1 ?st db1 rs] Cons.prems(2,5) True more by (simp add: ac_simps fun_upd_def cong: if_cong)
  next
    case False
    then obtain r' where step: "rt_cache w1 = rt_cache w" "rt_reports w1 = rt_reports w @ [r']" "rt_jobs w1 = rt_jobs w" "?now = ?max"
      using failed Cons.prems(3) by (auto simp: failedOnce_def)
    then obtain new where "rt_reports w' = rt_reports w @ r' # new" "length new = length apis"
      using Cons.IH [of w1 st db1 rs] Cons.prems(1-3,5) more by auto
    then show ?thesis
      using step Cons.IH [of w1 st db1 rs] Cons.prems(1-3,5) more by (auto simp: nat_add_distrib)
  qed
qed

section \<open>From the failure to the account\<close>

text \<open>The message that the consumer of mutations publishes.\<close>

definition publishedFailure :: "(err \<Rightarrow> string) \<Rightarrow> string \<Rightarrow> int \<Rightarrow> err \<Rightarrow> FailedMessage" where
  "publishedFailure errText message t e =
     prepareMessage errText \<lparr>fm_Payload = message, fm_Timestamp = t, fm_CauseError = Some e, fm_Error = ''''\<rparr>"

lemma publishedFailure_payload [simp]: "fm_Payload (publishedFailure errText message t e) = message"
  by (simp add: publishedFailure_def prepareMessage_def)

lemma consumeRetry_account:
  assumes "retriesWork d" and "dp_unmarshalFailed d body = Ok (publishedFailure errText message t e)"
    and "dp_unmarshalAccount d message = Ok m"
  shows "consumeRetry d (dp_TopicAccountMutationDLQ d, body) (w, marked) =
    (w\<lparr>rt_cache := (rt_cache w)(retryKey d m \<mapsto> accountStatus d m), rt_jobs := rt_jobs w @ [accountJob d m]\<rparr>,
     marked @ [(dp_TopicAccountMutationDLQ d, body)])"
  using assms
  by (simp add: consumeRetry_def markProcessed_def retrierMessage_def RetryAccountMutation_def sendJob_def UpsertStatusRetry_def
      SendJobHTTP_def bind_def wrapping_def call_def retriesWork_def accountJob_def retryKey_def accountStatus_def)
    (simp add: retryStatus_def)

lemma consumeMutation_failed:
  assumes "processMutation h message db = (Err e, db')" and "am_dlqFault h message = None"
  shows "consumeMutation h message (db, broker) =
    (db', broker\<lparr>bk_dlq := bk_dlq broker @ [(message, e)], bk_marked := bk_marked broker @ [message]\<rparr>)"
  using assms by (simp add: consumeMutation_def)

lemma deliveries_append:
  "deliveries d (apis @ [api]) job s =
    (case deliveries d apis job s of (rs, s') \<Rightarrow>
      case deliver d api job s' of (r, s'') \<Rightarrow> (rs @ [replyStatus r], s''))"
  by (induction apis arbitrary: s) (auto split: prod.splits)

text \<open>Deliveries that fail while something holds of the tables.\<close>

lemma deliveries_failing:
  assumes "retriesWork d" and "rt_cache w (retryKey d m) \<noteq> None" and "P db"
    and "\<And>api db. api \<in> set apis \<Longrightarrow> P db \<Longrightarrow>
      replyStatus (fst (postAccount api (AccountBody (streamedAccount m)) db)) = 500 \<and>
      P (snd (postAccount api (AccountBody (streamedAccount m)) db))"
  shows "\<exists>db' w'. deliveries d apis (accountJob d m) (db, w) = (replicate (length apis) 500, db', w') \<and> P db'"
  using assms(2-4)
proof (induction apis arbitrary: db w)
  case (Cons api apis)
  obtain st where st: "rt_cache w (retryKey d m) = Some st"
    using Cons.prems(1) by auto
  obtain r db1 where post: "postAccount api (AccountBody (streamedAccount m)) db = (r, db1)"
    by (cases "postAccount api (AccountBody (streamedAccount m)) db")
  have answer: "replyStatus r = 500" "P db1"
    using Cons.prems(3) [of api db] Cons.prems(2) post by auto
  obtain w1 where first: "deliver d api (accountJob d m) (db, w) = (r, db1, w1)"
    using post answer(1) st assms(1)
    by (cases "deliver d api (accountJob d m) (db, w)")
      (auto simp: deliver_account CheckRetryDLQ_def GetStatusRetry_def retriesWork_def retryKey_def Let_def split: if_splits)
  have "failedOnce (retryKey d m) st w w1"
    using deliver_failed [OF assms(1) st first] answer(1) by simp
  then have "rt_cache w1 (retryKey d m) \<noteq> None"
    using st by (auto simp: failedOnce_def split: if_splits)
  with Cons.IH [of w1 db1] Cons.prems(3) answer first show ?case
    by fastforce
qed simp

text \<open>Up to five of them go unreported.\<close>

lemma first_deliveries:
  assumes "retriesWork d" and "rt_cache w (retryKey d m) = Some (accountStatus d m)"
    and "deliveries d apis (accountJob d m) (db, w) = (replicate (length apis) 500, db', w')"
  shows "rt_cache w' (retryKey d m) \<noteq> None"
    and "\<exists>new. rt_reports w' = rt_reports w @ new \<and> length new = length apis - 5"
proof -
  have "set (replicate (length apis) (500::int)) \<subseteq> {408, 504, 503, 500}"
    by (simp add: set_replicate_conv_if)
  note counted = retries_counted [OF assms(1,2) _ _ assms(3) this]
  then show "rt_cache w' (retryKey d m) \<noteq> None"
    and "\<exists>new. rt_reports w' = rt_reports w @ new \<and> length new = length apis - 5"
    by (auto simp: nat_diff_distrib')
qed

lemma postAccount_valid:
  assumes "validCreateAccount (streamedAccount m)"
  shows "postAccount api (AccountBody (streamedAccount m)) db =
    (case AccountCreate (aa_cfg api) (streamedAccount m) db of
       (Inl e, db') \<Rightarrow> (Failure 500 e, db') | (Inr c, db') \<Rightarrow> (Reply 201 c, db'))"
proof -
  have "(streamedAccount m)\<lparr>ca_IsHVT := False\<rparr> = streamedAccount m"
    by (simp add: streamedAccount_def)
  with assms show ?thesis
    by (simp add: postAccount_def createAccount_def)
qed

lemma findAccount_new:
  assumes "\<not> accountExists db (ca_AccountNumber c)"
  shows "accountByNumber (db\<lparr>adb_account := insort_key acc_accountNumber (newAccount i t c) (adb_account db), adb_nextId := j\<rparr>) n =
    (if n = ca_AccountNumber c then Ok (newAccount i t c) else accountByNumber db n)"
  using find_inserted [of db "newAccount i t c" n] assms by (simp add: accountByNumber_def)

text \<open>
  C17: A mutation that failed becomes an account after all.  The message of an account that does not exist, which could not
  be stored, goes to the dead letters, from there to a job; when the job is delivered at most five times to a service
  that still cannot store and then to one that can, the account is there as the message has it, no other account is
  touched, and nothing is reported.
\<close>

theorem dead_letter_recreates_account:
  assumes "retriesWork d" and "processMutation h message db = (Err e, db)" and "am_dlqFault h message = None"
    and "dp_unmarshalFailed d body = Ok (publishedFailure errText message t e)" and "dp_unmarshalAccount d message = Ok m"
    and "validCreateAccount (streamedAccount m)" and "\<not> accountExists db (ca_AccountNumber (as_Account m))"
    and "\<forall>api\<in>set failing. ac_fault (aa_cfg api) InsertAccount \<noteq> None" and "length failing \<le> 5"
    and "ac_fault (aa_cfg api) InsertAccount = None"
  shows "\<exists>broker' w1 db' w'. consumeMutation h message (db, broker) = (db, broker') \<and> bk_dlq broker' = bk_dlq broker @ [(message, e)] \<and>
    consumeRetry d (dp_TopicAccountMutationDLQ d, body) (w, []) = (w1, [(dp_TopicAccountMutationDLQ d, body)]) \<and>
    rt_jobs w1 = rt_jobs w @ [accountJob d m] \<and>
    deliveries d (failing @ [api]) (accountJob d m) (db, w1) = (replicate (length failing) 500 @ [201], db', w') \<and>
    rt_reports w' = rt_reports w \<and>
    accountByNumber db' (ca_AccountNumber (as_Account m)) =
      Ok (newAccount (adb_nextId db) (now (ac_repo (aa_cfg api)))
        ((streamedAccount m)\<lparr>ca_IsHVT := ca_SubCategoryCode (as_Account m) \<in> set (ac_HVTSubCategoryCodes (aa_cfg api))\<rparr>)) \<and>
    (\<forall>n. n \<noteq> ca_AccountNumber (as_Account m) \<longrightarrow> accountByNumber db' n = accountByNumber db n)"
proof -
  let ?c = "(streamedAccount m)\<lparr>ca_IsHVT := ca_SubCategoryCode (as_Account m) \<in> set (ac_HVTSubCategoryCodes (aa_cfg api))\<rparr>"
  let ?new = "newAccount (adb_nextId db) (now (ac_repo (aa_cfg api))) ?c"
  define db' where "db' = db\<lparr>adb_account := insort_key acc_accountNumber ?new (adb_account db), adb_nextId := adb_nextId db + 1\<rparr>"
  define w1 where "w1 = w\<lparr>rt_cache := (rt_cache w)(retryKey d m \<mapsto> accountStatus d m), rt_jobs := rt_jobs w @ [accountJob d m]\<rparr>"
  note post = postAccount_valid [OF assms(6)]
  have streamed: "ca_AccountNumber ?c = ca_AccountNumber (as_Account m)" "ca_SubCategoryCode (streamedAccount m) = ca_SubCategoryCode (as_Account m)"
    by (simp_all add: streamedAccount_def)
  have cached: "rt_cache w1 (retryKey d m) = Some (accountStatus d m)"
    by (simp add: w1_def)
  obtain w2 where failed: "deliveries d failing (accountJob d m) (db, w1) = (replicate (length failing) 500, db, w2)"
    using deliveries_failing [OF assms(1), of w1 m "\<lambda>x. x = db" db failing] assms(8) cached
    by (fastforce simp: post AccountCreate_def RepoAccountCreate_def Let_def split: option.splits)
  have w2: "rt_cache w2 (retryKey d m) \<noteq> None" "rt_reports w2 = rt_reports w"
    using first_deliveries [OF assms(1) cached failed] assms(9) by (auto simp: w1_def)
  have "postAccount api (AccountBody (streamedAccount m)) db = (Reply 201 ?c, db')"
    using assms(7,10) streamed by (simp add: post AccountCreate_def RepoAccountCreate_def db'_def Let_def)
  with w2(1) assms(1) have "deliver d api (accountJob d m) (db, w2) = (Reply 201 ?c, db', w2)"
    by (auto simp: deliver_account CheckRetryDLQ_def GetStatusRetry_def retriesWork_def retryKey_def)
  then have all: "deliveries d (failing @ [api]) (accountJob d m) (db, w1) = (replicate (length failing) 500 @ [201], db', w2)"
    by (simp add: deliveries_append failed)
  have "accountByNumber db' n = (if n = ca_AccountNumber (as_Account m) then Ok ?new else accountByNumber db n)" for n
    unfolding db'_def using findAccount_new [of db ?c] assms(7) by (simp add: streamed)
  then show ?thesis
    using all w2(2) consumeMutation_failed [OF assms(2,3), of broker] consumeRetry_account [OF assms(1,4,5), of w "[]"]
    by (intro exI [of _ "broker\<lparr>bk_dlq := bk_dlq broker @ [(message, e)], bk_marked := bk_marked broker @ [message]\<rparr>"]
        exI [of _ w1] exI [of _ db'] exI [of _ w2]) (simp add: w1_def)
qed

text \<open>
  The failed change of an account that exists is lost.  A retry inserts where the message meant to change: whatever
  the service is like, each of the six deliveries is a failure, one report is made, and the accounts stay as they were,
  while the message itself would change the account when it is consumed again.
\<close>

lemma dead_update_is_lost:
  assumes "retriesWork d" and "processMutation h message db = (Err e, db)" and "am_dlqFault h message = None"
    and "dp_unmarshalFailed d body = Ok (publishedFailure errText message t e)" and "dp_unmarshalAccount d message = Ok m"
    and "validCreateAccount (streamedAccount m)" and "accountByNumber db (ca_AccountNumber (as_Account m)) = Ok a"
    and "length apis = 6"
    and "am_unmarshal h message = Ok m" and "as_Type m \<noteq> ''migration_database''" and "\<not> am_PreventSame h"
    and "ac_fault working UpsertAccount = None"
  shows "\<exists>broker' w1 db' w'. consumeMutation h message (db, broker) = (db, broker') \<and> bk_dlq broker' = bk_dlq broker @ [(message, e)] \<and>
    consumeRetry d (dp_TopicAccountMutationDLQ d, body) (w, []) = (w1, [(dp_TopicAccountMutationDLQ d, body)]) \<and>
    deliveries d apis (accountJob d m) (db, w1) = (replicate 6 500, db', w') \<and>
    adb_account db' = adb_account db \<and> (\<exists>r. rt_reports w' = rt_reports w @ [r]) \<and>
    fst (processMutation (h\<lparr>am_cfg := working\<rparr>) message db) = Ok () \<and>
    accountByNumber (snd (processMutation (h\<lparr>am_cfg := working\<rparr>) message db)) (ca_AccountNumber (as_Account m)) =
      Ok (setColumns (now (ac_repo working))
        ((streamedAccount m)\<lparr>ca_IsHVT := ca_SubCategoryCode (as_Account m) \<in> set (ac_HVTSubCategoryCodes working)\<rparr>) a)"
proof -
  let ?n = "ca_AccountNumber (as_Account m)"
  let ?c = "(streamedAccount m)\<lparr>ca_IsHVT := ca_SubCategoryCode (as_Account m) \<in> set (ac_HVTSubCategoryCodes working)\<rparr>"
  define w1 where "w1 = w\<lparr>rt_cache := (rt_cache w)(retryKey d m \<mapsto> accountStatus d m), rt_jobs := rt_jobs w @ [accountJob d m]\<rparr>"
  have streamed: "ca_AccountNumber (streamedAccount m) = ?n" "ca_SubCategoryCode (streamedAccount m) = ca_SubCategoryCode (as_Account m)"
    by (simp_all add: streamedAccount_def)
  have cached: "rt_cache w1 (retryKey d m) = Some (accountStatus d m)"
    by (simp add: w1_def)
  have found: "find (\<lambda>x. acc_accountNumber x = ?n) (adb_account db) = Some a"
    using assms(7) by (auto simp: accountByNumber_def split: option.splits)
  then have number: "acc_accountNumber a = ?n" and exists: "accountExists db ?n"
    by (auto simp: accountExists_def list_ex_iff find_Some_iff)
  have "replyStatus (fst (postAccount api (AccountBody (streamedAccount m)) db1)) = 500 \<and>
      adb_account (snd (postAccount api (AccountBody (streamedAccount m)) db1)) = adb_account db"
    if "adb_account db1 = adb_account db" for api db1
    using that exists streamed
    by (simp add: postAccount_valid [OF assms(6)] AccountCreate_def RepoAccountCreate_def accountExists_def Let_def split: option.split)
  then obtain db' w' where failed: "deliveries d apis (accountJob d m) (db, w1) = (replicate 6 500, db', w')"
    and same: "adb_account db' = adb_account db"
    using deliveries_failing [OF assms(1), of w1 m "\<lambda>x. adb_account x = adb_account db" db apis] assms(8) cached by fastforce
  obtain new where "rt_reports w' = rt_reports w @ new" "length new = 1"
    using first_deliveries(2) [OF assms(1) cached, of apis db db' w'] failed assms(8) by (auto simp: w1_def)
  then have "\<exists>r. rt_reports w' = rt_reports w @ [r]"
    by (auto simp: length_Suc_conv)
  moreover have "ca_Status (streamedAccount m) \<noteq> ''''"
    using assms(6) by (auto simp: validCreateAccount_def)
  then have again: "processMutation (h\<lparr>am_cfg := working\<rparr>) message db =
      (Ok (), (mapAccounts (\<lambda>x. acc_accountNumber x = ?n) (setColumns (now (ac_repo working)) ?c) db)\<lparr>adb_nextId := adb_nextId db + 1\<rparr>)"
    using assms(9-12) exists streamed
    by (simp add: processMutation_def Let_def exec_simps wrapping_def AccountUpsert_def RepoAccountUpsert_def)
  have "accountByNumber (snd (processMutation (h\<lparr>am_cfg := working\<rparr>) message db)) ?n = Ok (setColumns (now (ac_repo working)) ?c a)"
    using find_mapAccounts [of "setColumns (now (ac_repo working)) ?c" ?n "\<lambda>x. acc_accountNumber x = ?n" db] found number
    by (simp add: again accountByNumber_def)
  ultimately show ?thesis
    using failed same consumeMutation_failed [OF assms(2,3), of broker] consumeRetry_account [OF assms(1,4,5), of w "[]"]
    by (intro exI [of _ "broker\<lparr>bk_dlq := bk_dlq broker @ [(message, e)], bk_marked := bk_marked broker @ [message]\<rparr>"]
        exI [of _ w1] exI [of _ db'] exI [of _ w']) (simp add: w1_def again)
qed
text \<open>An order is retried at a route that the service does not have: each delivery is answered with 404, and none is reported.\<close>

lemma dead_order_has_no_route:
  assumes "retriesWork d" and "dp_unmarshalOrder d (fm_Payload f) = Ok (refNumber, order)"
  shows "\<exists>job w1. RetryCreateOrderTransaction d f w = (Ok (), w1) \<and> rt_jobs w1 = rt_jobs w @ [job] \<and>
    deliveries d apis job (db, w1) = (replicate (length apis) 404, db, w1) \<and> rt_reports w1 = rt_reports w"
proof -
  define status where "status = retryStatus d ''order'' refNumber ''create order transaction''"
  define job :: "'a RequestJobHTTP" where "job = \<lparr>jb_Host = dp_HostGoFPTransaction d @ ''/v1/orders'', jb_Method = ''POST'', jb_Body = OrderBody order,
      jb_Headers = RequestHeaderJob (dp_SecretKey d) (sr_ProcessId status) (ToHeaders status), jb_ProcessAt = 5,
      jb_MaxRetry = sr_MaxRetry status\<rparr>"
  have "deliver d api job s = (Failure 404 (ErrorMsg ''route does not exist in this API''), s)" for api s
    using assms(1) by (simp add: deliver_def InternalAuth_def job_def retriesWork_def)
  then have "deliveries d apis job s = (replicate (length apis) 404, s)" for s
    by (induction apis) simp_all
  then show ?thesis
    using assms
    by (intro exI [of _ job] exI [of _ "w\<lparr>rt_cache := (rt_cache w)(GetCacheKeyStatusRetryDLQ (sr_ProcessId status) \<mapsto> status),
        rt_jobs := rt_jobs w @ [job]\<rparr>"])
      (simp add: RetryCreateOrderTransaction_def sendJob_def UpsertStatusRetry_def SendJobHTTP_def bind_def wrapping_def call_def
        retriesWork_def job_def status_def)
qed

section \<open>The theorems, applied\<close>

text \<open>The account of the message is \<open>21100\<close> or the account \<open>7\<close> that exists; the failing service has a fault at every statement.\<close>

definition streamExample :: "string \<Rightarrow> rat AccountStream" where
  "streamExample n = \<lparr>as_Type = '''', as_Account = exampleNewAccount n, as_Metadata = NoMetadata\<rparr>"

definition retryExample :: "string \<Rightarrow> rat DLQProcessor" where
  "retryExample n =
     \<lparr>dp_TopicAccountMutationDLQ = ''account.dlq'', dp_TopicDLQ = ''order.dlq'', dp_TopicBalanceHvtDLQ = ''hvt.dlq'',
      dp_unmarshalFailed = (\<lambda>_. Ok (publishedFailure (\<lambda>_. ''error'') n 1 (wrapErr ''unable to upsert account'' (External ''connection'')))),
      dp_unmarshalAccount = (\<lambda>_. Ok (streamExample n)), dp_unmarshalOrder = (\<lambda>_. Ok (''order'', ''{}'')),
      dp_unmarshalHvt = (\<lambda>_. Ok n), dp_HostGoFPTransaction = ''http://service/api'', dp_SecretKey = ''key'',
      dp_timeText = ''now'', dp_fault = (\<lambda>_. None)\<rparr>"

definition brokenConfig :: "rat AccountsConfig" where
  "brokenConfig = exampleAccountsConfig\<lparr>ac_fault := (\<lambda>_. Some (External ''connection''))\<rparr>"

definition brokenApi :: "rat AccountApi" where
  "brokenApi = exampleAccountApi\<lparr>aa_cfg := brokenConfig\<rparr>"

definition brokenMutations :: "string \<Rightarrow> rat AccountMutationHandler" where
  "brokenMutations n =
     (exampleMutations '''')\<lparr>am_cfg := brokenConfig, am_unmarshal := (\<lambda>_. Ok (streamExample n))\<rparr>"

definition retryDB :: "rat AccountDB" where
  "retryDB = \<lparr>adb_account = [exampleAccount 1 ''7'' Map.empty 100], adb_feature = Map.empty, adb_nextId = 3\<rparr>"

definition retryStart :: "rat RetryWorld" where
  "retryStart = \<lparr>rt_cache = Map.empty, rt_jobs = [], rt_reports = []\<rparr>"

lemma retryExample_works: "retriesWork (retryExample n)"
  by (simp add: retriesWork_def retryExample_def)

lemma streamExample_valid: "n \<in> {''7'', ''21100''} \<Longrightarrow> validCreateAccount (streamedAccount (streamExample n))"
  by (auto simp: validCreateAccount_def streamedAccount_def streamExample_def exampleNewAccount_def isNumeric_def isDigit_def isLetter_def)

lemma brokenMutations_fail:
  "processMutation (brokenMutations n) message db = (Err (wrapErr ''unable to upsert account'' (External ''connection'')), db)"
  by (simp add: processMutation_def brokenMutations_def exampleMutations_def streamExample_def brokenConfig_def AccountUpsert_def
      RepoAccountUpsert_def wrapping_def exec_simps)

lemma retryExample_read:
  "dp_unmarshalFailed (retryExample n) body = Ok (publishedFailure (\<lambda>_. ''error'') n 1 (wrapErr ''unable to upsert account'' (External ''connection'')))"
  "dp_unmarshalAccount (retryExample n) message = Ok (streamExample n)"
  by (simp_all add: retryExample_def)

lemma streamExample_number: "ca_AccountNumber (as_Account (streamExample n)) = n"
  by (simp add: streamExample_def exampleNewAccount_def)

lemma streamExample_type: "as_Type (streamExample n) = []"
  by (simp add: streamExample_def)

lemma brokenMutations_simps:
  "am_unmarshal (brokenMutations n) message = Ok (streamExample n)" "\<not> am_PreventSame (brokenMutations n)"
  "am_dlqFault (brokenMutations n) message = None"
  by (simp_all add: brokenMutations_def exampleMutations_def)

lemma brokenApi_fault: "ac_fault (aa_cfg brokenApi) c = Some (External ''connection'')"
  by (simp add: brokenApi_def brokenConfig_def)

lemma exampleAccountApi_fault: "ac_fault (aa_cfg exampleAccountApi) c = None"
  by (simp add: exampleAccountApi_def exampleAccountsConfig_def)

lemma retryExample_topic: "dp_TopicAccountMutationDLQ (retryExample n) = ''account.dlq''"
  by (simp add: retryExample_def)

text \<open>Seven failing deliveries are counted up to five, and two are reported.\<close>

lemma retries_counted_witness:
  "\<exists>answers db' w' st. deliveries (retryExample ''21100'') (replicate 7 brokenApi) (accountJob (retryExample ''21100'') (streamExample ''21100''))
      (retryDB, retryStart\<lparr>rt_cache := [retryKey (retryExample ''21100'') (streamExample ''21100'') \<mapsto>
        accountStatus (retryExample ''21100'') (streamExample ''21100'')]\<rparr>) = (answers, db', w') \<and>
    rt_cache w' (retryKey (retryExample ''21100'') (streamExample ''21100'')) = Some st \<and> sr_CurrentRetry st = 5 \<and>
    length (rt_reports w') = 2"
proof -
  let ?d = "retryExample ''21100''" and ?m = "streamExample ''21100''"
  let ?w = "retryStart\<lparr>rt_cache := [retryKey ?d ?m \<mapsto> accountStatus ?d ?m]\<rparr>"
  have "replyStatus (fst (postAccount brokenApi (AccountBody (streamedAccount ?m)) db)) = 500" for db
    using streamExample_valid [of "''21100''"]
    by (simp add: postAccount_valid AccountCreate_def RepoAccountCreate_def brokenApi_def brokenConfig_def Let_def)
  then obtain db' w' where failed: "deliveries ?d (replicate 7 brokenApi) (accountJob ?d ?m) (retryDB, ?w) = (replicate 7 500, db', w')"
    using deliveries_failing [OF retryExample_works, of ?w "''21100''" ?m "\<lambda>_. True" retryDB "replicate 7 brokenApi"] by auto
  have "set (replicate 7 (500::int)) \<subseteq> {408, 504, 503, 500}"
    by (simp add: set_replicate_conv_if)
  from retries_counted [OF retryExample_works _ _ _ failed this] show ?thesis
    unfolding failed by (auto simp: retryStart_def)
qed

lemma dead_letter_recreates_account_witness:
  "\<exists>w1 db' w'. consumeRetry (retryExample ''21100'') (''account.dlq'', ''body'') (retryStart, []) = (w1, [(''account.dlq'', ''body'')]) \<and>
    rt_jobs w1 = [accountJob (retryExample ''21100'') (streamExample ''21100'')] \<and>
    deliveries (retryExample ''21100'') [brokenApi, brokenApi, exampleAccountApi] (hd (rt_jobs w1)) (retryDB, w1) =
      ([500, 500, 201], db', w') \<and>
    rt_reports w' = [] \<and> isOk (accountByNumber db' ''21100'')"
proof -
  have "\<not> accountExists retryDB ''21100''"
    by (simp add: accountExists_def retryDB_def exampleAccount_def)
  then show ?thesis
    using dead_letter_recreates_account [where message = "''21100''" and failing = "[brokenApi, brokenApi]" and api = exampleAccountApi and
        broker = "\<lparr>bk_marked = [], bk_dlq = []\<rparr>" and body = "''body''" and w = retryStart and db = retryDB,
        OF retryExample_works brokenMutations_fail [of "''21100''" "''21100''"] _ retryExample_read]
      streamExample_valid [of "''21100''"]
    by (auto simp: brokenMutations_simps streamExample_number brokenApi_fault exampleAccountApi_fault retryStart_def
        retryExample_topic eval_nat_numeral isOk_iff simp del: deliveries.simps)
qed

lemma dead_update_is_lost_witness:
  "\<exists>w1 db' w' r. consumeRetry (retryExample ''7'') (''account.dlq'', ''body'') (retryStart, []) = (w1, [(''account.dlq'', ''body'')]) \<and>
    deliveries (retryExample ''7'') (replicate 6 exampleAccountApi) (accountJob (retryExample ''7'') (streamExample ''7'')) (retryDB, w1) =
      (replicate 6 500, db', w') \<and>
    adb_account db' = adb_account retryDB \<and> rt_reports w' = [r]"
proof -
  have "accountByNumber retryDB ''7'' = Ok (exampleAccount 1 ''7'' Map.empty 100)"
    by (simp add: accountByNumber_def retryDB_def exampleAccount_def)
  then show ?thesis
    using dead_update_is_lost [where message = "''7''" and apis = "replicate 6 exampleAccountApi" and working = exampleAccountsConfig and
        broker = "\<lparr>bk_marked = [], bk_dlq = []\<rparr>" and body = "''body''" and w = retryStart and db = retryDB,
        OF retryExample_works brokenMutations_fail [of "''7''" "''7''"] _ retryExample_read]
      streamExample_valid [of "''7''"]
    by (auto simp: brokenMutations_simps streamExample_number streamExample_type exampleAccountsConfig_def retryStart_def retryExample_topic)
qed

end
