(* ===== verification/DailyRecon.thy ===== *)
theory DailyRecon
  imports Accounts CsvFiles Chunks
begin

text \<open>
  The daily comparison of balances with the orders of the day: \<open>DoDailyBalance\<close> and its helpers in
  \<open>internal/services/recon_service.go\<close>, the table of \<open>internal/repositories/sql_account_balance_daily.go\<close>, the consumer of
  \<open>internal/deliveries/consumer/kafka_recon\<close> and the report of \<open>internal/models/account_balance_daily.go\<close>.
\<close>

section \<open>State\<close>

record 'd AccountBalanceDaily =
  abd_AccountNumber :: string
  abd_Date :: nat
  abd_Balance :: 'd

text \<open>The orders of the topic, a type of the messaging library of which three fields of a transaction are read.\<close>

record 'd StreamedTransaction =
  sx_SourceAccountId :: string
  sx_DestinationAccountId :: string
  sx_Amount :: 'd

record 'd StreamedOrder =
  so_OrderTime :: int
  so_Transactions :: "'d StreamedTransaction list"

datatype (plugins only: code) dailyCall =
    CheckReport
  | SelectLastDaily
  | SelectDaily
  | SelectAccounts
  | InsertDaily nat
  | CommitDaily
  | ConnectConsumer
  | WriteReport

text \<open>
  The state: the table, what the consumer group has committed, the bucket, and the transactions that the service has
  collected by account.  The environment: the accounts, the messages of the topic, the libraries, the clock (the day of
  the report is taken when the service is made), the order in which a map is walked, and a fault for every call.
\<close>

record 'd DailyWorld =
  dw_daily :: "'d AccountBalanceDaily list"
  dw_committed :: "nat option"
  dw_bucket :: "string \<rightharpoonup> string"
  dw_accountTransactions :: "string \<rightharpoonup> 'd StreamedTransaction list"

record 'd DailyService =
  ds_account :: "'d StoredAccount list"
  ds_messages :: "string list"
  ds_unmarshal :: "string \<Rightarrow> 'd StreamedOrder result"
  ds_now :: int
  ds_reconDate :: int
  ds_decimalText :: "'d \<Rightarrow> string"
  ds_baseURL :: string
  ds_order :: "(string \<rightharpoonup> 'd) \<Rightarrow> string list"
  ds_fault :: "dailyCall \<Rightarrow> err option"

text \<open>A new service has collected nothing.\<close>

definition NewReconBalanceService :: "'d DailyWorld \<Rightarrow> 'd DailyWorld" where
  "NewReconBalanceService w = w\<lparr>dw_accountTransactions := Map.empty\<rparr>"

section \<open>The daily balances\<close>

definition DailyGetLast :: "'d DailyService \<Rightarrow> 'd DailyWorld \<Rightarrow> nat result" where
  "DailyGetLast svc w =
     (case ds_fault svc SelectLastDaily of
        Some e \<Rightarrow> Err e
      | None \<Rightarrow> if dw_daily w = [] then Err (Sentinel ErrDataNotFound) else Ok (Max (abd_Date ` set (dw_daily w))))"

definition ListByDate :: "'d DailyService \<Rightarrow> nat \<Rightarrow> 'd DailyWorld \<Rightarrow> 'd AccountBalanceDaily list result" where
  "ListByDate svc d w =
     (case ds_fault svc SelectDaily of
        Some e \<Rightarrow> Err e
      | None \<Rightarrow> Ok (filter (\<lambda>b. abd_Date b = d) (dw_daily w)))"

definition getLastDailyBalance :: "'d DailyService \<Rightarrow> 'd DailyWorld \<Rightarrow> 'd AccountBalanceDaily list result" where
  "getLastDailyBalance svc w = rbind (DailyGetLast svc w) (\<lambda>d. ListByDate svc d w)"

text \<open>\<open>INSERT \<dots> ON CONFLICT ("accountNumber", "date") DO UPDATE\<close>.\<close>

definition upsertDaily :: "'d AccountBalanceDaily \<Rightarrow> 'd AccountBalanceDaily list \<Rightarrow> 'd AccountBalanceDaily list" where
  "upsertDaily b table =
     (let same = (\<lambda>c. abd_AccountNumber c = abd_AccountNumber b \<and> abd_Date c = abd_Date b)
      in if list_ex same table
         then map (\<lambda>c. if same c then c\<lparr>abd_Balance := abd_Balance b\<rparr> else c) table
         else table @ [b])"

text \<open>A statement for each chunk, in one database transaction; a statement without values is not SQL.\<close>

fun insertChunks ::
  "'d DailyService \<Rightarrow> nat \<Rightarrow> 'd AccountBalanceDaily list list \<Rightarrow> 'd AccountBalanceDaily list \<Rightarrow> 'd AccountBalanceDaily list result" where
  "insertChunks svc i [] table = Ok table"
| "insertChunks svc i (chunk # chunks) table =
     (if chunk = [] then Err (External ''syntax error'')
      else case ds_fault svc (InsertDaily i) of
        Some e \<Rightarrow> Err e
      | None \<Rightarrow> insertChunks svc (i + 1) chunks (fold upsertDaily chunk table))"

text \<open>\<open>ChunkBy\<close> returns, as the size is positive.\<close>

definition DailyCreate :: "'d DailyService \<Rightarrow> 'd AccountBalanceDaily list \<Rightarrow> ('d DailyWorld, unit) exec" where
  "DailyCreate svc rows w =
     (case ChunkBy rows 500 of
        Some (Inr chunks) \<Rightarrow>
          (case insertChunks svc 0 chunks (dw_daily w) of
             Inl e \<Rightarrow> (Err e, w)
           | Inr table \<Rightarrow>
               (case ds_fault svc CommitDaily of
                  Some e \<Rightarrow> (Err e, w)
                | None \<Rightarrow> (Ok (), w\<lparr>dw_daily := table\<rparr>)))
      | _ \<Rightarrow> (Err Panic, w))"

definition GetAllWithoutPagination :: "'d DailyService \<Rightarrow> 'd StoredAccount list result" where
  "GetAllWithoutPagination svc =
     (case ds_fault svc SelectAccounts of Some e \<Rightarrow> Err e | None \<Rightarrow> Ok (ds_account svc))"

section \<open>The orders\<close>

text \<open>
  \<open>ConsumeClaim\<close> of one partition, from a position on: it ends at the first order after the limit, or when no message
  comes any more.  An unreadable message is passed over.  The result is the transactions and the position after the last
  marked message.
\<close>

fun reconClaim ::
  "(string \<Rightarrow> 'd StreamedOrder result) \<Rightarrow> int \<Rightarrow> nat \<Rightarrow> nat option \<Rightarrow> string list \<Rightarrow> 'd StreamedTransaction list \<times> nat option" where
  "reconClaim unmarshal limit i marked [] = ([], marked)"
| "reconClaim unmarshal limit i marked (m # ms) =
     (case unmarshal m of
        Inl e \<Rightarrow> reconClaim unmarshal limit (i + 1) marked ms
      | Inr order \<Rightarrow>
          if limit < so_OrderTime order then ([], marked)
          else (case reconClaim unmarshal limit (i + 1) (Some (i + 1)) ms of
                  (trxs, marked') \<Rightarrow> (so_Transactions order @ trxs, marked')))"

definition AppendAccountTransactions ::
  "string \<Rightarrow> 'd StreamedTransaction \<Rightarrow> (string \<rightharpoonup> 'd StreamedTransaction list) \<Rightarrow> string \<rightharpoonup> 'd StreamedTransaction list" where
  "AppendAccountTransactions n trx m = m(n \<mapsto> (case m n of None \<Rightarrow> [] | Some ts \<Rightarrow> ts) @ [trx])"

definition calculateReconBalanceExpectedResult ::
  "'d StreamedTransaction list \<Rightarrow> (string \<rightharpoonup> 'd StreamedTransaction list) \<Rightarrow> string \<rightharpoonup> 'd StreamedTransaction list" where
  "calculateReconBalanceExpectedResult trxs m =
     fold (\<lambda>trx m. AppendAccountTransactions (sx_DestinationAccountId trx) trx (AppendAccountTransactions (sx_SourceAccountId trx) trx m))
       trxs m"

text \<open>A group that has committed nothing starts at the oldest or at the newest message.  Failing to connect is only logged.\<close>

definition consumeOrders :: "'d DailyService \<Rightarrow> bool \<Rightarrow> 'd DailyWorld \<Rightarrow> 'd DailyWorld" where
  "consumeOrders svc oldest w =
     (if ds_fault svc ConnectConsumer \<noteq> None then w
      else
        let start = (case dw_committed w of Some i \<Rightarrow> i | None \<Rightarrow> if oldest then 0 else length (ds_messages svc));
            (trxs, marked) = reconClaim (ds_unmarshal svc) (ds_now svc) start (dw_committed w) (drop start (ds_messages svc))
        in w\<lparr>dw_committed := marked,
             dw_accountTransactions := calculateReconBalanceExpectedResult trxs (dw_accountTransactions w)\<rparr>)"

section \<open>The comparison\<close>

definition balanceOf :: "(string \<rightharpoonup> 'd::zero) \<Rightarrow> string \<Rightarrow> 'd" where
  "balanceOf m n = (case m n of None \<Rightarrow> 0 | Some b \<Rightarrow> b)"

definition applyTransactions :: "string \<Rightarrow> 'd::ab_group_add StreamedTransaction list \<Rightarrow> 'd \<Rightarrow> 'd" where
  "applyTransactions n trxs b =
     foldl (\<lambda>b trx. if EqualFold (sx_SourceAccountId trx) n then b - sx_Amount trx else b + sx_Amount trx) b trxs"

text \<open>The loop over the accounts changes the entry of each, in any order.\<close>

definition expectedBalances ::
  "(string \<rightharpoonup> 'd::ab_group_add) \<Rightarrow> (string \<rightharpoonup> 'd StreamedTransaction list) \<Rightarrow> string \<rightharpoonup> 'd" where
  "expectedBalances before accountTransactions n =
     (case accountTransactions n of
        None \<Rightarrow> before n
      | Some trxs \<Rightarrow> Some (applyTransactions n trxs (balanceOf before n)))"

record BalanceReconDifference =
  bd_AccountNumber :: string
  bd_ConsumerBalance :: string
  bd_DatabaseBalance :: string

definition ToReconFormat :: "BalanceReconDifference \<Rightarrow> string list" where
  "ToReconFormat d = [bd_AccountNumber d, bd_ConsumerBalance d, bd_DatabaseBalance d]"

definition reconDiff :: "'d DailyService \<Rightarrow> (string \<rightharpoonup> 'd::zero) \<Rightarrow> (string \<rightharpoonup> 'd) \<Rightarrow> BalanceReconDifference list" where
  "reconDiff svc actual expected =
     map (\<lambda>n. \<lparr>bd_AccountNumber = n, bd_ConsumerBalance = ds_decimalText svc (balanceOf expected n),
               bd_DatabaseBalance = ds_decimalText svc (balanceOf actual n)\<rparr>)
       (filter (\<lambda>n. balanceOf actual n \<noteq> balanceOf expected n) (ds_order svc expected))"

definition balanceReport :: "int \<Rightarrow> CloudStoragePayload" where
  "balanceReport t =
     (let (y, m, day) = dateOf (localDay t)
      in \<lparr>csp_Filename = digits y @ padded 2 m @ padded 2 day @ ''.csv'',
          csp_Path = ''balance_recon/'' @ digits y @ ''/'' @ digits m\<rparr>)"

definition IsObjectExist :: "'d DailyService \<Rightarrow> CloudStoragePayload \<Rightarrow> 'd DailyWorld \<Rightarrow> bool" where
  "IsObjectExist svc payload w = (ds_fault svc CheckReport = None \<and> dw_bucket w (GetFilePath payload) \<noteq> None)"

definition differenceLines :: "BalanceReconDifference list \<Rightarrow> string" where
  "differenceLines ds =
     concat (map (\<lambda>row. join '';'' row @ [newline]) ([''accountNumber'', ''consumerBalance'', ''databaseBalance''] # map ToReconFormat ds))"

definition writeDifferences :: "'d DailyService \<Rightarrow> BalanceReconDifference list \<Rightarrow> ('d DailyWorld, string) exec" where
  "writeDifferences svc ds w =
     (let path = GetFilePath (balanceReport (ds_reconDate svc))
      in case ds_fault svc WriteReport of
           Some e \<Rightarrow> (Err (MultiErr [e]), w)
         | None \<Rightarrow> (Ok (ds_baseURL svc @ ''/'' @ path), w\<lparr>dw_bucket := (dw_bucket w)(path \<mapsto> differenceLines ds)\<rparr>))"

definition balancesBefore :: "'d AccountBalanceDaily list \<Rightarrow> string \<rightharpoonup> 'd" where
  "balancesBefore bs = fold (\<lambda>b m. m(abd_AccountNumber b \<mapsto> abd_Balance b)) bs Map.empty"

definition balancesNow :: "'d StoredAccount list \<Rightarrow> string \<rightharpoonup> 'd" where
  "balancesNow accounts = fold (\<lambda>a m. m(acc_accountNumber a \<mapsto> acc_actualBalance a)) accounts Map.empty"

text \<open>The balances of today are stored before they are compared.\<close>

definition compareBalances ::
  "'d::ab_group_add DailyService \<Rightarrow> 'd AccountBalanceDaily list \<Rightarrow> ('d DailyWorld, string) exec" where
  "compareBalances svc before =
     bind (call (GetAllWithoutPagination svc)) (\<lambda>accounts.
     bind (DailyCreate svc
             (map (\<lambda>a. \<lparr>abd_AccountNumber = acc_accountNumber a, abd_Date = localDay (ds_now svc), abd_Balance = acc_actualBalance a\<rparr>)
               accounts)) (\<lambda>_ w.
       let w = consumeOrders svc (before = []) w;
           ds = reconDiff svc (balancesNow accounts) (expectedBalances (balancesBefore before) (dw_accountTransactions w))
       in if ds = [] then (Ok '''', w) else writeDifferences svc ds w))"

text \<open>\<open>errors.Is\<close> has its arguments swapped, and holds of the bare error that the repository returns.\<close>

definition DoDailyBalance :: "'d::ab_group_add DailyService \<Rightarrow> ('d DailyWorld, string) exec" where
  "DoDailyBalance svc w =
     (if IsObjectExist svc (balanceReport (ds_reconDate svc)) w then (Err (ErrorMsg ''report is exist''), w)
      else case getLastDailyBalance svc w of
        Inl e \<Rightarrow> if e = Sentinel ErrDataNotFound then compareBalances svc [] w else (Err e, w)
      | Inr before \<Rightarrow> compareBalances svc before w)"

end
