(* ===== verification/DailyReconProperties.thy ===== *)
theory DailyReconProperties
  imports DailyRecon AccountProperties
begin

text \<open>
  What the daily comparison reports: exactly the accounts whose balance is not what the last daily balance and the orders
  since then make it, as long as no transaction is from an account to itself; and how a difference is lost.
\<close>

section \<open>Collecting\<close>

definition involved :: "string \<Rightarrow> 'd StreamedTransaction list \<Rightarrow> 'd StreamedTransaction list" where
  "involved n trxs =
     concat (map (\<lambda>t. (if sx_SourceAccountId t = n then [t] else []) @ (if sx_DestinationAccountId t = n then [t] else [])) trxs)"

lemma involved_simps [simp]:
  "involved n [] = []"
  "involved n (t # trxs) =
     (if sx_SourceAccountId t = n then [t] else []) @ (if sx_DestinationAccountId t = n then [t] else []) @ involved n trxs"
  by (simp_all add: involved_def)

lemma collected_at:
  "calculateReconBalanceExpectedResult trxs m n =
    (if involved n trxs = [] then m n else Some ((case m n of None \<Rightarrow> [] | Some ts \<Rightarrow> ts) @ involved n trxs))"
  unfolding calculateReconBalanceExpectedResult_def
  by (induction trxs arbitrary: m) (auto simp: AppendAccountTransactions_def split: option.splits)

text \<open>What the transactions make of the balance of an account.\<close>

definition netChange :: "string \<Rightarrow> 'd::ab_group_add StreamedTransaction list \<Rightarrow> 'd" where
  "netChange n trxs =
     sum_list (map (\<lambda>t. (if sx_DestinationAccountId t = n then sx_Amount t else 0) - (if sx_SourceAccountId t = n then sx_Amount t else 0)) trxs)"

definition betweenAccounts :: "'d StreamedTransaction list \<Rightarrow> bool" where
  "betweenAccounts trxs = list_all (\<lambda>t. \<not> EqualFold (sx_SourceAccountId t) (sx_DestinationAccountId t)) trxs"

lemma applyTransactions_simps [simp]:
  "applyTransactions n [] b = b"
  "applyTransactions n (t # trxs) b =
     applyTransactions n trxs (if EqualFold (sx_SourceAccountId t) n then b - sx_Amount t else b + sx_Amount t)"
  by (simp_all add: applyTransactions_def)

lemma apply_involved: "betweenAccounts trxs \<Longrightarrow> applyTransactions n (involved n trxs) b = b + netChange n trxs"
proof (induction trxs arbitrary: b)
  case (Cons t trxs)
  then have "\<not> EqualFold (sx_SourceAccountId t) (sx_DestinationAccountId t)"
    by (simp add: betweenAccounts_def)
  with Cons show ?case
    by (auto simp: betweenAccounts_def netChange_def algebra_simps)
qed (simp add: netChange_def)

lemma netChange_uninvolved: "involved n trxs = [] \<Longrightarrow> netChange n trxs = 0"
  by (induction trxs) (auto simp: netChange_def split: if_splits)

lemma expected_net:
  assumes "betweenAccounts trxs"
  shows "balanceOf (expectedBalances before (calculateReconBalanceExpectedResult trxs Map.empty)) n = balanceOf before n + netChange n trxs"
    and "dom (expectedBalances before (calculateReconBalanceExpectedResult trxs Map.empty)) = dom before \<union> {n. involved n trxs \<noteq> []}"
proof -
  show "balanceOf (expectedBalances before (calculateReconBalanceExpectedResult trxs Map.empty)) n = balanceOf before n + netChange n trxs"
    using apply_involved [OF assms, of n] netChange_uninvolved [of n trxs]
    by (auto simp: expectedBalances_def collected_at balanceOf_def)
  show "dom (expectedBalances before (calculateReconBalanceExpectedResult trxs Map.empty)) = dom before \<union> {n. involved n trxs \<noteq> []}"
    by (auto simp: expectedBalances_def collected_at)
qed

lemma finite_involved: "finite {n. involved n trxs \<noteq> []}"
proof -
  have "{n. involved n trxs \<noteq> []} \<subseteq> sx_SourceAccountId ` set trxs \<union> sx_DestinationAccountId ` set trxs"
    by (auto simp: involved_def split: if_splits)
  then show ?thesis
    by (rule finite_subset) simp
qed

lemma finite_balancesBefore: "finite (dom (balancesBefore bs))"
proof -
  have "finite (dom m) \<Longrightarrow> finite (dom (fold (\<lambda>b m. m(abd_AccountNumber b \<mapsto> abd_Balance b)) bs m))" for m
    by (induction bs arbitrary: m) auto
  then show ?thesis by (simp add: balancesBefore_def)
qed

section \<open>A run\<close>

lemma pieces_nonempty: "0 < n \<Longrightarrow> items \<noteq> [] \<Longrightarrow> chunk \<in> set (pieces n items) \<Longrightarrow> chunk \<noteq> []"
proof (induction n items rule: pieces.induct)
  case (1 n items)
  then show ?case
    by (subst (asm) pieces.simps) (auto split: if_splits)
qed

lemma insertChunks_run:
  "[] \<notin> set chunks \<Longrightarrow> (\<forall>i. ds_fault svc (InsertDaily i) = None) \<Longrightarrow>
    insertChunks svc i chunks table = Ok (fold upsertDaily (concat chunks) table)"
  by (induction chunks arbitrary: i table) auto

text \<open>Every call works, but the writing of the report.\<close>

definition dailyWorks :: "'d DailyService \<Rightarrow> bool" where
  "dailyWorks svc \<longleftrightarrow> (\<forall>c. c \<noteq> WriteReport \<longrightarrow> ds_fault svc c = None) \<and> ds_account svc \<noteq> []"

definition todayRows :: "'d DailyService \<Rightarrow> 'd AccountBalanceDaily list" where
  "todayRows svc =
     map (\<lambda>a. \<lparr>abd_AccountNumber = acc_accountNumber a, abd_Date = localDay (ds_now svc), abd_Balance = acc_actualBalance a\<rparr>) (ds_account svc)"

lemma DailyCreate_run:
  assumes "dailyWorks svc"
  shows "DailyCreate svc (todayRows svc) w = (Ok (), w\<lparr>dw_daily := fold upsertDaily (todayRows svc) (dw_daily w)\<rparr>)"
proof -
  have "[] \<notin> set (pieces 500 (todayRows svc))"
    using assms pieces_nonempty [of 500 "todayRows svc"] by (auto simp: dailyWorks_def todayRows_def)
  then have "insertChunks svc 0 (pieces 500 (todayRows svc)) (dw_daily w) = Ok (fold upsertDaily (todayRows svc) (dw_daily w))"
    using assms by (simp add: insertChunks_run dailyWorks_def concat_pieces)
  then show ?thesis
    using assms by (simp add: DailyCreate_def ChunkBy_pieces dailyWorks_def)
qed

definition lastBalances :: "'d DailyWorld \<Rightarrow> 'd AccountBalanceDaily list" where
  "lastBalances w = filter (\<lambda>b. abd_Date b = Max (abd_Date ` set (dw_daily w))) (dw_daily w)"

definition collectedOrders :: "'d DailyService \<Rightarrow> 'd DailyWorld \<Rightarrow> 'd StreamedTransaction list \<times> nat option" where
  "collectedOrders svc w =
     (let start = (case dw_committed w of Some i \<Rightarrow> i | None \<Rightarrow> if lastBalances w = [] then 0 else length (ds_messages svc))
      in reconClaim (ds_unmarshal svc) (ds_now svc) start (dw_committed w) (drop start (ds_messages svc)))"

definition dailyPath :: "'d DailyService \<Rightarrow> string" where
  "dailyPath svc = GetFilePath (balanceReport (ds_reconDate svc))"

definition dailyDifferences :: "'d::ab_group_add DailyService \<Rightarrow> 'd DailyWorld \<Rightarrow> BalanceReconDifference list" where
  "dailyDifferences svc w =
     reconDiff svc (balancesNow (ds_account svc))
       (expectedBalances (balancesBefore (lastBalances w))
         (calculateReconBalanceExpectedResult (fst (collectedOrders svc w)) (dw_accountTransactions w)))"

lemma DoDailyBalance_run:
  assumes "dailyWorks svc" and "dw_bucket w (dailyPath svc) = None"
  shows "DoDailyBalance svc w =
    (let w' = w\<lparr>dw_daily := fold upsertDaily (todayRows svc) (dw_daily w), dw_committed := snd (collectedOrders svc w),
                dw_accountTransactions := calculateReconBalanceExpectedResult (fst (collectedOrders svc w)) (dw_accountTransactions w)\<rparr>
     in if dailyDifferences svc w = [] then (Ok '''', w') else writeDifferences svc (dailyDifferences svc w) w')"
proof -
  have works: "ds_fault svc CheckReport = None" "ds_fault svc SelectLastDaily = None" "ds_fault svc SelectDaily = None"
    "ds_fault svc SelectAccounts = None" "ds_fault svc ConnectConsumer = None"
    using assms(1) by (auto simp: dailyWorks_def)
  have "DoDailyBalance svc w = compareBalances svc (lastBalances w) w"
    using assms(2) works
    by (simp add: DoDailyBalance_def IsObjectExist_def dailyPath_def getLastDailyBalance_def DailyGetLast_def ListByDate_def lastBalances_def)
  moreover have "consumeOrders svc (lastBalances w = []) (w\<lparr>dw_daily := table\<rparr>) =
      w\<lparr>dw_daily := table, dw_committed := snd (collectedOrders svc w),
        dw_accountTransactions := calculateReconBalanceExpectedResult (fst (collectedOrders svc w)) (dw_accountTransactions w)\<rparr>" for table
    using works by (simp add: consumeOrders_def collectedOrders_def Let_def split: prod.split)
  ultimately show ?thesis
    using DailyCreate_run [OF assms(1), of w] works
    by (simp add: compareBalances_def GetAllWithoutPagination_def call_def bind_def todayRows_def dailyDifferences_def Let_def)
qed

text \<open>
  C22: The daily comparison reports exactly the differences.  When nothing fails and every transaction is between two
  accounts, the report has, once each, the accounts whose balance in the database is not the last daily balance with the
  transactions since then, among the accounts that have either; and there is no report when there is no such account.
\<close>

theorem daily_differences_exact:
  assumes "dailyWorks svc" and "ds_fault svc WriteReport = None" and "dw_bucket w (dailyPath svc) = None" and "dw_accountTransactions w = Map.empty"
    and "\<And>m. finite (dom m) \<Longrightarrow> distinct (ds_order svc m) \<and> set (ds_order svc m) = dom m"
    and "collectedOrders svc w = (trxs, marked)" and "betweenAccounts trxs"
  defines "expected \<equiv> \<lambda>n. balanceOf (balancesBefore (lastBalances w)) n + netChange n trxs"
    and "actual \<equiv> balanceOf (balancesNow (ds_account svc))"
  shows "\<exists>names w'. distinct names \<and>
    set names = {n. actual n \<noteq> expected n \<and> (balancesBefore (lastBalances w) n \<noteq> None \<or> involved n trxs \<noteq> [])} \<and>
    DoDailyBalance svc w = (Ok (if names = [] then '''' else ds_baseURL svc @ ''/'' @ dailyPath svc), w') \<and>
    dw_bucket w' (dailyPath svc) =
      (if names = [] then None
       else Some (differenceLines (map (\<lambda>n. \<lparr>bd_AccountNumber = n, bd_ConsumerBalance = ds_decimalText svc (expected n),
              bd_DatabaseBalance = ds_decimalText svc (actual n)\<rparr>) names))) \<and>
    dw_committed w' = marked"
proof -
  define balances where
    "balances = expectedBalances (balancesBefore (lastBalances w)) (calculateReconBalanceExpectedResult trxs Map.empty)"
  define names where "names = filter (\<lambda>n. actual n \<noteq> expected n) (ds_order svc balances)"
  have expected: "balanceOf balances n = expected n" for n
    using expected_net(1) [OF assms(7)] by (simp add: balances_def expected_def)
  have dom: "dom balances = dom (balancesBefore (lastBalances w)) \<union> {n. involved n trxs \<noteq> []}"
    using expected_net(2) [OF assms(7)] by (simp add: balances_def)
  then have "finite (dom balances)"
    by (simp add: finite_balancesBefore finite_involved)
  then have order: "distinct (ds_order svc balances)" "set (ds_order svc balances) = dom balances"
    using assms(5) by auto
  have differences: "dailyDifferences svc w = map (\<lambda>n. \<lparr>bd_AccountNumber = n, bd_ConsumerBalance = ds_decimalText svc (expected n),
      bd_DatabaseBalance = ds_decimalText svc (actual n)\<rparr>) names"
    by (simp add: dailyDifferences_def assms(4,6) reconDiff_def names_def expected flip: balances_def) (simp add: actual_def)
  have "set names = {n. actual n \<noteq> expected n \<and> (balancesBefore (lastBalances w) n \<noteq> None \<or> involved n trxs \<noteq> [])}"
    using order(2) dom by (auto simp: names_def)
  moreover have "distinct names"
    using order(1) by (simp add: names_def)
  ultimately show ?thesis
    using DoDailyBalance_run [OF assms(1,3)] assms(2,3,6)
    by (intro exI [of _ names] exI [of _ "snd (DoDailyBalance svc w)"]) (simp add: differences writeDifferences_def dailyPath_def Let_def)
qed
section \<open>A difference that is lost\<close>

lemma fold_upsertDaily:
  assumes "distinct (map abd_AccountNumber rows)" and "\<forall>r\<in>set rows. abd_Date r = d" and "\<forall>b\<in>set table. abd_Date b \<noteq> d"
  shows "fold upsertDaily rows table = table @ rows"
proof -
  have "fold upsertDaily rows table = table @ rows"
    if "\<forall>r\<in>set rows. \<forall>b\<in>set table. abd_AccountNumber b \<noteq> abd_AccountNumber r \<or> abd_Date b \<noteq> abd_Date r" for table
    using assms(1) that
  proof (induction rows arbitrary: table)
    case (Cons r rows)
    then have "upsertDaily r table = table @ [r]"
      by (auto simp: upsertDaily_def list_ex_iff Let_def)
    moreover have "fold upsertDaily rows (table @ [r]) = (table @ [r]) @ rows"
      using Cons.prems by (intro Cons.IH) (auto simp: image_iff)
    ultimately show ?case by simp
  qed simp
  with assms(2,3) show ?thesis by simp
qed

lemma balancesBefore_today: "balancesBefore (todayRows svc) = balancesNow (ds_account svc)"
  by (simp add: balancesBefore_def balancesNow_def todayRows_def fold_map comp_def)

lemma lastBalances_today:
  assumes "dw_daily w = table @ rows" and "rows \<noteq> []" and "\<forall>r\<in>set rows. abd_Date r = d" and "\<forall>b\<in>set table. abd_Date b < d"
  shows "lastBalances w = rows"
proof -
  have "Max (abd_Date ` set (dw_daily w)) = d"
  proof (rule Max_eqI)
    show "d \<in> abd_Date ` set (dw_daily w)"
      using assms(1-3) by (cases rows) auto
    show "y \<le> d" if "y \<in> abd_Date ` set (dw_daily w)" for y
      using that assms(1,3,4) by (auto intro: less_imp_le)
  qed simp
  moreover have "filter (\<lambda>b. abd_Date b = d) table = []"
    using assms(4) by (auto simp: filter_empty_conv)
  ultimately show ?thesis
    using assms(1,3) by (simp add: lastBalances_def)
qed

text \<open>
  C39: A difference whose report cannot be written is lost.  The balances of the day are stored and the orders marked before
  the comparison; when the job fails at the report and is run again on the same day, it compares the balances with
  themselves, finds nothing and ends with success.
\<close>

theorem difference_lost_on_retry:
  assumes "dailyWorks svc" and "ds_fault svc WriteReport = Some e" and "dw_bucket w (dailyPath svc) = None" and "dailyDifferences svc w \<noteq> []"
    and "distinct (map acc_accountNumber (ds_account svc))" and "\<forall>b\<in>set (dw_daily w). abd_Date b < localDay (ds_now svc)"
    and "snd (collectedOrders svc w) = Some i" and "length (ds_messages svc) \<le> i"
    and "dailyWorks again" and "ds_account again = ds_account svc" and "ds_messages again = ds_messages svc"
    and "dw_bucket w (dailyPath again) = None"
  shows "\<exists>w1 w2. DoDailyBalance svc w = (Err (MultiErr [e]), w1) \<and>
    DoDailyBalance again (NewReconBalanceService w1) = (Ok '''', w2) \<and> dw_bucket w2 = dw_bucket w"
proof -
  define w1 where "w1 = w\<lparr>dw_daily := fold upsertDaily (todayRows svc) (dw_daily w), dw_committed := Some i,
      dw_accountTransactions := calculateReconBalanceExpectedResult (fst (collectedOrders svc w)) (dw_accountTransactions w)\<rparr>"
  have first: "DoDailyBalance svc w = (Err (MultiErr [e]), w1)"
    using DoDailyBalance_run [OF assms(1,3)] assms(2,4,7) by (simp add: writeDifferences_def w1_def)
  have rows: "map abd_AccountNumber (todayRows svc) = map acc_accountNumber (ds_account svc)" "todayRows svc \<noteq> []"
    "\<forall>r\<in>set (todayRows svc). abd_Date r = localDay (ds_now svc)"
    using assms(1) by (auto simp: todayRows_def dailyWorks_def)
  have "\<forall>b\<in>set (dw_daily w). abd_Date b \<noteq> localDay (ds_now svc)"
    using assms(6) by fastforce
  then have "dw_daily w1 = dw_daily w @ todayRows svc"
    using fold_upsertDaily [of "todayRows svc" "localDay (ds_now svc)" "dw_daily w"] rows assms(5) by (simp add: w1_def)
  then have "lastBalances w1 = todayRows svc"
    using rows(2,3) assms(6) by (rule lastBalances_today)
  then have last: "lastBalances (NewReconBalanceService w1) = todayRows svc"
    by (simp add: lastBalances_def NewReconBalanceService_def)
  have collecting: "dw_accountTransactions (NewReconBalanceService w1) = Map.empty"
    by (simp add: NewReconBalanceService_def)
  have "collectedOrders again (NewReconBalanceService w1) = ([], Some i)"
    using assms(8,11) by (simp add: collectedOrders_def NewReconBalanceService_def w1_def)
  moreover have "expectedBalances m Map.empty = m" for m :: "string \<rightharpoonup> 'a"
    by (simp add: fun_eq_iff expectedBalances_def)
  ultimately have "dailyDifferences again (NewReconBalanceService w1) = []"
    using assms(10) collecting
    by (simp add: dailyDifferences_def last balancesBefore_today calculateReconBalanceExpectedResult_def reconDiff_def)
  moreover have "dw_bucket (NewReconBalanceService w1) (dailyPath again) = None"
    using assms(12) by (simp add: NewReconBalanceService_def w1_def)
  ultimately show ?thesis
    using first DoDailyBalance_run [OF assms(9), of "NewReconBalanceService w1"]
    by (simp add: NewReconBalanceService_def w1_def)
qed

text \<open>A transaction from an account to itself is taken off twice, where it changes nothing.\<close>

lemma self_transfer_taken_twice:
  assumes "sx_SourceAccountId t = n" and "sx_DestinationAccountId t = n"
  shows "netChange n [t] = 0" and "applyTransactions n (involved n [t]) b = b - sx_Amount t - sx_Amount t"
  using assms by (simp_all add: netChange_def)

section \<open>The theorems, applied\<close>

text \<open>\<open>A\<close> gave 30 to \<open>B\<close>, and \<open>C\<close> has 10 where it had 5.\<close>

definition dailyTransfer :: "rat StreamedTransaction" where
  "dailyTransfer = \<lparr>sx_SourceAccountId = ''A'', sx_DestinationAccountId = ''B'', sx_Amount = 30\<rparr>"

lemma dailyTransfer_between: "betweenAccounts [dailyTransfer]"
  by (simp add: betweenAccounts_def EqualFold_def toLowerAscii_def dailyTransfer_def)

definition dailyExample :: "rat DailyService" where
  "dailyExample =
     \<lparr>ds_account = [exampleAccount 1 ''A'' Map.empty 70, exampleAccount 2 ''B'' Map.empty 130, exampleAccount 3 ''C'' Map.empty 10],
      ds_messages = [''order''],
      ds_unmarshal = (\<lambda>_. Ok \<lparr>so_OrderTime = 0,
        so_Transactions = [dailyTransfer]\<rparr>),
      ds_now = 20 * nsPerDay, ds_reconDate = 19 * nsPerDay, ds_decimalText = (\<lambda>d. if d = 5 then ''5'' else ''10''),
      ds_baseURL = ''https://storage'', ds_order = (\<lambda>m. sorted_list_of_set (dom m)), ds_fault = (\<lambda>_. None)\<rparr>"

definition dailyStart :: "rat DailyWorld" where
  "dailyStart =
     \<lparr>dw_daily = [\<lparr>abd_AccountNumber = ''A'', abd_Date = 19, abd_Balance = 100\<rparr>, \<lparr>abd_AccountNumber = ''B'', abd_Date = 19, abd_Balance = 100\<rparr>,
        \<lparr>abd_AccountNumber = ''C'', abd_Date = 19, abd_Balance = 5\<rparr>],
      dw_committed = Some 0, dw_bucket = Map.empty, dw_accountTransactions = Map.empty\<rparr>"

lemma dailyExample_works: "dailyWorks dailyExample" "dailyWorks (dailyExample\<lparr>ds_fault := (Map.empty)(WriteReport \<mapsto> e)\<rparr>)"
  by (simp_all add: dailyWorks_def dailyExample_def)

lemma dailyExample_before: "balancesBefore (lastBalances dailyStart) = [''A'' \<mapsto> 100, ''B'' \<mapsto> 100, ''C'' \<mapsto> 5]"
  by (simp add: balancesBefore_def lastBalances_def dailyStart_def)

lemma dailyExample_now: "balancesNow (ds_account dailyExample) = [''A'' \<mapsto> 70, ''B'' \<mapsto> 130, ''C'' \<mapsto> 10]"
  by (simp add: balancesNow_def dailyExample_def exampleAccount_def)

lemma dailyExample_orders:
  "collectedOrders (dailyExample\<lparr>ds_fault := f\<rparr>) dailyStart =
    ([dailyTransfer], Some 1)"
  by (simp add: collectedOrders_def dailyExample_def dailyStart_def nsPerDay_def)

lemma daily_differences_exact_witness:
  "\<exists>w'. DoDailyBalance dailyExample dailyStart = (Ok (''https://storage/'' @ dailyPath dailyExample), w') \<and>
    dw_bucket w' (dailyPath dailyExample) =
      Some (differenceLines [\<lparr>bd_AccountNumber = ''C'', bd_ConsumerBalance = ''5'', bd_DatabaseBalance = ''10''\<rparr>])"
proof -
  have orders: "collectedOrders dailyExample dailyStart = ([dailyTransfer], Some 1)"
    using dailyExample_orders [of "\<lambda>_. None"] by (simp add: dailyExample_def)
  have free: "ds_fault dailyExample WriteReport = None" "dw_bucket dailyStart (dailyPath dailyExample) = None" "dw_accountTransactions dailyStart = Map.empty"
    by (simp_all add: dailyExample_def dailyStart_def)
  have order: "finite (dom m) \<Longrightarrow> distinct (ds_order dailyExample m) \<and> set (ds_order dailyExample m) = dom m" for m
    by (simp add: dailyExample_def)
  let ?E = "\<lambda>n. balanceOf (balancesBefore (lastBalances dailyStart)) n + netChange n [dailyTransfer]"
  have "balanceOf (balancesNow (ds_account dailyExample)) n \<noteq> ?E n \<longleftrightarrow> n = ''C''" for n
    by (simp add: dailyExample_now dailyExample_before balanceOf_def netChange_def dailyTransfer_def)
  then have differ: "{n. balanceOf (balancesNow (ds_account dailyExample)) n \<noteq> ?E n \<and>
      (balancesBefore (lastBalances dailyStart) n \<noteq> None \<or> involved n [dailyTransfer] \<noteq> [])} = {''C''}"
    by (auto simp: dailyExample_before)
  have single: "names = [''C'']" if "distinct names" "set names = {''C''}" for names
    using that by (cases names) (auto simp: subset_singleton_iff)
  obtain names w' where names: "distinct names" "set names = {''C''}" and run:
    "DoDailyBalance dailyExample dailyStart = (Ok (if names = [] then '''' else ds_baseURL dailyExample @ ''/'' @ dailyPath dailyExample), w')"
    "dw_bucket w' (dailyPath dailyExample) = (if names = [] then None
       else Some (differenceLines (map (\<lambda>n. \<lparr>bd_AccountNumber = n, bd_ConsumerBalance = ds_decimalText dailyExample (?E n),
         bd_DatabaseBalance = ds_decimalText dailyExample (balanceOf (balancesNow (ds_account dailyExample)) n)\<rparr>) names)))"
    using daily_differences_exact [OF dailyExample_works(1) free order orders dailyTransfer_between] unfolding differ by blast
  have "?E ''C'' = 5" "balanceOf (balancesNow (ds_account dailyExample)) ''C'' = 10"
    "ds_decimalText dailyExample 5 = ''5''" "ds_decimalText dailyExample 10 = ''10''" "ds_baseURL dailyExample = ''https://storage''"
    by (simp_all add: dailyExample_now dailyExample_before balanceOf_def netChange_def dailyTransfer_def) (simp_all add: dailyExample_def)
  with run show ?thesis
    unfolding single [OF names] by (intro exI [of _ w']) simp
qed

lemma difference_lost_on_retry_witness:
  "\<exists>w1 w2. DoDailyBalance (dailyExample\<lparr>ds_fault := [WriteReport \<mapsto> Panic]\<rparr>) dailyStart = (Err (MultiErr [Panic]), w1) \<and>
    DoDailyBalance dailyExample (NewReconBalanceService w1) = (Ok '''', w2) \<and> dw_bucket w2 = Map.empty"
proof -
  let ?svc = "dailyExample\<lparr>ds_fault := [WriteReport \<mapsto> Panic]\<rparr>"
  let ?expected = "expectedBalances (balancesBefore (lastBalances dailyStart)) (calculateReconBalanceExpectedResult [dailyTransfer] Map.empty)"
  have "finite (dom ?expected)"
    unfolding expected_net(2) [OF dailyTransfer_between] by (intro finite_UnI finite_balancesBefore finite_involved)
  moreover have "''C'' \<in> dom ?expected"
    by (simp add: expected_net(2) [OF dailyTransfer_between] dailyExample_before)
  moreover have "balanceOf ?expected ''C'' = 5"
    unfolding expected_net(1) [OF dailyTransfer_between]
    by (simp add: dailyExample_before balanceOf_def netChange_def dailyTransfer_def)
  moreover have "balanceOf (balancesNow (ds_account ?svc)) ''C'' = 10"
    using dailyExample_now by (simp add: balanceOf_def)
  moreover have order: "ds_order ?svc = (\<lambda>m. sorted_list_of_set (dom m))" and empty: "dw_accountTransactions dailyStart = Map.empty"
    by (simp_all add: dailyExample_def dailyStart_def)
  ultimately have "''C'' \<in> set (filter (\<lambda>n. balanceOf (balancesNow (ds_account ?svc)) n \<noteq> balanceOf ?expected n) (ds_order ?svc ?expected))"
    by (simp del: filter_set)
  then have "dailyDifferences ?svc dailyStart \<noteq> []"
    unfolding dailyDifferences_def reconDiff_def dailyExample_orders empty fst_conv by (simp only: map_is_Nil_conv) (metis empty_iff list.set(1))
  note differs = this
  have fault: "ds_fault ?svc WriteReport = Some Panic"
    by simp
  have numbers: "distinct (map acc_accountNumber (ds_account ?svc))" and read: "length (ds_messages ?svc) \<le> 1"
    and same: "ds_account dailyExample = ds_account ?svc" "ds_messages dailyExample = ds_messages ?svc"
    by (simp_all add: dailyExample_def exampleAccount_def)
  have dates: "\<forall>b\<in>set (dw_daily dailyStart). abd_Date b < localDay (ds_now ?svc)" and bucket: "dw_bucket dailyStart = Map.empty"
    by (simp_all add: dailyExample_def dailyStart_def localDay_def nsPerDay_def jakartaOffset_def)
  have marked: "snd (collectedOrders ?svc dailyStart) = Some 1"
    by (simp add: dailyExample_orders)
  have free: "dw_bucket dailyStart p = None" for p
    by (simp add: bucket)
  show ?thesis
    using difference_lost_on_retry [OF dailyExample_works(2) fault free differs numbers dates marked read dailyExample_works(1) same free]
    unfolding bucket .
qed

end
