(* ===== verification/WalletFiles.thy ===== *)
theory WalletFiles
  imports WalletSystem CsvFiles
begin

text \<open>
  Files of wallet transactions: the lines and rows that \<open>internal/repositories/file.go\<close> reads, the row of
  \<open>internal/services/file_wallet_transaction.go\<close>, and the two uploads of \<open>internal/services/file_service.go\<close>, one from a
  request, which mails what it refused, and one from a bucket, which stores it beside the file.  Each row is booked by
  \<open>CreateTransactionAtomic\<close>.
\<close>

section \<open>Lines and rows\<close>

text \<open>
  \<open>StreamReadMultipartFile\<close>: the lines of a file, without the carriage return before their end, up to one that does not fit
  the buffer of half a megabyte, and the error after them.
\<close>

definition maxLine :: nat where
  "maxLine = 524288"

definition dropCR :: "string \<Rightarrow> string" where
  "dropCR line = (if line \<noteq> '''' \<and> last line = carriageReturn then butlast line else line)"

definition fileLines :: "string \<Rightarrow> string list" where
  "fileLines content =
     (let chunks = splitAt newline content in if last chunks = '''' then butlast chunks else chunks)"

definition StreamReadMultipartFile :: "string result \<Rightarrow> string list \<times> err option" where
  "StreamReadMultipartFile opened =
     (case opened of
        Inl e \<Rightarrow> ([], Some e)
      | Inr content \<Rightarrow>
          (let chunks = fileLines content; good = takeWhile (\<lambda>l. length l < maxLine) chunks
           in (map dropCR good,
               if length good < length chunks then Some (External ''bufio.Scanner: token too long'') else None)))"

text \<open>\<open>StreamReadCSVFile\<close>: the records of a file, and the error that ends them.\<close>

definition StreamReadCSVFile :: "string \<Rightarrow> string list list \<times> err option" where
  "StreamReadCSVFile content = csvRead content"

text \<open>
  A reader with \<open>LazyQuotes\<close> on a single line: a quote inside a field stands for itself, and a field whose
  closing quote is missing ends with the line.  An empty line is the end of the file.
\<close>

fun lazyQuoted :: "string \<Rightarrow> string \<Rightarrow> string \<times> string option" where
  "lazyQuoted acc [] = (acc, None)"
| "lazyQuoted acc (c # s) =
     (if c \<noteq> quoteChar then lazyQuoted (acc @ [c]) s
      else case s of
             [] \<Rightarrow> (acc, None)
           | d # s' \<Rightarrow>
               if d = quoteChar then lazyQuoted (acc @ [quoteChar]) s'
               else if d = CHR '','' then (acc, Some s')
               else lazyQuoted (acc @ [quoteChar]) s)"

definition lazyPlain :: "string \<Rightarrow> string \<times> string option" where
  "lazyPlain s =
     (takeWhile (\<lambda>c. c \<noteq> CHR '','') s,
      case dropWhile (\<lambda>c. c \<noteq> CHR '','') s of [] \<Rightarrow> None | _ # rest \<Rightarrow> Some rest)"

definition lazyField :: "string \<Rightarrow> string \<times> string option" where
  "lazyField s = (case s of c # s' \<Rightarrow> if c = quoteChar then lazyQuoted [] s' else lazyPlain s | [] \<Rightarrow> lazyPlain s)"

lemma lazyQuoted_length: "lazyQuoted acc s = (f, Some rest) \<Longrightarrow> length rest < length s"
  by (induction acc s rule: lazyQuoted.induct) (auto split: if_splits list.splits)

lemma lazyPlain_length: "lazyPlain s = (f, Some rest) \<Longrightarrow> length rest < length s"
proof -
  assume "lazyPlain s = (f, Some rest)"
  then have "Suc (length rest) = length (dropWhile (\<lambda>c. c \<noteq> CHR '','') s)"
    by (auto simp: lazyPlain_def split: list.splits)
  also have "\<dots> \<le> length s" by (rule length_dropWhile_le)
  finally show ?thesis by simp
qed

lemma lazyField_length: "lazyField s = (f, Some rest) \<Longrightarrow> length rest < length s"
  by (auto simp: lazyField_def dest: lazyQuoted_length lazyPlain_length split: list.splits if_splits)

function lazyFields :: "string \<Rightarrow> string list" where
  "lazyFields s = (case lazyField s of (f, None) \<Rightarrow> [f] | (f, Some rest) \<Rightarrow> f # lazyFields rest)"
  by pat_completeness auto
termination
  by (relation "measure length") (auto dest: lazyField_length [OF sym])

declare lazyFields.simps [simp del]

definition lazyRead :: "string \<Rightarrow> string list result" where
  "lazyRead line = (let line = dropCR line in if line = '''' then Err (External ''EOF'') else Ok (lazyFields line))"

section \<open>A row\<close>

text \<open>
  The service: the wallet service and its master data, the accepted age of a transaction in days, the decimal and JSON
  libraries, and the faults of the cache, of the look-up of an account by its legacy number, of the bucket
  and of the mail client.
\<close>

record 'd FileService =
  fs_svc :: "'d ServiceConfig"
  TransactionTimeUploadMaxWindowDays :: int
  fs_parseDecimal :: "string \<Rightarrow> 'd result"
  fs_unmarshal :: "string \<Rightarrow> 'd WalletMetadata result"
  fs_cacheGetFault :: "err option"
  fs_cacheSetFault :: "err option"
  fs_legacyFault :: "err option"
  fs_reportFault :: "err option"
  fs_mailFault :: "err option"

text \<open>\<open>common.DateFormatDDMMYYYYWithoutDash\<close>, printed and read in Jakarta.\<close>

definition FormatDDMMYYYY :: "int \<Rightarrow> string" where
  "FormatDDMMYYYY t = (let (y, m, day) = dateOf (localDay t) in padded 2 day @ padded 2 m @ padded 4 y)"

definition ParseDDMMYYYY :: "string \<Rightarrow> int result" where
  "ParseDDMMYYYY s =
     (if length s = 8 \<and> list_all isDigit s
      then let day = number (take 2 s); m = number (take 2 (drop 2 s)); y = number (drop 4 s)
           in if validDate y m day then Ok (startOfDate y m day - jakartaOffset) else Err (ErrorMsg ''out of range'')
      else Err (ErrorMsg ''cannot parse''))"

definition FileWalletRowLength :: nat where
  "FileWalletRowLength = 11"

text \<open>The child transactions: an entry without a type is passed over, whatever its amount.\<close>

fun childAmounts :: "(string \<Rightarrow> 'd result) \<Rightarrow> (string \<times> string) list \<Rightarrow> 'd AmountDetail list result" where
  "childAmounts parse [] = Ok []"
| "childAmounts parse ((trxType, amount) # rest) =
     (if trxType = '''' then childAmounts parse rest
      else case parse amount of
             Inl e \<Rightarrow> Err (wrapErr (''unable to parse amount ('' @ amount @ '') ('' @ trxType @ '')'') e)
           | Inr d \<Rightarrow>
               rbind (childAmounts parse rest) (\<lambda>ads.
                 Ok (\<lparr>ad_Type = trxType, ad_Amount = \<lparr>amt_ValueDecimal = d, amt_Currency = ''IDR''\<rparr>\<rparr> # ads)))"

definition isBlankRow :: "string list \<Rightarrow> bool" where
  "isBlankRow record = (filter (\<lambda>c. c \<noteq> CHR '' '') (concat record) = '''')"

definition rowDate :: "'d FileService \<Rightarrow> string \<Rightarrow> int result" where
  "rowDate fs text =
     (let clock = now (repo (fs_svc fs)); window = TransactionTimeUploadMaxWindowDays fs
      in case ParseDDMMYYYY text of
           Inl e \<Rightarrow> Err (wrapErr (''unable to parse date '' @ text) e)
         | Inr date \<Rightarrow>
             if IsTodayAfterDate clock date then
               Err (ErrorMsg (''transaction date can't be the next day. value: '' @ text))
             else if 0 < window \<and> date < AddDays clock (- window) then
               Err (ErrorMsg (''transaction date must be within '' @ formatInt window @ '' days from today. value: '' @ text))
             else Ok date)"

definition parseWalletTransactionData ::
  "'d FileService \<Rightarrow> string \<Rightarrow> string \<Rightarrow> string list \<Rightarrow> 'd NewWalletTransaction result" where
  "parseWalletTransactionData fs newId defaultRefNumber record =
     (if isBlankRow record then Err (Sentinel ErrCSVRowIsEmpty)
      else if length record < FileWalletRowLength then 
       Err (ErrorMsg (''column length mismatch with model type. value: ['' @ join '' '' record @ '']''))
      else
        rbind (rowDate fs (record ! 0)) (\<lambda>date.
        rbind (case fs_parseDecimal fs (record ! 5) of
                 Inl e \<Rightarrow> Err (wrapErr (''unable to parse amount '' @ record ! 5) e)
               | Inr d \<Rightarrow> Ok d) (\<lambda>amount.
        rbind (if record ! 8 = '''' then Ok (Some Map.empty)
               else case fs_unmarshal fs (record ! 8) of
                      Inl e \<Rightarrow> Err (wrapErr (''unable to parse metadata '' @ record ! 8) e)
                    | Inr metadata \<Rightarrow> Ok metadata) (\<lambda>metadata.
        let types = splitAt (CHR '';'') (record ! 9); amounts = splitAt (CHR '';'') (record ! 10)
        in if length types \<noteq> length amounts then 
             Err (ErrorMsg (''child transaction did not match: '' @ formatInt (int (length types)) @ '' != '' @
               formatInt (int (length amounts))))
           else rbind (childAmounts (fs_parseDecimal fs) (zip types amounts)) (\<lambda>ads.
             Ok \<lparr>nw_ID = newId, nw_AccountNumber = record ! 4,
                 nw_RefNumber = (if record ! 1 = '''' then defaultRefNumber else record ! 1),
                 nw_TransactionType = record ! 3, nw_TransactionFlow = record ! 2, nw_TransactionTime = date,
                 nw_NetAmount = \<lparr>amt_ValueDecimal = amount, amt_Currency = ''IDR''\<rparr>, nw_Amounts = ads,
                 nw_Status = ''SUCCESS'', nw_DestinationAccountNumber = record ! 6, nw_Description = record ! 7,
                 nw_Metadata = metadata\<rparr>)))))"

text \<open>\<open>EnsureTransactionTypeExist\<close> of the master data.\<close>

definition EnsureTransactionTypeExist :: "'d ServiceConfig \<Rightarrow> string list \<Rightarrow> err option" where
  "EnsureTransactionTypeExist svc transactionTypes =
     (case GetListTransactionTypeCode svc of
        Inl e \<Rightarrow> Some (wrapErr ''failed to get transaction type data'' e)
      | Inr masterTrxTypes \<Rightarrow>
          (case find (\<lambda>t. t \<notin> set (AcceptedTransactionType svc @ masterTrxTypes)) transactionTypes of
             Some t \<Rightarrow> Some (ErrorMsg (''invalid transaction type: '' @ t))
           | None \<Rightarrow> None))"

text \<open>
  What \<open>GetACuanAccountNumber\<close> answers when its error is ignored: the number of the account with this legacy number, or
  the number that was asked for.
\<close>

definition resolveAccount :: "'d FileService \<Rightarrow> string \<Rightarrow> 'd DB \<Rightarrow> string" where
  "resolveAccount fs n db =
     (if n = '''' then ''''
      else case fs_legacyFault fs of
             Some e \<Rightarrow> n
           | None \<Rightarrow>
               (case find (\<lambda>r. row_t24AccountNumber r = Some n) (db_account db) of
                  Some r \<Rightarrow> row_accountNumber r
                | None \<Rightarrow> n))"

text \<open>What both uploads do with a row that could be parsed.\<close>

definition bookRow ::
  "'d::linordered_idom FileService \<Rightarrow> bool \<Rightarrow> string \<Rightarrow> 'd NewWalletTransaction \<Rightarrow> 'd World \<Rightarrow> err option \<times> 'd World" where
  "bookRow fs isPublish clientID input w =
     (case EnsureTransactionTypeExist (fs_svc fs) (nw_TransactionType input # map ad_Type (nw_Amounts input)) of
        Some e \<Rightarrow> (Some e, w)
      | None \<Rightarrow>
          (let input = input\<lparr>nw_AccountNumber := resolveAccount fs (nw_AccountNumber input) (w_db w),
                             nw_DestinationAccountNumber := resolveAccount fs (nw_DestinationAccountNumber input) (w_db w)\<rparr>
           in case CreateTransactionAtomic (fs_svc fs) input False isPublish clientID w of
                ((created, e), w') \<Rightarrow> (e, w')))"

text \<open>The id is drawn before the columns are read.\<close>

definition drawsId :: "string list \<Rightarrow> bool" where
  "drawsId record = (\<not> isBlankRow record \<and> FileWalletRowLength \<le> length record)"

definition processRecord ::
  "'d::linordered_idom FileService \<Rightarrow> bool \<Rightarrow> string \<Rightarrow> string \<Rightarrow> string list \<Rightarrow> 'd World \<Rightarrow> err option \<times> 'd World" where
  "processRecord fs isPublish clientID refNumber record w =
     (let w1 = (if drawsId record then w\<lparr>w_drawn := w_drawn w + 1\<rparr> else w)
      in case parseWalletTransactionData fs (newUUIDText (fs_svc fs) (w_drawn w)) refNumber record of
           Inl e \<Rightarrow> (Some e, w1)
         | Inr input \<Rightarrow> bookRow fs isPublish clientID input w1)"

section \<open>Reference numbers\<close>

text \<open>\<open>%03d\<close> of a number.\<close>

definition format03 :: "int \<Rightarrow> string" where
  "format03 n = (if n < 0 then ''-'' @ padded 2 (nat (- n)) else padded 3 (nat n))"

text \<open>The cache counts the files of a day; the key is forgotten at the end of the day, which the date in it makes up for.\<close>

definition getReportNumberFromCache :: "'d FileService \<Rightarrow> string \<Rightarrow> (string \<rightharpoonup> string) \<Rightarrow> (int \<times> string) result \<times> (string \<rightharpoonup> string)" where
  "getReportNumberFromCache fs cachePrefix cache =
     (let nowDate = FormatDDMMYYYY (now (repo (fs_svc fs))); cacheKey = cachePrefix @ ''-'' @ nowDate
      in case fs_cacheGetFault fs of
           Some e \<Rightarrow> (Err e, cache)
         | None \<Rightarrow>
             (case (case cache cacheKey of None \<Rightarrow> Some 1 | Some v \<Rightarrow> map_option (\<lambda>n. n + 1) (Atoi v)) of
                None \<Rightarrow> (Err (External ''strconv.Atoi''), cache)
              | Some reportNumber \<Rightarrow>
                  (case fs_cacheSetFault fs of
                     Some e \<Rightarrow> (Err e, cache)
                   | None \<Rightarrow> (Ok (reportNumber, nowDate), cache(cacheKey \<mapsto> formatInt reportNumber)))))"

definition rowReference :: "int \<times> string \<Rightarrow> nat \<Rightarrow> string" where
  "rowReference report lineNum =
     ''MANUAL-'' @ snd report @ ''-'' @ format03 (fst report) @ ''-'' @ formatInt (int lineNum)"

definition isWalletTransactionCSVHeader :: "string \<Rightarrow> bool" where
  "isWalletTransactionCSVHeader txt = (take 16 txt = ''Transaction Date'')"

section \<open>The uploads\<close>

text \<open>The wallet service, the cache, the mails (recipient and attachment), and the objects of the buckets.\<close>

record 'd FileWorld =
  fw_world :: "'d World"
  fw_cache :: "string \<rightharpoonup> string"
  fw_mails :: "(string \<times> string) list"
  fw_objects :: "string \<times> string \<rightharpoonup> string"

definition errorHeader :: "string list" where
  "errorHeader =
     [''Transaction Date'', ''Reference Number'', ''Transaction Flow'', ''Transaction Type'', ''Account Number'', ''Amount'',
      ''Destination Account Number'', ''Description'', ''Metadata'', ''Child Transaction Type'', ''Child Amount'',
      ''Error Message'']"

text \<open>
  The loop of \<open>UploadWalletTransaction\<close>: every line counts, and every line but an empty one and the header is a row.  The
  rows that are refused, with the error as one more column.
\<close>

fun uploadLines ::
  "'d::linordered_idom FileService \<Rightarrow> string \<Rightarrow> int \<times> string \<Rightarrow> nat \<Rightarrow> string list \<Rightarrow> 'd World \<Rightarrow>
     (err option \<times> string list list) \<times> 'd World" where
  "uploadLines fs clientID report lineNum [] w = ((None, []), w)"
| "uploadLines fs clientID report lineNum (line # rest) w =
     (if line = '''' \<or> isWalletTransactionCSVHeader line then uploadLines fs clientID report (lineNum + 1) rest w
      else case lazyRead line of
        Inl e \<Rightarrow> ((Some (wrapErr ''failed to read csv row'' e), []), w)
      | Inr record \<Rightarrow>
          (case processRecord fs True clientID (rowReference report lineNum) record w of
             (None, w') \<Rightarrow> uploadLines fs clientID report (lineNum + 1) rest w'
           | (Some e, w') \<Rightarrow>
               if e = Panic then ((Some Panic, []), w')
               else (case uploadLines fs clientID report (lineNum + 1) rest w' of
                       ((r, failed), w'') \<Rightarrow> ((r, (record @ [errorText (fs_svc fs) e]) # failed), w''))))"

text \<open>
  \<open>UploadWalletTransaction\<close>: the refused rows are mailed when the file was read to its end.  The error of the mail client is
  dropped: an upload whose mail cannot be sent ends like one whose mail was.
\<close>

definition UploadWalletTransaction ::
  "'d::linordered_idom FileService \<Rightarrow> string result \<Rightarrow> string \<Rightarrow> string \<Rightarrow> 'd FileWorld \<Rightarrow> err option \<times> 'd FileWorld" where
  "UploadWalletTransaction fs opened reportTo clientID fw =
     (case getReportNumberFromCache fs ''MANUAL'' (fw_cache fw) of
        (Inl e, cache) \<Rightarrow> (Some e, fw\<lparr>fw_cache := cache\<rparr>)
      | (Inr report, cache) \<Rightarrow>
          (case StreamReadMultipartFile opened of (ls, readError) \<Rightarrow>
           case uploadLines fs clientID report 0 ls (fw_world fw) of ((r, failed), w) \<Rightarrow>
             (let fw = fw\<lparr>fw_cache := cache, fw_world := w\<rparr>
              in case r of
                   Some e \<Rightarrow> (Some e, fw)
                 | None \<Rightarrow>
                     (case readError of
                        Some e \<Rightarrow> (Some e, fw)
                      | None \<Rightarrow>
                          if failed = [] then (None, fw)
                          else if fs_mailFault fs \<noteq> None then (None, fw)
                          else (None, fw\<lparr>fw_mails := fw_mails fw @ [(reportTo, EncodeToString (csvText (errorHeader # failed)))]\<rparr>)))))"

record ErrWalletTransaction =
  ew_LineNumb :: string
  ew_AccountNumber :: string
  ew_RefNumber :: string
  ew_TransactionType :: string
  ew_Error :: string

text \<open>\<open>parseErrorWalletTransaction\<close> indexes its columns: a shorter row is a panic.\<close>

definition parseErrorWalletTransaction :: "string list \<Rightarrow> nat \<Rightarrow> string \<Rightarrow> ErrWalletTransaction result" where
  "parseErrorWalletTransaction record lineNumb message =
     (if length record < 5 then Err Panic
      else Ok \<lparr>ew_LineNumb = ''[LINE '' @ formatInt (int lineNumb) @ '']'', ew_AccountNumber = record ! 4,
               ew_RefNumber = record ! 1, ew_TransactionType = record ! 3, ew_Error = message\<rparr>)"

text \<open>
  The loop of \<open>UploadWalletTransactionFromGCS\<close>: the header is not counted, and a blank row is passed over.  What is
  sent to the channel of the report.
\<close>

fun uploadRecords ::
  "'d::linordered_idom FileService \<Rightarrow> bool \<Rightarrow> string \<Rightarrow> int \<times> string \<Rightarrow> nat \<Rightarrow> string list list \<Rightarrow> 'd World \<Rightarrow>
     (err option \<times> ErrWalletTransaction list) \<times> 'd World" where
  "uploadRecords fs isPublish clientID report lineNum [] w = ((None, []), w)"
| "uploadRecords fs isPublish clientID report lineNum (record # rest) w =
     (if isWalletTransactionCSVHeader (hd record) then uploadRecords fs isPublish clientID report lineNum rest w
      else if isBlankRow record then uploadRecords fs isPublish clientID report (lineNum + 1) rest w
      else case processRecord fs isPublish clientID (rowReference report lineNum) record w of
        (None, w') \<Rightarrow> uploadRecords fs isPublish clientID report (lineNum + 1) rest w'
      | (Some e, w') \<Rightarrow>
          if e = Panic then ((Some Panic, []), w')
          else (case parseErrorWalletTransaction record (lineNum + 1) (errorText (fs_svc fs) e) of
                  Inl p \<Rightarrow> ((Some p, []), w')
                | Inr row \<Rightarrow>
                    (case uploadRecords fs isPublish clientID report (lineNum + 1) rest w' of
                       ((r, failed), w'') \<Rightarrow> ((r, row # failed), w''))))"

text \<open>\<open>WriteCsvFile\<close>: a line per refused row; the object comes to be when the channel is closed.\<close>

definition errorLine :: "ErrWalletTransaction \<Rightarrow> string" where
  "errorLine v =
     join '';'' [ew_LineNumb v, ew_AccountNumber v, ew_RefNumber v, ew_TransactionType v, ew_Error v] @ [newline]"

definition errorObject :: "string \<Rightarrow> CloudStoragePayload" where
  "errorObject filePath = \<lparr>csp_Filename = ''error_'' @ Base filePath, csp_Path = Dir filePath @ ''/error''\<rparr>"

definition WriteCsvFile ::
  "'d FileService \<Rightarrow> string \<Rightarrow> string \<Rightarrow> ErrWalletTransaction list \<Rightarrow> 'd FileWorld \<Rightarrow> 'd FileWorld" where
  "WriteCsvFile fs filePath bucketName errorRows fw =
     (if fs_reportFault fs = None
      then fw\<lparr>fw_objects := (fw_objects fw)((bucketName, GetFilePath (errorObject filePath)) \<mapsto> concat (map errorLine errorRows))\<rparr>
      else fw)"

text \<open>
  \<open>UploadWalletTransactionFromGCS\<close>.  The channel is closed at the end only: on every other way out its reader waits
  for ever, and there is no report.
\<close>

definition UploadWalletTransactionFromGCS ::
  "'d::linordered_idom FileService \<Rightarrow> string \<Rightarrow> string \<Rightarrow> string \<Rightarrow> bool \<Rightarrow> 'd FileWorld \<Rightarrow> err option \<times> 'd FileWorld" where
  "UploadWalletTransactionFromGCS fs filePath bucketName clientID isPublish fw =
     (case fw_objects fw (bucketName, filePath) of
        None \<Rightarrow> (Some (External ''storage: object does not exist''), fw)
      | Some content \<Rightarrow>
          (case getReportNumberFromCache fs ''MANUAL'' (fw_cache fw) of
             (Inl e, cache) \<Rightarrow> (Some e, fw\<lparr>fw_cache := cache\<rparr>)
           | (Inr report, cache) \<Rightarrow>
               (case StreamReadCSVFile content of (records, readError) \<Rightarrow>
                case uploadRecords fs isPublish clientID report 0 records (fw_world fw) of ((r, failed), w) \<Rightarrow>
                  (let fw = fw\<lparr>fw_cache := cache, fw_world := w\<rparr>
                   in case r of
                        Some e \<Rightarrow> (Some e, fw)
                      | None \<Rightarrow>
                          (case readError of
                             Some e \<Rightarrow> (Some e, fw)
                           | None \<Rightarrow> (None, WriteCsvFile fs filePath bucketName failed fw))))))"

end
