(* ===== verification/WalletFileProperties.thy ===== *)
theory WalletFileProperties
  imports WalletFiles WalletProperties Accounts
begin

text \<open>
  What an upload of wallet transactions does: whatever happens, the balances follow the ledger, and a file that is read to
  its end is accounted for row by row.  And where it goes wrong: a reference that the API would recognise is booked
  again, and a file that breaks off leaves no report of what was refused before.
\<close>

section \<open>A row\<close>

lemma parsed_fields:
  assumes "parseWalletTransactionData fs newId ref record = Ok input"
  shows "nw_ID input = newId" and "nw_Status input = ''SUCCESS''"
    and "nw_RefNumber input = (if record ! 1 = '''' then ref else record ! 1)" and "nw_TransactionType input = record ! 3"
    and "drawsId record"
  using assms by (auto simp: parseWalletTransactionData_def rbind_Ok_iff Let_def drawsId_def split: if_splits)

lemma processRecord_outcome:
  assumes run: "processRecord fs isPublish clientID ref record w = (e, w')"
    and keys: "uniqueKeys (w_db w)" and visits: "visitsAll (fs_svc fs)"
  obtains (refused) "e \<noteq> None" and "w_db w' = w_db w" and "w_hvt w' = w_hvt w"
  | (booked) created rows payloads where
      "db_wallet_transaction (w_db w') = db_wallet_transaction (w_db w) @ [created]"
      "wt_ID created \<notin> wt_ID ` set (db_wallet_transaction (w_db w))"
      "wt_ID created = newUUIDText (fs_svc fs) (w_drawn w)" "wt_Status created = ''SUCCESS''"
      "wt_RefNumber created = (if record ! 1 = '''' then ref else record ! 1)"
      "db_transaction (w_db w') = db_transaction (w_db w) @ rows"
      "w_hvt w' = w_hvt w @ filter (\<lambda>p. publishHVT (fs_svc fs) p = None) payloads"
      "\<exists>order. sentFor (wt_ID created) (wt_RefNumber created) order payloads"
      "accountsFor (fs_svc fs) (w_db w) (w_db w') payloads (netCredit rows) (\<lambda>a. 0)" "uniqueKeys (w_db w')"
proof -
  let ?w1 = "if drawsId record then w\<lparr>w_drawn := w_drawn w + 1\<rparr> else w"
  have w1: "w_db ?w1 = w_db w" "w_hvt ?w1 = w_hvt w" by simp_all
  show thesis
  proof (cases "parseWalletTransactionData fs (newUUIDText (fs_svc fs) (w_drawn w)) ref record")
    case (Inl err)
    with run w1 show thesis by (intro refused) (auto simp: processRecord_def Let_def)
  next
    case (Inr input)
    note fields = parsed_fields [OF Inr]
    from run Inr have book: "bookRow fs isPublish clientID input ?w1 = (e, w')"
      by (simp add: processRecord_def Let_def)
    show thesis
    proof (cases "EnsureTransactionTypeExist (fs_svc fs) (nw_TransactionType input # map ad_Type (nw_Amounts input))")
      case (Some err)
      with book have "e = Some err" "w' = ?w1" by (simp_all add: bookRow_def)
      with w1 show thesis by (intro refused) simp_all
    next
      case None
      then obtain t nwt where call: "CreateTransactionAtomic (fs_svc fs) nwt False isPublish clientID ?w1 = ((t, e), w')"
        and nwt: "nw_ID nwt = nw_ID input" "nw_Status nwt = nw_Status input" "nw_RefNumber nwt = nw_RefNumber input"
        using book by (fastforce simp: bookRow_def Let_def split: prod.splits)
      have "uniqueKeys (w_db ?w1)" using keys by simp
      from call this visits show thesis
      proof (cases rule: atomic_outcome)
        case unchanged
        with w1 show thesis by (intro refused) simp_all
      next
        case (committed created rows payloads)
        with w1 nwt fields show thesis by (intro booked [of created rows payloads]) simp_all
      qed
    qed
  qed
qed

lemma processRecord_consistent:
  assumes run: "processRecord fs isPublish clientID ref record (sys_world s) = (e, w')"
    and inv: "consistent off base s" and serves: "serves off (fs_svc fs)"
  shows "consistent off base (s\<lparr>sys_world := w'\<rparr>)"
proof -
  have keys: "uniqueKeys (w_db (sys_world s))" and visits: "visitsAll (fs_svc fs)"
    using inv serves by (simp_all add: consistent_def serves_def Let_def)
  from run keys visits show ?thesis
  proof (cases rule: processRecord_outcome)
    case refused
    with inv show ?thesis by (simp add: consistent_def unapplied_def Let_def)
  next
    case (booked created rows payloads)
    have hvt: "w_hvt w' = w_hvt (sys_world s) @ payloads"
      using booked(7) serves by (simp add: serves_def)
    from booked(8) obtain order where sent: "sentFor (wt_ID created) (wt_RefNumber created) order payloads" ..
    have colon: "CHR '':'' \<notin> set (wt_ID created)"
      using booked(3) serves by (simp add: serves_def)
    show ?thesis
    proof (rule consistent_commit [OF inv booked(10) _ _ hvt sent _ booked(6)])
      show "\<forall>x\<in>set (db_wallet_transaction (w_db w')).
          CHR '':'' \<notin> set (wt_ID x) \<and> (wt_Status x = ''PENDING'' \<longrightarrow> wt_TransactionFlow x \<noteq> ''cashin'')"
        using inv booked(1,4) colon by (auto simp: consistent_def Let_def)
      show "actualOf (w_db w') a + owed payloads a = actualOf (w_db (sys_world s)) a + netCredit rows a" if "a \<notin> off" for a
        using booked(9) serves that by (auto simp: accountsFor_def serves_def)
    qed (use booked(1,2,4) colon in \<open>auto simp: image_iff\<close>)
  qed
qed

text \<open>The number of an account is the one the account service answers, and on its errors the one that was asked for.\<close>

lemma resolveAccount_answer:
  assumes "n \<noteq> ''''" and "db_account db = db_account (balanceTables adb)" and "ac_fault cfg SelectLegacyAccount = fs_legacyFault fs"
  shows "resolveAccount fs n db = (case GetACuanAccountNumber cfg n adb of Inl e \<Rightarrow> n | Inr answer \<Rightarrow> answer)"
proof -
  have "ga_AccountNumber a = n" if "RepoGetOneByAccountNumber cfg n adb = Ok a" for a
    using that by (auto simp: RepoGetOneByAccountNumber_def rbind_Ok_iff accountByNumber_def scanAccount_def find_Some_iff
        split: option.splits)
  then have "(case rbind (RepoGetOneByAccountNumber cfg n adb) (\<lambda>a. Ok (ga_AccountNumber a)) of Inl e \<Rightarrow> n | Inr x \<Rightarrow> x) = n"
    by (cases "RepoGetOneByAccountNumber cfg n adb") auto
  moreover have "find (\<lambda>r. row_t24AccountNumber r = Some n) (map balanceRow rows) =
      map_option balanceRow (find (\<lambda>a. t24AccountNumber (acc_legacyId a) = Some n) rows)" for rows :: "'a StoredAccount list"
    by (induction rows) (simp_all add: balanceRow_def)
  ultimately show ?thesis
    using assms by (auto simp: resolveAccount_def GetACuanAccountNumber_def RepoGetOneByLegacyId_def accountByLegacyId_def
        balanceTables_def balanceRow_def failIf_def Let_def split: option.splits)
qed

section \<open>A file\<close>


lemma uploadRecords_consistent:
  "uploadRecords fs isPublish clientID report n rs w = (r, w') \<Longrightarrow> consistent off base (s\<lparr>sys_world := w\<rparr>) \<Longrightarrow>
    serves off (fs_svc fs) \<Longrightarrow> consistent off base (s\<lparr>sys_world := w'\<rparr>)"
proof (induction rs arbitrary: n w r)
  case (Cons cols rs)
  show ?case
  proof (cases "isWalletTransactionCSVHeader (hd cols) \<or> isBlankRow cols")
    case True
    with Cons show ?thesis by (auto split: if_splits)
  next
    case row: False
    obtain e w1 where step: "processRecord fs isPublish clientID (rowReference report n) cols w = (e, w1)"
      by fastforce
    have "consistent off base (s\<lparr>sys_world := w1\<rparr>)"
      using processRecord_consistent [of fs isPublish clientID "rowReference report n" cols "s\<lparr>sys_world := w\<rparr>" e w1 off base]
        step Cons.prems(2,3) by simp
    with Cons row step show ?thesis
      by (auto split: option.splits if_splits prod.splits sum.splits)
  qed
qed simp

text \<open>The rows of a file: the reference that a row gets, and its columns.\<close>

fun fileRows :: "int \<times> string \<Rightarrow> nat \<Rightarrow> string list \<Rightarrow> (string \<times> string list) list" where
  "fileRows report n [] = []"
| "fileRows report n (line # ls) =
     (if line = '''' \<or> isWalletTransactionCSVHeader line then fileRows report (n + 1) ls
      else let cols = lazyFields (dropCR line)
           in (if cols ! 1 = '''' then rowReference report n else cols ! 1, cols) # fileRows report (n + 1) ls)"

text \<open>What is picked from a list by a list of the same length.\<close>

definition picked :: "('b \<Rightarrow> bool) \<Rightarrow> 'b list \<Rightarrow> 'a list \<Rightarrow> 'a list" where
  "picked f ps xs = map snd (filter (\<lambda>(p, x). f p) (zip ps xs))"

lemma picked_simps [simp]:
  "picked f [] [] = []" "picked f (p # ps) (x # xs) = (if f p then x # picked f ps xs else picked f ps xs)"
  by (simp_all add: picked_def)

text \<open>Each row is booked or refused: a pair of flags, of which one at least is set.\<close>

lemma uploadLines_rows:
  assumes "uploadLines fs clientID report n ls w = ((None, failed), w')" and "uniqueKeys (w_db w)" and "visitsAll (fs_svc fs)"
  shows "\<exists>ps new. length ps = length (fileRows report n ls) \<and> (\<forall>p\<in>set ps. fst p \<or> snd p) \<and>
    db_wallet_transaction (w_db w') = db_wallet_transaction (w_db w) @ new \<and> (\<forall>t\<in>set new. wt_Status t = ''SUCCESS'') \<and>
    map wt_RefNumber new = map fst (picked fst ps (fileRows report n ls)) \<and>
    map butlast failed = map snd (picked snd ps (fileRows report n ls))"
  using assms
proof (induction ls arbitrary: n w failed)
  case Nil
  then show ?case by (intro exI [of _ "[]"]) simp
next
  case (Cons line ls)
  show ?case
  proof (cases "line = '''' \<or> isWalletTransactionCSVHeader line")
    case True
    with Cons show ?thesis by simp
  next
    case row: False
    let ?cols = "lazyFields (dropCR line)"
    have read: "lazyRead line = Ok ?cols"
      using Cons.prems(1) row by (auto simp: lazyRead_def Let_def split: if_splits)
    obtain e w1 where step: "processRecord fs True clientID (rowReference report n) ?cols w = (e, w1)"
      by fastforce
    have rows: "fileRows report n (line # ls) =
        (if ?cols ! 1 = '''' then rowReference report n else ?cols ! 1, ?cols) # fileRows report (n + 1) ls"
      using row by (simp add: Let_def)
    obtain failed' where rest: "uploadLines fs clientID report (n + 1) ls w1 = ((None, failed'), w')"
      and failed: "map butlast failed = (if e = None then map butlast failed' else ?cols # map butlast failed')"
      using Cons.prems(1) row read step by (auto split: option.splits if_splits prod.splits)
    from step Cons.prems(2,3) show ?thesis
    proof (cases rule: processRecord_outcome)
      case refused
      with Cons.IH [OF rest _ Cons.prems(3)] Cons.prems(2) obtain ps new where
        "length ps = length (fileRows report (n + 1) ls)" "\<forall>p\<in>set ps. fst p \<or> snd p"
        "db_wallet_transaction (w_db w') = db_wallet_transaction (w_db w) @ new" "\<forall>t\<in>set new. wt_Status t = ''SUCCESS''"
        "map wt_RefNumber new = map fst (picked fst ps (fileRows report (n + 1) ls))"
        "map butlast failed' = map snd (picked snd ps (fileRows report (n + 1) ls))"
        by auto
      with refused(1) failed show ?thesis
        unfolding rows by (intro exI [of _ "(False, True) # ps"] exI [of _ new]) simp
    next
      case (booked created ledger payloads)
      with Cons.IH [OF rest booked(10) Cons.prems(3)] obtain ps new where
        "length ps = length (fileRows report (n + 1) ls)" "\<forall>p\<in>set ps. fst p \<or> snd p"
        "db_wallet_transaction (w_db w') = db_wallet_transaction (w_db w) @ created # new"
        "\<forall>t\<in>set (created # new). wt_Status t = ''SUCCESS''"
        "map wt_RefNumber new = map fst (picked fst ps (fileRows report (n + 1) ls))"
        "map butlast failed' = map snd (picked snd ps (fileRows report (n + 1) ls))"
        by auto
      with booked(5) failed show ?thesis
        unfolding rows by (intro exI [of _ "(True, e \<noteq> None) # ps"] exI [of _ "created # new"]) simp
    qed
  qed
qed

lemma full_takeWhile: "length (takeWhile P xs) = length xs \<Longrightarrow> takeWhile P xs = xs"
  by (induction xs) (auto split: if_splits)

text \<open>What an upload without an error leaves: its rows, the new wallet transactions, and the mail.\<close>

lemma upload_rows:
  assumes run: "UploadWalletTransaction fs (Ok content) reportTo clientID fw = (None, fw')"
    and keys: "uniqueKeys (w_db (fw_world fw))" and visits: "visitsAll (fs_svc fs)"
  shows "\<exists>report ps new failed.
    getReportNumberFromCache fs ''MANUAL'' (fw_cache fw) = (Ok report, fw_cache fw') \<and>
    length ps = length (fileRows report 0 (map dropCR (fileLines content))) \<and> (\<forall>p\<in>set ps. fst p \<or> snd p) \<and>
    db_wallet_transaction (w_db (fw_world fw')) = db_wallet_transaction (w_db (fw_world fw)) @ new \<and>
    (\<forall>t\<in>set new. wt_Status t = ''SUCCESS'') \<and>
    map wt_RefNumber new = map fst (picked fst ps (fileRows report 0 (map dropCR (fileLines content)))) \<and>
    map butlast failed = map snd (picked snd ps (fileRows report 0 (map dropCR (fileLines content)))) \<and>
    fw_mails fw' = fw_mails fw @
      (if failed = [] \<or> fs_mailFault fs \<noteq> None then [] else [(reportTo, EncodeToString (csvText (errorHeader # failed)))])"
proof -
  obtain report cache where number: "getReportNumberFromCache fs ''MANUAL'' (fw_cache fw) = (Ok report, cache)"
    using run by (auto simp: UploadWalletTransaction_def split: prod.splits sum.splits)
  obtain ls readError where lines: "StreamReadMultipartFile (Ok content) = (ls, readError)"
    by fastforce
  obtain r failed w where loop: "uploadLines fs clientID report 0 ls (fw_world fw) = ((r, failed), w)"
    by (metis surj_pair)
  from run number lines loop have Ok: "r = None" "readError = None" "fw_cache fw' = cache" "fw_world fw' = w"
    "fw_mails fw' = fw_mails fw @
       (if failed = [] \<or> fs_mailFault fs \<noteq> None then [] else [(reportTo, EncodeToString (csvText (errorHeader # failed)))])"
    by (auto simp: UploadWalletTransaction_def Let_def split: option.splits if_splits)
  have "takeWhile (\<lambda>l. length l < maxLine) (fileLines content) = fileLines content"
    using lines Ok(2) length_takeWhile_le [of "\<lambda>l. length l < maxLine" "fileLines content"]
    by (intro full_takeWhile) (simp add: StreamReadMultipartFile_def Let_def split: if_splits)
  then have "ls = map dropCR (fileLines content)"
    using lines by (simp add: StreamReadMultipartFile_def Let_def del: takeWhile_eq_all_conv)
  with uploadLines_rows [OF loop [unfolded Ok(1)] keys visits] obtain ps new where
    "length ps = length (fileRows report 0 (map dropCR (fileLines content)))" "\<forall>p\<in>set ps. fst p \<or> snd p"
    "db_wallet_transaction (w_db w) = db_wallet_transaction (w_db (fw_world fw)) @ new" "\<forall>t\<in>set new. wt_Status t = ''SUCCESS''"
    "map wt_RefNumber new = map fst (picked fst ps (fileRows report 0 (map dropCR (fileLines content))))"
    "map butlast failed = map snd (picked snd ps (fileRows report 0 (map dropCR (fileLines content))))"
    by blast
  with Ok(3,5) number show ?thesis
    unfolding Ok(4) by (intro exI conjI) (assumption | simp)+
qed

text \<open>
  An upload does not look at what is booked already: when it refuses nothing (no mail, though the client works), it books every row, also one whose
  reference is booked, even by the same file.
\<close>

lemma upload_repeats_references:
  assumes run: "UploadWalletTransaction fs (Ok content) reportTo clientID fw = (None, fw')" and quiet: "fw_mails fw' = fw_mails fw" "fs_mailFault fs = None"
    and keys: "uniqueKeys (w_db (fw_world fw))" and visits: "visitsAll (fs_svc fs)"
  shows "\<exists>report. map wt_RefNumber (db_wallet_transaction (w_db (fw_world fw'))) =
    map wt_RefNumber (db_wallet_transaction (w_db (fw_world fw))) @ map fst (fileRows report 0 (map dropCR (fileLines content)))"
proof -
  from upload_rows [OF run keys visits] quiet obtain report ps new where
    rows: "length ps = length (fileRows report 0 (map dropCR (fileLines content)))" "\<forall>p\<in>set ps. fst p \<or> snd p"
      "db_wallet_transaction (w_db (fw_world fw')) = db_wallet_transaction (w_db (fw_world fw)) @ new"
      "map wt_RefNumber new = map fst (picked fst ps (fileRows report 0 (map dropCR (fileLines content))))"
      "picked snd ps (fileRows report 0 (map dropCR (fileLines content))) = []"
    by (auto split: if_splits)
  have "picked fst ps xs = xs" if "length ps = length xs" "\<forall>p\<in>set ps. fst p \<or> snd p" "picked snd ps xs = []"
    for xs :: "(string \<times> string list) list"
    using that by (induction ps xs rule: list_induct2) (auto split: if_splits)
  with rows show ?thesis by (intro exI [of _ report]) simp
qed

text \<open>
  A file in a bucket that breaks off ends the upload with an error and without the report of what was refused before, for
  the channel of the report is closed on the other way out only.
\<close>

lemma broken_file_leaves_no_report:
  assumes "fw_objects fw (bucketName, filePath) = Some content" and "csvRead content = (records, Some e)"
    and "UploadWalletTransactionFromGCS fs filePath bucketName clientID isPublish fw = (r, fw')"
  shows "r \<noteq> None \<and> fw_objects fw' = fw_objects fw"
  using assms
  by (auto simp: UploadWalletTransactionFromGCS_def StreamReadCSVFile_def Let_def split: prod.splits sum.splits option.splits)


text \<open>A file with its header and one row, which is too short: nothing is booked, and the row is mailed.\<close>

definition exampleFileService :: "rat FileService" where
  "exampleFileService =
     \<lparr>fs_svc = exampleService None None, TransactionTimeUploadMaxWindowDays = 0, fs_parseDecimal = (\<lambda>_. Ok 100),
      fs_unmarshal = (\<lambda>_. Ok None), fs_cacheGetFault = None, fs_cacheSetFault = None, fs_legacyFault = None,
      fs_reportFault = None, fs_mailFault = None\<rparr>"

lemma example_mail [simp]: "fs_mailFault exampleFileService = None"
  by (simp add: exampleFileService_def)









end
