(* ===== verification/Spec2Isabelle.thy ===== *)
theory Spec2Isabelle
  imports WalletFaults StoredRefunds BulkTransactions ListingProperties AccountListingProperties
    ReconProperties DeadLetterProperties DailyReconProperties WalletFileProperties
begin

text \<open>
  Verification development of the transaction service of this repository (a Go service that keeps account
  balances, wallet transactions and the ledger of a payment platform).  All paths are under \<open>src/internal\<close>.

  \<^bold>\<open>The program and its parts.\<close>  A client creates a \<^emph>\<open>wallet transaction\<close> (an amount, a flow, details and free
  metadata).  A \<^emph>\<open>transformer\<close>, chosen by the transaction type, turns it into the \<^emph>\<open>ledger\<close> requests that are
  stored as rows of the table \<open>transaction\<close>; a \<^emph>\<open>balance calculator\<close> computes what the request does to the
  account balances; both are written in one database transaction.  A request may be \<^emph>\<open>reserved\<close> first (the money is
  held) and committed or cancelled later.  The balances of accounts of high volume are not written at once but sent
  as messages, which a consumer applies, with an idempotency key in a cache.  Requests may also be queued and created
  by a second consumer.  A second service stores \<^emph>\<open>direct\<close> transactions between two accounts, with the same holds, and
  rows in bulk.  Finally the \<^emph>\<open>money flow\<close> service listens to the notifications of stored transactions and sums them
  per day and payment type, carries failed amounts to later summaries, and takes status events.  Lists, the
  administration of accounts and the reconciliation of uploaded files with the ledger work on the same tables.

  \<^bold>\<open>Theories and the code they model.\<close>
  \<^item> \<open>Prelude\<close>: Go errors, results (\<open>err + 'a\<close>), effects (\<open>exec\<close>), Go maps, optional pointers; shared lemmas.
  \<^item> \<open>Balance\<close> (\<open>models/balance.go\<close>): the balance of an account as a record, its options, and the operations
    \<open>Withdraw\<close>, \<open>Reserve\<close>, \<open>Commit\<close>, \<open>CancelReservation\<close>, \<open>AddFunds\<close> with each guard.  The two debiting operations are
    the instances of one locale.  \<open>Movements\<close> and \<open>TransactionSets\<close> (\<open>models/transaction_set.go\<close>) hold the
    calculators; the locales \<open>calculator\<close>, \<open>conserving_calculator\<close> and \<open>shifting_calculator\<close> state what the
    services rest on, and are interpreted on each calculator of the code.
  \<^item> \<open>DateTime\<close> (\<open>common/time.go\<close>): instants, days, layouts.  \<open>Models\<close> (\<open>models/wallet_transaction.go\<close>,
    \<open>models/acuan_transaction.go\<close>): the data the services exchange.
  \<^item> \<open>Database\<close> (\<open>repositories/sql_main.go\<close>, \<open>sql_balance.go\<close>, \<open>storages/migration.sql\<close>): the tables, database
    transactions with rollback (\<open>Atomic\<close>), a fault at any call (\<open>dbCall\<close>, an oracle in the configuration), the
    balance statements (locale \<open>balance_table\<close>).  \<open>TransactionStore\<close> (\<open>sql_wallet_transaction.go\<close>,
    \<open>sql_transaction.go\<close>): the rows.
  \<^item> \<open>TransformerCommon\<close>, \<open>TransformersAdm\<close>, \<open>TransformersDsb\<close>, \<open>TransformersPay\<close>, \<open>TransformersRpy\<close>,
    \<open>TransformersTup\<close>, \<open>TransformerRegistry\<close> (\<open>services/transformer/*.go\<close>): one definition per transformer file and the
    map from type to transformer.  \<open>TransformerLaws\<close> is their program logic (\<open>ensures\<close>, with rules per helper), on
    which the amounts, the shape and the frame of all of them are proved; \<open>RefundsAndTax\<close> has the totals,
    reversal, QRIS refund and tax splits; \<open>StoredRefunds\<close> puts reversal and refund on the mapped queries of the stored
    tables and follows the refunds of a payment over histories.
  \<^item> \<open>ServiceHelpers\<close>, \<open>WalletService\<close> (\<open>services/wallet_transaction_service.go\<close>, \<open>services/common.go\<close>),
    \<open>HVTConsumer\<close> (\<open>consumer/hvt_balance_update\<close>, \<open>services/balance_service.go\<close>; locale \<open>keyed_consumer\<close>),
    \<open>AsyncConsumer\<close> (\<open>consumer/process_wallet_transaction\<close>): every call as the code composes it.
    \<open>WalletOutcomes\<close> lists every way a call ends, \<open>WalletLedger\<close> relates balances, messages and ledger,
    \<open>WalletSystem\<close> closes service and consumer to a step relation, \<open>WalletProperties\<close> and \<open>WalletFaults\<close> state the
    results, \<open>Scenario\<close> the concrete service of their witnesses.
  \<^item> \<open>Chunks\<close> (\<open>common/chunk.go\<close>), \<open>TransactionService\<close> (\<open>services/transaction_service.go\<close>, \<open>private_func.go\<close>,
    the answers of \<open>http/v1/transaction\<close>): direct transactions.  \<open>TransactionBook\<close> is the abstract book they keep,
    \<open>TransactionRefinement\<close> the simulation, \<open>TransactionProperties\<close>, \<open>TransactionFaults\<close>, \<open>BulkTransactions\<close>,
    \<open>TransactionScenario\<close> the results and the instances.
  \<^item> \<open>MoneyFlow\<close> (\<open>repositories/sql_money_flow_calc.go\<close>, \<open>models/money_flow_calc.go\<close>), \<open>MoneyFlowService\<close>
    (\<open>services/money_flow_calc_service.go\<close>, \<open>money_flow_processor.go\<close>, \<open>money_flow_business_rules.go\<close> and both
    consumers), \<open>MoneyFlowProperties\<close> (histories), \<open>MoneyFlowOutcomes\<close> (single messages), \<open>MoneyFlowScenario\<close>.
  \<^item> \<open>Cursors\<close> (Base64, RFC 3339 and numbers of the Go library, with their round trips), \<open>Pagination\<close>
    (\<open>common/pagination\<close>, \<open>common/http/new_pagination.go\<close>; the locale \<open>cursor_listing\<close> is what a list endpoint promises of
    its pages), and its interpretations: \<open>WalletListing\<close> (\<open>models/internal_wallet.go\<close>, \<open>http/v1/internal_wallet\<close>),
    \<open>TransactionListing\<close> (\<open>models/transaction_list.go\<close>, \<open>sql_transaction_query.go\<close>), \<open>SummaryListing\<close> and
    \<open>DetailListing\<close> (\<open>models/money_flow_summary_helper.go\<close>, \<open>sql_money_flow_query_builder.go\<close>).  \<open>ListingProperties\<close>
    has the results.
  \<^item> \<open>Accounts\<close> (\<open>repositories/sql_account.go\<close>, \<open>sql_feature.go\<close>, \<open>services/account_service.go\<close>,
    \<open>wallet_account_service.go\<close>): the whole rows of the tables \<open>account\<close> and \<open>feature\<close>, and \<open>balanceTables\<close>, what
    \<open>Database\<close> sees of them.  \<open>AccountRequests\<close> (\<open>models/account_new.go\<close>, \<open>models/wallet.go\<close>, \<open>http/v1/account\<close>,
    \<open>consumer/account_mutation\<close>): what reaches them.  \<open>AccountListing\<close> (\<open>sql_account_query.go\<close>): the list of accounts and
    their total balance.  \<open>AccountProperties\<close> and \<open>AccountListingProperties\<close> have the results.
  \<^item> \<open>CsvFiles\<close> (Go's \<open>encoding/csv\<close> and paths, with their round trips, and \<open>models/gcs.go\<close>), \<open>Recon\<close>
    (\<open>services/recon_service.go\<close>, \<open>recon_service_process_task.go\<close>, \<open>models/recon.go\<close>, \<open>common/local_storage\<close>,
    \<open>consumer/task_queue_recon\<close>), \<open>ReconProperties\<close>: an uploaded file against the ledger of a day.
    \<open>DailyRecon\<close> (\<open>recon_service.go\<close>, \<open>sql_account_balance_daily.go\<close>, \<open>consumer/kafka_recon\<close>),
    \<open>DailyReconProperties\<close>: the balances of a day against the orders since the day before.
  \<^item> \<open>DeadLetters\<close> (\<open>services/dlq_processor_service.go\<close>, \<open>consumer/dlq_retrier\<close>, \<open>consumer/dlq_notification\<close>,
    \<open>common/queueunicorn\<close>, \<open>common/http/middleware\<close>), \<open>DeadLetterProperties\<close>: from a message that failed to the
    deliveries of its retry.
  \<^item> \<open>WalletFiles\<close> (\<open>services/file_service.go\<close>, \<open>file_wallet_transaction.go\<close>, \<open>repositories/file.go\<close>),
    \<open>WalletFileProperties\<close>: files of wallet transactions, each row of which is booked or given back.

  \<^bold>\<open>What the lemmas show.\<close>  Balances: every guard, conservation of money by each flow, hold and release round trips,
  the history invariant.  Wallet service: an account's balance plus what messages owe it moves with the ledger over
  any history, calls are whole or nothing, each transaction settles once, messages are applied once.  Transformers: sums,
  shape, metadata frame; a reversal mirrors the stored rows of its reference, and the refunds of a QRIS payment stay within
  it.  Direct service: refinement of the book, double entry, what a row keeps, every hold can be settled.  Money flow: the books and the transitions of the summaries, what a notification records.  Lists: following
  the cursors visits every row once and ends, and leads back.  Accounts: their administration moves no money, over any
  history and whatever fails, and keeps the total that is reported.  Reconciliation: the report is the comparison of two
  multisets, and an upload leads to one; the daily comparison reports the differences and nothing else.  Dead letters:
  retries are counted exactly, and an account that could not be stored is created by a later one.  Files: an upload keeps
  balances and ledger in step, and one that ends without an error has booked or refused each row, and given the refused ones
  back unless the mail fails.  The
  \<^emph>\<open>error\<close> lemmas state where the code does otherwise: messages or notifications that outlive a rollback, a check and a
  settlement that are not one transaction, requests that are queued again, rows in bulk without a hold, notifications
  dropped after an ineligible row, a late event that reopens a summary, a list that skips rows of one date, a feature update
  that locks its account, a migration that deletes a balance, a reconciliation of an old day that finds nothing, a
  difference that is lost, a retry that cannot change what exists.
\<close>

text \<open>
  \<^bold>\<open>Abstractions and hypotheses.\<close>
  \<^item> Amounts are an ordered integral domain (or a commutative monoid for money flow): the decimal library is exact on
    the sums used; rounding to the column type \<open>numeric(23,8)\<close> is left out.  Products and divisions of the tax rules
    are over a field.
  \<^item> Go maps are HOL maps and every iteration takes the order as an argument with the hypothesis that it visits each
    entry (\<open>visitsAll\<close>, \<open>visitsMaps\<close>); libraries and clients (uuid, JSON, decimal parsing, the accounting
    and entity clients, the feature flags) are functions of the environment of a call.  Hypotheses on them are named:
    \<open>serves\<close> (a configuration and its account tables agree), \<open>driverErrors\<close> (the database reports faults with errors that
    the code does not treat as a value), \<open>healthy\<close> and \<open>flowHealthy\<close> (no fault occurs), \<open>unusedFrom\<close> (fresh uuids),
    \<open>namedAmounts\<close> and \<open>mfSupported\<close> (ids that have no row yet; the amount a notification states), \<open>ofDatabase\<close> and
    \<open>refundsPayment\<close> (the lists are of the stored rows; a refund names its payment).  Each has a witness.
  \<^item> A row is identified by its \<open>transactionId\<close>, the serial primary key is left out; row locks are left out, so that
    concurrency is interleaving of whole database transactions; the unique partial index of the summaries is taken from
    the conflict clause of their upsert; the key of the cache does not expire.
  \<^item> A fault is chosen per call and may happen at every statement, commit and publication.  A panic inside a
    database transaction is an error after the rollback, as in \<open>Atomic\<close>.
  \<^item> \<open>chunkLoop\<close> is a \<open>partial_function\<close>: its termination is a property.  \<open>storeChunks\<close> is structural on the chunks;
    the calendar search \<open>monthAndDay\<close> has a fuel of 11, one for each month after the first.  Every other recursion
    is structural on the data.
\<close>

text \<open>
  \<^bold>\<open>Not modelled.\<close>  Uploads of orders, which are only published.  Reading only: CSV downloads, the daily report and its files, repayment summaries,
  balance histories.  Transport: routing, middleware, consumer start-up, metrics, logs, configuration, cloud storage and
  client wrappers, which only call libraries.  Left out: the account configuration tables, categories, entities and master
  data.  The generated error table and batch SQL over whole tables have no logic of their own.
\<close>

end
